(* ===== verification/Prelude.thy ===== *)
theory Prelude
  imports Main "HOL-Library.AList" "HOL-Library.Char_ord" "HOL-Library.List_Lexorder"
    "HOL-Library.Product_Lexorder" "HOL-Library.Multiset"
begin

text \<open>
  Shared vocabulary of the development: Python dictionaries as insertion-ordered association
  lists, Python's list slicing, stable sorting and string trimming, JSON values, the
  standard-library services the model takes as given (SHA-256 and the two ISO-8601
  conversions) and the lemma collections the component theories feed.
\<close>

named_theorems dict_simps "laws of the dictionary operations"
named_theorems cmd_defs "definitions of the command layer, for case-split proofs"

subsection \<open>Dictionaries\<close>

text \<open>
  A Python dictionary keeps its keys in insertion order and overwrites in place, which is
  what \<open>AList.update\<close> does on an association list.  \<open>dict_get\<close> is \<open>d.get(k)\<close>,
  \<open>dict_set k v d\<close> is \<open>d[k] = v\<close>, \<open>dict_values\<close> is \<open>list(d.values())\<close>.
  \<open>dict_list\<close> is \<open>d.get(k, [])\<close> and \<open>dict_push\<close> is
  \<open>d.setdefault(k, []).append(x)\<close> for dictionaries of lists.
\<close>

type_synonym ('k, 'v) dict = "('k \<times> 'v) list"

abbreviation dict_get :: "('k, 'v) dict \<Rightarrow> 'k \<Rightarrow> 'v option" where
  "dict_get d k \<equiv> map_of d k"

abbreviation dict_set :: "'k \<Rightarrow> 'v \<Rightarrow> ('k, 'v) dict \<Rightarrow> ('k, 'v) dict" where
  "dict_set k v d \<equiv> AList.update k v d"

definition dict_values :: "('k, 'v) dict \<Rightarrow> 'v list" where
  "dict_values d = map snd d"

definition dict_wf :: "('k, 'v) dict \<Rightarrow> bool" where
  "dict_wf d \<longleftrightarrow> distinct (map fst d)"

definition dict_list :: "('k, 'v list) dict \<Rightarrow> 'k \<Rightarrow> 'v list" where
  "dict_list d k = (case dict_get d k of None \<Rightarrow> [] | Some xs \<Rightarrow> xs)"

definition dict_push :: "'k \<Rightarrow> 'v \<Rightarrow> ('k, 'v list) dict \<Rightarrow> ('k, 'v list) dict" where
  "dict_push k x d = dict_set k (dict_list d k @ [x]) d"

definition dict_has :: "('k, 'v) dict \<Rightarrow> 'k \<Rightarrow> bool" where
  "dict_has d k = (dict_get d k \<noteq> None)"

definition dict_setdefault :: "'k \<Rightarrow> 'v \<Rightarrow> ('k, 'v) dict \<Rightarrow> ('k, 'v) dict" where
  "dict_setdefault k v d = (if dict_has d k then d else dict_set k v d)"

lemma dict_get_set [simp, dict_simps]:
  "dict_get (dict_set k v d) k' = (if k' = k then Some v else dict_get d k')"
  by (simp add: update_conv)

lemma dict_wf_Nil [simp]: "dict_wf []"
  by (simp add: dict_wf_def)

lemma dict_wf_set [simp]: "dict_wf d \<Longrightarrow> dict_wf (dict_set k v d)"
  by (simp add: dict_wf_def distinct_update)

lemma dict_list_Nil [simp]: "dict_list [] k = []"
  by (simp add: dict_list_def)

lemma dict_list_push [simp, dict_simps]:
  "dict_list (dict_push k x d) k' = (if k' = k then dict_list d k @ [x] else dict_list d k')"
  by (simp add: dict_list_def dict_push_def)

lemma in_dict_list_iff: "x \<in> set (dict_list d k) \<longleftrightarrow> (\<exists>v. dict_get d k = Some v \<and> x \<in> set v)"
  by (cases "dict_get d k") (simp_all add: dict_list_def)

lemma dict_wf_push [simp]: "dict_wf d \<Longrightarrow> dict_wf (dict_push k x d)"
  by (simp add: dict_push_def)

lemma dict_get_setdefault [simp, dict_simps]:
  "dict_get (dict_setdefault k v d) k' =
     (if k' = k \<and> dict_get d k = None then Some v else dict_get d k')"
  by (auto simp: dict_setdefault_def dict_has_def)

lemma dict_wf_setdefault [simp]: "dict_wf d \<Longrightarrow> dict_wf (dict_setdefault k v d)"
  by (simp add: dict_setdefault_def)

lemma set_dict_values_subset: "dict_get d k = Some v \<Longrightarrow> v \<in> set (dict_values d)"
  by (force simp: dict_values_def dest: map_of_SomeD)

lemma in_dict_values_iff:
  "dict_wf d \<Longrightarrow> v \<in> set (dict_values d) \<longleftrightarrow> (\<exists>k. dict_get d k = Some v)"
  by (force simp: dict_values_def dict_wf_def image_iff)

lemma dict_values_set_mono:
  "v' \<in> set (dict_values (dict_set k v d)) \<Longrightarrow> v' = v \<or> v' \<in> set (dict_values d)"
  by (induction d) (auto simp: dict_values_def split: if_splits)

subsection \<open>Slices, stable sorting and trimming\<close>

text \<open>
  \<open>xs[:n]\<close>: a negative bound counts from the end.  \<open>sorted(xs, key=f, reverse=True)\<close>
  keeps equal elements in their original order, hence the two reversals.
\<close>

definition py_take :: "int \<Rightarrow> 'a list \<Rightarrow> 'a list" where
  "py_take n xs = (if 0 \<le> n then take (nat n) xs else take (nat (int (length xs) + n)) xs)"

definition py_sorted_reverse :: "('a \<Rightarrow> 'k::linorder) \<Rightarrow> 'a list \<Rightarrow> 'a list" where
  "py_sorted_reverse f xs = rev (sort_key f (rev xs))"

lemma set_py_sorted_reverse [simp]: "set (py_sorted_reverse f xs) = set xs"
  by (simp add: py_sorted_reverse_def)

lemma mset_py_sorted_reverse [simp]: "mset (py_sorted_reverse f xs) = mset xs"
  by (simp add: py_sorted_reverse_def)

lemma distinct_map_mset_cong:
  "mset xs = mset ys \<Longrightarrow> distinct (map f xs) = distinct (map f ys)"
  by (metis mset_eq_imp_distinct_iff mset_map)

definition py_is_space :: "char \<Rightarrow> bool" where
  "py_is_space c = (let n = (of_char c :: nat)
     in (9 \<le> n \<and> n \<le> 13) \<or> (28 \<le> n \<and> n \<le> 32) \<or> n = 133 \<or> n = 160)"

definition py_strip :: "string \<Rightarrow> string" where
  "py_strip s = rev (dropWhile py_is_space (rev (dropWhile py_is_space s)))"

definition py_printable_char :: "char \<Rightarrow> bool" where
  "py_printable_char c = (let n = (of_char c :: nat)
     in (32 \<le> n \<and> n \<le> 126) \<or> (161 \<le> n \<and> n \<noteq> 173))"

definition py_isprintable :: "string \<Rightarrow> bool" where
  "py_isprintable s = list_all py_printable_char s"

lemma dropWhile_idem: "dropWhile P (dropWhile P xs) = dropWhile P xs"
  by (induction xs) auto

lemma hd_strip_left: "dropWhile P xs \<noteq> [] \<Longrightarrow> \<not> P (hd (dropWhile P xs))"
  by (rule hd_dropWhile)

lemma dropWhile_rev_keeps_head:
  assumes "ys \<noteq> []" and "\<not> P (hd ys)"
  shows "dropWhile P (rev (dropWhile P (rev ys))) = rev (dropWhile P (rev ys))"
proof -
  obtain y zs where ys: "ys = y # zs" and "\<not> P y"
    using assms by (cases ys) auto
  have "\<exists>ws. dropWhile P (rev zs @ [y]) = ws @ [y]"
    using \<open>\<not> P y\<close> by (induction zs rule: rev_induct) auto
  then obtain ws where "dropWhile P (rev ys) = ws @ [y]"
    using ys by auto
  with \<open>\<not> P y\<close> show ?thesis by simp
qed

lemma dropWhile_rev_fixpoint:
  assumes "dropWhile P ys = ys"
  shows "dropWhile P (rev (dropWhile P (rev ys))) = rev (dropWhile P (rev ys))"
proof (cases ys)
  case (Cons y zs)
  with assms have "\<not> P y" by (metis dropWhile_eq_self_iff list.distinct(1) list.sel(1))
  with Cons show ?thesis by (intro dropWhile_rev_keeps_head) auto
qed simp

lemma py_strip_idem [simp]: "py_strip (py_strip s) = py_strip s"
proof -
  let ?w = "rev (dropWhile py_is_space (rev (dropWhile py_is_space s)))"
  have "dropWhile py_is_space ?w = ?w"
    by (rule dropWhile_rev_fixpoint) (rule dropWhile_idem)
  then have "py_strip ?w = rev (dropWhile py_is_space (rev ?w))"
    by (simp only: py_strip_def)
  also have "\<dots> = ?w"
    by (simp only: rev_rev_ident dropWhile_idem)
  finally show ?thesis by (simp only: py_strip_def)
qed

subsection \<open>JSON values and the runtime services\<close>

text \<open>
  \<open>Any\<close>-typed payloads are JSON values; objects keep their key order, as Python's do.
  Decimals travel as strings (Pydantic's JSON mode), so only integers are numbers here.
\<close>

datatype json =
    JNull
  | JBool bool
  | JInt int
  | JStr string
  | JList "json list"
  | JObj "(string \<times> json) list"

type_synonym jobject = "(string, json) dict"

definition json_opt :: "('a \<Rightarrow> json) \<Rightarrow> 'a option \<Rightarrow> json" where
  "json_opt f x = (case x of None \<Rightarrow> JNull | Some v \<Rightarrow> f v)"

text \<open>
  Timestamps are microseconds since the epoch, in UTC.  Three standard-library services are
  arguments of the model: the SHA-256 hex digest, \<open>datetime.isoformat\<close> and
  \<open>datetime.fromisoformat\<close> (\<open>None\<close> where Python raises \<open>ValueError\<close>).
  No law about them is assumed.
\<close>

type_synonym datetime = int

record runtime =
  rt_sha256 :: "string \<Rightarrow> string"
  rt_isoformat :: "datetime \<Rightarrow> string"
  rt_fromisoformat :: "string \<Rightarrow> datetime option"

definition seconds :: "int \<Rightarrow> datetime" where
  "seconds n = n * 1000000"

subsection \<open>Lists and sums\<close>

fun find_first :: "('a \<Rightarrow> bool) \<Rightarrow> 'a list \<Rightarrow> 'a option" where
  "find_first P [] = None"
| "find_first P (x # xs) = (if P x then Some x else find_first P xs)"

lemma find_first_Some_iff:
  "(\<exists>x. find_first P xs = Some x) \<longleftrightarrow> (\<exists>x\<in>set xs. P x)"
  by (induction xs) auto

lemma find_first_SomeD: "find_first P xs = Some x \<Longrightarrow> P x \<and> x \<in> set xs"
  by (induction xs) (auto split: if_splits)

lemma find_first_None_iff: "find_first P xs = None \<longleftrightarrow> (\<forall>x\<in>set xs. \<not> P x)"
  by (induction xs) auto

definition lift_error :: "('e \<Rightarrow> 'f) \<Rightarrow> 'e + 'a \<Rightarrow> 'f + 'a" where
  "lift_error f r = (case r of Inl e \<Rightarrow> Inl (f e) | Inr x \<Rightarrow> Inr x)"

lemma lift_error_simps [simp]:
  "lift_error f (Inl e) = Inl (f e)"
  "lift_error f (Inr x) = Inr x"
  by (simp_all add: lift_error_def)

lemma lift_error_Inr_iff [simp]: "lift_error f r = Inr x \<longleftrightarrow> r = Inr x"
  by (cases r) simp_all

subsection \<open>Errors threaded through lists\<close>

definition bind_error :: "'e + 'a \<Rightarrow> ('a \<Rightarrow> 'e + 'b) \<Rightarrow> 'e + 'b" where
  "bind_error r f = (case r of Inl e \<Rightarrow> Inl e | Inr x \<Rightarrow> f x)"

lemma bind_error_simps [simp]:
  "bind_error (Inl e) f = Inl e"
  "bind_error (Inr x) f = f x"
  by (simp_all add: bind_error_def)

lemma bind_error_Inr_iff: "bind_error r f = Inr y \<longleftrightarrow> (\<exists>x. r = Inr x \<and> f x = Inr y)"
  by (cases r) simp_all

lemma bind_error_split:
  "P (bind_error r f) \<longleftrightarrow> (\<forall>e. r = Inl e \<longrightarrow> P (Inl e)) \<and> (\<forall>x. r = Inr x \<longrightarrow> P (f x))"
  by (cases r) simp_all

primrec fold_error :: "('a \<Rightarrow> 's \<Rightarrow> 'e + 's) \<Rightarrow> 'a list \<Rightarrow> 's \<Rightarrow> 'e + 's" where
  "fold_error f [] s = Inr s"
| "fold_error f (x # xs) s = bind_error (f x s) (fold_error f xs)"

lemma fold_error_invariant:
  assumes "fold_error f xs s = Inr s'" and "P s"
    and "\<And>x s s'. x \<in> set xs \<Longrightarrow> f x s = Inr s' \<Longrightarrow> P s \<Longrightarrow> P s'"
  shows "P s'"
  using assms
proof (induction xs arbitrary: s)
  case (Cons x xs)
  then obtain t where "f x s = Inr t" and "fold_error f xs t = Inr s'"
    by (auto simp: bind_error_Inr_iff)
  with Cons show ?case by (metis list.set_intros)
qed simp

lemma fold_error_append:
  "fold_error f (xs @ ys) s = bind_error (fold_error f xs s) (fold_error f ys)"
  by (induction xs arbitrary: s) (auto split: bind_error_split)

end
