(* ===== verification/Canonical.thy ===== *)
theory Canonical
  imports Prelude
begin

text \<open>
  Canonical JSON and payload hashing (\<open>src/core/common/canonical.py\<close>):
  \<open>json.dumps(payload, sort_keys=True, separators=(",", ":"))\<close>, the prefixed SHA-256 of
  its text, and the recursive removal of keys that must not influence a hash.
\<close>

subsection \<open>Rendering\<close>

fun string_of_nat :: "nat \<Rightarrow> string" where
  "string_of_nat n =
     (if n < 10 then [char_of (48 + n)] else string_of_nat (n div 10) @ [char_of (48 + n mod 10)])"

declare string_of_nat.simps [simp del]

definition string_of_int :: "int \<Rightarrow> string" where
  "string_of_int i = (if i < 0 then ''-'' @ string_of_nat (nat (- i)) else string_of_nat (nat i))"

definition hex_digit :: "nat \<Rightarrow> char" where
  "hex_digit n = (if n < 10 then char_of (48 + n) else char_of (87 + n))"

definition json_escape_char :: "char \<Rightarrow> string" where
  "json_escape_char c = (let n = (of_char c :: nat) in
     if n = 34 then [CHR 0x5C, CHR 0x22]
     else if n = 92 then [CHR 0x5C, CHR 0x5C]
     else if n = 8 then [CHR 0x5C, CHR ''b'']
     else if n = 12 then [CHR 0x5C, CHR ''f'']
     else if n = 10 then [CHR 0x5C, CHR ''n'']
     else if n = 13 then [CHR 0x5C, CHR ''r'']
     else if n = 9 then [CHR 0x5C, CHR ''t'']
     else if 32 \<le> n \<and> n \<le> 126 then [c]
     else [CHR 0x5C, CHR ''u'', CHR ''0'', CHR ''0'', hex_digit (n div 16), hex_digit (n mod 16)])"

definition json_string :: "string \<Rightarrow> string" where
  "json_string s = [CHR 0x22] @ concat (map json_escape_char s) @ [CHR 0x22]"

fun join :: "string \<Rightarrow> string list \<Rightarrow> string" where
  "join sep [] = []"
| "join sep [x] = x"
| "join sep (x # y # ys) = x @ sep @ join sep (y # ys)"

primrec canonical_json :: "json \<Rightarrow> string" where
  "canonical_json JNull = ''null''"
| "canonical_json (JBool b) = (if b then ''true'' else ''false'')"
| "canonical_json (JInt i) = string_of_int i"
| "canonical_json (JStr s) = json_string s"
| "canonical_json (JList xs) = ''['' @ join '','' (map canonical_json xs) @ '']''"
| "canonical_json (JObj kvs) =
     ''{'' @ join '','' (map (\<lambda>(k, v). json_string k @ '':'' @ v)
        (sort_key fst (map (map_prod id canonical_json) kvs))) @ ''}''"

definition hash_canonical_payload :: "runtime \<Rightarrow> json \<Rightarrow> string" where
  "hash_canonical_payload rt payload = ''sha256:'' @ rt_sha256 rt (canonical_json payload)"

subsection \<open>Removing keys\<close>

text \<open>
  Python filters the keys while it recurses; filtering after the recursive map gives the same
  list and keeps the recursion primitive.
\<close>

primrec strip_keys :: "string set \<Rightarrow> json \<Rightarrow> json" where
  "strip_keys ex JNull = JNull"
| "strip_keys ex (JBool b) = JBool b"
| "strip_keys ex (JInt i) = JInt i"
| "strip_keys ex (JStr s) = JStr s"
| "strip_keys ex (JList xs) = JList (map (strip_keys ex) xs)"
| "strip_keys ex (JObj kvs) =
     JObj (filter (\<lambda>kv. fst kv \<notin> ex) (map (map_prod id (strip_keys ex)) kvs))"

primrec json_keys :: "json \<Rightarrow> string set" where
  "json_keys JNull = {}"
| "json_keys (JBool b) = {}"
| "json_keys (JInt i) = {}"
| "json_keys (JStr s) = {}"
| "json_keys (JList xs) = \<Union> (set (map json_keys xs))"
| "json_keys (JObj kvs) =
     \<Union> (set (map (\<lambda>kv. insert (fst kv) (snd kv)) (map (map_prod id json_keys) kvs)))"

lemma json_keys_JObj: "json_keys (JObj kvs) = (\<Union>(k, v)\<in>set kvs. insert k (json_keys v))"
  by (auto simp: map_prod_def)

lemma json_keys_JList: "json_keys (JList xs) = (\<Union>x\<in>set xs. json_keys x)"
  by simp

lemma set_strip_keys_items:
  "set (filter (\<lambda>kv. fst kv \<notin> ex) (map (map_prod id (strip_keys ex)) kvs)) =
     {(k, strip_keys ex v) | k v. (k, v) \<in> set kvs \<and> k \<notin> ex}"
  by (force simp: map_prod_def)

lemma json_keys_strip_keys: "json_keys (strip_keys ex j) \<subseteq> json_keys j - ex"
proof (induction j)
  case (JList xs)
  then show ?case by (fastforce simp: json_keys_JList simp del: json_keys.simps)
next
  case (JObj kvs)
  show ?case
  proof
    fix a assume "a \<in> json_keys (strip_keys ex (JObj kvs))"
    then obtain k v where kv: "(k, v) \<in> set kvs" "k \<notin> ex"
      and a: "a \<in> insert k (json_keys (strip_keys ex v))"
      unfolding strip_keys.simps json_keys_JObj set_strip_keys_items by blast
    have "json_keys (strip_keys ex v) \<subseteq> json_keys v - ex"
      by (rule JObj.IH [of "(k, v)" v]) (use kv in auto)
    with a kv show "a \<in> json_keys (JObj kvs) - ex"
      unfolding json_keys_JObj by blast
  qed
qed auto

lemma strip_keys_disjoint: "json_keys j \<inter> ex = {} \<Longrightarrow> strip_keys ex j = j"
proof (induction j)
  case (JList xs)
  then have "strip_keys ex x = x" if "x \<in> set xs" for x
    using that by (intro JList.IH) auto
  then show ?case by (simp add: map_idI)
next
  case (JObj kvs)
  have *: "k \<notin> ex \<and> strip_keys ex v = v" if kv: "(k, v) \<in> set kvs" for k v
  proof -
    have "k \<notin> ex" and "json_keys v \<inter> ex = {}"
      using JObj.prems kv unfolding json_keys_JObj by blast+
    then show ?thesis using JObj.IH [of "(k, v)" v] kv by simp
  qed
  then have "map (map_prod id (strip_keys ex)) kvs = kvs"
    by (auto intro!: map_idI)
  moreover have "filter (\<lambda>kv. fst kv \<notin> ex) kvs = kvs"
    using * by (auto intro!: filter_True)
  ultimately show ?case by simp
qed auto

lemma strip_keys_idem: "strip_keys ex (strip_keys ex j) = strip_keys ex j"
  by (rule strip_keys_disjoint) (use json_keys_strip_keys in blast)

subsection \<open>Key order does not matter\<close>

lemma sort_key_fst_perm:
  fixes xs ys :: "('k::linorder \<times> 'v) list"
  assumes "mset xs = mset ys" and "distinct (map fst xs)"
  shows "sort_key fst xs = sort_key fst ys"
proof -
  have "inj_on fst (set xs)"
    using assms(2) by (simp add: distinct_map)
  then show ?thesis
    using assms(1) by (intro sort_key_inj_key_eq) simp_all
qed

lemma canonical_json_perm:
  assumes "mset kvs = mset kvs'" and "distinct (map fst kvs)"
  shows "canonical_json (JObj kvs) = canonical_json (JObj kvs')"
proof -
  let ?f = "map (map_prod id canonical_json)"
  have "mset (?f kvs) = mset (?f kvs')"
    using assms(1) by (metis mset_map)
  moreover have "distinct (map fst (?f kvs))"
    using assms(2) by (simp add: comp_def)
  ultimately have "sort_key fst (?f kvs) = sort_key fst (?f kvs')"
    by (rule sort_key_fst_perm)
  then show ?thesis by simp
qed


subsection \<open>Python's view of JSON values\<close>

text \<open>
  \<open>d.get(k)\<close> with a missing key and a JSON \<open>null\<close> both give \<open>None\<close>; \<open>bool(x)\<close>;
  \<open>str(x)\<close>, which for containers is \<open>repr\<close> with Python's choice of quotes; and the
  comprehension \<open>{k: v for k, v in d.items() if v is not None}\<close>.
\<close>

definition json_get :: "jobject \<Rightarrow> string \<Rightarrow> json" where
  "json_get d k = (case dict_get d k of None \<Rightarrow> JNull | Some v \<Rightarrow> v)"

primrec json_truthy :: "json \<Rightarrow> bool" where
  "json_truthy JNull = False"
| "json_truthy (JBool b) = b"
| "json_truthy (JInt i) = (i \<noteq> 0)"
| "json_truthy (JStr s) = (s \<noteq> [])"
| "json_truthy (JList xs) = (xs \<noteq> [])"
| "json_truthy (JObj kvs) = (kvs \<noteq> [])"

definition py_repr_char :: "char \<Rightarrow> char \<Rightarrow> string" where
  "py_repr_char quote c = (let n = (of_char c :: nat) in
     if c = quote \<or> n = 92 then [CHR 0x5C, c]
     else if n = 9 then [CHR 0x5C, CHR ''t'']
     else if n = 10 then [CHR 0x5C, CHR ''n'']
     else if n = 13 then [CHR 0x5C, CHR ''r'']
     else if py_printable_char c then [c]
     else [CHR 0x5C, CHR ''x'', hex_digit (n div 16), hex_digit (n mod 16)])"

definition py_repr_string :: "string \<Rightarrow> string" where
  "py_repr_string s =
     (let quote = (if CHR 0x27 \<in> set s \<and> CHR 0x22 \<notin> set s then CHR 0x22 else CHR 0x27)
      in [quote] @ concat (map (py_repr_char quote) s) @ [quote])"

primrec py_repr :: "json \<Rightarrow> string" where
  "py_repr JNull = ''None''"
| "py_repr (JBool b) = (if b then ''True'' else ''False'')"
| "py_repr (JInt i) = string_of_int i"
| "py_repr (JStr s) = py_repr_string s"
| "py_repr (JList xs) = ''['' @ join '', '' (map py_repr xs) @ '']''"
| "py_repr (JObj kvs) =
     ''{'' @ join '', '' (map (\<lambda>(k, v). py_repr_string k @ '': '' @ v)
        (map (map_prod id py_repr) kvs)) @ ''}''"

definition py_str :: "json \<Rightarrow> string" where
  "py_str j = (case j of JStr s \<Rightarrow> s | _ \<Rightarrow> py_repr j)"

text \<open>
  \<open>str.upper\<close> on Latin-1 letters; the two whose capital lies outside Latin-1 stay as they are,
  which cannot make a string equal to an ASCII name.
\<close>

definition py_upper_char :: "char \<Rightarrow> string" where
  "py_upper_char c = (let n = (of_char c :: nat) in
     if (97 \<le> n \<and> n \<le> 122) \<or> (224 \<le> n \<and> n \<le> 254 \<and> n \<noteq> 247) then [char_of (n - 32)]
     else if n = 223 then ''SS''
     else [c])"

definition py_upper :: "string \<Rightarrow> string" where
  "py_upper s = concat (map py_upper_char s)"

text \<open>\<open>str.lower\<close> on Latin-1 letters.\<close>

definition py_lower :: "string \<Rightarrow> string" where
  "py_lower s = map (\<lambda>c. let n = (of_char c :: nat) in
     if (65 \<le> n \<and> n \<le> 90) \<or> (192 \<le> n \<and> n \<le> 222 \<and> n \<noteq> 215) then char_of (n + 32) else c) s"

definition drop_none :: "jobject \<Rightarrow> jobject" where
  "drop_none d = filter (\<lambda>kv. snd kv \<noteq> JNull) d"

lemma json_get_set [simp]: "json_get (dict_set k v d) k' = (if k' = k then v else json_get d k')"
  by (simp add: json_get_def)

lemma dict_get_drop_none:
  "distinct (map fst d) \<Longrightarrow>
     dict_get (drop_none d) k = (case dict_get d k of Some JNull \<Rightarrow> None | r \<Rightarrow> r)"
proof (induction d)
  case (Cons kv d)
  then show ?case
    by (cases kv) (auto simp: drop_none_def map_of_eq_None_iff [symmetric]
        split: option.splits json.splits dest: weak_map_of_SomeI)
qed (simp add: drop_none_def)

lemma json_get_drop_none [simp]:
  "distinct (map fst d) \<Longrightarrow> json_get (drop_none d) k = json_get d k"
  by (simp add: json_get_def dict_get_drop_none split: option.splits json.splits)

lemma fst_drop_none_subset: "fst ` set (drop_none d) \<subseteq> fst ` set d"
  by (auto simp: drop_none_def)

subsection \<open>Numbers in identifiers\<close>

text \<open>Reading the digits back shows that distinct numbers print differently.\<close>

definition nat_of_string :: "string \<Rightarrow> nat" where
  "nat_of_string s = foldl (\<lambda>a c. a * 10 + (of_char c - 48)) 0 s"

lemma nat_of_string_of_nat [simp]: "nat_of_string (string_of_nat n) = n"
proof (induction n rule: string_of_nat.induct)
  case (1 n)
  have digit: "of_char (char_of (48 + k) :: char) - 48 = (k :: nat)" if "k < 10" for k
    using that by (simp add: of_char_of)
  show ?case
  proof (cases "n < 10")
    case True
    then show ?thesis by (simp add: string_of_nat.simps [of n] nat_of_string_def digit)
  next
    case False
    with 1 have "nat_of_string (string_of_nat (n div 10)) = n div 10" by simp
    with False show ?thesis
      by (simp add: string_of_nat.simps [of n] nat_of_string_def digit)
  qed
qed

lemma string_of_nat_inject [simp]: "string_of_nat m = string_of_nat n \<longleftrightarrow> m = n"
  by (metis nat_of_string_of_nat)

lemma string_of_nat_digits: "set (string_of_nat n) \<subseteq> set ''0123456789''"
proof (induction n rule: string_of_nat.induct)
  case (1 n)
  have "list_all (\<lambda>k :: nat. char_of (48 + k) \<in> set ''0123456789'') [0..<10]" by code_simp
  then have digit: "char_of (48 + k) \<in> set ''0123456789''" if "k < 10" for k :: nat
    using that by (auto simp only: list_all_iff set_upt atLeastLessThan_iff)
  define D where "D = set ''0123456789''"
  show ?case
    using 1 digit [of n] digit [of "n mod 10"]
    unfolding D_def [symmetric] by (cases "n < 10") (simp_all add: string_of_nat.simps [of n])
qed

lemma string_of_nat_nonempty [simp]: "string_of_nat n \<noteq> []"
  by (subst string_of_nat.simps) simp

lemma string_of_nat_not_letter:
  assumes "c \<notin> set ''0123456789''" shows "string_of_nat n \<noteq> c # s"
  using string_of_nat_digits [of n] assms by (metis list.set_intros(1) subset_code(1))

subsection \<open>Padded counters\<close>

text \<open>Python's \<open>f"{n:06d}"\<close>.\<close>

definition six_digits :: "nat \<Rightarrow> string" where
  "six_digits n = (let s = string_of_nat n in replicate (6 - length s) CHR ''0'' @ s)"

lemma foldl_digits: "foldl (\<lambda>a c. a * 10 + (of_char c - 48)) 0 (replicate n CHR ''0'' @ s)
    = foldl (\<lambda>a c. a * 10 + (of_char c - 48 :: nat)) 0 s"
  by (induction n) simp_all

lemma six_digits_inject: "six_digits m = six_digits n \<longleftrightarrow> m = n"
proof -
  have "nat_of_string (six_digits n) = n" for n
    using nat_of_string_of_nat [of n] unfolding six_digits_def Let_def nat_of_string_def foldl_digits by simp
  then show ?thesis by metis
qed

end
