(* ===== verification/Contract_Types.thy ===== *)
theory Contract_Types
  imports Canonical
begin

text \<open>
  The closed vocabularies of the proposal domain (\<open>proposals/contract_types.py\<close>,
  \<open>idea_review_realization.py\<close>, \<open>memo_persistence_models.py\<close>), the wire
  spelling of each value, and the exception classes of the command layer
  (\<open>proposals/exceptions.py\<close> and the inner errors the commands translate).
\<close>

subsection \<open>Workflow vocabulary\<close>

datatype workflow_state =
    WS_DRAFT
  | WS_RISK_REVIEW
  | WS_COMPLIANCE_REVIEW
  | WS_AWAITING_CLIENT_CONSENT
  | WS_EXECUTION_READY
  | WS_EXECUTED
  | WS_REJECTED
  | WS_CANCELLED
  | WS_EXPIRED

datatype event_type =
    EV_CREATED
  | EV_NEW_VERSION_CREATED
  | EV_SUBMITTED_FOR_RISK_REVIEW
  | EV_RISK_APPROVED
  | EV_SUBMITTED_FOR_COMPLIANCE_REVIEW
  | EV_COMPLIANCE_APPROVED
  | EV_CLIENT_CONSENT_RECORDED
  | EV_EXECUTION_REQUESTED
  | EV_EXECUTION_ACCEPTED
  | EV_EXECUTION_PARTIALLY_EXECUTED
  | EV_EXECUTION_REJECTED
  | EV_EXECUTION_CANCELLED
  | EV_EXECUTION_EXPIRED
  | EV_NARRATIVE_REVIEWED
  | EV_REPORT_REQUESTED
  | EV_EXECUTED
  | EV_REJECTED
  | EV_EXPIRED
  | EV_CANCELLED

datatype approval_type = AP_RISK | AP_COMPLIANCE | AP_CLIENT_CONSENT

datatype creation_status = CS_READY | CS_PENDING_REVIEW | CS_BLOCKED

datatype async_type = AT_CREATE_PROPOSAL | AT_CREATE_PROPOSAL_VERSION

datatype async_status = AS_PENDING | AS_RUNNING | AS_SUCCEEDED | AS_FAILED

datatype lifecycle_origin = LO_DIRECT_CREATE | LO_WORKSPACE_HANDOFF

datatype report_type = RP_PORTFOLIO_REVIEW | RP_CLIENT_PROPOSAL_SUMMARY

datatype handoff_status =
    HS_NOT_REQUESTED
  | HS_REQUESTED
  | HS_ACCEPTED
  | HS_PARTIALLY_EXECUTED
  | HS_EXECUTED
  | HS_REJECTED
  | HS_CANCELLED
  | HS_EXPIRED

datatype update_status =
    UP_ACCEPTED
  | UP_PARTIALLY_EXECUTED
  | UP_REJECTED
  | UP_CANCELLED
  | UP_EXPIRED
  | UP_EXECUTED

datatype input_mode = IM_STATELESS | IM_STATEFUL

datatype realization_status =
    RS_ACCEPTED_FOR_REVIEW
  | RS_PROPOSAL_LINKED
  | RS_ADVISORY_REJECTED
  | RS_ADVISORY_CANCELLED
  | RS_ADVISORY_EXPIRED
  | RS_ADVISORY_COMPLETED
  | RS_REJECTED_BEFORE_WORK

datatype review_work_status = RW_PENDING_ADVISER_REVIEW | RW_PROPOSAL_LINKED | RW_CLOSED

datatype memo_lifecycle_status = ML_DRAFT | ML_FINALIZED

datatype memo_event_type =
    ME_MEMO_DRAFT_CREATED
  | ME_MEMO_FINALIZED
  | ME_MEMO_REVIEW_RECORDED
  | ME_MEMO_REPORT_PACKAGE_RECORDED
  | ME_MEMO_ARCHIVE_RECORDED
  | ME_MEMO_AI_REFERENCE_RECORDED

subsection \<open>Wire spelling\<close>

primrec workflow_state_str :: "workflow_state \<Rightarrow> string" where
  "workflow_state_str WS_DRAFT = ''DRAFT''"
| "workflow_state_str WS_RISK_REVIEW = ''RISK_REVIEW''"
| "workflow_state_str WS_COMPLIANCE_REVIEW = ''COMPLIANCE_REVIEW''"
| "workflow_state_str WS_AWAITING_CLIENT_CONSENT = ''AWAITING_CLIENT_CONSENT''"
| "workflow_state_str WS_EXECUTION_READY = ''EXECUTION_READY''"
| "workflow_state_str WS_EXECUTED = ''EXECUTED''"
| "workflow_state_str WS_REJECTED = ''REJECTED''"
| "workflow_state_str WS_CANCELLED = ''CANCELLED''"
| "workflow_state_str WS_EXPIRED = ''EXPIRED''"

primrec event_type_str :: "event_type \<Rightarrow> string" where
  "event_type_str EV_CREATED = ''CREATED''"
| "event_type_str EV_NEW_VERSION_CREATED = ''NEW_VERSION_CREATED''"
| "event_type_str EV_SUBMITTED_FOR_RISK_REVIEW = ''SUBMITTED_FOR_RISK_REVIEW''"
| "event_type_str EV_RISK_APPROVED = ''RISK_APPROVED''"
| "event_type_str EV_SUBMITTED_FOR_COMPLIANCE_REVIEW = ''SUBMITTED_FOR_COMPLIANCE_REVIEW''"
| "event_type_str EV_COMPLIANCE_APPROVED = ''COMPLIANCE_APPROVED''"
| "event_type_str EV_CLIENT_CONSENT_RECORDED = ''CLIENT_CONSENT_RECORDED''"
| "event_type_str EV_EXECUTION_REQUESTED = ''EXECUTION_REQUESTED''"
| "event_type_str EV_EXECUTION_ACCEPTED = ''EXECUTION_ACCEPTED''"
| "event_type_str EV_EXECUTION_PARTIALLY_EXECUTED = ''EXECUTION_PARTIALLY_EXECUTED''"
| "event_type_str EV_EXECUTION_REJECTED = ''EXECUTION_REJECTED''"
| "event_type_str EV_EXECUTION_CANCELLED = ''EXECUTION_CANCELLED''"
| "event_type_str EV_EXECUTION_EXPIRED = ''EXECUTION_EXPIRED''"
| "event_type_str EV_NARRATIVE_REVIEWED = ''NARRATIVE_REVIEWED''"
| "event_type_str EV_REPORT_REQUESTED = ''REPORT_REQUESTED''"
| "event_type_str EV_EXECUTED = ''EXECUTED''"
| "event_type_str EV_REJECTED = ''REJECTED''"
| "event_type_str EV_EXPIRED = ''EXPIRED''"
| "event_type_str EV_CANCELLED = ''CANCELLED''"

primrec approval_type_str :: "approval_type \<Rightarrow> string" where
  "approval_type_str AP_RISK = ''RISK''"
| "approval_type_str AP_COMPLIANCE = ''COMPLIANCE''"
| "approval_type_str AP_CLIENT_CONSENT = ''CLIENT_CONSENT''"

primrec async_type_str :: "async_type \<Rightarrow> string" where
  "async_type_str AT_CREATE_PROPOSAL = ''CREATE_PROPOSAL''"
| "async_type_str AT_CREATE_PROPOSAL_VERSION = ''CREATE_PROPOSAL_VERSION''"

primrec lifecycle_origin_str :: "lifecycle_origin \<Rightarrow> string" where
  "lifecycle_origin_str LO_DIRECT_CREATE = ''DIRECT_CREATE''"
| "lifecycle_origin_str LO_WORKSPACE_HANDOFF = ''WORKSPACE_HANDOFF''"

primrec report_type_str :: "report_type \<Rightarrow> string" where
  "report_type_str RP_PORTFOLIO_REVIEW = ''PORTFOLIO_REVIEW''"
| "report_type_str RP_CLIENT_PROPOSAL_SUMMARY = ''CLIENT_PROPOSAL_SUMMARY''"

primrec update_status_str :: "update_status \<Rightarrow> string" where
  "update_status_str UP_ACCEPTED = ''ACCEPTED''"
| "update_status_str UP_PARTIALLY_EXECUTED = ''PARTIALLY_EXECUTED''"
| "update_status_str UP_REJECTED = ''REJECTED''"
| "update_status_str UP_CANCELLED = ''CANCELLED''"
| "update_status_str UP_EXPIRED = ''EXPIRED''"
| "update_status_str UP_EXECUTED = ''EXECUTED''"

primrec input_mode_str :: "input_mode \<Rightarrow> string" where
  "input_mode_str IM_STATELESS = ''stateless''"
| "input_mode_str IM_STATEFUL = ''stateful''"

primrec realization_status_str :: "realization_status \<Rightarrow> string" where
  "realization_status_str RS_ACCEPTED_FOR_REVIEW = ''ACCEPTED_FOR_REVIEW''"
| "realization_status_str RS_PROPOSAL_LINKED = ''PROPOSAL_LINKED''"
| "realization_status_str RS_ADVISORY_REJECTED = ''ADVISORY_REJECTED''"
| "realization_status_str RS_ADVISORY_CANCELLED = ''ADVISORY_CANCELLED''"
| "realization_status_str RS_ADVISORY_EXPIRED = ''ADVISORY_EXPIRED''"
| "realization_status_str RS_ADVISORY_COMPLETED = ''ADVISORY_COMPLETED''"
| "realization_status_str RS_REJECTED_BEFORE_WORK = ''REJECTED_BEFORE_WORK''"

primrec review_work_status_str :: "review_work_status \<Rightarrow> string" where
  "review_work_status_str RW_PENDING_ADVISER_REVIEW = ''PENDING_ADVISER_REVIEW''"
| "review_work_status_str RW_PROPOSAL_LINKED = ''PROPOSAL_LINKED''"
| "review_work_status_str RW_CLOSED = ''CLOSED''"

subsection \<open>Exceptions\<close>

text \<open>
  The first six constructors are the classes of \<open>exceptions.py\<close>, which the API layer
  maps to responses; the others are raised inside a component and translated by the command
  that catches them.  Every exception carries its message.
\<close>

datatype error =
    LifecycleError string
  | NotFoundError string
  | ValidationError string
  | IdempotencyConflictError string
  | StateConflictError string
  | TransitionError string
  | WorkflowRuleError string
  | ExpectedStateError string
  | ReplayHashConflictError string
  | SimulationGateError string
  | LifecycleOriginError string
  | HandoffStateError string
  | UpdateRequestIdMismatchError string
  | UpdateProviderMismatchError string
  | UpdateTerminalStateError string
  | UpdateTimestampError string
  | VersionTerminalStateError string
  | VersionConflictError string
  | VersionPortfolioContextError string
  | NarrativeReviewError string
  | ContextResolutionError string
  | KeyError string
  | ValueError string
  | OtherException string string

primrec error_message :: "error \<Rightarrow> string" where
  "error_message (LifecycleError m) = m"
| "error_message (NotFoundError m) = m"
| "error_message (ValidationError m) = m"
| "error_message (IdempotencyConflictError m) = m"
| "error_message (StateConflictError m) = m"
| "error_message (TransitionError m) = m"
| "error_message (WorkflowRuleError m) = m"
| "error_message (ExpectedStateError m) = m"
| "error_message (ReplayHashConflictError m) = m"
| "error_message (SimulationGateError m) = m"
| "error_message (LifecycleOriginError m) = m"
| "error_message (HandoffStateError m) = m"
| "error_message (UpdateRequestIdMismatchError m) = m"
| "error_message (UpdateProviderMismatchError m) = m"
| "error_message (UpdateTerminalStateError m) = m"
| "error_message (UpdateTimestampError m) = m"
| "error_message (VersionTerminalStateError m) = m"
| "error_message (VersionConflictError m) = m"
| "error_message (VersionPortfolioContextError m) = m"
| "error_message (NarrativeReviewError m) = m"
| "error_message (ContextResolutionError m) = m"
| "error_message (KeyError m) = m"
| "error_message (ValueError m) = m"
| "error_message (OtherException cls m) = m"

text \<open>
  \<open>type(exc).__name__\<close>.  \<open>OtherException\<close> stands for exceptions of libraries and of
  services outside the repository, by class name.
\<close>

primrec error_class_name :: "error \<Rightarrow> string" where
  "error_class_name (LifecycleError m) = ''ProposalLifecycleError''"
| "error_class_name (NotFoundError m) = ''ProposalNotFoundError''"
| "error_class_name (ValidationError m) = ''ProposalValidationError''"
| "error_class_name (IdempotencyConflictError m) = ''ProposalIdempotencyConflictError''"
| "error_class_name (StateConflictError m) = ''ProposalStateConflictError''"
| "error_class_name (TransitionError m) = ''ProposalTransitionError''"
| "error_class_name (WorkflowRuleError m) = ''ProposalWorkflowRuleError''"
| "error_class_name (ExpectedStateError m) = ''ProposalExpectedStateError''"
| "error_class_name (ReplayHashConflictError m) = ''ProposalReplayHashConflictError''"
| "error_class_name (SimulationGateError m) = ''ProposalSimulationGateError''"
| "error_class_name (LifecycleOriginError m) = ''ProposalLifecycleOriginError''"
| "error_class_name (HandoffStateError m) = ''ProposalExecutionHandoffStateError''"
| "error_class_name (UpdateRequestIdMismatchError m) = ''ProposalExecutionUpdateRequestIdMismatchError''"
| "error_class_name (UpdateProviderMismatchError m) = ''ProposalExecutionUpdateProviderMismatchError''"
| "error_class_name (UpdateTerminalStateError m) = ''ProposalExecutionUpdateTerminalStateError''"
| "error_class_name (UpdateTimestampError m) = ''ProposalExecutionUpdateTimestampError''"
| "error_class_name (VersionTerminalStateError m) = ''ProposalVersionTerminalStateError''"
| "error_class_name (VersionConflictError m) = ''ProposalVersionConflictError''"
| "error_class_name (VersionPortfolioContextError m) = ''ProposalVersionPortfolioContextError''"
| "error_class_name (NarrativeReviewError m) = ''ProposalNarrativeReviewError''"
| "error_class_name (ContextResolutionError m) = ''ProposalContextResolutionError''"
| "error_class_name (KeyError m) = ''KeyError''"
| "error_class_name (ValueError m) = ''ValueError''"
| "error_class_name (OtherException cls m) = cls"

text \<open>\<open>isinstance(exc, ProposalLifecycleError)\<close>.\<close>

definition is_lifecycle_error :: "error \<Rightarrow> bool" where
  "is_lifecycle_error e = (case e of
      LifecycleError m \<Rightarrow> True
    | NotFoundError m \<Rightarrow> True
    | ValidationError m \<Rightarrow> True
    | IdempotencyConflictError m \<Rightarrow> True
    | StateConflictError m \<Rightarrow> True
    | TransitionError m \<Rightarrow> True
    | _ \<Rightarrow> False)"

text \<open>\<open>j[k]\<close>: subscripting a parsed document raises where \<open>.get\<close> gives \<open>None\<close>.\<close>

definition json_item :: "json \<Rightarrow> string \<Rightarrow> error + json" where
  "json_item j k = (case j of
      JObj d \<Rightarrow> (case dict_get d k of None \<Rightarrow> Inl (KeyError (py_repr_string k)) | Some v \<Rightarrow> Inr v)
    | _ \<Rightarrow> Inl (ValueError ''not subscriptable''))"

end
