(* ===== verification/Idempotency_Keys.thy ===== *)
theory Idempotency_Keys
  imports Contract_Types
begin

text \<open>
  Normalisation of the two client-supplied header values: idempotency keys
  (\<open>core/common/idempotency.py\<close>, \<open>proposals/idempotency_validation.py\<close>) and correlation
  ids (\<open>proposals/correlation.py\<close>).  Both trim white space and refuse empty, over-long or
  control-character values; the \<open>uuid4\<close> of a generated correlation id is an argument.
\<close>

definition max_idempotency_key_length :: nat where
  "max_idempotency_key_length = 128"

definition contains_control_character :: "string \<Rightarrow> bool" where
  "contains_control_character v = list_ex (\<lambda>c. (of_char c :: nat) < 32 \<or> (of_char c :: nat) = 127) v"

definition normalize_optional_idempotency_key :: "string option \<Rightarrow> string option" where
  "normalize_optional_idempotency_key key = (case key of
      None \<Rightarrow> None
    | Some k \<Rightarrow>
        let normalized = py_strip k in
        if normalized = [] \<or> max_idempotency_key_length < length normalized
            \<or> contains_control_character normalized
        then None else Some normalized)"

definition normalize_required_idempotency_key :: "string option \<Rightarrow> error + string" where
  "normalize_required_idempotency_key key = (case normalize_optional_idempotency_key key of
      None \<Rightarrow> Inl (ValueError ''IDEMPOTENCY_KEY_REQUIRED'')
    | Some normalized \<Rightarrow> Inr normalized)"

definition require_proposal_idempotency_key :: "string option \<Rightarrow> error + string" where
  "require_proposal_idempotency_key key = (case normalize_required_idempotency_key key of
      Inl (ValueError m) \<Rightarrow> Inl (ValidationError ''IDEMPOTENCY_KEY_REQUIRED'')
    | r \<Rightarrow> r)"

definition max_correlation_id_length :: nat where
  "max_correlation_id_length = 128"

definition correlation_contains_control_character :: "string \<Rightarrow> bool" where
  "correlation_contains_control_character v =
     list_ex (\<lambda>c. (of_char c :: nat) < 32 \<or> (of_char c :: nat) = 127) v"

definition normalize_optional_correlation_id :: "string option \<Rightarrow> string option" where
  "normalize_optional_correlation_id correlation_id = (case correlation_id of
      None \<Rightarrow> None
    | Some c \<Rightarrow>
        let stripped = py_strip c in
        if stripped = [] \<or> max_correlation_id_length < length stripped
            \<or> correlation_contains_control_character stripped
        then None else Some stripped)"

definition resolve_correlation_id :: "string \<Rightarrow> string option \<Rightarrow> string" where
  "resolve_correlation_id uuid_hex correlation_id =
     (case normalize_optional_correlation_id correlation_id of
        Some normalized \<Rightarrow> normalized
      | None \<Rightarrow> ''corr_'' @ take 12 uuid_hex)"

lemma normalize_key_SomeD:
  assumes "normalize_optional_idempotency_key key = Some k"
  shows "k \<noteq> []" and "length k \<le> 128" and "\<not> contains_control_character k" and "py_strip k = k"
  using assms
  by (auto simp: normalize_optional_idempotency_key_def max_idempotency_key_length_def Let_def
      split: option.splits if_splits)

lemma normalize_key_fixpoint:
  assumes "normalize_optional_idempotency_key key = Some k"
  shows "normalize_optional_idempotency_key (Some k) = Some k"
  using normalize_key_SomeD [OF assms]
  by (simp add: normalize_optional_idempotency_key_def max_idempotency_key_length_def)

lemma normalize_key_idem:
  "normalize_optional_idempotency_key (normalize_optional_idempotency_key key)
     = normalize_optional_idempotency_key key"
proof (cases "normalize_optional_idempotency_key key")
  case None
  show ?thesis unfolding None by (simp add: normalize_optional_idempotency_key_def)
next
  case (Some k)
  show ?thesis unfolding Some by (rule normalize_key_fixpoint [OF Some])
qed

lemma require_key_Inr_iff:
  "require_proposal_idempotency_key key = Inr k
     \<longleftrightarrow> normalize_optional_idempotency_key key = Some k"
  by (simp add: require_proposal_idempotency_key_def normalize_required_idempotency_key_def
      split: option.splits)

lemma require_key_Inl_iff:
  "require_proposal_idempotency_key key = Inl e
     \<longleftrightarrow> normalize_optional_idempotency_key key = None
        \<and> e = ValidationError ''IDEMPOTENCY_KEY_REQUIRED''"
  by (auto simp: require_proposal_idempotency_key_def normalize_required_idempotency_key_def
      split: option.splits)

end
