(* ===== verification/Persistence_Models.thy ===== *)
theory Persistence_Models
  imports Idempotency_Keys
begin

text \<open>
  The rows the proposal repository keeps (\<open>proposals/persistence_models.py\<close>,
  \<open>memo_persistence_models.py\<close>, \<open>idea_review_realization.py\<close>,
  \<open>idea_intake_persistence.py\<close>, \<open>advisor_cockpit/persistence.py\<close>), field for field.
  A \<open>Dict[str, Any]\<close> column is a JSON object, a \<open>datetime\<close> an instant.
\<close>

subsection \<open>Proposals, versions, workflow events, approvals\<close>

record proposal =
  pr_proposal_id :: string
  pr_portfolio_id :: string
  pr_mandate_id :: "string option"
  pr_jurisdiction :: "string option"
  pr_created_by :: string
  pr_created_at :: datetime
  pr_last_event_at :: datetime
  pr_current_state :: workflow_state
  pr_current_version_no :: int
  pr_title :: "string option"
  pr_advisor_notes :: "string option"
  pr_lifecycle_origin :: lifecycle_origin
  pr_source_workspace_id :: "string option"

record proposal_version =
  pv_proposal_version_id :: string
  pv_proposal_id :: string
  pv_version_no :: int
  pv_created_at :: datetime
  pv_request_hash :: string
  pv_artifact_hash :: string
  pv_simulation_hash :: string
  pv_status_at_creation :: creation_status
  pv_proposal_result_json :: jobject
  pv_artifact_json :: jobject
  pv_evidence_bundle_json :: jobject
  pv_gate_decision_json :: "jobject option"

record workflow_event =
  ev_event_id :: string
  ev_proposal_id :: string
  ev_event_type :: event_type
  ev_from_state :: "workflow_state option"
  ev_to_state :: workflow_state
  ev_actor_id :: string
  ev_occurred_at :: datetime
  ev_reason_json :: jobject
  ev_related_version_no :: "int option"

record approval =
  ap_approval_id :: string
  ap_proposal_id :: string
  ap_approval_type :: approval_type
  ap_approved :: bool
  ap_actor_id :: string
  ap_occurred_at :: datetime
  ap_details_json :: jobject
  ap_related_version_no :: "int option"

record proposal_idempotency =
  pi_idempotency_key :: string
  pi_request_hash :: string
  pi_proposal_id :: string
  pi_proposal_version_no :: int
  pi_created_at :: datetime

record simulation_idempotency =
  si_idempotency_key :: string
  si_request_hash :: string
  si_response_json :: jobject
  si_created_at :: datetime

record transition_result =
  tr_proposal :: proposal
  tr_event :: workflow_event
  tr_approval :: "approval option"

subsection \<open>Asynchronous operations\<close>

record async_operation =
  op_operation_id :: string
  op_operation_type :: async_type
  op_status :: async_status
  op_correlation_id :: string
  op_idempotency_key :: "string option"
  op_proposal_id :: "string option"
  op_created_by :: string
  op_created_at :: datetime
  op_payload_json :: jobject
  op_attempt_count :: int
  op_max_attempts :: int
  op_started_at :: "datetime option"
  op_lease_expires_at :: "datetime option"
  op_finished_at :: "datetime option"
  op_result_json :: "jobject option"
  op_error_json :: "jobject option"

subsection \<open>Memos\<close>

record memo =
  mm_memo_id :: string
  mm_proposal_id :: string
  mm_proposal_version_no :: int
  mm_proposal_version_id :: "string option"
  mm_artifact_id :: "string option"
  mm_memo_version :: string
  mm_memo_status :: string
  mm_lifecycle_status :: memo_lifecycle_status
  mm_created_by :: string
  mm_created_at :: datetime
  mm_source_input_hash :: string
  mm_memo_hash :: string
  mm_memo_json :: jobject
  mm_projection_json :: jobject
  mm_review_events_json :: "jobject list"
  mm_report_package_events_json :: "jobject list"
  mm_archive_refs_json :: "jobject list"
  mm_ai_refs_json :: "jobject list"
  mm_replay_metadata_json :: jobject

record memo_idempotency =
  mi_idempotency_key :: string
  mi_request_hash :: string
  mi_memo_id :: string
  mi_proposal_id :: string
  mi_proposal_version_no :: int
  mi_created_at :: datetime

record memo_event =
  me_event_id :: string
  me_memo_id :: string
  me_proposal_id :: string
  me_proposal_version_no :: int
  me_event_type :: memo_event_type
  me_actor_id :: string
  me_occurred_at :: datetime
  me_reason_json :: jobject

subsection \<open>Cockpit acknowledgements\<close>

record cockpit_ack =
  ca_acknowledgement_id :: string
  ca_action_item_id :: string
  ca_action_item_version :: int
  ca_acknowledged_by :: string
  ca_acknowledged_at :: datetime
  ca_acknowledgement_note :: "string option"
  ca_correlation_id :: "string option"
  ca_reason_json :: jobject

record cockpit_ack_idempotency =
  ci_idempotency_key :: string
  ci_request_hash :: string
  ci_acknowledgement_id :: string
  ci_action_item_id :: string
  ci_created_at :: datetime

subsection \<open>Idea realizations\<close>

record realization =
  rz_realization_id :: string
  rz_intake_id :: string
  rz_review_work_id :: "string option"
  rz_review_work_status :: "review_work_status option"
  rz_tenant_id :: string
  rz_legal_entity_code :: string
  rz_portfolio_id :: string
  rz_idea_candidate_id :: string
  rz_conversion_intent_id :: string
  rz_source_evidence_fingerprint :: string
  rz_current_status :: realization_status
  rz_current_source_event_version :: int
  rz_created_at_utc :: datetime
  rz_updated_at_utc :: datetime
  rz_proposal_id :: "string option"

record outcome =
  oc_outcome_id :: string
  oc_realization_id :: string
  oc_source_event_version :: int
  oc_status :: realization_status
  oc_reason_code :: string
  oc_occurred_at_utc :: datetime
  oc_review_work_id :: "string option"
  oc_proposal_id :: "string option"
  oc_terminal :: bool

record realization_history =
  rh_realization :: realization
  rh_outcomes :: "outcome list"

record idea_intake =
  ii_registry_key :: string
  ii_request_fingerprint :: string
  ii_response_json :: string
  ii_created_at_utc :: datetime
  ii_expires_at_utc :: datetime
  ii_realization :: realization
  ii_initial_outcome :: outcome
  ii_legal_hold :: bool

record idea_intake_claim =
  ic_record :: idea_intake
  ic_replayed :: bool

definition idea_proposal_intake_replay_retention :: int where
  "idea_proposal_intake_replay_retention = seconds (24 * 60 * 60)"

subsection \<open>Realization identity and progression\<close>

type_synonym claim_identity =
  "string \<times> string \<times> string option \<times> string \<times> string \<times> string \<times> string \<times> string \<times> string"

definition realization_claim_identity :: "realization \<Rightarrow> claim_identity" where
  "realization_claim_identity r =
     (rz_realization_id r, rz_intake_id r, rz_review_work_id r, rz_tenant_id r,
      rz_legal_entity_code r, rz_portfolio_id r, rz_idea_candidate_id r,
      rz_conversion_intent_id r, rz_source_evidence_fingerprint r)"

definition realization_progression_identity :: "realization \<Rightarrow> claim_identity \<times> datetime" where
  "realization_progression_identity r = (realization_claim_identity r, rz_created_at_utc r)"

definition matches_expected_outcome :: "outcome \<Rightarrow> string \<Rightarrow> int \<Rightarrow> bool" where
  "matches_expected_outcome oc realization_id source_event_version \<longleftrightarrow>
     oc_realization_id oc = realization_id \<and> oc_source_event_version oc = source_event_version"

fun outcomes_match_from :: "string \<Rightarrow> int \<Rightarrow> outcome list \<Rightarrow> bool" where
  "outcomes_match_from rid v [] = True"
| "outcomes_match_from rid v (oc # ocs) =
     (matches_expected_outcome oc rid v \<and> outcomes_match_from rid (v + 1) ocs)"

definition validate_realization_progression ::
  "int \<Rightarrow> int \<Rightarrow> realization \<Rightarrow> outcome list \<Rightarrow> error + unit" where
  "validate_realization_progression current expected r outcomes =
     (if current \<noteq> expected
      then Inl (StateConflictError ''IDEA_PROPOSAL_REALIZATION_VERSION_CONFLICT'')
      else if rz_current_source_event_version r \<noteq> expected + int (length outcomes)
      then Inl (StateConflictError ''IDEA_PROPOSAL_REALIZATION_PROGRESSION_INVALID'')
      else if \<not> outcomes_match_from (rz_realization_id r) (expected + 1) outcomes
      then Inl (StateConflictError ''IDEA_PROPOSAL_REALIZATION_PROGRESSION_INVALID'')
      else Inr ())"

lemma outcomes_match_from_iff:
  "outcomes_match_from rid v ocs \<longleftrightarrow>
     (\<forall>oc\<in>set ocs. oc_realization_id oc = rid)
     \<and> map oc_source_event_version ocs = map (\<lambda>i. v + int i) [0..<length ocs]"
proof (induction ocs arbitrary: v)
  case (Cons oc ocs)
  have "map (\<lambda>i. v + int i) [0..<length (oc # ocs)]
      = v # map (\<lambda>i. v + 1 + int i) [0..<length ocs]"
    by (simp add: upt_conv_Cons map_Suc_upt [symmetric] comp_def add.assoc del: upt_Suc)
  then show ?case
    using Cons.IH [of "v + 1"] by (auto simp: matches_expected_outcome_def)
qed simp

lemma validate_realization_progression_Inr_iff:
  "validate_realization_progression current expected r outcomes = Inr () \<longleftrightarrow>
     current = expected
     \<and> rz_current_source_event_version r = expected + int (length outcomes)
     \<and> outcomes_match_from (rz_realization_id r) (expected + 1) outcomes"
  by (auto simp: validate_realization_progression_def)

end
