(* ===== verification/Workflow_Rules.thy ===== *)
theory Workflow_Rules
  imports Persistence_Models
begin

text \<open>
  The proposal state machine (\<open>proposals/workflow_rules.py\<close>) and the validators the
  commands wrap around it (\<open>lifecycle.py\<close>, \<open>concurrency.py\<close>,
  \<open>command_validation.py\<close>, \<open>simulation_gate.py\<close>).  The rule tables stay association
  lists, as in the source.
\<close>

subsection \<open>Tables\<close>

definition terminal_states :: "workflow_state list" where
  "terminal_states = [WS_EXECUTED, WS_REJECTED, WS_CANCELLED, WS_EXPIRED]"

definition transition_map :: "(workflow_state \<times> event_type, workflow_state) dict" where
  "transition_map =
     [((WS_DRAFT, EV_SUBMITTED_FOR_RISK_REVIEW), WS_RISK_REVIEW),
      ((WS_DRAFT, EV_SUBMITTED_FOR_COMPLIANCE_REVIEW), WS_COMPLIANCE_REVIEW),
      ((WS_RISK_REVIEW, EV_RISK_APPROVED), WS_AWAITING_CLIENT_CONSENT),
      ((WS_RISK_REVIEW, EV_REJECTED), WS_REJECTED),
      ((WS_COMPLIANCE_REVIEW, EV_COMPLIANCE_APPROVED), WS_AWAITING_CLIENT_CONSENT),
      ((WS_COMPLIANCE_REVIEW, EV_REJECTED), WS_REJECTED),
      ((WS_AWAITING_CLIENT_CONSENT, EV_CLIENT_CONSENT_RECORDED), WS_EXECUTION_READY),
      ((WS_AWAITING_CLIENT_CONSENT, EV_REJECTED), WS_REJECTED),
      ((WS_EXECUTION_READY, EV_EXECUTION_REQUESTED), WS_EXECUTION_READY),
      ((WS_EXECUTION_READY, EV_EXECUTED), WS_EXECUTED),
      ((WS_EXECUTION_READY, EV_EXPIRED), WS_EXPIRED)]"

definition execution_status_event_types :: "event_type list" where
  "execution_status_event_types =
     [EV_EXECUTION_REQUESTED, EV_EXECUTION_ACCEPTED, EV_EXECUTION_PARTIALLY_EXECUTED,
      EV_EXECUTION_REJECTED, EV_EXECUTION_CANCELLED, EV_EXECUTION_EXPIRED, EV_EXECUTED]"

primrec execution_update_event_map :: "update_status \<Rightarrow> event_type \<times> workflow_state" where
  "execution_update_event_map UP_ACCEPTED = (EV_EXECUTION_ACCEPTED, WS_EXECUTION_READY)"
| "execution_update_event_map UP_PARTIALLY_EXECUTED =
     (EV_EXECUTION_PARTIALLY_EXECUTED, WS_EXECUTION_READY)"
| "execution_update_event_map UP_REJECTED = (EV_EXECUTION_REJECTED, WS_REJECTED)"
| "execution_update_event_map UP_CANCELLED = (EV_EXECUTION_CANCELLED, WS_CANCELLED)"
| "execution_update_event_map UP_EXPIRED = (EV_EXECUTION_EXPIRED, WS_EXPIRED)"
| "execution_update_event_map UP_EXECUTED = (EV_EXECUTED, WS_EXECUTED)"

definition execution_status_by_event_type :: "(event_type, handoff_status) dict" where
  "execution_status_by_event_type =
     [(EV_EXECUTION_REQUESTED, HS_REQUESTED),
      (EV_EXECUTION_ACCEPTED, HS_ACCEPTED),
      (EV_EXECUTION_PARTIALLY_EXECUTED, HS_PARTIALLY_EXECUTED),
      (EV_EXECUTION_REJECTED, HS_REJECTED),
      (EV_EXECUTION_CANCELLED, HS_CANCELLED),
      (EV_EXECUTION_EXPIRED, HS_EXPIRED),
      (EV_EXECUTED, HS_EXECUTED)]"

definition execution_state_correlation_by_status :: "(handoff_status, string) dict" where
  "execution_state_correlation_by_status =
     [(HS_REQUESTED, ''EXECUTION_REQUESTED_EVENT''),
      (HS_ACCEPTED, ''EXECUTION_REQUESTED_AND_ACCEPTED_EVENTS''),
      (HS_PARTIALLY_EXECUTED, ''EXECUTION_REQUESTED_AND_PARTIAL_EXECUTION_EVENTS''),
      (HS_EXECUTED, ''EXECUTION_REQUESTED_AND_EXECUTED_EVENTS''),
      (HS_REJECTED, ''EXECUTION_REQUESTED_AND_REJECTED_EVENTS''),
      (HS_CANCELLED, ''EXECUTION_REQUESTED_AND_CANCELLED_EVENTS''),
      (HS_EXPIRED, ''EXECUTION_REQUESTED_AND_EXPIRED_EVENTS'')]"

definition approval_transition_rules ::
  "(approval_type, workflow_state \<times> event_type \<times> workflow_state) dict" where
  "approval_transition_rules =
     [(AP_RISK, (WS_RISK_REVIEW, EV_RISK_APPROVED, WS_AWAITING_CLIENT_CONSENT)),
      (AP_COMPLIANCE, (WS_COMPLIANCE_REVIEW, EV_COMPLIANCE_APPROVED, WS_AWAITING_CLIENT_CONSENT)),
      (AP_CLIENT_CONSENT,
         (WS_AWAITING_CLIENT_CONSENT, EV_CLIENT_CONSENT_RECORDED, WS_EXECUTION_READY))]"

subsection \<open>Rules\<close>

definition resolve_transition_state ::
  "workflow_state \<Rightarrow> event_type \<Rightarrow> error + workflow_state" where
  "resolve_transition_state current ev =
     (if ev = EV_CANCELLED \<and> current \<notin> set terminal_states then Inr WS_CANCELLED
      else case dict_get transition_map (current, ev) of
        None \<Rightarrow> Inl (WorkflowRuleError ''INVALID_TRANSITION'')
      | Some next_state \<Rightarrow> Inr next_state)"

definition resolve_approval_transition ::
  "workflow_state \<Rightarrow> approval_type \<Rightarrow> bool \<Rightarrow> error + event_type \<times> workflow_state" where
  "resolve_approval_transition current ap approved =
     (case dict_get approval_transition_rules ap of
        None \<Rightarrow> Inl (WorkflowRuleError ''INVALID_APPROVAL_TYPE'')
      | Some (required_state, approved_event_type, approved_next_state) \<Rightarrow>
          if current \<noteq> required_state then Inl (WorkflowRuleError ''INVALID_APPROVAL_STATE'')
          else if \<not> approved then Inr (EV_REJECTED, WS_REJECTED)
          else Inr (approved_event_type, approved_next_state))"

definition resolve_execution_update_event :: "update_status \<Rightarrow> event_type \<times> workflow_state" where
  "resolve_execution_update_event u = execution_update_event_map u"

definition execution_status_for_event :: "event_type \<Rightarrow> handoff_status" where
  "execution_status_for_event ev = (case dict_get execution_status_by_event_type ev of
      None \<Rightarrow> HS_NOT_REQUESTED | Some s \<Rightarrow> s)"

definition execution_state_correlation :: "handoff_status \<Rightarrow> string" where
  "execution_state_correlation s = (case dict_get execution_state_correlation_by_status s of
      None \<Rightarrow> ''NO_EXECUTION_EVENTS_RECORDED'' | Some c \<Rightarrow> c)"

subsection \<open>Validators\<close>

definition validate_lifecycle_origin :: "lifecycle_origin \<Rightarrow> string option \<Rightarrow> error + unit" where
  "validate_lifecycle_origin origin source_workspace_id =
     (if origin = LO_WORKSPACE_HANDOFF \<and> (source_workspace_id = None \<or> source_workspace_id = Some [])
      then Inl (LifecycleOriginError ''WORKSPACE_HANDOFF_SOURCE_WORKSPACE_ID_REQUIRED'')
      else if origin = LO_DIRECT_CREATE \<and> source_workspace_id \<noteq> None
      then Inl (LifecycleOriginError ''DIRECT_CREATE_CANNOT_INCLUDE_SOURCE_WORKSPACE_ID'')
      else Inr ())"

definition validate_expected_state ::
  "workflow_state \<Rightarrow> workflow_state option \<Rightarrow> bool \<Rightarrow> error + unit" where
  "validate_expected_state current expected require_expected_state =
     (if expected = None \<and> require_expected_state
      then Inl (ExpectedStateError ''STATE_CONFLICT: expected_state is required'')
      else if expected \<noteq> None \<and> expected \<noteq> Some current
      then Inl (ExpectedStateError ''STATE_CONFLICT: expected_state mismatch'')
      else Inr ())"

definition validate_proposal_simulation_enabled :: "bool \<Rightarrow> bool \<Rightarrow> error + unit" where
  "validate_proposal_simulation_enabled enable_proposal_simulation require_simulation_flag =
     (if require_simulation_flag \<and> \<not> enable_proposal_simulation
      then Inl (SimulationGateError
        ''PROPOSAL_SIMULATION_DISABLED: set options.enable_proposal_simulation=true'')
      else Inr ())"

text \<open>The command-side wrappers translate the inner error and keep its message.\<close>

definition validate_proposal_simulation_flag :: "bool \<Rightarrow> bool \<Rightarrow> error + unit" where
  "validate_proposal_simulation_flag enabled require_flag =
     (case validate_proposal_simulation_enabled enabled require_flag of
        Inl (SimulationGateError m) \<Rightarrow> Inl (ValidationError m) | r \<Rightarrow> r)"

definition validate_proposal_expected_state ::
  "workflow_state \<Rightarrow> workflow_state option \<Rightarrow> bool \<Rightarrow> error + unit" where
  "validate_proposal_expected_state current expected require_expected_state =
     (case validate_expected_state current expected require_expected_state of
        Inl (ExpectedStateError m) \<Rightarrow> Inl (StateConflictError m) | r \<Rightarrow> r)"

definition resolve_proposal_transition_state ::
  "workflow_state \<Rightarrow> event_type \<Rightarrow> error + workflow_state" where
  "resolve_proposal_transition_state current ev =
     (case resolve_transition_state current ev of
        Inl (WorkflowRuleError m) \<Rightarrow> Inl (TransitionError m) | r \<Rightarrow> r)"

definition resolve_proposal_approval_transition ::
  "workflow_state \<Rightarrow> approval_type \<Rightarrow> bool \<Rightarrow> error + event_type \<times> workflow_state" where
  "resolve_proposal_approval_transition current ap approved =
     (case resolve_approval_transition current ap approved of
        Inl (WorkflowRuleError m) \<Rightarrow> Inl (TransitionError m) | r \<Rightarrow> r)"

subsection \<open>Facts about the tables\<close>

lemma terminal_states_iff [simp]:
  "s \<in> set terminal_states \<longleftrightarrow> s = WS_EXECUTED \<or> s = WS_REJECTED \<or> s = WS_CANCELLED \<or> s = WS_EXPIRED"
  by (auto simp: terminal_states_def)

lemma resolve_transition_Inr_iff:
  "resolve_transition_state s ev = Inr t \<longleftrightarrow>
     ev = EV_CANCELLED \<and> s \<notin> set terminal_states \<and> t = WS_CANCELLED
     \<or> ((s, ev), t) \<in> set transition_map"
proof -
  have cancelled: "dict_get transition_map (s, EV_CANCELLED) = None"
    by (cases s) (simp_all add: transition_map_def)
  have "distinct (map fst transition_map)"
    by (simp add: transition_map_def)
  then have "dict_get transition_map (s, ev) = Some t \<longleftrightarrow> ((s, ev), t) \<in> set transition_map"
    by simp
  with cancelled show ?thesis
    by (auto simp: resolve_transition_state_def split: option.splits)
qed

lemma resolve_transition_not_terminal:
  "resolve_transition_state s ev = Inr t \<Longrightarrow> s \<notin> set terminal_states"
  by (auto simp: resolve_transition_Inr_iff transition_map_def)

lemma resolve_approval_Inr_cases:
  assumes "resolve_approval_transition s ap approved = Inr (ev, t)"
  obtains (rejected) "\<not> approved" "ev = EV_REJECTED" "t = WS_REJECTED"
      "s \<in> {WS_RISK_REVIEW, WS_COMPLIANCE_REVIEW, WS_AWAITING_CLIENT_CONSENT}"
    | (risk) "approved" "s = WS_RISK_REVIEW" "ev = EV_RISK_APPROVED" "t = WS_AWAITING_CLIENT_CONSENT"
    | (compliance) "approved" "s = WS_COMPLIANCE_REVIEW" "ev = EV_COMPLIANCE_APPROVED"
        "t = WS_AWAITING_CLIENT_CONSENT"
    | (consent) "approved" "s = WS_AWAITING_CLIENT_CONSENT" "ev = EV_CLIENT_CONSENT_RECORDED"
        "t = WS_EXECUTION_READY"
  using assms
  by (cases ap) (auto simp: resolve_approval_transition_def approval_transition_rules_def
      split: if_splits)

lemma resolve_approval_is_transition:
  "resolve_approval_transition s ap approved = Inr (ev, t) \<Longrightarrow> resolve_transition_state s ev = Inr t"
  by (elim resolve_approval_Inr_cases) (auto simp: resolve_transition_Inr_iff transition_map_def)

lemma resolve_approval_never_type_error:
  "resolve_approval_transition s ap approved \<noteq> Inl (WorkflowRuleError ''INVALID_APPROVAL_TYPE'')"
  by (cases ap) (auto simp: resolve_approval_transition_def approval_transition_rules_def)

subsection \<open>Facts about the wrappers\<close>

lemma proposal_transition_Inr_iff [simp]:
  "resolve_proposal_transition_state s ev = Inr t \<longleftrightarrow> resolve_transition_state s ev = Inr t"
  by (auto simp: resolve_proposal_transition_state_def split: sum.splits error.splits)

lemma proposal_transition_Inl:
  "resolve_proposal_transition_state s ev = Inl e \<Longrightarrow> e = TransitionError ''INVALID_TRANSITION''"
  by (auto simp: resolve_proposal_transition_state_def resolve_transition_state_def
      split: if_splits option.splits)

lemma proposal_approval_Inr_iff [simp]:
  "resolve_proposal_approval_transition s ap b = Inr x \<longleftrightarrow> resolve_approval_transition s ap b = Inr x"
  by (auto simp: resolve_proposal_approval_transition_def split: sum.splits error.splits)

lemma proposal_approval_Inl:
  "resolve_proposal_approval_transition s ap b = Inl e \<Longrightarrow> e = TransitionError ''INVALID_APPROVAL_STATE''"
  by (cases ap) (auto simp: resolve_proposal_approval_transition_def resolve_approval_transition_def
      approval_transition_rules_def split: if_splits)

lemma proposal_expected_state_Inr_iff [simp]:
  "validate_proposal_expected_state s expected req = Inr () \<longleftrightarrow>
     (expected = None \<and> \<not> req) \<or> expected = Some s"
  by (auto simp: validate_proposal_expected_state_def validate_expected_state_def)

lemma proposal_expected_state_Inl:
  "validate_proposal_expected_state s expected req = Inl e \<Longrightarrow>
     e = StateConflictError ''STATE_CONFLICT: expected_state is required'' \<and> expected = None \<and> req
     \<or> e = StateConflictError ''STATE_CONFLICT: expected_state mismatch'' \<and> expected \<noteq> Some s
       \<and> expected \<noteq> None"
  by (auto simp: validate_proposal_expected_state_def validate_expected_state_def split: if_splits)

end
