(* ===== verification/Interfaces.thy ===== *)
theory Interfaces
  imports Prelude
begin

text \<open>
  The contracts the components of the repository offer each other, as locales: a keyed store
  (last write wins), an append-only log, a first-write-wins claim registry and a guarded
  (compare-and-set) cell.  Each is interpreted on the in-memory repository in the theory that
  provides the operations.
\<close>

subsection \<open>Keyed stores\<close>

locale keyed_store =
  fixes get :: "'r \<Rightarrow> 'k \<Rightarrow> 'v option"
    and put :: "'v \<Rightarrow> 'r \<Rightarrow> 'r"
    and key :: "'v \<Rightarrow> 'k"
  assumes get_put: "get (put v r) k = (if k = key v then Some v else get r k)"
begin

lemma get_put_same: "get (put v r) (key v) = Some v"
  by (simp add: get_put)

lemma get_put_other: "k \<noteq> key v \<Longrightarrow> get (put v r) k = get r k"
  by (simp add: get_put)

lemma put_overwrites: "key v = key w \<Longrightarrow> get (put w (put v r)) = get (put w r)"
  by (rule ext) (simp add: get_put)

lemma put_commutes: "key v \<noteq> key w \<Longrightarrow> get (put w (put v r)) = get (put v (put w r))"
  by (rule ext) (simp add: get_put)

lemma get_fold_put:
  "get (fold put vs r) k = (case find_first (\<lambda>v. key v = k) (rev vs) of
     Some v \<Rightarrow> Some v | None \<Rightarrow> get r k)"
  by (induction vs rule: rev_induct) (auto simp: get_put)

lemma dom_get_put: "dom (get (put v r)) = insert (key v) (dom (get r))"
  by (auto simp: get_put split: if_splits)

end

subsection \<open>Append-only logs\<close>

locale append_log =
  fixes entries :: "'r \<Rightarrow> 'k \<Rightarrow> 'v list"
    and append :: "'v \<Rightarrow> 'r \<Rightarrow> 'r"
    and key :: "'v \<Rightarrow> 'k"
  assumes entries_append:
    "entries (append v r) k = (if k = key v then entries r k @ [v] else entries r k)"
begin

lemma entries_fold_append:
  "entries (fold append vs r) k = entries r k @ filter (\<lambda>v. key v = k) vs"
  by (induction vs arbitrary: r) (auto simp: entries_append)

lemma entries_grow: "\<exists>new. entries (append v r) k = entries r k @ new"
  by (simp add: entries_append)

lemma last_entry: "last (entries (append v r) (key v)) = v"
  by (simp add: entries_append)

end

subsection \<open>First-write-wins registries\<close>

text \<open>
  \<open>claim\<close> fails on a key held by a conflicting entry, keeps the first entry on a compatible
  retry and stores the entry otherwise.
\<close>

locale claim_registry =
  fixes held :: "'r \<Rightarrow> 'k \<Rightarrow> 'v option"
    and claim :: "'v \<Rightarrow> 'r \<Rightarrow> 'e + 'r"
    and key :: "'v \<Rightarrow> 'k"
    and compatible :: "'v \<Rightarrow> 'v \<Rightarrow> bool"
  assumes compatible_refl: "compatible v v"
    and claim_conflict:
      "held r (key v) = Some w \<Longrightarrow> \<not> compatible w v \<Longrightarrow> \<exists>e. claim v r = Inl e"
    and claim_retry:
      "held r (key v) = Some w \<Longrightarrow> compatible w v \<Longrightarrow> claim v r = Inr r"
    and claim_first:
      "held r (key v) = None \<Longrightarrow>
         \<exists>r'. claim v r = Inr r' \<and> held r' = (held r)(key v \<mapsto> v)"
begin

lemma claim_held:
  assumes "claim v r = Inr r'"
  shows "\<exists>w. held r' (key v) = Some w \<and> compatible w v"
proof (cases "held r (key v)")
  case None
  from claim_first [OF None] assms show ?thesis by (auto simp: compatible_refl)
next
  case (Some w)
  then have "compatible w v" using claim_conflict assms by fastforce
  then have "r' = r" using claim_retry [OF Some] assms by simp
  with Some \<open>compatible w v\<close> show ?thesis by simp
qed

lemma claim_keeps:
  assumes "claim v r = Inr r'" and "held r k = Some w"
  shows "held r' k = Some w"
proof (cases "held r (key v)")
  case None
  with claim_first [OF None] assms show ?thesis by (auto split: if_splits)
next
  case (Some w')
  then have "compatible w' v" using claim_conflict assms(1) by fastforce
  then have "r' = r" using claim_retry [OF Some] assms(1) by simp
  with assms(2) show ?thesis by simp
qed

lemma claim_idempotent: "claim v r = Inr r' \<Longrightarrow> claim v r' = Inr r'"
  using claim_held claim_retry by blast

lemma claim_succeeds_iff:
  "(\<exists>r'. claim v r = Inr r') \<longleftrightarrow> (\<forall>w. held r (key v) = Some w \<longrightarrow> compatible w v)"
proof (cases "held r (key v)")
  case None
  from claim_first [OF None] show ?thesis using None by auto
next
  case (Some w)
  show ?thesis
  proof (cases "compatible w v")
    case True
    with Some claim_retry [OF Some True] show ?thesis by simp
  next
    case False
    with claim_conflict [OF Some False] Some show ?thesis by auto
  qed
qed

end

subsection \<open>Systems of operations and their invariants\<close>

text \<open>
  A system is a step function on states driven by labels; an invariant every step preserves
  holds after every run.
\<close>

locale guarded_system =
  fixes step :: "'l \<Rightarrow> 's \<Rightarrow> 's"
    and enabled :: "'l \<Rightarrow> 's \<Rightarrow> bool"
    and inv :: "'s \<Rightarrow> bool"
  assumes step_inv: "inv s \<Longrightarrow> enabled l s \<Longrightarrow> inv (step l s)"
begin

primrec run :: "'l list \<Rightarrow> 's \<Rightarrow> 's" where
  "run [] s = s"
| "run (l # ls) s = run ls (step l s)"

primrec admissible :: "'l list \<Rightarrow> 's \<Rightarrow> bool" where
  "admissible [] s = True"
| "admissible (l # ls) s = (enabled l s \<and> admissible ls (step l s))"

lemma run_inv: "inv s \<Longrightarrow> admissible ls s \<Longrightarrow> inv (run ls s)"
  by (induction ls arbitrary: s) (auto intro: step_inv)

lemma run_append: "run (xs @ ys) s = run ys (run xs s)"
  by (induction xs arbitrary: s) simp_all

lemma admissible_append: "admissible (xs @ ys) s \<longleftrightarrow> admissible xs s \<and> admissible ys (run xs s)"
  by (induction xs arbitrary: s) simp_all

end

end
