(* ===== verification/Repository.thy ===== *)
theory Repository
  imports Workflow_Rules Interfaces
begin

text \<open>
  The in-memory proposal repository (\<open>infrastructure/proposals/in_memory.py\<close>,
  \<open>in_memory_query.py\<close>): its twenty-one dictionaries and the operations on proposals,
  versions, workflow events, approvals and idempotency records.  Every method runs under one
  lock, so a method is one atomic function of the state; \<open>deepcopy\<close> is the identity on
  values.
\<close>

subsection \<open>State\<close>

type_synonym scope_key = "string \<times> string \<times> string \<times> string"

record repository =
  rp_proposals :: "(string, proposal) dict"
  rp_versions :: "(string \<times> int, proposal_version) dict"
  rp_events :: "(string, workflow_event list) dict"
  rp_approvals :: "(string, approval list) dict"
  rp_idempotency :: "(string, proposal_idempotency) dict"
  rp_simulation_idempotency :: "(string, simulation_idempotency) dict"
  rp_memo_idempotency :: "(string, memo_idempotency) dict"
  rp_operations :: "(string, async_operation) dict"
  rp_operation_by_correlation :: "(string, string) dict"
  rp_operation_by_idempotency :: "(string, string) dict"
  rp_memos :: "(string, memo) dict"
  rp_memo_by_proposal_version :: "(string \<times> int, string) dict"
  rp_memo_events :: "(string, memo_event list) dict"
  rp_cockpit_acknowledgements :: "(string, cockpit_ack) dict"
  rp_cockpit_acknowledgement_idempotency :: "(string, cockpit_ack_idempotency) dict"
  rp_idea_proposal_intakes :: "(string, idea_intake) dict"
  rp_idea_proposal_realizations :: "(string, realization) dict"
  rp_idea_realization_by_intake :: "(scope_key, string) dict"
  rp_idea_realization_by_conversion_intent :: "(scope_key, string) dict"
  rp_idea_realization_by_proposal :: "(string, string) dict"
  rp_idea_proposal_realization_outcomes :: "(string, outcome list) dict"

definition empty_repository :: repository where
  "empty_repository = \<lparr>
     rp_proposals = [], rp_versions = [], rp_events = [], rp_approvals = [],
     rp_idempotency = [], rp_simulation_idempotency = [], rp_memo_idempotency = [],
     rp_operations = [], rp_operation_by_correlation = [], rp_operation_by_idempotency = [],
     rp_memos = [], rp_memo_by_proposal_version = [], rp_memo_events = [],
     rp_cockpit_acknowledgements = [], rp_cockpit_acknowledgement_idempotency = [],
     rp_idea_proposal_intakes = [], rp_idea_proposal_realizations = [],
     rp_idea_realization_by_intake = [], rp_idea_realization_by_conversion_intent = [],
     rp_idea_realization_by_proposal = [], rp_idea_proposal_realization_outcomes = [] \<rparr>"

subsection \<open>Idempotency records\<close>

definition get_idempotency :: "string \<Rightarrow> repository \<Rightarrow> proposal_idempotency option" where
  "get_idempotency key R = dict_get (rp_idempotency R) key"

definition save_idempotency :: "proposal_idempotency \<Rightarrow> repository \<Rightarrow> repository" where
  "save_idempotency rec R =
     R\<lparr>rp_idempotency := dict_set (pi_idempotency_key rec) rec (rp_idempotency R)\<rparr>"

definition get_simulation_idempotency :: "string \<Rightarrow> repository \<Rightarrow> simulation_idempotency option" where
  "get_simulation_idempotency key R = dict_get (rp_simulation_idempotency R) key"

definition save_simulation_idempotency :: "simulation_idempotency \<Rightarrow> repository \<Rightarrow> repository" where
  "save_simulation_idempotency rec R =
     R\<lparr>rp_simulation_idempotency :=
        dict_set (si_idempotency_key rec) rec (rp_simulation_idempotency R)\<rparr>"

subsection \<open>Proposals\<close>

definition create_proposal :: "proposal \<Rightarrow> repository \<Rightarrow> repository" where
  "create_proposal p R = R\<lparr>rp_proposals := dict_set (pr_proposal_id p) p (rp_proposals R)\<rparr>"

definition create_proposal_with_version_event_idempotency ::
  "proposal \<Rightarrow> proposal_version \<Rightarrow> workflow_event \<Rightarrow> proposal_idempotency \<Rightarrow> repository \<Rightarrow> repository" where
  "create_proposal_with_version_event_idempotency p v e i R =
     R\<lparr>rp_proposals := dict_set (pr_proposal_id p) p (rp_proposals R),
       rp_versions := dict_set (pv_proposal_id v, pv_version_no v) v (rp_versions R),
       rp_events := dict_push (ev_proposal_id e) e (rp_events R),
       rp_idempotency := dict_set (pi_idempotency_key i) i (rp_idempotency R)\<rparr>"

definition update_proposal :: "proposal \<Rightarrow> repository \<Rightarrow> repository" where
  "update_proposal p R = R\<lparr>rp_proposals := dict_set (pr_proposal_id p) p (rp_proposals R)\<rparr>"

definition get_proposal :: "string \<Rightarrow> repository \<Rightarrow> proposal option" where
  "get_proposal proposal_id R = dict_get (rp_proposals R) proposal_id"

subsection \<open>Versions\<close>

definition create_version :: "proposal_version \<Rightarrow> repository \<Rightarrow> repository" where
  "create_version v R =
     R\<lparr>rp_versions := dict_set (pv_proposal_id v, pv_version_no v) v (rp_versions R)\<rparr>"

definition get_version :: "string \<Rightarrow> int \<Rightarrow> repository \<Rightarrow> proposal_version option" where
  "get_version proposal_id version_no R = dict_get (rp_versions R) (proposal_id, version_no)"

definition ordered_versions_for_proposal ::
  "proposal_version list \<Rightarrow> string \<Rightarrow> proposal_version list" where
  "ordered_versions_for_proposal versions proposal_id =
     sort_key pv_version_no (filter (\<lambda>v. pv_proposal_id v = proposal_id) versions)"

definition current_version_for_proposal ::
  "proposal_version list \<Rightarrow> string \<Rightarrow> proposal_version option" where
  "current_version_for_proposal versions proposal_id =
     (case py_sorted_reverse pv_version_no (filter (\<lambda>v. pv_proposal_id v = proposal_id) versions) of
        [] \<Rightarrow> None | v # _ \<Rightarrow> Some v)"

definition list_versions :: "string \<Rightarrow> repository \<Rightarrow> proposal_version list" where
  "list_versions proposal_id R =
     ordered_versions_for_proposal (dict_values (rp_versions R)) proposal_id"

definition get_current_version :: "string \<Rightarrow> repository \<Rightarrow> proposal_version option" where
  "get_current_version proposal_id R =
     current_version_for_proposal (dict_values (rp_versions R)) proposal_id"

subsection \<open>Workflow events and approvals\<close>

definition append_event :: "workflow_event \<Rightarrow> repository \<Rightarrow> repository" where
  "append_event e R = R\<lparr>rp_events := dict_push (ev_proposal_id e) e (rp_events R)\<rparr>"

definition list_events :: "string \<Rightarrow> repository \<Rightarrow> workflow_event list" where
  "list_events proposal_id R = dict_list (rp_events R) proposal_id"

definition create_approval :: "approval \<Rightarrow> repository \<Rightarrow> repository" where
  "create_approval a R = R\<lparr>rp_approvals := dict_push (ap_proposal_id a) a (rp_approvals R)\<rparr>"

definition list_approvals :: "string \<Rightarrow> repository \<Rightarrow> approval list" where
  "list_approvals proposal_id R = dict_list (rp_approvals R) proposal_id"

text \<open>
  The compare-and-set: both expectations must be given for the guard to apply; events,
  approval and aggregate are written together.
\<close>

definition transition_proposal ::
  "proposal \<Rightarrow> workflow_event \<Rightarrow> approval option \<Rightarrow> workflow_state option \<Rightarrow> int option
     \<Rightarrow> repository \<Rightarrow> (error + transition_result) \<times> repository" where
  "transition_proposal p e a expected_state expected_version R =
     (let current = dict_get (rp_proposals R) (pr_proposal_id p) in
      if (case (expected_state, expected_version) of
            (Some st, Some vn) \<Rightarrow>
              (case current of
                 None \<Rightarrow> True
               | Some c \<Rightarrow> pr_current_state c \<noteq> st \<or> pr_current_version_no c \<noteq> vn)
          | _ \<Rightarrow> False)
      then (Inl (StateConflictError ''STATE_CONFLICT: proposal aggregate changed during transition''), R)
      else
        (let R1 = append_event e R;
             R2 = (case a of None \<Rightarrow> R1 | Some ap \<Rightarrow> create_approval ap R1);
             R3 = update_proposal p R2
         in (Inr \<lparr>tr_proposal = p, tr_event = e, tr_approval = a\<rparr>, R3)))"


subsection \<open>Interfaces provided\<close>

interpretation proposal_store: keyed_store "\<lambda>R k. get_proposal k R" update_proposal pr_proposal_id
  by unfold_locales (simp add: get_proposal_def update_proposal_def)

interpretation version_store: keyed_store
  "\<lambda>R k. get_version (fst k) (snd k) R" create_version "\<lambda>v. (pv_proposal_id v, pv_version_no v)"
  by unfold_locales (auto simp: get_version_def create_version_def)

interpretation idempotency_store: keyed_store
  "\<lambda>R k. get_idempotency k R" save_idempotency pi_idempotency_key
  by unfold_locales (simp add: get_idempotency_def save_idempotency_def)

interpretation simulation_store: keyed_store
  "\<lambda>R k. get_simulation_idempotency k R" save_simulation_idempotency si_idempotency_key
  by unfold_locales (simp add: get_simulation_idempotency_def save_simulation_idempotency_def)

interpretation event_log: append_log "\<lambda>R k. list_events k R" append_event ev_proposal_id
  by unfold_locales (simp add: list_events_def append_event_def)

interpretation approval_log: append_log "\<lambda>R k. list_approvals k R" create_approval ap_proposal_id
  by unfold_locales (simp add: list_approvals_def create_approval_def)

subsection \<open>What each write leaves alone\<close>

lemma append_event_frame [simp]:
  "get_proposal k (append_event e R) = get_proposal k R"
  "get_version k n (append_event e R) = get_version k n R"
  "list_approvals k (append_event e R) = list_approvals k R"
  "get_idempotency i (append_event e R) = get_idempotency i R"
  by (simp_all add: append_event_def get_proposal_def get_version_def list_approvals_def
      get_idempotency_def)

lemma create_approval_frame [simp]:
  "get_proposal k (create_approval a R) = get_proposal k R"
  "get_version k n (create_approval a R) = get_version k n R"
  "list_events k (create_approval a R) = list_events k R"
  "get_idempotency i (create_approval a R) = get_idempotency i R"
  by (simp_all add: create_approval_def get_proposal_def get_version_def list_events_def
      get_idempotency_def)

lemma update_proposal_frame [simp]:
  "get_version k n (update_proposal p R) = get_version k n R"
  "list_events k (update_proposal p R) = list_events k R"
  "list_approvals k (update_proposal p R) = list_approvals k R"
  "get_idempotency i (update_proposal p R) = get_idempotency i R"
  by (simp_all add: update_proposal_def get_version_def list_events_def list_approvals_def
      get_idempotency_def)

lemma create_version_frame [simp]:
  "get_proposal k (create_version v R) = get_proposal k R"
  "list_events k (create_version v R) = list_events k R"
  "list_approvals k (create_version v R) = list_approvals k R"
  "get_idempotency i (create_version v R) = get_idempotency i R"
  by (simp_all add: create_version_def get_proposal_def list_events_def list_approvals_def
      get_idempotency_def)

lemma create_bundle_simps [simp]:
  "get_proposal k (create_proposal_with_version_event_idempotency p v e i R)
     = (if k = pr_proposal_id p then Some p else get_proposal k R)"
  "get_version k n (create_proposal_with_version_event_idempotency p v e i R)
     = (if k = pv_proposal_id v \<and> n = pv_version_no v then Some v else get_version k n R)"
  "list_events k (create_proposal_with_version_event_idempotency p v e i R)
     = (if k = ev_proposal_id e then list_events k R @ [e] else list_events k R)"
  "list_approvals k (create_proposal_with_version_event_idempotency p v e i R) = list_approvals k R"
  "get_idempotency key (create_proposal_with_version_event_idempotency p v e i R)
     = (if key = pi_idempotency_key i then Some i else get_idempotency key R)"
  by (auto simp: create_proposal_with_version_event_idempotency_def get_proposal_def
      get_version_def list_events_def list_approvals_def get_idempotency_def)

lemma get_version_create_version:
  "get_version k n (create_version v R)
     = (if k = pv_proposal_id v \<and> n = pv_version_no v then Some v else get_version k n R)"
  by (auto simp: get_version_def create_version_def)

subsection \<open>Compare-and-set\<close>

definition cas_matches ::
  "string \<Rightarrow> workflow_state option \<Rightarrow> int option \<Rightarrow> repository \<Rightarrow> bool" where
  "cas_matches pid expected_state expected_version R =
     (case (expected_state, expected_version) of
        (Some st, Some vn) \<Rightarrow>
          (case get_proposal pid R of
             None \<Rightarrow> False
           | Some c \<Rightarrow> pr_current_state c = st \<and> pr_current_version_no c = vn)
      | _ \<Rightarrow> True)"

definition write_transition ::
  "proposal \<Rightarrow> workflow_event \<Rightarrow> approval option \<Rightarrow> repository \<Rightarrow> repository" where
  "write_transition p e a R = update_proposal p
     (case a of None \<Rightarrow> append_event e R | Some ap \<Rightarrow> create_approval ap (append_event e R))"

lemma transition_proposal_eq:
  "transition_proposal p e a es en R =
     (if cas_matches (pr_proposal_id p) es en R
      then (Inr \<lparr>tr_proposal = p, tr_event = e, tr_approval = a\<rparr>, write_transition p e a R)
      else (Inl (StateConflictError
              ''STATE_CONFLICT: proposal aggregate changed during transition''), R))"
  by (simp add: transition_proposal_def cas_matches_def write_transition_def get_proposal_def
      Let_def split: option.splits)

lemma write_transition_simps [simp]:
  "get_proposal k (write_transition p e a R)
     = (if k = pr_proposal_id p then Some p else get_proposal k R)"
  "list_events k (write_transition p e a R)
     = (if k = ev_proposal_id e then list_events k R @ [e] else list_events k R)"
  "list_approvals k (write_transition p e a R) = list_approvals k R @
     (case a of None \<Rightarrow> [] | Some ap \<Rightarrow> if k = ap_proposal_id ap then [ap] else [])"
  "get_version k n (write_transition p e a R) = get_version k n R"
  "get_idempotency i (write_transition p e a R) = get_idempotency i R"
  by (simp_all add: write_transition_def proposal_store.get_put event_log.entries_append
      approval_log.entries_append split: option.splits)

lemma cas_matches_Some:
  "cas_matches pid (Some st) (Some vn) R \<longleftrightarrow>
     (\<exists>c. get_proposal pid R = Some c \<and> pr_current_state c = st \<and> pr_current_version_no c = vn)"
  by (simp add: cas_matches_def split: option.splits)

subsection \<open>Well-formed repositories\<close>

text \<open>
  Every dictionary has distinct keys, and the keys of the proposal side agree with the rows
  they hold.  Python dictionaries cannot violate the first part; the association lists keep it.
\<close>

definition proposals_keyed :: "repository \<Rightarrow> bool" where
  "proposals_keyed R \<longleftrightarrow>
     dict_wf (rp_proposals R) \<and> dict_wf (rp_versions R) \<and> dict_wf (rp_events R)
     \<and> dict_wf (rp_approvals R)
     \<and> (\<forall>k p. get_proposal k R = Some p \<longrightarrow> pr_proposal_id p = k)
     \<and> (\<forall>k n v. get_version k n R = Some v \<longrightarrow> pv_proposal_id v = k \<and> pv_version_no v = n)
     \<and> (\<forall>k. \<forall>e\<in>set (list_events k R). ev_proposal_id e = k)
     \<and> (\<forall>k. \<forall>a\<in>set (list_approvals k R). ap_proposal_id a = k)"

lemma proposals_keyed_empty [simp]: "proposals_keyed empty_repository"
  by (simp add: proposals_keyed_def empty_repository_def get_proposal_def get_version_def
      list_events_def list_approvals_def)

lemma proposals_keyed_create_version:
  "proposals_keyed R \<Longrightarrow> proposals_keyed (create_version v R)"
  by (auto simp: proposals_keyed_def create_version_def get_proposal_def get_version_def
      list_events_def list_approvals_def split: if_splits)

lemma proposals_keyed_append_event:
  "proposals_keyed R \<Longrightarrow> proposals_keyed (append_event e R)"
  by (auto simp: proposals_keyed_def append_event_def get_proposal_def get_version_def
      list_events_def list_approvals_def split: if_splits)

lemma proposals_keyed_create_approval:
  "proposals_keyed R \<Longrightarrow> proposals_keyed (create_approval a R)"
  by (auto simp: proposals_keyed_def create_approval_def get_proposal_def get_version_def
      list_events_def list_approvals_def split: if_splits)

lemma proposals_keyed_update_proposal:
  "proposals_keyed R \<Longrightarrow> proposals_keyed (update_proposal p R)"
  by (auto simp: proposals_keyed_def update_proposal_def get_proposal_def get_version_def
      list_events_def list_approvals_def split: if_splits)

lemma proposals_keyed_write_transition:
  "proposals_keyed R \<Longrightarrow> proposals_keyed (write_transition p e a R)"
  by (simp add: write_transition_def proposals_keyed_update_proposal
      proposals_keyed_create_approval proposals_keyed_append_event split: option.splits)

lemma proposals_keyed_create_bundle:
  "proposals_keyed R \<Longrightarrow>
     proposals_keyed (create_proposal_with_version_event_idempotency p v e i R)"
  by (auto simp: proposals_keyed_def create_proposal_with_version_event_idempotency_def
      get_proposal_def get_version_def list_events_def list_approvals_def split: if_splits)

subsection \<open>Version queries\<close>

lemma in_versions_iff:
  assumes "proposals_keyed R"
  shows "v \<in> set (filter (\<lambda>v. pv_proposal_id v = pid) (dict_values (rp_versions R)))
     \<longleftrightarrow> get_version pid (pv_version_no v) R = Some v"
proof -
  have "dict_wf (rp_versions R)"
    and "\<And>k n v. get_version k n R = Some v \<Longrightarrow> pv_proposal_id v = k \<and> pv_version_no v = n"
    using assms by (auto simp: proposals_keyed_def)
  then show ?thesis
    by (fastforce simp: in_dict_values_iff get_version_def)
qed

lemma list_versions_iff:
  "proposals_keyed R \<Longrightarrow>
     v \<in> set (list_versions pid R) \<longleftrightarrow> get_version pid (pv_version_no v) R = Some v"
  using in_versions_iff [of R v pid]
  by (simp add: list_versions_def ordered_versions_for_proposal_def)

lemma sorted_list_versions: "sorted (map pv_version_no (list_versions pid R))"
  by (simp add: list_versions_def ordered_versions_for_proposal_def)

lemma py_sorted_reverse_hd:
  fixes f :: "'a \<Rightarrow> 'k::linorder"
  assumes "py_sorted_reverse f xs = y # ys"
  shows "y \<in> set xs" and "\<And>x. x \<in> set xs \<Longrightarrow> f x \<le> f y"
proof -
  have eq: "sort_key f (rev xs) = rev ys @ [y]"
    using assms unfolding py_sorted_reverse_def by (simp add: rev_swap)
  then have set: "set xs = insert y (set ys)"
    using set_sort [of f "rev xs"] by auto
  then show "y \<in> set xs" by simp
  have "sorted (map f (rev ys @ [y]))"
    using sorted_sort_key [of f "rev xs"] eq by simp
  then show "f x \<le> f y" if "x \<in> set xs" for x
    using that set by (auto simp: sorted_append)
qed

lemma get_current_version_Some:
  assumes "proposals_keyed R" and "get_current_version pid R = Some v"
  shows "get_version pid (pv_version_no v) R = Some v"
    and "\<And>n w. get_version pid n R = Some w \<Longrightarrow> n \<le> pv_version_no v"
proof -
  let ?xs = "filter (\<lambda>v. pv_proposal_id v = pid) (dict_values (rp_versions R))"
  obtain ys where ys: "py_sorted_reverse pv_version_no ?xs = v # ys"
    using assms(2) by (auto simp: get_current_version_def current_version_for_proposal_def
        split: list.splits)
  note hd = py_sorted_reverse_hd [OF ys]
  show "get_version pid (pv_version_no v) R = Some v"
    using hd(1) in_versions_iff [OF assms(1)] by blast
  show "n \<le> pv_version_no v" if "get_version pid n R = Some w" for n w
  proof -
    have "pv_version_no w = n"
      using assms(1) that by (auto simp: proposals_keyed_def)
    with that have "w \<in> set ?xs"
      using in_versions_iff [OF assms(1), of w pid] by simp
    then show ?thesis using hd(2) [of w] \<open>pv_version_no w = n\<close> by simp
  qed
qed

end
