(* ===== verification/Replay.thy ===== *)
theory Replay
  imports Repository
begin

text \<open>
  Command replay (\<open>proposals/idempotency.py\<close>): an event or approval written under an
  idempotency key carries the key and the request hash in its JSON metadata; a later command
  with the key finds the newest such record, or a conflict when the hash differs.
\<close>

subsection \<open>Scanning a log\<close>

definition metadata_matches_replay :: "jobject \<Rightarrow> string \<Rightarrow> string \<Rightarrow> error + bool" where
  "metadata_matches_replay metadata idempotency_key request_hash =
     (if dict_get metadata ''idempotency_key'' \<noteq> Some (JStr idempotency_key) then Inr False
      else case dict_get metadata ''idempotency_request_hash'' of
        None \<Rightarrow> Inr True
      | Some JNull \<Rightarrow> Inr True
      | Some h \<Rightarrow>
          if h \<noteq> JStr request_hash
          then Inl (ReplayHashConflictError ''IDEMPOTENCY_KEY_CONFLICT: request hash mismatch'')
          else Inr True)"

fun scan_replayed :: "('r \<Rightarrow> jobject) \<Rightarrow> string \<Rightarrow> string \<Rightarrow> 'r list \<Rightarrow> error + 'r option" where
  "scan_replayed metadata key hash [] = Inr None"
| "scan_replayed metadata key hash (r # rs) =
     (case metadata_matches_replay (metadata r) key hash of
        Inl e \<Rightarrow> Inl e
      | Inr matches \<Rightarrow> if matches then Inr (Some r) else scan_replayed metadata key hash rs)"

definition find_replayed_record ::
  "('r \<Rightarrow> jobject) \<Rightarrow> 'r list \<Rightarrow> string option \<Rightarrow> string \<Rightarrow> error + 'r option" where
  "find_replayed_record metadata records idempotency_key request_hash =
     (case idempotency_key of
        None \<Rightarrow> Inr None
      | Some key \<Rightarrow>
          if key = [] then Inr None
          else scan_replayed metadata key request_hash (rev records))"

definition find_replayed_event ::
  "workflow_event list \<Rightarrow> string option \<Rightarrow> string \<Rightarrow> error + workflow_event option" where
  "find_replayed_event events key hash = find_replayed_record ev_reason_json events key hash"

definition load_replayed_event ::
  "repository \<Rightarrow> string \<Rightarrow> string option \<Rightarrow> string \<Rightarrow> error + workflow_event option" where
  "load_replayed_event R proposal_id key hash =
     find_replayed_event (list_events proposal_id R) key hash"

definition find_replayed_approval ::
  "approval list \<Rightarrow> string option \<Rightarrow> string \<Rightarrow> error + approval option" where
  "find_replayed_approval approvals key hash =
     find_replayed_record ap_details_json approvals key hash"

definition load_replayed_approval ::
  "repository \<Rightarrow> string \<Rightarrow> string option \<Rightarrow> string \<Rightarrow> error + approval option" where
  "load_replayed_approval R proposal_id key hash =
     find_replayed_approval (list_approvals proposal_id R) key hash"

text \<open>
  The commands catch \<open>ProposalReplayHashConflictError\<close> around these loads (helpers
  \<open>_load_replayed_event\<close>, \<open>_load_replayed_approval\<close> and their copies).
\<close>

definition as_idempotency_conflict :: "error \<Rightarrow> error" where
  "as_idempotency_conflict e = (case e of
      ReplayHashConflictError m \<Rightarrow> IdempotencyConflictError m | _ \<Rightarrow> e)"

definition command_replayed_event ::
  "repository \<Rightarrow> string \<Rightarrow> string option \<Rightarrow> string \<Rightarrow> error + workflow_event option" where
  "command_replayed_event R proposal_id key hash =
     lift_error as_idempotency_conflict (load_replayed_event R proposal_id key hash)"

definition command_replayed_approval ::
  "repository \<Rightarrow> string \<Rightarrow> string option \<Rightarrow> string \<Rightarrow> error + approval option" where
  "command_replayed_approval R proposal_id key hash =
     lift_error as_idempotency_conflict (load_replayed_approval R proposal_id key hash)"

subsection \<open>Stamping\<close>

text \<open>
  The two assignments every builder makes when a key is present:
  \<open>reason_json["idempotency_key"] = key; reason_json["idempotency_request_hash"] = hash\<close>.
\<close>

definition stamp_idempotency :: "string option \<Rightarrow> string \<Rightarrow> jobject \<Rightarrow> jobject" where
  "stamp_idempotency idempotency_key request_hash metadata =
     (case idempotency_key of
        None \<Rightarrow> metadata
      | Some key \<Rightarrow>
          if key = [] then metadata
          else dict_set ''idempotency_request_hash'' (JStr request_hash)
                 (dict_set ''idempotency_key'' (JStr key) metadata))"

definition carries_key :: "jobject \<Rightarrow> string \<Rightarrow> bool" where
  "carries_key metadata key \<longleftrightarrow> dict_get metadata ''idempotency_key'' = Some (JStr key)"

lemma carries_key_stamp [simp]:
  "key \<noteq> [] \<Longrightarrow> carries_key (stamp_idempotency (Some key) h md) k \<longleftrightarrow> k = key"
  by (auto simp: carries_key_def stamp_idempotency_def)

lemma stamp_None [simp]: "stamp_idempotency None h md = md"
  by (simp add: stamp_idempotency_def)

lemma matches_stamped [simp]:
  "key \<noteq> [] \<Longrightarrow> metadata_matches_replay (stamp_idempotency (Some key) h md) key h' =
     (if h = h' then Inr True
      else Inl (ReplayHashConflictError ''IDEMPOTENCY_KEY_CONFLICT: request hash mismatch''))"
  by (simp add: metadata_matches_replay_def stamp_idempotency_def)

lemma matches_other: "\<not> carries_key md key \<Longrightarrow> metadata_matches_replay md key h = Inr False"
  by (simp add: metadata_matches_replay_def carries_key_def)

lemma matches_True_carries: "metadata_matches_replay md key h = Inr True \<Longrightarrow> carries_key md key"
  by (auto simp: metadata_matches_replay_def carries_key_def split: if_splits)

text \<open>Both tests read the metadata through \<open>get\<close>, so dropping \<open>None\<close> values is invisible.\<close>

lemma carries_key_json_get: "carries_key md key \<longleftrightarrow> json_get md ''idempotency_key'' = JStr key"
  by (simp add: carries_key_def json_get_def split: option.splits)

lemma metadata_matches_json_get:
  "metadata_matches_replay md key h =
     (if json_get md ''idempotency_key'' \<noteq> JStr key then Inr False
      else if json_get md ''idempotency_request_hash'' \<in> {JNull, JStr h} then Inr True
      else Inl (ReplayHashConflictError ''IDEMPOTENCY_KEY_CONFLICT: request hash mismatch''))"
  by (auto simp: metadata_matches_replay_def json_get_def split: option.splits json.splits)

lemma distinct_stamp: "distinct (map fst md) \<Longrightarrow> distinct (map fst (stamp_idempotency key h md))"
  by (simp add: stamp_idempotency_def distinct_update split: option.splits)

lemma json_get_stamp:
  "k \<noteq> ''idempotency_key'' \<Longrightarrow> k \<noteq> ''idempotency_request_hash'' \<Longrightarrow>
     json_get (stamp_idempotency key h md) k = json_get md k"
  by (simp add: stamp_idempotency_def split: option.splits)

lemma carries_key_drop_none:
  "distinct (map fst md) \<Longrightarrow> carries_key (drop_none md) key \<longleftrightarrow> carries_key md key"
  by (simp add: carries_key_json_get)

lemma metadata_matches_drop_none:
  "distinct (map fst md) \<Longrightarrow>
     metadata_matches_replay (drop_none md) key h = metadata_matches_replay md key h"
  by (simp add: metadata_matches_json_get)

subsection \<open>The log decides by its newest record under the key\<close>

lemma scan_replayed_eq:
  "scan_replayed metadata key h rs =
     (case find_first (\<lambda>r. carries_key (metadata r) key) rs of
        None \<Rightarrow> Inr None
      | Some r \<Rightarrow> (case metadata_matches_replay (metadata r) key h of
                     Inl e \<Rightarrow> Inl e | Inr _ \<Rightarrow> Inr (Some r)))"
proof (induction rs)
  case (Cons r rs)
  show ?case
  proof (cases "carries_key (metadata r) key")
    case True
    then have "metadata_matches_replay (metadata r) key h \<noteq> Inr False"
      by (auto simp: metadata_matches_replay_def carries_key_def split: option.splits json.splits)
    with True show ?thesis by (auto split: sum.splits)
  next
    case False
    with Cons show ?thesis by (simp add: matches_other)
  qed
qed simp

text \<open>
  A command log: records carry replay metadata and are appended.  The client facts are stated
  once, for any record type.
\<close>

locale replay_log =
  fixes metadata :: "'r \<Rightarrow> jobject"
    and find :: "'r list \<Rightarrow> string option \<Rightarrow> string \<Rightarrow> error + 'r option"
  assumes find_eq: "find rs key h = find_replayed_record metadata rs key h"
begin

lemma find_no_key [simp]: "find rs None h = Inr None"
  by (simp add: find_eq find_replayed_record_def)

lemma find_append_other:
  "\<not> carries_key (metadata r) key \<Longrightarrow> find (rs @ [r]) (Some key) h = find rs (Some key) h"
  by (simp add: find_eq find_replayed_record_def scan_replayed_eq)

lemma find_append_stamped:
  assumes "metadata r = stamp_idempotency (Some key) h md" and "key \<noteq> []"
  shows "find (rs @ [r]) (Some key) h = Inr (Some r)"
  using assms by (simp add: find_eq find_replayed_record_def)

lemma find_append_conflict:
  assumes "metadata r = stamp_idempotency (Some key) h md" and "key \<noteq> []" and "h \<noteq> h'"
  shows "find (rs @ [r]) (Some key) h' =
     Inl (ReplayHashConflictError ''IDEMPOTENCY_KEY_CONFLICT: request hash mismatch'')"
  using assms by (simp add: find_eq find_replayed_record_def)

lemma find_append_rest:
  assumes "\<forall>r\<in>set new. \<not> carries_key (metadata r) key"
  shows "find (rs @ new) (Some key) h = find rs (Some key) h"
  using assms
  by (induction new rule: rev_induct) (simp_all add: find_append_other append_assoc [symmetric]
      del: append_assoc)

lemma find_SomeD:
  assumes "find rs key h = Inr (Some r)"
  shows "r \<in> set rs" and "\<exists>k. key = Some k \<and> k \<noteq> [] \<and> carries_key (metadata r) k"
  using assms
  by (auto simp: find_eq find_replayed_record_def scan_replayed_eq
      split: option.splits if_splits sum.splits dest!: find_first_SomeD)

lemma find_InlD:
  assumes "find rs key h = Inl e"
  shows "e = ReplayHashConflictError ''IDEMPOTENCY_KEY_CONFLICT: request hash mismatch''"
  using assms
  by (auto simp: find_eq find_replayed_record_def scan_replayed_eq metadata_matches_replay_def
      split: option.splits if_splits sum.splits json.splits)

end

interpretation event_replay: replay_log ev_reason_json find_replayed_event
  by unfold_locales (simp add: find_replayed_event_def)

interpretation approval_replay: replay_log ap_details_json find_replayed_approval
  by unfold_locales (simp add: find_replayed_approval_def)

subsection \<open>The translated loads\<close>

lemma command_replayed_event_no_key [simp]: "command_replayed_event R pid None h = Inr None"
  by (simp add: command_replayed_event_def load_replayed_event_def)

lemma command_replayed_approval_no_key [simp]: "command_replayed_approval R pid None h = Inr None"
  by (simp add: command_replayed_approval_def load_replayed_approval_def)

lemma command_replayed_event_Inl:
  "command_replayed_event R pid key h = Inl e \<Longrightarrow>
     e = IdempotencyConflictError ''IDEMPOTENCY_KEY_CONFLICT: request hash mismatch''"
  by (auto simp: command_replayed_event_def load_replayed_event_def lift_error_def
      as_idempotency_conflict_def dest!: event_replay.find_InlD split: sum.splits)

lemma command_replayed_approval_Inl:
  "command_replayed_approval R pid key h = Inl e \<Longrightarrow>
     e = IdempotencyConflictError ''IDEMPOTENCY_KEY_CONFLICT: request hash mismatch''"
  by (auto simp: command_replayed_approval_def load_replayed_approval_def lift_error_def
      as_idempotency_conflict_def dest!: approval_replay.find_InlD split: sum.splits)

lemma command_replayed_event_stamped:
  assumes "list_events pid R = es @ [e]"
    and "ev_reason_json e = stamp_idempotency (Some key) h md" and "key \<noteq> []"
  shows "command_replayed_event R pid (Some key) h = Inr (Some e)"
  using assms
  by (simp add: command_replayed_event_def load_replayed_event_def event_replay.find_append_stamped)

lemma command_replayed_event_conflict:
  assumes "list_events pid R = es @ [e]"
    and "ev_reason_json e = stamp_idempotency (Some key) h md" and "key \<noteq> []" and "h \<noteq> h'"
  shows "command_replayed_event R pid (Some key) h' =
     Inl (IdempotencyConflictError ''IDEMPOTENCY_KEY_CONFLICT: request hash mismatch'')"
  using assms
  by (simp add: command_replayed_event_def load_replayed_event_def
      event_replay.find_append_conflict as_idempotency_conflict_def)

lemma command_replayed_approval_stamped:
  assumes "list_approvals pid R = as @ [a]"
    and "ap_details_json a = stamp_idempotency (Some key) h md" and "key \<noteq> []"
  shows "command_replayed_approval R pid (Some key) h = Inr (Some a)"
  using assms
  by (simp add: command_replayed_approval_def load_replayed_approval_def
      approval_replay.find_append_stamped)

lemma command_replayed_approval_conflict:
  assumes "list_approvals pid R = as @ [a]"
    and "ap_details_json a = stamp_idempotency (Some key) h md" and "key \<noteq> []" and "h \<noteq> h'"
  shows "command_replayed_approval R pid (Some key) h' =
     Inl (IdempotencyConflictError ''IDEMPOTENCY_KEY_CONFLICT: request hash mismatch'')"
  using assms
  by (simp add: command_replayed_approval_def load_replayed_approval_def
      approval_replay.find_append_conflict as_idempotency_conflict_def)

end
