(* ===== verification/Projections.thy ===== *)
theory Projections
  imports Repository
begin

text \<open>
  API projections of the stored rows (\<open>proposals/projections.py\<close>) and the response shapes
  they build (\<open>lifecycle_response_models.py\<close>, \<open>workflow_response_models.py\<close>,
  \<open>operation_response_models.py\<close>).  Timestamps leave as ISO text; the JSON columns a
  response re-validates into result and artifact models are carried as JSON.
\<close>

subsection \<open>Response shapes\<close>

record proposal_summary =
  ps_proposal_id :: string
  ps_portfolio_id :: string
  ps_mandate_id :: "string option"
  ps_jurisdiction :: "string option"
  ps_created_by :: string
  ps_created_at :: string
  ps_last_event_at :: string
  ps_current_state :: workflow_state
  ps_current_version_no :: int
  ps_title :: "string option"
  ps_lifecycle_origin :: lifecycle_origin
  ps_source_workspace_id :: "string option"

record proposal_list_response =
  pl_items :: "proposal_summary list"
  pl_next_cursor :: "string option"

record version_detail =
  vd_proposal_version_id :: string
  vd_proposal_id :: string
  vd_version_no :: int
  vd_created_at :: string
  vd_request_hash :: string
  vd_artifact_hash :: string
  vd_simulation_hash :: string
  vd_status_at_creation :: creation_status
  vd_proposal_result :: jobject
  vd_artifact :: jobject
  vd_evidence_bundle :: jobject
  vd_gate_decision :: "jobject option"

record workflow_event_view =
  we_event_id :: string
  we_proposal_id :: string
  we_event_type :: event_type
  we_from_state :: "workflow_state option"
  we_to_state :: workflow_state
  we_actor_id :: string
  we_occurred_at :: string
  we_reason :: jobject
  we_related_version_no :: "int option"

record approval_view =
  av_approval_id :: string
  av_proposal_id :: string
  av_approval_type :: approval_type
  av_approved :: bool
  av_actor_id :: string
  av_occurred_at :: string
  av_details :: jobject
  av_related_version_no :: "int option"

record create_response =
  cr_proposal :: proposal_summary
  cr_version :: version_detail
  cr_latest_workflow_event :: workflow_event_view

record idempotency_lookup_response =
  il_idempotency_key :: string
  il_request_hash :: string
  il_proposal_id :: string
  il_proposal_version_no :: int
  il_created_at :: string

record lineage_item =
  li_proposal_version_id :: string
  li_version_no :: int
  li_created_at :: string
  li_status_at_creation :: creation_status
  li_request_hash :: string
  li_simulation_hash :: string
  li_artifact_hash :: string

record lineage_response =
  lr_proposal :: proposal_summary
  lr_version_count :: nat
  lr_latest_version_no :: "int option"
  lr_latest_version_created_at :: "string option"
  lr_lineage_complete :: bool
  lr_missing_version_numbers :: "int list"
  lr_versions :: "lineage_item list"

record timeline_response =
  tl_proposal :: proposal_summary
  tl_current_state :: workflow_state
  tl_event_count :: nat
  tl_latest_event :: "workflow_event_view option"
  tl_events :: "workflow_event_view list"

record approvals_response =
  ar_proposal :: proposal_summary
  ar_approval_count :: nat
  ar_latest_approval_at :: "string option"
  ar_approvals :: "approval_view list"

record async_accepted_response =
  aa_operation_id :: string
  aa_operation_type :: async_type
  aa_status :: async_status
  aa_correlation_id :: string
  aa_created_at :: string
  aa_attempt_count :: int
  aa_max_attempts :: int
  aa_status_url :: string

record async_status_response =
  as_operation_id :: string
  as_operation_type :: async_type
  as_status :: async_status
  as_correlation_id :: string
  as_idempotency_key :: "string option"
  as_proposal_id :: "string option"
  as_created_by :: string
  as_created_at :: string
  as_started_at :: "string option"
  as_finished_at :: "string option"
  as_attempt_count :: int
  as_max_attempts :: int
  as_lease_expires_at :: "string option"
  as_result :: "jobject option"
  as_error :: "jobject option"

subsection \<open>Projections\<close>

definition to_proposal_summary :: "runtime \<Rightarrow> proposal \<Rightarrow> proposal_summary" where
  "to_proposal_summary rt p = \<lparr>
     ps_proposal_id = pr_proposal_id p,
     ps_portfolio_id = pr_portfolio_id p,
     ps_mandate_id = pr_mandate_id p,
     ps_jurisdiction = pr_jurisdiction p,
     ps_created_by = pr_created_by p,
     ps_created_at = rt_isoformat rt (pr_created_at p),
     ps_last_event_at = rt_isoformat rt (pr_last_event_at p),
     ps_current_state = pr_current_state p,
     ps_current_version_no = pr_current_version_no p,
     ps_title = pr_title p,
     ps_lifecycle_origin = pr_lifecycle_origin p,
     ps_source_workspace_id = pr_source_workspace_id p \<rparr>"

definition build_proposal_list_response ::
  "runtime \<Rightarrow> proposal list \<Rightarrow> string option \<Rightarrow> proposal_list_response" where
  "build_proposal_list_response rt proposals next_cursor =
     \<lparr>pl_items = map (to_proposal_summary rt) proposals, pl_next_cursor = next_cursor\<rparr>"

definition to_version_detail :: "runtime \<Rightarrow> proposal_version \<Rightarrow> bool \<Rightarrow> version_detail" where
  "to_version_detail rt v include_evidence = \<lparr>
     vd_proposal_version_id = pv_proposal_version_id v,
     vd_proposal_id = pv_proposal_id v,
     vd_version_no = pv_version_no v,
     vd_created_at = rt_isoformat rt (pv_created_at v),
     vd_request_hash = pv_request_hash v,
     vd_artifact_hash = pv_artifact_hash v,
     vd_simulation_hash = pv_simulation_hash v,
     vd_status_at_creation = pv_status_at_creation v,
     vd_proposal_result = pv_proposal_result_json v,
     vd_artifact = pv_artifact_json v,
     vd_evidence_bundle = (if include_evidence then pv_evidence_bundle_json v else []),
     vd_gate_decision = pv_gate_decision_json v \<rparr>"

definition to_workflow_event :: "runtime \<Rightarrow> workflow_event \<Rightarrow> workflow_event_view" where
  "to_workflow_event rt e = \<lparr>
     we_event_id = ev_event_id e,
     we_proposal_id = ev_proposal_id e,
     we_event_type = ev_event_type e,
     we_from_state = ev_from_state e,
     we_to_state = ev_to_state e,
     we_actor_id = ev_actor_id e,
     we_occurred_at = rt_isoformat rt (ev_occurred_at e),
     we_reason = ev_reason_json e,
     we_related_version_no = ev_related_version_no e \<rparr>"

definition to_approval_view :: "runtime \<Rightarrow> approval \<Rightarrow> approval_view" where
  "to_approval_view rt a = \<lparr>
     av_approval_id = ap_approval_id a,
     av_proposal_id = ap_proposal_id a,
     av_approval_type = ap_approval_type a,
     av_approved = ap_approved a,
     av_actor_id = ap_actor_id a,
     av_occurred_at = rt_isoformat rt (ap_occurred_at a),
     av_details = ap_details_json a,
     av_related_version_no = ap_related_version_no a \<rparr>"

definition to_approval_record :: "runtime \<Rightarrow> approval option \<Rightarrow> approval_view option" where
  "to_approval_record rt a = (case a of None \<Rightarrow> None | Some x \<Rightarrow> Some (to_approval_view rt x))"

definition to_create_response ::
  "runtime \<Rightarrow> proposal \<Rightarrow> proposal_version \<Rightarrow> workflow_event \<Rightarrow> create_response" where
  "to_create_response rt p v latest_event = \<lparr>
     cr_proposal = to_proposal_summary rt p,
     cr_version = to_version_detail rt v True,
     cr_latest_workflow_event = to_workflow_event rt latest_event \<rparr>"

definition build_create_response_from_referents ::
  "runtime \<Rightarrow> proposal option \<Rightarrow> proposal_version option \<Rightarrow> workflow_event list
     \<Rightarrow> create_response option" where
  "build_create_response_from_referents rt proposal version events =
     (case (proposal, version) of
        (Some p, Some v) \<Rightarrow>
          if events = [] then None else Some (to_create_response rt p v (last events))
      | _ \<Rightarrow> None)"

definition to_idempotency_lookup_response ::
  "runtime \<Rightarrow> proposal_idempotency \<Rightarrow> idempotency_lookup_response" where
  "to_idempotency_lookup_response rt r = \<lparr>
     il_idempotency_key = pi_idempotency_key r,
     il_request_hash = pi_request_hash r,
     il_proposal_id = pi_proposal_id r,
     il_proposal_version_no = pi_proposal_version_no r,
     il_created_at = rt_isoformat rt (pi_created_at r) \<rparr>"

definition to_lineage_item :: "runtime \<Rightarrow> proposal_version \<Rightarrow> lineage_item" where
  "to_lineage_item rt v = \<lparr>
     li_proposal_version_id = pv_proposal_version_id v,
     li_version_no = pv_version_no v,
     li_created_at = rt_isoformat rt (pv_created_at v),
     li_status_at_creation = pv_status_at_creation v,
     li_request_hash = pv_request_hash v,
     li_simulation_hash = pv_simulation_hash v,
     li_artifact_hash = pv_artifact_hash v \<rparr>"

text \<open>The loop over \<open>range(1, current_version_no + 1)\<close>: found versions and missing numbers.\<close>

fun collect_lineage ::
  "runtime \<Rightarrow> (int, proposal_version) dict \<Rightarrow> int list \<Rightarrow> lineage_item list \<times> int list" where
  "collect_lineage rt by_number [] = ([], [])"
| "collect_lineage rt by_number (n # ns) =
     (let (versions, missing) = collect_lineage rt by_number ns in
      case dict_get by_number n of
        None \<Rightarrow> (versions, n # missing)
      | Some v \<Rightarrow> (to_lineage_item rt v # versions, missing))"

definition build_proposal_lineage_response ::
  "runtime \<Rightarrow> proposal \<Rightarrow> (int, proposal_version) dict \<Rightarrow> lineage_response" where
  "build_proposal_lineage_response rt p by_number =
     (let (versions, missing) = collect_lineage rt by_number [1..pr_current_version_no p] in
      \<lparr>lr_proposal = to_proposal_summary rt p,
       lr_version_count = length versions,
       lr_latest_version_no = (if versions = [] then None else Some (li_version_no (last versions))),
       lr_latest_version_created_at =
         (if versions = [] then None else Some (li_created_at (last versions))),
       lr_lineage_complete = (missing = []),
       lr_missing_version_numbers = missing,
       lr_versions = versions\<rparr>)"

definition build_workflow_timeline_response ::
  "runtime \<Rightarrow> proposal \<Rightarrow> workflow_event list \<Rightarrow> timeline_response" where
  "build_workflow_timeline_response rt p events =
     (let timeline_events = map (to_workflow_event rt) events in
      \<lparr>tl_proposal = to_proposal_summary rt p,
       tl_current_state = pr_current_state p,
       tl_event_count = length timeline_events,
       tl_latest_event = (if timeline_events = [] then None else Some (last timeline_events)),
       tl_events = timeline_events\<rparr>)"

definition build_approvals_response ::
  "runtime \<Rightarrow> proposal \<Rightarrow> approval option list \<Rightarrow> approvals_response" where
  "build_approvals_response rt p approvals =
     (let projected = List.map_filter (to_approval_record rt) approvals in
      \<lparr>ar_proposal = to_proposal_summary rt p,
       ar_approval_count = length projected,
       ar_latest_approval_at =
         (if projected = [] then None else Some (av_occurred_at (last projected))),
       ar_approvals = projected\<rparr>)"

definition to_async_accepted_response :: "runtime \<Rightarrow> async_operation \<Rightarrow> async_accepted_response" where
  "to_async_accepted_response rt op = \<lparr>
     aa_operation_id = op_operation_id op,
     aa_operation_type = op_operation_type op,
     aa_status = op_status op,
     aa_correlation_id = op_correlation_id op,
     aa_created_at = rt_isoformat rt (op_created_at op),
     aa_attempt_count = op_attempt_count op,
     aa_max_attempts = op_max_attempts op,
     aa_status_url = ''/advisory/proposals/operations/'' @ op_operation_id op \<rparr>"

definition to_async_status_response :: "runtime \<Rightarrow> async_operation \<Rightarrow> async_status_response" where
  "to_async_status_response rt op = \<lparr>
     as_operation_id = op_operation_id op,
     as_operation_type = op_operation_type op,
     as_status = op_status op,
     as_correlation_id = op_correlation_id op,
     as_idempotency_key = op_idempotency_key op,
     as_proposal_id = op_proposal_id op,
     as_created_by = op_created_by op,
     as_created_at = rt_isoformat rt (op_created_at op),
     as_started_at = map_option (rt_isoformat rt) (op_started_at op),
     as_finished_at = map_option (rt_isoformat rt) (op_finished_at op),
     as_attempt_count = op_attempt_count op,
     as_max_attempts = op_max_attempts op,
     as_lease_expires_at = map_option (rt_isoformat rt) (op_lease_expires_at op),
     as_result = op_result_json op,
     as_error = op_error_json op \<rparr>"

subsection \<open>Lineage partitions the version numbers\<close>

lemma collect_lineage_missing:
  "snd (collect_lineage rt by_number ns) = filter (\<lambda>n. dict_get by_number n = None) ns"
  by (induction ns) (auto simp: split_beta split: option.splits)

lemma collect_lineage_found:
  "fst (collect_lineage rt by_number ns)
     = map (\<lambda>n. to_lineage_item rt (the (dict_get by_number n)))
         (filter (\<lambda>n. dict_get by_number n \<noteq> None) ns)"
  by (induction ns) (auto simp: split_beta split: option.splits)

lemma lineage_response_fields:
  "lr_missing_version_numbers (build_proposal_lineage_response rt p by_number)
     = filter (\<lambda>n. dict_get by_number n = None) [1..pr_current_version_no p]"
  "lr_lineage_complete (build_proposal_lineage_response rt p by_number) \<longleftrightarrow>
     (\<forall>n. 1 \<le> n \<and> n \<le> pr_current_version_no p \<longrightarrow> dict_get by_number n \<noteq> None)"
  "lr_version_count (build_proposal_lineage_response rt p by_number)
     = length (filter (\<lambda>n. dict_get by_number n \<noteq> None) [1..pr_current_version_no p])"
proof -
  let ?c = "collect_lineage rt by_number [1..pr_current_version_no p]"
  show missing: "lr_missing_version_numbers (build_proposal_lineage_response rt p by_number)
     = filter (\<lambda>n. dict_get by_number n = None) [1..pr_current_version_no p]"
    using collect_lineage_missing [of rt by_number "[1..pr_current_version_no p]"]
    by (cases ?c) (simp add: build_proposal_lineage_response_def)
  have "lr_lineage_complete (build_proposal_lineage_response rt p by_number)
      \<longleftrightarrow> lr_missing_version_numbers (build_proposal_lineage_response rt p by_number) = []"
    by (cases ?c) (simp add: build_proposal_lineage_response_def)
  then show "lr_lineage_complete (build_proposal_lineage_response rt p by_number) \<longleftrightarrow>
     (\<forall>n. 1 \<le> n \<and> n \<le> pr_current_version_no p \<longrightarrow> dict_get by_number n \<noteq> None)"
    unfolding missing by (auto simp: filter_empty_conv)
  show "lr_version_count (build_proposal_lineage_response rt p by_number)
     = length (filter (\<lambda>n. dict_get by_number n \<noteq> None) [1..pr_current_version_no p])"
    using collect_lineage_found [of rt by_number "[1..pr_current_version_no p]"]
    by (cases ?c) (simp add: build_proposal_lineage_response_def)
qed

end
