(* ===== verification/Lifecycle.thy ===== *)
theory Lifecycle
  imports Replay Projections
begin

text \<open>
  The two lifecycle commands, manual transition and approval
  (\<open>proposals/lifecycle_command.py\<close>), with the event builders of \<open>lifecycle_events.py\<close> and
  the persistence calls of \<open>transition_persistence.py\<close>.  A command reads a snapshot of the
  aggregate, decides, and writes through the repository's compare-and-set; the prepare half and
  the commit half are kept apart so that interleavings between them can be stated.
\<close>

subsection \<open>Requests and responses\<close>

record transition_request =
  tq_event_type :: event_type
  tq_actor_id :: string
  tq_related_version_no :: "int option"
  tq_reason :: jobject
  tq_expected_state :: "workflow_state option"

record approval_request =
  aq_approval_type :: approval_type
  aq_approved :: bool
  aq_actor_id :: string
  aq_related_version_no :: "int option"
  aq_details :: jobject
  aq_expected_state :: "workflow_state option"

record transition_response =
  tp_proposal_id :: string
  tp_current_state :: workflow_state
  tp_latest_workflow_event :: workflow_event_view
  tp_approval :: "approval_view option"

definition dump_transition_request :: "transition_request \<Rightarrow> json" where
  "dump_transition_request q = JObj
     [(''event_type'', JStr (event_type_str (tq_event_type q))),
      (''actor_id'', JStr (tq_actor_id q)),
      (''related_version_no'', json_opt JInt (tq_related_version_no q)),
      (''reason'', JObj (tq_reason q)),
      (''expected_state'', json_opt (\<lambda>s. JStr (workflow_state_str s)) (tq_expected_state q))]"

definition dump_approval_request :: "approval_request \<Rightarrow> json" where
  "dump_approval_request q = JObj
     [(''approval_type'', JStr (approval_type_str (aq_approval_type q))),
      (''approved'', JBool (aq_approved q)),
      (''actor_id'', JStr (aq_actor_id q)),
      (''related_version_no'', json_opt JInt (aq_related_version_no q)),
      (''details'', JObj (aq_details q)),
      (''expected_state'', json_opt (\<lambda>s. JStr (workflow_state_str s)) (aq_expected_state q))]"

definition build_state_transition_request_hash :: "runtime \<Rightarrow> transition_request \<Rightarrow> string" where
  "build_state_transition_request_hash rt q = hash_canonical_payload rt (dump_transition_request q)"

definition build_approval_request_hash :: "runtime \<Rightarrow> approval_request \<Rightarrow> string" where
  "build_approval_request_hash rt q = hash_canonical_payload rt (dump_approval_request q)"

subsection \<open>Events\<close>

definition correlation_reason :: "string option \<Rightarrow> jobject" where
  "correlation_reason correlation_id = (case correlation_id of
      None \<Rightarrow> []
    | Some c \<Rightarrow> if c = [] then [] else [(''correlation_id'', JStr c)])"

definition build_proposal_created_event ::
  "string \<Rightarrow> string \<Rightarrow> string \<Rightarrow> datetime \<Rightarrow> int \<Rightarrow> string option \<Rightarrow> workflow_event" where
  "build_proposal_created_event event_id proposal_id actor_id occurred_at version_no correlation_id = \<lparr>
     ev_event_id = event_id,
     ev_proposal_id = proposal_id,
     ev_event_type = EV_CREATED,
     ev_from_state = None,
     ev_to_state = WS_DRAFT,
     ev_actor_id = actor_id,
     ev_occurred_at = occurred_at,
     ev_reason_json = correlation_reason correlation_id,
     ev_related_version_no = Some version_no \<rparr>"

definition build_new_version_created_event ::
  "string \<Rightarrow> proposal \<Rightarrow> string \<Rightarrow> datetime \<Rightarrow> int \<Rightarrow> string option \<Rightarrow> workflow_event" where
  "build_new_version_created_event event_id p actor_id occurred_at version_no correlation_id = \<lparr>
     ev_event_id = event_id,
     ev_proposal_id = pr_proposal_id p,
     ev_event_type = EV_NEW_VERSION_CREATED,
     ev_from_state = Some (pr_current_state p),
     ev_to_state = WS_DRAFT,
     ev_actor_id = actor_id,
     ev_occurred_at = occurred_at,
     ev_reason_json = correlation_reason correlation_id,
     ev_related_version_no = Some version_no \<rparr>"

definition build_state_transition_event ::
  "string \<Rightarrow> proposal \<Rightarrow> transition_request \<Rightarrow> workflow_state \<Rightarrow> datetime \<Rightarrow> string option \<Rightarrow> string
     \<Rightarrow> workflow_event" where
  "build_state_transition_event event_id p q to_state occurred_at idempotency_key request_hash = \<lparr>
     ev_event_id = event_id,
     ev_proposal_id = pr_proposal_id p,
     ev_event_type = tq_event_type q,
     ev_from_state = Some (pr_current_state p),
     ev_to_state = to_state,
     ev_actor_id = tq_actor_id q,
     ev_occurred_at = occurred_at,
     ev_reason_json = stamp_idempotency idempotency_key request_hash (tq_reason q),
     ev_related_version_no = tq_related_version_no q \<rparr>"

definition build_approval_record ::
  "string \<Rightarrow> string \<Rightarrow> approval_request \<Rightarrow> datetime \<Rightarrow> string option \<Rightarrow> string \<Rightarrow> approval" where
  "build_approval_record approval_id proposal_id q occurred_at idempotency_key request_hash = \<lparr>
     ap_approval_id = approval_id,
     ap_proposal_id = proposal_id,
     ap_approval_type = aq_approval_type q,
     ap_approved = aq_approved q,
     ap_actor_id = aq_actor_id q,
     ap_occurred_at = occurred_at,
     ap_details_json = stamp_idempotency idempotency_key request_hash (aq_details q),
     ap_related_version_no = aq_related_version_no q \<rparr>"

definition build_approval_transition_event ::
  "string \<Rightarrow> proposal \<Rightarrow> approval_request \<Rightarrow> event_type \<Rightarrow> workflow_state \<Rightarrow> datetime \<Rightarrow> string option
     \<Rightarrow> string \<Rightarrow> workflow_event" where
  "build_approval_transition_event event_id p q event_type to_state occurred_at idempotency_key
       request_hash = \<lparr>
     ev_event_id = event_id,
     ev_proposal_id = pr_proposal_id p,
     ev_event_type = event_type,
     ev_from_state = Some (pr_current_state p),
     ev_to_state = to_state,
     ev_actor_id = aq_actor_id q,
     ev_occurred_at = occurred_at,
     ev_reason_json = stamp_idempotency idempotency_key request_hash (aq_details q),
     ev_related_version_no = aq_related_version_no q \<rparr>"

text \<open>The builders mutate the loaded aggregate; here they return it updated.\<close>

definition apply_lifecycle_transition_state ::
  "proposal \<Rightarrow> workflow_state \<Rightarrow> workflow_event \<Rightarrow> proposal" where
  "apply_lifecycle_transition_state p to_state e =
     p\<lparr>pr_current_state := to_state, pr_last_event_at := ev_occurred_at e\<rparr>"

definition build_state_transition_event_and_apply_state ::
  "string \<Rightarrow> proposal \<Rightarrow> transition_request \<Rightarrow> workflow_state \<Rightarrow> datetime \<Rightarrow> string option \<Rightarrow> string
     \<Rightarrow> workflow_event \<times> proposal" where
  "build_state_transition_event_and_apply_state event_id p q to_state occurred_at key hash =
     (let e = build_state_transition_event event_id p q to_state occurred_at key hash
      in (e, apply_lifecycle_transition_state p to_state e))"

record approval_command_state =
  ac_approval :: approval
  ac_event :: workflow_event

definition build_approval_command_state_and_apply_transition ::
  "string \<Rightarrow> string \<Rightarrow> proposal \<Rightarrow> approval_request \<Rightarrow> event_type \<Rightarrow> workflow_state \<Rightarrow> datetime
     \<Rightarrow> string option \<Rightarrow> string \<Rightarrow> approval_command_state \<times> proposal" where
  "build_approval_command_state_and_apply_transition approval_id event_id p q event_type to_state
       occurred_at key hash =
     (let a = build_approval_record approval_id (pr_proposal_id p) q occurred_at key hash;
          e = build_approval_transition_event event_id p q event_type to_state (ap_occurred_at a)
                key hash
      in (\<lparr>ac_approval = a, ac_event = e\<rparr>, apply_lifecycle_transition_state p to_state e))"

subsection \<open>Responses\<close>

definition build_state_transition_response ::
  "runtime \<Rightarrow> string \<Rightarrow> workflow_state \<Rightarrow> workflow_event \<Rightarrow> transition_response" where
  "build_state_transition_response rt proposal_id current_state e = \<lparr>
     tp_proposal_id = proposal_id,
     tp_current_state = current_state,
     tp_latest_workflow_event = to_workflow_event rt e,
     tp_approval = None \<rparr>"

definition build_state_transition_replay_response ::
  "runtime \<Rightarrow> string \<Rightarrow> workflow_event \<Rightarrow> transition_response" where
  "build_state_transition_replay_response rt proposal_id e =
     build_state_transition_response rt proposal_id (ev_to_state e) e"

definition build_approval_transition_response ::
  "runtime \<Rightarrow> string \<Rightarrow> workflow_state \<Rightarrow> workflow_event \<Rightarrow> approval option \<Rightarrow> transition_response" where
  "build_approval_transition_response rt proposal_id current_state e a = \<lparr>
     tp_proposal_id = proposal_id,
     tp_current_state = current_state,
     tp_latest_workflow_event = to_workflow_event rt e,
     tp_approval = to_approval_record rt a \<rparr>"

definition build_approval_replay_response_from_referents ::
  "runtime \<Rightarrow> string \<Rightarrow> approval \<Rightarrow> workflow_event option \<Rightarrow> transition_response option" where
  "build_approval_replay_response_from_referents rt proposal_id a e_opt = (case e_opt of
      None \<Rightarrow> None
    | Some e \<Rightarrow> Some (build_approval_transition_response rt proposal_id (ev_to_state e) e (Some a)))"

subsection \<open>Persistence calls\<close>

definition persist_proposal_transition ::
  "proposal \<Rightarrow> workflow_event \<Rightarrow> repository \<Rightarrow> (error + transition_result) \<times> repository" where
  "persist_proposal_transition p e R =
     transition_proposal p e None (ev_from_state e) (Some (pr_current_version_no p)) R"

definition persist_proposal_approval_transition ::
  "proposal \<Rightarrow> workflow_event \<Rightarrow> approval \<Rightarrow> repository
     \<Rightarrow> (error + transition_result) \<times> repository" where
  "persist_proposal_approval_transition p e a R =
     transition_proposal p e (Some a) (ev_from_state e) (Some (pr_current_version_no p)) R"

subsection \<open>Manual transition\<close>

text \<open>
  \<open>prepare_transition\<close> is the body of \<open>transition_proposal_state\<close> up to the write: a replay
  response, or the aggregate and event to persist.
\<close>

definition prepare_transition ::
  "runtime \<Rightarrow> string \<Rightarrow> transition_request \<Rightarrow> string option \<Rightarrow> bool \<Rightarrow> datetime \<Rightarrow> string \<Rightarrow> repository
     \<Rightarrow> error + (transition_response + (proposal \<times> workflow_event))" where
  "prepare_transition rt proposal_id q key_in require_expected_state occurred_at event_id R =
     (let key = normalize_optional_idempotency_key key_in in
      case get_proposal proposal_id R of
        None \<Rightarrow> Inl (NotFoundError ''PROPOSAL_NOT_FOUND'')
      | Some p \<Rightarrow>
          (let hash = build_state_transition_request_hash rt q in
           case command_replayed_event R proposal_id key hash of
             Inl e \<Rightarrow> Inl e
           | Inr (Some replay_event) \<Rightarrow>
               Inr (Inl (build_state_transition_replay_response rt proposal_id replay_event))
           | Inr None \<Rightarrow>
               (case validate_proposal_expected_state (pr_current_state p) (tq_expected_state q)
                       require_expected_state of
                  Inl e \<Rightarrow> Inl e
                | Inr _ \<Rightarrow>
                    (case resolve_proposal_transition_state (pr_current_state p) (tq_event_type q) of
                       Inl e \<Rightarrow> Inl e
                     | Inr to_state \<Rightarrow>
                         (let (e, p') = build_state_transition_event_and_apply_state event_id p q
                                          to_state occurred_at key hash
                          in Inr (Inr (p', e)))))))"

definition commit_transition ::
  "runtime \<Rightarrow> string \<Rightarrow> proposal \<times> workflow_event \<Rightarrow> repository
     \<Rightarrow> (error + transition_response) \<times> repository" where
  "commit_transition rt proposal_id w R =
     (case persist_proposal_transition (fst w) (snd w) R of
        (Inl err, R') \<Rightarrow> (Inl err, R')
      | (Inr result, R') \<Rightarrow>
          (Inr (build_state_transition_response rt proposal_id
                  (pr_current_state (tr_proposal result)) (tr_event result)), R'))"

definition transition_proposal_state ::
  "runtime \<Rightarrow> string \<Rightarrow> transition_request \<Rightarrow> string option \<Rightarrow> bool \<Rightarrow> datetime \<Rightarrow> string \<Rightarrow> repository
     \<Rightarrow> (error + transition_response) \<times> repository" where
  "transition_proposal_state rt proposal_id q key_in require_expected_state occurred_at event_id R =
     (case prepare_transition rt proposal_id q key_in require_expected_state occurred_at event_id R of
        Inl e \<Rightarrow> (Inl e, R)
      | Inr (Inl response) \<Rightarrow> (Inr response, R)
      | Inr (Inr w) \<Rightarrow> commit_transition rt proposal_id w R)"

subsection \<open>Approval\<close>

definition prepare_approval ::
  "runtime \<Rightarrow> string \<Rightarrow> approval_request \<Rightarrow> string option \<Rightarrow> bool \<Rightarrow> datetime \<Rightarrow> string \<Rightarrow> string
     \<Rightarrow> repository \<Rightarrow> error + (transition_response + (proposal \<times> workflow_event \<times> approval))" where
  "prepare_approval rt proposal_id q key_in require_expected_state occurred_at approval_id event_id R =
     (let key = normalize_optional_idempotency_key key_in in
      case get_proposal proposal_id R of
        None \<Rightarrow> Inl (NotFoundError ''PROPOSAL_NOT_FOUND'')
      | Some p \<Rightarrow>
          (let hash = build_approval_request_hash rt q in
           case command_replayed_approval R proposal_id key hash of
             Inl e \<Rightarrow> Inl e
           | Inr (Some replay_approval) \<Rightarrow>
               (case command_replayed_event R proposal_id key hash of
                  Inl e \<Rightarrow> Inl e
                | Inr replay_event \<Rightarrow>
                    (case build_approval_replay_response_from_referents rt proposal_id
                            replay_approval replay_event of
                       None \<Rightarrow> Inl (LifecycleError ''PROPOSAL_IDEMPOTENCY_REFERENT_NOT_FOUND'')
                     | Some response \<Rightarrow> Inr (Inl response)))
           | Inr None \<Rightarrow>
               (case validate_proposal_expected_state (pr_current_state p) (aq_expected_state q)
                       require_expected_state of
                  Inl e \<Rightarrow> Inl e
                | Inr _ \<Rightarrow>
                    (case resolve_proposal_approval_transition (pr_current_state p)
                            (aq_approval_type q) (aq_approved q) of
                       Inl e \<Rightarrow> Inl e
                     | Inr (event_type, to_state) \<Rightarrow>
                         (let (c, p') = build_approval_command_state_and_apply_transition
                                approval_id event_id p q event_type to_state occurred_at key hash
                          in Inr (Inr (p', ac_event c, ac_approval c)))))))"

definition commit_approval ::
  "runtime \<Rightarrow> string \<Rightarrow> proposal \<times> workflow_event \<times> approval \<Rightarrow> repository
     \<Rightarrow> (error + transition_response) \<times> repository" where
  "commit_approval rt proposal_id w R =
     (case persist_proposal_approval_transition (fst w) (fst (snd w)) (snd (snd w)) R of
        (Inl err, R') \<Rightarrow> (Inl err, R')
      | (Inr result, R') \<Rightarrow>
          (Inr (build_approval_transition_response rt proposal_id
                  (pr_current_state (tr_proposal result)) (tr_event result)
                  (tr_approval result)), R'))"

definition record_proposal_approval ::
  "runtime \<Rightarrow> string \<Rightarrow> approval_request \<Rightarrow> string option \<Rightarrow> bool \<Rightarrow> datetime \<Rightarrow> string \<Rightarrow> string
     \<Rightarrow> repository \<Rightarrow> (error + transition_response) \<times> repository" where
  "record_proposal_approval rt proposal_id q key_in require_expected_state occurred_at approval_id
       event_id R =
     (case prepare_approval rt proposal_id q key_in require_expected_state occurred_at approval_id
             event_id R of
        Inl e \<Rightarrow> (Inl e, R)
      | Inr (Inl response) \<Rightarrow> (Inr response, R)
      | Inr (Inr w) \<Rightarrow> commit_approval rt proposal_id w R)"


subsection \<open>What a command plans\<close>

text \<open>
  \<open>follows p p' e\<close>: the aggregate \<open>p'\<close> and the event \<open>e\<close> continue the snapshot \<open>p\<close>.  The
  creation attributes never change.
\<close>

definition same_identity :: "proposal \<Rightarrow> proposal \<Rightarrow> bool" where
  "same_identity p p' \<longleftrightarrow>
     pr_proposal_id p' = pr_proposal_id p
     \<and> pr_portfolio_id p' = pr_portfolio_id p
     \<and> pr_mandate_id p' = pr_mandate_id p
     \<and> pr_jurisdiction p' = pr_jurisdiction p
     \<and> pr_created_by p' = pr_created_by p
     \<and> pr_created_at p' = pr_created_at p
     \<and> pr_title p' = pr_title p
     \<and> pr_advisor_notes p' = pr_advisor_notes p
     \<and> pr_lifecycle_origin p' = pr_lifecycle_origin p
     \<and> pr_source_workspace_id p' = pr_source_workspace_id p"

definition follows :: "proposal \<Rightarrow> proposal \<Rightarrow> workflow_event \<Rightarrow> bool" where
  "follows p p' e \<longleftrightarrow>
     same_identity p p'
     \<and> ev_proposal_id e = pr_proposal_id p
     \<and> ev_from_state e = Some (pr_current_state p)
     \<and> ev_to_state e = pr_current_state p'
     \<and> ev_occurred_at e \<le> pr_last_event_at p'"

lemma build_transition_plan:
  assumes "build_state_transition_event_and_apply_state eid p q t occ key hash = (e, p')"
  shows "follows p p' e" and "ev_event_type e = tq_event_type q" and "ev_to_state e = t"
    and "pr_current_version_no p' = pr_current_version_no p"
    and "ev_reason_json e = stamp_idempotency key hash (tq_reason q)"
    and "ev_event_id e = eid" and "ev_occurred_at e = occ"
  using assms
  by (auto simp: build_state_transition_event_and_apply_state_def build_state_transition_event_def
      apply_lifecycle_transition_state_def follows_def same_identity_def Let_def)

lemma build_approval_plan:
  assumes "build_approval_command_state_and_apply_transition aid eid p q ev t occ key hash = (c, p')"
  shows "follows p p' (ac_event c)" and "ev_event_type (ac_event c) = ev"
    and "ev_to_state (ac_event c) = t"
    and "pr_current_version_no p' = pr_current_version_no p"
    and "ev_reason_json (ac_event c) = stamp_idempotency key hash (aq_details q)"
    and "ap_details_json (ac_approval c) = stamp_idempotency key hash (aq_details q)"
    and "ap_proposal_id (ac_approval c) = pr_proposal_id p"
    and "ap_approval_type (ac_approval c) = aq_approval_type q"
    and "ap_approved (ac_approval c) = aq_approved q"
  using assms
  by (auto simp: build_approval_command_state_and_apply_transition_def build_approval_record_def
      build_approval_transition_event_def apply_lifecycle_transition_state_def follows_def
      same_identity_def Let_def)

lemma prepare_transition_write:
  assumes "prepare_transition rt pid q key_in req occ eid R = Inr (Inr (p', e))"
  obtains p where "get_proposal pid R = Some p" and "follows p p' e"
    and "pr_current_version_no p' = pr_current_version_no p"
    and "ev_event_type e = tq_event_type q"
    and "resolve_transition_state (pr_current_state p) (tq_event_type q) = Inr (pr_current_state p')"
    and "ev_reason_json e = stamp_idempotency (normalize_optional_idempotency_key key_in)
           (build_state_transition_request_hash rt q) (tq_reason q)"
    and "tq_expected_state q \<noteq> None \<Longrightarrow> tq_expected_state q = Some (pr_current_state p)"
proof -
  let ?key = "normalize_optional_idempotency_key key_in"
  let ?hash = "build_state_transition_request_hash rt q"
  obtain p t where p: "get_proposal pid R = Some p"
    and valid: "validate_proposal_expected_state (pr_current_state p) (tq_expected_state q) req = Inr ()"
    and t: "resolve_transition_state (pr_current_state p) (tq_event_type q) = Inr t"
    and b: "build_state_transition_event_and_apply_state eid p q t occ ?key ?hash = (e, p')"
    using assms by (auto simp: prepare_transition_def Let_def split: option.splits sum.splits prod.splits)
  note plan = build_transition_plan [OF b]
  have "pr_current_state p' = t"
    using plan(1,3) by (simp add: follows_def)
  with p plan t valid show thesis
    by (intro that [of p]) auto
qed

lemma prepare_approval_write:
  assumes "prepare_approval rt pid q key_in req occ aid eid R = Inr (Inr (p', e, a))"
  obtains p where "get_proposal pid R = Some p" and "follows p p' e"
    and "pr_current_version_no p' = pr_current_version_no p"
    and "resolve_approval_transition (pr_current_state p) (aq_approval_type q) (aq_approved q)
           = Inr (ev_event_type e, pr_current_state p')"
    and "ev_reason_json e = stamp_idempotency (normalize_optional_idempotency_key key_in)
           (build_approval_request_hash rt q) (aq_details q)"
    and "ap_details_json a = ev_reason_json e" and "ap_proposal_id a = pr_proposal_id p"
    and "ap_approval_type a = aq_approval_type q" and "ap_approved a = aq_approved q"
proof -
  let ?key = "normalize_optional_idempotency_key key_in"
  let ?hash = "build_approval_request_hash rt q"
  obtain p ev t c where p: "get_proposal pid R = Some p"
    and t: "resolve_approval_transition (pr_current_state p) (aq_approval_type q) (aq_approved q)
              = Inr (ev, t)"
    and b: "build_approval_command_state_and_apply_transition aid eid p q ev t occ ?key ?hash = (c, p')"
    and e: "e = ac_event c" and a: "a = ac_approval c"
    using assms by (auto simp: prepare_approval_def Let_def split: option.splits sum.splits prod.splits)
  note plan = build_approval_plan [OF b]
  have "pr_current_state p' = t"
    using plan(1,3) by (simp add: follows_def)
  with p plan t e a show thesis
    by (intro that [of p]) auto
qed

subsection \<open>Committing a plan\<close>

lemma commit_transition_eq:
  assumes "ev_from_state e = Some st"
  shows "commit_transition rt pid (p, e) R =
     (if cas_matches (pr_proposal_id p) (Some st) (Some (pr_current_version_no p)) R
      then (Inr (build_state_transition_response rt pid (pr_current_state p) e),
            write_transition p e None R)
      else (Inl (StateConflictError
              ''STATE_CONFLICT: proposal aggregate changed during transition''), R))"
  using assms
  by (simp add: commit_transition_def persist_proposal_transition_def transition_proposal_eq)

lemma commit_approval_eq:
  assumes "ev_from_state e = Some st"
  shows "commit_approval rt pid (p, e, a) R =
     (if cas_matches (pr_proposal_id p) (Some st) (Some (pr_current_version_no p)) R
      then (Inr (build_approval_transition_response rt pid (pr_current_state p) e (Some a)),
            write_transition p e (Some a) R)
      else (Inl (StateConflictError
              ''STATE_CONFLICT: proposal aggregate changed during transition''), R))"
  using assms
  by (simp add: commit_approval_def persist_proposal_approval_transition_def transition_proposal_eq)

text \<open>Run without interference, a prepared write always commits.\<close>

lemma transition_command_cases:
  assumes "proposals_keyed R"
    and "transition_proposal_state rt pid q key_in req occ eid R = (res, R')"
  obtains (refused) e where "res = Inl e" "R' = R"
      "prepare_transition rt pid q key_in req occ eid R = Inl e"
    | (replayed) r where "res = Inr r" "R' = R"
      "prepare_transition rt pid q key_in req occ eid R = Inr (Inl r)"
    | (written) p' e where "R' = write_transition p' e None R"
      "res = Inr (build_state_transition_response rt pid (pr_current_state p') e)"
      "prepare_transition rt pid q key_in req occ eid R = Inr (Inr (p', e))"
proof (cases "prepare_transition rt pid q key_in req occ eid R")
  case (Inl e)
  then show thesis using assms(2) refused by (auto simp: transition_proposal_state_def)
next
  case (Inr x)
  show thesis
  proof (cases x)
    case (Inl r)
    then show thesis using assms(2) Inr replayed by (auto simp: transition_proposal_state_def)
  next
    case (Inr w)
    obtain p' e where w: "w = (p', e)" by (cases w)
    with Inr \<open>prepare_transition rt pid q key_in req occ eid R = Inr x\<close>
    have prep: "prepare_transition rt pid q key_in req occ eid R = Inr (Inr (p', e))" by simp
    then obtain p where p: "get_proposal pid R = Some p" "follows p p' e"
      "pr_current_version_no p' = pr_current_version_no p"
      by (rule prepare_transition_write)
    have "pr_proposal_id p' = pid"
      using assms(1) p by (auto simp: proposals_keyed_def follows_def same_identity_def)
    with p assms(2) prep show thesis
      by (intro written [of p' e])
        (simp_all add: transition_proposal_state_def commit_transition_eq follows_def
          cas_matches_Some)
  qed
qed

lemma approval_command_cases:
  assumes "proposals_keyed R"
    and "record_proposal_approval rt pid q key_in req occ aid eid R = (res, R')"
  obtains (refused) e where "res = Inl e" "R' = R"
      "prepare_approval rt pid q key_in req occ aid eid R = Inl e"
    | (replayed) r where "res = Inr r" "R' = R"
      "prepare_approval rt pid q key_in req occ aid eid R = Inr (Inl r)"
    | (written) p' e a where "R' = write_transition p' e (Some a) R"
      "res = Inr (build_approval_transition_response rt pid (pr_current_state p') e (Some a))"
      "prepare_approval rt pid q key_in req occ aid eid R = Inr (Inr (p', e, a))"
proof (cases "prepare_approval rt pid q key_in req occ aid eid R")
  case (Inl e)
  then show thesis using assms(2) refused by (auto simp: record_proposal_approval_def)
next
  case (Inr x)
  show thesis
  proof (cases x)
    case (Inl r)
    then show thesis using assms(2) Inr replayed by (auto simp: record_proposal_approval_def)
  next
    case (Inr w)
    obtain p' e a where w: "w = (p', e, a)" by (cases w)
    with Inr \<open>prepare_approval rt pid q key_in req occ aid eid R = Inr x\<close>
    have prep: "prepare_approval rt pid q key_in req occ aid eid R = Inr (Inr (p', e, a))" by simp
    then obtain p where p: "get_proposal pid R = Some p" "follows p p' e"
      "pr_current_version_no p' = pr_current_version_no p"
      by (rule prepare_approval_write)
    have "pr_proposal_id p' = pid"
      using assms(1) p by (auto simp: proposals_keyed_def follows_def same_identity_def)
    with p assms(2) prep show thesis
      by (intro written [of p' e a])
        (simp_all add: record_proposal_approval_def commit_approval_eq follows_def
          cas_matches_Some)
  qed
qed

end
