(* ===== verification/Versions.thy ===== *)
theory Versions
  imports Lifecycle
begin

text \<open>
  Creating proposals and immutable versions: \<open>versions.py\<close>, \<open>version_command.py\<close>,
  \<open>create_command.py\<close>, \<open>records.py\<close>, \<open>create_persistence.py\<close>,
  \<open>replay_views.py\<close>.  The steps that resolve a request's context, hash it, run the
  advisory simulation and materialise the artifact are arguments (record
  \<open>creation_services\<close>): they call the portfolio and simulation services.  Everything the
  commands themselves decide, and every write, is modelled.
\<close>

subsection \<open>Requests, results and services\<close>

text \<open>
  Only the fields the commands read are named; the rest of a payload is its JSON content.
\<close>

record create_request =
  cq_created_by :: string
  cq_content :: jobject

record version_request =
  vq_created_by :: string
  vq_expected_current_version_no :: "int option"
  vq_content :: jobject

record resolved_request =
  rq_portfolio_id :: string
  rq_mandate_id :: "string option"
  rq_jurisdiction :: "string option"
  rq_title :: "string option"
  rq_advisor_notes :: "string option"
  rq_enable_proposal_simulation :: bool
  rq_content :: jobject

record simulation_result =
  sr_payload :: jobject
  sr_status :: creation_status
  sr_gate_decision :: "jobject option"

record creation_services =
  cs_resolve_create :: "create_request \<Rightarrow> error + resolved_request"
  cs_resolve_version :: "version_request \<Rightarrow> error + resolved_request"
  cs_apply_override :: "resolved_request \<Rightarrow> jobject option \<Rightarrow> error + resolved_request"
  cs_context_evidence :: "resolved_request \<Rightarrow> jobject"
  cs_idempotency_hash :: "create_request \<Rightarrow> string"
  cs_create_hash :: "create_request \<Rightarrow> resolved_request \<Rightarrow> string"
  cs_version_hash :: "version_request \<Rightarrow> resolved_request \<Rightarrow> string"
  cs_legacy_match :: "proposal \<Rightarrow> proposal_version \<Rightarrow> create_request \<Rightarrow> bool"
  cs_simulate :: "resolved_request \<Rightarrow> string \<Rightarrow> string option \<Rightarrow> string option \<Rightarrow> json
     \<Rightarrow> error + simulation_result"
  cs_materialize :: "resolved_request \<Rightarrow> simulation_result \<Rightarrow> datetime \<Rightarrow> jobject \<Rightarrow> jobject option
     \<Rightarrow> jobject option \<Rightarrow> jobject \<times> jobject"
  cs_safe_detail :: "string \<Rightarrow> string"

subsection \<open>Version rules\<close>

definition validate_create_version_state ::
  "proposal \<Rightarrow> int option \<Rightarrow> workflow_state list \<Rightarrow> error + unit" where
  "validate_create_version_state p expected_current_version_no terminals =
     (if pr_current_state p \<in> set terminals
      then Inl (VersionTerminalStateError ''PROPOSAL_TERMINAL_STATE: cannot create version'')
      else if expected_current_version_no \<noteq> None
           \<and> expected_current_version_no \<noteq> Some (pr_current_version_no p)
      then Inl (VersionConflictError ''VERSION_CONFLICT: expected_current_version_no mismatch'')
      else Inr ())"

definition validate_create_version_portfolio_context ::
  "string \<Rightarrow> string \<Rightarrow> bool \<Rightarrow> error + unit" where
  "validate_create_version_portfolio_context proposal_portfolio_id request_portfolio_id allow_change =
     (if allow_change then Inr ()
      else if request_portfolio_id \<noteq> proposal_portfolio_id
      then Inl (VersionPortfolioContextError ''PORTFOLIO_CONTEXT_MISMATCH'')
      else Inr ())"

text \<open>\<open>artifact["evidence_bundle"]["hashes"]["artifact_hash"]\<close>, a string by validation.\<close>

definition artifact_hash_of :: "jobject \<Rightarrow> error + string" where
  "artifact_hash_of artifact = (case json_item (JObj artifact) ''evidence_bundle'' of
      Inl e \<Rightarrow> Inl e
    | Inr bundle \<Rightarrow> (case json_item bundle ''hashes'' of
        Inl e \<Rightarrow> Inl e
      | Inr hashes \<Rightarrow> (case json_item hashes ''artifact_hash'' of
          Inl e \<Rightarrow> Inl e
        | Inr (JStr h) \<Rightarrow> Inr h
        | Inr _ \<Rightarrow> Inl (ValueError ''artifact_hash: Input should be a valid string''))))"

definition simulation_hash_of :: "runtime \<Rightarrow> jobject \<Rightarrow> string" where
  "simulation_hash_of rt payload =
     hash_canonical_payload rt (strip_keys {''correlation_id'', ''idempotency_key''} (JObj payload))"

definition build_proposal_version_record ::
  "runtime \<Rightarrow> string \<Rightarrow> string \<Rightarrow> int \<Rightarrow> string \<Rightarrow> simulation_result \<Rightarrow> jobject \<Rightarrow> jobject
     \<Rightarrow> datetime \<Rightarrow> bool \<Rightarrow> error + proposal_version" where
  "build_proposal_version_record rt version_id proposal_id version_no request_hash result artifact
       evidence_bundle created_at store_evidence_bundle =
     (case artifact_hash_of artifact of
        Inl e \<Rightarrow> Inl e
      | Inr artifact_hash \<Rightarrow> Inr
          \<lparr>pv_proposal_version_id = version_id,
           pv_proposal_id = proposal_id,
           pv_version_no = version_no,
           pv_created_at = created_at,
           pv_request_hash = request_hash,
           pv_artifact_hash = artifact_hash,
           pv_simulation_hash = simulation_hash_of rt (sr_payload result),
           pv_status_at_creation = sr_status result,
           pv_proposal_result_json = sr_payload result,
           pv_artifact_json = artifact,
           pv_evidence_bundle_json = (if store_evidence_bundle then evidence_bundle else []),
           pv_gate_decision_json = sr_gate_decision result\<rparr>)"

definition apply_new_version_lifecycle_state :: "proposal \<Rightarrow> int \<Rightarrow> datetime \<Rightarrow> proposal" where
  "apply_new_version_lifecycle_state p version_no occurred_at =
     p\<lparr>pr_current_version_no := version_no, pr_current_state := WS_DRAFT,
       pr_last_event_at := occurred_at\<rparr>"

definition build_new_version_created_event_and_apply_state ::
  "string \<Rightarrow> proposal \<Rightarrow> string \<Rightarrow> datetime \<Rightarrow> int \<Rightarrow> string option \<Rightarrow> workflow_event \<times> proposal" where
  "build_new_version_created_event_and_apply_state event_id p actor_id occurred_at version_no
       correlation_id =
     (build_new_version_created_event event_id p actor_id occurred_at version_no correlation_id,
      apply_new_version_lifecycle_state p version_no occurred_at)"

subsection \<open>Records of a new proposal\<close>

record create_command_state =
  cc_proposal :: proposal
  cc_created_event :: workflow_event
  cc_idempotency_record :: proposal_idempotency

definition build_proposal_record ::
  "string \<Rightarrow> string \<Rightarrow> string option \<Rightarrow> string option \<Rightarrow> string \<Rightarrow> datetime \<Rightarrow> int \<Rightarrow> string option
     \<Rightarrow> string option \<Rightarrow> lifecycle_origin \<Rightarrow> string option \<Rightarrow> proposal" where
  "build_proposal_record proposal_id portfolio_id mandate_id jurisdiction created_by created_at
       version_no title advisor_notes origin source_workspace_id = \<lparr>
     pr_proposal_id = proposal_id,
     pr_portfolio_id = portfolio_id,
     pr_mandate_id = mandate_id,
     pr_jurisdiction = jurisdiction,
     pr_created_by = created_by,
     pr_created_at = created_at,
     pr_last_event_at = created_at,
     pr_current_state = WS_DRAFT,
     pr_current_version_no = version_no,
     pr_title = title,
     pr_advisor_notes = advisor_notes,
     pr_lifecycle_origin = origin,
     pr_source_workspace_id = source_workspace_id \<rparr>"

definition build_proposal_idempotency_record ::
  "string \<Rightarrow> string \<Rightarrow> string \<Rightarrow> int \<Rightarrow> datetime \<Rightarrow> proposal_idempotency" where
  "build_proposal_idempotency_record idempotency_key request_hash proposal_id version_no created_at = \<lparr>
     pi_idempotency_key = idempotency_key,
     pi_request_hash = request_hash,
     pi_proposal_id = proposal_id,
     pi_proposal_version_no = version_no,
     pi_created_at = created_at \<rparr>"

definition build_proposal_create_command_state ::
  "proposal \<Rightarrow> string \<Rightarrow> string option \<Rightarrow> string \<Rightarrow> string \<Rightarrow> create_command_state" where
  "build_proposal_create_command_state p event_id correlation_id idempotency_key request_hash = \<lparr>
     cc_proposal = p,
     cc_created_event = build_proposal_created_event event_id (pr_proposal_id p) (pr_created_by p)
       (pr_created_at p) (pr_current_version_no p) correlation_id,
     cc_idempotency_record = build_proposal_idempotency_record idempotency_key request_hash
       (pr_proposal_id p) (pr_current_version_no p) (pr_created_at p) \<rparr>"

definition persist_created_proposal ::
  "create_command_state \<Rightarrow> proposal_version \<Rightarrow> repository \<Rightarrow> repository" where
  "persist_created_proposal c v R = create_proposal_with_version_event_idempotency
     (cc_proposal c) v (cc_created_event c) (cc_idempotency_record c) R"

text \<open>The version row is written before, and independently of, the compare-and-set.\<close>

definition persist_created_proposal_version ::
  "proposal \<Rightarrow> proposal_version \<Rightarrow> workflow_event \<Rightarrow> repository
     \<Rightarrow> (error + transition_result) \<times> repository" where
  "persist_created_proposal_version p v e R =
     transition_proposal p e None (ev_from_state e) (Some (pv_version_no v - 1)) (create_version v R)"


subsection \<open>Replay of a create\<close>

definition build_create_response_from_replay_referents ::
  "runtime \<Rightarrow> string \<Rightarrow> int \<Rightarrow> repository \<Rightarrow> error + create_response" where
  "build_create_response_from_replay_referents rt proposal_id version_no R =
     (case build_create_response_from_referents rt (get_proposal proposal_id R)
             (get_version proposal_id version_no R) (list_events proposal_id R) of
        None \<Rightarrow> Inl (NotFoundError ''PROPOSAL_IDEMPOTENCY_REFERENT_NOT_FOUND'')
      | Some r \<Rightarrow> Inr r)"

definition is_matching_legacy_replay ::
  "creation_services \<Rightarrow> create_request \<Rightarrow> string \<Rightarrow> int \<Rightarrow> repository \<Rightarrow> bool" where
  "is_matching_legacy_replay sv q proposal_id version_no R =
     (case (get_proposal proposal_id R, get_version proposal_id version_no R) of
        (Some p, Some v) \<Rightarrow> cs_legacy_match sv p v q
      | _ \<Rightarrow> False)"

definition context_error_detail :: "creation_services \<Rightarrow> error \<Rightarrow> error" where
  "context_error_detail sv e = (case e of
      ContextResolutionError m \<Rightarrow> ValidationError (cs_safe_detail sv m) | _ \<Rightarrow> e)"

text \<open>
  The two resolution calls under one \<open>try\<close>; the evidence is the override when one is given.
\<close>

definition resolve_with_override ::
  "creation_services \<Rightarrow> error + resolved_request \<Rightarrow> jobject option \<Rightarrow> error + resolved_request" where
  "resolve_with_override sv resolved override =
     lift_error (context_error_detail sv)
       (case resolved of Inl e \<Rightarrow> Inl e | Inr r \<Rightarrow> cs_apply_override sv r override)"

definition context_resolution_of ::
  "creation_services \<Rightarrow> resolved_request \<Rightarrow> jobject option \<Rightarrow> jobject" where
  "context_resolution_of sv r override =
     (case override of Some d \<Rightarrow> d | None \<Rightarrow> cs_context_evidence sv r)"

text \<open>Simulation, materialisation and the version row, shared by both commands.\<close>

definition simulate_version ::
  "runtime \<Rightarrow> creation_services \<Rightarrow> resolved_request \<Rightarrow> jobject \<Rightarrow> jobject option \<Rightarrow> jobject option
     \<Rightarrow> string \<Rightarrow> string option \<Rightarrow> string option \<Rightarrow> datetime \<Rightarrow> bool \<Rightarrow> string \<Rightarrow> string \<Rightarrow> int
     \<Rightarrow> error + proposal_version" where
  "simulate_version rt sv r context_resolution override lineage request_hash idempotency_key
       correlation_id now store_evidence version_id proposal_id version_no =
     (case json_item (JObj context_resolution) ''advisory_policy_context'' of
        Inl e \<Rightarrow> Inl e
      | Inr policy_context \<Rightarrow>
          (case cs_simulate sv r request_hash idempotency_key correlation_id policy_context of
             Inl e \<Rightarrow> Inl e
           | Inr result \<Rightarrow>
               (let (artifact, evidence) =
                      cs_materialize sv r result now context_resolution override lineage
                in build_proposal_version_record rt version_id proposal_id version_no request_hash
                     result artifact evidence now store_evidence)))"

subsection \<open>Create\<close>

record create_options =
  co_lifecycle_origin :: lifecycle_origin
  co_source_workspace_id :: "string option"
  co_replay_lineage :: "jobject option"
  co_context_override :: "jobject option"
  co_store_evidence_bundle :: bool
  co_require_simulation_flag :: bool

record new_ids =
  ni_proposal_id :: string
  ni_version_id :: string
  ni_event_id :: string

definition prepare_create ::
  "runtime \<Rightarrow> creation_services \<Rightarrow> create_request \<Rightarrow> string \<Rightarrow> string option \<Rightarrow> create_options
     \<Rightarrow> datetime \<Rightarrow> new_ids \<Rightarrow> repository
     \<Rightarrow> error + (create_response + (create_command_state \<times> proposal_version))" where
  "prepare_create rt sv q key_in correlation_id opts now ids R =
     (case require_proposal_idempotency_key (Some key_in) of
        Inl e \<Rightarrow> Inl e
      | Inr key \<Rightarrow>
     (case validate_lifecycle_origin (co_lifecycle_origin opts) (co_source_workspace_id opts) of
        Inl e \<Rightarrow> Inl (ValidationError (error_message e))
      | Inr _ \<Rightarrow>
     (let idempotency_hash = cs_idempotency_hash sv q in
      case get_idempotency key R of
        Some existing \<Rightarrow>
          if pi_request_hash existing = idempotency_hash
             \<or> is_matching_legacy_replay sv q (pi_proposal_id existing)
                 (pi_proposal_version_no existing) R
          then (case build_create_response_from_replay_referents rt (pi_proposal_id existing)
                       (pi_proposal_version_no existing) R of
                  Inl e \<Rightarrow> Inl e | Inr r \<Rightarrow> Inr (Inl r))
          else Inl (IdempotencyConflictError ''IDEMPOTENCY_KEY_CONFLICT: request hash mismatch'')
      | None \<Rightarrow>
     (case resolve_with_override sv (cs_resolve_create sv q) (co_context_override opts) of
        Inl e \<Rightarrow> Inl e
      | Inr r \<Rightarrow>
     (let request_hash = cs_create_hash sv q r in
      case validate_proposal_simulation_flag (rq_enable_proposal_simulation r)
             (co_require_simulation_flag opts) of
        Inl e \<Rightarrow> Inl e
      | Inr _ \<Rightarrow>
     (case simulate_version rt sv r (context_resolution_of sv r (co_context_override opts))
             (co_context_override opts) (co_replay_lineage opts) request_hash (Some key)
             correlation_id now (co_store_evidence_bundle opts) (ni_version_id ids)
             (ni_proposal_id ids) 1 of
        Inl e \<Rightarrow> Inl e
      | Inr v \<Rightarrow>
          Inr (Inr (build_proposal_create_command_state
             (build_proposal_record (ni_proposal_id ids) (rq_portfolio_id r) (rq_mandate_id r)
                (rq_jurisdiction r) (cq_created_by q) now 1 (rq_title r) (rq_advisor_notes r)
                (co_lifecycle_origin opts) (co_source_workspace_id opts))
             (ni_event_id ids) correlation_id key idempotency_hash, v))))))))"

definition commit_create ::
  "runtime \<Rightarrow> create_command_state \<times> proposal_version \<Rightarrow> repository
     \<Rightarrow> (error + create_response) \<times> repository" where
  "commit_create rt w R =
     (Inr (to_create_response rt (cc_proposal (fst w)) (snd w) (cc_created_event (fst w))),
      persist_created_proposal (fst w) (snd w) R)"

definition create_proposal_command ::
  "runtime \<Rightarrow> creation_services \<Rightarrow> create_request \<Rightarrow> string \<Rightarrow> string option \<Rightarrow> create_options
     \<Rightarrow> datetime \<Rightarrow> new_ids \<Rightarrow> repository \<Rightarrow> (error + create_response) \<times> repository" where
  "create_proposal_command rt sv q key_in correlation_id opts now ids R =
     (case prepare_create rt sv q key_in correlation_id opts now ids R of
        Inl e \<Rightarrow> (Inl e, R)
      | Inr (Inl response) \<Rightarrow> (Inr response, R)
      | Inr (Inr w) \<Rightarrow> commit_create rt w R)"

subsection \<open>New version\<close>

record version_options =
  vo_replay_lineage :: "jobject option"
  vo_context_override :: "jobject option"
  vo_store_evidence_bundle :: bool
  vo_require_simulation_flag :: bool
  vo_allow_portfolio_change :: bool

definition version_state_error :: "error \<Rightarrow> error" where
  "version_state_error e = (case e of
      VersionTerminalStateError m \<Rightarrow> ValidationError m
    | VersionConflictError m \<Rightarrow> StateConflictError m
    | _ \<Rightarrow> e)"

definition prepare_version ::
  "runtime \<Rightarrow> creation_services \<Rightarrow> string \<Rightarrow> version_request \<Rightarrow> string option \<Rightarrow> version_options
     \<Rightarrow> datetime \<Rightarrow> new_ids \<Rightarrow> repository
     \<Rightarrow> error + (proposal \<times> proposal_version \<times> workflow_event)" where
  "prepare_version rt sv proposal_id q correlation_id opts now ids R =
     (case get_proposal proposal_id R of
        None \<Rightarrow> Inl (NotFoundError ''PROPOSAL_NOT_FOUND'')
      | Some p \<Rightarrow>
     (case validate_create_version_state p (vq_expected_current_version_no q) terminal_states of
        Inl e \<Rightarrow> Inl (version_state_error e)
      | Inr _ \<Rightarrow>
     (case resolve_with_override sv (cs_resolve_version sv q) (vo_context_override opts) of
        Inl e \<Rightarrow> Inl e
      | Inr r \<Rightarrow>
     (case validate_proposal_simulation_flag (rq_enable_proposal_simulation r)
             (vo_require_simulation_flag opts) of
        Inl e \<Rightarrow> Inl e
      | Inr _ \<Rightarrow>
     (let request_hash = cs_version_hash sv q r in
      case validate_create_version_portfolio_context (pr_portfolio_id p) (rq_portfolio_id r)
             (vo_allow_portfolio_change opts) of
        Inl e \<Rightarrow> Inl (ValidationError (error_message e))
      | Inr _ \<Rightarrow>
     (let next_version_no = pr_current_version_no p + 1 in
      case simulate_version rt sv r (context_resolution_of sv r (vo_context_override opts))
             (vo_context_override opts) (vo_replay_lineage opts) request_hash None correlation_id now
             (vo_store_evidence_bundle opts) (ni_version_id ids) (pr_proposal_id p)
             next_version_no of
        Inl e \<Rightarrow> Inl e
      | Inr v \<Rightarrow>
          (let (e, p') = build_new_version_created_event_and_apply_state (ni_event_id ids) p
                 (vq_created_by q) now next_version_no correlation_id
           in Inr (p', v, e))))))))"

definition commit_version ::
  "runtime \<Rightarrow> proposal \<times> proposal_version \<times> workflow_event \<Rightarrow> repository
     \<Rightarrow> (error + create_response) \<times> repository" where
  "commit_version rt w R =
     (case persist_created_proposal_version (fst w) (fst (snd w)) (snd (snd w)) R of
        (Inl err, R') \<Rightarrow> (Inl err, R')
      | (Inr _, R') \<Rightarrow>
          (Inr (to_create_response rt (fst w) (fst (snd w)) (snd (snd w))), R'))"

definition create_proposal_version ::
  "runtime \<Rightarrow> creation_services \<Rightarrow> string \<Rightarrow> version_request \<Rightarrow> string option \<Rightarrow> version_options
     \<Rightarrow> datetime \<Rightarrow> new_ids \<Rightarrow> repository \<Rightarrow> (error + create_response) \<times> repository" where
  "create_proposal_version rt sv proposal_id q correlation_id opts now ids R =
     (case prepare_version rt sv proposal_id q correlation_id opts now ids R of
        Inl e \<Rightarrow> (Inl e, R)
      | Inr w \<Rightarrow> commit_version rt w R)"


subsection \<open>What the commands plan\<close>

lemma build_version_record_fields:
  assumes "build_proposal_version_record rt vid pid n h res art evd now st = Inr v"
  shows "pv_proposal_version_id v = vid" and "pv_proposal_id v = pid" and "pv_version_no v = n"
    and "pv_request_hash v = h" and "pv_created_at v = now"
    and "pv_simulation_hash v = simulation_hash_of rt (pv_proposal_result_json v)"
    and "artifact_hash_of (pv_artifact_json v) = Inr (pv_artifact_hash v)"
  using assms by (auto simp: build_proposal_version_record_def split: sum.splits)

lemma simulate_version_fields:
  assumes "simulate_version rt sv r ctx ov lin h key cid now st vid pid n = Inr v"
  shows "pv_proposal_version_id v = vid" and "pv_proposal_id v = pid" and "pv_version_no v = n"
    and "pv_request_hash v = h"
    and "pv_simulation_hash v = simulation_hash_of rt (pv_proposal_result_json v)"
    and "artifact_hash_of (pv_artifact_json v) = Inr (pv_artifact_hash v)"
  using assms
  by (auto simp: simulate_version_def split: sum.splits prod.splits dest: build_version_record_fields)

lemma prepare_create_write:
  assumes "prepare_create rt sv q key_in cid opts now ids R = Inr (Inr (c, v))"
  obtains key where "normalize_optional_idempotency_key (Some key_in) = Some key"
    and "get_idempotency key R = None"
    and "pr_proposal_id (cc_proposal c) = ni_proposal_id ids"
    and "pr_current_state (cc_proposal c) = WS_DRAFT"
    and "pr_current_version_no (cc_proposal c) = 1"
    and "pr_created_at (cc_proposal c) = now" and "pr_last_event_at (cc_proposal c) = now"
    and "cc_created_event c = build_proposal_created_event (ni_event_id ids) (ni_proposal_id ids)
           (cq_created_by q) now 1 cid"
    and "cc_idempotency_record c = build_proposal_idempotency_record key
           (cs_idempotency_hash sv q) (ni_proposal_id ids) 1 now"
    and "pv_proposal_id v = ni_proposal_id ids" and "pv_version_no v = 1"
proof -
  obtain key where key: "require_proposal_idempotency_key (Some key_in) = Inr key"
    using assms by (auto simp: prepare_create_def split: sum.splits)
  have none: "get_idempotency key R = None"
    using assms key by (auto simp: prepare_create_def Let_def split: sum.splits option.splits if_splits)
  obtain r h where v: "simulate_version rt sv r (context_resolution_of sv r (co_context_override opts))
       (co_context_override opts) (co_replay_lineage opts) h (Some key) cid now
       (co_store_evidence_bundle opts) (ni_version_id ids) (ni_proposal_id ids) 1 = Inr v"
    and c: "c = build_proposal_create_command_state
       (build_proposal_record (ni_proposal_id ids) (rq_portfolio_id r) (rq_mandate_id r)
          (rq_jurisdiction r) (cq_created_by q) now 1 (rq_title r) (rq_advisor_notes r)
          (co_lifecycle_origin opts) (co_source_workspace_id opts))
       (ni_event_id ids) cid key (cs_idempotency_hash sv q)"
    using assms key none
    by (auto simp: prepare_create_def Let_def split: sum.splits)
  show thesis
    using key none simulate_version_fields [OF v]
    by (intro that [of key])
      (simp_all add: c build_proposal_create_command_state_def build_proposal_record_def
        require_key_Inr_iff)
qed

lemma prepare_version_write:
  assumes "prepare_version rt sv pid q cid opts now ids R = Inr (p', v, e)"
  obtains p where "get_proposal pid R = Some p"
    and "pr_current_state p \<notin> set terminal_states"
    and "p' = p\<lparr>pr_current_version_no := pr_current_version_no p + 1, pr_current_state := WS_DRAFT,
                 pr_last_event_at := now\<rparr>"
    and "follows p p' e" and "ev_event_type e = EV_NEW_VERSION_CREATED"
    and "ev_reason_json e = correlation_reason cid"
    and "pv_proposal_id v = pr_proposal_id p" and "pv_version_no v = pr_current_version_no p + 1"
    and "vq_expected_current_version_no q \<noteq> None \<Longrightarrow>
           vq_expected_current_version_no q = Some (pr_current_version_no p)"
proof -
  obtain p where p: "get_proposal pid R = Some p"
    and st: "validate_create_version_state p (vq_expected_current_version_no q) terminal_states = Inr ()"
    using assms by (auto simp: prepare_version_def split: option.splits sum.splits)
  obtain r h where v: "simulate_version rt sv r (context_resolution_of sv r (vo_context_override opts))
       (vo_context_override opts) (vo_replay_lineage opts) h None cid now
       (vo_store_evidence_bundle opts) (ni_version_id ids) (pr_proposal_id p)
       (pr_current_version_no p + 1) = Inr v"
    and b: "build_new_version_created_event_and_apply_state (ni_event_id ids) p (vq_created_by q) now
       (pr_current_version_no p + 1) cid = (e, p')"
    using assms p st
    by (auto simp: prepare_version_def Let_def split: sum.splits prod.splits)
  have eq: "e = build_new_version_created_event (ni_event_id ids) p (vq_created_by q) now
       (pr_current_version_no p + 1) cid"
    "p' = p\<lparr>pr_current_version_no := pr_current_version_no p + 1, pr_current_state := WS_DRAFT,
            pr_last_event_at := now\<rparr>"
    using b by (auto simp: build_new_version_created_event_and_apply_state_def
        apply_new_version_lifecycle_state_def)
  have "follows p p' e"
    by (simp add: eq follows_def same_identity_def build_new_version_created_event_def)
  moreover have "pr_current_state p \<notin> set terminal_states"
    and "vq_expected_current_version_no q \<noteq> None \<Longrightarrow>
           vq_expected_current_version_no q = Some (pr_current_version_no p)"
    using st by (auto simp: validate_create_version_state_def split: if_splits)
  ultimately show thesis
    using p eq simulate_version_fields [OF v]
    by (intro that [of p]) (simp_all add: build_new_version_created_event_def)
qed

lemma commit_version_eq:
  assumes "ev_from_state e = Some st"
  shows "commit_version rt (p, v, e) R =
     (if cas_matches (pr_proposal_id p) (Some st) (Some (pv_version_no v - 1)) R
      then (Inr (to_create_response rt p v e), write_transition p e None (create_version v R))
      else (Inl (StateConflictError
              ''STATE_CONFLICT: proposal aggregate changed during transition''),
            create_version v R))"
proof -
  have "cas_matches pid a b (create_version v R) = cas_matches pid a b R" for pid a b
    by (simp add: cas_matches_def split: option.splits)
  then show ?thesis
    using assms
    by (simp add: commit_version_def persist_created_proposal_version_def transition_proposal_eq)
qed

lemma version_command_cases:
  assumes "proposals_keyed R"
    and "create_proposal_version rt sv pid q cid opts now ids R = (res, R')"
  obtains (refused) e where "res = Inl e" "R' = R"
      "prepare_version rt sv pid q cid opts now ids R = Inl e"
    | (written) p' v e where "R' = write_transition p' e None (create_version v R)"
      "res = Inr (to_create_response rt p' v e)"
      "prepare_version rt sv pid q cid opts now ids R = Inr (p', v, e)"
proof (cases "prepare_version rt sv pid q cid opts now ids R")
  case (Inl e)
  then show thesis using assms(2) refused by (auto simp: create_proposal_version_def)
next
  case (Inr w)
  obtain p' v e where w: "w = (p', v, e)" by (cases w)
  with Inr have prep: "prepare_version rt sv pid q cid opts now ids R = Inr (p', v, e)" by simp
  then obtain p where p: "get_proposal pid R = Some p" "follows p p' e"
    "pv_version_no v = pr_current_version_no p + 1"
    by (rule prepare_version_write) blast
  have "pr_proposal_id p = pid"
    using assms(1) p(1) by (auto simp: proposals_keyed_def)
  with p assms(2) prep show thesis
    by (intro written [of p' e v])
      (simp_all add: create_proposal_version_def commit_version_eq follows_def same_identity_def
        cas_matches_Some)
qed

lemma create_command_cases:
  assumes "create_proposal_command rt sv q key_in cid opts now ids R = (res, R')"
  obtains (refused) e where "res = Inl e" "R' = R"
      "prepare_create rt sv q key_in cid opts now ids R = Inl e"
    | (replayed) r where "res = Inr r" "R' = R"
      "prepare_create rt sv q key_in cid opts now ids R = Inr (Inl r)"
    | (written) c v where
      "R' = create_proposal_with_version_event_idempotency (cc_proposal c) v (cc_created_event c)
              (cc_idempotency_record c) R"
      "res = Inr (to_create_response rt (cc_proposal c) v (cc_created_event c))"
      "prepare_create rt sv q key_in cid opts now ids R = Inr (Inr (c, v))"
  using assms
  by (auto simp: create_proposal_command_def commit_create_def persist_created_proposal_def
      split: sum.splits)

end
