(* ===== verification/Execution.thy ===== *)
theory Execution
  imports Lifecycle
begin

text \<open>
  Handing an approved proposal to a downstream execution provider and ingesting its updates:
  \<open>execution_boundary.py\<close>, \<open>execution_handoff.py\<close>, \<open>execution_handoff_command.py\<close>,
  \<open>execution_status.py\<close>, \<open>execution_update.py\<close>, \<open>execution_update_command.py\<close>,
  \<open>activity_read_model.py\<close>, \<open>delivery_summary.py\<close> and the requests and responses of
  \<open>delivery_execution_models.py\<close>.
\<close>

subsection \<open>Requests and responses\<close>

definition execution_ownership_boundary :: jobject where
  "execution_ownership_boundary =
     [(''advisory_role'', JStr ''HANDOFF_REQUEST_AND_STATUS_RECONCILIATION''),
      (''execution_system_of_record'', JStr ''DOWNSTREAM_EXECUTION_PROVIDER''),
      (''ownership_boundary'', JStr ''DOWNSTREAM_EXECUTION_SYSTEM_OF_RECORD'')]"

record handoff_request =
  hq_actor_id :: string
  hq_execution_provider :: string
  hq_related_version_no :: "int option"
  hq_expected_state :: "workflow_state option"
  hq_correlation_id :: "string option"
  hq_external_request_id :: "string option"
  hq_notes :: jobject

record update_request =
  uq_update_id :: string
  uq_actor_id :: string
  uq_execution_request_id :: string
  uq_execution_provider :: string
  uq_update_status :: update_status
  uq_related_version_no :: "int option"
  uq_external_execution_id :: "string option"
  uq_occurred_at :: "string option"
  uq_details :: jobject

record handoff_response =
  hr_proposal :: proposal_summary
  hr_execution_request_id :: string
  hr_handoff_status :: handoff_status
  hr_execution_provider :: string
  hr_execution_ownership :: jobject
  hr_latest_workflow_event :: workflow_event_view

text \<open>
  The identifier columns of a status response come out of the events' JSON untyped
  (\<open>cast\<close> checks nothing), so they are JSON values here; \<open>JNull\<close> is Python's \<open>None\<close>.
\<close>

record execution_status_response =
  es_proposal :: proposal_summary
  es_handoff_status :: handoff_status
  es_execution_request_id :: json
  es_execution_provider :: json
  es_related_version_no :: "int option"
  es_handoff_requested_at :: "string option"
  es_executed_at :: "string option"
  es_external_execution_id :: json
  es_latest_workflow_event :: "workflow_event_view option"
  es_execution_ownership :: jobject
  es_explanation :: jobject

definition dump_handoff_request :: "handoff_request \<Rightarrow> json" where
  "dump_handoff_request q = JObj
     [(''actor_id'', JStr (hq_actor_id q)),
      (''execution_provider'', JStr (hq_execution_provider q)),
      (''related_version_no'', json_opt JInt (hq_related_version_no q)),
      (''expected_state'', json_opt (\<lambda>s. JStr (workflow_state_str s)) (hq_expected_state q)),
      (''correlation_id'', json_opt JStr (hq_correlation_id q)),
      (''external_request_id'', json_opt JStr (hq_external_request_id q)),
      (''notes'', JObj (hq_notes q))]"

definition dump_update_request :: "update_request \<Rightarrow> json" where
  "dump_update_request q = JObj
     [(''update_id'', JStr (uq_update_id q)),
      (''actor_id'', JStr (uq_actor_id q)),
      (''execution_request_id'', JStr (uq_execution_request_id q)),
      (''execution_provider'', JStr (uq_execution_provider q)),
      (''update_status'', JStr (update_status_str (uq_update_status q))),
      (''related_version_no'', json_opt JInt (uq_related_version_no q)),
      (''external_execution_id'', json_opt JStr (uq_external_execution_id q)),
      (''occurred_at'', json_opt JStr (uq_occurred_at q)),
      (''details'', JObj (uq_details q))]"

subsection \<open>Handoff\<close>

definition build_execution_handoff_request_hash :: "runtime \<Rightarrow> handoff_request \<Rightarrow> string" where
  "build_execution_handoff_request_hash rt q = hash_canonical_payload rt (dump_handoff_request q)"

definition validate_execution_handoff_ready :: "workflow_state \<Rightarrow> error + unit" where
  "validate_execution_handoff_ready s =
     (if s \<noteq> WS_EXECUTION_READY
      then Inl (HandoffStateError
             ''STATE_CONFLICT: proposal must be EXECUTION_READY for execution handoff'')
      else Inr ())"

definition build_execution_handoff_replay_response ::
  "runtime \<Rightarrow> proposal \<Rightarrow> workflow_event \<Rightarrow> handoff_response" where
  "build_execution_handoff_replay_response rt p replay_event =
     (let execution_request_id = json_get (ev_reason_json replay_event) ''execution_request_id'' in
      \<lparr>hr_proposal = to_proposal_summary rt p,
       hr_execution_request_id =
         (if execution_request_id \<noteq> JNull then py_str execution_request_id else []),
       hr_handoff_status = HS_REQUESTED,
       hr_execution_provider = py_str (json_get (ev_reason_json replay_event) ''execution_provider''),
       hr_execution_ownership = execution_ownership_boundary,
       hr_latest_workflow_event = to_workflow_event rt replay_event\<rparr>)"

text \<open>\<open>a or b\<close> on an optional integer: zero is falsy.\<close>

definition py_or_int :: "int option \<Rightarrow> int option \<Rightarrow> int option" where
  "py_or_int a b = (case a of None \<Rightarrow> b | Some n \<Rightarrow> if n = 0 then b else Some n)"

definition build_execution_handoff_requested_event ::
  "string \<Rightarrow> proposal \<Rightarrow> handoff_request \<Rightarrow> datetime \<Rightarrow> string \<Rightarrow> string option \<Rightarrow> string
     \<Rightarrow> workflow_event" where
  "build_execution_handoff_requested_event event_id p q occurred_at execution_request_id
       idempotency_key request_hash = \<lparr>
     ev_event_id = event_id,
     ev_proposal_id = pr_proposal_id p,
     ev_event_type = EV_EXECUTION_REQUESTED,
     ev_from_state = Some (pr_current_state p),
     ev_to_state = WS_EXECUTION_READY,
     ev_actor_id = hq_actor_id q,
     ev_occurred_at = occurred_at,
     ev_reason_json = drop_none (stamp_idempotency idempotency_key request_hash
       [(''execution_request_id'', JStr execution_request_id),
        (''execution_provider'', JStr (hq_execution_provider q)),
        (''correlation_id'', json_opt JStr (hq_correlation_id q)),
        (''external_request_id'', json_opt JStr (hq_external_request_id q)),
        (''execution_ownership'', JObj execution_ownership_boundary),
        (''notes'', JObj (hq_notes q))]),
     ev_related_version_no = py_or_int (hq_related_version_no q) (Some (pr_current_version_no p)) \<rparr>"

definition apply_execution_handoff_state :: "proposal \<Rightarrow> workflow_event \<Rightarrow> proposal" where
  "apply_execution_handoff_state p e = p\<lparr>pr_last_event_at := ev_occurred_at e\<rparr>"

definition build_execution_handoff_event_and_apply_state ::
  "string \<Rightarrow> proposal \<Rightarrow> handoff_request \<Rightarrow> datetime \<Rightarrow> string \<Rightarrow> string option \<Rightarrow> string
     \<Rightarrow> workflow_event \<times> proposal" where
  "build_execution_handoff_event_and_apply_state event_id p q occurred_at execution_request_id key hash =
     (let e = build_execution_handoff_requested_event event_id p q occurred_at execution_request_id
                key hash
      in (e, apply_execution_handoff_state p e))"

definition build_execution_handoff_response ::
  "runtime \<Rightarrow> proposal \<Rightarrow> workflow_event \<Rightarrow> string \<Rightarrow> string \<Rightarrow> handoff_response" where
  "build_execution_handoff_response rt p e execution_request_id execution_provider = \<lparr>
     hr_proposal = to_proposal_summary rt p,
     hr_execution_request_id = execution_request_id,
     hr_handoff_status = HS_REQUESTED,
     hr_execution_provider = execution_provider,
     hr_execution_ownership = execution_ownership_boundary,
     hr_latest_workflow_event = to_workflow_event rt e \<rparr>"

text \<open>\<open>payload.external_request_id or new_execution_request_id()\<close>.\<close>

definition handoff_execution_request_id :: "handoff_request \<Rightarrow> string \<Rightarrow> string" where
  "handoff_execution_request_id q new_id = (case hq_external_request_id q of
      None \<Rightarrow> new_id | Some x \<Rightarrow> if x = [] then new_id else x)"

definition prepare_handoff ::
  "runtime \<Rightarrow> string \<Rightarrow> handoff_request \<Rightarrow> string option \<Rightarrow> bool \<Rightarrow> datetime \<Rightarrow> string \<Rightarrow> string
     \<Rightarrow> repository \<Rightarrow> error + (handoff_response + (proposal \<times> workflow_event))" where
  "prepare_handoff rt proposal_id q key_in require_expected_state occurred_at new_request_id event_id R =
     (let key = normalize_optional_idempotency_key key_in in
      case get_proposal proposal_id R of
        None \<Rightarrow> Inl (NotFoundError ''PROPOSAL_NOT_FOUND'')
      | Some p \<Rightarrow>
          (let hash = build_execution_handoff_request_hash rt q in
           case command_replayed_event R proposal_id key hash of
             Inl e \<Rightarrow> Inl e
           | Inr (Some replay_event) \<Rightarrow>
               Inr (Inl (build_execution_handoff_replay_response rt p replay_event))
           | Inr None \<Rightarrow>
               (case validate_proposal_expected_state (pr_current_state p) (hq_expected_state q)
                       require_expected_state of
                  Inl e \<Rightarrow> Inl e
                | Inr _ \<Rightarrow>
                    (case validate_execution_handoff_ready (pr_current_state p) of
                       Inl e \<Rightarrow> Inl (StateConflictError (error_message e))
                     | Inr _ \<Rightarrow>
                         (let (e, p') = build_execution_handoff_event_and_apply_state event_id p q
                                occurred_at (handoff_execution_request_id q new_request_id) key hash
                          in Inr (Inr (p', e)))))))"

definition commit_handoff ::
  "runtime \<Rightarrow> handoff_request \<Rightarrow> string \<Rightarrow> proposal \<times> workflow_event \<Rightarrow> repository
     \<Rightarrow> (error + handoff_response) \<times> repository" where
  "commit_handoff rt q new_request_id w R =
     (case persist_proposal_transition (fst w) (snd w) R of
        (Inl err, R') \<Rightarrow> (Inl err, R')
      | (Inr result, R') \<Rightarrow>
          (Inr (build_execution_handoff_response rt (tr_proposal result) (tr_event result)
                  (handoff_execution_request_id q new_request_id) (hq_execution_provider q)), R'))"

definition request_proposal_execution_handoff ::
  "runtime \<Rightarrow> string \<Rightarrow> handoff_request \<Rightarrow> string option \<Rightarrow> bool \<Rightarrow> datetime \<Rightarrow> string \<Rightarrow> string
     \<Rightarrow> repository \<Rightarrow> (error + handoff_response) \<times> repository" where
  "request_proposal_execution_handoff rt proposal_id q key_in require_expected_state occurred_at
       new_request_id event_id R =
     (case prepare_handoff rt proposal_id q key_in require_expected_state occurred_at new_request_id
             event_id R of
        Inl e \<Rightarrow> (Inl e, R)
      | Inr (Inl response) \<Rightarrow> (Inr response, R)
      | Inr (Inr w) \<Rightarrow> commit_handoff rt q new_request_id w R)"

subsection \<open>Execution status\<close>

definition latest_execution_requested_event :: "workflow_event list \<Rightarrow> workflow_event option" where
  "latest_execution_requested_event events =
     find_first (\<lambda>e. ev_event_type e = EV_EXECUTION_REQUESTED) (rev events)"

definition latest_execution_status_event :: "workflow_event list \<Rightarrow> workflow_event option" where
  "latest_execution_status_event events =
     find_first (\<lambda>e. ev_event_type e \<in> set execution_status_event_types) (rev events)"

record execution_status_projection =
  xp_handoff_status :: handoff_status
  xp_execution_request_id :: json
  xp_execution_provider :: json
  xp_related_version_no :: "int option"
  xp_handoff_requested_at :: "string option"
  xp_executed_at :: "string option"
  xp_external_execution_id :: json

definition requested_event_projection ::
  "runtime \<Rightarrow> workflow_event option \<Rightarrow> execution_status_projection" where
  "requested_event_projection rt e_opt = (case e_opt of
      None \<Rightarrow>
        \<lparr>xp_handoff_status = HS_NOT_REQUESTED, xp_execution_request_id = JNull,
         xp_execution_provider = JNull, xp_related_version_no = None,
         xp_handoff_requested_at = None, xp_executed_at = None,
         xp_external_execution_id = JNull\<rparr>
    | Some e \<Rightarrow>
        \<lparr>xp_handoff_status = HS_REQUESTED,
         xp_execution_request_id = json_get (ev_reason_json e) ''execution_request_id'',
         xp_execution_provider = json_get (ev_reason_json e) ''execution_provider'',
         xp_related_version_no = ev_related_version_no e,
         xp_handoff_requested_at = Some (rt_isoformat rt (ev_occurred_at e)),
         xp_executed_at = None, xp_external_execution_id = JNull\<rparr>)"

definition first_present :: "json list \<Rightarrow> json" where
  "first_present vs = (case find_first (\<lambda>v. v \<noteq> JNull) vs of None \<Rightarrow> JNull | Some v \<Rightarrow> v)"

definition status_executed_at :: "runtime \<Rightarrow> workflow_event \<Rightarrow> string option" where
  "status_executed_at rt e =
     (if ev_event_type e \<noteq> EV_EXECUTED then None else Some (rt_isoformat rt (ev_occurred_at e)))"

definition status_event_projection ::
  "runtime \<Rightarrow> workflow_event \<Rightarrow> execution_status_projection \<Rightarrow> bool
     \<Rightarrow> execution_status_projection" where
  "status_event_projection rt e projection has_request_event = projection\<lparr>
     xp_handoff_status := execution_status_for_event (ev_event_type e),
     xp_execution_request_id :=
       (if has_request_event then xp_execution_request_id projection
        else json_get (ev_reason_json e) ''execution_request_id''),
     xp_execution_provider :=
       (if has_request_event then xp_execution_provider projection
        else json_get (ev_reason_json e) ''execution_provider''),
     xp_related_version_no := py_or_int (ev_related_version_no e) (xp_related_version_no projection),
     xp_executed_at := status_executed_at rt e,
     xp_external_execution_id := first_present
       [json_get (ev_reason_json e) ''external_execution_id'',
        json_get (ev_reason_json e) ''execution_id''] \<rparr>"

definition execution_status_projection_of ::
  "runtime \<Rightarrow> workflow_event option \<Rightarrow> workflow_event option \<Rightarrow> execution_status_projection" where
  "execution_status_projection_of rt requested latest =
     (let projection = requested_event_projection rt requested in
      case latest of
        None \<Rightarrow> projection
      | Some e \<Rightarrow> status_event_projection rt e projection (requested \<noteq> None))"

definition build_execution_status_response ::
  "runtime \<Rightarrow> proposal \<Rightarrow> workflow_event list \<Rightarrow> execution_status_response" where
  "build_execution_status_response rt p events =
     (let requested = latest_execution_requested_event events;
          latest = latest_execution_status_event events;
          projection = execution_status_projection_of rt requested latest
      in \<lparr>es_proposal = to_proposal_summary rt p,
          es_handoff_status = xp_handoff_status projection,
          es_execution_request_id = xp_execution_request_id projection,
          es_execution_provider = xp_execution_provider projection,
          es_related_version_no = xp_related_version_no projection,
          es_handoff_requested_at = xp_handoff_requested_at projection,
          es_executed_at = xp_executed_at projection,
          es_external_execution_id = xp_external_execution_id projection,
          es_latest_workflow_event = map_option (to_workflow_event rt) latest,
          es_execution_ownership = execution_ownership_boundary,
          es_explanation =
            [(''source'', JStr ''ADVISORY_WORKFLOW_EVENTS''),
             (''state_correlation'',
                JStr (execution_state_correlation (xp_handoff_status projection))),
             (''execution_ownership'', JObj execution_ownership_boundary)]\<rparr>)"


subsection \<open>What a handoff plans\<close>

definition handoff_details :: "handoff_request \<Rightarrow> string \<Rightarrow> jobject" where
  "handoff_details q execution_request_id =
     [(''execution_request_id'', JStr execution_request_id),
      (''execution_provider'', JStr (hq_execution_provider q)),
      (''correlation_id'', json_opt JStr (hq_correlation_id q)),
      (''external_request_id'', json_opt JStr (hq_external_request_id q)),
      (''execution_ownership'', JObj execution_ownership_boundary),
      (''notes'', JObj (hq_notes q))]"

lemma handoff_event_reason:
  "ev_reason_json (build_execution_handoff_requested_event eid p q occ rid key h)
     = drop_none (stamp_idempotency key h (handoff_details q rid))"
  by (simp add: build_execution_handoff_requested_event_def handoff_details_def)

lemma distinct_handoff_details: "distinct (map fst (handoff_details q rid))"
  by (simp add: handoff_details_def)

lemma handoff_details_get:
  "json_get (handoff_details q rid) ''execution_request_id'' = JStr rid"
  "json_get (handoff_details q rid) ''execution_provider'' = JStr (hq_execution_provider q)"
  by (simp_all add: handoff_details_def json_get_def)

lemma handoff_reason_get:
  "json_get (ev_reason_json (build_execution_handoff_requested_event eid p q occ rid key h))
     ''execution_request_id'' = JStr rid"
  "json_get (ev_reason_json (build_execution_handoff_requested_event eid p q occ rid key h))
     ''execution_provider'' = JStr (hq_execution_provider q)"
  unfolding handoff_event_reason json_get_drop_none [OF distinct_stamp [OF distinct_handoff_details]]
  by (simp_all add: json_get_stamp handoff_details_get)

lemma handoff_reason_replay:
  assumes "k \<noteq> []"
  shows "metadata_matches_replay
     (ev_reason_json (build_execution_handoff_requested_event eid p q occ rid (Some k) h)) k h' =
     (if h = h' then Inr True
      else Inl (ReplayHashConflictError ''IDEMPOTENCY_KEY_CONFLICT: request hash mismatch''))"
  unfolding handoff_event_reason metadata_matches_drop_none [OF distinct_stamp [OF distinct_handoff_details]]
  using assms by simp

lemma prepare_handoff_write:
  assumes "prepare_handoff rt pid q key_in req occ rid eid R = Inr (Inr (p', e))"
  obtains p where "get_proposal pid R = Some p" and "pr_current_state p = WS_EXECUTION_READY"
    and "p' = p\<lparr>pr_last_event_at := occ\<rparr>" and "follows p p' e"
    and "ev_event_type e = EV_EXECUTION_REQUESTED"
    and "e = build_execution_handoff_requested_event eid p q occ (handoff_execution_request_id q rid)
              (normalize_optional_idempotency_key key_in)
              (build_execution_handoff_request_hash rt q)"
    and "command_replayed_event R pid (normalize_optional_idempotency_key key_in)
           (build_execution_handoff_request_hash rt q) = Inr None"
proof -
  let ?key = "normalize_optional_idempotency_key key_in"
  let ?hash = "build_execution_handoff_request_hash rt q"
  obtain p where p: "get_proposal pid R = Some p"
    and none: "command_replayed_event R pid ?key ?hash = Inr None"
    and ready: "pr_current_state p = WS_EXECUTION_READY"
    and b: "build_execution_handoff_event_and_apply_state eid p q occ
              (handoff_execution_request_id q rid) ?key ?hash = (e, p')"
    using assms
    by (auto simp: prepare_handoff_def validate_execution_handoff_ready_def Let_def
        split: option.splits sum.splits prod.splits if_splits)
  have e: "e = build_execution_handoff_requested_event eid p q occ
             (handoff_execution_request_id q rid) ?key ?hash"
    and p': "p' = p\<lparr>pr_last_event_at := occ\<rparr>"
    using b by (auto simp: build_execution_handoff_event_and_apply_state_def
        apply_execution_handoff_state_def Let_def build_execution_handoff_requested_event_def)
  have "follows p p' e" and "ev_event_type e = EV_EXECUTION_REQUESTED"
    using ready by (auto simp: e p' follows_def same_identity_def
        build_execution_handoff_requested_event_def)
  with p ready p' e none show thesis by (intro that [of p])
qed

lemma commit_handoff_eq:
  assumes "ev_from_state e = Some st"
  shows "commit_handoff rt q rid (p, e) R =
     (if cas_matches (pr_proposal_id p) (Some st) (Some (pr_current_version_no p)) R
      then (Inr (build_execution_handoff_response rt p e (handoff_execution_request_id q rid)
                   (hq_execution_provider q)), write_transition p e None R)
      else (Inl (StateConflictError
              ''STATE_CONFLICT: proposal aggregate changed during transition''), R))"
  using assms
  by (simp add: commit_handoff_def persist_proposal_transition_def transition_proposal_eq)

lemma handoff_command_cases:
  assumes "proposals_keyed R"
    and "request_proposal_execution_handoff rt pid q key_in req occ rid eid R = (res, R')"
  obtains (refused) e where "res = Inl e" "R' = R"
      "prepare_handoff rt pid q key_in req occ rid eid R = Inl e"
    | (replayed) r where "res = Inr r" "R' = R"
      "prepare_handoff rt pid q key_in req occ rid eid R = Inr (Inl r)"
    | (written) p' e where "R' = write_transition p' e None R"
      "res = Inr (build_execution_handoff_response rt p' e (handoff_execution_request_id q rid)
                    (hq_execution_provider q))"
      "prepare_handoff rt pid q key_in req occ rid eid R = Inr (Inr (p', e))"
proof (cases "prepare_handoff rt pid q key_in req occ rid eid R")
  case (Inl e)
  then show thesis using assms(2) refused by (auto simp: request_proposal_execution_handoff_def)
next
  case (Inr x)
  show thesis
  proof (cases x)
    case (Inl r)
    then show thesis using assms(2) Inr replayed
      by (auto simp: request_proposal_execution_handoff_def)
  next
    case (Inr w)
    obtain p' e where w: "w = (p', e)" by (cases w)
    with Inr \<open>prepare_handoff rt pid q key_in req occ rid eid R = Inr x\<close>
    have prep: "prepare_handoff rt pid q key_in req occ rid eid R = Inr (Inr (p', e))" by simp
    then obtain p where p: "get_proposal pid R = Some p" "follows p p' e"
      "p' = p\<lparr>pr_last_event_at := occ\<rparr>"
      by (rule prepare_handoff_write)
    have "pr_proposal_id p = pid"
      using assms(1) p(1) by (auto simp: proposals_keyed_def)
    with p assms(2) prep show thesis
      by (intro written [of p' e])
        (simp_all add: request_proposal_execution_handoff_def commit_handoff_eq follows_def
          cas_matches_Some)
  qed
qed

end
