(* ===== verification/Execution_Updates.thy ===== *)
theory Execution_Updates
  imports Execution
begin

text \<open>
  Ingesting downstream execution updates (\<open>execution_update.py\<close>,
  \<open>execution_update_command.py\<close>) and the delivery projections over the event log
  (\<open>delivery_summary.py\<close>, \<open>activity_read_model.py\<close>).
\<close>

subsection \<open>Update events\<close>

definition build_execution_update_idempotency_key :: "update_request \<Rightarrow> string" where
  "build_execution_update_idempotency_key q = ''execution-update:'' @ uq_update_id q"

definition build_execution_update_request_hash :: "runtime \<Rightarrow> update_request \<Rightarrow> string" where
  "build_execution_update_request_hash rt q = hash_canonical_payload rt (dump_update_request q)"

definition find_replayed_execution_update_event ::
  "workflow_event list \<Rightarrow> update_request \<Rightarrow> string \<Rightarrow> error + workflow_event option" where
  "find_replayed_execution_update_event events q hash =
     find_replayed_event events (Some (build_execution_update_idempotency_key q)) hash"

definition validate_execution_update_handoff_identity ::
  "workflow_event \<Rightarrow> update_request \<Rightarrow> error + unit" where
  "validate_execution_update_handoff_identity handoff_event q =
     (if json_get (ev_reason_json handoff_event) ''execution_request_id''
           \<noteq> JStr (uq_execution_request_id q)
      then Inl (UpdateRequestIdMismatchError ''EXECUTION_REQUEST_ID_MISMATCH'')
      else if json_get (ev_reason_json handoff_event) ''execution_provider''
           \<noteq> JStr (uq_execution_provider q)
      then Inl (UpdateProviderMismatchError ''EXECUTION_PROVIDER_MISMATCH'')
      else Inr ())"

definition validate_execution_update_state ::
  "proposal \<Rightarrow> workflow_state list \<Rightarrow> error + unit" where
  "validate_execution_update_state p terminals =
     (if pr_current_state p \<in> set terminals
      then Inl (UpdateTerminalStateError ''PROPOSAL_TERMINAL_STATE: execution update rejected'')
      else Inr ())"

definition validate_execution_update_occurred_after_handoff ::
  "datetime \<Rightarrow> workflow_event \<Rightarrow> error + unit" where
  "validate_execution_update_occurred_after_handoff occurred_at handoff_event =
     (if occurred_at < ev_occurred_at handoff_event
      then Inl (UpdateTimestampError ''EXECUTION_UPDATE_OCCURRED_BEFORE_HANDOFF'')
      else Inr ())"

definition resolve_execution_update_occurred_at ::
  "runtime \<Rightarrow> update_request \<Rightarrow> datetime \<Rightarrow> error + datetime" where
  "resolve_execution_update_occurred_at rt q default_occurred_at = (case uq_occurred_at q of
      None \<Rightarrow> Inr default_occurred_at
    | Some text \<Rightarrow> (case rt_fromisoformat rt text of
        None \<Rightarrow> Inl (ValueError (''Invalid isoformat string: '' @ py_repr_string text))
      | Some t \<Rightarrow> Inr t))"

definition build_execution_update_event ::
  "string \<Rightarrow> string \<Rightarrow> workflow_state \<Rightarrow> update_request \<Rightarrow> event_type \<Rightarrow> workflow_state \<Rightarrow> datetime
     \<Rightarrow> string \<Rightarrow> int option \<Rightarrow> workflow_event" where
  "build_execution_update_event event_id proposal_id current_state q event_type to_state occurred_at
       request_hash handoff_related_version_no = \<lparr>
     ev_event_id = event_id,
     ev_proposal_id = proposal_id,
     ev_event_type = event_type,
     ev_from_state = Some current_state,
     ev_to_state = to_state,
     ev_actor_id = uq_actor_id q,
     ev_occurred_at = occurred_at,
     ev_reason_json = drop_none
       [(''update_id'', JStr (uq_update_id q)),
        (''execution_request_id'', JStr (uq_execution_request_id q)),
        (''execution_provider'', JStr (uq_execution_provider q)),
        (''external_execution_id'', json_opt JStr (uq_external_execution_id q)),
        (''details'', JObj (uq_details q)),
        (''idempotency_key'', JStr (build_execution_update_idempotency_key q)),
        (''idempotency_request_hash'', JStr request_hash)],
     ev_related_version_no = py_or_int (uq_related_version_no q) handoff_related_version_no \<rparr>"

definition apply_execution_update_state ::
  "proposal \<Rightarrow> workflow_state \<Rightarrow> workflow_event \<Rightarrow> proposal" where
  "apply_execution_update_state p to_state e =
     p\<lparr>pr_current_state := to_state, pr_last_event_at := ev_occurred_at e\<rparr>"

definition build_execution_update_event_and_apply_state ::
  "string \<Rightarrow> proposal \<Rightarrow> update_request \<Rightarrow> event_type \<Rightarrow> workflow_state \<Rightarrow> datetime \<Rightarrow> string
     \<Rightarrow> int option \<Rightarrow> workflow_event \<times> proposal" where
  "build_execution_update_event_and_apply_state event_id p q event_type to_state occurred_at hash
       handoff_related_version_no =
     (let e = build_execution_update_event event_id (pr_proposal_id p) (pr_current_state p) q
                event_type to_state occurred_at hash handoff_related_version_no
      in (e, apply_execution_update_state p to_state e))"

subsection \<open>The update command\<close>

record activity_read_model =
  am_proposal :: "proposal option"
  am_events :: "workflow_event list"

definition load_proposal_activity_read_model :: "repository \<Rightarrow> string \<Rightarrow> activity_read_model" where
  "load_proposal_activity_read_model R proposal_id = (case get_proposal proposal_id R of
      None \<Rightarrow> \<lparr>am_proposal = None, am_events = []\<rparr>
    | Some p \<Rightarrow> \<lparr>am_proposal = Some p, am_events = list_events proposal_id R\<rparr>)"

definition resolve_valid_execution_update_timestamp ::
  "runtime \<Rightarrow> update_request \<Rightarrow> datetime \<Rightarrow> workflow_event \<Rightarrow> error + datetime" where
  "resolve_valid_execution_update_timestamp rt q default_occurred_at handoff_event =
     (case resolve_execution_update_occurred_at rt q default_occurred_at of
        Inl e \<Rightarrow> Inl e
      | Inr occurred_at \<Rightarrow>
          (case validate_execution_update_occurred_after_handoff occurred_at handoff_event of
             Inl e \<Rightarrow> Inl (ValidationError (error_message e))
           | Inr _ \<Rightarrow> Inr occurred_at))"

text \<open>\<open>Inr (Inl r)\<close> is the replay response; \<open>Inr (Inr w)\<close> the write to persist.\<close>

definition prepare_execution_update ::
  "runtime \<Rightarrow> string \<Rightarrow> update_request \<Rightarrow> workflow_state list \<Rightarrow> datetime \<Rightarrow> string \<Rightarrow> repository
     \<Rightarrow> error + (execution_status_response + (proposal \<times> workflow_event))" where
  "prepare_execution_update rt proposal_id q terminals default_occurred_at event_id R =
     (let activity = load_proposal_activity_read_model R proposal_id in
      case am_proposal activity of
        None \<Rightarrow> Inl (NotFoundError ''PROPOSAL_NOT_FOUND'')
      | Some p \<Rightarrow>
          (case latest_execution_requested_event (am_events activity) of
             None \<Rightarrow> Inl (ValidationError ''EXECUTION_HANDOFF_NOT_FOUND'')
           | Some handoff \<Rightarrow>
               (case validate_execution_update_handoff_identity handoff q of
                  Inl e \<Rightarrow> Inl (StateConflictError (error_message e))
                | Inr _ \<Rightarrow>
                    (let hash = build_execution_update_request_hash rt q in
                     case lift_error as_idempotency_conflict
                            (find_replayed_execution_update_event (am_events activity) q hash) of
                       Inl e \<Rightarrow> Inl e
                     | Inr (Some _) \<Rightarrow>
                         Inr (Inl (build_execution_status_response rt p (am_events activity)))
                     | Inr None \<Rightarrow>
                         (let (event_type, to_state) =
                                resolve_execution_update_event (uq_update_status q) in
                          case validate_execution_update_state p terminals of
                            Inl e \<Rightarrow> Inl (StateConflictError (error_message e))
                          | Inr _ \<Rightarrow>
                              (case resolve_valid_execution_update_timestamp rt q
                                      default_occurred_at handoff of
                                 Inl e \<Rightarrow> Inl e
                               | Inr occurred_at \<Rightarrow>
                                   (let (e, p') = build_execution_update_event_and_apply_state
                                          event_id p q event_type to_state occurred_at hash
                                          (ev_related_version_no handoff)
                                    in Inr (Inr (p', e)))))))))"

definition commit_execution_update ::
  "proposal \<times> workflow_event \<Rightarrow> repository
     \<Rightarrow> (error + execution_status_response option) \<times> repository" where
  "commit_execution_update w R =
     (case persist_proposal_transition (fst w) (snd w) R of
        (Inl err, R') \<Rightarrow> (Inl err, R')
      | (Inr _, R') \<Rightarrow> (Inr None, R'))"

definition record_proposal_execution_update ::
  "runtime \<Rightarrow> string \<Rightarrow> update_request \<Rightarrow> workflow_state list \<Rightarrow> datetime \<Rightarrow> string \<Rightarrow> repository
     \<Rightarrow> (error + execution_status_response option) \<times> repository" where
  "record_proposal_execution_update rt proposal_id q terminals default_occurred_at event_id R =
     (case prepare_execution_update rt proposal_id q terminals default_occurred_at event_id R of
        Inl e \<Rightarrow> (Inl e, R)
      | Inr (Inl response) \<Rightarrow> (Inr (Some response), R)
      | Inr (Inr w) \<Rightarrow> commit_execution_update w R)"

definition build_execution_status_view ::
  "runtime \<Rightarrow> string \<Rightarrow> repository \<Rightarrow> error + execution_status_response" where
  "build_execution_status_view rt proposal_id R =
     (let activity = load_proposal_activity_read_model R proposal_id in
      case am_proposal activity of
        None \<Rightarrow> Inl (NotFoundError ''PROPOSAL_NOT_FOUND'')
      | Some p \<Rightarrow> Inr (build_execution_status_response rt p (am_events activity)))"

text \<open>The service method: the replay response, or the status after the write.\<close>

definition record_execution_update ::
  "runtime \<Rightarrow> string \<Rightarrow> update_request \<Rightarrow> datetime \<Rightarrow> string \<Rightarrow> repository
     \<Rightarrow> (error + execution_status_response) \<times> repository" where
  "record_execution_update rt proposal_id q now event_id R =
     (case record_proposal_execution_update rt proposal_id q terminal_states now event_id R of
        (Inl e, R') \<Rightarrow> (Inl e, R')
      | (Inr (Some replay_response), R') \<Rightarrow> (Inr replay_response, R')
      | (Inr None, R') \<Rightarrow> (build_execution_status_view rt proposal_id R', R'))"

subsection \<open>Delivery projections\<close>

record latest_delivery_events =
  ld_execution_requested :: "workflow_event option"
  ld_execution_status :: "workflow_event option"
  ld_report_request :: "workflow_event option"

definition note_delivery_event ::
  "workflow_event \<Rightarrow> latest_delivery_events \<Rightarrow> latest_delivery_events" where
  "note_delivery_event e l = \<lparr>
     ld_execution_requested =
       (if ev_event_type e = EV_EXECUTION_REQUESTED then Some e else ld_execution_requested l),
     ld_execution_status =
       (if ev_event_type e \<in> set execution_status_event_types then Some e
        else ld_execution_status l),
     ld_report_request =
       (if ev_event_type e = EV_REPORT_REQUESTED then Some e else ld_report_request l) \<rparr>"

definition latest_delivery_events_of :: "workflow_event list \<Rightarrow> latest_delivery_events" where
  "latest_delivery_events_of events = fold note_delivery_event events
     \<lparr>ld_execution_requested = None, ld_execution_status = None, ld_report_request = None\<rparr>"

definition optional_str :: "json \<Rightarrow> string option" where
  "optional_str j = (case j of JStr s \<Rightarrow> Some s | _ \<Rightarrow> None)"

definition event_reason_str :: "workflow_event \<Rightarrow> string \<Rightarrow> workflow_event option \<Rightarrow> string option" where
  "event_reason_str e key fallback =
     (let value = json_get (ev_reason_json e) key in
      optional_str (case fallback of
          None \<Rightarrow> value
        | Some f \<Rightarrow> if value = JNull then json_get (ev_reason_json f) key else value))"

definition event_occurred_at :: "runtime \<Rightarrow> workflow_event option \<Rightarrow> string option" where
  "event_occurred_at rt e = map_option (\<lambda>x. rt_isoformat rt (ev_occurred_at x)) e"

record delivery_execution_summary =
  de_handoff_status :: handoff_status
  de_execution_request_id :: "string option"
  de_execution_provider :: "string option"
  de_related_version_no :: "int option"
  de_handoff_requested_at :: "string option"
  de_executed_at :: "string option"
  de_latest_event_type :: event_type
  de_external_execution_id :: "string option"
  de_execution_ownership :: jobject

definition build_execution_summary ::
  "runtime \<Rightarrow> latest_delivery_events \<Rightarrow> delivery_execution_summary option" where
  "build_execution_summary rt l =
     (case (case ld_execution_status l of Some e \<Rightarrow> Some e | None \<Rightarrow> ld_execution_requested l) of
        None \<Rightarrow> None
      | Some target \<Rightarrow> Some
          \<lparr>de_handoff_status = execution_status_for_event (ev_event_type target),
           de_execution_request_id =
             event_reason_str target ''execution_request_id'' (ld_execution_requested l),
           de_execution_provider =
             event_reason_str target ''execution_provider'' (ld_execution_requested l),
           de_related_version_no = ev_related_version_no target,
           de_handoff_requested_at = event_occurred_at rt (ld_execution_requested l),
           de_executed_at =
             (if ev_event_type target = EV_EXECUTED
              then Some (rt_isoformat rt (ev_occurred_at target)) else None),
           de_latest_event_type = ev_event_type target,
           de_external_execution_id = event_reason_str target ''external_execution_id'' None,
           de_execution_ownership = execution_ownership_boundary\<rparr>)"

record delivery_reporting_summary =
  dr_report_request_id :: "string option"
  dr_report_type :: "string option"
  dr_report_service :: "string option"
  dr_status :: "string option"
  dr_report_reference_id :: "string option"
  dr_artifact_url :: "string option"
  dr_requested_by :: string
  dr_related_version_no :: "int option"
  dr_include_execution_summary :: json
  dr_include_reviewed_narrative :: json
  dr_proposal_narrative_package :: json
  dr_generated_at :: string

definition build_reporting_summary ::
  "runtime \<Rightarrow> workflow_event option \<Rightarrow> delivery_reporting_summary option" where
  "build_reporting_summary rt report_request = (case report_request of
      None \<Rightarrow> None
    | Some e \<Rightarrow> Some
        \<lparr>dr_report_request_id = event_reason_str e ''report_request_id'' None,
         dr_report_type = event_reason_str e ''report_type'' None,
         dr_report_service = event_reason_str e ''report_service'' None,
         dr_status = event_reason_str e ''status'' None,
         dr_report_reference_id = event_reason_str e ''report_reference_id'' None,
         dr_artifact_url = event_reason_str e ''artifact_url'' None,
         dr_requested_by = ev_actor_id e,
         dr_related_version_no = ev_related_version_no e,
         dr_include_execution_summary = json_get (ev_reason_json e) ''include_execution_summary'',
         dr_include_reviewed_narrative =
           (case dict_get (ev_reason_json e) ''include_reviewed_narrative'' of
              None \<Rightarrow> JBool False | Some v \<Rightarrow> v),
         dr_proposal_narrative_package = json_get (ev_reason_json e) ''proposal_narrative_package'',
         dr_generated_at = rt_isoformat rt (ev_occurred_at e)\<rparr>)"

definition select_delivery_events :: "workflow_event list \<Rightarrow> workflow_event list" where
  "select_delivery_events events =
     filter (\<lambda>e. ev_event_type e \<in> set execution_status_event_types
                 \<or> ev_event_type e = EV_REPORT_REQUESTED) events"

record delivery_history_response =
  dh_proposal :: proposal_summary
  dh_event_count :: nat
  dh_latest_event :: "workflow_event_view option"
  dh_events :: "workflow_event_view list"
  dh_explanation :: jobject

definition build_delivery_history_response ::
  "runtime \<Rightarrow> proposal \<Rightarrow> workflow_event list \<Rightarrow> delivery_history_response" where
  "build_delivery_history_response rt p events =
     (let history = map (to_workflow_event rt) (select_delivery_events events) in
      \<lparr>dh_proposal = to_proposal_summary rt p,
       dh_event_count = length history,
       dh_latest_event = (if history = [] then None else Some (last history)),
       dh_events = history,
       dh_explanation =
         [(''source'', JStr ''ADVISORY_WORKFLOW_EVENTS''),
          (''filter'', JStr ''DELIVERY_ONLY''),
          (''execution_ownership'', JObj execution_ownership_boundary)]\<rparr>)"


subsection \<open>What an update plans\<close>

lemma prepare_execution_update_write:
  assumes "prepare_execution_update rt pid q terminals now eid R = Inr (Inr (p', e))"
  obtains p handoff occ where "get_proposal pid R = Some p"
    and "latest_execution_requested_event (list_events pid R) = Some handoff"
    and "validate_execution_update_handoff_identity handoff q = Inr ()"
    and "pr_current_state p \<notin> set terminals"
    and "resolve_valid_execution_update_timestamp rt q now handoff = Inr occ"
    and "p' = p\<lparr>pr_current_state := snd (resolve_execution_update_event (uq_update_status q)),
               pr_last_event_at := occ\<rparr>"
    and "e = build_execution_update_event eid (pr_proposal_id p) (pr_current_state p) q
               (fst (resolve_execution_update_event (uq_update_status q)))
               (snd (resolve_execution_update_event (uq_update_status q))) occ
               (build_execution_update_request_hash rt q) (ev_related_version_no handoff)"
    and "follows p p' e"
proof -
  obtain ev t where evt: "resolve_execution_update_event (uq_update_status q) = (ev, t)"
    by fastforce
  obtain p handoff occ where p: "get_proposal pid R = Some p"
    and h: "latest_execution_requested_event (list_events pid R) = Some handoff"
    and idy: "validate_execution_update_handoff_identity handoff q = Inr ()"
    and st: "validate_execution_update_state p terminals = Inr ()"
    and occ: "resolve_valid_execution_update_timestamp rt q now handoff = Inr occ"
    and b: "build_execution_update_event_and_apply_state eid p q ev t occ
              (build_execution_update_request_hash rt q) (ev_related_version_no handoff) = (e, p')"
    using assms evt
    by (auto simp: prepare_execution_update_def load_proposal_activity_read_model_def Let_def
        split: option.splits sum.splits prod.splits)
  have e: "e = build_execution_update_event eid (pr_proposal_id p) (pr_current_state p) q ev t occ
             (build_execution_update_request_hash rt q) (ev_related_version_no handoff)"
    and p': "p' = p\<lparr>pr_current_state := t, pr_last_event_at := occ\<rparr>"
    using b by (auto simp: build_execution_update_event_and_apply_state_def
        apply_execution_update_state_def build_execution_update_event_def Let_def)
  have "follows p p' e"
    by (simp add: e p' follows_def same_identity_def build_execution_update_event_def)
  moreover have "pr_current_state p \<notin> set terminals"
    using st by (auto simp: validate_execution_update_state_def split: if_splits)
  ultimately show thesis
    using p h idy occ e p' evt by (intro that [of p handoff occ]) simp_all
qed

lemma commit_execution_update_eq:
  assumes "ev_from_state e = Some st"
  shows "commit_execution_update (p, e) R =
     (if cas_matches (pr_proposal_id p) (Some st) (Some (pr_current_version_no p)) R
      then (Inr None, write_transition p e None R)
      else (Inl (StateConflictError
              ''STATE_CONFLICT: proposal aggregate changed during transition''), R))"
  using assms
  by (simp add: commit_execution_update_def persist_proposal_transition_def transition_proposal_eq)

lemma update_command_cases:
  assumes "proposals_keyed R"
    and "record_proposal_execution_update rt pid q terminals now eid R = (res, R')"
  obtains (refused) e where "res = Inl e" "R' = R"
      "prepare_execution_update rt pid q terminals now eid R = Inl e"
    | (replayed) r where "res = Inr (Some r)" "R' = R"
      "prepare_execution_update rt pid q terminals now eid R = Inr (Inl r)"
    | (written) p' e where "R' = write_transition p' e None R" "res = Inr None"
      "prepare_execution_update rt pid q terminals now eid R = Inr (Inr (p', e))"
proof (cases "prepare_execution_update rt pid q terminals now eid R")
  case (Inl e)
  then show thesis using assms(2) refused by (auto simp: record_proposal_execution_update_def)
next
  case (Inr x)
  show thesis
  proof (cases x)
    case (Inl r)
    then show thesis using assms(2) Inr replayed
      by (auto simp: record_proposal_execution_update_def)
  next
    case (Inr w)
    obtain p' e where w: "w = (p', e)" by (cases w)
    with Inr \<open>prepare_execution_update rt pid q terminals now eid R = Inr x\<close>
    have prep: "prepare_execution_update rt pid q terminals now eid R = Inr (Inr (p', e))" by simp
    then obtain p t occ where p: "get_proposal pid R = Some p" "follows p p' e"
      "p' = p\<lparr>pr_current_state := t, pr_last_event_at := occ\<rparr>"
      by (rule prepare_execution_update_write) blast
    have "pr_proposal_id p = pid"
      using assms(1) p(1) by (auto simp: proposals_keyed_def)
    with p assms(2) prep show thesis
      by (intro written [of p' e])
        (simp_all add: record_proposal_execution_update_def commit_execution_update_eq follows_def
          cas_matches_Some)
  qed
qed

lemma update_event_replay:
  "metadata_matches_replay
     (ev_reason_json (build_execution_update_event eid pid st q ev t occ h vn))
     (build_execution_update_idempotency_key q) h' =
   (if h = h' then Inr True
    else Inl (ReplayHashConflictError ''IDEMPOTENCY_KEY_CONFLICT: request hash mismatch''))"
  by (simp add: build_execution_update_event_def drop_none_def metadata_matches_replay_def
      json_opt_def split: option.splits)

subsection \<open>The two readings of the log agree\<close>

lemma find_first_rev_snoc [simp]:
  "find_first P (rev (xs @ [x])) = (if P x then Some x else find_first P (rev xs))"
  by simp

lemma latest_delivery_events_eq:
  "latest_delivery_events_of events = \<lparr>
     ld_execution_requested = latest_execution_requested_event events,
     ld_execution_status = latest_execution_status_event events,
     ld_report_request = find_first (\<lambda>e. ev_event_type e = EV_REPORT_REQUESTED) (rev events) \<rparr>"
  by (induction events rule: rev_induct)
    (simp_all add: latest_delivery_events_of_def note_delivery_event_def
      latest_execution_requested_event_def latest_execution_status_event_def)

lemma requested_is_status:
  "latest_execution_requested_event events = Some r \<Longrightarrow>
     \<exists>s. latest_execution_status_event events = Some s"
  unfolding latest_execution_requested_event_def latest_execution_status_event_def
  by (rule find_first_Some_iff [THEN iffD2])
    (auto dest!: find_first_SomeD simp: execution_status_event_types_def)

lemma execution_status_handoff_status:
  "es_handoff_status (build_execution_status_response rt p events) =
     (case latest_execution_status_event events of
        None \<Rightarrow> HS_NOT_REQUESTED
      | Some e \<Rightarrow> execution_status_for_event (ev_event_type e))"
proof (cases "latest_execution_status_event events")
  case None
  then have "latest_execution_requested_event events = None"
    using requested_is_status by fastforce
  with None show ?thesis
    by (simp add: build_execution_status_response_def execution_status_projection_of_def
        requested_event_projection_def Let_def)
next
  case (Some e)
  then show ?thesis
    by (simp add: build_execution_status_response_def execution_status_projection_of_def
        status_event_projection_def Let_def)
qed

lemma execution_summary_handoff_status:
  "map_option de_handoff_status (build_execution_summary rt (latest_delivery_events_of events)) =
     map_option (\<lambda>e. execution_status_for_event (ev_event_type e))
       (latest_execution_status_event events)"
proof (cases "latest_execution_status_event events")
  case None
  then have "latest_execution_requested_event events = None"
    using requested_is_status by fastforce
  with None show ?thesis by (simp add: latest_delivery_events_eq build_execution_summary_def)
next
  case (Some e)
  then show ?thesis by (simp add: latest_delivery_events_eq build_execution_summary_def)
qed

lemma execution_summary_executed_at:
  assumes "build_execution_summary rt (latest_delivery_events_of events) = Some d"
  shows "es_executed_at (build_execution_status_response rt p events) = de_executed_at d"
    and "es_handoff_requested_at (build_execution_status_response rt p events)
           = de_handoff_requested_at d"
    and "es_handoff_status (build_execution_status_response rt p events) = de_handoff_status d"
proof -
  obtain e where e: "latest_execution_status_event events = Some e"
    using assms requested_is_status [of events]
    by (auto simp: latest_delivery_events_eq build_execution_summary_def split: option.splits)
  show "es_handoff_status (build_execution_status_response rt p events) = de_handoff_status d"
    using execution_summary_handoff_status [of rt events] assms e
    by (simp add: execution_status_handoff_status)
  show "es_executed_at (build_execution_status_response rt p events) = de_executed_at d"
    using assms e
    by (auto simp: latest_delivery_events_eq build_execution_summary_def status_executed_at_def
        build_execution_status_response_def execution_status_projection_of_def
        status_event_projection_def Let_def)
  show "es_handoff_requested_at (build_execution_status_response rt p events)
      = de_handoff_requested_at d"
    using assms e
    by (auto simp: latest_delivery_events_eq build_execution_summary_def event_occurred_at_def
        build_execution_status_response_def execution_status_projection_of_def
        requested_event_projection_def status_event_projection_def Let_def split: option.splits)
qed

end
