(* ===== verification/Narrative_Reports.thy ===== *)
theory Narrative_Reports
  imports Lifecycle
begin

text \<open>
  Two commands that append an event without moving the workflow: recording a report request
  (\<open>reporting.py\<close>, \<open>report_request_command.py\<close>) and reviewing a persisted narrative
  (\<open>narrative_review.py\<close>, \<open>narrative_views.py\<close>).
\<close>

subsection \<open>Report requests\<close>

record report_response =
  rr_proposal :: proposal_summary
  rr_report_request_id :: string
  rr_report_type :: report_type
  rr_report_service :: string
  rr_status :: string
  rr_generated_at :: string
  rr_report_reference_id :: string
  rr_artifact_url :: "string option"
  rr_explanation :: jobject

record report_arguments =
  ra_requested_by :: string
  ra_related_version_no :: int
  ra_include_execution_summary :: bool
  ra_include_reviewed_narrative :: bool
  ra_proposal_narrative_package :: "jobject option"

definition build_report_requested_event ::
  "runtime \<Rightarrow> string \<Rightarrow> proposal \<Rightarrow> report_response \<Rightarrow> report_arguments \<Rightarrow> error + workflow_event" where
  "build_report_requested_event rt event_id p r a =
     (case rt_fromisoformat rt (rr_generated_at r) of
        None \<Rightarrow> Inl (ValueError (''Invalid isoformat string: '' @ py_repr_string (rr_generated_at r)))
      | Some occurred_at \<Rightarrow> Inr
          \<lparr>ev_event_id = event_id,
           ev_proposal_id = pr_proposal_id p,
           ev_event_type = EV_REPORT_REQUESTED,
           ev_from_state = Some (pr_current_state p),
           ev_to_state = pr_current_state p,
           ev_actor_id = ra_requested_by a,
           ev_occurred_at = occurred_at,
           ev_reason_json =
             [(''report_request_id'', JStr (rr_report_request_id r)),
              (''report_type'', JStr (report_type_str (rr_report_type r))),
              (''report_service'', JStr (rr_report_service r)),
              (''status'', JStr (rr_status r)),
              (''report_reference_id'', JStr (rr_report_reference_id r)),
              (''artifact_url'', json_opt JStr (rr_artifact_url r)),
              (''related_version_no'', JInt (ra_related_version_no a)),
              (''include_execution_summary'', JBool (ra_include_execution_summary a))]
             @ (if ra_include_reviewed_narrative a
                then [(''include_reviewed_narrative'', JBool True)] else [])
             @ (case ra_proposal_narrative_package a of
                  None \<Rightarrow> [] | Some d \<Rightarrow> [(''proposal_narrative_package'', JObj d)]),
           ev_related_version_no = Some (ra_related_version_no a)\<rparr>)"

definition apply_report_request_state :: "proposal \<Rightarrow> workflow_event \<Rightarrow> proposal" where
  "apply_report_request_state p e =
     p\<lparr>pr_last_event_at := max (pr_last_event_at p) (ev_occurred_at e)\<rparr>"

definition prepare_report_request ::
  "runtime \<Rightarrow> string \<Rightarrow> report_response \<Rightarrow> report_arguments \<Rightarrow> string \<Rightarrow> repository
     \<Rightarrow> error + (proposal \<times> workflow_event)" where
  "prepare_report_request rt proposal_id r a event_id R =
     (case get_proposal proposal_id R of
        None \<Rightarrow> Inl (NotFoundError ''PROPOSAL_NOT_FOUND'')
      | Some p \<Rightarrow>
          (case build_report_requested_event rt event_id p r a of
             Inl e \<Rightarrow> Inl e
           | Inr e \<Rightarrow> Inr (apply_report_request_state p e, e)))"

definition commit_report_request ::
  "proposal \<times> workflow_event \<Rightarrow> repository \<Rightarrow> (error + workflow_event) \<times> repository" where
  "commit_report_request w R =
     (case persist_proposal_transition (fst w) (snd w) R of
        (Inl err, R') \<Rightarrow> (Inl err, R')
      | (Inr _, R') \<Rightarrow> (Inr (snd w), R'))"

definition record_proposal_report_request ::
  "runtime \<Rightarrow> string \<Rightarrow> report_response \<Rightarrow> report_arguments \<Rightarrow> string \<Rightarrow> repository
     \<Rightarrow> (error + workflow_event) \<times> repository" where
  "record_proposal_report_request rt proposal_id r a event_id R =
     (case prepare_report_request rt proposal_id r a event_id R of
        Inl e \<Rightarrow> (Inl e, R)
      | Inr w \<Rightarrow> commit_report_request w R)"

subsection \<open>Narrative review: requests and records\<close>

datatype review_action = NA_APPROVE | NA_REJECT | NA_REQUEST_REGENERATION

primrec review_action_str :: "review_action \<Rightarrow> string" where
  "review_action_str NA_APPROVE = ''APPROVE''"
| "review_action_str NA_REJECT = ''REJECT''"
| "review_action_str NA_REQUEST_REGENERATION = ''REQUEST_REGENERATION''"

record review_request =
  nq_action :: review_action
  nq_reviewed_by :: string
  nq_reason :: string
  nq_client_ready_release_requested :: bool
  nq_replacement_narrative_id :: "string option"

definition dump_review_request :: "review_request \<Rightarrow> json" where
  "dump_review_request q = JObj
     [(''action'', JStr (review_action_str (nq_action q))),
      (''reviewed_by'', JStr (nq_reviewed_by q)),
      (''reason'', JStr (nq_reason q)),
      (''client_ready_release_requested'', JBool (nq_client_ready_release_requested q)),
      (''replacement_narrative_id'', json_opt JStr (nq_replacement_narrative_id q))]"

text \<open>The three classifications are read back from JSON unchecked (\<open>cast\<close>).\<close>

record review_record =
  nr_review_id :: string
  nr_proposal_id :: string
  nr_proposal_version_no :: int
  nr_narrative_id :: string
  nr_action :: json
  nr_review_state :: json
  nr_client_ready_status :: json
  nr_reviewed_by :: string
  nr_reviewed_at :: string
  nr_reason :: string
  nr_source_narrative_hash :: string
  nr_replacement_narrative_id :: "string option"
  nr_replayed :: bool

record review_response =
  nx_proposal :: proposal_summary
  nx_narrative_review :: review_record
  nx_latest_workflow_event :: workflow_event_view

definition narrative_of :: "proposal_version \<Rightarrow> error + jobject" where
  "narrative_of v = (case json_get (pv_artifact_json v) ''proposal_narrative'' of
      JObj d \<Rightarrow> Inr d
    | _ \<Rightarrow> Inl (NarrativeReviewError ''PROPOSAL_NARRATIVE_NOT_FOUND''))"

definition narrative_id_of :: "proposal_version \<Rightarrow> error + string" where
  "narrative_id_of v = (case narrative_of v of
      Inl e \<Rightarrow> Inl e
    | Inr d \<Rightarrow> Inr (if json_get d ''narrative_id'' = JNull then []
                     else py_str (json_get d ''narrative_id'')))"

definition require_reviewable_narrative :: "proposal_version \<Rightarrow> error + unit" where
  "require_reviewable_narrative v = (case narrative_of v of
      Inl e \<Rightarrow> Inl e
    | Inr d \<Rightarrow> if json_truthy (json_get d ''narrative_id'') then Inr ()
               else Inl (NarrativeReviewError ''PROPOSAL_NARRATIVE_NOT_FOUND''))"

definition build_narrative_review_request_hash ::
  "runtime \<Rightarrow> proposal_version \<Rightarrow> review_request \<Rightarrow> error + string" where
  "build_narrative_review_request_hash rt v q = (case narrative_id_of v of
      Inl e \<Rightarrow> Inl e
    | Inr nid \<Rightarrow> Inr (hash_canonical_payload rt (JObj
        [(''proposal_id'', JStr (pv_proposal_id v)),
         (''proposal_version_no'', JInt (pv_version_no v)),
         (''narrative_id'', JStr nid),
         (''payload'', dump_review_request q)])))"

definition review_state_str :: "review_action \<Rightarrow> string" where
  "review_state_str a =
     (if a = NA_APPROVE then ''APPROVED_FOR_ADVISOR_USE''
      else if a = NA_REQUEST_REGENERATION then ''REGENERATION_REQUESTED''
      else ''REJECTED'')"

definition client_ready_status_str :: "review_request \<Rightarrow> string" where
  "client_ready_status_str q =
     (if \<not> nq_client_ready_release_requested q then ''NOT_REQUESTED''
      else if nq_action q \<noteq> NA_APPROVE then ''BLOCKED_REVIEW_REQUIRED''
      else ''BLOCKED_POLICY_OR_GUARDRAIL'')"

subsection \<open>Narrative review: the command\<close>

fun scan_replayed_review ::
  "string \<Rightarrow> string \<Rightarrow> workflow_event list \<Rightarrow> error + workflow_event option" where
  "scan_replayed_review key hash [] = Inr None"
| "scan_replayed_review key hash (e # es) =
     (if ev_event_type e \<noteq> EV_NARRATIVE_REVIEWED then scan_replayed_review key hash es
      else if json_get (ev_reason_json e) ''idempotency_key'' \<noteq> JStr key
      then scan_replayed_review key hash es
      else (let existing_hash = json_get (ev_reason_json e) ''idempotency_request_hash'' in
            if existing_hash \<noteq> JNull \<and> existing_hash \<noteq> JStr hash
            then Inl (NarrativeReviewError ''IDEMPOTENCY_KEY_CONFLICT: request hash mismatch'')
            else Inr (Some e)))"

definition find_replayed_review_event ::
  "repository \<Rightarrow> string \<Rightarrow> string option \<Rightarrow> string \<Rightarrow> error + workflow_event option" where
  "find_replayed_review_event R proposal_id key hash = (case key of
      None \<Rightarrow> Inr None
    | Some k \<Rightarrow>
        if k = [] then Inr None else scan_replayed_review k hash (rev (list_events proposal_id R)))"

definition build_review_event ::
  "runtime \<Rightarrow> string \<Rightarrow> proposal \<Rightarrow> proposal_version \<Rightarrow> review_request \<Rightarrow> string option \<Rightarrow> string
     \<Rightarrow> datetime \<Rightarrow> error + workflow_event" where
  "build_review_event rt event_id p v q idempotency_key request_hash occurred_at =
     (case narrative_of v of
        Inl e \<Rightarrow> Inl e
      | Inr narrative \<Rightarrow> (case json_item (JObj narrative) ''narrative_id'' of
          Inl e \<Rightarrow> Inl e
        | Inr narrative_id \<Rightarrow> Inr
            \<lparr>ev_event_id = event_id,
             ev_proposal_id = pr_proposal_id p,
             ev_event_type = EV_NARRATIVE_REVIEWED,
             ev_from_state = Some (pr_current_state p),
             ev_to_state = pr_current_state p,
             ev_actor_id = nq_reviewed_by q,
             ev_occurred_at = occurred_at,
             ev_reason_json = stamp_idempotency idempotency_key request_hash
               [(''review_action'', JStr (review_action_str (nq_action q))),
                (''review_state'', JStr (review_state_str (nq_action q))),
                (''client_ready_status'', JStr (client_ready_status_str q)),
                (''reason'', JStr (nq_reason q)),
                (''narrative_id'', narrative_id),
                (''source_narrative_hash'', JStr (hash_canonical_payload rt (JObj narrative))),
                (''client_ready_release_requested'', JBool (nq_client_ready_release_requested q)),
                (''replacement_narrative_id'', json_opt JStr (nq_replacement_narrative_id q))],
             ev_related_version_no = Some (pv_version_no v)\<rparr>))"

text \<open>\<open>str(reason.get(k) or "")\<close>.\<close>

definition reason_text :: "jobject \<Rightarrow> string \<Rightarrow> string" where
  "reason_text d k = (if json_truthy (json_get d k) then py_str (json_get d k) else [])"

definition review_record_from_event :: "runtime \<Rightarrow> workflow_event \<Rightarrow> bool \<Rightarrow> review_record" where
  "review_record_from_event rt e replayed =
     (let reason = ev_reason_json e in
      \<lparr>nr_review_id = ev_event_id e,
       nr_proposal_id = ev_proposal_id e,
       nr_proposal_version_no = (case ev_related_version_no e of None \<Rightarrow> 0 | Some n \<Rightarrow> n),
       nr_narrative_id = reason_text reason ''narrative_id'',
       nr_action = json_get reason ''review_action'',
       nr_review_state = json_get reason ''review_state'',
       nr_client_ready_status = json_get reason ''client_ready_status'',
       nr_reviewed_by = ev_actor_id e,
       nr_reviewed_at = rt_isoformat rt (ev_occurred_at e),
       nr_reason = reason_text reason ''reason'',
       nr_source_narrative_hash = reason_text reason ''source_narrative_hash'',
       nr_replacement_narrative_id =
         (if json_get reason ''replacement_narrative_id'' \<noteq> JNull
          then Some (py_str (json_get reason ''replacement_narrative_id'')) else None),
       nr_replayed = replayed\<rparr>)"

definition build_review_response ::
  "runtime \<Rightarrow> proposal \<Rightarrow> workflow_event \<Rightarrow> bool \<Rightarrow> review_response" where
  "build_review_response rt p e replayed = \<lparr>
     nx_proposal = to_proposal_summary rt p,
     nx_narrative_review = review_record_from_event rt e replayed,
     nx_latest_workflow_event = to_workflow_event rt e \<rparr>"

definition prepare_review_event ::
  "runtime \<Rightarrow> string \<Rightarrow> proposal \<Rightarrow> proposal_version \<Rightarrow> review_request \<Rightarrow> string option \<Rightarrow> datetime
     \<Rightarrow> repository \<Rightarrow> error + (review_response + (proposal \<times> workflow_event))" where
  "prepare_review_event rt event_id p v q key_in occurred_at R =
     (let key = normalize_optional_idempotency_key key_in in
      case require_reviewable_narrative v of
        Inl e \<Rightarrow> Inl e
      | Inr _ \<Rightarrow>
     (case build_narrative_review_request_hash rt v q of
        Inl e \<Rightarrow> Inl e
      | Inr hash \<Rightarrow>
     (case find_replayed_review_event R (pr_proposal_id p) key hash of
        Inl e \<Rightarrow> Inl e
      | Inr (Some replay_event) \<Rightarrow> Inr (Inl (build_review_response rt p replay_event True))
      | Inr None \<Rightarrow>
     (case build_review_event rt event_id p v q key hash occurred_at of
        Inl e \<Rightarrow> Inl e
      | Inr e \<Rightarrow> Inr (Inr (p\<lparr>pr_last_event_at := occurred_at\<rparr>, e))))))"

definition commit_review ::
  "runtime \<Rightarrow> proposal \<times> workflow_event \<Rightarrow> repository \<Rightarrow> (error + review_response) \<times> repository" where
  "commit_review rt w R =
     (case transition_proposal (fst w) (snd w) None (ev_from_state (snd w))
             (Some (pr_current_version_no (fst w))) R of
        (Inl err, R') \<Rightarrow> (Inl err, R')
      | (Inr result, R') \<Rightarrow>
          (Inr (build_review_response rt (tr_proposal result) (tr_event result) False), R'))"

definition starts_with :: "string \<Rightarrow> string \<Rightarrow> bool" where
  "starts_with prefix s \<longleftrightarrow> take (length prefix) s = prefix"

definition narrative_command_error :: "error \<Rightarrow> error" where
  "narrative_command_error e = (case e of
      NarrativeReviewError m \<Rightarrow>
        if starts_with ''IDEMPOTENCY_KEY_CONFLICT'' m then IdempotencyConflictError m
        else ValidationError m
    | _ \<Rightarrow> e)"

definition prepare_narrative_review ::
  "runtime \<Rightarrow> string \<Rightarrow> int \<Rightarrow> review_request \<Rightarrow> string option \<Rightarrow> string \<Rightarrow> datetime \<Rightarrow> repository
     \<Rightarrow> error + (review_response + (proposal \<times> workflow_event))" where
  "prepare_narrative_review rt proposal_id version_no q key_in event_id occurred_at R =
     (case get_proposal proposal_id R of
        None \<Rightarrow> Inl (NotFoundError ''PROPOSAL_NOT_FOUND'')
      | Some p \<Rightarrow>
          (case get_version proposal_id version_no R of
             None \<Rightarrow> Inl (NotFoundError ''PROPOSAL_VERSION_NOT_FOUND'')
           | Some v \<Rightarrow>
               lift_error narrative_command_error
                 (prepare_review_event rt event_id p v q key_in occurred_at R)))"

definition record_narrative_review ::
  "runtime \<Rightarrow> string \<Rightarrow> int \<Rightarrow> review_request \<Rightarrow> string option \<Rightarrow> string \<Rightarrow> datetime \<Rightarrow> repository
     \<Rightarrow> (error + review_response) \<times> repository" where
  "record_narrative_review rt proposal_id version_no q key_in event_id occurred_at R =
     (case prepare_narrative_review rt proposal_id version_no q key_in event_id occurred_at R of
        Inl e \<Rightarrow> (Inl e, R)
      | Inr (Inl response) \<Rightarrow> (Inr response, R)
      | Inr (Inr w) \<Rightarrow> commit_review rt w R)"

subsection \<open>What the two commands plan and write\<close>

text \<open>Neither moves the proposal: the event leaves and enters the state of the snapshot.\<close>

lemma prepare_report_request_write:
  assumes "prepare_report_request rt pid r a eid R = Inr (p', e)"
  obtains p where "get_proposal pid R = Some p" and "follows p p' e"
    and "pr_current_version_no p' = pr_current_version_no p"
    and "pr_current_state p' = pr_current_state p"
    and "ev_event_type e = EV_REPORT_REQUESTED"
  using assms
  by (auto simp: prepare_report_request_def build_report_requested_event_def
      apply_report_request_state_def follows_def same_identity_def split: option.splits sum.splits)

lemma commit_report_request_eq:
  assumes "ev_from_state e = Some st"
  shows "commit_report_request (p, e) R =
     (if cas_matches (pr_proposal_id p) (Some st) (Some (pr_current_version_no p)) R
      then (Inr e, write_transition p e None R)
      else (Inl (StateConflictError
              ''STATE_CONFLICT: proposal aggregate changed during transition''), R))"
  using assms
  by (simp add: commit_report_request_def persist_proposal_transition_def transition_proposal_eq)

lemma prepare_review_event_write:
  assumes "prepare_review_event rt eid p v q key_in occ R = Inr (Inr (p', e))"
  shows "follows p p' e" and "pr_current_version_no p' = pr_current_version_no p"
    and "pr_current_state p' = pr_current_state p" and "ev_event_type e = EV_NARRATIVE_REVIEWED"
  using assms
  by (auto simp: prepare_review_event_def build_review_event_def Let_def follows_def
      same_identity_def split: option.splits sum.splits)

lemma prepare_narrative_review_write:
  assumes "prepare_narrative_review rt pid n q key_in eid occ R = Inr (Inr (p', e))"
  obtains p where "get_proposal pid R = Some p" and "follows p p' e"
    and "pr_current_version_no p' = pr_current_version_no p"
    and "pr_current_state p' = pr_current_state p"
    and "ev_event_type e = EV_NARRATIVE_REVIEWED"
proof -
  obtain p v where "get_proposal pid R = Some p"
    and "prepare_review_event rt eid p v q key_in occ R = Inr (Inr (p', e))"
    using assms by (auto simp: prepare_narrative_review_def split: option.splits)
  then show thesis
    using prepare_review_event_write by (intro that) blast+
qed

lemma commit_review_eq:
  assumes "ev_from_state e = Some st"
  shows "commit_review rt (p, e) R =
     (if cas_matches (pr_proposal_id p) (Some st) (Some (pr_current_version_no p)) R
      then (Inr (build_review_response rt p e False), write_transition p e None R)
      else (Inl (StateConflictError
              ''STATE_CONFLICT: proposal aggregate changed during transition''), R))"
  using assms by (simp add: commit_review_def transition_proposal_eq)

end
