(* ===== verification/Proposal_Log.thy ===== *)
theory Proposal_Log
  imports Versions Execution_Updates Narrative_Reports
begin

text \<open>
  What the workflow-event log of one proposal promises: which events may ever be appended
  (\<open>legal_event\<close>), that consecutive events join up (\<open>chained\<close>), and that a log leads to
  execution only through a recorded client consent (\<open>consent_first\<close>).  The commands are shown
  to plan only legal, grounded events; the system theory turns this into an invariant.
\<close>

subsection \<open>Legal events\<close>

definition update_moves :: "(event_type \<times> workflow_state) list" where
  "update_moves = map resolve_execution_update_event
     [UP_ACCEPTED, UP_PARTIALLY_EXECUTED, UP_EXECUTED, UP_REJECTED, UP_CANCELLED, UP_EXPIRED]"

definition annotation_event_types :: "event_type list" where
  "annotation_event_types = [EV_REPORT_REQUESTED, EV_NARRATIVE_REVIEWED]"

text \<open>
  A legal move is a manual or approval transition of the table, a downstream execution update
  or a new version of a proposal that is not terminal, or an annotation that stays in place.
\<close>

definition legal_move :: "workflow_state \<Rightarrow> event_type \<Rightarrow> workflow_state \<Rightarrow> bool" where
  "legal_move s ev t \<longleftrightarrow>
     resolve_transition_state s ev = Inr t
     \<or> s \<notin> set terminal_states \<and> (ev, t) \<in> set update_moves
     \<or> s \<notin> set terminal_states \<and> ev = EV_NEW_VERSION_CREATED \<and> t = WS_DRAFT
     \<or> ev \<in> set annotation_event_types \<and> t = s"

definition legal_event :: "workflow_event \<Rightarrow> bool" where
  "legal_event e \<longleftrightarrow> (case ev_from_state e of
      None \<Rightarrow> ev_event_type e = EV_CREATED \<and> ev_to_state e = WS_DRAFT
    | Some s \<Rightarrow> legal_move s (ev_event_type e) (ev_to_state e))"

lemma legal_move_terminal:
  assumes "legal_move s ev t" and "s \<in> set terminal_states"
  shows "t = s" and "ev \<in> set annotation_event_types"
  using assms resolve_transition_not_terminal [of s ev t] by (auto simp: legal_move_def)

lemma legal_move_not_created: "legal_move s ev t \<Longrightarrow> ev \<noteq> EV_CREATED"
  by (auto simp: legal_move_def resolve_transition_Inr_iff transition_map_def update_moves_def
      annotation_event_types_def resolve_execution_update_event_def)

lemma update_in_moves [simp]: "resolve_execution_update_event u \<in> set update_moves"
  by (cases u) (simp_all add: update_moves_def)

subsection \<open>Chains\<close>

fun chained :: "workflow_state option \<Rightarrow> workflow_event list \<Rightarrow> workflow_state option \<Rightarrow> bool" where
  "chained s [] t \<longleftrightarrow> s = t"
| "chained s (e # es) t \<longleftrightarrow>
     ev_from_state e = s \<and> legal_event e \<and> chained (Some (ev_to_state e)) es t"

lemma chained_append: "chained s (xs @ ys) t \<longleftrightarrow> (\<exists>m. chained s xs m \<and> chained m ys t)"
  by (induction xs arbitrary: s) auto

lemma chained_snoc:
  "chained s (es @ [e]) t \<longleftrightarrow>
     chained s es (ev_from_state e) \<and> legal_event e \<and> t = Some (ev_to_state e)"
  by (auto simp: chained_append)

lemma chained_end:
  "chained s es t \<Longrightarrow> t = (if es = [] then s else Some (ev_to_state (last es)))"
  by (induction s es t rule: chained.induct) auto

lemma chained_nth:
  assumes "chained s es t" and "i < length es"
  shows "legal_event (es ! i)"
    and "ev_from_state (es ! i) = (if i = 0 then s else Some (ev_to_state (es ! (i - 1))))"
proof -
  have "es = take i es @ es ! i # drop (Suc i) es"
    using assms(2) by (simp add: id_take_nth_drop)
  with assms(1) obtain m where m: "chained s (take i es) m"
    and r: "chained m (es ! i # drop (Suc i) es) t"
    by (metis chained_append)
  from r show "legal_event (es ! i)" by simp
  have "last (take i es) = es ! (i - 1)" if "0 < i"
    using that assms(2) by (cases i) (auto simp: take_Suc_conv_app_nth)
  with r chained_end [OF m] assms(2)
  show "ev_from_state (es ! i) = (if i = 0 then s else Some (ev_to_state (es ! (i - 1))))"
    by (cases i) auto
qed

lemma chained_terminal_absorbs:
  assumes "chained s es t" and "i < j" and "j < length es"
    and "ev_to_state (es ! i) \<in> set terminal_states"
  shows "ev_to_state (es ! j) = ev_to_state (es ! i)"
    and "ev_event_type (es ! j) \<in> set annotation_event_types"
proof -
  have move: "ev_to_state (es ! Suc k) = ev_to_state (es ! k)
      \<and> ev_event_type (es ! Suc k) \<in> set annotation_event_types"
    if "Suc k < length es" "ev_to_state (es ! k) \<in> set terminal_states" for k
    using chained_nth [OF assms(1) that(1)] that(2)
      legal_move_terminal [of "ev_to_state (es ! k)" "ev_event_type (es ! Suc k)" "ev_to_state (es ! Suc k)"]
    by (simp add: legal_event_def)
  have "ev_to_state (es ! j) = ev_to_state (es ! i)
      \<and> ev_event_type (es ! j) \<in> set annotation_event_types"
    using assms(2,3)
  proof (induction j)
    case 0
    then show ?case by simp
  next
    case (Suc j)
    then have "ev_to_state (es ! j) = ev_to_state (es ! i)" by (cases "i = j") auto
    with Suc.prems assms(4) move [of j] show ?case by simp
  qed
  then show "ev_to_state (es ! j) = ev_to_state (es ! i)"
    and "ev_event_type (es ! j) \<in> set annotation_event_types" by auto
qed

subsection \<open>Consent before execution\<close>

definition toward_execution :: "workflow_event \<Rightarrow> bool" where
  "toward_execution e \<longleftrightarrow> ev_to_state e \<in> {WS_EXECUTION_READY, WS_EXECUTED}
     \<or> ev_event_type e = EV_EXECUTION_REQUESTED"

definition is_consent :: "workflow_event \<Rightarrow> bool" where
  "is_consent e \<longleftrightarrow> ev_event_type e = EV_CLIENT_CONSENT_RECORDED"

definition consent_first :: "workflow_event list \<Rightarrow> bool" where
  "consent_first es \<longleftrightarrow>
     (\<forall>i<length es. toward_execution (es ! i) \<longrightarrow> (\<exists>x\<in>set (take (Suc i) es). is_consent x))"

text \<open>What a command must know of the log for its event to keep \<open>consent_first\<close>.\<close>

definition grounded :: "workflow_event list \<Rightarrow> workflow_event \<Rightarrow> bool" where
  "grounded es e \<longleftrightarrow> (toward_execution e \<longrightarrow>
     is_consent e \<or> ev_from_state e \<in> {Some WS_EXECUTION_READY, Some WS_EXECUTED}
     \<or> (\<exists>h\<in>set es. ev_event_type h = EV_EXECUTION_REQUESTED))"

lemma consent_first_Nil [simp]: "consent_first []"
  by (simp add: consent_first_def)

lemma consent_first_snoc:
  "consent_first (es @ [e]) \<longleftrightarrow>
     consent_first es \<and> (toward_execution e \<longrightarrow> is_consent e \<or> (\<exists>x\<in>set es. is_consent x))"
proof -
  have old: "take (Suc i) (es @ [e]) = take (Suc i) es" "(es @ [e]) ! i = es ! i" if "i < length es" for i
    using that by (simp_all add: nth_append)
  show ?thesis
    unfolding consent_first_def by (auto simp: less_Suc_eq old)
qed

lemma grounded_mono: "grounded es e \<Longrightarrow> set es \<subseteq> set es' \<Longrightarrow> grounded es' e"
  by (auto simp: grounded_def)

lemma consent_first_grounded:
  assumes "consent_first es" and "chained None es (ev_from_state e)" and "grounded es e"
  shows "consent_first (es @ [e])"
proof -
  have "\<exists>x\<in>set es. is_consent x" if te: "toward_execution e" and nc: "\<not> is_consent e"
  proof -
    have "\<exists>x\<in>set es. toward_execution x"
    proof (cases "ev_from_state e \<in> {Some WS_EXECUTION_READY, Some WS_EXECUTED}")
      case True
      with chained_end [OF assms(2)] have "es \<noteq> []" and "toward_execution (last es)"
        by (auto simp: toward_execution_def split: if_splits)
      then show ?thesis by auto
    next
      case False
      then show ?thesis
        using assms(3) te nc by (auto simp: grounded_def toward_execution_def)
    qed
    then obtain i where "i < length es" "toward_execution (es ! i)"
      by (auto simp: in_set_conv_nth)
    then obtain x where "x \<in> set (take (Suc i) es)" "is_consent x"
      using assms(1) by (auto simp: consent_first_def)
    then show ?thesis by (blast dest: in_set_takeD)
  qed
  with assms(1) show ?thesis by (auto simp: consent_first_snoc)
qed

subsection \<open>The commands plan legal, grounded events\<close>

text \<open>\<open>sound_plan\<close> is what every prepared write satisfies against its own snapshot.\<close>

definition sound_plan :: "proposal \<Rightarrow> workflow_event list \<Rightarrow> proposal \<Rightarrow> workflow_event \<Rightarrow> bool" where
  "sound_plan p es p' e \<longleftrightarrow>
     follows p p' e \<and> legal_event e \<and> grounded es e"

lemma legal_event_moveI:
  "ev_from_state e = Some s \<Longrightarrow> legal_move s (ev_event_type e) (ev_to_state e) \<Longrightarrow> legal_event e"
  by (simp add: legal_event_def)

lemma transition_event_sound:
  assumes "follows p p' e"
    and "resolve_transition_state (pr_current_state p) (ev_event_type e) = Inr (pr_current_state p')"
  shows "sound_plan p es p' e" and "ev_event_type e \<notin> {EV_CREATED, EV_NEW_VERSION_CREATED}"
  using assms
  by (auto simp: sound_plan_def follows_def legal_event_def legal_move_def grounded_def
      toward_execution_def is_consent_def resolve_transition_Inr_iff transition_map_def)

lemma prepare_transition_sound:
  assumes "prepare_transition rt pid q key_in req occ eid R = Inr (Inr (p', e))"
  obtains p where "get_proposal pid R = Some p" and "sound_plan p es p' e"
    and "pr_current_version_no p' = pr_current_version_no p"
    and "ev_event_type e \<notin> {EV_CREATED, EV_NEW_VERSION_CREATED}"
  using assms by (rule prepare_transition_write) (rule that, auto dest: transition_event_sound)

text \<open>The event that backs an approval row.\<close>

definition backs :: "workflow_event \<Rightarrow> approval \<Rightarrow> bool" where
  "backs e a \<longleftrightarrow> ev_reason_json e = ap_details_json a \<and> (case ev_from_state e of
      None \<Rightarrow> False
    | Some s \<Rightarrow> resolve_approval_transition s (ap_approval_type a) (ap_approved a)
                 = Inr (ev_event_type e, ev_to_state e))"

lemma prepare_approval_sound:
  assumes "prepare_approval rt pid q key_in req occ aid eid R = Inr (Inr (p', e, a))"
  obtains p where "get_proposal pid R = Some p" and "sound_plan p es p' e"
    and "pr_current_version_no p' = pr_current_version_no p"
    and "ev_event_type e \<notin> {EV_CREATED, EV_NEW_VERSION_CREATED}"
    and "backs e a" and "ap_proposal_id a = pr_proposal_id p"
  using assms
proof (rule prepare_approval_write)
  fix p
  assume p: "get_proposal pid R = Some p" "follows p p' e"
    "pr_current_version_no p' = pr_current_version_no p"
    and rule_: "resolve_approval_transition (pr_current_state p) (aq_approval_type q) (aq_approved q)
      = Inr (ev_event_type e, pr_current_state p')"
    and a: "ap_details_json a = ev_reason_json e" "ap_proposal_id a = pr_proposal_id p"
      "ap_approval_type a = aq_approval_type q" "ap_approved a = aq_approved q"
  have "backs e a"
    using p(2) rule_ a by (simp add: backs_def follows_def)
  with p a(2) transition_event_sound [OF p(2) resolve_approval_is_transition [OF rule_]]
  show thesis by (intro that [of p]) auto
qed

lemma prepare_handoff_sound:
  assumes "prepare_handoff rt pid q key_in req occ rid eid R = Inr (Inr (p', e))"
  obtains p where "get_proposal pid R = Some p" and "sound_plan p es p' e"
    and "pr_current_version_no p' = pr_current_version_no p"
    and "ev_event_type e \<notin> {EV_CREATED, EV_NEW_VERSION_CREATED}"
  using assms
proof (rule prepare_handoff_write)
  fix p
  assume p: "get_proposal pid R = Some p" "pr_current_state p = WS_EXECUTION_READY"
    "p' = p\<lparr>pr_last_event_at := occ\<rparr>" "follows p p' e" "ev_event_type e = EV_EXECUTION_REQUESTED"
  have "resolve_transition_state (pr_current_state p) (ev_event_type e) = Inr (pr_current_state p')"
    by (simp add: p resolve_transition_Inr_iff transition_map_def)
  with p transition_event_sound [OF p(4)] show thesis by (intro that [of p]) auto
qed

lemma latest_requested_in_log:
  "latest_execution_requested_event es = Some h \<Longrightarrow>
     h \<in> set es \<and> ev_event_type h = EV_EXECUTION_REQUESTED"
  by (auto simp: latest_execution_requested_event_def dest!: find_first_SomeD)

lemma prepare_update_sound:
  assumes "prepare_execution_update rt pid q terminal_states now eid R = Inr (Inr (p', e))"
  obtains p where "get_proposal pid R = Some p" and "sound_plan p (list_events pid R) p' e"
    and "pr_current_version_no p' = pr_current_version_no p"
    and "ev_event_type e \<notin> {EV_CREATED, EV_NEW_VERSION_CREATED}"
  using assms
proof (rule prepare_execution_update_write)
  fix p handoff occ
  let ?m = "resolve_execution_update_event (uq_update_status q)"
  assume p: "get_proposal pid R = Some p" and nt: "pr_current_state p \<notin> set terminal_states"
    and h: "latest_execution_requested_event (list_events pid R) = Some handoff"
    and p': "p' = p\<lparr>pr_current_state := snd ?m, pr_last_event_at := occ\<rparr>"
    and e: "e = build_execution_update_event eid (pr_proposal_id p) (pr_current_state p) q (fst ?m)
             (snd ?m) occ (build_execution_update_request_hash rt q) (ev_related_version_no handoff)"
    and f: "follows p p' e"
  have m: "ev_event_type e = fst ?m" "ev_to_state e = snd ?m"
    "ev_from_state e = Some (pr_current_state p)"
    by (simp_all add: e build_execution_update_event_def)
  have "legal_event e"
    using nt by (simp add: legal_event_def legal_move_def m del: terminal_states_iff)
  moreover have "grounded (list_events pid R) e"
    using latest_requested_in_log [OF h] by (auto simp: grounded_def)
  moreover have "fst ?m \<notin> {EV_CREATED, EV_NEW_VERSION_CREATED}"
    by (cases "uq_update_status q") (simp_all add: resolve_execution_update_event_def)
  ultimately show thesis
    using p p' f m by (intro that [of p]) (auto simp: sound_plan_def)
qed

lemma annotation_event_sound:
  assumes "follows p p' e" and "pr_current_state p' = pr_current_state p"
    and "ev_event_type e \<in> set annotation_event_types"
  shows "sound_plan p es p' e" and "ev_event_type e \<notin> {EV_CREATED, EV_NEW_VERSION_CREATED}"
  using assms
  by (auto simp: sound_plan_def follows_def legal_event_def legal_move_def grounded_def
      toward_execution_def annotation_event_types_def)

lemma prepare_report_sound:
  assumes "prepare_report_request rt pid r a eid R = Inr (p', e)"
  obtains p where "get_proposal pid R = Some p" and "sound_plan p es p' e"
    and "pr_current_version_no p' = pr_current_version_no p"
    and "ev_event_type e \<notin> {EV_CREATED, EV_NEW_VERSION_CREATED}"
  using assms
  by (rule prepare_report_request_write)
    (rule that, auto intro: annotation_event_sound simp: annotation_event_types_def)

lemma prepare_review_sound:
  assumes "prepare_narrative_review rt pid n q key_in eid occ R = Inr (Inr (p', e))"
  obtains p where "get_proposal pid R = Some p" and "sound_plan p es p' e"
    and "pr_current_version_no p' = pr_current_version_no p"
    and "ev_event_type e \<notin> {EV_CREATED, EV_NEW_VERSION_CREATED}"
  using assms
  by (rule prepare_narrative_review_write)
    (rule that, auto intro: annotation_event_sound simp: annotation_event_types_def)

lemma prepare_version_sound:
  assumes "prepare_version rt sv pid q cid opts now ids R = Inr (p', v, e)"
  obtains p where "get_proposal pid R = Some p" and "sound_plan p es p' e"
    and "pr_current_version_no p' = pr_current_version_no p + 1"
    and "ev_event_type e = EV_NEW_VERSION_CREATED"
    and "pv_proposal_id v = pr_proposal_id p" and "pv_version_no v = pr_current_version_no p + 1"
  using assms
proof (rule prepare_version_write)
  fix p
  assume p: "get_proposal pid R = Some p" "pr_current_state p \<notin> set terminal_states"
    "p' = p\<lparr>pr_current_version_no := pr_current_version_no p + 1, pr_current_state := WS_DRAFT,
            pr_last_event_at := now\<rparr>"
    "follows p p' e" "ev_event_type e = EV_NEW_VERSION_CREATED"
    "pv_proposal_id v = pr_proposal_id p" "pv_version_no v = pr_current_version_no p + 1"
  have "sound_plan p es p' e"
    using p by (auto simp: sound_plan_def follows_def legal_event_def legal_move_def grounded_def
        toward_execution_def)
  with p show thesis by (intro that [of p]) simp_all
qed

end
