(* ===== verification/Proposal_System.thy ===== *)
theory Proposal_System
  imports Proposal_Log
begin

text \<open>
  The proposal workflow as a concurrent system.  Each request reads a snapshot and decides
  (\<open>prepare\<close>), and later writes what it decided (\<open>commit\<close>); requests interleave arbitrarily
  between the two, as the service threads do around the repository's lock.  The invariant ties
  every aggregate to its event log, its version rows, its approvals and the idempotency
  records, and holds in every reachable state.
\<close>

subsection \<open>Requests and pending writes\<close>

datatype proposal_request =
    RQ_Create create_request string "string option" create_options datetime new_ids
  | RQ_Version string version_request "string option" version_options datetime new_ids
  | RQ_Transition string transition_request "string option" bool datetime string
  | RQ_Approval string approval_request "string option" bool datetime string string
  | RQ_Handoff string handoff_request "string option" bool datetime string string
  | RQ_Update string update_request datetime string
  | RQ_Report string report_response report_arguments string
  | RQ_Review string int review_request "string option" string datetime

datatype pending_write =
    PW_Create create_command_state proposal_version
  | PW_Version proposal proposal_version workflow_event
  | PW_Event proposal workflow_event
  | PW_Approval proposal workflow_event approval

text \<open>The write a command planned; nothing for a refusal or a replayed response.\<close>

definition planned :: "error + ('r + 'w) \<Rightarrow> 'w option" where
  "planned x = (case x of Inl e \<Rightarrow> None | Inr y \<Rightarrow> (case y of Inl r \<Rightarrow> None | Inr w \<Rightarrow> Some w))"

definition accepted :: "error + 'w \<Rightarrow> 'w option" where
  "accepted x = (case x of Inl e \<Rightarrow> None | Inr w \<Rightarrow> Some w)"

fun prepare_request ::
  "runtime \<Rightarrow> creation_services \<Rightarrow> proposal_request \<Rightarrow> repository \<Rightarrow> pending_write option" where
  "prepare_request rt sv (RQ_Create q key cid opts now ids) R =
     map_option (\<lambda>(c, v). PW_Create c v) (planned (prepare_create rt sv q key cid opts now ids R))"
| "prepare_request rt sv (RQ_Version pid q cid opts now ids) R =
     map_option (\<lambda>(p, v, e). PW_Version p v e)
       (accepted (prepare_version rt sv pid q cid opts now ids R))"
| "prepare_request rt sv (RQ_Transition pid q key req now eid) R =
     map_option (\<lambda>(p, e). PW_Event p e) (planned (prepare_transition rt pid q key req now eid R))"
| "prepare_request rt sv (RQ_Approval pid q key req now aid eid) R =
     map_option (\<lambda>(p, e, a). PW_Approval p e a)
       (planned (prepare_approval rt pid q key req now aid eid R))"
| "prepare_request rt sv (RQ_Handoff pid q key req now rid eid) R =
     map_option (\<lambda>(p, e). PW_Event p e) (planned (prepare_handoff rt pid q key req now rid eid R))"
| "prepare_request rt sv (RQ_Update pid q now eid) R =
     map_option (\<lambda>(p, e). PW_Event p e)
       (planned (prepare_execution_update rt pid q terminal_states now eid R))"
| "prepare_request rt sv (RQ_Report pid r a eid) R =
     map_option (\<lambda>(p, e). PW_Event p e) (accepted (prepare_report_request rt pid r a eid R))"
| "prepare_request rt sv (RQ_Review pid n q key eid now) R =
     map_option (\<lambda>(p, e). PW_Event p e)
       (planned (prepare_narrative_review rt pid n q key eid now R))"

fun commit_write :: "pending_write \<Rightarrow> repository \<Rightarrow> repository" where
  "commit_write (PW_Create c v) R = persist_created_proposal c v R"
| "commit_write (PW_Version p v e) R = snd (persist_created_proposal_version p v e R)"
| "commit_write (PW_Event p e) R = snd (persist_proposal_transition p e R)"
| "commit_write (PW_Approval p e a) R = snd (persist_proposal_approval_transition p e a R)"

text \<open>The service's own command, run without interference: its effect on the repository.\<close>

fun run_request ::
  "runtime \<Rightarrow> creation_services \<Rightarrow> proposal_request \<Rightarrow> repository \<Rightarrow> repository" where
  "run_request rt sv (RQ_Create q key cid opts now ids) R =
     snd (create_proposal_command rt sv q key cid opts now ids R)"
| "run_request rt sv (RQ_Version pid q cid opts now ids) R =
     snd (create_proposal_version rt sv pid q cid opts now ids R)"
| "run_request rt sv (RQ_Transition pid q key req now eid) R =
     snd (transition_proposal_state rt pid q key req now eid R)"
| "run_request rt sv (RQ_Approval pid q key req now aid eid) R =
     snd (record_proposal_approval rt pid q key req now aid eid R)"
| "run_request rt sv (RQ_Handoff pid q key req now rid eid) R =
     snd (request_proposal_execution_handoff rt pid q key req now rid eid R)"
| "run_request rt sv (RQ_Update pid q now eid) R =
     snd (record_proposal_execution_update rt pid q terminal_states now eid R)"
| "run_request rt sv (RQ_Report pid r a eid) R =
     snd (record_proposal_report_request rt pid r a eid R)"
| "run_request rt sv (RQ_Review pid n q key eid now) R =
     snd (record_narrative_review rt pid n q key eid now R)"

lemma run_request_eq:
  "run_request rt sv q R =
     (case prepare_request rt sv q R of None \<Rightarrow> R | Some w \<Rightarrow> commit_write w R)"
  by (cases q)
    (auto simp: planned_def accepted_def create_proposal_command_def commit_create_def
      create_proposal_version_def commit_version_def transition_proposal_state_def
      commit_transition_def record_proposal_approval_def commit_approval_def
      request_proposal_execution_handoff_def commit_handoff_def record_proposal_execution_update_def
      commit_execution_update_def record_proposal_report_request_def commit_report_request_def
      record_narrative_review_def commit_review_def persist_proposal_transition_def
      split: sum.splits prod.splits)

subsection \<open>The transition system\<close>

record system =
  sy_repository :: repository
  sy_pending :: "pending_write list"

definition initial_system :: system where
  "initial_system = \<lparr>sy_repository = empty_repository, sy_pending = []\<rparr>"

text \<open>
  A create commits under a generated proposal id (\<open>uuid4\<close>), which no proposal carries yet.
\<close>

fun fresh_write :: "pending_write \<Rightarrow> repository \<Rightarrow> bool" where
  "fresh_write (PW_Create c v) R \<longleftrightarrow> get_proposal (pr_proposal_id (cc_proposal c)) R = None"
| "fresh_write w R \<longleftrightarrow> True"

datatype action = Prepare proposal_request | Commit nat

fun action_enabled :: "action \<Rightarrow> system \<Rightarrow> bool" where
  "action_enabled (Prepare q) S \<longleftrightarrow> True"
| "action_enabled (Commit i) S \<longleftrightarrow>
     i < length (sy_pending S) \<and> fresh_write (sy_pending S ! i) (sy_repository S)"

fun perform :: "runtime \<Rightarrow> creation_services \<Rightarrow> action \<Rightarrow> system \<Rightarrow> system" where
  "perform rt sv (Prepare q) S =
     (case prepare_request rt sv q (sy_repository S) of
        None \<Rightarrow> S | Some w \<Rightarrow> S\<lparr>sy_pending := sy_pending S @ [w]\<rparr>)"
| "perform rt sv (Commit i) S =
     \<lparr>sy_repository = commit_write (sy_pending S ! i) (sy_repository S),
      sy_pending = take i (sy_pending S) @ drop (Suc i) (sy_pending S)\<rparr>"

inductive reachable :: "runtime \<Rightarrow> creation_services \<Rightarrow> system \<Rightarrow> bool" for rt sv where
  start: "reachable rt sv initial_system"
| step: "reachable rt sv S \<Longrightarrow> action_enabled a S \<Longrightarrow> reachable rt sv (perform rt sv a S)"

inductive_cases reachableE: "reachable rt sv S"

subsection \<open>The invariant\<close>

definition logs_ok :: "repository \<Rightarrow> bool" where
  "logs_ok R \<longleftrightarrow> (\<forall>pid.
     chained None (list_events pid R) (map_option pr_current_state (get_proposal pid R))
     \<and> consent_first (list_events pid R))"

definition new_version_events :: "workflow_event list \<Rightarrow> workflow_event list" where
  "new_version_events es = filter (\<lambda>e. ev_event_type e = EV_NEW_VERSION_CREATED) es"

definition versions_ok :: "repository \<Rightarrow> bool" where
  "versions_ok R \<longleftrightarrow> (\<forall>pid p. get_proposal pid R = Some p \<longrightarrow>
     pr_current_version_no p = 1 + int (length (new_version_events (list_events pid R)))
     \<and> (\<forall>n. 1 \<le> n \<and> n \<le> pr_current_version_no p \<longrightarrow> get_version pid n R \<noteq> None))"

definition approvals_ok :: "repository \<Rightarrow> bool" where
  "approvals_ok R \<longleftrightarrow>
     (\<forall>pid. \<forall>a\<in>set (list_approvals pid R). \<exists>e\<in>set (list_events pid R). backs e a)"

definition idempotency_ok :: "repository \<Rightarrow> bool" where
  "idempotency_ok R \<longleftrightarrow> (\<forall>key i. get_idempotency key R = Some i \<longrightarrow>
     pi_idempotency_key i = key \<and> get_proposal (pi_proposal_id i) R \<noteq> None
     \<and> pi_proposal_version_no i = 1)"

definition repository_ok :: "repository \<Rightarrow> bool" where
  "repository_ok R \<longleftrightarrow>
     proposals_keyed R \<and> logs_ok R \<and> versions_ok R \<and> approvals_ok R \<and> idempotency_ok R"

text \<open>
  A pending write stays sound as the log grows under it, so it is checked against the current
  repository: what it read can only have been extended.
\<close>

definition pending_event_ok :: "repository \<Rightarrow> proposal \<Rightarrow> workflow_event \<Rightarrow> bool" where
  "pending_event_ok R p e \<longleftrightarrow> (\<exists>c. get_proposal (pr_proposal_id p) R = Some c \<and> same_identity c p)
     \<and> ev_proposal_id e = pr_proposal_id p \<and> ev_from_state e \<noteq> None
     \<and> ev_to_state e = pr_current_state p \<and> legal_event e
     \<and> grounded (list_events (pr_proposal_id p) R) e"

fun pending_ok :: "repository \<Rightarrow> pending_write \<Rightarrow> bool" where
  "pending_ok R (PW_Create c v) \<longleftrightarrow>
     pr_current_state (cc_proposal c) = WS_DRAFT \<and> pr_current_version_no (cc_proposal c) = 1
     \<and> ev_proposal_id (cc_created_event c) = pr_proposal_id (cc_proposal c)
     \<and> ev_from_state (cc_created_event c) = None \<and> legal_event (cc_created_event c)
     \<and> pv_proposal_id v = pr_proposal_id (cc_proposal c) \<and> pv_version_no v = 1
     \<and> pi_proposal_id (cc_idempotency_record c) = pr_proposal_id (cc_proposal c)
     \<and> pi_proposal_version_no (cc_idempotency_record c) = 1"
| "pending_ok R (PW_Version p v e) \<longleftrightarrow>
     pending_event_ok R p e \<and> ev_event_type e = EV_NEW_VERSION_CREATED
     \<and> pv_proposal_id v = pr_proposal_id p \<and> pv_version_no v = pr_current_version_no p"
| "pending_ok R (PW_Event p e) \<longleftrightarrow>
     pending_event_ok R p e \<and> ev_event_type e \<noteq> EV_NEW_VERSION_CREATED"
| "pending_ok R (PW_Approval p e a) \<longleftrightarrow>
     pending_event_ok R p e \<and> ev_event_type e \<noteq> EV_NEW_VERSION_CREATED
     \<and> backs e a \<and> ap_proposal_id a = pr_proposal_id p"

definition system_ok :: "system \<Rightarrow> bool" where
  "system_ok S \<longleftrightarrow>
     repository_ok (sy_repository S) \<and> (\<forall>w\<in>set (sy_pending S). pending_ok (sy_repository S) w)"

lemma system_ok_initial: "system_ok initial_system"
  by (simp add: system_ok_def initial_system_def repository_ok_def logs_ok_def versions_ok_def
      approvals_ok_def idempotency_ok_def)
    (simp add: empty_repository_def list_events_def list_approvals_def get_proposal_def
      get_idempotency_def)

subsection \<open>Preparing keeps the invariant\<close>

lemma sound_plan_pending:
  assumes "proposals_keyed R" and "get_proposal pid R = Some p"
    and "sound_plan p (list_events pid R) p' e"
  shows "pending_event_ok R p' e"
proof -
  have "pr_proposal_id p = pid" and "pr_proposal_id p' = pid"
    using assms by (auto simp: proposals_keyed_def sound_plan_def follows_def same_identity_def)
  with assms show ?thesis
    by (auto simp: pending_event_ok_def sound_plan_def follows_def)
qed

lemma planned_SomeD: "planned x = Some w \<Longrightarrow> x = Inr (Inr w)"
  by (auto simp: planned_def split: sum.splits)

lemma accepted_SomeD: "accepted x = Some w \<Longrightarrow> x = Inr w"
  by (auto simp: accepted_def split: sum.splits)

lemma prepare_create_pending:
  assumes "prepare_create rt sv q key cid opts now ids R = Inr (Inr (c, v))"
  shows "pending_ok R (PW_Create c v)"
  using assms
  by (rule prepare_create_write)
    (simp add: build_proposal_created_event_def build_proposal_idempotency_record_def
      legal_event_def)

lemma prepare_request_pending:
  assumes keyed: "proposals_keyed R" and w: "prepare_request rt sv q R = Some w"
  shows "pending_ok R w"
proof (cases q)
  case (RQ_Create cq key cid opts now ids)
  with w obtain c v where "prepare_create rt sv cq key cid opts now ids R = Inr (Inr (c, v))"
    and "w = PW_Create c v"
    by (auto dest: planned_SomeD)
  then show ?thesis by (simp add: prepare_create_pending del: pending_ok.simps)
next
  case (RQ_Version pid vq cid opts now ids)
  with w obtain p v e where prep: "prepare_version rt sv pid vq cid opts now ids R = Inr (p, v, e)"
    and weq: "w = PW_Version p v e"
    by (auto dest: accepted_SomeD)
  from prep show ?thesis
  proof (rule prepare_version_sound [where es = "list_events pid R"])
    fix p0
    assume a: "get_proposal pid R = Some p0" "sound_plan p0 (list_events pid R) p e"
      "pr_current_version_no p = pr_current_version_no p0 + 1"
      "ev_event_type e = EV_NEW_VERSION_CREATED" "pv_proposal_id v = pr_proposal_id p0"
      "pv_version_no v = pr_current_version_no p0 + 1"
    have "pr_proposal_id p = pr_proposal_id p0"
      using a(2) by (simp add: sound_plan_def follows_def same_identity_def)
    with a weq sound_plan_pending [OF keyed a(1,2)] show ?thesis by simp
  qed
next
  case (RQ_Transition pid tq key req now eid)
  with w obtain p e where "prepare_transition rt pid tq key req now eid R = Inr (Inr (p, e))"
    and "w = PW_Event p e"
    by (auto dest: planned_SomeD)
  then show ?thesis
    by (elim prepare_transition_sound [where es = "list_events pid R"])
      (simp add: sound_plan_pending [OF keyed])
next
  case (RQ_Approval pid aq key req now aid eid)
  with w obtain p e a where prep: "prepare_approval rt pid aq key req now aid eid R = Inr (Inr (p, e, a))"
    and weq: "w = PW_Approval p e a"
    by (auto dest: planned_SomeD)
  from prep show ?thesis
  proof (rule prepare_approval_sound [where es = "list_events pid R"])
    fix p0
    assume a: "get_proposal pid R = Some p0" "sound_plan p0 (list_events pid R) p e"
      "ev_event_type e \<notin> {EV_CREATED, EV_NEW_VERSION_CREATED}" "backs e a"
      "ap_proposal_id a = pr_proposal_id p0"
    have "pr_proposal_id p = pr_proposal_id p0"
      using a(2) by (simp add: sound_plan_def follows_def same_identity_def)
    with a weq sound_plan_pending [OF keyed a(1,2)] show ?thesis by simp
  qed
next
  case (RQ_Handoff pid hq key req now rid eid)
  with w obtain p e where "prepare_handoff rt pid hq key req now rid eid R = Inr (Inr (p, e))"
    and "w = PW_Event p e"
    by (auto dest: planned_SomeD)
  then show ?thesis
    by (elim prepare_handoff_sound [where es = "list_events pid R"])
      (simp add: sound_plan_pending [OF keyed])
next
  case (RQ_Update pid uq now eid)
  with w obtain p e where
    "prepare_execution_update rt pid uq terminal_states now eid R = Inr (Inr (p, e))"
    and "w = PW_Event p e"
    by (auto dest: planned_SomeD)
  then show ?thesis
    by (elim prepare_update_sound) (simp add: sound_plan_pending [OF keyed])
next
  case (RQ_Report pid r a eid)
  with w obtain p e where "prepare_report_request rt pid r a eid R = Inr (p, e)"
    and "w = PW_Event p e"
    by (auto dest: accepted_SomeD)
  then show ?thesis
    by (elim prepare_report_sound [where es = "list_events pid R"])
      (simp add: sound_plan_pending [OF keyed])
next
  case (RQ_Review pid n nq key eid now)
  with w obtain p e where "prepare_narrative_review rt pid n nq key eid now R = Inr (Inr (p, e))"
    and "w = PW_Event p e"
    by (auto dest: planned_SomeD)
  then show ?thesis
    by (elim prepare_review_sound [where es = "list_events pid R"])
      (simp add: sound_plan_pending [OF keyed])
qed

subsection \<open>What a commit writes\<close>

text \<open>The compare-and-set either leaves the repository alone or applies to a matching aggregate.\<close>

lemma commit_event_cases:
  assumes "pending_event_ok R p e"
  obtains (lost) "commit_write (PW_Event p e) R = R"
    | (won) c where "commit_write (PW_Event p e) R = write_transition p e None R"
        "get_proposal (pr_proposal_id p) R = Some c" "ev_from_state e = Some (pr_current_state c)"
        "pr_current_version_no c = pr_current_version_no p" "same_identity c p"
  using assms
  by (cases "cas_matches (pr_proposal_id p) (ev_from_state e) (Some (pr_current_version_no p)) R")
    (auto simp: persist_proposal_transition_def transition_proposal_eq pending_event_ok_def
      cas_matches_Some)

lemma commit_approval_cases:
  assumes "pending_event_ok R p e"
  obtains (lost) "commit_write (PW_Approval p e a) R = R"
    | (won) c where "commit_write (PW_Approval p e a) R = write_transition p e (Some a) R"
        "get_proposal (pr_proposal_id p) R = Some c" "ev_from_state e = Some (pr_current_state c)"
        "pr_current_version_no c = pr_current_version_no p" "same_identity c p"
  using assms
  by (cases "cas_matches (pr_proposal_id p) (ev_from_state e) (Some (pr_current_version_no p)) R")
    (auto simp: persist_proposal_approval_transition_def transition_proposal_eq
      pending_event_ok_def cas_matches_Some)

lemma commit_version_cases:
  assumes "pending_event_ok R p e"
  obtains (lost) "commit_write (PW_Version p v e) R = create_version v R"
    | (won) c where
        "commit_write (PW_Version p v e) R = write_transition p e None (create_version v R)"
        "get_proposal (pr_proposal_id p) R = Some c" "ev_from_state e = Some (pr_current_state c)"
        "pr_current_version_no c = pv_version_no v - 1" "same_identity c p"
  using assms
  by (cases "cas_matches (pr_proposal_id p) (ev_from_state e) (Some (pv_version_no v - 1))
               (create_version v R)")
    (auto simp: persist_created_proposal_version_def transition_proposal_eq
      pending_event_ok_def cas_matches_Some)

subsection \<open>History only grows\<close>

definition extends :: "repository \<Rightarrow> repository \<Rightarrow> bool" where
  "extends R R' \<longleftrightarrow> (\<forall>pid.
     (\<forall>p. get_proposal pid R = Some p \<longrightarrow> (\<exists>p'. get_proposal pid R' = Some p' \<and> same_identity p p'
            \<and> pr_current_version_no p \<le> pr_current_version_no p'))
     \<and> (\<exists>new. list_events pid R' = list_events pid R @ new)
     \<and> (\<exists>new. list_approvals pid R' = list_approvals pid R @ new))"

lemma same_identity_refl [simp]: "same_identity p p"
  by (simp add: same_identity_def)

lemma same_identity_trans: "same_identity p q \<Longrightarrow> same_identity q r \<Longrightarrow> same_identity p r"
  by (simp add: same_identity_def)

lemma same_identity_euclid: "same_identity p q \<Longrightarrow> same_identity p r \<Longrightarrow> same_identity q r"
  by (simp add: same_identity_def)

lemma extends_refl [simp]: "extends R R"
  by (simp add: extends_def)

lemma extends_proposal:
  "extends R R' \<Longrightarrow> get_proposal pid R = Some p \<Longrightarrow>
     \<exists>p'. get_proposal pid R' = Some p' \<and> same_identity p p'
        \<and> pr_current_version_no p \<le> pr_current_version_no p'"
  by (simp add: extends_def)

lemma extends_events: "extends R R' \<Longrightarrow> \<exists>new. list_events pid R' = list_events pid R @ new"
  by (simp add: extends_def)

lemma extends_approvals: "extends R R' \<Longrightarrow> \<exists>new. list_approvals pid R' = list_approvals pid R @ new"
  by (simp add: extends_def)

lemma extendsI:
  assumes "\<And>pid p. get_proposal pid R = Some p \<Longrightarrow>
      \<exists>p'. get_proposal pid R' = Some p' \<and> same_identity p p'
        \<and> pr_current_version_no p \<le> pr_current_version_no p'"
    and "\<And>pid. \<exists>new. list_events pid R' = list_events pid R @ new"
    and "\<And>pid. \<exists>new. list_approvals pid R' = list_approvals pid R @ new"
  shows "extends R R'"
  using assms by (simp add: extends_def)

lemma extends_trans:
  assumes "extends R S" and "extends S T"
  shows "extends R T"
proof (rule extendsI)
  fix pid p assume "get_proposal pid R = Some p"
  then obtain q where q: "get_proposal pid S = Some q" "same_identity p q"
    "pr_current_version_no p \<le> pr_current_version_no q"
    using extends_proposal [OF assms(1)] by blast
  then show "\<exists>p'. get_proposal pid T = Some p' \<and> same_identity p p'
      \<and> pr_current_version_no p \<le> pr_current_version_no p'"
    using extends_proposal [OF assms(2) q(1)] by (blast intro: same_identity_trans order_trans)
next
  show "\<exists>new. list_events pid T = list_events pid R @ new" for pid
    using extends_events [OF assms(1), of pid] extends_events [OF assms(2), of pid] by auto
next
  show "\<exists>new. list_approvals pid T = list_approvals pid R @ new" for pid
    using extends_approvals [OF assms(1), of pid] extends_approvals [OF assms(2), of pid] by auto
qed

lemma extends_create_version: "extends R (create_version v R)"
  by (rule extendsI) auto

lemma extends_write:
  assumes "get_proposal (pr_proposal_id p) R = Some c" and "same_identity c p"
    and "pr_current_version_no c \<le> pr_current_version_no p"
  shows "extends R (write_transition p e a R)"
  by (rule extendsI) (use assms in auto)

lemma pending_event_ok_extends:
  assumes "extends R R'" and "pending_event_ok R p e"
  shows "pending_event_ok R' p e"
proof -
  obtain c where c: "get_proposal (pr_proposal_id p) R = Some c" "same_identity c p"
    using assms(2) by (auto simp: pending_event_ok_def)
  obtain c' where "get_proposal (pr_proposal_id p) R' = Some c'" "same_identity c c'"
    using extends_proposal [OF assms(1) c(1)] by blast
  moreover have "same_identity c' p"
    using \<open>same_identity c c'\<close> c(2) by (rule same_identity_euclid)
  moreover have "grounded (list_events (pr_proposal_id p) R') e"
    using assms extends_events [OF assms(1), of "pr_proposal_id p"]
    by (auto simp: pending_event_ok_def intro: grounded_mono)
  ultimately show ?thesis using assms(2) by (auto simp: pending_event_ok_def)
qed

lemma pending_ok_extends: "extends R R' \<Longrightarrow> pending_ok R w \<Longrightarrow> pending_ok R' w"
  by (cases w) (auto intro: pending_event_ok_extends)

lemma commit_extends:
  assumes "pending_ok R w" and "fresh_write w R"
  shows "extends R (commit_write w R)"
proof (cases w)
  case (PW_Create c v)
  with assms show ?thesis
    by (auto simp: persist_created_proposal_def intro!: extendsI)
next
  case (PW_Version p v e)
  with assms have pe: "pending_event_ok R p e" by simp
  then show ?thesis
  proof (cases rule: commit_version_cases [where v = v])
    case lost
    with PW_Version show ?thesis by (simp add: extends_create_version del: commit_write.simps)
  next
    case (won c)
    have "extends (create_version v R) (write_transition p e None (create_version v R))"
    proof (rule extends_write)
      show "get_proposal (pr_proposal_id p) (create_version v R) = Some c"
        using won(2) by simp
      show "same_identity c p" by (rule won(5))
      show "pr_current_version_no c \<le> pr_current_version_no p"
        using won(4) assms(1) PW_Version by simp
    qed
    then show ?thesis
      unfolding PW_Version won(1) by (rule extends_trans [OF extends_create_version])
  qed
next
  case (PW_Event p e)
  with assms have pe: "pending_event_ok R p e" by simp
  then show ?thesis
    by (cases rule: commit_event_cases)
      (use PW_Event in \<open>auto simp del: commit_write.simps intro: extends_write\<close>)
next
  case (PW_Approval p e a)
  with assms have pe: "pending_event_ok R p e" by simp
  then show ?thesis
    by (cases rule: commit_approval_cases [where a = a])
      (use PW_Approval in \<open>auto simp del: commit_write.simps intro: extends_write\<close>)
qed

subsection \<open>Committing keeps the invariant\<close>

lemma logs_ok_write:
  assumes "logs_ok R" and "pending_event_ok R p e"
    and "get_proposal (pr_proposal_id p) R = Some c" "ev_from_state e = Some (pr_current_state c)"
  shows "logs_ok (write_transition p e a R)"
proof -
  have c: "chained None (list_events (pr_proposal_id p) R) (ev_from_state e)"
    and f: "consent_first (list_events (pr_proposal_id p) R)"
    using assms(1) [unfolded logs_ok_def, THEN spec [of _ "pr_proposal_id p"]] assms(3,4) by auto
  have "grounded (list_events (pr_proposal_id p) R) e"
    using assms(2) by (simp add: pending_event_ok_def)
  from consent_first_grounded [OF f c this] c show ?thesis
    using assms by (auto simp: logs_ok_def pending_event_ok_def chained_snoc)
qed

lemma versions_ok_write:
  assumes "versions_ok R" and "ev_proposal_id e = pr_proposal_id p"
    and "get_proposal (pr_proposal_id p) R = Some c"
    and "pr_current_version_no c = pr_current_version_no p"
    and "ev_event_type e \<noteq> EV_NEW_VERSION_CREATED"
  shows "versions_ok (write_transition p e a R)"
  using assms by (auto simp: versions_ok_def new_version_events_def)

lemma versions_ok_new_version:
  assumes "versions_ok R" and "ev_proposal_id e = pr_proposal_id p"
    and "get_proposal (pr_proposal_id p) R = Some c"
    and "pr_current_version_no c = pv_version_no v - 1" "pr_current_version_no p = pv_version_no v"
    and "pv_proposal_id v = pr_proposal_id p" and "ev_event_type e = EV_NEW_VERSION_CREATED"
  shows "versions_ok (write_transition p e None (create_version v R))"
  using assms by (auto simp: versions_ok_def new_version_events_def get_version_create_version)

lemma versions_ok_create_version: "versions_ok R \<Longrightarrow> versions_ok (create_version v R)"
  by (fastforce simp: versions_ok_def get_version_create_version)

lemma approvals_ok_write:
  assumes "approvals_ok R"
    and "a = None \<or> (\<exists>b. a = Some b \<and> backs e b \<and> ap_proposal_id b = ev_proposal_id e)"
  shows "approvals_ok (write_transition p e a R)"
  using assms by (auto simp: approvals_ok_def)

lemma idempotency_ok_write:
  "idempotency_ok R \<Longrightarrow> idempotency_ok (write_transition p e a R)"
  by (auto simp: idempotency_ok_def)

lemma repository_ok_write:
  assumes "repository_ok R" and "pending_event_ok R p e"
    and "get_proposal (pr_proposal_id p) R = Some c" "ev_from_state e = Some (pr_current_state c)"
    and "pr_current_version_no c = pr_current_version_no p"
    and "ev_event_type e \<noteq> EV_NEW_VERSION_CREATED"
    and "a = None \<or> (\<exists>b. a = Some b \<and> backs e b \<and> ap_proposal_id b = ev_proposal_id e)"
  shows "repository_ok (write_transition p e a R)"
  using assms
  by (auto simp: repository_ok_def pending_event_ok_def
      intro: proposals_keyed_write_transition versions_ok_write idempotency_ok_write
        approvals_ok_write)
    (auto intro!: logs_ok_write simp: pending_event_ok_def)

lemma repository_ok_create_version: "repository_ok R \<Longrightarrow> repository_ok (create_version v R)"
  by (simp add: repository_ok_def proposals_keyed_create_version versions_ok_create_version)
    (simp add: logs_ok_def approvals_ok_def idempotency_ok_def)

lemma commit_create_ok:
  assumes "repository_ok R" and "pending_ok R (PW_Create c v)"
    and "get_proposal (pr_proposal_id (cc_proposal c)) R = None"
  shows "repository_ok (commit_write (PW_Create c v) R)"
proof -
  let ?pid = "pr_proposal_id (cc_proposal c)"
  have "chained None (list_events ?pid R) None"
    using assms(1,3) by (auto simp: repository_ok_def logs_ok_def dest!: spec [of _ ?pid])
  then have nil: "list_events ?pid R = []"
    by (metis chained_end option.distinct(1))
  have to: "ev_to_state (cc_created_event c) = WS_DRAFT"
    and ty: "ev_event_type (cc_created_event c) = EV_CREATED"
    using assms(2) by (auto simp: legal_event_def)
  have logs: "logs_ok (persist_created_proposal c v R)"
    using assms nil to ty
    by (auto simp: repository_ok_def logs_ok_def persist_created_proposal_def consent_first_def
        toward_execution_def)
  have vers: "versions_ok (persist_created_proposal c v R)"
    using assms nil ty
    by (auto simp: repository_ok_def versions_ok_def persist_created_proposal_def
        new_version_events_def)
  have apps: "approvals_ok (persist_created_proposal c v R)"
    using assms by (auto simp: repository_ok_def approvals_ok_def persist_created_proposal_def)
  have idem: "idempotency_ok (persist_created_proposal c v R)"
    using assms by (auto simp: repository_ok_def idempotency_ok_def persist_created_proposal_def)
  show ?thesis
    using assms(1) logs vers apps idem
    by (simp add: repository_ok_def)
      (simp add: persist_created_proposal_def proposals_keyed_create_bundle)
qed

lemma commit_ok:
  assumes "repository_ok R" and "pending_ok R w" and "fresh_write w R"
  shows "repository_ok (commit_write w R)"
proof (cases w)
  case (PW_Create c v)
  with assms show ?thesis by (metis commit_create_ok fresh_write.simps(1))
next
  case (PW_Version p v e)
  with assms have pe: "pending_event_ok R p e" by simp
  then show ?thesis
  proof (cases rule: commit_version_cases [where v = v])
    case lost
    with PW_Version assms(1) show ?thesis
      by (simp add: repository_ok_create_version del: commit_write.simps)
  next
    case (won c)
    let ?R = "create_version v R"
    have R: "repository_ok ?R" using assms(1) by (rule repository_ok_create_version)
    have pe': "pending_event_ok ?R p e"
      by (rule pending_event_ok_extends [OF extends_create_version pe])
    have "logs_ok (write_transition p e None ?R)"
      using R won by (intro logs_ok_write [OF _ pe']) (auto simp: repository_ok_def)
    moreover have "versions_ok (write_transition p e None ?R)"
      using assms PW_Version won pe
      by (intro versions_ok_new_version)
        (auto simp: repository_ok_def pending_event_ok_def)
    ultimately show ?thesis
      using R won(1) PW_Version
      by (simp add: repository_ok_def proposals_keyed_write_transition idempotency_ok_write
          approvals_ok_write del: commit_write.simps)
  qed
next
  case (PW_Event p e)
  with assms have pe: "pending_event_ok R p e" by simp
  then show ?thesis
  proof (cases rule: commit_event_cases)
    case lost
    with PW_Event assms(1) show ?thesis by (simp del: commit_write.simps)
  next
    case (won c)
    with PW_Event assms repository_ok_write [OF assms(1) pe won(2,3,4), of None] show ?thesis
      by (simp del: commit_write.simps)
  qed
next
  case (PW_Approval p e a)
  with assms have pe: "pending_event_ok R p e" by simp
  then show ?thesis
  proof (cases rule: commit_approval_cases [where a = a])
    case lost
    with PW_Approval assms(1) show ?thesis by (simp del: commit_write.simps)
  next
    case (won c)
    with PW_Approval assms pe repository_ok_write [OF assms(1) pe won(2,3,4), of "Some a"]
    show ?thesis by (simp del: commit_write.simps add: pending_event_ok_def)
  qed
qed

lemma perform_ok:
  assumes "system_ok S" and "action_enabled a S"
  shows "system_ok (perform rt sv a S)"
proof (cases a)
  case (Prepare q)
  with assms show ?thesis
    by (auto simp: system_ok_def repository_ok_def split: option.splits
        dest: prepare_request_pending)
next
  case (Commit i)
  let ?w = "sy_pending S ! i" and ?R = "sy_repository S"
  have i: "i < length (sy_pending S)" and f: "fresh_write ?w ?R"
    using assms(2) Commit by auto
  have w: "pending_ok ?R ?w" and R: "repository_ok ?R"
    using assms(1) i by (auto simp: system_ok_def)
  have "pending_ok (commit_write ?w ?R) u" if "u \<in> set (take i (sy_pending S) @ drop (Suc i) (sy_pending S))" for u
    using that assms(1) pending_ok_extends [OF commit_extends [OF w f]]
    by (auto simp: system_ok_def dest: in_set_takeD in_set_dropD)
  with commit_ok [OF R w f] Commit show ?thesis by (simp add: system_ok_def)
qed

lemma perform_extends:
  assumes "system_ok S" and "action_enabled a S"
  shows "extends (sy_repository S) (sy_repository (perform rt sv a S))"
  using assms by (cases a) (auto simp: system_ok_def intro: commit_extends split: option.splits)

interpretation proposal_system: guarded_system "perform rt sv" action_enabled system_ok for rt sv
  by unfold_locales (rule perform_ok)

lemma reachable_ok: "reachable rt sv S \<Longrightarrow> system_ok S"
  by (induction rule: reachable.induct) (simp_all add: system_ok_initial perform_ok)

text \<open>Schedules as lists of actions: the locale's runs, stated executably.\<close>

fun run_actions :: "runtime \<Rightarrow> creation_services \<Rightarrow> action list \<Rightarrow> system \<Rightarrow> system" where
  "run_actions rt sv [] S = S"
| "run_actions rt sv (a # as) S = run_actions rt sv as (perform rt sv a S)"

fun schedule_enabled :: "runtime \<Rightarrow> creation_services \<Rightarrow> action list \<Rightarrow> system \<Rightarrow> bool" where
  "schedule_enabled rt sv [] S \<longleftrightarrow> True"
| "schedule_enabled rt sv (a # as) S \<longleftrightarrow>
     action_enabled a S \<and> schedule_enabled rt sv as (perform rt sv a S)"

lemma run_actions_eq: "run_actions rt sv as S = proposal_system.run rt sv as S"
  by (induction as arbitrary: S) simp_all

lemma schedule_enabled_eq: "schedule_enabled rt sv as S = proposal_system.admissible rt sv as S"
  by (induction as arbitrary: S) simp_all

lemma run_actions_ok:
  "system_ok S \<Longrightarrow> schedule_enabled rt sv as S \<Longrightarrow> system_ok (run_actions rt sv as S)"
  unfolding run_actions_eq schedule_enabled_eq by (rule proposal_system.run_inv)

lemma run_actions_extends:
  assumes "system_ok S" and "schedule_enabled rt sv as S"
  shows "extends (sy_repository S) (sy_repository (run_actions rt sv as S))"
  using assms
proof (induction as arbitrary: S)
  case (Cons a as)
  then have "extends (sy_repository S) (sy_repository (perform rt sv a S))"
    and "extends (sy_repository (perform rt sv a S))
      (sy_repository (run_actions rt sv as (perform rt sv a S)))"
    by (simp_all add: perform_extends perform_ok)
  then show ?case by (auto intro: extends_trans)
qed simp

lemma reachable_run:
  "schedule_enabled rt sv as S \<Longrightarrow> reachable rt sv S \<Longrightarrow> reachable rt sv (run_actions rt sv as S)"
  by (induction as arbitrary: S) (auto intro: reachable.step)

text \<open>A command run without interference is two steps of the system.\<close>

lemma run_request_ok:
  assumes "repository_ok R" and "\<And>w. prepare_request rt sv q R = Some w \<Longrightarrow> fresh_write w R"
  shows "repository_ok (run_request rt sv q R)" and "extends R (run_request rt sv q R)"
proof -
  have "proposals_keyed R" using assms(1) by (simp add: repository_ok_def)
  note pend = prepare_request_pending [OF this]
  show "repository_ok (run_request rt sv q R)"
    using assms pend by (auto simp: run_request_eq intro: commit_ok split: option.splits)
  show "extends R (run_request rt sv q R)"
    using assms pend by (auto simp: run_request_eq intro: commit_extends split: option.splits)
qed

end
