(* ===== verification/Command_Retries.thy ===== *)
theory Command_Retries
  imports Proposal_System
begin

text \<open>
  What a client sees when it repeats a command under the same idempotency key: the first
  answer and an untouched repository, however much the log has grown in between; and a
  conflict, again without a write, when the payload differs.
\<close>

subsection \<open>The newest record under a key\<close>

definition no_later_key :: "string \<Rightarrow> workflow_event list \<Rightarrow> bool" where
  "no_later_key key new \<longleftrightarrow> (\<forall>e\<in>set new. \<not> carries_key (ev_reason_json e) key)"

definition no_later_approval_key :: "string \<Rightarrow> approval list \<Rightarrow> bool" where
  "no_later_approval_key key new \<longleftrightarrow> (\<forall>a\<in>set new. \<not> carries_key (ap_details_json a) key)"

lemma replayed_event_later:
  assumes "list_events pid R' = list_events pid R @ new" and "no_later_key key new"
  shows "command_replayed_event R' pid (Some key) h = command_replayed_event R pid (Some key) h"
  using assms
  by (simp add: command_replayed_event_def load_replayed_event_def no_later_key_def
      event_replay.find_append_rest)

lemma replayed_approval_later:
  assumes "list_approvals pid R' = list_approvals pid R @ new" and "no_later_approval_key key new"
  shows "command_replayed_approval R' pid (Some key) h = command_replayed_approval R pid (Some key) h"
  using assms
  by (simp add: command_replayed_approval_def load_replayed_approval_def no_later_approval_key_def
      approval_replay.find_append_rest)

text \<open>A changed payload under the key of a stamped event is a conflict.\<close>

lemma replayed_event_hash_conflict:
  assumes "command_replayed_event R pid (Some key) h = Inr (Some e)"
    and "json_get (ev_reason_json e) ''idempotency_request_hash'' = JStr h" and "h \<noteq> h'"
  shows "command_replayed_event R pid (Some key) h' =
     Inl (IdempotencyConflictError ''IDEMPOTENCY_KEY_CONFLICT: request hash mismatch'')"
proof -
  have key: "key \<noteq> []"
    and first: "find_first (\<lambda>r. carries_key (ev_reason_json r) key) (rev (list_events pid R)) = Some e"
    using assms(1)
    by (auto simp: command_replayed_event_def load_replayed_event_def find_replayed_event_def
        find_replayed_record_def scan_replayed_eq split: if_splits option.splits sum.splits)
  have "metadata_matches_replay (ev_reason_json e) key h' =
      Inl (ReplayHashConflictError ''IDEMPOTENCY_KEY_CONFLICT: request hash mismatch'')"
    using find_first_SomeD [OF first] assms(2,3)
    by (simp add: metadata_matches_json_get carries_key_json_get)
  with key first show ?thesis
    by (simp add: command_replayed_event_def load_replayed_event_def find_replayed_event_def
        find_replayed_record_def scan_replayed_eq as_idempotency_conflict_def)
qed

lemma json_get_stamped_hash:
  "key \<noteq> [] \<Longrightarrow> json_get (stamp_idempotency (Some key) h md) ''idempotency_request_hash'' = JStr h"
  by (simp add: stamp_idempotency_def json_get_def)

subsection \<open>Transitions\<close>

lemma transition_replays:
  assumes "normalize_optional_idempotency_key k = Some key"
    and "get_proposal pid R \<noteq> None"
    and "command_replayed_event R pid (Some key) (build_state_transition_request_hash rt q) = Inr (Some e)"
  shows "transition_proposal_state rt pid q k req occ eid R =
     (Inr (build_state_transition_replay_response rt pid e), R)"
  using assms by (auto simp: transition_proposal_state_def prepare_transition_def Let_def)

lemma transition_conflicts:
  assumes "normalize_optional_idempotency_key k = Some key"
    and "get_proposal pid R \<noteq> None"
    and "command_replayed_event R pid (Some key) (build_state_transition_request_hash rt q) = Inl e"
  shows "transition_proposal_state rt pid q k req occ eid R = (Inl e, R)"
  using assms by (auto simp: transition_proposal_state_def prepare_transition_def Let_def)

lemma transition_success_recorded:
  assumes "proposals_keyed R" and "normalize_optional_idempotency_key k = Some key"
    and "transition_proposal_state rt pid q k req occ eid R = (Inr r, R')"
  obtains e where
    "command_replayed_event R' pid (Some key) (build_state_transition_request_hash rt q) = Inr (Some e)"
    and "r = build_state_transition_replay_response rt pid e" and "get_proposal pid R' \<noteq> None"
    and "R' \<noteq> R \<Longrightarrow> json_get (ev_reason_json e) ''idempotency_request_hash''
           = JStr (build_state_transition_request_hash rt q)"
  using assms(1,3)
proof (cases rule: transition_command_cases)
  case (refused e)
  then show thesis by simp
next
  case (replayed r')
  then have prep: "prepare_transition rt pid q k req occ eid R = Inr (Inl r)" and "R' = R" by auto
  from prep obtain e where
    "command_replayed_event R pid (Some key) (build_state_transition_request_hash rt q) = Inr (Some e)"
    and "r = build_state_transition_replay_response rt pid e" and "get_proposal pid R \<noteq> None"
    using assms(2)
    by (auto simp: prepare_transition_def Let_def split: option.splits sum.splits prod.splits)
  with \<open>R' = R\<close> show thesis by (intro that) auto
next
  case (written p' e)
  from written(3) obtain p where p: "get_proposal pid R = Some p" "follows p p' e"
    and reason: "ev_reason_json e = stamp_idempotency (Some key)
           (build_state_transition_request_hash rt q) (tq_reason q)"
    using assms(2) by (auto elim: prepare_transition_write)
  have ids: "pr_proposal_id p' = pid" "ev_proposal_id e = pid"
    using assms(1) p by (auto simp: proposals_keyed_def follows_def same_identity_def)
  have "command_replayed_event R' pid (Some key) (build_state_transition_request_hash rt q) = Inr (Some e)"
    using written(1) ids normalize_key_SomeD [OF assms(2)] reason
    by (intro command_replayed_event_stamped [of _ _ "list_events pid R"]) auto
  moreover have "r = build_state_transition_replay_response rt pid e"
    using written(2) p(2) by (simp add: build_state_transition_replay_response_def follows_def)
  ultimately show thesis
    using written(1) ids normalize_key_SomeD [OF assms(2)] reason
    by (intro that) (auto simp: json_get_stamped_hash)
qed

subsection \<open>Approvals\<close>

lemma approval_replays:
  assumes "normalize_optional_idempotency_key k = Some key"
    and "get_proposal pid R \<noteq> None"
    and "command_replayed_approval R pid (Some key) (build_approval_request_hash rt q) = Inr (Some a)"
    and "command_replayed_event R pid (Some key) (build_approval_request_hash rt q) = Inr (Some e)"
  shows "record_proposal_approval rt pid q k req occ aid eid R =
     (Inr (build_approval_transition_response rt pid (ev_to_state e) e (Some a)), R)"
  using assms
  by (auto simp: record_proposal_approval_def prepare_approval_def Let_def
      build_approval_replay_response_from_referents_def)

lemma approval_success_recorded:
  assumes "proposals_keyed R" and "normalize_optional_idempotency_key k = Some key"
    and "record_proposal_approval rt pid q k req occ aid eid R = (Inr r, R')"
  obtains a e where
    "command_replayed_approval R' pid (Some key) (build_approval_request_hash rt q) = Inr (Some a)"
    and "command_replayed_event R' pid (Some key) (build_approval_request_hash rt q) = Inr (Some e)"
    and "r = build_approval_transition_response rt pid (ev_to_state e) e (Some a)"
    and "get_proposal pid R' \<noteq> None"
  using assms(1,3)
proof (cases rule: approval_command_cases)
  case (refused e)
  then show thesis by simp
next
  case (replayed r')
  then have prep: "prepare_approval rt pid q k req occ aid eid R = Inr (Inl r)" and "R' = R" by auto
  from prep obtain a e where
    "command_replayed_approval R pid (Some key) (build_approval_request_hash rt q) = Inr (Some a)"
    and "command_replayed_event R pid (Some key) (build_approval_request_hash rt q) = Inr (Some e)"
    and "r = build_approval_transition_response rt pid (ev_to_state e) e (Some a)"
    and "get_proposal pid R \<noteq> None"
    using assms(2)
    by (auto simp: prepare_approval_def Let_def build_approval_replay_response_from_referents_def
        split: option.splits sum.splits prod.splits)
  with \<open>R' = R\<close> show thesis by (intro that) auto
next
  case (written p' e a)
  from written(3) obtain p where p: "get_proposal pid R = Some p" "follows p p' e"
    and reason: "ev_reason_json e = stamp_idempotency (Some key)
           (build_approval_request_hash rt q) (aq_details q)"
    and a: "ap_details_json a = ev_reason_json e" "ap_proposal_id a = pr_proposal_id p"
    using assms(2) by (auto elim: prepare_approval_write)
  have ids: "pr_proposal_id p' = pid" "ev_proposal_id e = pid" "ap_proposal_id a = pid"
    using assms(1) p a by (auto simp: proposals_keyed_def follows_def same_identity_def)
  have key: "key \<noteq> []" using normalize_key_SomeD [OF assms(2)] by auto
  have "command_replayed_event R' pid (Some key) (build_approval_request_hash rt q) = Inr (Some e)"
    using written(1) ids key reason
    by (intro command_replayed_event_stamped [of _ _ "list_events pid R"]) auto
  moreover have "command_replayed_approval R' pid (Some key) (build_approval_request_hash rt q) = Inr (Some a)"
    using written(1) ids key reason a
    by (intro command_replayed_approval_stamped [of _ _ "list_approvals pid R"]) auto
  moreover have "r = build_approval_transition_response rt pid (ev_to_state e) e (Some a)"
    using written(2) p(2) by (simp add: follows_def)
  ultimately show thesis using written(1) ids by (intro that) auto
qed

subsection \<open>Creates\<close>

lemma create_replays:
  assumes "normalize_optional_idempotency_key (Some k) = Some key"
    and "validate_lifecycle_origin (co_lifecycle_origin opts) (co_source_workspace_id opts) = Inr ()"
    and "get_idempotency key R = Some i" and "pi_request_hash i = cs_idempotency_hash sv q"
    and "get_proposal (pi_proposal_id i) R = Some p"
    and "get_version (pi_proposal_id i) (pi_proposal_version_no i) R = Some v"
    and "list_events (pi_proposal_id i) R \<noteq> []"
  shows "create_proposal_command rt sv q k cid opts now ids R =
     (Inr (to_create_response rt p v (last (list_events (pi_proposal_id i) R))), R)"
  using assms
  by (simp add: create_proposal_command_def prepare_create_def Let_def
      build_create_response_from_replay_referents_def build_create_response_from_referents_def
      iffD2 [OF require_key_Inr_iff])

lemma create_conflicts:
  assumes "normalize_optional_idempotency_key (Some k) = Some key"
    and "validate_lifecycle_origin (co_lifecycle_origin opts) (co_source_workspace_id opts) = Inr ()"
    and "get_idempotency key R = Some i" and "pi_request_hash i \<noteq> cs_idempotency_hash sv q"
    and "\<not> is_matching_legacy_replay sv q (pi_proposal_id i) (pi_proposal_version_no i) R"
  shows "create_proposal_command rt sv q k cid opts now ids R =
     (Inl (IdempotencyConflictError ''IDEMPOTENCY_KEY_CONFLICT: request hash mismatch''), R)"
  using assms
  by (simp add: create_proposal_command_def prepare_create_def Let_def
      iffD2 [OF require_key_Inr_iff])

text \<open>The invariant supplies every referent a replay reads.\<close>

lemma repository_ok_referents:
  assumes "repository_ok R" and "get_idempotency key R = Some i"
  obtains p v where "get_proposal (pi_proposal_id i) R = Some p"
    and "get_version (pi_proposal_id i) (pi_proposal_version_no i) R = Some v"
    and "list_events (pi_proposal_id i) R \<noteq> []"
proof -
  let ?pid = "pi_proposal_id i"
  obtain p where p: "get_proposal ?pid R = Some p" and one: "pi_proposal_version_no i = 1"
    using assms by (auto simp: repository_ok_def idempotency_ok_def)
  have "1 \<le> pr_current_version_no p"
    and "\<And>n. 1 \<le> n \<Longrightarrow> n \<le> pr_current_version_no p \<Longrightarrow> get_version ?pid n R \<noteq> None"
    using assms(1) p by (auto simp: repository_ok_def versions_ok_def)
  then have "get_version ?pid 1 R \<noteq> None" by simp
  then obtain v where "get_version ?pid (pi_proposal_version_no i) R = Some v"
    using one by auto
  moreover have "chained None (list_events ?pid R) (Some (pr_current_state p))"
    using assms(1) p by (auto simp: repository_ok_def logs_ok_def dest!: spec [of _ ?pid])
  then have "list_events ?pid R \<noteq> []" by (metis chained.simps(1) option.distinct(1))
  ultimately show thesis using p that by blast
qed

subsection \<open>Handoffs and updates\<close>

lemma handoff_success_recorded:
  assumes "proposals_keyed R" and "normalize_optional_idempotency_key k = Some key"
    and "request_proposal_execution_handoff rt pid q k req occ rid eid R = (Inr r, R')"
    and "R' \<noteq> R"
  obtains e p' where
    "command_replayed_event R' pid (Some key) (build_execution_handoff_request_hash rt q) = Inr (Some e)"
    and "get_proposal pid R' = Some p'"
    and "r = build_execution_handoff_replay_response rt p' e"
  using assms(1,3)
proof (cases rule: handoff_command_cases)
  case (written p' e)
  from written(3) obtain p where p: "get_proposal pid R = Some p" "follows p p' e"
    and e: "e = build_execution_handoff_requested_event eid p q occ
        (handoff_execution_request_id q rid) (Some key) (build_execution_handoff_request_hash rt q)"
    using assms(2) by (auto elim: prepare_handoff_write)
  have ids: "pr_proposal_id p' = pid" "ev_proposal_id e = pid"
    using assms(1) p by (auto simp: proposals_keyed_def follows_def same_identity_def)
  have key: "key \<noteq> []" using normalize_key_SomeD [OF assms(2)] by auto
  let ?h = "build_execution_handoff_request_hash rt q"
  have "metadata_matches_replay (ev_reason_json e) key ?h = Inr True"
    unfolding e using handoff_reason_replay [OF key] by simp
  then have "command_replayed_event R' pid (Some key) ?h = Inr (Some e)"
    using written(1) ids key
    by (simp add: command_replayed_event_def load_replayed_event_def find_replayed_event_def
        find_replayed_record_def)
  moreover have "r = build_execution_handoff_replay_response rt p' e"
    using written(2)
    by (simp add: build_execution_handoff_replay_response_def build_execution_handoff_response_def
        e handoff_reason_get py_str_def Let_def)
  ultimately show thesis using written(1) ids by (intro that) auto
qed (use assms(4) in auto)

lemma handoff_replays:
  assumes "normalize_optional_idempotency_key k = Some key" and "get_proposal pid R = Some p"
    and "command_replayed_event R pid (Some key) (build_execution_handoff_request_hash rt q) = Inr (Some e)"
  shows "request_proposal_execution_handoff rt pid q k req occ rid eid R =
     (Inr (build_execution_handoff_replay_response rt p e), R)"
  using assms by (simp add: request_proposal_execution_handoff_def prepare_handoff_def Let_def)

end
