(* ===== verification/Fixtures.thy ===== *)
theory Fixtures
  imports Command_Retries
begin

text \<open>
  Concrete inputs the witnesses run on: a runtime, creation services that accept every request,
  one proposal request and the run of a proposal from creation to a terminal state.
\<close>

subsection \<open>Services\<close>

definition demo_runtime :: runtime where
  "demo_runtime = \<lparr>rt_sha256 = (\<lambda>s. s), rt_isoformat = (\<lambda>t. string_of_int t),
     rt_fromisoformat = (\<lambda>s. if s = [] then None else Some (int (length s)))\<rparr>"

definition demo_resolved :: resolved_request where
  "demo_resolved = \<lparr>rq_portfolio_id = ''pf_1'', rq_mandate_id = None, rq_jurisdiction = Some ''SG'',
     rq_title = None, rq_advisor_notes = None, rq_enable_proposal_simulation = True,
     rq_content = []\<rparr>"

definition demo_artifact :: jobject where
  "demo_artifact =
     [(''evidence_bundle'', JObj [(''hashes'', JObj [(''artifact_hash'', JStr ''h'')])])]"

definition demo_services :: creation_services where
  "demo_services = \<lparr>
     cs_resolve_create = (\<lambda>q. Inr demo_resolved),
     cs_resolve_version = (\<lambda>q. Inr demo_resolved),
     cs_apply_override = (\<lambda>r d. Inr r),
     cs_context_evidence = (\<lambda>r. [(''advisory_policy_context'', JNull)]),
     cs_idempotency_hash = (\<lambda>q. cq_created_by q),
     cs_create_hash = (\<lambda>q r. cq_created_by q),
     cs_version_hash = (\<lambda>q r. vq_created_by q),
     cs_legacy_match = (\<lambda>p v q. False),
     cs_simulate = (\<lambda>r h k c x. Inr \<lparr>sr_payload = [], sr_status = CS_READY, sr_gate_decision = None\<rparr>),
     cs_materialize = (\<lambda>r s t c ov l. (demo_artifact, [])),
     cs_safe_detail = (\<lambda>s. s) \<rparr>"

subsection \<open>Requests\<close>

definition demo_create_request :: create_request where
  "demo_create_request = \<lparr>cq_created_by = ''adv'', cq_content = []\<rparr>"

definition demo_create_options :: create_options where
  "demo_create_options = \<lparr>co_lifecycle_origin = LO_DIRECT_CREATE, co_source_workspace_id = None,
     co_replay_lineage = None, co_context_override = None, co_store_evidence_bundle = True,
     co_require_simulation_flag = True\<rparr>"

definition demo_ids :: new_ids where
  "demo_ids = \<lparr>ni_proposal_id = ''p'', ni_version_id = ''v'', ni_event_id = ''e0''\<rparr>"

definition demo_transition :: "event_type \<Rightarrow> transition_request" where
  "demo_transition ev = \<lparr>tq_event_type = ev, tq_actor_id = ''adv'',
     tq_related_version_no = None, tq_reason = [], tq_expected_state = None\<rparr>"

definition demo_create :: proposal_request where
  "demo_create = RQ_Create demo_create_request ''k'' None demo_create_options 1 demo_ids"

definition demo_move :: "event_type \<Rightarrow> string \<Rightarrow> datetime \<Rightarrow> proposal_request" where
  "demo_move ev eid t = RQ_Transition ''p'' (demo_transition ev) None False t eid"

subsection \<open>A run\<close>

definition demo_actions :: "action list" where
  "demo_actions =
     [Prepare demo_create, Commit 0,
      Prepare (demo_move EV_SUBMITTED_FOR_RISK_REVIEW ''e1'' 2), Commit 0,
      Prepare (demo_move EV_RISK_APPROVED ''e2'' 3), Commit 0,
      Prepare (demo_move EV_CLIENT_CONSENT_RECORDED ''e3'' 4),
      Prepare (demo_move EV_REJECTED ''e4'' 5), Commit 0, Commit 0,
      Prepare (demo_move EV_EXECUTED ''e5'' 6), Commit 0]"

definition demo_system :: system where
  "demo_system = run_actions demo_runtime demo_services demo_actions initial_system"

lemma demo_events:
  "map ev_event_type (list_events ''p'' (sy_repository demo_system)) =
     [EV_CREATED, EV_SUBMITTED_FOR_RISK_REVIEW, EV_RISK_APPROVED, EV_CLIENT_CONSENT_RECORDED, EV_EXECUTED]"
  by code_simp

lemma demo_admissible:
  "schedule_enabled demo_runtime demo_services demo_actions initial_system"
  by code_simp

lemma demo_reachable: "reachable demo_runtime demo_services demo_system"
  unfolding demo_system_def by (rule reachable_run [OF demo_admissible reachable.start])

text \<open>The same run, stopped after the create.\<close>

definition demo_created :: system where
  "demo_created = run_actions demo_runtime demo_services [Prepare demo_create, Commit 0] initial_system"

lemma demo_created_reachable: "reachable demo_runtime demo_services demo_created"
proof -
  have "schedule_enabled demo_runtime demo_services [Prepare demo_create, Commit 0] initial_system"
    by code_simp
  then show ?thesis unfolding demo_created_def by (rule reachable_run [OF _ reachable.start])
qed

lemma demo_created_known: "\<exists>p. get_proposal ''p'' (sy_repository demo_created) = Some p"
proof -
  have "get_proposal ''p'' (sy_repository demo_created) \<noteq> None" by code_simp
  then show ?thesis by auto
qed

lemma demo_split:
  "run_actions demo_runtime demo_services (drop 2 demo_actions) demo_created = demo_system"
  by (simp add: demo_system_def demo_created_def demo_actions_def)

lemma demo_rest_enabled:
  "schedule_enabled demo_runtime demo_services (drop 2 demo_actions) demo_created"
  by code_simp

text \<open>A rejected proposal that is reported on afterwards.\<close>

definition demo_report :: proposal_request where
  "demo_report = RQ_Report ''p''
     \<lparr>rr_proposal = to_proposal_summary demo_runtime
        (build_proposal_record ''p'' ''pf_1'' None None ''adv'' 1 1 None None LO_DIRECT_CREATE None),
      rr_report_request_id = ''r'', rr_report_type = RP_PORTFOLIO_REVIEW, rr_report_service = ''s'',
      rr_status = ''READY'', rr_generated_at = ''2026'', rr_report_reference_id = ''x'',
      rr_artifact_url = None, rr_explanation = []\<rparr>
     \<lparr>ra_requested_by = ''adv'', ra_related_version_no = 1, ra_include_execution_summary = False,
      ra_include_reviewed_narrative = False, ra_proposal_narrative_package = None\<rparr> ''e2''"

definition demo_report_actions :: "action list" where
  "demo_report_actions =
     [Prepare demo_create, Commit 0, Prepare (demo_move EV_CANCELLED ''e1'' 2), Commit 0,
      Prepare demo_report, Commit 0]"

definition demo_reported :: system where
  "demo_reported = run_actions demo_runtime demo_services demo_report_actions initial_system"

lemma demo_reported_reachable: "reachable demo_runtime demo_services demo_reported"
proof -
  have "schedule_enabled demo_runtime demo_services demo_report_actions initial_system"
    by code_simp
  then show ?thesis unfolding demo_reported_def by (rule reachable_run [OF _ reachable.start])
qed

lemma demo_reported_events:
  "2 < length (list_events ''p'' (sy_repository demo_reported))
   \<and> ev_to_state (list_events ''p'' (sy_repository demo_reported) ! 1) = WS_CANCELLED"
  by code_simp

text \<open>A proposal with one recorded approval.\<close>

definition demo_approval :: approval_request where
  "demo_approval = \<lparr>aq_approval_type = AP_RISK, aq_approved = True, aq_actor_id = ''risk'',
     aq_related_version_no = None, aq_details = [], aq_expected_state = None\<rparr>"

definition demo_approval_actions :: "action list" where
  "demo_approval_actions =
     [Prepare demo_create, Commit 0,
      Prepare (demo_move EV_SUBMITTED_FOR_RISK_REVIEW ''e1'' 2), Commit 0,
      Prepare (RQ_Approval ''p'' demo_approval (Some ''ka'') False 3 ''a1'' ''e2''), Commit 0]"

definition demo_approved :: system where
  "demo_approved = run_actions demo_runtime demo_services demo_approval_actions initial_system"

lemma demo_approved_reachable: "reachable demo_runtime demo_services demo_approved"
proof -
  have "schedule_enabled demo_runtime demo_services demo_approval_actions initial_system"
    by code_simp
  then show ?thesis unfolding demo_approved_def by (rule reachable_run [OF _ reachable.start])
qed

lemma demo_approved_row: "list_approvals ''p'' (sy_repository demo_approved) \<noteq> []"
  by code_simp

definition demo_submitted :: system where
  "demo_submitted = run_actions demo_runtime demo_services (take 4 demo_approval_actions) initial_system"

lemma demo_submitted_reachable: "reachable demo_runtime demo_services demo_submitted"
proof -
  have "schedule_enabled demo_runtime demo_services (take 4 demo_approval_actions) initial_system"
    by code_simp
  then show ?thesis unfolding demo_submitted_def by (rule reachable_run [OF _ reachable.start])
qed

text \<open>A proposal ready for execution, and a handoff request for it.\<close>

definition demo_ready :: system where
  "demo_ready = run_actions demo_runtime demo_services (take 10 demo_actions) initial_system"

lemma demo_ready_reachable: "reachable demo_runtime demo_services demo_ready"
proof -
  have "schedule_enabled demo_runtime demo_services (take 10 demo_actions) initial_system"
    by code_simp
  then show ?thesis unfolding demo_ready_def by (rule reachable_run [OF _ reachable.start])
qed

definition demo_handoff :: handoff_request where
  "demo_handoff = \<lparr>hq_actor_id = ''adv'', hq_execution_provider = ''oms'',
     hq_related_version_no = None, hq_expected_state = None, hq_correlation_id = None,
     hq_external_request_id = None, hq_notes = []\<rparr>"

text \<open>Version options and an execution update of that handoff.\<close>

definition demo_version_options :: version_options where
  "demo_version_options = \<lparr>vo_replay_lineage = None, vo_context_override = None,
     vo_store_evidence_bundle = True, vo_require_simulation_flag = True,
     vo_allow_portfolio_change = False\<rparr>"

definition demo_update :: "update_status \<Rightarrow> update_request" where
  "demo_update u = \<lparr>uq_update_id = ''u'', uq_actor_id = ''oms'', uq_execution_request_id = ''x1'',
     uq_execution_provider = ''oms'', uq_update_status = u, uq_related_version_no = None,
     uq_external_execution_id = None, uq_occurred_at = None, uq_details = []\<rparr>"

end
