(* ===== verification/Proposal_Queries.thy ===== *)
theory Proposal_Queries
  imports Repository
begin

text \<open>
  Listing proposals by filter and cursor, and the bulk listings of events and approvals
  (\<open>infrastructure/proposals/in_memory_query.py\<close> and the methods of
  \<open>in_memory.py\<close> that call it).
\<close>

subsection \<open>Filters\<close>

definition proposal_matches_portfolio :: "proposal \<Rightarrow> string option \<Rightarrow> bool" where
  "proposal_matches_portfolio row portfolio_id =
     (case portfolio_id of None \<Rightarrow> True | Some x \<Rightarrow> pr_portfolio_id row = x)"

definition proposal_matches_state :: "proposal \<Rightarrow> string option \<Rightarrow> bool" where
  "proposal_matches_state row state =
     (case state of None \<Rightarrow> True | Some x \<Rightarrow> workflow_state_str (pr_current_state row) = x)"

definition proposal_matches_creator :: "proposal \<Rightarrow> string option \<Rightarrow> bool" where
  "proposal_matches_creator row created_by =
     (case created_by of None \<Rightarrow> True | Some x \<Rightarrow> pr_created_by row = x)"

definition proposal_created_on_or_after :: "proposal \<Rightarrow> datetime option \<Rightarrow> bool" where
  "proposal_created_on_or_after row created_from =
     (case created_from of None \<Rightarrow> True | Some t \<Rightarrow> t \<le> pr_created_at row)"

definition proposal_created_on_or_before :: "proposal \<Rightarrow> datetime option \<Rightarrow> bool" where
  "proposal_created_on_or_before row created_to =
     (case created_to of None \<Rightarrow> True | Some t \<Rightarrow> pr_created_at row \<le> t)"

record proposal_filter =
  pf_portfolio_id :: "string option"
  pf_state :: "string option"
  pf_created_by :: "string option"
  pf_created_from :: "datetime option"
  pf_created_to :: "datetime option"

definition proposal_matches_filters :: "proposal_filter \<Rightarrow> proposal \<Rightarrow> bool" where
  "proposal_matches_filters f row \<longleftrightarrow>
     proposal_matches_portfolio row (pf_portfolio_id f)
     \<and> proposal_matches_state row (pf_state f)
     \<and> proposal_matches_creator row (pf_created_by f)
     \<and> proposal_created_on_or_after row (pf_created_from f)
     \<and> proposal_created_on_or_before row (pf_created_to f)"

subsection \<open>Pages\<close>

fun proposal_cursor_index_from :: "nat \<Rightarrow> proposal list \<Rightarrow> string \<Rightarrow> nat option" where
  "proposal_cursor_index_from i [] cursor = None"
| "proposal_cursor_index_from i (row # rows) cursor =
     (if pr_proposal_id row = cursor then Some i
      else proposal_cursor_index_from (Suc i) rows cursor)"

definition proposal_cursor_index :: "proposal list \<Rightarrow> string \<Rightarrow> nat option" where
  "proposal_cursor_index rows cursor = proposal_cursor_index_from 0 rows cursor"

definition apply_proposal_cursor :: "proposal list \<Rightarrow> string option \<Rightarrow> proposal list" where
  "apply_proposal_cursor rows cursor = (case cursor of
      None \<Rightarrow> rows
    | Some c \<Rightarrow>
        if c = [] then rows
        else (case proposal_cursor_index rows c of
                None \<Rightarrow> rows | Some i \<Rightarrow> drop (i + 1) rows))"

definition next_page_cursor :: "proposal list \<Rightarrow> proposal list \<Rightarrow> int \<Rightarrow> string option" where
  "next_page_cursor filtered page limit =
     (if int (length filtered) \<le> limit \<or> page = [] then None
      else Some (pr_proposal_id (last page)))"

definition filtered_proposal_rows :: "proposal list \<Rightarrow> proposal_filter \<Rightarrow> proposal list" where
  "filtered_proposal_rows rows f =
     filter (proposal_matches_filters f)
       (py_sorted_reverse (\<lambda>row. (pr_created_at row, pr_proposal_id row)) rows)"

definition filtered_proposal_page ::
  "proposal list \<Rightarrow> proposal_filter \<Rightarrow> int \<Rightarrow> string option \<Rightarrow> proposal list \<times> string option" where
  "filtered_proposal_page rows f limit cursor =
     (let filtered = apply_proposal_cursor (filtered_proposal_rows rows f) cursor;
          page = py_take limit filtered
      in (page, next_page_cursor filtered page limit))"

definition list_proposals ::
  "proposal_filter \<Rightarrow> int \<Rightarrow> string option \<Rightarrow> repository \<Rightarrow> proposal list \<times> string option" where
  "list_proposals f limit cursor R =
     filtered_proposal_page (dict_values (rp_proposals R)) f limit cursor"

subsection \<open>Bulk listings\<close>

text \<open>
  \<open>event_order\<close> of the source: the position of each identifier, the last one for a repeated
  identifier.  The filter keeps only listed identifiers, so the lookup cannot fail.
\<close>

definition id_order :: "string list \<Rightarrow> (string, nat) dict" where
  "id_order ids = fold (\<lambda>(i, pid). dict_set pid i) (enumerate 0 ids) []"

definition order_of_id :: "string list \<Rightarrow> string \<Rightarrow> nat" where
  "order_of_id ids pid = (case dict_get (id_order ids) pid of Some i \<Rightarrow> i | None \<Rightarrow> 0)"

definition ordered_events_for_proposals ::
  "workflow_event list list \<Rightarrow> string list \<Rightarrow> workflow_event list" where
  "ordered_events_for_proposals groups ids =
     (if ids = [] then []
      else sort_key (\<lambda>e. (order_of_id ids (ev_proposal_id e), ev_occurred_at e, ev_event_id e))
             (filter (\<lambda>e. ev_proposal_id e \<in> set ids) (concat groups)))"

definition ordered_approvals_for_proposals ::
  "approval list list \<Rightarrow> string list \<Rightarrow> approval list" where
  "ordered_approvals_for_proposals groups ids =
     (if ids = [] then []
      else sort_key (\<lambda>a. (order_of_id ids (ap_proposal_id a), ap_occurred_at a, ap_approval_id a))
             (filter (\<lambda>a. ap_proposal_id a \<in> set ids) (concat groups)))"

definition list_events_for_proposals :: "string list \<Rightarrow> repository \<Rightarrow> workflow_event list" where
  "list_events_for_proposals ids R = ordered_events_for_proposals (dict_values (rp_events R)) ids"

definition list_approvals_for_proposals :: "string list \<Rightarrow> repository \<Rightarrow> approval list" where
  "list_approvals_for_proposals ids R =
     ordered_approvals_for_proposals (dict_values (rp_approvals R)) ids"

subsection \<open>Cursors\<close>

lemma cursor_index_from_nth:
  assumes "distinct (map pr_proposal_id rows)" and "i < length rows"
  shows "proposal_cursor_index_from j rows (pr_proposal_id (rows ! i)) = Some (i + j)"
  using assms
proof (induction rows arbitrary: i j)
  case (Cons row rows)
  show ?case
  proof (cases i)
    case (Suc i')
    with Cons.prems have "i' < length rows" by simp
    moreover from this have "pr_proposal_id row \<noteq> pr_proposal_id (rows ! i')"
      using Cons.prems(1) by (auto dest: nth_mem)
    ultimately show ?thesis
      using Cons.IH [of i' "Suc j"] Cons.prems(1) Suc by simp
  qed simp
qed simp

lemma cursor_index_from_None_iff:
  "proposal_cursor_index_from j rows c = None \<longleftrightarrow> c \<notin> pr_proposal_id ` set rows"
  by (induction j rows c rule: proposal_cursor_index_from.induct) auto

lemma apply_cursor_nth:
  assumes "distinct (map pr_proposal_id rows)" and "i < length rows"
    and "pr_proposal_id (rows ! i) \<noteq> []"
  shows "apply_proposal_cursor rows (Some (pr_proposal_id (rows ! i))) = drop (Suc i) rows"
  using assms by (simp add: apply_proposal_cursor_def proposal_cursor_index_def cursor_index_from_nth)

lemma sorted_filtered_rows:
  "sorted (map (\<lambda>row. (pr_created_at row, pr_proposal_id row)) (rev (filtered_proposal_rows rows f)))"
  by (simp add: filtered_proposal_rows_def py_sorted_reverse_def rev_filter [symmetric] sorted_filter)

lemma set_filtered_rows:
  "set (filtered_proposal_rows rows f) = {row \<in> set rows. proposal_matches_filters f row}"
  by (simp add: filtered_proposal_rows_def)

lemma distinct_filtered_rows:
  assumes "distinct (map pr_proposal_id rows)"
  shows "distinct (map pr_proposal_id (filtered_proposal_rows rows f))"
proof -
  let ?s = "py_sorted_reverse (\<lambda>row. (pr_created_at row, pr_proposal_id row)) rows"
  have "distinct (map pr_proposal_id ?s)"
    using assms distinct_map_mset_cong [of ?s rows pr_proposal_id] by simp
  then show ?thesis
    unfolding filtered_proposal_rows_def by (rule distinct_map_filter)
qed

lemma keyed_rows_distinct:
  assumes "proposals_keyed R"
  shows "distinct (map pr_proposal_id (dict_values (rp_proposals R)))"
proof -
  have wf: "distinct (map fst (rp_proposals R))"
    and key: "\<And>k p. (k, p) \<in> set (rp_proposals R) \<Longrightarrow> pr_proposal_id p = k"
    using assms by (auto simp: proposals_keyed_def dict_wf_def get_proposal_def)
  have "map pr_proposal_id (dict_values (rp_proposals R)) = map fst (rp_proposals R)"
    using key by (auto simp: dict_values_def)
  with wf show ?thesis by simp
qed

subsection \<open>Walking the pages\<close>

text \<open>
  A client that follows \<open>next_cursor\<close>; \<open>fuel\<close> bounds the number of requests, and the number
  of stored proposals is enough for a positive limit.
\<close>

fun collect_pages ::
  "nat \<Rightarrow> proposal_filter \<Rightarrow> int \<Rightarrow> string option \<Rightarrow> repository \<Rightarrow> proposal list" where
  "collect_pages 0 f limit cursor R = []"
| "collect_pages (Suc fuel) f limit cursor R =
     (case list_proposals f limit cursor R of
        (page, None) \<Rightarrow> page
      | (page, Some c) \<Rightarrow> page @ collect_pages fuel f limit (Some c) R)"

lemma collect_pages_rest:
  fixes R f
  defines "rows \<equiv> filtered_proposal_rows (dict_values (rp_proposals R)) f"
  assumes "distinct (map pr_proposal_id rows)" and "[] \<notin> pr_proposal_id ` set rows"
    and "0 < limit" and "apply_proposal_cursor rows cursor = drop i rows"
    and "length rows \<le> i + fuel" and "0 < fuel"
  shows "collect_pages fuel f limit cursor R = drop i rows"
  using assms(5-)
proof (induction fuel arbitrary: cursor i)
  case (Suc fuel)
  let ?n = "nat limit"
  have page: "list_proposals f limit cursor R =
      (take ?n (drop i rows), next_page_cursor (drop i rows) (take ?n (drop i rows)) limit)"
    using \<open>0 < limit\<close> Suc.prems(1)
    by (simp add: list_proposals_def filtered_proposal_page_def rows_def [symmetric] py_take_def
        Let_def)
  show ?case
  proof (cases "length rows \<le> i + ?n")
    case True
    then have "int (length (drop i rows)) \<le> limit" using \<open>0 < limit\<close> by simp
    with True show ?thesis by (simp add: page next_page_cursor_def)
  next
    case False
    let ?j = "i + ?n - 1"
    have n: "0 < ?n" using \<open>0 < limit\<close> by simp
    have "last (take ?n (drop i rows)) = rows ! ?j"
      using False n by (subst last_conv_nth) auto
    then have "next_page_cursor (drop i rows) (take ?n (drop i rows)) limit
        = Some (pr_proposal_id (rows ! ?j))"
      using False n by (auto simp: next_page_cursor_def)
    moreover have "apply_proposal_cursor rows (Some (pr_proposal_id (rows ! ?j))) = drop (i + ?n) rows"
    proof -
      have "?j < length rows" and "Suc ?j = i + ?n" using False n by auto
      moreover from this have "pr_proposal_id (rows ! ?j) \<noteq> []"
        using assms(3) by (metis imageI nth_mem)
      ultimately show ?thesis using apply_cursor_nth [OF assms(2), of ?j] by simp
    qed
    then have "collect_pages fuel f limit (Some (pr_proposal_id (rows ! ?j))) R = drop (i + ?n) rows"
      using Suc.prems False n by (intro Suc.IH) auto
    ultimately show ?thesis
      by (simp add: page) (metis append_take_drop_id drop_drop add.commute)
  qed
qed simp

lemma collect_pages_all:
  assumes "proposals_keyed R" and "0 < limit"
    and "\<forall>p\<in>set (dict_values (rp_proposals R)). pr_proposal_id p \<noteq> []"
    and "length (rp_proposals R) < fuel"
  shows "collect_pages fuel f limit None R = filtered_proposal_rows (dict_values (rp_proposals R)) f"
proof -
  let ?rows = "filtered_proposal_rows (dict_values (rp_proposals R)) f"
  have "length ?rows \<le> length (dict_values (rp_proposals R))"
    unfolding filtered_proposal_rows_def py_sorted_reverse_def
    by (rule order_trans [OF length_filter_le]) simp
  then have "length ?rows \<le> 0 + fuel" and "0 < fuel"
    using assms(4) by (auto simp: dict_values_def)
  moreover have "[] \<notin> pr_proposal_id ` set ?rows"
    using assms(3) by (auto simp: set_filtered_rows)
  ultimately have "collect_pages fuel f limit None R = drop 0 ?rows"
    using keyed_rows_distinct [OF assms(1)] assms(2)
    by (intro collect_pages_rest distinct_filtered_rows) (auto simp: apply_proposal_cursor_def)
  then show ?thesis by simp
qed

subsection \<open>Bulk listings return exactly the logs\<close>

lemma set_ordered_events:
  "set (ordered_events_for_proposals groups ids)
     = {e \<in> set (concat groups). ev_proposal_id e \<in> set ids}"
  by (auto simp: ordered_events_for_proposals_def)

lemma mem_dict_values_iff:
  "dict_wf d \<Longrightarrow> x \<in> set (concat (dict_values d)) \<longleftrightarrow> (\<exists>k. x \<in> set (dict_list d k))"
proof -
  assume "dict_wf d"
  then have "x \<in> set (concat (dict_values d)) \<longleftrightarrow> (\<exists>v k. dict_get d k = Some v \<and> x \<in> set v)"
    using in_dict_values_iff [of d] by auto
  moreover have "(\<exists>k. x \<in> set (dict_list d k)) \<longleftrightarrow> (\<exists>v k. dict_get d k = Some v \<and> x \<in> set v)"
    by (auto simp: in_dict_list_iff)
  ultimately show ?thesis by simp
qed

lemma list_events_for_proposals_iff:
  assumes "proposals_keyed R"
  shows "e \<in> set (list_events_for_proposals ids R) \<longleftrightarrow>
     ev_proposal_id e \<in> set ids \<and> e \<in> set (list_events (ev_proposal_id e) R)"
proof -
  have wf: "dict_wf (rp_events R)"
    and key: "\<And>k e. e \<in> set (list_events k R) \<Longrightarrow> ev_proposal_id e = k"
    using assms by (auto simp: proposals_keyed_def)
  then have "e \<in> set (concat (dict_values (rp_events R)))
      \<longleftrightarrow> e \<in> set (list_events (ev_proposal_id e) R)"
    unfolding mem_dict_values_iff [OF wf] list_events_def by blast
  then show ?thesis
    by (auto simp: list_events_for_proposals_def set_ordered_events)
qed

lemma order_of_id_last:
  "order_of_id (ids @ [pid]) k = (if k = pid then length ids else order_of_id ids k)"
  by (simp add: order_of_id_def id_order_def enumerate_append_eq)

end
