(* ===== verification/Repository_Operations.thy ===== *)
theory Repository_Operations
  imports Repository
begin

text \<open>
  The asynchronous-operation side of the in-memory repository
  (\<open>infrastructure/proposals/in_memory.py\<close>, \<open>in_memory_query.py\<close>): rows by id with two
  secondary indexes, and the listings recovery and operator control work from.
\<close>

subsection \<open>Writes and lookups\<close>

definition index_operation :: "async_operation \<Rightarrow> repository \<Rightarrow> repository" where
  "index_operation op R =
     R\<lparr>rp_operations := dict_set (op_operation_id op) op (rp_operations R),
       rp_operation_by_correlation :=
         dict_set (op_correlation_id op) (op_operation_id op) (rp_operation_by_correlation R),
       rp_operation_by_idempotency := (case op_idempotency_key op of
           None \<Rightarrow> rp_operation_by_idempotency R
         | Some key \<Rightarrow>
             if key = [] then rp_operation_by_idempotency R
             else dict_set key (op_operation_id op) (rp_operation_by_idempotency R))\<rparr>"

definition create_operation :: "async_operation \<Rightarrow> repository \<Rightarrow> repository" where
  "create_operation op R = index_operation op R"

definition update_operation :: "async_operation \<Rightarrow> repository \<Rightarrow> repository" where
  "update_operation op R = index_operation op R"

definition get_operation :: "string \<Rightarrow> repository \<Rightarrow> async_operation option" where
  "get_operation operation_id R = dict_get (rp_operations R) operation_id"

definition get_operation_by_correlation :: "string \<Rightarrow> repository \<Rightarrow> async_operation option" where
  "get_operation_by_correlation correlation_id R =
     (case dict_get (rp_operation_by_correlation R) correlation_id of
        None \<Rightarrow> None
      | Some operation_id \<Rightarrow> dict_get (rp_operations R) operation_id)"

definition get_operation_by_idempotency :: "string \<Rightarrow> repository \<Rightarrow> async_operation option" where
  "get_operation_by_idempotency key R =
     (case dict_get (rp_operation_by_idempotency R) key of
        None \<Rightarrow> None
      | Some operation_id \<Rightarrow> dict_get (rp_operations R) operation_id)"

definition create_operation_if_absent_by_idempotency ::
  "async_operation \<Rightarrow> repository \<Rightarrow> (async_operation \<times> bool) \<times> repository" where
  "create_operation_if_absent_by_idempotency op R =
     (case (case op_idempotency_key op of
              None \<Rightarrow> None
            | Some key \<Rightarrow>
                if key = [] then None
                else (case dict_get (rp_operation_by_idempotency R) key of
                        None \<Rightarrow> None
                      | Some existing_id \<Rightarrow> dict_get (rp_operations R) existing_id)) of
        Some existing \<Rightarrow> ((existing, False), R)
      | None \<Rightarrow> ((op, True), index_operation op R))"

subsection \<open>Listings\<close>

definition operation_is_pending :: "async_operation \<Rightarrow> bool" where
  "operation_is_pending op \<longleftrightarrow> op_status op = AS_PENDING"

definition running_operation_lease_has_expired :: "async_operation \<Rightarrow> datetime \<Rightarrow> bool" where
  "running_operation_lease_has_expired op as_of \<longleftrightarrow>
     op_status op = AS_RUNNING \<and> op_finished_at op = None
     \<and> (case op_lease_expires_at op of None \<Rightarrow> False | Some t \<Rightarrow> t \<le> as_of)"

definition operation_is_recoverable :: "async_operation \<Rightarrow> datetime \<Rightarrow> bool" where
  "operation_is_recoverable op as_of \<longleftrightarrow>
     operation_is_pending op \<or> running_operation_lease_has_expired op as_of"

definition non_positive_limit :: "int option \<Rightarrow> bool" where
  "non_positive_limit limit = (case limit of None \<Rightarrow> False | Some n \<Rightarrow> n \<le> 0)"

definition limited_records :: "'a list \<Rightarrow> int option \<Rightarrow> 'a list" where
  "limited_records records limit = (case limit of None \<Rightarrow> records | Some n \<Rightarrow> py_take n records)"

definition recoverable_operation_rows ::
  "async_operation list \<Rightarrow> datetime \<Rightarrow> async_operation list" where
  "recoverable_operation_rows operations as_of =
     filter (\<lambda>op. operation_is_recoverable op as_of) operations"

definition recoverable_operations ::
  "async_operation list \<Rightarrow> datetime \<Rightarrow> int option \<Rightarrow> async_operation list" where
  "recoverable_operations operations as_of limit =
     (if non_positive_limit limit then []
      else limited_records
        (sort_key (\<lambda>op. (op_created_at op, op_operation_id op))
           (recoverable_operation_rows operations as_of)) limit)"

definition control_operations :: "async_operation list \<Rightarrow> int option \<Rightarrow> async_operation list" where
  "control_operations operations limit =
     (if non_positive_limit limit then []
      else limited_records
        (sort_key (\<lambda>op. (op_created_at op, op_operation_id op))
           (filter (\<lambda>op. op_status op \<in> {AS_PENDING, AS_RUNNING, AS_FAILED}) operations)) limit)"

definition list_recoverable_operations ::
  "datetime \<Rightarrow> int option \<Rightarrow> repository \<Rightarrow> async_operation list" where
  "list_recoverable_operations as_of limit R =
     recoverable_operations (dict_values (rp_operations R)) as_of limit"

definition list_operations_for_control ::
  "datetime \<Rightarrow> int option \<Rightarrow> repository \<Rightarrow> async_operation list" where
  "list_operations_for_control as_of limit R =
     control_operations (dict_values (rp_operations R)) limit"

subsection \<open>The operation store\<close>

interpretation operation_store: keyed_store "\<lambda>R k. get_operation k R" update_operation op_operation_id
  by unfold_locales (simp add: get_operation_def update_operation_def index_operation_def)

lemma create_is_update: "create_operation = update_operation"
  by (rule ext)+ (simp add: create_operation_def update_operation_def)

lemma update_operation_frame [simp]:
  "get_proposal k (update_operation op R) = get_proposal k R"
  "get_version k n (update_operation op R) = get_version k n R"
  "list_events k (update_operation op R) = list_events k R"
  "list_approvals k (update_operation op R) = list_approvals k R"
  "get_idempotency i (update_operation op R) = get_idempotency i R"
  by (simp_all add: update_operation_def index_operation_def get_proposal_def get_version_def
      list_events_def list_approvals_def get_idempotency_def)

text \<open>Rows sit under their own id, and both indexes point at rows.\<close>

definition operations_keyed :: "repository \<Rightarrow> bool" where
  "operations_keyed R \<longleftrightarrow>
     dict_wf (rp_operations R)
     \<and> (\<forall>k op. get_operation k R = Some op \<longrightarrow> op_operation_id op = k)
     \<and> (\<forall>c k. dict_get (rp_operation_by_correlation R) c = Some k \<longrightarrow> get_operation k R \<noteq> None)
     \<and> (\<forall>i k. dict_get (rp_operation_by_idempotency R) i = Some k \<longrightarrow>
          i \<noteq> [] \<and> (\<exists>op. get_operation k R = Some op \<and> op_idempotency_key op = Some i))"

lemma operations_keyed_empty [simp]: "operations_keyed empty_repository"
  by (simp add: operations_keyed_def empty_repository_def get_operation_def)

text \<open>
  A write keeps the store well formed when it is a new row or leaves the row's idempotency key
  alone, which is what every caller does.
\<close>

definition keeps_idempotency_key :: "async_operation \<Rightarrow> repository \<Rightarrow> bool" where
  "keeps_idempotency_key op R \<longleftrightarrow>
     (\<forall>old. get_operation (op_operation_id op) R = Some old \<longrightarrow>
        op_idempotency_key old = op_idempotency_key op)"

lemma operations_keyed_update:
  assumes "operations_keyed R" and "keeps_idempotency_key op R"
  shows "operations_keyed (update_operation op R)"
proof -
  let ?R = "update_operation op R"
  have get: "get_operation k ?R = (if k = op_operation_id op then Some op else get_operation k R)" for k
    by (rule operation_store.get_put)
  have "dict_wf (rp_operations ?R)"
    using assms(1) by (simp add: operations_keyed_def update_operation_def index_operation_def)
  moreover have "op_operation_id op' = k" if "get_operation k ?R = Some op'" for k op'
    using that assms(1) by (auto simp: get operations_keyed_def split: if_splits)
  moreover have "get_operation k ?R \<noteq> None"
    if "dict_get (rp_operation_by_correlation ?R) c = Some k" for c k
  proof -
    have "c = op_correlation_id op \<and> k = op_operation_id op
        \<or> dict_get (rp_operation_by_correlation R) c = Some k"
      using that by (auto simp: update_operation_def index_operation_def split: if_splits)
    then show ?thesis using assms(1) by (auto simp: get operations_keyed_def)
  qed
  moreover have "i \<noteq> [] \<and> (\<exists>op'. get_operation k ?R = Some op' \<and> op_idempotency_key op' = Some i)"
    if "dict_get (rp_operation_by_idempotency ?R) i = Some k" for i k
  proof (cases "op_idempotency_key op = Some i \<and> k = op_operation_id op \<and> i \<noteq> []")
    case True
    then show ?thesis by (simp add: get)
  next
    case False
    have "dict_get (rp_operation_by_idempotency R) i = Some k"
      using that False
      by (auto simp: update_operation_def index_operation_def split: option.splits if_splits)
    then obtain op' where "i \<noteq> []" "get_operation k R = Some op'" "op_idempotency_key op' = Some i"
      using assms(1) unfolding operations_keyed_def by blast
    then show ?thesis
      using assms(2) by (auto simp: get keeps_idempotency_key_def)
  qed
  ultimately show ?thesis by (simp add: operations_keyed_def)
qed

subsection \<open>The submission claim\<close>

text \<open>
  \<open>create_operation_if_absent_by_idempotency\<close> as a first-write-wins registry over idempotency
  keys, for well-formed stores and operations that carry a key and a fresh id.
\<close>

lemma submission_existing:
  assumes "operations_keyed R" and "op_idempotency_key op = Some key" and "key \<noteq> []"
    and "get_operation_by_idempotency key R = Some old"
  shows "create_operation_if_absent_by_idempotency op R = ((old, False), R)"
  using assms
  by (auto simp: create_operation_if_absent_by_idempotency_def get_operation_by_idempotency_def
      split: option.splits)

lemma submission_fresh:
  assumes "op_idempotency_key op = Some key" and "key \<noteq> []"
    and "get_operation_by_idempotency key R = None"
  shows "create_operation_if_absent_by_idempotency op R = ((op, True), update_operation op R)"
  using assms
  by (auto simp: create_operation_if_absent_by_idempotency_def get_operation_by_idempotency_def
      update_operation_def split: option.splits)

lemma get_by_idempotency_update:
  assumes "op_idempotency_key op = Some key" and "key \<noteq> []"
  shows "get_operation_by_idempotency key (update_operation op R) = Some op"
  using assms
  by (simp add: get_operation_by_idempotency_def update_operation_def index_operation_def)

lemma get_by_correlation_update:
  "get_operation_by_correlation (op_correlation_id op) (update_operation op R) = Some op"
  by (simp add: get_operation_by_correlation_def update_operation_def index_operation_def)

subsection \<open>What recovery sees\<close>

lemma in_operations_iff:
  "operations_keyed R \<Longrightarrow>
     op \<in> set (dict_values (rp_operations R)) \<longleftrightarrow> get_operation (op_operation_id op) R = Some op"
  by (force simp: operations_keyed_def in_dict_values_iff get_operation_def)

lemma list_recoverable_unlimited:
  "operations_keyed R \<Longrightarrow>
     op \<in> set (list_recoverable_operations as_of None R) \<longleftrightarrow>
       get_operation (op_operation_id op) R = Some op \<and> operation_is_recoverable op as_of"
  by (auto simp: list_recoverable_operations_def recoverable_operations_def non_positive_limit_def
      limited_records_def recoverable_operation_rows_def in_operations_iff)

lemma list_recoverable_take:
  "0 \<le> n \<Longrightarrow> list_recoverable_operations as_of (Some n) R
     = take (nat n) (list_recoverable_operations as_of None R)"
  by (simp add: list_recoverable_operations_def recoverable_operations_def non_positive_limit_def
      limited_records_def py_take_def)

lemma list_recoverable_sorted:
  "sorted (map (\<lambda>op. (op_created_at op, op_operation_id op)) (list_recoverable_operations as_of None R))"
  by (simp add: list_recoverable_operations_def recoverable_operations_def non_positive_limit_def
      limited_records_def)

lemma terminal_not_recoverable:
  "op_status op \<in> {AS_SUCCEEDED, AS_FAILED} \<Longrightarrow> \<not> operation_is_recoverable op as_of"
  by (auto simp: operation_is_recoverable_def operation_is_pending_def
      running_operation_lease_has_expired_def)

end
