(* ===== verification/Async_Operations.thy ===== *)
theory Async_Operations
  imports Versions Repository_Operations
begin

text \<open>
  Asynchronous create and version operations: the row's life cycle
  (\<open>async_operations.py\<close>, \<open>async_operation_persistence.py\<close>), the attempt loop
  (\<open>async_operation_runner.py\<close>), payload resolution (\<open>async_payloads.py\<close>,
  \<open>async_payload_resolution.py\<close>), execution, recovery and submission
  (\<open>async_operation_execution.py\<close>, \<open>async_operation_recovery.py\<close>,
  \<open>async_operation_submission.py\<close>, \<open>async_submission_commands.py\<close>).
\<close>

subsection \<open>Dumping a create response\<close>

primrec creation_status_str :: "creation_status \<Rightarrow> string" where
  "creation_status_str CS_READY = ''READY''"
| "creation_status_str CS_PENDING_REVIEW = ''PENDING_REVIEW''"
| "creation_status_str CS_BLOCKED = ''BLOCKED''"

definition dump_proposal_summary :: "proposal_summary \<Rightarrow> json" where
  "dump_proposal_summary s = JObj
     [(''proposal_id'', JStr (ps_proposal_id s)),
      (''portfolio_id'', JStr (ps_portfolio_id s)),
      (''mandate_id'', json_opt JStr (ps_mandate_id s)),
      (''jurisdiction'', json_opt JStr (ps_jurisdiction s)),
      (''created_by'', JStr (ps_created_by s)),
      (''created_at'', JStr (ps_created_at s)),
      (''last_event_at'', JStr (ps_last_event_at s)),
      (''current_state'', JStr (workflow_state_str (ps_current_state s))),
      (''current_version_no'', JInt (ps_current_version_no s)),
      (''title'', json_opt JStr (ps_title s)),
      (''lifecycle_origin'', JStr (lifecycle_origin_str (ps_lifecycle_origin s))),
      (''source_workspace_id'', json_opt JStr (ps_source_workspace_id s))]"

definition dump_version_detail :: "version_detail \<Rightarrow> json" where
  "dump_version_detail v = JObj
     [(''proposal_version_id'', JStr (vd_proposal_version_id v)),
      (''proposal_id'', JStr (vd_proposal_id v)),
      (''version_no'', JInt (vd_version_no v)),
      (''created_at'', JStr (vd_created_at v)),
      (''request_hash'', JStr (vd_request_hash v)),
      (''artifact_hash'', JStr (vd_artifact_hash v)),
      (''simulation_hash'', JStr (vd_simulation_hash v)),
      (''status_at_creation'', JStr (creation_status_str (vd_status_at_creation v))),
      (''proposal_result'', JObj (vd_proposal_result v)),
      (''artifact'', JObj (vd_artifact v)),
      (''evidence_bundle'', JObj (vd_evidence_bundle v)),
      (''gate_decision'', json_opt JObj (vd_gate_decision v))]"

definition dump_workflow_event :: "workflow_event_view \<Rightarrow> json" where
  "dump_workflow_event e = JObj
     [(''event_id'', JStr (we_event_id e)),
      (''proposal_id'', JStr (we_proposal_id e)),
      (''event_type'', JStr (event_type_str (we_event_type e))),
      (''from_state'', json_opt (\<lambda>s. JStr (workflow_state_str s)) (we_from_state e)),
      (''to_state'', JStr (workflow_state_str (we_to_state e))),
      (''actor_id'', JStr (we_actor_id e)),
      (''occurred_at'', JStr (we_occurred_at e)),
      (''reason'', JObj (we_reason e)),
      (''related_version_no'', json_opt JInt (we_related_version_no e))]"

definition dump_create_response :: "create_response \<Rightarrow> jobject" where
  "dump_create_response r =
     [(''proposal'', dump_proposal_summary (cr_proposal r)),
      (''version'', dump_version_detail (cr_version r)),
      (''latest_workflow_event'', dump_workflow_event (cr_latest_workflow_event r))]"

subsection \<open>Building and changing a row\<close>

definition async_terminal_statuses :: "async_status list" where
  "async_terminal_statuses = [AS_SUCCEEDED, AS_FAILED]"

text \<open>\<open>cq_content\<close> and \<open>vq_content\<close> are the payloads' own JSON dumps.\<close>

definition build_create_proposal_async_operation ::
  "string \<Rightarrow> string \<Rightarrow> string \<Rightarrow> create_request \<Rightarrow> string \<Rightarrow> datetime \<Rightarrow> int \<Rightarrow> async_operation" where
  "build_create_proposal_async_operation operation_id correlation_id idempotency_key payload
       submission_hash created_at max_attempts = \<lparr>
     op_operation_id = operation_id,
     op_operation_type = AT_CREATE_PROPOSAL,
     op_status = AS_PENDING,
     op_correlation_id = correlation_id,
     op_idempotency_key = Some idempotency_key,
     op_proposal_id = None,
     op_created_by = cq_created_by payload,
     op_created_at = created_at,
     op_payload_json =
       [(''payload'', JObj (cq_content payload)),
        (''idempotency_key'', JStr idempotency_key),
        (''submission_hash'', JStr submission_hash)],
     op_attempt_count = 0,
     op_max_attempts = max_attempts,
     op_started_at = None,
     op_lease_expires_at = None,
     op_finished_at = None,
     op_result_json = None,
     op_error_json = None \<rparr>"

definition build_create_version_async_operation ::
  "string \<Rightarrow> string \<Rightarrow> string \<Rightarrow> version_request \<Rightarrow> string \<Rightarrow> datetime \<Rightarrow> int \<Rightarrow> async_operation" where
  "build_create_version_async_operation operation_id proposal_id correlation_id payload
       submission_hash created_at max_attempts = \<lparr>
     op_operation_id = operation_id,
     op_operation_type = AT_CREATE_PROPOSAL_VERSION,
     op_status = AS_PENDING,
     op_correlation_id = correlation_id,
     op_idempotency_key = None,
     op_proposal_id = Some proposal_id,
     op_created_by = vq_created_by payload,
     op_created_at = created_at,
     op_payload_json =
       [(''proposal_id'', JStr proposal_id),
        (''payload'', JObj (vq_content payload)),
        (''submission_hash'', JStr submission_hash)],
     op_attempt_count = 0,
     op_max_attempts = max_attempts,
     op_started_at = None,
     op_lease_expires_at = None,
     op_finished_at = None,
     op_result_json = None,
     op_error_json = None \<rparr>"

definition is_matching_create_proposal_async_submission ::
  "async_operation \<Rightarrow> string \<Rightarrow> string option \<Rightarrow> bool" where
  "is_matching_create_proposal_async_submission op idempotency_key submission_hash \<longleftrightarrow>
     op_operation_type op = AT_CREATE_PROPOSAL
     \<and> op_idempotency_key op = Some idempotency_key
     \<and> (case submission_hash of
          None \<Rightarrow> False
        | Some h \<Rightarrow> json_get (op_payload_json op) ''submission_hash'' = JStr h)"

definition is_matching_create_version_async_submission ::
  "async_operation \<Rightarrow> string \<Rightarrow> string option \<Rightarrow> bool" where
  "is_matching_create_version_async_submission op proposal_id submission_hash \<longleftrightarrow>
     op_operation_type op = AT_CREATE_PROPOSAL_VERSION
     \<and> op_proposal_id op = Some proposal_id
     \<and> (case submission_hash of
          None \<Rightarrow> False
        | Some h \<Rightarrow> json_get (op_payload_json op) ''submission_hash'' = JStr h)"

definition resolve_recoverable_async_operation_kind :: "async_operation \<Rightarrow> async_type option" where
  "resolve_recoverable_async_operation_kind op = (case op_operation_type op of
      AT_CREATE_PROPOSAL \<Rightarrow> Some AT_CREATE_PROPOSAL
    | AT_CREATE_PROPOSAL_VERSION \<Rightarrow> Some AT_CREATE_PROPOSAL_VERSION)"

definition should_skip_async_operation_run :: "async_operation option \<Rightarrow> bool" where
  "should_skip_async_operation_run op = (case op of
      None \<Rightarrow> True | Some x \<Rightarrow> op_status x \<in> set async_terminal_statuses)"

definition has_exhausted_async_attempts :: "async_operation \<Rightarrow> bool" where
  "has_exhausted_async_attempts op \<longleftrightarrow> op_max_attempts op \<le> op_attempt_count op"

definition begin_async_attempt :: "async_operation \<Rightarrow> datetime \<Rightarrow> int \<Rightarrow> async_operation" where
  "begin_async_attempt op attempt_started_at lease_seconds = op\<lparr>
     op_status := AS_RUNNING,
     op_attempt_count := op_attempt_count op + 1,
     op_started_at := Some attempt_started_at,
     op_lease_expires_at := Some (attempt_started_at + seconds lease_seconds),
     op_finished_at := None,
     op_result_json := None,
     op_error_json := None \<rparr>"

definition mark_operation_succeeded ::
  "async_operation \<Rightarrow> create_response \<Rightarrow> datetime \<Rightarrow> async_operation" where
  "mark_operation_succeeded op response finished_at = op\<lparr>
     op_status := AS_SUCCEEDED,
     op_proposal_id := Some (ps_proposal_id (cr_proposal response)),
     op_result_json := Some (dump_create_response response),
     op_error_json := None,
     op_lease_expires_at := None,
     op_finished_at := Some finished_at \<rparr>"

definition failure_json :: "string \<Rightarrow> string \<Rightarrow> jobject" where
  "failure_json code message = [(''code'', JStr code), (''message'', JStr message)]"

definition mark_operation_failed ::
  "async_operation \<Rightarrow> string \<Rightarrow> string \<Rightarrow> datetime \<Rightarrow> async_operation" where
  "mark_operation_failed op code message finished_at = op\<lparr>
     op_status := AS_FAILED,
     op_result_json := None,
     op_error_json := Some (failure_json code message),
     op_lease_expires_at := None,
     op_finished_at := Some finished_at \<rparr>"

definition apply_runtime_exception_outcome ::
  "async_operation \<Rightarrow> error \<Rightarrow> datetime \<Rightarrow> async_operation \<times> bool" where
  "apply_runtime_exception_outcome op exc finished_at =
     (let message = (if error_message exc = [] then error_class_name exc else error_message exc);
          op1 = op\<lparr>op_result_json := None, op_lease_expires_at := None,
                   op_error_json := Some (failure_json (error_class_name exc) message)\<rparr>
      in if op_attempt_count op1 < op_max_attempts op1
         then (op1\<lparr>op_status := AS_PENDING, op_finished_at := None\<rparr>, True)
         else (op1\<lparr>op_status := AS_FAILED, op_finished_at := Some finished_at\<rparr>, False))"

definition build_async_replay_lineage :: "async_operation \<Rightarrow> jobject" where
  "build_async_replay_lineage op =
     [(''async_operation_id'', JStr (op_operation_id op)),
      (''async_operation_type'', JStr (async_type_str (op_operation_type op))),
      (''correlation_id'', JStr (op_correlation_id op)),
      (''idempotency_key'', json_opt JStr (op_idempotency_key op))]"

definition extract_async_result_version_no :: "async_operation \<Rightarrow> int option" where
  "extract_async_result_version_no op = (case op_result_json op of
      None \<Rightarrow> None
    | Some result \<Rightarrow> (case json_get result ''version'' of
        JObj version_payload \<Rightarrow> (case json_get version_payload ''version_no'' of
            JInt n \<Rightarrow> Some n
          | JBool b \<Rightarrow> Some (if b then 1 else 0)
          | _ \<Rightarrow> None)
      | _ \<Rightarrow> None))"

subsection \<open>Persistence\<close>

definition persist_async_attempt_started ::
  "async_operation \<Rightarrow> datetime \<Rightarrow> int \<Rightarrow> repository \<Rightarrow> async_operation \<times> repository" where
  "persist_async_attempt_started op attempt_started_at lease_seconds R =
     (let op' = begin_async_attempt op attempt_started_at lease_seconds
      in (op', update_operation op' R))"

definition persist_async_operation_succeeded ::
  "async_operation \<Rightarrow> create_response \<Rightarrow> datetime \<Rightarrow> repository \<Rightarrow> repository" where
  "persist_async_operation_succeeded op response finished_at R =
     update_operation (mark_operation_succeeded op response finished_at) R"

definition persist_async_operation_failed ::
  "async_operation \<Rightarrow> string \<Rightarrow> string \<Rightarrow> datetime \<Rightarrow> repository \<Rightarrow> repository" where
  "persist_async_operation_failed op code message finished_at R =
     update_operation (mark_operation_failed op code message finished_at) R"

definition persist_async_runtime_exception_outcome ::
  "async_operation \<Rightarrow> error \<Rightarrow> datetime \<Rightarrow> repository \<Rightarrow> bool \<times> repository" where
  "persist_async_runtime_exception_outcome op exc finished_at R =
     (let (op', should_requeue) = apply_runtime_exception_outcome op exc finished_at
      in (should_requeue, update_operation op' R))"

subsection \<open>The attempt loop\<close>

text \<open>
  The executor may behave differently at each call, so it is indexed by the loop iteration, as
  is the clock: iteration \<open>i\<close> reads \<open>clock (2 * i)\<close> and then \<open>clock (2 * i + 1)\<close>.
\<close>

type_synonym executor = "repository \<Rightarrow> (error + create_response) \<times> repository"

datatype async_run_outcome = RUN_RETRY | RUN_TERMINAL

definition async_operation_lease_seconds :: int where
  "async_operation_lease_seconds = 60"

definition should_stop_before_attempt ::
  "async_operation option \<Rightarrow> datetime \<Rightarrow> repository \<Rightarrow> bool \<times> repository" where
  "should_stop_before_attempt op now R =
     (if op = None \<or> should_skip_async_operation_run op then (True, R)
      else case op of
        None \<Rightarrow> (True, R)
      | Some x \<Rightarrow>
          if \<not> has_exhausted_async_attempts x then (False, R)
          else (True, persist_async_operation_failed x ''ProposalLifecycleError''
                        ''PROPOSAL_ASYNC_ATTEMPTS_EXHAUSTED'' now R))"

definition run_async_operation_attempt ::
  "async_operation \<Rightarrow> executor \<Rightarrow> datetime \<Rightarrow> repository \<Rightarrow> async_run_outcome \<times> repository" where
  "run_async_operation_attempt op executor now R =
     (case executor R of
        (Inl exc, R1) \<Rightarrow>
          if is_lifecycle_error exc
          then (RUN_TERMINAL,
                persist_async_operation_failed op (error_class_name exc) (error_message exc) now R1)
          else (case persist_async_runtime_exception_outcome op exc now R1 of
                  (True, R2) \<Rightarrow> (RUN_RETRY, R2)
                | (False, R2) \<Rightarrow> (RUN_TERMINAL, R2))
      | (Inr response, R1) \<Rightarrow>
          (RUN_TERMINAL, persist_async_operation_succeeded op response now R1))"

definition async_loop_body ::
  "(nat \<Rightarrow> executor) \<Rightarrow> (nat \<Rightarrow> datetime) \<Rightarrow> string \<Rightarrow> nat \<Rightarrow> repository \<Rightarrow> bool \<times> repository" where
  "async_loop_body executor clock operation_id i R =
     (let operation = get_operation operation_id R in
      case should_stop_before_attempt operation (clock (2 * i)) R of
        (True, R1) \<Rightarrow> (False, R1)
      | (False, R1) \<Rightarrow>
          (case operation of
             None \<Rightarrow> (False, R1)
           | Some op \<Rightarrow>
               (let (op1, R2) = persist_async_attempt_started op (clock (2 * i))
                                  async_operation_lease_seconds R1
                in case run_async_operation_attempt op1 (executor i) (clock (2 * i + 1)) R2 of
                     (RUN_RETRY, R3) \<Rightarrow> (True, R3)
                   | (RUN_TERMINAL, R3) \<Rightarrow> (False, R3))))"

text \<open>\<open>while True\<close>: \<open>None\<close> is the value of a run that never returns.\<close>

partial_function (option) run_async_operation_from ::
  "(nat \<Rightarrow> executor) \<Rightarrow> (nat \<Rightarrow> datetime) \<Rightarrow> string \<Rightarrow> nat \<Rightarrow> repository \<Rightarrow> repository option" where
  "run_async_operation_from executor clock operation_id i R =
     (case async_loop_body executor clock operation_id i R of
        (continue, R') \<Rightarrow>
          if continue then run_async_operation_from executor clock operation_id (Suc i) R'
          else Some R')"

definition run_async_operation_until_terminal ::
  "(nat \<Rightarrow> executor) \<Rightarrow> (nat \<Rightarrow> datetime) \<Rightarrow> string \<Rightarrow> repository \<Rightarrow> repository option" where
  "run_async_operation_until_terminal executor clock operation_id R =
     run_async_operation_from executor clock operation_id 0 R"


subsection \<open>Well-formed rows\<close>

definition op_wf :: "async_operation \<Rightarrow> bool" where
  "op_wf op \<longleftrightarrow>
     0 \<le> op_attempt_count op \<and> op_attempt_count op \<le> op_max_attempts op \<and> 1 \<le> op_max_attempts op
     \<and> (case op_status op of
          AS_PENDING \<Rightarrow> op_lease_expires_at op = None \<and> op_finished_at op = None
            \<and> op_result_json op = None
        | AS_RUNNING \<Rightarrow> op_lease_expires_at op \<noteq> None \<and> op_started_at op \<noteq> None
            \<and> op_finished_at op = None \<and> op_result_json op = None \<and> op_error_json op = None
            \<and> 1 \<le> op_attempt_count op
        | AS_SUCCEEDED \<Rightarrow> op_lease_expires_at op = None \<and> op_finished_at op \<noteq> None
            \<and> op_result_json op \<noteq> None \<and> op_error_json op = None \<and> op_proposal_id op \<noteq> None
        | AS_FAILED \<Rightarrow> op_lease_expires_at op = None \<and> op_finished_at op \<noteq> None
            \<and> op_result_json op = None \<and> op_error_json op \<noteq> None)"

lemma op_wf_build_create [simp]:
  "1 \<le> n \<Longrightarrow> op_wf (build_create_proposal_async_operation oid cid key q h now n)"
  by (simp add: op_wf_def build_create_proposal_async_operation_def)

lemma op_wf_build_version [simp]:
  "1 \<le> n \<Longrightarrow> op_wf (build_create_version_async_operation oid pid cid q h now n)"
  by (simp add: op_wf_def build_create_version_async_operation_def)

lemma op_wf_begin:
  "op_wf op \<Longrightarrow> \<not> has_exhausted_async_attempts op \<Longrightarrow> op_wf (begin_async_attempt op t n)"
  by (simp add: op_wf_def begin_async_attempt_def has_exhausted_async_attempts_def)

lemma op_wf_succeeded: "op_wf op \<Longrightarrow> op_wf (mark_operation_succeeded op r t)"
  by (simp add: op_wf_def mark_operation_succeeded_def)

lemma op_wf_failed: "op_wf op \<Longrightarrow> op_wf (mark_operation_failed op c m t)"
  by (simp add: op_wf_def mark_operation_failed_def)

lemma op_wf_exception: "op_wf op \<Longrightarrow> op_wf (fst (apply_runtime_exception_outcome op e t))"
  by (simp add: op_wf_def apply_runtime_exception_outcome_def Let_def)

lemma exception_requeues_iff:
  "snd (apply_runtime_exception_outcome op e t) \<longleftrightarrow> op_attempt_count op < op_max_attempts op"
  by (simp add: apply_runtime_exception_outcome_def Let_def)

subsection \<open>One iteration\<close>

text \<open>
  The row one attempt leaves behind: the runner writes back the row it holds, whatever the
  executor did to the repository.
\<close>

definition attempt_row :: "async_operation \<Rightarrow> (error + create_response) \<Rightarrow> datetime \<Rightarrow> async_operation" where
  "attempt_row op res now = (case res of
      Inl exc \<Rightarrow>
        if is_lifecycle_error exc
        then mark_operation_failed op (error_class_name exc) (error_message exc) now
        else fst (apply_runtime_exception_outcome op exc now)
    | Inr response \<Rightarrow> mark_operation_succeeded op response now)"

definition attempt_retries :: "async_operation \<Rightarrow> (error + create_response) \<Rightarrow> bool" where
  "attempt_retries op res = (case res of
      Inl exc \<Rightarrow> \<not> is_lifecycle_error exc \<and> op_attempt_count op < op_max_attempts op
    | Inr response \<Rightarrow> False)"

lemma run_attempt_eq:
  assumes "executor R = (res, R1)"
  shows "run_async_operation_attempt op executor now R =
     (if attempt_retries op res then RUN_RETRY else RUN_TERMINAL,
      update_operation (attempt_row op res now) R1)"
  using assms exception_requeues_iff [of op _ now]
  by (auto simp: run_async_operation_attempt_def attempt_retries_def attempt_row_def
      persist_async_operation_failed_def persist_async_operation_succeeded_def
      persist_async_runtime_exception_outcome_def split_beta split: sum.splits bool.splits)

lemma attempt_row_keeps [simp]:
  "op_operation_id (attempt_row op res now) = op_operation_id op"
  "op_attempt_count (attempt_row op res now) = op_attempt_count op"
  "op_max_attempts (attempt_row op res now) = op_max_attempts op"
  "op_idempotency_key (attempt_row op res now) = op_idempotency_key op"
  "op_correlation_id (attempt_row op res now) = op_correlation_id op"
  by (simp_all add: attempt_row_def mark_operation_failed_def mark_operation_succeeded_def
      apply_runtime_exception_outcome_def Let_def split: sum.splits)

lemma attempt_row_status:
  "op_status (attempt_row op res now) =
     (if attempt_retries op res then AS_PENDING
      else case res of Inl _ \<Rightarrow> AS_FAILED | Inr _ \<Rightarrow> AS_SUCCEEDED)"
  by (simp add: attempt_row_def attempt_retries_def mark_operation_failed_def
      mark_operation_succeeded_def apply_runtime_exception_outcome_def Let_def split: sum.splits)

lemma op_wf_attempt_row: "op_wf op \<Longrightarrow> op_wf (attempt_row op res now)"
  by (simp add: attempt_row_def op_wf_failed op_wf_succeeded op_wf_exception split: sum.splits)

lemma begin_keeps [simp]:
  "op_operation_id (begin_async_attempt op t n) = op_operation_id op"
  "op_attempt_count (begin_async_attempt op t n) = op_attempt_count op + 1"
  "op_max_attempts (begin_async_attempt op t n) = op_max_attempts op"
  "op_idempotency_key (begin_async_attempt op t n) = op_idempotency_key op"
  "op_correlation_id (begin_async_attempt op t n) = op_correlation_id op"
  by (simp_all add: begin_async_attempt_def)

lemma loop_body_absent:
  "get_operation oid R = None \<Longrightarrow> async_loop_body ex clock oid i R = (False, R)"
  by (simp add: async_loop_body_def should_stop_before_attempt_def)

lemma loop_body_terminal:
  "get_operation oid R = Some op \<Longrightarrow> op_status op \<in> set async_terminal_statuses \<Longrightarrow>
     async_loop_body ex clock oid i R = (False, R)"
  by (simp add: async_loop_body_def should_stop_before_attempt_def
      should_skip_async_operation_run_def)

lemma loop_body_exhausted:
  "get_operation oid R = Some op \<Longrightarrow> op_status op \<notin> set async_terminal_statuses \<Longrightarrow>
     has_exhausted_async_attempts op \<Longrightarrow>
     async_loop_body ex clock oid i R =
       (False, update_operation (mark_operation_failed op ''ProposalLifecycleError''
                  ''PROPOSAL_ASYNC_ATTEMPTS_EXHAUSTED'' (clock (2 * i))) R)"
  by (simp add: async_loop_body_def should_stop_before_attempt_def
      should_skip_async_operation_run_def persist_async_operation_failed_def)

lemma loop_body_attempt:
  assumes "get_operation oid R = Some op" and "op_status op \<notin> set async_terminal_statuses"
    and "\<not> has_exhausted_async_attempts op"
    and "ex i (update_operation (begin_async_attempt op (clock (2 * i)) 60) R) = (res, R1)"
  shows "async_loop_body ex clock oid i R =
     (attempt_retries (begin_async_attempt op (clock (2 * i)) 60) res,
      update_operation (attempt_row (begin_async_attempt op (clock (2 * i)) 60) res
         (clock (2 * i + 1))) R1)"
  using assms
  by (simp add: async_loop_body_def should_stop_before_attempt_def
      should_skip_async_operation_run_def persist_async_attempt_started_def
      async_operation_lease_seconds_def Let_def run_attempt_eq)

subsection \<open>The loop returns\<close>

lemma run_from_stop:
  "async_loop_body ex clock oid i R = (False, R') \<Longrightarrow>
     run_async_operation_from ex clock oid i R = Some R'"
  by (subst run_async_operation_from.simps) simp

lemma run_from_continue:
  "async_loop_body ex clock oid i R = (True, R') \<Longrightarrow>
     run_async_operation_from ex clock oid i R = run_async_operation_from ex clock oid (Suc i) R'"
  by (subst run_async_operation_from.simps) simp

lemma run_from_returns:
  assumes "get_operation oid R = Some op" and "op_operation_id op = oid"
  shows "\<exists>R' op'. run_async_operation_from ex clock oid i R = Some R'
     \<and> get_operation oid R' = Some op'
     \<and> op_status op' \<in> set async_terminal_statuses
     \<and> op_operation_id op' = oid
     \<and> op_max_attempts op' = op_max_attempts op
     \<and> op_attempt_count op \<le> op_attempt_count op'
     \<and> op_attempt_count op' \<le> max (op_attempt_count op) (op_max_attempts op)
     \<and> (op_wf op \<longrightarrow> op_wf op')"
  using assms
proof (induction "nat (op_max_attempts op - op_attempt_count op)" arbitrary: op R i rule: less_induct)
  case less
  show ?case
  proof (cases "op_status op \<in> set async_terminal_statuses")
    case True
    then show ?thesis
      using run_from_stop [OF loop_body_terminal [OF less.prems(1) True]] less.prems by auto
  next
    case running: False
    show ?thesis
    proof (cases "has_exhausted_async_attempts op")
      case True
      let ?op' = "mark_operation_failed op ''ProposalLifecycleError''
                    ''PROPOSAL_ASYNC_ATTEMPTS_EXHAUSTED'' (clock (2 * i))"
      have "op_operation_id ?op' = oid" "op_status ?op' = AS_FAILED"
        "op_max_attempts ?op' = op_max_attempts op" "op_attempt_count ?op' = op_attempt_count op"
        using less.prems(2) by (simp_all add: mark_operation_failed_def)
      then show ?thesis
        using run_from_stop [OF loop_body_exhausted [OF less.prems(1) running True]]
          operation_store.get_put_same [of ?op' R] op_wf_failed
        by (auto simp: async_terminal_statuses_def)
    next
      case False
      let ?op1 = "begin_async_attempt op (clock (2 * i)) 60"
      obtain res R1 where ex: "ex i (update_operation ?op1 R) = (res, R1)"
        by fastforce
      let ?op' = "attempt_row ?op1 res (clock (2 * i + 1))"
      let ?R' = "update_operation ?op' R1"
      note body = loop_body_attempt [where ex = ex and i = i and clock = clock,
        OF less.prems(1) running False ex]
      have row: "get_operation oid ?R' = Some ?op'"
        using operation_store.get_put_same [of ?op' R1] less.prems(2) by simp
      have wf: "op_wf op \<Longrightarrow> op_wf ?op'"
        by (simp add: op_wf_attempt_row op_wf_begin False)
      have lt: "op_attempt_count op < op_max_attempts op"
        using False by (simp add: has_exhausted_async_attempts_def)
      show ?thesis
      proof (cases "attempt_retries ?op1 res")
        case True
        have smaller: "nat (op_max_attempts ?op' - op_attempt_count ?op')
            < nat (op_max_attempts op - op_attempt_count op)"
          using lt by simp
        have "op_operation_id ?op' = oid" using less.prems(2) by simp
        from less.hyps [OF smaller row this, of "Suc i"] lt wf show ?thesis
          using run_from_continue [of ex clock oid i R ?R'] body True by auto
      next
        case False
        then have "op_status ?op' \<in> set async_terminal_statuses"
          by (auto simp: attempt_row_status async_terminal_statuses_def split: sum.splits)
        then show ?thesis
          using run_from_stop [of ex clock oid i R ?R'] body False row lt wf less.prems(2) by auto
      qed
    qed
  qed
qed

lemma run_until_terminal_absent:
  "get_operation oid R = None \<Longrightarrow> run_async_operation_until_terminal ex clock oid R = Some R"
  by (simp add: run_async_operation_until_terminal_def run_from_stop loop_body_absent)

lemma run_until_terminal_skips:
  "get_operation oid R = Some op \<Longrightarrow> op_status op \<in> set async_terminal_statuses \<Longrightarrow>
     run_async_operation_until_terminal ex clock oid R = Some R"
  by (simp add: run_async_operation_until_terminal_def run_from_stop loop_body_terminal)

end
