(* ===== verification/Async_Control.thy ===== *)
theory Async_Control
  imports Async_Operations
begin

text \<open>
  Operator control of asynchronous operations (\<open>async_operation_control_plane.py\<close> and the
  control methods of \<open>service_async_operations.py\<close>): classification, the bounded listing,
  the authorised decision with its audit event, and quarantine.
\<close>

subsection \<open>Vocabulary\<close>

datatype control_action = CA_DRY_RUN | CA_RETRY | CA_QUARANTINE | CA_PAUSE_DRAIN

primrec control_action_str :: "control_action \<Rightarrow> string" where
  "control_action_str CA_DRY_RUN = ''DRY_RUN''"
| "control_action_str CA_RETRY = ''RETRY''"
| "control_action_str CA_QUARANTINE = ''QUARANTINE''"
| "control_action_str CA_PAUSE_DRAIN = ''PAUSE_DRAIN''"

datatype control_status =
    CT_PENDING
  | CT_LEASED
  | CT_RECOVERABLE_STUCK
  | CT_RETRY_EXHAUSTED
  | CT_QUARANTINED
  | CT_TERMINAL_FAILED
  | CT_TERMINAL_SUCCEEDED

primrec control_status_str :: "control_status \<Rightarrow> string" where
  "control_status_str CT_PENDING = ''PENDING''"
| "control_status_str CT_LEASED = ''LEASED''"
| "control_status_str CT_RECOVERABLE_STUCK = ''RECOVERABLE_STUCK''"
| "control_status_str CT_RETRY_EXHAUSTED = ''RETRY_EXHAUSTED''"
| "control_status_str CT_QUARANTINED = ''QUARANTINED''"
| "control_status_str CT_TERMINAL_FAILED = ''TERMINAL_FAILED''"
| "control_status_str CT_TERMINAL_SUCCEEDED = ''TERMINAL_SUCCEEDED''"

primrec async_status_str :: "async_status \<Rightarrow> string" where
  "async_status_str AS_PENDING = ''PENDING''"
| "async_status_str AS_RUNNING = ''RUNNING''"
| "async_status_str AS_SUCCEEDED = ''SUCCEEDED''"
| "async_status_str AS_FAILED = ''FAILED''"

datatype principal_status = PN_ACTIVE | PN_INACTIVE

record control_principal =
  cp_actor_id :: string
  cp_role :: string
  cp_tenant_id :: string
  cp_legal_entity_code :: string
  cp_service_identity :: string
  cp_capabilities :: "string list"
  cp_principal_status :: principal_status

record control_filters =
  cf_control_statuses :: "control_status list"
  cf_operation_types :: "async_type list"
  cf_limit :: int

record control_list_item =
  ct_operation_id :: string
  ct_operation_type :: async_type
  ct_status :: async_status
  ct_control_status :: control_status
  ct_correlation_id :: string
  ct_proposal_id :: "string option"
  ct_created_at :: datetime
  ct_started_at :: "datetime option"
  ct_lease_expires_at :: "datetime option"
  ct_finished_at :: "datetime option"
  ct_attempt_count :: int
  ct_max_attempts :: int

record control_decision =
  cd_allowed :: bool
  cd_action :: control_action
  cd_reason_code :: string
  cd_control_status :: control_status
  cd_target_status :: "async_status option"
  cd_schedule_execution :: bool
  cd_payload_mutation_allowed :: bool
  cd_audit_event :: jobject
  cd_idempotent_noop :: bool

definition async_operation_control_capability :: string where
  "async_operation_control_capability = ''advisory.proposals.async_operations.control''"

definition async_operation_control_max_list_limit :: int where
  "async_operation_control_max_list_limit = 50"

definition async_operation_quarantined_code :: string where
  "async_operation_quarantined_code = ''PROPOSAL_ASYNC_OPERATION_QUARANTINED''"

definition default_control_filters :: control_filters where
  "default_control_filters = \<lparr>
     cf_control_statuses =
       [CT_PENDING, CT_LEASED, CT_RECOVERABLE_STUCK, CT_RETRY_EXHAUSTED, CT_QUARANTINED],
     cf_operation_types = [AT_CREATE_PROPOSAL, AT_CREATE_PROPOSAL_VERSION],
     cf_limit = async_operation_control_max_list_limit \<rparr>"

subsection \<open>Classification\<close>

definition is_quarantined :: "async_operation \<Rightarrow> bool" where
  "is_quarantined op \<longleftrightarrow> op_status op = AS_FAILED
     \<and> (case op_error_json op of
          None \<Rightarrow> False
        | Some d \<Rightarrow> json_get d ''code'' = JStr async_operation_quarantined_code)"

definition control_lease_has_expired :: "async_operation \<Rightarrow> datetime \<Rightarrow> bool" where
  "control_lease_has_expired op as_of \<longleftrightarrow>
     op_status op = AS_RUNNING \<and> op_finished_at op = None
     \<and> (case op_lease_expires_at op of None \<Rightarrow> False | Some t \<Rightarrow> t \<le> as_of)"

definition classify_async_operation_for_control ::
  "async_operation \<Rightarrow> datetime \<Rightarrow> control_status" where
  "classify_async_operation_for_control op as_of =
     (if is_quarantined op then CT_QUARANTINED
      else if op_status op = AS_SUCCEEDED then CT_TERMINAL_SUCCEEDED
      else if op_status op = AS_FAILED
      then (if op_max_attempts op \<le> op_attempt_count op then CT_RETRY_EXHAUSTED
            else CT_TERMINAL_FAILED)
      else if op_status op = AS_PENDING
      then (if op_max_attempts op \<le> op_attempt_count op then CT_RETRY_EXHAUSTED else CT_PENDING)
      else if control_lease_has_expired op as_of
      then (if op_max_attempts op \<le> op_attempt_count op then CT_RETRY_EXHAUSTED
            else CT_RECOVERABLE_STUCK)
      else CT_LEASED)"

subsection \<open>Listing\<close>

definition normalize_async_operation_control_filters :: "control_filters \<Rightarrow> control_filters" where
  "normalize_async_operation_control_filters f = \<lparr>
     cf_control_statuses = rev (remdups (rev (cf_control_statuses f))),
     cf_operation_types = rev (remdups (rev (cf_operation_types f))),
     cf_limit = max 0 (min (cf_limit f) async_operation_control_max_list_limit) \<rparr>"

definition to_list_item :: "async_operation \<Rightarrow> datetime \<Rightarrow> control_list_item" where
  "to_list_item op as_of = \<lparr>
     ct_operation_id = op_operation_id op,
     ct_operation_type = op_operation_type op,
     ct_status = op_status op,
     ct_control_status = classify_async_operation_for_control op as_of,
     ct_correlation_id = op_correlation_id op,
     ct_proposal_id = op_proposal_id op,
     ct_created_at = op_created_at op,
     ct_started_at = op_started_at op,
     ct_lease_expires_at = op_lease_expires_at op,
     ct_finished_at = op_finished_at op,
     ct_attempt_count = op_attempt_count op,
     ct_max_attempts = op_max_attempts op \<rparr>"

definition list_async_operations_for_control ::
  "async_operation list \<Rightarrow> control_filters \<Rightarrow> datetime \<Rightarrow> control_list_item list" where
  "list_async_operations_for_control operations filters as_of =
     (let normalized = normalize_async_operation_control_filters filters in
      if cf_limit normalized \<le> 0 then []
      else
        (let items = map (\<lambda>op. to_list_item op as_of)
               (filter (\<lambda>op. op_operation_type op \<in> set (cf_operation_types normalized)) operations);
             selected = filter (\<lambda>it. ct_control_status it \<in> set (cf_control_statuses normalized)) items
         in py_take (cf_limit normalized)
              (sort_key (\<lambda>it. (ct_created_at it, ct_operation_id it)) selected)))"

text \<open>The service method asks the repository for at most fifty rows first.\<close>

definition list_for_control ::
  "control_filters \<Rightarrow> datetime \<Rightarrow> repository \<Rightarrow> control_list_item list" where
  "list_for_control filters as_of R = list_async_operations_for_control
     (list_operations_for_control as_of (Some async_operation_control_max_list_limit) R)
     filters as_of"

subsection \<open>Decisions\<close>

definition principal_is_authorized :: "control_principal \<Rightarrow> bool" where
  "principal_is_authorized p \<longleftrightarrow>
     cp_principal_status p = PN_ACTIVE
     \<and> async_operation_control_capability \<in> set (cp_capabilities p)
     \<and> py_upper (cp_role p) \<in> {''OPERATIONS'', ''PLATFORM_OPERATOR'', ''SUPPORT_LEAD''}"

definition retry_reason_code :: "control_status \<Rightarrow> string" where
  "retry_reason_code s =
     (if s \<in> {CT_PENDING, CT_RECOVERABLE_STUCK} then ''ASYNC_CONTROL_RETRY_ALLOWED''
      else if s = CT_LEASED then ''ASYNC_CONTROL_RETRY_BLOCKED_BY_ACTIVE_LEASE''
      else if s = CT_RETRY_EXHAUSTED then ''ASYNC_CONTROL_RETRY_BLOCKED_BY_EXHAUSTED_ATTEMPTS''
      else ''ASYNC_CONTROL_RETRY_BLOCKED_BY_TERMINAL_STATE'')"

definition quarantine_reason_code :: "control_status \<Rightarrow> string" where
  "quarantine_reason_code s =
     (if s = CT_QUARANTINED then ''ASYNC_CONTROL_ALREADY_QUARANTINED''
      else if s \<in> {CT_PENDING, CT_RECOVERABLE_STUCK, CT_RETRY_EXHAUSTED}
      then ''ASYNC_CONTROL_QUARANTINE_ALLOWED''
      else if s = CT_LEASED then ''ASYNC_CONTROL_QUARANTINE_BLOCKED_BY_ACTIVE_LEASE''
      else ''ASYNC_CONTROL_QUARANTINE_BLOCKED_BY_TERMINAL_STATE'')"

definition control_reason_code ::
  "control_action \<Rightarrow> control_status \<Rightarrow> control_principal \<Rightarrow> string" where
  "control_reason_code action s p =
     (if \<not> principal_is_authorized p then ''ASYNC_CONTROL_NOT_AUTHORIZED''
      else (case action of
          CA_DRY_RUN \<Rightarrow> ''ASYNC_CONTROL_DRY_RUN_ALLOWED''
        | CA_PAUSE_DRAIN \<Rightarrow> ''ASYNC_CONTROL_PAUSE_DRAIN_ALLOWED''
        | CA_RETRY \<Rightarrow> retry_reason_code s
        | CA_QUARANTINE \<Rightarrow> quarantine_reason_code s))"

definition hash_ref :: "runtime \<Rightarrow> string \<Rightarrow> string \<Rightarrow> string" where
  "hash_ref rt kind v =
     hash_canonical_payload rt (JObj [(''kind'', JStr kind), (''value'', JStr v)])"

definition build_control_audit_event ::
  "runtime \<Rightarrow> async_operation \<Rightarrow> control_action \<Rightarrow> control_principal \<Rightarrow> datetime \<Rightarrow> string \<Rightarrow> string
     \<Rightarrow> control_status \<Rightarrow> string \<Rightarrow> jobject" where
  "build_control_audit_event rt op action p as_of idempotency_key reason s decision =
     [(''event_type'', JStr ''PROPOSAL_ASYNC_OPERATION_CONTROL_DECISION''),
      (''operation_ref_hash'', JStr (hash_ref rt ''operation'' (op_operation_id op))),
      (''correlation_ref_hash'', JStr (hash_ref rt ''correlation'' (op_correlation_id op))),
      (''proposal_ref_hash'', (case op_proposal_id op of
          None \<Rightarrow> JNull
        | Some pid \<Rightarrow> if pid = [] then JNull else JStr (hash_ref rt ''proposal'' pid))),
      (''actor_ref_hash'', JStr (hash_ref rt ''actor'' (cp_actor_id p))),
      (''service_identity_hash'', JStr (hash_ref rt ''service_identity'' (cp_service_identity p))),
      (''idempotency_key_hash'', JStr (hash_ref rt ''idempotency_key'' idempotency_key)),
      (''reason_hash'', JStr (hash_ref rt ''reason'' reason)),
      (''action'', JStr (control_action_str action)),
      (''decision'', JStr decision),
      (''operation_type'', JStr (async_type_str (op_operation_type op))),
      (''operation_status'', JStr (async_status_str (op_status op))),
      (''control_status'', JStr (control_status_str s)),
      (''attempt_count'', JInt (op_attempt_count op)),
      (''max_attempts'', JInt (op_max_attempts op)),
      (''occurred_at'', JStr (rt_isoformat rt as_of)),
      (''payload_mutation_allowed'', JBool False),
      (''audit_payload_version'', JStr ''proposal_async_operation_control_decision.v1'')]"

definition evaluate_async_operation_control ::
  "runtime \<Rightarrow> async_operation \<Rightarrow> control_action \<Rightarrow> control_principal \<Rightarrow> datetime \<Rightarrow> string \<Rightarrow> string
     \<Rightarrow> control_decision" where
  "evaluate_async_operation_control rt op action p as_of idempotency_key reason =
     (let s = classify_async_operation_for_control op as_of;
          reason_code = control_reason_code action s p;
          allowed = (reason_code \<in>
            {''ASYNC_CONTROL_DRY_RUN_ALLOWED'', ''ASYNC_CONTROL_RETRY_ALLOWED'',
             ''ASYNC_CONTROL_QUARANTINE_ALLOWED'', ''ASYNC_CONTROL_ALREADY_QUARANTINED'',
             ''ASYNC_CONTROL_PAUSE_DRAIN_ALLOWED''})
      in \<lparr>cd_allowed = allowed,
          cd_action = action,
          cd_reason_code = reason_code,
          cd_control_status = s,
          cd_target_status = (if allowed \<and> action = CA_QUARANTINE then Some AS_FAILED else None),
          cd_schedule_execution = (allowed \<and> action = CA_RETRY),
          cd_payload_mutation_allowed = False,
          cd_audit_event =
            build_control_audit_event rt op action p as_of idempotency_key reason s reason_code,
          cd_idempotent_noop = (reason_code = ''ASYNC_CONTROL_ALREADY_QUARANTINED'')\<rparr>)"

subsection \<open>Quarantine\<close>

definition build_quarantined_async_operation ::
  "async_operation \<Rightarrow> control_decision \<Rightarrow> datetime \<Rightarrow> error + async_operation" where
  "build_quarantined_async_operation op d finished_at =
     (if \<not> cd_allowed d \<or> cd_action d \<noteq> CA_QUARANTINE
      then Inl (ValueError ''ASYNC_CONTROL_QUARANTINE_DECISION_REQUIRED'')
      else if cd_idempotent_noop d then Inr op
      else Inr (op\<lparr>
        op_status := AS_FAILED,
        op_lease_expires_at := None,
        op_finished_at := Some finished_at,
        op_result_json := None,
        op_error_json := Some
          [(''code'', JStr async_operation_quarantined_code),
           (''message'', JStr async_operation_quarantined_code),
           (''audit_event'', JObj (cd_audit_event d))] \<rparr>))"

definition quarantine_controlled_operation ::
  "runtime \<Rightarrow> string \<Rightarrow> control_principal \<Rightarrow> datetime \<Rightarrow> datetime \<Rightarrow> string \<Rightarrow> string \<Rightarrow> repository
     \<Rightarrow> (error + control_decision) \<times> repository" where
  "quarantine_controlled_operation rt operation_id p as_of finished_at idempotency_key reason R =
     (case get_operation operation_id R of
        None \<Rightarrow> (Inl (NotFoundError ''ASYNC_OPERATION_NOT_FOUND''), R)
      | Some op \<Rightarrow>
          (let d = evaluate_async_operation_control rt op CA_QUARANTINE p as_of idempotency_key reason
           in if cd_allowed d \<and> \<not> cd_idempotent_noop d
              then (case build_quarantined_async_operation op d finished_at of
                      Inl e \<Rightarrow> (Inl e, R)
                    | Inr op' \<Rightarrow> (Inr d, update_operation op' R))
              else (Inr d, R)))"

definition evaluate_control ::
  "runtime \<Rightarrow> string \<Rightarrow> control_action \<Rightarrow> control_principal \<Rightarrow> datetime \<Rightarrow> string \<Rightarrow> string
     \<Rightarrow> repository \<Rightarrow> error + control_decision" where
  "evaluate_control rt operation_id action p as_of idempotency_key reason R =
     (case get_operation operation_id R of
        None \<Rightarrow> Inl (NotFoundError ''ASYNC_OPERATION_NOT_FOUND'')
      | Some op \<Rightarrow>
          Inr (evaluate_async_operation_control rt op action p as_of idempotency_key reason))"


subsection \<open>Classification against recovery\<close>

lemma control_lease_eq: "control_lease_has_expired = running_operation_lease_has_expired"
  by (rule ext)+ (simp add: control_lease_has_expired_def running_operation_lease_has_expired_def)

lemma classify_retryable_iff:
  "classify_async_operation_for_control op as_of \<in> {CT_PENDING, CT_RECOVERABLE_STUCK} \<longleftrightarrow>
     operation_is_recoverable op as_of \<and> \<not> has_exhausted_async_attempts op"
  by (cases "op_status op")
    (auto simp: classify_async_operation_for_control_def is_quarantined_def control_lease_eq
      operation_is_recoverable_def operation_is_pending_def running_operation_lease_has_expired_def
      has_exhausted_async_attempts_def)

lemma classify_leased_iff:
  "classify_async_operation_for_control op as_of = CT_LEASED \<longleftrightarrow>
     op_status op = AS_RUNNING \<and> \<not> running_operation_lease_has_expired op as_of"
  by (cases "op_status op")
    (auto simp: classify_async_operation_for_control_def is_quarantined_def control_lease_eq)

lemma classify_quarantined_iff:
  "classify_async_operation_for_control op as_of = CT_QUARANTINED \<longleftrightarrow> is_quarantined op"
  by (simp add: classify_async_operation_for_control_def)

subsection \<open>Decisions are authorised\<close>

lemma not_authorized_refused:
  "\<not> principal_is_authorized p \<Longrightarrow>
     \<not> cd_allowed (evaluate_async_operation_control rt op action p as_of key reason)
     \<and> cd_reason_code (evaluate_async_operation_control rt op action p as_of key reason)
         = ''ASYNC_CONTROL_NOT_AUTHORIZED''"
  by (simp add: evaluate_async_operation_control_def control_reason_code_def Let_def)

lemma retry_allowed_iff:
  "cd_allowed (evaluate_async_operation_control rt op CA_RETRY p as_of key reason) \<longleftrightarrow>
     principal_is_authorized p
     \<and> classify_async_operation_for_control op as_of \<in> {CT_PENDING, CT_RECOVERABLE_STUCK}"
  by (cases "classify_async_operation_for_control op as_of")
    (simp_all add: evaluate_async_operation_control_def control_reason_code_def
      retry_reason_code_def Let_def)

lemma quarantine_decision:
  "cd_allowed (evaluate_async_operation_control rt op CA_QUARANTINE p as_of key reason) \<longleftrightarrow>
     principal_is_authorized p
     \<and> classify_async_operation_for_control op as_of \<in>
         {CT_QUARANTINED, CT_PENDING, CT_RECOVERABLE_STUCK, CT_RETRY_EXHAUSTED}"
  "cd_idempotent_noop (evaluate_async_operation_control rt op CA_QUARANTINE p as_of key reason) \<longleftrightarrow>
     principal_is_authorized p \<and> is_quarantined op"
  by (cases "classify_async_operation_for_control op as_of",
      simp_all add: evaluate_async_operation_control_def control_reason_code_def
        quarantine_reason_code_def Let_def flip: classify_quarantined_iff [of op as_of])

subsection \<open>Quarantine takes effect\<close>

definition quarantined_row ::
  "async_operation \<Rightarrow> control_decision \<Rightarrow> datetime \<Rightarrow> async_operation" where
  "quarantined_row op d t = op\<lparr>
     op_status := AS_FAILED, op_lease_expires_at := None, op_finished_at := Some t,
     op_result_json := None,
     op_error_json := Some
       [(''code'', JStr async_operation_quarantined_code),
        (''message'', JStr async_operation_quarantined_code),
        (''audit_event'', JObj (cd_audit_event d))] \<rparr>"

lemma is_quarantined_row [simp]: "is_quarantined (quarantined_row op d t)"
  by (simp add: is_quarantined_def quarantined_row_def json_get_def)

lemma quarantined_row_keeps [simp]:
  "op_operation_id (quarantined_row op d t) = op_operation_id op"
  "op_payload_json (quarantined_row op d t) = op_payload_json op"
  "op_attempt_count (quarantined_row op d t) = op_attempt_count op"
  "op_idempotency_key (quarantined_row op d t) = op_idempotency_key op"
  by (simp_all add: quarantined_row_def)

lemma op_wf_quarantined_row: "op_wf op \<Longrightarrow> op_wf (quarantined_row op d t)"
  by (simp add: op_wf_def quarantined_row_def)

lemma quarantined_not_recoverable: "is_quarantined op \<Longrightarrow> \<not> operation_is_recoverable op as_of"
  by (rule terminal_not_recoverable) (simp add: is_quarantined_def)

lemma quarantined_terminal: "is_quarantined op \<Longrightarrow> op_status op \<in> set async_terminal_statuses"
  by (simp add: is_quarantined_def async_terminal_statuses_def)

lemma quarantine_command_eq:
  assumes "get_operation oid R = Some op"
  shows "quarantine_controlled_operation rt oid p as_of t key reason R =
     (let d = evaluate_async_operation_control rt op CA_QUARANTINE p as_of key reason in
      if cd_allowed d \<and> \<not> is_quarantined op then (Inr d, update_operation (quarantined_row op d t) R)
      else (Inr d, R))"
proof -
  let ?d = "evaluate_async_operation_control rt op CA_QUARANTINE p as_of key reason"
  have "cd_action ?d = CA_QUARANTINE"
    by (simp add: evaluate_async_operation_control_def Let_def)
  moreover have "cd_allowed ?d \<Longrightarrow> cd_idempotent_noop ?d \<longleftrightarrow> is_quarantined op"
    by (simp add: quarantine_decision)
  ultimately show ?thesis
    using assms
    by (auto simp: quarantine_controlled_operation_def build_quarantined_async_operation_def
        quarantined_row_def Let_def)
qed

subsection \<open>The listing looks at fifty rows only\<close>

lemma list_for_control_empty:
  assumes "\<forall>op\<in>set (list_operations_for_control as_of
             (Some async_operation_control_max_list_limit) R).
             classify_async_operation_for_control op as_of \<notin> set (cf_control_statuses f)"
  shows "list_for_control f as_of R = []"
proof -
  have "set (rev (remdups (rev xs))) = set xs" for xs :: "'a list" by simp
  then have "filter (\<lambda>it. ct_control_status it \<in> set (rev (remdups (rev (cf_control_statuses f)))))
      (map (\<lambda>op. to_list_item op as_of) (filter P
         (list_operations_for_control as_of (Some async_operation_control_max_list_limit) R))) = []"
    for P
    using assms by (auto simp: filter_empty_conv to_list_item_def)
  then show ?thesis
    by (simp add: list_for_control_def list_async_operations_for_control_def
        normalize_async_operation_control_filters_def py_take_def Let_def)
qed

lemma list_for_control_items:
  assumes "it \<in> set (list_for_control f as_of R)"
  shows "ct_control_status it \<in> set (cf_control_statuses f)"
    and "ct_operation_type it \<in> set (cf_operation_types f)"
    and "\<exists>op\<in>set (dict_values (rp_operations R)). it = to_list_item op as_of"
proof -
  let ?rows = "list_operations_for_control as_of (Some async_operation_control_max_list_limit) R"
  have sub: "set ?rows \<subseteq> set (dict_values (rp_operations R))"
    by (auto simp: list_operations_for_control_def control_operations_def limited_records_def
        py_take_def dest!: in_set_takeD split: if_splits)
  obtain op where "op \<in> set ?rows" and it: "it = to_list_item op as_of"
    and "op_operation_type op \<in> set (cf_operation_types f)"
    and "ct_control_status it \<in> set (cf_control_statuses f)"
    using assms
    by (auto simp: list_for_control_def list_async_operations_for_control_def
        normalize_async_operation_control_filters_def Let_def py_take_def
        dest!: in_set_takeD split: if_splits)
  with sub show "ct_control_status it \<in> set (cf_control_statuses f)"
    and "ct_operation_type it \<in> set (cf_operation_types f)"
    and "\<exists>op\<in>set (dict_values (rp_operations R)). it = to_list_item op as_of"
    by (auto simp: to_list_item_def)
qed

end
