(* ===== verification/Async_Commands.thy ===== *)
theory Async_Commands
  imports Async_Operations
begin

text \<open>
  Submitting, executing and recovering asynchronous operations
  (\<open>async_submission_commands.py\<close>, \<open>async_operation_submission.py\<close>,
  \<open>async_payloads.py\<close>, \<open>async_payload_resolution.py\<close>,
  \<open>async_operation_execution.py\<close>, \<open>async_operation_recovery.py\<close>).  The submission
  hashes and the Pydantic parsers are arguments (record \<open>async_services\<close>); the two executors
  are functions of the iteration, as in the attempt loop.
\<close>

record async_services =
  az_hash_create :: "create_request \<Rightarrow> error + string"
  az_hash_version :: "string \<Rightarrow> version_request \<Rightarrow> error + string"
  az_parse_create :: "jobject \<Rightarrow> create_request option"
  az_parse_version :: "jobject \<Rightarrow> version_request option"
  az_create_proposal ::
    "nat \<Rightarrow> create_request \<Rightarrow> string \<Rightarrow> string \<Rightarrow> jobject \<Rightarrow> executor"
  az_create_version ::
    "nat \<Rightarrow> string \<Rightarrow> version_request \<Rightarrow> string \<Rightarrow> jobject \<Rightarrow> executor"

subsection \<open>Submission statistics\<close>

record submission_stats =
  ss_accepted_new :: int
  ss_accepted_replayed :: int
  ss_conflicts :: int

definition record_acceptance :: "bool \<Rightarrow> submission_stats \<Rightarrow> submission_stats" where
  "record_acceptance is_new st =
     (if is_new then st\<lparr>ss_accepted_new := ss_accepted_new st + 1\<rparr>
      else st\<lparr>ss_accepted_replayed := ss_accepted_replayed st + 1\<rparr>)"

definition record_conflict :: "submission_stats \<Rightarrow> submission_stats" where
  "record_conflict st = st\<lparr>ss_conflicts := ss_conflicts st + 1\<rparr>"

subsection \<open>Submission\<close>

record submission_result =
  sb_operation :: async_operation
  sb_is_new :: bool
  sb_conflict_message :: "string option"

definition persist_create_proposal_async_submission ::
  "async_operation \<Rightarrow> string \<Rightarrow> string \<Rightarrow> repository \<Rightarrow> submission_result \<times> repository" where
  "persist_create_proposal_async_submission op idempotency_key submission_hash R =
     (case create_operation_if_absent_by_idempotency op R of
        ((stored, is_new), R') \<Rightarrow>
          if \<not> is_new \<and> \<not> is_matching_create_proposal_async_submission stored idempotency_key
                            (Some submission_hash)
          then (\<lparr>sb_operation = stored, sb_is_new = False, sb_conflict_message =
                   Some ''IDEMPOTENCY_KEY_CONFLICT: async submission hash mismatch''\<rparr>, R')
          else (\<lparr>sb_operation = stored, sb_is_new = is_new, sb_conflict_message = None\<rparr>, R'))"

definition persist_create_version_async_submission ::
  "async_operation option \<Rightarrow> async_operation \<Rightarrow> string \<Rightarrow> string \<Rightarrow> repository
     \<Rightarrow> submission_result \<times> repository" where
  "persist_create_version_async_submission existing op proposal_id submission_hash R =
     (case existing of
        Some old \<Rightarrow>
          if \<not> is_matching_create_version_async_submission old proposal_id (Some submission_hash)
          then (\<lparr>sb_operation = old, sb_is_new = False, sb_conflict_message =
                   Some ''CORRELATION_ID_CONFLICT: async version submission mismatch''\<rparr>, R)
          else (\<lparr>sb_operation = old, sb_is_new = False, sb_conflict_message = None\<rparr>, R)
      | None \<Rightarrow>
          (\<lparr>sb_operation = op, sb_is_new = True, sb_conflict_message = None\<rparr>,
           create_operation op R))"

definition accept_create_proposal_async_submission_command ::
  "runtime \<Rightarrow> async_services \<Rightarrow> create_request \<Rightarrow> string \<Rightarrow> string option \<Rightarrow> int \<Rightarrow> datetime
     \<Rightarrow> string \<Rightarrow> string \<Rightarrow> submission_stats \<times> repository
     \<Rightarrow> (error + async_accepted_response \<times> bool) \<times> submission_stats \<times> repository" where
  "accept_create_proposal_async_submission_command rt az payload key_in correlation_id max_attempts
       now new_operation_id uuid_hex s =
     (case require_proposal_idempotency_key (Some key_in) of
        Inl e \<Rightarrow> (Inl e, s)
      | Inr key \<Rightarrow>
     (case az_hash_create az payload of
        Inl e \<Rightarrow> (Inl e, s)
      | Inr submission_hash \<Rightarrow>
     (let op = build_create_proposal_async_operation new_operation_id
                 (resolve_correlation_id uuid_hex correlation_id) key payload submission_hash now
                 max_attempts in
      case persist_create_proposal_async_submission op key submission_hash (snd s) of
        (result, R') \<Rightarrow>
          (case sb_conflict_message result of
             Some message \<Rightarrow> (Inl (IdempotencyConflictError message), record_conflict (fst s), R')
           | None \<Rightarrow>
               (Inr (to_async_accepted_response rt (sb_operation result), sb_is_new result),
                record_acceptance (sb_is_new result) (fst s), R')))))"

definition accept_create_version_async_submission_command ::
  "runtime \<Rightarrow> async_services \<Rightarrow> string \<Rightarrow> version_request \<Rightarrow> string option \<Rightarrow> int \<Rightarrow> datetime
     \<Rightarrow> string \<Rightarrow> string \<Rightarrow> repository \<Rightarrow> (error + async_accepted_response \<times> bool) \<times> repository" where
  "accept_create_version_async_submission_command rt az proposal_id payload correlation_id
       max_attempts now new_operation_id uuid_hex R =
     (let resolved = resolve_correlation_id uuid_hex correlation_id in
      case az_hash_version az proposal_id payload of
        Inl e \<Rightarrow> (Inl e, R)
      | Inr submission_hash \<Rightarrow>
     (let op = build_create_version_async_operation new_operation_id proposal_id resolved payload
                 submission_hash now max_attempts in
      case persist_create_version_async_submission (get_operation_by_correlation resolved R) op
             proposal_id submission_hash R of
        (result, R') \<Rightarrow>
          (case sb_conflict_message result of
             Some message \<Rightarrow> (Inl (IdempotencyConflictError message), R')
           | None \<Rightarrow>
               (Inr (to_async_accepted_response rt (sb_operation result), sb_is_new result), R'))))"

subsection \<open>Payload resolution\<close>

fun first_non_blank_string :: "json list \<Rightarrow> string option" where
  "first_non_blank_string [] = None"
| "first_non_blank_string (v # vs) = (case v of
      JStr s \<Rightarrow> (let stripped = py_strip s in
                  if stripped \<noteq> [] then Some stripped else first_non_blank_string vs)
    | _ \<Rightarrow> first_non_blank_string vs)"

definition extract_async_submission_hash :: "runtime \<Rightarrow> async_operation \<Rightarrow> string option" where
  "extract_async_submission_hash rt op = (case json_get (op_payload_json op) ''submission_hash'' of
      JStr h \<Rightarrow> if h \<noteq> [] then Some h
                 else (case json_get (op_payload_json op) ''payload'' of
                         JObj d \<Rightarrow> Some (hash_canonical_payload rt (JObj d)) | _ \<Rightarrow> None)
    | _ \<Rightarrow> (case json_get (op_payload_json op) ''payload'' of
              JObj d \<Rightarrow> Some (hash_canonical_payload rt (JObj d)) | _ \<Rightarrow> None))"

text \<open>\<open>Inl\<close> carries the message of an \<open>AsyncPayloadResolutionFailure\<close>.\<close>

definition resolve_async_create_payload ::
  "async_services \<Rightarrow> async_operation \<Rightarrow> create_request option \<Rightarrow> string option
     \<Rightarrow> string + create_request \<times> string" where
  "resolve_async_create_payload az op fallback_payload fallback_key =
     (case (case json_get (op_payload_json op) ''payload'' of
              JObj d \<Rightarrow> az_parse_create az d
            | _ \<Rightarrow> fallback_payload) of
        None \<Rightarrow> Inl ''PROPOSAL_ASYNC_PAYLOAD_INVALID''
      | Some payload \<Rightarrow>
          (case first_non_blank_string
                  [json_get (op_payload_json op) ''idempotency_key'',
                   json_opt JStr (op_idempotency_key op), json_opt JStr fallback_key] of
             None \<Rightarrow> Inl ''PROPOSAL_ASYNC_IDEMPOTENCY_KEY_REQUIRED''
           | Some key \<Rightarrow> Inr (payload, key)))"

definition resolve_async_version_payload ::
  "async_services \<Rightarrow> async_operation \<Rightarrow> string option \<Rightarrow> version_request option
     \<Rightarrow> string + string \<times> version_request" where
  "resolve_async_version_payload az op fallback_proposal_id fallback_payload =
     (case (case json_get (op_payload_json op) ''payload'' of
              JObj d \<Rightarrow> az_parse_version az d
            | _ \<Rightarrow> fallback_payload) of
        None \<Rightarrow> Inl ''PROPOSAL_ASYNC_PAYLOAD_INVALID''
      | Some payload \<Rightarrow>
          (case first_non_blank_string
                  [json_get (op_payload_json op) ''proposal_id'',
                   json_opt JStr (op_proposal_id op), json_opt JStr fallback_proposal_id] of
             None \<Rightarrow> Inl ''PROPOSAL_ASYNC_PROPOSAL_ID_REQUIRED''
           | Some pid \<Rightarrow> Inr (pid, payload)))"

definition resolve_create_async_payload_or_fail ::
  "async_services \<Rightarrow> async_operation \<Rightarrow> create_request option \<Rightarrow> string option \<Rightarrow> datetime \<Rightarrow> repository
     \<Rightarrow> (create_request \<times> string) option \<times> repository" where
  "resolve_create_async_payload_or_fail az op fallback_payload fallback_key failed_at R =
     (case resolve_async_create_payload az op fallback_payload fallback_key of
        Inl message \<Rightarrow>
          (None, persist_async_operation_failed op ''ProposalLifecycleError'' message failed_at R)
      | Inr x \<Rightarrow> (Some x, R))"

definition resolve_version_async_payload_or_fail ::
  "async_services \<Rightarrow> async_operation \<Rightarrow> string option \<Rightarrow> version_request option \<Rightarrow> datetime
     \<Rightarrow> repository \<Rightarrow> (string \<times> version_request) option \<times> repository" where
  "resolve_version_async_payload_or_fail az op fallback_proposal_id fallback_payload failed_at R =
     (case resolve_async_version_payload az op fallback_proposal_id fallback_payload of
        Inl message \<Rightarrow>
          (None, persist_async_operation_failed op ''ProposalLifecycleError'' message failed_at R)
      | Inr x \<Rightarrow> (Some x, R))"

subsection \<open>Execution\<close>

text \<open>
  \<open>clock 0\<close> is the time payload resolution may fail at; the loop reads the clock from 1 on.
  \<open>a or b\<close> on an optional string falls through on the empty string.
\<close>

definition py_or_str :: "string option \<Rightarrow> string \<Rightarrow> string" where
  "py_or_str a b = (case a of None \<Rightarrow> b | Some x \<Rightarrow> if x = [] then b else x)"

definition execute_create_proposal_async_operation ::
  "async_services \<Rightarrow> string \<Rightarrow> create_request option \<Rightarrow> string option \<Rightarrow> string option
     \<Rightarrow> (nat \<Rightarrow> datetime) \<Rightarrow> repository \<Rightarrow> repository option" where
  "execute_create_proposal_async_operation az operation_id fallback_payload fallback_key
       fallback_correlation_id clock R =
     (case get_operation operation_id R of
        None \<Rightarrow> Some R
      | Some op \<Rightarrow>
          (case resolve_create_async_payload_or_fail az op fallback_payload fallback_key (clock 0) R of
             (None, R1) \<Rightarrow> Some R1
           | (Some (payload, key), R1) \<Rightarrow>
               run_async_operation_until_terminal
                 (\<lambda>i. az_create_proposal az i payload key
                        (py_or_str fallback_correlation_id (op_correlation_id op))
                        (build_async_replay_lineage op))
                 (\<lambda>i. clock (Suc i)) operation_id R1))"

definition execute_create_version_async_operation ::
  "async_services \<Rightarrow> string \<Rightarrow> string option \<Rightarrow> version_request option \<Rightarrow> string option
     \<Rightarrow> (nat \<Rightarrow> datetime) \<Rightarrow> repository \<Rightarrow> repository option" where
  "execute_create_version_async_operation az operation_id fallback_proposal_id fallback_payload
       fallback_correlation_id clock R =
     (case get_operation operation_id R of
        None \<Rightarrow> Some R
      | Some op \<Rightarrow>
          (case resolve_version_async_payload_or_fail az op fallback_proposal_id fallback_payload
                  (clock 0) R of
             (None, R1) \<Rightarrow> Some R1
           | (Some (pid, payload), R1) \<Rightarrow>
               run_async_operation_until_terminal
                 (\<lambda>i. az_create_version az i pid payload
                        (py_or_str fallback_correlation_id (op_correlation_id op))
                        (build_async_replay_lineage op))
                 (\<lambda>i. clock (Suc i)) operation_id R1))"

subsection \<open>Recovery\<close>

definition async_recovery_batch_size :: int where
  "async_recovery_batch_size = 50"

text \<open>
  The batch is read once, then every operation is executed without fallbacks.  Each execution
  has its own clock.
\<close>

definition recover_operation ::
  "async_services \<Rightarrow> (nat \<Rightarrow> datetime) \<Rightarrow> async_operation \<Rightarrow> repository \<Rightarrow> repository option" where
  "recover_operation az clock op R = (case resolve_recoverable_async_operation_kind op of
      Some AT_CREATE_PROPOSAL \<Rightarrow>
        execute_create_proposal_async_operation az (op_operation_id op) None None None clock R
    | Some AT_CREATE_PROPOSAL_VERSION \<Rightarrow>
        execute_create_version_async_operation az (op_operation_id op) None None None clock R
    | None \<Rightarrow>
        Some (persist_async_operation_failed op ''ProposalLifecycleError''
                ''PROPOSAL_ASYNC_OPERATION_TYPE_UNSUPPORTED'' (clock 0) R))"

fun recover_operations ::
  "async_services \<Rightarrow> (nat \<Rightarrow> nat \<Rightarrow> datetime) \<Rightarrow> nat \<Rightarrow> async_operation list \<Rightarrow> repository
     \<Rightarrow> (nat \<times> repository) option" where
  "recover_operations az clocks k [] R = Some (0, R)"
| "recover_operations az clocks k (op # ops) R =
     (case recover_operation az (clocks k) op R of
        None \<Rightarrow> None
      | Some R1 \<Rightarrow>
          (case recover_operations az clocks (Suc k) ops R1 of
             None \<Rightarrow> None
           | Some (n, R2) \<Rightarrow>
               Some (if resolve_recoverable_async_operation_kind op = None then n else Suc n, R2)))"

definition recover_async_operation_batch ::
  "async_services \<Rightarrow> (nat \<Rightarrow> nat \<Rightarrow> datetime) \<Rightarrow> datetime \<Rightarrow> int \<Rightarrow> repository
     \<Rightarrow> (nat \<times> repository) option" where
  "recover_async_operation_batch az clocks as_of max_operations R =
     recover_operations az clocks 0 (list_recoverable_operations as_of (Some max_operations) R) R"


subsection \<open>Executors leave the operation rows alone\<close>

definition leaves_operations :: "executor \<Rightarrow> bool" where
  "leaves_operations ex \<longleftrightarrow> (\<forall>R k. get_operation k (snd (ex R)) = get_operation k R)"

definition services_leave_operations :: "async_services \<Rightarrow> bool" where
  "services_leave_operations az \<longleftrightarrow>
     (\<forall>i q key cid lin. leaves_operations (az_create_proposal az i q key cid lin))
     \<and> (\<forall>i pid q cid lin. leaves_operations (az_create_version az i pid q cid lin))"

lemma get_operation_write_transition [simp]:
  "get_operation k (write_transition p e a R) = get_operation k R"
  by (simp add: write_transition_def get_operation_def update_proposal_def append_event_def
      create_approval_def split: option.splits)

lemma get_operation_create_version [simp]: "get_operation k (create_version v R) = get_operation k R"
  by (simp add: get_operation_def create_version_def)

lemma get_operation_create_bundle [simp]:
  "get_operation k (create_proposal_with_version_event_idempotency p v e i R) = get_operation k R"
  by (simp add: get_operation_def create_proposal_with_version_event_idempotency_def)

lemma create_command_leaves_operations:
  "leaves_operations (create_proposal_command rt sv q key cid opts now ids)"
  unfolding leaves_operations_def
  by (auto simp: create_proposal_command_def commit_create_def persist_created_proposal_def
      split: sum.splits)

lemma version_command_leaves_operations:
  "leaves_operations (create_proposal_version rt sv pid q cid opts now ids)"
  unfolding leaves_operations_def
proof (intro allI)
  fix R k
  show "get_operation k (snd (create_proposal_version rt sv pid q cid opts now ids R))
      = get_operation k R"
    by (auto simp: create_proposal_version_def commit_version_def
        persist_created_proposal_version_def transition_proposal_eq split: sum.splits prod.splits)
qed

lemma loop_body_frame:
  assumes "\<And>i. leaves_operations (ex i)"
    and "\<And>op. get_operation oid R = Some op \<Longrightarrow> op_operation_id op = oid"
    and "async_loop_body ex clock oid i R = (c, R')"
  shows "k \<noteq> oid \<Longrightarrow> get_operation k R' = get_operation k R"
    and "\<And>op. get_operation oid R' = Some op \<Longrightarrow> op_operation_id op = oid"
proof -
  have both: "(k \<noteq> oid \<longrightarrow> get_operation k R' = get_operation k R)
      \<and> (\<forall>op. get_operation oid R' = Some op \<longrightarrow> op_operation_id op = oid)"
  proof (cases "get_operation oid R")
    case None
    then show ?thesis using loop_body_absent [OF None, of ex clock i] assms(3) by simp
  next
    case (Some op)
    note oid = assms(2) [OF Some]
    show ?thesis
    proof (cases "op_status op \<in> set async_terminal_statuses")
      case True
      then show ?thesis using loop_body_terminal [OF Some True, of ex clock i] assms(3) Some oid by simp
    next
      case running: False
      show ?thesis
      proof (cases "has_exhausted_async_attempts op")
        case True
        then show ?thesis
          using loop_body_exhausted [OF Some running True, of ex clock i] assms(3) oid
          by (auto simp: operation_store.get_put mark_operation_failed_def)
      next
        case False
        let ?op1 = "begin_async_attempt op (clock (2 * i)) 60"
        obtain res R1 where r: "ex i (update_operation ?op1 R) = (res, R1)"
          by fastforce
        have "get_operation k R1 = get_operation k (update_operation ?op1 R)"
          using assms(1) [of i] r unfolding leaves_operations_def by (metis snd_conv)
        then show ?thesis
          using loop_body_attempt [where ex = ex and i = i and clock = clock,
              OF Some running False r] assms(3) oid
          by (auto simp: operation_store.get_put)
      qed
    qed
  qed
  then show "k \<noteq> oid \<Longrightarrow> get_operation k R' = get_operation k R"
    and "\<And>op. get_operation oid R' = Some op \<Longrightarrow> op_operation_id op = oid"
    by auto
qed

lemma run_from_frame:
  assumes "\<And>i. leaves_operations (ex i)"
    and "run_async_operation_from ex clock oid i R = Some R'"
    and "\<And>op. get_operation oid R = Some op \<Longrightarrow> op_operation_id op = oid" and "k \<noteq> oid"
  shows "get_operation k R' = get_operation k R"
proof -
  let ?P = "\<lambda>ex (clock :: nat \<Rightarrow> datetime) oid (i :: nat) R R'.
      (\<forall>op. get_operation oid R = Some op \<longrightarrow> op_operation_id op = oid) \<longrightarrow>
      (\<forall>i. leaves_operations (ex i)) \<longrightarrow> k \<noteq> oid \<longrightarrow> get_operation k R' = get_operation k R"
  have "?P ex clock oid i R R'"
  proof (rule run_async_operation_from.raw_induct [of ?P, OF _ assms(2)], intro impI)
    fix run ex clock oid i R R'
    assume IH: "\<And>ex clock oid i R R'. run ex clock oid i R = Some R' \<Longrightarrow> ?P ex clock oid i R R'"
      and run: "(case async_loop_body ex clock oid i R of
          (continue, R1) \<Rightarrow> if continue then run ex clock oid (Suc i) R1 else Some R1) = Some R'"
      and key: "\<forall>op. get_operation oid R = Some op \<longrightarrow> op_operation_id op = oid"
      and ex: "\<forall>i. leaves_operations (ex i)" and "k \<noteq> oid"
    obtain c R1 where body: "async_loop_body ex clock oid i R = (c, R1)"
      by fastforce
    have f1: "get_operation k R1 = get_operation k R"
      by (rule loop_body_frame(1) [OF _ _ body]) (use ex key \<open>k \<noteq> oid\<close> in auto)
    have f2: "\<forall>op. get_operation oid R1 = Some op \<longrightarrow> op_operation_id op = oid"
      using loop_body_frame(2) [OF _ _ body] ex key by auto
    show "get_operation k R' = get_operation k R"
    proof (cases c)
      case True
      then have "run ex clock oid (Suc i) R1 = Some R'" using run body by simp
      from IH [OF this] f1 f2 ex \<open>k \<noteq> oid\<close> show ?thesis by simp
    qed (use run body f1 in simp)
  qed
  with assms show ?thesis by blast
qed

subsection \<open>Executing and recovering\<close>

lemma resolution_failure_row:
  assumes "get_operation oid R = Some op" and "op_operation_id op = oid"
  shows "get_operation k (persist_async_operation_failed op c m t R) =
     (if k = oid then Some (mark_operation_failed op c m t) else get_operation k R)"
  using assms
  by (simp add: persist_async_operation_failed_def operation_store.get_put mark_operation_failed_def)

lemma execute_create_returns:
  assumes "services_leave_operations az"
    and "get_operation oid R = Some op" and "op_operation_id op = oid"
  shows "\<exists>R' op'. execute_create_proposal_async_operation az oid fp fk fc clock R = Some R'
     \<and> get_operation oid R' = Some op' \<and> op_status op' \<in> set async_terminal_statuses
     \<and> op_operation_id op' = oid \<and> (op_wf op \<longrightarrow> op_wf op')
     \<and> (\<forall>k. k \<noteq> oid \<longrightarrow> get_operation k R' = get_operation k R)"
proof (cases "resolve_async_create_payload az op fp fk")
  case (Inl m)
  let ?c = "''ProposalLifecycleError''"
  have "execute_create_proposal_async_operation az oid fp fk fc clock R
      = Some (persist_async_operation_failed op ?c m (clock 0) R)"
    using Inl assms(2) by (simp add: execute_create_proposal_async_operation_def
        resolve_create_async_payload_or_fail_def)
  then show ?thesis
    using assms(3) op_wf_failed by (auto simp: resolution_failure_row [OF assms(2,3)]
        mark_operation_failed_def async_terminal_statuses_def)
next
  case (Inr x)
  obtain payload key where x: "x = (payload, key)" by (cases x)
  let ?ex = "\<lambda>i. az_create_proposal az i payload key (py_or_str fc (op_correlation_id op))
                  (build_async_replay_lineage op)"
  let ?clock = "\<lambda>i. clock (Suc i)"
  have eq: "execute_create_proposal_async_operation az oid fp fk fc clock R
      = run_async_operation_from ?ex ?clock oid 0 R"
    using Inr assms(2) x by (simp add: execute_create_proposal_async_operation_def
        resolve_create_async_payload_or_fail_def run_async_operation_until_terminal_def)
  have leave: "\<And>i. leaves_operations (?ex i)"
    using assms(1) by (simp add: services_leave_operations_def)
  obtain R' op' where run: "run_async_operation_from ?ex ?clock oid 0 R = Some R'"
    and "get_operation oid R' = Some op'" "op_status op' \<in> set async_terminal_statuses"
    "op_operation_id op' = oid" "op_wf op \<longrightarrow> op_wf op'"
    using run_from_returns [OF assms(2,3)] by blast
  moreover have "get_operation k R' = get_operation k R" if "k \<noteq> oid" for k
    using run_from_frame [OF leave run] assms(2,3) that by simp
  ultimately show ?thesis using eq by auto
qed

lemma execute_version_returns:
  assumes "services_leave_operations az"
    and "get_operation oid R = Some op" and "op_operation_id op = oid"
  shows "\<exists>R' op'. execute_create_version_async_operation az oid fi fp fc clock R = Some R'
     \<and> get_operation oid R' = Some op' \<and> op_status op' \<in> set async_terminal_statuses
     \<and> op_operation_id op' = oid \<and> (op_wf op \<longrightarrow> op_wf op')
     \<and> (\<forall>k. k \<noteq> oid \<longrightarrow> get_operation k R' = get_operation k R)"
proof (cases "resolve_async_version_payload az op fi fp")
  case (Inl m)
  let ?c = "''ProposalLifecycleError''"
  have "execute_create_version_async_operation az oid fi fp fc clock R
      = Some (persist_async_operation_failed op ?c m (clock 0) R)"
    using Inl assms(2) by (simp add: execute_create_version_async_operation_def
        resolve_version_async_payload_or_fail_def)
  then show ?thesis
    using assms(3) op_wf_failed by (auto simp: resolution_failure_row [OF assms(2,3)]
        mark_operation_failed_def async_terminal_statuses_def)
next
  case (Inr x)
  obtain pid payload where x: "x = (pid, payload)" by (cases x)
  let ?ex = "\<lambda>i. az_create_version az i pid payload (py_or_str fc (op_correlation_id op))
                  (build_async_replay_lineage op)"
  let ?clock = "\<lambda>i. clock (Suc i)"
  have eq: "execute_create_version_async_operation az oid fi fp fc clock R
      = run_async_operation_from ?ex ?clock oid 0 R"
    using Inr assms(2) x by (simp add: execute_create_version_async_operation_def
        resolve_version_async_payload_or_fail_def run_async_operation_until_terminal_def)
  have leave: "\<And>i. leaves_operations (?ex i)"
    using assms(1) by (simp add: services_leave_operations_def)
  obtain R' op' where run: "run_async_operation_from ?ex ?clock oid 0 R = Some R'"
    and "get_operation oid R' = Some op'" "op_status op' \<in> set async_terminal_statuses"
    "op_operation_id op' = oid" "op_wf op \<longrightarrow> op_wf op'"
    using run_from_returns [OF assms(2,3)] by blast
  moreover have "get_operation k R' = get_operation k R" if "k \<noteq> oid" for k
    using run_from_frame [OF leave run] assms(2,3) that by simp
  ultimately show ?thesis using eq by auto
qed

lemma recover_operation_returns:
  assumes "services_leave_operations az"
    and "get_operation (op_operation_id op) R = Some op'"
    and "op_operation_id op' = op_operation_id op"
  shows "\<exists>R' op''. recover_operation az clock op R = Some R'
     \<and> get_operation (op_operation_id op) R' = Some op''
     \<and> op_status op'' \<in> set async_terminal_statuses \<and> op_operation_id op'' = op_operation_id op
     \<and> (\<forall>k. k \<noteq> op_operation_id op \<longrightarrow> get_operation k R' = get_operation k R)"
  using execute_create_returns [OF assms, of None None None clock]
    execute_version_returns [OF assms, of None None None clock]
  by (cases "op_operation_type op")
    (auto simp: recover_operation_def resolve_recoverable_async_operation_kind_def)

lemma recover_operations_return:
  assumes "services_leave_operations az" and "distinct (map op_operation_id ops)"
    and "\<forall>op\<in>set ops. \<exists>op'. get_operation (op_operation_id op) R = Some op'
           \<and> op_operation_id op' = op_operation_id op"
  shows "\<exists>R'. recover_operations az clocks n ops R = Some (length ops, R')
     \<and> (\<forall>op\<in>set ops. \<exists>op'. get_operation (op_operation_id op) R' = Some op'
           \<and> op_status op' \<in> set async_terminal_statuses)
     \<and> (\<forall>k. k \<notin> op_operation_id ` set ops \<longrightarrow> get_operation k R' = get_operation k R)"
  using assms(2,3)
proof (induction ops arbitrary: n R)
  case (Cons op ops)
  obtain op' where "get_operation (op_operation_id op) R = Some op'"
    "op_operation_id op' = op_operation_id op"
    using Cons.prems(2) by auto
  from recover_operation_returns [OF assms(1) this, of "clocks n"] obtain R1 op''
    where r: "recover_operation az (clocks n) op R = Some R1"
      and row: "get_operation (op_operation_id op) R1 = Some op''"
        "op_status op'' \<in> set async_terminal_statuses"
      and frame: "\<And>k. k \<noteq> op_operation_id op \<Longrightarrow> get_operation k R1 = get_operation k R"
    by blast
  have "\<forall>o2\<in>set ops. \<exists>o3. get_operation (op_operation_id o2) R1 = Some o3
      \<and> op_operation_id o3 = op_operation_id o2"
    using Cons.prems frame by (auto simp: image_iff)
  from Cons.IH [OF _ this, of "Suc n"] Cons.prems(1) obtain R'
    where r': "recover_operations az clocks (Suc n) ops R1 = Some (length ops, R')"
      and done': "\<forall>op\<in>set ops. \<exists>op'. get_operation (op_operation_id op) R' = Some op'
           \<and> op_status op' \<in> set async_terminal_statuses"
      and frame': "\<forall>k. k \<notin> op_operation_id ` set ops \<longrightarrow> get_operation k R' = get_operation k R1"
    by auto
  have kind: "resolve_recoverable_async_operation_kind op \<noteq> None"
    by (simp add: resolve_recoverable_async_operation_kind_def split: async_type.splits)
  have "get_operation (op_operation_id op) R' = Some op''"
    using frame' row(1) Cons.prems(1) by auto
  with r r' done' frame frame' row kind show ?case by auto
qed simp

end
