(* ===== verification/Component_Properties.thy ===== *)
theory Component_Properties
  imports Fixtures Proposal_Queries Async_Control Async_Commands
begin

text \<open>
  The properties of single components: execution updates and delivery views, queries and
  lineage, asynchronous operations and their control.  Each rests on the lemmas of its
  component's theory.
\<close>

section \<open>Execution updates and views\<close>

text \<open>
  What an accepted execution update does: when the log holds a handoff the update
  identifies itself with, the update is new, its instant is not before the handoff and the
  proposal is not terminal, the command appends one event of the mapped type, moves the
  proposal to the mapped state, and answers with the matching handoff status.
\<close>

theorem update_outcome:
  assumes "proposals_keyed R" and "get_proposal pid R = Some p"
    and "latest_execution_requested_event (list_events pid R) = Some h"
    and "validate_execution_update_handoff_identity h q = Inr ()"
    and "find_replayed_execution_update_event (list_events pid R) q
           (build_execution_update_request_hash rt q) = Inr None"
    and "pr_current_state p \<notin> set terminal_states"
    and "resolve_valid_execution_update_timestamp rt q now h = Inr occ"
  shows "\<exists>r R' e. record_execution_update rt pid q now eid R = (Inr r, R')
     \<and> list_events pid R' = list_events pid R @ [e]
     \<and> (ev_event_type e, ev_to_state e) = resolve_execution_update_event (uq_update_status q)
     \<and> map_option pr_current_state (get_proposal pid R') = Some (ev_to_state e)
     \<and> es_handoff_status r = execution_status_for_event (ev_event_type e)"
proof -
  let ?m = "resolve_execution_update_event (uq_update_status q)"
  let ?e = "build_execution_update_event eid pid (pr_current_state p) q (fst ?m) (snd ?m) occ
      (build_execution_update_request_hash rt q) (ev_related_version_no h)"
  let ?p = "p\<lparr>pr_current_state := snd ?m, pr_last_event_at := occ\<rparr>"
  let ?R = "write_transition ?p ?e None R"
  have pid: "pr_proposal_id p = pid" using assms(1,2) by (simp add: proposals_keyed_def)
  have "prepare_execution_update rt pid q terminal_states now eid R = Inr (Inr (?p, ?e))"
    using assms pid
    by (simp add: prepare_execution_update_def load_proposal_activity_read_model_def Let_def
        validate_execution_update_state_def build_execution_update_event_and_apply_state_def
        apply_execution_update_state_def build_execution_update_event_def split_beta
        del: terminal_states_iff)
  moreover have st: "ev_from_state ?e = Some (pr_current_state p)" "ev_proposal_id ?e = pid"
    "ev_event_type ?e = fst ?m" "ev_to_state ?e = snd ?m"
    by (simp_all add: build_execution_update_event_def)
  ultimately have "record_proposal_execution_update rt pid q terminal_states now eid R = (Inr None, ?R)"
    using assms(2) pid
    by (simp add: record_proposal_execution_update_def commit_execution_update_eq cas_matches_Some)
  then have run: "record_execution_update rt pid q now eid R =
      (Inr (build_execution_status_response rt ?p (list_events pid R @ [?e])), ?R)"
    using pid st(2)
    by (simp add: record_execution_update_def build_execution_status_view_def
        load_proposal_activity_read_model_def)
  have "fst ?m \<in> set execution_status_event_types"
    by (cases "uq_update_status q")
      (simp_all add: resolve_execution_update_event_def execution_status_event_types_def)
  then have "latest_execution_status_event (list_events pid R @ [?e]) = Some ?e"
    using st(3) by (simp add: latest_execution_status_event_def)
  with run st pid show ?thesis
    by (intro exI [of _ "build_execution_status_response rt ?p (list_events pid R @ [?e])"]
        exI [of _ ?R] exI [of _ ?e]) (simp add: execution_status_handoff_status)
qed

definition demo_handed_off :: system where
  "demo_handed_off = run_actions demo_runtime demo_services
     [Prepare (RQ_Handoff ''p'' demo_handoff None False 5 ''x1'' ''e4''), Commit 0] demo_ready"

lemma demo_handed_off_reachable: "reachable demo_runtime demo_services demo_handed_off"
proof -
  have "schedule_enabled demo_runtime demo_services
      [Prepare (RQ_Handoff ''p'' demo_handoff None False 5 ''x1'' ''e4''), Commit 0] demo_ready"
    by code_simp
  then show ?thesis unfolding demo_handed_off_def by (rule reachable_run [OF _ demo_ready_reachable])
qed

theorem update_outcome_witness:
  "\<exists>r R'. record_execution_update demo_runtime ''p'' (demo_update UP_EXECUTED) 6 ''e5''
            (sy_repository demo_handed_off) = (Inr r, R')
     \<and> map_option pr_current_state (get_proposal ''p'' R') = Some WS_EXECUTED
     \<and> es_handoff_status r = HS_EXECUTED"
proof -
  let ?R = "sy_repository demo_handed_off" and ?q = "demo_update UP_EXECUTED"
  have k: "proposals_keyed ?R"
    using reachable_ok [OF demo_handed_off_reachable] by (simp add: system_ok_def repository_ok_def)
  have "map_option pr_current_state (get_proposal ''p'' ?R) = Some WS_EXECUTION_READY"
    by code_simp
  then obtain p where p: "get_proposal ''p'' ?R = Some p" "pr_current_state p = WS_EXECUTION_READY"
    by auto
  have "map_option (\<lambda>h. (ev_occurred_at h, validate_execution_update_handoff_identity h ?q))
      (latest_execution_requested_event (list_events ''p'' ?R)) = Some (5, Inr ())" by code_simp
  then obtain h where h: "latest_execution_requested_event (list_events ''p'' ?R) = Some h"
    "validate_execution_update_handoff_identity h ?q = Inr ()" "ev_occurred_at h = 5" by auto
  have new: "find_replayed_execution_update_event (list_events ''p'' ?R) ?q
      (build_execution_update_request_hash demo_runtime ?q) = Inr None" by code_simp
  have t: "resolve_valid_execution_update_timestamp demo_runtime ?q 6 h = Inr 6"
    using h(3) by (simp add: resolve_valid_execution_update_timestamp_def
        resolve_execution_update_occurred_at_def demo_update_def
        validate_execution_update_occurred_after_handoff_def)
  have nt: "pr_current_state p \<notin> set terminal_states" using p(2) by simp
  have m: "resolve_execution_update_event (uq_update_status ?q) = (EV_EXECUTED, WS_EXECUTED)"
    "execution_status_for_event EV_EXECUTED = HS_EXECUTED" by code_simp+
  from update_outcome [OF k p(1) h(1,2) new nt t, of "''e5''"] m show ?thesis by auto
qed

text \<open>
  The readings of one log agree: the execution status endpoint and the delivery summary
  report the same handoff status, request instant and execution instant, and there is no
  summary exactly when the status is \<open>NOT_REQUESTED\<close>.
\<close>

theorem delivery_views_agree:
  "case build_execution_summary rt (latest_delivery_events_of events) of
     None \<Rightarrow> es_handoff_status (build_execution_status_response rt p events) = HS_NOT_REQUESTED
   | Some d \<Rightarrow>
       es_handoff_status (build_execution_status_response rt p events) = de_handoff_status d
       \<and> es_executed_at (build_execution_status_response rt p events) = de_executed_at d
       \<and> es_handoff_requested_at (build_execution_status_response rt p events)
           = de_handoff_requested_at d"
proof (cases "build_execution_summary rt (latest_delivery_events_of events)")
  case None
  then have "latest_execution_status_event events = None"
    using execution_summary_handoff_status [of rt events] by simp
  with None show ?thesis by (simp add: execution_status_handoff_status)
next
  case (Some d)
  from execution_summary_executed_at [OF this] Some show ?thesis by simp
qed

section \<open>Queries\<close>

text \<open>
  C33.  Paging is complete and stable: on an unchanged repository, following the cursors from
  the first page, for any positive page size, yields every proposal that matches the filters
  exactly once, newest first.  As many pages as there are proposals, plus one, always suffice.
\<close>

theorem pages_cover_the_filter:
  assumes "proposals_keyed R" and "0 < limit" and "length (rp_proposals R) < fuel"
    and "get_proposal [] R = None"
  shows "set (collect_pages fuel f limit None R)
           = {p. get_proposal (pr_proposal_id p) R = Some p \<and> proposal_matches_filters f p}
     \<and> distinct (map pr_proposal_id (collect_pages fuel f limit None R))
     \<and> sorted (map (\<lambda>p. (pr_created_at p, pr_proposal_id p)) (rev (collect_pages fuel f limit None R)))"
proof -
  have wf: "dict_wf (rp_proposals R)"
    and key: "\<And>k p. get_proposal k R = Some p \<Longrightarrow> pr_proposal_id p = k"
    using assms(1) by (auto simp: proposals_keyed_def)
  have rows: "p \<in> set (dict_values (rp_proposals R)) \<longleftrightarrow> get_proposal (pr_proposal_id p) R = Some p" for p
    using key by (auto simp: in_dict_values_iff [OF wf] get_proposal_def)
  then have "\<forall>p\<in>set (dict_values (rp_proposals R)). pr_proposal_id p \<noteq> []"
    using assms(4) by (metis option.distinct(1))
  from collect_pages_all [OF assms(1,2) this assms(3)]
  show ?thesis
    using distinct_filtered_rows [OF keyed_rows_distinct [OF assms(1)], of f] sorted_filtered_rows
    by (auto simp: set_filtered_rows rows)
qed

definition any_proposal :: proposal_filter where
  "any_proposal = \<lparr>pf_portfolio_id = None, pf_state = None, pf_created_by = None,
     pf_created_from = None, pf_created_to = None\<rparr>"

theorem pages_cover_the_filter_witness:
  "\<exists>p. set (collect_pages 2 any_proposal 1 None (sy_repository demo_system)) = {p}
     \<and> pr_current_state p = WS_EXECUTED"
proof -
  let ?R = "sy_repository demo_system"
  have k: "proposals_keyed ?R"
    using reachable_ok [OF demo_reachable] by (simp add: system_ok_def repository_ok_def)
  have n: "length (rp_proposals ?R) < 2" by code_simp
  have e: "get_proposal [] ?R = None" by code_simp
  have "map pr_current_state (collect_pages 2 any_proposal 1 None ?R) = [WS_EXECUTED]" by code_simp
  then obtain p where "collect_pages 2 any_proposal 1 None ?R = [p]" "pr_current_state p = WS_EXECUTED"
    by auto
  with pages_cover_the_filter [OF k _ n e, of 1 any_proposal] show ?thesis by auto
qed

text \<open>
  The bulk event listing for a set of proposals returns exactly the events in the logs of
  those proposals, and reads nothing outside them.
\<close>

theorem bulk_events_are_the_logs:
  assumes "proposals_keyed R"
  shows "set (list_events_for_proposals ids R) = (\<Union>pid\<in>set ids. set (list_events pid R))"
proof -
  have key: "\<And>k e. e \<in> set (list_events k R) \<Longrightarrow> ev_proposal_id e = k"
    using assms by (auto simp: proposals_keyed_def)
  then show ?thesis
    using list_events_for_proposals_iff [OF assms] by blast
qed

theorem bulk_events_are_the_logs_witness:
  "set (list_events_for_proposals [''p'', ''zz''] (sy_repository demo_system))
     = set (list_events ''p'' (sy_repository demo_system))"
proof -
  have k: "proposals_keyed (sy_repository demo_system)"
    using reachable_ok [OF demo_reachable] by (simp add: system_ok_def repository_ok_def)
  have "list_events ''zz'' (sy_repository demo_system) = []" by code_simp
  then show ?thesis using bulk_events_are_the_logs [OF k, of "[''p'', ''zz'']"] by simp
qed

text \<open>
  Lineage is complete: built from the version rows of a reachable state, the lineage
  response of a proposal lists every version from 1 to the current one and reports none
  missing.
\<close>

theorem reachable_lineage_is_complete:
  assumes "reachable rt0 sv S" and "get_proposal pid (sy_repository S) = Some p"
    and "\<And>n. dict_get by_number n = get_version pid n (sy_repository S)"
  shows "lr_lineage_complete (build_proposal_lineage_response rt p by_number)
     \<and> lr_missing_version_numbers (build_proposal_lineage_response rt p by_number) = []
     \<and> int (lr_version_count (build_proposal_lineage_response rt p by_number)) = pr_current_version_no p"
proof -
  have all: "\<forall>n. 1 \<le> n \<and> n \<le> pr_current_version_no p \<longrightarrow> dict_get by_number n \<noteq> None"
    and one: "1 \<le> pr_current_version_no p"
    using reachable_ok [OF assms(1)] assms(2,3)
    by (auto simp: system_ok_def repository_ok_def versions_ok_def)
  then have "filter (\<lambda>n. dict_get by_number n = None) [1..pr_current_version_no p] = []"
    and "filter (\<lambda>n. dict_get by_number n \<noteq> None) [1..pr_current_version_no p]
      = [1..pr_current_version_no p]"
    by (auto simp: filter_empty_conv intro: filter_True)
  with all one show ?thesis by (simp add: lineage_response_fields)
qed

theorem reachable_lineage_is_complete_witness:
  "\<exists>p v. get_proposal ''p'' (sy_repository demo_created) = Some p
     \<and> lr_lineage_complete (build_proposal_lineage_response demo_runtime p [(1, v)])"
proof -
  obtain p where p: "get_proposal ''p'' (sy_repository demo_created) = Some p"
    using demo_created_known by blast
  have one: "map fst (rp_versions (sy_repository demo_created)) = [(''p'', 1)]" by code_simp
  then obtain v where v: "rp_versions (sy_repository demo_created) = [((''p'', 1), v)]"
    by (cases "rp_versions (sy_repository demo_created)") auto
  have "dict_get [(1, v)] n = get_version ''p'' n (sy_repository demo_created)" for n
    by (auto simp: get_version_def v)
  from reachable_lineage_is_complete [OF demo_created_reachable p this] p show ?thesis by blast
qed

text \<open>
  The current version is the highest one stored, and in a reachable state never behind
  the aggregate's version number.
\<close>

theorem current_version_is_highest:
  assumes "reachable rt sv S" and "get_current_version pid (sy_repository S) = Some v"
    and "get_proposal pid (sy_repository S) = Some p"
  shows "get_version pid (pv_version_no v) (sy_repository S) = Some v
     \<and> (\<forall>n w. get_version pid n (sy_repository S) = Some w \<longrightarrow> n \<le> pv_version_no v)
     \<and> pr_current_version_no p \<le> pv_version_no v"
proof -
  have ok: "proposals_keyed (sy_repository S)" "versions_ok (sy_repository S)"
    using reachable_ok [OF assms(1)] by (auto simp: system_ok_def repository_ok_def)
  note cur = get_current_version_Some [OF ok(1) assms(2)]
  have "1 \<le> pr_current_version_no p"
    and "get_version pid (pr_current_version_no p) (sy_repository S) \<noteq> None"
    using ok(2) assms(3) by (auto simp: versions_ok_def)
  with cur show ?thesis by auto
qed

theorem current_version_is_highest_witness:
  "\<exists>v. get_current_version ''p'' (sy_repository demo_created) = Some v \<and> 1 \<le> pv_version_no v"
proof -
  have "map_option pv_version_no (get_current_version ''p'' (sy_repository demo_created)) = Some 1"
    by code_simp
  then obtain v where v: "get_current_version ''p'' (sy_repository demo_created) = Some v" by auto
  obtain p where p: "get_proposal ''p'' (sy_repository demo_created) = Some p"
    using demo_created_known by blast
  have "1 \<le> pr_current_version_no p"
    using reachable_ok [OF demo_created_reachable] p
    by (auto simp: system_ok_def repository_ok_def versions_ok_def)
  with current_version_is_highest [OF demo_created_reachable v p] v show ?thesis by auto
qed

section \<open>Asynchronous operations\<close>

text \<open>
  C31.  The attempt loop always ends: whatever the executor returns or raises, running a stored
  operation terminates with the row in a terminal status, well formed if it was, and never
  more attempts than the row allows.
\<close>

theorem attempt_loop_terminates:
  assumes "get_operation oid R = Some op" and "op_operation_id op = oid"
  shows "\<exists>R' op'. run_async_operation_until_terminal ex clock oid R = Some R'
     \<and> get_operation oid R' = Some op'
     \<and> op_status op' \<in> {AS_SUCCEEDED, AS_FAILED}
     \<and> op_attempt_count op' \<le> max (op_attempt_count op) (op_max_attempts op)
     \<and> (op_wf op \<longrightarrow> op_wf op')"
proof -
  obtain R' op' where "run_async_operation_from ex clock oid 0 R = Some R'"
    "get_operation oid R' = Some op'" "op_status op' \<in> set async_terminal_statuses"
    "op_attempt_count op' \<le> max (op_attempt_count op) (op_max_attempts op)" "op_wf op \<longrightarrow> op_wf op'"
    using run_from_returns [OF assms] by blast
  then show ?thesis
    by (auto simp: run_async_operation_until_terminal_def async_terminal_statuses_def)
qed

definition demo_operation :: async_operation where
  "demo_operation = build_create_proposal_async_operation ''op'' ''corr'' ''k'' demo_create_request ''h'' 1 3"

definition demo_operations :: repository where
  "demo_operations = create_operation demo_operation empty_repository"

lemma demo_operations_row: "get_operation k demo_operations = (if k = ''op'' then Some demo_operation else None)"
  by (simp add: demo_operations_def create_is_update operation_store.get_put)
    (simp add: demo_operation_def build_create_proposal_async_operation_def empty_repository_def
      get_operation_def)

lemma demo_operations_keyed: "operations_keyed demo_operations"
  unfolding demo_operations_def create_is_update
  by (rule operations_keyed_update, simp)
    (simp add: keeps_idempotency_key_def empty_repository_def get_operation_def)

theorem attempt_loop_terminates_witness:
  "\<exists>R' op'. run_async_operation_until_terminal (\<lambda>i R. (Inl (OtherException ''TimeoutError'' ''late''), R))
       (\<lambda>i. int i) ''op'' demo_operations = Some R'
     \<and> get_operation ''op'' R' = Some op' \<and> op_attempt_count op' \<le> 3"
proof -
  have "get_operation ''op'' demo_operations = Some demo_operation" and "op_operation_id demo_operation = ''op''"
    by (simp_all add: demo_operations_row demo_operation_def build_create_proposal_async_operation_def)
  from attempt_loop_terminates [OF this, of "\<lambda>i R. (Inl (OtherException ''TimeoutError'' ''late''), R)"
      "\<lambda>i. int i"]
  show ?thesis
    by (auto simp: demo_operation_def build_create_proposal_async_operation_def)
qed

text \<open>The executors the service wires in: its own create and version commands.\<close>

definition command_services ::
  "runtime \<Rightarrow> creation_services \<Rightarrow> (jobject \<Rightarrow> create_options) \<Rightarrow> (jobject \<Rightarrow> version_options)
     \<Rightarrow> (nat \<Rightarrow> datetime) \<Rightarrow> (nat \<Rightarrow> new_ids) \<Rightarrow> async_services \<Rightarrow> async_services" where
  "command_services rt sv copts vopts now ids az = az\<lparr>
     az_create_proposal := \<lambda>i q key cid lin.
       create_proposal_command rt sv q key (Some cid) (copts lin) (now i) (ids i),
     az_create_version := \<lambda>i pid q cid lin.
       create_proposal_version rt sv pid q (Some cid) (vopts lin) (now i) (ids i)\<rparr>"

lemma command_services_leave_operations:
  "services_leave_operations (command_services rt sv copts vopts now ids az)"
  by (simp add: services_leave_operations_def command_services_def create_command_leaves_operations
      version_command_leaves_operations)

text \<open>
  C32.  A recovery pass finishes its whole batch: over a well-formed store and the service's own
  commands, every recoverable operation of the batch is in a terminal status afterwards, the
  pass counts each of them, and every other operation row is untouched.
\<close>

theorem recovery_finishes_the_batch:
  assumes "operations_keyed R" and "0 \<le> n"
    and "az = command_services rt sv copts vopts now ids az0"
  shows "\<exists>R'. recover_async_operation_batch az clocks as_of n R
           = Some (length (list_recoverable_operations as_of (Some n) R), R')
     \<and> (\<forall>op\<in>set (list_recoverable_operations as_of (Some n) R).
          \<exists>op'. get_operation (op_operation_id op) R' = Some op'
            \<and> op_status op' \<in> {AS_SUCCEEDED, AS_FAILED})
     \<and> (\<forall>k. k \<notin> op_operation_id ` set (list_recoverable_operations as_of (Some n) R)
          \<longrightarrow> get_operation k R' = get_operation k R)"
proof -
  let ?batch = "list_recoverable_operations as_of (Some n) R"
  have sub: "set ?batch \<subseteq> set (list_recoverable_operations as_of None R)"
    unfolding list_recoverable_take [OF assms(2)] by (rule set_take_subset)
  have present: "\<forall>op\<in>set ?batch. \<exists>op'. get_operation (op_operation_id op) R = Some op'
      \<and> op_operation_id op' = op_operation_id op"
    using sub list_recoverable_unlimited [OF assms(1)] by fastforce
  have "distinct (map op_operation_id (dict_values (rp_operations R)))"
  proof -
    have "\<forall>(k, op)\<in>set (rp_operations R). op_operation_id op = k"
      and "distinct (map fst (rp_operations R))"
      using assms(1) by (auto simp: operations_keyed_def get_operation_def dict_wf_def)
    then have "map op_operation_id (dict_values (rp_operations R)) = map fst (rp_operations R)"
      by (auto simp: dict_values_def)
    with \<open>distinct (map fst (rp_operations R))\<close> show ?thesis by simp
  qed
  then have "distinct (map op_operation_id (list_recoverable_operations as_of None R))"
    by (simp add: list_recoverable_operations_def recoverable_operations_def
        recoverable_operation_rows_def limited_records_def non_positive_limit_def
        distinct_map_mset_cong [OF mset_sort] distinct_map_filter)
  then have "distinct (map op_operation_id ?batch)"
    unfolding list_recoverable_take [OF assms(2)] take_map [symmetric] by (rule distinct_take)
  from recover_operations_return [OF _ this present, of az clocks 0] show ?thesis
    using assms(3) command_services_leave_operations
    by (auto simp: recover_async_operation_batch_def async_terminal_statuses_def)
qed

definition demo_async_services :: async_services where
  "demo_async_services = \<lparr>az_hash_create = (\<lambda>q. Inr (cq_created_by q)),
     az_hash_version = (\<lambda>pid q. Inr (vq_created_by q)),
     az_parse_create = (\<lambda>d. Some demo_create_request), az_parse_version = (\<lambda>d. None),
     az_create_proposal = (\<lambda>i q key cid lin R. (Inl (ValueError ''x''), R)),
     az_create_version = (\<lambda>i pid q cid lin R. (Inl (ValueError ''x''), R))\<rparr>"

theorem recovery_finishes_the_batch_witness:
  "\<exists>R'. recover_async_operation_batch
          (command_services demo_runtime demo_services (\<lambda>l. demo_create_options)
             (\<lambda>l. demo_version_options) (\<lambda>i. 2) (\<lambda>i. demo_ids) demo_async_services)
          (\<lambda>i j. 5) 5 50 demo_operations = Some (1, R')
     \<and> (\<exists>op'. get_operation ''op'' R' = Some op' \<and> op_status op' \<in> {AS_SUCCEEDED, AS_FAILED})"
proof -
  have one: "list_recoverable_operations 5 (Some 50) demo_operations = [demo_operation]" by code_simp
  from recovery_finishes_the_batch [OF demo_operations_keyed _ refl, where n = 50 and as_of = 5
      and clocks = "\<lambda>i j. 5" and rt = demo_runtime and sv = demo_services
      and copts = "\<lambda>l. demo_create_options" and vopts = "\<lambda>l. demo_version_options"
      and now = "\<lambda>i. 2" and ids = "\<lambda>i. demo_ids" and ?az0.0 = demo_async_services] one
  show ?thesis
    by (auto simp: demo_operation_def build_create_proposal_async_operation_def)
qed

text \<open>
  The recovery listing is exact: unlimited, it holds exactly the stored operations that are
  pending, or running under a lapsed lease, oldest first; a limit keeps its oldest part.
\<close>

theorem recoverable_listing_exact:
  assumes "operations_keyed R" and "0 \<le> n"
  shows "set (list_recoverable_operations as_of None R) =
       {op. get_operation (op_operation_id op) R = Some op
          \<and> (op_status op = AS_PENDING
             \<or> op_status op = AS_RUNNING \<and> op_finished_at op = None
               \<and> (\<exists>t. op_lease_expires_at op = Some t \<and> t \<le> as_of))}
     \<and> sorted (map (\<lambda>op. (op_created_at op, op_operation_id op)) (list_recoverable_operations as_of None R))
     \<and> list_recoverable_operations as_of (Some n) R
         = take (nat n) (list_recoverable_operations as_of None R)"
proof -
  have "operation_is_recoverable op as_of \<longleftrightarrow> op_status op = AS_PENDING
      \<or> op_status op = AS_RUNNING \<and> op_finished_at op = None
        \<and> (\<exists>t. op_lease_expires_at op = Some t \<and> t \<le> as_of)" for op
    by (auto simp: operation_is_recoverable_def operation_is_pending_def
        running_operation_lease_has_expired_def split: option.splits)
  then show ?thesis
    using list_recoverable_unlimited [OF assms(1)] list_recoverable_take [OF assms(2)]
      list_recoverable_sorted by auto
qed

theorem recoverable_listing_exact_witness:
  "demo_operation \<in> set (list_recoverable_operations 5 None demo_operations)"
proof -
  have "get_operation (op_operation_id demo_operation) demo_operations = Some demo_operation"
    and "op_status demo_operation = AS_PENDING"
    by (simp_all add: demo_operations_row demo_operation_def build_create_proposal_async_operation_def)
  then show ?thesis using recoverable_listing_exact [OF demo_operations_keyed, of 1 5] by simp
qed

text \<open>
  A repeated submission is accepted once: submitting the same create request again under
  the same key returns the operation accepted first, as not new, counts one replay, and leaves
  the store as it was, whatever operation id, correlation id and instant the retry carries.
\<close>

theorem create_submission_is_idempotent:
  assumes "operations_keyed R" and "get_operation oid R = None"
    and "accept_create_proposal_async_submission_command rt az q k cid m now oid u (st, R)
           = (Inr (resp, new), st', R')"
  shows "accept_create_proposal_async_submission_command rt az q k cid2 m2 now2 oid2 u2 (st', R')
           = (Inr (resp, False), st'\<lparr>ss_accepted_replayed := ss_accepted_replayed st' + 1\<rparr>, R')"
proof -
  obtain key h where key: "require_proposal_idempotency_key (Some k) = Inr key"
    and h: "az_hash_create az q = Inr h"
    using assms(3) by (auto simp: accept_create_proposal_async_submission_command_def split: sum.splits)
  have nonempty: "key \<noteq> []"
    using key normalize_key_SomeD(1) by (auto simp: require_key_Inr_iff)
  define op where "op = build_create_proposal_async_operation oid (resolve_correlation_id u cid) key q h now m"
  have opk: "op_idempotency_key op = Some key" "op_operation_id op = oid"
    by (simp_all add: op_def build_create_proposal_async_operation_def)
  have own: "is_matching_create_proposal_async_submission op key (Some h)"
    by (simp add: op_def build_create_proposal_async_operation_def
        is_matching_create_proposal_async_submission_def json_get_def)
  obtain held where held: "get_operation_by_idempotency key R' = Some held"
    and match: "is_matching_create_proposal_async_submission held key (Some h)"
    and resp: "resp = to_async_accepted_response rt held" and wf: "operations_keyed R'"
  proof (cases "get_operation_by_idempotency key R")
    case None
    have "R' = update_operation op R" and "resp = to_async_accepted_response rt op"
      using assms(3) key h submission_fresh [OF opk(1) nonempty None]
      by (auto simp: accept_create_proposal_async_submission_command_def Let_def op_def
          persist_create_proposal_async_submission_def)
    moreover have "operations_keyed (update_operation op R)"
      using assms(1,2) opk by (intro operations_keyed_update) (auto simp: keeps_idempotency_key_def)
    ultimately show thesis using that get_by_idempotency_update [OF opk(1) nonempty] own by auto
  next
    case (Some old)
    then show thesis
      using that [of old] assms(1,3) key h submission_existing [OF assms(1) opk(1) nonempty Some]
      by (auto simp: accept_create_proposal_async_submission_command_def Let_def op_def
          persist_create_proposal_async_submission_def split: if_splits)
  qed
  have again: "op_idempotency_key (build_create_proposal_async_operation oid2
      (resolve_correlation_id u2 cid2) key q h now2 m2) = Some key"
    by (simp add: build_create_proposal_async_operation_def)
  show ?thesis
    using key h submission_existing [OF wf again nonempty held] match resp
    by (simp add: accept_create_proposal_async_submission_command_def Let_def
        persist_create_proposal_async_submission_def record_acceptance_def)
qed

theorem create_submission_is_idempotent_witness:
  "\<exists>resp st R'. accept_create_proposal_async_submission_command demo_runtime demo_async_services
        demo_create_request ''k'' None 3 1 ''op1'' ''abc'' (\<lparr>ss_accepted_new = 0,
          ss_accepted_replayed = 0, ss_conflicts = 0\<rparr>, empty_repository) = (Inr (resp, True), st, R')
     \<and> fst (accept_create_proposal_async_submission_command demo_runtime demo_async_services
        demo_create_request ''k'' None 3 9 ''op2'' ''def'' (st, R')) = Inr (resp, False)"
proof -
  let ?s0 = "\<lparr>ss_accepted_new = 0, ss_accepted_replayed = 0, ss_conflicts = 0\<rparr>"
  let ?first = "accept_create_proposal_async_submission_command demo_runtime demo_async_services
        demo_create_request ''k'' None 3 1 ''op1'' ''abc'' (?s0, empty_repository)"
  have "case fst ?first of Inr x \<Rightarrow> snd x | Inl _ \<Rightarrow> False" by code_simp
  then obtain resp st R' where run: "?first = (Inr (resp, True), st, R')"
    by (cases ?first) (auto split: sum.splits)
  have "get_operation ''op1'' empty_repository = None"
    by (simp add: empty_repository_def get_operation_def)
  from create_submission_is_idempotent [OF operations_keyed_empty this run] run show ?thesis by auto
qed

section \<open>Operator control\<close>

text \<open>
  Classification matches recovery: an operation is offered for retry exactly when recovery
  would pick it up and attempts remain; it is reported leased exactly while a running lease has
  not lapsed; a retry is allowed to an authorised operator in exactly the first case.
\<close>

theorem classification_matches_recovery:
  "(classify_async_operation_for_control op as_of \<in> {CT_PENDING, CT_RECOVERABLE_STUCK} \<longleftrightarrow>
      operation_is_recoverable op as_of \<and> \<not> has_exhausted_async_attempts op)
   \<and> (classify_async_operation_for_control op as_of = CT_LEASED \<longleftrightarrow>
      op_status op = AS_RUNNING \<and> \<not> running_operation_lease_has_expired op as_of)
   \<and> (cd_allowed (evaluate_async_operation_control rt op CA_RETRY p as_of key reason) \<longleftrightarrow>
      principal_is_authorized p \<and> operation_is_recoverable op as_of
      \<and> \<not> has_exhausted_async_attempts op)"
  using classify_retryable_iff classify_leased_iff retry_allowed_iff by metis

text \<open>
  Quarantine is authorised, final and harmless to the row: it writes only for an authorised
  operator and a row that is neither leased nor terminal; afterwards the row is quarantined,
  well formed if it was, never recoverable again, and the attempt loop leaves it alone.
\<close>

theorem quarantine_is_final:
  assumes "get_operation oid R = Some op" and "op_operation_id op = oid"
    and "quarantine_controlled_operation rt oid p as_of t key reason R = (Inr d, R')" and "R' \<noteq> R"
  shows "principal_is_authorized p
     \<and> classify_async_operation_for_control op as_of
         \<in> {CT_PENDING, CT_RECOVERABLE_STUCK, CT_RETRY_EXHAUSTED}
     \<and> (\<exists>op'. get_operation oid R' = Some op' \<and> is_quarantined op' \<and> (op_wf op \<longrightarrow> op_wf op')
          \<and> \<not> operation_is_recoverable op' later)
     \<and> run_async_operation_until_terminal ex clock oid R' = Some R'"
proof -
  let ?d = "evaluate_async_operation_control rt op CA_QUARANTINE p as_of key reason"
  let ?op = "quarantined_row op ?d t"
  have act: "cd_allowed ?d" "\<not> is_quarantined op" and R': "R' = update_operation ?op R"
    using assms(3,4) by (auto simp: quarantine_command_eq [OF assms(1)] Let_def split: if_splits)
  have row: "get_operation oid R' = Some ?op"
    using assms(2) by (simp add: R' operation_store.get_put)
  have "op_status ?op \<in> set async_terminal_statuses" by (rule quarantined_terminal) simp
  then have "run_async_operation_until_terminal ex clock oid R' = Some R'"
    using row by (intro run_until_terminal_skips)
  moreover have "\<not> operation_is_recoverable ?op later" by (rule quarantined_not_recoverable) simp
  moreover have "classify_async_operation_for_control op as_of \<noteq> CT_QUARANTINED"
    using act(2) by (simp add: classify_quarantined_iff)
  ultimately show ?thesis
    using act(1) row op_wf_quarantined_row [of op ?d t] by (auto simp: quarantine_decision)
qed

definition demo_operator :: control_principal where
  "demo_operator = \<lparr>cp_actor_id = ''ops'', cp_role = ''operations'', cp_tenant_id = ''t'',
     cp_legal_entity_code = ''SG'', cp_service_identity = ''svc'',
     cp_capabilities = [''advisory.proposals.async_operations.control''],
     cp_principal_status = PN_ACTIVE\<rparr>"

theorem quarantine_is_final_witness:
  "\<exists>d R' op'. quarantine_controlled_operation demo_runtime ''op'' demo_operator 5 6 ''kq'' ''stuck''
        demo_operations = (Inr d, R')
     \<and> get_operation ''op'' R' = Some op' \<and> is_quarantined op' \<and> \<not> operation_is_recoverable op' 99"
proof -
  let ?run = "quarantine_controlled_operation demo_runtime ''op'' demo_operator 5 6 ''kq'' ''stuck''
      demo_operations"
  have row: "get_operation ''op'' demo_operations = Some demo_operation"
    and oid: "op_operation_id demo_operation = ''op''"
    by (simp_all add: demo_operations_row demo_operation_def build_create_proposal_async_operation_def)
  have "\<not> isl (fst ?run)" by code_simp
  then obtain d R' where run: "?run = (Inr d, R')"
    by (metis isl_def prod.collapse sum.exhaust)
  have "map_option op_status (get_operation ''op'' (snd ?run)) = Some AS_FAILED" by code_simp
  moreover have "op_status demo_operation = AS_PENDING"
    by (simp add: demo_operation_def build_create_proposal_async_operation_def)
  ultimately have "R' \<noteq> demo_operations" using run row by auto
  from quarantine_is_final [OF row oid run this, of 99] run show ?thesis by auto
qed

end
