(* ===== verification/Repository_Ideas.thy ===== *)
theory Repository_Ideas
  imports Repository
begin

text \<open>
  Idea intakes and their realizations in the in-memory repository
  (\<open>infrastructure/proposals/in_memory.py\<close>): a retained idempotency claim per intake, one
  realization per conversion intent and an append-only outcome stream advanced by
  compare-and-set.
\<close>

subsection \<open>Claiming an intake\<close>

definition purge_expired_idea_proposal_intakes ::
  "datetime \<Rightarrow> (string, idea_intake) dict \<Rightarrow> (string, idea_intake) dict" where
  "purge_expired_idea_proposal_intakes as_of records =
     filter (\<lambda>(k, stored). \<not> (\<not> ii_legal_hold stored \<and> ii_expires_at_utc stored \<le> as_of)) records"

definition same_idea_realization_outcome :: "outcome \<Rightarrow> outcome \<Rightarrow> bool" where
  "same_idea_realization_outcome a b \<longleftrightarrow>
     oc_outcome_id a = oc_outcome_id b \<and> oc_realization_id a = oc_realization_id b
     \<and> oc_source_event_version a = oc_source_event_version b \<and> oc_status a = oc_status b
     \<and> oc_reason_code a = oc_reason_code b \<and> oc_review_work_id a = oc_review_work_id b
     \<and> oc_proposal_id a = oc_proposal_id b \<and> oc_terminal a = oc_terminal b"

definition existing_idea_intake_or_conflict ::
  "idea_intake \<Rightarrow> repository \<Rightarrow> error + idea_intake option" where
  "existing_idea_intake_or_conflict q R =
     (case dict_get (rp_idea_proposal_intakes R) (ii_registry_key q) of
        None \<Rightarrow> Inr None
      | Some existing \<Rightarrow>
          if ii_request_fingerprint existing \<noteq> ii_request_fingerprint q
          then Inl (IdempotencyConflictError ''IDEA_PROPOSAL_INTAKE_IDEMPOTENCY_CONFLICT'')
          else Inr (Some existing))"

definition validate_idea_realization :: "realization \<Rightarrow> repository \<Rightarrow> error + unit" where
  "validate_idea_realization q R =
     (case dict_get (rp_idea_proposal_realizations R) (rz_realization_id q) of
        None \<Rightarrow> Inr ()
      | Some existing \<Rightarrow>
          if realization_claim_identity existing \<noteq> realization_claim_identity q
          then Inl (IdempotencyConflictError ''IDEA_PROPOSAL_REALIZATION_CONFLICT'') else Inr ())"

fun initial_outcome_conflicts :: "outcome \<Rightarrow> outcome list \<Rightarrow> bool" where
  "initial_outcome_conflicts q [] = False"
| "initial_outcome_conflicts q (stored # rest) =
     (if oc_source_event_version stored \<noteq> oc_source_event_version q
      then initial_outcome_conflicts q rest
      else \<not> same_idea_realization_outcome stored q)"

definition validate_initial_idea_outcome :: "outcome \<Rightarrow> repository \<Rightarrow> error + unit" where
  "validate_initial_idea_outcome q R =
     (if initial_outcome_conflicts q
           (dict_list (rp_idea_proposal_realization_outcomes R) (oc_realization_id q))
      then Inl (IdempotencyConflictError ''IDEA_PROPOSAL_REALIZATION_CONFLICT'') else Inr ())"

definition intake_scope_key :: "realization \<Rightarrow> scope_key" where
  "intake_scope_key r =
     (rz_tenant_id r, rz_legal_entity_code r, rz_portfolio_id r, rz_intake_id r)"

definition conversion_scope_key :: "realization \<Rightarrow> scope_key" where
  "conversion_scope_key r =
     (rz_tenant_id r, rz_legal_entity_code r, rz_portfolio_id r, rz_conversion_intent_id r)"

definition store_realization_if_absent :: "realization \<Rightarrow> repository \<Rightarrow> repository" where
  "store_realization_if_absent r R =
     (if dict_has (rp_idea_proposal_realizations R) (rz_realization_id r) then R
      else R\<lparr>
        rp_idea_proposal_realizations :=
          dict_set (rz_realization_id r) r (rp_idea_proposal_realizations R),
        rp_idea_realization_by_intake :=
          dict_set (intake_scope_key r) (rz_realization_id r) (rp_idea_realization_by_intake R),
        rp_idea_realization_by_conversion_intent :=
          dict_set (conversion_scope_key r) (rz_realization_id r)
            (rp_idea_realization_by_conversion_intent R)\<rparr>)"

definition store_initial_outcome_if_absent :: "outcome \<Rightarrow> repository \<Rightarrow> repository" where
  "store_initial_outcome_if_absent oc R =
     (let outcomes = dict_list (rp_idea_proposal_realization_outcomes R) (oc_realization_id oc) in
      R\<lparr>rp_idea_proposal_realization_outcomes := dict_set (oc_realization_id oc)
          (if list_ex (\<lambda>s. oc_source_event_version s = oc_source_event_version oc) outcomes
           then outcomes else outcomes @ [oc])
          (rp_idea_proposal_realization_outcomes R)\<rparr>)"

definition store_idea_realization_claim :: "idea_intake \<Rightarrow> repository \<Rightarrow> repository" where
  "store_idea_realization_claim q R =
     store_initial_outcome_if_absent (ii_initial_outcome q)
       (store_realization_if_absent (ii_realization q) R)"

text \<open>
  The purge takes effect even when the claim is then refused.  The subscript
  \<open>self._idea_proposal_realizations[...]\<close> reads the row the line before stored or found.
\<close>

definition claim_idea_proposal_intake ::
  "idea_intake \<Rightarrow> repository \<Rightarrow> (error + idea_intake_claim) \<times> repository" where
  "claim_idea_proposal_intake q R =
     (let R0 = R\<lparr>rp_idea_proposal_intakes := purge_expired_idea_proposal_intakes
                   (ii_created_at_utc q) (rp_idea_proposal_intakes R)\<rparr> in
      case existing_idea_intake_or_conflict q R0 of
        Inl e \<Rightarrow> (Inl e, R0)
      | Inr existing \<Rightarrow>
     (case validate_idea_realization (ii_realization q) R0 of
        Inl e \<Rightarrow> (Inl e, R0)
      | Inr _ \<Rightarrow>
     (case validate_initial_idea_outcome (ii_initial_outcome q) R0 of
        Inl e \<Rightarrow> (Inl e, R0)
      | Inr _ \<Rightarrow>
     (let kept = (case existing of None \<Rightarrow> q | Some i \<Rightarrow> i);
          R1 = (if existing = None
                then R0\<lparr>rp_idea_proposal_intakes :=
                       dict_set (ii_registry_key q) q (rp_idea_proposal_intakes R0)\<rparr> else R0);
          R2 = store_idea_realization_claim kept R1
      in case dict_get (rp_idea_proposal_realizations R2) (rz_realization_id (ii_realization kept)) of
           None \<Rightarrow> (Inl (KeyError (py_repr_string (rz_realization_id (ii_realization kept)))), R2)
         | Some current \<Rightarrow>
             (Inr \<lparr>ic_record = kept\<lparr>ii_realization := current\<rparr>, ic_replayed = (existing \<noteq> None)\<rparr>,
              R2)))))"

subsection \<open>Histories\<close>

definition idea_realization_history :: "string option \<Rightarrow> repository \<Rightarrow> realization_history option" where
  "idea_realization_history rid R = (case rid of
      None \<Rightarrow> None
    | Some r \<Rightarrow> (case dict_get (rp_idea_proposal_realizations R) r of
        None \<Rightarrow> None
      | Some realization \<Rightarrow> Some
          \<lparr>rh_realization = realization,
           rh_outcomes = sort_key oc_source_event_version
             (dict_list (rp_idea_proposal_realization_outcomes R) r)\<rparr>))"

definition get_idea_proposal_realization ::
  "string \<Rightarrow> string \<Rightarrow> string \<Rightarrow> string \<Rightarrow> repository \<Rightarrow> realization_history option" where
  "get_idea_proposal_realization intake_id tenant_id legal_entity_code portfolio_id R =
     idea_realization_history (dict_get (rp_idea_realization_by_intake R)
       (tenant_id, legal_entity_code, portfolio_id, intake_id)) R"

definition get_idea_proposal_realization_by_conversion_intent ::
  "string \<Rightarrow> string \<Rightarrow> string \<Rightarrow> string \<Rightarrow> repository \<Rightarrow> realization_history option" where
  "get_idea_proposal_realization_by_conversion_intent intent tenant_id legal_entity_code portfolio_id R =
     idea_realization_history (dict_get (rp_idea_realization_by_conversion_intent R)
       (tenant_id, legal_entity_code, portfolio_id, intent)) R"

subsection \<open>Advancing a realization\<close>

definition proposal_for_idea_realization ::
  "realization \<Rightarrow> repository \<Rightarrow> error + proposal option" where
  "proposal_for_idea_realization r R = (case rz_proposal_id r of
      None \<Rightarrow> Inr None
    | Some pid \<Rightarrow>
        (case dict_get (rp_idea_realization_by_proposal R) pid of
           Some owner \<Rightarrow>
             if owner \<noteq> rz_realization_id r
             then Inl (StateConflictError ''IDEA_PROPOSAL_REALIZATION_PROPOSAL_CONFLICT'')
             else Inr (dict_get (rp_proposals R) pid)
         | None \<Rightarrow> Inr (dict_get (rp_proposals R) pid)))"

definition validate_idea_realization_progression ::
  "realization option \<Rightarrow> int \<Rightarrow> realization \<Rightarrow> outcome list \<Rightarrow> proposal option \<Rightarrow> error + unit" where
  "validate_idea_realization_progression current expected r outcomes proposal =
     (case current of
        None \<Rightarrow> Inl (StateConflictError ''IDEA_PROPOSAL_REALIZATION_VERSION_CONFLICT'')
      | Some c \<Rightarrow>
          (case validate_realization_progression (rz_current_source_event_version c) expected r
                  outcomes of
             Inl e \<Rightarrow> Inl e
           | Inr _ \<Rightarrow>
               (case proposal of
                  None \<Rightarrow> Inl (StateConflictError ''IDEA_PROPOSAL_REALIZATION_PROPOSAL_INVALID'')
                | Some p \<Rightarrow>
                    if pr_portfolio_id p \<noteq> rz_portfolio_id r \<or> pr_created_at p < rz_created_at_utc r
                    then Inl (StateConflictError ''IDEA_PROPOSAL_REALIZATION_PROPOSAL_INVALID'')
                    else Inr ())))"

definition record_idea_realization_proposal_owner :: "realization \<Rightarrow> repository \<Rightarrow> repository" where
  "record_idea_realization_proposal_owner r R = (case rz_proposal_id r of
      None \<Rightarrow> R
    | Some pid \<Rightarrow> R\<lparr>rp_idea_realization_by_proposal :=
        dict_set pid (rz_realization_id r) (rp_idea_realization_by_proposal R)\<rparr>)"

definition write_realization :: "realization \<Rightarrow> outcome list \<Rightarrow> repository \<Rightarrow> repository" where
  "write_realization r outcomes R = record_idea_realization_proposal_owner r (R\<lparr>
     rp_idea_proposal_realization_outcomes := dict_set (rz_realization_id r)
       (dict_list (rp_idea_proposal_realization_outcomes R) (rz_realization_id r) @ outcomes)
       (rp_idea_proposal_realization_outcomes R),
     rp_idea_proposal_realizations :=
       dict_set (rz_realization_id r) r (rp_idea_proposal_realizations R)\<rparr>)"

definition advance_idea_proposal_realization ::
  "int \<Rightarrow> realization \<Rightarrow> outcome list \<Rightarrow> repository
     \<Rightarrow> (error + realization_history) \<times> repository" where
  "advance_idea_proposal_realization expected r outcomes R =
     (case proposal_for_idea_realization r R of
        Inl e \<Rightarrow> (Inl e, R)
      | Inr proposal \<Rightarrow>
          (case validate_idea_realization_progression
                  (dict_get (rp_idea_proposal_realizations R) (rz_realization_id r))
                  expected r outcomes proposal of
             Inl e \<Rightarrow> (Inl e, R)
           | Inr _ \<Rightarrow>
               (Inr \<lparr>rh_realization = r,
                     rh_outcomes = dict_list (rp_idea_proposal_realization_outcomes R)
                       (rz_realization_id r) @ outcomes\<rparr>,
                write_realization r outcomes R)))"

subsection \<open>Reading the realization side\<close>

definition realization_of :: "string \<Rightarrow> repository \<Rightarrow> realization option" where
  "realization_of rid R = dict_get (rp_idea_proposal_realizations R) rid"

definition outcomes_of :: "string \<Rightarrow> repository \<Rightarrow> outcome list" where
  "outcomes_of rid R = dict_list (rp_idea_proposal_realization_outcomes R) rid"

definition owner_of :: "string \<Rightarrow> repository \<Rightarrow> string option" where
  "owner_of pid R = dict_get (rp_idea_realization_by_proposal R) pid"

definition intake_of :: "string \<Rightarrow> repository \<Rightarrow> idea_intake option" where
  "intake_of key R = dict_get (rp_idea_proposal_intakes R) key"

lemma write_realization_simps [simp]:
  "realization_of k (write_realization r ocs R)
     = (if k = rz_realization_id r then Some r else realization_of k R)"
  "outcomes_of k (write_realization r ocs R)
     = (if k = rz_realization_id r then outcomes_of k R @ ocs else outcomes_of k R)"
  "owner_of pid (write_realization r ocs R)
     = (if rz_proposal_id r = Some pid then Some (rz_realization_id r) else owner_of pid R)"
  "get_proposal pid (write_realization r ocs R) = get_proposal pid R"
  "list_events pid (write_realization r ocs R) = list_events pid R"
  by (auto simp: write_realization_def record_idea_realization_proposal_owner_def realization_of_def
      outcomes_of_def owner_of_def dict_list_def get_proposal_def list_events_def
      split: option.splits)

text \<open>The advance is a compare-and-set: this is exactly when it succeeds.\<close>

definition advance_allowed :: "int \<Rightarrow> realization \<Rightarrow> outcome list \<Rightarrow> repository \<Rightarrow> bool" where
  "advance_allowed expected r outcomes R \<longleftrightarrow>
     (\<exists>c pid p. realization_of (rz_realization_id r) R = Some c
        \<and> rz_current_source_event_version c = expected
        \<and> rz_current_source_event_version r = expected + int (length outcomes)
        \<and> outcomes_match_from (rz_realization_id r) (expected + 1) outcomes
        \<and> rz_proposal_id r = Some pid
        \<and> owner_of pid R \<in> {None, Some (rz_realization_id r)}
        \<and> get_proposal pid R = Some p
        \<and> pr_portfolio_id p = rz_portfolio_id r \<and> rz_created_at_utc r \<le> pr_created_at p)"

lemma advance_cases:
  obtains (advanced) "advance_allowed v r ocs R"
      "advance_idea_proposal_realization v r ocs R =
         (Inr \<lparr>rh_realization = r, rh_outcomes = outcomes_of (rz_realization_id r) R @ ocs\<rparr>,
          write_realization r ocs R)"
    | (refused) m where "\<not> advance_allowed v r ocs R"
      "advance_idea_proposal_realization v r ocs R = (Inl (StateConflictError m), R)"
proof (cases "advance_allowed v r ocs R")
  case True
  then have "advance_idea_proposal_realization v r ocs R =
         (Inr \<lparr>rh_realization = r, rh_outcomes = outcomes_of (rz_realization_id r) R @ ocs\<rparr>,
          write_realization r ocs R)"
    by (auto simp: advance_allowed_def advance_idea_proposal_realization_def
        proposal_for_idea_realization_def validate_idea_realization_progression_def
        validate_realization_progression_def realization_of_def outcomes_of_def owner_of_def
        get_proposal_def split: option.splits)
  with True show thesis by (rule advanced)
next
  case False
  have "\<exists>m. advance_idea_proposal_realization v r ocs R = (Inl (StateConflictError m), R)"
  proof (cases "rz_proposal_id r")
    case None
    then show ?thesis
      by (auto simp: advance_idea_proposal_realization_def proposal_for_idea_realization_def
          validate_idea_realization_progression_def validate_realization_progression_def
          split: option.splits)
  next
    case (Some pid)
    with False show ?thesis
      by (auto simp: advance_allowed_def advance_idea_proposal_realization_def
          proposal_for_idea_realization_def validate_idea_realization_progression_def
          validate_realization_progression_def realization_of_def owner_of_def
          get_proposal_def not_less split: option.splits)
  qed
  with False show thesis using refused by blast
qed

subsection \<open>The outcome stream\<close>

text \<open>
  Outcome versions run \<open>1, 2, \<dots>\<close> without gaps, the realization carries the last one, and a
  retained intake always begins its realization's stream.
\<close>

definition contiguous :: "outcome list \<Rightarrow> bool" where
  "contiguous ocs \<longleftrightarrow> map oc_source_event_version ocs = map (\<lambda>i. 1 + int i) [0..<length ocs]"

definition wf_intake :: "idea_intake \<Rightarrow> bool" where
  "wf_intake i \<longleftrightarrow> oc_source_event_version (ii_initial_outcome i) = 1
     \<and> rz_current_source_event_version (ii_realization i) = 1
     \<and> rz_proposal_id (ii_realization i) = None
     \<and> oc_realization_id (ii_initial_outcome i) = rz_realization_id (ii_realization i)"

definition realization_ok :: "realization option \<Rightarrow> outcome list \<Rightarrow> string \<Rightarrow> bool" where
  "realization_ok r ocs k \<longleftrightarrow> contiguous ocs \<and> (\<forall>oc\<in>set ocs. oc_realization_id oc = k)
     \<and> (case r of
          None \<Rightarrow> ocs = []
        | Some x \<Rightarrow> rz_realization_id x = k \<and> ocs \<noteq> []
                     \<and> rz_current_source_event_version x = int (length ocs))"

definition ideas_ok :: "repository \<Rightarrow> bool" where
  "ideas_ok R \<longleftrightarrow>
     (\<forall>k. realization_ok (realization_of k R) (outcomes_of k R) k)
     \<and> (\<forall>key i. intake_of key R = Some i \<longrightarrow> wf_intake i \<and> ii_registry_key i = key)
     \<and> dict_wf (rp_idea_proposal_intakes R)"

lemma contiguous_append:
  assumes "contiguous xs" and "outcomes_match_from rid (int (length xs) + 1) ys"
  shows "contiguous (xs @ ys)"
proof -
  have "map (\<lambda>i. 1 + int i) [0..<length (xs @ ys)] =
      map (\<lambda>i. 1 + int i) [0..<length xs] @ map (\<lambda>i. 1 + int (i + length xs)) [0..<length ys]"
    by (rule nth_equalityI) (auto simp: nth_append)
  then show ?thesis
    using assms by (simp add: contiguous_def outcomes_match_from_iff add.commute add.left_commute)
qed

lemma realization_ok_append:
  assumes "realization_ok (Some c) ocs k" and "rz_realization_id r = k"
    and "rz_current_source_event_version c = v"
    and "rz_current_source_event_version r = v + int (length new)"
    and "outcomes_match_from k (v + 1) new"
  shows "realization_ok (Some r) (ocs @ new) k"
  using assms contiguous_append [of ocs k new]
  by (auto simp: realization_ok_def outcomes_match_from_iff)

lemma ideas_ok_advance:
  assumes "ideas_ok R"
  shows "ideas_ok (snd (advance_idea_proposal_realization v r ocs R))"
proof (cases rule: advance_cases [of v r ocs R])
  case advanced
  then obtain c where c: "realization_of (rz_realization_id r) R = Some c"
    "rz_current_source_event_version c = v"
    "rz_current_source_event_version r = v + int (length ocs)"
    "outcomes_match_from (rz_realization_id r) (v + 1) ocs"
    by (auto simp: advance_allowed_def)
  let ?k = "rz_realization_id r" and ?R = "write_realization r ocs R"
  have "realization_ok (Some c) (outcomes_of ?k R) ?k"
    using assms c(1) by (auto simp: ideas_ok_def dest: spec [of _ ?k])
  from realization_ok_append [OF this refl c(2,3,4)]
  have "\<forall>k. realization_ok (realization_of k ?R) (outcomes_of k ?R) k"
    using assms by (simp add: ideas_ok_def)
  moreover have "rp_idea_proposal_intakes ?R = rp_idea_proposal_intakes R"
    by (simp add: write_realization_def record_idea_realization_proposal_owner_def split: option.splits)
  ultimately show ?thesis
    using advanced(2) assms by (simp add: ideas_ok_def intake_of_def)
next
  case (refused m)
  with assms show ?thesis by simp
qed

subsection \<open>Claims keep the stream\<close>

lemma intake_of_purge:
  assumes "dict_wf (rp_idea_proposal_intakes R)"
  shows "dict_get (purge_expired_idea_proposal_intakes now (rp_idea_proposal_intakes R)) key =
     (case intake_of key R of
        None \<Rightarrow> None
      | Some i \<Rightarrow> if ii_legal_hold i \<or> now < ii_expires_at_utc i then Some i else None)"
proof -
  have "dict_get (filter P d) key = (case dict_get d key of None \<Rightarrow> None
      | Some i \<Rightarrow> if P (key, i) then Some i else None)"
    if "dict_wf d" for P and d :: "(string, idea_intake) dict"
    using that by (induction d) (auto simp: dict_wf_def map_of_eq_None_iff split: option.splits)
  from this [OF assms] show ?thesis
    by (simp add: purge_expired_idea_proposal_intakes_def intake_of_def not_le split: option.splits)
qed

lemma dict_wf_purge: "dict_wf d \<Longrightarrow> dict_wf (purge_expired_idea_proposal_intakes now d)"
  by (simp add: dict_wf_def purge_expired_idea_proposal_intakes_def distinct_map_filter)

lemma store_claim_simps:
  assumes "wf_intake q"
  shows "realization_of k (store_idea_realization_claim q R) =
      (if k = rz_realization_id (ii_realization q) \<and> realization_of k R = None
       then Some (ii_realization q) else realization_of k R)"
    and "outcomes_of k (store_idea_realization_claim q R) =
      (if k = rz_realization_id (ii_realization q)
          \<and> \<not> (\<exists>oc\<in>set (outcomes_of k R). oc_source_event_version oc = 1)
       then outcomes_of k R @ [ii_initial_outcome q] else outcomes_of k R)"
    and "rp_idea_proposal_intakes (store_idea_realization_claim q R) = rp_idea_proposal_intakes R"
  using assms
  by (auto simp: wf_intake_def store_idea_realization_claim_def store_realization_if_absent_def
      store_initial_outcome_if_absent_def realization_of_def outcomes_of_def dict_has_def
      dict_list_def list_ex_iff Let_def)

lemma contiguous_has_first:
  assumes "contiguous ocs" and "ocs \<noteq> []"
  shows "\<exists>oc\<in>set ocs. oc_source_event_version oc = 1"
proof -
  obtain x xs where "ocs = x # xs" using assms(2) by (cases ocs) auto
  with assms(1) have "oc_source_event_version x = 1"
    by (simp add: contiguous_def upt_conv_Cons del: upt_Suc)
  with \<open>ocs = x # xs\<close> show ?thesis by simp
qed

lemma realizations_ok_store_claim:
  assumes "\<forall>k. realization_ok (realization_of k R) (outcomes_of k R) k" and "wf_intake q"
  shows "realization_ok (realization_of k (store_idea_realization_claim q R))
           (outcomes_of k (store_idea_realization_claim q R)) k"
proof (cases "k = rz_realization_id (ii_realization q)")
  case True
  have ok: "realization_ok (realization_of k R) (outcomes_of k R) k" using assms(1) by blast
  show ?thesis
  proof (cases "realization_of k R")
    case None
    with ok have "outcomes_of k R = []" by (simp add: realization_ok_def)
    with None True assms(2) show ?thesis
      by (auto simp: store_claim_simps [OF assms(2)] realization_ok_def contiguous_def wf_intake_def)
  next
    case (Some r)
    with ok contiguous_has_first [of "outcomes_of k R"] show ?thesis
      by (auto simp: store_claim_simps [OF assms(2)] realization_ok_def)
  qed
qed (use assms in \<open>simp add: store_claim_simps [OF assms(2)]\<close>)

lemma ideas_ok_purged:
  assumes "ideas_ok R"
  shows "ideas_ok (R\<lparr>rp_idea_proposal_intakes :=
     purge_expired_idea_proposal_intakes now (rp_idea_proposal_intakes R)\<rparr>)"
  using assms intake_of_purge [of R now] dict_wf_purge
  by (auto simp: ideas_ok_def intake_of_def realization_of_def outcomes_of_def
      split: option.splits if_splits)

lemma ideas_ok_claim:
  assumes ok: "ideas_ok R" and wf: "wf_intake q"
  shows "ideas_ok (snd (claim_idea_proposal_intake q R))"
proof -
  let ?R0 = "R\<lparr>rp_idea_proposal_intakes := purge_expired_idea_proposal_intakes
      (ii_created_at_utc q) (rp_idea_proposal_intakes R)\<rparr>"
  have R0: "ideas_ok ?R0" using ok by (rule ideas_ok_purged)
  have fresh: "ideas_ok (?R0\<lparr>rp_idea_proposal_intakes := dict_set (ii_registry_key q) q
      (rp_idea_proposal_intakes ?R0)\<rparr>)"
    using R0 wf by (auto simp: ideas_ok_def intake_of_def realization_of_def outcomes_of_def)
  have store: "ideas_ok (store_idea_realization_claim i S)" if "ideas_ok S" "wf_intake i" for i S
    using that realizations_ok_store_claim [of S i] store_claim_simps(3) [of i S]
    by (simp add: ideas_ok_def intake_of_def)
  show ?thesis
  proof (cases "dict_get (rp_idea_proposal_intakes ?R0) (ii_registry_key q)")
    case None
    then have "existing_idea_intake_or_conflict q ?R0 = Inr None"
      by (simp add: existing_idea_intake_or_conflict_def)
    with R0 store [OF fresh wf] show ?thesis
      by (auto simp: claim_idea_proposal_intake_def Let_def split: sum.splits option.splits)
  next
    case (Some i)
    then have "wf_intake i" using R0 by (auto simp: ideas_ok_def intake_of_def)
    with R0 store [OF R0] Some show ?thesis
      by (auto simp: claim_idea_proposal_intake_def existing_idea_intake_or_conflict_def Let_def
          split: sum.splits option.splits)
  qed
qed

text \<open>A legal hold keeps a claim past its retention; without one it lapses at its expiry.\<close>

lemma claim_keeps_held_intake:
  assumes "ideas_ok R" and "intake_of key R = Some i"
    and "ii_legal_hold i \<or> ii_created_at_utc q < ii_expires_at_utc i"
  shows "intake_of key (snd (claim_idea_proposal_intake q R)) = Some i"
proof -
  let ?R0 = "R\<lparr>rp_idea_proposal_intakes := purge_expired_idea_proposal_intakes
      (ii_created_at_utc q) (rp_idea_proposal_intakes R)\<rparr>"
  have kept: "dict_get (rp_idea_proposal_intakes ?R0) key = Some i"
    using assms intake_of_purge [of R "ii_created_at_utc q" key] by (simp add: ideas_ok_def)
  have store: "rp_idea_proposal_intakes (store_idea_realization_claim j S) = rp_idea_proposal_intakes S"
    for j S
    by (simp add: store_idea_realization_claim_def store_realization_if_absent_def
        store_initial_outcome_if_absent_def Let_def)
  show ?thesis
    using kept
    by (auto simp: claim_idea_proposal_intake_def existing_idea_intake_or_conflict_def Let_def
        intake_of_def store split: sum.splits option.splits if_splits)
qed

text \<open>Claims and advances touch the idea side only.\<close>

lemma claim_leaves_proposals:
  "rp_proposals (snd (claim_idea_proposal_intake q R)) = rp_proposals R"
  "rp_versions (snd (claim_idea_proposal_intake q R)) = rp_versions R"
  "rp_events (snd (claim_idea_proposal_intake q R)) = rp_events R"
  "rp_approvals (snd (claim_idea_proposal_intake q R)) = rp_approvals R"
  by (simp_all add: claim_idea_proposal_intake_def store_idea_realization_claim_def
      store_realization_if_absent_def store_initial_outcome_if_absent_def Let_def
      split: sum.splits option.splits)

lemma proposals_keyed_cong:
  assumes "rp_proposals R' = rp_proposals R" and "rp_versions R' = rp_versions R"
    and "rp_events R' = rp_events R" and "rp_approvals R' = rp_approvals R"
  shows "proposals_keyed R' \<longleftrightarrow> proposals_keyed R"
  using assms
  by (simp add: proposals_keyed_def get_proposal_def get_version_def list_events_def list_approvals_def)

lemma proposals_keyed_claim:
  "proposals_keyed (snd (claim_idea_proposal_intake q R)) \<longleftrightarrow> proposals_keyed R"
  by (rule proposals_keyed_cong) (rule claim_leaves_proposals)+

end
