(* ===== verification/Idea_Realizations.thy ===== *)
theory Idea_Realizations
  imports Repository_Ideas
begin

text \<open>
  Intake of reviewed ideas and reconciliation of their realizations with proposals:
  \<open>idea_intake_authority.py\<close>, the identity and record building of
  \<open>idea_proposal_intake.py\<close> and the command of \<open>idea_realization_commands.py\<close>.  The
  serialised receipt (\<open>response_json\<close>) is an argument; the realization view copies fields.
\<close>

subsection \<open>Requests and principals\<close>

datatype intent_type = IT_REVIEW_FOR_ADVISORY_PROPOSAL | IT_CREATE_ADVISORY_PROPOSAL_DRAFT

primrec intent_type_str :: "intent_type \<Rightarrow> string" where
  "intent_type_str IT_REVIEW_FOR_ADVISORY_PROPOSAL = ''REVIEW_FOR_ADVISORY_PROPOSAL''"
| "intent_type_str IT_CREATE_ADVISORY_PROPOSAL_DRAFT = ''CREATE_ADVISORY_PROPOSAL_DRAFT''"

record idea_source_ref =
  sf_source_system :: string
  sf_source_type :: string
  sf_source_id :: string
  sf_content_hash :: "string option"

record intake_request =
  iq_source_system :: string
  iq_source_product :: string
  iq_idea_candidate_id :: string
  iq_conversion_intent_id :: string
  iq_intent_type :: intent_type
  iq_portfolio_id :: string
  iq_source_refs :: "idea_source_ref list"

record intake_principal =
  ip_actor_id :: string
  ip_role :: string
  ip_tenant_id :: string
  ip_legal_entity_code :: string
  ip_correlation_id :: string
  ip_service_identity :: string
  ip_authorized_portfolio_id :: "string option"

definition intake_accept_capability :: string where
  "intake_accept_capability = ''advisory.idea_proposal_intake.accept''"

definition audit_metadata :: "intake_principal \<Rightarrow> string \<Rightarrow> jobject" where
  "audit_metadata p capability =
     [(''subject'', JStr (ip_actor_id p)),
      (''role'', JStr (ip_role p)),
      (''tenant_id'', JStr (ip_tenant_id p)),
      (''legal_entity_code'', JStr (ip_legal_entity_code p)),
      (''correlation_id'', JStr (ip_correlation_id p)),
      (''service_identity'', JStr (ip_service_identity p)),
      (''capability'', JStr capability)]
     @ (case ip_authorized_portfolio_id p of
          None \<Rightarrow> [] | Some pf \<Rightarrow> [(''authorized_portfolio_id'', JStr pf)])"

definition trusted_scope :: "intake_principal \<Rightarrow> string \<Rightarrow> jobject" where
  "trusted_scope p correlation_id =
     dict_set ''correlation_id'' (JStr correlation_id) (audit_metadata p intake_accept_capability)"

subsection \<open>Deterministic identities\<close>

definition dump_source_ref :: "idea_source_ref \<Rightarrow> json" where
  "dump_source_ref r = JObj
     [(''source_system'', JStr (sf_source_system r)),
      (''source_type'', JStr (sf_source_type r)),
      (''source_id'', JStr (sf_source_id r)),
      (''content_hash'', json_opt JStr (sf_content_hash r))]"

definition source_ref_key :: "idea_source_ref \<Rightarrow> string \<times> string \<times> string \<times> string" where
  "source_ref_key r = (sf_source_system r, sf_source_type r, sf_source_id r,
     (case sf_content_hash r of None \<Rightarrow> [] | Some h \<Rightarrow> h))"

definition source_refs_fingerprint :: "runtime \<Rightarrow> idea_source_ref list \<Rightarrow> string" where
  "source_refs_fingerprint rt refs =
     rt_sha256 rt (canonical_json (JList (map dump_source_ref (sort_key source_ref_key refs))))"

definition request_fingerprint :: "runtime \<Rightarrow> intake_request \<Rightarrow> string \<Rightarrow> string" where
  "request_fingerprint rt q refs_fingerprint =
     ''sha256:'' @ take 12 (rt_sha256 rt (canonical_json (JObj
       [(''source_system'', JStr (iq_source_system q)),
        (''source_product'', JStr (iq_source_product q)),
        (''idea_candidate_id'', JStr (iq_idea_candidate_id q)),
        (''conversion_intent_id'', JStr (iq_conversion_intent_id q)),
        (''intent_type'', JStr (intent_type_str (iq_intent_type q))),
        (''portfolio_id'', JStr (iq_portfolio_id q)),
        (''source_refs_fingerprint'', JStr refs_fingerprint)])))"

definition full_key_digest :: "runtime \<Rightarrow> string \<Rightarrow> string" where
  "full_key_digest rt key = ''sha256:'' @ rt_sha256 rt (py_strip key)"

definition registry_key_of :: "runtime \<Rightarrow> string \<Rightarrow> jobject \<Rightarrow> string" where
  "registry_key_of rt key scope =
     rt_sha256 rt (canonical_json (JObj (map (\<lambda>k. (k, json_get scope k))
       [''tenant_id'', ''legal_entity_code'', ''service_identity'', ''subject'', ''capability''])))
     @ '':'' @ full_key_digest rt key"

definition intake_id_of :: "runtime \<Rightarrow> intake_request \<Rightarrow> string \<Rightarrow> string" where
  "intake_id_of rt q refs_fingerprint = ''ipi_'' @ take 12 (rt_sha256 rt
     (join ''|'' [iq_idea_candidate_id q, iq_conversion_intent_id q,
                  intent_type_str (iq_intent_type q), iq_portfolio_id q, refs_fingerprint]))"

definition realization_id_of :: "runtime \<Rightarrow> string \<Rightarrow> string \<Rightarrow> jobject \<Rightarrow> string" where
  "realization_id_of rt conversion_intent_id portfolio_id scope = ''ipr_'' @ take 12 (rt_sha256 rt
     (join ''|'' [py_str (json_get scope ''tenant_id''), py_str (json_get scope ''legal_entity_code''),
                  portfolio_id, conversion_intent_id]))"

definition review_work_id_of :: "runtime \<Rightarrow> string \<Rightarrow> string" where
  "review_work_id_of rt realization_id =
     ''iarw_'' @ take 12 (rt_sha256 rt (realization_id @ ''|review-work''))"

subsection \<open>The intake record and its claim\<close>

definition initial_realization_status :: "bool \<Rightarrow> realization_status" where
  "initial_realization_status accepted =
     (if accepted then RS_ACCEPTED_FOR_REVIEW else RS_REJECTED_BEFORE_WORK)"

definition build_realization_record ::
  "runtime \<Rightarrow> intake_request \<Rightarrow> jobject \<Rightarrow> datetime \<Rightarrow> realization" where
  "build_realization_record rt q scope created_at =
     (let fp = source_refs_fingerprint rt (iq_source_refs q);
          accepted = (iq_intent_type q = IT_REVIEW_FOR_ADVISORY_PROPOSAL);
          rid = realization_id_of rt (iq_conversion_intent_id q) (iq_portfolio_id q) scope
      in \<lparr>rz_realization_id = rid,
          rz_intake_id = intake_id_of rt q fp,
          rz_review_work_id = (if accepted then Some (review_work_id_of rt rid) else None),
          rz_review_work_status = (if accepted then Some RW_PENDING_ADVISER_REVIEW else None),
          rz_tenant_id = py_str (json_get scope ''tenant_id''),
          rz_legal_entity_code = py_str (json_get scope ''legal_entity_code''),
          rz_portfolio_id = iq_portfolio_id q,
          rz_idea_candidate_id = iq_idea_candidate_id q,
          rz_conversion_intent_id = iq_conversion_intent_id q,
          rz_source_evidence_fingerprint = ''sha256:'' @ fp,
          rz_current_status = initial_realization_status accepted,
          rz_current_source_event_version = 1,
          rz_created_at_utc = created_at,
          rz_updated_at_utc = created_at,
          rz_proposal_id = None\<rparr>)"

definition build_initial_realization_outcome :: "runtime \<Rightarrow> realization \<Rightarrow> datetime \<Rightarrow> outcome" where
  "build_initial_realization_outcome rt r occurred_at = \<lparr>
     oc_outcome_id = ''ipro_'' @ take 12 (rt_sha256 rt (rz_realization_id r @ ''|1'')),
     oc_realization_id = rz_realization_id r,
     oc_source_event_version = 1,
     oc_status = rz_current_status r,
     oc_reason_code =
       (if rz_review_work_id r \<noteq> None then ''idea_conversion_accepted_for_adviser_review''
        else ''idea_conversion_rejected_before_advisory_work''),
     oc_occurred_at_utc = occurred_at,
     oc_review_work_id = rz_review_work_id r,
     oc_proposal_id = None,
     oc_terminal = (rz_review_work_id r = None) \<rparr>"

definition build_intake_record ::
  "runtime \<Rightarrow> intake_request \<Rightarrow> string \<Rightarrow> jobject \<Rightarrow> string \<Rightarrow> datetime \<Rightarrow> idea_intake" where
  "build_intake_record rt q key scope response_json created_at =
     (let r = build_realization_record rt q scope created_at in
      \<lparr>ii_registry_key = registry_key_of rt key scope,
       ii_request_fingerprint =
         request_fingerprint rt q (source_refs_fingerprint rt (iq_source_refs q)),
       ii_response_json = response_json,
       ii_created_at_utc = created_at,
       ii_expires_at_utc = created_at + idea_proposal_intake_replay_retention,
       ii_realization = r,
       ii_initial_outcome = build_initial_realization_outcome rt r created_at,
       ii_legal_hold = False\<rparr>)"

text \<open>The claim of \<open>process_idea_proposal_intake\<close>; the receipt is rendered from it.\<close>

definition process_idea_proposal_intake ::
  "runtime \<Rightarrow> intake_request \<Rightarrow> string \<Rightarrow> string \<Rightarrow> intake_principal \<Rightarrow> string \<Rightarrow> datetime \<Rightarrow> repository
     \<Rightarrow> (error + idea_intake_claim) \<times> repository" where
  "process_idea_proposal_intake rt q correlation_id key who response_json received_at R =
     (case normalize_required_idempotency_key (Some key) of
        Inl e \<Rightarrow> (Inl (ValidationError (error_message e)), R)
      | Inr normalized_key \<Rightarrow>
          claim_idea_proposal_intake
            (build_intake_record rt q normalized_key (trusted_scope who correlation_id)
               response_json received_at) R)"

subsection \<open>Reconciling with a proposal\<close>

definition terminal_proposal_outcomes :: "(workflow_state, realization_status \<times> string) dict" where
  "terminal_proposal_outcomes =
     [(WS_REJECTED, (RS_ADVISORY_REJECTED, ''advise_proposal_rejected'')),
      (WS_CANCELLED, (RS_ADVISORY_CANCELLED, ''advise_proposal_cancelled'')),
      (WS_EXPIRED, (RS_ADVISORY_EXPIRED, ''advise_proposal_expired'')),
      (WS_EXECUTED, (RS_ADVISORY_COMPLETED, ''advise_proposal_workflow_completed''))]"

definition required_printable :: "string \<Rightarrow> string \<Rightarrow> error + string" where
  "required_printable v detail =
     (let normalized = py_strip v in
      if normalized = [] \<or> \<not> py_isprintable normalized then Inl (TransitionError detail)
      else Inr normalized)"

definition target_status :: "workflow_state \<Rightarrow> realization_status" where
  "target_status s = (case dict_get terminal_proposal_outcomes s of
      None \<Rightarrow> RS_PROPOSAL_LINKED | Some t \<Rightarrow> fst t)"

definition already_reconciled :: "realization \<Rightarrow> string \<Rightarrow> realization_status \<Rightarrow> bool" where
  "already_reconciled r proposal_id target \<longleftrightarrow>
     rz_proposal_id r = Some proposal_id \<and> rz_current_status r = target"

definition load_history ::
  "repository \<Rightarrow> string \<Rightarrow> string \<Rightarrow> intake_principal \<Rightarrow> error + realization_history" where
  "load_history R intake_id portfolio_id who =
     (case get_idea_proposal_realization intake_id (ip_tenant_id who)
             (ip_legal_entity_code who) portfolio_id R of
        None \<Rightarrow> Inl (NotFoundError ''IDEA_PROPOSAL_REALIZATION_NOT_FOUND'')
      | Some h \<Rightarrow> Inr h)"

definition load_reconciliation_context ::
  "repository \<Rightarrow> string \<Rightarrow> string \<Rightarrow> intake_principal \<Rightarrow> string
     \<Rightarrow> error + realization_history \<times> proposal" where
  "load_reconciliation_context R intake_id portfolio_id who proposal_id =
     (case load_history R intake_id portfolio_id who of
        Inl e \<Rightarrow> Inl e
      | Inr h \<Rightarrow>
          (case get_proposal proposal_id R of
             None \<Rightarrow> Inl (NotFoundError ''IDEA_PROPOSAL_RECONCILIATION_PROPOSAL_NOT_FOUND'')
           | Some p \<Rightarrow>
               if pr_portfolio_id p \<noteq> portfolio_id
               then Inl (NotFoundError ''IDEA_PROPOSAL_RECONCILIATION_PROPOSAL_NOT_FOUND'')
               else if pr_created_at p < rz_created_at_utc (rh_realization h)
               then Inl (TransitionError
                      ''IDEA_PROPOSAL_RECONCILIATION_PROPOSAL_PRECEDES_REVIEW_WORK'')
               else Inr (h, p)))"

definition validate_progression_request :: "realization \<Rightarrow> string \<Rightarrow> int \<Rightarrow> error + unit" where
  "validate_progression_request r proposal_id expected =
     (if rz_current_status r = RS_REJECTED_BEFORE_WORK
      then Inl (TransitionError ''IDEA_PROPOSAL_REALIZATION_REJECTED_BEFORE_WORK'')
      else if rz_proposal_id r \<notin> {None, Some proposal_id}
      then Inl (StateConflictError ''IDEA_PROPOSAL_REALIZATION_PROPOSAL_CONFLICT'')
      else if expected \<noteq> rz_current_source_event_version r
      then Inl (StateConflictError ''IDEA_PROPOSAL_REALIZATION_VERSION_CONFLICT'')
      else Inr ())"

definition build_outcome ::
  "runtime \<Rightarrow> realization \<Rightarrow> string \<Rightarrow> int \<Rightarrow> realization_status \<Rightarrow> string \<Rightarrow> datetime \<Rightarrow> bool \<Rightarrow> outcome" where
  "build_outcome rt r proposal_id version status reason_code occurred_at terminal = \<lparr>
     oc_outcome_id = ''ipro_'' @ take 12 (rt_sha256 rt
       (join ''|'' [rz_realization_id r, string_of_int version, realization_status_str status,
                    proposal_id])),
     oc_realization_id = rz_realization_id r,
     oc_source_event_version = version,
     oc_status = status,
     oc_reason_code = reason_code,
     oc_occurred_at_utc = occurred_at,
     oc_review_work_id = rz_review_work_id r,
     oc_proposal_id = Some proposal_id,
     oc_terminal = terminal \<rparr>"

definition build_progression ::
  "runtime \<Rightarrow> realization \<Rightarrow> string \<Rightarrow> workflow_state \<Rightarrow> datetime \<Rightarrow> realization \<times> outcome list" where
  "build_progression rt r proposal_id proposal_state occurred_at =
     (let v0 = rz_current_source_event_version r;
          v1 = (if rz_proposal_id r = None then v0 + 1 else v0);
          linked = (if rz_proposal_id r = None
                    then [build_outcome rt r proposal_id v1 RS_PROPOSAL_LINKED
                            ''advise_proposal_linked'' occurred_at False] else []);
          (v2, closing, work_status, status) =
            (case dict_get terminal_proposal_outcomes proposal_state of
               Some (st, reason_code) \<Rightarrow>
                 (v1 + 1, [build_outcome rt r proposal_id (v1 + 1) st reason_code occurred_at True],
                  RW_CLOSED, st)
             | None \<Rightarrow> (v1, [], RW_PROPOSAL_LINKED, RS_PROPOSAL_LINKED))
      in (r\<lparr>rz_proposal_id := Some proposal_id, rz_review_work_status := Some work_status,
            rz_current_status := status, rz_current_source_event_version := v2,
            rz_updated_at_utc := occurred_at\<rparr>,
          linked @ closing))"

record reconcile_plan =
  rp2_expected :: int
  rp2_updated :: realization
  rp2_outcomes :: "outcome list"
  rp2_intake_id :: string
  rp2_portfolio_id :: string
  rp2_proposal_id :: string
  rp2_target :: realization_status

text \<open>\<open>Inr (Inl h)\<close>: already reconciled; \<open>Inr (Inr w)\<close>: the progression to write.\<close>

definition prepare_reconcile ::
  "runtime \<Rightarrow> string \<Rightarrow> string \<Rightarrow> string \<Rightarrow> int \<Rightarrow> intake_principal \<Rightarrow> datetime \<Rightarrow> repository
     \<Rightarrow> error + (realization_history + reconcile_plan)" where
  "prepare_reconcile rt intake_id_in portfolio_id_in proposal_id expected who timestamp R =
     (case required_printable intake_id_in ''IDEA_PROPOSAL_INTAKE_ID_REQUIRED'' of
        Inl e \<Rightarrow> Inl e
      | Inr intake_id \<Rightarrow>
     (case required_printable portfolio_id_in ''IDEA_PROPOSAL_PORTFOLIO_ID_REQUIRED'' of
        Inl e \<Rightarrow> Inl e
      | Inr portfolio_id \<Rightarrow>
     (if ip_authorized_portfolio_id who \<noteq> Some portfolio_id
      then Inl (NotFoundError ''IDEA_PROPOSAL_REALIZATION_NOT_FOUND'')
      else case load_reconciliation_context R intake_id portfolio_id who proposal_id of
        Inl e \<Rightarrow> Inl e
      | Inr (h, p) \<Rightarrow>
     (let target = target_status (pr_current_state p); r = rh_realization h in
      if already_reconciled r (pr_proposal_id p) target then Inr (Inl h)
      else case validate_progression_request r (pr_proposal_id p) expected of
        Inl e \<Rightarrow> Inl e
      | Inr _ \<Rightarrow>
     (let (updated, outcomes) =
            build_progression rt r (pr_proposal_id p) (pr_current_state p) timestamp
      in Inr (Inr \<lparr>rp2_expected = rz_current_source_event_version r, rp2_updated = updated,
                   rp2_outcomes = outcomes, rp2_intake_id = intake_id,
                   rp2_portfolio_id = portfolio_id, rp2_proposal_id = pr_proposal_id p,
                   rp2_target = target\<rparr>))))))"

definition commit_reconcile ::
  "intake_principal \<Rightarrow> reconcile_plan \<Rightarrow> repository \<Rightarrow> (error + realization_history) \<times> repository" where
  "commit_reconcile who w R =
     (case advance_idea_proposal_realization (rp2_expected w) (rp2_updated w) (rp2_outcomes w) R of
        (Inr h, R') \<Rightarrow> (Inr h, R')
      | (Inl (StateConflictError m), R') \<Rightarrow>
          (case load_history R' (rp2_intake_id w) (rp2_portfolio_id w) who of
             Inl e \<Rightarrow> (Inl e, R')
           | Inr concurrent \<Rightarrow>
               if already_reconciled (rh_realization concurrent) (rp2_proposal_id w) (rp2_target w)
               then (Inr concurrent, R') else (Inl (StateConflictError m), R'))
      | (Inl e, R') \<Rightarrow> (Inl e, R'))"

definition reconcile_idea_proposal_realization ::
  "runtime \<Rightarrow> string \<Rightarrow> string \<Rightarrow> string \<Rightarrow> int \<Rightarrow> intake_principal \<Rightarrow> datetime \<Rightarrow> repository
     \<Rightarrow> (error + realization_history) \<times> repository" where
  "reconcile_idea_proposal_realization rt intake_id portfolio_id proposal_id expected who
       timestamp R =
     (case prepare_reconcile rt intake_id portfolio_id proposal_id expected who timestamp R of
        Inl e \<Rightarrow> (Inl e, R)
      | Inr (Inl h) \<Rightarrow> (Inr h, R)
      | Inr (Inr w) \<Rightarrow> commit_reconcile who w R)"

subsection \<open>Built records\<close>

lemma wf_built_intake: "wf_intake (build_intake_record rt q key scope js t)"
  by (simp add: wf_intake_def build_intake_record_def build_realization_record_def
      build_initial_realization_outcome_def Let_def)

lemma ideas_ok_process:
  "ideas_ok R \<Longrightarrow> ideas_ok (snd (process_idea_proposal_intake rt q cid key who js t R))"
  by (auto simp: process_idea_proposal_intake_def intro: ideas_ok_claim wf_built_intake
      split: sum.splits)

lemma build_progression_spec:
  assumes "build_progression rt r pid st t = (u, ocs)"
  shows "rz_current_source_event_version u = rz_current_source_event_version r + int (length ocs)"
    and "outcomes_match_from (rz_realization_id r) (rz_current_source_event_version r + 1) ocs"
    and "rz_realization_id u = rz_realization_id r" and "rz_proposal_id u = Some pid"
    and "rz_current_status u = target_status st"
    and "realization_progression_identity u = realization_progression_identity r"
    and "rz_portfolio_id u = rz_portfolio_id r" and "rz_created_at_utc u = rz_created_at_utc r"
    and "intake_scope_key u = intake_scope_key r"
  using assms
  by (auto simp: build_progression_def Let_def target_status_def build_outcome_def
      matches_expected_outcome_def realization_progression_identity_def
      realization_claim_identity_def intake_scope_key_def split: option.splits)

lemma target_status_terminal:
  "target_status s = RS_PROPOSAL_LINKED \<longleftrightarrow> s \<notin> set terminal_states"
  by (cases s) (simp_all add: target_status_def terminal_proposal_outcomes_def)

subsection \<open>Indexes and links\<close>

definition index_ok :: "repository \<Rightarrow> bool" where
  "index_ok R \<longleftrightarrow> (\<forall>sk k. dict_get (rp_idea_realization_by_intake R) sk = Some k \<longrightarrow>
     (\<exists>r. realization_of k R = Some r \<and> intake_scope_key r = sk))"

definition links_ok :: "repository \<Rightarrow> bool" where
  "links_ok R \<longleftrightarrow> (\<forall>pid k. owner_of pid R = Some k \<longleftrightarrow>
     (\<exists>r. realization_of k R = Some r \<and> rz_proposal_id r = Some pid))"

lemma index_ok_lookup:
  assumes "index_ok R" and "get_idea_proposal_realization iid ten le pf R = Some h"
  shows "\<exists>k. dict_get (rp_idea_realization_by_intake R) (ten, le, pf, iid) = Some k
     \<and> realization_of k R = Some (rh_realization h)
     \<and> rh_outcomes h = sort_key oc_source_event_version (outcomes_of k R)
     \<and> intake_scope_key (rh_realization h) = (ten, le, pf, iid)"
  using assms
  by (fastforce simp: get_idea_proposal_realization_def idea_realization_history_def index_ok_def
      realization_of_def outcomes_of_def split: option.splits)

lemma index_ok_write:
  assumes "index_ok R" and "realization_of (rz_realization_id r) R = Some c"
    and "intake_scope_key r = intake_scope_key c"
  shows "index_ok (write_realization r ocs R)"
proof -
  have "rp_idea_realization_by_intake (write_realization r ocs R) = rp_idea_realization_by_intake R"
    by (simp add: write_realization_def record_idea_realization_proposal_owner_def split: option.splits)
  with assms show ?thesis by (fastforce simp: index_ok_def)
qed

lemma links_ok_write:
  assumes "links_ok R" and "realization_of (rz_realization_id r) R = Some c"
    and "rz_proposal_id r = Some pid" and "rz_proposal_id c \<in> {None, Some pid}"
    and "owner_of pid R \<in> {None, Some (rz_realization_id r)}"
  shows "links_ok (write_realization r ocs R)"
  unfolding links_ok_def
proof (intro allI)
  fix p k
  have old: "owner_of p R = Some k \<longleftrightarrow> (\<exists>r. realization_of k R = Some r \<and> rz_proposal_id r = Some p)"
    using assms(1) by (simp add: links_ok_def)
  show "(owner_of p (write_realization r ocs R) = Some k) =
      (\<exists>x. realization_of k (write_realization r ocs R) = Some x \<and> rz_proposal_id x = Some p)"
    using old assms(2-5) by auto
qed

text \<open>The whole realization side of a repository.\<close>

definition realizations_ok :: "repository \<Rightarrow> bool" where
  "realizations_ok R \<longleftrightarrow> ideas_ok R \<and> index_ok R \<and> links_ok R"

lemma realizations_ok_empty: "realizations_ok empty_repository"
  by (simp add: realizations_ok_def ideas_ok_def index_ok_def links_ok_def empty_repository_def
      realization_of_def outcomes_of_def owner_of_def intake_of_def realization_ok_def contiguous_def)

subsection \<open>Claims keep indexes and links\<close>

lemma store_claim_index:
  "dict_get (rp_idea_realization_by_intake (store_idea_realization_claim q R)) sk =
     (if realization_of (rz_realization_id (ii_realization q)) R = None
         \<and> sk = intake_scope_key (ii_realization q)
      then Some (rz_realization_id (ii_realization q))
      else dict_get (rp_idea_realization_by_intake R) sk)"
  "owner_of pid (store_idea_realization_claim q R) = owner_of pid R"
  by (auto simp: store_idea_realization_claim_def store_realization_if_absent_def
      store_initial_outcome_if_absent_def realization_of_def owner_of_def dict_has_def Let_def)

lemma index_ok_store_claim:
  assumes "index_ok R" and "wf_intake q"
  shows "index_ok (store_idea_realization_claim q R)"
proof -
  have "\<exists>r. realization_of k (store_idea_realization_claim q R) = Some r \<and> intake_scope_key r = sk"
    if g: "dict_get (rp_idea_realization_by_intake (store_idea_realization_claim q R)) sk = Some k"
    for sk k
  proof (cases "dict_get (rp_idea_realization_by_intake R) sk = Some k")
    case True
    with assms(1) obtain r where "realization_of k R = Some r" "intake_scope_key r = sk"
      unfolding index_ok_def by blast
    then show ?thesis by (simp add: store_claim_simps(1) [OF assms(2)])
  next
    case False
    with g show ?thesis
      by (auto simp: store_claim_index store_claim_simps(1) [OF assms(2)] split: if_splits)
  qed
  then show ?thesis unfolding index_ok_def by blast
qed

lemma links_ok_store_claim:
  "links_ok R \<Longrightarrow> wf_intake q \<Longrightarrow> links_ok (store_idea_realization_claim q R)"
  unfolding links_ok_def by (auto simp: store_claim_index store_claim_simps(1) wf_intake_def)

lemma index_links_intakes:
  "index_ok (R\<lparr>rp_idea_proposal_intakes := d\<rparr>) \<longleftrightarrow> index_ok R"
  "links_ok (R\<lparr>rp_idea_proposal_intakes := d\<rparr>) \<longleftrightarrow> links_ok R"
  by (simp_all add: index_ok_def links_ok_def realization_of_def owner_of_def)

lemma index_links_claim:
  assumes ok: "realizations_ok R" and wf: "wf_intake q"
  shows "index_ok (snd (claim_idea_proposal_intake q R)) \<and> links_ok (snd (claim_idea_proposal_intake q R))"
proof -
  let ?R0 = "R\<lparr>rp_idea_proposal_intakes := purge_expired_idea_proposal_intakes
      (ii_created_at_utc q) (rp_idea_proposal_intakes R)\<rparr>"
  have R0: "index_ok ?R0" "links_ok ?R0"
    and kept: "wf_intake i" if "dict_get (rp_idea_proposal_intakes ?R0) (ii_registry_key q) = Some i" for i
    using ok ideas_ok_purged [of R "ii_created_at_utc q"] that
    by (auto simp: realizations_ok_def index_links_intakes ideas_ok_def intake_of_def)
  have base: "index_ok R" "links_ok R" using ok by (auto simp: realizations_ok_def)
  show ?thesis
  proof (cases "dict_get (rp_idea_proposal_intakes ?R0) (ii_registry_key q)")
    case None
    then have "existing_idea_intake_or_conflict q ?R0 = Inr None"
      by (simp add: existing_idea_intake_or_conflict_def)
    with base wf show ?thesis
      by (auto simp: claim_idea_proposal_intake_def Let_def index_links_intakes
          index_ok_store_claim links_ok_store_claim split: sum.splits option.splits)
  next
    case (Some i)
    with base kept [OF Some] show ?thesis
      by (auto simp: claim_idea_proposal_intake_def existing_idea_intake_or_conflict_def Let_def
          index_links_intakes index_ok_store_claim links_ok_store_claim
          split: sum.splits option.splits)
  qed
qed

lemma process_ok:
  assumes "realizations_ok R"
  shows "realizations_ok (snd (process_idea_proposal_intake rt q cid key who js t R))"
  using assms index_links_claim [OF assms wf_built_intake] ideas_ok_process [of R]
  by (auto simp: realizations_ok_def process_idea_proposal_intake_def split: sum.splits)

lemma proposals_keyed_process:
  "proposals_keyed (snd (process_idea_proposal_intake rt q cid key who js t R)) \<longleftrightarrow> proposals_keyed R"
  by (simp add: process_idea_proposal_intake_def proposals_keyed_claim split: sum.splits)

subsection \<open>The reconcile command\<close>

lemma prepare_reconcile_write:
  assumes "index_ok R" and "ideas_ok R"
    and "prepare_reconcile rt iid pf pid v who t R = Inr (Inr w)"
  obtains r p where "realization_of (rz_realization_id r) R = Some r"
    and "get_proposal pid R = Some p" and "pr_portfolio_id p = rz_portfolio_id r"
    and "rz_created_at_utc r \<le> pr_created_at p"
    and "rz_proposal_id r \<in> {None, Some (pr_proposal_id p)}"
    and "rz_current_status r \<noteq> RS_REJECTED_BEFORE_WORK"
    and "v = rz_current_source_event_version r" and "rp2_expected w = v"
    and "build_progression rt r (pr_proposal_id p) (pr_current_state p) t
           = (rp2_updated w, rp2_outcomes w)"
    and "rp2_proposal_id w = pr_proposal_id p"
    and "rp2_target w = target_status (pr_current_state p)"
    and "\<not> already_reconciled r (pr_proposal_id p) (rp2_target w)"
    and "dict_get (rp_idea_realization_by_intake R)
           (ip_tenant_id who, ip_legal_entity_code who, rp2_portfolio_id w, rp2_intake_id w)
         = Some (rz_realization_id r)"
    and "required_printable iid ''IDEA_PROPOSAL_INTAKE_ID_REQUIRED'' = Inr (rp2_intake_id w)"
    and "required_printable pf ''IDEA_PROPOSAL_PORTFOLIO_ID_REQUIRED'' = Inr (rp2_portfolio_id w)"
    and "ip_authorized_portfolio_id who = Some (rp2_portfolio_id w)"
proof -
  obtain intake portfolio where i: "required_printable iid ''IDEA_PROPOSAL_INTAKE_ID_REQUIRED'' = Inr intake"
    and pf: "required_printable pf ''IDEA_PROPOSAL_PORTFOLIO_ID_REQUIRED'' = Inr portfolio"
    and au: "ip_authorized_portfolio_id who = Some portfolio"
    using assms(3) by (auto simp: prepare_reconcile_def split: sum.splits if_splits)
  obtain h p where ctx: "load_reconciliation_context R intake portfolio who pid = Inr (h, p)"
    using assms(3) i pf au by (auto simp: prepare_reconcile_def split: sum.splits if_splits)
  let ?r = "rh_realization h"
  have w: "\<not> already_reconciled ?r (pr_proposal_id p) (target_status (pr_current_state p))"
    "validate_progression_request ?r (pr_proposal_id p) v = Inr ()"
    and plan: "build_progression rt ?r (pr_proposal_id p) (pr_current_state p) t
       = (rp2_updated w, rp2_outcomes w)" "rp2_expected w = rz_current_source_event_version ?r"
      "rp2_intake_id w = intake" "rp2_portfolio_id w = portfolio"
      "rp2_proposal_id w = pr_proposal_id p" "rp2_target w = target_status (pr_current_state p)"
    using assms(3) i pf au ctx
    by (auto simp: prepare_reconcile_def Let_def split: sum.splits if_splits prod.splits)
  have h: "get_idea_proposal_realization intake (ip_tenant_id who) (ip_legal_entity_code who) portfolio R
      = Some h"
    and p: "get_proposal pid R = Some p" "pr_portfolio_id p = portfolio"
      "rz_created_at_utc ?r \<le> pr_created_at p"
    using ctx by (auto simp: load_reconciliation_context_def load_history_def
        split: sum.splits option.splits if_splits)
  obtain k where k: "dict_get (rp_idea_realization_by_intake R)
        (ip_tenant_id who, ip_legal_entity_code who, portfolio, intake) = Some k"
    "realization_of k R = Some ?r" "rz_portfolio_id ?r = portfolio"
    using index_ok_lookup [OF assms(1) h] by (auto simp: intake_scope_key_def)
  have "rz_realization_id ?r = k"
    using assms(2) k(2) by (auto simp: ideas_ok_def realization_ok_def dest!: spec [of _ k])
  with k p w plan i pf au show thesis
    by (intro that [of ?r p])
      (auto simp: validate_progression_request_def split: if_splits)
qed

lemma reconcile_cases:
  assumes "realizations_ok R" and "proposals_keyed R"
    and "reconcile_idea_proposal_realization rt iid pf pid v who t R = (res, R')"
  obtains (refused) e where "res = Inl e" "R' = R"
    | (replayed) h where "res = Inr h" "R' = R"
      "prepare_reconcile rt iid pf pid v who t R = Inr (Inl h)"
    | (written) w r p where "prepare_reconcile rt iid pf pid v who t R = Inr (Inr w)"
      "R' = write_realization (rp2_updated w) (rp2_outcomes w) R"
      "res = Inr \<lparr>rh_realization = rp2_updated w,
                  rh_outcomes = outcomes_of (rz_realization_id r) R @ rp2_outcomes w\<rparr>"
      "realization_of (rz_realization_id r) R = Some r" "get_proposal pid R = Some p"
      "build_progression rt r pid (pr_current_state p) t = (rp2_updated w, rp2_outcomes w)"
      "rz_proposal_id r \<in> {None, Some pid}"
      "owner_of pid R \<in> {None, Some (rz_realization_id r)}"
proof (cases "prepare_reconcile rt iid pf pid v who t R")
  case (Inl e)
  with assms(3) refused show thesis by (auto simp: reconcile_idea_proposal_realization_def)
next
  case (Inr x)
  note prep = Inr and unchanged = refused
  show thesis
  proof (cases x)
    case (Inl h)
    with assms(3) prep replayed show thesis by (auto simp: reconcile_idea_proposal_realization_def)
  next
    case (Inr w)
    with prep have prep: "prepare_reconcile rt iid pf pid v who t R = Inr (Inr w)" by simp
    have io: "index_ok R" and ideas: "ideas_ok R" using assms(1) by (auto simp: realizations_ok_def)
    obtain r p where r: "realization_of (rz_realization_id r) R = Some r"
      and p: "get_proposal pid R = Some p"
      and b: "build_progression rt r (pr_proposal_id p) (pr_current_state p) t
           = (rp2_updated w, rp2_outcomes w)"
      and link: "rz_proposal_id r \<in> {None, Some (pr_proposal_id p)}"
      and new: "\<not> already_reconciled r (pr_proposal_id p) (rp2_target w)"
      and idx: "dict_get (rp_idea_realization_by_intake R)
           (ip_tenant_id who, ip_legal_entity_code who, rp2_portfolio_id w, rp2_intake_id w)
         = Some (rz_realization_id r)"
      and w: "rp2_proposal_id w = pr_proposal_id p"
      using prepare_reconcile_write [OF io ideas prep] by metis
    have pid: "pr_proposal_id p = pid"
      using assms(2) p by (simp add: proposals_keyed_def)
    note prog = build_progression_spec [OF b]
    show thesis
    proof (cases rule: advance_cases [of "rp2_expected w" "rp2_updated w" "rp2_outcomes w" R])
      case advanced
      then have "owner_of pid R \<in> {None, Some (rz_realization_id r)}"
        using prog(3,4) pid by (auto simp: advance_allowed_def)
      moreover have "res = Inr \<lparr>rh_realization = rp2_updated w,
                  rh_outcomes = outcomes_of (rz_realization_id r) R @ rp2_outcomes w\<rparr>"
        and "R' = write_realization (rp2_updated w) (rp2_outcomes w) R"
        using advanced(2) assms(3) prep prog(3)
        by (auto simp: reconcile_idea_proposal_realization_def commit_reconcile_def)
      ultimately show thesis using prep r p b link pid written by blast
    next
      case (refused m)
      have "load_history R (rp2_intake_id w) (rp2_portfolio_id w) who = Inr
          \<lparr>rh_realization = r, rh_outcomes = sort_key oc_source_event_version
             (outcomes_of (rz_realization_id r) R)\<rparr>"
        using idx r by (simp add: load_history_def get_idea_proposal_realization_def
            idea_realization_history_def realization_of_def outcomes_of_def)
      then have "res = Inl (StateConflictError m)" and "R' = R"
        using refused(2) assms(3) prep new w
        by (auto simp: reconcile_idea_proposal_realization_def commit_reconcile_def)
      then show thesis by (rule unchanged)
    qed
  qed
qed

lemma reconcile_ok:
  assumes "realizations_ok R" and "proposals_keyed R"
  shows "realizations_ok (snd (reconcile_idea_proposal_realization rt iid pf pid v who t R))"
proof (cases "reconcile_idea_proposal_realization rt iid pf pid v who t R")
  case (Pair res R')
  from assms Pair show ?thesis
  proof (cases rule: reconcile_cases)
    case (written w r p)
    note prog = build_progression_spec [OF written(6)]
    have ok: "ideas_ok R" "index_ok R" "links_ok R" using assms(1) by (auto simp: realizations_ok_def)
    have r: "realization_of (rz_realization_id (rp2_updated w)) R = Some r"
      using written(4) prog(3) by simp
    have "realization_ok (Some r) (outcomes_of (rz_realization_id r) R) (rz_realization_id r)"
      using ok(1) written(4) by (auto simp: ideas_ok_def dest!: spec [of _ "rz_realization_id r"])
    from realization_ok_append [OF this prog(3) refl prog(1) prog(2)]
    have "ideas_ok (write_realization (rp2_updated w) (rp2_outcomes w) R)"
      using ok(1) prog(3)
      by (auto simp: ideas_ok_def intake_of_def write_realization_def
          record_idea_realization_proposal_owner_def prog(4) realization_of_def outcomes_of_def
          dict_list_def)
    moreover have "index_ok (write_realization (rp2_updated w) (rp2_outcomes w) R)"
      using ok(2) r prog(9) by (rule index_ok_write)
    moreover have "links_ok (write_realization (rp2_updated w) (rp2_outcomes w) R)"
      using links_ok_write [OF ok(3) r prog(4)] written(7,8) prog(3) by simp
    ultimately show ?thesis using Pair written(2) by (simp add: realizations_ok_def)
  qed (use assms Pair in simp_all)
qed

text \<open>A request whose proposal the realization already reflects is answered from the history.\<close>

lemma reconciled_request_replays:
  assumes "required_printable iid ''IDEA_PROPOSAL_INTAKE_ID_REQUIRED'' = Inr intake"
    and "required_printable pf ''IDEA_PROPOSAL_PORTFOLIO_ID_REQUIRED'' = Inr portfolio"
    and "ip_authorized_portfolio_id who = Some portfolio"
    and "load_reconciliation_context R intake portfolio who pid = Inr (h, p)"
    and "already_reconciled (rh_realization h) (pr_proposal_id p) (target_status (pr_current_state p))"
  shows "reconcile_idea_proposal_realization rt iid pf pid v who t R = (Inr h, R)"
  using assms by (simp add: reconcile_idea_proposal_realization_def prepare_reconcile_def Let_def)

lemma prepare_reconcile_replayedE:
  assumes "prepare_reconcile rt iid pf pid v who t R = Inr (Inl h)"
  obtains intake portfolio p
  where "required_printable iid ''IDEA_PROPOSAL_INTAKE_ID_REQUIRED'' = Inr intake"
    and "required_printable pf ''IDEA_PROPOSAL_PORTFOLIO_ID_REQUIRED'' = Inr portfolio"
    and "ip_authorized_portfolio_id who = Some portfolio"
    and "load_reconciliation_context R intake portfolio who pid = Inr (h, p)"
    and "get_proposal pid R = Some p"
    and "already_reconciled (rh_realization h) (pr_proposal_id p) (target_status (pr_current_state p))"
proof -
  obtain intake portfolio
    where i: "required_printable iid ''IDEA_PROPOSAL_INTAKE_ID_REQUIRED'' = Inr intake"
    and pf: "required_printable pf ''IDEA_PROPOSAL_PORTFOLIO_ID_REQUIRED'' = Inr portfolio"
    and au: "ip_authorized_portfolio_id who = Some portfolio"
    using assms by (auto simp: prepare_reconcile_def split: sum.splits if_splits)
  obtain h' p where ctx: "load_reconciliation_context R intake portfolio who pid = Inr (h', p)"
    using assms i pf au by (auto simp: prepare_reconcile_def split: sum.splits if_splits)
  have "h' = h"
    and "already_reconciled (rh_realization h) (pr_proposal_id p) (target_status (pr_current_state p))"
    using assms i pf au ctx
    by (auto simp: prepare_reconcile_def Let_def split: sum.splits if_splits prod.splits)
  moreover have "get_proposal pid R = Some p"
    using ctx by (auto simp: load_reconciliation_context_def split: sum.splits option.splits if_splits)
  ultimately show thesis using that i pf au ctx by blast
qed

lemma contiguous_sorted: "contiguous ocs \<Longrightarrow> sort_key oc_source_event_version ocs = ocs"
  by (rule sort_key_id_if_sorted)
    (simp add: contiguous_def sorted_iff_nth_mono)

text \<open>The history a progression leaves, as the next request reads it.\<close>

lemma load_after_write:
  assumes "realizations_ok (write_realization u ocs R)"
    and "dict_get (rp_idea_realization_by_intake R) (ip_tenant_id who, ip_legal_entity_code who, pf, iid)
           = Some (rz_realization_id u)"
    and "get_proposal pid R = Some p" and "pr_portfolio_id p = pf"
    and "rz_created_at_utc u \<le> pr_created_at p"
  shows "load_reconciliation_context (write_realization u ocs R) iid pf who pid
    = Inr (\<lparr>rh_realization = u, rh_outcomes = outcomes_of (rz_realization_id u) R @ ocs\<rparr>, p)"
proof -
  let ?R = "write_realization u ocs R"
  have "realization_of (rz_realization_id u) ?R = Some u"
    and outs: "outcomes_of (rz_realization_id u) ?R = outcomes_of (rz_realization_id u) R @ ocs"
    by simp_all
  then have "contiguous (outcomes_of (rz_realization_id u) R @ ocs)"
    using assms(1)
    by (auto simp: realizations_ok_def ideas_ok_def realization_ok_def dest!: spec [of _ "rz_realization_id u"])
  note sorted = contiguous_sorted [OF this]
  have "rp_idea_realization_by_intake ?R = rp_idea_realization_by_intake R"
    by (simp add: write_realization_def record_idea_realization_proposal_owner_def split: option.splits)
  then have "load_history ?R iid pf who
      = Inr \<lparr>rh_realization = u, rh_outcomes = outcomes_of (rz_realization_id u) R @ ocs\<rparr>"
    using assms(2) sorted outs \<open>realization_of (rz_realization_id u) ?R = Some u\<close>
    by (simp add: load_history_def get_idea_proposal_realization_def idea_realization_history_def
        realization_of_def outcomes_of_def)
  then show ?thesis using assms(3-5) by (simp add: load_reconciliation_context_def)
qed

text \<open>After a reconciliation the realization shows the proposal's posture, and repeating it changes nothing.\<close>

lemma reconcile_projects:
  assumes "realizations_ok R" and "proposals_keyed R" and p: "get_proposal pid R = Some p"
    and run: "reconcile_idea_proposal_realization rt iid pf pid v who t R = (Inr h, R')"
  shows "already_reconciled (rh_realization h) pid (target_status (pr_current_state p))"
    and "reconcile_idea_proposal_realization rt iid pf pid v' who t' R' = (Inr h, R')"
proof -
  have pid: "pr_proposal_id p = pid" using assms(2) p by (simp add: proposals_keyed_def)
  have "already_reconciled (rh_realization h) pid (target_status (pr_current_state p))
    \<and> reconcile_idea_proposal_realization rt iid pf pid v' who t' R' = (Inr h, R')"
    using assms(1,2) run
  proof (cases rule: reconcile_cases)
    case (replayed h')
    then show ?thesis
      using p pid reconciled_request_replays by (auto elim!: prepare_reconcile_replayedE)
  next
    case (written w r p')
    have io: "index_ok R" "ideas_ok R" using assms(1) by (auto simp: realizations_ok_def)
    note prog = build_progression_spec [OF written(6)]
    have same: "p' = p" using written(5) p by simp
    have R'_ok: "realizations_ok R'"
      using reconcile_ok [OF assms(1,2), of rt iid pf pid v who t] run by simp
    from prepare_reconcile_write [OF io written(1)] obtain r0 where r0:
      "pr_portfolio_id p = rz_portfolio_id r0" "rz_created_at_utc r0 \<le> pr_created_at p"
      "build_progression rt r0 (pr_proposal_id p) (pr_current_state p) t = (rp2_updated w, rp2_outcomes w)"
      "dict_get (rp_idea_realization_by_intake R)
           (ip_tenant_id who, ip_legal_entity_code who, rp2_portfolio_id w, rp2_intake_id w)
         = Some (rz_realization_id r0)"
      "realization_of (rz_realization_id r0) R = Some r0"
      "required_printable iid ''IDEA_PROPOSAL_INTAKE_ID_REQUIRED'' = Inr (rp2_intake_id w)"
      "required_printable pf ''IDEA_PROPOSAL_PORTFOLIO_ID_REQUIRED'' = Inr (rp2_portfolio_id w)"
      "ip_authorized_portfolio_id who = Some (rp2_portfolio_id w)"
      using p by auto
    note prog0 = build_progression_spec [OF r0(3)]
    have "rz_portfolio_id r0 = rp2_portfolio_id w"
      using io(1) r0(4,5) by (fastforce simp: index_ok_def intake_scope_key_def)
    then have "load_reconciliation_context R' (rp2_intake_id w) (rp2_portfolio_id w) who pid = Inr (h, p)"
      using load_after_write [of "rp2_updated w" "rp2_outcomes w" R who "rp2_portfolio_id w" "rp2_intake_id w" pid p]
        R'_ok r0 prog0 prog(3) p written(2,3) by simp
    moreover have "already_reconciled (rh_realization h) pid (target_status (pr_current_state p))"
      using written(3) prog same by (simp add: already_reconciled_def)
    ultimately show ?thesis
      using reconciled_request_replays [OF r0(6-8)] pid by simp
  qed simp
  then show "already_reconciled (rh_realization h) pid (target_status (pr_current_state p))"
    and "reconcile_idea_proposal_realization rt iid pf pid v' who t' R' = (Inr h, R')" by auto
qed

end
