(* ===== verification/Repository_Memos.thy ===== *)
theory Repository_Memos
  imports Proposal_Queries
begin

text \<open>
  The memo and cockpit-acknowledgement side of the in-memory repository
  (\<open>infrastructure/proposals/in_memory.py\<close>): first-write-wins memos, one memo per proposal
  version, idempotency claims and deduplicated memo events.
\<close>

subsection \<open>Operations\<close>

definition get_memo_idempotency :: "string \<Rightarrow> repository \<Rightarrow> memo_idempotency option" where
  "get_memo_idempotency key R = dict_get (rp_memo_idempotency R) key"

definition save_memo_idempotency :: "memo_idempotency \<Rightarrow> repository \<Rightarrow> error + repository" where
  "save_memo_idempotency rec R =
     (case dict_get (rp_memo_idempotency R) (mi_idempotency_key rec) of
        Some existing \<Rightarrow>
          if mi_request_hash existing \<noteq> mi_request_hash rec \<or> mi_memo_id existing \<noteq> mi_memo_id rec
          then Inl (ValueError ''MEMO_IDEMPOTENCY_KEY_CONFLICT'')
          else Inr R
      | None \<Rightarrow> Inr (R\<lparr>rp_memo_idempotency :=
          dict_set (mi_idempotency_key rec) rec (rp_memo_idempotency R)\<rparr>))"

definition memo_version_key :: "memo \<Rightarrow> string \<times> int" where
  "memo_version_key m = (mm_proposal_id m, mm_proposal_version_no m)"

definition memo_version_conflict :: "memo \<Rightarrow> repository \<Rightarrow> bool" where
  "memo_version_conflict m R \<longleftrightarrow>
     (case dict_get (rp_memo_by_proposal_version R) (memo_version_key m) of
        None \<Rightarrow> False | Some existing_memo_id \<Rightarrow> existing_memo_id \<noteq> mm_memo_id m)"

definition store_memo :: "memo \<Rightarrow> repository \<Rightarrow> repository" where
  "store_memo m R = R\<lparr>
     rp_memos := dict_set (mm_memo_id m) m (rp_memos R),
     rp_memo_by_proposal_version :=
       dict_set (memo_version_key m) (mm_memo_id m) (rp_memo_by_proposal_version R)\<rparr>"

definition create_memo :: "memo \<Rightarrow> repository \<Rightarrow> error + repository" where
  "create_memo m R =
     (if memo_version_conflict m R then Inl (ValueError ''MEMO_PROPOSAL_VERSION_CONFLICT'')
      else case dict_get (rp_memos R) (mm_memo_id m) of
        Some existing \<Rightarrow>
          if mm_memo_hash existing \<noteq> mm_memo_hash m then Inl (ValueError ''MEMO_HASH_CONFLICT'')
          else Inr R
      | None \<Rightarrow> Inr (store_memo m R))"

definition validate_memo_idempotency_write :: "memo_idempotency \<Rightarrow> repository \<Rightarrow> error + unit" where
  "validate_memo_idempotency_write i R =
     (case dict_get (rp_memo_idempotency R) (mi_idempotency_key i) of
        None \<Rightarrow> Inr ()
      | Some existing \<Rightarrow>
          if mi_request_hash existing \<noteq> mi_request_hash i \<or> mi_memo_id existing \<noteq> mi_memo_id i
          then Inl (ValueError ''MEMO_IDEMPOTENCY_KEY_CONFLICT'') else Inr ())"

definition validate_memo_write ::
  "memo \<Rightarrow> memo_idempotency option \<Rightarrow> repository \<Rightarrow> error + unit" where
  "validate_memo_write m idempotency R =
     (if memo_version_conflict m R then Inl (ValueError ''MEMO_PROPOSAL_VERSION_CONFLICT'')
      else if (case dict_get (rp_memos R) (mm_memo_id m) of
                 None \<Rightarrow> False | Some existing \<Rightarrow> mm_memo_hash existing \<noteq> mm_memo_hash m)
      then Inl (ValueError ''MEMO_HASH_CONFLICT'')
      else case idempotency of
        None \<Rightarrow> Inr () | Some i \<Rightarrow> validate_memo_idempotency_write i R)"

definition store_memo_if_absent :: "memo \<Rightarrow> repository \<Rightarrow> repository" where
  "store_memo_if_absent m R =
     (if dict_has (rp_memos R) (mm_memo_id m) then R else store_memo m R)"

definition store_memo_idempotency_if_absent ::
  "memo_idempotency option \<Rightarrow> repository \<Rightarrow> repository" where
  "store_memo_idempotency_if_absent idempotency R = (case idempotency of
      None \<Rightarrow> R
    | Some i \<Rightarrow> R\<lparr>rp_memo_idempotency :=
        dict_setdefault (mi_idempotency_key i) i (rp_memo_idempotency R)\<rparr>)"

definition append_memo_event :: "memo_event \<Rightarrow> repository \<Rightarrow> repository" where
  "append_memo_event e R =
     (let events = dict_list (rp_memo_events R) (me_memo_id e) in
      R\<lparr>rp_memo_events := dict_set (me_memo_id e)
           (if list_ex (\<lambda>x. me_event_id x = me_event_id e) events then events else events @ [e])
           (rp_memo_events R)\<rparr>)"

definition create_memo_with_idempotency_event ::
  "memo \<Rightarrow> memo_idempotency option \<Rightarrow> memo_event \<Rightarrow> repository \<Rightarrow> error + repository" where
  "create_memo_with_idempotency_event m idempotency e R =
     (case validate_memo_write m idempotency R of
        Inl err \<Rightarrow> Inl err
      | Inr _ \<Rightarrow> Inr (append_memo_event e
          (store_memo_idempotency_if_absent idempotency (store_memo_if_absent m R))))"

definition get_memo :: "string \<Rightarrow> repository \<Rightarrow> memo option" where
  "get_memo memo_id R = dict_get (rp_memos R) memo_id"

definition get_memo_by_proposal_version :: "string \<Rightarrow> int \<Rightarrow> repository \<Rightarrow> memo option" where
  "get_memo_by_proposal_version proposal_id version_no R =
     (case dict_get (rp_memo_by_proposal_version R) (proposal_id, version_no) of
        None \<Rightarrow> None | Some memo_id \<Rightarrow> dict_get (rp_memos R) memo_id)"

definition ordered_memos_for_proposal :: "memo list \<Rightarrow> string \<Rightarrow> memo list" where
  "ordered_memos_for_proposal memos proposal_id =
     sort_key (\<lambda>m. (mm_proposal_version_no m, mm_created_at m, mm_memo_id m))
       (filter (\<lambda>m. mm_proposal_id m = proposal_id) memos)"

definition ordered_memos_for_proposals :: "memo list \<Rightarrow> string list \<Rightarrow> memo list" where
  "ordered_memos_for_proposals memos ids =
     (if ids = [] then []
      else sort_key (\<lambda>m. (order_of_id ids (mm_proposal_id m), mm_proposal_version_no m,
                          mm_created_at m, mm_memo_id m))
             (filter (\<lambda>m. mm_proposal_id m \<in> set ids) memos))"

definition list_memos :: "string \<Rightarrow> repository \<Rightarrow> memo list" where
  "list_memos proposal_id R = ordered_memos_for_proposal (dict_values (rp_memos R)) proposal_id"

definition list_memos_for_proposals :: "string list \<Rightarrow> repository \<Rightarrow> memo list" where
  "list_memos_for_proposals ids R = ordered_memos_for_proposals (dict_values (rp_memos R)) ids"

definition ordered_memo_events :: "memo_event list \<Rightarrow> memo_event list" where
  "ordered_memo_events events = sort_key (\<lambda>e. (me_occurred_at e, me_event_id e)) events"

definition list_memo_events :: "string \<Rightarrow> repository \<Rightarrow> memo_event list" where
  "list_memo_events memo_id R = ordered_memo_events (dict_list (rp_memo_events R) memo_id)"

subsection \<open>Cockpit acknowledgements\<close>

definition get_cockpit_acknowledgement :: "string \<Rightarrow> repository \<Rightarrow> cockpit_ack option" where
  "get_cockpit_acknowledgement action_item_id R =
     dict_get (rp_cockpit_acknowledgements R) action_item_id"

definition get_cockpit_acknowledgement_idempotency ::
  "string \<Rightarrow> repository \<Rightarrow> cockpit_ack_idempotency option" where
  "get_cockpit_acknowledgement_idempotency key R =
     dict_get (rp_cockpit_acknowledgement_idempotency R) key"

text \<open>\<open>dict.fromkeys(xs)\<close> keeps the first occurrence of every element, in order.\<close>

fun from_keys :: "'a list \<Rightarrow> 'a list" where
  "from_keys [] = []"
| "from_keys (x # xs) = x # from_keys (filter (\<lambda>y. y \<noteq> x) xs)"

definition list_cockpit_acknowledgements ::
  "string list \<Rightarrow> repository \<Rightarrow> (string, cockpit_ack) dict" where
  "list_cockpit_acknowledgements ids R =
     concat (map (\<lambda>k. case dict_get (rp_cockpit_acknowledgements R) k of
         None \<Rightarrow> [] | Some a \<Rightarrow> [(k, a)]) (from_keys ids))"

definition save_cockpit_acknowledgement_with_idempotency ::
  "cockpit_ack \<Rightarrow> cockpit_ack_idempotency \<Rightarrow> repository \<Rightarrow> error + repository" where
  "save_cockpit_acknowledgement_with_idempotency a i R =
     (case dict_get (rp_cockpit_acknowledgement_idempotency R) (ci_idempotency_key i) of
        Some existing \<Rightarrow>
          if ci_request_hash existing \<noteq> ci_request_hash i
             \<or> ci_acknowledgement_id existing \<noteq> ci_acknowledgement_id i
             \<or> ci_action_item_id existing \<noteq> ci_action_item_id i
          then Inl (ValueError ''COCKPIT_ACKNOWLEDGEMENT_IDEMPOTENCY_KEY_CONFLICT'')
          else Inr R
      | None \<Rightarrow> Inr (R\<lparr>
          rp_cockpit_acknowledgement_idempotency :=
            dict_set (ci_idempotency_key i) i (rp_cockpit_acknowledgement_idempotency R),
          rp_cockpit_acknowledgements :=
            dict_set (ca_action_item_id a) a (rp_cockpit_acknowledgements R)\<rparr>))"

subsection \<open>The two idempotency registries\<close>

interpretation memo_claims: claim_registry
  "\<lambda>R k. get_memo_idempotency k R" save_memo_idempotency mi_idempotency_key
  "\<lambda>w v. mi_request_hash w = mi_request_hash v \<and> mi_memo_id w = mi_memo_id v"
  by unfold_locales (auto simp: get_memo_idempotency_def save_memo_idempotency_def fun_eq_iff)

text \<open>
  An acknowledgement is claimed together with its key; the pair is what a client submits.
\<close>

interpretation acknowledgement_claims: claim_registry
  "\<lambda>R k. get_cockpit_acknowledgement_idempotency k R"
  "\<lambda>i R. save_cockpit_acknowledgement_with_idempotency a i R" ci_idempotency_key
  "\<lambda>w v. ci_request_hash w = ci_request_hash v
         \<and> ci_acknowledgement_id w = ci_acknowledgement_id v
         \<and> ci_action_item_id w = ci_action_item_id v"
  for a
  by unfold_locales
    (auto simp: get_cockpit_acknowledgement_idempotency_def
      save_cockpit_acknowledgement_with_idempotency_def fun_eq_iff)

subsection \<open>Memo consistency\<close>

text \<open>
  The version index and the memo table agree, no memo has two versions and no version two
  memos; memo events have distinct ids.
\<close>

definition memos_ok :: "repository \<Rightarrow> bool" where
  "memos_ok R \<longleftrightarrow>
     (\<forall>k m. get_memo k R = Some m \<longrightarrow> mm_memo_id m = k
        \<and> dict_get (rp_memo_by_proposal_version R) (memo_version_key m) = Some k)
     \<and> (\<forall>vk k. dict_get (rp_memo_by_proposal_version R) vk = Some k \<longrightarrow>
          (\<exists>m. get_memo k R = Some m \<and> memo_version_key m = vk))
     \<and> (\<forall>k. distinct (map me_event_id (dict_list (rp_memo_events R) k)))"

lemma memos_ok_empty: "memos_ok empty_repository"
  by (simp add: memos_ok_def empty_repository_def get_memo_def)

lemma memos_ok_indexed:
  "memos_ok R \<Longrightarrow> dict_get (rp_memo_by_proposal_version R) vk = Some k \<Longrightarrow>
     \<exists>m. get_memo k R = Some m \<and> memo_version_key m = vk"
  by (cases vk) (simp add: memos_ok_def)

lemma memos_ok_lookup:
  assumes "memos_ok R" and "get_memo k R = Some m"
  shows "mm_memo_id m = k"
    and "get_memo_by_proposal_version (mm_proposal_id m) (mm_proposal_version_no m) R = Some m"
proof -
  have "dict_get (rp_memo_by_proposal_version R) (memo_version_key m) = Some k"
    and "mm_memo_id m = k"
    using assms by (auto simp: memos_ok_def)
  then show "mm_memo_id m = k"
    and "get_memo_by_proposal_version (mm_proposal_id m) (mm_proposal_version_no m) R = Some m"
    using assms(2) by (simp_all add: get_memo_by_proposal_version_def memo_version_key_def get_memo_def)
qed

lemma memos_ok_append_event: "memos_ok R \<Longrightarrow> memos_ok (append_memo_event e R)"
  by (auto simp: memos_ok_def append_memo_event_def get_memo_def Let_def dict_list_def list_ex_iff
      split: option.splits)

lemma memos_ok_store:
  assumes "memos_ok R" and "\<not> memo_version_conflict m R" and "get_memo (mm_memo_id m) R = None"
  shows "memos_ok (store_memo m R)"
proof -
  have "dict_get (rp_memo_by_proposal_version R) (memo_version_key m) = None"
  proof (cases "dict_get (rp_memo_by_proposal_version R) (memo_version_key m)")
    case (Some k)
    then have "k = mm_memo_id m" using assms(2) by (simp add: memo_version_conflict_def)
    with memos_ok_indexed [OF assms(1) Some] assms(3) show ?thesis by simp
  qed
  with assms show ?thesis
    unfolding memos_ok_def store_memo_def get_memo_def by simp fastforce
qed

lemma memos_ok_create_memo: "memos_ok R \<Longrightarrow> create_memo m R = Inr R' \<Longrightarrow> memos_ok R'"
  by (auto simp: create_memo_def get_memo_def intro: memos_ok_store split: if_splits option.splits)

lemma memos_ok_idempotency:
  "memos_ok (R\<lparr>rp_memo_idempotency := d\<rparr>) \<longleftrightarrow> memos_ok R"
  by (simp add: memos_ok_def get_memo_def)

lemma validate_memo_write_Inr:
  assumes "validate_memo_write m i R = Inr u"
  shows "\<not> memo_version_conflict m R"
    and "\<And>w. get_memo (mm_memo_id m) R = Some w \<Longrightarrow> mm_memo_hash w = mm_memo_hash m"
  using assms by (auto simp: validate_memo_write_def get_memo_def split: if_splits option.splits)

lemma memos_ok_bundle:
  assumes "memos_ok R" and "create_memo_with_idempotency_event m i e R = Inr R'"
  shows "memos_ok R'"
proof -
  obtain u where u: "validate_memo_write m i R = Inr u"
    and R': "R' = append_memo_event e
      (store_memo_idempotency_if_absent i (store_memo_if_absent m R))"
    using assms(2) by (auto simp: create_memo_with_idempotency_event_def split: sum.splits)
  have "memos_ok (store_memo_if_absent m R)"
    using assms(1) validate_memo_write_Inr(1) [OF u]
    by (auto simp: store_memo_if_absent_def dict_has_def get_memo_def intro: memos_ok_store)
  then show ?thesis
    unfolding R' by (intro memos_ok_append_event)
      (simp add: store_memo_idempotency_if_absent_def memos_ok_idempotency split: option.splits)
qed

text \<open>A successful bundle stores the memo, or finds one with the same hash; a stored memo stays.\<close>

lemma memo_bundle_get:
  assumes "create_memo_with_idempotency_event m i e R = Inr R'"
  shows "get_memo k R' =
     (if k = mm_memo_id m \<and> get_memo k R = None then Some m else get_memo k R)"
  using assms
  by (auto simp: create_memo_with_idempotency_event_def append_memo_event_def Let_def get_memo_def
      store_memo_idempotency_if_absent_def store_memo_if_absent_def store_memo_def dict_has_def
      split: sum.splits option.splits)

lemma memo_bundle_by_version:
  assumes "memos_ok R" and "create_memo_with_idempotency_event m i e R = Inr R'"
  shows "\<exists>w. get_memo_by_proposal_version (mm_proposal_id m) (mm_proposal_version_no m) R' = Some w
           \<and> mm_memo_id w = mm_memo_id m \<and> mm_memo_hash w = mm_memo_hash m
    \<or> (\<exists>w. get_memo (mm_memo_id m) R = Some w \<and> memo_version_key w \<noteq> memo_version_key m)"
proof (cases "get_memo (mm_memo_id m) R")
  case None
  then have "get_memo (mm_memo_id m) R' = Some m"
    using memo_bundle_get [OF assms(2)] by simp
  from memos_ok_lookup(2) [OF memos_ok_bundle [OF assms] this] show ?thesis by simp
next
  case (Some w)
  show ?thesis
  proof (cases "memo_version_key w = memo_version_key m")
    case True
    obtain u where u: "validate_memo_write m i R = Inr u"
      using assms(2) by (auto simp: create_memo_with_idempotency_event_def split: sum.splits)
    have "get_memo (mm_memo_id m) R' = Some w"
      using memo_bundle_get [OF assms(2)] Some by simp
    from memos_ok_lookup [OF memos_ok_bundle [OF assms] this] True
      validate_memo_write_Inr(2) [OF u Some]
    show ?thesis by (auto simp: memo_version_key_def)
  qed (use Some in blast)
qed

lemma append_memo_event_idem: "append_memo_event e (append_memo_event e R) = append_memo_event e R"
proof -
  let ?es = "dict_list (rp_memo_events R) (me_memo_id e)"
  let ?new = "if list_ex (\<lambda>x. me_event_id x = me_event_id e) ?es then ?es else ?es @ [e]"
  have "list_ex (\<lambda>x. me_event_id x = me_event_id e) ?new"
    by simp
  moreover have "dict_list (dict_set (me_memo_id e) ?new (rp_memo_events R)) (me_memo_id e) = ?new"
    by (simp add: dict_list_def)
  moreover have "dict_set k v (dict_set k v d) = dict_set k v d" for k and v :: "memo_event list" and d
    by (induction d) auto
  ultimately show ?thesis
    unfolding append_memo_event_def Let_def by simp
qed

lemma memo_bundle_hash:
  assumes "create_memo_with_idempotency_event m i e R = Inr R'"
  shows "\<exists>w. get_memo (mm_memo_id m) R' = Some w \<and> mm_memo_hash w = mm_memo_hash m"
proof -
  obtain u where "validate_memo_write m i R = Inr u"
    using assms by (auto simp: create_memo_with_idempotency_event_def split: sum.splits)
  then show ?thesis
    using memo_bundle_get [OF assms] validate_memo_write_Inr(2)
    by (cases "get_memo (mm_memo_id m) R") auto
qed

lemma append_memo_event_fields [simp]:
  "rp_memos (append_memo_event e R) = rp_memos R"
  "rp_memo_by_proposal_version (append_memo_event e R) = rp_memo_by_proposal_version R"
  "rp_memo_idempotency (append_memo_event e R) = rp_memo_idempotency R"
  by (simp_all add: append_memo_event_def Let_def)

text \<open>The bundle is idempotent.\<close>

lemma memo_bundle_again:
  assumes "create_memo_with_idempotency_event m i e R = Inr R'"
  shows "create_memo_with_idempotency_event m i e R' = Inr R'"
proof -
  obtain u where u: "validate_memo_write m i R = Inr u"
    and R': "R' = append_memo_event e
      (store_memo_idempotency_if_absent i (store_memo_if_absent m R))"
    using assms by (auto simp: create_memo_with_idempotency_event_def split: sum.splits)
  let ?M = "store_memo_if_absent m R"
  have M: "dict_has (rp_memos R') (mm_memo_id m)"
    "rp_memo_by_proposal_version R' = rp_memo_by_proposal_version ?M"
    by (auto simp: R' store_memo_idempotency_if_absent_def store_memo_if_absent_def store_memo_def
        dict_has_def split: option.splits)
  have memo: "\<not> memo_version_conflict m R'"
    using validate_memo_write_Inr(1) [OF u] M(2)
    by (auto simp: memo_version_conflict_def store_memo_if_absent_def store_memo_def)
  have held: "validate_memo_idempotency_write c R' = Inr ()
      \<and> dict_has (rp_memo_idempotency R') (mi_idempotency_key c)" if "i = Some c" for c
    using that u
    by (auto simp: R' store_memo_idempotency_if_absent_def store_memo_if_absent_def store_memo_def
        validate_memo_write_def validate_memo_idempotency_write_def dict_has_def
        split: option.splits if_splits)
  have "validate_memo_write m i R' = Inr ()"
    using memo memo_bundle_hash [OF assms] held
    by (auto simp: validate_memo_write_def get_memo_def split: option.splits)
  moreover have "store_memo_idempotency_if_absent i (store_memo_if_absent m R') = R'"
    using M(1) held
    by (auto simp: store_memo_idempotency_if_absent_def store_memo_if_absent_def dict_setdefault_def
        split: option.splits)
  ultimately show ?thesis
    by (simp add: create_memo_with_idempotency_event_def R' append_memo_event_idem)
qed

end
