(* ===== verification/Data_Properties.thy ===== *)
theory Data_Properties
  imports Fixtures Idea_Realizations Repository_Memos
begin

text \<open>
  The properties of the remaining stores and of the rules beneath every command: idea
  realizations and their intake claims, memos and acknowledgements, canonical hashing and key
  normalisation; and two runs that show where the workflow gives less than it seems to.
\<close>

section \<open>Idea realizations\<close>

subsection \<open>A run: one idea taken in, one proposal executed, one reconciliation\<close>

definition demo_intake_request :: intake_request where
  "demo_intake_request = \<lparr>iq_source_system = ''idea'', iq_source_product = ''x'',
     iq_idea_candidate_id = ''c'', iq_conversion_intent_id = ''i'',
     iq_intent_type = IT_REVIEW_FOR_ADVISORY_PROPOSAL, iq_portfolio_id = ''pf_1'',
     iq_source_refs = []\<rparr>"

definition demo_principal :: intake_principal where
  "demo_principal = \<lparr>ip_actor_id = ''adv'', ip_role = ''r'', ip_tenant_id = ''t'',
     ip_legal_entity_code = ''le'', ip_correlation_id = ''corr'', ip_service_identity = ''svc'',
     ip_authorized_portfolio_id = Some ''pf_1''\<rparr>"

definition demo_executed :: repository where
  "demo_executed = sy_repository demo_system"

definition demo_taken_in :: repository where
  "demo_taken_in = snd (process_idea_proposal_intake demo_runtime demo_intake_request ''corr'' ''ki''
     demo_principal ''js'' 0 demo_executed)"

definition demo_intake_id :: string where
  "demo_intake_id = intake_id_of demo_runtime demo_intake_request (source_refs_fingerprint demo_runtime [])"

lemma demo_executed_keyed: "proposals_keyed demo_executed"
  using reachable_ok [OF demo_reachable]
  by (simp add: system_ok_def repository_ok_def demo_executed_def)

lemma demo_executed_ideas: "realizations_ok demo_executed"
proof -
  have "rp_idea_proposal_realizations demo_executed = []"
    and "rp_idea_proposal_realization_outcomes demo_executed = []"
    and "rp_idea_realization_by_proposal demo_executed = []"
    and "rp_idea_realization_by_intake demo_executed = []"
    and "rp_idea_proposal_intakes demo_executed = []"
    by code_simp+
  then show ?thesis
    by (simp add: realizations_ok_def ideas_ok_def index_ok_def links_ok_def realization_of_def
        outcomes_of_def owner_of_def intake_of_def realization_ok_def contiguous_def dict_list_def)
qed

lemma demo_taken_in_ideas: "realizations_ok demo_taken_in"
  unfolding demo_taken_in_def by (rule process_ok [OF demo_executed_ideas])

lemma demo_taken_in_keyed: "proposals_keyed demo_taken_in"
  unfolding demo_taken_in_def by (simp add: proposals_keyed_process demo_executed_keyed)

text \<open>
  Intake and reconciliation keep every realization's outcome stream sound: outcome
  versions are \<open>1, 2, \<dots>\<close> without gaps and all belong to the realization, whose current version
  is the last one; every index entry leads to a realization carrying that key; and a realization
  is linked to a proposal exactly when the proposal's index points back, so no proposal is
  shared by two realizations.
\<close>

theorem realization_streams_stay_sound:
  assumes "realizations_ok R" and "proposals_keyed R"
    and "R' \<in> {snd (process_idea_proposal_intake rt q cid key who js t R),
               snd (reconcile_idea_proposal_realization rt iid pf pid v who t R)}"
    and "realization_of k R' = Some r"
  shows "map oc_source_event_version (outcomes_of k R')
           = map (\<lambda>i. 1 + int i) [0..<nat (rz_current_source_event_version r)]
     \<and> 1 \<le> rz_current_source_event_version r
     \<and> (\<forall>oc\<in>set (outcomes_of k R'). oc_realization_id oc = k)
     \<and> (\<forall>p j x. rz_proposal_id r = Some p \<longrightarrow> realization_of j R' = Some x
           \<longrightarrow> rz_proposal_id x = Some p \<longrightarrow> j = k)
     \<and> realizations_ok R'"
proof -
  have ok: "realizations_ok R'"
    using assms(3) process_ok [OF assms(1)] reconcile_ok [OF assms(1,2)] by auto
  then have "realization_ok (Some r) (outcomes_of k R') k"
    using assms(4) by (auto simp: realizations_ok_def ideas_ok_def dest!: spec [of _ k])
  then have stream: "contiguous (outcomes_of k R')" "outcomes_of k R' \<noteq> []"
    "rz_current_source_event_version r = int (length (outcomes_of k R'))"
    "\<forall>oc\<in>set (outcomes_of k R'). oc_realization_id oc = k"
    by (auto simp: realization_ok_def)
  have owner: "owner_of p R' = Some j"
    if "realization_of j R' = Some x" "rz_proposal_id x = Some p" for j x p
    using ok that by (auto simp: realizations_ok_def links_ok_def)
  have unique: "j = k" if "rz_proposal_id r = Some p" "realization_of j R' = Some x"
      "rz_proposal_id x = Some p" for j x p
    using owner [OF assms(4) that(1)] owner [OF that(2,3)] by simp
  have "1 \<le> rz_current_source_event_version r"
    using stream(2,3) by (cases "outcomes_of k R'") auto
  moreover have "map oc_source_event_version (outcomes_of k R')
      = map (\<lambda>i. 1 + int i) [0..<nat (rz_current_source_event_version r)]"
    using stream(1,3) unfolding contiguous_def by (simp only: nat_int)
  ultimately show ?thesis
    using ok stream(4) unique by blast
qed

theorem realization_streams_stay_sound_witness:
  "\<exists>k r. realization_of k (snd (reconcile_idea_proposal_realization demo_runtime demo_intake_id ''pf_1''
       ''p'' 1 demo_principal 7 demo_taken_in)) = Some r
     \<and> 1 \<le> rz_current_source_event_version r \<and> rz_proposal_id r = Some ''p''"
proof -
  let ?R = "snd (reconcile_idea_proposal_realization demo_runtime demo_intake_id ''pf_1''
       ''p'' 1 demo_principal 7 demo_taken_in)"
  let ?k = "fst (hd (rp_idea_proposal_realizations ?R))"
  have "map_option rz_proposal_id (realization_of ?k ?R) = Some (Some ''p'')" by code_simp
  then obtain r where "realization_of ?k ?R = Some r" "rz_proposal_id r = Some ''p''" by auto
  then show ?thesis
    using realization_streams_stay_sound [OF demo_taken_in_ideas demo_taken_in_keyed, of ?R] by blast
qed

text \<open>
  Advancing a realization is a compare-and-set on its event version: it succeeds exactly
  when the stored version is the expected one, the new outcomes continue the stream up to the
  new version, the proposal exists in the same portfolio, is not older than the realization and
  is owned by no other one.  Success stores the realization and appends the outcomes; otherwise
  a state conflict is reported and nothing is written.
\<close>

theorem advance_is_compare_and_set:
  "(advance_allowed v r ocs R \<and>
      advance_idea_proposal_realization v r ocs R =
        (Inr \<lparr>rh_realization = r, rh_outcomes = outcomes_of (rz_realization_id r) R @ ocs\<rparr>,
         write_realization r ocs R))
   \<noteq> (\<exists>m. \<not> advance_allowed v r ocs R
        \<and> advance_idea_proposal_realization v r ocs R = (Inl (StateConflictError m), R))"
  by (cases rule: advance_cases [of v r ocs R]) auto

text \<open>
  Retention never loses a protected claim: while a legal hold is set, or before its
  expiry instant, the intake claim held under a key survives every later claim, whatever its
  key and instant, and a claim under the same key is either answered from it as replayed, with
  the realization as it now stands, for the same request fingerprint only, or refused.
\<close>

theorem held_intake_claims_survive:
  assumes "realizations_ok R" and "intake_of key R = Some i"
    and "ii_legal_hold i \<or> ii_created_at_utc q < ii_expires_at_utc i"
  shows "intake_of key (snd (claim_idea_proposal_intake q R)) = Some i
     \<and> (ii_registry_key q = key \<longrightarrow>
          (case fst (claim_idea_proposal_intake q R) of
             Inr c \<Rightarrow> ic_replayed c \<and> (\<exists>r. ic_record c = i\<lparr>ii_realization := r\<rparr>)
                \<and> ii_request_fingerprint q = ii_request_fingerprint i
           | Inl e \<Rightarrow> True))"
proof -
  have ideas: "ideas_ok R" using assms(1) by (simp add: realizations_ok_def)
  let ?R0 = "R\<lparr>rp_idea_proposal_intakes := purge_expired_idea_proposal_intakes
      (ii_created_at_utc q) (rp_idea_proposal_intakes R)\<rparr>"
  have "dict_get (rp_idea_proposal_intakes ?R0) key = Some i"
    using ideas assms(2,3) intake_of_purge [of R "ii_created_at_utc q" key] by (simp add: ideas_ok_def)
  then show ?thesis
    using claim_keeps_held_intake [OF ideas assms(2,3)]
    by (auto simp: claim_idea_proposal_intake_def existing_idea_intake_or_conflict_def Let_def
        split: sum.splits option.splits if_splits)
qed

theorem held_intake_claims_survive_witness:
  "\<exists>key i. intake_of key demo_taken_in = Some i
     \<and> intake_of key (snd (claim_idea_proposal_intake i demo_taken_in)) = Some i"
proof -
  let ?key = "fst (hd (rp_idea_proposal_intakes demo_taken_in))"
  have "case intake_of ?key demo_taken_in of None \<Rightarrow> False
      | Some i \<Rightarrow> ii_created_at_utc i < ii_expires_at_utc i" by code_simp
  then obtain i where "intake_of ?key demo_taken_in = Some i" "ii_created_at_utc i < ii_expires_at_utc i"
    by (auto split: option.splits)
  with held_intake_claims_survive [OF demo_taken_in_ideas] show ?thesis by blast
qed

text \<open>
  Reconciliation projects the proposal's posture: after it succeeds the realization is
  linked to the proposal and its status is the one of the proposal's state; repeating the
  request, with whatever version and instant, returns the same history and writes nothing.
\<close>

theorem reconciliation_is_idempotent:
  assumes "realizations_ok R" and "proposals_keyed R" and "get_proposal pid R = Some p"
    and "reconcile_idea_proposal_realization rt iid pf pid v who t R = (Inr h, R')"
  shows "rz_proposal_id (rh_realization h) = Some pid
     \<and> rz_current_status (rh_realization h) = target_status (pr_current_state p)
     \<and> (rz_current_status (rh_realization h) = RS_PROPOSAL_LINKED
          \<longleftrightarrow> pr_current_state p \<notin> set terminal_states)
     \<and> reconcile_idea_proposal_realization rt iid pf pid v' who t' R' = (Inr h, R')"
  using reconcile_projects [OF assms] target_status_terminal [of "pr_current_state p"]
  by (simp add: already_reconciled_def)

theorem reconciliation_is_idempotent_witness:
  "\<exists>h. reconcile_idea_proposal_realization demo_runtime demo_intake_id ''pf_1'' ''p'' 99 demo_principal 9
       (snd (reconcile_idea_proposal_realization demo_runtime demo_intake_id ''pf_1'' ''p'' 1
          demo_principal 7 demo_taken_in))
     = (Inr h, snd (reconcile_idea_proposal_realization demo_runtime demo_intake_id ''pf_1'' ''p'' 1
          demo_principal 7 demo_taken_in))
     \<and> rz_current_status (rh_realization h) \<noteq> RS_PROPOSAL_LINKED"
proof -
  let ?run = "reconcile_idea_proposal_realization demo_runtime demo_intake_id ''pf_1'' ''p'' 1
      demo_principal 7 demo_taken_in"
  have "case fst ?run of Inr h \<Rightarrow> True | Inl e \<Rightarrow> False" by code_simp
  then obtain h R' where run: "?run = (Inr h, R')" by (cases ?run) (auto split: sum.splits)
  have "map_option pr_current_state (get_proposal ''p'' demo_taken_in) = Some WS_EXECUTED" by code_simp
  then obtain p where p: "get_proposal ''p'' demo_taken_in = Some p" "pr_current_state p = WS_EXECUTED"
    by auto
  from reconciliation_is_idempotent [OF demo_taken_in_ideas demo_taken_in_keyed p(1) run,
      where v' = 99 and t' = 9] p(2) run
  show ?thesis by (auto simp: terminal_states_def)
qed

section \<open>Memos and acknowledgements\<close>

text \<open>
  A memo is written once: storing a memo with its key and event keeps memos and the
  version index in step, never changes a memo that is already stored, adds the new one only if
  its id is free, and storing the same bundle again succeeds and changes nothing.
\<close>

theorem memo_bundle_first_write_wins:
  assumes "memos_ok R" and "create_memo_with_idempotency_event m i e R = Inr R'"
  shows "memos_ok R'
     \<and> get_memo k R' = (if k = mm_memo_id m \<and> get_memo k R = None then Some m else get_memo k R)
     \<and> (\<exists>w. get_memo (mm_memo_id m) R' = Some w \<and> mm_memo_hash w = mm_memo_hash m)
     \<and> create_memo_with_idempotency_event m i e R' = Inr R'"
  using memos_ok_bundle [OF assms] memo_bundle_get [OF assms(2)] memo_bundle_hash [OF assms(2)]
    memo_bundle_again [OF assms(2)] by blast

definition demo_memo :: memo where
  "demo_memo = \<lparr>mm_memo_id = ''m'', mm_proposal_id = ''p'', mm_proposal_version_no = 1,
     mm_proposal_version_id = None, mm_artifact_id = None, mm_memo_version = ''1'',
     mm_memo_status = ''READY'', mm_lifecycle_status = ML_FINALIZED, mm_created_by = ''adv'', mm_created_at = 1,
     mm_source_input_hash = ''s'', mm_memo_hash = ''h'', mm_memo_json = [], mm_projection_json = [],
     mm_review_events_json = [], mm_report_package_events_json = [], mm_archive_refs_json = [],
     mm_ai_refs_json = [], mm_replay_metadata_json = []\<rparr>"

definition demo_memo_claim :: memo_idempotency where
  "demo_memo_claim = \<lparr>mi_idempotency_key = ''mk'', mi_request_hash = ''rh'', mi_memo_id = ''m'',
     mi_proposal_id = ''p'', mi_proposal_version_no = 1, mi_created_at = 1\<rparr>"

definition demo_memo_event :: memo_event where
  "demo_memo_event = \<lparr>me_event_id = ''me'', me_memo_id = ''m'', me_proposal_id = ''p'',
     me_proposal_version_no = 1, me_event_type = ME_MEMO_FINALIZED, me_actor_id = ''adv'',
     me_occurred_at = 1, me_reason_json = []\<rparr>"

theorem memo_bundle_first_write_wins_witness:
  "\<exists>R'. create_memo_with_idempotency_event demo_memo (Some demo_memo_claim) demo_memo_event
          empty_repository = Inr R'
     \<and> get_memo ''m'' R' = Some demo_memo
     \<and> create_memo_with_idempotency_event demo_memo (Some demo_memo_claim) demo_memo_event R' = Inr R'"
proof -
  have "case create_memo_with_idempotency_event demo_memo (Some demo_memo_claim) demo_memo_event
          empty_repository of Inr R' \<Rightarrow> True | Inl e \<Rightarrow> False" by code_simp
  then obtain R' where R': "create_memo_with_idempotency_event demo_memo (Some demo_memo_claim)
      demo_memo_event empty_repository = Inr R'" by (auto split: sum.splits)
  have "get_memo ''m'' empty_repository = None" and "mm_memo_id demo_memo = ''m''"
    by (simp_all add: get_memo_def empty_repository_def demo_memo_def)
  then show ?thesis
    using memo_bundle_first_write_wins [OF memos_ok_empty R', of "''m''"] R' by simp
qed

text \<open>
  A cockpit acknowledgement is claimed once per key: after a successful save the key holds
  a claim for the same request, item and acknowledgement; claims held before are kept; the
  acknowledgement is stored when the key was free; retrying under the key changes nothing,
  whatever acknowledgement body the retry carries; and a save fails exactly when the key holds
  a different claim.
\<close>

theorem acknowledgement_claims_are_final:
  assumes "save_cockpit_acknowledgement_with_idempotency a i R = Inr R'"
  shows "(\<exists>w. get_cockpit_acknowledgement_idempotency (ci_idempotency_key i) R' = Some w
          \<and> ci_request_hash w = ci_request_hash i
          \<and> ci_acknowledgement_id w = ci_acknowledgement_id i
          \<and> ci_action_item_id w = ci_action_item_id i)
     \<and> (get_cockpit_acknowledgement_idempotency k R = Some x \<longrightarrow>
          get_cockpit_acknowledgement_idempotency k R' = Some x)
     \<and> (get_cockpit_acknowledgement_idempotency (ci_idempotency_key i) R = None \<longrightarrow>
          get_cockpit_acknowledgement (ca_action_item_id a) R' = Some a)
     \<and> save_cockpit_acknowledgement_with_idempotency b i R' = Inr R'
     \<and> ((\<exists>S. save_cockpit_acknowledgement_with_idempotency c j R' = Inr S) \<longleftrightarrow>
          (\<forall>w. get_cockpit_acknowledgement_idempotency (ci_idempotency_key j) R' = Some w \<longrightarrow>
             ci_request_hash w = ci_request_hash j
             \<and> ci_acknowledgement_id w = ci_acknowledgement_id j
             \<and> ci_action_item_id w = ci_action_item_id j))"
proof -
  obtain w where w: "get_cockpit_acknowledgement_idempotency (ci_idempotency_key i) R' = Some w"
    "ci_request_hash w = ci_request_hash i" "ci_acknowledgement_id w = ci_acknowledgement_id i"
    "ci_action_item_id w = ci_action_item_id i"
    using acknowledgement_claims.claim_held [OF assms] by blast
  moreover have "get_cockpit_acknowledgement_idempotency (ci_idempotency_key i) R = None \<Longrightarrow>
      get_cockpit_acknowledgement (ca_action_item_id a) R' = Some a"
    using assms
    by (auto simp: save_cockpit_acknowledgement_with_idempotency_def
        get_cockpit_acknowledgement_idempotency_def get_cockpit_acknowledgement_def split: option.splits)
  ultimately show ?thesis
    using acknowledgement_claims.claim_keeps [OF assms]
      acknowledgement_claims.claim_retry [OF w(1)] acknowledgement_claims.claim_succeeds_iff by blast
qed

definition demo_ack :: "string \<Rightarrow> cockpit_ack" where
  "demo_ack note_text = \<lparr>ca_acknowledgement_id = ''a'', ca_action_item_id = ''item'',
     ca_action_item_version = 1, ca_acknowledged_by = ''adv'', ca_acknowledged_at = 1,
     ca_acknowledgement_note = Some note_text, ca_correlation_id = None, ca_reason_json = []\<rparr>"

definition demo_ack_claim :: cockpit_ack_idempotency where
  "demo_ack_claim = \<lparr>ci_idempotency_key = ''ck'', ci_request_hash = ''rh'',
     ci_acknowledgement_id = ''a'', ci_action_item_id = ''item'', ci_created_at = 1\<rparr>"

theorem acknowledgement_claims_are_final_witness:
  "\<exists>R'. save_cockpit_acknowledgement_with_idempotency (demo_ack ''x'') demo_ack_claim empty_repository
          = Inr R'
     \<and> get_cockpit_acknowledgement ''item'' R' = Some (demo_ack ''x'')
     \<and> save_cockpit_acknowledgement_with_idempotency (demo_ack ''y'') demo_ack_claim R' = Inr R'"
proof -
  have none: "get_cockpit_acknowledgement_idempotency (ci_idempotency_key demo_ack_claim)
      empty_repository = None"
    by (simp add: get_cockpit_acknowledgement_idempotency_def empty_repository_def)
  then obtain R' where R': "save_cockpit_acknowledgement_with_idempotency (demo_ack ''x'')
      demo_ack_claim empty_repository = Inr R'"
    using acknowledgement_claims.claim_first by blast
  have "ca_action_item_id (demo_ack ''x'') = ''item''" by (simp add: demo_ack_def)
  then show ?thesis using acknowledgement_claims_are_final [OF R'] none R' by fastforce
qed

section \<open>Hashing and keys\<close>

text \<open>
  Removing keys from a document before hashing removes them at every depth and nothing
  else: no excluded key is left, no key is added, a document without them is unchanged, and
  removing twice is removing once.
\<close>

theorem strip_keys_removes_exactly:
  "json_keys (strip_keys ex j) \<subseteq> json_keys j - ex
   \<and> (strip_keys ex j = j \<longleftrightarrow> json_keys j \<inter> ex = {})
   \<and> strip_keys ex (strip_keys ex j) = strip_keys ex j"
proof -
  have "json_keys j \<inter> ex = {}" if "strip_keys ex j = j"
    using json_keys_strip_keys [of ex j] that by auto
  then show ?thesis
    using json_keys_strip_keys strip_keys_disjoint strip_keys_idem by blast
qed

text \<open>
  An accepted idempotency key is canonical: not empty, at most 128 characters, free of
  control characters, without surrounding white space, and accepted as itself; every other key
  is refused with the one documented error.
\<close>

theorem accepted_keys_are_canonical:
  "(\<exists>k. require_proposal_idempotency_key key = Inr k
      \<and> k \<noteq> [] \<and> length k \<le> 128 \<and> \<not> contains_control_character k \<and> py_strip k = k
      \<and> require_proposal_idempotency_key (Some k) = Inr k)
   \<noteq> (require_proposal_idempotency_key key
        = Inl (ValidationError ''IDEMPOTENCY_KEY_REQUIRED''))"
  using normalize_key_SomeD [of key] normalize_key_fixpoint [of key]
  by (cases "normalize_optional_idempotency_key key")
    (auto simp: require_key_Inr_iff require_key_Inl_iff)

section \<open>What the workflow does not guarantee\<close>

definition demo_version :: "string \<Rightarrow> string \<Rightarrow> datetime \<Rightarrow> proposal_request" where
  "demo_version vid eid t = RQ_Version ''p'' \<lparr>vq_created_by = ''adv'',
     vq_expected_current_version_no = None, vq_content = []\<rparr> None demo_version_options t
     \<lparr>ni_proposal_id = ''p'', ni_version_id = vid, ni_event_id = eid\<rparr>"

definition stale_update_actions :: "action list" where
  "stale_update_actions =
     [Prepare (RQ_Handoff ''p'' demo_handoff None False 5 ''x1'' ''e4''), Commit 0,
      Prepare (demo_version ''v2'' ''e5'' 6), Commit 0,
      Prepare (RQ_Update ''p'' (demo_update UP_EXECUTED) 7 ''e6''), Commit 0]"

text \<open>
  An execution update outlives the version it executes: after a handoff, creating a new
  version returns the proposal to draft, yet an update of the earlier handoff still closes it as
  executed.  The reachable state below has version 2 current and executed, and no review or
  consent was ever recorded for version 2.
\<close>

theorem stale_update_executes_unreviewed_version:
  "\<exists>S p. reachable demo_runtime demo_services S
     \<and> get_proposal ''p'' (sy_repository S) = Some p
     \<and> pr_current_state p = WS_EXECUTED \<and> pr_current_version_no p = 2
     \<and> map ev_event_type (list_events ''p'' (sy_repository S)) =
         [EV_CREATED, EV_SUBMITTED_FOR_RISK_REVIEW, EV_RISK_APPROVED, EV_CLIENT_CONSENT_RECORDED,
          EV_EXECUTION_REQUESTED, EV_NEW_VERSION_CREATED, EV_EXECUTED]"
proof -
  let ?S = "run_actions demo_runtime demo_services stale_update_actions demo_ready"
  have "schedule_enabled demo_runtime demo_services stale_update_actions demo_ready" by code_simp
  then have "reachable demo_runtime demo_services ?S" by (rule reachable_run [OF _ demo_ready_reachable])
  moreover have "map_option (\<lambda>p. (pr_current_state p, pr_current_version_no p))
      (get_proposal ''p'' (sy_repository ?S)) = Some (WS_EXECUTED, 2)" by code_simp
  moreover have "map ev_event_type (list_events ''p'' (sy_repository ?S)) =
         [EV_CREATED, EV_SUBMITTED_FOR_RISK_REVIEW, EV_RISK_APPROVED, EV_CLIENT_CONSENT_RECORDED,
          EV_EXECUTION_REQUESTED, EV_NEW_VERSION_CREATED, EV_EXECUTED]" by code_simp
  ultimately show ?thesis by auto
qed

definition orphan_version_actions :: "action list" where
  "orphan_version_actions =
     [Prepare (demo_version ''v2'' ''e1'' 2),
      Prepare (demo_move EV_SUBMITTED_FOR_RISK_REVIEW ''e2'' 3), Commit 1, Commit 0]"

text \<open>
  A version write that loses the race leaves its row behind: the version is stored before
  the compare-and-set, so the reachable state below holds a version 2 while the proposal is at
  version 1 and its log records no new version.
\<close>

theorem lost_version_write_leaves_a_row:
  "\<exists>S p v. reachable demo_runtime demo_services S
     \<and> get_proposal ''p'' (sy_repository S) = Some p \<and> pr_current_version_no p = 1
     \<and> get_version ''p'' 2 (sy_repository S) = Some v
     \<and> map ev_event_type (list_events ''p'' (sy_repository S)) =
         [EV_CREATED, EV_SUBMITTED_FOR_RISK_REVIEW]"
proof -
  let ?S = "run_actions demo_runtime demo_services orphan_version_actions demo_created"
  have "schedule_enabled demo_runtime demo_services orphan_version_actions demo_created" by code_simp
  then have "reachable demo_runtime demo_services ?S" by (rule reachable_run [OF _ demo_created_reachable])
  moreover have "map_option pr_current_version_no (get_proposal ''p'' (sy_repository ?S)) = Some 1"
    by code_simp
  moreover have "map_option pv_version_no (get_version ''p'' 2 (sy_repository ?S)) = Some 2" by code_simp
  moreover have "map ev_event_type (list_events ''p'' (sy_repository ?S)) =
         [EV_CREATED, EV_SUBMITTED_FOR_RISK_REVIEW]" by code_simp
  ultimately show ?thesis by auto
qed

definition double_handoff_actions :: "action list" where
  "double_handoff_actions =
     [Prepare (RQ_Handoff ''p'' demo_handoff (Some ''hk'') False 5 ''x1'' ''e4''),
      Prepare (RQ_Handoff ''p'' demo_handoff (Some ''hk'') False 5 ''x2'' ''e5''), Commit 0, Commit 0]"

text \<open>
  A handoff key protects sequential retries only: the compare-and-set looks at the state
  and version, which a handoff leaves alone, so two requests with one key that read the same
  snapshot both append an execution request, under different request ids.
\<close>

theorem concurrent_handoffs_duplicate:
  "\<exists>S. reachable demo_runtime demo_services S
     \<and> map (\<lambda>e. (ev_event_type e, json_get (ev_reason_json e) ''execution_request_id''))
         (drop 4 (list_events ''p'' (sy_repository S))) =
         [(EV_EXECUTION_REQUESTED, JStr ''x1''), (EV_EXECUTION_REQUESTED, JStr ''x2'')]"
proof -
  let ?S = "run_actions demo_runtime demo_services double_handoff_actions demo_ready"
  have "schedule_enabled demo_runtime demo_services double_handoff_actions demo_ready" by code_simp
  then have "reachable demo_runtime demo_services ?S" by (rule reachable_run [OF _ demo_ready_reachable])
  moreover have "map (\<lambda>e. (ev_event_type e, json_get (ev_reason_json e) ''execution_request_id''))
         (drop 4 (list_events ''p'' (sy_repository ?S))) =
         [(EV_EXECUTION_REQUESTED, JStr ''x1''), (EV_EXECUTION_REQUESTED, JStr ''x2'')]" by code_simp
  ultimately show ?thesis by (intro exI [of _ ?S] conjI)
qed

end
