(* ===== verification/Decimals.thy ===== *)
theory Decimals
  imports Contract_Types "HOL-Library.Log_Nat"
begin

text \<open>
  Python's \<open>decimal.Decimal\<close> under the default context: 28 significant digits, rounding half to
  even.  A decimal is its value, a rational number; every arithmetic operation computes the exact
  result and rounds it once.  Trailing zeros and the sign of zero only matter for printing, which
  the engine leaves to the serialiser; the exponent range is not bounded here.  Division by zero
  and a quantisation that needs more than 28 digits raise, as in Python.
\<close>

type_synonym decimal = rat

definition decimal_precision :: nat where
  "decimal_precision = 28"

subsection \<open>Rounding to an integer, half to even\<close>

definition round_half_even :: "rat \<Rightarrow> int" where
  "round_half_even x =
     (let f = \<lfloor>x\<rfloor>; d = x - of_int f
      in if d < 1 / 2 then f
         else if 1 / 2 < d then f + 1
         else if even f then f else f + 1)"

lemma round_half_even_of_int [simp]: "round_half_even (of_int n) = n"
  by (simp add: round_half_even_def)

lemma round_half_even_error: "\<bar>of_int (round_half_even x) - x\<bar> \<le> 1 / 2"
proof -
  define f where "f = \<lfloor>x\<rfloor>"
  have "of_int f \<le> x" and "x < of_int f + 1" unfolding f_def by linarith+
  then show ?thesis
    unfolding round_half_even_def Let_def f_def [symmetric] by auto
qed

lemma round_half_even_between: "\<lfloor>x\<rfloor> \<le> round_half_even x \<and> round_half_even x \<le> \<lfloor>x\<rfloor> + 1"
  by (auto simp: round_half_even_def Let_def)

lemma round_half_even_mono:
  assumes "x \<le> y" shows "round_half_even x \<le> round_half_even y"
proof (cases "\<lfloor>x\<rfloor> = \<lfloor>y\<rfloor>")
  case True
  with assms show ?thesis by (auto simp: round_half_even_def Let_def)
next
  case False
  then have "\<lfloor>x\<rfloor> + 1 \<le> \<lfloor>y\<rfloor>" using floor_mono [OF assms] by simp
  then show ?thesis
    using round_half_even_between [of x] round_half_even_between [of y] by linarith
qed

lemma round_half_even_nonneg: "0 \<le> x \<Longrightarrow> 0 \<le> round_half_even x"
  using round_half_even_mono [of 0 x] round_half_even_of_int [of 0] by simp

lemma round_half_even_ge: "of_int n \<le> x \<Longrightarrow> n \<le> round_half_even x"
  using round_half_even_mono [of "of_int n" x] by simp

lemma round_half_even_le: "x \<le> of_int n \<Longrightarrow> round_half_even x \<le> n"
  using round_half_even_mono [of x "of_int n"] by simp

subsection \<open>The number of integer digits\<close>

text \<open>\<open>10 ^ (d - 1) \<le> \<bar>x\<bar> < 10 ^ d\<close> for \<open>d = int_digits x\<close>; \<open>d\<close> may be zero or negative.\<close>

definition int_digits :: "rat \<Rightarrow> int" where
  "int_digits x =
     (if 1 \<le> \<bar>x\<bar> then int (floorlog 10 (nat \<lfloor>\<bar>x\<bar>\<rfloor>))
      else 1 - int (floorlog 10 (nat (\<lceil>1 / \<bar>x\<bar>\<rceil> - 1))))"

definition pow10 :: "int \<Rightarrow> rat" where
  "pow10 k = (if 0 \<le> k then 10 ^ nat k else 1 / 10 ^ nat (- k))"

lemma pow10_powi: "pow10 k = 10 powi k"
  by (simp add: pow10_def power_int_def field_simps)

lemma pow10_pos [simp]: "0 < pow10 k"
  by (simp add: pow10_def)

lemma abs_pow10 [simp]: "\<bar>pow10 k\<bar> = pow10 k"
  using pow10_pos [of k] by linarith

lemma pow10_nonzero [simp]: "pow10 k \<noteq> 0"
  using pow10_pos [of k] by linarith

lemma pow10_add: "pow10 (a + b) = pow10 a * pow10 b"
  by (simp add: pow10_powi power_int_add)

lemma pow10_mono: "a \<le> b \<Longrightarrow> pow10 a \<le> pow10 b"
  by (simp add: pow10_powi power_int_increasing)

lemma pow10_less_imp_less: "pow10 a < pow10 b \<Longrightarrow> a < b"
  using pow10_mono [of b a] by linarith

lemma pow10_of_nat: "pow10 (int n) = 10 ^ n"
  by (simp add: pow10_def)

lemma floorlog_10_bounds:
  assumes "0 < m"
  shows "10 ^ (floorlog 10 m - 1) \<le> rat_of_nat m" and "rat_of_nat m + 1 \<le> 10 ^ floorlog 10 m"
    and "floorlog 10 m \<noteq> 0"
proof -
  have d: "10 ^ (floorlog 10 m - 1) \<le> m" "m + 1 \<le> 10 ^ floorlog 10 m"
    using floorlog_bounds [of m 10] assms by auto
  show "10 ^ (floorlog 10 m - 1) \<le> rat_of_nat m"
    using of_nat_mono [OF d(1), where 'a = rat] by (simp only: of_nat_power of_nat_numeral)
  show "rat_of_nat m + 1 \<le> 10 ^ floorlog 10 m"
    using of_nat_mono [OF d(2), where 'a = rat]
    by (simp only: of_nat_power of_nat_numeral of_nat_add of_nat_1)
  show "floorlog 10 m \<noteq> 0"
    using assms by (simp add: floorlog_eq_zero_iff)
qed

lemma int_digits_bounds:
  assumes "x \<noteq> 0"
  shows "pow10 (int_digits x - 1) \<le> \<bar>x\<bar>" and "\<bar>x\<bar> < pow10 (int_digits x)"
proof -
  have "pow10 (int_digits x - 1) \<le> \<bar>x\<bar> \<and> \<bar>x\<bar> < pow10 (int_digits x)"
  proof (cases "1 \<le> \<bar>x\<bar>")
    case True
    define m where "m = nat \<lfloor>\<bar>x\<bar>\<rfloor>"
    have m: "0 < m" "rat_of_nat m \<le> \<bar>x\<bar>" "\<bar>x\<bar> < rat_of_nat m + 1"
      using True unfolding m_def by linarith+
    define d where "d = floorlog 10 m"
    note d = floorlog_10_bounds [OF m(1), folded d_def]
    have "int_digits x = int d" using True by (simp add: int_digits_def d_def m_def)
    moreover have "int d - 1 = int (d - 1)" using d(3) by simp
    ultimately have "pow10 (int_digits x - 1) = 10 ^ (d - 1)" and "pow10 (int_digits x) = 10 ^ d"
      by (simp_all only: pow10_of_nat)
    then show ?thesis using m(2,3) d(1,2) by linarith
  next
    case False
    define y where "y = 1 / \<bar>x\<bar>"
    have y: "1 < y" "\<bar>x\<bar> = 1 / y" using False assms by (auto simp: y_def field_simps)
    define m where "m = nat (\<lceil>y\<rceil> - 1)"
    have m: "0 < m" "rat_of_nat m < y" "y \<le> rat_of_nat m + 1"
      using y(1) unfolding m_def by linarith+
    define d where "d = floorlog 10 m"
    note d = floorlog_10_bounds [OF m(1), folded d_def]
    have "y \<le> 10 ^ d" and "10 ^ (d - 1) < y" using m(2,3) d(1,2) by linarith+
    then have "1 / 10 ^ d \<le> 1 / y" and "1 / y < 1 / 10 ^ (d - 1)"
      using y(1) by (simp_all add: frac_le divide_strict_left_mono)
    moreover have "int_digits x = 1 - int d" using False by (simp add: int_digits_def d_def m_def y_def)
    moreover have "pow10 (- int d) = 1 / 10 ^ d" and "pow10 (1 - int d) = 1 / 10 ^ (d - 1)"
      using d(3) by (auto simp: pow10_def nat_diff_distrib' of_nat_diff)
    ultimately show ?thesis using y(2) by simp
  qed
  then show "pow10 (int_digits x - 1) \<le> \<bar>x\<bar>" and "\<bar>x\<bar> < pow10 (int_digits x)" by auto
qed

text \<open>The same count on integers, which the kernel evaluates quickly.\<close>

function digit_count :: "int \<Rightarrow> int" where
  "digit_count n = (if n < 1 then 0 else 1 + digit_count (n div 10))"
  by pat_completeness auto
termination by (relation "measure nat") auto

declare digit_count.simps [simp del]

lemma digit_count_floorlog: "digit_count n = int (floorlog 10 (nat n))"
proof (induction n rule: digit_count.induct)
  case (1 n)
  show ?case
  proof (cases "n < 1")
    case True
    then show ?thesis by (simp add: digit_count.simps [of n] floorlog_def)
  next
    case False
    then have "floorlog 10 (nat n) = floorlog 10 (nat (n div 10)) + 1"
      by (subst compute_floorlog) (simp add: nat_div_distrib)
    with False 1 show ?thesis by (simp add: digit_count.simps [of n])
  qed
qed

lemma int_digits_code [code]:
  "int_digits x = (if 1 \<le> \<bar>x\<bar> then digit_count \<lfloor>\<bar>x\<bar>\<rfloor> else 1 - digit_count (\<lceil>1 / \<bar>x\<bar>\<rceil> - 1))"
  by (simp add: int_digits_def digit_count_floorlog)

subsection \<open>The context rounding\<close>

definition dec_exponent :: "rat \<Rightarrow> int" where
  "dec_exponent x = int_digits x - int decimal_precision"

definition dec_round :: "rat \<Rightarrow> decimal" where
  "dec_round x = (if x = 0 then 0
     else of_int (round_half_even (x / pow10 (dec_exponent x))) * pow10 (dec_exponent x))"

text \<open>A value of at most 28 digits is not rounded.\<close>

definition dec_exact :: "rat \<Rightarrow> bool" where
  "dec_exact x \<longleftrightarrow> (\<exists>n k. x = of_int n * pow10 k \<and> \<bar>n\<bar> < 10 ^ decimal_precision)"

lemma dec_round_zero [simp]: "dec_round 0 = 0"
  by (simp add: dec_round_def)

lemma dec_round_exact: "dec_exact x \<Longrightarrow> dec_round x = x"
proof (cases "x = 0")
  case False
  assume "dec_exact x"
  then obtain n k where x: "x = of_int n * pow10 k" and n: "\<bar>n\<bar> < 10 ^ decimal_precision"
    by (auto simp: dec_exact_def)
  have "rat_of_int \<bar>n\<bar> < rat_of_int (10 ^ decimal_precision)"
    using n by (simp only: of_int_less_iff)
  then have "\<bar>x\<bar> < pow10 (int decimal_precision) * pow10 k"
    using pow10_pos [of k] by (simp add: x abs_mult pow10_of_nat)
  then have "pow10 (int_digits x - 1) < pow10 (int decimal_precision + k)"
    using int_digits_bounds(1) [OF False] by (simp add: pow10_add)
  then have "dec_exponent x \<le> k"
    unfolding dec_exponent_def by (auto dest!: pow10_less_imp_less)
  then obtain j where j: "k = dec_exponent x + int j" by (metis zle_iff_zadd)
  have "pow10 k = pow10 (dec_exponent x) * 10 ^ j"
    unfolding j by (simp only: pow10_add pow10_of_nat)
  with x have "x / pow10 (dec_exponent x) = of_int n * 10 ^ j"
    using pow10_nonzero [of "dec_exponent x"] by (metis mult.left_commute nonzero_mult_div_cancel_left)
  then have "x / pow10 (dec_exponent x) = of_int (n * 10 ^ j)" by simp
  then have "of_int (round_half_even (x / pow10 (dec_exponent x))) = x / pow10 (dec_exponent x)"
    by (simp only: round_half_even_of_int)
  then show ?thesis using False by (simp add: dec_round_def)
qed simp

lemma dec_round_nonneg: "0 \<le> x \<Longrightarrow> 0 \<le> dec_round x"
  by (simp add: dec_round_def round_half_even_nonneg pow10_pos less_imp_le)

text \<open>Rounding keeps the sign: a value that is not zero is not rounded to zero.\<close>

lemma dec_round_pos: "0 < x \<Longrightarrow> 0 < dec_round x"
proof -
  assume x: "0 < x"
  have "int_digits x - 1 = dec_exponent x + 27" by (simp add: dec_exponent_def decimal_precision_def)
  then have "pow10 (dec_exponent x) * 10 ^ 27 \<le> x"
    using int_digits_bounds(1) [of x] x pow10_of_nat [of 27] by (simp add: pow10_add)
  then have "of_int (10 ^ 27) \<le> x / pow10 (dec_exponent x)" by (simp add: field_simps)
  from round_half_even_ge [OF this] x show ?thesis
    by (simp add: dec_round_def)
qed

lemma round_half_even_minus: "round_half_even (- x) = - round_half_even x"
proof (cases "x = of_int \<lfloor>x\<rfloor>")
  case True
  then have "round_half_even (- x) = - \<lfloor>x\<rfloor>" and "round_half_even x = \<lfloor>x\<rfloor>"
    by (metis of_int_minus round_half_even_of_int)+
  then show ?thesis by simp
next
  case False
  then have "\<lfloor>- x\<rfloor> = - \<lfloor>x\<rfloor> - 1" by linarith
  then show ?thesis by (auto simp: round_half_even_def Let_def)
qed

lemma dec_round_minus: "dec_round (- x) = - dec_round x"
  by (simp add: dec_round_def dec_exponent_def int_digits_def round_half_even_minus)

lemma dec_round_neg: "x < 0 \<Longrightarrow> dec_round x < 0"
  using dec_round_pos [of "- x"] by (simp add: dec_round_minus)

lemma dec_round_le_zero_iff: "dec_round x \<le> 0 \<longleftrightarrow> x \<le> 0"
  using dec_round_pos [of x] dec_round_neg [of x] by (cases x "0 :: rat" rule: linorder_cases) auto

lemma dec_round_ge_zero_iff: "0 \<le> dec_round x \<longleftrightarrow> 0 \<le> x"
  using dec_round_pos [of x] dec_round_neg [of x] by (cases x "0 :: rat" rule: linorder_cases) auto

lemma dec_round_sign:
  "dec_round x < 0 \<longleftrightarrow> x < 0"  "0 < dec_round x \<longleftrightarrow> 0 < x"  "dec_round x = 0 \<longleftrightarrow> x = 0"
  using dec_round_le_zero_iff [of x] dec_round_ge_zero_iff [of x] by linarith+

text \<open>The relative error is at most half a unit of the 28th digit.\<close>

lemma dec_round_error: "\<bar>dec_round x - x\<bar> \<le> \<bar>x\<bar> * (1 / 2) / 10 ^ 27"
proof (cases "x = 0")
  case False
  let ?e = "pow10 (dec_exponent x)"
  have "dec_round x - x = (of_int (round_half_even (x / ?e)) - x / ?e) * ?e"
    using False by (simp add: dec_round_def field_simps)
  then have "\<bar>dec_round x - x\<bar> \<le> 1 / 2 * ?e"
    using mult_right_mono [OF round_half_even_error [of "x / ?e"], of ?e] pow10_pos [of "dec_exponent x"]
    by (simp add: abs_mult)
  moreover have "int_digits x - 1 = dec_exponent x + 27"
    by (simp add: dec_exponent_def decimal_precision_def)
  then have "?e * 10 ^ 27 \<le> \<bar>x\<bar>"
    using int_digits_bounds(1) [OF False] pow10_of_nat [of 27] by (simp add: pow10_add)
  ultimately show ?thesis by (simp add: field_simps)
qed simp

text \<open>The result of a rounding has at most 28 digits, so rounding twice changes nothing.\<close>

lemma dec_exact_round [simp]: "dec_exact (dec_round x)"
proof (cases "x = 0")
  case True
  have "0 = of_int 0 * pow10 0 \<and> \<bar>0 :: int\<bar> < 10 ^ decimal_precision"
    by (simp add: decimal_precision_def)
  then have "dec_exact 0" unfolding dec_exact_def by blast
  with True show ?thesis by simp
next
  case False
  let ?e = "dec_exponent x"
  let ?n = "round_half_even (x / pow10 ?e)"
  have "\<bar>x\<bar> < pow10 (?e + int decimal_precision)"
    using int_digits_bounds(2) [OF False] by (simp add: dec_exponent_def)
  then have "\<bar>x / pow10 ?e\<bar> < 10 ^ decimal_precision"
    by (simp add: pow10_add pow10_of_nat abs_divide divide_less_eq mult.commute)
  then have "x / pow10 ?e < 10 ^ decimal_precision" "- (x / pow10 ?e) < 10 ^ decimal_precision"
    unfolding abs_less_iff by blast+
  then have b: "of_int (- (10 ^ decimal_precision)) \<le> x / pow10 ?e"
    "x / pow10 ?e \<le> of_int (10 ^ decimal_precision)"
    by (simp_all only: of_int_minus of_int_power of_int_numeral)
  have n: "\<bar>?n\<bar> \<le> 10 ^ decimal_precision"
    using round_half_even_ge [OF b(1)] round_half_even_le [OF b(2)] by (simp add: abs_le_iff)
  have r: "dec_round x = of_int ?n * pow10 ?e" using False by (simp add: dec_round_def)
  show ?thesis
  proof (cases "\<bar>?n\<bar> = 10 ^ decimal_precision")
    case True
    then obtain s :: int where s: "?n = s * 10 ^ decimal_precision" "\<bar>s\<bar> = 1"
      by (cases "0 \<le> ?n") (auto intro: that [of 1] that [of "- 1"] simp: abs_if split: if_splits)
    have "pow10 (?e + int decimal_precision) = pow10 ?e * 10 ^ decimal_precision"
      by (simp add: pow10_add pow10_of_nat)
    then have "dec_round x = of_int s * pow10 (?e + int decimal_precision)" by (simp add: r s(1))
    moreover have "\<bar>s\<bar> < 10 ^ decimal_precision" using s(2) by (simp add: decimal_precision_def)
    ultimately show ?thesis unfolding dec_exact_def by blast
  next
    case False
    with n have "\<bar>?n\<bar> < 10 ^ decimal_precision" by simp
    with r show ?thesis unfolding dec_exact_def by blast
  qed
qed

lemma dec_round_idem [simp]: "dec_round (dec_round x) = dec_round x"
  by (simp add: dec_round_exact)

subsection \<open>Arithmetic\<close>

definition dec_add :: "decimal \<Rightarrow> decimal \<Rightarrow> decimal" where
  "dec_add x y = dec_round (x + y)"

definition dec_sub :: "decimal \<Rightarrow> decimal \<Rightarrow> decimal" where
  "dec_sub x y = dec_round (x - y)"

definition dec_mul :: "decimal \<Rightarrow> decimal \<Rightarrow> decimal" where
  "dec_mul x y = dec_round (x * y)"

definition dec_abs :: "decimal \<Rightarrow> decimal" where
  "dec_abs x = dec_round \<bar>x\<bar>"

definition dec_div :: "decimal \<Rightarrow> decimal \<Rightarrow> error + decimal" where
  "dec_div x y =
     (if y \<noteq> 0 then Inr (dec_round (x / y))
      else Inl (OtherException (if x = 0 then ''InvalidOperation'' else ''DivisionByZero'') []))"

text \<open>\<open>sum(xs, Decimal("0"))\<close>\<close>

definition dec_sum :: "decimal list \<Rightarrow> decimal" where
  "dec_sum xs = foldl dec_add 0 xs"

text \<open>\<open>x.quantize(Decimal("1e-k"))\<close>\<close>

definition dec_quantize :: "nat \<Rightarrow> decimal \<Rightarrow> error + decimal" where
  "dec_quantize k x =
     (let n = round_half_even (x * 10 ^ k)
      in if \<bar>n\<bar> < 10 ^ decimal_precision then Inr (of_int n / 10 ^ k)
         else Inl (OtherException ''InvalidOperation'' []))"

text \<open>Python's \<open>max(a, b)\<close> and \<open>min(a, b)\<close> compare exactly and round nothing.\<close>

lemma dec_sub_nonneg_iff: "0 \<le> dec_sub x y \<longleftrightarrow> y \<le> x"
  by (simp add: dec_sub_def dec_round_ge_zero_iff)

lemma dec_sub_neg_iff: "dec_sub x y < 0 \<longleftrightarrow> x < y"
  by (simp add: dec_sub_def dec_round_sign)

lemma dec_add_nonneg: "0 \<le> x \<Longrightarrow> 0 \<le> y \<Longrightarrow> 0 \<le> dec_add x y"
  by (simp add: dec_add_def dec_round_nonneg)

lemma dec_mul_nonneg: "0 \<le> x \<Longrightarrow> 0 \<le> y \<Longrightarrow> 0 \<le> dec_mul x y"
  by (simp add: dec_mul_def dec_round_nonneg)

lemma dec_mul_pos: "0 < x \<Longrightarrow> 0 < y \<Longrightarrow> 0 < dec_mul x y"
  by (simp add: dec_mul_def dec_round_pos)

lemma dec_quantize_error:
  assumes "dec_quantize k x = Inr q" shows "\<bar>q - x\<bar> \<le> 1 / 2 / 10 ^ k"
proof -
  have "q = of_int (round_half_even (x * 10 ^ k)) / 10 ^ k"
    using assms by (auto simp: dec_quantize_def Let_def split: if_splits)
  then have "q - x = (of_int (round_half_even (x * 10 ^ k)) - x * 10 ^ k) / 10 ^ k"
    by (simp add: field_simps)
  then show ?thesis
    using divide_right_mono [OF round_half_even_error [of "x * 10 ^ k"], of "10 ^ k"]
    by (simp add: abs_divide)
qed

lemma dec_quantize_nonneg: "dec_quantize k x = Inr q \<Longrightarrow> 0 \<le> x \<Longrightarrow> 0 \<le> q"
  by (auto simp: dec_quantize_def Let_def round_half_even_nonneg split: if_splits)

lemma dec_div_pos: "0 < x \<Longrightarrow> 0 < y \<Longrightarrow> \<exists>q. dec_div x y = Inr q \<and> 0 < q"
  by (simp add: dec_div_def dec_round_pos)

end
