(* ===== verification/Engine_Models.thy ===== *)
theory Engine_Models
  imports Decimals
begin

text \<open>
  The data of the advisory engine: portfolios, prices and FX rates, the product shelf, engine
  options, proposed trades, order intents, diagnostics and simulated states
  (\<open>portfolio_models.py\<close>, \<open>order_intent_models.py\<close>, \<open>diagnostics_models.py\<close>,
  \<open>engine_options_models.py\<close>, \<open>simulation_state_models.py\<close>, \<open>proposal_request_models.py\<close>).
  Fields of the engine options and of the diagnostics that this engine neither reads nor writes
  (target generation, settlement, tax) are left out; source provenance is JSON content.
\<close>

subsection \<open>Portfolios and market data\<close>

record money =
  mo_amount :: decimal
  mo_currency :: string

record fx_rate =
  fr_pair :: string
  fr_rate :: decimal

record tax_lot =
  tl_lot_id :: string
  tl_quantity :: decimal
  tl_unit_cost :: money
  tl_purchase_date :: string

record position =
  po_instrument_id :: string
  po_quantity :: decimal
  po_market_value :: "money option"
  po_lots :: "tax_lot list"

record cash_balance =
  cb_currency :: string
  cb_amount :: decimal
  cb_settled :: "decimal option"
  cb_pending :: "decimal option"

record source_record =
  sv_source_system :: string
  sv_content :: jobject

record portfolio =
  pf_snapshot_id :: "string option"
  pf_source_provenance :: "source_record option"
  pf_source_completeness :: "jobject option"
  pf_id :: string
  pf_base_currency :: string
  pf_positions :: "position list"
  pf_cash_balances :: "cash_balance list"

record price_entry =
  px_instrument_id :: string
  px_price :: decimal
  px_currency :: string

record market_data =
  md_snapshot_id :: "string option"
  md_source_provenance :: "source_record option"
  md_source_completeness :: "jobject option"
  md_prices :: "price_entry list"
  md_fx_rates :: "fx_rate list"

datatype shelf_status = SH_APPROVED | SH_RESTRICTED | SH_BANNED | SH_SUSPENDED | SH_SELL_ONLY

primrec shelf_status_str :: "shelf_status \<Rightarrow> string" where
  "shelf_status_str SH_APPROVED = ''APPROVED''"
| "shelf_status_str SH_RESTRICTED = ''RESTRICTED''"
| "shelf_status_str SH_BANNED = ''BANNED''"
| "shelf_status_str SH_SUSPENDED = ''SUSPENDED''"
| "shelf_status_str SH_SELL_ONLY = ''SELL_ONLY''"

record shelf_entry =
  sh_instrument_id :: string
  sh_status :: shelf_status
  sh_asset_class :: string
  sh_issuer_id :: "string option"
  sh_liquidity_tier :: "string option"
  sh_settlement_days :: int
  sh_min_notional :: "money option"
  sh_attributes :: "(string, string) dict"

record asset_class_target =
  at_asset_class :: string
  at_weight :: decimal

record instrument_target =
  it_instrument_id :: string
  it_weight :: decimal

record reference_model =
  rm_model_id :: string
  rm_as_of :: string
  rm_base_currency :: string
  rm_asset_class_targets :: "asset_class_target list"
  rm_instrument_targets :: "instrument_target list"

text \<open>What the field validators guarantee of accepted snapshots.\<close>

definition wf_fx_rate :: "fx_rate \<Rightarrow> bool" where
  "wf_fx_rate r \<longleftrightarrow> 0 < fr_rate r"

definition wf_position :: "position \<Rightarrow> bool" where
  "wf_position p \<longleftrightarrow> po_lots p = []
     \<or> dec_abs (dec_sub (dec_sum (map tl_quantity (po_lots p))) (po_quantity p)) \<le> 1 / 10000"

definition wf_market_data :: "market_data \<Rightarrow> bool" where
  "wf_market_data md \<longleftrightarrow> list_all wf_fx_rate (md_fx_rates md)"

subsection \<open>Options\<close>

datatype valuation_mode = VM_CALCULATED | VM_TRUST_SNAPSHOT
datatype funding_source = FS_BASE_ONLY | FS_ANY_CASH
datatype level = LV_LOW | LV_MEDIUM | LV_HIGH

primrec level_str :: "level \<Rightarrow> string" where
  "level_str LV_LOW = ''LOW''"
| "level_str LV_MEDIUM = ''MEDIUM''"
| "level_str LV_HIGH = ''HIGH''"

record suitability_thresholds =
  th_single_position_max_weight :: decimal
  th_issuer_max_weight :: decimal
  th_max_weight_by_liquidity_tier :: "(string, decimal) dict"
  th_cash_band_min_weight :: decimal
  th_cash_band_max_weight :: decimal
  th_data_quality_issue_severity :: level

text \<open>\<open>funding_mode\<close> has the single literal value \<open>AUTO_FX\<close> and is not a field here.\<close>

record engine_options =
  eo_valuation_mode :: valuation_mode
  eo_cash_band_min_weight :: decimal
  eo_cash_band_max_weight :: decimal
  eo_single_position_max_weight :: "decimal option"
  eo_allow_restricted :: bool
  eo_block_on_missing_prices :: bool
  eo_block_on_missing_fx :: bool
  eo_enable_workflow_gates :: bool
  eo_workflow_requires_client_consent :: bool
  eo_client_consent_already_obtained :: bool
  eo_proposal_apply_cash_flows_first :: bool
  eo_proposal_block_negative_cash :: bool
  eo_link_buy_to_same_currency_sell_dependency :: "bool option"
  eo_enable_drift_analytics :: bool
  eo_enable_suitability_scanner :: bool
  eo_suitability_thresholds :: suitability_thresholds
  eo_enable_instrument_drift :: bool
  eo_drift_top_contributors_limit :: nat
  eo_drift_unmodeled_exposure_threshold :: decimal
  eo_auto_funding :: bool
  eo_fx_funding_source_currency :: funding_source

text \<open>The defaults of \<open>EngineOptions()\<close>.\<close>

definition default_suitability_thresholds :: suitability_thresholds where
  "default_suitability_thresholds = \<lparr>
     th_single_position_max_weight = 1 / 10, th_issuer_max_weight = 2 / 10,
     th_max_weight_by_liquidity_tier = [(''L4'', 1 / 10), (''L5'', 5 / 100)],
     th_cash_band_min_weight = 1 / 100, th_cash_band_max_weight = 5 / 100,
     th_data_quality_issue_severity = LV_MEDIUM \<rparr>"

definition default_engine_options :: engine_options where
  "default_engine_options = \<lparr>
     eo_valuation_mode = VM_CALCULATED,
     eo_cash_band_min_weight = 0,
     eo_cash_band_max_weight = 1,
     eo_single_position_max_weight = None,
     eo_allow_restricted = False,
     eo_block_on_missing_prices = True,
     eo_block_on_missing_fx = True,
     eo_enable_workflow_gates = True,
     eo_workflow_requires_client_consent = False,
     eo_client_consent_already_obtained = False,
     eo_proposal_apply_cash_flows_first = True,
     eo_proposal_block_negative_cash = True,
     eo_link_buy_to_same_currency_sell_dependency = None,
     eo_enable_drift_analytics = True,
     eo_enable_suitability_scanner = True,
     eo_suitability_thresholds = default_suitability_thresholds,
     eo_enable_instrument_drift = True,
     eo_drift_top_contributors_limit = 5,
     eo_drift_unmodeled_exposure_threshold = 1 / 100,
     eo_auto_funding = True,
     eo_fx_funding_source_currency = FS_ANY_CASH \<rparr>"

subsection \<open>Proposed cash flows and trades\<close>

datatype trade_side = SD_BUY | SD_SELL

record proposed_cash_flow =
  pc_currency :: string
  pc_amount :: decimal
  pc_description :: "string option"

record proposed_trade =
  pt_side :: trade_side
  pt_instrument_id :: string
  pt_quantity :: "decimal option"
  pt_notional :: "money option"

text \<open>\<open>_trade_size_validation_error\<close>, with the \<open>gt=0\<close> bound of the quantity field.\<close>

definition trade_size_validation_error :: "decimal option \<Rightarrow> money option \<Rightarrow> string option" where
  "trade_size_validation_error quantity notional =
     (if quantity \<noteq> None
      then (if notional = None then None
            else Some ''PROPOSAL_INVALID_TRADE_INPUT: provide either quantity or notional, not both'')
      else case notional of
        None \<Rightarrow> Some ''PROPOSAL_INVALID_TRADE_INPUT: quantity or notional is required''
      | Some m \<Rightarrow>
          if mo_amount m \<le> 0
          then Some ''PROPOSAL_INVALID_TRADE_INPUT: notional.amount must be greater than 0'' else None)"

definition wf_trade :: "proposed_trade \<Rightarrow> bool" where
  "wf_trade t \<longleftrightarrow> trade_size_validation_error (pt_quantity t) (pt_notional t) = None
     \<and> (case pt_quantity t of None \<Rightarrow> True | Some q \<Rightarrow> 0 < q)"

subsection \<open>Order intents\<close>

record cash_flow_intent =
  ci_intent_id :: string
  ci_currency :: string
  ci_amount :: decimal
  ci_description :: "string option"

record fx_intent =
  fi_intent_id :: string
  fi_pair :: string
  fi_buy_currency :: string
  fi_buy_amount :: decimal
  fi_sell_currency :: string
  fi_sell_amount_estimated :: decimal
  fi_dependencies :: "string list"
  fi_rationale :: "string \<times> string"

record trade_intent =
  ti_intent_id :: string
  ti_instrument_id :: string
  ti_side :: trade_side
  ti_quantity :: "decimal option"
  ti_notional :: "money option"
  ti_notional_base :: "money option"
  ti_dependencies :: "string list"
  ti_rationale :: "string \<times> string"
  ti_constraints_applied :: "string list"

datatype order_intent =
    CashFlowIntent cash_flow_intent
  | FxSpotIntent fx_intent
  | SecurityTradeIntent trade_intent

primrec intent_id_of_order :: "order_intent \<Rightarrow> string" where
  "intent_id_of_order (CashFlowIntent i) = ci_intent_id i"
| "intent_id_of_order (FxSpotIntent i) = fi_intent_id i"
| "intent_id_of_order (SecurityTradeIntent i) = ti_intent_id i"

primrec order_dependencies :: "order_intent \<Rightarrow> string list" where
  "order_dependencies (CashFlowIntent i) = []"
| "order_dependencies (FxSpotIntent i) = fi_dependencies i"
| "order_dependencies (SecurityTradeIntent i) = ti_dependencies i"

subsection \<open>Diagnostics\<close>

record funding_plan_entry =
  fe_target_currency :: string
  fe_required :: decimal
  fe_available_before_fx :: decimal
  fe_fx_needed :: decimal
  fe_fx_pair :: "string option"
  fe_funding_currency :: "string option"

record insufficient_cash_entry =
  ie_currency :: string
  ie_deficit :: decimal

record suppressed_intent =
  su_instrument_id :: string
  su_reason :: string
  su_intended_notional :: money
  su_threshold :: money

record diagnostics =
  dg_warnings :: "string list"
  dg_suppressed_intents :: "suppressed_intent list"
  dg_missing_fx_pairs :: "string list"
  dg_funding_plan :: "funding_plan_entry list"
  dg_insufficient_cash :: "insufficient_cash_entry list"
  dg_data_quality :: "(string, string list) dict"

definition make_empty_data_quality_log :: "(string, string list) dict" where
  "make_empty_data_quality_log = [(''price_missing'', []), (''fx_missing'', []), (''shelf_missing'', [])]"

definition make_diagnostics_data :: diagnostics where
  "make_diagnostics_data = \<lparr>dg_warnings = [], dg_suppressed_intents = [], dg_missing_fx_pairs = [],
     dg_funding_plan = [], dg_insufficient_cash = [], dg_data_quality = make_empty_data_quality_log\<rparr>"

definition log_dq :: "string \<Rightarrow> string \<Rightarrow> diagnostics \<Rightarrow> diagnostics" where
  "log_dq bucket item dg = dg\<lparr>dg_data_quality := dict_push bucket item (dg_data_quality dg)\<rparr>"

definition warn :: "string \<Rightarrow> diagnostics \<Rightarrow> diagnostics" where
  "warn code dg = dg\<lparr>dg_warnings := dg_warnings dg @ [code]\<rparr>"

definition warn_once :: "string \<Rightarrow> diagnostics \<Rightarrow> diagnostics" where
  "warn_once code dg = (if code \<in> set (dg_warnings dg) then dg else warn code dg)"

subsection \<open>Simulated states\<close>

record allocation_metric =
  am_key :: string
  am_weight :: decimal
  am_value :: money

record position_summary =
  ps_instrument_id :: string
  ps_quantity :: decimal
  ps_instrument_currency :: string
  ps_asset_class :: string
  ps_price :: "money option"
  ps_value_in_instrument_ccy :: money
  ps_value_in_base_ccy :: money
  ps_weight :: decimal

record simulated_state =
  ss_total_value :: money
  ss_cash_balances :: "cash_balance list"
  ss_positions :: "position_summary list"
  ss_allocation_by_asset_class :: "allocation_metric list"
  ss_allocation_by_instrument :: "allocation_metric list"
  ss_allocation_by_attribute :: "(string, allocation_metric list) dict"

subsection \<open>Rule results\<close>

datatype rule_severity = RV_HARD | RV_SOFT | RV_INFO
datatype rule_status = RU_PASS | RU_FAIL
datatype run_status = RN_READY | RN_BLOCKED | RN_PENDING_REVIEW

record rule_result =
  ru_rule_id :: string
  ru_severity :: rule_severity
  ru_status :: rule_status
  ru_measured :: decimal
  ru_threshold :: "(string, decimal) dict"
  ru_reason_code :: string
  ru_remediation_hint :: "string option"

record reconciliation =
  rc_before_total_value :: money
  rc_after_total_value :: money
  rc_delta :: money
  rc_tolerance :: money
  rc_ok :: bool

end
