(* ===== verification/Valuation.thy ===== *)
theory Valuation
  imports Engine_Models
begin

text \<open>
  \<open>core/valuation.py\<close>: FX conversion, the two valuation modes of a position, and the simulated
  state of a portfolio with its allocations and data-quality log.  Missing prices and rates value
  a position or a balance at zero and leave an entry in the log; the lemmas say exactly when.
\<close>

subsection \<open>FX rates\<close>

definition fx_pair :: "string \<Rightarrow> string \<Rightarrow> string" where
  "fx_pair from_ccy to_ccy = from_ccy @ ''/'' @ to_ccy"

definition fx_rate_for_pair :: "market_data \<Rightarrow> string \<Rightarrow> decimal option" where
  "fx_rate_for_pair md pair = map_option fr_rate (find_first (\<lambda>r. fr_pair r = pair) (md_fx_rates md))"

text \<open>The field validator keeps rates positive (\<open>wf_fx_rate\<close>), so the inverse does not raise.\<close>

definition get_fx_rate :: "market_data \<Rightarrow> string \<Rightarrow> string \<Rightarrow> decimal option" where
  "get_fx_rate md from_ccy to_ccy =
     (if from_ccy = to_ccy then Some 1
      else case fx_rate_for_pair md (fx_pair from_ccy to_ccy) of
        Some rate \<Rightarrow> Some rate
      | None \<Rightarrow> (case fx_rate_for_pair md (fx_pair to_ccy from_ccy) of
          Some rate \<Rightarrow> Some (dec_round (1 / rate))
        | None \<Rightarrow> None))"

lemma fx_rate_for_pair_pos:
  assumes "wf_market_data md" and "fx_rate_for_pair md p = Some r" shows "0 < r"
  using assms by (auto simp: fx_rate_for_pair_def wf_market_data_def wf_fx_rate_def list_all_iff
      dest!: find_first_SomeD)

lemma get_fx_rate_pos:
  assumes "wf_market_data md" and "get_fx_rate md a b = Some r" shows "0 < r"
  using assms by (auto simp: get_fx_rate_def dec_round_pos fx_rate_for_pair_pos split: if_splits option.splits)

lemma get_fx_rate_same [simp]: "get_fx_rate md a a = Some 1"
  by (simp add: get_fx_rate_def)

lemma get_fx_rate_None_iff: "get_fx_rate md a b = None \<longleftrightarrow> get_fx_rate md b a = None"
  by (auto simp: get_fx_rate_def split: option.splits)

subsection \<open>Positions\<close>

record position_valuation =
  vl_price_entry :: "price_entry option"
  vl_price_value :: decimal
  vl_currency :: string
  vl_instrument_value :: decimal
  vl_base_value :: decimal

definition converted_base_value :: "decimal \<Rightarrow> string \<Rightarrow> string \<Rightarrow> market_data \<Rightarrow> decimal" where
  "converted_base_value amount currency base_ccy md =
     (case get_fx_rate md currency base_ccy of None \<Rightarrow> 0 | Some rate \<Rightarrow> dec_mul amount rate)"

definition price_for_position :: "position \<Rightarrow> market_data \<Rightarrow> price_entry option" where
  "price_for_position p md = find_first (\<lambda>x. px_instrument_id x = po_instrument_id p) (md_prices md)"

definition mark_to_market_position_value ::
  "position \<Rightarrow> market_data \<Rightarrow> string \<Rightarrow> price_entry option \<Rightarrow> decimal \<Rightarrow> position_valuation" where
  "mark_to_market_position_value p md base_ccy entry price_value =
     (let currency = (case entry of Some x \<Rightarrow> px_currency x | None \<Rightarrow> base_ccy);
          instrument_value = dec_mul (po_quantity p) price_value
      in \<lparr>vl_price_entry = entry, vl_price_value = price_value, vl_currency = currency,
          vl_instrument_value = instrument_value,
          vl_base_value = converted_base_value instrument_value currency base_ccy md\<rparr>)"

definition trust_snapshot_uses_base_authority :: "money \<Rightarrow> string \<Rightarrow> string \<Rightarrow> bool" where
  "trust_snapshot_uses_base_authority trusted price_currency base_ccy \<longleftrightarrow>
     mo_currency trusted = base_ccy \<and> price_currency \<noteq> base_ccy"

definition trust_snapshot_position_value ::
  "position \<Rightarrow> market_data \<Rightarrow> string \<Rightarrow> price_entry option \<Rightarrow> decimal \<Rightarrow> position_valuation" where
  "trust_snapshot_position_value p md base_ccy entry price_value =
     (case po_market_value p of
        None \<Rightarrow> mark_to_market_position_value p md base_ccy entry price_value
      | Some trusted \<Rightarrow>
          (let price_currency = (case entry of Some x \<Rightarrow> px_currency x | None \<Rightarrow> mo_currency trusted)
           in if trust_snapshot_uses_base_authority trusted price_currency base_ccy
              then \<lparr>vl_price_entry = entry, vl_price_value = price_value, vl_currency = price_currency,
                     vl_instrument_value =
                       (if entry \<noteq> None then dec_mul (po_quantity p) price_value else 0),
                     vl_base_value = mo_amount trusted\<rparr>
              else \<lparr>vl_price_entry = entry, vl_price_value = price_value,
                     vl_currency = mo_currency trusted, vl_instrument_value = mo_amount trusted,
                     vl_base_value = converted_base_value (mo_amount trusted) (mo_currency trusted)
                       base_ccy md\<rparr>))"

definition value_position_amounts ::
  "position \<Rightarrow> market_data \<Rightarrow> string \<Rightarrow> engine_options \<Rightarrow> position_valuation" where
  "value_position_amounts p md base_ccy options =
     (let entry = price_for_position p md;
          price_value = (case entry of Some x \<Rightarrow> px_price x | None \<Rightarrow> 0)
      in if eo_valuation_mode options = VM_TRUST_SNAPSHOT \<and> po_market_value p \<noteq> None
         then trust_snapshot_position_value p md base_ccy entry price_value
         else mark_to_market_position_value p md base_ccy entry price_value)"

definition value_position ::
  "position \<Rightarrow> market_data \<Rightarrow> string \<Rightarrow> engine_options \<Rightarrow> position_summary" where
  "value_position p md base_ccy options =
     (let v = value_position_amounts p md base_ccy options
      in \<lparr>ps_instrument_id = po_instrument_id p, ps_quantity = po_quantity p,
          ps_instrument_currency = vl_currency v, ps_asset_class = ''UNKNOWN'',
          ps_price = (if vl_price_entry v \<noteq> None
            then Some \<lparr>mo_amount = vl_price_value v, mo_currency = vl_currency v\<rparr> else None),
          ps_value_in_instrument_ccy =
            \<lparr>mo_amount = vl_instrument_value v, mo_currency = vl_currency v\<rparr>,
          ps_value_in_base_ccy = \<lparr>mo_amount = vl_base_value v, mo_currency = base_ccy\<rparr>,
          ps_weight = 0\<rparr>)"

lemma value_position_keeps [simp]:
  "ps_instrument_id (value_position p md b os) = po_instrument_id p"
  "ps_quantity (value_position p md b os) = po_quantity p"
  "mo_currency (ps_value_in_base_ccy (value_position p md b os)) = b"
  by (simp_all add: value_position_def Let_def)

text \<open>Marked to market, the base value is quantity times price times rate, where both are known.\<close>

lemma mark_to_market_value:
  assumes "eo_valuation_mode os = VM_CALCULATED" and "price_for_position p md = Some x"
    and "get_fx_rate md (px_currency x) b = Some r"
  shows "mo_amount (ps_value_in_base_ccy (value_position p md b os))
           = dec_mul (dec_mul (po_quantity p) (px_price x)) r"
  using assms by (simp add: value_position_def value_position_amounts_def
      mark_to_market_position_value_def converted_base_value_def Let_def)

subsection \<open>The data-quality log\<close>

type_synonym dq_log = "(string, string list) dict"

definition record_missing_price :: "position \<Rightarrow> market_data \<Rightarrow> dq_log \<Rightarrow> dq_log" where
  "record_missing_price p md dq =
     (if list_ex (\<lambda>x. px_instrument_id x = po_instrument_id p) (md_prices md) then dq
      else dict_push ''price_missing'' (po_instrument_id p) dq)"

definition record_missing_position_fx ::
  "position_summary \<Rightarrow> market_data \<Rightarrow> string \<Rightarrow> dq_log \<Rightarrow> dq_log" where
  "record_missing_position_fx s md base_ccy dq =
     (if ps_instrument_currency s = base_ccy then dq
      else case get_fx_rate md (ps_instrument_currency s) base_ccy of
        None \<Rightarrow> dict_push ''fx_missing'' (fx_pair (ps_instrument_currency s) base_ccy) dq
      | Some _ \<Rightarrow> dq)"

fun build_position_summaries ::
  "position list \<Rightarrow> market_data \<Rightarrow> string \<Rightarrow> engine_options \<Rightarrow> decimal \<times> dq_log
     \<Rightarrow> position_summary list \<times> decimal \<times> dq_log" where
  "build_position_summaries [] md b os (tot, dq) = ([], tot, dq)"
| "build_position_summaries (p # ps) md b os (tot, dq) =
     (let s = value_position p md b os;
          dq' = record_missing_position_fx s md b (record_missing_price p md dq);
          (ss, total', dq'') = build_position_summaries ps md b os
            (dec_add tot (mo_amount (ps_value_in_base_ccy s)), dq')
      in (s # ss, total', dq''))"

definition cash_value_in_base ::
  "cash_balance \<Rightarrow> market_data \<Rightarrow> string \<Rightarrow> dq_log \<Rightarrow> decimal \<times> dq_log" where
  "cash_value_in_base c md base_ccy dq =
     (if cb_currency c = base_ccy then (cb_amount c, dq)
      else case get_fx_rate md (cb_currency c) base_ccy of
        Some rate \<Rightarrow> (dec_mul (cb_amount c) rate, dq)
      | None \<Rightarrow> (0, dict_push ''fx_missing'' (fx_pair (cb_currency c) base_ccy) dq))"

fun cash_total_value ::
  "cash_balance list \<Rightarrow> market_data \<Rightarrow> string \<Rightarrow> decimal \<times> dq_log \<Rightarrow> decimal \<times> dq_log" where
  "cash_total_value [] md b (tot, dq) = (tot, dq)"
| "cash_total_value (c # cs) md b (tot, dq) =
     (let (v, dq') = cash_value_in_base c md b dq
      in cash_total_value cs md b (dec_add tot v, dq'))"

subsection \<open>Allocations\<close>

definition safe_total_value :: "decimal \<Rightarrow> decimal" where
  "safe_total_value tot = (if tot = 0 then 1 else tot)"

text \<open>Division by a value that \<open>safe_total_value\<close> made nonzero; it cannot raise.\<close>

definition dec_ratio :: "decimal \<Rightarrow> decimal \<Rightarrow> decimal" where
  "dec_ratio x y = dec_round (x / y)"

lemma dec_ratio_is_division: "dec_div x (safe_total_value t) = Inr (dec_ratio x (safe_total_value t))"
  by (simp add: dec_div_def dec_ratio_def safe_total_value_def)

definition shelf_by_instrument :: "shelf_entry list \<Rightarrow> (string, shelf_entry) dict" where
  "shelf_by_instrument shelf = fold (\<lambda>e d. dict_setdefault (sh_instrument_id e) e d) shelf []"

definition dict_add :: "'k \<Rightarrow> decimal \<Rightarrow> ('k, decimal) dict \<Rightarrow> ('k, decimal) dict" where
  "dict_add k v d = dict_set k (dec_add (case dict_get d k of None \<Rightarrow> 0 | Some x \<Rightarrow> x) v) d"

definition dict_child :: "('k, ('k, decimal) dict) dict \<Rightarrow> 'k \<Rightarrow> ('k, decimal) dict" where
  "dict_child d k = (case dict_get d k of None \<Rightarrow> [] | Some x \<Rightarrow> x)"

definition apply_shelf_allocation_attributes ::
  "position_summary \<Rightarrow> (string, shelf_entry) dict \<Rightarrow> (string, (string, decimal) dict) dict
     \<Rightarrow> position_summary \<times> (string, (string, decimal) dict) dict" where
  "apply_shelf_allocation_attributes s entries attr_map =
     (case dict_get entries (ps_instrument_id s) of
        None \<Rightarrow> (s, attr_map)
      | Some e \<Rightarrow>
          (s\<lparr>ps_asset_class := sh_asset_class e\<rparr>,
           fold (\<lambda>(k, v) m. dict_set k (dict_add v (mo_amount (ps_value_in_base_ccy s)) (dict_child m k)) m)
             (sh_attributes e) attr_map))"

fun build_position_allocation_maps ::
  "position_summary list \<Rightarrow> (string, shelf_entry) dict \<Rightarrow> decimal
     \<Rightarrow> (string, decimal) dict \<times> (string, (string, decimal) dict) dict
     \<Rightarrow> position_summary list \<times> (string, decimal) dict \<times> (string, (string, decimal) dict) dict" where
  "build_position_allocation_maps [] entries tot (cm, am) = ([], cm, am)"
| "build_position_allocation_maps (s # ss) entries tot (cm, am) =
     (let (s', am') = apply_shelf_allocation_attributes
            (s\<lparr>ps_weight := dec_ratio (mo_amount (ps_value_in_base_ccy s)) tot\<rparr>) entries am;
          cm' = dict_add (ps_asset_class s') (mo_amount (ps_value_in_base_ccy s)) cm;
          (rest, cm'', am'') = build_position_allocation_maps ss entries tot (cm', am')
      in (s' # rest, cm'', am''))"

definition add_cash_allocation :: "(string, decimal) dict \<Rightarrow> decimal \<Rightarrow> (string, decimal) dict" where
  "add_cash_allocation cm total_cash = dict_add ''CASH'' total_cash cm"

definition instrument_allocations :: "position_summary list \<Rightarrow> allocation_metric list" where
  "instrument_allocations ss = map (\<lambda>s. \<lparr>am_key = ps_instrument_id s, am_weight = ps_weight s,
     am_value = ps_value_in_base_ccy s\<rparr>) ss"

definition allocation_metrics ::
  "(string, decimal) dict \<Rightarrow> decimal \<Rightarrow> string \<Rightarrow> allocation_metric list" where
  "allocation_metrics m tot base_ccy = map (\<lambda>(k, v). \<lparr>am_key = k, am_weight = dec_ratio v tot,
     am_value = \<lparr>mo_amount = v, mo_currency = base_ccy\<rparr>\<rparr>) m"

definition attribute_allocation_metrics ::
  "(string, (string, decimal) dict) dict \<Rightarrow> decimal \<Rightarrow> string \<Rightarrow> (string, allocation_metric list) dict" where
  "attribute_allocation_metrics m tot base_ccy =
     map (\<lambda>(k, vals). (k, allocation_metrics vals tot base_ccy)) m"

definition build_simulated_state ::
  "portfolio \<Rightarrow> market_data \<Rightarrow> shelf_entry list \<Rightarrow> engine_options \<Rightarrow> dq_log
     \<Rightarrow> simulated_state \<times> dq_log" where
  "build_simulated_state pf md shelf options dq =
     (let base_ccy = pf_base_currency pf;
          (summaries, position_total, dq1) =
            build_position_summaries (pf_positions pf) md base_ccy options (0, dq);
          (total_cash, dq2) = cash_total_value (pf_cash_balances pf) md base_ccy (0, dq1);
          tot = dec_add position_total total_cash;
          total_safe = safe_total_value tot;
          (positions, class_map, attr_map) =
            build_position_allocation_maps summaries (shelf_by_instrument shelf) total_safe ([], []);
          class_map' = add_cash_allocation class_map total_cash
      in (\<lparr>ss_total_value = \<lparr>mo_amount = tot, mo_currency = base_ccy\<rparr>,
           ss_cash_balances = pf_cash_balances pf,
           ss_positions = positions,
           ss_allocation_by_asset_class = allocation_metrics class_map' total_safe base_ccy,
           ss_allocation_by_instrument = instrument_allocations positions,
           ss_allocation_by_attribute = attribute_allocation_metrics attr_map total_safe base_ccy\<rparr>,
          dq2))"


subsection \<open>What a simulated state records\<close>

lemma build_position_summaries_maps:
  assumes "build_position_summaries ps md b os acc = (ss, tot', dq')"
  shows "ss = map (\<lambda>p. value_position p md b os) ps"
  using assms by (induction ps md b os acc arbitrary: ss rule: build_position_summaries.induct)
    (auto simp: Let_def split: prod.splits)

lemma apply_shelf_allocation_keeps:
  assumes "apply_shelf_allocation_attributes s es am = (s', am')"
  shows "ps_instrument_id s' = ps_instrument_id s" "ps_quantity s' = ps_quantity s"
    "ps_weight s' = ps_weight s" "ps_value_in_base_ccy s' = ps_value_in_base_ccy s"
    "ps_instrument_currency s' = ps_instrument_currency s"
  using assms by (auto simp: apply_shelf_allocation_attributes_def split: option.splits)

lemma build_position_allocation_maps_Cons:
  assumes "build_position_allocation_maps (s # ss) es tot acc = (ss', cm', am')"
  obtains s' rest acc' where "ss' = s' # rest"
    and "build_position_allocation_maps ss es tot acc' = (rest, cm', am')"
    and "ps_instrument_id s' = ps_instrument_id s" and "ps_quantity s' = ps_quantity s"
    and "ps_weight s' = dec_ratio (mo_amount (ps_value_in_base_ccy s)) tot"
    and "ps_value_in_base_ccy s' = ps_value_in_base_ccy s"
    and "ps_instrument_currency s' = ps_instrument_currency s"
    and "fst acc' = dict_add (ps_asset_class s') (mo_amount (ps_value_in_base_ccy s)) (fst acc)"
proof -
  obtain cm am where acc: "acc = (cm, am)" by (cases acc)
  let ?s = "s\<lparr>ps_weight := dec_ratio (mo_amount (ps_value_in_base_ccy s)) tot\<rparr>"
  obtain s1 am1 where a: "apply_shelf_allocation_attributes ?s es am = (s1, am1)" by fastforce
  let ?acc' = "(dict_add (ps_asset_class s1) (mo_amount (ps_value_in_base_ccy s)) cm, am1)"
  obtain rest cm2 am2 where r: "build_position_allocation_maps ss es tot ?acc' = (rest, cm2, am2)"
    by (metis prod_cases3)
  have "ss' = s1 # rest" and "cm' = cm2" and "am' = am2"
    using assms by (simp_all add: acc a r Let_def)
  with r apply_shelf_allocation_keeps [OF a] acc show thesis
    by (intro that [of s1 rest ?acc']) simp_all
qed

lemma build_position_allocation_maps_keeps:
  assumes "build_position_allocation_maps ss es tot acc = (ss', cm', am')"
  shows "map (\<lambda>s. (ps_instrument_id s, ps_quantity s, ps_value_in_base_ccy s, ps_instrument_currency s, ps_weight s)) ss'
           = map (\<lambda>s. (ps_instrument_id s, ps_quantity s, ps_value_in_base_ccy s, ps_instrument_currency s,
               dec_ratio (mo_amount (ps_value_in_base_ccy s)) tot)) ss"
  using assms
proof (induction ss arbitrary: acc ss')
  case Nil
  then show ?case by (cases acc) simp
next
  case (Cons s ss)
  from Cons.prems show ?case
    by (rule build_position_allocation_maps_Cons) (use Cons.IH in auto)
qed

lemma build_position_allocation_maps_classes:
  assumes "build_position_allocation_maps ss es tot acc = (ss', cm', am')"
  shows "dict_wf (fst acc) \<Longrightarrow> dict_wf cm'"
    and "fst ` set cm' = fst ` set (fst acc) \<union> ps_asset_class ` set ss'"
  using assms
proof (induction ss arbitrary: acc ss')
  case Nil
  { case 1 with Nil show ?case by (cases acc) simp }
  { case 2 with Nil show ?case by (cases acc) simp }
next
  case (Cons s ss)
  { case 1
    from 1(2) show ?case
    proof (rule build_position_allocation_maps_Cons)
      fix s' rest acc'
      assume r: "build_position_allocation_maps ss es tot acc' = (rest, cm', am')"
        and a: "fst acc' = dict_add (ps_asset_class s') (mo_amount (ps_value_in_base_ccy s)) (fst acc)"
      have "dict_wf (fst acc')" using 1(1) a by (simp add: dict_add_def)
      from Cons.IH(1) [OF this r] show ?case .
    qed }
  { case 2
    from 2 show ?case
    proof (rule build_position_allocation_maps_Cons)
      fix s' rest acc'
      assume r: "build_position_allocation_maps ss es tot acc' = (rest, cm', am')" and s: "ss' = s' # rest"
        and a: "fst acc' = dict_add (ps_asset_class s') (mo_amount (ps_value_in_base_ccy s)) (fst acc)"
      from Cons.IH(2) [OF r] show ?case by (simp add: a s dict_add_def dom_update insert_commute Un_commute)
    qed }
qed


subsection \<open>What is logged as missing\<close>

lemma price_for_position_None_iff:
  "price_for_position p md = None
     \<longleftrightarrow> \<not> list_ex (\<lambda>x. px_instrument_id x = po_instrument_id p) (md_prices md)"
  by (simp add: price_for_position_def find_first_None_iff list_ex_iff)

lemma record_missing_price_lists:
  "dict_list (record_missing_price p md dq) k =
     dict_list dq k @ (if k = ''price_missing'' \<and> price_for_position p md = None
                       then [po_instrument_id p] else [])"
  by (auto simp: record_missing_price_def price_for_position_None_iff)

lemma record_missing_position_fx_lists:
  "dict_list (record_missing_position_fx s md b dq) k =
     dict_list dq k @ (if k = ''fx_missing'' \<and> get_fx_rate md (ps_instrument_currency s) b = None
                       then [fx_pair (ps_instrument_currency s) b] else [])"
  by (auto simp: record_missing_position_fx_def split: option.splits)

definition unpriced :: "market_data \<Rightarrow> position list \<Rightarrow> string list" where
  "unpriced md ps = map po_instrument_id (filter (\<lambda>p. price_for_position p md = None) ps)"

definition unconverted :: "market_data \<Rightarrow> string \<Rightarrow> string list \<Rightarrow> string list" where
  "unconverted md b cs = map (\<lambda>c. fx_pair c b) (filter (\<lambda>c. get_fx_rate md c b = None) cs)"

lemma unpriced_empty_iff:
  "unpriced md ps = [] \<longleftrightarrow> (\<forall>p\<in>set ps. \<exists>x. price_for_position p md = Some x)"
  by (auto simp: unpriced_def filter_empty_conv)

lemma unconverted_empty_iff:
  "unconverted md b cs = [] \<longleftrightarrow> (\<forall>c\<in>set cs. \<exists>r. get_fx_rate md c b = Some r)"
  by (auto simp: unconverted_def filter_empty_conv)

lemma build_position_summaries_log:
  assumes "build_position_summaries ps md b os acc = (ss, tot', dq')"
  shows "dict_list dq' k = dict_list (snd acc) k
     @ (if k = ''price_missing'' then unpriced md ps
        else if k = ''fx_missing'' then unconverted md b (map ps_instrument_currency ss) else [])"
  using assms
proof (induction ps arbitrary: acc ss)
  case Nil
  then show ?case by (cases acc) (simp add: unpriced_def unconverted_def)
next
  case (Cons p ps)
  obtain tot dq where acc: "acc = (tot, dq)" by (cases acc)
  define s where "s = value_position p md b os"
  define acc' where "acc' = (dec_add tot (mo_amount (ps_value_in_base_ccy s)),
    record_missing_position_fx s md b (record_missing_price p md dq))"
  obtain rest t d where r: "build_position_summaries ps md b os acc' = (rest, t, d)"
    by (metis prod_cases3)
  have ss: "ss = s # rest" "t = tot'" "d = dq'"
    using Cons.prems r by (simp_all add: acc s_def acc'_def Let_def)
  from Cons.IH [of acc' rest] r ss(2,3) show ?case
    by (simp add: acc acc'_def ss(1) unpriced_def unconverted_def record_missing_price_lists
        record_missing_position_fx_lists)
qed

lemma cash_value_in_base_log:
  "dict_list (snd (cash_value_in_base c md b dq)) k =
     dict_list dq k @ (if k = ''fx_missing'' then unconverted md b [cb_currency c] else [])"
  by (auto simp: cash_value_in_base_def unconverted_def split: option.splits)

lemma cash_total_value_log:
  "dict_list (snd (cash_total_value cs md b acc)) k =
     dict_list (snd acc) k @ (if k = ''fx_missing'' then unconverted md b (map cb_currency cs) else [])"
proof (induction cs arbitrary: acc)
  case Nil
  then show ?case by (cases acc) (simp add: unconverted_def)
next
  case (Cons c cs)
  then show ?case
    using cash_value_in_base_log [of c md b "snd acc" k]
    by (cases acc) (auto simp: unconverted_def split: prod.splits)
qed

text \<open>The whole state: one row per position, in order, and exactly the missing data logged.\<close>

lemma build_simulated_state_parts:
  assumes "build_simulated_state pf md shelf os dq = (st, dq')"
  obtains ss tot dq1 positions cm am cash
  where "build_position_summaries (pf_positions pf) md (pf_base_currency pf) os (0, dq) = (ss, tot, dq1)"
    and "cash_total_value (pf_cash_balances pf) md (pf_base_currency pf) (0, dq1) = (cash, dq')"
    and "build_position_allocation_maps ss (shelf_by_instrument shelf)
           (safe_total_value (dec_add tot cash)) ([], []) = (positions, cm, am)"
    and "ss_total_value st = \<lparr>mo_amount = dec_add tot cash, mo_currency = pf_base_currency pf\<rparr>"
    and "ss_positions st = positions"
    and "ss_cash_balances st = pf_cash_balances pf"
    and "ss_allocation_by_instrument st = instrument_allocations positions"
    and "ss_allocation_by_asset_class st = allocation_metrics (add_cash_allocation cm cash)
           (safe_total_value (dec_add tot cash)) (pf_base_currency pf)"
  using assms by (auto simp: build_simulated_state_def Let_def split: prod.splits)

lemma build_simulated_state_log:
  assumes "build_simulated_state pf md shelf os dq = (st, dq')"
  shows "dict_list dq' k = dict_list dq k
     @ (if k = ''price_missing'' then unpriced md (pf_positions pf)
        else if k = ''fx_missing'' then unconverted md (pf_base_currency pf)
          (map ps_instrument_currency (ss_positions st) @ map cb_currency (pf_cash_balances pf))
        else [])"
proof -
  from assms show ?thesis
  proof (rule build_simulated_state_parts)
    fix ss tot dq1 positions cm am cash
    assume a: "build_position_summaries (pf_positions pf) md (pf_base_currency pf) os (0, dq) = (ss, tot, dq1)"
      and b: "cash_total_value (pf_cash_balances pf) md (pf_base_currency pf) (0, dq1) = (cash, dq')"
      and c: "build_position_allocation_maps ss (shelf_by_instrument shelf)
           (safe_total_value (dec_add tot cash)) ([], []) = (positions, cm, am)"
      and d: "ss_positions st = positions"
    have "map ps_instrument_currency positions = map ps_instrument_currency ss"
      using arg_cong [OF build_position_allocation_maps_keeps [OF c],
          of "map (\<lambda>(_, _, _, c, _). c)"] by (simp add: comp_def)
    then show ?thesis
      using build_position_summaries_log [OF a, of k] d
        cash_total_value_log [of "pf_cash_balances pf" md "pf_base_currency pf" "(0, dq1)" k]
      by (simp add: b unconverted_def)
  qed
qed

lemma build_simulated_state_keeps:
  assumes "build_simulated_state pf md shelf os dq = (st, dq')"
  shows "ss_cash_balances st = pf_cash_balances pf"
    and "map ps_instrument_id (ss_positions st) = map po_instrument_id (pf_positions pf)"
    and "map ps_quantity (ss_positions st) = map po_quantity (pf_positions pf)"
    and "map am_key (ss_allocation_by_instrument st) = map po_instrument_id (pf_positions pf)"
proof -
  have "ss_cash_balances st = pf_cash_balances pf
    \<and> map ps_instrument_id (ss_positions st) = map po_instrument_id (pf_positions pf)
    \<and> map ps_quantity (ss_positions st) = map po_quantity (pf_positions pf)
    \<and> map am_key (ss_allocation_by_instrument st) = map po_instrument_id (pf_positions pf)"
    using assms
  proof (rule build_simulated_state_parts)
    fix ss tot dq1 positions cm am cash
    assume a: "build_position_summaries (pf_positions pf) md (pf_base_currency pf) os (0, dq) = (ss, tot, dq1)"
      and c: "build_position_allocation_maps ss (shelf_by_instrument shelf)
           (safe_total_value (dec_add tot cash)) ([], []) = (positions, cm, am)"
      and d: "ss_positions st = positions" "ss_cash_balances st = pf_cash_balances pf"
        "ss_allocation_by_instrument st = instrument_allocations positions"
    have "map ps_instrument_id positions = map ps_instrument_id ss"
      and "map ps_quantity positions = map ps_quantity ss"
      using arg_cong [OF build_position_allocation_maps_keeps [OF c], of "map fst"]
        arg_cong [OF build_position_allocation_maps_keeps [OF c], of "map (fst \<circ> snd)"]
      by (simp_all add: comp_def)
    then show ?thesis
      using d by (simp add: build_position_summaries_maps [OF a] comp_def instrument_allocations_def)
  qed
  then show "ss_cash_balances st = pf_cash_balances pf"
    and "map ps_instrument_id (ss_positions st) = map po_instrument_id (pf_positions pf)"
    and "map ps_quantity (ss_positions st) = map po_quantity (pf_positions pf)"
    and "map am_key (ss_allocation_by_instrument st) = map po_instrument_id (pf_positions pf)"
    by simp_all
qed

lemma build_simulated_state_allocations:
  assumes "build_simulated_state pf md shelf os dq = (st, dq')"
  shows "distinct (map am_key (ss_allocation_by_asset_class st))"
    and "am_key ` set (ss_allocation_by_asset_class st) = insert ''CASH'' (ps_asset_class ` set (ss_positions st))"
proof -
  have "distinct (map am_key (ss_allocation_by_asset_class st))
    \<and> am_key ` set (ss_allocation_by_asset_class st) = insert ''CASH'' (ps_asset_class ` set (ss_positions st))"
    using assms
  proof (rule build_simulated_state_parts)
    fix ss tot dq1 positions cm am cash
    assume c: "build_position_allocation_maps ss (shelf_by_instrument shelf)
           (safe_total_value (dec_add tot cash)) ([], []) = (positions, cm, am)"
      and d: "ss_positions st = positions"
        "ss_allocation_by_asset_class st = allocation_metrics (add_cash_allocation cm cash)
           (safe_total_value (dec_add tot cash)) (pf_base_currency pf)"
    have keys: "map am_key (allocation_metrics m t b) = map fst m" for m t b
      by (induction m) (auto simp: allocation_metrics_def)
    have "dict_wf (add_cash_allocation cm cash)"
      using build_position_allocation_maps_classes(1) [OF c]
      by (simp add: add_cash_allocation_def dict_add_def)
    moreover have "fst ` set (add_cash_allocation cm cash) = insert ''CASH'' (ps_asset_class ` set positions)"
      using build_position_allocation_maps_classes(2) [OF c]
      by (simp add: add_cash_allocation_def dict_add_def dom_update)
    ultimately show ?thesis
      by (metis d(1) d(2) dict_wf_def keys list.set_map)
  qed
  then show "distinct (map am_key (ss_allocation_by_asset_class st))"
    and "am_key ` set (ss_allocation_by_asset_class st) = insert ''CASH'' (ps_asset_class ` set (ss_positions st))"
    by simp_all
qed

end
