(* ===== verification/Simulation_Shared.thy ===== *)
theory Simulation_Shared
  imports Valuation
begin

text \<open>
  \<open>common/simulation_shared.py\<close> and \<open>common/intent_dependencies.py\<close>: the simulated portfolio
  as the engine mutates it, minor-unit quantisation, the execution order of order intents, the
  status derived from rule results, the value reconciliation and the dependency links of buys.
  Python mutates the first matching entry of a list in place; \<open>map_first\<close> is that update.
\<close>

subsection \<open>Updating the first matching entry\<close>

fun map_first :: "('a \<Rightarrow> bool) \<Rightarrow> ('a \<Rightarrow> 'a) \<Rightarrow> 'a list \<Rightarrow> 'a list" where
  "map_first P f [] = []"
| "map_first P f (x # xs) = (if P x then f x # xs else x # map_first P f xs)"

lemma find_first_map_first:
  assumes "\<And>x. P x \<Longrightarrow> P (f x)"
  shows "find_first P (map_first P f xs) = map_option f (find_first P xs)"
  using assms by (induction xs) auto

lemma find_first_map_first_other:
  assumes "\<And>x. P x \<Longrightarrow> \<not> Q x \<and> \<not> Q (f x)"
  shows "find_first Q (map_first P f xs) = find_first Q xs"
  using assms by (induction xs) auto

lemma map_map_first: "(\<And>x. g (f x) = g x) \<Longrightarrow> map g (map_first P f xs) = map g xs"
  by (induction xs) auto

lemma set_map_first_subset:
  "x \<in> set (map_first P f xs) \<Longrightarrow> x \<in> set xs \<or> (\<exists>y. find_first P xs = Some y \<and> x = f y)"
  by (induction xs) (auto split: if_splits)

lemma find_first_append:
  "find_first P (xs @ ys) = (case find_first P xs of None \<Rightarrow> find_first P ys | Some x \<Rightarrow> Some x)"
  by (induction xs) auto

subsection \<open>Cash and positions\<close>

definition find_cash :: "portfolio \<Rightarrow> string \<Rightarrow> cash_balance option" where
  "find_cash pf currency = find_first (\<lambda>c. cb_currency c = currency) (pf_cash_balances pf)"

definition find_position :: "portfolio \<Rightarrow> string \<Rightarrow> position option" where
  "find_position pf iid = find_first (\<lambda>p. po_instrument_id p = iid) (pf_positions pf)"

definition ensure_position :: "string \<Rightarrow> portfolio \<Rightarrow> portfolio" where
  "ensure_position iid pf =
     (if find_position pf iid \<noteq> None then pf
      else pf\<lparr>pf_positions := pf_positions pf
        @ [\<lparr>po_instrument_id = iid, po_quantity = 0, po_market_value = None, po_lots = []\<rparr>]\<rparr>)"

definition ensure_cash_balance :: "string \<Rightarrow> portfolio \<Rightarrow> portfolio" where
  "ensure_cash_balance currency pf =
     (if find_cash pf currency \<noteq> None then pf
      else pf\<lparr>pf_cash_balances := pf_cash_balances pf
        @ [\<lparr>cb_currency = currency, cb_amount = 0, cb_settled = None, cb_pending = None\<rparr>]\<rparr>)"

definition cash_of :: "portfolio \<Rightarrow> string \<Rightarrow> decimal" where
  "cash_of pf currency = (case find_cash pf currency of None \<Rightarrow> 0 | Some c \<Rightarrow> cb_amount c)"

definition quantity_of :: "portfolio \<Rightarrow> string \<Rightarrow> decimal" where
  "quantity_of pf iid = (case find_position pf iid of None \<Rightarrow> 0 | Some p \<Rightarrow> po_quantity p)"

definition update_cash :: "string \<Rightarrow> (decimal \<Rightarrow> decimal) \<Rightarrow> portfolio \<Rightarrow> portfolio" where
  "update_cash currency f pf =
     (let pf' = ensure_cash_balance currency pf
      in pf'\<lparr>pf_cash_balances := map_first (\<lambda>c. cb_currency c = currency)
           (\<lambda>c. c\<lparr>cb_amount := f (cb_amount c)\<rparr>) (pf_cash_balances pf')\<rparr>)"

definition update_quantity :: "string \<Rightarrow> (decimal \<Rightarrow> decimal) \<Rightarrow> portfolio \<Rightarrow> portfolio" where
  "update_quantity iid f pf =
     (let pf' = ensure_position iid pf
      in pf'\<lparr>pf_positions := map_first (\<lambda>p. po_instrument_id p = iid)
           (\<lambda>p. p\<lparr>po_quantity := f (po_quantity p)\<rparr>) (pf_positions pf')\<rparr>)"

definition apply_security_trade_to_portfolio :: "trade_intent \<Rightarrow> portfolio \<Rightarrow> portfolio" where
  "apply_security_trade_to_portfolio i pf =
     (case (ti_notional i, ti_quantity i) of
        (Some notional, Some quantity) \<Rightarrow>
          (if ti_side i = SD_BUY
           then update_cash (mo_currency notional) (\<lambda>a. dec_sub a (mo_amount notional))
                  (update_quantity (ti_instrument_id i) (\<lambda>q. dec_add q quantity) pf)
           else update_cash (mo_currency notional) (\<lambda>a. dec_add a (mo_amount notional))
                  (update_quantity (ti_instrument_id i) (\<lambda>q. dec_sub q quantity) pf))
      | _ \<Rightarrow> pf)"

definition apply_fx_spot_to_portfolio :: "fx_intent \<Rightarrow> portfolio \<Rightarrow> portfolio" where
  "apply_fx_spot_to_portfolio i pf =
     update_cash (fi_buy_currency i) (\<lambda>a. dec_add a (fi_buy_amount i))
       (update_cash (fi_sell_currency i) (\<lambda>a. dec_sub a (fi_sell_amount_estimated i)) pf)"

lemma find_cash_ensure:
  "find_cash (ensure_cash_balance c pf) c' =
     (if c' = c \<and> find_cash pf c = None
      then Some \<lparr>cb_currency = c, cb_amount = 0, cb_settled = None, cb_pending = None\<rparr>
      else find_cash pf c')"
  by (auto simp: ensure_cash_balance_def find_cash_def find_first_append split: option.splits)

lemma cash_of_ensure [simp]: "cash_of (ensure_cash_balance c pf) c' = cash_of pf c'"
  by (simp add: cash_of_def find_cash_ensure)

lemma find_position_ensure:
  "find_position (ensure_position i pf) i' =
     (if i' = i \<and> find_position pf i = None
      then Some \<lparr>po_instrument_id = i, po_quantity = 0, po_market_value = None, po_lots = []\<rparr>
      else find_position pf i')"
  by (auto simp: ensure_position_def find_position_def find_first_append split: option.splits)

lemma cash_of_update [simp]:
  "cash_of (update_cash c f pf) c' = (if c' = c then f (cash_of pf c) else cash_of pf c')"
proof (cases "c' = c")
  case True
  have "\<exists>x. find_cash (ensure_cash_balance c pf) c = Some x"
    by (cases "find_cash pf c") (simp_all add: find_cash_ensure)
  then obtain x where x: "find_cash (ensure_cash_balance c pf) c = Some x" ..
  then have "cash_of pf c = cb_amount x" using cash_of_ensure [of c pf c] by (simp add: cash_of_def)
  with x True show ?thesis
    by (simp add: update_cash_def Let_def cash_of_def find_cash_def find_first_map_first)
next
  case False
  then have "find_cash (update_cash c f pf) c' = find_cash (ensure_cash_balance c pf) c'"
    by (simp add: update_cash_def Let_def find_cash_def find_first_map_first_other)
  with False show ?thesis by (simp add: cash_of_def find_cash_ensure)
qed

lemma quantity_of_update [simp]:
  "quantity_of (update_quantity i f pf) i' = (if i' = i then f (quantity_of pf i) else quantity_of pf i')"
proof (cases "i' = i")
  case True
  have "\<exists>x. find_position (ensure_position i pf) i = Some x"
    by (cases "find_position pf i") (simp_all add: find_position_ensure)
  then obtain x where x: "find_position (ensure_position i pf) i = Some x" ..
  then have "quantity_of pf i = po_quantity x"
    by (auto simp: quantity_of_def find_position_ensure split: if_splits)
  with x True show ?thesis
    by (simp add: update_quantity_def Let_def quantity_of_def find_position_def find_first_map_first)
next
  case False
  then have "find_position (update_quantity i f pf) i' = find_position (ensure_position i pf) i'"
    by (simp add: update_quantity_def Let_def find_position_def find_first_map_first_other)
  with False show ?thesis by (simp add: quantity_of_def find_position_ensure)
qed

lemma ensure_frame [simp]:
  "pf_positions (ensure_cash_balance c pf) = pf_positions pf"
  "pf_base_currency (ensure_cash_balance c pf) = pf_base_currency pf"
  "pf_cash_balances (ensure_position i pf) = pf_cash_balances pf"
  "pf_base_currency (ensure_position i pf) = pf_base_currency pf"
  by (simp_all add: ensure_cash_balance_def ensure_position_def)

lemma update_frame [simp]:
  "pf_positions (update_cash c f pf) = pf_positions pf"
  "pf_base_currency (update_cash c f pf) = pf_base_currency pf"
  "pf_cash_balances (update_quantity i g pf) = pf_cash_balances pf"
  "pf_base_currency (update_quantity i g pf) = pf_base_currency pf"
  by (simp_all add: update_cash_def update_quantity_def Let_def)

lemma cash_of_update_quantity [simp]: "cash_of (update_quantity i g pf) c = cash_of pf c"
  by (simp add: cash_of_def find_cash_def)

lemma quantity_of_update_cash [simp]: "quantity_of (update_cash c f pf) i = quantity_of pf i"
  by (simp add: quantity_of_def find_position_def)

text \<open>No balance is negative.\<close>

definition nonneg_cash :: "portfolio \<Rightarrow> bool" where
  "nonneg_cash pf \<longleftrightarrow> list_all (\<lambda>c. 0 \<le> cb_amount c) (pf_cash_balances pf)"

lemma nonneg_cash_of: "nonneg_cash pf \<Longrightarrow> 0 \<le> cash_of pf c"
  by (auto simp: nonneg_cash_def cash_of_def find_cash_def list_all_iff split: option.splits
      dest!: find_first_SomeD)

lemma nonneg_cash_ensure [simp]: "nonneg_cash (ensure_cash_balance c pf) = nonneg_cash pf"
  by (simp add: nonneg_cash_def ensure_cash_balance_def)

lemma nonneg_cash_update:
  assumes "nonneg_cash pf" and "0 \<le> f (cash_of pf c)" shows "nonneg_cash (update_cash c f pf)"
proof -
  let ?pf = "ensure_cash_balance c pf"
  have all: "list_all (\<lambda>c. 0 \<le> cb_amount c) (pf_cash_balances ?pf)"
    using assms(1) nonneg_cash_ensure [of c pf] by (simp add: nonneg_cash_def)
  have "0 \<le> cb_amount x"
    if x: "x \<in> set (map_first (\<lambda>k. cb_currency k = c) (\<lambda>k. k\<lparr>cb_amount := f (cb_amount k)\<rparr>)
      (pf_cash_balances ?pf))" for x
    using set_map_first_subset [OF x]
  proof
    assume "x \<in> set (pf_cash_balances ?pf)"
    with all show ?thesis by (simp add: list_all_iff)
  next
    assume "\<exists>y. find_first (\<lambda>k. cb_currency k = c) (pf_cash_balances ?pf) = Some y
        \<and> x = y\<lparr>cb_amount := f (cb_amount y)\<rparr>"
    then obtain y where y: "find_cash ?pf c = Some y" "x = y\<lparr>cb_amount := f (cb_amount y)\<rparr>"
      by (auto simp: find_cash_def)
    then have "cb_amount y = cash_of pf c" using cash_of_ensure [of c pf c] by (simp add: cash_of_def)
    with y assms(2) show ?thesis by simp
  qed
  then show ?thesis by (simp add: nonneg_cash_def update_cash_def Let_def list_all_iff)
qed

subsection \<open>Minor units\<close>

definition currency_minor_units :: "(string, nat) dict" where
  "currency_minor_units = [(''BHD'', 3), (''JPY'', 0), (''KRW'', 0), (''KWD'', 3), (''OMR'', 3), (''VND'', 0)]"

definition minor_units :: "string \<Rightarrow> nat" where
  "minor_units currency = (case dict_get currency_minor_units currency of None \<Rightarrow> 2 | Some k \<Rightarrow> k)"

definition quantize_amount_for_currency :: "decimal \<Rightarrow> string \<Rightarrow> error + decimal" where
  "quantize_amount_for_currency amount currency = dec_quantize (minor_units currency) amount"

subsection \<open>Execution order\<close>

definition execution_rank :: "order_intent \<Rightarrow> nat" where
  "execution_rank i = (case i of
     CashFlowIntent _ \<Rightarrow> 0
   | SecurityTradeIntent t \<Rightarrow> (if ti_side t = SD_SELL then 1 else 3)
   | FxSpotIntent _ \<Rightarrow> 2)"

definition sort_execution_intents :: "order_intent list \<Rightarrow> order_intent list" where
  "sort_execution_intents is = sort_key execution_rank is"

lemma sort_key_sorted_groups:
  assumes "sorted (map f xs)" shows "sort_key f xs = xs"
  using assms by (rule sort_key_id_if_sorted)

subsection \<open>Status and reconciliation\<close>

definition has_failed_rule_with_severity :: "rule_result list \<Rightarrow> rule_severity \<Rightarrow> bool" where
  "has_failed_rule_with_severity rs severity \<longleftrightarrow>
     list_ex (\<lambda>r. ru_severity r = severity \<and> ru_status r = RU_FAIL) rs"

definition derive_status_from_rules :: "rule_result list \<Rightarrow> run_status" where
  "derive_status_from_rules rs =
     (if has_failed_rule_with_severity rs RV_HARD then RN_BLOCKED
      else if has_failed_rule_with_severity rs RV_SOFT then RN_PENDING_REVIEW
      else RN_READY)"

definition build_reconciliation ::
  "decimal \<Rightarrow> decimal \<Rightarrow> decimal \<Rightarrow> string \<Rightarrow> bool \<Rightarrow> reconciliation \<times> decimal \<times> decimal" where
  "build_reconciliation before_total after_total expected base_currency use_absolute_scale =
     (let recon_diff = dec_abs (dec_sub after_total expected);
          scale = (if use_absolute_scale then dec_abs expected else expected);
          tolerance = dec_add (1 / 2) (dec_mul scale (5 / 10000))
      in (\<lparr>rc_before_total_value = \<lparr>mo_amount = before_total, mo_currency = base_currency\<rparr>,
           rc_after_total_value = \<lparr>mo_amount = after_total, mo_currency = base_currency\<rparr>,
           rc_delta = \<lparr>mo_amount = dec_sub after_total before_total, mo_currency = base_currency\<rparr>,
           rc_tolerance = \<lparr>mo_amount = tolerance, mo_currency = base_currency\<rparr>,
           rc_ok = (recon_diff \<le> tolerance)\<rparr>,
          recon_diff, tolerance))"

text \<open>With the absolute scale the tolerance is positive, so an exact match reconciles.\<close>

lemma build_reconciliation_exact:
  assumes "build_reconciliation b a a ccy True = (r, d, t)" shows "rc_ok r \<and> d = 0 \<and> 0 < t"
proof -
  have "0 \<le> dec_mul (dec_abs a) (5 / 10000)" by (simp add: dec_mul_nonneg dec_abs_def dec_round_nonneg)
  then have "0 < dec_add (1 / 2) (dec_mul (dec_abs a) (5 / 10000))"
    by (simp add: dec_add_def dec_round_pos)
  with assms show ?thesis by (auto simp: build_reconciliation_def Let_def dec_sub_def dec_abs_def)
qed

subsection \<open>Dependencies of buys\<close>

definition append_dependency :: "string option \<Rightarrow> trade_intent \<Rightarrow> trade_intent" where
  "append_dependency dependency i = (case dependency of
     None \<Rightarrow> i
   | Some d \<Rightarrow> if d \<in> set (ti_dependencies i) then i
               else i\<lparr>ti_dependencies := ti_dependencies i @ [d]\<rparr>)"

definition sell_intent_id_by_currency :: "trade_intent list \<Rightarrow> bool \<Rightarrow> (string, string) dict" where
  "sell_intent_id_by_currency is include_sells =
     (if \<not> include_sells then []
      else fold (\<lambda>i d. case ti_notional i of
          Some n \<Rightarrow> (if ti_side i = SD_SELL then dict_set (mo_currency n) (ti_intent_id i) d else d)
        | None \<Rightarrow> d) is [])"

definition link_buy_intent_dependencies ::
  "trade_intent list \<Rightarrow> (string, string) dict \<Rightarrow> bool \<Rightarrow> trade_intent list" where
  "link_buy_intent_dependencies is fx_ids include_sells =
     (let sell_ids = sell_intent_id_by_currency is include_sells
      in map (\<lambda>i. case ti_notional i of
            Some n \<Rightarrow> (if ti_side i = SD_BUY
              then (let i' = append_dependency (dict_get fx_ids (mo_currency n)) i
                    in if include_sells
                       then append_dependency (dict_get sell_ids (mo_currency n)) i' else i')
              else i)
          | None \<Rightarrow> i) is)"

lemma append_dependency_keeps [simp]:
  "ti_intent_id (append_dependency d i) = ti_intent_id i"
  "ti_instrument_id (append_dependency d i) = ti_instrument_id i"
  "ti_side (append_dependency d i) = ti_side i"
  "ti_quantity (append_dependency d i) = ti_quantity i"
  "ti_notional (append_dependency d i) = ti_notional i"
  "set (ti_dependencies (append_dependency d i)) = set (ti_dependencies i) \<union> set_option d"
  by (auto simp: append_dependency_def split: option.splits)

lemma sell_intent_id_by_currency_ids:
  assumes "dict_get (sell_intent_id_by_currency is b) c = Some d"
  shows "\<exists>i\<in>set is. ti_side i = SD_SELL \<and> ti_intent_id i = d"
proof -
  define step where "step = (\<lambda>(i :: trade_intent) d. case ti_notional i of
      Some n \<Rightarrow> (if ti_side i = SD_SELL then dict_set (mo_currency n) (ti_intent_id i) d else d)
    | None \<Rightarrow> (d :: (string, string) dict))"
  have "dict_get (fold step is acc) c = Some d \<Longrightarrow>
      dict_get acc c = Some d \<or> (\<exists>i\<in>set is. ti_side i = SD_SELL \<and> ti_intent_id i = d)" for acc
  proof (induction "is" arbitrary: acc)
    case (Cons i "is")
    from Cons.IH [of "step i acc"] Cons.prems show ?case
      by (auto simp: step_def split: option.splits if_splits)
  qed simp
  from this [of "[]"] assms show ?thesis
    by (simp add: sell_intent_id_by_currency_def step_def split: if_splits)
qed

lemma link_keeps:
  "map ti_intent_id (link_buy_intent_dependencies is fx b) = map ti_intent_id is"
  "map ti_side (link_buy_intent_dependencies is fx b) = map ti_side is"
  by (auto simp: link_buy_intent_dependencies_def Let_def split: option.splits)

lemma link_dependencies:
  assumes "i' \<in> set (link_buy_intent_dependencies is fx b)" and "d \<in> set (ti_dependencies i')"
  shows "(\<exists>i\<in>set is. d \<in> set (ti_dependencies i))
    \<or> (ti_side i' = SD_BUY \<and> ((\<exists>c. dict_get fx c = Some d) \<or> (\<exists>i\<in>set is. ti_side i = SD_SELL \<and> ti_intent_id i = d)))"
proof -
  from assms(1) obtain i where i: "i \<in> set is" and i': "i' = (case ti_notional i of
      Some n \<Rightarrow> (if ti_side i = SD_BUY
        then (let j = append_dependency (dict_get fx (mo_currency n)) i
              in if b then append_dependency (dict_get (sell_intent_id_by_currency is b) (mo_currency n)) j else j)
        else i)
    | None \<Rightarrow> i)"
    unfolding link_buy_intent_dependencies_def Let_def by auto
  show ?thesis
  proof (cases "d \<in> set (ti_dependencies i)")
    case True
    with i show ?thesis by blast
  next
    case False
    with assms(2) i' show ?thesis
      by (auto simp: Let_def split: option.splits if_splits dest: sell_intent_id_by_currency_ids)
  qed
qed


lemma link_append_sells:
  assumes "\<forall>i\<in>set sells. ti_side i = SD_SELL"
  shows "take (length sells) (link_buy_intent_dependencies (sells @ buys) fx b) = sells"
    and "length (drop (length sells) (link_buy_intent_dependencies (sells @ buys) fx b)) = length buys"
proof -
  have "link_buy_intent_dependencies (sells @ buys) fx b =
      sells @ drop (length sells) (link_buy_intent_dependencies (sells @ buys) fx b)"
    using assms by (auto simp: link_buy_intent_dependencies_def Let_def intro!: map_idI split: option.splits)
  then show "take (length sells) (link_buy_intent_dependencies (sells @ buys) fx b) = sells"
    by (metis append_eq_conv_conj)
  show "length (drop (length sells) (link_buy_intent_dependencies (sells @ buys) fx b)) = length buys"
    by (simp add: link_buy_intent_dependencies_def Let_def)
qed

text \<open>Linking changes dependencies only: the simulated trades are the same.\<close>

lemma link_applies_alike:
  "map (\<lambda>i. apply_security_trade_to_portfolio i) (link_buy_intent_dependencies is fx b)
     = map (\<lambda>i. apply_security_trade_to_portfolio i) is"
proof -
  have "apply_security_trade_to_portfolio (append_dependency d i) = apply_security_trade_to_portfolio i" for d i
    by (rule ext) (simp add: apply_security_trade_to_portfolio_def split: option.split)
  then show ?thesis
    by (auto simp: link_buy_intent_dependencies_def Let_def split: option.splits)
qed

subsection \<open>Executing order intents\<close>

definition execute_intent :: "order_intent \<Rightarrow> portfolio \<Rightarrow> portfolio" where
  "execute_intent i = (case i of
     CashFlowIntent c \<Rightarrow> update_cash (ci_currency c) (\<lambda>a. dec_add a (ci_amount c))
   | FxSpotIntent f \<Rightarrow> apply_fx_spot_to_portfolio f
   | SecurityTradeIntent t \<Rightarrow> apply_security_trade_to_portfolio t)"

text \<open>Portfolios that agree on every balance and every position.\<close>

definition holds_the_same :: "portfolio \<Rightarrow> portfolio \<Rightarrow> bool" where
  "holds_the_same pf pf' \<longleftrightarrow> (\<forall>c. cash_of pf c = cash_of pf' c) \<and> pf_positions pf = pf_positions pf'"

lemma holds_the_same_refl [simp]: "holds_the_same pf pf"
  by (simp add: holds_the_same_def)

lemma holds_the_same_trans:
  "holds_the_same a b \<Longrightarrow> holds_the_same b c \<Longrightarrow> holds_the_same a c"
  by (simp add: holds_the_same_def)

lemma update_quantity_same:
  "holds_the_same a b \<Longrightarrow> holds_the_same (update_quantity i g a) (update_quantity i g b)"
  by (simp add: holds_the_same_def) (simp add: update_quantity_def Let_def ensure_position_def find_position_def)

lemma update_cash_same:
  "holds_the_same a b \<Longrightarrow> holds_the_same (update_cash c f a) (update_cash c f b)"
  by (simp add: holds_the_same_def)

lemma execute_intent_same:
  assumes "holds_the_same a b" shows "holds_the_same (execute_intent i a) (execute_intent i b)"
proof (cases i)
  case (SecurityTradeIntent t)
  then show ?thesis
    using assms
    by (simp add: execute_intent_def apply_security_trade_to_portfolio_def update_cash_same
        update_quantity_same split: option.split)
qed (use assms in \<open>auto simp: execute_intent_def apply_fx_spot_to_portfolio_def update_cash_same\<close>)

lemma execute_all_same:
  "holds_the_same a b \<Longrightarrow> holds_the_same (fold execute_intent is a) (fold execute_intent is b)"
  by (induction "is" arbitrary: a b) (auto intro: execute_intent_same)

end
