(* ===== verification/Auto_Funding.thy ===== *)
theory Auto_Funding
  imports Simulation_Shared
begin

text \<open>
  \<open>advisory/funding.py\<close> and \<open>advisory/funding_selection.py\<close>: the FX intents that fund the
  proposed buys.  The buys are grouped by currency; for each currency in alphabetical order the
  shortfall is bought from the first funding currency whose balance covers it.  The Python code
  mutates the portfolio, the diagnostics and four collections; \<open>funding_state\<close> holds them.
\<close>

subsection \<open>The funding source\<close>

record funding_selection =
  fc_pair :: string
  fc_rate :: decimal
  fc_funding_currency :: string
  fc_sell_required :: decimal

definition record_missing_fx_pair :: "string \<Rightarrow> diagnostics \<Rightarrow> diagnostics" where
  "record_missing_fx_pair pair dg =
     (let dg' = (if pair \<in> set (dg_missing_fx_pairs dg) then dg
                 else dg\<lparr>dg_missing_fx_pairs := dg_missing_fx_pairs dg @ [pair]\<rparr>)
      in if pair \<in> set (dict_list (dg_data_quality dg') ''fx_missing'') then dg'
         else log_dq ''fx_missing'' pair dg')"

definition base_only_funding_candidates :: "string \<Rightarrow> string \<Rightarrow> string list" where
  "base_only_funding_candidates base_currency target_currency =
     (if base_currency = target_currency then [] else [base_currency])"

definition any_cash_funding_candidates :: "string \<Rightarrow> string \<Rightarrow> string list \<Rightarrow> string list" where
  "any_cash_funding_candidates base_currency target_currency ledger =
     base_only_funding_candidates base_currency target_currency
       @ sort (filter (\<lambda>c. c \<notin> {base_currency, target_currency}) (remdups ledger))"

text \<open>The ledger's amounts are not read; the argument is its keys.\<close>

definition funding_priority_currencies ::
  "engine_options \<Rightarrow> string \<Rightarrow> string \<Rightarrow> string list \<Rightarrow> string list" where
  "funding_priority_currencies options base_currency target_currency ledger =
     (case eo_fx_funding_source_currency options of
        FS_BASE_ONLY \<Rightarrow> base_only_funding_candidates base_currency target_currency
      | FS_ANY_CASH \<Rightarrow> any_cash_funding_candidates base_currency target_currency ledger)"

definition smaller_funding_deficit ::
  "(string \<times> decimal) option \<Rightarrow> string \<times> decimal \<Rightarrow> string \<times> decimal" where
  "smaller_funding_deficit current candidate = (case current of
     None \<Rightarrow> candidate
   | Some d \<Rightarrow> if snd candidate < snd d then candidate else d)"

text \<open>
  The loop over the candidates: a missing rate is recorded and skipped, the first candidate whose
  balance covers the amount is taken, otherwise the smallest deficit is remembered.  Reading a
  balance creates a zero entry for a currency that has none.
\<close>

fun select_funding_source_loop ::
  "market_data \<Rightarrow> string \<Rightarrow> decimal \<Rightarrow> string list \<Rightarrow> portfolio \<times> diagnostics \<times> (string \<times> decimal) option
     \<Rightarrow> error + (funding_selection option \<times> portfolio \<times> diagnostics \<times> (string \<times> decimal) option)" where
  "select_funding_source_loop md target fx_needed [] (pf, dg, deficit) = Inr (None, pf, dg, deficit)"
| "select_funding_source_loop md target fx_needed (f # fs) (pf, dg, deficit) =
     (case get_fx_rate md target f of
        None \<Rightarrow> select_funding_source_loop md target fx_needed fs
          (pf, record_missing_fx_pair (fx_pair target f) dg, deficit)
      | Some rate \<Rightarrow>
          bind_error (quantize_amount_for_currency (dec_mul fx_needed rate) f) (\<lambda>sell_required.
            let pf' = ensure_cash_balance f pf; available = cash_of pf' f
            in if sell_required \<le> available
               then Inr (Some \<lparr>fc_pair = fx_pair target f, fc_rate = rate, fc_funding_currency = f,
                               fc_sell_required = sell_required\<rparr>, pf', dg, deficit)
               else select_funding_source_loop md target fx_needed fs
                 (pf', dg, Some (smaller_funding_deficit deficit (f, dec_sub sell_required available)))))"

definition select_funding_source ::
  "market_data \<Rightarrow> engine_options \<Rightarrow> string \<Rightarrow> decimal \<Rightarrow> portfolio \<Rightarrow> diagnostics
     \<Rightarrow> error + (funding_selection option \<times> portfolio \<times> diagnostics \<times> (string \<times> decimal) option)" where
  "select_funding_source md options target fx_needed pf dg =
     select_funding_source_loop md target fx_needed
       (funding_priority_currencies options (pf_base_currency pf) target
         (map cb_currency (pf_cash_balances pf)))
       (pf, dg, None)"

subsection \<open>Funding one currency\<close>

record funding_state =
  fd_portfolio :: portfolio
  fd_diagnostics :: diagnostics
  fd_fx_intents :: "fx_intent list"
  fd_fx_by_currency :: "(string, string) dict"
  fd_unfunded :: "string list"
  fd_hard_failures :: "string list"
  fd_pending :: bool

definition notional_of :: "trade_intent \<Rightarrow> error + money" where
  "notional_of i = (case ti_notional i of
     None \<Rightarrow> Inl (OtherException ''AttributeError'' ''NoneType object has no attribute currency'')
   | Some m \<Rightarrow> Inr m)"

primrec group_buy_intents_by_currency ::
  "trade_intent list \<Rightarrow> (string, money list) dict \<Rightarrow> error + (string, money list) dict" where
  "group_buy_intents_by_currency [] d = Inr d"
| "group_buy_intents_by_currency (i # is) d =
     bind_error (notional_of i) (\<lambda>m. group_buy_intents_by_currency is (dict_push (mo_currency m) m d))"

definition target_currency_funding_need ::
  "string \<Rightarrow> money list \<Rightarrow> portfolio \<Rightarrow> error + (decimal \<times> funding_plan_entry)" where
  "target_currency_funding_need target buys pf =
     (let required = dec_sum (map mo_amount buys);
          available = cash_of pf target;
          fx_needed = max 0 (dec_sub required available)
      in bind_error (quantize_amount_for_currency required target) (\<lambda>q_required.
         bind_error (quantize_amount_for_currency available target) (\<lambda>q_available.
         bind_error (quantize_amount_for_currency fx_needed target) (\<lambda>q_needed.
           Inr (fx_needed,
             \<lparr>fe_target_currency = target, fe_required = q_required,
              fe_available_before_fx = q_available, fe_fx_needed = q_needed,
              fe_fx_pair = None, fe_funding_currency = None\<rparr>)))))"

definition push_plan :: "funding_plan_entry \<Rightarrow> diagnostics \<Rightarrow> diagnostics" where
  "push_plan plan dg = dg\<lparr>dg_funding_plan := dg_funding_plan dg @ [plan]\<rparr>"

definition record_missing_fx_funding_failure ::
  "engine_options \<Rightarrow> funding_state \<Rightarrow> bool \<times> funding_state" where
  "record_missing_fx_funding_failure options st =
     (if eo_block_on_missing_fx options
      then (False, st\<lparr>fd_hard_failures := fd_hard_failures st @ [''PROPOSAL_MISSING_FX_FOR_FUNDING'']\<rparr>)
      else (True, st\<lparr>fd_diagnostics :=
              warn_once ''PROPOSAL_MISSING_FX_NON_BLOCKING'' (fd_diagnostics st)\<rparr>))"

definition record_unfunded_target_currency ::
  "engine_options \<Rightarrow> string \<Rightarrow> (string \<times> decimal) option \<Rightarrow> funding_plan_entry \<Rightarrow> funding_state
     \<Rightarrow> error + (bool \<times> funding_state)" where
  "record_unfunded_target_currency options target deficit plan st =
     (let st1 = st\<lparr>fd_unfunded := List.insert target (fd_unfunded st),
                   fd_diagnostics := push_plan plan (fd_diagnostics st)\<rparr>
      in if dg_missing_fx_pairs (fd_diagnostics st1) \<noteq> []
         then Inr (record_missing_fx_funding_failure options st1)
         else bind_error
           (case deficit of
              None \<Rightarrow> Inr (fd_diagnostics st1)
            | Some (currency, d) \<Rightarrow>
                bind_error (quantize_amount_for_currency d currency) (\<lambda>q.
                  Inr ((fd_diagnostics st1)\<lparr>dg_insufficient_cash :=
                    dg_insufficient_cash (fd_diagnostics st1)
                      @ [\<lparr>ie_currency = currency, ie_deficit = q\<rparr>]\<rparr>)))
           (\<lambda>dg. Inr (False, st1\<lparr>fd_diagnostics := dg, fd_hard_failures :=
              fd_hard_failures st1 @ [''PROPOSAL_INSUFFICIENT_FUNDING_CASH'']\<rparr>)))"

definition record_funding_fx_intent ::
  "string \<Rightarrow> decimal \<Rightarrow> funding_selection \<Rightarrow> funding_plan_entry \<Rightarrow> funding_state \<Rightarrow> error + funding_state" where
  "record_funding_fx_intent target fx_needed selected plan st =
     bind_error (quantize_amount_for_currency fx_needed target) (\<lambda>buy_amount.
       let fx = \<lparr>fi_intent_id = ''oi_fx_'' @ string_of_nat (length (fd_fx_intents st) + 1),
                 fi_pair = fc_pair selected, fi_buy_currency = target, fi_buy_amount = buy_amount,
                 fi_sell_currency = fc_funding_currency selected,
                 fi_sell_amount_estimated = fc_sell_required selected, fi_dependencies = [],
                 fi_rationale = (''FUNDING'', ''Fund '' @ target @ '' buys'')\<rparr>
       in Inr (st\<lparr>fd_portfolio := apply_fx_spot_to_portfolio fx (fd_portfolio st),
                  fd_fx_intents := fd_fx_intents st @ [fx],
                  fd_fx_by_currency := dict_set target (fi_intent_id fx) (fd_fx_by_currency st),
                  fd_diagnostics := push_plan (plan\<lparr>fe_fx_pair := Some (fc_pair selected),
                    fe_funding_currency := Some (fc_funding_currency selected)\<rparr>) (fd_diagnostics st)\<rparr>))"

definition fund_target_currency ::
  "market_data \<Rightarrow> engine_options \<Rightarrow> string \<Rightarrow> money list \<Rightarrow> funding_state
     \<Rightarrow> error + (bool \<times> funding_state)" where
  "fund_target_currency md options target buys st =
     (let st = st\<lparr>fd_portfolio := ensure_cash_balance target (fd_portfolio st)\<rparr>
      in bind_error (target_currency_funding_need target buys (fd_portfolio st)) (\<lambda>(fx_needed, plan).
         if fx_needed \<le> 0
         then Inr (False, st\<lparr>fd_diagnostics := push_plan plan (fd_diagnostics st)\<rparr>)
         else bind_error
           (select_funding_source md options target fx_needed (fd_portfolio st) (fd_diagnostics st))
           (\<lambda>(selected, pf, dg, deficit).
             let st = st\<lparr>fd_portfolio := pf, fd_diagnostics := dg\<rparr>
             in case selected of
                  None \<Rightarrow> record_unfunded_target_currency options target deficit plan st
                | Some s \<Rightarrow> bind_error (record_funding_fx_intent target fx_needed s plan st)
                    (\<lambda>st. Inr (False, st)))))"

definition fund_step ::
  "market_data \<Rightarrow> engine_options \<Rightarrow> (string, money list) dict \<Rightarrow> string \<Rightarrow> funding_state
     \<Rightarrow> error + funding_state" where
  "fund_step md options grouped target st =
     bind_error (fund_target_currency md options target (dict_list grouped target) st)
       (\<lambda>(pending, st'). Inr (st'\<lparr>fd_pending := pending \<or> fd_pending st'\<rparr>))"

definition initial_funding_state :: "portfolio \<Rightarrow> diagnostics \<Rightarrow> funding_state" where
  "initial_funding_state pf dg = \<lparr>fd_portfolio = pf, fd_diagnostics = dg, fd_fx_intents = [],
     fd_fx_by_currency = [], fd_unfunded = [], fd_hard_failures = [], fd_pending = False\<rparr>"

definition build_auto_funding_plan ::
  "market_data \<Rightarrow> engine_options \<Rightarrow> trade_intent list \<Rightarrow> portfolio \<Rightarrow> diagnostics
     \<Rightarrow> error + funding_state" where
  "build_auto_funding_plan md options buys pf dg =
     (if \<not> eo_auto_funding options then Inr (initial_funding_state pf dg)
      else bind_error (group_buy_intents_by_currency buys []) (\<lambda>grouped.
        fold_error (fund_step md options grouped) (sort (map fst grouped))
          (initial_funding_state pf dg)))"


subsection \<open>What the selection finds\<close>

text \<open>Two portfolios that differ in zero entries only.\<close>

definition same_funds :: "portfolio \<Rightarrow> portfolio \<Rightarrow> bool" where
  "same_funds pf pf' \<longleftrightarrow> (\<forall>c. cash_of pf' c = cash_of pf c) \<and> nonneg_cash pf' = nonneg_cash pf
     \<and> pf_positions pf' = pf_positions pf \<and> pf_base_currency pf' = pf_base_currency pf"

lemma same_funds_refl [simp]: "same_funds pf pf"
  by (simp add: same_funds_def)

lemma same_funds_trans: "same_funds a b \<Longrightarrow> same_funds b c \<Longrightarrow> same_funds a c"
  by (simp add: same_funds_def)

lemma same_funds_ensure [simp]: "same_funds pf (ensure_cash_balance c pf)"
  by (simp add: same_funds_def)

lemma funding_priority_not_target:
  "f \<in> set (funding_priority_currencies os b t ledger) \<Longrightarrow> f \<noteq> t"
  by (auto simp: funding_priority_currencies_def base_only_funding_candidates_def
      any_cash_funding_candidates_def split: funding_source.splits if_splits)

lemma select_funding_source_loop_finds:
  assumes "select_funding_source_loop md t need fs acc = Inr (sel, pf', dg', deficit')"
  shows "same_funds (fst acc) pf'"
    and "sel = Some s \<Longrightarrow> fc_funding_currency s \<in> set fs
      \<and> fc_sell_required s \<le> cash_of pf' (fc_funding_currency s)
      \<and> fc_pair s = fx_pair t (fc_funding_currency s)
      \<and> get_fx_rate md t (fc_funding_currency s) = Some (fc_rate s)
      \<and> quantize_amount_for_currency (dec_mul need (fc_rate s)) (fc_funding_currency s)
          = Inr (fc_sell_required s)"
proof -
  have "same_funds (fst acc) pf' \<and> (\<forall>s. sel = Some s \<longrightarrow> fc_funding_currency s \<in> set fs
      \<and> fc_sell_required s \<le> cash_of pf' (fc_funding_currency s)
      \<and> fc_pair s = fx_pair t (fc_funding_currency s)
      \<and> get_fx_rate md t (fc_funding_currency s) = Some (fc_rate s)
      \<and> quantize_amount_for_currency (dec_mul need (fc_rate s)) (fc_funding_currency s)
          = Inr (fc_sell_required s))"
    using assms
  proof (induction fs arbitrary: acc)
    case Nil
    then show ?case by (cases acc) auto
  next
    case (Cons f fs)
    obtain pf dg deficit where acc: "acc = (pf, dg, deficit)" by (cases acc)
    show ?case
    proof (cases "get_fx_rate md t f")
      case None
      then have "select_funding_source_loop md t need fs
          (pf, record_missing_fx_pair (fx_pair t f) dg, deficit) = Inr (sel, pf', dg', deficit')"
        using Cons.prems acc by simp
      from Cons.IH [OF this] show ?thesis by (simp add: acc)
    next
      case (Some rate)
      then obtain q where q: "quantize_amount_for_currency (dec_mul need rate) f = Inr q"
        using Cons.prems acc by (auto simp: bind_error_Inr_iff)
      let ?pf = "ensure_cash_balance f pf"
      show ?thesis
      proof (cases "q \<le> cash_of ?pf f")
        case True
        with Some q Cons.prems acc show ?thesis by auto
      next
        case False
        then have "select_funding_source_loop md t need fs
            (?pf, dg, Some (smaller_funding_deficit deficit (f, dec_sub q (cash_of ?pf f))))
          = Inr (sel, pf', dg', deficit')"
          using Some q Cons.prems acc by (simp add: Let_def)
        from Cons.IH [OF this] show ?thesis
          using same_funds_trans [OF same_funds_ensure [of pf f], of pf'] by (auto simp: acc)
      qed
    qed
  qed
  then show "same_funds (fst acc) pf'"
    and "sel = Some s \<Longrightarrow> fc_funding_currency s \<in> set fs
      \<and> fc_sell_required s \<le> cash_of pf' (fc_funding_currency s)
      \<and> fc_pair s = fx_pair t (fc_funding_currency s)
      \<and> get_fx_rate md t (fc_funding_currency s) = Some (fc_rate s)
      \<and> quantize_amount_for_currency (dec_mul need (fc_rate s)) (fc_funding_currency s)
          = Inr (fc_sell_required s)"
    by blast+
qed

subsection \<open>One funding step\<close>

text \<open>
  A step either leaves the funds alone (the currency needs nothing or is unfunded) or applies one
  FX intent that its funding currency covers.
\<close>

definition unfunded_step :: "string \<Rightarrow> funding_state \<Rightarrow> funding_state \<Rightarrow> bool" where
  "unfunded_step t st st' \<longleftrightarrow> same_funds (fd_portfolio st) (fd_portfolio st')
     \<and> fd_fx_intents st' = fd_fx_intents st \<and> fd_fx_by_currency st' = fd_fx_by_currency st
     \<and> set (fd_unfunded st) \<subseteq> set (fd_unfunded st') \<and> set (fd_unfunded st') \<subseteq> insert t (set (fd_unfunded st))"

definition funded_step :: "string \<Rightarrow> fx_intent \<Rightarrow> funding_state \<Rightarrow> funding_state \<Rightarrow> bool" where
  "funded_step t fx st st' \<longleftrightarrow>
     (\<exists>pf. same_funds (fd_portfolio st) pf \<and> fi_sell_amount_estimated fx \<le> cash_of pf (fi_sell_currency fx)
        \<and> fd_portfolio st' = apply_fx_spot_to_portfolio fx pf)
     \<and> fi_intent_id fx = ''oi_fx_'' @ string_of_nat (length (fd_fx_intents st) + 1)
     \<and> fi_pair fx = fx_pair t (fi_sell_currency fx)
     \<and> fi_buy_currency fx = t \<and> fi_sell_currency fx \<noteq> t \<and> 0 \<le> fi_buy_amount fx \<and> fi_dependencies fx = []
     \<and> fd_fx_intents st' = fd_fx_intents st @ [fx]
     \<and> fd_fx_by_currency st' = dict_set t (fi_intent_id fx) (fd_fx_by_currency st)
     \<and> fd_unfunded st' = fd_unfunded st"

lemma record_unfunded_step:
  assumes "record_unfunded_target_currency os t deficit plan st = Inr (p, st')"
  shows "unfunded_step t st st'"
  using assms
  by (auto simp: record_unfunded_target_currency_def record_missing_fx_funding_failure_def Let_def
      unfunded_step_def bind_error_Inr_iff split: if_splits option.splits)

lemma fund_target_currency_step:
  assumes "fund_target_currency md os t buys st = Inr (p, st')"
  shows "unfunded_step t st st' \<or> (\<exists>fx. funded_step t fx st st')"
proof -
  define st0 where "st0 = st\<lparr>fd_portfolio := ensure_cash_balance t (fd_portfolio st)\<rparr>"
  obtain need plan where need: "target_currency_funding_need t buys (fd_portfolio st0) = Inr (need, plan)"
    using assms by (auto simp: fund_target_currency_def Let_def bind_error_Inr_iff st0_def)
  show ?thesis
  proof (cases "need \<le> 0")
    case True
    then show ?thesis using assms need
      by (auto simp: fund_target_currency_def Let_def st0_def unfunded_step_def)
  next
    case False
    then obtain sel pf dg deficit where
      sel: "select_funding_source md os t need (fd_portfolio st0) (fd_diagnostics st0)
              = Inr (sel, pf, dg, deficit)"
      using assms need by (auto simp: fund_target_currency_def Let_def bind_error_Inr_iff st0_def)
    define st1 where "st1 = st0\<lparr>fd_portfolio := pf, fd_diagnostics := dg\<rparr>"
    note finds = select_funding_source_loop_finds [OF sel [unfolded select_funding_source_def]]
    have same: "same_funds (fd_portfolio st) pf"
      using finds(1) same_funds_trans [OF same_funds_ensure, of t "fd_portfolio st" pf]
      by (simp add: st0_def)
    show ?thesis
    proof (cases sel)
      case None
      then have "record_unfunded_target_currency os t deficit plan st1 = Inr (p, st')"
        using assms need False sel by (simp add: fund_target_currency_def Let_def st0_def st1_def)
      from record_unfunded_step [OF this] show ?thesis
        using same same_funds_trans by (auto simp: unfunded_step_def st1_def st0_def)
    next
      case (Some s)
      then have r: "record_funding_fx_intent t need s plan st1 = Inr st'"
        using assms need False sel
        by (auto simp: fund_target_currency_def Let_def bind_error_Inr_iff st0_def st1_def)
      note found = finds(2) [OF Some]
      have "fc_funding_currency s \<noteq> t" using found funding_priority_not_target by blast
      with r found same False have "\<exists>fx. funded_step t fx st st'"
        by (auto simp: record_funding_fx_intent_def bind_error_Inr_iff Let_def funded_step_def st1_def
            st0_def quantize_amount_for_currency_def dec_quantize_nonneg)
      then show ?thesis ..
    qed
  qed
qed

lemma fund_step_step:
  assumes "fund_step md os grouped t st = Inr st'"
  shows "unfunded_step t st st' \<or> (\<exists>fx. funded_step t fx st st')"
proof -
  from assms obtain p st1 where a: "fund_target_currency md os t (dict_list grouped t) st = Inr (p, st1)"
    and st': "st' = st1\<lparr>fd_pending := p \<or> fd_pending st1\<rparr>"
    by (auto simp: fund_step_def bind_error_Inr_iff)
  show ?thesis
    using fund_target_currency_step [OF a] by (auto simp: st' unfunded_step_def funded_step_def)
qed

lemma same_funds_nonneg: "same_funds a b \<Longrightarrow> nonneg_cash a \<Longrightarrow> nonneg_cash b"
  by (simp add: same_funds_def)

lemma fund_step_nonneg:
  assumes "fund_step md os grouped t st = Inr st'" and "nonneg_cash (fd_portfolio st)"
  shows "nonneg_cash (fd_portfolio st')"
  using fund_step_step [OF assms(1)]
proof (elim disjE exE)
  assume "unfunded_step t st st'"
  with assms(2) show ?thesis by (auto simp: unfunded_step_def dest: same_funds_nonneg)
next
  fix fx assume "funded_step t fx st st'"
  then obtain pf where pf: "same_funds (fd_portfolio st) pf" "fd_portfolio st' = apply_fx_spot_to_portfolio fx pf"
    "fi_sell_amount_estimated fx \<le> cash_of pf (fi_sell_currency fx)" "0 \<le> fi_buy_amount fx"
    by (auto simp: funded_step_def)
  have "nonneg_cash pf" using pf(1) assms(2) by (rule same_funds_nonneg)
  then have sold: "nonneg_cash (update_cash (fi_sell_currency fx)
      (\<lambda>a. dec_sub a (fi_sell_amount_estimated fx)) pf)"
    using pf(3) by (intro nonneg_cash_update) (simp_all add: dec_sub_nonneg_iff)
  show ?thesis
    unfolding pf(2) apply_fx_spot_to_portfolio_def
    by (rule nonneg_cash_update [OF sold dec_add_nonneg]) (use nonneg_cash_of [OF sold] pf(4) in auto)
qed


subsection \<open>The whole plan\<close>

definition fx_intent_id :: "nat \<Rightarrow> string" where
  "fx_intent_id n = ''oi_fx_'' @ string_of_nat n"

definition funding_ok :: "funding_state \<Rightarrow> bool" where
  "funding_ok st \<longleftrightarrow>
     map fi_intent_id (fd_fx_intents st) = map fx_intent_id [1..<Suc (length (fd_fx_intents st))]
     \<and> (\<forall>c d. dict_get (fd_fx_by_currency st) c = Some d
           \<longleftrightarrow> (\<exists>fx\<in>set (fd_fx_intents st). fi_buy_currency fx = c \<and> fi_intent_id fx = d))
     \<and> distinct (map fi_buy_currency (fd_fx_intents st))
     \<and> (\<forall>fx\<in>set (fd_fx_intents st). fi_sell_currency fx \<noteq> fi_buy_currency fx
          \<and> fi_pair fx = fx_pair (fi_buy_currency fx) (fi_sell_currency fx)
          \<and> 0 \<le> fi_buy_amount fx \<and> fi_dependencies fx = [])
     \<and> set (fd_unfunded st) \<inter> fi_buy_currency ` set (fd_fx_intents st) = {}"

definition touched :: "funding_state \<Rightarrow> string set" where
  "touched st = set (fd_unfunded st) \<union> fi_buy_currency ` set (fd_fx_intents st)"

lemma funding_ok_initial: "funding_ok (initial_funding_state pf dg)"
  by (simp add: funding_ok_def initial_funding_state_def)

lemma fund_step_ok:
  assumes "fund_step md os grouped t st = Inr st'" and "funding_ok st" and "t \<notin> touched st"
  shows "funding_ok st' \<and> touched st' \<subseteq> insert t (touched st)"
  using fund_step_step [OF assms(1)]
proof (elim disjE exE)
  assume u: "unfunded_step t st st'"
  have "set (fd_unfunded st') \<inter> fi_buy_currency ` set (fd_fx_intents st) = {}"
    using u assms(2,3) unfolding unfunded_step_def funding_ok_def touched_def by blast
  with u assms(2) show ?thesis
    by (auto simp: unfunded_step_def funding_ok_def touched_def simp del: upt_Suc)
next
  fix fx assume f: "funded_step t fx st st'"
  let ?n = "length (fd_fx_intents st)"
  have ids: "map fi_intent_id (fd_fx_intents st') = map fx_intent_id [1..<Suc (length (fd_fx_intents st'))]"
    using assms(2) f by (simp add: funding_ok_def funded_step_def fx_intent_id_def)
  have fx_by: "dict_get (fd_fx_by_currency st') c = Some d
      \<longleftrightarrow> (\<exists>fx\<in>set (fd_fx_intents st'). fi_buy_currency fx = c \<and> fi_intent_id fx = d)" for c d
  proof (cases "c = t")
    case True
    have "fi_buy_currency x \<noteq> t" if "x \<in> set (fd_fx_intents st)" for x
      using that assms(3) by (auto simp: touched_def)
    with True f show ?thesis by (auto simp: funded_step_def)
  next
    case False
    with assms(2) f show ?thesis by (auto simp: funded_step_def funding_ok_def)
  qed
  show ?thesis
    using ids fx_by assms(2,3) f
    by (auto simp: funding_ok_def funded_step_def touched_def simp del: upt_Suc)
qed

lemma fund_all_ok:
  assumes "fold_error (fund_step md os grouped) ts st = Inr st'" and "funding_ok st"
    and "distinct ts" and "set ts \<inter> touched st = {}"
  shows "funding_ok st' \<and> touched st' \<subseteq> set ts \<union> touched st"
  using assms
proof (induction ts arbitrary: st)
  case (Cons t ts)
  then obtain st1 where s: "fund_step md os grouped t st = Inr st1"
    and r: "fold_error (fund_step md os grouped) ts st1 = Inr st'"
    by (auto simp: bind_error_Inr_iff)
  have a: "funding_ok st1 \<and> touched st1 \<subseteq> insert t (touched st)"
    using fund_step_ok [OF s] Cons.prems by simp
  have "funding_ok st' \<and> touched st' \<subseteq> set ts \<union> touched st1"
    using Cons.IH [OF r] a Cons.prems by auto
  with a show ?case by auto
qed simp

lemma group_buy_intents_wf:
  "group_buy_intents_by_currency is d = Inr d' \<Longrightarrow> dict_wf d \<Longrightarrow> dict_wf d'"
  by (induction "is" arbitrary: d) (auto simp: bind_error_Inr_iff)

lemma group_buy_intents_currencies:
  assumes "group_buy_intents_by_currency is d = Inr d'" and "c \<in> fst ` set d'"
  shows "c \<in> fst ` set d \<or> (\<exists>i\<in>set is. \<exists>n. ti_notional i = Some n \<and> mo_currency n = c)"
  using assms
proof (induction "is" arbitrary: d)
  case (Cons i "is")
  then obtain n where n: "ti_notional i = Some n"
    and r: "group_buy_intents_by_currency is (dict_push (mo_currency n) n d) = Inr d'"
    by (auto simp: bind_error_Inr_iff notional_of_def split: option.splits)
  from Cons.IH [OF r Cons.prems(2)] n show ?case by (auto simp: dict_push_def dom_update)
qed simp

lemma build_auto_funding_plan_run:
  assumes "build_auto_funding_plan md os buys pf dg = Inr st"
  obtains ts grouped where "distinct ts" and "sorted ts"
    and "\<forall>t\<in>set ts. \<exists>i\<in>set buys. \<exists>n. ti_notional i = Some n \<and> mo_currency n = t"
    and "fold_error (fund_step md os grouped) ts (initial_funding_state pf dg) = Inr st"
proof (cases "eo_auto_funding os")
  case True
  then obtain grouped where g: "group_buy_intents_by_currency buys [] = Inr grouped"
    and r: "fold_error (fund_step md os grouped) (sort (map fst grouped)) (initial_funding_state pf dg) = Inr st"
    using assms by (auto simp: build_auto_funding_plan_def bind_error_Inr_iff)
  have d: "distinct (sort (map fst grouped))"
    using group_buy_intents_wf [OF g] by (simp add: dict_wf_def)
  have "\<forall>t\<in>set (sort (map fst grouped)). \<exists>i\<in>set buys. \<exists>n. ti_notional i = Some n \<and> mo_currency n = t"
    using group_buy_intents_currencies [OF g] by simp
  from that [OF d sorted_sort this r] show thesis .
next
  case False
  with assms show thesis by (intro that [of "[]"]) (simp_all add: build_auto_funding_plan_def)
qed

lemma build_auto_funding_plan_ok:
  assumes "build_auto_funding_plan md os buys pf dg = Inr st" shows "funding_ok st"
  using assms
proof (rule build_auto_funding_plan_run)
  fix ts grouped
  assume "distinct ts" and r: "fold_error (fund_step md os grouped) ts (initial_funding_state pf dg) = Inr st"
  with fund_all_ok [OF r funding_ok_initial] show ?thesis
    by (simp add: touched_def initial_funding_state_def)
qed

lemma build_auto_funding_plan_nonneg:
  assumes "build_auto_funding_plan md os buys pf dg = Inr st" and "nonneg_cash pf"
  shows "nonneg_cash (fd_portfolio st)"
  using assms(1)
proof (rule build_auto_funding_plan_run)
  fix ts grouped
  assume r: "fold_error (fund_step md os grouped) ts (initial_funding_state pf dg) = Inr st"
  show ?thesis
    using r by (rule fold_error_invariant) (use assms(2) fund_step_nonneg in \<open>auto simp: initial_funding_state_def\<close>)
qed

lemma build_auto_funding_plan_frame:
  assumes "build_auto_funding_plan md os buys pf dg = Inr st"
  shows "pf_positions (fd_portfolio st) = pf_positions pf
    \<and> pf_base_currency (fd_portfolio st) = pf_base_currency pf"
  using assms(1)
proof (rule build_auto_funding_plan_run)
  fix ts grouped
  assume r: "fold_error (fund_step md os grouped) ts (initial_funding_state pf dg) = Inr st"
  have step: "pf_positions (fd_portfolio b) = pf_positions (fd_portfolio a)
    \<and> pf_base_currency (fd_portfolio b) = pf_base_currency (fd_portfolio a)"
    if "fund_step md os grouped t a = Inr b" for t a b
    using fund_step_step [OF that]
    by (auto simp: unfunded_step_def funded_step_def same_funds_def apply_fx_spot_to_portfolio_def)
  show ?thesis
    using r by (rule fold_error_invariant) (use step in \<open>auto simp: initial_funding_state_def\<close>)
qed

text \<open>With automatic funding off nothing is converted and no currency is unfunded.\<close>

lemma build_auto_funding_plan_off:
  "\<not> eo_auto_funding os \<Longrightarrow> build_auto_funding_plan md os buys pf dg = Inr (initial_funding_state pf dg)"
  by (simp add: build_auto_funding_plan_def)


text \<open>The funded portfolio is what executing the FX intents in funding order yields.\<close>

lemma fund_all_executes:
  assumes "fold_error (fund_step md os grouped) ts st = Inr st'"
  shows "\<exists>fxs. fd_fx_intents st' = fd_fx_intents st @ fxs
    \<and> holds_the_same (fold execute_intent (map FxSpotIntent fxs) (fd_portfolio st)) (fd_portfolio st')"
  using assms
proof (induction ts arbitrary: st)
  case Nil
  then show ?case by simp
next
  case (Cons t ts)
  then obtain st1 where s: "fund_step md os grouped t st = Inr st1"
    and r: "fold_error (fund_step md os grouped) ts st1 = Inr st'"
    by (auto simp: bind_error_Inr_iff)
  obtain fxs where fxs: "fd_fx_intents st' = fd_fx_intents st1 @ fxs"
    "holds_the_same (fold execute_intent (map FxSpotIntent fxs) (fd_portfolio st1)) (fd_portfolio st')"
    using Cons.IH [OF r] by blast
  have same: "same_funds a b \<Longrightarrow> holds_the_same a b" for a b
    by (simp add: same_funds_def holds_the_same_def)
  show ?case
    using fund_step_step [OF s]
  proof (elim disjE exE)
    assume u: "unfunded_step t st st1"
    then have "holds_the_same (fd_portfolio st) (fd_portfolio st1)" by (simp add: unfunded_step_def same)
    from holds_the_same_trans [OF execute_all_same [OF this] fxs(2)] u fxs(1)
    show ?case by (auto simp: unfunded_step_def)
  next
    fix fx assume f: "funded_step t fx st st1"
    then obtain pf where pf: "same_funds (fd_portfolio st) pf"
      "fd_portfolio st1 = apply_fx_spot_to_portfolio fx pf" by (auto simp: funded_step_def)
    have "holds_the_same (execute_intent (FxSpotIntent fx) (fd_portfolio st)) (fd_portfolio st1)"
      using execute_intent_same [OF same [OF pf(1)], of "FxSpotIntent fx"] pf(2)
      by (simp add: execute_intent_def)
    from holds_the_same_trans [OF execute_all_same [OF this] fxs(2)]
    show ?case using f fxs(1) by (intro exI [of _ "fx # fxs"]) (simp add: funded_step_def)
  qed
qed

lemma build_auto_funding_plan_executes:
  assumes "build_auto_funding_plan md os buys pf dg = Inr st"
  shows "holds_the_same (fold execute_intent (map FxSpotIntent (fd_fx_intents st)) pf) (fd_portfolio st)"
  using assms
proof (rule build_auto_funding_plan_run)
  fix ts grouped
  assume "fold_error (fund_step md os grouped) ts (initial_funding_state pf dg) = Inr st"
  from fund_all_executes [OF this] show ?thesis by (auto simp: initial_funding_state_def)
qed

lemma funding_ok_ids:
  assumes "funding_ok st"
  shows "distinct (map fi_intent_id (fd_fx_intents st))"
    and "fx \<in> set (fd_fx_intents st) \<Longrightarrow> \<exists>n. fi_intent_id fx = fx_intent_id n"
proof -
  have ids: "map fi_intent_id (fd_fx_intents st) = map fx_intent_id [1..<Suc (length (fd_fx_intents st))]"
    using assms by (simp add: funding_ok_def)
  show "distinct (map fi_intent_id (fd_fx_intents st))"
    unfolding ids by (simp add: distinct_map fx_intent_id_def inj_on_def del: upt_Suc)
  assume "fx \<in> set (fd_fx_intents st)"
  then have "fi_intent_id fx \<in> set (map fi_intent_id (fd_fx_intents st))" by simp
  then show "\<exists>n. fi_intent_id fx = fx_intent_id n" unfolding ids by auto
qed

end
