(* ===== verification/Intent_Plan.thy ===== *)
theory Intent_Plan
  imports Auto_Funding
begin

text \<open>
  \<open>advisory/intents.py\<close> and \<open>advisory/simulation_intent_plan.py\<close>: from proposed cash flows and
  trades to ordered order intents and the simulated portfolio after them.  Cash flows come first,
  then sells, the FX intents that fund the buys, and the buys whose currency is funded.
  \<open>build_run\<close> is what the functions mutate besides the portfolio: the diagnostics and the list of
  hard failures.
\<close>

subsection \<open>One proposed trade\<close>

definition apply_proposal_cash_flow :: "proposed_cash_flow \<Rightarrow> portfolio \<Rightarrow> portfolio" where
  "apply_proposal_cash_flow cf pf = update_cash (pc_currency cf) (\<lambda>a. dec_add a (pc_amount cf)) pf"

record resolved_notional =
  rn_quantity :: decimal
  rn_amount :: decimal
  rn_currency :: string

definition price_for_trade :: "market_data \<Rightarrow> string \<Rightarrow> price_entry option" where
  "price_for_trade md iid = find_first (\<lambda>p. px_instrument_id p = iid) (md_prices md)"

definition resolve_trade_notional :: "proposed_trade \<Rightarrow> price_entry \<Rightarrow> error + resolved_notional option" where
  "resolve_trade_notional t price =
     (case pt_quantity t of
        Some q \<Rightarrow> Inr (Some \<lparr>rn_quantity = q, rn_amount = dec_mul q (px_price price),
                            rn_currency = px_currency price\<rparr>)
      | None \<Rightarrow>
          (case pt_notional t of
             None \<Rightarrow> Inl (OtherException ''AttributeError'' ''NoneType object has no attribute currency'')
           | Some n \<Rightarrow>
               if mo_currency n \<noteq> px_currency price then Inr None
               else bind_error (dec_div (mo_amount n) (px_price price)) (\<lambda>q.
                 Inr (Some \<lparr>rn_quantity = q, rn_amount = mo_amount n,
                            rn_currency = px_currency price\<rparr>))))"

definition notional_base_money ::
  "market_data \<Rightarrow> resolved_notional \<Rightarrow> string \<Rightarrow> diagnostics \<Rightarrow> money option \<times> diagnostics" where
  "notional_base_money md n base_currency dg =
     (case get_fx_rate md (rn_currency n) base_currency of
        None \<Rightarrow> (None, log_dq ''fx_missing'' (fx_pair (rn_currency n) base_currency) dg)
      | Some rate \<Rightarrow>
          (Some \<lparr>mo_amount = dec_mul (rn_amount n) rate, mo_currency = base_currency\<rparr>, dg))"

text \<open>The intent and the error code, either of which may be absent.\<close>

definition build_proposal_security_trade_intent ::
  "proposed_trade \<Rightarrow> market_data \<Rightarrow> string \<Rightarrow> string \<Rightarrow> diagnostics
     \<Rightarrow> error + (trade_intent option \<times> string option \<times> diagnostics)" where
  "build_proposal_security_trade_intent t md base_currency intent_id dg =
     (case price_for_trade md (pt_instrument_id t) of
        None \<Rightarrow> Inr (None, None, log_dq ''price_missing'' (pt_instrument_id t) dg)
      | Some price \<Rightarrow>
          bind_error (resolve_trade_notional t price) (\<lambda>resolved. case resolved of
            None \<Rightarrow> Inr (None, Some ''PROPOSAL_INVALID_TRADE_INPUT'', dg)
          | Some n \<Rightarrow>
              let (notional_base, dg') = notional_base_money md n base_currency dg
              in Inr (Some \<lparr>ti_intent_id = intent_id, ti_instrument_id = pt_instrument_id t,
                   ti_side = pt_side t, ti_quantity = Some (rn_quantity n),
                   ti_notional = Some \<lparr>mo_amount = rn_amount n, mo_currency = rn_currency n\<rparr>,
                   ti_notional_base = notional_base, ti_dependencies = [],
                   ti_rationale = (''MANUAL_PROPOSAL'', ''Advisor proposed trade''),
                   ti_constraints_applied = []\<rparr>, None, dg')))"

definition expected_cash_delta_step ::
  "market_data \<Rightarrow> string \<Rightarrow> proposed_cash_flow \<Rightarrow> decimal \<times> diagnostics \<Rightarrow> decimal \<times> diagnostics" where
  "expected_cash_delta_step md base cf acc = (case acc of (tot, dg) \<Rightarrow>
     (case get_fx_rate md (pc_currency cf) base of
        None \<Rightarrow> (tot, log_dq ''fx_missing'' (fx_pair (pc_currency cf) base) dg)
      | Some rate \<Rightarrow> (dec_add tot (dec_mul (pc_amount cf) rate), dg)))"

definition expected_cash_delta_base ::
  "string \<Rightarrow> market_data \<Rightarrow> proposed_cash_flow list \<Rightarrow> diagnostics \<Rightarrow> decimal \<times> diagnostics" where
  "expected_cash_delta_base base md cfs dg = fold (expected_cash_delta_step md base) cfs (0, dg)"

subsection \<open>Cash flows\<close>

record build_run =
  br_diagnostics :: diagnostics
  br_hard_failures :: "string list"

text \<open>A code both warned about and recorded as a hard failure.\<close>

definition hard_failure :: "string \<Rightarrow> build_run \<Rightarrow> build_run" where
  "hard_failure code run = run\<lparr>br_diagnostics := warn code (br_diagnostics run),
     br_hard_failures := br_hard_failures run @ [code]\<rparr>"

definition cash_flow_intent_of :: "proposed_cash_flow \<Rightarrow> nat \<Rightarrow> cash_flow_intent" where
  "cash_flow_intent_of cf index = \<lparr>ci_intent_id = ''oi_cf_'' @ string_of_nat (index + 1),
     ci_currency = pc_currency cf, ci_amount = pc_amount cf, ci_description = pc_description cf\<rparr>"

definition cash_flow_creates_negative_balance :: "portfolio \<Rightarrow> proposed_cash_flow \<Rightarrow> bool" where
  "cash_flow_creates_negative_balance pf cf =
     (case find_cash pf (pc_currency cf) of None \<Rightarrow> False | Some c \<Rightarrow> cb_amount c < 0)"

definition record_negative_cash_failure_if_needed ::
  "portfolio \<Rightarrow> proposed_cash_flow \<Rightarrow> engine_options \<Rightarrow> build_run \<Rightarrow> build_run" where
  "record_negative_cash_failure_if_needed pf cf options run =
     (if \<not> eo_proposal_block_negative_cash options then run
      else if cash_flow_creates_negative_balance pf cf
      then hard_failure ''PROPOSAL_WITHDRAWAL_NEGATIVE_CASH'' run else run)"

fun build_cash_flow_intents ::
  "engine_options \<Rightarrow> nat \<Rightarrow> proposed_cash_flow list \<Rightarrow> portfolio \<times> build_run
     \<Rightarrow> cash_flow_intent list \<times> portfolio \<times> build_run" where
  "build_cash_flow_intents options idx [] (pf, run) = ([], pf, run)"
| "build_cash_flow_intents options idx (cf # cfs) (pf, run) =
     (let pf' = apply_proposal_cash_flow cf pf;
          run' = record_negative_cash_failure_if_needed pf' cf options run;
          (rest, pf'', run'') = build_cash_flow_intents options (idx + 1) cfs (pf', run')
      in (cash_flow_intent_of cf idx # rest, pf'', run''))"

subsection \<open>Security trades\<close>

definition shelf_index :: "shelf_entry list \<Rightarrow> (string, shelf_entry) dict" where
  "shelf_index shelf = fold (\<lambda>e. dict_set (sh_instrument_id e) e) shelf []"

definition trade_is_supported_by_shelf ::
  "proposed_trade \<Rightarrow> shelf_entry \<Rightarrow> engine_options \<Rightarrow> build_run \<Rightarrow> bool \<times> build_run" where
  "trade_is_supported_by_shelf t e options run =
     (if pt_side t \<noteq> SD_BUY then (True, run)
      else if sh_status e \<in> {SH_SELL_ONLY, SH_BANNED, SH_SUSPENDED}
      then (False, hard_failure ''PROPOSAL_TRADE_NOT_SUPPORTED_BY_SHELF'' run)
      else if sh_status e = SH_RESTRICTED \<and> \<not> eo_allow_restricted options
      then (False, hard_failure ''PROPOSAL_TRADE_NOT_SUPPORTED_BY_SHELF'' run)
      else (True, run))"

definition build_supported_security_trade_intent ::
  "proposed_trade \<Rightarrow> market_data \<Rightarrow> string \<Rightarrow> string \<Rightarrow> build_run
     \<Rightarrow> error + (trade_intent option \<times> build_run)" where
  "build_supported_security_trade_intent t md base_currency intent_id run =
     bind_error (build_proposal_security_trade_intent t md base_currency intent_id (br_diagnostics run))
       (\<lambda>(intent, code, dg).
         let run' = run\<lparr>br_diagnostics := dg\<rparr>
         in Inr (intent, case code of None \<Rightarrow> run' | Some c \<Rightarrow> hard_failure c run'))"

definition security_trade_intent_for_trade ::
  "proposed_trade \<Rightarrow> (string, shelf_entry) dict \<Rightarrow> market_data \<Rightarrow> string \<Rightarrow> string \<Rightarrow> engine_options
     \<Rightarrow> build_run \<Rightarrow> error + (trade_intent option \<times> build_run)" where
  "security_trade_intent_for_trade t shelf md base_currency intent_id options run =
     (case dict_get shelf (pt_instrument_id t) of
        None \<Rightarrow> Inr (None, run\<lparr>br_diagnostics :=
                  log_dq ''shelf_missing'' (pt_instrument_id t) (br_diagnostics run)\<rparr>)
      | Some e \<Rightarrow>
          (case trade_is_supported_by_shelf t e options run of
             (False, run') \<Rightarrow> Inr (None, run')
           | (True, run') \<Rightarrow>
               build_supported_security_trade_intent t md base_currency intent_id run'))"

fun build_security_trade_intents ::
  "(string, shelf_entry) dict \<Rightarrow> market_data \<Rightarrow> string \<Rightarrow> engine_options \<Rightarrow> nat \<Rightarrow> proposed_trade list
     \<Rightarrow> build_run \<Rightarrow> error + (trade_intent list \<times> build_run)" where
  "build_security_trade_intents shelf md base options idx [] run = Inr ([], run)"
| "build_security_trade_intents shelf md base options idx (t # ts) run =
     bind_error (security_trade_intent_for_trade t shelf md base
         (''oi_'' @ string_of_nat (idx + 1)) options run)
       (\<lambda>(intent, run').
     bind_error (build_security_trade_intents shelf md base options (idx + 1) ts run')
       (\<lambda>(rest, run''). Inr (case intent of None \<Rightarrow> rest | Some i \<Rightarrow> i # rest, run'')))"

definition sorted_security_intents_by_instrument ::
  "trade_intent list \<Rightarrow> trade_side \<Rightarrow> trade_intent list" where
  "sorted_security_intents_by_instrument is side =
     sort_key ti_instrument_id (filter (\<lambda>i. ti_side i = side) is)"

definition apply_sell_intents :: "trade_intent list \<Rightarrow> portfolio \<Rightarrow> portfolio" where
  "apply_sell_intents is pf = fold apply_security_trade_to_portfolio is pf"

text \<open>\<open>_apply_executable_buy_intents\<close>: the buys that execute, the portfolio and the diagnostics.\<close>

fun apply_executable_buy_intents ::
  "string list \<Rightarrow> trade_intent list \<Rightarrow> portfolio \<times> diagnostics
     \<Rightarrow> trade_intent list \<times> portfolio \<times> diagnostics" where
  "apply_executable_buy_intents unfunded [] (pf, dg) = ([], pf, dg)"
| "apply_executable_buy_intents unfunded (i # is) (pf, dg) =
     (case ti_notional i of
        None \<Rightarrow> apply_executable_buy_intents unfunded is (pf, dg)
      | Some n \<Rightarrow>
          if mo_currency n \<in> set unfunded
          then apply_executable_buy_intents unfunded is
                 (pf, warn_once ''PROPOSAL_BUY_SKIPPED_UNFUNDED'' dg)
          else (case apply_executable_buy_intents unfunded is
                   (apply_security_trade_to_portfolio i pf, dg) of
                  (rest, pf', dg') \<Rightarrow> (i # rest, pf', dg')))"

definition ordered_execution_intents ::
  "cash_flow_intent list \<Rightarrow> trade_intent list \<Rightarrow> fx_intent list \<Rightarrow> trade_intent list
     \<Rightarrow> order_intent list" where
  "ordered_execution_intents cfs sells fxs buys =
     sort_execution_intents (map CashFlowIntent cfs @ map SecurityTradeIntent sells
       @ map FxSpotIntent (sort_key fi_pair fxs) @ map SecurityTradeIntent buys)"

subsection \<open>The plan\<close>

record intent_plan =
  ip_after_portfolio :: portfolio
  ip_cash_flows :: "proposed_cash_flow list"
  ip_trades :: "proposed_trade list"
  ip_intents :: "order_intent list"
  ip_hard_failures :: "string list"
  ip_force_pending_review :: bool

text \<open>
  The linking step mutates the sells and the executable buys together; sells come first in the
  list it gets and are returned unchanged, so the linked buys are what is left after them.
\<close>

definition build_simulation_intent_plan ::
  "portfolio \<Rightarrow> market_data \<Rightarrow> shelf_entry list \<Rightarrow> engine_options \<Rightarrow> proposed_cash_flow list
     \<Rightarrow> proposed_trade list \<Rightarrow> diagnostics \<Rightarrow> error + (intent_plan \<times> diagnostics)" where
  "build_simulation_intent_plan pf md shelf options cash_flows trades dg =
     (let (cf_intents, pf1, run1) = build_cash_flow_intents options 0 cash_flows
            (pf, \<lparr>br_diagnostics = dg, br_hard_failures = []\<rparr>)
      in bind_error (build_security_trade_intents (shelf_index shelf) md (pf_base_currency pf) options
             0 trades run1) (\<lambda>(intents, run2).
         let sells = sorted_security_intents_by_instrument intents SD_SELL;
             buys = sorted_security_intents_by_instrument intents SD_BUY;
             pf2 = apply_sell_intents sells pf1
         in bind_error (build_auto_funding_plan md options buys pf2 (br_diagnostics run2)) (\<lambda>fd.
            let (exec_buys, pf3, dg3) = apply_executable_buy_intents (fd_unfunded fd) buys
                  (fd_portfolio fd, fd_diagnostics fd);
                include_sells = (case eo_link_buy_to_same_currency_sell_dependency options of
                  None \<Rightarrow> False | Some b \<Rightarrow> b);
                linked = link_buy_intent_dependencies (sells @ exec_buys) (fd_fx_by_currency fd) include_sells
            in Inr (\<lparr>ip_after_portfolio = pf3, ip_cash_flows = cash_flows, ip_trades = trades,
                     ip_intents = ordered_execution_intents cf_intents (take (length sells) linked)
                       (fd_fx_intents fd) (drop (length sells) linked),
                     ip_hard_failures = br_hard_failures run2 @ fd_hard_failures fd,
                     ip_force_pending_review = fd_pending fd\<rparr>, dg3))))"


subsection \<open>Cash flows and trades that become intents\<close>

lemma execute_cash_flow_intent:
  "execute_intent (CashFlowIntent (cash_flow_intent_of cf n)) = apply_proposal_cash_flow cf"
  by (rule ext) (simp add: execute_intent_def cash_flow_intent_of_def apply_proposal_cash_flow_def)

lemma build_cash_flow_intents_run:
  assumes "build_cash_flow_intents os idx cfs acc = (intents, pf', run')"
  shows "intents = map (\<lambda>(n, cf). cash_flow_intent_of cf n) (zip [idx..<idx + length cfs] cfs)"
    and "pf' = fold execute_intent (map CashFlowIntent intents) (fst acc)"
    and "\<exists>more_failures. br_hard_failures run' = br_hard_failures (snd acc) @ more_failures"
proof -
  have "intents = map (\<lambda>(n, cf). cash_flow_intent_of cf n) (zip [idx..<idx + length cfs] cfs)
    \<and> pf' = fold execute_intent (map CashFlowIntent intents) (fst acc)
    \<and> (\<exists>fs. br_hard_failures run' = br_hard_failures (snd acc) @ fs)"
    using assms
  proof (induction cfs arbitrary: idx acc intents)
    case Nil
    then show ?case by (cases acc) simp
  next
    case (Cons cf cfs)
    obtain pf run where acc: "acc = (pf, run)" by (cases acc)
    let ?pf = "apply_proposal_cash_flow cf pf"
    let ?run = "record_negative_cash_failure_if_needed ?pf cf os run"
    obtain rest p r where rest: "build_cash_flow_intents os (idx + 1) cfs (?pf, ?run) = (rest, p, r)"
      by (metis prod_cases3)
    have eqs: "intents = cash_flow_intent_of cf idx # rest" "p = pf'" "r = run'"
      using Cons.prems rest by (simp_all add: acc Let_def)
    have "\<exists>fs. br_hard_failures ?run = br_hard_failures run @ fs"
      by (simp add: record_negative_cash_failure_if_needed_def hard_failure_def)
    moreover have "[idx..<idx + length (cf # cfs)] = idx # [idx + 1..<(idx + 1) + length cfs]"
      by (simp add: upt_conv_Cons del: upt_Suc)
    ultimately show ?case
      using Cons.IH [OF rest [unfolded eqs(2,3)]] eqs(1)
      by (auto simp: acc execute_cash_flow_intent simp del: upt_Suc)
  qed
  then show "intents = map (\<lambda>(n, cf). cash_flow_intent_of cf n) (zip [idx..<idx + length cfs] cfs)"
    and "pf' = fold execute_intent (map CashFlowIntent intents) (fst acc)"
    and "\<exists>more_failures. br_hard_failures run' = br_hard_failures (snd acc) @ more_failures"
    by simp_all
qed

text \<open>A shelf status that a trade of the given side may execute under.\<close>

definition tradable :: "engine_options \<Rightarrow> shelf_entry \<Rightarrow> trade_side \<Rightarrow> bool" where
  "tradable os e side \<longleftrightarrow> side = SD_SELL \<or> sh_status e = SH_APPROVED
     \<or> (sh_status e = SH_RESTRICTED \<and> eo_allow_restricted os)"

text \<open>What an intent says about the trade it was built from.\<close>

definition intent_of_trade ::
  "(string, shelf_entry) dict \<Rightarrow> market_data \<Rightarrow> engine_options \<Rightarrow> proposed_trade \<Rightarrow> trade_intent \<Rightarrow> bool" where
  "intent_of_trade shelf md os t i \<longleftrightarrow> ti_instrument_id i = pt_instrument_id t \<and> ti_side i = pt_side t
     \<and> (\<exists>e. dict_get shelf (pt_instrument_id t) = Some e \<and> tradable os e (pt_side t))
     \<and> (\<exists>price n q. price_for_trade md (pt_instrument_id t) = Some price
          \<and> ti_notional i = Some n \<and> ti_quantity i = Some q \<and> mo_currency n = px_currency price
          \<and> (case pt_quantity t of Some q' \<Rightarrow> q = q' \<and> mo_amount n = dec_mul q (px_price price)
             | None \<Rightarrow> pt_notional t = Some n \<and> dec_div (mo_amount n) (px_price price) = Inr q))
     \<and> ti_dependencies i = []"

lemma resolve_trade_notional_ok:
  assumes "resolve_trade_notional t price = Inr (Some n)"
  shows "rn_currency n = px_currency price"
    and "case pt_quantity t of
        Some q \<Rightarrow> rn_quantity n = q \<and> rn_amount n = dec_mul q (px_price price)
      | None \<Rightarrow> pt_notional t = Some \<lparr>mo_amount = rn_amount n, mo_currency = rn_currency n\<rparr>
          \<and> dec_div (rn_amount n) (px_price price) = Inr (rn_quantity n)"
  using assms
  by (auto simp: resolve_trade_notional_def bind_error_Inr_iff split: option.splits if_splits)

lemma build_proposal_security_trade_intent_ok:
  assumes "build_proposal_security_trade_intent t md base iid dg = Inr (Some i, code, dg')"
  obtains price n where "price_for_trade md (pt_instrument_id t) = Some price"
    and "resolve_trade_notional t price = Inr (Some n)" and "code = None"
    and "ti_intent_id i = iid" and "ti_instrument_id i = pt_instrument_id t" and "ti_side i = pt_side t"
    and "ti_notional i = Some \<lparr>mo_amount = rn_amount n, mo_currency = rn_currency n\<rparr>"
    and "ti_quantity i = Some (rn_quantity n)" and "ti_dependencies i = []"
  using assms
  by (auto simp: build_proposal_security_trade_intent_def bind_error_Inr_iff case_prod_beta Let_def
      split: option.splits)

lemma build_proposal_intent_of_trade:
  assumes "build_proposal_security_trade_intent t md base iid dg = Inr (Some i, code, dg')"
    and "dict_get shelf (pt_instrument_id t) = Some e" and "tradable os e (pt_side t)"
  shows "intent_of_trade shelf md os t i \<and> ti_intent_id i = iid"
  using assms(1)
proof (rule build_proposal_security_trade_intent_ok)
  fix price n
  assume p: "price_for_trade md (pt_instrument_id t) = Some price"
    and r: "resolve_trade_notional t price = Inr (Some n)"
    and i: "ti_intent_id i = iid" "ti_instrument_id i = pt_instrument_id t" "ti_side i = pt_side t"
      "ti_notional i = Some \<lparr>mo_amount = rn_amount n, mo_currency = rn_currency n\<rparr>"
      "ti_quantity i = Some (rn_quantity n)" "ti_dependencies i = []"
  show ?thesis
    using resolve_trade_notional_ok [OF r] p i assms(2,3)
    by (auto simp: intent_of_trade_def split: option.splits)
qed

lemma security_trade_intent_for_trade_ok:
  assumes "security_trade_intent_for_trade t shelf md base iid os run = Inr (r, run')"
  shows "r = Some i \<Longrightarrow> intent_of_trade shelf md os t i \<and> ti_intent_id i = iid"
    and "\<exists>fs. br_hard_failures run' = br_hard_failures run @ fs"
proof -
  have "(r = Some i \<longrightarrow> intent_of_trade shelf md os t i \<and> ti_intent_id i = iid)
    \<and> (\<exists>fs. br_hard_failures run' = br_hard_failures run @ fs)"
  proof (cases "dict_get shelf (pt_instrument_id t)")
    case None
    with assms show ?thesis by (auto simp: security_trade_intent_for_trade_def)
  next
    case (Some e)
    obtain b run1 where sup: "trade_is_supported_by_shelf t e os run = (b, run1)" by fastforce
    have run1: "\<exists>fs. br_hard_failures run1 = br_hard_failures run @ fs"
      using sup by (auto simp: trade_is_supported_by_shelf_def hard_failure_def split: if_splits)
    show ?thesis
    proof (cases b)
      case False
      with assms Some sup run1 show ?thesis by (auto simp: security_trade_intent_for_trade_def)
    next
      case True
      have ok: "tradable os e (pt_side t)"
        using sup True by (cases "pt_side t"; cases "sh_status e")
          (auto simp: tradable_def trade_is_supported_by_shelf_def split: if_splits)
      have "build_supported_security_trade_intent t md base iid run1 = Inr (r, run')"
        using assms Some sup True by (simp add: security_trade_intent_for_trade_def)
      then obtain code dg where
        b: "build_proposal_security_trade_intent t md base iid (br_diagnostics run1) = Inr (r, code, dg)"
        and run': "\<exists>fs. br_hard_failures run' = br_hard_failures run1 @ fs"
        by (auto simp: build_supported_security_trade_intent_def bind_error_Inr_iff hard_failure_def
            Let_def split: option.splits)
      show ?thesis
        using build_proposal_intent_of_trade [OF _ Some ok, of md base iid "br_diagnostics run1" i code dg]
          b run1 run' by auto
    qed
  qed
  then show "r = Some i \<Longrightarrow> intent_of_trade shelf md os t i \<and> ti_intent_id i = iid"
    and "\<exists>fs. br_hard_failures run' = br_hard_failures run @ fs"
    by simp_all
qed

definition trade_intent_id :: "nat \<Rightarrow> string" where
  "trade_intent_id n = ''oi_'' @ string_of_nat n"

lemma build_security_trade_intents_ok:
  assumes "build_security_trade_intents shelf md base os idx ts run = Inr (intents, run')"
  shows "\<forall>i\<in>set intents. \<exists>t\<in>set ts. intent_of_trade shelf md os t i"
    and "\<forall>i\<in>set intents. \<exists>n>idx. ti_intent_id i = trade_intent_id n"
    and "distinct (map ti_intent_id intents)"
    and "\<exists>fs. br_hard_failures run' = br_hard_failures run @ fs"
proof -
  have "(\<forall>i\<in>set intents. \<exists>t\<in>set ts. intent_of_trade shelf md os t i)
    \<and> (\<forall>i\<in>set intents. \<exists>n>idx. ti_intent_id i = trade_intent_id n)
    \<and> distinct (map ti_intent_id intents)
    \<and> (\<exists>fs. br_hard_failures run' = br_hard_failures run @ fs)"
    using assms
  proof (induction ts arbitrary: idx run intents)
    case Nil
    then show ?case by simp
  next
    case (Cons t ts)
    then obtain r run1 rest where
      r: "security_trade_intent_for_trade t shelf md base (trade_intent_id (idx + 1)) os run = Inr (r, run1)"
      and rest: "build_security_trade_intents shelf md base os (idx + 1) ts run1 = Inr (rest, run')"
      and intents: "intents = (case r of None \<Rightarrow> rest | Some i \<Rightarrow> i # rest)"
      by (auto simp: bind_error_Inr_iff trade_intent_id_def)
    note IH = Cons.IH [OF rest]
    have later: "\<forall>i\<in>set rest. \<exists>n>idx. ti_intent_id i = trade_intent_id n"
      and fresh: "\<forall>i\<in>set rest. ti_intent_id i \<noteq> trade_intent_id (idx + 1)"
      using IH by (auto simp: trade_intent_id_def intro: less_trans [of idx "idx + 1"])
    show ?case
    proof (cases r)
      case None
      with IH later intents security_trade_intent_for_trade_ok(2) [OF r] show ?thesis by auto
    next
      case (Some i)
      note i = security_trade_intent_for_trade_ok(1) [OF r Some]
      with Some IH later fresh intents security_trade_intent_for_trade_ok(2) [OF r] show ?thesis
        by (auto simp: image_iff)
    qed
  qed
  then show "\<forall>i\<in>set intents. \<exists>t\<in>set ts. intent_of_trade shelf md os t i"
    and "\<forall>i\<in>set intents. \<exists>n>idx. ti_intent_id i = trade_intent_id n"
    and "distinct (map ti_intent_id intents)"
    and "\<exists>fs. br_hard_failures run' = br_hard_failures run @ fs"
    by simp_all
qed

lemma apply_executable_buy_intents_run:
  assumes "apply_executable_buy_intents unfunded is acc = (exec, pf', dg')"
    and "\<forall>i\<in>set is. \<exists>n. ti_notional i = Some n"
  shows "exec = filter (\<lambda>i. mo_currency (the (ti_notional i)) \<notin> set unfunded) is"
    and "pf' = fold execute_intent (map SecurityTradeIntent exec) (fst acc)"
proof -
  have "exec = filter (\<lambda>i. mo_currency (the (ti_notional i)) \<notin> set unfunded) is
    \<and> pf' = fold execute_intent (map SecurityTradeIntent exec) (fst acc)"
    using assms
  proof (induction "is" arbitrary: acc exec)
    case Nil
    then show ?case by (cases acc) simp
  next
    case (Cons i "is")
    obtain pf dg where acc: "acc = (pf, dg)" by (cases acc)
    obtain n where n: "ti_notional i = Some n" using Cons.prems(2) by auto
    show ?case
    proof (cases "mo_currency n \<in> set unfunded")
      case True
      then have "apply_executable_buy_intents unfunded is
          (pf, warn_once ''PROPOSAL_BUY_SKIPPED_UNFUNDED'' dg) = (exec, pf', dg')"
        using Cons.prems(1) by (simp add: acc n)
      from Cons.IH [OF this] Cons.prems(2) True show ?thesis by (simp add: acc n)
    next
      case False
      then obtain rest where
        rest: "apply_executable_buy_intents unfunded is (apply_security_trade_to_portfolio i pf, dg) = (rest, pf', dg')"
        and exec: "exec = i # rest"
        using Cons.prems(1) by (auto simp: acc n split: prod.splits)
      from Cons.IH [OF rest] Cons.prems(2) False show ?thesis by (simp add: acc n exec execute_intent_def)
    qed
  qed
  then show "exec = filter (\<lambda>i. mo_currency (the (ti_notional i)) \<notin> set unfunded) is"
    and "pf' = fold execute_intent (map SecurityTradeIntent exec) (fst acc)"
    by simp_all
qed


subsection \<open>The plan as a whole\<close>

lemma mem_sorted_security_intents:
  "i \<in> set (sorted_security_intents_by_instrument is side) \<longleftrightarrow> i \<in> set is \<and> ti_side i = side"
  by (simp add: sorted_security_intents_by_instrument_def)

lemma sorted_constant: "(\<And>x. x \<in> set xs \<Longrightarrow> f x = k) \<Longrightarrow> sorted (map f xs)"
  by (induction xs) auto

text \<open>
  The stages of a plan that is built: \<open>exec\<close> are the funded buys and \<open>linked\<close> the same buys with
  their dependencies.
\<close>

lemma build_simulation_intent_planE:
  assumes "build_simulation_intent_plan pf md shelf os cfs trades dg = Inr (plan, dg')"
  obtains cf_intents pf1 run1 intents run2 sells buys fd exec linked where
    "build_cash_flow_intents os 0 cfs (pf, \<lparr>br_diagnostics = dg, br_hard_failures = []\<rparr>)
       = (cf_intents, pf1, run1)"
    "build_security_trade_intents (shelf_index shelf) md (pf_base_currency pf) os 0 trades run1
       = Inr (intents, run2)"
    "sells = sorted_security_intents_by_instrument intents SD_SELL"
    "buys = sorted_security_intents_by_instrument intents SD_BUY"
    "build_auto_funding_plan md os buys (apply_sell_intents sells pf1) (br_diagnostics run2) = Inr fd"
    "exec = filter (\<lambda>i. mo_currency (the (ti_notional i)) \<notin> set (fd_unfunded fd)) buys"
    "linked = drop (length sells) (link_buy_intent_dependencies (sells @ exec) (fd_fx_by_currency fd)
       (eo_link_buy_to_same_currency_sell_dependency os = Some True))"
    "ip_after_portfolio plan = fold execute_intent (map SecurityTradeIntent exec) (fd_portfolio fd)"
    "ip_intents plan = map CashFlowIntent cf_intents @ map SecurityTradeIntent sells
       @ map FxSpotIntent (sort_key fi_pair (fd_fx_intents fd)) @ map SecurityTradeIntent linked"
    "ip_hard_failures plan = br_hard_failures run2 @ fd_hard_failures fd"
    "ip_force_pending_review plan = fd_pending fd"
    "ip_cash_flows plan = cfs" "ip_trades plan = trades"
    "apply_executable_buy_intents (fd_unfunded fd) buys (fd_portfolio fd, fd_diagnostics fd)
       = (exec, ip_after_portfolio plan, dg')"
proof -
  obtain cf_intents pf1 run1 where cf: "build_cash_flow_intents os 0 cfs
      (pf, \<lparr>br_diagnostics = dg, br_hard_failures = []\<rparr>) = (cf_intents, pf1, run1)"
    by (metis prod_cases3)
  obtain intents run2 where t: "build_security_trade_intents (shelf_index shelf) md (pf_base_currency pf)
      os 0 trades run1 = Inr (intents, run2)"
    using assms by (auto simp: build_simulation_intent_plan_def cf bind_error_Inr_iff)
  define sells where "sells = sorted_security_intents_by_instrument intents SD_SELL"
  define buys where "buys = sorted_security_intents_by_instrument intents SD_BUY"
  obtain fd where f: "build_auto_funding_plan md os buys (apply_sell_intents sells pf1)
      (br_diagnostics run2) = Inr fd"
    using assms by (auto simp: build_simulation_intent_plan_def cf t bind_error_Inr_iff Let_def
        sells_def [symmetric] buys_def [symmetric])
  obtain exec pf3 dg3 where x: "apply_executable_buy_intents (fd_unfunded fd) buys
      (fd_portfolio fd, fd_diagnostics fd) = (exec, pf3, dg3)" by (metis prod_cases3)
  let ?b = "eo_link_buy_to_same_currency_sell_dependency os = Some True"
  let ?all = "link_buy_intent_dependencies (sells @ exec) (fd_fx_by_currency fd) ?b"
  have b: "(case eo_link_buy_to_same_currency_sell_dependency os of None \<Rightarrow> False | Some b \<Rightarrow> b) = ?b"
    by (cases "eo_link_buy_to_same_currency_sell_dependency os") simp_all
  have plan: "dg' = dg3" "plan = \<lparr>ip_after_portfolio = pf3, ip_cash_flows = cfs, ip_trades = trades,
      ip_intents = ordered_execution_intents cf_intents (take (length sells) ?all)
        (fd_fx_intents fd) (drop (length sells) ?all),
      ip_hard_failures = br_hard_failures run2 @ fd_hard_failures fd,
      ip_force_pending_review = fd_pending fd\<rparr>"
    using assms by (simp_all add: build_simulation_intent_plan_def cf t f x b Let_def
        sells_def [symmetric] buys_def [symmetric])
  have sold: "\<forall>i\<in>set sells. ti_side i = SD_SELL"
    by (simp add: sells_def mem_sorted_security_intents)
  have "\<forall>i\<in>set buys. \<exists>n. ti_notional i = Some n"
    using build_security_trade_intents_ok(1) [OF t]
    by (auto simp: buys_def mem_sorted_security_intents intent_of_trade_def)
  note run = apply_executable_buy_intents_run [OF x this]
  define linked where "linked = drop (length sells) ?all"
  have "\<forall>i\<in>set linked. ti_side i = SD_BUY"
  proof
    fix i assume "i \<in> set linked"
    moreover have "map ti_side linked = map ti_side exec"
      using link_keeps(2) [of "sells @ exec" "fd_fx_by_currency fd" ?b]
      by (simp add: linked_def drop_map [symmetric])
    ultimately have "ti_side i \<in> set (map ti_side exec)" by (metis in_set_conv_nth length_map nth_map nth_mem)
    then show "ti_side i = SD_BUY" by (auto simp: run(1) buys_def mem_sorted_security_intents)
  qed
  then have "sorted (map execution_rank (map CashFlowIntent cf_intents @ map SecurityTradeIntent sells
       @ map FxSpotIntent (sort_key fi_pair (fd_fx_intents fd)) @ map SecurityTradeIntent linked))"
    using sold by (auto simp: sorted_append execution_rank_def intro!: sorted_constant)
  then have order: "ordered_execution_intents cf_intents (take (length sells) ?all) (fd_fx_intents fd) linked
      = map CashFlowIntent cf_intents @ map SecurityTradeIntent sells
       @ map FxSpotIntent (sort_key fi_pair (fd_fx_intents fd)) @ map SecurityTradeIntent linked"
    by (simp add: ordered_execution_intents_def sort_execution_intents_def link_append_sells(1) [OF sold]
        sort_key_sorted_groups)
  show thesis
    by (rule that [OF cf t sells_def buys_def f run(1) linked_def])
      (use plan order run(2) x in \<open>simp_all add: linked_def\<close>)
qed

end
