(* ===== verification/Compliance_Rules.thy ===== *)
theory Compliance_Rules
  imports Intent_Plan
begin

text \<open>
  \<open>core/compliance_rules.py\<close>, \<open>core/compliance.py\<close> and \<open>advisory/simulation_review.py\<close>: the post-trade
  rules, the rule engine that runs them, and the review that turns their results, the plan's
  failures and the value reconciliation into the status of a run.
\<close>

subsection \<open>The rules\<close>

definition cash_weight_of :: "simulated_state \<Rightarrow> decimal" where
  "cash_weight_of st = (case find_first (\<lambda>a. am_key a = ''CASH'') (ss_allocation_by_asset_class st) of
     None \<Rightarrow> 0 | Some a \<Rightarrow> am_weight a)"

definition evaluate_cash_band :: "simulated_state \<Rightarrow> engine_options \<Rightarrow> rule_result" where
  "evaluate_cash_band st options =
     (let cash_weight = cash_weight_of st;
          min_w = eo_cash_band_min_weight options; max_w = eo_cash_band_max_weight options
      in if cash_weight < min_w \<or> max_w < cash_weight
         then \<lparr>ru_rule_id = ''CASH_BAND'', ru_severity = RV_SOFT, ru_status = RU_FAIL,
               ru_measured = cash_weight, ru_threshold = [(''min'', min_w), (''max'', max_w)],
               ru_reason_code = ''THRESHOLD_BREACH'',
               ru_remediation_hint = Some ''Portfolio cash is outside policy bands.''\<rparr>
         else \<lparr>ru_rule_id = ''CASH_BAND'', ru_severity = RV_SOFT, ru_status = RU_PASS,
               ru_measured = cash_weight, ru_threshold = [(''min'', min_w), (''max'', max_w)],
               ru_reason_code = ''OK'', ru_remediation_hint = None\<rparr>)"

definition single_position_result ::
  "rule_status \<Rightarrow> decimal \<Rightarrow> decimal \<Rightarrow> string \<Rightarrow> string option \<Rightarrow> rule_result" where
  "single_position_result status measured limit reason hint =
     \<lparr>ru_rule_id = ''SINGLE_POSITION_MAX'', ru_severity = RV_HARD, ru_status = status,
      ru_measured = measured, ru_threshold = [(''max'', limit)], ru_reason_code = reason,
      ru_remediation_hint = hint\<rparr>"

definition evaluate_single_position_max :: "simulated_state \<Rightarrow> engine_options \<Rightarrow> rule_result list" where
  "evaluate_single_position_max st options =
     (case eo_single_position_max_weight options of
        None \<Rightarrow> [single_position_result RU_PASS 0 (- 1) ''NO_LIMIT_SET'' None]
      | Some limit \<Rightarrow>
          (let results = map (\<lambda>a. single_position_result RU_FAIL (am_weight a) limit ''LIMIT_BREACH''
                 (Some (''Instrument '' @ am_key a @ '' exceeds max weight.'')))
                 (filter (\<lambda>a. dec_add limit (1 / 1000) < am_weight a) (ss_allocation_by_instrument st));
               max_measured = fold (\<lambda>a m. max m (am_weight a)) (ss_allocation_by_instrument st) 0
           in if results \<noteq> [] then results
              else [single_position_result RU_PASS max_measured limit ''OK'' None]))"

definition dq_count :: "engine_options \<Rightarrow> diagnostics \<Rightarrow> nat" where
  "dq_count options dg =
     (if eo_block_on_missing_prices options then length (dict_list (dg_data_quality dg) ''price_missing'') else 0)
     + (if eo_block_on_missing_fx options then length (dict_list (dg_data_quality dg) ''fx_missing'') else 0)
     + length (dict_list (dg_data_quality dg) ''shelf_missing'')"

definition evaluate_data_quality :: "engine_options \<Rightarrow> diagnostics \<Rightarrow> rule_result" where
  "evaluate_data_quality options dg =
     (if dq_count options dg > 0
      then \<lparr>ru_rule_id = ''DATA_QUALITY'', ru_severity = RV_HARD, ru_status = RU_FAIL,
            ru_measured = of_nat (dq_count options dg), ru_threshold = [(''max'', 0)],
            ru_reason_code = ''MISSING_DATA'',
            ru_remediation_hint = Some ''Check diagnostics for missing prices/FX.''\<rparr>
      else \<lparr>ru_rule_id = ''DATA_QUALITY'', ru_severity = RV_HARD, ru_status = RU_PASS,
            ru_measured = of_nat (dq_count options dg), ru_threshold = [(''max'', 0)],
            ru_reason_code = ''OK'', ru_remediation_hint = None\<rparr>)"

definition evaluate_min_trade_size :: "diagnostics \<Rightarrow> rule_result" where
  "evaluate_min_trade_size dg =
     (let suppressed_count = length (dg_suppressed_intents dg)
      in \<lparr>ru_rule_id = ''MIN_TRADE_SIZE'', ru_severity = RV_SOFT, ru_status = RU_PASS,
          ru_measured = of_nat suppressed_count, ru_threshold = [(''min'', 0)],
          ru_reason_code = (if suppressed_count > 0 then ''INTENTS_SUPPRESSED'' else ''OK''),
          ru_remediation_hint = None\<rparr>)"

definition least_negative :: "decimal list \<Rightarrow> decimal" where
  "least_negative xs = fold (\<lambda>x m. if x < 0 then min m x else m) xs 0"

definition evaluate_no_shorting :: "simulated_state \<Rightarrow> rule_result" where
  "evaluate_no_shorting st =
     (let min_qty = least_negative (map ps_quantity (ss_positions st))
      in if min_qty < 0
         then \<lparr>ru_rule_id = ''NO_SHORTING'', ru_severity = RV_HARD, ru_status = RU_FAIL,
               ru_measured = min_qty, ru_threshold = [(''min'', 0)],
               ru_reason_code = ''SELL_EXCEEDS_HOLDINGS'',
               ru_remediation_hint = Some ''Reduce sell quantity.''\<rparr>
         else \<lparr>ru_rule_id = ''NO_SHORTING'', ru_severity = RV_HARD, ru_status = RU_PASS,
               ru_measured = 0, ru_threshold = [(''min'', 0)], ru_reason_code = ''OK'',
               ru_remediation_hint = None\<rparr>)"

definition evaluate_sufficient_cash :: "simulated_state \<Rightarrow> rule_result" where
  "evaluate_sufficient_cash st =
     (let min_cash = least_negative (map cb_amount (ss_cash_balances st))
      in if min_cash < 0
         then \<lparr>ru_rule_id = ''INSUFFICIENT_CASH'', ru_severity = RV_HARD, ru_status = RU_FAIL,
               ru_measured = min_cash, ru_threshold = [(''min'', 0)],
               ru_reason_code = ''CASH_BALANCE_NEGATIVE'',
               ru_remediation_hint = Some ''Ensure sufficient funding.''\<rparr>
         else \<lparr>ru_rule_id = ''INSUFFICIENT_CASH'', ru_severity = RV_HARD, ru_status = RU_PASS,
               ru_measured = 0, ru_threshold = [(''min'', 0)], ru_reason_code = ''OK'',
               ru_remediation_hint = None\<rparr>)"

definition rule_engine_evaluate ::
  "simulated_state \<Rightarrow> engine_options \<Rightarrow> diagnostics \<Rightarrow> rule_result list" where
  "rule_engine_evaluate st options dg =
     evaluate_cash_band st options # evaluate_single_position_max st options
       @ [evaluate_data_quality options dg, evaluate_min_trade_size dg, evaluate_no_shorting st,
          evaluate_sufficient_cash st]"

subsection \<open>When a rule fails\<close>

definition rule_failed :: "rule_severity \<Rightarrow> rule_result \<Rightarrow> bool" where
  "rule_failed severity r \<longleftrightarrow> ru_severity r = severity \<and> ru_status r = RU_FAIL"

lemma has_failed_rule_iff: "has_failed_rule_with_severity rs v \<longleftrightarrow> (\<exists>r\<in>set rs. rule_failed v r)"
  by (simp add: has_failed_rule_with_severity_def rule_failed_def list_ex_iff)

lemma least_negative_fold:
  "fold (\<lambda>x m. if x < 0 then min m x else m) xs (a :: decimal) \<le> a
    \<and> (\<forall>x\<in>set xs. x < 0 \<longrightarrow> fold (\<lambda>x m. if x < 0 then min m x else m) xs a \<le> x)
    \<and> (fold (\<lambda>x m. if x < 0 then min m x else m) xs a < a
        \<longrightarrow> (\<exists>x\<in>set xs. x < 0 \<and> x = fold (\<lambda>x m. if x < 0 then min m x else m) xs a))"
proof (induction xs arbitrary: a)
  case (Cons x xs)
  from Cons.IH [of "if x < 0 then min a x else a"] show ?case
    by (auto simp: min_def split: if_splits)
qed simp

lemma least_negative_iff: "least_negative xs < 0 \<longleftrightarrow> (\<exists>x\<in>set xs. x < 0)"
  using least_negative_fold [of xs 0] unfolding least_negative_def by fastforce

lemma evaluate_single_position_max_fails:
  "(\<exists>r\<in>set (evaluate_single_position_max st os). rule_failed RV_HARD r) \<longleftrightarrow>
     (\<exists>limit. eo_single_position_max_weight os = Some limit
        \<and> (\<exists>a\<in>set (ss_allocation_by_instrument st). dec_add limit (1 / 1000) < am_weight a))"
  by (auto simp: evaluate_single_position_max_def single_position_result_def rule_failed_def Let_def
      filter_empty_conv split: option.split)

lemma evaluate_single_position_max_soft:
  "r \<in> set (evaluate_single_position_max st os) \<Longrightarrow> ru_severity r = RV_HARD"
  by (auto simp: evaluate_single_position_max_def single_position_result_def Let_def
      split: option.splits if_splits)

text \<open>The two verdicts of the rule engine, spelled out over the state it judges.\<close>

lemma rule_engine_hard_iff:
  "has_failed_rule_with_severity (rule_engine_evaluate st os dg) RV_HARD \<longleftrightarrow>
     (\<exists>limit. eo_single_position_max_weight os = Some limit
        \<and> (\<exists>a\<in>set (ss_allocation_by_instrument st). dec_add limit (1 / 1000) < am_weight a))
     \<or> dq_count os dg > 0
     \<or> (\<exists>p\<in>set (ss_positions st). ps_quantity p < 0)
     \<or> (\<exists>c\<in>set (ss_cash_balances st). cb_amount c < 0)"
proof -
  have "rule_failed RV_HARD (evaluate_data_quality os dg) \<longleftrightarrow> dq_count os dg > 0"
    by (simp add: evaluate_data_quality_def rule_failed_def)
  moreover have "rule_failed RV_HARD (evaluate_no_shorting st) \<longleftrightarrow> (\<exists>p\<in>set (ss_positions st). ps_quantity p < 0)"
    by (auto simp: evaluate_no_shorting_def rule_failed_def Let_def least_negative_iff)
  moreover have "rule_failed RV_HARD (evaluate_sufficient_cash st) \<longleftrightarrow> (\<exists>c\<in>set (ss_cash_balances st). cb_amount c < 0)"
    by (auto simp: evaluate_sufficient_cash_def rule_failed_def Let_def least_negative_iff)
  moreover have "\<not> rule_failed RV_HARD (evaluate_cash_band st os)" and "\<not> rule_failed RV_HARD (evaluate_min_trade_size dg)"
    by (simp_all add: evaluate_cash_band_def evaluate_min_trade_size_def rule_failed_def Let_def)
  ultimately show ?thesis
    using evaluate_single_position_max_fails [of st os]
    by (auto simp: has_failed_rule_iff rule_engine_evaluate_def)
qed

lemma rule_engine_soft_iff:
  "has_failed_rule_with_severity (rule_engine_evaluate st os dg) RV_SOFT \<longleftrightarrow>
     cash_weight_of st < eo_cash_band_min_weight os \<or> eo_cash_band_max_weight os < cash_weight_of st"
proof -
  have "\<not> rule_failed RV_SOFT (evaluate_data_quality os dg)" "\<not> rule_failed RV_SOFT (evaluate_no_shorting st)"
    "\<not> rule_failed RV_SOFT (evaluate_sufficient_cash st)" "\<not> rule_failed RV_SOFT (evaluate_min_trade_size dg)"
    by (simp_all add: evaluate_data_quality_def evaluate_no_shorting_def evaluate_sufficient_cash_def
        evaluate_min_trade_size_def rule_failed_def Let_def)
  moreover have "\<forall>r\<in>set (evaluate_single_position_max st os). \<not> rule_failed RV_SOFT r"
    using evaluate_single_position_max_soft by (auto simp: rule_failed_def)
  moreover have "rule_failed RV_SOFT (evaluate_cash_band st os) \<longleftrightarrow>
      cash_weight_of st < eo_cash_band_min_weight os \<or> eo_cash_band_max_weight os < cash_weight_of st"
    by (simp add: evaluate_cash_band_def rule_failed_def Let_def)
  ultimately show ?thesis by (auto simp: has_failed_rule_iff rule_engine_evaluate_def)
qed

subsection \<open>The review\<close>

record simulation_review =
  sw_final_status :: run_status
  sw_rule_results :: "rule_result list"
  sw_reconciliation :: reconciliation

definition append_input_guard_failure_if_needed ::
  "intent_plan \<Rightarrow> rule_result list \<Rightarrow> rule_result list" where
  "append_input_guard_failure_if_needed plan rs =
     (case ip_hard_failures plan of
        [] \<Rightarrow> rs
      | f # fs \<Rightarrow> rs @ [\<lparr>ru_rule_id = ''PROPOSAL_INPUT_GUARDS'', ru_severity = RV_HARD,
          ru_status = RU_FAIL, ru_measured = of_nat (length (f # fs)), ru_threshold = [(''max'', 0)],
          ru_reason_code = f, ru_remediation_hint =
            Some ''Adjust proposal cash flows, funding inputs, or shelf eligibility.''\<rparr>])"

definition append_funding_data_quality_failure_if_needed ::
  "diagnostics \<Rightarrow> intent_plan \<Rightarrow> rule_result list \<Rightarrow> rule_result list" where
  "append_funding_data_quality_failure_if_needed dg plan rs =
     (if \<not> ip_force_pending_review plan then rs
      else rs @ [\<lparr>ru_rule_id = ''PROPOSAL_FUNDING_DQ'', ru_severity = RV_SOFT, ru_status = RU_FAIL,
          ru_measured = of_nat (length (dg_missing_fx_pairs dg)), ru_threshold = [(''max'', 0)],
          ru_reason_code = ''MISSING_FX_FOR_FUNDING'',
          ru_remediation_hint = Some ''Provide required FX rates for advisory auto-funding.''\<rparr>])"

definition build_value_reconciliation ::
  "portfolio \<Rightarrow> market_data \<Rightarrow> simulated_state \<Rightarrow> simulated_state \<Rightarrow> intent_plan \<Rightarrow> diagnostics
     \<Rightarrow> (reconciliation \<times> decimal \<times> decimal) \<times> diagnostics" where
  "build_value_reconciliation pf md prior after plan dg =
     (let (expected_delta, dg') =
            expected_cash_delta_base (pf_base_currency pf) md (ip_cash_flows plan) dg
      in (build_reconciliation (mo_amount (ss_total_value prior)) (mo_amount (ss_total_value after))
            (dec_add (mo_amount (ss_total_value prior)) expected_delta) (pf_base_currency pf) True,
          dg'))"

definition reconciliation_failure :: "decimal \<Rightarrow> decimal \<Rightarrow> rule_result" where
  "reconciliation_failure recon_diff tolerance =
     \<lparr>ru_rule_id = ''RECONCILIATION'', ru_severity = RV_HARD, ru_status = RU_FAIL,
      ru_measured = recon_diff, ru_threshold = [(''max'', tolerance)],
      ru_reason_code = ''VALUE_MISMATCH'',
      ru_remediation_hint = Some ''Check pricing/FX or proposal inputs.''\<rparr>"

definition final_status_after_reconciliation ::
  "run_status \<Rightarrow> rule_result list \<Rightarrow> reconciliation \<Rightarrow> decimal \<Rightarrow> decimal
     \<Rightarrow> run_status \<times> rule_result list" where
  "final_status_after_reconciliation status rs recon recon_diff tolerance =
     (if rc_ok recon then (status, rs)
      else (RN_BLOCKED, rs @ [reconciliation_failure recon_diff tolerance]))"

definition final_status_after_pending_review :: "run_status \<Rightarrow> intent_plan \<Rightarrow> run_status" where
  "final_status_after_pending_review status plan =
     (if ip_force_pending_review plan \<and> status = RN_READY then RN_PENDING_REVIEW else status)"

definition evaluate_simulation_review ::
  "portfolio \<Rightarrow> market_data \<Rightarrow> engine_options \<Rightarrow> diagnostics \<Rightarrow> simulated_state \<Rightarrow> simulated_state
     \<Rightarrow> intent_plan \<Rightarrow> simulation_review \<times> diagnostics" where
  "evaluate_simulation_review pf md options dg prior after plan =
     (let rs = append_funding_data_quality_failure_if_needed dg plan
            (append_input_guard_failure_if_needed plan (rule_engine_evaluate after options dg));
          ((recon, recon_diff, tolerance), dg') = build_value_reconciliation pf md prior after plan dg;
          (status, rs') = final_status_after_reconciliation (derive_status_from_rules rs) rs recon
            recon_diff tolerance
      in (\<lparr>sw_final_status = final_status_after_pending_review status plan,
           sw_rule_results = rs', sw_reconciliation = recon\<rparr>, dg'))"

lemma review_hard_rules:
  "has_failed_rule_with_severity (append_funding_data_quality_failure_if_needed dg plan
       (append_input_guard_failure_if_needed plan rs)) RV_HARD
     \<longleftrightarrow> has_failed_rule_with_severity rs RV_HARD \<or> ip_hard_failures plan \<noteq> []"
  by (auto simp: has_failed_rule_iff append_funding_data_quality_failure_if_needed_def
      append_input_guard_failure_if_needed_def rule_failed_def split: list.splits)

lemma review_soft_rules:
  "has_failed_rule_with_severity (append_funding_data_quality_failure_if_needed dg plan
       (append_input_guard_failure_if_needed plan rs)) RV_SOFT
     \<longleftrightarrow> has_failed_rule_with_severity rs RV_SOFT \<or> ip_force_pending_review plan"
  by (auto simp: has_failed_rule_iff append_funding_data_quality_failure_if_needed_def
      append_input_guard_failure_if_needed_def rule_failed_def split: list.splits)

text \<open>The reported status and the reported rule results agree.\<close>

lemma review_status_iff:
  assumes "evaluate_simulation_review pf md os dg prior after plan = (review, dg')"
  shows "sw_final_status review = RN_BLOCKED \<longleftrightarrow>
           has_failed_rule_with_severity (rule_engine_evaluate after os dg) RV_HARD
           \<or> ip_hard_failures plan \<noteq> [] \<or> \<not> rc_ok (sw_reconciliation review)"
    and "sw_final_status review = RN_READY \<longleftrightarrow>
           \<not> has_failed_rule_with_severity (rule_engine_evaluate after os dg) RV_HARD
           \<and> \<not> has_failed_rule_with_severity (rule_engine_evaluate after os dg) RV_SOFT
           \<and> ip_hard_failures plan = [] \<and> \<not> ip_force_pending_review plan
           \<and> rc_ok (sw_reconciliation review)"
    and "sw_final_status review = derive_status_from_rules (sw_rule_results review)"
proof -
  obtain recon d t dg1 where b: "build_value_reconciliation pf md prior after plan dg = ((recon, d, t), dg1)"
    by (metis prod_cases3 surj_pair)
  define rs where "rs = append_funding_data_quality_failure_if_needed dg plan
      (append_input_guard_failure_if_needed plan (rule_engine_evaluate after os dg))"
  note hard = review_hard_rules [of dg plan "rule_engine_evaluate after os dg", folded rs_def]
  note soft = review_soft_rules [of dg plan "rule_engine_evaluate after os dg", folded rs_def]
  have r: "review = (if rc_ok recon
      then \<lparr>sw_final_status = final_status_after_pending_review (derive_status_from_rules rs) plan,
            sw_rule_results = rs, sw_reconciliation = recon\<rparr>
      else \<lparr>sw_final_status = RN_BLOCKED, sw_rule_results = rs @ [reconciliation_failure d t],
            sw_reconciliation = recon\<rparr>)"
    using assms by (auto simp: evaluate_simulation_review_def b rs_def Let_def
        final_status_after_reconciliation_def final_status_after_pending_review_def split: if_splits)
  show "sw_final_status review = RN_BLOCKED \<longleftrightarrow>
      has_failed_rule_with_severity (rule_engine_evaluate after os dg) RV_HARD
      \<or> ip_hard_failures plan \<noteq> [] \<or> \<not> rc_ok (sw_reconciliation review)"
    and "sw_final_status review = RN_READY \<longleftrightarrow>
      \<not> has_failed_rule_with_severity (rule_engine_evaluate after os dg) RV_HARD
      \<and> \<not> has_failed_rule_with_severity (rule_engine_evaluate after os dg) RV_SOFT
      \<and> ip_hard_failures plan = [] \<and> \<not> ip_force_pending_review plan
      \<and> rc_ok (sw_reconciliation review)"
    using hard soft by (auto simp: r derive_status_from_rules_def final_status_after_pending_review_def)
  have "has_failed_rule_with_severity (rs @ [reconciliation_failure d t]) RV_HARD"
    by (simp add: has_failed_rule_iff reconciliation_failure_def rule_failed_def)
  with soft show "sw_final_status review = derive_status_from_rules (sw_rule_results review)"
    by (auto simp: r derive_status_from_rules_def final_status_after_pending_review_def)
qed

end
