(* ===== verification/Suitability.thy ===== *)
theory Suitability
  imports Valuation
begin

text \<open>
  \<open>core/common/suitability*.py\<close> and \<open>advisory/policy_context.py\<close>: the scanner that turns the prior
  and the after state into issue candidates, adds the issues the proposed buys raise, and
  classifies each issue key as new, persistent or resolved.  Where the code stores a decimal as
  \<open>str(value)\<close> the candidate's detail is the decimal itself.
\<close>

subsection \<open>Issues\<close>

datatype detail = DText string | DDecimal decimal

record issue_candidate =
  sc_issue_key :: string
  sc_issue_id :: string
  sc_dimension :: string
  sc_severity :: level
  sc_summary :: string
  sc_details :: "(string, detail) dict"
  sc_classification :: string
  sc_remediation :: "string option"
  sc_approval_implication :: "string option"

datatype status_change = IC_NEW | IC_PERSISTENT | IC_RESOLVED

primrec status_change_str :: "status_change \<Rightarrow> string" where
  "status_change_str IC_NEW = ''NEW''"
| "status_change_str IC_PERSISTENT = ''PERSISTENT''"
| "status_change_str IC_RESOLVED = ''RESOLVED''"

primrec status_sort :: "status_change \<Rightarrow> nat" where
  "status_sort IC_NEW = 0" | "status_sort IC_PERSISTENT = 1" | "status_sort IC_RESOLVED = 2"

primrec severity_sort :: "level \<Rightarrow> nat" where
  "severity_sort LV_HIGH = 0" | "severity_sort LV_MEDIUM = 1" | "severity_sort LV_LOW = 2"

record suitability_evidence_ids =
  ev_as_of :: string
  ev_portfolio_snapshot_id :: string
  ev_market_data_snapshot_id :: string

record suitability_issue =
  sx_issue_id :: string
  sx_issue_key :: string
  sx_dimension :: string
  sx_severity :: level
  sx_status_change :: status_change
  sx_classification :: string
  sx_summary :: string
  sx_remediation :: "string option"
  sx_approval_implication :: "string option"
  sx_details :: "(string, detail) dict"
  sx_evidence :: suitability_evidence_ids
  sx_policy_pack_id :: string
  sx_policy_version :: string

record suitability_result =
  sg_new_count :: nat
  sg_resolved_count :: nat
  sg_persistent_count :: nat
  sg_highest_severity_new :: "level option"
  sg_issues :: "suitability_issue list"
  sg_policy_pack_id :: string
  sg_policy_version :: string
  sg_recommended_gate :: string

type_synonym issue_map = "(string, issue_candidate) dict"

definition add_issue :: "issue_candidate \<Rightarrow> issue_map \<Rightarrow> issue_map" where
  "add_issue c m = dict_set (sc_issue_key c) c m"

definition add_issue_opt :: "issue_candidate option \<Rightarrow> issue_map \<Rightarrow> issue_map" where
  "add_issue_opt c m = (case c of None \<Rightarrow> m | Some x \<Rightarrow> add_issue x m)"

definition suit_epsilon :: decimal where
  "suit_epsilon = 1 / 10 ^ 7"

text \<open>The format \<open>.2%\<close>: a hundredfold, rounded to two digits.\<close>

definition format_percent2 :: "decimal \<Rightarrow> string" where
  "format_percent2 x =
     (let n = nat \<bar>round_half_even (x * 10 ^ 4)\<bar>
      in (if x < 0 then ''-'' else '''') @ string_of_nat (n div 100) @ ''.''
         @ string_of_nat (n mod 100 div 10) @ string_of_nat (n mod 10) @ ''%'')"

definition instrument_weights :: "simulated_state \<Rightarrow> (string, decimal) dict" where
  "instrument_weights st = fold (\<lambda>a. dict_set (am_key a) (am_weight a))
     (filter (\<lambda>a. 0 < am_weight a) (ss_allocation_by_instrument st)) []"

definition weight_in :: "(string, decimal) dict \<Rightarrow> string \<Rightarrow> decimal" where
  "weight_in ws k = (case dict_get ws k of None \<Rightarrow> 0 | Some w \<Rightarrow> w)"

definition to_cash_weight :: "simulated_state \<Rightarrow> decimal" where
  "to_cash_weight st = (case find_first (\<lambda>a. am_key a = ''CASH'') (ss_allocation_by_asset_class st) of
     None \<Rightarrow> 0 | Some a \<Rightarrow> am_weight a)"

definition severity_for_concentration :: "decimal \<Rightarrow> decimal \<Rightarrow> level" where
  "severity_for_concentration measured limit =
     (if dec_mul limit (5 / 4) < measured then LV_HIGH else LV_MEDIUM)"

definition review_implication :: "level \<Rightarrow> string" where
  "review_implication severity = (if severity = LV_HIGH then ''COMPLIANCE_REVIEW'' else ''RISK_REVIEW'')"

definition issue_data_quality ::
  "string \<Rightarrow> string \<Rightarrow> (string, detail) dict \<Rightarrow> level \<Rightarrow> issue_candidate" where
  "issue_data_quality key summary details severity =
     \<lparr>sc_issue_key = key, sc_issue_id = ''SUIT_DATA_QUALITY'', sc_dimension = ''DATA_QUALITY'',
      sc_severity = severity, sc_summary = summary, sc_details = details,
      sc_classification = ''UNKNOWN_DUE_TO_MISSING_EVIDENCE'',
      sc_remediation = Some ''Refresh the missing upstream enrichment before progressing the proposal.'',
      sc_approval_implication = Some ''DATA_REMEDIATION''\<rparr>"

subsection \<open>Concentration and liquidity\<close>

definition single_position_issue :: "decimal \<Rightarrow> string \<Rightarrow> decimal \<Rightarrow> issue_candidate" where
  "single_position_issue cap iid weight =
     (let severity = severity_for_concentration weight cap
      in \<lparr>sc_issue_key = ''SINGLE_POSITION_MAX|'' @ iid, sc_issue_id = ''SUIT_SINGLE_POSITION_MAX'',
          sc_dimension = ''CONCENTRATION'', sc_severity = severity,
          sc_summary = ''Single position '' @ iid @ '' exceeds '' @ format_percent2 cap @ '' cap.'',
          sc_details = [(''instrument_id'', DText iid), (''threshold'', DDecimal cap),
            (''measured'', DDecimal weight)],
          sc_classification = ''NEW'',
          sc_remediation = Some ''Reduce the position weight or rebalance through offsetting trades.'',
          sc_approval_implication = Some (review_implication severity)\<rparr>)"

definition evaluate_single_position_issues ::
  "simulated_state \<Rightarrow> engine_options \<Rightarrow> issue_map \<Rightarrow> issue_map" where
  "evaluate_single_position_issues st options m =
     (let cap = th_single_position_max_weight (eo_suitability_thresholds options)
      in fold (\<lambda>(iid, weight) m. if dec_add cap suit_epsilon < weight
             then add_issue (single_position_issue cap iid weight) m else m)
           (instrument_weights st) m)"

definition missing_shelf_issue :: "string \<Rightarrow> level \<Rightarrow> issue_candidate" where
  "missing_shelf_issue iid severity =
     issue_data_quality (''DQ|MISSING_SHELF|'' @ iid) (''Shelf enrichment missing for '' @ iid @ ''.'')
       [(''instrument_id'', DText iid), (''missing_fields'', DText ''shelf_entry'')] severity"

definition missing_enrichment_issue ::
  "string \<Rightarrow> string \<Rightarrow> string \<Rightarrow> string \<Rightarrow> level \<Rightarrow> issue_candidate" where
  "missing_enrichment_issue iid missing_detail label key_prefix severity =
     issue_data_quality (key_prefix @ ''|'' @ iid) (label @ '' missing for '' @ iid @ ''.'')
       [(''instrument_id'', DText iid), (''missing_fields'', DText missing_detail)] severity"

text \<open>
  \<open>_aggregate_enriched_weights\<close>: \<open>bucket\<close> is the attribute read from the shelf entry; an absent or
  empty value is missing.
\<close>

definition aggregate_enriched_weights ::
  "(string, decimal) dict \<Rightarrow> (string, shelf_entry) dict \<Rightarrow> (shelf_entry \<Rightarrow> string option) \<Rightarrow> bool
     \<Rightarrow> string \<Rightarrow> string \<Rightarrow> string \<Rightarrow> level \<Rightarrow> issue_map \<Rightarrow> (string, decimal) dict \<times> issue_map" where
  "aggregate_enriched_weights target_weights shelf bucket missing_shelf missing_detail label key_prefix
       severity m =
     fold (\<lambda>(iid, weight) (ws, m). case dict_get shelf iid of
         None \<Rightarrow> (ws, if missing_shelf then add_issue (missing_shelf_issue iid severity) m else m)
       | Some e \<Rightarrow>
           (case bucket e of
              Some v \<Rightarrow>
                (if v \<noteq> [] then (dict_set v (dec_add (weight_in ws v) weight) ws, m)
                 else (ws, add_issue (missing_enrichment_issue iid missing_detail label key_prefix severity) m))
            | None \<Rightarrow>
                (ws, add_issue (missing_enrichment_issue iid missing_detail label key_prefix severity) m)))
       target_weights ([], m)"

definition issuer_exposure_issue :: "string \<Rightarrow> decimal \<Rightarrow> decimal \<Rightarrow> issue_candidate" where
  "issuer_exposure_issue issuer weight cap =
     (let severity = severity_for_concentration weight cap
      in \<lparr>sc_issue_key = ''ISSUER_MAX|'' @ issuer, sc_issue_id = ''SUIT_ISSUER_MAX'',
          sc_dimension = ''ISSUER'', sc_severity = severity,
          sc_summary = ''Issuer '' @ issuer @ '' exceeds '' @ format_percent2 cap @ '' exposure cap.'',
          sc_details = [(''issuer_id'', DText issuer), (''threshold'', DDecimal cap),
            (''measured'', DDecimal weight)],
          sc_classification = ''NEW'',
          sc_remediation = Some ''Reduce issuer concentration or add diversified replacement exposure.'',
          sc_approval_implication = Some (review_implication severity)\<rparr>)"

definition evaluate_issuer_issues ::
  "simulated_state \<Rightarrow> (string, shelf_entry) dict \<Rightarrow> engine_options \<Rightarrow> issue_map \<Rightarrow> issue_map" where
  "evaluate_issuer_issues st shelf options m =
     (let th = eo_suitability_thresholds options;
          (ws, m') = aggregate_enriched_weights (instrument_weights st) shelf sh_issuer_id True
            ''issuer_id'' ''Issuer enrichment'' ''DQ|MISSING_ISSUER'' (th_data_quality_issue_severity th) m
      in fold (\<lambda>(issuer, weight) m. if dec_add (th_issuer_max_weight th) suit_epsilon < weight
             then add_issue (issuer_exposure_issue issuer weight (th_issuer_max_weight th)) m else m)
           ws m')"

definition liquidity_exposure_issue :: "string \<Rightarrow> decimal \<Rightarrow> decimal \<Rightarrow> issue_candidate" where
  "liquidity_exposure_issue tier measured cap =
     \<lparr>sc_issue_key = ''LIQUIDITY_MAX|'' @ tier, sc_issue_id = ''SUIT_LIQUIDITY_MAX'',
      sc_dimension = ''LIQUIDITY'', sc_severity = severity_for_concentration measured cap,
      sc_summary = ''Liquidity tier '' @ tier @ '' exceeds '' @ format_percent2 cap @ '' exposure cap.'',
      sc_details = [(''liquidity_tier'', DText tier), (''threshold'', DDecimal cap),
        (''measured'', DDecimal measured)],
      sc_classification = ''NEW'',
      sc_remediation = Some ''Reduce illiquid exposure or increase liquid funding assets.'',
      sc_approval_implication = Some ''RISK_REVIEW''\<rparr>"

definition evaluate_liquidity_issues ::
  "simulated_state \<Rightarrow> (string, shelf_entry) dict \<Rightarrow> engine_options \<Rightarrow> issue_map \<Rightarrow> issue_map" where
  "evaluate_liquidity_issues st shelf options m =
     (let th = eo_suitability_thresholds options;
          (ws, m') = aggregate_enriched_weights (instrument_weights st) shelf sh_liquidity_tier False
            ''liquidity_tier'' ''Liquidity tier enrichment'' ''DQ|MISSING_LIQUIDITY_TIER''
            (th_data_quality_issue_severity th) m
      in fold (\<lambda>(tier, cap) m. if dec_add cap suit_epsilon < weight_in ws tier
             then add_issue (liquidity_exposure_issue tier (weight_in ws tier) cap) m else m)
           (th_max_weight_by_liquidity_tier th) m')"

subsection \<open>Governance of holdings\<close>

definition governance_issue_key :: "string \<Rightarrow> shelf_status \<Rightarrow> string" where
  "governance_issue_key iid status = ''GOVERNANCE|'' @ iid @ ''|'' @ shelf_status_str status"

definition holding_increased :: "decimal \<Rightarrow> decimal \<Rightarrow> bool" where
  "holding_increased before_weight after_weight \<longleftrightarrow> dec_add before_weight suit_epsilon < after_weight"

definition presence_governance_issue :: "string \<Rightarrow> shelf_status \<Rightarrow> decimal \<Rightarrow> issue_candidate" where
  "presence_governance_issue iid status after_weight =
     \<lparr>sc_issue_key = governance_issue_key iid status,
      sc_issue_id = (if status = SH_BANNED then ''SUIT_GOVERNANCE_BANNED'' else ''SUIT_GOVERNANCE_SUSPENDED''),
      sc_dimension = ''GOVERNANCE'', sc_severity = LV_HIGH,
      sc_summary = shelf_status_str status @ '' instrument '' @ iid @ '' is present in the portfolio.'',
      sc_details = [(''instrument_id'', DText iid), (''shelf_status'', DText (shelf_status_str status)),
        (''measured'', DDecimal after_weight)],
      sc_classification = ''NEW'',
      sc_remediation = Some (if status = SH_BANNED
        then ''Remove the banned instrument from the proposal before proceeding.''
        else ''Hold execution until the suspended instrument is removed or cleared.''),
      sc_approval_implication = Some ''COMPLIANCE_REVIEW''\<rparr>"

definition governance_increase_details ::
  "string \<Rightarrow> shelf_status \<Rightarrow> decimal \<Rightarrow> decimal \<Rightarrow> (string, detail) dict" where
  "governance_increase_details iid status before_weight after_weight =
     [(''instrument_id'', DText iid), (''shelf_status'', DText (shelf_status_str status)),
      (''measured_before'', DDecimal before_weight), (''measured_after'', DDecimal after_weight)]"

definition sell_only_increase_issue :: "string \<Rightarrow> decimal \<Rightarrow> decimal \<Rightarrow> issue_candidate" where
  "sell_only_increase_issue iid before_weight after_weight =
     \<lparr>sc_issue_key = governance_issue_key iid SH_SELL_ONLY,
      sc_issue_id = ''SUIT_GOVERNANCE_SELL_ONLY_INCREASE'', sc_dimension = ''GOVERNANCE'',
      sc_severity = LV_HIGH,
      sc_summary = ''SELL_ONLY instrument '' @ iid @ '' increased in proposed state.'',
      sc_details = governance_increase_details iid SH_SELL_ONLY before_weight after_weight,
      sc_classification = ''NEW'',
      sc_remediation = Some ''Remove the increase or obtain explicit product-control approval.'',
      sc_approval_implication = Some ''COMPLIANCE_REVIEW''\<rparr>"

definition restricted_increase_summary :: "string \<Rightarrow> bool \<Rightarrow> string" where
  "restricted_increase_summary iid allow = (if allow
     then ''RESTRICTED instrument '' @ iid @ '' increased under allow_restricted''
     else ''RESTRICTED instrument '' @ iid @ '' increased in proposed state'')"

definition bool_text :: "bool \<Rightarrow> string" where
  "bool_text b = (if b then ''true'' else ''false'')"

definition restricted_severity :: "bool \<Rightarrow> level" where
  "restricted_severity allow = (if allow then LV_MEDIUM else LV_HIGH)"

definition restricted_increase_issue :: "string \<Rightarrow> decimal \<Rightarrow> decimal \<Rightarrow> bool \<Rightarrow> issue_candidate" where
  "restricted_increase_issue iid before_weight after_weight allow =
     \<lparr>sc_issue_key = governance_issue_key iid SH_RESTRICTED,
      sc_issue_id = ''SUIT_GOVERNANCE_RESTRICTED_INCREASE'', sc_dimension = ''GOVERNANCE'',
      sc_severity = restricted_severity allow, sc_summary = restricted_increase_summary iid allow,
      sc_details = governance_increase_details iid SH_RESTRICTED before_weight after_weight
        @ [(''allow_restricted'', DText (bool_text allow))],
      sc_classification = ''NEW'',
      sc_remediation = Some ''Confirm the restricted-product rationale before progressing.'',
      sc_approval_implication = Some (review_implication (restricted_severity allow))\<rparr>"

definition presence_governance_issue_if_applicable ::
  "string \<Rightarrow> shelf_status \<Rightarrow> decimal \<Rightarrow> issue_candidate option" where
  "presence_governance_issue_if_applicable iid status after_weight =
     (if status \<notin> {SH_BANNED, SH_SUSPENDED} \<or> after_weight \<le> suit_epsilon then None
      else Some (presence_governance_issue iid status after_weight))"

definition increase_governance_issue_if_applicable ::
  "string \<Rightarrow> shelf_status \<Rightarrow> decimal \<Rightarrow> decimal \<Rightarrow> bool \<Rightarrow> issue_candidate option" where
  "increase_governance_issue_if_applicable iid status before_weight after_weight allow =
     (if \<not> holding_increased before_weight after_weight then None
      else if status = SH_SELL_ONLY then Some (sell_only_increase_issue iid before_weight after_weight)
      else if status = SH_RESTRICTED
      then Some (restricted_increase_issue iid before_weight after_weight allow)
      else None)"

definition governance_holding_issue ::
  "string \<Rightarrow> shelf_status \<Rightarrow> decimal \<Rightarrow> decimal \<Rightarrow> bool \<Rightarrow> issue_candidate option" where
  "governance_holding_issue iid status before_weight after_weight allow =
     (case presence_governance_issue_if_applicable iid status after_weight of
        Some i \<Rightarrow> Some i
      | None \<Rightarrow> increase_governance_issue_if_applicable iid status before_weight after_weight allow)"

definition evaluate_governance_holdings_issues ::
  "simulated_state \<Rightarrow> simulated_state \<Rightarrow> (string, shelf_entry) dict \<Rightarrow> engine_options \<Rightarrow> issue_map
     \<Rightarrow> issue_map" where
  "evaluate_governance_holdings_issues st before_state shelf options m =
     (let before_weights = instrument_weights before_state; target_weights = instrument_weights st
      in fold (\<lambda>iid m. case dict_get shelf iid of
             None \<Rightarrow> m
           | Some e \<Rightarrow> add_issue_opt (governance_holding_issue iid (sh_status e)
               (weight_in before_weights iid) (weight_in target_weights iid)
               (eo_allow_restricted options)) m)
           (sort (remdups (map fst before_weights @ map fst target_weights))) m)"

subsection \<open>The cash band\<close>

definition evaluate_cash_band_issue :: "simulated_state \<Rightarrow> engine_options \<Rightarrow> issue_map \<Rightarrow> issue_map" where
  "evaluate_cash_band_issue st options m =
     (let th = eo_suitability_thresholds options; cash_weight = to_cash_weight st
      in if cash_weight < dec_sub (th_cash_band_min_weight th) suit_epsilon
            \<or> dec_add (th_cash_band_max_weight th) suit_epsilon < cash_weight
         then add_issue
           \<lparr>sc_issue_key = ''CASH_BAND'', sc_issue_id = ''SUIT_CASH_BAND'', sc_dimension = ''CASH'',
            sc_severity = LV_MEDIUM, sc_summary = ''Cash weight is outside advisory suitability band.'',
            sc_details = [(''threshold_min'', DDecimal (th_cash_band_min_weight th)),
              (''threshold_max'', DDecimal (th_cash_band_max_weight th)),
              (''measured'', DDecimal cash_weight)],
            sc_classification = ''NEW'',
            sc_remediation = Some ''Adjust cash funding so the proposal stays within the cash suitability band.'',
            sc_approval_implication = Some ''RISK_REVIEW''\<rparr> m
         else m)"

text \<open>\<open>scan_state_issues\<close> with the five state evaluators of the baseline policy pack.\<close>

definition scan_state_issues ::
  "simulated_state \<Rightarrow> simulated_state \<Rightarrow> (string, shelf_entry) dict \<Rightarrow> engine_options \<Rightarrow> issue_map" where
  "scan_state_issues st before_state shelf options =
     evaluate_cash_band_issue st options
       (evaluate_governance_holdings_issues st before_state shelf options
         (evaluate_liquidity_issues st shelf options
           (evaluate_issuer_issues st shelf options
             (evaluate_single_position_issues st options []))))"


subsection \<open>Policy context\<close>

record policy_selectors =
  sl_household_id :: "string option"
  sl_mandate_id :: "string option"
  sl_jurisdiction :: "string option"
  sl_legal_entity_code :: "string option"
  sl_benchmark_id :: "string option"

definition status_from_selector :: "string option \<Rightarrow> string" where
  "status_from_selector v = (case v of
     Some s \<Rightarrow> (if s \<noteq> [] then ''AVAILABLE'' else ''MISSING'')
   | None \<Rightarrow> ''MISSING'')"

definition build_advisory_policy_context :: "string \<Rightarrow> string \<Rightarrow> policy_selectors \<Rightarrow> jobject" where
  "build_advisory_policy_context input_mode resolution_source sel =
     (let client = status_from_selector (sl_household_id sel);
          mandate = status_from_selector (sl_mandate_id sel);
          jurisdiction = status_from_selector (sl_jurisdiction sel);
          missing = (if client = ''MISSING'' then [JStr ''CLIENT_CONTEXT''] else [])
            @ (if mandate = ''MISSING'' then [JStr ''MANDATE_CONTEXT''] else [])
            @ (if jurisdiction = ''MISSING'' then [JStr ''JURISDICTION''] else [])
      in [(''input_mode'', JStr input_mode), (''context_source'', JStr resolution_source),
          (''client_context_status'', JStr client), (''mandate_context_status'', JStr mandate),
          (''jurisdiction_context_status'', JStr jurisdiction),
          (''household_id'', json_opt JStr (sl_household_id sel)),
          (''mandate_id'', json_opt JStr (sl_mandate_id sel)),
          (''jurisdiction'', json_opt JStr (sl_jurisdiction sel)),
          (''legal_entity_code'', json_opt JStr (sl_legal_entity_code sel)),
          (''benchmark_id'', json_opt JStr (sl_benchmark_id sel)),
          (''missing_context'', JList missing)])"

definition context_status_available :: "jobject option \<Rightarrow> string \<Rightarrow> bool" where
  "context_status_available context key = (case context of
     None \<Rightarrow> False
   | Some c \<Rightarrow> dict_get c key = Some (JStr ''AVAILABLE''))"

definition client_context_available :: "jobject option \<Rightarrow> bool" where
  "client_context_available context = context_status_available context ''client_context_status''"

definition mandate_context_available :: "jobject option \<Rightarrow> bool" where
  "mandate_context_available context = context_status_available context ''mandate_context_status''"

definition jurisdiction_context_available :: "jobject option \<Rightarrow> bool" where
  "jurisdiction_context_available context = context_status_available context ''jurisdiction_context_status''"

text \<open>A built context is available exactly where its selector is a non-empty string.\<close>

lemma built_context_available:
  "client_context_available (Some (build_advisory_policy_context m r sel))
     \<longleftrightarrow> (\<exists>s. sl_household_id sel = Some s \<and> s \<noteq> [])"
  "mandate_context_available (Some (build_advisory_policy_context m r sel))
     \<longleftrightarrow> (\<exists>s. sl_mandate_id sel = Some s \<and> s \<noteq> [])"
  "jurisdiction_context_available (Some (build_advisory_policy_context m r sel))
     \<longleftrightarrow> (\<exists>s. sl_jurisdiction sel = Some s \<and> s \<noteq> [])"
  by (auto simp: client_context_available_def mandate_context_available_def
      jurisdiction_context_available_def context_status_available_def build_advisory_policy_context_def
      Let_def status_from_selector_def split: option.splits)

subsection \<open>Issues raised by the proposed buys\<close>

definition buy_instrument_ids :: "proposed_trade list \<Rightarrow> string list" where
  "buy_instrument_ids trades = map pt_instrument_id
     (filter (\<lambda>t. pt_side t = SD_BUY \<and> pt_instrument_id t \<noteq> []) trades)"

definition governance_weight_details ::
  "string \<Rightarrow> shelf_entry \<Rightarrow> (string, decimal) dict \<Rightarrow> (string, decimal) dict \<Rightarrow> (string, detail) dict" where
  "governance_weight_details iid e before_weights after_weights =
     [(''instrument_id'', DText iid), (''shelf_status'', DText (shelf_status_str (sh_status e))),
      (''measured_before'', DDecimal (weight_in before_weights iid)),
      (''measured_after'', DDecimal (weight_in after_weights iid))]"

definition sell_only_buy_attempt_issue ::
  "string \<Rightarrow> shelf_entry \<Rightarrow> (string, decimal) dict \<Rightarrow> (string, decimal) dict \<Rightarrow> issue_candidate" where
  "sell_only_buy_attempt_issue iid e before_weights after_weights =
     \<lparr>sc_issue_key = governance_issue_key iid (sh_status e),
      sc_issue_id = ''SUIT_GOVERNANCE_SELL_ONLY_INCREASE'', sc_dimension = ''GOVERNANCE'',
      sc_severity = LV_HIGH,
      sc_summary = ''Proposal BUY attempts to increase SELL_ONLY instrument '' @ iid @ ''.'',
      sc_details = governance_weight_details iid e before_weights after_weights,
      sc_classification = ''NEW'',
      sc_remediation = Some ''Remove the SELL_ONLY buy or obtain explicit product-control approval.'',
      sc_approval_implication = Some ''COMPLIANCE_REVIEW''\<rparr>"

definition restricted_buy_attempt_issue ::
  "string \<Rightarrow> shelf_entry \<Rightarrow> (string, decimal) dict \<Rightarrow> (string, decimal) dict \<Rightarrow> engine_options
     \<Rightarrow> issue_candidate" where
  "restricted_buy_attempt_issue iid e before_weights after_weights options =
     (let severity = restricted_severity (eo_allow_restricted options)
      in \<lparr>sc_issue_key = governance_issue_key iid (sh_status e),
          sc_issue_id = ''SUIT_GOVERNANCE_RESTRICTED_INCREASE'', sc_dimension = ''GOVERNANCE'',
          sc_severity = severity,
          sc_summary = ''Proposal BUY attempts to increase RESTRICTED instrument '' @ iid @ ''.'',
          sc_details = governance_weight_details iid e before_weights after_weights
            @ [(''allow_restricted'', DText (bool_text (eo_allow_restricted options)))],
          sc_classification = ''NEW'',
          sc_remediation = Some ''Document the restricted-product rationale before progressing.'',
          sc_approval_implication = Some (review_implication severity)\<rparr>)"

definition governance_trade_attempt_issue ::
  "string \<Rightarrow> shelf_entry \<Rightarrow> (string, decimal) dict \<Rightarrow> (string, decimal) dict \<Rightarrow> engine_options
     \<Rightarrow> issue_candidate option" where
  "governance_trade_attempt_issue iid e before_weights after_weights options =
     (if sh_status e = SH_SELL_ONLY
      then Some (sell_only_buy_attempt_issue iid e before_weights after_weights)
      else if sh_status e = SH_RESTRICTED
      then Some (restricted_buy_attempt_issue iid e before_weights after_weights options)
      else None)"

definition append_governance_trade_attempt_issues ::
  "simulated_state \<Rightarrow> simulated_state \<Rightarrow> (string, shelf_entry) dict \<Rightarrow> proposed_trade list \<Rightarrow> engine_options
     \<Rightarrow> issue_map \<Rightarrow> issue_map" where
  "append_governance_trade_attempt_issues prior after shelf trades options m =
     fold (\<lambda>iid m. case dict_get shelf iid of
         None \<Rightarrow> m
       | Some e \<Rightarrow> add_issue_opt (governance_trade_attempt_issue iid e (instrument_weights prior)
           (instrument_weights after) options) m)
       (buy_instrument_ids trades) m"

text \<open>\<open>str.upper\<close> on the letters that matter for the comparison.\<close>

definition upper_char :: "char \<Rightarrow> char" where
  "upper_char c = (let n = (of_char c :: nat) in if 97 \<le> n \<and> n \<le> 122 then char_of (n - 32) else c)"

definition product_complexity :: "shelf_entry \<Rightarrow> string" where
  "product_complexity e = map upper_char
     (case dict_get (sh_attributes e) ''product_complexity'' of None \<Rightarrow> [] | Some v \<Rightarrow> v)"

definition requires_product_complexity_evidence :: "shelf_entry \<Rightarrow> jobject option \<Rightarrow> bool" where
  "requires_product_complexity_evidence e context =
     (if product_complexity e \<notin> {''HIGH'', ''COMPLEX''} then False
      else \<not> client_context_available context)"

definition is_product_complexity_exposure_increase ::
  "string \<Rightarrow> string list \<Rightarrow> decimal \<Rightarrow> decimal \<Rightarrow> bool" where
  "is_product_complexity_exposure_increase iid buy_attempts before_weight after_weight =
     (if iid \<in> set buy_attempts then True else dec_add before_weight suit_epsilon < after_weight)"

definition product_complexity_issue :: "string \<Rightarrow> string \<Rightarrow> decimal \<Rightarrow> decimal \<Rightarrow> issue_candidate" where
  "product_complexity_issue iid complexity before_weight after_weight =
     \<lparr>sc_issue_key = ''PRODUCT_COMPLEXITY|'' @ iid,
      sc_issue_id = ''MISSING_CLIENT_PRODUCT_COMPLEXITY_EVIDENCE'', sc_dimension = ''PRODUCT'',
      sc_severity = LV_HIGH,
      sc_summary = ''Complex product '' @ iid
        @ '' requires client knowledge and experience evidence before recommendation.'',
      sc_details = [(''instrument_id'', DText iid), (''product_complexity'', DText complexity),
        (''measured_before'', DDecimal before_weight), (''measured_after'', DDecimal after_weight)],
      sc_classification = ''UNKNOWN_DUE_TO_MISSING_EVIDENCE'',
      sc_remediation = Some ''Capture client product-complexity evidence before progressing.'',
      sc_approval_implication = Some ''CLIENT_CONTEXT_REQUIRED''\<rparr>"

definition append_product_complexity_issues ::
  "simulated_state \<Rightarrow> simulated_state \<Rightarrow> (string, shelf_entry) dict \<Rightarrow> proposed_trade list
     \<Rightarrow> jobject option \<Rightarrow> issue_map \<Rightarrow> issue_map" where
  "append_product_complexity_issues prior after shelf trades context m =
     (let before_weights = instrument_weights prior; after_weights = instrument_weights after;
          buy_attempts = buy_instrument_ids trades
      in fold (\<lambda>iid m. case dict_get shelf iid of
             None \<Rightarrow> m
           | Some e \<Rightarrow>
               if \<not> requires_product_complexity_evidence e context then m
               else if \<not> is_product_complexity_exposure_increase iid buy_attempts
                   (weight_in before_weights iid) (weight_in after_weights iid) then m
               else add_issue (product_complexity_issue iid (product_complexity e)
                   (weight_in before_weights iid) (weight_in after_weights iid)) m)
           (sort (remdups (map fst after_weights @ buy_attempts))) m)"

definition restricted_product_mandate_context_issue :: "string \<Rightarrow> shelf_entry \<Rightarrow> issue_candidate" where
  "restricted_product_mandate_context_issue iid e =
     \<lparr>sc_issue_key = ''MANDATE_CONTEXT|'' @ iid,
      sc_issue_id = ''MISSING_MANDATE_RESTRICTED_PRODUCT_EVIDENCE'', sc_dimension = ''PRODUCT'',
      sc_severity = LV_HIGH,
      sc_summary = ''Restricted product '' @ iid @ '' requires mandate context before recommendation.'',
      sc_details = [(''instrument_id'', DText iid),
        (''shelf_status'', DText (shelf_status_str (sh_status e)))],
      sc_classification = ''UNKNOWN_DUE_TO_MISSING_EVIDENCE'',
      sc_remediation = Some ''Capture mandate context for the restricted-product recommendation.'',
      sc_approval_implication = Some ''MANDATE_EXCEPTION_APPROVAL''\<rparr>"

definition requires_restricted_product_mandate_context :: "jobject option \<Rightarrow> bool" where
  "requires_restricted_product_mandate_context context \<longleftrightarrow>
     context \<noteq> None \<and> \<not> mandate_context_available context"

definition append_restricted_product_mandate_context_issues ::
  "(string, shelf_entry) dict \<Rightarrow> proposed_trade list \<Rightarrow> jobject option \<Rightarrow> issue_map \<Rightarrow> issue_map" where
  "append_restricted_product_mandate_context_issues shelf trades context m =
     (if \<not> requires_restricted_product_mandate_context context then m
      else fold (\<lambda>iid m. case dict_get shelf iid of
          None \<Rightarrow> m
        | Some e \<Rightarrow>
            if sh_status e \<noteq> SH_RESTRICTED then m
            else add_issue (restricted_product_mandate_context_issue iid e) m)
          (buy_instrument_ids trades) m)"

text \<open>The three post evaluators of the baseline pack, in order.\<close>

definition append_post_trade_issues ::
  "simulated_state \<Rightarrow> simulated_state \<Rightarrow> (string, shelf_entry) dict \<Rightarrow> proposed_trade list
     \<Rightarrow> engine_options \<Rightarrow> jobject option \<Rightarrow> issue_map \<Rightarrow> issue_map" where
  "append_post_trade_issues prior after shelf trades options context m =
     append_restricted_product_mandate_context_issues shelf trades context
       (append_product_complexity_issues prior after shelf trades context
         (append_governance_trade_attempt_issues prior after shelf trades options m))"

subsection \<open>Classification\<close>

definition policy_pack_id :: string where
  "policy_pack_id = ''global-private-banking-baseline''"

definition policy_pack_version :: string where
  "policy_pack_version = ''enterprise-suitability-policy.2026-04''"

definition build_suitability_issue ::
  "status_change \<Rightarrow> issue_candidate \<Rightarrow> suitability_evidence_ids \<Rightarrow> suitability_issue" where
  "build_suitability_issue change c evidence =
     \<lparr>sx_issue_id = sc_issue_id c, sx_issue_key = sc_issue_key c, sx_dimension = sc_dimension c,
      sx_severity = sc_severity c, sx_status_change = change,
      sx_classification = (if sc_classification c = ''UNKNOWN_DUE_TO_MISSING_EVIDENCE''
        then sc_classification c else status_change_str change),
      sx_summary = sc_summary c, sx_remediation = sc_remediation c,
      sx_approval_implication = sc_approval_implication c, sx_details = sc_details c,
      sx_evidence = evidence, sx_policy_pack_id = policy_pack_id,
      sx_policy_version = policy_pack_version\<rparr>"

definition issue_status_change :: "bool \<Rightarrow> bool \<Rightarrow> status_change option" where
  "issue_status_change in_before in_after =
     (if in_after then Some (if in_before then IC_PERSISTENT else IC_NEW)
      else if in_before then Some IC_RESOLVED else None)"

definition classified_issue ::
  "string \<Rightarrow> issue_map \<Rightarrow> issue_map \<Rightarrow> suitability_evidence_ids \<Rightarrow> suitability_issue option" where
  "classified_issue key before_issues after_issues evidence =
     (case issue_status_change (dict_has before_issues key) (dict_has after_issues key) of
        None \<Rightarrow> None
      | Some change \<Rightarrow>
          (case dict_get (if change = IC_RESOLVED then before_issues else after_issues) key of
             None \<Rightarrow> None
           | Some c \<Rightarrow> Some (build_suitability_issue change c evidence)))"

definition issue_sort_key :: "suitability_issue \<Rightarrow> nat \<times> nat \<times> string \<times> string" where
  "issue_sort_key i = (status_sort (sx_status_change i), severity_sort (sx_severity i),
     sx_dimension i, sx_issue_key i)"

definition classify_issues ::
  "issue_map \<Rightarrow> issue_map \<Rightarrow> suitability_evidence_ids \<Rightarrow> suitability_issue list" where
  "classify_issues before_issues after_issues evidence =
     sort_key issue_sort_key
       (List.map_filter (\<lambda>k. classified_issue k before_issues after_issues evidence)
         (remdups (map fst before_issues @ map fst after_issues)))"

definition highest_new_issue_severity :: "suitability_issue list \<Rightarrow> level option" where
  "highest_new_issue_severity new_issues =
     find_first (\<lambda>v. v \<in> set (map sx_severity new_issues)) [LV_HIGH, LV_MEDIUM, LV_LOW]"

definition issues_with_status :: "suitability_issue list \<Rightarrow> status_change \<Rightarrow> suitability_issue list" where
  "issues_with_status issues change = filter (\<lambda>i. sx_status_change i = change) issues"

definition recommended_gate :: "suitability_issue list \<Rightarrow> string" where
  "recommended_gate issues =
     (case highest_new_issue_severity (issues_with_status issues IC_NEW) of
        None \<Rightarrow> ''NONE''
      | Some LV_HIGH \<Rightarrow> ''COMPLIANCE_REVIEW''
      | Some LV_MEDIUM \<Rightarrow> ''RISK_REVIEW''
      | Some LV_LOW \<Rightarrow> ''NONE'')"

definition suitability_shelf_index :: "shelf_entry list \<Rightarrow> (string, shelf_entry) dict" where
  "suitability_shelf_index shelf = fold (\<lambda>e. dict_set (sh_instrument_id e) e) shelf []"

definition after_issue_map ::
  "simulated_state \<Rightarrow> simulated_state \<Rightarrow> shelf_entry list \<Rightarrow> engine_options \<Rightarrow> proposed_trade list
     \<Rightarrow> jobject option \<Rightarrow> issue_map" where
  "after_issue_map prior after shelf options trades context =
     append_post_trade_issues prior after (suitability_shelf_index shelf) trades options context
       (scan_state_issues after prior (suitability_shelf_index shelf) options)"

definition compute_suitability_result ::
  "simulated_state \<Rightarrow> simulated_state \<Rightarrow> shelf_entry list \<Rightarrow> engine_options \<Rightarrow> string \<Rightarrow> string
     \<Rightarrow> string option \<Rightarrow> proposed_trade list \<Rightarrow> jobject option \<Rightarrow> suitability_result" where
  "compute_suitability_result prior after shelf options portfolio_id market_id as_of trades context =
     (let before_issues = scan_state_issues prior prior (suitability_shelf_index shelf) options;
          after_issues = after_issue_map prior after shelf options trades context;
          evidence = \<lparr>ev_as_of = (case as_of of Some s \<Rightarrow> (if s \<noteq> [] then s else market_id) | None \<Rightarrow> market_id),
            ev_portfolio_snapshot_id = portfolio_id, ev_market_data_snapshot_id = market_id\<rparr>;
          issues = classify_issues before_issues after_issues evidence;
          new_issues = issues_with_status issues IC_NEW
      in \<lparr>sg_new_count = length new_issues,
          sg_resolved_count = length (issues_with_status issues IC_RESOLVED),
          sg_persistent_count = length (issues_with_status issues IC_PERSISTENT),
          sg_highest_severity_new = highest_new_issue_severity new_issues,
          sg_issues = issues, sg_policy_pack_id = policy_pack_id,
          sg_policy_version = policy_pack_version, sg_recommended_gate = recommended_gate issues\<rparr>)"


subsection \<open>What the issue maps hold\<close>

text \<open>Every entry sits under its own key, and the first letter of a key tells its evaluator.\<close>

definition issue_map_ok :: "char set \<Rightarrow> issue_map \<Rightarrow> bool" where
  "issue_map_ok S m \<longleftrightarrow> dict_wf m
     \<and> (\<forall>k c. dict_get m k = Some c \<longrightarrow> sc_issue_key c = k \<and> k \<noteq> [] \<and> hd k \<in> S)"

lemma issue_map_ok_Nil [simp]: "issue_map_ok S []"
  by (simp add: issue_map_ok_def)

lemma issue_map_ok_add [intro!]:
  "issue_map_ok S m \<Longrightarrow> sc_issue_key c \<noteq> [] \<Longrightarrow> hd (sc_issue_key c) \<in> S \<Longrightarrow> issue_map_ok S (add_issue c m)"
  by (simp add: issue_map_ok_def add_issue_def)

lemma issue_map_ok_mono: "issue_map_ok S m \<Longrightarrow> S \<subseteq> T \<Longrightarrow> issue_map_ok T m"
  by (auto simp: issue_map_ok_def)

lemma fold_keeps:
  assumes "P s" and "\<And>x s. x \<in> set xs \<Longrightarrow> P s \<Longrightarrow> P (f x s)" shows "P (fold f xs s)"
  using assms by (induction xs arbitrary: s) auto

lemma fold_establishes:
  assumes "x \<in> set xs" and "\<And>s. P (f x s)" and "\<And>y s. y \<in> set xs \<Longrightarrow> P s \<Longrightarrow> P (f y s)"
  shows "P (fold f xs s)"
proof -
  obtain ys zs where xs: "xs = ys @ x # zs" using assms(1) by (auto simp: in_set_conv_decomp)
  have "P (fold f zs (f x (fold f ys s)))"
    by (rule fold_keeps [where P = P, OF assms(2)]) (use assms(3) xs in auto)
  then show ?thesis by (simp add: xs)
qed

definition state_letters :: "char set" where
  "state_letters = {CHR ''S'', CHR ''I'', CHR ''L'', CHR ''D'', CHR ''G'', CHR ''C''}"

lemma issue_keys [simp]:
  "sc_issue_key (single_position_issue cap iid w) = ''SINGLE_POSITION_MAX|'' @ iid"
  "sc_issue_key (issue_data_quality key summary details severity) = key"
  "sc_issue_key (missing_shelf_issue iid v) = ''DQ|MISSING_SHELF|'' @ iid"
  "sc_issue_key (missing_enrichment_issue iid d l p v) = p @ ''|'' @ iid"
  "sc_issue_key (issuer_exposure_issue issuer w cap) = ''ISSUER_MAX|'' @ issuer"
  "sc_issue_key (liquidity_exposure_issue tier w cap) = ''LIQUIDITY_MAX|'' @ tier"
  "sc_issue_key (product_complexity_issue iid x b a) = ''PRODUCT_COMPLEXITY|'' @ iid"
  "sc_issue_key (restricted_product_mandate_context_issue iid e) = ''MANDATE_CONTEXT|'' @ iid"
  by (simp_all add: single_position_issue_def issue_data_quality_def missing_shelf_issue_def
      missing_enrichment_issue_def issuer_exposure_issue_def liquidity_exposure_issue_def Let_def
      product_complexity_issue_def restricted_product_mandate_context_issue_def)

lemma governance_holding_issue_key:
  "governance_holding_issue iid status b a allow = Some c \<Longrightarrow> sc_issue_key c = governance_issue_key iid status"
  by (auto simp: governance_holding_issue_def presence_governance_issue_if_applicable_def
      increase_governance_issue_if_applicable_def presence_governance_issue_def
      sell_only_increase_issue_def restricted_increase_issue_def split: option.splits if_splits)

lemma governance_trade_attempt_issue_key:
  "governance_trade_attempt_issue iid e b a os = Some c \<Longrightarrow> sc_issue_key c = governance_issue_key iid (sh_status e)"
  by (auto simp: governance_trade_attempt_issue_def sell_only_buy_attempt_issue_def
      restricted_buy_attempt_issue_def Let_def split: if_splits)

lemma governance_issue_key_ok: "governance_issue_key iid s \<noteq> [] \<and> hd (governance_issue_key iid s) = CHR ''G''"
  by (simp add: governance_issue_key_def)

lemma governance_issue_ok:
  "governance_holding_issue iid status b a allow = Some c
     \<Longrightarrow> sc_issue_key c \<noteq> [] \<and> hd (sc_issue_key c) = CHR ''G''"
  "governance_trade_attempt_issue iid e bw aw os = Some c
     \<Longrightarrow> sc_issue_key c \<noteq> [] \<and> hd (sc_issue_key c) = CHR ''G''"
  by (simp_all add: governance_holding_issue_key governance_trade_attempt_issue_key governance_issue_key_ok)

lemma aggregate_enriched_weights_ok:
  assumes "issue_map_ok S m" and "CHR ''D'' \<in> S" and "p = CHR ''D'' # p'"
    and "aggregate_enriched_weights ws shelf bucket ms d l p v m = (ws', m')"
  shows "issue_map_ok S m'"
proof -
  have "issue_map_ok S (snd (aggregate_enriched_weights ws shelf bucket ms d l p v m))"
    unfolding aggregate_enriched_weights_def
    by (rule fold_keeps) (use assms(1-3) in \<open>auto split: option.splits\<close>)
  with assms(4) show ?thesis by simp
qed

lemma scan_state_issues_ok: "issue_map_ok state_letters (scan_state_issues st b shelf os)"
proof -
  have 1: "issue_map_ok state_letters (evaluate_single_position_issues st os [])"
    unfolding evaluate_single_position_issues_def Let_def
    by (rule fold_keeps) (auto simp: state_letters_def)
  have 2: "issue_map_ok state_letters (evaluate_issuer_issues st shelf os m)"
    if m: "issue_map_ok state_letters m" for m
  proof -
    obtain ws m' where a: "aggregate_enriched_weights (instrument_weights st) shelf sh_issuer_id True
        ''issuer_id'' ''Issuer enrichment'' ''DQ|MISSING_ISSUER''
        (th_data_quality_issue_severity (eo_suitability_thresholds os)) m = (ws, m')" by fastforce
    have "issue_map_ok state_letters m'"
      using aggregate_enriched_weights_ok [OF m _ _ a, of "''Q|MISSING_ISSUER''"] by (simp add: state_letters_def)
    then show ?thesis
      unfolding evaluate_issuer_issues_def Let_def a prod.case
      by (rule fold_keeps) (auto simp: state_letters_def)
  qed
  have 3: "issue_map_ok state_letters (evaluate_liquidity_issues st shelf os m)"
    if m: "issue_map_ok state_letters m" for m
  proof -
    obtain ws m' where a: "aggregate_enriched_weights (instrument_weights st) shelf sh_liquidity_tier False
        ''liquidity_tier'' ''Liquidity tier enrichment'' ''DQ|MISSING_LIQUIDITY_TIER''
        (th_data_quality_issue_severity (eo_suitability_thresholds os)) m = (ws, m')" by fastforce
    have "issue_map_ok state_letters m'"
      using aggregate_enriched_weights_ok [OF m _ _ a, of "''Q|MISSING_LIQUIDITY_TIER''"]
      by (simp add: state_letters_def)
    then show ?thesis
      unfolding evaluate_liquidity_issues_def Let_def a prod.case
      by (rule fold_keeps) (auto simp: state_letters_def)
  qed
  have 4: "issue_map_ok state_letters (evaluate_governance_holdings_issues st b shelf os m)"
    if m: "issue_map_ok state_letters m" for m
    unfolding evaluate_governance_holdings_issues_def Let_def
    by (rule fold_keeps [where P = "issue_map_ok state_letters", OF m])
      (auto simp: add_issue_opt_def state_letters_def dest!: governance_issue_ok split: option.splits)
  show ?thesis
    unfolding scan_state_issues_def evaluate_cash_band_issue_def Let_def
    using 4 [OF 3 [OF 2 [OF 1]]] by (auto simp: state_letters_def)
qed

lemma append_governance_trade_attempt_issues_ok:
  assumes "issue_map_ok S m" and "CHR ''G'' \<in> S"
  shows "issue_map_ok S (append_governance_trade_attempt_issues b a shelf ts os m)"
  unfolding append_governance_trade_attempt_issues_def
  by (rule fold_keeps [where P = "issue_map_ok S", OF assms(1)])
    (use assms(2) in \<open>auto simp: add_issue_opt_def dest!: governance_issue_ok split: option.splits\<close>)

lemma after_issue_map_ok:
  "issue_map_ok (state_letters \<union> {CHR ''P'', CHR ''M''}) (after_issue_map b a shelf os ts ctx)"
proof -
  let ?S = "state_letters \<union> {CHR ''P'', CHR ''M''}"
  have 1: "issue_map_ok ?S (append_governance_trade_attempt_issues b a (suitability_shelf_index shelf) ts os
      (scan_state_issues a b (suitability_shelf_index shelf) os))"
    by (rule append_governance_trade_attempt_issues_ok)
      (use issue_map_ok_mono [OF scan_state_issues_ok, of ?S] in \<open>auto simp: state_letters_def\<close>)
  have 2: "issue_map_ok ?S (append_product_complexity_issues b a sh ts ctx m)" if "issue_map_ok ?S m" for sh m
    unfolding append_product_complexity_issues_def Let_def
    by (rule fold_keeps [where P = "issue_map_ok ?S", OF that]) (auto split: option.splits)
  have 3: "issue_map_ok ?S (append_restricted_product_mandate_context_issues sh ts ctx m)"
    if "issue_map_ok ?S m" for sh m
  proof (cases "requires_restricted_product_mandate_context ctx")
    case True
    show ?thesis
      by (simp only: append_restricted_product_mandate_context_issues_def True not_True_eq_False if_False,
          rule fold_keeps [where P = "issue_map_ok ?S", OF that])
        (auto split: option.splits)
  qed (use that in \<open>simp add: append_restricted_product_mandate_context_issues_def\<close>)
  show ?thesis
    unfolding after_issue_map_def append_post_trade_issues_def by (rule 3 [OF 2 [OF 1]])
qed

subsection \<open>What the classification reports\<close>

lemma classified_issue_iff:
  assumes "issue_map_ok S b" and "issue_map_ok T a"
  shows "classified_issue k b a ev = Some i \<longleftrightarrow>
    (\<exists>change c. issue_status_change (dict_has b k) (dict_has a k) = Some change
       \<and> dict_get (if change = IC_RESOLVED then b else a) k = Some c
       \<and> i = build_suitability_issue change c ev)"
  by (auto simp: classified_issue_def split: option.splits)

lemma classified_issue_key:
  assumes "issue_map_ok S b" and "issue_map_ok T a" and "classified_issue k b a ev = Some i"
  shows "sx_issue_key i = k"
  using assms by (auto simp: classified_issue_def build_suitability_issue_def issue_map_ok_def
      split: option.splits if_splits)

lemma classified_issue_exists:
  "(\<exists>i. classified_issue k b a ev = Some i \<and> sx_status_change i = change)
     \<longleftrightarrow> issue_status_change (dict_has b k) (dict_has a k) = Some change"
  by (auto simp: classified_issue_def issue_status_change_def dict_has_def build_suitability_issue_def
      split: option.splits if_splits)

lemma set_map_filter_iff: "y \<in> set (List.map_filter f xs) \<longleftrightarrow> (\<exists>x\<in>set xs. f x = Some y)"
  by (induction xs) (auto split: option.splits)

lemma set_classify_issues:
  "i \<in> set (classify_issues b a ev) \<longleftrightarrow> (\<exists>k. classified_issue k b a ev = Some i)"
proof -
  have "k \<in> fst ` set b \<union> fst ` set a" if "classified_issue k b a ev = Some i" for k
  proof -
    have "k \<in> dom (map_of b) \<union> dom (map_of a)"
      using that by (auto simp: classified_issue_def issue_status_change_def dict_has_def
          split: option.splits if_splits)
    then show ?thesis by (simp add: dom_map_of_conv_image_fst)
  qed
  then show ?thesis by (simp add: classify_issues_def set_map_filter_iff) blast
qed

lemma map_filter_key_distinct:
  assumes "distinct xs" and "\<And>x y. f x = Some y \<Longrightarrow> g y = x"
  shows "distinct (map g (List.map_filter f xs))"
proof -
  have "map g (List.map_filter f xs) = filter (\<lambda>x. f x \<noteq> None) xs"
    using assms(2) by (induction xs) (auto split: option.splits)
  with assms(1) show ?thesis by simp
qed

lemma classify_issues_distinct:
  assumes "issue_map_ok S b" and "issue_map_ok T a"
  shows "distinct (map sx_issue_key (classify_issues b a ev))"
proof -
  have "distinct (map sx_issue_key (List.map_filter (\<lambda>k. classified_issue k b a ev)
      (remdups (map fst b @ map fst a))))"
    by (rule map_filter_key_distinct) (use assms classified_issue_key in auto)
  then show ?thesis
    unfolding classify_issues_def by (rule iffD2 [OF distinct_map_mset_cong, rotated]) simp
qed

lemma highest_new_issue_severity_high:
  "highest_new_issue_severity is = Some LV_HIGH \<longleftrightarrow> (\<exists>i\<in>set is. sx_severity i = LV_HIGH)"
proof -
  have "LV_HIGH \<in> sx_severity ` set is \<longleftrightarrow> (\<exists>i\<in>set is. sx_severity i = LV_HIGH)" by (metis imageE imageI)
  then show ?thesis by (simp add: highest_new_issue_severity_def)
qed

subsection \<open>Buys without the required context\<close>

text \<open>Once an issue with the given key is high it stays high under the later post evaluators.\<close>

definition has_high :: "string \<Rightarrow> issue_map \<Rightarrow> bool" where
  "has_high k m \<longleftrightarrow> (\<exists>c. dict_get m k = Some c \<and> sc_severity c = LV_HIGH)"

lemma has_high_add: "sc_severity c = LV_HIGH \<Longrightarrow> has_high k m \<or> k = sc_issue_key c \<Longrightarrow> has_high k (add_issue c m)"
  by (auto simp: has_high_def add_issue_def)

lemma context_issue_severity [simp]:
  "sc_severity (product_complexity_issue iid x b a) = LV_HIGH"
  "sc_severity (restricted_product_mandate_context_issue iid e) = LV_HIGH"
  by (simp_all add: product_complexity_issue_def restricted_product_mandate_context_issue_def)

lemma append_restricted_keeps_high:
  "has_high k m \<Longrightarrow> has_high k (append_restricted_product_mandate_context_issues sh ts ctx m)"
  unfolding append_restricted_product_mandate_context_issues_def
  by (simp, intro impI fold_keeps [where P = "has_high k"])
    (auto intro!: has_high_add split: option.splits)

lemma complex_buy_is_high:
  assumes "iid \<in> set (buy_instrument_ids ts)" and "dict_get (suitability_shelf_index shelf) iid = Some e"
    and "requires_product_complexity_evidence e ctx"
  shows "has_high (''PRODUCT_COMPLEXITY|'' @ iid) (after_issue_map b a shelf os ts ctx)"
  unfolding after_issue_map_def append_post_trade_issues_def
proof (rule append_restricted_keeps_high)
  fix m
  show "has_high (''PRODUCT_COMPLEXITY|'' @ iid)
      (append_product_complexity_issues b a (suitability_shelf_index shelf) ts ctx m)"
    unfolding append_product_complexity_issues_def Let_def
    by (rule fold_establishes [where x = iid])
      (use assms in \<open>auto simp: is_product_complexity_exposure_increase_def
        intro!: has_high_add split: option.splits\<close>)
qed

lemma restricted_buy_is_high:
  assumes "iid \<in> set (buy_instrument_ids ts)" and "dict_get (suitability_shelf_index shelf) iid = Some e"
    and "sh_status e = SH_RESTRICTED" and "requires_restricted_product_mandate_context ctx"
  shows "has_high (''MANDATE_CONTEXT|'' @ iid) (after_issue_map b a shelf os ts ctx)"
  unfolding after_issue_map_def append_post_trade_issues_def append_restricted_product_mandate_context_issues_def
  by (simp add: assms(4), rule fold_establishes [where x = iid])
    (use assms in \<open>auto intro!: has_high_add split: option.splits\<close>)

lemma fresh_high_is_new:
  assumes "has_high k (after_issue_map b a shelf os ts ctx)" and "hd k \<notin> state_letters"
  shows "\<exists>i\<in>set (sg_issues (compute_suitability_result b a shelf os pid mid as_of ts ctx)).
    sx_issue_key i = k \<and> sx_status_change i = IC_NEW \<and> sx_severity i = LV_HIGH"
proof -
  let ?b = "scan_state_issues b b (suitability_shelf_index shelf) os"
  let ?a = "after_issue_map b a shelf os ts ctx"
  obtain c where c: "dict_get ?a k = Some c" "sc_severity c = LV_HIGH" using assms(1) by (auto simp: has_high_def)
  have fresh: "\<not> dict_has ?b k"
    using scan_state_issues_ok [of b b "suitability_shelf_index shelf" os] assms(2)
    by (cases "dict_get ?b k") (auto simp: dict_has_def issue_map_ok_def)
  have key: "sc_issue_key c = k" using after_issue_map_ok c(1) by (auto simp: issue_map_ok_def)
  have "classified_issue k ?b ?a ev = Some (build_suitability_issue IC_NEW c ev)" for ev
    using fresh c(1) by (simp add: classified_issue_def issue_status_change_def dict_has_def)
  then have "build_suitability_issue IC_NEW c ev \<in> set (classify_issues ?b ?a ev)" for ev
    by (auto simp: set_classify_issues)
  then show ?thesis
    unfolding compute_suitability_result_def Let_def
    by (force simp: build_suitability_issue_def key c(2))
qed

end
