(* ===== verification/Workflow_Gates.thy ===== *)
theory Workflow_Gates
  imports Compliance_Rules Suitability
begin

text \<open>
  \<open>core/common/workflow_gates.py\<close> and \<open>workflow_gate_vocabulary.py\<close>: the gate a run ends at, chosen
  by the first applicable rule of an ordered table, with the sorted reasons behind it.
\<close>

subsection \<open>Reasons\<close>

record gate_reason =
  gr_reason_code :: string
  gr_severity :: level
  gr_source :: string
  gr_details :: "(string, string) dict"

record gate_reason_bundle =
  gb_reasons :: "gate_reason list"
  gb_hard_fail_count :: nat
  gb_soft_fail_count :: nat
  gb_new_high_suitability_count :: nat
  gb_new_medium_suitability_count :: nat

definition dq_reason :: "string \<Rightarrow> string list \<Rightarrow> gate_reason list" where
  "dq_reason code items = (if items = [] then []
     else [\<lparr>gr_reason_code = code, gr_severity = LV_HIGH, gr_source = ''DATA_QUALITY'',
            gr_details = [(''count'', string_of_nat (length items))]\<rparr>])"

definition dq_reasons :: "diagnostics option \<Rightarrow> gate_reason list" where
  "dq_reasons dg =
     (let dq = (case dg of Some d \<Rightarrow> dg_data_quality d
                | None \<Rightarrow> [(''price_missing'', []), (''fx_missing'', [])])
      in dq_reason ''DATA_QUALITY_MISSING_PRICE'' (dict_list dq ''price_missing'')
         @ dq_reason ''DATA_QUALITY_MISSING_FX'' (dict_list dq ''fx_missing''))"

definition rule_reason :: "rule_result \<Rightarrow> gate_reason list" where
  "rule_reason r =
     (if ru_status r \<noteq> RU_FAIL then []
      else case ru_severity r of
        RV_HARD \<Rightarrow> [\<lparr>gr_reason_code = ''HARD_RULE_FAIL:'' @ ru_rule_id r, gr_severity = LV_HIGH,
            gr_source = ''RULE_ENGINE'', gr_details = [(''reason_code'', ru_reason_code r)]\<rparr>]
      | RV_SOFT \<Rightarrow> [\<lparr>gr_reason_code = ''SOFT_RULE_FAIL:'' @ ru_rule_id r, gr_severity = LV_MEDIUM,
            gr_source = ''RULE_ENGINE'', gr_details = [(''reason_code'', ru_reason_code r)]\<rparr>]
      | RV_INFO \<Rightarrow> [])"

text \<open>\<open>_rule_reasons\<close>: the reasons with the numbers of hard and of soft failures.\<close>

definition rule_reasons :: "rule_result list \<Rightarrow> gate_reason list \<times> nat \<times> nat" where
  "rule_reasons rs =
     (concat (map rule_reason rs),
      length (filter (\<lambda>r. ru_status r = RU_FAIL \<and> ru_severity r = RV_HARD) rs),
      length (filter (\<lambda>r. ru_status r = RU_FAIL \<and> ru_severity r = RV_SOFT) rs))"

definition new_suitability_gate_reason :: "suitability_issue \<Rightarrow> gate_reason option" where
  "new_suitability_gate_reason i =
     (if sx_status_change i \<noteq> IC_NEW then None
      else case sx_severity i of
        LV_HIGH \<Rightarrow> Some \<lparr>gr_reason_code = ''NEW_HIGH_SUITABILITY_ISSUE'', gr_severity = LV_HIGH,
          gr_source = ''SUITABILITY'',
          gr_details = [(''issue_id'', sx_issue_id i), (''issue_key'', sx_issue_key i)]\<rparr>
      | LV_MEDIUM \<Rightarrow> Some \<lparr>gr_reason_code = ''NEW_MEDIUM_SUITABILITY_ISSUE'', gr_severity = LV_MEDIUM,
          gr_source = ''SUITABILITY'',
          gr_details = [(''issue_id'', sx_issue_id i), (''issue_key'', sx_issue_key i)]\<rparr>
      | LV_LOW \<Rightarrow> None)"

definition count_reasons :: "string \<Rightarrow> gate_reason list \<Rightarrow> nat" where
  "count_reasons code reasons = length (filter (\<lambda>r. gr_reason_code r = code) reasons)"

definition suitability_reasons :: "suitability_result option \<Rightarrow> gate_reason list \<times> nat \<times> nat" where
  "suitability_reasons suitability = (case suitability of
     None \<Rightarrow> ([], 0, 0)
   | Some s \<Rightarrow>
       (let reasons = List.map_filter new_suitability_gate_reason (sg_issues s)
        in (reasons, count_reasons ''NEW_HIGH_SUITABILITY_ISSUE'' reasons,
            count_reasons ''NEW_MEDIUM_SUITABILITY_ISSUE'' reasons)))"

definition collect_gate_reason_bundle ::
  "rule_result list \<Rightarrow> suitability_result option \<Rightarrow> diagnostics option \<Rightarrow> gate_reason_bundle" where
  "collect_gate_reason_bundle rs suitability dg =
     (let (reasons, hard, soft) = rule_reasons rs;
          (sreasons, new_high, new_medium) = suitability_reasons suitability
      in \<lparr>gb_reasons = reasons @ sreasons @ dq_reasons dg, gb_hard_fail_count = hard,
          gb_soft_fail_count = soft, gb_new_high_suitability_count = new_high,
          gb_new_medium_suitability_count = new_medium\<rparr>)"

definition gate_reason_sort_key :: "gate_reason \<Rightarrow> nat \<times> string \<times> string \<times> string" where
  "gate_reason_sort_key r = (severity_sort (gr_severity r), gr_source r, gr_reason_code r,
     case dict_get (gr_details r) ''issue_key'' of
       Some k \<Rightarrow> k
     | None \<Rightarrow> (case dict_get (gr_details r) ''reason_code'' of Some c \<Rightarrow> c | None \<Rightarrow> []))"

subsection \<open>The outcome table\<close>

record gate_context =
  gx_status :: run_status
  gx_bundle :: gate_reason_bundle
  gx_options :: engine_options
  gx_default_requires_client_consent :: bool

definition has_blocking_input :: "gate_context \<Rightarrow> bool" where
  "has_blocking_input c \<longleftrightarrow> gx_status c = RN_BLOCKED \<or> gb_hard_fail_count (gx_bundle c) > 0"

definition requires_compliance_review :: "gate_context \<Rightarrow> bool" where
  "requires_compliance_review c \<longleftrightarrow> gb_new_high_suitability_count (gx_bundle c) > 0"

definition requires_risk_review :: "gate_context \<Rightarrow> bool" where
  "requires_risk_review c \<longleftrightarrow> gb_soft_fail_count (gx_bundle c) > 0
     \<or> gb_new_medium_suitability_count (gx_bundle c) > 0"

definition has_client_consent :: "gate_context \<Rightarrow> bool" where
  "has_client_consent c = eo_client_consent_already_obtained (gx_options c)"

definition requires_client_consent :: "engine_options \<Rightarrow> bool \<Rightarrow> bool" where
  "requires_client_consent options default_requires \<longleftrightarrow>
     eo_workflow_requires_client_consent options \<or> default_requires"

definition still_requires_client_consent :: "gate_context \<Rightarrow> bool" where
  "still_requires_client_consent c =
     requires_client_consent (gx_options c) (gx_default_requires_client_consent c)"

definition gate_outcome_rules :: "((gate_context \<Rightarrow> bool) \<times> string \<times> string) list" where
  "gate_outcome_rules = [
     (has_blocking_input, ''BLOCKED'', ''FIX_INPUT''),
     (requires_compliance_review, ''COMPLIANCE_REVIEW_REQUIRED'', ''COMPLIANCE_REVIEW''),
     (requires_risk_review, ''RISK_REVIEW_REQUIRED'', ''RISK_REVIEW''),
     (has_client_consent, ''EXECUTION_READY'', ''EXECUTE''),
     (still_requires_client_consent, ''CLIENT_CONSENT_REQUIRED'', ''REQUEST_CLIENT_CONSENT'')]"

definition resolve_gate_outcome ::
  "run_status \<Rightarrow> gate_reason_bundle \<Rightarrow> engine_options \<Rightarrow> bool \<Rightarrow> string \<times> string" where
  "resolve_gate_outcome status bundle options default_requires =
     (let c = \<lparr>gx_status = status, gx_bundle = bundle, gx_options = options,
               gx_default_requires_client_consent = default_requires\<rparr>
      in case find_first (\<lambda>(applies, outcome). applies c) gate_outcome_rules of
           Some (applies, outcome) \<Rightarrow> outcome
         | None \<Rightarrow> (''EXECUTION_READY'', ''EXECUTE''))"

record gate_decision =
  gd_gate :: string
  gd_recommended_next_step :: string
  gd_reasons :: "gate_reason list"
  gd_hard_fail_count :: nat
  gd_soft_fail_count :: nat
  gd_new_high_suitability_count :: nat
  gd_new_medium_suitability_count :: nat

definition evaluate_gate_decision ::
  "run_status \<Rightarrow> rule_result list \<Rightarrow> suitability_result option \<Rightarrow> diagnostics option \<Rightarrow> engine_options
     \<Rightarrow> bool \<Rightarrow> gate_decision" where
  "evaluate_gate_decision status rs suitability dg options default_requires =
     (let bundle = collect_gate_reason_bundle rs suitability dg;
          (gate, next_step) = resolve_gate_outcome status bundle options default_requires
      in \<lparr>gd_gate = gate, gd_recommended_next_step = next_step,
          gd_reasons = sort_key gate_reason_sort_key (gb_reasons bundle),
          gd_hard_fail_count = gb_hard_fail_count bundle,
          gd_soft_fail_count = gb_soft_fail_count bundle,
          gd_new_high_suitability_count = gb_new_high_suitability_count bundle,
          gd_new_medium_suitability_count = gb_new_medium_suitability_count bundle\<rparr>)"

subsection \<open>The published vocabulary\<close>

definition workflow_gate_next_steps :: "(string, string) dict" where
  "workflow_gate_next_steps = [
     (''BLOCKED'', ''FIX_INPUT''), (''RISK_REVIEW_REQUIRED'', ''RISK_REVIEW''),
     (''COMPLIANCE_REVIEW_REQUIRED'', ''COMPLIANCE_REVIEW''),
     (''CLIENT_CONSENT_REQUIRED'', ''REQUEST_CLIENT_CONSENT''),
     (''EXECUTION_READY'', ''EXECUTE''), (''NONE'', ''NONE'')]"

text \<open>Dictionary equality ignores the order of the keys.\<close>

definition same_dict :: "('k, 'v) dict \<Rightarrow> ('k, 'v) dict \<Rightarrow> bool" where
  "same_dict a b \<longleftrightarrow> list_all (\<lambda>k. dict_get a k = dict_get b k) (map fst a @ map fst b)"

definition workflow_gate_vocabulary :: "error + (string, string) dict" where
  "workflow_gate_vocabulary =
     bind_error (fold_error (\<lambda>(gate, step) pairs.
         let pairs' = dict_setdefault gate step pairs
         in if dict_get pairs' gate \<noteq> Some step
            then Inl (OtherException ''RuntimeError''
              (''workflow gate '' @ gate @ '' has conflicting next steps''))
            else Inr pairs') (map snd gate_outcome_rules) [])
       (\<lambda>pairs. if same_dict (dict_set ''NONE'' ''NONE'' pairs) workflow_gate_next_steps
          then Inr workflow_gate_next_steps
          else Inl (OtherException ''RuntimeError''
            ''workflow gate vocabulary drifted from outcome rules''))"

lemma workflow_gate_vocabulary_ok: "workflow_gate_vocabulary = Inr workflow_gate_next_steps"
  by (simp add: workflow_gate_vocabulary_def gate_outcome_rules_def dict_setdefault_def dict_has_def
      same_dict_def workflow_gate_next_steps_def Let_def)

subsection \<open>The outcome as a decision\<close>

lemma resolve_gate_outcome_cases:
  "fst (resolve_gate_outcome status b os d) =
     (if status = RN_BLOCKED \<or> gb_hard_fail_count b > 0 then ''BLOCKED''
      else if gb_new_high_suitability_count b > 0 then ''COMPLIANCE_REVIEW_REQUIRED''
      else if gb_soft_fail_count b > 0 \<or> gb_new_medium_suitability_count b > 0
      then ''RISK_REVIEW_REQUIRED''
      else if eo_client_consent_already_obtained os then ''EXECUTION_READY''
      else if eo_workflow_requires_client_consent os \<or> d then ''CLIENT_CONSENT_REQUIRED''
      else ''EXECUTION_READY'')"
  by (simp add: resolve_gate_outcome_def gate_outcome_rules_def Let_def has_blocking_input_def
      requires_compliance_review_def requires_risk_review_def has_client_consent_def
      still_requires_client_consent_def requires_client_consent_def)

lemma hard_count_iff: "gb_hard_fail_count (collect_gate_reason_bundle rs s dg) > 0
    \<longleftrightarrow> has_failed_rule_with_severity rs RV_HARD"
  by (auto simp: collect_gate_reason_bundle_def rule_reasons_def has_failed_rule_with_severity_def
      list_ex_iff filter_empty_conv split: prod.split)

lemma soft_count_iff: "gb_soft_fail_count (collect_gate_reason_bundle rs s dg) > 0
    \<longleftrightarrow> has_failed_rule_with_severity rs RV_SOFT"
  by (auto simp: collect_gate_reason_bundle_def rule_reasons_def has_failed_rule_with_severity_def
      list_ex_iff filter_empty_conv split: prod.split)

lemma count_new_reasons:
  "count_reasons ''NEW_HIGH_SUITABILITY_ISSUE'' (List.map_filter new_suitability_gate_reason is)
     = length (filter (\<lambda>i. sx_status_change i = IC_NEW \<and> sx_severity i = LV_HIGH) is)"
  "count_reasons ''NEW_MEDIUM_SUITABILITY_ISSUE'' (List.map_filter new_suitability_gate_reason is)
     = length (filter (\<lambda>i. sx_status_change i = IC_NEW \<and> sx_severity i = LV_MEDIUM) is)"
  by (induction "is") (auto simp: count_reasons_def new_suitability_gate_reason_def split: level.splits)

lemma suitability_counts:
  "gb_new_high_suitability_count (collect_gate_reason_bundle rs (Some s) dg)
     = length (filter (\<lambda>i. sx_status_change i = IC_NEW \<and> sx_severity i = LV_HIGH) (sg_issues s))"
  "gb_new_medium_suitability_count (collect_gate_reason_bundle rs (Some s) dg)
     = length (filter (\<lambda>i. sx_status_change i = IC_NEW \<and> sx_severity i = LV_MEDIUM) (sg_issues s))"
  "gb_new_high_suitability_count (collect_gate_reason_bundle rs None dg) = 0"
  "gb_new_medium_suitability_count (collect_gate_reason_bundle rs None dg) = 0"
  by (simp_all add: collect_gate_reason_bundle_def rule_reasons_def suitability_reasons_def Let_def
      count_new_reasons)

definition new_issue :: "level \<Rightarrow> suitability_result option \<Rightarrow> bool" where
  "new_issue v s \<longleftrightarrow> (case s of None \<Rightarrow> False
     | Some r \<Rightarrow> list_ex (\<lambda>i. sx_status_change i = IC_NEW \<and> sx_severity i = v) (sg_issues r))"

text \<open>The gate as one decision over the status, the failed rules, the new issues and the consent.\<close>

lemma gate_decision_cases:
  "gd_gate (evaluate_gate_decision status rs s dg os d) =
     (if status = RN_BLOCKED \<or> has_failed_rule_with_severity rs RV_HARD then ''BLOCKED''
      else if new_issue LV_HIGH s then ''COMPLIANCE_REVIEW_REQUIRED''
      else if has_failed_rule_with_severity rs RV_SOFT \<or> new_issue LV_MEDIUM s
      then ''RISK_REVIEW_REQUIRED''
      else if eo_client_consent_already_obtained os then ''EXECUTION_READY''
      else if eo_workflow_requires_client_consent os \<or> d then ''CLIENT_CONSENT_REQUIRED''
      else ''EXECUTION_READY'')"
proof -
  let ?b = "collect_gate_reason_bundle rs s dg"
  have high: "gb_new_high_suitability_count ?b > 0 \<longleftrightarrow> new_issue LV_HIGH s"
    and medium: "gb_new_medium_suitability_count ?b > 0 \<longleftrightarrow> new_issue LV_MEDIUM s"
    by (cases s; auto simp: suitability_counts new_issue_def list_ex_iff filter_empty_conv)+
  have "gd_gate (evaluate_gate_decision status rs s dg os d) = fst (resolve_gate_outcome status ?b os d)"
    by (simp add: evaluate_gate_decision_def Let_def split: prod.split)
  then show ?thesis by (simp only: resolve_gate_outcome_cases hard_count_iff soft_count_iff high medium)
qed

text \<open>Gate and next step always form a pair of the published vocabulary.\<close>

lemma gate_decision_in_vocabulary:
  "dict_get workflow_gate_next_steps (gd_gate (evaluate_gate_decision status rs s dg os d))
     = Some (gd_recommended_next_step (evaluate_gate_decision status rs s dg os d))"
  by (simp add: evaluate_gate_decision_def resolve_gate_outcome_def gate_outcome_rules_def
      workflow_gate_next_steps_def Let_def)

end
