(* ===== verification/Drift_Analytics.thy ===== *)
theory Drift_Analytics
  imports Valuation
begin

text \<open>
  \<open>core/common/drift_analytics.py\<close>: the distance between a state and the reference model, bucket by
  bucket, prior and after the proposal, with the highlights drawn from the buckets.
\<close>

record bucket_detail =
  bd_bucket :: string
  bd_model_weight :: decimal
  bd_weight_before :: decimal
  bd_weight_after :: decimal
  bd_drift_before :: decimal
  bd_drift_after :: decimal
  bd_abs_before :: decimal
  bd_abs_after :: decimal
  bd_improvement :: decimal

record dimension_analysis =
  dm_drift_total_before :: decimal
  dm_drift_total_after :: decimal
  dm_drift_total_delta :: decimal
  dm_top_contributors_before :: "bucket_detail list"
  dm_buckets :: "bucket_detail list"

record unmodeled_exposure =
  ux_bucket :: string
  ux_weight_before :: decimal
  ux_weight_after :: decimal
  ux_max_weight :: decimal

record drift_highlights =
  dl_largest_improvements :: "(string \<times> decimal) list"
  dl_largest_deteriorations :: "(string \<times> decimal) list"
  dl_unmodeled_exposures :: "unmodeled_exposure list"

record drift_analysis =
  dn_model_id :: string
  dn_as_of :: string
  dn_base_currency :: string
  dn_asset_class :: dimension_analysis
  dn_instrument :: "dimension_analysis option"
  dn_highlights :: drift_highlights

definition to_weight_map :: "allocation_metric list \<Rightarrow> (string, decimal) dict" where
  "to_weight_map as = fold (\<lambda>a. dict_set (am_key a) (am_weight a)) as []"

definition to_asset_class_target_map :: "asset_class_target list \<Rightarrow> (string, decimal) dict" where
  "to_asset_class_target_map ts = fold (\<lambda>t. dict_set (at_asset_class t) (at_weight t)) ts []"

definition to_instrument_target_map :: "instrument_target list \<Rightarrow> (string, decimal) dict" where
  "to_instrument_target_map ts = fold (\<lambda>t. dict_set (it_instrument_id t) (it_weight t)) ts []"

definition weight_or_zero :: "(string, decimal) dict \<Rightarrow> string \<Rightarrow> decimal" where
  "weight_or_zero ws k = (case dict_get ws k of None \<Rightarrow> 0 | Some w \<Rightarrow> w)"

definition dec_neg :: "decimal \<Rightarrow> decimal" where
  "dec_neg x = dec_round (- x)"

definition bucket_detail_of ::
  "(string, decimal) dict \<Rightarrow> (string, decimal) dict \<Rightarrow> (string, decimal) dict \<Rightarrow> string \<Rightarrow> bucket_detail" where
  "bucket_detail_of before_weights after_weights model_weights bucket =
     (let model_weight = weight_or_zero model_weights bucket;
          before_weight = weight_or_zero before_weights bucket;
          after_weight = weight_or_zero after_weights bucket;
          drift_before = dec_sub before_weight model_weight;
          drift_after = dec_sub after_weight model_weight;
          abs_before = dec_abs drift_before; abs_after = dec_abs drift_after
      in \<lparr>bd_bucket = bucket, bd_model_weight = model_weight, bd_weight_before = before_weight,
          bd_weight_after = after_weight, bd_drift_before = drift_before,
          bd_drift_after = drift_after, bd_abs_before = abs_before, bd_abs_after = abs_after,
          bd_improvement = dec_sub abs_before abs_after\<rparr>)"

definition build_dimension ::
  "(string, decimal) dict \<Rightarrow> (string, decimal) dict \<Rightarrow> (string, decimal) dict \<Rightarrow> string list \<Rightarrow> nat
     \<Rightarrow> dimension_analysis" where
  "build_dimension before_weights after_weights model_weights buckets top_limit =
     (let details = map (bucket_detail_of before_weights after_weights model_weights)
            (sort (remdups buckets));
          total_before = dec_mul (1 / 2) (dec_sum (map bd_abs_before details));
          total_after = dec_mul (1 / 2) (dec_sum (map bd_abs_after details))
      in \<lparr>dm_drift_total_before = total_before, dm_drift_total_after = total_after,
          dm_drift_total_delta = dec_sub total_after total_before,
          dm_top_contributors_before =
            take top_limit (sort_key (\<lambda>d. (dec_neg (bd_abs_before d), bd_bucket d)) details),
          dm_buckets = details\<rparr>)"

definition max_portfolio_weight :: "bucket_detail \<Rightarrow> decimal" where
  "max_portfolio_weight d = max (bd_weight_before d) (bd_weight_after d)"

definition largest_improvements :: "bucket_detail list \<Rightarrow> nat \<Rightarrow> bucket_detail list" where
  "largest_improvements details top_limit =
     take top_limit (sort_key (\<lambda>d. (dec_neg (bd_improvement d), bd_bucket d))
       (filter (\<lambda>d. 0 < bd_improvement d) details))"

definition largest_deteriorations :: "bucket_detail list \<Rightarrow> nat \<Rightarrow> bucket_detail list" where
  "largest_deteriorations details top_limit =
     take top_limit (sort_key (\<lambda>d. (bd_improvement d, bd_bucket d))
       (filter (\<lambda>d. bd_improvement d < 0) details))"

definition largest_unmodeled_exposures :: "bucket_detail list \<Rightarrow> nat \<Rightarrow> decimal \<Rightarrow> bucket_detail list" where
  "largest_unmodeled_exposures details top_limit unmodeled_threshold =
     take top_limit (sort_key (\<lambda>d. (dec_neg (max_portfolio_weight d), bd_bucket d))
       (filter (\<lambda>d. bd_model_weight d = 0 \<and> unmodeled_threshold \<le> max_portfolio_weight d) details))"

definition highlight_entries :: "bucket_detail list \<Rightarrow> (string \<times> decimal) list" where
  "highlight_entries ds = map (\<lambda>d. (bd_bucket d, bd_improvement d)) ds"

definition unmodeled_exposure_entries :: "bucket_detail list \<Rightarrow> unmodeled_exposure list" where
  "unmodeled_exposure_entries ds = map (\<lambda>d. \<lparr>ux_bucket = bd_bucket d,
     ux_weight_before = bd_weight_before d, ux_weight_after = bd_weight_after d,
     ux_max_weight = max_portfolio_weight d\<rparr>) ds"

definition build_highlights :: "bucket_detail list \<Rightarrow> nat \<Rightarrow> decimal \<Rightarrow> drift_highlights" where
  "build_highlights details top_limit unmodeled_threshold =
     \<lparr>dl_largest_improvements = highlight_entries (largest_improvements details top_limit),
      dl_largest_deteriorations = highlight_entries (largest_deteriorations details top_limit),
      dl_unmodeled_exposures = unmodeled_exposure_entries
        (largest_unmodeled_exposures details top_limit unmodeled_threshold)\<rparr>"

definition compute_drift_analysis ::
  "simulated_state \<Rightarrow> simulated_state \<Rightarrow> reference_model \<Rightarrow> string list \<Rightarrow> engine_options
     \<Rightarrow> drift_analysis" where
  "compute_drift_analysis prior after model traded options =
     (let before_ac = to_weight_map (ss_allocation_by_asset_class prior);
          after_ac = to_weight_map (ss_allocation_by_asset_class after);
          model_ac = to_asset_class_target_map (rm_asset_class_targets model);
          limit = eo_drift_top_contributors_limit options;
          asset_class = build_dimension before_ac after_ac model_ac
            (map fst before_ac @ map fst after_ac @ map fst model_ac @ [''CASH'']) limit;
          before_in = to_weight_map (ss_allocation_by_instrument prior);
          after_in = to_weight_map (ss_allocation_by_instrument after);
          model_in = to_instrument_target_map (rm_instrument_targets model);
          instrument =
            (if eo_enable_instrument_drift options \<and> rm_instrument_targets model \<noteq> []
             then Some (build_dimension before_in after_in model_in
               (map fst before_in @ map fst after_in @ map fst model_in @ traded) limit)
             else None);
          details = (case instrument of Some d \<Rightarrow> dm_buckets d | None \<Rightarrow> dm_buckets asset_class)
      in \<lparr>dn_model_id = rm_model_id model, dn_as_of = rm_as_of model,
          dn_base_currency = rm_base_currency model, dn_asset_class = asset_class,
          dn_instrument = instrument,
          dn_highlights = build_highlights details limit
            (eo_drift_unmodeled_exposure_threshold options)\<rparr>)"

subsection \<open>What a dimension reports\<close>

lemma dec_sum_nonneg: "(\<And>x. x \<in> set xs \<Longrightarrow> 0 \<le> x) \<Longrightarrow> 0 \<le> dec_sum xs"
proof -
  have "0 \<le> foldl dec_add a xs" if "0 \<le> a" "\<And>x. x \<in> set xs \<Longrightarrow> 0 \<le> x" for a
    using that by (induction xs arbitrary: a) (auto simp: dec_add_nonneg)
  then show "(\<And>x. x \<in> set xs \<Longrightarrow> 0 \<le> x) \<Longrightarrow> 0 \<le> dec_sum xs" by (simp add: dec_sum_def)
qed

lemma dec_abs_nonneg [simp]: "0 \<le> dec_abs x"
  by (simp add: dec_abs_def dec_round_nonneg)

lemma build_dimension_buckets:
  "map bd_bucket (dm_buckets (build_dimension b a m buckets n)) = sort (remdups buckets)"
  by (simp add: build_dimension_def Let_def bucket_detail_of_def comp_def)

lemma build_dimension_totals:
  "0 \<le> dm_drift_total_before (build_dimension b a m buckets n)"
  "0 \<le> dm_drift_total_after (build_dimension b a m buckets n)"
  by (auto simp: build_dimension_def Let_def bucket_detail_of_def intro!: dec_mul_nonneg dec_sum_nonneg)

text \<open>A proposal that changes no weight changes no drift, and a portfolio on model has none.\<close>

lemma build_dimension_same: "dm_drift_total_delta (build_dimension w w m buckets n) = 0
    \<and> (\<forall>d\<in>set (dm_buckets (build_dimension w w m buckets n)). bd_improvement d = 0)"
proof -
  have "bd_abs_after \<circ> bucket_detail_of w w m = bd_abs_before \<circ> bucket_detail_of w w m"
    by (rule ext) (simp add: bucket_detail_of_def Let_def)
  then show ?thesis by (simp add: build_dimension_def Let_def) (simp add: bucket_detail_of_def Let_def dec_sub_def)
qed

lemma dec_sum_zero: "(\<And>x. x \<in> set xs \<Longrightarrow> x = 0) \<Longrightarrow> dec_sum xs = 0"
proof -
  have "\<forall>x\<in>set xs. x = 0 \<Longrightarrow> foldl dec_add 0 xs = 0"
    by (induction xs) (simp_all add: dec_add_def)
  then show "(\<And>x. x \<in> set xs \<Longrightarrow> x = 0) \<Longrightarrow> dec_sum xs = 0" by (simp add: dec_sum_def)
qed

lemma build_dimension_on_model:
  assumes "\<forall>k\<in>set buckets. weight_or_zero a k = weight_or_zero m k"
  shows "dm_drift_total_after (build_dimension b a m buckets n) = 0"
proof -
  have "dec_sum (map bd_abs_after (map (bucket_detail_of b a m) (sort (remdups buckets)))) = 0"
    by (rule dec_sum_zero)
      (use assms in \<open>auto simp: bucket_detail_of_def Let_def dec_sub_def dec_abs_def\<close>)
  then show ?thesis by (simp add: build_dimension_def Let_def dec_mul_def)
qed

lemma take_sort_key_least:
  assumes "x \<in> set (take n (sort_key f xs))" and "y \<in> set xs" and "y \<notin> set (take n (sort_key f xs))"
  shows "f x \<le> f y"
proof -
  have "y \<in> set (drop n (sort_key f xs))"
    using assms(2,3) by (metis Un_iff append_take_drop_id set_append set_sort)
  moreover have "sorted (map f (take n (sort_key f xs) @ drop n (sort_key f xs)))"
    by (simp only: append_take_drop_id sorted_sort_key)
  ultimately show ?thesis
    using assms(1) by (simp only: map_append sorted_append set_map) blast
qed

text \<open>The highlights are the largest improvements: no improving bucket left out improves more.\<close>

lemma dec_neg_le: "dec_exact x \<Longrightarrow> dec_exact y \<Longrightarrow> dec_neg x \<le> dec_neg y \<longleftrightarrow> y \<le> x"
  by (simp add: dec_neg_def dec_round_minus dec_round_exact)

lemma bucket_improvement_exact:
  "d \<in> set (dm_buckets (build_dimension b a m buckets n)) \<Longrightarrow> dec_exact (bd_improvement d)"
  by (auto simp: build_dimension_def Let_def bucket_detail_of_def dec_sub_def)

lemma largest_improvements_top:
  assumes "\<forall>d\<in>set details. dec_exact (bd_improvement d)"
    and "x \<in> set (largest_improvements details n)" and "y \<in> set details" "0 < bd_improvement y"
    and "y \<notin> set (largest_improvements details n)"
  shows "bd_improvement y \<le> bd_improvement x"
proof -
  have "(dec_neg (bd_improvement x), bd_bucket x) \<le> (dec_neg (bd_improvement y), bd_bucket y)"
    by (rule take_sort_key_least [where f = "\<lambda>d. (dec_neg (bd_improvement d), bd_bucket d)"])
      (use assms in \<open>auto simp: largest_improvements_def\<close>)
  then have "dec_neg (bd_improvement x) \<le> dec_neg (bd_improvement y)" by (auto simp: less_eq_prod_def)
  moreover have "x \<in> set details"
    using assms(2) by (auto simp: largest_improvements_def dest!: in_set_takeD)
  ultimately show ?thesis using assms(1,3) by (simp add: dec_neg_le)
qed

end
