(* ===== verification/Advisory_Engine.thy ===== *)
theory Advisory_Engine
  imports Workflow_Gates Drift_Analytics Idempotency_Keys
begin

text \<open>
  \<open>core/advisory_engine.py\<close> and \<open>advisory/simulation_decision_support.py\<close>: one simulation run, from
  the snapshots and the proposed changes to the result with its status, order intents, drift,
  suitability and gate.  A run raises only where decimal arithmetic does (a zero price, a
  quantisation beyond 28 digits); everything else is reported in the result.
\<close>

subsection \<open>Decision support\<close>

record decision_support =
  ds_drift_analysis :: "drift_analysis option"
  ds_suitability :: "suitability_result option"
  ds_gate_decision :: "gate_decision option"

definition traded_instruments :: "order_intent list \<Rightarrow> string list" where
  "traded_instruments is = List.map_filter (\<lambda>i. case i of
     SecurityTradeIntent t \<Rightarrow> Some (ti_instrument_id t) | _ \<Rightarrow> None) is"

definition build_drift_analysis ::
  "portfolio \<Rightarrow> engine_options \<Rightarrow> simulated_state \<Rightarrow> simulated_state \<Rightarrow> intent_plan
     \<Rightarrow> reference_model option \<Rightarrow> diagnostics \<Rightarrow> drift_analysis option \<times> diagnostics" where
  "build_drift_analysis pf options prior after plan model dg =
     (case model of
        None \<Rightarrow> (None, dg)
      | Some m \<Rightarrow>
          if \<not> eo_enable_drift_analytics options then (None, dg)
          else if rm_base_currency m \<noteq> pf_base_currency pf
          then (None, warn ''REFERENCE_MODEL_BASE_CURRENCY_MISMATCH'' dg)
          else (Some (compute_drift_analysis prior after m
                  (traded_instruments (ip_intents plan)) options), dg))"

definition or_default :: "string option \<Rightarrow> string \<Rightarrow> string" where
  "or_default v d = (case v of Some s \<Rightarrow> (if s \<noteq> [] then s else d) | None \<Rightarrow> d)"

definition build_suitability ::
  "portfolio \<Rightarrow> market_data \<Rightarrow> shelf_entry list \<Rightarrow> engine_options \<Rightarrow> simulated_state
     \<Rightarrow> simulated_state \<Rightarrow> intent_plan \<Rightarrow> jobject option \<Rightarrow> suitability_result option" where
  "build_suitability pf md shelf options prior after plan context =
     (if \<not> eo_enable_suitability_scanner options then None
      else Some (compute_suitability_result prior after shelf options
        (or_default (pf_snapshot_id pf) (pf_id pf)) (or_default (md_snapshot_id md) ''md'') None
        (ip_trades plan) context))"

definition build_gate_decision ::
  "engine_options \<Rightarrow> diagnostics \<Rightarrow> run_status \<Rightarrow> rule_result list \<Rightarrow> suitability_result option
     \<Rightarrow> gate_decision option" where
  "build_gate_decision options dg status rs suitability =
     (if \<not> eo_enable_workflow_gates options then None
      else Some (evaluate_gate_decision status rs suitability (Some dg) options True))"

definition build_simulation_decision_support ::
  "portfolio \<Rightarrow> market_data \<Rightarrow> shelf_entry list \<Rightarrow> engine_options \<Rightarrow> simulated_state
     \<Rightarrow> simulated_state \<Rightarrow> intent_plan \<Rightarrow> simulation_review \<Rightarrow> reference_model option
     \<Rightarrow> jobject option \<Rightarrow> diagnostics \<Rightarrow> decision_support \<times> diagnostics" where
  "build_simulation_decision_support pf md shelf options prior after plan review model context dg =
     (let (drift, dg') = build_drift_analysis pf options prior after plan model dg;
          suitability = build_suitability pf md shelf options prior after plan context
      in (\<lparr>ds_drift_analysis = drift, ds_suitability = suitability,
           ds_gate_decision = build_gate_decision options dg' (sw_final_status review)
             (sw_rule_results review) suitability\<rparr>, dg'))"

subsection \<open>The run\<close>

record source_envelope =
  se_source_system :: string
  se_portfolio :: source_record
  se_market_data :: source_record

record engine_lineage =
  ln_portfolio_snapshot_id :: string
  ln_market_data_snapshot_id :: string
  ln_request_hash :: string
  ln_idempotency_key :: "string option"
  ln_engine_version :: string
  ln_simulation_contract_version :: "string option"
  ln_source_provenance :: "source_envelope option"
  ln_source_completeness :: "jobject option"

record proposal_result =
  pz_proposal_run_id :: string
  pz_correlation_id :: string
  pz_status :: run_status
  pz_before :: simulated_state
  pz_intents :: "order_intent list"
  pz_after_simulated :: simulated_state
  pz_reconciliation :: reconciliation
  pz_rule_results :: "rule_result list"
  pz_diagnostics :: diagnostics
  pz_drift_analysis :: "drift_analysis option"
  pz_suitability :: "suitability_result option"
  pz_gate_decision :: "gate_decision option"
  pz_lineage :: engine_lineage

record engine_request =
  er_portfolio :: portfolio
  er_market_data :: market_data
  er_shelf :: "shelf_entry list"
  er_options :: engine_options
  er_cash_flows :: "proposed_cash_flow list"
  er_trades :: "proposed_trade list"
  er_reference_model :: "reference_model option"
  er_request_hash :: string
  er_idempotency_key :: "string option"
  er_correlation_id :: string
  er_simulation_contract_version :: "string option"
  er_policy_context :: "jobject option"

text \<open>The eight hex digits of a fresh UUID are an argument.\<close>

definition proposal_run_id_from_request_hash :: "runtime \<Rightarrow> string \<Rightarrow> string \<Rightarrow> string" where
  "proposal_run_id_from_request_hash rt uuid_hex request_hash =
     (if request_hash \<noteq> [] \<and> request_hash \<noteq> ''no_hash''
      then ''pr_'' @ take 8 (rt_sha256 rt request_hash)
      else ''pr_'' @ take 8 uuid_hex)"

definition source_provenance_envelope :: "portfolio \<Rightarrow> market_data \<Rightarrow> source_envelope option" where
  "source_provenance_envelope pf md =
     (case (pf_source_provenance pf, md_source_provenance md) of
        (Some p, Some m) \<Rightarrow>
          (if sv_source_system m \<noteq> sv_source_system p then None
           else Some \<lparr>se_source_system = sv_source_system p, se_portfolio = p, se_market_data = m\<rparr>)
      | _ \<Rightarrow> None)"

definition source_completeness_report :: "portfolio \<Rightarrow> market_data \<Rightarrow> jobject option" where
  "source_completeness_report pf md =
     (case pf_source_completeness pf of Some c \<Rightarrow> Some c | None \<Rightarrow> md_source_completeness md)"

definition simulate_after ::
  "engine_request \<Rightarrow> simulated_state \<Rightarrow> intent_plan \<Rightarrow> diagnostics \<Rightarrow> simulated_state \<times> diagnostics" where
  "simulate_after rq prior plan dg =
     (if ip_intents plan \<noteq> []
      then (let (st, dq) = build_simulated_state (ip_after_portfolio plan) (er_market_data rq)
                  (er_shelf rq) ((er_options rq)\<lparr>eo_valuation_mode := VM_CALCULATED\<rparr>)
                  (dg_data_quality dg)
            in (st, dg\<lparr>dg_data_quality := dq\<rparr>))
      else (prior, dg))"

definition engine_lineage_of :: "engine_request \<Rightarrow> engine_lineage" where
  "engine_lineage_of rq =
     \<lparr>ln_portfolio_snapshot_id = or_default (pf_snapshot_id (er_portfolio rq)) (pf_id (er_portfolio rq)),
      ln_market_data_snapshot_id = or_default (md_snapshot_id (er_market_data rq)) ''md'',
      ln_request_hash = er_request_hash rq,
      ln_idempotency_key = normalize_optional_idempotency_key (er_idempotency_key rq),
      ln_engine_version = ''0.1.0'',
      ln_simulation_contract_version = er_simulation_contract_version rq,
      ln_source_provenance = source_provenance_envelope (er_portfolio rq) (er_market_data rq),
      ln_source_completeness = source_completeness_report (er_portfolio rq) (er_market_data rq)\<rparr>"

definition run_proposal_simulation ::
  "runtime \<Rightarrow> string \<Rightarrow> engine_request \<Rightarrow> error + proposal_result" where
  "run_proposal_simulation rt uuid_hex rq =
     (let pf = er_portfolio rq; md = er_market_data rq; shelf = er_shelf rq; options = er_options rq;
          (prior, dq0) = build_simulated_state pf md shelf options
            (dg_data_quality make_diagnostics_data)
      in bind_error (build_simulation_intent_plan pf md shelf options (er_cash_flows rq) (er_trades rq)
             (make_diagnostics_data\<lparr>dg_data_quality := dq0\<rparr>)) (\<lambda>(plan, dg1).
         let (after, dg2) = simulate_after rq prior plan dg1;
             (review, dg3) = evaluate_simulation_review pf md options dg2 prior after plan;
             (support, dg4) = build_simulation_decision_support pf md shelf options prior after plan
               review (er_reference_model rq) (er_policy_context rq) dg3
         in Inr \<lparr>pz_proposal_run_id =
                   proposal_run_id_from_request_hash rt uuid_hex (er_request_hash rq),
                 pz_correlation_id = er_correlation_id rq,
                 pz_status = sw_final_status review,
                 pz_before = prior, pz_intents = ip_intents plan, pz_after_simulated = after,
                 pz_reconciliation = sw_reconciliation review,
                 pz_rule_results = sw_rule_results review,
                 pz_diagnostics = dg4,
                 pz_drift_analysis = ds_drift_analysis support,
                 pz_suitability = ds_suitability support,
                 pz_gate_decision = ds_gate_decision support,
                 pz_lineage = engine_lineage_of rq\<rparr>))"

subsection \<open>The stages of a run that returns\<close>

lemma run_proposal_simulationE:
  assumes "run_proposal_simulation rt uuid rq = Inr res"
  obtains dq0 plan dg1 dg2 review dg3 dg4 where
    "build_simulated_state (er_portfolio rq) (er_market_data rq) (er_shelf rq) (er_options rq)
       (dg_data_quality make_diagnostics_data) = (pz_before res, dq0)"
    "build_simulation_intent_plan (er_portfolio rq) (er_market_data rq) (er_shelf rq) (er_options rq)
       (er_cash_flows rq) (er_trades rq) (make_diagnostics_data\<lparr>dg_data_quality := dq0\<rparr>) = Inr (plan, dg1)"
    "simulate_after rq (pz_before res) plan dg1 = (pz_after_simulated res, dg2)"
    "evaluate_simulation_review (er_portfolio rq) (er_market_data rq) (er_options rq) dg2
       (pz_before res) (pz_after_simulated res) plan = (review, dg3)"
    "pz_intents res = ip_intents plan" "pz_status res = sw_final_status review"
    "pz_rule_results res = sw_rule_results review" "pz_reconciliation res = sw_reconciliation review"
    "pz_suitability res = build_suitability (er_portfolio rq) (er_market_data rq) (er_shelf rq)
       (er_options rq) (pz_before res) (pz_after_simulated res) plan (er_policy_context rq)"
    "pz_gate_decision res = build_gate_decision (er_options rq) dg4 (pz_status res)
       (pz_rule_results res) (pz_suitability res)"
proof -
  obtain prior dq0 where b: "build_simulated_state (er_portfolio rq) (er_market_data rq) (er_shelf rq)
      (er_options rq) (dg_data_quality make_diagnostics_data) = (prior, dq0)" by fastforce
  obtain plan dg1 where p: "build_simulation_intent_plan (er_portfolio rq) (er_market_data rq)
      (er_shelf rq) (er_options rq) (er_cash_flows rq) (er_trades rq)
      (make_diagnostics_data\<lparr>dg_data_quality := dq0\<rparr>) = Inr (plan, dg1)"
    using assms by (auto simp: run_proposal_simulation_def b Let_def bind_error_Inr_iff)
  obtain after dg2 where a: "simulate_after rq prior plan dg1 = (after, dg2)" by fastforce
  obtain review dg3 where r: "evaluate_simulation_review (er_portfolio rq) (er_market_data rq)
      (er_options rq) dg2 prior after plan = (review, dg3)" by fastforce
  obtain drift dg4 where d: "build_drift_analysis (er_portfolio rq) (er_options rq) prior after plan
      (er_reference_model rq) dg3 = (drift, dg4)" by fastforce
  have "pz_before res = prior \<and> pz_after_simulated res = after \<and> pz_intents res = ip_intents plan
    \<and> pz_status res = sw_final_status review \<and> pz_rule_results res = sw_rule_results review
    \<and> pz_reconciliation res = sw_reconciliation review
    \<and> pz_suitability res = build_suitability (er_portfolio rq) (er_market_data rq) (er_shelf rq)
       (er_options rq) prior after plan (er_policy_context rq)
    \<and> pz_gate_decision res = build_gate_decision (er_options rq) dg4 (sw_final_status review)
       (sw_rule_results review) (pz_suitability res)"
    using assms by (auto simp: run_proposal_simulation_def b p a r d Let_def
        build_simulation_decision_support_def)
  then show thesis by (intro that [of dq0 plan dg1 dg2 review dg3 dg4]) (use b p a r in simp_all)
qed

end
