(* ===== verification/Plan_Outcome.thy ===== *)
theory Plan_Outcome
  imports Intent_Plan "HOL-Library.Multiset" "HOL-Library.Sublist"
begin

text \<open>
  What a plan leaves out, and what it says about it.  A trade without an intent is logged as
  missing data or recorded as a hard failure; a currency without funding is a hard failure or
  forces a review.  The logs only grow, so a plan with clean logs has an intent for every proposed
  trade.
\<close>

subsection \<open>Logs only grow\<close>

definition dq_grows :: "diagnostics \<Rightarrow> diagnostics \<Rightarrow> bool" where
  "dq_grows dg dg' \<longleftrightarrow> (\<forall>k. prefix (dict_list (dg_data_quality dg) k) (dict_list (dg_data_quality dg') k))"

named_theorems growth

lemma dq_grows_refl [simp]: "dq_grows dg dg"
  by (simp add: dq_grows_def)

lemma dq_grows_trans [trans]: "dq_grows a b \<Longrightarrow> dq_grows b c \<Longrightarrow> dq_grows a c"
  by (meson dq_grows_def prefix_order.trans)

lemma dq_grows_same: "dg_data_quality b = dg_data_quality a \<Longrightarrow> dq_grows a b"
  by (simp add: dq_grows_def)

lemma dq_grows_steps [growth]:
  "dq_grows dg (log_dq k x dg)" "dq_grows dg (warn c dg)" "dq_grows dg (warn_once c dg)"
  "dq_grows dg (push_plan plan dg)" "dq_grows dg (record_missing_fx_pair pair dg)"
  by (auto simp: dq_grows_def log_dq_def warn_def warn_once_def push_plan_def
      record_missing_fx_pair_def Let_def)

text \<open>If a log that only grows is unchanged at the end, it was unchanged all the way.\<close>

definition same_log :: "string \<Rightarrow> diagnostics \<Rightarrow> diagnostics \<Rightarrow> bool" where
  "same_log k a b \<longleftrightarrow> dict_list (dg_data_quality b) k = dict_list (dg_data_quality a) k"

lemma same_log_between:
  assumes "dq_grows a b" and "dq_grows b c" and "same_log k a c"
  shows "same_log k a b" and "same_log k b c"
  using assms by (auto simp: dq_grows_def same_log_def dest!: spec [of _ k] intro: prefix_order.antisym)

lemma same_log_push [simp]: "\<not> same_log k a (log_dq k x a)"
  by (simp add: same_log_def log_dq_def)

subsection \<open>Trades\<close>

definition run_grows :: "build_run \<Rightarrow> build_run \<Rightarrow> bool" where
  "run_grows r r' \<longleftrightarrow> dq_grows (br_diagnostics r) (br_diagnostics r')
     \<and> prefix (br_hard_failures r) (br_hard_failures r')"

definition run_clean :: "build_run \<Rightarrow> build_run \<Rightarrow> bool" where
  "run_clean r r' \<longleftrightarrow> br_hard_failures r' = br_hard_failures r
     \<and> same_log ''shelf_missing'' (br_diagnostics r) (br_diagnostics r')"

definition priced_trade :: "market_data \<Rightarrow> proposed_trade \<Rightarrow> bool" where
  "priced_trade md t \<longleftrightarrow> price_for_trade md (pt_instrument_id t) \<noteq> None"

definition logged_unpriced :: "proposed_trade \<Rightarrow> diagnostics \<Rightarrow> bool" where
  "logged_unpriced t dg \<longleftrightarrow> pt_instrument_id t \<in> set (dict_list (dg_data_quality dg) ''price_missing'')"

lemma logged_unpriced_grows: "dq_grows a b \<Longrightarrow> logged_unpriced t a \<Longrightarrow> logged_unpriced t b"
  by (auto simp: logged_unpriced_def dq_grows_def dest!: spec [of _ "''price_missing''"] set_mono_prefix)

lemma run_grows_refl [simp]: "run_grows r r"
  by (simp add: run_grows_def)

lemma run_grows_trans: "run_grows a b \<Longrightarrow> run_grows b c \<Longrightarrow> run_grows a c"
  by (auto simp: run_grows_def intro: dq_grows_trans)

lemma run_clean_between:
  assumes "run_grows a b" and "run_grows b c" and "run_clean a c"
  shows "run_clean a b" and "run_clean b c"
proof -
  have ab: "dq_grows (br_diagnostics a) (br_diagnostics b)" "prefix (br_hard_failures a) (br_hard_failures b)"
    and bc: "dq_grows (br_diagnostics b) (br_diagnostics c)" "prefix (br_hard_failures b) (br_hard_failures c)"
    using assms(1,2) by (simp_all add: run_grows_def)
  have "br_hard_failures b = br_hard_failures a"
    using ab(2) bc(2) assms(3) by (auto simp: run_clean_def intro: prefix_order.antisym)
  then show "run_clean a b" and "run_clean b c"
    using assms(3) same_log_between [OF ab(1) bc(1)] by (auto simp: run_clean_def)
qed

lemma hard_failure_grows [growth]: "run_grows r (hard_failure c r)"
  by (simp add: run_grows_def hard_failure_def growth)

lemma build_cash_flow_intents_grows:
  assumes "build_cash_flow_intents os idx cfs acc = (intents, pf', run')"
  shows "run_grows (snd acc) run' \<and> run_clean (snd acc) (run'\<lparr>br_hard_failures := br_hard_failures (snd acc)\<rparr>)"
  using assms
proof (induction cfs arbitrary: idx acc intents)
  case Nil
  then show ?case by (cases acc) (simp add: run_clean_def same_log_def)
next
  case (Cons cf cfs)
  obtain pf run where acc: "acc = (pf, run)" by (cases acc)
  let ?run = "record_negative_cash_failure_if_needed (apply_proposal_cash_flow cf pf) cf os run"
  have step: "run_grows run ?run"
    by (simp add: record_negative_cash_failure_if_needed_def growth)
  have logs: "same_log k (br_diagnostics run) (br_diagnostics ?run)" for k
    by (simp add: record_negative_cash_failure_if_needed_def hard_failure_def same_log_def warn_def)
  obtain rest where rest: "build_cash_flow_intents os (idx + 1) cfs (apply_proposal_cash_flow cf pf, ?run)
      = (rest, pf', run')"
    using Cons.prems by (auto simp: acc Let_def split: prod.splits)
  show ?case
    using Cons.IH [OF rest] run_grows_trans [OF step] logs
    by (auto simp: acc run_clean_def same_log_def)
qed

lemma notional_base_money_dq [growth]: "dq_grows dg (snd (notional_base_money md n b dg))"
  by (simp add: notional_base_money_def growth split: option.split)

lemma build_proposal_security_trade_intent_dq:
  assumes "build_proposal_security_trade_intent t md base iid dg = Inr (r, code, dg')"
  shows "dq_grows dg dg'" and "code = None \<Longrightarrow> r = None \<longleftrightarrow> \<not> priced_trade md t"
    and "\<not> priced_trade md t \<Longrightarrow> logged_unpriced t dg'"
  using assms
  by (auto simp: build_proposal_security_trade_intent_def bind_error_Inr_iff growth Let_def
      case_prod_beta priced_trade_def logged_unpriced_def split: option.splits)
     (simp add: log_dq_def)

lemma build_supported_security_trade_intent_dq:
  assumes "build_supported_security_trade_intent t md base iid run = Inr (r, run')"
  shows "run_grows run run'" and "run_clean run run' \<Longrightarrow> r = None \<longleftrightarrow> \<not> priced_trade md t"
    and "run_clean run run' \<Longrightarrow> r = None \<Longrightarrow> logged_unpriced t (br_diagnostics run')"
proof -
  obtain code dg where b: "build_proposal_security_trade_intent t md base iid (br_diagnostics run)
      = Inr (r, code, dg)"
    and run': "run' = (let run' = run\<lparr>br_diagnostics := dg\<rparr>
      in case code of None \<Rightarrow> run' | Some c \<Rightarrow> hard_failure c run')"
    using assms by (auto simp: build_supported_security_trade_intent_def bind_error_Inr_iff Let_def)
  note dq = build_proposal_security_trade_intent_dq [OF b]
  have "run_grows run (run\<lparr>br_diagnostics := dg\<rparr>)" using dq(1) by (simp add: run_grows_def)
  then show "run_grows run run'"
    using run_grows_trans [OF _ hard_failure_grows] by (auto simp: run' Let_def split: option.split)
  show "run_clean run run' \<Longrightarrow> r = None \<longleftrightarrow> \<not> priced_trade md t"
    and "run_clean run run' \<Longrightarrow> r = None \<Longrightarrow> logged_unpriced t (br_diagnostics run')"
    using dq(2,3) by (auto simp: run' Let_def run_clean_def hard_failure_def split: option.splits)
qed

lemma security_trade_intent_for_trade_dq:
  assumes "security_trade_intent_for_trade t shelf md base iid os run = Inr (r, run')"
  shows "run_grows run run'" and "run_clean run run' \<Longrightarrow> r = None \<longleftrightarrow> \<not> priced_trade md t"
    and "run_clean run run' \<Longrightarrow> r = None \<Longrightarrow> logged_unpriced t (br_diagnostics run')"
proof -
  have "run_grows run run' \<and> (run_clean run run' \<longrightarrow> (r = None \<longleftrightarrow> \<not> priced_trade md t)
      \<and> (r = None \<longrightarrow> logged_unpriced t (br_diagnostics run')))"
  proof (cases "dict_get shelf (pt_instrument_id t)")
    case None
    with assms show ?thesis
      by (auto simp: security_trade_intent_for_trade_def run_grows_def run_clean_def growth)
  next
    case (Some e)
    obtain b run1 where sup: "trade_is_supported_by_shelf t e os run = (b, run1)" by fastforce
    show ?thesis
    proof (cases b)
      case False
      then have "run' = hard_failure ''PROPOSAL_TRADE_NOT_SUPPORTED_BY_SHELF'' run"
        using assms Some sup
        by (auto simp: security_trade_intent_for_trade_def trade_is_supported_by_shelf_def split: if_splits)
      then show ?thesis by (simp add: growth) (simp add: run_clean_def hard_failure_def)
    next
      case True
      then have "run1 = run" and "build_supported_security_trade_intent t md base iid run1 = Inr (r, run')"
        using assms Some sup
        by (auto simp: security_trade_intent_for_trade_def trade_is_supported_by_shelf_def split: if_splits)
      then have b: "build_supported_security_trade_intent t md base iid run = Inr (r, run')" by simp
      from build_supported_security_trade_intent_dq [OF b] show ?thesis by blast
    qed
  qed
  then show "run_grows run run'" and "run_clean run run' \<Longrightarrow> r = None \<longleftrightarrow> \<not> priced_trade md t"
    and "run_clean run run' \<Longrightarrow> r = None \<Longrightarrow> logged_unpriced t (br_diagnostics run')"
    by simp_all
qed

definition trade_key :: "trade_intent \<Rightarrow> string \<times> trade_side" where
  "trade_key i = (ti_instrument_id i, ti_side i)"

definition proposed_key :: "proposed_trade \<Rightarrow> string \<times> trade_side" where
  "proposed_key t = (pt_instrument_id t, pt_side t)"

lemma build_security_trade_intents_complete:
  assumes "build_security_trade_intents shelf md base os idx ts run = Inr (intents, run')"
  shows "run_grows run run' \<and> (run_clean run run' \<longrightarrow>
      map trade_key intents = map proposed_key (filter (priced_trade md) ts)
      \<and> (\<forall>t\<in>set ts. \<not> priced_trade md t \<longrightarrow> logged_unpriced t (br_diagnostics run')))"
  using assms
proof (induction ts arbitrary: idx run intents)
  case Nil
  then show ?case by simp
next
  case (Cons t ts)
  then obtain r run1 rest where
    r: "security_trade_intent_for_trade t shelf md base (trade_intent_id (idx + 1)) os run = Inr (r, run1)"
    and rest: "build_security_trade_intents shelf md base os (idx + 1) ts run1 = Inr (rest, run')"
    and intents: "intents = (case r of None \<Rightarrow> rest | Some i \<Rightarrow> i # rest)"
    by (auto simp: bind_error_Inr_iff trade_intent_id_def)
  note step = security_trade_intent_for_trade_dq [OF r] and IH = Cons.IH [OF rest]
  have grows: "run_grows run run'" using run_grows_trans [OF step(1)] IH by blast
  have "map trade_key intents = map proposed_key (filter (priced_trade md) (t # ts))
      \<and> (\<forall>u\<in>set (t # ts). \<not> priced_trade md u \<longrightarrow> logged_unpriced u (br_diagnostics run'))"
    if clean: "run_clean run run'"
  proof (cases r)
    case None
    note between = run_clean_between [OF step(1) conjunct1 [OF IH] clean]
    have "logged_unpriced t (br_diagnostics run')"
      using step(3) [OF between(1) None] logged_unpriced_grows IH by (auto simp: run_grows_def)
    with None IH between(2) intents step(2) [OF between(1)] show ?thesis by simp
  next
    case (Some i)
    note between = run_clean_between [OF step(1) conjunct1 [OF IH] clean]
    have "trade_key i = proposed_key t"
      using security_trade_intent_for_trade_ok(1) [OF r Some]
      by (simp add: intent_of_trade_def trade_key_def proposed_key_def)
    with Some IH between(2) intents step(2) [OF between(1)] show ?thesis by simp
  qed
  with grows show ?case by blast
qed


subsection \<open>Funding\<close>

text \<open>An unfunded currency is a hard failure or a reason for review.\<close>

definition unfunded_reported :: "funding_state \<Rightarrow> bool" where
  "unfunded_reported st \<longleftrightarrow> fd_unfunded st = [] \<or> fd_hard_failures st \<noteq> [] \<or> fd_pending st"

definition fd_grows :: "funding_state \<Rightarrow> funding_state \<Rightarrow> bool" where
  "fd_grows a b \<longleftrightarrow> dq_grows (fd_diagnostics a) (fd_diagnostics b)"

lemma select_funding_source_loop_dq:
  assumes "select_funding_source_loop md t need fs acc = Inr (sel, pf', dg', deficit')"
  shows "dq_grows (fst (snd acc)) dg'"
  using assms
proof (induction fs arbitrary: acc)
  case Nil
  then show ?case by (cases acc) auto
next
  case (Cons f fs)
  obtain pf dg deficit where acc: "acc = (pf, dg, deficit)" by (cases acc)
  show ?case
  proof (cases "get_fx_rate md t f")
    case None
    then have "select_funding_source_loop md t need fs
        (pf, record_missing_fx_pair (fx_pair t f) dg, deficit) = Inr (sel, pf', dg', deficit')"
      using Cons.prems acc by simp
    from Cons.IH [OF this] dq_grows_trans [OF dq_grows_steps(5)] show ?thesis by (simp add: acc)
  next
    case (Some rate)
    then obtain q where "quantize_amount_for_currency (dec_mul need rate) f = Inr q"
      using Cons.prems acc by (auto simp: bind_error_Inr_iff)
    with Some Cons.prems acc show ?thesis
      by (auto simp: Let_def split: if_splits dest: Cons.IH)
  qed
qed

lemma record_unfunded_reported:
  assumes "record_unfunded_target_currency os t deficit plan st = Inr (p, st')"
  shows "p \<or> fd_hard_failures st' \<noteq> []" and "fd_grows st st'" and "fd_pending st' = fd_pending st"
  using assms
  by (auto simp: record_unfunded_target_currency_def record_missing_fx_funding_failure_def Let_def
      fd_grows_def bind_error_Inr_iff push_plan_def warn_once_def warn_def dq_grows_same
      split: if_splits option.splits)

lemma record_funding_fx_intent_keeps:
  assumes "record_funding_fx_intent t need s plan st = Inr st'"
  shows "fd_hard_failures st' = fd_hard_failures st" and "fd_pending st' = fd_pending st"
    and "fd_unfunded st' = fd_unfunded st" and "fd_grows st st'"
  using assms
  by (auto simp: record_funding_fx_intent_def bind_error_Inr_iff Let_def fd_grows_def growth)

lemma fund_target_currency_reported:
  assumes "fund_target_currency md os t buys st = Inr (p, st')" and "unfunded_reported st"
  shows "unfunded_reported (st'\<lparr>fd_pending := p \<or> fd_pending st'\<rparr>) \<and> fd_grows st st'"
proof -
  define st0 where "st0 = st\<lparr>fd_portfolio := ensure_cash_balance t (fd_portfolio st)\<rparr>"
  obtain need plan where need: "target_currency_funding_need t buys (fd_portfolio st0) = Inr (need, plan)"
    using assms by (auto simp: fund_target_currency_def Let_def bind_error_Inr_iff st0_def)
  show ?thesis
  proof (cases "need \<le> 0")
    case True
    then show ?thesis using assms need
      by (auto simp: fund_target_currency_def Let_def st0_def unfunded_reported_def fd_grows_def growth)
  next
    case False
    then obtain sel pf dg deficit where
      sel: "select_funding_source md os t need (fd_portfolio st0) (fd_diagnostics st0)
              = Inr (sel, pf, dg, deficit)"
      using assms need by (auto simp: fund_target_currency_def Let_def bind_error_Inr_iff st0_def)
    define st1 where "st1 = st0\<lparr>fd_portfolio := pf, fd_diagnostics := dg\<rparr>"
    have grows: "fd_grows st st1"
      using select_funding_source_loop_dq [OF sel [unfolded select_funding_source_def]]
      by (simp add: fd_grows_def st1_def st0_def)
    show ?thesis
    proof (cases sel)
      case None
      then have "record_unfunded_target_currency os t deficit plan st1 = Inr (p, st')"
        using assms need False sel by (simp add: fund_target_currency_def Let_def st0_def st1_def)
      note r = record_unfunded_reported [OF this]
      from r(1) grows dq_grows_trans r(2) show ?thesis by (auto simp: unfunded_reported_def fd_grows_def)
    next
      case (Some s)
      then have r: "record_funding_fx_intent t need s plan st1 = Inr st'"
        using assms need False sel
        by (auto simp: fund_target_currency_def Let_def bind_error_Inr_iff st0_def st1_def)
      note k = record_funding_fx_intent_keeps [OF r]
      have "unfunded_reported (st'\<lparr>fd_pending := p \<or> fd_pending st'\<rparr>)"
        using assms(2) k(1-3) by (auto simp: unfunded_reported_def st1_def st0_def)
      with grows dq_grows_trans k(4) show ?thesis by (auto simp: fd_grows_def)
    qed
  qed
qed

lemma fund_step_reported:
  assumes "fund_step md os grouped t st = Inr st'" and "unfunded_reported st"
  shows "unfunded_reported st' \<and> fd_grows st st'"
proof -
  from assms(1) obtain p st1 where a: "fund_target_currency md os t (dict_list grouped t) st = Inr (p, st1)"
    and st': "st' = st1\<lparr>fd_pending := p \<or> fd_pending st1\<rparr>"
    by (auto simp: fund_step_def bind_error_Inr_iff)
  from fund_target_currency_reported [OF a assms(2)] show ?thesis by (simp add: st' fd_grows_def)
qed

lemma build_auto_funding_plan_reported:
  assumes "build_auto_funding_plan md os buys pf dg = Inr st"
  shows "unfunded_reported st \<and> dq_grows dg (fd_diagnostics st)"
  using assms
proof (rule build_auto_funding_plan_run)
  fix ts grouped
  assume r: "fold_error (fund_step md os grouped) ts (initial_funding_state pf dg) = Inr st"
  have init: "unfunded_reported (initial_funding_state pf dg)
      \<and> dq_grows dg (fd_diagnostics (initial_funding_state pf dg))"
    by (simp add: unfunded_reported_def initial_funding_state_def)
  show ?thesis
    using r init
    by (rule fold_error_invariant) (use fund_step_reported dq_grows_trans in \<open>auto simp: fd_grows_def\<close>)
qed

subsection \<open>The plan\<close>

primrec security_intents :: "order_intent list \<Rightarrow> trade_intent list" where
  "security_intents [] = []"
| "security_intents (i # is) = (case i of SecurityTradeIntent t \<Rightarrow> t # security_intents is
     | _ \<Rightarrow> security_intents is)"

lemma security_intents_append [simp]: "security_intents (a @ b) = security_intents a @ security_intents b"
  by (induction a) (auto split: order_intent.split)

lemma security_intents_map [simp]:
  "security_intents (map SecurityTradeIntent ts) = ts"
  "security_intents (map CashFlowIntent cs) = []"
  "security_intents (map FxSpotIntent fs) = []"
  by (induction ts; induction cs; induction fs; simp)+

lemma apply_executable_buy_intents_dq:
  "apply_executable_buy_intents unfunded is acc = (exec, pf', dg') \<Longrightarrow> dg_data_quality dg' = dg_data_quality (snd acc)"
proof (induction "is" arbitrary: acc exec)
  case Nil
  then show ?case by (cases acc) simp
next
  case (Cons i "is")
  then show ?case
    by (cases acc) (auto simp: warn_once_def warn_def split: option.splits if_splits prod.splits
        dest!: Cons.IH)
qed

lemma link_keys: "map trade_key (link_buy_intent_dependencies is fx b) = map trade_key is"
  by (auto simp: link_buy_intent_dependencies_def Let_def trade_key_def split: option.splits)

lemma mset_sorted_security_intents:
  "mset (sorted_security_intents_by_instrument is SD_SELL)
     + mset (sorted_security_intents_by_instrument is SD_BUY) = mset is"
proof (induction "is")
  case (Cons i "is")
  then show ?case
    by (cases "ti_side i") (simp_all add: sorted_security_intents_by_instrument_def)
qed (simp add: sorted_security_intents_by_instrument_def)

text \<open>
  A plan that finds every product on the shelf, has no hard failure and forces no review has one
  order intent for every proposed trade that has a price, and logs every other one.
\<close>

lemma build_simulation_intent_plan_complete:
  assumes "build_simulation_intent_plan pf md shelf os cfs trades dg = Inr (plan, dg')"
  shows "dq_grows dg dg'"
    and "ip_hard_failures plan = [] \<Longrightarrow> \<not> ip_force_pending_review plan
      \<Longrightarrow> same_log ''shelf_missing'' dg dg'
      \<Longrightarrow> mset (map trade_key (security_intents (ip_intents plan)))
            = mset (map proposed_key (filter (priced_trade md) trades))
          \<and> (\<forall>t\<in>set trades. \<not> priced_trade md t \<longrightarrow> logged_unpriced t dg')"
proof -
  have "dq_grows dg dg' \<and> (ip_hard_failures plan = [] \<longrightarrow> \<not> ip_force_pending_review plan
      \<longrightarrow> same_log ''shelf_missing'' dg dg'
      \<longrightarrow> mset (map trade_key (security_intents (ip_intents plan)))
            = mset (map proposed_key (filter (priced_trade md) trades))
          \<and> (\<forall>t\<in>set trades. \<not> priced_trade md t \<longrightarrow> logged_unpriced t dg'))"
    using assms
  proof (rule build_simulation_intent_planE)
    fix cf_intents pf1 run1 intents run2 sells buys fd exec linked
    assume cf: "build_cash_flow_intents os 0 cfs (pf, \<lparr>br_diagnostics = dg, br_hard_failures = []\<rparr>)
        = (cf_intents, pf1, run1)"
      and t: "build_security_trade_intents (shelf_index shelf) md (pf_base_currency pf) os 0 trades run1
        = Inr (intents, run2)"
      and sells: "sells = sorted_security_intents_by_instrument intents SD_SELL"
      and buys: "buys = sorted_security_intents_by_instrument intents SD_BUY"
      and f: "build_auto_funding_plan md os buys (apply_sell_intents sells pf1) (br_diagnostics run2) = Inr fd"
      and exec: "exec = filter (\<lambda>i. mo_currency (the (ti_notional i)) \<notin> set (fd_unfunded fd)) buys"
      and linked: "linked = drop (length sells) (link_buy_intent_dependencies (sells @ exec)
        (fd_fx_by_currency fd) (eo_link_buy_to_same_currency_sell_dependency os = Some True))"
      and plan: "ip_intents plan = map CashFlowIntent cf_intents @ map SecurityTradeIntent sells
       @ map FxSpotIntent (sort_key fi_pair (fd_fx_intents fd)) @ map SecurityTradeIntent linked"
      "ip_hard_failures plan = br_hard_failures run2 @ fd_hard_failures fd"
      "ip_force_pending_review plan = fd_pending fd"
      and x: "apply_executable_buy_intents (fd_unfunded fd) buys (fd_portfolio fd, fd_diagnostics fd)
        = (exec, ip_after_portfolio plan, dg')"
    note grows_cf = build_cash_flow_intents_grows [OF cf]
      and grows_t = build_security_trade_intents_complete [OF t]
      and grows_f = build_auto_funding_plan_reported [OF f]
    have dg1: "dq_grows dg (br_diagnostics run1)" using grows_cf by (simp add: run_grows_def)
    have dg12: "dq_grows (br_diagnostics run1) (br_diagnostics run2)"
      using grows_t by (simp add: run_grows_def)
    have dg3: "dq_grows (br_diagnostics run2) dg'"
      using grows_f apply_executable_buy_intents_dq [OF x] by (simp add: dq_grows_def)
    note all = dq_grows_trans [OF dg1 dq_grows_trans [OF dg12 dg3]]
    have "mset (map trade_key (security_intents (ip_intents plan)))
          = mset (map proposed_key (filter (priced_trade md) trades))
        \<and> (\<forall>t\<in>set trades. \<not> priced_trade md t \<longrightarrow> logged_unpriced t dg')"
      if clean: "ip_hard_failures plan = []" "\<not> ip_force_pending_review plan"
        and logs: "same_log ''shelf_missing'' dg dg'"
    proof -
      have "fd_unfunded fd = []" using grows_f clean plan by (simp add: unfunded_reported_def)
      then have exec_all: "exec = buys" by (simp add: exec)
      have "same_log k (br_diagnostics run1) (br_diagnostics run2)" if "same_log k dg dg'" for k
        using same_log_between(2) [OF dg1 dq_grows_trans [OF dg12 dg3] that]
          same_log_between(1) [OF dg12 dg3] by blast
      moreover have "br_hard_failures run2 = br_hard_failures run1"
        using clean plan grows_t by (auto simp: run_grows_def)
      ultimately have "run_clean run1 run2" using logs by (simp add: run_clean_def)
      then have keys: "map trade_key intents = map proposed_key (filter (priced_trade md) trades)"
        and unpriced: "\<forall>t\<in>set trades. \<not> priced_trade md t \<longrightarrow> logged_unpriced t (br_diagnostics run2)"
        using grows_t by blast+
      have "map trade_key sells @ map trade_key linked = map trade_key (sells @ buys)"
      proof -
        have "map trade_key linked = drop (length sells) (map trade_key (sells @ buys))"
          by (simp add: linked exec_all drop_map [symmetric] link_keys)
        then show ?thesis by simp
      qed
      then have "mset (map trade_key (security_intents (ip_intents plan)))
          = image_mset trade_key (mset sells + mset buys)"
        by (simp add: plan flip: mset_map mset_append map_append)
      also have "mset sells + mset buys = mset intents"
        using mset_sorted_security_intents [of intents] by (simp add: sells buys)
      finally have "mset (map trade_key (security_intents (ip_intents plan)))
          = mset (map proposed_key (filter (priced_trade md) trades))"
        using keys by (metis mset_map)
      then show ?thesis using unpriced logged_unpriced_grows [OF dg3] by blast
    qed
    with all show ?thesis by blast
  qed
  then show "dq_grows dg dg'"
    and "ip_hard_failures plan = [] \<Longrightarrow> \<not> ip_force_pending_review plan
      \<Longrightarrow> same_log ''shelf_missing'' dg dg'
      \<Longrightarrow> mset (map trade_key (security_intents (ip_intents plan)))
            = mset (map proposed_key (filter (priced_trade md) trades))
          \<and> (\<forall>t\<in>set trades. \<not> priced_trade md t \<longrightarrow> logged_unpriced t dg')"
    by blast+
qed

end
