(* ===== verification/Plan_Execution.thy ===== *)
theory Plan_Execution
  imports Plan_Outcome
begin

text \<open>
  What executing the order intents of a plan does: the identifiers are unique, every dependency is
  an earlier intent, a buy depends on exactly the conversion and the sell that fund it, and the
  intents executed in their order turn the portfolio of the request into the simulated one.
\<close>

subsection \<open>The intents of a plan\<close>

lemma cash_flow_intent_ids:
  assumes "build_cash_flow_intents os 0 cfs acc = (intents, pf', run')"
  shows "map ci_intent_id intents = map (\<lambda>n. ''oi_cf_'' @ string_of_nat (n + 1)) [0..<length cfs]"
  by (rule nth_equalityI)
    (simp_all add: build_cash_flow_intents_run(1) [OF assms] cash_flow_intent_of_def)

text \<open>An executable buy of the plan and the trade it was built for.\<close>

definition executes_trade ::
  "shelf_entry list \<Rightarrow> market_data \<Rightarrow> engine_options \<Rightarrow> proposed_trade \<Rightarrow> trade_intent \<Rightarrow> bool" where
  "executes_trade shelf md os t i \<longleftrightarrow> ti_instrument_id i = pt_instrument_id t \<and> ti_side i = pt_side t
     \<and> (\<exists>e. dict_get (shelf_index shelf) (pt_instrument_id t) = Some e \<and> tradable os e (pt_side t))
     \<and> (\<exists>price n q. price_for_trade md (pt_instrument_id t) = Some price
          \<and> ti_notional i = Some n \<and> ti_quantity i = Some q \<and> mo_currency n = px_currency price
          \<and> (case pt_quantity t of Some q' \<Rightarrow> q = q' \<and> mo_amount n = dec_mul q (px_price price)
             | None \<Rightarrow> pt_notional t = Some n \<and> dec_div (mo_amount n) (px_price price) = Inr q))"

lemma intent_of_trade_executes:
  "intent_of_trade (shelf_index shelf) md os t i \<Longrightarrow> executes_trade shelf md os t i"
  by (auto simp: intent_of_trade_def executes_trade_def)

subsection \<open>Dependencies of linked buys\<close>

definition linked_dependencies :: "trade_intent list \<Rightarrow> (string, string) dict \<Rightarrow> bool \<Rightarrow> string \<Rightarrow> string set" where
  "linked_dependencies is fx b c = set_option (dict_get fx c)
     \<union> (if b then set_option (dict_get (sell_intent_id_by_currency is b) c) else {})"

lemma link_nth:
  assumes "k < length is" and "ti_dependencies (is ! k) = []"
  shows "let i' = link_buy_intent_dependencies is fx b ! k
     in ti_notional i' = ti_notional (is ! k) \<and> ti_side i' = ti_side (is ! k)
        \<and> ti_instrument_id i' = ti_instrument_id (is ! k) \<and> ti_quantity i' = ti_quantity (is ! k)
        \<and> set (ti_dependencies i') = (case ti_notional (is ! k) of None \<Rightarrow> {}
             | Some n \<Rightarrow> if ti_side (is ! k) = SD_BUY then linked_dependencies is fx b (mo_currency n) else {})"
  using assms
  by (auto simp: link_buy_intent_dependencies_def linked_dependencies_def Let_def split: option.splits)

lemma sell_intent_id_by_currency_exact:
  "dict_get (sell_intent_id_by_currency is True) c = Some d \<Longrightarrow>
     \<exists>i\<in>set is. ti_side i = SD_SELL \<and> ti_intent_id i = d \<and> map_option mo_currency (ti_notional i) = Some c"
  "dict_get (sell_intent_id_by_currency is True) c = None \<longleftrightarrow>
     \<not> (\<exists>i\<in>set is. ti_side i = SD_SELL \<and> map_option mo_currency (ti_notional i) = Some c)"
proof -
  define step where "step = (\<lambda>(i :: trade_intent) d. case ti_notional i of
      Some n \<Rightarrow> (if ti_side i = SD_SELL then dict_set (mo_currency n) (ti_intent_id i) d else d)
    | None \<Rightarrow> (d :: (string, string) dict))"
  have def: "sell_intent_id_by_currency is True = fold step is []"
    by (simp add: sell_intent_id_by_currency_def step_def)
  have "dict_get (fold step is acc) c = Some d \<Longrightarrow> dict_get acc c = Some d
      \<or> (\<exists>i\<in>set is. ti_side i = SD_SELL \<and> ti_intent_id i = d \<and> map_option mo_currency (ti_notional i) = Some c)" for acc
  proof (induction "is" arbitrary: acc)
    case (Cons i "is")
    from Cons.IH [of "step i acc"] Cons.prems show ?case
      by (auto simp: step_def split: option.splits if_splits)
  qed simp
  from this [of "[]"] show "dict_get (sell_intent_id_by_currency is True) c = Some d \<Longrightarrow>
     \<exists>i\<in>set is. ti_side i = SD_SELL \<and> ti_intent_id i = d \<and> map_option mo_currency (ti_notional i) = Some c"
    by (simp add: def)
  have "dict_get (fold step is acc) c = None \<longleftrightarrow> dict_get acc c = None
      \<and> \<not> (\<exists>i\<in>set is. ti_side i = SD_SELL \<and> map_option mo_currency (ti_notional i) = Some c)" for acc
  proof (induction "is" arbitrary: acc)
    case (Cons i "is")
    from Cons.IH [of "step i acc"] show ?case
      by (auto simp: step_def split: option.splits if_splits)
  qed simp
  from this [of "[]"] show "dict_get (sell_intent_id_by_currency is True) c = None \<longleftrightarrow>
     \<not> (\<exists>i\<in>set is. ti_side i = SD_SELL \<and> map_option mo_currency (ti_notional i) = Some c)"
    by (simp add: def)
qed

subsection \<open>The order of the conversions\<close>

lemma fund_all_order:
  assumes "fold_error (fund_step md os grouped) ts st = Inr st'"
  shows "\<exists>fxs. fd_fx_intents st' = fd_fx_intents st @ fxs \<and> subseq (map fi_buy_currency fxs) ts
    \<and> (\<forall>fx\<in>set fxs. fi_pair fx = fx_pair (fi_buy_currency fx) (fi_sell_currency fx))"
  using assms
proof (induction ts arbitrary: st)
  case Nil
  then show ?case by (intro exI [of _ "[]"]) simp
next
  case (Cons t ts)
  then obtain st1 where s: "fund_step md os grouped t st = Inr st1"
    and r: "fold_error (fund_step md os grouped) ts st1 = Inr st'"
    by (auto simp: bind_error_Inr_iff)
  obtain fxs where fxs: "fd_fx_intents st' = fd_fx_intents st1 @ fxs" "subseq (map fi_buy_currency fxs) ts"
    "\<forall>fx\<in>set fxs. fi_pair fx = fx_pair (fi_buy_currency fx) (fi_sell_currency fx)"
    using Cons.IH [OF r] by blast
  from fund_step_step [OF s] show ?case
  proof (elim disjE exE)
    assume "unfunded_step t st st1"
    with fxs show ?thesis by (intro exI [of _ fxs]) (simp add: unfunded_step_def list_emb_Cons)
  next
    fix fx assume "funded_step t fx st st1"
    with fxs show ?thesis by (intro exI [of _ "fx # fxs"]) (simp add: funded_step_def)
  qed
qed

lemma subseq_set: "subseq xs ys \<Longrightarrow> set xs \<subseteq> set ys"
  by (induction rule: list_emb.induct) auto

lemma sorted_subseq:
  assumes "subseq xs ys" and "sorted ys" and "distinct ys" shows "sorted xs \<and> distinct xs"
  using assms by (induction rule: list_emb.induct) (auto dest: subseq_set)

lemma less_append_same_length:
  "length a = length b \<Longrightarrow> a < b \<Longrightarrow> a @ x < b @ (y :: string)"
  by (induction a b rule: list_induct2) auto

text \<open>Currency codes of one length: the order of the pairs is the order of the funded currencies.\<close>

lemma sort_pairs_is_funding_order:
  assumes "sorted (map fi_buy_currency fxs)" and "distinct (map fi_buy_currency fxs)"
    and "\<forall>fx\<in>set fxs. length (fi_buy_currency fx) = k
      \<and> fi_pair fx = fx_pair (fi_buy_currency fx) (fi_sell_currency fx)"
  shows "sort_key fi_pair fxs = fxs"
proof -
  have "sorted (map fi_pair fxs)"
    using assms
  proof (induction fxs)
    case (Cons fx fxs)
    have "fi_pair fx \<le> fi_pair fx'" if "fx' \<in> set fxs" for fx'
    proof -
      have "fi_buy_currency fx < fi_buy_currency fx'"
        using that Cons.prems(1,2) by (auto simp: less_le)
      with that Cons.prems(3) show ?thesis
        by (auto simp: fx_pair_def intro!: less_imp_le less_append_same_length)
    qed
    with Cons show ?case by simp
  qed simp
  then show ?thesis by (rule sort_key_id_if_sorted)
qed

lemma build_auto_funding_plan_order:
  assumes "build_auto_funding_plan md os buys pf dg = Inr st"
    and "\<forall>i\<in>set buys. \<forall>n. ti_notional i = Some n \<longrightarrow> length (mo_currency n) = k"
  shows "sort_key fi_pair (fd_fx_intents st) = fd_fx_intents st"
  using assms(1)
proof (rule build_auto_funding_plan_run)
  fix ts grouped
  assume d: "distinct ts" "sorted ts"
    and ts: "\<forall>t\<in>set ts. \<exists>i\<in>set buys. \<exists>n. ti_notional i = Some n \<and> mo_currency n = t"
    and r: "fold_error (fund_step md os grouped) ts (initial_funding_state pf dg) = Inr st"
  obtain fxs where fxs: "fd_fx_intents st = fxs" "subseq (map fi_buy_currency fxs) ts"
    "\<forall>fx\<in>set fxs. fi_pair fx = fx_pair (fi_buy_currency fx) (fi_sell_currency fx)"
    using fund_all_order [OF r] by (auto simp: initial_funding_state_def)
  have "sorted (map fi_buy_currency fxs)" and "distinct (map fi_buy_currency fxs)"
    using sorted_subseq [OF fxs(2)] d by simp_all
  moreover have "length (fi_buy_currency fx) = k" if "fx \<in> set fxs" for fx
    using that ts assms(2) subseq_set [OF fxs(2)] by force
  ultimately show ?thesis
    using sort_pairs_is_funding_order [of fxs k] fxs(1,3) by simp
qed


subsection \<open>The shape of a plan\<close>

lemma sell_ids_append_buys:
  assumes "\<forall>i\<in>set buys. ti_side i = SD_BUY"
  shows "sell_intent_id_by_currency (sells @ buys) b = sell_intent_id_by_currency sells b"
proof -
  have "fold (\<lambda>i d. case ti_notional i of
      Some n \<Rightarrow> (if ti_side i = SD_SELL then dict_set (mo_currency n) (ti_intent_id i) d else d)
    | None \<Rightarrow> d) buys acc = acc" for acc
    using assms by (induction buys arbitrary: acc) (auto split: option.split)
  then show ?thesis by (simp add: sell_intent_id_by_currency_def)
qed

lemma map_nth_eqD: "map f xs = map f ys \<Longrightarrow> k < length xs \<Longrightarrow> f (xs ! k) = f (ys ! k)"
  by (metis length_map nth_map)

definition buy_dependencies :: "fx_intent list \<Rightarrow> trade_intent list \<Rightarrow> bool \<Rightarrow> string \<Rightarrow> string set" where
  "buy_dependencies fxs sells link c = {fi_intent_id fx |fx. fx \<in> set fxs \<and> fi_buy_currency fx = c}
     \<union> (if link then set_option (dict_get (sell_intent_id_by_currency sells True) c) else {})"

lemma linked_dependencies_eq:
  assumes "funding_ok fd" and "\<forall>i\<in>set exec. ti_side i = SD_BUY"
  shows "linked_dependencies (sells @ exec) (fd_fx_by_currency fd) link c
    = buy_dependencies (fd_fx_intents fd) sells link c"
proof -
  have "set_option (dict_get (fd_fx_by_currency fd) c)
      = {fi_intent_id fx |fx. fx \<in> set (fd_fx_intents fd) \<and> fi_buy_currency fx = c}"
  proof (rule set_eqI)
    fix d
    have "dict_get (fd_fx_by_currency fd) c = Some d
        \<longleftrightarrow> (\<exists>fx\<in>set (fd_fx_intents fd). fi_buy_currency fx = c \<and> fi_intent_id fx = d)"
      using assms(1) by (simp add: funding_ok_def)
    then show "d \<in> set_option (dict_get (fd_fx_by_currency fd) c)
        \<longleftrightarrow> d \<in> {fi_intent_id fx |fx. fx \<in> set (fd_fx_intents fd) \<and> fi_buy_currency fx = c}"
      by auto
  qed
  then show ?thesis
    by (simp add: linked_dependencies_def buy_dependencies_def sell_ids_append_buys [OF assms(2)])
qed

lemma linked_buys:
  fixes fx link
  assumes sells: "\<forall>i\<in>set sells. ti_side i = SD_SELL"
    and exec: "\<forall>i\<in>set exec. ti_side i = SD_BUY \<and> ti_dependencies i = []"
  defines "linked \<equiv> drop (length sells) (link_buy_intent_dependencies (sells @ exec) fx link)"
  shows "map ti_intent_id linked = map ti_intent_id exec"
    and "\<forall>i\<in>set linked. \<exists>j\<in>set exec. ti_notional i = ti_notional j \<and> ti_side i = ti_side j
       \<and> ti_instrument_id i = ti_instrument_id j \<and> ti_quantity i = ti_quantity j
       \<and> ti_intent_id i = ti_intent_id j
       \<and> (\<forall>n. ti_notional i = Some n \<longrightarrow> set (ti_dependencies i)
             = linked_dependencies (sells @ exec) fx link (mo_currency n))"
proof -
  let ?all = "link_buy_intent_dependencies (sells @ exec) fx link"
  show ids: "map ti_intent_id linked = map ti_intent_id exec"
    using link_keeps(1) [of "sells @ exec" fx link] by (simp add: linked_def drop_map [symmetric])
  have len: "length ?all = length sells + length exec" by (simp add: link_buy_intent_dependencies_def Let_def)
  show "\<forall>i\<in>set linked. \<exists>j\<in>set exec. ti_notional i = ti_notional j \<and> ti_side i = ti_side j
       \<and> ti_instrument_id i = ti_instrument_id j \<and> ti_quantity i = ti_quantity j
       \<and> ti_intent_id i = ti_intent_id j
       \<and> (\<forall>n. ti_notional i = Some n \<longrightarrow> set (ti_dependencies i)
             = linked_dependencies (sells @ exec) fx link (mo_currency n))"
  proof
    fix i assume "i \<in> set linked"
    then obtain k where k: "k < length exec" "i = linked ! k"
      using ids by (metis in_set_conv_nth length_map)
    then have i: "i = ?all ! (length sells + k)" using len by (simp add: linked_def)
    have mem: "exec ! k \<in> set exec" using k by simp
    have "(sells @ exec) ! (length sells + k) = exec ! k" by simp
    then have "ti_notional i = ti_notional (exec ! k) \<and> ti_side i = ti_side (exec ! k)
       \<and> ti_instrument_id i = ti_instrument_id (exec ! k) \<and> ti_quantity i = ti_quantity (exec ! k)
       \<and> (\<forall>n. ti_notional i = Some n \<longrightarrow> set (ti_dependencies i)
             = linked_dependencies (sells @ exec) fx link (mo_currency n))"
      using link_nth [of "length sells + k" "sells @ exec" fx link] k(1) exec mem i by (simp add: Let_def)
    moreover have "ti_intent_id i = ti_intent_id (exec ! k)"
      using map_nth_eqD [OF ids, of k] k ids by (metis length_map)
    ultimately show "\<exists>j\<in>set exec. ti_notional i = ti_notional j \<and> ti_side i = ti_side j
       \<and> ti_instrument_id i = ti_instrument_id j \<and> ti_quantity i = ti_quantity j
       \<and> ti_intent_id i = ti_intent_id j
       \<and> (\<forall>n. ti_notional i = Some n \<longrightarrow> set (ti_dependencies i)
             = linked_dependencies (sells @ exec) fx link (mo_currency n))"
      using mem by blast
  qed
qed

lemma distinct_map_sort_key [simp]: "distinct (map f (sort_key k xs)) = distinct (map f xs)"
  by (simp add: distinct_map)

lemma sorted_security_intents_distinct:
  assumes "distinct (map ti_intent_id intents)"
  shows "distinct (map ti_intent_id (sorted_security_intents_by_instrument intents SD_SELL
    @ filter P (sorted_security_intents_by_instrument intents SD_BUY)))"
proof -
  let ?s = "sorted_security_intents_by_instrument intents SD_SELL"
    and ?b = "sorted_security_intents_by_instrument intents SD_BUY"
  have "mset (map ti_intent_id (?s @ ?b)) = mset (map ti_intent_id intents)"
    by (simp flip: mset_sorted_security_intents [of intents])
  then have "distinct (map ti_intent_id (?s @ ?b))"
    using assms mset_eq_imp_distinct_iff by blast
  then show ?thesis by (auto simp: distinct_map_filter)
qed

lemma plan_shape:
  assumes "build_simulation_intent_plan pf md shelf os cfs trades dg = Inr (plan, dg')"
  obtains cfis sells fxs buys where
    "ip_intents plan = map CashFlowIntent cfis @ map SecurityTradeIntent sells
       @ map FxSpotIntent fxs @ map SecurityTradeIntent buys"
    "map ci_intent_id cfis = map (\<lambda>n. ''oi_cf_'' @ string_of_nat (n + 1)) [0..<length cfs]"
    "\<forall>i\<in>set sells \<union> set buys. (\<exists>t\<in>set trades. executes_trade shelf md os t i)
       \<and> (\<exists>n. ti_intent_id i = trade_intent_id n)"
    "distinct (map ti_intent_id (sells @ buys))"
    "\<forall>i\<in>set sells. ti_side i = SD_SELL \<and> ti_dependencies i = []"
    "\<forall>i\<in>set buys. ti_side i = SD_BUY \<and> (\<forall>n. ti_notional i = Some n \<longrightarrow>
       set (ti_dependencies i) = buy_dependencies fxs sells
         (eo_link_buy_to_same_currency_sell_dependency os = Some True) (mo_currency n))"
    "\<forall>fx\<in>set fxs. fi_dependencies fx = [] \<and> (\<exists>n. fi_intent_id fx = fx_intent_id n)
       \<and> 0 \<le> fi_buy_amount fx \<and> fi_sell_currency fx \<noteq> fi_buy_currency fx"
    "distinct (map fi_intent_id fxs)" "distinct (map fi_buy_currency fxs)"
  using assms
proof (rule build_simulation_intent_planE)
  fix cf_intents pf1 run1 intents run2 sells buys fd exec linked
  assume cf: "build_cash_flow_intents os 0 cfs (pf, \<lparr>br_diagnostics = dg, br_hard_failures = []\<rparr>)
      = (cf_intents, pf1, run1)"
    and t: "build_security_trade_intents (shelf_index shelf) md (pf_base_currency pf) os 0 trades run1
      = Inr (intents, run2)"
    and sells: "sells = sorted_security_intents_by_instrument intents SD_SELL"
    and buys: "buys = sorted_security_intents_by_instrument intents SD_BUY"
    and f: "build_auto_funding_plan md os buys (apply_sell_intents sells pf1) (br_diagnostics run2) = Inr fd"
    and exec: "exec = filter (\<lambda>i. mo_currency (the (ti_notional i)) \<notin> set (fd_unfunded fd)) buys"
    and linked: "linked = drop (length sells) (link_buy_intent_dependencies (sells @ exec)
      (fd_fx_by_currency fd) (eo_link_buy_to_same_currency_sell_dependency os = Some True))"
    and plan: "ip_intents plan = map CashFlowIntent cf_intents @ map SecurityTradeIntent sells
       @ map FxSpotIntent (sort_key fi_pair (fd_fx_intents fd)) @ map SecurityTradeIntent linked"
  let ?fxs = "sort_key fi_pair (fd_fx_intents fd)"
    and ?link = "eo_link_buy_to_same_currency_sell_dependency os = Some True"
  note trade = build_security_trade_intents_ok [OF t] and ok = build_auto_funding_plan_ok [OF f]
  have sold: "\<forall>i\<in>set sells. ti_side i = SD_SELL" and sub: "set sells \<subseteq> set intents" "set exec \<subseteq> set intents"
    and bought: "\<forall>i\<in>set exec. ti_side i = SD_BUY"
    by (auto simp: sells buys exec mem_sorted_security_intents)
  have plain: "\<forall>i\<in>set intents. ti_dependencies i = []" using trade(1) by (auto simp: intent_of_trade_def)
  with sub bought have exec_plain: "\<forall>i\<in>set exec. ti_side i = SD_BUY \<and> ti_dependencies i = []" by blast
  note link = linked_buys [OF sold exec_plain, of "fd_fx_by_currency fd" ?link, folded linked]
  have deps: "buy_dependencies ?fxs sells ?link c = linked_dependencies (sells @ exec) (fd_fx_by_currency fd) ?link c" for c
    by (simp add: linked_dependencies_eq [OF ok bought] buy_dependencies_def)
  have "distinct (map ti_intent_id (sells @ exec))"
    using sorted_security_intents_distinct [OF trade(3)] by (simp add: sells exec buys)
  then have ids: "distinct (map ti_intent_id (sells @ linked))" using link(1) by simp
  have built: "(\<exists>t\<in>set trades. executes_trade shelf md os t i) \<and> (\<exists>n. ti_intent_id i = trade_intent_id n)"
    if "i \<in> set intents" for i
    using trade(1,2) that intent_of_trade_executes by blast
  have built_linked: "(\<exists>t\<in>set trades. executes_trade shelf md os t i) \<and> (\<exists>n. ti_intent_id i = trade_intent_id n)
      \<and> ti_side i = SD_BUY" if i: "i \<in> set linked" for i
  proof -
    from link(2) i obtain j where j: "j \<in> set exec" "ti_notional i = ti_notional j" "ti_side i = ti_side j"
      "ti_instrument_id i = ti_instrument_id j" "ti_quantity i = ti_quantity j" "ti_intent_id i = ti_intent_id j"
      by blast
    with built [of j] sub bought show ?thesis by (auto simp: executes_trade_def)
  qed
  have fx: "\<forall>fx\<in>set ?fxs. fi_dependencies fx = [] \<and> (\<exists>n. fi_intent_id fx = fx_intent_id n)
       \<and> 0 \<le> fi_buy_amount fx \<and> fi_sell_currency fx \<noteq> fi_buy_currency fx"
    using ok funding_ok_ids(2) [OF ok] by (auto simp: funding_ok_def)
  have fxd: "distinct (map fi_intent_id ?fxs)" "distinct (map fi_buy_currency ?fxs)"
    using ok funding_ok_ids(1) [OF ok] by (simp_all only: funding_ok_def distinct_map_sort_key)
  show thesis
  proof (rule that [OF plan cash_flow_intent_ids [OF cf] _ ids _ _ fx fxd])
    show "\<forall>i\<in>set sells \<union> set linked. (\<exists>t\<in>set trades. executes_trade shelf md os t i)
       \<and> (\<exists>n. ti_intent_id i = trade_intent_id n)"
      using built built_linked sub(1) by blast
    show "\<forall>i\<in>set sells. ti_side i = SD_SELL \<and> ti_dependencies i = []"
      using sold plain sub(1) by blast
    show "\<forall>i\<in>set linked. ti_side i = SD_BUY \<and> (\<forall>n. ti_notional i = Some n \<longrightarrow>
       set (ti_dependencies i) = buy_dependencies ?fxs sells ?link (mo_currency n))"
      using link(2) built_linked deps by fastforce
  qed
qed


text \<open>Identifiers are unique and every dependency is an earlier intent.\<close>

lemma plan_ids_distinct:
  assumes "build_simulation_intent_plan pf md shelf os cfs trades dg = Inr (plan, dg')"
  shows "distinct (map intent_id_of_order (ip_intents plan))"
  using assms
proof (rule plan_shape)
  fix cfis sells fxs buys
  assume plan: "ip_intents plan = map CashFlowIntent cfis @ map SecurityTradeIntent sells
       @ map FxSpotIntent fxs @ map SecurityTradeIntent buys"
    and cf: "map ci_intent_id cfis = map (\<lambda>n. ''oi_cf_'' @ string_of_nat (n + 1)) [0..<length cfs]"
    and tr: "\<forall>i\<in>set sells \<union> set buys. (\<exists>t\<in>set trades. executes_trade shelf md os t i)
       \<and> (\<exists>n. ti_intent_id i = trade_intent_id n)"
    and d: "distinct (map ti_intent_id (sells @ buys))" "distinct (map fi_intent_id fxs)"
    and fx: "\<forall>fx\<in>set fxs. fi_dependencies fx = [] \<and> (\<exists>n. fi_intent_id fx = fx_intent_id n)
       \<and> 0 \<le> fi_buy_amount fx \<and> fi_sell_currency fx \<noteq> fi_buy_currency fx"
  have cd: "distinct (map ci_intent_id cfis)" by (simp add: cf distinct_map inj_on_def)
  have "\<exists>n. ci_intent_id c = ''oi_cf_'' @ string_of_nat n" if "c \<in> set cfis" for c
    using that arg_cong [OF cf, of set] by (auto simp: image_iff dest: equalityD1)
  moreover have "trade_intent_id n \<noteq> ''oi_cf_'' @ string_of_nat m" "fx_intent_id n \<noteq> ''oi_cf_'' @ string_of_nat m"
    "trade_intent_id n \<noteq> fx_intent_id m" for n m
    by (simp_all add: trade_intent_id_def fx_intent_id_def string_of_nat_not_letter)
  moreover have "map intent_id_of_order (ip_intents plan) = map ci_intent_id cfis @ map ti_intent_id sells
      @ map fi_intent_id fxs @ map ti_intent_id buys"
    by (simp add: plan)
  ultimately show ?thesis
    using cd d tr fx by (auto simp: image_iff disjoint_iff) (metis UnI1 UnI2)+
qed

lemma dependencies_in_earlier_part:
  assumes "\<forall>i\<in>set a. order_dependencies i = []"
    and "\<forall>i\<in>set b. set (order_dependencies i) \<subseteq> intent_id_of_order ` set a"
    and "k < length (a @ b)" and "d \<in> set (order_dependencies ((a @ b) ! k))"
  shows "\<exists>j<k. intent_id_of_order ((a @ b) ! j) = d"
proof -
  have k: "length a \<le> k"
  proof (rule ccontr)
    assume "\<not> length a \<le> k"
    then have "(a @ b) ! k \<in> set a" by (simp add: nth_append)
    with assms(1,4) show False by auto
  qed
  then have "(a @ b) ! k \<in> set b" using assms(3) by (simp add: nth_append)
  with assms(2,4) obtain i where i: "i \<in> set a" "intent_id_of_order i = d" by blast
  then obtain j where "j < length a" "a ! j = i" by (auto simp: in_set_conv_nth)
  with k i show ?thesis by (intro exI [of _ j]) (simp add: nth_append)
qed

lemma buy_dependencies_ids:
  assumes "d \<in> buy_dependencies fxs sells link c"
  shows "(\<exists>fx\<in>set fxs. fi_intent_id fx = d) \<or> (\<exists>i\<in>set sells. ti_intent_id i = d)"
  using assms
  by (auto simp: buy_dependencies_def split: if_splits dest: sell_intent_id_by_currency_exact(1))

lemma plan_dependencies_precede:
  assumes plan: "build_simulation_intent_plan pf md shelf os cfs trades dg = Inr (plan, dg')"
    and k: "k < length (ip_intents plan)" and d: "d \<in> set (order_dependencies (ip_intents plan ! k))"
  shows "\<exists>j<k. intent_id_of_order (ip_intents plan ! j) = d"
  using plan
proof (rule plan_shape)
  fix cfis sells fxs buys
  assume shape: "ip_intents plan = map CashFlowIntent cfis @ map SecurityTradeIntent sells
       @ map FxSpotIntent fxs @ map SecurityTradeIntent buys"
    and tr: "\<forall>i\<in>set sells \<union> set buys. (\<exists>t\<in>set trades. executes_trade shelf md os t i)
       \<and> (\<exists>n. ti_intent_id i = trade_intent_id n)"
    and s: "\<forall>i\<in>set sells. ti_side i = SD_SELL \<and> ti_dependencies i = []"
    and b: "\<forall>i\<in>set buys. ti_side i = SD_BUY \<and> (\<forall>n. ti_notional i = Some n \<longrightarrow>
       set (ti_dependencies i) = buy_dependencies fxs sells
         (eo_link_buy_to_same_currency_sell_dependency os = Some True) (mo_currency n))"
    and fx: "\<forall>fx\<in>set fxs. fi_dependencies fx = [] \<and> (\<exists>n. fi_intent_id fx = fx_intent_id n)
       \<and> 0 \<le> fi_buy_amount fx \<and> fi_sell_currency fx \<noteq> fi_buy_currency fx"
  let ?a = "map CashFlowIntent cfis @ map SecurityTradeIntent sells @ map FxSpotIntent fxs"
  have ab: "ip_intents plan = ?a @ map SecurityTradeIntent buys" by (simp add: shape)
  have first: "\<forall>i\<in>set ?a. order_dependencies i = []" using s fx by auto
  have "set (ti_dependencies i) \<subseteq> intent_id_of_order ` set ?a" if i: "i \<in> set buys" for i
  proof
    fix d assume d: "d \<in> set (ti_dependencies i)"
    obtain n where "ti_notional i = Some n" using tr i by (auto simp: executes_trade_def)
    then have "d \<in> buy_dependencies fxs sells
        (eo_link_buy_to_same_currency_sell_dependency os = Some True) (mo_currency n)"
      using b i d by blast
    from buy_dependencies_ids [OF this] show "d \<in> intent_id_of_order ` set ?a"
      by (force simp: image_iff)
  qed
  then have "\<forall>i\<in>set (map SecurityTradeIntent buys). set (order_dependencies i) \<subseteq> intent_id_of_order ` set ?a"
    by simp
  from dependencies_in_earlier_part [OF first this] k d show ?thesis unfolding ab by blast
qed

lemma plan_trade_executes:
  assumes "build_simulation_intent_plan pf md shelf os cfs trades dg = Inr (plan, dg')"
    and "SecurityTradeIntent i \<in> set (ip_intents plan)"
  shows "\<exists>t\<in>set trades. executes_trade shelf md os t i"
  using assms(1)
proof (rule plan_shape)
  fix cfis sells fxs buys
  assume "ip_intents plan = map CashFlowIntent cfis @ map SecurityTradeIntent sells
       @ map FxSpotIntent fxs @ map SecurityTradeIntent buys"
    and "\<forall>i\<in>set sells \<union> set buys. (\<exists>t\<in>set trades. executes_trade shelf md os t i)
       \<and> (\<exists>n. ti_intent_id i = trade_intent_id n)"
  with assms(2) show ?thesis by auto
qed

definition sell_in :: "string \<Rightarrow> trade_intent \<Rightarrow> bool" where
  "sell_in c i \<longleftrightarrow> ti_side i = SD_SELL \<and> map_option mo_currency (ti_notional i) = Some c"

lemma buy_dependencies_exact:
  "{fi_intent_id fx |fx. fx \<in> set fxs \<and> fi_buy_currency fx = c} \<subseteq> buy_dependencies fxs sells link c"
  "link \<Longrightarrow> \<exists>s\<in>set sells. sell_in c s
     \<Longrightarrow> \<exists>s\<in>set sells. sell_in c s \<and> ti_intent_id s \<in> buy_dependencies fxs sells link c"
  "d \<in> buy_dependencies fxs sells link c \<Longrightarrow> (\<exists>fx\<in>set fxs. fi_buy_currency fx = c \<and> fi_intent_id fx = d)
     \<or> (link \<and> (\<exists>s\<in>set sells. sell_in c s \<and> ti_intent_id s = d))"
proof -
  show "{fi_intent_id fx |fx. fx \<in> set fxs \<and> fi_buy_currency fx = c} \<subseteq> buy_dependencies fxs sells link c"
    by (simp add: buy_dependencies_def)
  show "d \<in> buy_dependencies fxs sells link c \<Longrightarrow> (\<exists>fx\<in>set fxs. fi_buy_currency fx = c \<and> fi_intent_id fx = d)
     \<or> (link \<and> (\<exists>s\<in>set sells. sell_in c s \<and> ti_intent_id s = d))"
    by (auto simp: buy_dependencies_def sell_in_def split: if_splits
        dest!: sell_intent_id_by_currency_exact(1))
  assume link and "\<exists>s\<in>set sells. sell_in c s"
  then obtain d where d: "dict_get (sell_intent_id_by_currency sells True) c = Some d"
    using sell_intent_id_by_currency_exact(2) [of sells c] by (auto simp: sell_in_def)
  from sell_intent_id_by_currency_exact(1) [OF d] obtain s where
    "s \<in> set sells" "sell_in c s" "ti_intent_id s = d" by (auto simp: sell_in_def)
  with d \<open>link\<close> show "\<exists>s\<in>set sells. sell_in c s \<and> ti_intent_id s \<in> buy_dependencies fxs sells link c"
    by (auto simp: buy_dependencies_def intro!: bexI [of _ s])
qed

lemma plan_buy_dependencies:
  assumes "build_simulation_intent_plan pf md shelf os cfs trades dg = Inr (plan, dg')"
    and i: "SecurityTradeIntent i \<in> set (ip_intents plan)" "ti_side i = SD_BUY" "ti_notional i = Some n"
  shows "(\<forall>fx. FxSpotIntent fx \<in> set (ip_intents plan) \<longrightarrow> fi_buy_currency fx = mo_currency n
           \<longrightarrow> fi_intent_id fx \<in> set (ti_dependencies i))
    \<and> (eo_link_buy_to_same_currency_sell_dependency os = Some True
        \<longrightarrow> (\<exists>s. SecurityTradeIntent s \<in> set (ip_intents plan) \<and> sell_in (mo_currency n) s)
        \<longrightarrow> (\<exists>s. SecurityTradeIntent s \<in> set (ip_intents plan) \<and> sell_in (mo_currency n) s
              \<and> ti_intent_id s \<in> set (ti_dependencies i)))
    \<and> (\<forall>d\<in>set (ti_dependencies i).
         (\<exists>fx. FxSpotIntent fx \<in> set (ip_intents plan) \<and> fi_buy_currency fx = mo_currency n \<and> fi_intent_id fx = d)
       \<or> (eo_link_buy_to_same_currency_sell_dependency os = Some True
          \<and> (\<exists>s. SecurityTradeIntent s \<in> set (ip_intents plan) \<and> sell_in (mo_currency n) s \<and> ti_intent_id s = d)))"
  using assms(1)
proof (rule plan_shape)
  fix cfis sells fxs buys
  let ?link = "eo_link_buy_to_same_currency_sell_dependency os = Some True"
  assume shape: "ip_intents plan = map CashFlowIntent cfis @ map SecurityTradeIntent sells
       @ map FxSpotIntent fxs @ map SecurityTradeIntent buys"
    and s: "\<forall>i\<in>set sells. ti_side i = SD_SELL \<and> ti_dependencies i = []"
    and b: "\<forall>i\<in>set buys. ti_side i = SD_BUY \<and> (\<forall>n. ti_notional i = Some n \<longrightarrow>
       set (ti_dependencies i) = buy_dependencies fxs sells ?link (mo_currency n))"
  have mem: "FxSpotIntent fx \<in> set (ip_intents plan) \<longleftrightarrow> fx \<in> set fxs"
    "SecurityTradeIntent t \<in> set (ip_intents plan) \<and> sell_in c t \<longleftrightarrow> t \<in> set sells \<and> sell_in c t" for fx t c
    using b by (auto simp: shape sell_in_def)
  have "i \<in> set buys" using i s by (auto simp: shape)
  with b i(3) have deps: "set (ti_dependencies i) = buy_dependencies fxs sells ?link (mo_currency n)" by blast
  note exact = buy_dependencies_exact [where fxs = fxs and c = "mo_currency n" and sells = sells and link = ?link]
  show ?thesis
    unfolding deps
  proof (intro conjI ballI impI allI)
    fix fx assume "FxSpotIntent fx \<in> set (ip_intents plan)" "fi_buy_currency fx = mo_currency n"
    then show "fi_intent_id fx \<in> buy_dependencies fxs sells ?link (mo_currency n)"
      using exact(1) by (auto simp: mem(1))
  next
    assume link: ?link and "\<exists>s. SecurityTradeIntent s \<in> set (ip_intents plan) \<and> sell_in (mo_currency n) s"
    then have "\<exists>s\<in>set sells. sell_in (mo_currency n) s" using mem(2) by blast
    from exact(2) [OF link this] show "\<exists>s. SecurityTradeIntent s \<in> set (ip_intents plan)
        \<and> sell_in (mo_currency n) s \<and> ti_intent_id s \<in> buy_dependencies fxs sells ?link (mo_currency n)"
      using mem(2) by blast
  next
    fix d assume "d \<in> buy_dependencies fxs sells ?link (mo_currency n)"
    from exact(3) [OF this] show "(\<exists>fx. FxSpotIntent fx \<in> set (ip_intents plan)
          \<and> fi_buy_currency fx = mo_currency n \<and> fi_intent_id fx = d)
        \<or> (?link \<and> (\<exists>s. SecurityTradeIntent s \<in> set (ip_intents plan) \<and> sell_in (mo_currency n) s
            \<and> ti_intent_id s = d))"
      using mem by blast
  qed
qed

subsection \<open>Executing a plan\<close>

lemma fold_execute_alike:
  "map apply_security_trade_to_portfolio xs = map apply_security_trade_to_portfolio ys
    \<Longrightarrow> fold execute_intent (map SecurityTradeIntent xs) pf = fold execute_intent (map SecurityTradeIntent ys) pf"
proof (induction xs arbitrary: ys pf)
  case (Cons x xs)
  then obtain y ys' where "ys = y # ys'" by (cases ys) auto
  with Cons show ?case by (simp add: execute_intent_def)
qed simp

lemma apply_sell_intents_execute:
  "apply_sell_intents is pf = fold execute_intent (map SecurityTradeIntent is) pf"
  unfolding apply_sell_intents_def by (induction "is" arbitrary: pf) (simp_all add: execute_intent_def)

lemma buy_currency_lengths:
  assumes "build_security_trade_intents (shelf_index shelf) md base os idx trades run = Inr (intents, run')"
    and "\<forall>p\<in>set (md_prices md). length (px_currency p) = k"
  shows "\<forall>i\<in>set intents. \<forall>n. ti_notional i = Some n \<longrightarrow> length (mo_currency n) = k"
proof (intro ballI allI impI)
  fix i n assume "i \<in> set intents" and n: "ti_notional i = Some n"
  then obtain tr where "intent_of_trade (shelf_index shelf) md os tr i"
    using build_security_trade_intents_ok(1) [OF assms(1)] by blast
  then obtain p where "price_for_trade md (pt_instrument_id tr) = Some p" "mo_currency n = px_currency p"
    using n by (auto simp: intent_of_trade_def)
  with assms(2) show "length (mo_currency n) = k"
    by (auto simp: price_for_trade_def dest!: find_first_SomeD)
qed

text \<open>
  With currency codes of one length the intents, executed in the order in which they are
  reported, turn the portfolio of the request into the portfolio the simulation values.
\<close>

lemma plan_executes:
  assumes plan: "build_simulation_intent_plan pf md shelf os cfs trades dg = Inr (plan, dg')"
    and codes: "\<forall>p\<in>set (md_prices md). length (px_currency p) = k"
  shows "holds_the_same (fold execute_intent (ip_intents plan) pf) (ip_after_portfolio plan)"
  using plan
proof (rule build_simulation_intent_planE)
  fix cf_intents pf1 run1 intents run2 sells buys fd exec linked
  assume cf: "build_cash_flow_intents os 0 cfs (pf, \<lparr>br_diagnostics = dg, br_hard_failures = []\<rparr>)
      = (cf_intents, pf1, run1)"
    and t: "build_security_trade_intents (shelf_index shelf) md (pf_base_currency pf) os 0 trades run1
      = Inr (intents, run2)"
    and sells: "sells = sorted_security_intents_by_instrument intents SD_SELL"
    and buys: "buys = sorted_security_intents_by_instrument intents SD_BUY"
    and f: "build_auto_funding_plan md os buys (apply_sell_intents sells pf1) (br_diagnostics run2) = Inr fd"
    and linked: "linked = drop (length sells) (link_buy_intent_dependencies (sells @ exec)
      (fd_fx_by_currency fd) (eo_link_buy_to_same_currency_sell_dependency os = Some True))"
    and after: "ip_after_portfolio plan = fold execute_intent (map SecurityTradeIntent exec) (fd_portfolio fd)"
    and shape: "ip_intents plan = map CashFlowIntent cf_intents @ map SecurityTradeIntent sells
       @ map FxSpotIntent (sort_key fi_pair (fd_fx_intents fd)) @ map SecurityTradeIntent linked"
  have notional: "\<forall>i\<in>set buys. \<forall>n. ti_notional i = Some n \<longrightarrow> length (mo_currency n) = k"
    using buy_currency_lengths [OF t codes] by (auto simp: buys mem_sorted_security_intents)
  have "map apply_security_trade_to_portfolio linked = map apply_security_trade_to_portfolio exec"
    using link_applies_alike [of "sells @ exec"] by (simp add: linked drop_map [symmetric])
  note alike = fold_execute_alike [OF this]
  have cash: "fold execute_intent (map CashFlowIntent cf_intents) pf = pf1"
    using build_cash_flow_intents_run(2) [OF cf] by simp
  note funded = build_auto_funding_plan_executes [OF f]
  show ?thesis
    using execute_all_same [OF funded, of "map SecurityTradeIntent exec"]
    by (simp add: shape build_auto_funding_plan_order [OF f notional] cash alike after
        apply_sell_intents_execute)
qed

end
