(* ===== verification/Run_Facts.thy ===== *)
theory Run_Facts
  imports Advisory_Engine Plan_Execution
begin

text \<open>
  Facts about whole simulation runs, composed from those of the stages: what the data-quality log
  of a run says, that a run keeps the base currency, when a run returns, and what its status and
  its gate exclude.
\<close>

subsection \<open>The portfolio after a plan\<close>

lemma execute_intent_base [simp]: "pf_base_currency (execute_intent i pf) = pf_base_currency pf"
  by (cases i) (auto simp: execute_intent_def apply_fx_spot_to_portfolio_def
      apply_security_trade_to_portfolio_def split: option.splits)

lemma fold_execute_base [simp]: "pf_base_currency (fold execute_intent is pf) = pf_base_currency pf"
  by (induction "is" arbitrary: pf) simp_all

lemma plan_base_currency:
  assumes "build_simulation_intent_plan pf md shelf os cfs trades dg = Inr (plan, dg')"
  shows "pf_base_currency (ip_after_portfolio plan) = pf_base_currency pf"
  using assms
proof (rule build_simulation_intent_planE)
  fix cf_intents pf1 run1 intents run2 sells buys fd exec
  assume cf: "build_cash_flow_intents os 0 cfs (pf, \<lparr>br_diagnostics = dg, br_hard_failures = []\<rparr>)
      = (cf_intents, pf1, run1)"
    and f: "build_auto_funding_plan md os buys (apply_sell_intents sells pf1) (br_diagnostics run2) = Inr fd"
    and after: "ip_after_portfolio plan = fold execute_intent (map SecurityTradeIntent exec) (fd_portfolio fd)"
  show ?thesis
    using build_auto_funding_plan_frame [OF f] build_cash_flow_intents_run(2) [OF cf]
    by (simp add: after apply_sell_intents_execute)
qed

subsection \<open>The data-quality log\<close>

definition all_priced :: "market_data \<Rightarrow> simulated_state \<Rightarrow> bool" where
  "all_priced md st \<longleftrightarrow> (\<forall>p\<in>set (ss_positions st). \<exists>x\<in>set (md_prices md). px_instrument_id x = ps_instrument_id p)"

definition all_converted :: "market_data \<Rightarrow> string \<Rightarrow> simulated_state \<Rightarrow> bool" where
  "all_converted md b st \<longleftrightarrow>
     (\<forall>p\<in>set (ss_positions st). \<exists>r. get_fx_rate md (ps_instrument_currency p) b = Some r)
     \<and> (\<forall>c\<in>set (ss_cash_balances st). \<exists>r. get_fx_rate md (cb_currency c) b = Some r)"

lemma clean_log_priced:
  assumes "build_simulated_state pf md shelf os dq = (st, dq')"
    and "dict_list dq' ''price_missing'' = dict_list dq ''price_missing''"
  shows "all_priced md st"
proof -
  have "unpriced md (pf_positions pf) = []"
    using build_simulated_state_log [OF assms(1), of "''price_missing''"] assms(2) by simp
  then have "\<exists>x\<in>set (md_prices md). px_instrument_id x = i" if "i \<in> set (map po_instrument_id (pf_positions pf))" for i
    using that by (fastforce simp: unpriced_empty_iff price_for_position_def dest!: find_first_SomeD)
  then show ?thesis
    unfolding all_priced_def build_simulated_state_keeps(2) [OF assms(1), symmetric] by simp
qed

lemma clean_log_converted:
  assumes "build_simulated_state pf md shelf os dq = (st, dq')"
    and "dict_list dq' ''fx_missing'' = dict_list dq ''fx_missing''"
  shows "all_converted md (pf_base_currency pf) st"
proof -
  have "unconverted md (pf_base_currency pf)
      (map ps_instrument_currency (ss_positions st) @ map cb_currency (pf_cash_balances pf)) = []"
    using build_simulated_state_log [OF assms(1), of "''fx_missing''"] assms(2) by simp
  then show ?thesis
    unfolding unconverted_empty_iff all_converted_def build_simulated_state_keeps(1) [OF assms(1)] by auto
qed

lemma simulate_after_cases:
  assumes "simulate_after rq prior plan dg = (after, dg')"
  obtains "ip_intents plan = []" "after = prior" "dg' = dg"
  | dq where "ip_intents plan \<noteq> []"
    "build_simulated_state (ip_after_portfolio plan) (er_market_data rq) (er_shelf rq)
       ((er_options rq)\<lparr>eo_valuation_mode := VM_CALCULATED\<rparr>) (dg_data_quality dg) = (after, dq)"
    "dg' = dg\<lparr>dg_data_quality := dq\<rparr>"
  using assms by (auto simp: simulate_after_def split: if_splits prod.splits)

text \<open>The missing-data logs of the plan are still in the reported diagnostics.\<close>

lemma expected_cash_delta_base_grows: "dq_grows dg (snd (expected_cash_delta_base base md cfs dg))"
proof -
  have "dq_grows (snd acc) (snd (fold (expected_cash_delta_step md base) cfs acc))" for acc
  proof (induction cfs arbitrary: acc)
    case (Cons cf cfs)
    have "dq_grows (snd acc) (snd (expected_cash_delta_step md base cf acc))"
      by (cases acc) (simp add: expected_cash_delta_step_def growth split: option.split)
    then show ?case using dq_grows_trans Cons.IH by simp
  qed simp
  from this [of "(0, dg)"] show ?thesis by (simp add: expected_cash_delta_base_def)
qed

lemma diagnostics_reported:
  assumes "run_proposal_simulation rt uuid rq = Inr res"
    and b: "build_simulated_state (er_portfolio rq) (er_market_data rq) (er_shelf rq) (er_options rq)
      (dg_data_quality make_diagnostics_data) = (prior, dq0)"
    and p: "build_simulation_intent_plan (er_portfolio rq) (er_market_data rq) (er_shelf rq) (er_options rq)
      (er_cash_flows rq) (er_trades rq) (make_diagnostics_data\<lparr>dg_data_quality := dq0\<rparr>) = Inr (plan, dg1)"
  shows "dq_grows dg1 (pz_diagnostics res)"
proof -
  obtain after dg2 where a: "simulate_after rq prior plan dg1 = (after, dg2)" by fastforce
  obtain review dg3 where r: "evaluate_simulation_review (er_portfolio rq) (er_market_data rq)
      (er_options rq) dg2 prior after plan = (review, dg3)" by fastforce
  obtain drift dg4 where d: "build_drift_analysis (er_portfolio rq) (er_options rq) prior after plan
      (er_reference_model rq) dg3 = (drift, dg4)" by fastforce
  have dg4: "pz_diagnostics res = dg4"
    using assms(1)
    by (auto simp: run_proposal_simulation_def b p a r d Let_def build_simulation_decision_support_def)
  have "dq_grows dg1 dg2"
    using a
  proof (rule simulate_after_cases)
    fix dq
    assume "build_simulated_state (ip_after_portfolio plan) (er_market_data rq) (er_shelf rq)
       ((er_options rq)\<lparr>eo_valuation_mode := VM_CALCULATED\<rparr>) (dg_data_quality dg1) = (after, dq)"
      and "dg2 = dg1\<lparr>dg_data_quality := dq\<rparr>"
    then show ?thesis using build_simulated_state_log by (auto simp: dq_grows_def)
  qed simp
  moreover have "dq_grows dg2 dg3"
    using r expected_cash_delta_base_grows
    by (auto simp: evaluate_simulation_review_def build_value_reconciliation_def Let_def
        split: prod.splits) (metis snd_conv)
  moreover have "dq_grows dg3 dg4"
    using d by (auto simp: build_drift_analysis_def growth split: option.splits if_splits)
  ultimately show ?thesis unfolding dg4 by (blast intro: dq_grows_trans)
qed

text \<open>An empty list at the end means that every stage found its data.\<close>

lemma run_clean_log:
  assumes prior: "build_simulated_state (er_portfolio rq) (er_market_data rq) (er_shelf rq) (er_options rq)
      (dg_data_quality make_diagnostics_data) = (prior, dq0)"
    and plan: "build_simulation_intent_plan (er_portfolio rq) (er_market_data rq) (er_shelf rq) (er_options rq)
      (er_cash_flows rq) (er_trades rq) (make_diagnostics_data\<lparr>dg_data_quality := dq0\<rparr>) = Inr (plan, dg1)"
    and after: "simulate_after rq prior plan dg1 = (after, dg2)"
    and clean: "dict_list (dg_data_quality dg2) k = []"
  shows "dict_list dq0 k = []" and "dict_list (dg_data_quality dg1) k = []"
    and "same_log k (make_diagnostics_data\<lparr>dg_data_quality := dq0\<rparr>) dg1"
    and "k = ''price_missing'' \<Longrightarrow> all_priced (er_market_data rq) after"
    and "k = ''fx_missing'' \<Longrightarrow> all_converted (er_market_data rq) (pf_base_currency (er_portfolio rq)) after"
proof -
  have grows: "prefix (dict_list dq0 k) (dict_list (dg_data_quality dg1) k)"
    using build_simulation_intent_plan_complete(1) [OF plan] by (simp add: dq_grows_def)
  have dg1: "dict_list (dg_data_quality dg1) k = []"
    using after
  proof (rule simulate_after_cases)
    fix dq
    assume b: "build_simulated_state (ip_after_portfolio plan) (er_market_data rq) (er_shelf rq)
       ((er_options rq)\<lparr>eo_valuation_mode := VM_CALCULATED\<rparr>) (dg_data_quality dg1) = (after, dq)"
      and "dg2 = dg1\<lparr>dg_data_quality := dq\<rparr>"
    with clean show ?thesis using build_simulated_state_log [OF b, of k] by simp
  qed (use clean in simp)
  then show "dict_list (dg_data_quality dg1) k = []" .
  show dq0: "dict_list dq0 k = []" using grows dg1 by simp
  show "same_log k (make_diagnostics_data\<lparr>dg_data_quality := dq0\<rparr>) dg1"
    using dg1 dq0 by (simp add: same_log_def)
  have empty: "dict_list (dg_data_quality make_diagnostics_data) k = []"
    using build_simulated_state_log [OF prior, of k] dq0 by simp
  show "all_priced (er_market_data rq) after" if "k = ''price_missing''"
    using after
  proof (rule simulate_after_cases)
    assume "after = prior"
    then show ?thesis using clean_log_priced [OF prior] that dq0 empty by simp
  next
    fix dq
    assume "build_simulated_state (ip_after_portfolio plan) (er_market_data rq) (er_shelf rq)
       ((er_options rq)\<lparr>eo_valuation_mode := VM_CALCULATED\<rparr>) (dg_data_quality dg1) = (after, dq)"
      and "dg2 = dg1\<lparr>dg_data_quality := dq\<rparr>"
    then show ?thesis using clean_log_priced that clean dg1 by fastforce
  qed
  show "all_converted (er_market_data rq) (pf_base_currency (er_portfolio rq)) after" if "k = ''fx_missing''"
    using after
  proof (rule simulate_after_cases)
    assume "after = prior"
    then show ?thesis using clean_log_converted [OF prior] that dq0 empty by simp
  next
    fix dq
    assume "build_simulated_state (ip_after_portfolio plan) (er_market_data rq) (er_shelf rq)
       ((er_options rq)\<lparr>eo_valuation_mode := VM_CALCULATED\<rparr>) (dg_data_quality dg1) = (after, dq)"
      and "dg2 = dg1\<lparr>dg_data_quality := dq\<rparr>"
    then show ?thesis
      using clean_log_converted that clean dg1 plan_base_currency [OF plan] by fastforce
  qed
qed


subsection \<open>Executing the intents of a run\<close>

definition balance_in :: "simulated_state \<Rightarrow> string \<Rightarrow> decimal" where
  "balance_in st c = (case find_first (\<lambda>b. cb_currency b = c) (ss_cash_balances st) of
     None \<Rightarrow> 0 | Some b \<Rightarrow> cb_amount b)"

definition holdings_in :: "simulated_state \<Rightarrow> (string \<times> decimal) list" where
  "holdings_in st = map (\<lambda>p. (ps_instrument_id p, ps_quantity p)) (ss_positions st)"

definition holdings_of :: "portfolio \<Rightarrow> (string \<times> decimal) list" where
  "holdings_of pf = map (\<lambda>p. (po_instrument_id p, po_quantity p)) (pf_positions pf)"

lemma build_simulated_state_reads:
  assumes "build_simulated_state pf md shelf os dq = (st, dq')"
  shows "balance_in st c = cash_of pf c" and "holdings_in st = holdings_of pf"
proof -
  show "balance_in st c = cash_of pf c"
    by (simp add: balance_in_def cash_of_def find_cash_def build_simulated_state_keeps(1) [OF assms])
  have "zip (map ps_instrument_id (ss_positions st)) (map ps_quantity (ss_positions st))
      = zip (map po_instrument_id (pf_positions pf)) (map po_quantity (pf_positions pf))"
    by (simp only: build_simulated_state_keeps(2,3) [OF assms])
  then show "holdings_in st = holdings_of pf" by (simp add: holdings_in_def holdings_of_def zip_map_map)
      (simp add: zip_same_conv_map comp_def)
qed

lemma run_executes:
  assumes "run_proposal_simulation rt uuid rq = Inr res"
    and codes: "\<forall>p\<in>set (md_prices (er_market_data rq)). length (px_currency p) = k"
  defines "pf' \<equiv> fold execute_intent (pz_intents res) (er_portfolio rq)"
  shows "balance_in (pz_after_simulated res) c = cash_of pf' c"
    and "holdings_in (pz_after_simulated res) = holdings_of pf'"
proof -
  from assms(1) have "balance_in (pz_after_simulated res) c = cash_of pf' c
      \<and> holdings_in (pz_after_simulated res) = holdings_of pf'"
  proof (rule run_proposal_simulationE)
    fix dq0 plan dg1 dg2
    assume b: "build_simulated_state (er_portfolio rq) (er_market_data rq) (er_shelf rq) (er_options rq)
         (dg_data_quality make_diagnostics_data) = (pz_before res, dq0)"
      and p: "build_simulation_intent_plan (er_portfolio rq) (er_market_data rq) (er_shelf rq) (er_options rq)
         (er_cash_flows rq) (er_trades rq) (make_diagnostics_data\<lparr>dg_data_quality := dq0\<rparr>) = Inr (plan, dg1)"
      and a: "simulate_after rq (pz_before res) plan dg1 = (pz_after_simulated res, dg2)"
      and i: "pz_intents res = ip_intents plan"
    have same: "holds_the_same pf' (ip_after_portfolio plan)"
      unfolding pf'_def i by (rule plan_executes [OF p codes])
    from a show ?thesis
    proof (rule simulate_after_cases)
      assume "ip_intents plan = []" and "pz_after_simulated res = pz_before res"
      then show ?thesis using build_simulated_state_reads [OF b] by (simp add: pf'_def i)
    next
      fix dq
      assume "build_simulated_state (ip_after_portfolio plan) (er_market_data rq) (er_shelf rq)
         ((er_options rq)\<lparr>eo_valuation_mode := VM_CALCULATED\<rparr>) (dg_data_quality dg1)
         = (pz_after_simulated res, dq)"
      from build_simulated_state_reads [OF this] same show ?thesis
        by (simp add: holds_the_same_def holdings_of_def)
    qed
  qed
  then show "balance_in (pz_after_simulated res) c = cash_of pf' c"
    and "holdings_in (pz_after_simulated res) = holdings_of pf'" by simp_all
qed

text \<open>The portfolio once every intent up to an execution rank is executed.\<close>

definition executed_upto :: "nat \<Rightarrow> order_intent list \<Rightarrow> portfolio \<Rightarrow> portfolio" where
  "executed_upto r is pf = fold execute_intent (filter (\<lambda>i. execution_rank i \<le> r) is) pf"

lemma plan_conversions_nonneg:
  assumes plan: "build_simulation_intent_plan pf md shelf os cfs trades dg = Inr (plan, dg')"
    and codes: "\<forall>p\<in>set (md_prices md). length (px_currency p) = k"
    and nonneg: "nonneg_cash (executed_upto 1 (ip_intents plan) pf)"
  shows "0 \<le> cash_of (executed_upto 2 (ip_intents plan) pf) c"
  using plan
proof (rule build_simulation_intent_planE)
  fix cf_intents pf1 run1 intents run2 sells buys fd exec linked
  assume cf: "build_cash_flow_intents os 0 cfs (pf, \<lparr>br_diagnostics = dg, br_hard_failures = []\<rparr>)
      = (cf_intents, pf1, run1)"
    and t: "build_security_trade_intents (shelf_index shelf) md (pf_base_currency pf) os 0 trades run1
      = Inr (intents, run2)"
    and sells: "sells = sorted_security_intents_by_instrument intents SD_SELL"
    and buys: "buys = sorted_security_intents_by_instrument intents SD_BUY"
    and f: "build_auto_funding_plan md os buys (apply_sell_intents sells pf1) (br_diagnostics run2) = Inr fd"
    and exec: "exec = filter (\<lambda>i. mo_currency (the (ti_notional i)) \<notin> set (fd_unfunded fd)) buys"
    and linked: "linked = drop (length sells) (link_buy_intent_dependencies (sells @ exec)
      (fd_fx_by_currency fd) (eo_link_buy_to_same_currency_sell_dependency os = Some True))"
    and shape: "ip_intents plan = map CashFlowIntent cf_intents @ map SecurityTradeIntent sells
       @ map FxSpotIntent (sort_key fi_pair (fd_fx_intents fd)) @ map SecurityTradeIntent linked"
  have sold: "\<forall>i\<in>set sells. ti_side i = SD_SELL" and bought: "\<forall>i\<in>set exec. ti_side i = SD_BUY"
    by (auto simp: sells buys exec mem_sorted_security_intents)
  have "map ti_side linked = map ti_side exec"
    using link_keeps(2) [of "sells @ exec"] by (simp add: linked drop_map [symmetric])
  then have bought': "\<forall>i\<in>set linked. ti_side i = SD_BUY"
    using bought by (metis in_set_conv_nth length_map nth_map)
  have ranks: "filter (\<lambda>i. execution_rank i \<le> r) (map CashFlowIntent cf_intents) = map CashFlowIntent cf_intents"
    "1 \<le> r \<Longrightarrow> filter (\<lambda>i. execution_rank i \<le> r) (map SecurityTradeIntent sells) = map SecurityTradeIntent sells"
    "2 \<le> r \<Longrightarrow> filter (\<lambda>i. execution_rank i \<le> r) (map FxSpotIntent fxs) = map FxSpotIntent fxs"
    "r < 2 \<Longrightarrow> filter (\<lambda>i. execution_rank i \<le> r) (map FxSpotIntent fxs) = []"
    "r < 3 \<Longrightarrow> filter (\<lambda>i. execution_rank i \<le> r) (map SecurityTradeIntent linked) = []" for r fxs
    using sold bought' by (auto simp: execution_rank_def filter_id_conv filter_empty_conv)
  have one: "executed_upto 1 (ip_intents plan) pf = apply_sell_intents sells pf1"
    using build_cash_flow_intents_run(2) [OF cf]
    by (simp add: executed_upto_def shape ranks apply_sell_intents_execute del: filter_map)
  have notional: "\<forall>i\<in>set buys. \<forall>n. ti_notional i = Some n \<longrightarrow> length (mo_currency n) = k"
    using buy_currency_lengths [OF t codes] by (auto simp: buys mem_sorted_security_intents)
  have two: "executed_upto 2 (ip_intents plan) pf
      = fold execute_intent (map FxSpotIntent (fd_fx_intents fd)) (apply_sell_intents sells pf1)"
    using build_cash_flow_intents_run(2) [OF cf]
    by (simp add: executed_upto_def shape ranks apply_sell_intents_execute
        build_auto_funding_plan_order [OF f notional] del: filter_map)
  have "nonneg_cash (fd_portfolio fd)"
    using build_auto_funding_plan_nonneg [OF f nonneg [unfolded one]] .
  then show ?thesis
    using build_auto_funding_plan_executes [OF f] nonneg_cash_of by (simp add: two holds_the_same_def)
qed

end
