(* ===== verification/Engine_Evaluation.thy ===== *)
theory Engine_Evaluation
  imports Decimals Advisory_Engine
begin

text \<open>
  Rules by which the simplifier evaluates decimal operations and whole engine runs.
\<close>

section \<open>Exact decimals\<close>

text \<open>
  Exact decimals.  An amount with at most twelve decimal places below \<open>10 ^ 16\<close> has at most 28
  digits, so every operation on such amounts whose result is one again is exact.  The rules here
  evaluate the decimal operations on literals by the simplifier.
\<close>

lemma dec_round_grid:
  assumes "x * 10 ^ 12 = of_int n" and "\<bar>x\<bar> < 10 ^ 16"
  shows "dec_round x = x"
proof (rule dec_round_exact)
  have "rat_of_int \<bar>n\<bar> = \<bar>x\<bar> * 10 ^ 12" by (simp flip: assms(1) add: abs_mult)
  also have "\<dots> < rat_of_int (10 ^ decimal_precision)" using assms(2) by (simp add: decimal_precision_def)
  finally have "\<bar>n\<bar> < 10 ^ decimal_precision" by (simp only: of_int_less_iff)
  moreover have "x = of_int n * pow10 (- 12)" using assms(1) by (simp add: pow10_def field_simps)
  ultimately show "dec_exact x" unfolding dec_exact_def by blast
qed

lemma dec_round_of_int: "\<bar>n\<bar> < 10 ^ 16 \<Longrightarrow> dec_round (of_int n) = of_int n"
proof -
  assume "\<bar>n\<bar> < 10 ^ 16"
  then have "rat_of_int \<bar>n\<bar> < rat_of_int (10 ^ 16)" by (simp only: of_int_less_iff)
  then show ?thesis by (intro dec_round_grid [where n = "n * 10 ^ 12"]) simp_all
qed

lemma dec_round_numeral:
  "numeral a < (10 :: int) ^ 16 \<Longrightarrow> dec_round (numeral a) = numeral a"
  "numeral a < (10 :: int) ^ 16 \<Longrightarrow> dec_round (- numeral a) = - numeral a"
  "dec_round 1 = 1" "dec_round (- 1) = - 1"
  using dec_round_of_int [of "numeral a"] dec_round_of_int [of 1] by (simp_all add: dec_round_minus)

lemma dec_round_ratio:
  assumes "0 < b" and "(10 ^ 12 * a) mod b = 0" and "\<bar>a\<bar> < 10 ^ 16 * b"
  shows "dec_round (of_int a / of_int b) = of_int a / of_int b"
proof (rule dec_round_grid)
  have "10 ^ 12 * a = b * (10 ^ 12 * a div b)" using assms(2) by (metis add.right_neutral mult_div_mod_eq)
  then have "rat_of_int (10 ^ 12 * a) = of_int b * of_int (10 ^ 12 * a div b)" by (metis of_int_mult)
  then show "of_int a / of_int b * 10 ^ 12 = rat_of_int (10 ^ 12 * a div b)"
    using assms(1) by (simp add: field_simps)
  have "rat_of_int \<bar>a\<bar> < rat_of_int (10 ^ 16 * b)" using assms(3) by (simp only: of_int_less_iff)
  then show "\<bar>of_int a / of_int b :: rat\<bar> < 10 ^ 16" using assms(1) by (simp add: field_simps)
qed

lemma dec_round_fraction:
  assumes "(10 ^ 12 * numeral a) mod numeral b = (0 :: int)" and "numeral a < (10 ^ 16 * numeral b :: int)"
  shows "dec_round (numeral a / numeral b) = numeral a / numeral b"
    and "dec_round (- (numeral a / numeral b)) = - (numeral a / numeral b)"
  using dec_round_ratio [of "numeral b" "numeral a"] assms by (simp_all add: dec_round_minus)

lemma dec_round_unit_fraction:
  assumes "10 ^ 12 mod numeral b = (0 :: int)"
  shows "dec_round (1 / numeral b) = 1 / numeral b" and "dec_round (- (1 / numeral b)) = - (1 / numeral b)"
proof -
  have "1 \<le> x \<Longrightarrow> \<bar>1\<bar> < 10 ^ 16 * x" for x :: int by simp
  then have "\<bar>1\<bar> < 10 ^ 16 * (numeral b :: int)" using one_le_numeral by blast
  from dec_round_ratio [OF _ _ this] show "dec_round (1 / numeral b) = 1 / numeral b"
    and "dec_round (- (1 / numeral b)) = - (1 / numeral b)"
    using assms by (simp_all add: dec_round_minus)
qed

lemmas dec_eval = dec_add_def dec_sub_def dec_mul_def dec_abs_def dec_div_def dec_sum_def
  dec_round_numeral dec_round_fraction dec_round_unit_fraction

text \<open>Rounding to minor units.\<close>

lemma round_half_even_numeral [simp]:
  "round_half_even (numeral n) = numeral n" "round_half_even 0 = 0" "round_half_even 1 = 1"
  "round_half_even (- numeral n) = - numeral n"
  using round_half_even_of_int [of "numeral n"] round_half_even_of_int [of 0]
    round_half_even_of_int [of 1] round_half_even_of_int [of "- numeral n"] by simp_all

section \<open>Engine runs\<close>

text \<open>
  Evaluation of engine runs by the simplifier: weak congruence rules, so that a function body is
  only rewritten once its arguments are values, and the definitions of the stages.
\<close>

lemma bind_error_weak: "r = r' \<Longrightarrow> bind_error r f = bind_error r' f" by simp
lemma let_weak: "r = r' \<Longrightarrow> Let r f = Let r' f" by simp
lemma case_prod_weak: "r = r' \<Longrightarrow> case_prod f r = case_prod f r'" by simp
lemma fold_weak: "xs = ys \<Longrightarrow> s = t \<Longrightarrow> fold f xs s = fold f ys t" by simp
lemma fold_error_weak: "xs = ys \<Longrightarrow> s = t \<Longrightarrow> fold_error f xs s = fold_error f ys t" by simp

lemmas eval_congs = bind_error_weak let_weak case_prod_weak fold_weak fold_error_weak if_weak_cong
  option.case_cong_weak list.case_cong_weak

lemma string_of_nat_digit [simp]:
  "string_of_nat 1 = ''1''" "string_of_nat (Suc 0) = ''1''" "string_of_nat 2 = ''2''"
  "string_of_nat (Suc (Suc 0)) = ''2''" "string_of_nat 3 = ''3''" "string_of_nat (Suc (Suc (Suc 0))) = ''3''"
  by code_simp+

lemmas plan_eval = Let_def dec_eval dec_quantize_def quantize_amount_for_currency_def minor_units_def
  currency_minor_units_def decimal_precision_def
  fx_pair_def fx_rate_for_pair_def get_fx_rate_def
  update_cash_def update_quantity_def ensure_cash_balance_def ensure_position_def find_cash_def
  find_position_def cash_of_def apply_security_trade_to_portfolio_def apply_fx_spot_to_portfolio_def
  apply_proposal_cash_flow_def cash_flow_intent_of_def record_negative_cash_failure_if_needed_def
  cash_flow_creates_negative_balance_def
  security_trade_intent_for_trade_def shelf_index_def trade_is_supported_by_shelf_def
  build_supported_security_trade_intent_def build_proposal_security_trade_intent_def
  price_for_trade_def resolve_trade_notional_def notional_base_money_def
  sorted_security_intents_by_instrument_def apply_sell_intents_def
  build_auto_funding_plan_def notional_of_def dict_push_def dict_list_def initial_funding_state_def
  fund_step_def fund_target_currency_def target_currency_funding_need_def select_funding_source_def
  funding_priority_currencies_def any_cash_funding_candidates_def base_only_funding_candidates_def
  smaller_funding_deficit_def record_funding_fx_intent_def push_plan_def
  ordered_execution_intents_def sort_execution_intents_def execution_rank_def
  link_buy_intent_dependencies_def sell_intent_id_by_currency_def append_dependency_def
  build_simulation_intent_plan_def make_diagnostics_data_def make_empty_data_quality_log_def
  default_engine_options_def

lemmas valuation_eval = build_simulated_state_def value_position_def value_position_amounts_def
  mark_to_market_position_value_def converted_base_value_def price_for_position_def
  record_missing_price_def record_missing_position_fx_def cash_value_in_base_def safe_total_value_def
  dec_ratio_def shelf_by_instrument_def dict_setdefault_def dict_has_def dict_add_def dict_child_def
  apply_shelf_allocation_attributes_def add_cash_allocation_def instrument_allocations_def
  allocation_metrics_def attribute_allocation_metrics_def


lemmas review_eval = evaluate_simulation_review_def rule_engine_evaluate_def evaluate_cash_band_def
  cash_weight_of_def evaluate_single_position_max_def single_position_result_def
  evaluate_data_quality_def dq_count_def evaluate_min_trade_size_def evaluate_no_shorting_def
  least_negative_def evaluate_sufficient_cash_def append_input_guard_failure_if_needed_def
  append_funding_data_quality_failure_if_needed_def build_value_reconciliation_def
  expected_cash_delta_base_def expected_cash_delta_step_def build_reconciliation_def
  final_status_after_reconciliation_def final_status_after_pending_review_def
  derive_status_from_rules_def has_failed_rule_with_severity_def reconciliation_failure_def

lemmas support_eval = build_simulation_decision_support_def build_drift_analysis_def
  build_suitability_def build_gate_decision_def

lemmas suitability_eval = compute_suitability_result_def scan_state_issues_def after_issue_map_def
  evaluate_single_position_issues_def instrument_weights_def suit_epsilon_def add_issue_def
  single_position_issue_def severity_for_concentration_def evaluate_issuer_issues_def
  aggregate_enriched_weights_def weight_in_def evaluate_liquidity_issues_def
  evaluate_governance_holdings_issues_def add_issue_opt_def governance_holding_issue_def
  presence_governance_issue_if_applicable_def increase_governance_issue_if_applicable_def
  holding_increased_def evaluate_cash_band_issue_def to_cash_weight_def default_suitability_thresholds_def
  suitability_shelf_index_def append_post_trade_issues_def append_governance_trade_attempt_issues_def
  append_product_complexity_issues_def append_restricted_product_mandate_context_issues_def
  buy_instrument_ids_def classify_issues_def classified_issue_def issue_status_change_def
  build_suitability_issue_def issue_sort_key_def governance_trade_attempt_issue_def
  is_product_complexity_exposure_increase_def requires_product_complexity_evidence_def
  product_complexity_def requires_restricted_product_mandate_context_def new_issue_def

lemmas engine_run_eval = run_proposal_simulation_def simulate_after_def

end
