(* ===== verification/Engine_Fixtures.thy ===== *)
theory Engine_Fixtures
  imports Engine_Evaluation
begin

text \<open>
  Concrete inputs of the engine: a two-currency portfolio, its market data and shelf, and a
  proposal with a deposit, a sell and a foreign buy that automatic funding converts cash for.
  The witnesses of the engine properties evaluate runs on them.
\<close>

definition engine_runtime :: runtime where
  "engine_runtime = \<lparr>rt_sha256 = (\<lambda>s. ''0123456789abcdef''), rt_isoformat = (\<lambda>t. ''''),
     rt_fromisoformat = (\<lambda>s. None)\<rparr>"

definition cash_in :: "string \<Rightarrow> decimal \<Rightarrow> cash_balance" where
  "cash_in c a = \<lparr>cb_currency = c, cb_amount = a, cb_settled = None, cb_pending = None\<rparr>"

definition held :: "string \<Rightarrow> decimal \<Rightarrow> position" where
  "held i q = \<lparr>po_instrument_id = i, po_quantity = q, po_market_value = None, po_lots = []\<rparr>"

definition listed :: "string \<Rightarrow> shelf_status \<Rightarrow> string \<Rightarrow> (string, string) dict \<Rightarrow> shelf_entry" where
  "listed i s cls attrs = \<lparr>sh_instrument_id = i, sh_status = s, sh_asset_class = cls,
     sh_issuer_id = Some (''ISS_'' @ i), sh_liquidity_tier = Some ''L1'', sh_settlement_days = 2,
     sh_min_notional = None, sh_attributes = attrs\<rparr>"

definition priced :: "string \<Rightarrow> decimal \<Rightarrow> string \<Rightarrow> price_entry" where
  "priced i p c = \<lparr>px_instrument_id = i, px_price = p, px_currency = c\<rparr>"

definition sample_portfolio :: portfolio where
  "sample_portfolio = \<lparr>pf_snapshot_id = Some ''pf_1'', pf_source_provenance = None,
     pf_source_completeness = None, pf_id = ''PB_1'', pf_base_currency = ''USD'',
     pf_positions = [held ''EQ'' 100], pf_cash_balances = [cash_in ''USD'' 3000]\<rparr>"

definition sample_market :: market_data where
  "sample_market = \<lparr>md_snapshot_id = Some ''md_1'', md_source_provenance = None,
     md_source_completeness = None,
     md_prices = [priced ''EQ'' 50 ''USD'', priced ''BOND'' 20 ''EUR'', priced ''NOTE'' 10 ''USD''],
     md_fx_rates = [\<lparr>fr_pair = ''EUR/USD'', fr_rate = 11 / 10\<rparr>]\<rparr>"

definition sample_shelf :: "shelf_entry list" where
  "sample_shelf = [listed ''EQ'' SH_APPROVED ''EQUITY'' [(''region'', ''US'')],
     listed ''BOND'' SH_APPROVED ''FIXED_INCOME'' [],
     listed ''NOTE'' SH_APPROVED ''STRUCTURED'' [(''product_complexity'', ''high'')]]"

definition buy_of :: "string \<Rightarrow> decimal \<Rightarrow> proposed_trade" where
  "buy_of i q = \<lparr>pt_side = SD_BUY, pt_instrument_id = i, pt_quantity = Some q, pt_notional = None\<rparr>"

definition sell_of :: "string \<Rightarrow> decimal \<Rightarrow> proposed_trade" where
  "sell_of i q = \<lparr>pt_side = SD_SELL, pt_instrument_id = i, pt_quantity = Some q, pt_notional = None\<rparr>"

text \<open>Client consent is on file and the suitability scanner is off.\<close>

definition sample_options :: engine_options where
  "sample_options = default_engine_options\<lparr>eo_enable_suitability_scanner := False,
     eo_client_consent_already_obtained := True, eo_single_position_max_weight := Some (1 / 2),
     eo_link_buy_to_same_currency_sell_dependency := Some True\<rparr>"

definition sample_request :: engine_request where
  "sample_request = \<lparr>er_portfolio = sample_portfolio, er_market_data = sample_market,
     er_shelf = sample_shelf, er_options = sample_options,
     er_cash_flows = [\<lparr>pc_currency = ''USD'', pc_amount = 2000, pc_description = None\<rparr>],
     er_trades = [sell_of ''EQ'' 10, buy_of ''BOND'' 100, buy_of ''NOTE'' 20], er_reference_model = None,
     er_request_hash = ''sha256:1'', er_idempotency_key = Some ''k-1'',
     er_correlation_id = ''c-1'', er_simulation_contract_version = None,
     er_policy_context = None\<rparr>"

definition sample_trade_intent ::
  "string \<Rightarrow> string \<Rightarrow> trade_side \<Rightarrow> decimal \<Rightarrow> money \<Rightarrow> decimal \<Rightarrow> string list \<Rightarrow> trade_intent" where
  "sample_trade_intent iid i side q n b deps = \<lparr>ti_intent_id = iid, ti_instrument_id = i,
     ti_side = side, ti_quantity = Some q, ti_notional = Some n,
     ti_notional_base = Some \<lparr>mo_amount = b, mo_currency = ''USD''\<rparr>, ti_dependencies = deps,
     ti_rationale = (''MANUAL_PROPOSAL'', ''Advisor proposed trade''), ti_constraints_applied = []\<rparr>"

text \<open>What the run plans: the deposit, the sell, the conversion and the two buys.\<close>

definition sample_intents :: "order_intent list" where
  "sample_intents =
     [CashFlowIntent \<lparr>ci_intent_id = ''oi_cf_1'', ci_currency = ''USD'', ci_amount = 2000,
        ci_description = None\<rparr>,
      SecurityTradeIntent (sample_trade_intent ''oi_1'' ''EQ'' SD_SELL 10
        \<lparr>mo_amount = 500, mo_currency = ''USD''\<rparr> 500 []),
      FxSpotIntent \<lparr>fi_intent_id = ''oi_fx_1'', fi_pair = ''EUR/USD'', fi_buy_currency = ''EUR'',
        fi_buy_amount = 2000, fi_sell_currency = ''USD'', fi_sell_amount_estimated = 2200,
        fi_dependencies = [], fi_rationale = (''FUNDING'', ''Fund EUR buys'')\<rparr>,
      SecurityTradeIntent (sample_trade_intent ''oi_2'' ''BOND'' SD_BUY 100
        \<lparr>mo_amount = 2000, mo_currency = ''EUR''\<rparr> 2200 [''oi_fx_1'']),
      SecurityTradeIntent (sample_trade_intent ''oi_3'' ''NOTE'' SD_BUY 20
        \<lparr>mo_amount = 200, mo_currency = ''USD''\<rparr> 200 [''oi_1''])]"

lemmas fixture_eval = sample_request_def sample_options_def sample_portfolio_def sample_market_def
  sample_shelf_def cash_in_def priced_def listed_def held_def buy_of_def sell_of_def

lemma sample_run:
  "\<exists>res. run_proposal_simulation rt uuid sample_request = Inr res \<and> pz_status res = RN_READY
     \<and> pz_intents res = sample_intents
     \<and> (\<exists>g. pz_gate_decision res = Some g \<and> gd_gate g = ''EXECUTION_READY'')"
  by (simp add: engine_run_eval fixture_eval review_eval plan_eval valuation_eval support_eval
      gate_decision_cases new_issue_def sample_intents_def sample_trade_intent_def cong: eval_congs)

end
