(* ===== verification/Engine_Properties.thy ===== *)
theory Engine_Properties
  imports Run_Facts Engine_Fixtures
begin

text \<open>
  Properties of a simulation run as a whole: what a READY status and an EXECUTION_READY gate
  promise, what the order intents of a plan do when they are executed, and what is reported about
  missing data, suitability and drift.
\<close>

subsection \<open>What a status promises\<close>

lemma run_status:
  assumes "run_proposal_simulation rt uuid rq = Inr res" and "pz_status res = RN_READY"
  obtains dq0 plan dg1 dg2 where
    "build_simulated_state (er_portfolio rq) (er_market_data rq) (er_shelf rq) (er_options rq)
       (dg_data_quality make_diagnostics_data) = (pz_before res, dq0)"
    "build_simulation_intent_plan (er_portfolio rq) (er_market_data rq) (er_shelf rq) (er_options rq)
       (er_cash_flows rq) (er_trades rq) (make_diagnostics_data\<lparr>dg_data_quality := dq0\<rparr>) = Inr (plan, dg1)"
    "simulate_after rq (pz_before res) plan dg1 = (pz_after_simulated res, dg2)"
    "pz_intents res = ip_intents plan"
    "\<not> has_failed_rule_with_severity (rule_engine_evaluate (pz_after_simulated res) (er_options rq) dg2) RV_HARD"
    "\<not> has_failed_rule_with_severity (rule_engine_evaluate (pz_after_simulated res) (er_options rq) dg2) RV_SOFT"
    "ip_hard_failures plan = []" "\<not> ip_force_pending_review plan" "rc_ok (pz_reconciliation res)"
  using assms(1)
proof (rule run_proposal_simulationE)
  fix dq0 plan dg1 dg2 review dg3
  assume b: "build_simulated_state (er_portfolio rq) (er_market_data rq) (er_shelf rq) (er_options rq)
       (dg_data_quality make_diagnostics_data) = (pz_before res, dq0)"
    and p: "build_simulation_intent_plan (er_portfolio rq) (er_market_data rq) (er_shelf rq) (er_options rq)
       (er_cash_flows rq) (er_trades rq) (make_diagnostics_data\<lparr>dg_data_quality := dq0\<rparr>) = Inr (plan, dg1)"
    and a: "simulate_after rq (pz_before res) plan dg1 = (pz_after_simulated res, dg2)"
    and r: "evaluate_simulation_review (er_portfolio rq) (er_market_data rq) (er_options rq) dg2
       (pz_before res) (pz_after_simulated res) plan = (review, dg3)"
    and i: "pz_intents res = ip_intents plan"
    and s: "pz_status res = sw_final_status review" "pz_reconciliation res = sw_reconciliation review"
  show thesis
    by (rule that [OF b p a i]) (use review_status_iff(2) [OF r] s assms(2) in simp_all)
qed

text \<open>
  C4.  A READY run is clean: after the simulation no cash balance and no position is negative,
  every weight is at most the single-position limit plus the tolerance of 0.001 the rule allows (the
  option is documented as a hard maximum, so a weight may exceed it by that much), the cash weight is
  within its band, the value reconciles, and where missing data blocks, every position after the run
  is priced and every currency converts into the base currency.
\<close>

theorem ready_run_is_clean:
  assumes "run_proposal_simulation rt uuid rq = Inr res" and "pz_status res = RN_READY"
  shows "(\<forall>c\<in>set (ss_cash_balances (pz_after_simulated res)). 0 \<le> cb_amount c)
    \<and> (\<forall>p\<in>set (ss_positions (pz_after_simulated res)). 0 \<le> ps_quantity p)
    \<and> (\<forall>limit. eo_single_position_max_weight (er_options rq) = Some limit \<longrightarrow>
         (\<forall>a\<in>set (ss_allocation_by_instrument (pz_after_simulated res)). am_weight a \<le> dec_add limit (1 / 1000)))
    \<and> eo_cash_band_min_weight (er_options rq) \<le> cash_weight_of (pz_after_simulated res)
    \<and> cash_weight_of (pz_after_simulated res) \<le> eo_cash_band_max_weight (er_options rq)
    \<and> rc_ok (pz_reconciliation res)
    \<and> (eo_block_on_missing_prices (er_options rq) \<longrightarrow> all_priced (er_market_data rq) (pz_after_simulated res))
    \<and> (eo_block_on_missing_fx (er_options rq) \<longrightarrow>
         all_converted (er_market_data rq) (pf_base_currency (er_portfolio rq)) (pz_after_simulated res))"
  using assms
proof (rule run_status)
  fix dq0 plan dg1 dg2
  let ?after = "pz_after_simulated res" and ?os = "er_options rq"
  assume b: "build_simulated_state (er_portfolio rq) (er_market_data rq) (er_shelf rq) ?os
       (dg_data_quality make_diagnostics_data) = (pz_before res, dq0)"
    and p: "build_simulation_intent_plan (er_portfolio rq) (er_market_data rq) (er_shelf rq) ?os
       (er_cash_flows rq) (er_trades rq) (make_diagnostics_data\<lparr>dg_data_quality := dq0\<rparr>) = Inr (plan, dg1)"
    and a: "simulate_after rq (pz_before res) plan dg1 = (?after, dg2)"
    and hard: "\<not> has_failed_rule_with_severity (rule_engine_evaluate ?after ?os dg2) RV_HARD"
    and soft: "\<not> has_failed_rule_with_severity (rule_engine_evaluate ?after ?os dg2) RV_SOFT"
    and ok: "rc_ok (pz_reconciliation res)"
  have dq: "dq_count ?os dg2 = 0" using hard by (simp add: rule_engine_hard_iff)
  then have logs: "eo_block_on_missing_prices ?os \<Longrightarrow> dict_list (dg_data_quality dg2) ''price_missing'' = []"
    "eo_block_on_missing_fx ?os \<Longrightarrow> dict_list (dg_data_quality dg2) ''fx_missing'' = []"
    by (simp_all add: dq_count_def)
  have "eo_block_on_missing_prices ?os \<longrightarrow> all_priced (er_market_data rq) ?after"
    using run_clean_log(4) [OF b p a logs(1)] by blast
  moreover have "eo_block_on_missing_fx ?os \<longrightarrow>
      all_converted (er_market_data rq) (pf_base_currency (er_portfolio rq)) ?after"
    using run_clean_log(5) [OF b p a logs(2)] by blast
  ultimately show ?thesis
    using hard soft ok by (auto simp: rule_engine_hard_iff rule_engine_soft_iff not_less)
qed

theorem ready_run_is_clean_witness:
  "\<exists>res. run_proposal_simulation engine_runtime ''0'' sample_request = Inr res
     \<and> (\<forall>c\<in>set (ss_cash_balances (pz_after_simulated res)). 0 \<le> cb_amount c)
     \<and> all_priced sample_market (pz_after_simulated res)"
proof -
  obtain res where r: "run_proposal_simulation engine_runtime ''0'' sample_request = Inr res"
    "pz_status res = RN_READY" using sample_run by blast
  from r(1) ready_run_is_clean [OF r] show ?thesis
    by (intro exI [of _ res]) (simp add: sample_request_def sample_options_def default_engine_options_def)
qed

text \<open>
  C20.  A READY run does all that was proposed and can be priced: the order intents hold exactly one
  security trade for every proposed trade whose instrument has a price, on the same instrument and
  side; nothing is dropped for its shelf status or for lack of funding.  The others are logged as
  missing a price, and where missing prices block there is none.
\<close>

theorem ready_run_executes_every_trade:
  assumes "run_proposal_simulation rt uuid rq = Inr res" and "pz_status res = RN_READY"
  shows "mset (map trade_key (security_intents (pz_intents res)))
      = mset (map proposed_key (filter (priced_trade (er_market_data rq)) (er_trades rq)))
    \<and> (\<forall>t\<in>set (er_trades rq). \<not> priced_trade (er_market_data rq) t \<longrightarrow> logged_unpriced t (pz_diagnostics res))
    \<and> (eo_block_on_missing_prices (er_options rq) \<longrightarrow>
         (\<forall>t\<in>set (er_trades rq). priced_trade (er_market_data rq) t))"
  using assms
proof (rule run_status)
  fix dq0 plan dg1 dg2
  let ?after = "pz_after_simulated res" and ?os = "er_options rq"
  assume b: "build_simulated_state (er_portfolio rq) (er_market_data rq) (er_shelf rq) ?os
       (dg_data_quality make_diagnostics_data) = (pz_before res, dq0)"
    and p: "build_simulation_intent_plan (er_portfolio rq) (er_market_data rq) (er_shelf rq) ?os
       (er_cash_flows rq) (er_trades rq) (make_diagnostics_data\<lparr>dg_data_quality := dq0\<rparr>) = Inr (plan, dg1)"
    and a: "simulate_after rq (pz_before res) plan dg1 = (?after, dg2)"
    and i: "pz_intents res = ip_intents plan"
    and hard: "\<not> has_failed_rule_with_severity (rule_engine_evaluate ?after ?os dg2) RV_HARD"
    and ok: "ip_hard_failures plan = []" "\<not> ip_force_pending_review plan"
  have count: "dq_count ?os dg2 = 0" using hard by (simp add: rule_engine_hard_iff)
  then have shelf: "dict_list (dg_data_quality dg2) ''shelf_missing'' = []" by (simp add: dq_count_def)
  note plan = build_simulation_intent_plan_complete(2) [OF p ok run_clean_log(3) [OF b p a shelf]]
  have "priced_trade (er_market_data rq) t" if "eo_block_on_missing_prices ?os" "t \<in> set (er_trades rq)" for t
  proof -
    have "dict_list (dg_data_quality dg2) ''price_missing'' = []" using count that by (simp add: dq_count_def)
    then have "dict_list (dg_data_quality dg1) ''price_missing'' = []" by (rule run_clean_log(2) [OF b p a])
    then show ?thesis using plan that(2) by (auto simp: logged_unpriced_def)
  qed
  then show ?thesis
    using plan logged_unpriced_grows [OF diagnostics_reported [OF assms(1) b p]] by (simp add: i)
qed

theorem ready_run_executes_every_trade_witness:
  "\<exists>res. run_proposal_simulation engine_runtime ''0'' sample_request = Inr res
     \<and> mset (map trade_key (security_intents (pz_intents res)))
         = {#(''EQ'', SD_SELL), (''BOND'', SD_BUY), (''NOTE'', SD_BUY)#}"
proof -
  obtain res where r: "run_proposal_simulation engine_runtime ''0'' sample_request = Inr res"
    "pz_status res = RN_READY" using sample_run by blast
  note all = ready_run_executes_every_trade [OF r]
  then have "filter (priced_trade (er_market_data sample_request)) (er_trades sample_request)
      = er_trades sample_request"
    by (intro filter_True) (simp add: sample_request_def sample_options_def default_engine_options_def)
  with r(1) all show ?thesis
    by (intro exI [of _ res]) (simp add: sample_request_def proposed_key_def sell_of_def buy_of_def)
qed

text \<open>
  C5.  The gate opens last: a run ends at EXECUTION_READY only if its status is READY, it reports
  no new HIGH and no new MEDIUM suitability issue, and client consent is on file.
\<close>

theorem execution_ready_gate:
  assumes "run_proposal_simulation rt uuid rq = Inr res" and "pz_gate_decision res = Some g"
    and "gd_gate g = ''EXECUTION_READY''"
  shows "pz_status res = RN_READY \<and> \<not> new_issue LV_HIGH (pz_suitability res)
    \<and> \<not> new_issue LV_MEDIUM (pz_suitability res) \<and> eo_client_consent_already_obtained (er_options rq)
    \<and> gd_recommended_next_step g = ''EXECUTE''"
  using assms(1)
proof (rule run_proposal_simulationE)
  fix dq0 plan dg1 dg2 review dg3 dg4
  assume r: "evaluate_simulation_review (er_portfolio rq) (er_market_data rq) (er_options rq) dg2
       (pz_before res) (pz_after_simulated res) plan = (review, dg3)"
    and s: "pz_status res = sw_final_status review" "pz_rule_results res = sw_rule_results review"
    and d: "pz_gate_decision res = build_gate_decision (er_options rq) dg4 (pz_status res)
       (pz_rule_results res) (pz_suitability res)"
  from d assms(2) have g: "g = evaluate_gate_decision (pz_status res) (pz_rule_results res)
      (pz_suitability res) (Some dg4) (er_options rq) True"
    by (simp add: build_gate_decision_def split: if_splits)
  have step: "gd_recommended_next_step g = ''EXECUTE''"
    using gate_decision_in_vocabulary [of "pz_status res" "pz_rule_results res" "pz_suitability res"
        "Some dg4" "er_options rq" True, folded g]
    by (simp add: assms(3) workflow_gate_next_steps_def)
  have gate: "\<not> has_failed_rule_with_severity (pz_rule_results res) RV_HARD
      \<and> \<not> has_failed_rule_with_severity (pz_rule_results res) RV_SOFT
      \<and> \<not> new_issue LV_HIGH (pz_suitability res) \<and> \<not> new_issue LV_MEDIUM (pz_suitability res)
      \<and> eo_client_consent_already_obtained (er_options rq)"
    using assms(3) unfolding g gate_decision_cases by (auto split: if_splits)
  then have "pz_status res = RN_READY"
    using review_status_iff(3) [OF r] by (simp add: s derive_status_from_rules_def)
  with gate step show ?thesis by blast
qed

theorem execution_ready_gate_witness:
  "\<exists>res. run_proposal_simulation engine_runtime ''0'' sample_request = Inr res
     \<and> pz_status res = RN_READY \<and> \<not> new_issue LV_HIGH (pz_suitability res)"
proof -
  obtain res g where r: "run_proposal_simulation engine_runtime ''0'' sample_request = Inr res"
    "pz_gate_decision res = Some g" "gd_gate g = ''EXECUTION_READY''" using sample_run by blast
  from r(1) execution_ready_gate [OF r] show ?thesis by blast
qed


subsection \<open>What the order intents do\<close>

text \<open>
  C8.  The order intents are a faithful account of the simulation: executed in the order in which
  they are reported, they turn the portfolio of the request into the cash balances and the holdings
  of the simulated state, whenever the currency codes of the prices have one length, as ISO codes
  do.  The order matters because decimal arithmetic rounds.
\<close>

theorem run_intents_execute:
  assumes "run_proposal_simulation rt uuid rq = Inr res"
    and "\<forall>p\<in>set (md_prices (er_market_data rq)). length (px_currency p) = k"
  shows "(\<forall>c. balance_in (pz_after_simulated res) c
           = cash_of (fold execute_intent (pz_intents res) (er_portfolio rq)) c)
    \<and> holdings_in (pz_after_simulated res)
        = holdings_of (fold execute_intent (pz_intents res) (er_portfolio rq))"
  using run_executes [OF assms] by simp

theorem run_intents_execute_witness:
  "\<exists>res. run_proposal_simulation engine_runtime ''0'' sample_request = Inr res
     \<and> balance_in (pz_after_simulated res) ''USD'' = 3100
     \<and> holdings_in (pz_after_simulated res) = [(''EQ'', 90), (''BOND'', 100), (''NOTE'', 20)]"
proof -
  obtain res where r: "run_proposal_simulation engine_runtime ''0'' sample_request = Inr res"
    "pz_intents res = sample_intents" using sample_run by blast
  have codes: "\<forall>p\<in>set (md_prices (er_market_data sample_request)). length (px_currency p) = 3"
    by (simp add: fixture_eval)
  show ?thesis
    using run_intents_execute [OF r(1) codes] r(1)
    by (intro exI [of _ res]) (simp add: r(2) sample_intents_def sample_trade_intent_def execute_intent_def
        holdings_of_def fixture_eval plan_eval)
qed

text \<open>
  The order intents of a run have distinct identifiers, and whatever an intent depends on is
  an intent placed before it.
\<close>

theorem run_dependencies_precede:
  assumes "run_proposal_simulation rt uuid rq = Inr res"
  shows "distinct (map intent_id_of_order (pz_intents res))
    \<and> (\<forall>n < length (pz_intents res). \<forall>d \<in> set (order_dependencies (pz_intents res ! n)).
         \<exists>j < n. intent_id_of_order (pz_intents res ! j) = d)"
  using assms
proof (rule run_proposal_simulationE)
  fix dq0 plan dg1
  assume "build_simulation_intent_plan (er_portfolio rq) (er_market_data rq) (er_shelf rq) (er_options rq)
       (er_cash_flows rq) (er_trades rq) (make_diagnostics_data\<lparr>dg_data_quality := dq0\<rparr>) = Inr (plan, dg1)"
    and "pz_intents res = ip_intents plan"
  then show ?thesis using plan_ids_distinct plan_dependencies_precede by auto
qed

theorem run_dependencies_precede_witness:
  "\<exists>res. run_proposal_simulation engine_runtime ''0'' sample_request = Inr res
     \<and> (\<exists>j < 3. intent_id_of_order (pz_intents res ! j) = ''oi_fx_1'')"
proof -
  obtain res where r: "run_proposal_simulation engine_runtime ''0'' sample_request = Inr res"
    "pz_intents res = sample_intents" using sample_run by blast
  have "3 < length sample_intents" "''oi_fx_1'' \<in> set (order_dependencies (sample_intents ! 3))"
    by (simp_all add: sample_intents_def sample_trade_intent_def)
  with run_dependencies_precede [OF r(1)] r show ?thesis by (intro exI [of _ res]) auto
qed

text \<open>
  Every security trade of a run carries out a proposed trade: the same instrument and side, a
  shelf entry whose status allows the side (a buy needs APPROVED, or RESTRICTED where the options
  allow it), and the quantity and notional the trade and the price determine.
\<close>

theorem run_trades_respect_the_shelf:
  assumes "run_proposal_simulation rt uuid rq = Inr res" and "SecurityTradeIntent i \<in> set (pz_intents res)"
  shows "\<exists>t\<in>set (er_trades rq).
    executes_trade (er_shelf rq) (er_market_data rq) (er_options rq) t i"
  using assms(1)
proof (rule run_proposal_simulationE)
  fix dq0 plan dg1
  assume p: "build_simulation_intent_plan (er_portfolio rq) (er_market_data rq) (er_shelf rq) (er_options rq)
       (er_cash_flows rq) (er_trades rq) (make_diagnostics_data\<lparr>dg_data_quality := dq0\<rparr>) = Inr (plan, dg1)"
    and "pz_intents res = ip_intents plan"
  with assms(2) have "SecurityTradeIntent i \<in> set (ip_intents plan)" by simp
  with p show ?thesis by (rule plan_trade_executes)
qed

theorem run_trades_respect_the_shelf_witness:
  "\<exists>t\<in>set (er_trades sample_request). executes_trade sample_shelf sample_market sample_options t
     (sample_trade_intent ''oi_2'' ''BOND'' SD_BUY 100 \<lparr>mo_amount = 2000, mo_currency = ''EUR''\<rparr> 2200 [''oi_fx_1''])"
proof -
  obtain res where r: "run_proposal_simulation engine_runtime ''0'' sample_request = Inr res"
    "pz_intents res = sample_intents" using sample_run by blast
  have "SecurityTradeIntent (sample_trade_intent ''oi_2'' ''BOND'' SD_BUY 100
      \<lparr>mo_amount = 2000, mo_currency = ''EUR''\<rparr> 2200 [''oi_fx_1'']) \<in> set (pz_intents res)"
    by (simp add: r(2) sample_intents_def)
  from run_trades_respect_the_shelf [OF r(1) this] show ?thesis by (simp add: sample_request_def)
qed

text \<open>
  A buy waits for exactly what funds it: its dependencies are the conversion into its
  currency, if the run has one, and, where the options link buys to sells, a sell in its currency,
  if the run has one.
\<close>

theorem buys_wait_for_their_funding:
  assumes "run_proposal_simulation rt uuid rq = Inr res" and "SecurityTradeIntent i \<in> set (pz_intents res)"
    and "ti_side i = SD_BUY" and "ti_notional i = Some n"
  shows "(\<forall>fx. FxSpotIntent fx \<in> set (pz_intents res) \<longrightarrow> fi_buy_currency fx = mo_currency n
           \<longrightarrow> fi_intent_id fx \<in> set (ti_dependencies i))
    \<and> (eo_link_buy_to_same_currency_sell_dependency (er_options rq) = Some True
        \<longrightarrow> (\<exists>s. SecurityTradeIntent s \<in> set (pz_intents res) \<and> sell_in (mo_currency n) s)
        \<longrightarrow> (\<exists>s. SecurityTradeIntent s \<in> set (pz_intents res) \<and> sell_in (mo_currency n) s
              \<and> ti_intent_id s \<in> set (ti_dependencies i)))
    \<and> (\<forall>d\<in>set (ti_dependencies i).
         (\<exists>fx. FxSpotIntent fx \<in> set (pz_intents res) \<and> fi_buy_currency fx = mo_currency n \<and> fi_intent_id fx = d)
       \<or> (eo_link_buy_to_same_currency_sell_dependency (er_options rq) = Some True
          \<and> (\<exists>s. SecurityTradeIntent s \<in> set (pz_intents res) \<and> sell_in (mo_currency n) s \<and> ti_intent_id s = d)))"
  using assms(1)
proof (rule run_proposal_simulationE)
  fix dq0 plan dg1
  assume p: "build_simulation_intent_plan (er_portfolio rq) (er_market_data rq) (er_shelf rq) (er_options rq)
       (er_cash_flows rq) (er_trades rq) (make_diagnostics_data\<lparr>dg_data_quality := dq0\<rparr>) = Inr (plan, dg1)"
    and i: "pz_intents res = ip_intents plan"
  show ?thesis unfolding i by (rule plan_buy_dependencies [OF p assms(2) [unfolded i] assms(3,4)])
qed

theorem buys_wait_for_their_funding_witness:
  "\<exists>res. run_proposal_simulation engine_runtime ''0'' sample_request = Inr res
     \<and> (\<forall>d \<in> set [''oi_fx_1'']. \<exists>fx. FxSpotIntent fx \<in> set (pz_intents res) \<and> fi_intent_id fx = d)"
proof -
  obtain res where r: "run_proposal_simulation engine_runtime ''0'' sample_request = Inr res"
    "pz_intents res = sample_intents" using sample_run by blast
  let ?i = "sample_trade_intent ''oi_2'' ''BOND'' SD_BUY 100 \<lparr>mo_amount = 2000, mo_currency = ''EUR''\<rparr> 2200 [''oi_fx_1'']"
  have m: "SecurityTradeIntent ?i \<in> set (pz_intents res)" by (simp add: r(2) sample_intents_def)
  have "\<not> sell_in ''EUR'' s" if "SecurityTradeIntent s \<in> set (pz_intents res)" for s
    using that by (auto simp: r(2) sample_intents_def sample_trade_intent_def sell_in_def)
  with buys_wait_for_their_funding [OF r(1) m] r(1) show ?thesis
    by (intro exI [of _ res]) (auto simp: sample_trade_intent_def)
qed

text \<open>
  C28.  Conversions never overdraw: if no balance is negative once the cash flows and the sells of a
  run are executed, none is negative once its conversions are executed as well.
\<close>

theorem conversions_never_overdraw:
  assumes "run_proposal_simulation rt uuid rq = Inr res"
    and "\<forall>p\<in>set (md_prices (er_market_data rq)). length (px_currency p) = k"
    and "nonneg_cash (executed_upto 1 (pz_intents res) (er_portfolio rq))"
  shows "0 \<le> cash_of (executed_upto 2 (pz_intents res) (er_portfolio rq)) c"
  using assms(1)
proof (rule run_proposal_simulationE)
  fix dq0 plan dg1
  assume p: "build_simulation_intent_plan (er_portfolio rq) (er_market_data rq) (er_shelf rq) (er_options rq)
       (er_cash_flows rq) (er_trades rq) (make_diagnostics_data\<lparr>dg_data_quality := dq0\<rparr>) = Inr (plan, dg1)"
    and i: "pz_intents res = ip_intents plan"
  show ?thesis unfolding i by (rule plan_conversions_nonneg [OF p assms(2) assms(3) [unfolded i]])
qed

theorem conversions_never_overdraw_witness:
  "0 \<le> cash_of (executed_upto 2 sample_intents sample_portfolio) ''USD''"
proof -
  obtain res where r: "run_proposal_simulation engine_runtime ''0'' sample_request = Inr res"
    "pz_intents res = sample_intents" using sample_run by blast
  have codes: "\<forall>p\<in>set (md_prices (er_market_data sample_request)). length (px_currency p) = 3"
    by (simp add: fixture_eval)
  have "nonneg_cash (executed_upto 1 (pz_intents res) (er_portfolio sample_request))"
    by (simp add: r(2) executed_upto_def execution_rank_def sample_intents_def sample_trade_intent_def
        execute_intent_def nonneg_cash_def fixture_eval plan_eval)
  from conversions_never_overdraw [OF r(1) codes this, of "''USD''"] show ?thesis
    by (simp add: r(2)) (simp add: sample_request_def)
qed

end
