(* ===== verification/Report_Properties.thy ===== *)
theory Report_Properties
  imports Run_Facts Engine_Fixtures
begin

text \<open>
  Properties of what a run reports: the gate and the suitability issues behind it, the missing-data
  log, the drift against a reference model, and two runs that show where the funding plan and the
  suitability classification fall short.
\<close>

subsection \<open>Suitability and the gate\<close>

text \<open>A buy that needs evidence the request does not have.\<close>

definition evidence_gap :: "engine_request \<Rightarrow> proposed_trade \<Rightarrow> shelf_entry \<Rightarrow> bool" where
  "evidence_gap rq t e \<longleftrightarrow> pt_side t = SD_BUY \<and> pt_instrument_id t \<noteq> []
     \<and> dict_get (suitability_shelf_index (er_shelf rq)) (pt_instrument_id t) = Some e
     \<and> (requires_product_complexity_evidence e (er_policy_context rq)
        \<or> (sh_status e = SH_RESTRICTED \<and> requires_restricted_product_mandate_context (er_policy_context rq)))"

lemma evidence_gap_is_new_high:
  assumes "evidence_gap rq t e" and "t \<in> set ts"
  shows "new_issue LV_HIGH (Some (compute_suitability_result b a (er_shelf rq) os pid mid as_of ts
    (er_policy_context rq)))"
proof -
  let ?res = "compute_suitability_result b a (er_shelf rq) os pid mid as_of ts (er_policy_context rq)"
  have bought: "pt_instrument_id t \<in> set (buy_instrument_ids ts)"
    using assms by (auto simp: evidence_gap_def buy_instrument_ids_def)
  let ?m = "after_issue_map b a (er_shelf rq) os ts (er_policy_context rq)"
  have e: "dict_get (suitability_shelf_index (er_shelf rq)) (pt_instrument_id t) = Some e"
    using assms(1) by (simp add: evidence_gap_def)
  obtain k where k: "has_high k ?m" "hd k \<notin> state_letters"
  proof (cases "requires_product_complexity_evidence e (er_policy_context rq)")
    case True
    from that [OF complex_buy_is_high [OF bought e True]] show thesis by (simp add: state_letters_def)
  next
    case False
    with assms(1) have "sh_status e = SH_RESTRICTED"
      "requires_restricted_product_mandate_context (er_policy_context rq)" by (simp_all add: evidence_gap_def)
    from that [OF restricted_buy_is_high [OF bought e this]] show thesis by (simp add: state_letters_def)
  qed
  then obtain i where "i \<in> set (sg_issues ?res)" "sx_status_change i = IC_NEW" "sx_severity i = LV_HIGH"
    using fresh_high_is_new [OF k, of pid mid as_of] by blast
  then show ?thesis by (auto simp: new_issue_def list_ex_iff)
qed

text \<open>
  C19.  Missing context stops a run short of execution: with the suitability scanner on, where the run
  decides a gate, a proposed buy of a complex product without client context, or of a restricted one
  in a request that supplies a policy context without a mandate, ends at the gate BLOCKED or
  COMPLIANCE_REVIEW_REQUIRED, whatever the portfolio, the consent on file and the rest of the
  proposal.  With the scanner off, or for a restricted product with no policy context supplied,
  nothing is promised.
\<close>

theorem evidence_gaps_stop_the_run:
  assumes "run_proposal_simulation rt uuid rq = Inr res" and "pz_gate_decision res = Some g"
    and "eo_enable_suitability_scanner (er_options rq)"
    and "t \<in> set (er_trades rq)" and "evidence_gap rq t e"
  shows "gd_gate g \<in> {''BLOCKED'', ''COMPLIANCE_REVIEW_REQUIRED''}"
  using assms(1)
proof (rule run_proposal_simulationE)
  fix dq0 plan dg1 dg2 review dg3 dg4
  assume p: "build_simulation_intent_plan (er_portfolio rq) (er_market_data rq) (er_shelf rq) (er_options rq)
       (er_cash_flows rq) (er_trades rq) (make_diagnostics_data\<lparr>dg_data_quality := dq0\<rparr>) = Inr (plan, dg1)"
    and s: "pz_suitability res = build_suitability (er_portfolio rq) (er_market_data rq) (er_shelf rq)
       (er_options rq) (pz_before res) (pz_after_simulated res) plan (er_policy_context rq)"
    and d: "pz_gate_decision res = build_gate_decision (er_options rq) dg4 (pz_status res)
       (pz_rule_results res) (pz_suitability res)"
  have "ip_trades plan = er_trades rq" using p by (rule build_simulation_intent_planE)
  then have "new_issue LV_HIGH (pz_suitability res)"
    using evidence_gap_is_new_high [OF assms(5,4)] assms(3) by (simp add: s build_suitability_def)
  then show ?thesis
    using d assms(2) by (auto simp: build_gate_decision_def gate_decision_cases split: if_splits)
qed

definition gap_request :: engine_request where
  "gap_request = sample_request\<lparr>er_options := default_engine_options, er_trades := [buy_of ''NOTE'' 20],
     er_cash_flows := []\<rparr>"

theorem evidence_gaps_stop_the_run_witness:
  "\<exists>res g. run_proposal_simulation engine_runtime ''0'' gap_request = Inr res
     \<and> pz_gate_decision res = Some g \<and> gd_gate g \<in> {''BLOCKED'', ''COMPLIANCE_REVIEW_REQUIRED''}"
proof -
  obtain res g where r: "run_proposal_simulation engine_runtime ''0'' gap_request = Inr res"
    "pz_gate_decision res = Some g"
  proof -
    have "\<exists>res g. run_proposal_simulation engine_runtime ''0'' gap_request = Inr res
        \<and> pz_gate_decision res = Some g"
      by (simp add: gap_request_def engine_run_eval fixture_eval review_eval plan_eval valuation_eval
          support_eval cong: eval_congs)
    then show thesis using that by blast
  qed
  let ?note = "listed ''NOTE'' SH_APPROVED ''STRUCTURED'' [(''product_complexity'', ''high'')]"
  have "map upper_char ''high'' = ''HIGH''" by code_simp
  then have "evidence_gap gap_request (buy_of ''NOTE'' 20) ?note"
    by (simp add: evidence_gap_def gap_request_def fixture_eval suitability_shelf_index_def
        requires_product_complexity_evidence_def product_complexity_def client_context_available_def
        context_status_available_def)
  from r evidence_gaps_stop_the_run [OF r _ _ this] show ?thesis
    by (auto simp: gap_request_def default_engine_options_def)
qed


text \<open>
  C29.  The classification of suitability issues is exact: each issue key is reported at most once,
  as NEW, PERSISTENT or RESOLVED exactly when the key is found only after, both before and after,
  or only before the proposal, and each count in the summary is the number of issues reported with
  its status.
\<close>

theorem suitability_classification_exact:
  fixes prior after shelf os ctx ts pid mid as_of
  defines "found_before \<equiv> scan_state_issues prior prior (suitability_shelf_index shelf) os"
  defines "found_after \<equiv> after_issue_map prior after shelf os ts ctx"
  defines "result \<equiv> compute_suitability_result prior after shelf os pid mid as_of ts ctx"
  shows "distinct (map sx_issue_key (sg_issues result))
    \<and> (\<forall>k. (\<exists>i\<in>set (sg_issues result). sx_issue_key i = k \<and> sx_status_change i = IC_NEW)
          \<longleftrightarrow> \<not> dict_has found_before k \<and> dict_has found_after k)
    \<and> (\<forall>k. (\<exists>i\<in>set (sg_issues result). sx_issue_key i = k \<and> sx_status_change i = IC_PERSISTENT)
          \<longleftrightarrow> dict_has found_before k \<and> dict_has found_after k)
    \<and> (\<forall>k. (\<exists>i\<in>set (sg_issues result). sx_issue_key i = k \<and> sx_status_change i = IC_RESOLVED)
          \<longleftrightarrow> dict_has found_before k \<and> \<not> dict_has found_after k)
    \<and> sg_new_count result = length (filter (\<lambda>i. sx_status_change i = IC_NEW) (sg_issues result))
    \<and> sg_persistent_count result = length (filter (\<lambda>i. sx_status_change i = IC_PERSISTENT) (sg_issues result))
    \<and> sg_resolved_count result = length (filter (\<lambda>i. sx_status_change i = IC_RESOLVED) (sg_issues result))
    \<and> sg_new_count result + sg_persistent_count result + sg_resolved_count result = length (sg_issues result)"
proof -
  have ok: "issue_map_ok state_letters found_before"
    "issue_map_ok (state_letters \<union> {CHR ''P'', CHR ''M''}) found_after"
    unfolding found_before_def found_after_def by (rule scan_state_issues_ok after_issue_map_ok)+
  obtain ev where issues: "sg_issues result = classify_issues found_before found_after ev"
    by (simp add: result_def compute_suitability_result_def Let_def found_before_def found_after_def)
  have status: "(\<exists>i\<in>set (sg_issues result). sx_issue_key i = k \<and> sx_status_change i = change)
      \<longleftrightarrow> issue_status_change (dict_has found_before k) (dict_has found_after k) = Some change" for k change
    unfolding issues classified_issue_exists [where ev = ev, symmetric] set_classify_issues Bex_def
    using classified_issue_key [OF ok, of _ ev] by blast
  have counts: "length (issues_with_status is IC_NEW) + length (issues_with_status is IC_PERSISTENT)
      + length (issues_with_status is IC_RESOLVED) = length is" for "is"
  proof (induction "is")
    case (Cons i "is")
    then show ?case by (cases "sx_status_change i") (simp_all add: issues_with_status_def)
  qed (simp add: issues_with_status_def)
  have each: "sg_new_count result = length (filter (\<lambda>i. sx_status_change i = IC_NEW) (sg_issues result))"
    "sg_persistent_count result = length (filter (\<lambda>i. sx_status_change i = IC_PERSISTENT) (sg_issues result))"
    "sg_resolved_count result = length (filter (\<lambda>i. sx_status_change i = IC_RESOLVED) (sg_issues result))"
    by (simp_all add: result_def compute_suitability_result_def Let_def issues_with_status_def)
  have sum: "sg_new_count result + sg_persistent_count result + sg_resolved_count result = length (sg_issues result)"
    using counts by (simp add: result_def compute_suitability_result_def Let_def)
  show ?thesis
    unfolding status using classify_issues_distinct [OF ok] sum each
    by (auto simp: issues issue_status_change_def)
qed

subsection \<open>Missing data\<close>

text \<open>
  The missing-data log is exact: valuing a portfolio logs one entry for each position without
  a price, in order, and one currency pair for each position and each balance whose currency does
  not convert, in order, and nothing else.
\<close>

theorem missing_data_log_exact:
  assumes "build_simulated_state pf md shelf os dq = (st, dq')"
  shows "dict_list dq' ''price_missing'' = dict_list dq ''price_missing''
       @ map po_instrument_id (filter (\<lambda>p. price_for_position p md = None) (pf_positions pf))
    \<and> dict_list dq' ''fx_missing'' = dict_list dq ''fx_missing''
       @ map (\<lambda>c. fx_pair c (pf_base_currency pf))
           (filter (\<lambda>c. get_fx_rate md c (pf_base_currency pf) = None)
             (map ps_instrument_currency (ss_positions st) @ map cb_currency (pf_cash_balances pf)))
    \<and> (\<forall>k. k \<notin> {''price_missing'', ''fx_missing''} \<longrightarrow> dict_list dq' k = dict_list dq k)"
  using build_simulated_state_log [OF assms] by (simp add: unpriced_def unconverted_def)

theorem missing_data_log_exact_witness:
  "\<exists>st dq'. build_simulated_state (sample_portfolio\<lparr>pf_cash_balances := [cash_in ''JPY'' 5]\<rparr>)
      (sample_market\<lparr>md_prices := []\<rparr>) [] default_engine_options make_empty_data_quality_log = (st, dq')
    \<and> dict_list dq' ''price_missing'' = [''EQ'']"
proof -
  obtain st dq' where r: "build_simulated_state (sample_portfolio\<lparr>pf_cash_balances := [cash_in ''JPY'' 5]\<rparr>)
      (sample_market\<lparr>md_prices := []\<rparr>) [] default_engine_options make_empty_data_quality_log = (st, dq')"
    by fastforce
  from r missing_data_log_exact [OF r] show ?thesis
    by (intro exI conjI) (auto simp: fixture_eval price_for_position_def make_empty_data_quality_log_def dict_list_def)
qed

subsection \<open>An empty proposal\<close>

text \<open>
  An empty proposal changes nothing: without cash flows and trades every run returns, plans
  no order intent, leaves the state as it is, and its value reconciles.
\<close>

theorem empty_proposal_changes_nothing:
  assumes "er_cash_flows rq = []" and "er_trades rq = []"
  shows "\<exists>res. run_proposal_simulation rt uuid rq = Inr res \<and> pz_intents res = []
    \<and> pz_after_simulated res = pz_before res \<and> rc_ok (pz_reconciliation res)"
proof -
  obtain prior dq0 where b: "build_simulated_state (er_portfolio rq) (er_market_data rq) (er_shelf rq)
      (er_options rq) (dg_data_quality make_diagnostics_data) = (prior, dq0)" by fastforce
  have fund: "build_auto_funding_plan md os [] pf dg = Inr (initial_funding_state pf dg)" for md os pf dg
    by (simp add: build_auto_funding_plan_def)
  obtain plan dg1 where p: "build_simulation_intent_plan (er_portfolio rq) (er_market_data rq) (er_shelf rq)
      (er_options rq) (er_cash_flows rq) (er_trades rq) (make_diagnostics_data\<lparr>dg_data_quality := dq0\<rparr>)
      = Inr (plan, dg1)" "ip_intents plan = []" "ip_cash_flows plan = []"
    by (simp add: assms build_simulation_intent_plan_def sorted_security_intents_by_instrument_def
        apply_sell_intents_def fund initial_funding_state_def ordered_execution_intents_def
        sort_execution_intents_def link_buy_intent_dependencies_def Let_def)
  obtain review dg3 where r: "evaluate_simulation_review (er_portfolio rq) (er_market_data rq)
      (er_options rq) dg1 prior prior plan = (review, dg3)" by fastforce
  obtain recon d t dg' where v: "build_value_reconciliation (er_portfolio rq) (er_market_data rq) prior prior plan dg1
      = ((recon, d, t), dg')" by (metis prod_cases3 surj_pair)
  have "build_simulated_state pf md shelf os dq = (st, dq') \<Longrightarrow> dec_exact (mo_amount (ss_total_value st))"
    for pf md shelf os dq st dq'
    by (erule build_simulated_state_parts) (simp add: dec_add_def)
  from this [OF b] have "dec_add (mo_amount (ss_total_value prior)) 0 = mo_amount (ss_total_value prior)"
    by (simp add: dec_add_def dec_round_exact)
  then have "rc_ok recon"
    using v by (auto simp: build_value_reconciliation_def p(3) expected_cash_delta_base_def Let_def
        dest: build_reconciliation_exact)
  then have ok: "rc_ok (sw_reconciliation review)"
    using r v by (auto simp: evaluate_simulation_review_def Let_def final_status_after_reconciliation_def
        split: prod.splits)
  show ?thesis
    by (simp add: run_proposal_simulation_def b p simulate_after_def r ok Let_def split: prod.split)
qed

theorem empty_proposal_changes_nothing_witness:
  "\<exists>res. run_proposal_simulation engine_runtime ''0'' (sample_request\<lparr>er_cash_flows := [], er_trades := []\<rparr>) = Inr res
     \<and> pz_intents res = []"
  using empty_proposal_changes_nothing
    [of "sample_request\<lparr>er_cash_flows := [], er_trades := []\<rparr>" engine_runtime "''0''"]
  by auto


subsection \<open>The gate table\<close>

text \<open>
  C30.  Gates and next steps are typed: whatever a run is like, its gate and its recommended next
  step form a pair of the published vocabulary, which is built without a conflict, and the gate is
  the first that applies of blocked, compliance review, risk review, execution ready and consent.
\<close>

theorem gate_is_first_applicable:
  fixes status rs s dg os d
  defines "g \<equiv> evaluate_gate_decision status rs s dg os d"
  shows "workflow_gate_vocabulary = Inr workflow_gate_next_steps
    \<and> dict_get workflow_gate_next_steps (gd_gate g) = Some (gd_recommended_next_step g)
    \<and> gd_gate g =
       (if status = RN_BLOCKED \<or> has_failed_rule_with_severity rs RV_HARD then ''BLOCKED''
        else if new_issue LV_HIGH s then ''COMPLIANCE_REVIEW_REQUIRED''
        else if has_failed_rule_with_severity rs RV_SOFT \<or> new_issue LV_MEDIUM s then ''RISK_REVIEW_REQUIRED''
        else if eo_client_consent_already_obtained os then ''EXECUTION_READY''
        else if eo_workflow_requires_client_consent os \<or> d then ''CLIENT_CONSENT_REQUIRED''
        else ''EXECUTION_READY'')"
  unfolding g_def using workflow_gate_vocabulary_ok gate_decision_in_vocabulary gate_decision_cases by blast

subsection \<open>Drift\<close>

lemma to_weight_map_keys: "fst ` set (to_weight_map as) = am_key ` set as"
proof -
  have "fst ` set (fold (\<lambda>a. dict_set (am_key a) (am_weight a)) as m) = fst ` set m \<union> am_key ` set as" for m
    by (induction as arbitrary: m) (auto simp: dom_update)
  then show ?thesis by (simp add: to_weight_map_def)
qed

lemma to_asset_class_target_map_keys: "fst ` set (to_asset_class_target_map ts) = at_asset_class ` set ts"
proof -
  have "fst ` set (fold (\<lambda>t. dict_set (at_asset_class t) (at_weight t)) ts m) = fst ` set m \<union> at_asset_class ` set ts" for m
    by (induction ts arbitrary: m) (auto simp: dom_update)
  then show ?thesis by (simp add: to_asset_class_target_map_def)
qed

text \<open>
  The drift report is complete and ordered: the asset-class buckets are, in order and once
  each, the classes of either state, of the model and cash; no total is negative; unchanged
  allocations have no drift delta; and the highlights are the largest improvements, so no improving
  bucket left out improves more than one that is listed.
\<close>

theorem drift_report_is_complete:
  fixes prior after model traded os
  defines "d \<equiv> compute_drift_analysis prior after model traded os"
  defines "details \<equiv> (case dn_instrument d of Some x \<Rightarrow> dm_buckets x | None \<Rightarrow> dm_buckets (dn_asset_class d))"
  shows "sorted (map bd_bucket (dm_buckets (dn_asset_class d)))
    \<and> distinct (map bd_bucket (dm_buckets (dn_asset_class d)))
    \<and> bd_bucket ` set (dm_buckets (dn_asset_class d)) = insert ''CASH''
        (am_key ` set (ss_allocation_by_asset_class prior) \<union> am_key ` set (ss_allocation_by_asset_class after)
         \<union> at_asset_class ` set (rm_asset_class_targets model))
    \<and> 0 \<le> dm_drift_total_before (dn_asset_class d) \<and> 0 \<le> dm_drift_total_after (dn_asset_class d)
    \<and> (ss_allocation_by_asset_class after = ss_allocation_by_asset_class prior
        \<longrightarrow> dm_drift_total_delta (dn_asset_class d) = 0)
    \<and> (\<forall>(k, x)\<in>set (dl_largest_improvements (dn_highlights d)). 0 < x \<and> (\<forall>b\<in>set details. 0 < bd_improvement b
          \<longrightarrow> (bd_bucket b, bd_improvement b) \<notin> set (dl_largest_improvements (dn_highlights d))
          \<longrightarrow> bd_improvement b \<le> x))"
proof -
  let ?limit = "eo_drift_top_contributors_limit os"
  let ?ac = "build_dimension (to_weight_map (ss_allocation_by_asset_class prior))
      (to_weight_map (ss_allocation_by_asset_class after))
      (to_asset_class_target_map (rm_asset_class_targets model))
      (map fst (to_weight_map (ss_allocation_by_asset_class prior))
       @ map fst (to_weight_map (ss_allocation_by_asset_class after))
       @ map fst (to_asset_class_target_map (rm_asset_class_targets model)) @ [''CASH'']) ?limit"
  have ac: "dn_asset_class d = ?ac" by (simp add: d_def compute_drift_analysis_def Let_def)
  have high: "dl_largest_improvements (dn_highlights d) = highlight_entries (largest_improvements details ?limit)"
    unfolding details_def d_def compute_drift_analysis_def Let_def build_highlights_def by simp
  have exact: "\<forall>x\<in>set details. dec_exact (bd_improvement x)"
    unfolding details_def d_def compute_drift_analysis_def Let_def
    by (auto intro: bucket_improvement_exact split: option.splits if_splits)
  have keys: "map bd_bucket (dm_buckets (dn_asset_class d)) = sort (remdups
      (map fst (to_weight_map (ss_allocation_by_asset_class prior))
       @ map fst (to_weight_map (ss_allocation_by_asset_class after))
       @ map fst (to_asset_class_target_map (rm_asset_class_targets model)) @ [''CASH'']))"
    unfolding ac by (rule build_dimension_buckets)
  have "bd_bucket ` set (dm_buckets (dn_asset_class d)) = insert ''CASH''
        (am_key ` set (ss_allocation_by_asset_class prior) \<union> am_key ` set (ss_allocation_by_asset_class after)
         \<union> at_asset_class ` set (rm_asset_class_targets model))"
    using arg_cong [OF keys, of set] by (auto simp: to_weight_map_keys to_asset_class_target_map_keys)
  moreover have "\<forall>(k, x)\<in>set (highlight_entries (largest_improvements details ?limit)).
      0 < x \<and> (\<forall>b\<in>set details. 0 < bd_improvement b
          \<longrightarrow> (bd_bucket b, bd_improvement b) \<notin> set (highlight_entries (largest_improvements details ?limit))
          \<longrightarrow> bd_improvement b \<le> x)"
  proof (clarify, intro conjI ballI impI)
    fix k x assume "(k, x) \<in> set (highlight_entries (largest_improvements details ?limit))"
    then obtain y where y: "y \<in> set (largest_improvements details ?limit)" "x = bd_improvement y"
      by (auto simp: highlight_entries_def)
    then show "0 < x" by (auto simp: largest_improvements_def dest!: in_set_takeD)
    fix b assume "b \<in> set details" "0 < bd_improvement b"
      "(bd_bucket b, bd_improvement b) \<notin> set (highlight_entries (largest_improvements details ?limit))"
    with largest_improvements_top [OF exact y(1), of b] y(2) show "bd_improvement b \<le> x"
      by (auto simp: highlight_entries_def)
  qed
  ultimately show ?thesis
    unfolding high using keys build_dimension_totals build_dimension_same by (simp add: ac)
qed

text \<open>A switch from equities to bonds, against a model of half of each.\<close>

definition weighted_state :: "(string \<times> decimal) list \<Rightarrow> simulated_state" where
  "weighted_state ws = \<lparr>ss_total_value = \<lparr>mo_amount = 1000, mo_currency = ''USD''\<rparr>, ss_cash_balances = [],
     ss_positions = [],
     ss_allocation_by_asset_class = map (\<lambda>(k, w). \<lparr>am_key = k, am_weight = w,
       am_value = \<lparr>mo_amount = 1000 * w, mo_currency = ''USD''\<rparr>\<rparr>) ws,
     ss_allocation_by_instrument = [], ss_allocation_by_attribute = []\<rparr>"

definition half_and_half :: reference_model where
  "half_and_half = \<lparr>rm_model_id = ''m'', rm_as_of = '''', rm_base_currency = ''USD'',
     rm_asset_class_targets = [\<lparr>at_asset_class = ''EQUITY'', at_weight = 1 / 2\<rparr>,
       \<lparr>at_asset_class = ''BOND'', at_weight = 1 / 2\<rparr>], rm_instrument_targets = []\<rparr>"


lemma switch_maps:
  "to_weight_map (ss_allocation_by_asset_class (weighted_state [(''EQUITY'', 9 / 10), (''CASH'', 1 / 10)]))
    = [(''EQUITY'', 9 / 10), (''CASH'', 1 / 10)]"
  "to_weight_map (ss_allocation_by_asset_class (weighted_state [(''EQUITY'', 6 / 10), (''CASH'', 1 / 10), (''BOND'', 3 / 10)]))
    = [(''EQUITY'', 6 / 10), (''CASH'', 1 / 10), (''BOND'', 3 / 10)]"
  "to_asset_class_target_map (rm_asset_class_targets half_and_half) = [(''EQUITY'', 1 / 2), (''BOND'', 1 / 2)]"
  by (simp_all add: to_weight_map_def to_asset_class_target_map_def weighted_state_def half_and_half_def)

lemma switch_buckets:
  "sort (remdups [''EQUITY'', ''CASH'', ''EQUITY'', ''CASH'', ''BOND'', ''EQUITY'', ''BOND'', ''CASH''])
    = [''BOND'', ''CASH'', ''EQUITY'']" by code_simp


definition switch_details :: "bucket_detail list" where
  "switch_details = map (bucket_detail_of [(''EQUITY'', 9 / 10), (''CASH'', 1 / 10)]
      [(''EQUITY'', 6 / 10), (''CASH'', 1 / 10), (''BOND'', 3 / 10)] [(''EQUITY'', 1 / 2), (''BOND'', 1 / 2)])
     [''BOND'', ''CASH'', ''EQUITY'']"

lemma switch_improvements: "map (\<lambda>b. (bd_bucket b, bd_improvement b)) switch_details
    = [(''BOND'', 3 / 10), (''CASH'', 0), (''EQUITY'', 3 / 10)]"
  by (simp add: switch_details_def bucket_detail_of_def Let_def weight_or_zero_def dec_eval cong: eval_congs)

lemma switch_highlight: "highlight_entries (largest_improvements switch_details 1) = [(''BOND'', 3 / 10)]"
  unfolding largest_improvements_def switch_details_def
  by (simp add: bucket_detail_of_def Let_def weight_or_zero_def highlight_entries_def dec_eval dec_neg_def cong: eval_congs)

lemma build_dimension_details:
  "dm_buckets (build_dimension b a m ks n) = map (bucket_detail_of b a m) (sort (remdups ks))"
  by (simp add: build_dimension_def Let_def)

lemma drift_report_is_complete_witness:
  defines "d \<equiv> compute_drift_analysis (weighted_state [(''EQUITY'', 9 / 10), (''CASH'', 1 / 10)])
    (weighted_state [(''EQUITY'', 6 / 10), (''CASH'', 1 / 10), (''BOND'', 3 / 10)]) half_and_half []
    (default_engine_options\<lparr>eo_drift_top_contributors_limit := 1\<rparr>)"
  shows "dl_largest_improvements (dn_highlights d) = [(''BOND'', 3 / 10)]
    \<and> bd_bucket (dm_buckets (dn_asset_class d) ! 2) = ''EQUITY''
    \<and> bd_improvement (dm_buckets (dn_asset_class d) ! 2) \<le> 3 / 10"
proof -
  have b: "dm_buckets (dn_asset_class d) = switch_details"
    unfolding d_def compute_drift_analysis_def Let_def switch_maps
    by (simp only: drift_analysis.simps build_dimension_details list.simps fst_conv append.simps switch_buckets switch_details_def)
  have i: "dn_instrument d = None"
    by (simp add: d_def compute_drift_analysis_def Let_def half_and_half_def)
  have h: "dl_largest_improvements (dn_highlights d) = [(''BOND'', 3 / 10)]"
  proof -
    have "dn_highlights d = build_highlights (dm_buckets (dn_asset_class d)) 1
        (eo_drift_unmodeled_exposure_threshold default_engine_options)"
      by (simp add: d_def compute_drift_analysis_def Let_def half_and_half_def)
    then show ?thesis by (simp only: b build_highlights_def drift_highlights.simps switch_highlight)
  qed
  have "map (\<lambda>b. (bd_bucket b, bd_improvement b)) switch_details ! 2 = (''EQUITY'', 3 / 10)"
    unfolding switch_improvements by simp
  then have e: "switch_details ! 2 \<in> set switch_details" "bd_bucket (switch_details ! 2) = ''EQUITY''"
    "bd_improvement (switch_details ! 2) = 3 / 10" by (simp_all add: switch_details_def)
  have "\<forall>b\<in>set switch_details. 0 < bd_improvement b
      \<longrightarrow> (bd_bucket b, bd_improvement b) \<notin> {(''BOND'', 3 / 10)} \<longrightarrow> bd_improvement b \<le> 3 / 10"
    using drift_report_is_complete [of "weighted_state [(''EQUITY'', 9 / 10), (''CASH'', 1 / 10)]"
      "weighted_state [(''EQUITY'', 6 / 10), (''CASH'', 1 / 10), (''BOND'', 3 / 10)]" half_and_half "[]"
      "default_engine_options\<lparr>eo_drift_top_contributors_limit := 1\<rparr>", folded d_def, unfolded h b i]
    by simp
  from bspec [OF this e(1)] have "bd_improvement (switch_details ! 2) \<le> 3 / 10" by (simp add: e)
  then show ?thesis by (simp add: h b e)
qed

subsection \<open>Where the funding plan falls short\<close>

text \<open>
  Two buys, in francs and in euros; a euro balance that covers the euro buy, and a pound balance
  that would cover the other.
\<close>

definition par_rate :: "string \<Rightarrow> fx_rate" where
  "par_rate p = \<lparr>fr_pair = p, fr_rate = 1\<rparr>"

definition funding_request :: engine_request where
  "funding_request = sample_request\<lparr>
     er_portfolio := sample_portfolio\<lparr>pf_positions := [],
       pf_cash_balances := [cash_in ''EUR'' 1000, cash_in ''GBP'' 500]\<rparr>,
     er_market_data := sample_market\<lparr>md_prices := [priced ''SMI'' 1 ''CHF'', priced ''DAX'' 1 ''EUR''],
       md_fx_rates := [par_rate ''CHF/USD'', par_rate ''CHF/EUR'', par_rate ''CHF/GBP'',
         par_rate ''EUR/USD'', par_rate ''EUR/GBP'', par_rate ''GBP/USD'']\<rparr>,
     er_shelf := [listed ''SMI'' SH_APPROVED ''EQUITY'' [], listed ''DAX'' SH_APPROVED ''EQUITY'' []],
     er_options := default_engine_options\<lparr>eo_enable_suitability_scanner := False\<rparr>,
     er_cash_flows := [], er_trades := [buy_of ''SMI'' 500, buy_of ''DAX'' 1000]\<rparr>"

text \<open>
  Funding does not reserve what other buys need: with any cash allowed as a source, the run
  converts 500 euros, which the euro buy needs, into francs, then converts the same 500 francs
  back into euros; both currencies are reported as funded, the pounds stay untouched, the franc
  buy leaves a negative balance, and the run is blocked although its cash covered both buys.
\<close>

theorem conversions_can_undo_each_other:
  "\<exists>res fx1 fx2. run_proposal_simulation engine_runtime ''0'' funding_request = Inr res
     \<and> FxSpotIntent fx1 \<in> set (pz_intents res) \<and> FxSpotIntent fx2 \<in> set (pz_intents res)
     \<and> fi_buy_currency fx1 = ''CHF'' \<and> fi_sell_currency fx1 = ''EUR'' \<and> fi_buy_amount fx1 = 500
     \<and> fi_buy_currency fx2 = ''EUR'' \<and> fi_sell_currency fx2 = ''CHF'' \<and> fi_sell_amount_estimated fx2 = 500
     \<and> dg_insufficient_cash (pz_diagnostics res) = []
     \<and> balance_in (pz_after_simulated res) ''GBP'' = 500
     \<and> balance_in (pz_after_simulated res) ''CHF'' = - 500
     \<and> pz_status res = RN_BLOCKED"
  by (simp add: funding_request_def par_rate_def balance_in_def engine_run_eval fixture_eval review_eval plan_eval
      valuation_eval support_eval cong: eval_congs)
    (simp add: conj_disj_distribR ex_disj_distrib)

text \<open>A position at 12 percent, above its 10 percent cap, that the proposal raises to 19 percent.\<close>

definition breach_request :: engine_request where
  "breach_request = sample_request\<lparr>
     er_portfolio := sample_portfolio\<lparr>pf_positions := [held ''EQ'' 24], pf_cash_balances := [cash_in ''USD'' 8800]\<rparr>,
     er_options := default_engine_options\<lparr>eo_client_consent_already_obtained := True\<rparr>,
     er_cash_flows := [], er_trades := [buy_of ''EQ'' 14]\<rparr>"

text \<open>
  A breach that gets worse does not close the gate: issues are matched by key only, so when a
  proposal raises a position from a MEDIUM to a HIGH breach of its cap, the issue counts as
  PERSISTENT, no issue is new, and the run ends at EXECUTION_READY without a compliance review.
\<close>

theorem worsened_breach_passes_the_gate:
  "\<exists>res g s i c. run_proposal_simulation engine_runtime ''0'' breach_request = Inr res
     \<and> pz_gate_decision res = Some g \<and> gd_gate g = ''EXECUTION_READY''
     \<and> dict_get (scan_state_issues (pz_before res) (pz_before res) (suitability_shelf_index sample_shelf)
         default_engine_options) ''SINGLE_POSITION_MAX|EQ'' = Some c \<and> sc_severity c = LV_MEDIUM
     \<and> pz_suitability res = Some s \<and> i \<in> set (sg_issues s)
     \<and> sx_issue_key i = ''SINGLE_POSITION_MAX|EQ'' \<and> sx_severity i = LV_HIGH \<and> sx_status_change i = IC_PERSISTENT"
  by (simp add: breach_request_def engine_run_eval fixture_eval review_eval plan_eval
      valuation_eval support_eval suitability_eval gate_decision_cases cong: eval_congs)
    (simp add: conj_disj_distribR ex_disj_distrib)

end
