(* ===== verification/Dictionaries.thy ===== *)
theory Dictionaries
  imports Prelude
begin

text \<open>
  Dictionaries built by comprehensions, and dictionaries of logs that are flattened and grouped
  again, as the stores do when they read a snapshot back.
\<close>

lemma dict_set_same: "dict_get d k = Some v \<Longrightarrow> dict_set k v d = d"
  by (induction d) (auto split: if_splits)

lemma dict_set_new: "k \<notin> fst ` set d \<Longrightarrow> dict_set k v d = d @ [(k, v)]"
  by (induction d) auto

lemma dict_get_in_keys: "dict_get d k = Some v \<Longrightarrow> k \<in> fst ` set d"
  by (force dest: map_of_SomeD)

lemma dict_get_cong_keys:
  "map fst d = map fst d' \<Longrightarrow> dict_get d k = Some v \<Longrightarrow> \<exists>v'. dict_get d' k = Some v'"
  by (metis domIff domI dom_map_of_conv_image_fst list.set_map not_None_eq)

lemma dict_as_map: "dict_wf d \<Longrightarrow> map (\<lambda>k. (k, the (dict_get d k))) (map fst d) = d"
proof -
  assume "dict_wf d"
  then have "the (dict_get d k) = v" if "(k, v) \<in> set d" for k v
    using that by (simp add: dict_wf_def)
  then show ?thesis by (auto intro!: map_idI)
qed

lemma dict_eqI:
  assumes "map fst d = map fst d'" and "dict_wf d" and "\<And>k. dict_get d k = dict_get d' k"
  shows "d = d'"
proof -
  have "dict_wf d'" using assms(1, 2) by (simp add: dict_wf_def)
  then show ?thesis using dict_as_map [OF assms(2)] dict_as_map [of d'] assms(1, 3) by simp
qed

lemma dict_get_of_list:
  assumes "map fst d = map fst d'" and "dict_list d k = dict_list d' k"
  shows "dict_get d k = dict_get d' k"
proof (cases "dict_get d k")
  case None
  with dict_get_cong_keys [OF assms(1) [symmetric], of k] show ?thesis by (cases "dict_get d' k") auto
next
  case (Some v)
  with dict_get_cong_keys [OF assms(1), of k] assms(2) show ?thesis by (auto simp: dict_list_def)
qed

lemma dict_keys_set [simp]: "k \<in> fst ` set d \<Longrightarrow> map fst (dict_set k v d) = map fst d"
  by (simp add: update_keys)

lemma dict_push_keys [simp]: "k \<in> fst ` set d \<Longrightarrow> map fst (dict_push k x d) = map fst d"
  by (simp add: dict_push_def)

lemma filter_dict_set_out: "(\<And>v'. \<not> P (k, v')) \<Longrightarrow> filter P (dict_set k v d) = filter P d"
  by (induction d) auto

lemma fold_dict_set_distinct:
  assumes "distinct (map f xs)" and "f ` set xs \<inter> fst ` set d = {}"
  shows "fold (\<lambda>x. dict_set (f x) (g x)) xs d = d @ map (\<lambda>x. (f x, g x)) xs"
  using assms
proof (induction xs arbitrary: d)
  case (Cons x xs)
  have "dict_set (f x) (g x) d = d @ [(f x, g x)]"
    using Cons.prems(2) by (intro dict_set_new) auto
  moreover have "fold (\<lambda>x. dict_set (f x) (g x)) xs (d @ [(f x, g x)])
      = (d @ [(f x, g x)]) @ map (\<lambda>x. (f x, g x)) xs"
    by (rule Cons.IH) (use Cons.prems in auto)
  ultimately show ?case by simp
qed simp

lemma fold_error_dict_set:
  assumes "distinct (map fst xs)" and "fst ` set xs \<inter> fst ` set d = {}"
    and "\<And>x. x \<in> set xs \<Longrightarrow> look (item x) = Some (snd (snd x)) \<and> key (item x) = fst x \<and> hash (item x) = fst (snd x)"
  shows "fold_error (\<lambda>i d. case look i of None \<Rightarrow> Inl (KeyError (msg i))
      | Some e \<Rightarrow> Inr (dict_set (key i) (hash i, e) d)) (map item xs) d = Inr (d @ xs)"
  using assms
proof (induction xs arbitrary: d)
  case (Cons x xs)
  obtain k h e where x: "x = (k, h, e)" by (cases x)
  have l: "look (item (k, h, e)) = Some e" "key (item (k, h, e)) = k" "hash (item (k, h, e)) = h"
    using Cons.prems(3) [of x] x by simp_all
  have new: "dict_set k (h, e) d = d @ [(k, h, e)]" using Cons.prems(2) x by (intro dict_set_new) auto
  have "fold_error (\<lambda>i d. case look i of None \<Rightarrow> Inl (KeyError (msg i))
      | Some e \<Rightarrow> Inr (dict_set (key i) (hash i, e) d)) (map item xs) (d @ [(k, h, e)]) = Inr ((d @ [(k, h, e)]) @ xs)"
    by (rule Cons.IH) (use Cons.prems x in auto)
  then show ?case using x new by (simp add: l)
qed simp

lemma fold_dict_push:
  assumes "\<And>e. e \<in> set es \<Longrightarrow> key e \<in> fst ` set d"
  shows "map fst (fold (\<lambda>e. dict_push (key e) e) es d) = map fst d
    \<and> dict_list (fold (\<lambda>e. dict_push (key e) e) es d) k = dict_list d k @ filter (\<lambda>e. key e = k) es"
  using assms
proof (induction es arbitrary: d)
  case (Cons e es)
  have keys: "map fst (dict_push (key e) e d) = map fst d" using Cons.prems by simp
  then have "fst ` set (dict_push (key e) e d) = fst ` set d" by (metis list.set_map)
  then show ?case using Cons.IH [of "dict_push (key e) e d"] Cons.prems keys by simp
qed simp

lemma filter_logs:
  assumes "dict_wf d" and "\<And>k es e. dict_get d k = Some es \<Longrightarrow> e \<in> set es \<Longrightarrow> key e = k"
  shows "filter (\<lambda>e. key e = k) (concat (dict_values d)) = dict_list d k"
  using assms
proof (induction d)
  case (Cons kv d)
  obtain k' es where kv: "kv = (k', es)" by (cases kv)
  have k': "k' \<notin> fst ` set d" "dict_wf d" using Cons.prems(1) kv by (auto simp: dict_wf_def)
  have own: "key e = k'" if "e \<in> set es" for e using Cons.prems(2) [of k' es e] that kv by simp
  have rest: "key e = k1" if "dict_get d k1 = Some es1" "e \<in> set es1" for k1 es1 e
  proof -
    have "k1 \<noteq> k'" using that(1) k'(1) by (auto dest: dict_get_in_keys)
    then show ?thesis using Cons.prems(2) [of k1 es1 e] that kv by simp
  qed
  have IH: "filter (\<lambda>e. key e = k) (concat (dict_values d)) = dict_list d k"
    by (rule Cons.IH [OF k'(2)]) (rule rest)
  show ?case
  proof (cases "k = k'")
    case True
    then have "dict_list d k = []" using k'(1) by (force simp: dict_list_def dest: map_of_SomeD split: option.splits)
    moreover have "filter (\<lambda>e. key e = k) es = es" using own True by simp
    ultimately show ?thesis using IH kv True by (simp add: dict_values_def dict_list_def)
  next
    case False
    then have "filter (\<lambda>e. key e = k) es = []" using own by (auto simp: filter_empty_conv)
    then show ?thesis using IH kv False by (simp add: dict_values_def dict_list_def)
  qed
qed (simp add: dict_values_def)

lemma distinct_concat_logs:
  assumes "dict_wf d" and "\<And>k es. dict_get d k = Some es \<Longrightarrow> distinct (map f es) \<and> (\<forall>e\<in>set es. fst (f e) = k)"
  shows "distinct (map f (concat (dict_values d)))"
  using assms
proof (induction d)
  case (Cons kv d)
  obtain k es where kv: "kv = (k, es)" by (cases kv)
  have k: "k \<notin> fst ` set d" "dict_wf d" using Cons.prems(1) kv by (auto simp: dict_wf_def)
  have rest: "distinct (map f es') \<and> (\<forall>e\<in>set es'. fst (f e) = k')" if "dict_get d k' = Some es'" for k' es'
  proof -
    have "k' \<noteq> k" using that k(1) by (auto dest: dict_get_in_keys)
    then show ?thesis using Cons.prems(2) [of k' es'] that kv by simp
  qed
  have own: "distinct (map f es)" "\<forall>e\<in>set es. fst (f e) = k" using Cons.prems(2) [of k es] kv by auto
  have ne: "f e \<notin> f ` set es" if e: "e \<in> set (concat (dict_values d))" for e
  proof -
    from e obtain k' es' where "(k', es') \<in> set d" "e \<in> set es'" by (auto simp: dict_values_def)
    then have "dict_get d k' = Some es'" "k' \<in> fst ` set d" using k(2) by (auto simp: dict_wf_def rev_image_eqI)
    then have "fst (f e) = k'" "k' \<noteq> k" using rest [of k' es'] \<open>e \<in> set es'\<close> k(1) by auto
    then show ?thesis using own(2) by auto
  qed
  then have "f ` set es \<inter> f ` set (concat (dict_values d)) = {}"
    unfolding disjoint_iff by (metis imageE)
  moreover have "dict_values (kv # d) = es # dict_values d" using kv by (simp add: dict_values_def)
  ultimately show ?case using Cons.IH [OF k(2) rest] own(1)
    by (simp only: concat.simps map_append distinct_append set_map simp_thms)
qed (simp add: dict_values_def)

end
