(* ===== verification/Source_Readiness.thy ===== *)
theory Source_Readiness
  imports Canonical Dictionaries
begin

text \<open>
  The source-readiness manifest of an evidence bundle (\<open>proposals/policy_source_readiness.py\<close> with
  its core, product and risk parts, and \<open>source_readiness_common.py\<close>): which source-owner evidence
  the bundle carries, section by section, and the overall posture.
\<close>

subsection \<open>Reading JSON objects\<close>

definition dict_at :: "jobject \<Rightarrow> string \<Rightarrow> jobject" where
  "dict_at payload k = (case json_get payload k of JObj d \<Rightarrow> d | _ \<Rightarrow> [])"

definition list_at :: "jobject \<Rightarrow> string \<Rightarrow> json list" where
  "list_at payload k = (case json_get payload k of JList xs \<Rightarrow> xs | _ \<Rightarrow> [])"

text \<open>\<open>str(d.get(k1) or d.get(k2) or ... or "")\<close>\<close>

definition first_truthy_str :: "json list \<Rightarrow> string" where
  "first_truthy_str vs = (case find_first json_truthy vs of None \<Rightarrow> [] | Some v \<Rightarrow> py_str v)"

subsection \<open>Sections\<close>

definition source_readiness_section ::
  "string \<Rightarrow> string \<Rightarrow> string \<Rightarrow> string list \<Rightarrow> string list \<Rightarrow> string list \<Rightarrow> jobject" where
  "source_readiness_section key owner status evidence_refs missing reasons =
     [(''key'', JStr key), (''owner_service'', JStr owner), (''status'', JStr status),
      (''evidence_refs'', JList (map JStr evidence_refs)),
      (''missing_evidence'', JList (map JStr missing)), (''reason_codes'', JList (map JStr reasons))]"

definition overall_posture :: "string set \<Rightarrow> string" where
  "overall_posture statuses =
     (if ''BLOCKED'' \<in> statuses then ''BLOCKED''
      else if ''PENDING_REVIEW'' \<in> statuses then ''PENDING_REVIEW''
      else if ''READY'' \<in> statuses then ''READY''
      else ''NOT_AVAILABLE'')"

definition source_authority_step :: "jobject \<Rightarrow> (string, string list \<times> string list) dict
    \<Rightarrow> (string, string list \<times> string list) dict" where
  "source_authority_step section authority =
     (let owner = py_str (json_get section ''owner_service''); key = py_str (json_get section ''key'');
          (keys, ready) = (case dict_get authority owner of None \<Rightarrow> ([], []) | Some p \<Rightarrow> p)
      in dict_set owner (keys @ [key],
           if json_get section ''status'' = JStr ''READY'' then ready @ [key] else ready) authority)"

definition source_authority :: "jobject list \<Rightarrow> jobject" where
  "source_authority sections = map (\<lambda>(owner, (keys, ready)). (owner, JObj
     [(''section_keys'', JList (map JStr keys)), (''ready_section_keys'', JList (map JStr ready))]))
     (fold source_authority_step sections [])"

subsection \<open>Core evidence\<close>

definition missing_keys :: "string list \<Rightarrow> jobject \<Rightarrow> string list" where
  "missing_keys ks d = filter (\<lambda>k. \<not> json_truthy (json_get d k)) ks"

definition not_provided_reasons :: "string list \<Rightarrow> string list" where
  "not_provided_reasons missing = map (\<lambda>k. ''CORE_'' @ py_upper k @ ''_NOT_PROVIDED'') missing"

definition client_profile_missing :: "jobject \<Rightarrow> string list" where
  "client_profile_missing = missing_keys [''household_id'', ''jurisdiction'', ''client_classification'',
     ''booking_center_code'', ''account_id'', ''time_horizon'', ''liquidity_need'']"

definition client_profile_status :: "jobject \<Rightarrow> string" where
  "client_profile_status context =
     (let missing = client_profile_missing context
      in if missing = [] then ''READY''
         else if {''household_id'', ''jurisdiction''} \<subseteq> set missing then ''BLOCKED''
         else ''PENDING_REVIEW'')"

definition mandate_missing :: "jobject \<Rightarrow> string list" where
  "mandate_missing = missing_keys [''mandate_id'', ''objectives'', ''restrictions'']"

definition mandate_status :: "jobject \<Rightarrow> string" where
  "mandate_status context =
     (let missing = mandate_missing context
      in if missing = [] then ''READY''
         else if ''mandate_id'' \<in> set missing then ''BLOCKED'' else ''PENDING_REVIEW'')"

text \<open>The gaps of the holdings section, each with the reason code that reports it.\<close>

definition holdings_market_gaps ::
  "string \<Rightarrow> jobject \<Rightarrow> json list \<Rightarrow> json list \<Rightarrow> (string \<times> string) list" where
  "holdings_market_gaps resolution_source snapshot prices fx_rates =
     (if resolution_source \<noteq> ''LOTUS_CORE''
        then [(''lotus-core authoritative context resolution'', ''DIRECT_REQUEST_NOT_SOURCE_OWNER'')] else [])
     @ (if list_at snapshot ''positions'' = [] then [(''positions'', ''CORE_POSITIONS_NOT_PROVIDED'')] else [])
     @ (if list_at snapshot ''cash_balances'' = [] then [(''cash_balances'', ''CORE_CASH_NOT_PROVIDED'')] else [])
     @ (if prices = [] then [(''price rows'', ''CORE_PRICE_NOT_PROVIDED'')] else [])
     @ (if fx_rates = [] then [(''FX rate rows'', ''CORE_FX_RATE_NOT_PROVIDED'')] else [])"

definition holdings_market_status :: "(string \<times> string) list \<Rightarrow> string" where
  "holdings_market_status gaps =
     (if set (map fst gaps) \<inter> {''positions'', ''price rows''} \<noteq> {} then ''BLOCKED''
      else if gaps = [] then ''READY'' else ''PENDING_REVIEW'')"

definition build_core_policy_source_sections ::
  "jobject \<Rightarrow> string \<Rightarrow> jobject \<Rightarrow> json list \<Rightarrow> json list \<Rightarrow> jobject list" where
  "build_core_policy_source_sections context resolution_source snapshot prices fx_rates =
     (let gaps = holdings_market_gaps resolution_source snapshot prices fx_rates
      in [source_readiness_section ''core_client_profile_classification'' ''lotus-core''
            (client_profile_status context)
            [''context_resolution.advisory_policy_context.household_id'',
             ''context_resolution.advisory_policy_context.jurisdiction'',
             ''context_resolution.resolved_context'']
            (client_profile_missing context) (not_provided_reasons (client_profile_missing context)),
          source_readiness_section ''core_mandate_objectives_restrictions'' ''lotus-core''
            (mandate_status context)
            [''context_resolution.advisory_policy_context.mandate_id'',
             ''context_resolution.resolved_context'']
            (mandate_missing context) (not_provided_reasons (mandate_missing context)),
          source_readiness_section ''core_holdings_cash_market_data'' ''lotus-core''
            (holdings_market_status gaps)
            [''inputs.portfolio_snapshot.positions'', ''inputs.portfolio_snapshot.cash_balances'',
             ''inputs.market_data_snapshot.prices'', ''inputs.market_data_snapshot.fx_rates'']
            (map fst gaps) (map snd gaps)])"

subsection \<open>Product evidence\<close>

definition has_policy_value :: "jobject \<Rightarrow> jobject \<Rightarrow> string \<Rightarrow> bool" where
  "has_policy_value row attributes k = (json_truthy (json_get row k) \<or> json_truthy (json_get attributes k))"

definition product_has_policy_evidence :: "json \<Rightarrow> bool" where
  "product_has_policy_evidence row = (case row of
      JObj r \<Rightarrow> (let attributes = dict_at r ''attributes'' in
        has_policy_value r attributes ''eligibility'' \<and> has_policy_value r attributes ''target_market''
        \<and> list_ex (has_policy_value r attributes) [''complexity'', ''product_complexity'']
        \<and> list_ex (\<lambda>k. dict_has r k \<or> dict_has attributes k) [''private_asset'', ''private_asset_flag'',
            ''structured_product'', ''structured_product_flag''])
    | _ \<Rightarrow> False)"

definition product_policy_status :: "json list \<Rightarrow> json list \<Rightarrow> string" where
  "product_policy_status trades shelf =
     (if trades = [] then ''NOT_AVAILABLE''
      else if shelf = [] then ''BLOCKED''
      else if list_all product_has_policy_evidence shelf then ''READY'' else ''PENDING_REVIEW'')"

definition product_policy_missing :: "json list \<Rightarrow> json list \<Rightarrow> string list" where
  "product_policy_missing trades shelf =
     (if trades = [] then []
      else if shelf = [] then [''shelf_entries'']
      else if list_all product_has_policy_evidence shelf then []
      else [''product_eligibility'', ''target_market'', ''product_complexity'',
            ''private_asset_or_structured_product_flag''])"

definition product_policy_reasons :: "json list \<Rightarrow> json list \<Rightarrow> string list" where
  "product_policy_reasons trades shelf =
     (if trades = [] then []
      else if shelf = [] then [''CORE_PRODUCT_SHELF_NOT_PROVIDED'']
      else if list_all product_has_policy_evidence shelf then []
      else [''CORE_PRODUCT_POLICY_EVIDENCE_INCOMPLETE''])"

definition build_product_policy_source_section :: "json list \<Rightarrow> json list \<Rightarrow> jobject" where
  "build_product_policy_source_section trades shelf =
     source_readiness_section ''core_product_eligibility_target_market_complexity'' ''lotus-core''
       (product_policy_status trades shelf) [''inputs.proposed_trades'', ''inputs.shelf_entries'']
       (product_policy_missing trades shelf) (product_policy_reasons trades shelf)"

subsection \<open>Risk evidence\<close>

definition risk_policy_keys :: "string list" where
  "risk_policy_keys = [''single_position_concentration'', ''issuer_concentration'', ''drawdown'', ''var'',
     ''stress'', ''liquidity_risk'', ''private_asset_risk'', ''climate_geopolitical_risk'']"

definition risk_policy_degraded :: "jobject \<Rightarrow> bool" where
  "risk_policy_degraded risk_lens =
     (let supportability = dict_at risk_lens ''supportability'';
          state = py_upper (first_truthy_str [json_get risk_lens ''supportability_state'',
            json_get risk_lens ''state'', json_get supportability ''state'', json_get supportability ''status''])
      in state \<in> {''DEGRADED'', ''STALE'', ''PARTIAL''})"

definition risk_policy_missing :: "jobject \<Rightarrow> string list" where
  "risk_policy_missing risk_lens =
     (if json_get risk_lens ''source_service'' \<noteq> JStr ''lotus-risk'' then [''lotus-risk source_service''] else [])
     @ (if risk_policy_degraded risk_lens then [''lotus-risk degraded policy metrics''] else [])
     @ filter (\<lambda>k. case json_get risk_lens k of JObj _ \<Rightarrow> False | _ \<Rightarrow> True) risk_policy_keys"

definition risk_policy_status :: "jobject \<Rightarrow> string" where
  "risk_policy_status risk_lens =
     (if json_get risk_lens ''source_service'' \<noteq> JStr ''lotus-risk'' then ''BLOCKED''
      else if risk_policy_degraded risk_lens then ''PENDING_REVIEW''
      else if risk_policy_missing risk_lens = [] then ''READY'' else ''PENDING_REVIEW'')"

definition risk_policy_reasons :: "jobject \<Rightarrow> string list" where
  "risk_policy_reasons risk_lens =
     (let missing = risk_policy_missing risk_lens
      in if missing = [] then []
         else if ''lotus-risk source_service'' \<in> set missing then [''RISK_OWNER_POLICY_EVIDENCE_NOT_AVAILABLE'']
         else if ''lotus-risk degraded policy metrics'' \<in> set missing then [''RISK_OWNER_POLICY_EVIDENCE_DEGRADED'']
         else [''RISK_OWNER_POLICY_EVIDENCE_INCOMPLETE''])"

definition build_risk_policy_source_section :: "jobject \<Rightarrow> jobject" where
  "build_risk_policy_source_section risk_lens =
     source_readiness_section ''risk_policy_metrics'' ''lotus-risk'' (risk_policy_status risk_lens)
       (map (\<lambda>k. ''risk_lens.'' @ k) risk_policy_keys)
       (risk_policy_missing risk_lens) (risk_policy_reasons risk_lens)"

subsection \<open>The manifest\<close>

definition policy_source_sections :: "jobject \<Rightarrow> jobject list" where
  "policy_source_sections evidence =
     (let context_resolution = dict_at evidence ''context_resolution''; inputs = dict_at evidence ''inputs'';
          market = dict_at inputs ''market_data_snapshot''
      in build_core_policy_source_sections (dict_at context_resolution ''advisory_policy_context'')
           (first_truthy_str [json_get context_resolution ''resolution_source''])
           (dict_at inputs ''portfolio_snapshot'') (list_at market ''prices'') (list_at market ''fx_rates'')
         @ [build_product_policy_source_section (list_at inputs ''proposed_trades'') (list_at inputs ''shelf_entries''),
            build_risk_policy_source_section (dict_at evidence ''risk_lens''),
            source_readiness_section ''advise_policy_evaluation_runtime'' ''lotus-advise'' ''READY''
              [''evidence_bundle.policy_source_readiness'',
               ''contracts.domain-data-products.AdvisoryPolicyEvaluationRecord'']
              [] [''RFC0025_INTERNAL_POLICY_EVALUATION_ENGINE_AVAILABLE'']])"

definition build_policy_source_readiness :: "jobject \<Rightarrow> jobject" where
  "build_policy_source_readiness evidence =
     (let sections = policy_source_sections evidence
      in [(''contract_version'', JStr ''rfc0025.policy-source-readiness.v1''),
          (''capability_posture'', JStr ''SOURCE_READINESS_WITH_INTERNAL_POLICY_EVALUATION_ENGINE''),
          (''overall_posture'', JStr (overall_posture (set (map (\<lambda>s. py_str (json_get s ''status'')) sections)))),
          (''source_authority'', JObj (source_authority sections)),
          (''sections'', JList (map JObj sections)),
          (''claim_policy'', JObj
            [(''policy_evaluation'', JStr ''INTERNAL_ENGINE_ONLY_NO_PERSISTED_API''),
             (''client_ready_publication'', JStr ''BLOCKED''),
             (''unsupported_fact_handling'', JStr (''Do not claim policy suitability, best-interest, eligibility, disclosure, ''
                @ ''consent, or approval facts without READY source-owner evidence; carry ''
                @ ''PENDING_REVIEW or BLOCKED posture instead.''))])])"

end
