(* ===== verification/Policy_Catalog.thy ===== *)
theory Policy_Catalog
  imports Idempotency_Keys Dictionaries
begin

text \<open>
  The policy-pack catalog (\<open>policy_packs/catalog.py\<close>, \<open>catalog_commands.py\<close>,
  \<open>catalog_events.py\<close>, \<open>catalog_definitions.py\<close>, \<open>catalog_definition_validation.py\<close>):
  versioned pack definitions with a content hash, the append-only log of each version, validation,
  activation by a second actor with supersession of the version active before, and the replay of
  idempotent commands.  Definitions are JSON objects; where the code subscripts a key that every pack
  has, the model reads a missing key as \<open>null\<close>.
\<close>

subsection \<open>Reasons without volatile fields\<close>

definition volatile_trusted_principal_fields :: "string set" where
  "volatile_trusted_principal_fields = {''correlation_id'', ''trace_id''}"

definition strip_principal :: "json \<Rightarrow> json" where
  "strip_principal v = (case v of
      JObj d \<Rightarrow> JObj (filter (\<lambda>kv. fst kv \<notin> volatile_trusted_principal_fields) d)
    | _ \<Rightarrow> v)"

text \<open>
  Python filters the principal before it recurses into it; filtering commutes with the recursion.
\<close>

primrec strip_volatile_trusted_principal_fields :: "json \<Rightarrow> json" where
  "strip_volatile_trusted_principal_fields JNull = JNull"
| "strip_volatile_trusted_principal_fields (JBool b) = JBool b"
| "strip_volatile_trusted_principal_fields (JInt i) = JInt i"
| "strip_volatile_trusted_principal_fields (JStr s) = JStr s"
| "strip_volatile_trusted_principal_fields (JList xs) =
     JList (map strip_volatile_trusted_principal_fields xs)"
| "strip_volatile_trusted_principal_fields (JObj kvs) =
     JObj (map (\<lambda>(k, v). (k, if k = ''trusted_principal'' then strip_principal v else v))
       (map (map_prod id strip_volatile_trusted_principal_fields) kvs))"

definition idempotency_stable_reason :: "jobject \<Rightarrow> jobject" where
  "idempotency_stable_reason reason =
     (case strip_volatile_trusted_principal_fields (JObj reason) of JObj r \<Rightarrow> r | _ \<Rightarrow> [])"

subsection \<open>Definitions\<close>

definition catalog_contract_version :: string where
  "catalog_contract_version = ''rfc0025.policy-pack-catalog.v1''"

definition reference_policy_pack_posture :: string where
  "reference_policy_pack_posture = ''REFERENCE_EXAMPLE_NOT_LEGAL_ADVICE''"

type_synonym pack_key = "string \<times> string"

definition definition_str :: "jobject \<Rightarrow> string \<Rightarrow> string" where
  "definition_str d k = py_str (json_get d k)"

definition definition_key :: "jobject \<Rightarrow> pack_key" where
  "definition_key d = (definition_str d ''policy_pack_id'', definition_str d ''policy_version'')"

definition definition_content_hash :: "runtime \<Rightarrow> jobject \<Rightarrow> string" where
  "definition_content_hash rt d = hash_canonical_payload rt
     (JObj (filter (\<lambda>kv. fst kv \<notin> {''activation_state'', ''content_hash''}) d))"

definition prepare_definition :: "runtime \<Rightarrow> jobject \<Rightarrow> jobject" where
  "prepare_definition rt d =
     (let prepared = dict_set ''reference_posture'' (JStr reference_policy_pack_posture) d
      in dict_set ''content_hash'' (JStr (definition_content_hash rt prepared)) prepared)"

definition required_definition_fields :: "string list" where
  "required_definition_fields = [''policy_pack_id'', ''policy_version'', ''policy_family'',
     ''applicability'', ''source_requirements'', ''rules'', ''sample_fixture_refs'', ''schema_version'']"

definition required_field_diagnostics :: "jobject \<Rightarrow> string list" where
  "required_field_diagnostics d = map (\<lambda>k. py_upper k @ ''_REQUIRED'')
     (filter (\<lambda>k. \<not> json_truthy (json_get d k)) required_definition_fields)"

definition reference_posture_diagnostics :: "jobject \<Rightarrow> string list" where
  "reference_posture_diagnostics d =
     (if json_get d ''reference_posture'' = JStr reference_policy_pack_posture then []
      else [''REFERENCE_POSTURE_NOT_DECLARED''])"

definition rule_identifier :: "jobject \<Rightarrow> string" where
  "rule_identifier rule = (let v = json_get rule ''rule_id'' in if json_truthy v then py_str v else [])"

definition rule_identifier_diagnostics :: "string \<Rightarrow> string list" where
  "rule_identifier_diagnostics rule_id =
     (if rule_id \<noteq> [] \<and> py_upper rule_id = rule_id \<and> CHR ''-'' \<notin> set rule_id then []
      else [''RULE_ID_NOT_UPPER_SNAKE_CASE''])"

definition rule_label :: "string \<Rightarrow> string" where
  "rule_label rule_id = (if rule_id = [] then ''RULE'' else rule_id)"

definition required_evidence_field_diagnostics :: "jobject \<Rightarrow> string \<Rightarrow> string list" where
  "required_evidence_field_diagnostics rule rule_id =
     (if json_truthy (json_get rule ''required_evidence_fields'') then []
      else [rule_label rule_id @ ''_REQUIRED_EVIDENCE_FIELDS_REQUIRED''])"

definition missing_evidence_wording_diagnostics :: "jobject \<Rightarrow> string \<Rightarrow> string list" where
  "missing_evidence_wording_diagnostics rule rule_id =
     (if \<not> dict_has rule ''positive_wording_when_missing_evidence'' then []
      else [rule_label rule_id @ ''_FORBIDDEN_POSITIVE_MISSING_EVIDENCE_WORDING''])"

definition rule_diagnostics :: "json \<Rightarrow> string list" where
  "rule_diagnostics rule = (case rule of
      JObj r \<Rightarrow>
        (let rule_id = rule_identifier r
         in rule_identifier_diagnostics rule_id @ required_evidence_field_diagnostics r rule_id
            @ missing_evidence_wording_diagnostics r rule_id)
    | _ \<Rightarrow> [''RULE_MUST_BE_OBJECT''])"

definition rule_collection_diagnostics :: "jobject \<Rightarrow> string list" where
  "rule_collection_diagnostics d = (case json_get d ''rules'' of
      JList rules \<Rightarrow> concat (map rule_diagnostics rules)
    | _ \<Rightarrow> [''RULES_MUST_BE_LIST''])"

definition validate_catalog_definition :: "jobject \<Rightarrow> string list" where
  "validate_catalog_definition d =
     required_field_diagnostics d @ reference_posture_diagnostics d @ rule_collection_diagnostics d"

record pack_summary =
  ky_policy_pack_id :: string
  ky_policy_version :: string
  ky_policy_family :: string
  ky_display_name :: string
  ky_activation_state :: string
  ky_reference_posture :: string
  ky_maker_checker_required :: bool
  ky_content_hash :: string

definition summary_from_definition :: "jobject \<Rightarrow> pack_summary" where
  "summary_from_definition d =
     \<lparr>ky_policy_pack_id = definition_str d ''policy_pack_id'',
      ky_policy_version = definition_str d ''policy_version'',
      ky_policy_family = definition_str d ''policy_family'',
      ky_display_name = definition_str d ''display_name'',
      ky_activation_state = definition_str d ''activation_state'',
      ky_reference_posture = definition_str d ''reference_posture'',
      ky_maker_checker_required = json_truthy (json_get d ''maker_checker_required''),
      ky_content_hash = definition_str d ''content_hash''\<rparr>"

subsection \<open>The store and its events\<close>

datatype pack_event_type = POLICY_PACK_VALIDATED | POLICY_PACK_ACTIVATED

primrec pack_event_type_name :: "pack_event_type \<Rightarrow> string" where
  "pack_event_type_name POLICY_PACK_VALIDATED = ''POLICY_PACK_VALIDATED''"
| "pack_event_type_name POLICY_PACK_ACTIVATED = ''POLICY_PACK_ACTIVATED''"

record pack_event =
  ke_event_id :: string
  ke_event_type :: pack_event_type
  ke_policy_pack_id :: string
  ke_policy_version :: string
  ke_actor_id :: string
  ke_occurred_at :: string
  ke_content_hash :: string
  ke_idempotency_key :: "string option"
  ke_reason :: jobject

record policy_catalog =
  kc_definitions :: "(pack_key, jobject) dict"
  kc_events :: "(pack_key, pack_event list) dict"
  kc_idempotency :: "(string, string \<times> pack_event) dict"

definition new_catalog :: "runtime \<Rightarrow> jobject list \<Rightarrow> policy_catalog" where
  "new_catalog rt defs =
     (let prepared = fold (\<lambda>d. dict_set (definition_key d) (prepare_definition rt d)) defs []
      in \<lparr>kc_definitions = prepared, kc_events = map (\<lambda>kv. (fst kv, [])) prepared,
          kc_idempotency = []\<rparr>)"

definition append_policy_pack_catalog_event ::
  "runtime \<Rightarrow> datetime \<Rightarrow> pack_event_type \<Rightarrow> pack_key \<Rightarrow> string \<Rightarrow> string \<Rightarrow> string \<Rightarrow> string \<Rightarrow> jobject
     \<Rightarrow> policy_catalog \<Rightarrow> pack_event \<times> policy_catalog" where
  "append_policy_pack_catalog_event rt now event_type pack actor content_hash ikey request_hash reason c =
     (let event = \<lparr>ke_event_id = ''ppev_'' @ six_digits (length (dict_list (kc_events c) pack) + 1),
            ke_event_type = event_type, ke_policy_pack_id = fst pack, ke_policy_version = snd pack,
            ke_actor_id = actor, ke_occurred_at = rt_isoformat rt now, ke_content_hash = content_hash,
            ke_idempotency_key = Some ikey,
            ke_reason = dict_set ''catalog_contract_version'' (JStr catalog_contract_version)
              (dict_set ''idempotency_request_hash'' (JStr request_hash) reason)\<rparr>
      in (event, c\<lparr>kc_events := dict_push pack event (kc_events c),
            kc_idempotency := dict_set ikey (request_hash, event) (kc_idempotency c)\<rparr>))"

definition legacy_stable_event_hash :: "runtime \<Rightarrow> pack_event \<Rightarrow> string" where
  "legacy_stable_event_hash rt e =
     (let reason = (case json_get (ke_reason e) ''reason'' of JObj r \<Rightarrow> r | _ \<Rightarrow> []);
          stable = (''reason'', JObj (idempotency_stable_reason reason));
          head = [(''operation'', JStr (pack_event_type_name (ke_event_type e))),
                  (''policy_pack_id'', JStr (ke_policy_pack_id e)),
                  (''policy_version'', JStr (ke_policy_version e))]
      in hash_canonical_payload rt (JObj (case ke_event_type e of
            POLICY_PACK_VALIDATED \<Rightarrow> head @ [(''requested_by'', JStr (ke_actor_id e)),
              (''content_hash'', JStr (ke_content_hash e)), stable]
          | POLICY_PACK_ACTIVATED \<Rightarrow> head @ [(''activated_by'', JStr (ke_actor_id e)),
              (''source_content_hash'', JStr (ke_content_hash e)), stable])))"

definition find_replayed_policy_pack_catalog_event ::
  "runtime \<Rightarrow> policy_catalog \<Rightarrow> string \<Rightarrow> string \<Rightarrow> error + pack_event option" where
  "find_replayed_policy_pack_catalog_event rt c ikey request_hash =
     (case dict_get (kc_idempotency c) ikey of
        None \<Rightarrow> Inr None
      | Some (stored_hash, event) \<Rightarrow>
          if stored_hash \<noteq> request_hash \<and> legacy_stable_event_hash rt event \<noteq> request_hash
          then Inl (IdempotencyConflictError ''POLICY_PACK_IDEMPOTENCY_KEY_CONFLICT'')
          else Inr (Some event))"

definition latest_policy_pack_validation_event :: "policy_catalog \<Rightarrow> pack_key \<Rightarrow> pack_event option" where
  "latest_policy_pack_validation_event c pack =
     find_first (\<lambda>e. ke_event_type e = POLICY_PACK_VALIDATED) (rev (dict_list (kc_events c) pack))"

subsection \<open>Validation\<close>

record validation_response =
  kv_policy_pack :: pack_summary
  kv_validation_status :: string
  kv_diagnostics :: json
  kv_validation_event :: pack_event
  kv_replayed :: bool

definition validation_request_hash :: "runtime \<Rightarrow> pack_key \<Rightarrow> string \<Rightarrow> jobject \<Rightarrow> jobject \<Rightarrow> string" where
  "validation_request_hash rt pack requested_by d reason = hash_canonical_payload rt (JObj
     [(''operation'', JStr ''POLICY_PACK_VALIDATED''), (''policy_pack_id'', JStr (fst pack)),
      (''policy_version'', JStr (snd pack)), (''requested_by'', JStr requested_by),
      (''content_hash'', json_get d ''content_hash''),
      (''reason'', JObj (idempotency_stable_reason reason))])"

definition validate_policy_pack_catalog_definition ::
  "runtime \<Rightarrow> datetime \<Rightarrow> jobject \<Rightarrow> pack_key \<Rightarrow> string \<Rightarrow> string \<Rightarrow> jobject \<Rightarrow> policy_catalog
     \<Rightarrow> error + validation_response \<times> policy_catalog" where
  "validate_policy_pack_catalog_definition rt now d pack requested_by ikey reason c =
     (let request_hash = validation_request_hash rt pack requested_by d reason
      in bind_error (find_replayed_policy_pack_catalog_event rt c ikey request_hash) (\<lambda>replayed.
        case replayed of
          Some event \<Rightarrow>
            Inr (\<lparr>kv_policy_pack = summary_from_definition d, kv_validation_status = ''READY'',
              kv_diagnostics = (case dict_get (ke_reason event) ''diagnostics'' of
                  None \<Rightarrow> JList [] | Some v \<Rightarrow> v),
              kv_validation_event = event, kv_replayed = True\<rparr>, c)
        | None \<Rightarrow>
            (let diagnostics = validate_catalog_definition d
             in if diagnostics \<noteq> [] then Inl (ValidationError (join '';'' diagnostics))
                else
                  (let (event, c') = append_policy_pack_catalog_event rt now POLICY_PACK_VALIDATED pack
                         requested_by (definition_str d ''content_hash'') ikey request_hash
                         [(''validation_status'', JStr ''READY''), (''diagnostics'', JList []),
                          (''dry_run_status'', JStr ''REFERENCE_FIXTURES_VALIDATED''),
                          (''sample_fixture_refs'', json_get d ''sample_fixture_refs''),
                          (''reason'', JObj reason),
                          (''reference_posture'', JStr reference_policy_pack_posture)] c
                   in Inr (\<lparr>kv_policy_pack = summary_from_definition d,
                        kv_validation_status = ''READY'', kv_diagnostics = JList [],
                        kv_validation_event = event, kv_replayed = False\<rparr>, c')))))"

subsection \<open>Activation\<close>

record activation_response =
  ka_policy_pack :: pack_summary
  ka_activation_event :: pack_event
  ka_replayed :: bool

definition activation_request_hash ::
  "runtime \<Rightarrow> pack_key \<Rightarrow> string \<Rightarrow> string \<Rightarrow> jobject \<Rightarrow> string" where
  "activation_request_hash rt pack activated_by source_content_hash reason =
     hash_canonical_payload rt (JObj
     [(''operation'', JStr ''POLICY_PACK_ACTIVATED''), (''policy_pack_id'', JStr (fst pack)),
      (''policy_version'', JStr (snd pack)), (''activated_by'', JStr activated_by),
      (''source_content_hash'', JStr source_content_hash),
      (''reason'', JObj (idempotency_stable_reason reason))])"

definition validate_activation_definition :: "jobject \<Rightarrow> string \<Rightarrow> error + unit" where
  "validate_activation_definition d source_content_hash =
     (if JStr source_content_hash \<noteq> json_get d ''content_hash''
      then Inl (ValidationError ''POLICY_PACK_CONTENT_HASH_MISMATCH'')
      else if json_get d ''activation_state'' = JStr ''ACTIVE''
      then Inl (ValidationError ''POLICY_PACK_VERSION_ALREADY_ACTIVE_IMMUTABLE'')
      else (let diagnostics = validate_catalog_definition d
            in if diagnostics \<noteq> [] then Inl (ValidationError (join '';'' diagnostics)) else Inr ()))"

definition validated_activation_event ::
  "jobject \<Rightarrow> pack_key \<Rightarrow> string \<Rightarrow> string \<Rightarrow> policy_catalog \<Rightarrow> error + pack_event" where
  "validated_activation_event d pack activated_by source_content_hash c =
     bind_error (validate_activation_definition d source_content_hash) (\<lambda>_.
       case latest_policy_pack_validation_event c pack of
         None \<Rightarrow> Inl (ValidationError ''POLICY_PACK_VALIDATION_REQUIRED_BEFORE_ACTIVATION'')
       | Some event \<Rightarrow>
           if json_truthy (json_get d ''maker_checker_required'') \<and> ke_actor_id event = activated_by
           then Inl (ValidationError ''POLICY_PACK_MAKER_CHECKER_REQUIRES_DIFFERENT_ACTOR'')
           else Inr event)"

definition activation_event_reason :: "jobject \<Rightarrow> pack_event \<Rightarrow> jobject \<Rightarrow> string option \<Rightarrow> jobject" where
  "activation_event_reason d validation_event reason previous =
     [(''activation_state'', JStr ''ACTIVE''),
      (''previous_active_policy_version'', json_opt JStr previous),
      (''resulting_active_policy_version'', json_get d ''policy_version''),
      (''superseded_policy_version'', json_opt JStr previous),
      (''supersession_contract'', JStr ''ONE_ACTIVE_VERSION_PER_POLICY_PACK''),
      (''maker_checker_required'', json_get d ''maker_checker_required''),
      (''validated_by'', JStr (ke_actor_id validation_event)),
      (''validation_event_id'', JStr (ke_event_id validation_event)),
      (''reason'', JObj reason),
      (''reference_posture'', JStr reference_policy_pack_posture)]"

definition set_activation_state :: "string \<Rightarrow> jobject \<Rightarrow> jobject" where
  "set_activation_state st d = dict_set ''activation_state'' (JStr st) d"

definition activate_policy_pack_catalog_definition ::
  "runtime \<Rightarrow> datetime \<Rightarrow> jobject \<Rightarrow> pack_key \<Rightarrow> string \<Rightarrow> string \<Rightarrow> string \<Rightarrow> jobject \<Rightarrow> string option
     \<Rightarrow> policy_catalog \<Rightarrow> error + activation_response \<times> policy_catalog" where
  "activate_policy_pack_catalog_definition rt now d pack activated_by source_content_hash ikey reason previous c =
     (let request_hash = activation_request_hash rt pack activated_by source_content_hash reason
      in bind_error (find_replayed_policy_pack_catalog_event rt c ikey request_hash) (\<lambda>replayed.
        case replayed of
          Some event \<Rightarrow>
            Inr (\<lparr>ka_policy_pack = summary_from_definition d, ka_activation_event = event,
              ka_replayed = True\<rparr>, c)
        | None \<Rightarrow>
            bind_error (validated_activation_event d pack activated_by source_content_hash c)
              (\<lambda>validation_event.
                (let active = set_activation_state ''ACTIVE'' d;
                     (event, c') = append_policy_pack_catalog_event rt now POLICY_PACK_ACTIVATED pack
                       activated_by (definition_str active ''content_hash'') ikey request_hash
                       (activation_event_reason active validation_event reason previous)
                       (c\<lparr>kc_definitions := dict_set pack active (kc_definitions c)\<rparr>)
                 in Inr (\<lparr>ka_policy_pack = summary_from_definition active,
                      ka_activation_event = event, ka_replayed = False\<rparr>, c')))))"

subsection \<open>Operations of the store\<close>

definition load_definition :: "policy_catalog \<Rightarrow> pack_key \<Rightarrow> error + jobject" where
  "load_definition c pack = (case dict_get (kc_definitions c) pack of
      None \<Rightarrow> Inl (NotFoundError ''POLICY_PACK_VERSION_NOT_FOUND'') | Some d \<Rightarrow> Inr d)"

definition active_versions :: "policy_catalog \<Rightarrow> string \<Rightarrow> (pack_key \<times> jobject) list" where
  "active_versions c pack_id = filter (\<lambda>(k, d). fst k = pack_id
     \<and> json_get d ''activation_state'' = JStr ''ACTIVE'') (kc_definitions c)"

definition single_active_definition ::
  "policy_catalog \<Rightarrow> string \<Rightarrow> error + (pack_key \<times> jobject) option" where
  "single_active_definition c pack_id = (case active_versions c pack_id of
      [] \<Rightarrow> Inr None
    | [a] \<Rightarrow> Inr (Some a)
    | _ \<Rightarrow> Inl (ValidationError ''POLICY_PACK_ACTIVE_VERSION_CONFLICT''))"

definition store_validate_policy_pack_version ::
  "runtime \<Rightarrow> datetime \<Rightarrow> pack_key \<Rightarrow> string \<Rightarrow> string \<Rightarrow> jobject \<Rightarrow> policy_catalog
     \<Rightarrow> error + validation_response \<times> policy_catalog" where
  "store_validate_policy_pack_version rt now pack requested_by ikey reason c =
     bind_error (load_definition c pack) (\<lambda>d.
       validate_policy_pack_catalog_definition rt now d pack requested_by ikey reason c)"

definition store_activate_policy_pack_version ::
  "runtime \<Rightarrow> datetime \<Rightarrow> pack_key \<Rightarrow> string \<Rightarrow> string \<Rightarrow> string \<Rightarrow> jobject \<Rightarrow> policy_catalog
     \<Rightarrow> error + activation_response \<times> policy_catalog" where
  "store_activate_policy_pack_version rt now pack activated_by source_content_hash ikey reason c =
     bind_error (load_definition c pack) (\<lambda>d.
     bind_error (single_active_definition c (fst pack)) (\<lambda>active.
       (let other = (case active of Some (k, a) \<Rightarrow> if k = pack then None else Some (k, a) | None \<Rightarrow> None);
            previous = map_option (\<lambda>(k, a). definition_str a ''policy_version'') other
        in bind_error (activate_policy_pack_catalog_definition rt now d pack activated_by
             source_content_hash ikey reason previous c) (\<lambda>(resp, c').
           Inr (resp, case other of
               Some (k, a) \<Rightarrow> if ka_replayed resp then c'
                 else c'\<lparr>kc_definitions := dict_set k (set_activation_state ''SUPERSEDED'' a)
                        (kc_definitions c')\<rparr>
             | None \<Rightarrow> c')))))"

definition list_policy_pack_events :: "policy_catalog \<Rightarrow> pack_key \<Rightarrow> error + pack_event list" where
  "list_policy_pack_events c pack =
     bind_error (load_definition c pack) (\<lambda>_. Inr (dict_list (kc_events c) pack))"

definition list_policy_pack_versions :: "policy_catalog \<Rightarrow> pack_summary list" where
  "list_policy_pack_versions c = map summary_from_definition
     (sort_key (\<lambda>d. (definition_str d ''policy_pack_id'', definition_str d ''policy_version''))
       (dict_values (kc_definitions c)))"

definition validate_policy_pack_version ::
  "runtime \<Rightarrow> datetime \<Rightarrow> pack_key \<Rightarrow> string \<Rightarrow> string option \<Rightarrow> jobject \<Rightarrow> policy_catalog
     \<Rightarrow> error + validation_response \<times> policy_catalog" where
  "validate_policy_pack_version rt now pack requested_by key reason c =
     bind_error (require_proposal_idempotency_key key) (\<lambda>ikey.
       store_validate_policy_pack_version rt now pack requested_by ikey reason c)"

definition activate_policy_pack_version ::
  "runtime \<Rightarrow> datetime \<Rightarrow> pack_key \<Rightarrow> string \<Rightarrow> string \<Rightarrow> string option \<Rightarrow> jobject \<Rightarrow> policy_catalog
     \<Rightarrow> error + activation_response \<times> policy_catalog" where
  "activate_policy_pack_version rt now pack activated_by source_content_hash key reason c =
     bind_error (require_proposal_idempotency_key key) (\<lambda>ikey.
       store_activate_policy_pack_version rt now pack activated_by source_content_hash ikey reason c)"

subsection \<open>What the commands do\<close>

abbreviation is_active :: "jobject \<Rightarrow> bool" where
  "is_active d \<equiv> json_get d ''activation_state'' = JStr ''ACTIVE''"

abbreviation needs_checker :: "jobject \<Rightarrow> bool" where
  "needs_checker d \<equiv> json_truthy (json_get d ''maker_checker_required'')"

lemma set_activation_state_get [simp]:
  "json_get (set_activation_state s d) k = (if k = ''activation_state'' then JStr s else json_get d k)"
  by (simp add: set_activation_state_def)

lemma prepare_definition_idem: "prepare_definition rt (prepare_definition rt d) = prepare_definition rt d"
proof -
  let ?p = "dict_set ''reference_posture'' (JStr reference_policy_pack_posture) d"
  let ?q = "dict_set ''content_hash'' (JStr (definition_content_hash rt ?p)) ?p"
  have "dict_set ''reference_posture'' (JStr reference_policy_pack_posture) ?q = ?q"
    by (rule dict_set_same) simp
  moreover have "definition_content_hash rt ?q = definition_content_hash rt ?p"
    by (simp add: definition_content_hash_def filter_dict_set_out)
  moreover have "dict_set ''content_hash'' (JStr (definition_content_hash rt ?p)) ?q = ?q"
    by (rule dict_set_same) simp
  ultimately show ?thesis by (simp add: prepare_definition_def Let_def)
qed

lemma prepared_fields:
  assumes "prepare_definition rt d = d"
  shows "dict_get d ''reference_posture'' = Some (JStr reference_policy_pack_posture)"
    and "dict_get d ''content_hash'' = Some (JStr (definition_content_hash rt d))"
proof -
  have p: "dict_get (prepare_definition rt d) ''reference_posture'' = Some (JStr reference_policy_pack_posture)"
    by (simp add: prepare_definition_def Let_def)
  then show r: "dict_get d ''reference_posture'' = Some (JStr reference_policy_pack_posture)"
    using assms by simp
  have "dict_get (prepare_definition rt d) ''content_hash'' = Some (JStr (definition_content_hash rt d))"
    by (simp add: prepare_definition_def Let_def dict_set_same [OF r])
  then show "dict_get d ''content_hash'' = Some (JStr (definition_content_hash rt d))" using assms by simp
qed

lemma prepared_set_state:
  assumes "prepare_definition rt d = d"
  shows "prepare_definition rt (set_activation_state s d) = set_activation_state s d"
proof -
  let ?d = "dict_set ''activation_state'' (JStr s) d"
  have "definition_content_hash rt ?d = definition_content_hash rt d"
    by (simp add: definition_content_hash_def filter_dict_set_out)
  moreover have "dict_set ''reference_posture'' (JStr reference_policy_pack_posture) ?d = ?d"
    by (rule dict_set_same) (simp add: prepared_fields [OF assms])
  moreover have "dict_set ''content_hash'' (JStr (definition_content_hash rt d)) ?d = ?d"
    by (rule dict_set_same) (simp add: prepared_fields [OF assms])
  ultimately show ?thesis by (simp add: prepare_definition_def set_activation_state_def Let_def)
qed

lemma append_event_parts:
  assumes "append_policy_pack_catalog_event rt now ty pack actor h ikey rh reason c = (e, c')"
  shows "c' = c\<lparr>kc_events := dict_push pack e (kc_events c),
      kc_idempotency := dict_set ikey (rh, e) (kc_idempotency c)\<rparr>"
    and "ke_event_type e = ty" and "ke_actor_id e = actor" and "ke_policy_pack_id e = fst pack"
    and "ke_policy_version e = snd pack"
    and "ke_event_id e = ''ppev_'' @ six_digits (length (dict_list (kc_events c) pack) + 1)"
    and "ke_content_hash e = h"
  using assms by (auto simp: append_policy_pack_catalog_event_def Let_def)

lemma load_definition_Inr: "load_definition c k = Inr d \<longleftrightarrow> dict_get (kc_definitions c) k = Some d"
  by (simp add: load_definition_def split: option.splits)

lemma find_replayed_pack_event_None:
  "find_replayed_policy_pack_catalog_event rt c ikey h = Inr None \<longleftrightarrow> dict_get (kc_idempotency c) ikey = None"
  by (auto simp: find_replayed_policy_pack_catalog_event_def split: option.splits prod.splits)

text \<open>A validation either replays or appends one event to the log of its version.\<close>

lemma store_validate_cases:
  assumes "store_validate_policy_pack_version rt now pack actor ikey reason c = Inr (resp, c')"
  obtains (replayed) "c' = c" and "kv_replayed resp" and "dict_get (kc_idempotency c) ikey \<noteq> None"
  | (recorded) d e where "dict_get (kc_definitions c) pack = Some d"
      and "validate_catalog_definition d = []" and "\<not> kv_replayed resp" and "kv_validation_event resp = e"
      and "append_policy_pack_catalog_event rt now POLICY_PACK_VALIDATED pack actor
        (definition_str d ''content_hash'') ikey (validation_request_hash rt pack actor d reason)
        [(''validation_status'', JStr ''READY''), (''diagnostics'', JList []),
          (''dry_run_status'', JStr ''REFERENCE_FIXTURES_VALIDATED''),
          (''sample_fixture_refs'', json_get d ''sample_fixture_refs''),
          (''reason'', JObj reason),
          (''reference_posture'', JStr reference_policy_pack_posture)] c = (e, c')"
      and "dict_get (kc_idempotency c) ikey = None"
proof -
  obtain d r where d: "dict_get (kc_definitions c) pack = Some d"
    and r: "find_replayed_policy_pack_catalog_event rt c ikey (validation_request_hash rt pack actor d reason) = Inr r"
    and rest: "validate_policy_pack_catalog_definition rt now d pack actor ikey reason c = Inr (resp, c')"
    using assms
    by (auto simp: store_validate_policy_pack_version_def bind_error_Inr_iff load_definition_Inr
        validate_policy_pack_catalog_definition_def Let_def)
  show ?thesis
  proof (cases r)
    case None
    with r have "dict_get (kc_idempotency c) ikey = None" by (simp add: find_replayed_pack_event_None)
    with None d r rest show ?thesis
      by (auto simp: validate_policy_pack_catalog_definition_def Let_def split: if_splits prod.splits
          intro!: recorded)
  next
    case (Some e)
    with r have "dict_get (kc_idempotency c) ikey \<noteq> None" by (metis find_replayed_pack_event_None option.discI sum.inject(2))
    with Some r rest show ?thesis
      by (auto simp: validate_policy_pack_catalog_definition_def Let_def intro!: replayed)
  qed
qed

lemma in_active_versions: "dict_wf (kc_definitions c) \<Longrightarrow> (k, d) \<in> set (active_versions c pid)
    \<longleftrightarrow> dict_get (kc_definitions c) k = Some d \<and> fst k = pid \<and> is_active d"
  by (auto simp: active_versions_def dict_wf_def)

lemma single_active_Inr:
  assumes "dict_wf (kc_definitions c)" and "single_active_definition c pid = Inr r"
    and "dict_get (kc_definitions c) k = Some d" and "fst k = pid"
  shows "is_active d \<longleftrightarrow> r = Some (k, d)"
  using in_active_versions [OF assms(1), of k d pid] assms
  by (auto simp: single_active_definition_def split: list.splits)

lemma single_active_SomeD:
  assumes "dict_wf (kc_definitions c)" and "single_active_definition c pid = Inr (Some (k, d))"
  shows "dict_get (kc_definitions c) k = Some d" and "fst k = pid" and "is_active d"
  using in_active_versions [OF assms(1), of k d pid] assms
  by (auto simp: single_active_definition_def split: list.splits)

definition supersede :: "(pack_key \<times> jobject) option \<Rightarrow> (pack_key, jobject) dict \<Rightarrow> (pack_key, jobject) dict" where
  "supersede other defs = (case other of
      None \<Rightarrow> defs | Some (k, a) \<Rightarrow> dict_set k (set_activation_state ''SUPERSEDED'' a) defs)"

text \<open>An activation either replays, or activates a validated version and supersedes the active one.\<close>

lemma store_activate_cases:
  assumes wf: "dict_wf (kc_definitions c)"
    and run: "store_activate_policy_pack_version rt now pack actor h ikey reason c = Inr (resp, c')"
  obtains (replayed) "c' = c" and "ka_replayed resp" and "dict_get (kc_idempotency c) ikey \<noteq> None"
  | (activated) d active v e where "dict_get (kc_definitions c) pack = Some d"
      and "single_active_definition c (fst pack) = Inr active"
      and "\<not> is_active d" and "json_get d ''content_hash'' = JStr h" and "validate_catalog_definition d = []"
      and "latest_policy_pack_validation_event c pack = Some v"
      and "needs_checker d \<longrightarrow> ke_actor_id v \<noteq> actor"
      and "\<not> ka_replayed resp" and "ka_activation_event resp = e"
      and "ka_policy_pack resp = summary_from_definition (set_activation_state ''ACTIVE'' d)"
      and "ke_event_type e = POLICY_PACK_ACTIVATED" and "ke_actor_id e = actor"
      and "ke_policy_pack_id e = fst pack" and "ke_policy_version e = snd pack" and "ke_content_hash e = h"
      and "ke_event_id e = ''ppev_'' @ six_digits (length (dict_list (kc_events c) pack) + 1)"
      and "c' = c\<lparr>kc_definitions := supersede active
          (dict_set pack (set_activation_state ''ACTIVE'' d) (kc_definitions c)),
        kc_events := dict_push pack e (kc_events c),
        kc_idempotency := dict_set ikey (activation_request_hash rt pack actor h reason, e) (kc_idempotency c)\<rparr>"
      and "dict_get (kc_idempotency c) ikey = None"
proof -
  let ?rh = "activation_request_hash rt pack actor h reason"
  obtain d active r where d: "dict_get (kc_definitions c) pack = Some d"
    and active: "single_active_definition c (fst pack) = Inr active"
    and r: "find_replayed_policy_pack_catalog_event rt c ikey ?rh = Inr r"
    using run
    by (auto simp: store_activate_policy_pack_version_def bind_error_Inr_iff load_definition_Inr Let_def
        activate_policy_pack_catalog_definition_def)
  have ld: "load_definition c pack = Inr d" using d by (simp add: load_definition_Inr)
  show ?thesis
  proof (cases r)
    case (Some e)
    with r have "dict_get (kc_idempotency c) ikey \<noteq> None"
      by (metis find_replayed_pack_event_None option.discI sum.inject(2))
    with Some ld active r run show ?thesis
      by (auto simp: store_activate_policy_pack_version_def Let_def
          activate_policy_pack_catalog_definition_def split: option.splits intro!: replayed)
  next
    case None
    then have free: "dict_get (kc_idempotency c) ikey = None" using r by (simp add: find_replayed_pack_event_None)
    obtain v where v: "validated_activation_event d pack actor h c = Inr v"
      using run ld active r None
      by (auto simp: store_activate_policy_pack_version_def Let_def bind_error_Inr_iff
          activate_policy_pack_catalog_definition_def)
    then have facts: "\<not> is_active d" "json_get d ''content_hash'' = JStr h" "validate_catalog_definition d = []"
      "latest_policy_pack_validation_event c pack = Some v" "needs_checker d \<longrightarrow> ke_actor_id v \<noteq> actor"
      by (auto simp: validated_activation_event_def validate_activation_definition_def Let_def bind_error_Inr_iff
          split: if_splits option.splits)
    obtain e c1 where e: "append_policy_pack_catalog_event rt now POLICY_PACK_ACTIVATED pack actor
        (definition_str (set_activation_state ''ACTIVE'' d) ''content_hash'') ikey ?rh
        (activation_event_reason (set_activation_state ''ACTIVE'' d) v reason
          (map_option (\<lambda>(k, a). definition_str a ''policy_version'') active))
        (c\<lparr>kc_definitions := dict_set pack (set_activation_state ''ACTIVE'' d) (kc_definitions c)\<rparr>) = (e, c1)"
      by (meson surj_pair)
    have other: "(case active of Some (k, a) \<Rightarrow> if k = pack then None else Some (k, a) | None \<Rightarrow> None) = active"
      using facts(1) d single_active_SomeD [OF wf] active by (auto split: option.splits)
    have out: "\<not> ka_replayed resp" "ka_activation_event resp = e"
        "ka_policy_pack resp = summary_from_definition (set_activation_state ''ACTIVE'' d)"
        "c' = c1\<lparr>kc_definitions := supersede active (kc_definitions c1)\<rparr>"
      using run ld active r None v e
      by (auto simp: store_activate_policy_pack_version_def other activate_policy_pack_catalog_definition_def
          supersede_def Let_def split: option.splits)
    show ?thesis
      by (rule activated [OF d active facts out(1, 2, 3)])
        (use append_event_parts [OF e] out(4) facts free in
          \<open>auto simp: definition_str_def py_str_def\<close>)
  qed
qed

end
