(* ===== verification/Policy_Evaluation.thy ===== *)
theory Policy_Evaluation
  imports Source_Readiness Policy_Catalog
begin

text \<open>
  Evaluation of a policy-pack version against an evidence bundle (\<open>policy_packs/evaluation.py\<close>,
  \<open>evaluation_applicability.py\<close>, \<open>evaluation_rules.py\<close>, \<open>evaluation_source_rules.py\<close>,
  \<open>evaluation_product_rules.py\<close>, \<open>evaluation_product_helpers.py\<close>, \<open>evaluation_review_rules.py\<close>,
  \<open>evaluation_conflict_disclosure.py\<close>, \<open>evaluation_result_builders.py\<close>).  Evidence references are
  strings, as in every published pack and derived manifest; Pydantic refuses a result with others.
\<close>

subsection \<open>Results\<close>

datatype policy_status = PS_READY | PS_PENDING_REVIEW | PS_BLOCKED | PS_NOT_APPLICABLE

primrec policy_status_name :: "policy_status \<Rightarrow> string" where
  "policy_status_name PS_READY = ''READY''"
| "policy_status_name PS_PENDING_REVIEW = ''PENDING_REVIEW''"
| "policy_status_name PS_BLOCKED = ''BLOCKED''"
| "policy_status_name PS_NOT_APPLICABLE = ''NOT_APPLICABLE''"

datatype applicability_status = AY_APPLICABLE | AY_NOT_APPLICABLE | AY_BLOCKED

primrec applicability_status_name :: "applicability_status \<Rightarrow> string" where
  "applicability_status_name AY_APPLICABLE = ''APPLICABLE''"
| "applicability_status_name AY_NOT_APPLICABLE = ''NOT_APPLICABLE''"
| "applicability_status_name AY_BLOCKED = ''BLOCKED''"

record applicability_result =
  ay_status :: applicability_status
  ay_matched_selectors :: "(string, string) dict"
  ay_missing_evidence :: "string list"
  ay_reason_codes :: "string list"

record rule_evaluation =
  re_rule_id :: string
  re_status :: policy_status
  re_severity :: string
  re_outcome :: string
  re_evidence_refs :: "string list"
  re_source_authority_refs :: "string list"
  re_missing_evidence :: "string list"
  re_reason_codes :: "string list"
  re_required_actions :: "string list"

record policy_evaluation =
  en_contract_version :: string
  en_policy_pack :: pack_summary
  en_evaluation_status :: policy_status
  en_applicability :: applicability_result
  en_source_posture :: jobject
  en_rule_results :: "rule_evaluation list"
  en_supportability :: jobject

definition py_startswith :: "string \<Rightarrow> string \<Rightarrow> bool" where
  "py_startswith p s = (take (length p) s = p)"

definition unique_strings :: "string list \<Rightarrow> string list" where
  "unique_strings vs = rev (remdups (rev (filter (\<lambda>v. v \<noteq> []) vs)))"

definition str_list_at :: "jobject \<Rightarrow> string \<Rightarrow> string list" where
  "str_list_at d k = map py_str (list_at d k)"

definition str_or :: "json \<Rightarrow> string \<Rightarrow> string" where
  "str_or v fallback = (if json_truthy v then py_str v else fallback)"

definition source_ref_of_field :: "string \<Rightarrow> string" where
  "source_ref_of_field f =
     (if py_startswith ''policy_source_readiness.'' f then ''lotus-advise:policy_source_readiness''
      else if list_ex (\<lambda>p. py_startswith p f) [''fee_'', ''conflict_'', ''product_document_'']
      then ''lotus-advise:proposal_artifact_policy_evidence''
      else if py_startswith ''risk_'' f then ''lotus-risk:'' @ f
      else ''lotus-core:'' @ f)"

definition source_refs_for_rule :: "jobject \<Rightarrow> string list" where
  "source_refs_for_rule rule =
     unique_strings (map source_ref_of_field (str_list_at rule ''required_evidence_fields''))"

definition refs_or :: "string list \<Rightarrow> string list \<Rightarrow> string list" where
  "refs_or refs fallback = (if refs = [] then fallback else refs)"

definition rule_ready :: "jobject \<Rightarrow> string \<Rightarrow> string list \<Rightarrow> string list \<Rightarrow> rule_evaluation" where
  "rule_ready rule outcome evidence_refs authority_refs =
     \<lparr>re_rule_id = definition_str rule ''rule_id'', re_status = PS_READY,
      re_severity = str_or (json_get rule ''severity'') ''REVIEW_REQUIRED'', re_outcome = outcome,
      re_evidence_refs = refs_or evidence_refs (str_list_at rule ''required_evidence_fields''),
      re_source_authority_refs = refs_or authority_refs (source_refs_for_rule rule),
      re_missing_evidence = [],
      re_reason_codes = [definition_str rule ''rule_id'' @ ''_READY''], re_required_actions = []\<rparr>"

definition rule_pending ::
  "jobject \<Rightarrow> string \<Rightarrow> string list \<Rightarrow> string list \<Rightarrow> string list \<Rightarrow> string list \<Rightarrow> string list \<Rightarrow> rule_evaluation" where
  "rule_pending rule outcome missing reasons actions evidence_refs authority_refs =
     \<lparr>re_rule_id = definition_str rule ''rule_id'', re_status = PS_PENDING_REVIEW,
      re_severity = str_or (json_get rule ''severity'') ''REVIEW_REQUIRED'', re_outcome = outcome,
      re_evidence_refs = refs_or evidence_refs (str_list_at rule ''required_evidence_fields''),
      re_source_authority_refs = refs_or authority_refs (source_refs_for_rule rule),
      re_missing_evidence = unique_strings missing,
      re_reason_codes = unique_strings reasons, re_required_actions = unique_strings actions\<rparr>"

definition rule_blocked ::
  "jobject \<Rightarrow> string \<Rightarrow> string list \<Rightarrow> string list \<Rightarrow> string list \<Rightarrow> rule_evaluation" where
  "rule_blocked rule outcome missing reasons actions =
     \<lparr>re_rule_id = definition_str rule ''rule_id'', re_status = PS_BLOCKED,
      re_severity = str_or (json_get rule ''severity'') ''BLOCKING'', re_outcome = outcome,
      re_evidence_refs = str_list_at rule ''required_evidence_fields'',
      re_source_authority_refs = source_refs_for_rule rule,
      re_missing_evidence = unique_strings missing,
      re_reason_codes = unique_strings reasons, re_required_actions = unique_strings actions\<rparr>"

subsection \<open>Proposed products\<close>

definition instrument_rows :: "json list \<Rightarrow> (string \<times> jobject) list" where
  "instrument_rows rows = concat (map (\<lambda>row. case row of
      JObj r \<Rightarrow> if json_truthy (json_get r ''instrument_id'')
        then [(py_str (json_get r ''instrument_id''), r)] else []
    | _ \<Rightarrow> []) rows)"

definition shelf_rows_by_instrument :: "jobject \<Rightarrow> (string, jobject) dict" where
  "shelf_rows_by_instrument inputs =
     fold (\<lambda>(k, r). dict_set k r) (instrument_rows (list_at inputs ''shelf_entries'')) []"

definition proposed_instrument_ids :: "jobject \<Rightarrow> string list" where
  "proposed_instrument_ids inputs = map fst (instrument_rows (list_at inputs ''proposed_trades''))"

definition proposed_shelf_rows :: "jobject \<Rightarrow> (string, jobject option) dict" where
  "proposed_shelf_rows evidence =
     (let inputs = dict_at evidence ''inputs''; shelf = shelf_rows_by_instrument inputs
      in fold (\<lambda>i. dict_set i (dict_get shelf i)) (proposed_instrument_ids inputs) [])"

definition merged_product_policy :: "jobject \<Rightarrow> string \<Rightarrow> jobject" where
  "merged_product_policy shelf k =
     (let direct = dict_at shelf k
      in if direct \<noteq> [] then direct else dict_at (dict_at shelf ''attributes'') k)"

definition jurisdiction_allowed :: "jobject \<Rightarrow> string \<Rightarrow> bool" where
  "jurisdiction_allowed shelf jurisdiction =
     (let js = str_list_at (merged_product_policy shelf ''eligibility'') ''jurisdictions''
      in js = [] \<or> ''GLOBAL'' \<in> set js \<or> jurisdiction \<in> set js)"

definition client_segment_allowed :: "jobject \<Rightarrow> string \<Rightarrow> bool" where
  "client_segment_allowed shelf segment =
     (let segments = str_list_at (merged_product_policy shelf ''target_market'') ''client_segments''
      in segments = [] \<or> segment \<in> set segments \<or> ''PRIVATE_BANKING'' \<in> set segments)"

definition complexity_classification :: "jobject \<Rightarrow> string" where
  "complexity_classification shelf =
     (let attributes = dict_at shelf ''attributes''
      in py_upper (first_truthy_str [json_get shelf ''complexity'', json_get shelf ''product_complexity'',
           json_get attributes ''complexity'', json_get attributes ''product_complexity'']))"

definition truthy_product_flag :: "jobject \<Rightarrow> string \<Rightarrow> bool" where
  "truthy_product_flag shelf flag =
     (json_truthy (json_get shelf flag) \<or> json_truthy (json_get (dict_at shelf ''attributes'') flag))"

definition is_complex_or_private_product :: "jobject \<Rightarrow> bool" where
  "is_complex_or_private_product shelf \<longleftrightarrow>
     complexity_classification shelf \<in> {''COMPLEX'', ''STRUCTURED'', ''PRIVATE_ASSET''}
     \<or> list_ex (truthy_product_flag shelf) [''structured_product'', ''private_asset'']"

definition normalized_scope_values :: "json \<Rightarrow> string list" where
  "normalized_scope_values v = (case v of
      JList items \<Rightarrow> map (\<lambda>i. py_upper (py_strip (py_str i))) (filter (\<lambda>i. py_strip (py_str i) \<noteq> []) items)
    | JStr s \<Rightarrow> if py_strip s \<noteq> [] then [py_upper (py_strip s)] else []
    | _ \<Rightarrow> [])"

definition explicit_product_scopes :: "jobject \<Rightarrow> string list" where
  "explicit_product_scopes shelf = normalized_scope_values (json_get shelf ''product_scope'')
     @ normalized_scope_values (json_get (dict_at shelf ''attributes'') ''product_scope'')"

definition policy_product_scopes :: "jobject \<Rightarrow> string list" where
  "policy_product_scopes shelf =
     (let explicit = explicit_product_scopes shelf; complexity = complexity_classification shelf
      in sort (remdups (if explicit \<noteq> [] then explicit
         else [''MULTI_ASSET'']
           @ (if complexity = ''PRIVATE_ASSET'' \<or> truthy_product_flag shelf ''private_asset''
              then [''PRIVATE_ASSET''] else [])
           @ (if complexity \<in> {''COMPLEX'', ''STRUCTURED''} \<or> truthy_product_flag shelf ''structured_product''
              then [''STRUCTURED_PRODUCT''] else []))))"

subsection \<open>Applicability\<close>

record applicability_context =
  ax_jurisdiction :: string
  ax_booking_location_code :: string
  ax_legal_entity_code :: string
  ax_client_segment :: string
  ax_product_scopes :: "string list"

definition normalized_selector :: "json \<Rightarrow> string" where
  "normalized_selector v = (if v \<noteq> JNull \<and> py_strip (py_str v) \<noteq> [] then py_upper (py_strip (py_str v)) else [])"

definition product_scopes_of :: "jobject \<Rightarrow> string list" where
  "product_scopes_of evidence = sort (remdups (concat (map (\<lambda>(_, row). case row of
      None \<Rightarrow> [] | Some shelf \<Rightarrow> policy_product_scopes shelf) (proposed_shelf_rows evidence))))"

definition build_applicability_context :: "jobject \<Rightarrow> applicability_context" where
  "build_applicability_context evidence =
     (let context = dict_at (dict_at evidence ''context_resolution'') ''advisory_policy_context''
      in \<lparr>ax_jurisdiction = normalized_selector (json_get context ''jurisdiction''),
          ax_booking_location_code = normalized_selector (json_get context ''booking_center_code''),
          ax_legal_entity_code = normalized_selector (json_get context ''legal_entity_code''),
          ax_client_segment = normalized_selector (json_get context ''client_classification''),
          ax_product_scopes = product_scopes_of evidence\<rparr>)"

definition matched_selectors :: "applicability_context \<Rightarrow> (string, string) dict" where
  "matched_selectors ctx =
     [(''jurisdiction'', ax_jurisdiction ctx), (''client_segment'', ax_client_segment ctx)]
     @ (if ax_booking_location_code ctx \<noteq> [] then [(''booking_center_code'', ax_booking_location_code ctx)] else [])
     @ (if ax_legal_entity_code ctx \<noteq> [] then [(''legal_entity_code'', ax_legal_entity_code ctx)] else [])
     @ (if ax_product_scopes ctx \<noteq> [] then [(''product_scope'', join ''|'' (ax_product_scopes ctx))] else [])"

text \<open>Scope key, evidence key and whether the context has a value for it.\<close>

definition selector_requirements :: "applicability_context \<Rightarrow> (string \<times> string \<times> bool) list" where
  "selector_requirements ctx =
     [(''jurisdiction_scope'', ''jurisdiction'', ax_jurisdiction ctx \<noteq> []),
      (''booking_center_code_scope'', ''booking_center_code'', ax_booking_location_code ctx \<noteq> []),
      (''legal_entity_scope'', ''legal_entity_code'', ax_legal_entity_code ctx \<noteq> []),
      (''client_segment_scope'', ''client_classification'', ax_client_segment ctx \<noteq> []),
      (''product_scope'', ''product_scope'', ax_product_scopes ctx \<noteq> [])]"

definition requires_selector :: "jobject \<Rightarrow> string \<Rightarrow> bool" where
  "requires_selector applicability scope_key =
     (let scope = str_list_at applicability scope_key in scope \<noteq> [] \<and> ''GLOBAL'' \<notin> set scope)"

definition missing_applicability_evidence :: "applicability_context \<Rightarrow> jobject \<Rightarrow> string list" where
  "missing_applicability_evidence ctx applicability = concat (map (\<lambda>(scope_key, evidence_key, given).
     if requires_selector applicability scope_key \<and> \<not> given then [evidence_key] else [])
     (selector_requirements ctx))"

definition missing_reason_code :: "string \<Rightarrow> string option" where
  "missing_reason_code = map_of
     [(''jurisdiction'', ''POLICY_APPLICABILITY_JURISDICTION_SOURCE_MISSING''),
      (''booking_center_code'', ''POLICY_APPLICABILITY_BOOKING_LOCATION_SOURCE_MISSING''),
      (''legal_entity_code'', ''POLICY_APPLICABILITY_LEGAL_ENTITY_SOURCE_MISSING''),
      (''client_classification'', ''POLICY_APPLICABILITY_CLIENT_SEGMENT_SOURCE_MISSING''),
      (''product_scope'', ''POLICY_APPLICABILITY_PRODUCT_SCOPE_SOURCE_MISSING'')]"

definition missing_reason_codes :: "string list \<Rightarrow> string list" where
  "missing_reason_codes missing = ''POLICY_APPLICABILITY_SOURCE_EVIDENCE_MISSING''
     # List.map_filter missing_reason_code missing"

definition matches_scope :: "string \<Rightarrow> string list \<Rightarrow> bool" where
  "matches_scope v scope = (''GLOBAL'' \<in> set scope \<or> v \<in> set scope)"

definition client_segment_matches_scope :: "string \<Rightarrow> string list \<Rightarrow> bool" where
  "client_segment_matches_scope v scope = (''GLOBAL'' \<in> set scope \<or> v \<in> set scope
     \<or> (''PRIVATE_BANKING'' \<in> set scope \<and> v \<in> {''ACCREDITED_INVESTOR'', ''PRIVATE_BANKING''}))"

definition product_scope_matches_scope :: "string list \<Rightarrow> string list \<Rightarrow> bool" where
  "product_scope_matches_scope scopes scope = (''GLOBAL'' \<in> set scope \<or> set scopes \<inter> set scope \<noteq> {})"

definition not_applicable_result :: "(string, string) dict \<Rightarrow> string \<Rightarrow> applicability_result" where
  "not_applicable_result selectors reason =
     \<lparr>ay_status = AY_NOT_APPLICABLE, ay_matched_selectors = filter (\<lambda>kv. snd kv \<noteq> []) selectors,
      ay_missing_evidence = [], ay_reason_codes = [reason]\<rparr>"

definition evaluate_policy_pack_applicability :: "jobject \<Rightarrow> jobject \<Rightarrow> applicability_result" where
  "evaluate_policy_pack_applicability evidence applicability =
     (let ctx = build_applicability_context evidence;
          missing = missing_applicability_evidence ctx applicability;
          scope = str_list_at applicability
      in if missing \<noteq> []
         then \<lparr>ay_status = AY_BLOCKED, ay_matched_selectors = [], ay_missing_evidence = missing,
               ay_reason_codes = missing_reason_codes missing\<rparr>
         else if \<not> matches_scope (ax_jurisdiction ctx) (scope ''jurisdiction_scope'')
         then not_applicable_result [(''jurisdiction'', ax_jurisdiction ctx)]
                ''POLICY_PACK_JURISDICTION_NOT_APPLICABLE''
         else if ax_booking_location_code ctx \<noteq> []
                 \<and> \<not> matches_scope (ax_booking_location_code ctx) (scope ''booking_center_code_scope'')
         then not_applicable_result (matched_selectors ctx) ''POLICY_PACK_BOOKING_LOCATION_NOT_APPLICABLE''
         else if ax_legal_entity_code ctx \<noteq> []
                 \<and> \<not> matches_scope (ax_legal_entity_code ctx) (scope ''legal_entity_scope'')
         then not_applicable_result (matched_selectors ctx) ''POLICY_PACK_LEGAL_ENTITY_NOT_APPLICABLE''
         else if \<not> client_segment_matches_scope (ax_client_segment ctx) (scope ''client_segment_scope'')
         then not_applicable_result (matched_selectors ctx) ''POLICY_PACK_CLIENT_SEGMENT_NOT_APPLICABLE''
         else if \<not> product_scope_matches_scope (ax_product_scopes ctx) (scope ''product_scope'')
         then not_applicable_result (matched_selectors ctx) ''POLICY_PACK_PRODUCT_SCOPE_NOT_APPLICABLE''
         else \<lparr>ay_status = AY_APPLICABLE, ay_matched_selectors = matched_selectors ctx,
               ay_missing_evidence = [],
               ay_reason_codes = [''POLICY_PACK_APPLIES_TO_PROPOSAL_CONTEXT'']\<rparr>)"

end
