(* ===== verification/Policy_Rules.thy ===== *)
theory Policy_Rules
  imports Policy_Evaluation
begin

text \<open>
  The rules of a policy pack (\<open>evaluation_source_rules.py\<close>, \<open>evaluation_product_rules.py\<close>,
  \<open>evaluation_review_rules.py\<close>, \<open>evaluation_conflict_disclosure.py\<close>, \<open>evaluation_rules.py\<close>) and the
  evaluation of a whole pack (\<open>evaluation.py\<close>).
\<close>

subsection \<open>Required source evidence\<close>

record evidence_collection =
  xc_missing :: "string list"
  xc_reasons :: "string list"
  xc_pending :: bool

definition extend_from_section :: "jobject \<Rightarrow> evidence_collection \<Rightarrow> evidence_collection" where
  "extend_from_section section x =
     x\<lparr>xc_missing := xc_missing x @ str_list_at section ''missing_evidence'',
       xc_reasons := xc_reasons x @ str_list_at section ''reason_codes''\<rparr>"

definition posture_sections :: "jobject \<Rightarrow> jobject list" where
  "posture_sections posture = concat (map (\<lambda>s. case s of JObj d \<Rightarrow> [d] | _ \<Rightarrow> []) (list_at posture ''sections''))"

definition sections_by_key :: "jobject \<Rightarrow> (string, jobject) dict" where
  "sections_by_key posture = fold (\<lambda>s. dict_set (definition_str s ''key'') s) (posture_sections posture) []"

definition sections_with_status :: "jobject \<Rightarrow> string \<Rightarrow> jobject list" where
  "sections_with_status posture status =
     filter (\<lambda>s. json_get s ''status'' = JStr status) (posture_sections posture)"

definition posture_section :: "jobject \<Rightarrow> string \<Rightarrow> jobject" where
  "posture_section posture key =
     (case find_first (\<lambda>s. json_get s ''key'' = JStr key) (posture_sections posture) of
        None \<Rightarrow> [] | Some s \<Rightarrow> s)"

definition is_advisory_review_only_field :: "string \<Rightarrow> bool" where
  "is_advisory_review_only_field f =
     list_ex (\<lambda>p. py_startswith p f) [''fee_'', ''conflict_'', ''product_document_'']"

definition source_evidence_fields :: "jobject \<Rightarrow> string list" where
  "source_evidence_fields rule = map
     (\<lambda>f. if f = ''private_asset_or_structured_product_flag''
        then ''core_product_eligibility_target_market_complexity'' else f)
     (filter (\<lambda>f. \<not> is_advisory_review_only_field f) (str_list_at rule ''required_evidence_fields''))"

definition collect_policy_source_readiness_evidence ::
  "jobject \<Rightarrow> evidence_collection \<Rightarrow> evidence_collection" where
  "collect_policy_source_readiness_evidence posture x =
     (if json_get posture ''overall_posture'' = JStr ''BLOCKED''
      then fold extend_from_section (sections_with_status posture ''BLOCKED'') x
      else if json_get posture ''overall_posture'' = JStr ''PENDING_REVIEW''
      then fold extend_from_section (sections_with_status posture ''PENDING_REVIEW'') (x\<lparr>xc_pending := True\<rparr>)
      else x)"

definition collect_section_source_evidence ::
  "(string, jobject) dict \<Rightarrow> string \<Rightarrow> evidence_collection \<Rightarrow> evidence_collection" where
  "collect_section_source_evidence sections field x = (case dict_get sections field of
      None \<Rightarrow> x\<lparr>xc_missing := xc_missing x @ [field],
                xc_reasons := xc_reasons x @ [''POLICY_SOURCE_SECTION_MISSING'']\<rparr>
    | Some s \<Rightarrow>
        if json_get s ''status'' = JStr ''BLOCKED'' then extend_from_section s x
        else if json_get s ''status'' \<in> {JStr ''PENDING_REVIEW'', JStr ''NOT_AVAILABLE''}
        then extend_from_section s (x\<lparr>xc_pending := True\<rparr>)
        else x)"

definition collect_source_evidence :: "jobject \<Rightarrow> jobject \<Rightarrow> evidence_collection" where
  "collect_source_evidence rule posture = fold (\<lambda>field.
       if py_startswith ''policy_source_readiness.'' field
       then collect_policy_source_readiness_evidence posture
       else collect_section_source_evidence (sections_by_key posture) field)
     (source_evidence_fields rule) \<lparr>xc_missing = [], xc_reasons = [], xc_pending = False\<rparr>"

definition required_source_result :: "jobject \<Rightarrow> jobject \<Rightarrow> rule_evaluation option" where
  "required_source_result rule posture =
     (let x = collect_source_evidence rule posture
      in if xc_missing x \<noteq> [] \<and> \<not> xc_pending x
         then Some (rule_blocked rule ''SOURCE_EVIDENCE_BLOCKED'' (unique_strings (xc_missing x))
                (unique_strings (xc_reasons x)) [''RESTORE_SOURCE_OWNER_EVIDENCE''])
         else if xc_missing x \<noteq> [] \<or> xc_pending x
         then Some (rule_pending rule ''SOURCE_EVIDENCE_REVIEW_REQUIRED'' (unique_strings (xc_missing x))
                (unique_strings (xc_reasons x)) [''REVIEW_SOURCE_OWNER_EVIDENCE''] [] [])
         else None)"

definition evaluate_mandate_rule :: "jobject \<Rightarrow> jobject \<Rightarrow> rule_evaluation" where
  "evaluate_mandate_rule rule posture =
     rule_ready rule ''MANDATE_OBJECTIVES_AND_RESTRICTIONS_READY_FOR_ADVISOR_REVIEW''
       (str_list_at (posture_section posture ''core_mandate_objectives_restrictions'') ''evidence_refs'')
       [''lotus-core:core_mandate_objectives_restrictions'']"

subsection \<open>Product rules\<close>

text \<open>Missing evidence, reasons and blocked instruments, as the loop over the proposed rows collects them.\<close>

definition product_eligibility_issue ::
  "string \<Rightarrow> string \<Rightarrow> string \<times> jobject option \<Rightarrow> string list \<times> string list \<times> string list" where
  "product_eligibility_issue jurisdiction segment row = (case row of
      (i, None) \<Rightarrow> ([''shelf_entry:'' @ i], [''PRODUCT_SHELF_ENTRY_MISSING_FOR_PROPOSED_TRADE''], [i])
    | (i, Some shelf) \<Rightarrow>
        ([],
         (if jurisdiction_allowed shelf jurisdiction then [] else [''PRODUCT_NOT_ELIGIBLE_FOR_JURISDICTION''])
         @ (if client_segment_allowed shelf segment then []
            else [''PRODUCT_NOT_IN_TARGET_MARKET_FOR_CLIENT_SEGMENT'']),
         (if jurisdiction_allowed shelf jurisdiction then [] else [i])
         @ (if client_segment_allowed shelf segment then [] else [i])))"

definition product_eligibility_issues ::
  "jobject \<Rightarrow> string \<Rightarrow> string \<Rightarrow> string list \<times> string list \<times> string list" where
  "product_eligibility_issues evidence jurisdiction segment =
     (let found = map (product_eligibility_issue jurisdiction segment) (proposed_shelf_rows evidence)
      in (concat (map fst found), concat (map (fst \<circ> snd) found), concat (map (snd \<circ> snd) found)))"

definition product_shelf_evidence_ref :: string where
  "product_shelf_evidence_ref = ''evidence_bundle.inputs.shelf_entries''"

definition product_complexity_source_ref :: string where
  "product_complexity_source_ref = ''lotus-core:core_product_eligibility_target_market_complexity''"

definition evaluate_sg_product_eligibility ::
  "jobject \<Rightarrow> jobject \<Rightarrow> string \<Rightarrow> string \<Rightarrow> rule_evaluation" where
  "evaluate_sg_product_eligibility rule evidence jurisdiction segment =
     (let (missing, reasons, blocked) = product_eligibility_issues evidence jurisdiction segment
      in if blocked \<noteq> []
         then rule_blocked rule ''ELIGIBILITY_REVIEW_REQUIRED'' (unique_strings missing) (unique_strings reasons)
                (map (\<lambda>i. ''REVIEW_PRODUCT_ELIGIBILITY:'' @ i) (unique_strings blocked))
         else rule_ready rule ''PRODUCT_ELIGIBILITY_AND_TARGET_MARKET_EVIDENCE_READY''
                [product_shelf_evidence_ref, ''evidence_bundle.inputs.proposed_trades'']
                [product_complexity_source_ref])"

definition complex_disclosure_instrument_ids :: "jobject \<Rightarrow> string list" where
  "complex_disclosure_instrument_ids evidence = map fst (filter (\<lambda>(_, row). case row of
     None \<Rightarrow> False | Some shelf \<Rightarrow> is_complex_or_private_product shelf) (proposed_shelf_rows evidence))"

definition evaluate_sg_complex_product_disclosure :: "jobject \<Rightarrow> jobject \<Rightarrow> rule_evaluation" where
  "evaluate_sg_complex_product_disclosure rule evidence =
     (let ids = complex_disclosure_instrument_ids evidence
      in if ids = []
         then rule_ready rule ''NO_COMPLEX_PRODUCT_DISCLOSURE_TRIGGER'' [product_shelf_evidence_ref]
                [product_complexity_source_ref]
         else rule_pending rule ''DISCLOSURE_AND_CONSENT_REVIEW_REQUIRED''
                (map (\<lambda>i. ''advisor_reviewed_disclosure:'' @ i) ids @ map (\<lambda>i. ''client_consent:'' @ i) ids)
                [''COMPLEX_PRODUCT_DISCLOSURE_AND_CONSENT_REQUIRED'']
                (map (\<lambda>i. ''REVIEW_DISCLOSURE:'' @ i) ids @ map (\<lambda>i. ''CAPTURE_CLIENT_CONSENT:'' @ i) ids)
                [product_shelf_evidence_ref] [product_complexity_source_ref])"

subsection \<open>Review rules\<close>

definition artifact_section :: "jobject \<Rightarrow> string \<Rightarrow> jobject" where
  "artifact_section evidence section =
     (let artifact = dict_at evidence ''artifact''
      in if artifact \<noteq> [] then dict_at artifact section else dict_at evidence section)"

definition best_interest_missing :: "jobject \<Rightarrow> string list" where
  "best_interest_missing evidence =
     (let assumptions = artifact_section evidence ''assumptions_and_limits'';
          included = (\<lambda>k. json_truthy (json_get (dict_at assumptions k) ''included''))
      in (if included ''costs_and_fees'' then [] else [''fee_evidence'', ''cost_evidence''])
       @ (if included ''tax'' then [] else [''tax_evidence''])
       @ (if included ''execution'' then [] else [''execution_friction_evidence'']))"

definition evaluate_best_interest_cost :: "jobject \<Rightarrow> jobject \<Rightarrow> rule_evaluation" where
  "evaluate_best_interest_cost rule evidence =
     (let missing = best_interest_missing evidence
      in if missing \<noteq> []
         then rule_pending rule ''BEST_INTEREST_COST_REASONABLENESS_REVIEW_REQUIRED'' (unique_strings missing)
                [''BEST_INTEREST_COST_TAX_FRICTION_EVIDENCE_NOT_MODELED'']
                [''REVIEW_COST_TAX_AND_EXECUTION_FRICTION''] [] []
         else rule_ready rule ''BEST_INTEREST_COST_TAX_AND_FRICTION_EVIDENCE_READY_FOR_REVIEW''
                [''artifact.assumptions_and_limits''] [''lotus-advise:proposal_artifact_assumptions''])"

definition missing_product_documents :: "jobject \<Rightarrow> string list" where
  "missing_product_documents evidence =
     (let documented = map fst (instrument_rows (list_at (artifact_section evidence ''disclosures'') ''product_docs''))
      in sort (remdups (filter (\<lambda>i. i \<notin> set documented) (map fst (proposed_shelf_rows evidence)))))"

definition material_conflict_present :: "jobject \<Rightarrow> bool" where
  "material_conflict_present conflict_evidence \<longleftrightarrow> json_get conflict_evidence ''material_conflict'' = JBool True"

definition conflict_disclosure_findings ::
  "jobject \<Rightarrow> string list \<Rightarrow> string list \<times> string list \<times> string list" where
  "conflict_disclosure_findings conflict_evidence missing_docs =
     ((if conflict_evidence = [] then [''conflict_evidence''] else [])
        @ map (\<lambda>i. ''product_document:'' @ i) missing_docs,
      (if conflict_evidence = [] then [''CONFLICT_EVIDENCE_NOT_PROVIDED''] else [])
        @ (if material_conflict_present conflict_evidence
           then [''MATERIAL_CONFLICT_REQUIRES_SUPERVISORY_REVIEW''] else [])
        @ (if missing_docs \<noteq> [] then [''PRODUCT_DOCUMENTATION_INCOMPLETE_FOR_PROPOSED_TRADES''] else []),
      (if conflict_evidence = [] then [''REVIEW_CONFLICT_OF_INTEREST''] else [])
        @ (if material_conflict_present conflict_evidence then [''SUPERVISORY_CONFLICT_REVIEW''] else [])
        @ map (\<lambda>i. ''REVIEW_PRODUCT_DOCUMENT:'' @ i) missing_docs)"

definition evaluate_conflict_disclosure_review :: "jobject \<Rightarrow> jobject \<Rightarrow> rule_evaluation" where
  "evaluate_conflict_disclosure_review rule evidence =
     (let conflict_evidence = dict_at evidence ''conflict_evidence'';
          (missing, reasons, actions) =
            conflict_disclosure_findings conflict_evidence (missing_product_documents evidence)
      in if material_conflict_present conflict_evidence
         then rule_blocked rule ''CONFLICT_AND_DISCLOSURE_REVIEW_REQUIRED'' (unique_strings missing)
                (unique_strings reasons) (unique_strings actions)
         else if missing \<noteq> []
         then rule_pending rule ''CONFLICT_AND_DISCLOSURE_REVIEW_REQUIRED'' (unique_strings missing)
                (unique_strings reasons) (unique_strings actions)
                [''artifact.disclosures.product_docs''] [''lotus-advise:proposal_artifact_disclosures'']
         else rule_ready rule ''CONFLICT_AND_PRODUCT_DOCUMENT_EVIDENCE_READY_FOR_REVIEW''
                [''artifact.disclosures.product_docs'', ''evidence_bundle.conflict_evidence'']
                [''lotus-advise:proposal_artifact_disclosures'', ''lotus-advise:conflict_evidence''])"

subsection \<open>One rule\<close>

definition specialized_result ::
  "string \<Rightarrow> jobject \<Rightarrow> jobject \<Rightarrow> jobject \<Rightarrow> string \<Rightarrow> string \<Rightarrow> rule_evaluation option" where
  "specialized_result rule_id rule evidence posture jurisdiction segment =
     (if rule_id = ''GLOBAL_SOURCE_READINESS_REQUIRED''
      then Some (rule_ready rule ''SOURCE_EVIDENCE_READY_FOR_POLICY_REVIEW'' [] [])
      else if rule_id = ''GLOBAL_MANDATE_RESTRICTIONS_REVIEW'' then Some (evaluate_mandate_rule rule posture)
      else if rule_id = ''SG_AI_PRODUCT_ELIGIBILITY_REVIEW''
      then Some (evaluate_sg_product_eligibility rule evidence jurisdiction segment)
      else if rule_id = ''SG_COMPLEX_PRODUCT_DISCLOSURE_REVIEW''
      then Some (evaluate_sg_complex_product_disclosure rule evidence)
      else if rule_id = ''SG_BEST_INTEREST_COST_REVIEW'' then Some (evaluate_best_interest_cost rule evidence)
      else if rule_id = ''SG_CONFLICT_REVIEW'' then Some (evaluate_conflict_disclosure_review rule evidence)
      else None)"

definition evaluate_policy_rule ::
  "jobject \<Rightarrow> jobject \<Rightarrow> jobject \<Rightarrow> string \<Rightarrow> string \<Rightarrow> rule_evaluation" where
  "evaluate_policy_rule rule evidence posture jurisdiction segment =
     (case required_source_result rule posture of
        Some r \<Rightarrow> r
      | None \<Rightarrow>
          (case specialized_result (definition_str rule ''rule_id'') rule evidence posture jurisdiction segment of
             Some r \<Rightarrow> r
           | None \<Rightarrow> rule_pending rule (str_or (json_get rule ''outcome_mapping'') ''POLICY_RULE_REVIEW_REQUIRED'') []
               [''POLICY_RULE_EVALUATOR_NOT_SPECIALIZED''] [''POLICY_STEWARD_REVIEW''] [] []))"

subsection \<open>A whole pack\<close>

definition policy_runtime_supportability :: jobject where
  "policy_runtime_supportability =
     [(''catalog_contract_version'', JStr ''rfc0025.policy-pack-catalog.v1''),
      (''reference_posture'', JStr ''REFERENCE_EXAMPLE_NOT_LEGAL_ADVICE''),
      (''policy_catalog'', JStr ''SUPPORTED_BY_RFC0025_SLICE5''),
      (''policy_activation'', JStr ''SUPPORTED_BY_RFC0025_SLICE5''),
      (''policy_evaluation'', JStr ''SUPPORTED_BY_RFC0025_SLICE8_ADVISE_API''),
      (''policy_evaluation_engine'', JStr ''SUPPORTED_BY_RFC0025_SLICE6''),
      (''policy_evaluation_persistence'', JStr ''SUPPORTED_BY_RFC0025_SLICE7_INTERNAL''),
      (''policy_evaluation_api'', JStr ''SUPPORTED_BY_RFC0025_SLICE8_ADVISE_API''),
      (''review_queue_api'', JStr ''SUPPORTED_BY_RFC0025_SLICE8_ADVISE_API''),
      (''sign_off_package_api'', JStr ''SUPPORTED_BY_RFC0025_SLICE8_ADVISE_API''),
      (''sign_off_decision_recording'', JStr ''SUPPORTED_BY_RFC0025_SLICE9_ADVISE_API''),
      (''report_package_realization'', JStr ''SUPPORTED_BY_RFC0025_SLICE10_SIGNED_OFF_PACKAGE''),
      (''ai_policy_evidence'', JStr ''SUPPORTED_BY_RFC0025_SLICE11_BOUNDED_NON_AUTHORITATIVE''),
      (''gateway_supported'', JBool True),
      (''gateway_support'', JStr ''SUPPORTED_BY_RFC0025_SLICE12_GATEWAY_BFF''),
      (''workbench_supported'', JBool True),
      (''workbench_support'', JStr ''SUPPORTED_BY_RFC0025_SLICE12_GATEWAY_ONLY_UI''),
      (''live_runtime_proof'', JStr ''SUPPORTED_BY_RFC0025_SLICE14_LIVE_SUITE''),
      (''active_data_product_promotion'', JStr ''SUPPORTED_BY_RFC0025_SLICE16_FINAL_CLOSURE''),
      (''mesh_certification'', JStr ''SUPPORTED_BY_RFC0025_SLICE16_FINAL_CLOSURE''),
      (''completed_compliance_authority'', JStr ''BLOCKED''),
      (''client_ready_publication'', JStr ''BLOCKED'')]"

definition source_posture_of :: "jobject \<Rightarrow> jobject" where
  "source_posture_of evidence =
     (let posture = dict_at evidence ''policy_source_readiness''
      in if posture \<noteq> [] then posture else build_policy_source_readiness evidence)"

text \<open>
  The aggregate of no results at all would be \<open>NOT_AVAILABLE\<close>, which the response type refuses.
\<close>

definition aggregate_status :: "rule_evaluation list \<Rightarrow> policy_status option" where
  "aggregate_status results =
     (let statuses = set (map re_status results)
      in if PS_BLOCKED \<in> statuses then Some PS_BLOCKED
         else if PS_PENDING_REVIEW \<in> statuses then Some PS_PENDING_REVIEW
         else if PS_READY \<in> statuses then Some PS_READY
         else None)"

definition selector_or_empty :: "(string, string) dict \<Rightarrow> string \<Rightarrow> string" where
  "selector_or_empty selectors k = (case dict_get selectors k of None \<Rightarrow> [] | Some v \<Rightarrow> v)"

definition definition_rules :: "jobject \<Rightarrow> jobject list" where
  "definition_rules d = concat (map (\<lambda>r. case r of JObj x \<Rightarrow> [x] | _ \<Rightarrow> []) (list_at d ''rules''))"

definition evaluate_policy_pack_detail :: "jobject \<Rightarrow> jobject \<Rightarrow> error + policy_evaluation" where
  "evaluate_policy_pack_detail d evidence =
     (let posture = source_posture_of evidence;
          applicability = evaluate_policy_pack_applicability evidence (dict_at d ''applicability'');
          response = (\<lambda>status results. \<lparr>en_contract_version = ''rfc0025.policy-evaluation-engine.v1'',
            en_policy_pack = summary_from_definition d, en_evaluation_status = status,
            en_applicability = applicability, en_source_posture = posture, en_rule_results = results,
            en_supportability = policy_runtime_supportability\<rparr>)
      in if ay_status applicability \<noteq> AY_APPLICABLE
         then Inr (response (if ay_status applicability = AY_NOT_APPLICABLE then PS_NOT_APPLICABLE
                else PS_BLOCKED) [])
         else (let selectors = ay_matched_selectors applicability;
                   results = map (\<lambda>rule. evaluate_policy_rule rule evidence posture
                     (selector_or_empty selectors ''jurisdiction'')
                     (selector_or_empty selectors ''client_segment'')) (definition_rules d)
               in case aggregate_status results of
                    None \<Rightarrow> Inl (OtherException ''ValidationError'' ''evaluation_status'')
                  | Some status \<Rightarrow> Inr (response status results)))"

definition evaluate_policy_pack_version :: "policy_catalog \<Rightarrow> pack_key \<Rightarrow> jobject \<Rightarrow> error + policy_evaluation" where
  "evaluate_policy_pack_version c pack evidence =
     bind_error (load_definition c pack) (\<lambda>d.
       if json_get d ''activation_state'' \<noteq> JStr ''ACTIVE''
       then Inl (ValidationError ''POLICY_PACK_VERSION_NOT_ACTIVE_FOR_EVALUATION'')
       else evaluate_policy_pack_detail d evidence)"

definition evaluate_policy_pack_version_for_replay ::
  "policy_catalog \<Rightarrow> pack_key \<Rightarrow> jobject \<Rightarrow> error + policy_evaluation" where
  "evaluate_policy_pack_version_for_replay c pack evidence =
     bind_error (load_definition c pack) (\<lambda>d.
       if json_get d ''activation_state'' \<notin> {JStr ''ACTIVE'', JStr ''SUPERSEDED'', JStr ''DISABLED''}
       then Inl (ValidationError ''POLICY_PACK_VERSION_NOT_REPLAY_ELIGIBLE'')
       else evaluate_policy_pack_detail d evidence)"

end
