(* ===== verification/Policy_Records.thy ===== *)
theory Policy_Records
  imports Policy_Rules
begin

text \<open>
  The persisted policy evaluation: receipt identities (\<open>policy_packs/receipt_identity.py\<close>), the
  record builder (\<open>persistence_record_builder.py\<close>), audit events and the authority a privileged
  event needs (\<open>persistence_models.py\<close>, \<open>event_authority.py\<close>).  Python's date parsing and
  time-zone data are arguments of the model (\<open>calendar\<close>).  Python compares dictionaries without
  regard to key order, and booleans as numbers; \<open>json_same\<close> does the same.
\<close>

subsection \<open>Equality of JSON values, and attribute access\<close>

primrec json_sorted :: "json \<Rightarrow> json" where
  "json_sorted JNull = JNull"
| "json_sorted (JBool b) = JInt (if b then 1 else 0)"
| "json_sorted (JInt i) = JInt i"
| "json_sorted (JStr s) = JStr s"
| "json_sorted (JList xs) = JList (map json_sorted xs)"
| "json_sorted (JObj kvs) = JObj (sort_key fst (map (map_prod id json_sorted) kvs))"

definition json_same :: "json \<Rightarrow> json \<Rightarrow> bool" where
  "json_same a b \<longleftrightarrow> json_sorted a = json_sorted b"

text \<open>\<open>d.get(k, {})\<close> of which a further attribute is read.\<close>

definition attribute_dict :: "jobject \<Rightarrow> string \<Rightarrow> error + jobject" where
  "attribute_dict d k = (case dict_get d k of
      None \<Rightarrow> Inr []
    | Some (JObj x) \<Rightarrow> Inr x
    | Some _ \<Rightarrow> Inl (OtherException ''AttributeError'' ''get''))"

subsection \<open>Receipt identities\<close>

record calendar =
  kd_date_of_iso :: "string \<Rightarrow> string option"
  kd_date_of_iso_datetime :: "string \<Rightarrow> (bool \<times> string) option"
  kd_local_date :: "string option \<Rightarrow> datetime \<Rightarrow> string"

record receipt_scope =
  rx_tenant_scope_hash :: string
  rx_legal_entity_code :: string
  rx_booking_center_code :: "string option"
  rx_service_identity_hash :: string
  rx_proposal_id :: string
  rx_proposal_version_id :: string
  rx_portfolio_id :: string

record receipt_identity =
  ri_as_of_date :: string
  ri_scope_identity :: receipt_scope
  ri_observed_correlation_id_hash :: string
  ri_observed_trace_id_hash :: string
  ri_trace_identity_source :: string

definition receipt_contract_version :: string where
  "receipt_contract_version = ''rfc0002.policy-evaluation-receipt-identity.v1''"

definition safe_hash :: "runtime \<Rightarrow> string \<Rightarrow> string \<Rightarrow> string" where
  "safe_hash rt field v = hash_canonical_payload rt (JObj
     [(''contract_version'', JStr receipt_contract_version), (''field'', JStr field), (''value'', JStr v)])"

definition required_identity_value :: "json \<Rightarrow> string \<Rightarrow> error + string" where
  "required_identity_value v code = (case v of
      JStr s \<Rightarrow> if py_strip s = [] then Inl (ValidationError code) else Inr (py_strip s)
    | _ \<Rightarrow> Inl (ValidationError code))"

fun nested_value :: "json \<Rightarrow> string list \<Rightarrow> json" where
  "nested_value v [] = v"
| "nested_value v (k # ks) = (case v of JObj d \<Rightarrow> nested_value (json_get d k) ks | _ \<Rightarrow> JNull)"

definition has_value :: "json \<Rightarrow> bool" where
  "has_value v = (case v of JNull \<Rightarrow> False | JStr s \<Rightarrow> py_strip s \<noteq> [] | _ \<Rightarrow> True)"

definition normalize_source_date :: "calendar \<Rightarrow> json \<Rightarrow> error + string" where
  "normalize_source_date cal v = (case v of
      JStr s \<Rightarrow>
        (let candidate = py_strip s;
             invalid = Inl (ValidationError ''POLICY_EVALUATION_SOURCE_AS_OF_DATE_INVALID'')
         in if candidate = [] then Inl (ValidationError ''POLICY_EVALUATION_SOURCE_AS_OF_DATE_REQUIRED'')
            else if CHR ''T'' \<notin> set candidate
            then (case kd_date_of_iso cal candidate of None \<Rightarrow> invalid | Some d \<Rightarrow> Inr d)
            else (let text = (if last candidate = CHR ''Z'' then butlast candidate @ ''+00:00'' else candidate)
                  in case kd_date_of_iso_datetime cal text of
                       None \<Rightarrow> invalid
                     | Some (zoned, d) \<Rightarrow> if zoned then Inr d
                         else Inl (ValidationError ''POLICY_EVALUATION_SOURCE_AS_OF_DATE_TIMEZONE_REQUIRED'')))
    | _ \<Rightarrow> Inl (ValidationError ''POLICY_EVALUATION_SOURCE_AS_OF_DATE_INVALID''))"

definition as_of_date_paths :: "string list list" where
  "as_of_date_paths =
     [[''context_resolution'', ''as_of_date''], [''context_resolution'', ''as_of''],
      [''context_resolution'', ''resolved_context'', ''as_of_date''],
      [''context_resolution'', ''resolved_context'', ''as_of''],
      [''inputs'', ''portfolio_snapshot'', ''as_of_date''], [''inputs'', ''portfolio_snapshot'', ''as_of''],
      [''inputs'', ''portfolio_snapshot'', ''snapshot_date''],
      [''inputs'', ''portfolio_snapshot'', ''valuation_date''],
      [''inputs'', ''market_data_snapshot'', ''as_of_date''], [''inputs'', ''market_data_snapshot'', ''as_of''],
      [''inputs'', ''market_data_snapshot'', ''snapshot_date''],
      [''inputs'', ''market_data_snapshot'', ''valuation_date'']]"

definition booking_center_code :: "jobject \<Rightarrow> string option" where
  "booking_center_code evidence =
     (case nested_value (JObj evidence) [''context_resolution'', ''advisory_policy_context'', ''booking_center_code''] of
        JStr s \<Rightarrow> if py_strip s \<noteq> [] then Some (py_upper (py_strip s)) else None
      | _ \<Rightarrow> None)"

definition booking_time_zone :: "string option \<Rightarrow> string option" where
  "booking_time_zone code = map_of [(''SG'', ''Asia/Singapore''), (''HK'', ''Asia/Hong_Kong''),
     (''CH'', ''Europe/Zurich''), (''UK'', ''Europe/London''), (''US'', ''America/New_York'')]
     (case code of None \<Rightarrow> [] | Some c \<Rightarrow> c)"

definition observed_business_date :: "calendar \<Rightarrow> jobject \<Rightarrow> datetime \<Rightarrow> string" where
  "observed_business_date cal evidence observed_at =
     kd_local_date cal (booking_time_zone (booking_center_code evidence)) observed_at"

text \<open>ISO dates are compared as the calendar dates they print.\<close>

definition source_owned_as_of_date :: "calendar \<Rightarrow> jobject \<Rightarrow> datetime \<Rightarrow> error + string" where
  "source_owned_as_of_date cal evidence observed_at =
     bind_error (fold_error (\<lambda>v ds. bind_error (normalize_source_date cal v) (\<lambda>d. Inr (ds @ [d])))
       (filter has_value (map (nested_value (JObj evidence)) as_of_date_paths)) []) (\<lambda>normalized.
     case remdups normalized of
       [] \<Rightarrow> Inl (ValidationError ''POLICY_EVALUATION_SOURCE_AS_OF_DATE_REQUIRED'')
     | [d] \<Rightarrow> if observed_business_date cal evidence observed_at < d
         then Inl (ValidationError ''POLICY_EVALUATION_SOURCE_AS_OF_DATE_IN_FUTURE'') else Inr d
     | _ \<Rightarrow> Inl (ValidationError ''POLICY_EVALUATION_SOURCE_AS_OF_DATE_MISMATCH''))"

definition trace_identity :: "string option \<Rightarrow> jobject \<Rightarrow> error + string \<times> string" where
  "trace_identity observed prin =
     (case observed of
        Some s \<Rightarrow> if py_strip s \<noteq> [] then Inr (py_strip s, ''advise_observability_context'')
          else bind_error (required_identity_value (json_get prin ''trace_id'')
                 ''POLICY_EVALUATION_OBSERVED_TRACE_ID_REQUIRED'') (\<lambda>t. Inr (t, ''trusted_policy_control_principal''))
      | None \<Rightarrow> bind_error (required_identity_value (json_get prin ''trace_id'')
          ''POLICY_EVALUATION_OBSERVED_TRACE_ID_REQUIRED'') (\<lambda>t. Inr (t, ''trusted_policy_control_principal'')))"

definition trusted_principal :: "jobject \<Rightarrow> error + jobject" where
  "trusted_principal reason = (case json_get reason ''trusted_principal'' of
      JObj p \<Rightarrow> Inr p | _ \<Rightarrow> Inl (ValidationError ''POLICY_EVALUATION_TRUSTED_PRINCIPAL_REQUIRED''))"

definition build_policy_evaluation_receipt_identity ::
  "runtime \<Rightarrow> calendar \<Rightarrow> jobject \<Rightarrow> string \<Rightarrow> string \<Rightarrow> string \<Rightarrow> jobject \<Rightarrow> string option \<Rightarrow> datetime
     \<Rightarrow> error + receipt_identity" where
  "build_policy_evaluation_receipt_identity rt cal evidence pid vid portfolio reason observed_trace observed_at =
     bind_error (trusted_principal reason) (\<lambda>prin.
     bind_error (source_owned_as_of_date cal evidence observed_at) (\<lambda>as_of.
     bind_error (trace_identity observed_trace prin) (\<lambda>(trace, trace_source).
     bind_error (required_identity_value (json_get prin ''tenant_id'')
       ''POLICY_EVALUATION_TRUSTED_TENANT_REQUIRED'') (\<lambda>tenant.
     bind_error (required_identity_value (json_get prin ''legal_entity_code'')
       ''POLICY_EVALUATION_TRUSTED_LEGAL_ENTITY_REQUIRED'') (\<lambda>entity.
     bind_error (required_identity_value (json_get prin ''correlation_id'')
       ''POLICY_EVALUATION_OBSERVED_CORRELATION_ID_REQUIRED'') (\<lambda>correlation.
     bind_error (required_identity_value (json_get prin ''service_identity'')
       ''POLICY_EVALUATION_TRUSTED_SERVICE_IDENTITY_REQUIRED'') (\<lambda>service.
     Inr \<lparr>ri_as_of_date = as_of,
       ri_scope_identity = \<lparr>rx_tenant_scope_hash = safe_hash rt ''tenant_scope'' tenant,
         rx_legal_entity_code = py_upper entity, rx_booking_center_code = booking_center_code evidence,
         rx_service_identity_hash = safe_hash rt ''service_identity'' service, rx_proposal_id = pid,
         rx_proposal_version_id = vid, rx_portfolio_id = portfolio\<rparr>,
       ri_observed_correlation_id_hash = safe_hash rt ''correlation_id'' correlation,
       ri_observed_trace_id_hash = safe_hash rt ''trace_id'' trace,
       ri_trace_identity_source = trace_source\<rparr>)))))))"

definition replay_safe_reason :: "jobject \<Rightarrow> jobject" where
  "replay_safe_reason reason =
     (let safe = filter (\<lambda>kv. fst kv \<noteq> ''system_repair_intent'') reason
      in case json_get safe ''trusted_principal'' of
           JObj p \<Rightarrow> dict_set ''trusted_principal'' (JObj ((''authority_source'', JStr ''trusted_policy_control_principal'')
             # filter (\<lambda>kv. fst kv \<in> {''role'', ''capability'', ''legal_entity_code''}) p)) safe
         | _ \<Rightarrow> safe)"

subsection \<open>Dumps\<close>

abbreviation json_strs :: "string list \<Rightarrow> json" where
  "json_strs xs \<equiv> JList (map JStr xs)"

definition dump_summary :: "pack_summary \<Rightarrow> json" where
  "dump_summary s = JObj
     [(''policy_pack_id'', JStr (ky_policy_pack_id s)), (''policy_version'', JStr (ky_policy_version s)),
      (''policy_family'', JStr (ky_policy_family s)), (''display_name'', JStr (ky_display_name s)),
      (''activation_state'', JStr (ky_activation_state s)),
      (''reference_posture'', JStr (ky_reference_posture s)),
      (''maker_checker_required'', JBool (ky_maker_checker_required s)),
      (''content_hash'', JStr (ky_content_hash s))]"

definition dump_applicability :: "applicability_result \<Rightarrow> json" where
  "dump_applicability a = JObj
     [(''status'', JStr (applicability_status_name (ay_status a))),
      (''matched_selectors'', JObj (map (map_prod id JStr) (ay_matched_selectors a))),
      (''missing_evidence'', json_strs (ay_missing_evidence a)),
      (''reason_codes'', json_strs (ay_reason_codes a))]"

definition dump_rule_evaluation :: "rule_evaluation \<Rightarrow> json" where
  "dump_rule_evaluation r = JObj
     [(''rule_id'', JStr (re_rule_id r)), (''status'', JStr (policy_status_name (re_status r))),
      (''severity'', JStr (re_severity r)), (''outcome'', JStr (re_outcome r)),
      (''evidence_refs'', json_strs (re_evidence_refs r)),
      (''source_authority_refs'', json_strs (re_source_authority_refs r)),
      (''missing_evidence'', json_strs (re_missing_evidence r)),
      (''reason_codes'', json_strs (re_reason_codes r)),
      (''required_actions'', json_strs (re_required_actions r))]"

definition dump_evaluation :: "policy_evaluation \<Rightarrow> jobject" where
  "dump_evaluation e =
     [(''contract_version'', JStr (en_contract_version e)), (''policy_pack'', dump_summary (en_policy_pack e)),
      (''evaluation_status'', JStr (policy_status_name (en_evaluation_status e))),
      (''applicability'', dump_applicability (en_applicability e)),
      (''source_posture'', JObj (en_source_posture e)),
      (''rule_results'', JList (map dump_rule_evaluation (en_rule_results e))),
      (''supportability'', JObj (en_supportability e))]"

subsection \<open>Records\<close>

datatype policy_event_type = PV_FINALIZED | PV_REVIEW_RECORDED | PV_SIGN_OFF_RECORDED
  | PV_REPORT_ARCHIVE_RECORDED | PV_AI_EVIDENCE_RECORDED

primrec policy_event_type_name :: "policy_event_type \<Rightarrow> string" where
  "policy_event_type_name PV_FINALIZED = ''POLICY_EVALUATION_FINALIZED''"
| "policy_event_type_name PV_REVIEW_RECORDED = ''POLICY_EVALUATION_REVIEW_RECORDED''"
| "policy_event_type_name PV_SIGN_OFF_RECORDED = ''POLICY_EVALUATION_SIGN_OFF_RECORDED''"
| "policy_event_type_name PV_REPORT_ARCHIVE_RECORDED = ''POLICY_EVALUATION_REPORT_ARCHIVE_RECORDED''"
| "policy_event_type_name PV_AI_EVIDENCE_RECORDED = ''POLICY_EVALUATION_AI_EVIDENCE_RECORDED''"

record policy_event =
  ve_event_id :: string
  ve_evaluation_id :: string
  ve_proposal_id :: string
  ve_proposal_version_id :: string
  ve_event_type :: policy_event_type
  ve_actor_id :: string
  ve_occurred_at :: string
  ve_content_hash :: string
  ve_idempotency_key :: "string option"
  ve_reason_json :: jobject

text \<open>The replay metadata, less the fields that repeat those of the record.\<close>

record replay_metadata =
  vm_receipt_identity :: "receipt_identity option"
  vm_as_of_date :: "string option"
  vm_idempotency_key :: string
  vm_creation_reason :: jobject
  vm_replay_policy :: string

record evaluation_record =
  vr_evaluation_id :: string
  vr_proposal_id :: string
  vr_proposal_version_id :: string
  vr_portfolio_id :: string
  vr_policy_pack_id :: string
  vr_policy_version :: string
  vr_generated_at :: string
  vr_created_by :: string
  vr_evaluation_status :: policy_status
  vr_policy_content_hash :: string
  vr_source_evidence_hash :: string
  vr_evaluation_hash :: string
  vr_rule_result_hashes :: "(string, string) dict"
  vr_evaluation_json :: jobject
  vr_source_refs :: "string list"
  vr_source_gaps :: "string list"
  vr_approval_dependencies :: "string list"
  vr_disclosure_requirements :: "string list"
  vr_consent_requirements :: "string list"
  vr_review_events_json :: "policy_event list"
  vr_sign_off_events_json :: "policy_event list"
  vr_report_archive_refs_json :: "policy_event list"
  vr_replay_metadata_json :: replay_metadata

definition persistence_contract_version :: string where
  "persistence_contract_version = ''rfc0025.policy-evaluation-persistence.v1''"

definition policy_evaluation_hash :: "runtime \<Rightarrow> policy_evaluation \<Rightarrow> string \<Rightarrow> string \<Rightarrow> string" where
  "policy_evaluation_hash rt evaluation source_evidence_hash policy_content_hash =
     hash_canonical_payload rt (JObj
       [(''contract_version'', JStr persistence_contract_version),
        (''policy_evaluation'', JObj (dump_evaluation evaluation)),
        (''policy_content_hash'', JStr policy_content_hash),
        (''source_evidence_hash'', JStr source_evidence_hash)])"

definition portfolio_id_from_evidence :: "jobject \<Rightarrow> error + string option" where
  "portfolio_id_from_evidence evidence = bind_error (attribute_dict evidence ''inputs'') (\<lambda>inputs.
     Inr (case json_get inputs ''portfolio_snapshot'' of
            JObj p \<Rightarrow> (case json_get p ''portfolio_id'' of
                JStr s \<Rightarrow> if py_strip s \<noteq> [] then Some (py_strip s) else None
              | _ \<Rightarrow> None)
          | _ \<Rightarrow> None))"

definition record_portfolio_id :: "jobject \<Rightarrow> error + string" where
  "record_portfolio_id evidence = bind_error (portfolio_id_from_evidence evidence) (\<lambda>p. case p of
      None \<Rightarrow> Inl (ValidationError ''POLICY_EVALUATION_PORTFOLIO_ID_REQUIRED'') | Some s \<Rightarrow> Inr s)"

definition contains_text :: "string \<Rightarrow> string \<Rightarrow> bool" where
  "contains_text part s = list_ex (\<lambda>n. py_startswith part (drop n s)) [0..<Suc (length s)]"

definition required_actions_of :: "policy_evaluation \<Rightarrow> string list" where
  "required_actions_of e = unique_strings (concat (map re_required_actions (en_rule_results e)))"

definition source_refs_of :: "policy_evaluation \<Rightarrow> string list" where
  "source_refs_of e = unique_strings
     (concat (map (\<lambda>r. re_source_authority_refs r @ re_evidence_refs r) (en_rule_results e)))"

definition source_gaps_of :: "policy_evaluation \<Rightarrow> string list" where
  "source_gaps_of e = unique_strings (ay_missing_evidence (en_applicability e)
     @ concat (map re_missing_evidence (en_rule_results e)))"

definition approval_dependencies_of :: "policy_evaluation \<Rightarrow> string list" where
  "approval_dependencies_of e = unique_strings (filter
     (\<lambda>a. list_ex (\<lambda>p. py_startswith p a) [''REVIEW_'', ''SUPERVISORY_'', ''POLICY_STEWARD_'']) (required_actions_of e))"

definition disclosure_requirements_of :: "policy_evaluation \<Rightarrow> string list" where
  "disclosure_requirements_of e = unique_strings
     (concat (map (\<lambda>r. filter (py_startswith ''advisor_reviewed_disclosure'') (re_missing_evidence r)) (en_rule_results e))
      @ filter (contains_text ''DISCLOSURE'') (required_actions_of e))"

definition consent_requirements_of :: "policy_evaluation \<Rightarrow> string list" where
  "consent_requirements_of e = unique_strings
     (concat (map (\<lambda>r. filter (py_startswith ''client_consent'') (re_missing_evidence r)) (en_rule_results e))
      @ filter (contains_text ''CONSENT'') (required_actions_of e))"

definition evaluation_identity_hash :: "runtime \<Rightarrow> string \<Rightarrow> string \<Rightarrow> string \<Rightarrow> string \<Rightarrow> string \<Rightarrow> string" where
  "evaluation_identity_hash rt pid vid pack version source_hash = hash_canonical_payload rt (JObj
     [(''proposal_id'', JStr pid), (''proposal_version_id'', JStr vid), (''policy_pack_id'', JStr pack),
      (''policy_version'', JStr version), (''source_evidence_hash'', JStr source_hash)])"

definition remove_hash_prefix :: "string \<Rightarrow> string" where
  "remove_hash_prefix h = (if py_startswith ''sha256:'' h then drop 7 h else h)"

definition build_policy_evaluation_record ::
  "runtime \<Rightarrow> calendar \<Rightarrow> datetime \<Rightarrow> policy_evaluation \<Rightarrow> jobject \<Rightarrow> string \<Rightarrow> string \<Rightarrow> string \<Rightarrow> string
     \<Rightarrow> string \<Rightarrow> string \<Rightarrow> jobject \<Rightarrow> string option \<Rightarrow> error + evaluation_record" where
  "build_policy_evaluation_record rt cal now evaluation evidence pid vid created_by source_hash content_hash
       ikey reason observed_trace =
     bind_error (record_portfolio_id evidence) (\<lambda>portfolio.
     bind_error (build_policy_evaluation_receipt_identity rt cal evidence pid vid portfolio reason observed_trace now)
       (\<lambda>receipt.
     (let pack = ky_policy_pack_id (en_policy_pack evaluation); version = ky_policy_version (en_policy_pack evaluation)
      in Inr \<lparr>vr_evaluation_id = ''pev_'' @ take 20 (remove_hash_prefix
            (evaluation_identity_hash rt pid vid pack version source_hash)),
          vr_proposal_id = pid, vr_proposal_version_id = vid, vr_portfolio_id = portfolio,
          vr_policy_pack_id = pack, vr_policy_version = version,
          vr_generated_at = rt_isoformat rt now, vr_created_by = created_by,
          vr_evaluation_status = en_evaluation_status evaluation,
          vr_policy_content_hash = content_hash, vr_source_evidence_hash = source_hash,
          vr_evaluation_hash = policy_evaluation_hash rt evaluation source_hash content_hash,
          vr_rule_result_hashes = fold (\<lambda>r. dict_set (re_rule_id r)
            (hash_canonical_payload rt (dump_rule_evaluation r))) (en_rule_results evaluation) [],
          vr_evaluation_json = dump_evaluation evaluation,
          vr_source_refs = source_refs_of evaluation, vr_source_gaps = source_gaps_of evaluation,
          vr_approval_dependencies = approval_dependencies_of evaluation,
          vr_disclosure_requirements = disclosure_requirements_of evaluation,
          vr_consent_requirements = consent_requirements_of evaluation,
          vr_review_events_json = [], vr_sign_off_events_json = [], vr_report_archive_refs_json = [],
          vr_replay_metadata_json = \<lparr>vm_receipt_identity = Some receipt,
            vm_as_of_date = Some (ri_as_of_date receipt), vm_idempotency_key = ikey,
            vm_creation_reason = replay_safe_reason reason,
            vm_replay_policy = ''PIN_POLICY_VERSION_AND_COMPARE_SOURCE_HASHES''\<rparr>\<rparr>)))"

text \<open>A record written before receipts were kept gets a legacy identity.\<close>

definition legacy_receipt_identity :: "runtime \<Rightarrow> calendar \<Rightarrow> evaluation_record \<Rightarrow> error + receipt_identity" where
  "legacy_receipt_identity rt cal r =
     (let meta = vr_replay_metadata_json r;
          given = (case vm_as_of_date meta of Some s \<Rightarrow> if py_strip s \<noteq> [] then [s] else [] | None \<Rightarrow> [])
            @ (if py_strip (vr_generated_at r) \<noteq> [] then [vr_generated_at r] else [])
      in case given of
           [] \<Rightarrow> Inl (ValidationError ''POLICY_EVALUATION_RECEIPT_IDENTITY_REQUIRED'')
         | s # _ \<Rightarrow> bind_error (normalize_source_date cal (JStr s)) (\<lambda>d.
             Inr \<lparr>ri_as_of_date = d,
               ri_scope_identity = \<lparr>rx_tenant_scope_hash = safe_hash rt ''legacy_tenant_scope'' (vr_evaluation_id r),
                 rx_legal_entity_code = ''LEGACY_UNAVAILABLE'', rx_booking_center_code = None,
                 rx_service_identity_hash = safe_hash rt ''legacy_service_identity'' ''legacy_record'',
                 rx_proposal_id = vr_proposal_id r, rx_proposal_version_id = vr_proposal_version_id r,
                 rx_portfolio_id = vr_portfolio_id r\<rparr>,
               ri_observed_correlation_id_hash = safe_hash rt ''legacy_correlation_id'' (vr_evaluation_id r),
               ri_observed_trace_id_hash = safe_hash rt ''legacy_trace_id'' (vr_evaluation_id r),
               ri_trace_identity_source = ''trusted_policy_control_principal''\<rparr>))"

definition receipt_identity_from_record :: "runtime \<Rightarrow> calendar \<Rightarrow> evaluation_record \<Rightarrow> error + receipt_identity" where
  "receipt_identity_from_record rt cal r = (case vm_receipt_identity (vr_replay_metadata_json r) of
      Some i \<Rightarrow> Inr i | None \<Rightarrow> legacy_receipt_identity rt cal r)"

subsection \<open>Authority of privileged events\<close>

record event_authority =
  au_event_type :: policy_event_type
  au_command :: string
  au_contract_field :: string
  au_required_reason_fields :: "string list"

definition policy_sign_off_event_authority :: event_authority where
  "policy_sign_off_event_authority = \<lparr>au_event_type = PV_SIGN_OFF_RECORDED,
     au_command = ''policy_evaluation.sign_off_decision'', au_contract_field = ''workflow_contract_version'',
     au_required_reason_fields = [''workflow_contract_version'', ''decision'', ''source_evaluation_hash'',
       ''client_ready_publication'']\<rparr>"

definition policy_report_package_event_authority :: event_authority where
  "policy_report_package_event_authority = \<lparr>au_event_type = PV_REPORT_ARCHIVE_RECORDED,
     au_command = ''policy_evaluation.report_package'',
     au_contract_field = ''policy_report_package_contract_version'',
     au_required_reason_fields = [''policy_report_package_contract_version'',
       ''policy_report_package_request_hash'', ''report_package_status'', ''source_evaluation_hash'',
       ''report_request_id'', ''policy_sign_off_package'', ''client_ready_publication'']\<rparr>"

definition policy_ai_evidence_event_authority :: event_authority where
  "policy_ai_evidence_event_authority = \<lparr>au_event_type = PV_AI_EVIDENCE_RECORDED,
     au_command = ''policy_evaluation.ai_evidence'', au_contract_field = ''policy_ai_contract_version'',
     au_required_reason_fields = [''policy_ai_contract_version'', ''policy_ai_request_hash'', ''ai_status'',
       ''source_evaluation_hash'', ''requested_actions'', ''human_review_required'',
       ''authoritative_for_policy_status'', ''client_ready_publication'', ''lineage'']\<rparr>"

definition validate_authority_reason :: "jobject \<Rightarrow> string \<Rightarrow> event_authority \<Rightarrow> error + unit" where
  "validate_authority_reason reason evaluation_hash a =
     (if list_ex (\<lambda>f. \<not> dict_has reason f) (au_required_reason_fields a)
      then Inl (ValidationError ''POLICY_EVALUATION_PRIVILEGED_EVENT_REASON_INCOMPLETE'')
      else if json_get reason ''source_evaluation_hash'' \<noteq> JStr evaluation_hash
      then Inl (ValidationError ''POLICY_EVALUATION_PRIVILEGED_EVENT_HASH_MISMATCH'')
      else if \<not> dict_has reason (au_contract_field a)
      then Inl (ValidationError ''POLICY_EVALUATION_PRIVILEGED_EVENT_CONTRACT_MISSING'')
      else Inr ())"

definition validate_policy_evaluation_event_authority ::
  "policy_event_type \<Rightarrow> jobject \<Rightarrow> string \<Rightarrow> event_authority option \<Rightarrow> error + unit" where
  "validate_policy_evaluation_event_authority ty reason evaluation_hash authority =
     (if ty = PV_REVIEW_RECORDED then Inr ()
      else if ty = PV_FINALIZED
      then Inl (ValidationError ''POLICY_EVALUATION_FINALIZED_EVENT_REQUIRES_FINALIZE_COMMAND'')
      else (case authority of
          None \<Rightarrow> Inl (ValidationError ''POLICY_EVALUATION_PRIVILEGED_EVENT_REQUIRES_COMMAND'')
        | Some a \<Rightarrow> if au_event_type a \<noteq> ty
            then Inl (ValidationError ''POLICY_EVALUATION_PRIVILEGED_EVENT_REQUIRES_COMMAND'')
            else validate_authority_reason reason evaluation_hash a))"

end
