(* ===== verification/Catalog_Facts.thy ===== *)
theory Catalog_Facts
  imports Policy_Catalog
begin

text \<open>
  What every reachable policy-pack catalog satisfies: fixed pack contents, one active version for
  each pack, numbered logs in which each activation follows a validation by another actor, and
  snapshots that read back as the catalog they were taken of.
\<close>

subsection \<open>What holds in every catalog\<close>

definition backed_by_validation :: "bool \<Rightarrow> pack_event list \<Rightarrow> nat \<Rightarrow> bool" where
  "backed_by_validation checked es i \<longleftrightarrow> (\<exists>j<i. ke_event_type (es ! j) = POLICY_PACK_VALIDATED
     \<and> (\<forall>m. j < m \<and> m < i \<longrightarrow> ke_event_type (es ! m) \<noteq> POLICY_PACK_VALIDATED)
     \<and> (checked \<longrightarrow> ke_actor_id (es ! j) \<noteq> ke_actor_id (es ! i)))"

definition log_ok :: "pack_key \<Rightarrow> bool \<Rightarrow> pack_event list \<Rightarrow> bool" where
  "log_ok k checked es \<longleftrightarrow> (\<forall>i<length es.
     ke_event_id (es ! i) = ''ppev_'' @ six_digits (i + 1)
     \<and> ke_policy_pack_id (es ! i) = fst k \<and> ke_policy_version (es ! i) = snd k
     \<and> (ke_event_type (es ! i) = POLICY_PACK_ACTIVATED \<longrightarrow> backed_by_validation checked es i))"

lemma log_ok_Nil [simp]: "log_ok k b []"
  by (simp add: log_ok_def)

lemma log_ok_append:
  assumes "log_ok k b es" and "ke_event_id e = ''ppev_'' @ six_digits (length es + 1)"
    and "ke_policy_pack_id e = fst k" and "ke_policy_version e = snd k"
    and "ke_event_type e = POLICY_PACK_ACTIVATED \<Longrightarrow> backed_by_validation b (es @ [e]) (length es)"
  shows "log_ok k b (es @ [e])"
  unfolding log_ok_def
proof (intro allI impI)
  fix i assume i: "i < length (es @ [e])"
  show "ke_event_id ((es @ [e]) ! i) = ''ppev_'' @ six_digits (i + 1)
     \<and> ke_policy_pack_id ((es @ [e]) ! i) = fst k \<and> ke_policy_version ((es @ [e]) ! i) = snd k
     \<and> (ke_event_type ((es @ [e]) ! i) = POLICY_PACK_ACTIVATED \<longrightarrow> backed_by_validation b (es @ [e]) i)"
  proof (cases "i < length es")
    case True
    have "backed_by_validation b (es @ [e]) i = backed_by_validation b es i"
      using True by (auto simp: backed_by_validation_def nth_append)
    then show ?thesis using assms(1) True by (simp add: log_ok_def nth_append)
  next
    case False
    with i have "i = length es" by simp
    then show ?thesis using assms by simp
  qed
qed

lemma latest_validation_backs:
  assumes "find_first (\<lambda>e. ke_event_type e = POLICY_PACK_VALIDATED) (rev es) = Some v"
    and "checked \<longrightarrow> ke_actor_id v \<noteq> ke_actor_id e"
  shows "backed_by_validation checked (es @ [e]) (length es)"
  using assms(1)
proof (induction es rule: rev_induct)
  case (snoc x es)
  show ?case
  proof (cases "ke_event_type x = POLICY_PACK_VALIDATED")
    case True
    with snoc.prems have "v = x" by simp
    with True show ?thesis unfolding backed_by_validation_def
      using assms(2) by (intro exI [of _ "length es"]) (auto simp: nth_append)
  next
    case False
    with snoc obtain j where j: "j < length es" "ke_event_type (es ! j) = POLICY_PACK_VALIDATED"
      "\<forall>m. j < m \<and> m < length es \<longrightarrow> ke_event_type (es ! m) \<noteq> POLICY_PACK_VALIDATED"
      "checked \<longrightarrow> ke_actor_id (es ! j) \<noteq> ke_actor_id e"
      by (auto simp: backed_by_validation_def nth_append)
    with False show ?thesis unfolding backed_by_validation_def
      by (intro exI [of _ j]) (auto simp: nth_append less_Suc_eq)
  qed
qed simp

definition one_active :: "(pack_key, jobject) dict \<Rightarrow> bool" where
  "one_active defs \<longleftrightarrow> (\<forall>k k' d d'. dict_get defs k = Some d \<and> dict_get defs k' = Some d'
     \<and> fst k = fst k' \<and> is_active d \<and> is_active d' \<longrightarrow> k = k')"

text \<open>
  The pack of a version never changes but for its activation state, and a version that became
  active since \<open>defs0\<close> has its activation in the log.
\<close>

definition version_ok :: "runtime \<Rightarrow> pack_key \<Rightarrow> jobject \<Rightarrow> jobject \<Rightarrow> pack_event list \<Rightarrow> bool" where
  "version_ok rt k d0 d es \<longleftrightarrow> definition_key d = k \<and> prepare_definition rt d = d
     \<and> (\<forall>f. f \<noteq> ''activation_state'' \<longrightarrow> json_get d f = json_get d0 f)
     \<and> log_ok k (needs_checker d) es
     \<and> (is_active d \<and> \<not> is_active d0 \<longrightarrow> (\<exists>e\<in>set es. ke_event_type e = POLICY_PACK_ACTIVATED))"

definition catalog_ok :: "runtime \<Rightarrow> (pack_key, jobject) dict \<Rightarrow> policy_catalog \<Rightarrow> bool" where
  "catalog_ok rt defs0 c \<longleftrightarrow>
     map fst (kc_definitions c) = map fst defs0 \<and> map fst (kc_events c) = map fst defs0
     \<and> dict_wf defs0 \<and> dict_wf (kc_idempotency c) \<and> one_active (kc_definitions c)
     \<and> (\<forall>k d d0. dict_get (kc_definitions c) k = Some d \<and> dict_get defs0 k = Some d0
          \<longrightarrow> version_ok rt k d0 d (dict_list (kc_events c) k))
     \<and> (\<forall>ik h e. dict_get (kc_idempotency c) ik = Some (h, e)
          \<longrightarrow> e \<in> set (dict_list (kc_events c) (ke_policy_pack_id e, ke_policy_version e)))"

lemma catalog_ok_version:
  "catalog_ok rt defs0 c \<Longrightarrow> dict_get (kc_definitions c) k = Some d \<Longrightarrow> dict_get defs0 k = Some d0
     \<Longrightarrow> version_ok rt k d0 d (dict_list (kc_events c) k)"
  unfolding catalog_ok_def by blast

lemma catalog_ok_replay:
  "catalog_ok rt defs0 c \<Longrightarrow> dict_get (kc_idempotency c) ik = Some (h, e)
     \<Longrightarrow> e \<in> set (dict_list (kc_events c) (ke_policy_pack_id e, ke_policy_version e))"
  unfolding catalog_ok_def by blast

lemma catalog_ok_wf:
  assumes "catalog_ok rt defs0 c"
  shows "dict_wf (kc_definitions c)" and "dict_wf (kc_events c)"
  using assms by (simp_all add: catalog_ok_def dict_wf_def)

lemma definition_key_state [simp]: "definition_key (set_activation_state s d) = definition_key d"
  by (simp add: definition_key_def definition_str_def)

lemma version_ok_log:
  assumes "version_ok rt k d0 d es" and "log_ok k (needs_checker d) (es @ [e])"
  shows "version_ok rt k d0 d (es @ [e])"
  using assms by (auto simp: version_ok_def)

lemma version_ok_superseded: "version_ok rt k d0 d es \<Longrightarrow> version_ok rt k d0 (set_activation_state ''SUPERSEDED'' d) es"
  by (auto simp: version_ok_def prepared_set_state)

lemma version_ok_activated:
  assumes "version_ok rt k d0 d es" and "log_ok k (needs_checker d) (es @ [e])"
    and "ke_event_type e = POLICY_PACK_ACTIVATED"
  shows "version_ok rt k d0 (set_activation_state ''ACTIVE'' d) (es @ [e])"
  using assms by (auto simp: version_ok_def prepared_set_state)

lemma catalog_ok_push:
  assumes ok: "catalog_ok rt defs0 c" and d: "dict_get (kc_definitions c) pack = Some d"
    and e: "ke_policy_pack_id e = fst pack" "ke_policy_version e = snd pack"
    and keys: "map fst defs' = map fst (kc_definitions c)" and act: "one_active defs'"
    and vs: "\<And>k d d0. dict_get defs' k = Some d \<Longrightarrow> dict_get defs0 k = Some d0
      \<Longrightarrow> version_ok rt k d0 d (dict_list (dict_push pack e (kc_events c)) k)"
  shows "catalog_ok rt defs0 (c\<lparr>kc_definitions := defs', kc_events := dict_push pack e (kc_events c),
      kc_idempotency := dict_set ikey (h, e) (kc_idempotency c)\<rparr>)"
proof -
  have k: "pack \<in> fst ` set (kc_events c)"
    using dict_get_in_keys [OF d] ok by (metis catalog_ok_def list.set_map)
  have pe: "(ke_policy_pack_id e, ke_policy_version e) = pack" using e by simp
  have "e' \<in> set (dict_list (dict_push pack e (kc_events c)) (ke_policy_pack_id e', ke_policy_version e'))"
    if "dict_get (dict_set ikey (h, e) (kc_idempotency c)) ik = Some (h', e')" for ik h' e'
    using that catalog_ok_replay [OF ok, of ik h' e'] pe by (auto split: if_splits)
  moreover have "dict_wf (dict_set ikey (h, e) (kc_idempotency c))" "dict_wf defs0"
    "map fst defs' = map fst defs0" "map fst (dict_push pack e (kc_events c)) = map fst defs0"
    using ok keys k by (simp_all add: catalog_ok_def)
  ultimately show ?thesis
    unfolding catalog_ok_def using act vs by (simp del: dict_list_push dict_get_set split_paired_All)
qed

lemma catalog_ok_versionD:
  assumes "catalog_ok rt defs0 c" and "dict_get (kc_definitions c) k = Some d"
  obtains d0 where "dict_get defs0 k = Some d0" and "version_ok rt k d0 d (dict_list (kc_events c) k)"
proof -
  have "map fst (kc_definitions c) = map fst defs0" using assms(1) by (simp add: catalog_ok_def)
  from dict_get_cong_keys [OF this assms(2)] that catalog_ok_version [OF assms] show ?thesis by blast
qed

lemma catalog_ok_validate:
  assumes ok: "catalog_ok rt defs0 c"
    and run: "store_validate_policy_pack_version rt now pack actor ikey reason c = Inr (resp, c')"
  shows "catalog_ok rt defs0 c'"
  using run
proof (cases rule: store_validate_cases)
  case (recorded d e)
  note parts = append_event_parts [OF recorded(5)]
  have c': "c' = c\<lparr>kc_definitions := kc_definitions c, kc_events := dict_push pack e (kc_events c),
      kc_idempotency := dict_set ikey (validation_request_hash rt pack actor d reason, e) (kc_idempotency c)\<rparr>"
    using parts(1) by simp
  show ?thesis unfolding c'
  proof (rule catalog_ok_push [OF ok recorded(1) parts(4, 5) refl])
    show "one_active (kc_definitions c)" using ok by (simp add: catalog_ok_def)
    fix k d' d0 assume a: "dict_get (kc_definitions c) k = Some d'" "dict_get defs0 k = Some d0"
    have v: "version_ok rt k d0 d' (dict_list (kc_events c) k)"
      by (rule catalog_ok_version [OF ok a])
    have "log_ok k (needs_checker d') (dict_list (kc_events c) k @ [e])" if "k = pack"
      by (rule log_ok_append) (use v that parts in \<open>auto simp: version_ok_def\<close>)
    then show "version_ok rt k d0 d' (dict_list (dict_push pack e (kc_events c)) k)"
      using v by (auto intro: version_ok_log)
  qed
qed (use ok in simp)

lemma supersede_keys: "(\<And>k a. other = Some (k, a) \<Longrightarrow> k \<in> fst ` set defs) \<Longrightarrow> map fst (supersede other defs) = map fst defs"
  by (auto simp: supersede_def split: option.splits)

lemma dict_get_supersede: "dict_get (supersede other defs) k =
    (case other of Some (k', a) \<Rightarrow> if k = k' then Some (set_activation_state ''SUPERSEDED'' a) else dict_get defs k
     | None \<Rightarrow> dict_get defs k)"
  by (simp add: supersede_def split: option.splits)

text \<open>After an activation of a version, exactly the versions of other packs keep their state.\<close>

lemma activation_definitions:
  assumes "dict_wf (kc_definitions c)" and "dict_get (kc_definitions c) pack = Some d"
    and "single_active_definition c (fst pack) = Inr active" and "\<not> is_active d"
    and "defs' = supersede active (dict_set pack (set_activation_state ''ACTIVE'' d) (kc_definitions c))"
  shows "map fst defs' = map fst (kc_definitions c)"
    and "dict_get defs' k = (if k = pack then Some (set_activation_state ''ACTIVE'' d)
      else case dict_get (kc_definitions c) k of None \<Rightarrow> None
        | Some a \<Rightarrow> Some (if fst k = fst pack \<and> is_active a then set_activation_state ''SUPERSEDED'' a else a))"
proof -
  have key: "pack \<in> fst ` set (kc_definitions c)" using assms(2) by (rule dict_get_in_keys)
  note D = single_active_SomeD [OF assms(1)]
  show "map fst defs' = map fst (kc_definitions c)"
    unfolding assms(5) using key
    by (subst supersede_keys) (use D(1) assms(3) in \<open>auto simp: dom_update dest!: dict_get_in_keys\<close>)
  show "dict_get defs' k = (if k = pack then Some (set_activation_state ''ACTIVE'' d)
      else case dict_get (kc_definitions c) k of None \<Rightarrow> None
        | Some a \<Rightarrow> Some (if fst k = fst pack \<and> is_active a then set_activation_state ''SUPERSEDED'' a else a))"
  proof (cases active)
    case None
    then show ?thesis
      using single_active_Inr [OF assms(1, 3), of k] assms(5) by (auto simp: dict_get_supersede split: option.splits)
  next
    case (Some ka)
    obtain ko ao where ka: "ka = (ko, ao)" by (cases ka)
    with Some D [of "fst pack" ko ao] assms(3) have o: "dict_get (kc_definitions c) ko = Some ao" "fst ko = fst pack" "is_active ao"
      by auto
    then have "ko \<noteq> pack" using assms(2, 4) by auto
    then show ?thesis
      using single_active_Inr [OF assms(1, 3), of k] assms(5) Some ka o
      by (auto simp: dict_get_supersede split: option.splits)
  qed
qed

lemma one_active_after_activation:
  assumes ok: "one_active defs"
    and get: "\<And>k. dict_get defs' k = (if k = pack then Some d1
      else case dict_get defs k of None \<Rightarrow> None
        | Some a \<Rightarrow> Some (if fst k = fst pack \<and> is_active a then set_activation_state ''SUPERSEDED'' a else a))"
  shows "one_active defs'"
proof -
  have inactive: "\<not> is_active d" if "dict_get defs' k = Some d" "fst k = fst pack" "k \<noteq> pack" for k d
    using that by (auto simp: get split: option.splits if_splits)
  have other: "dict_get defs k = Some d" if "dict_get defs' k = Some d" "fst k \<noteq> fst pack" for k d
    using that by (auto simp: get split: option.splits if_splits)
  show ?thesis unfolding one_active_def
  proof (intro allI impI, elim conjE)
    fix k k' d d'
    assume a: "dict_get defs' k = Some d" "dict_get defs' k' = Some d'" "fst k = fst k'" "is_active d" "is_active d'"
    show "k = k'"
    proof (cases "fst k = fst pack")
      case True
      with a inactive [OF a(1)] inactive [OF a(2)] show ?thesis by auto
    next
      case False
      with a have "dict_get defs k = Some d" "dict_get defs k' = Some d'" by (auto intro: other)
      with a ok show ?thesis unfolding one_active_def by blast
    qed
  qed
qed

lemma catalog_ok_activate:
  assumes ok: "catalog_ok rt defs0 c"
    and run: "store_activate_policy_pack_version rt now pack actor h ikey reason c = Inr (resp, c')"
  shows "catalog_ok rt defs0 c'"
  using catalog_ok_wf(1) [OF ok] run
proof (cases rule: store_activate_cases)
  case (activated d active v e)
  let ?defs' = "supersede active (dict_set pack (set_activation_state ''ACTIVE'' d) (kc_definitions c))"
  note defs = activation_definitions [OF catalog_ok_wf(1) [OF ok] activated(1) activated(2) activated(3) refl]
  show ?thesis unfolding activated(17)
  proof (rule catalog_ok_push [OF ok activated(1) activated(13, 14) defs(1)])
    show "one_active ?defs'"
      by (rule one_active_after_activation [OF _ defs(2)]) (use ok in \<open>simp add: catalog_ok_def\<close>)
    fix k d' d0 assume a: "dict_get ?defs' k = Some d'" "dict_get defs0 k = Some d0"
    show "version_ok rt k d0 d' (dict_list (dict_push pack e (kc_events c)) k)"
    proof (cases "k = pack")
      case True
      have vs: "version_ok rt pack d0 d (dict_list (kc_events c) pack)"
        using catalog_ok_version [OF ok activated(1)] a True by simp
      have "log_ok pack (needs_checker d) (dict_list (kc_events c) pack @ [e])"
      proof (rule log_ok_append [OF _ activated(16) activated(13, 14)])
        show "log_ok pack (needs_checker d) (dict_list (kc_events c) pack)" using vs unfolding version_ok_def by blast
        show "backed_by_validation (needs_checker d) (dict_list (kc_events c) pack @ [e]) (length (dict_list (kc_events c) pack))"
          using activated(6, 7, 12) unfolding latest_policy_pack_validation_event_def
          by (intro latest_validation_backs) auto
      qed
      from version_ok_activated [OF vs this activated(11)] a True show ?thesis by (simp add: defs(2))
    next
      case False
      with a(1) obtain b where b: "dict_get (kc_definitions c) k = Some b"
        and d': "d' = (if fst k = fst pack \<and> is_active b then set_activation_state ''SUPERSEDED'' b else b)"
        by (auto simp: defs(2) split: option.splits)
      have "version_ok rt k d0 b (dict_list (kc_events c) k)" by (rule catalog_ok_version [OF ok b a(2)])
      then show ?thesis using False d' by (auto intro: version_ok_superseded)
    qed
  qed
qed (use ok in simp)

subsection \<open>Reachable catalogs\<close>

text \<open>
  The catalog starts from its source definitions, of which at most one version of each pack is
  active, and changes by the two commands.
\<close>

inductive catalog_reachable :: "runtime \<Rightarrow> jobject list \<Rightarrow> policy_catalog \<Rightarrow> bool" for rt defs where
  initial: "one_active (kc_definitions (new_catalog rt defs)) \<Longrightarrow> catalog_reachable rt defs (new_catalog rt defs)"
| validated: "catalog_reachable rt defs c
    \<Longrightarrow> validate_policy_pack_version rt now pack actor key reason c = Inr (resp, c')
    \<Longrightarrow> catalog_reachable rt defs c'"
| activated: "catalog_reachable rt defs c
    \<Longrightarrow> activate_policy_pack_version rt now pack actor h key reason c = Inr (resp', c')
    \<Longrightarrow> catalog_reachable rt defs c'"

lemma definition_key_prepared [simp]: "definition_key (prepare_definition rt d) = definition_key d"
  by (simp add: definition_key_def definition_str_def prepare_definition_def Let_def)

lemma fold_prepared_ok:
  "dict_wf m \<Longrightarrow> (\<And>k d. dict_get m k = Some d \<Longrightarrow> definition_key d = k \<and> prepare_definition rt d = d)
   \<Longrightarrow> dict_wf (fold (\<lambda>d. dict_set (definition_key d) (prepare_definition rt d)) defs m)
     \<and> (dict_get (fold (\<lambda>d. dict_set (definition_key d) (prepare_definition rt d)) defs m) k = Some d
        \<longrightarrow> definition_key d = k \<and> prepare_definition rt d = d)"
proof (induction defs arbitrary: m)
  case (Cons x defs)
  let ?m = "dict_set (definition_key x) (prepare_definition rt x) m"
  have "definition_key d' = k' \<and> prepare_definition rt d' = d'" if a: "dict_get ?m k' = Some d'" for k' d'
  proof (cases "k' = definition_key x")
    case True
    with a have "prepare_definition rt x = d'" by simp
    with True show ?thesis by (metis definition_key_prepared prepare_definition_idem)
  next
    case False
    with a have "dict_get m k' = Some d'" by simp
    then show ?thesis by (rule Cons.prems(2))
  qed
  note IH = Cons.IH [OF _ this]
  show ?case unfolding fold_simps by (rule IH) (rule dict_wf_set [OF Cons.prems(1)])
qed (simp only: fold_simps, blast)

lemma new_catalog_definitions:
  "dict_wf (kc_definitions (new_catalog rt defs))
   \<and> (dict_get (kc_definitions (new_catalog rt defs)) k = Some d
      \<longrightarrow> definition_key d = k \<and> prepare_definition rt d = d)"
  unfolding new_catalog_def Let_def policy_catalog.simps by (rule fold_prepared_ok) simp_all

lemma new_catalog_events: "dict_list (kc_events (new_catalog rt defs)) k = []"
  by (auto simp: new_catalog_def Let_def dict_list_def map_of_eq_None_iff dest!: map_of_SomeD split: option.splits)

lemma catalog_ok_new:
  assumes "one_active (kc_definitions (new_catalog rt defs))"
  shows "catalog_ok rt (kc_definitions (new_catalog rt defs)) (new_catalog rt defs)"
  unfolding catalog_ok_def
proof (intro conjI allI impI, goal_cases)
  case 2 show ?case by (simp add: new_catalog_def Let_def comp_def)
next
  case (6 k d d0)
  then have "definition_key d = k \<and> prepare_definition rt d = d"
    using new_catalog_definitions [of rt defs] by blast
  moreover have "d0 = d" using 6 by auto
  ultimately show ?case by (simp add: version_ok_def new_catalog_events)
qed (use assms conjunct1 [OF new_catalog_definitions, of rt defs] in \<open>auto simp: new_catalog_def Let_def\<close>)

lemma reachable_catalog_ok:
  "catalog_reachable rt defs c \<Longrightarrow> catalog_ok rt (kc_definitions (new_catalog rt defs)) c"
proof (induction rule: catalog_reachable.induct)
  case (validated c now pack actor key reason resp c')
  then show ?case
    by (auto simp: validate_policy_pack_version_def bind_error_Inr_iff intro: catalog_ok_validate)
next
  case (activated c now pack actor h key reason resp c')
  then show ?case
    by (auto simp: activate_policy_pack_version_def bind_error_Inr_iff intro: catalog_ok_activate)
qed (rule catalog_ok_new)

subsection \<open>Snapshots\<close>

text \<open>
  What a durable catalog stores between commands (\<open>snapshot\<close> and \<open>from_snapshot\<close>); events
  travel as their JSON dumps, which Pydantic reads back as the same events.
\<close>

record replay_entry =
  kr_idempotency_key :: string
  kr_request_hash :: string
  kr_policy_pack_id :: string
  kr_policy_version :: string
  kr_event_id :: string

record catalog_snapshot =
  kn_definitions :: "jobject list"
  kn_events :: "pack_event list"
  kn_idempotency :: "replay_entry list"

definition catalog_to_snapshot :: "policy_catalog \<Rightarrow> catalog_snapshot" where
  "catalog_to_snapshot c =
     \<lparr>kn_definitions = dict_values (kc_definitions c), kn_events = concat (dict_values (kc_events c)),
      kn_idempotency = map (\<lambda>(key, (h, e)). \<lparr>kr_idempotency_key = key, kr_request_hash = h,
        kr_policy_pack_id = ke_policy_pack_id e, kr_policy_version = ke_policy_version e,
        kr_event_id = ke_event_id e\<rparr>) (kc_idempotency c)\<rparr>"

definition event_reference :: "pack_event \<Rightarrow> pack_key \<times> string" where
  "event_reference e = ((ke_policy_pack_id e, ke_policy_version e), ke_event_id e)"

definition catalog_from_snapshot ::
  "runtime \<Rightarrow> jobject list \<Rightarrow> catalog_snapshot \<Rightarrow> error + policy_catalog" where
  "catalog_from_snapshot rt reference_packs s =
     (let store = new_catalog rt (if kn_definitions s = [] then reference_packs else kn_definitions s);
          events = fold (\<lambda>e. dict_push (ke_policy_pack_id e, ke_policy_version e) e) (kn_events s)
            (map (\<lambda>kv. (fst kv, [])) (kc_definitions store));
          event_index = fold (\<lambda>e. dict_set (event_reference e) e) (concat (dict_values events)) []
      in bind_error (fold_error (\<lambda>item d.
            case dict_get event_index ((kr_policy_pack_id item, kr_policy_version item), kr_event_id item) of
              None \<Rightarrow> Inl (KeyError (kr_event_id item))
            | Some e \<Rightarrow> Inr (dict_set (kr_idempotency_key item) (kr_request_hash item, e) d))
          (kn_idempotency s) []) (\<lambda>idempotency.
        Inr (store\<lparr>kc_events := events, kc_idempotency := idempotency\<rparr>)))"

lemma logs_own_events:
  assumes ok: "catalog_ok rt defs0 c" and k: "dict_get (kc_events c) k = Some es" and i: "i < length es"
  shows "(ke_policy_pack_id (es ! i), ke_policy_version (es ! i)) = k"
    and "ke_event_id (es ! i) = ''ppev_'' @ six_digits (i + 1)"
proof -
  have keys: "map fst (kc_events c) = map fst defs0" "map fst (kc_events c) = map fst (kc_definitions c)"
    using ok by (simp_all add: catalog_ok_def)
  obtain d0 d where "dict_get defs0 k = Some d0" "dict_get (kc_definitions c) k = Some d"
    using dict_get_cong_keys [OF keys(1) k] dict_get_cong_keys [OF keys(2) k] by auto
  then have "version_ok rt k d0 d (dict_list (kc_events c) k)" by (intro catalog_ok_version [OF ok])
  then have "log_ok k (needs_checker d) (dict_list (kc_events c) k)" unfolding version_ok_def by blast
  then have "log_ok k (needs_checker d) es" using k by (simp add: dict_list_def)
  then show "(ke_policy_pack_id (es ! i), ke_policy_version (es ! i)) = k"
    and "ke_event_id (es ! i) = ''ppev_'' @ six_digits (i + 1)" using i by (auto simp: log_ok_def)
qed

lemma snapshot_definitions:
  assumes ok: "catalog_ok rt defs0 c" and ne: "kc_definitions c \<noteq> []"
  shows "new_catalog rt (dict_values (kc_definitions c))
    = c\<lparr>kc_events := map (\<lambda>kv. (fst kv, [])) (kc_definitions c), kc_idempotency := []\<rparr>"
proof -
  have own: "definition_key d = k \<and> prepare_definition rt d = d" if "(k, d) \<in> set (kc_definitions c)" for k d
  proof -
    have "dict_get (kc_definitions c) k = Some d" using that catalog_ok_wf(1) [OF ok] by (simp add: dict_wf_def)
    then show ?thesis by (auto elim!: catalog_ok_versionD [OF ok] simp: version_ok_def)
  qed
  then have keys: "map definition_key (dict_values (kc_definitions c)) = map fst (kc_definitions c)"
    by (auto simp: dict_values_def)
  have "fold (\<lambda>d. dict_set (definition_key d) (prepare_definition rt d)) (dict_values (kc_definitions c)) []
      = map (\<lambda>d. (definition_key d, prepare_definition rt d)) (dict_values (kc_definitions c))"
    using fold_dict_set_distinct [of definition_key "dict_values (kc_definitions c)" "[]" "prepare_definition rt"]
      catalog_ok_wf(1) [OF ok] keys by (simp add: dict_wf_def)
  also have "\<dots> = kc_definitions c" using own by (auto simp: dict_values_def intro!: map_idI)
  finally show ?thesis by (simp add: new_catalog_def Let_def)
qed

lemma snapshot_events:
  assumes ok: "catalog_ok rt defs0 c"
  shows "fold (\<lambda>e. dict_push (ke_policy_pack_id e, ke_policy_version e) e) (concat (dict_values (kc_events c)))
    (map (\<lambda>kv. (fst kv, [])) (kc_definitions c)) = kc_events c"
proof -
  let ?key = "\<lambda>e. (ke_policy_pack_id e, ke_policy_version e)"
  let ?d = "map (\<lambda>kv. (fst kv, [])) (kc_definitions c) :: (pack_key, pack_event list) dict"
  have wf: "dict_wf (kc_events c)" by (rule catalog_ok_wf [OF ok])
  have mem: "?key e = k" if "dict_get (kc_events c) k = Some es" "e \<in> set es" for k es e
    using that by (auto simp: in_set_conv_nth dest: logs_own_events(1) [OF ok])
  have keys: "map fst ?d = map fst (kc_events c)" using ok by (simp add: catalog_ok_def comp_def)
  let ?r = "fold (\<lambda>e. dict_push (?key e) e) (concat (dict_values (kc_events c))) ?d"
  have in_keys: "?key e \<in> fst ` set ?d" if e: "e \<in> set (concat (dict_values (kc_events c)))" for e
  proof -
    from e obtain k es where "(k, es) \<in> set (kc_events c)" "e \<in> set es" by (auto simp: dict_values_def)
    then have "?key e = k" "k \<in> fst ` set (kc_events c)" using mem [of k es e] wf by (auto simp: dict_wf_def rev_image_eqI)
    then show ?thesis using keys by (metis list.set_map)
  qed
  have FP: "map fst ?r = map fst ?d
      \<and> dict_list ?r k = dict_list ?d k @ filter (\<lambda>e. ?key e = k) (concat (dict_values (kc_events c)))" for k
    by (rule fold_dict_push) (rule in_keys)
  have lists: "dict_list ?r k = dict_list (kc_events c) k" for k
  proof -
    have "dict_list ?d k = []"
      by (auto simp: dict_list_def dest!: map_of_SomeD split: option.splits)
    moreover have "filter (\<lambda>e. ?key e = k) (concat (dict_values (kc_events c))) = dict_list (kc_events c) k"
      by (rule filter_logs [OF wf]) (rule mem)
    ultimately show ?thesis using conjunct2 [OF FP, of k] by (simp only: append_Nil)
  qed
  have rkeys: "map fst ?r = map fst (kc_events c)" using conjunct1 [OF FP] keys by (rule trans)
  show ?thesis
  proof (rule dict_eqI [OF rkeys])
    show "dict_wf ?r" using rkeys wf by (simp add: dict_wf_def)
    fix k
    show "dict_get ?r k = dict_get (kc_events c) k"
      by (rule dict_get_of_list [OF rkeys lists])
  qed
qed

lemma snapshot_roundtrip:
  assumes ok: "catalog_ok rt defs0 c" and ne: "kc_definitions c \<noteq> []"
  shows "catalog_from_snapshot rt packs (catalog_to_snapshot c) = Inr c"
proof -
  let ?es = "concat (dict_values (kc_events c))"
  have wf: "dict_wf (kc_events c)" by (rule catalog_ok_wf [OF ok])
  have dist: "distinct (map event_reference ?es)"
  proof (rule distinct_concat_logs [OF wf])
    fix k es assume k: "dict_get (kc_events c) k = Some es"
    have "inj_on (\<lambda>i. event_reference (es ! i)) {0..<length es}"
      by (auto simp: inj_on_def event_reference_def logs_own_events(2) [OF ok k] six_digits_inject)
    then have "distinct (map (\<lambda>i. event_reference (es ! i)) [0..<length es])" by (simp add: distinct_map)
    moreover have "map event_reference es = map (\<lambda>i. event_reference (es ! i)) [0..<length es]"
      by (rule nth_equalityI) simp_all
    ultimately show "distinct (map event_reference es) \<and> (\<forall>e\<in>set es. fst (event_reference e) = k)"
      using logs_own_events(1) [OF ok k] by (auto simp: event_reference_def in_set_conv_nth)
  qed
  have index: "fold (\<lambda>e. dict_set (event_reference e) e) ?es [] = map (\<lambda>e. (event_reference e, e)) ?es"
    using fold_dict_set_distinct [of event_reference ?es "[]" "\<lambda>e. e"] dist by simp
  have look: "dict_get (map (\<lambda>e. (event_reference e, e)) ?es) (event_reference e) = Some e" if "e \<in> set ?es" for e
    using that dist by (auto simp: comp_def)
  have stored: "e \<in> set ?es" if "(ik, h, e) \<in> set (kc_idempotency c)" for ik h e
  proof -
    have "dict_get (kc_idempotency c) ik = Some (h, e)" using that ok by (simp add: catalog_ok_def dict_wf_def)
    from catalog_ok_replay [OF ok this] show ?thesis
      by (auto simp: in_dict_list_iff dest!: set_dict_values_subset)
  qed
  let ?item = "\<lambda>(key, (h, e)). \<lparr>kr_idempotency_key = key, kr_request_hash = h, kr_policy_pack_id = ke_policy_pack_id e,
      kr_policy_version = ke_policy_version e, kr_event_id = ke_event_id e\<rparr>"
  have "fold_error (\<lambda>item d.
            case dict_get (map (\<lambda>e. (event_reference e, e)) ?es)
              ((kr_policy_pack_id item, kr_policy_version item), kr_event_id item) of
              None \<Rightarrow> Inl (KeyError (kr_event_id item))
            | Some e \<Rightarrow> Inr (dict_set (kr_idempotency_key item) (kr_request_hash item, e) d))
          (map ?item (kc_idempotency c)) [] = Inr ([] @ kc_idempotency c)"
  proof (rule fold_error_dict_set)
    show "distinct (map fst (kc_idempotency c))" using ok by (simp add: catalog_ok_def dict_wf_def)
    fix x assume xs: "x \<in> set (kc_idempotency c)"
    obtain ik h e where x: "x = (ik, h, e)" by (cases x)
    have "e \<in> set ?es" using stored xs x by blast
    from look [OF this] show "dict_get (map (\<lambda>e. (event_reference e, e)) ?es)
        ((kr_policy_pack_id (?item x), kr_policy_version (?item x)), kr_event_id (?item x)) = Some (snd (snd x))
      \<and> kr_idempotency_key (?item x) = fst x \<and> kr_request_hash (?item x) = fst (snd x)"
      by (simp add: x event_reference_def)
  qed simp
  moreover have "dict_values (kc_definitions c) \<noteq> []" using ne by (simp add: dict_values_def)
  ultimately show ?thesis
    by (simp add: catalog_from_snapshot_def catalog_to_snapshot_def snapshot_definitions [OF ok ne]
        snapshot_events [OF ok] index Let_def)
qed

end
