(* ===== verification/Policy_Store.thy ===== *)
theory Policy_Store
  imports Policy_Records Catalog_Facts Idempotency_Keys
begin

text \<open>
  The store of policy evaluations (\<open>policy_packs/persistence_store.py\<close>,
  \<open>persistence_projection.py\<close>, \<open>persistence_replay.py\<close> and the module-level commands of
  \<open>persistence.py\<close>): finalisation with idempotent replay, audit events, queries, and the
  comparison a replay makes.  The catalog of policy packs is an argument, as it is a store of its own.
  A command that raises leaves the store as it was.
\<close>

subsection \<open>The store\<close>

type_synonym evaluation_key = "string \<times> string \<times> string \<times> string \<times> string"

record policy_store =
  vs_records :: "(string, evaluation_record) dict"
  vs_events :: "(string, policy_event list) dict"
  vs_idempotency :: "(string, string \<times> string \<times> string) dict"
  vs_identity_index :: "(evaluation_key, string) dict"

definition empty_policy_store :: policy_store where
  "empty_policy_store = \<lparr>vs_records = [], vs_events = [], vs_idempotency = [], vs_identity_index = []\<rparr>"

definition load_evaluation :: "policy_store \<Rightarrow> string \<Rightarrow> error + evaluation_record" where
  "load_evaluation s eid = (case dict_get (vs_records s) eid of
      None \<Rightarrow> Inl (NotFoundError ''POLICY_EVALUATION_RECORD_NOT_FOUND'') | Some r \<Rightarrow> Inr r)"

definition load_event_log :: "policy_store \<Rightarrow> string \<Rightarrow> error + policy_event list" where
  "load_event_log s eid = (case dict_get (vs_events s) eid of
      None \<Rightarrow> Inl (KeyError eid) | Some es \<Rightarrow> Inr es)"

definition load_replayed_policy_event ::
  "policy_store \<Rightarrow> string \<Rightarrow> string \<Rightarrow> error + policy_event \<times> evaluation_record" where
  "load_replayed_policy_event s eid event_id =
     bind_error (load_evaluation s eid) (\<lambda>r.
     bind_error (load_event_log s eid) (\<lambda>es.
       case find_first (\<lambda>e. ve_event_id e = event_id) es of
         None \<Rightarrow> Inl (OtherException ''StopIteration'' []) | Some e \<Rightarrow> Inr (e, r)))"

definition policy_event_of :: "runtime \<Rightarrow> policy_store \<Rightarrow> datetime \<Rightarrow> evaluation_record \<Rightarrow> policy_event_type
    \<Rightarrow> string \<Rightarrow> string option \<Rightarrow> string \<Rightarrow> jobject \<Rightarrow> policy_event" where
  "policy_event_of rt s now r ty actor ikey request_hash reason =
     \<lparr>ve_event_id = ''peev_'' @ six_digits (Suc (length (dict_list (vs_events s) (vr_evaluation_id r)))),
       ve_evaluation_id = vr_evaluation_id r, ve_proposal_id = vr_proposal_id r,
       ve_proposal_version_id = vr_proposal_version_id r, ve_event_type = ty, ve_actor_id = actor,
       ve_occurred_at = rt_isoformat rt now, ve_content_hash = vr_evaluation_hash r,
       ve_idempotency_key = ikey,
       ve_reason_json = dict_set ''persistence_contract_version'' (JStr persistence_contract_version)
         (dict_set ''idempotency_request_hash'' (JStr request_hash) reason)\<rparr>"

subsection \<open>Replays of earlier hashing schemes\<close>

definition matches_record_scope ::
  "evaluation_record \<Rightarrow> string \<Rightarrow> string \<Rightarrow> pack_key \<Rightarrow> string option \<Rightarrow> bool" where
  "matches_record_scope r pid vid pack portfolio \<longleftrightarrow>
     vr_proposal_id r = pid \<and> vr_proposal_version_id r = vid \<and> vr_policy_pack_id r = fst pack
     \<and> vr_policy_version r = snd pack \<and> Some (vr_portfolio_id r) = portfolio"

definition finalize_request_hash ::
  "runtime \<Rightarrow> string \<Rightarrow> string \<Rightarrow> pack_key \<Rightarrow> string \<Rightarrow> jobject \<Rightarrow> string" where
  "finalize_request_hash rt pid vid pack source_hash stable_reason = hash_canonical_payload rt (JObj
     [(''operation'', JStr ''POLICY_EVALUATION_FINALIZED''), (''proposal_id'', JStr pid),
      (''proposal_version_id'', JStr vid), (''policy_pack_id'', JStr (fst pack)),
      (''policy_version'', JStr (snd pack)), (''source_evidence_hash'', JStr source_hash),
      (''reason'', JObj stable_reason)])"

definition legacy_correlation_sensitive_reason :: "jobject \<Rightarrow> jobject" where
  "legacy_correlation_sensitive_reason reason = (case json_get reason ''trusted_principal'' of
      JObj p \<Rightarrow> dict_set ''trusted_principal'' (JObj (filter (\<lambda>kv. fst kv \<noteq> ''trace_id'') p)) reason
    | _ \<Rightarrow> reason)"

definition legacy_correlation_sensitive_request_hash :: "runtime \<Rightarrow> evaluation_record \<Rightarrow> jobject \<Rightarrow> string" where
  "legacy_correlation_sensitive_request_hash rt r reason =
     finalize_request_hash rt (vr_proposal_id r) (vr_proposal_version_id r)
       (vr_policy_pack_id r, vr_policy_version r) (vr_source_evidence_hash r)
       (legacy_correlation_sensitive_reason reason)"

definition same_stable_reason :: "jobject \<Rightarrow> jobject \<Rightarrow> bool" where
  "same_stable_reason a b \<longleftrightarrow>
     json_same (JObj (idempotency_stable_reason a)) (JObj (idempotency_stable_reason b))"

definition matches_legacy_correlation_sensitive_replay ::
  "runtime \<Rightarrow> evaluation_record \<Rightarrow> policy_event \<Rightarrow> string \<Rightarrow> string \<Rightarrow> jobject \<Rightarrow> bool" where
  "matches_legacy_correlation_sensitive_replay rt r e stored_hash source_hash reason =
     (case json_get (ve_reason_json e) ''finalization_reason'' of
        JObj given \<Rightarrow> vr_source_evidence_hash r = source_hash \<and> same_stable_reason given reason
          \<and> stored_hash = legacy_correlation_sensitive_request_hash rt r given
      | _ \<Rightarrow> False)"

definition event_business_reason :: "policy_event \<Rightarrow> jobject" where
  "event_business_reason e = filter (\<lambda>kv. fst kv \<notin> {''idempotency_request_hash'', ''persistence_contract_version''})
     (ve_reason_json e)"

definition matches_legacy_event_stable_replay ::
  "evaluation_record \<Rightarrow> policy_event \<Rightarrow> string \<Rightarrow> policy_event_type \<Rightarrow> string \<Rightarrow> string \<Rightarrow> string \<Rightarrow> jobject \<Rightarrow> bool" where
  "matches_legacy_event_stable_replay r e stored_hash ty actor eid evaluation_hash reason \<longleftrightarrow>
     vr_evaluation_id r = eid \<and> ve_evaluation_id e = eid \<and> ve_event_type e = ty \<and> ve_actor_id e = actor
     \<and> ve_content_hash e = evaluation_hash
     \<and> json_get (ve_reason_json e) ''idempotency_request_hash'' = JStr stored_hash
     \<and> same_stable_reason (event_business_reason e) reason"

subsection \<open>Repair of a missing legal entity\<close>

definition normalized_non_empty :: "json \<Rightarrow> string option" where
  "normalized_non_empty v = (case v of
      JStr s \<Rightarrow> if py_strip s = [] then None else Some (py_upper (py_strip s)) | _ \<Rightarrow> None)"

definition has_repair_intent :: "jobject \<Rightarrow> bool" where
  "has_repair_intent reason = (case json_get reason ''system_repair_intent'' of
      JObj intent \<Rightarrow> json_get intent ''repair_code''
            = JStr ''POLICY_EVALUATION_TRUSTED_LEGAL_ENTITY_BINDING_REPAIR''
        \<and> json_get intent ''source_gap'' = JStr ''legal_entity_code''
        \<and> json_get intent ''authority_source'' = JStr ''trusted_policy_control_principal''
    | _ \<Rightarrow> False)"

text \<open>\<open>x in container\<close> for the containers JSON has.\<close>

definition json_contains :: "string \<Rightarrow> json \<Rightarrow> error + bool" where
  "json_contains x v = (case v of
      JList xs \<Rightarrow> Inr (JStr x \<in> set xs)
    | JObj d \<Rightarrow> Inr (dict_has d x)
    | JStr s \<Rightarrow> Inr (contains_text x s)
    | _ \<Rightarrow> Inl (OtherException ''TypeError'' ''argument is not iterable''))"

definition is_legal_entity_gap_blocked_record :: "evaluation_record \<Rightarrow> error + bool" where
  "is_legal_entity_gap_blocked_record r =
     bind_error (attribute_dict (vr_evaluation_json r) ''applicability'') (\<lambda>a.
       if vr_evaluation_status r = PS_BLOCKED \<and> ''legal_entity_code'' \<in> set (vr_source_gaps r)
       then json_contains ''POLICY_APPLICABILITY_LEGAL_ENTITY_SOURCE_MISSING''
         (case dict_get a ''reason_codes'' of None \<Rightarrow> JList [] | Some v \<Rightarrow> v)
       else Inr False)"

definition record_generated_at :: "runtime \<Rightarrow> evaluation_record \<Rightarrow> datetime option" where
  "record_generated_at rt r =
     (let value = py_strip (vr_generated_at r)
      in rt_fromisoformat rt (if value \<noteq> [] \<and> last value = CHR ''Z'' then butlast value @ ''+00:00'' else value))"

definition repair_trusted_principal_matches_record ::
  "runtime \<Rightarrow> calendar \<Rightarrow> evaluation_record \<Rightarrow> jobject \<Rightarrow> jobject \<Rightarrow> bool" where
  "repair_trusted_principal_matches_record rt cal r evidence reason =
     (case json_get reason ''trusted_principal'' of
        JObj p \<Rightarrow>
          (case (normalized_non_empty (json_get p ''subject''), record_generated_at rt r) of
             (Some subject, Some observed_at) \<Rightarrow>
               normalized_non_empty (JStr (vr_created_by r)) = Some subject
               \<and> (case (build_policy_evaluation_receipt_identity rt cal evidence (vr_proposal_id r)
                          (vr_proposal_version_id r) (vr_portfolio_id r) reason None observed_at,
                        receipt_identity_from_record rt cal r) of
                    (Inr incoming, Inr existing) \<Rightarrow> ri_as_of_date incoming = ri_as_of_date existing
                      \<and> ri_scope_identity incoming = ri_scope_identity existing
                  | _ \<Rightarrow> False)
           | _ \<Rightarrow> False)
      | _ \<Rightarrow> False)"

text \<open>\<open>comparable.get("context_resolution", {}).get("advisory_policy_context", {})\<close> with the entity removed.\<close>

definition without_legal_entity :: "jobject \<Rightarrow> jobject option" where
  "without_legal_entity evidence =
     (case dict_get evidence ''context_resolution'' of
        Some (JObj c) \<Rightarrow> (case dict_get c ''advisory_policy_context'' of
            None \<Rightarrow> Some evidence
          | Some (JObj a) \<Rightarrow> Some (dict_set ''context_resolution'' (JObj (dict_set ''advisory_policy_context''
              (JObj (filter (\<lambda>kv. fst kv \<noteq> ''legal_entity_code'') a)) c)) evidence)
          | Some _ \<Rightarrow> None)
      | _ \<Rightarrow> Some evidence)"

definition repair_changes_only_missing_legal_entity ::
  "runtime \<Rightarrow> evaluation_record \<Rightarrow> jobject \<Rightarrow> string \<Rightarrow> bool" where
  "repair_changes_only_missing_legal_entity rt r evidence source_hash \<longleftrightarrow>
     source_hash \<noteq> vr_source_evidence_hash r
     \<and> (case without_legal_entity evidence of
          None \<Rightarrow> False
        | Some comparable \<Rightarrow> hash_canonical_payload rt (JObj comparable) = vr_source_evidence_hash r)"

definition evidence_legal_entity_matches_trusted_principal :: "jobject \<Rightarrow> jobject \<Rightarrow> error + bool" where
  "evidence_legal_entity_matches_trusted_principal evidence reason =
     (case json_get reason ''trusted_principal'' of
        JObj p \<Rightarrow>
          bind_error (attribute_dict evidence ''context_resolution'') (\<lambda>c.
          bind_error (attribute_dict c ''advisory_policy_context'') (\<lambda>a.
            Inr (normalized_non_empty (json_get p ''legal_entity_code'') \<noteq> None
              \<and> normalized_non_empty (json_get a ''legal_entity_code'')
                  = normalized_non_empty (json_get p ''legal_entity_code''))))
      | _ \<Rightarrow> Inr False)"

definition can_repair_trusted_legal_entity_gap ::
  "runtime \<Rightarrow> calendar \<Rightarrow> evaluation_record \<Rightarrow> string \<Rightarrow> string \<Rightarrow> pack_key \<Rightarrow> string option \<Rightarrow> string
     \<Rightarrow> jobject \<Rightarrow> jobject \<Rightarrow> error + bool" where
  "can_repair_trusted_legal_entity_gap rt cal r pid vid pack portfolio source_hash evidence reason =
     (if \<not> has_repair_intent reason then Inr False
      else bind_error (is_legal_entity_gap_blocked_record r) (\<lambda>gap_blocked.
        if \<not> gap_blocked then Inr False
        else if \<not> matches_record_scope r pid vid pack portfolio then Inr False
        else if \<not> json_same (JObj (vm_creation_reason (vr_replay_metadata_json r))) (JObj (replay_safe_reason reason))
        then Inr False
        else if \<not> repair_trusted_principal_matches_record rt cal r evidence reason then Inr False
        else if \<not> repair_changes_only_missing_legal_entity rt r evidence source_hash then Inr False
        else evidence_legal_entity_matches_trusted_principal evidence reason))"

subsection \<open>Finding a replayed event\<close>

text \<open>
  \<open>_find_replayed_event\<close> has two callers, which pass disjoint sets of optional arguments: the
  finalisation passes the scope, the evidence and its hash, the audit event its type, actor,
  evaluation and evaluation hash.
\<close>

datatype replay_request =
    RQ_Finalize string string pack_key "string option" string jobject jobject
  | RQ_Event policy_event_type string string string jobject

primrec matching_legacy_replay ::
  "runtime \<Rightarrow> evaluation_record \<Rightarrow> policy_event \<Rightarrow> string \<Rightarrow> replay_request \<Rightarrow> bool" where
  "matching_legacy_replay rt r e stored_hash (RQ_Finalize pid vid pack portfolio source_hash evidence reason) \<longleftrightarrow>
     matches_record_scope r pid vid pack portfolio
     \<and> matches_legacy_correlation_sensitive_replay rt r e stored_hash source_hash reason"
| "matching_legacy_replay rt r e stored_hash (RQ_Event ty actor eid evaluation_hash reason) \<longleftrightarrow>
     matches_legacy_event_stable_replay r e stored_hash ty actor eid evaluation_hash reason"

primrec can_skip_conflict_for_legal_entity_repair ::
  "runtime \<Rightarrow> calendar \<Rightarrow> evaluation_record \<Rightarrow> replay_request \<Rightarrow> error + bool" where
  "can_skip_conflict_for_legal_entity_repair rt cal r (RQ_Finalize pid vid pack portfolio source_hash evidence reason) =
     can_repair_trusted_legal_entity_gap rt cal r pid vid pack portfolio source_hash evidence reason"
| "can_skip_conflict_for_legal_entity_repair rt cal r (RQ_Event ty actor eid evaluation_hash reason) = Inr False"

definition find_replayed_policy_event ::
  "runtime \<Rightarrow> calendar \<Rightarrow> policy_store \<Rightarrow> string \<Rightarrow> string \<Rightarrow> replay_request
     \<Rightarrow> error + (policy_event \<times> evaluation_record) option" where
  "find_replayed_policy_event rt cal s ikey request_hash rq =
     (case dict_get (vs_idempotency s) ikey of
        None \<Rightarrow> Inr None
      | Some (stored_hash, eid, event_id) \<Rightarrow>
          bind_error (load_replayed_policy_event s eid event_id) (\<lambda>(e, r).
            if stored_hash = request_hash then Inr (Some (e, r))
            else if matching_legacy_replay rt r e stored_hash rq then Inr (Some (e, r))
            else bind_error (can_skip_conflict_for_legal_entity_repair rt cal r rq) (\<lambda>skip.
              if skip then Inr None
              else Inl (IdempotencyConflictError ''POLICY_EVALUATION_IDEMPOTENCY_KEY_CONFLICT''))))"

end
