(* ===== verification/Policy_Ledger.thy ===== *)
theory Policy_Ledger
  imports Policy_Store
begin

text \<open>
  The commands and queries of the policy evaluation store (\<open>PolicyEvaluationRecordStore\<close> in
  \<open>policy_packs/persistence_store.py\<close>, its projections and its snapshot).  The two clock readings
  of a finalisation, that of the record and that of its event, are separate arguments.
\<close>

subsection \<open>Finalisation\<close>

record finalize_result =
  vf_record :: evaluation_record
  vf_created :: bool
  vf_replayed :: bool
  vf_audit_event :: policy_event

definition trusted_principal_from_reason :: "jobject \<Rightarrow> jobject" where
  "trusted_principal_from_reason reason = (case json_get reason ''trusted_principal'' of
      JObj p \<Rightarrow> [(''trusted_principal'', JObj p)] | _ \<Rightarrow> [])"

definition finalized_event_reason :: "evaluation_record \<Rightarrow> jobject \<Rightarrow> jobject" where
  "finalized_event_reason r reason =
     [(''evaluation_status'', JStr (policy_status_name (vr_evaluation_status r))),
      (''policy_content_hash'', JStr (vr_policy_content_hash r)),
      (''source_evidence_hash'', JStr (vr_source_evidence_hash r)),
      (''evaluation_hash'', JStr (vr_evaluation_hash r)), (''finalization_reason'', JObj reason)]
     @ trusted_principal_from_reason reason"

definition evaluate_and_build_record ::
  "runtime \<Rightarrow> calendar \<Rightarrow> policy_catalog \<Rightarrow> datetime \<Rightarrow> jobject \<Rightarrow> pack_key \<Rightarrow> string \<Rightarrow> string \<Rightarrow> string
     \<Rightarrow> string \<Rightarrow> jobject \<Rightarrow> string option \<Rightarrow> error + evaluation_record" where
  "evaluate_and_build_record rt cal c built_at evidence pack pid vid created_by ikey reason observed_trace =
     bind_error (evaluate_policy_pack_version c pack evidence) (\<lambda>evaluation.
     bind_error (load_definition c pack) (\<lambda>d.
       build_policy_evaluation_record rt cal built_at evaluation evidence pid vid created_by
         (hash_canonical_payload rt (JObj evidence)) (ky_content_hash (summary_from_definition d))
         ikey reason observed_trace))"

definition store_new_evaluation ::
  "policy_store \<Rightarrow> evaluation_record \<Rightarrow> policy_event \<Rightarrow> evaluation_key \<Rightarrow> string \<Rightarrow> string \<Rightarrow> policy_store" where
  "store_new_evaluation s r e identity ikey request_hash = s\<lparr>
     vs_records := dict_set (vr_evaluation_id r) r (vs_records s),
     vs_events := dict_set (vr_evaluation_id r) [e] (vs_events s),
     vs_identity_index := dict_set identity (vr_evaluation_id r) (vs_identity_index s),
     vs_idempotency := dict_set ikey (request_hash, vr_evaluation_id r, ve_event_id e) (vs_idempotency s)\<rparr>"

definition store_finalize_policy_evaluation_record ::
  "runtime \<Rightarrow> calendar \<Rightarrow> policy_catalog \<Rightarrow> datetime \<Rightarrow> datetime \<Rightarrow> policy_store \<Rightarrow> jobject \<Rightarrow> pack_key \<Rightarrow> string
     \<Rightarrow> string \<Rightarrow> string \<Rightarrow> string \<Rightarrow> jobject \<Rightarrow> string option \<Rightarrow> error + finalize_result \<times> policy_store" where
  "store_finalize_policy_evaluation_record rt cal c built_at event_at s evidence pack pid vid created_by ikey
       reason observed_trace =
     (let source_hash = hash_canonical_payload rt (JObj evidence);
          request_hash = finalize_request_hash rt pid vid pack source_hash (idempotency_stable_reason reason);
          identity = (pid, vid, fst pack, snd pack, source_hash)
      in bind_error (portfolio_id_from_evidence evidence) (\<lambda>portfolio.
         bind_error (find_replayed_policy_event rt cal s ikey request_hash
             (RQ_Finalize pid vid pack portfolio source_hash evidence reason)) (\<lambda>replayed.
         case replayed of
           Some (e, r) \<Rightarrow> Inr (\<lparr>vf_record = r, vf_created = False, vf_replayed = True, vf_audit_event = e\<rparr>, s)
         | None \<Rightarrow> (case dict_get (vs_identity_index s) identity of
             Some existing \<Rightarrow>
               bind_error (load_evaluation s existing) (\<lambda>r.
               bind_error (load_event_log s existing) (\<lambda>es.
                 case es of
                   [] \<Rightarrow> Inl (OtherException ''IndexError'' ''list index out of range'')
                 | e # _ \<Rightarrow> Inr (\<lparr>vf_record = r, vf_created = False, vf_replayed = False, vf_audit_event = e\<rparr>,
                     s\<lparr>vs_idempotency := dict_set ikey (request_hash, existing, ve_event_id e) (vs_idempotency s)\<rparr>)))
           | None \<Rightarrow>
               bind_error (evaluate_and_build_record rt cal c built_at evidence pack pid vid created_by ikey reason
                 observed_trace) (\<lambda>r.
               (let e = policy_event_of rt s event_at r PV_FINALIZED created_by (Some ikey) request_hash
                          (finalized_event_reason r reason)
                in Inr (\<lparr>vf_record = r, vf_created = True, vf_replayed = False, vf_audit_event = e\<rparr>,
                     store_new_evaluation s r e identity ikey request_hash)))))))"

definition finalize_policy_evaluation_record ::
  "runtime \<Rightarrow> calendar \<Rightarrow> policy_catalog \<Rightarrow> datetime \<Rightarrow> datetime \<Rightarrow> policy_store \<Rightarrow> jobject \<Rightarrow> pack_key \<Rightarrow> string
     \<Rightarrow> string \<Rightarrow> string \<Rightarrow> string option \<Rightarrow> jobject option \<Rightarrow> string option
     \<Rightarrow> error + finalize_result \<times> policy_store" where
  "finalize_policy_evaluation_record rt cal c built_at event_at s evidence pack pid vid created_by ikey reason
       observed_trace =
     bind_error (require_proposal_idempotency_key ikey) (\<lambda>key.
       store_finalize_policy_evaluation_record rt cal c built_at event_at s evidence pack pid vid created_by key
         (case reason of None \<Rightarrow> [] | Some r \<Rightarrow> r) observed_trace)"

subsection \<open>Audit events\<close>

definition attach_policy_evaluation_event :: "evaluation_record \<Rightarrow> policy_event \<Rightarrow> evaluation_record" where
  "attach_policy_evaluation_event r e =
     (if ve_event_type e = PV_REVIEW_RECORDED
      then r\<lparr>vr_review_events_json := vr_review_events_json r @ [e]\<rparr>
      else if ve_event_type e = PV_SIGN_OFF_RECORDED
      then r\<lparr>vr_sign_off_events_json := vr_sign_off_events_json r @ [e]\<rparr>
      else if ve_event_type e = PV_REPORT_ARCHIVE_RECORDED
      then r\<lparr>vr_report_archive_refs_json := vr_report_archive_refs_json r @ [e]\<rparr>
      else r)"

definition event_request_hash ::
  "runtime \<Rightarrow> policy_event_type \<Rightarrow> string \<Rightarrow> string \<Rightarrow> jobject \<Rightarrow> string \<Rightarrow> string" where
  "event_request_hash rt ty eid actor reason evaluation_hash = hash_canonical_payload rt (JObj
     [(''operation'', JStr (policy_event_type_name ty)), (''evaluation_id'', JStr eid),
      (''actor_id'', JStr actor), (''reason'', JObj (idempotency_stable_reason reason)),
      (''evaluation_hash'', JStr evaluation_hash)])"

definition push_policy_event ::
  "policy_store \<Rightarrow> string \<Rightarrow> evaluation_record \<Rightarrow> policy_event list \<Rightarrow> policy_event \<Rightarrow> string option \<Rightarrow> string \<Rightarrow> policy_store" where
  "push_policy_event s eid r es e ikey request_hash = s\<lparr>
     vs_records := dict_set eid (attach_policy_evaluation_event r e) (vs_records s),
     vs_events := dict_set eid (es @ [e]) (vs_events s),
     vs_idempotency := (case ikey of None \<Rightarrow> vs_idempotency s
       | Some k \<Rightarrow> if k = [] then vs_idempotency s
           else dict_set k (request_hash, eid, ve_event_id e) (vs_idempotency s))\<rparr>"

definition store_append_policy_evaluation_event ::
  "runtime \<Rightarrow> calendar \<Rightarrow> datetime \<Rightarrow> policy_store \<Rightarrow> string \<Rightarrow> policy_event_type \<Rightarrow> string \<Rightarrow> jobject
     \<Rightarrow> string option \<Rightarrow> event_authority option \<Rightarrow> error + policy_event \<times> policy_store" where
  "store_append_policy_evaluation_event rt cal now s eid ty actor reason ikey authority =
     bind_error (load_evaluation s eid) (\<lambda>r.
     bind_error (validate_policy_evaluation_event_authority ty reason (vr_evaluation_hash r) authority) (\<lambda>_.
     (let request_hash = event_request_hash rt ty eid actor reason (vr_evaluation_hash r)
      in bind_error (case ikey of None \<Rightarrow> Inr None | Some k \<Rightarrow> if k = [] then Inr None
             else find_replayed_policy_event rt cal s k request_hash
               (RQ_Event ty actor eid (vr_evaluation_hash r) reason)) (\<lambda>replayed.
         case replayed of
           Some (e, _) \<Rightarrow> Inr (e, s)
         | None \<Rightarrow>
             (let e = policy_event_of rt s now r ty actor ikey request_hash reason
              in bind_error (load_event_log s eid) (\<lambda>es. Inr (e, push_policy_event s eid r es e ikey request_hash)))))))"

definition append_policy_evaluation_event ::
  "runtime \<Rightarrow> calendar \<Rightarrow> datetime \<Rightarrow> policy_store \<Rightarrow> string \<Rightarrow> policy_event_type \<Rightarrow> string \<Rightarrow> jobject
     \<Rightarrow> string option \<Rightarrow> event_authority option \<Rightarrow> error + policy_event \<times> policy_store" where
  "append_policy_evaluation_event rt cal now s eid ty actor reason ikey authority =
     store_append_policy_evaluation_event rt cal now s eid ty actor reason
       (normalize_optional_idempotency_key ikey) authority"

subsection \<open>Queries\<close>

definition list_policy_evaluation_events :: "policy_store \<Rightarrow> string \<Rightarrow> error + policy_event list" where
  "list_policy_evaluation_events s eid = bind_error (load_evaluation s eid) (\<lambda>_. load_event_log s eid)"

definition list_policy_evaluation_records ::
  "policy_store \<Rightarrow> string option \<Rightarrow> string option \<Rightarrow> evaluation_record list" where
  "list_policy_evaluation_records s status portfolio = sort_key vr_generated_at (filter (\<lambda>r.
     (case status of None \<Rightarrow> True | Some x \<Rightarrow> x = [] \<or> policy_status_name (vr_evaluation_status r) = x)
     \<and> (case portfolio of None \<Rightarrow> True | Some x \<Rightarrow> x = [] \<or> vr_portfolio_id r = x)) (dict_values (vs_records s)))"

record evaluation_lineage =
  vg_evaluation_id :: string
  vg_proposal_id :: string
  vg_proposal_version_id :: string
  vg_policy_pack_id :: string
  vg_policy_version :: string
  vg_policy_content_hash :: string
  vg_source_evidence_hash :: string
  vg_evaluation_hash :: string
  vg_rule_result_hashes :: "(string, string) dict"
  vg_source_refs :: "string list"
  vg_source_gaps :: "string list"
  vg_audit_events :: "policy_event list"
  vg_lineage_posture :: jobject

definition build_policy_evaluation_lineage_response ::
  "evaluation_record \<Rightarrow> policy_event list \<Rightarrow> evaluation_lineage" where
  "build_policy_evaluation_lineage_response r es = \<lparr>vg_evaluation_id = vr_evaluation_id r,
     vg_proposal_id = vr_proposal_id r, vg_proposal_version_id = vr_proposal_version_id r,
     vg_policy_pack_id = vr_policy_pack_id r, vg_policy_version = vr_policy_version r,
     vg_policy_content_hash = vr_policy_content_hash r, vg_source_evidence_hash = vr_source_evidence_hash r,
     vg_evaluation_hash = vr_evaluation_hash r, vg_rule_result_hashes = vr_rule_result_hashes r,
     vg_source_refs = vr_source_refs r, vg_source_gaps = vr_source_gaps r, vg_audit_events = es,
     vg_lineage_posture = policy_runtime_supportability\<rparr>"

definition get_policy_evaluation_lineage :: "policy_store \<Rightarrow> string \<Rightarrow> error + evaluation_lineage" where
  "get_policy_evaluation_lineage s eid =
     bind_error (load_evaluation s eid) (\<lambda>r.
     bind_error (load_event_log s eid) (\<lambda>es. Inr (build_policy_evaluation_lineage_response r es)))"

definition policy_sign_off_package_posture :: jobject where
  "policy_sign_off_package_posture = policy_runtime_supportability
     @ [(''sign_off_source_package'', JStr ''SUPPORTED_BY_RFC0025_SLICE8_ADVISE_API''),
        (''report_render_archive_realization'', JStr ''SUPPORTED_BY_RFC0025_SLICE10_SIGNED_OFF_PACKAGE_HANDOFF'')]"

definition get_policy_evaluation_sign_off_package ::
  "policy_store \<Rightarrow> string \<Rightarrow> error + evaluation_record \<times> evaluation_lineage \<times> jobject" where
  "get_policy_evaluation_sign_off_package s eid =
     bind_error (load_evaluation s eid) (\<lambda>r.
     bind_error (load_event_log s eid) (\<lambda>es.
       Inr (r, build_policy_evaluation_lineage_response r es, policy_sign_off_package_posture)))"

subsection \<open>Replay comparison\<close>

record replay_comparison =
  vc_stored_policy_version :: string
  vc_current_policy_version :: "string option"
  vc_policy_version_matches :: bool
  vc_stored_policy_content_hash :: string
  vc_current_policy_content_hash :: "string option"
  vc_policy_content_hash_matches :: bool
  vc_policy_activation_state :: string
  vc_stored_source_evidence_hash :: string
  vc_replayed_source_evidence_hash :: string
  vc_source_evidence_hash_matches :: bool
  vc_stored_evaluation_hash :: string
  vc_replayed_evaluation_hash :: "string option"
  vc_evaluation_hash_matches :: bool
  vc_replay_reason_code :: string

definition stored_comparison :: "evaluation_record \<Rightarrow> pack_summary option \<Rightarrow> replay_comparison" where
  "stored_comparison r pack =
     \<lparr>vc_stored_policy_version = vr_policy_version r,
      vc_current_policy_version = map_option ky_policy_version pack,
      vc_policy_version_matches = (map_option ky_policy_version pack = Some (vr_policy_version r)),
      vc_stored_policy_content_hash = vr_policy_content_hash r,
      vc_current_policy_content_hash = map_option ky_content_hash pack,
      vc_policy_content_hash_matches = (map_option ky_content_hash pack = Some (vr_policy_content_hash r)),
      vc_policy_activation_state = (case pack of None \<Rightarrow> ''UNAVAILABLE'' | Some p \<Rightarrow> ky_activation_state p),
      vc_stored_source_evidence_hash = vr_source_evidence_hash r,
      vc_replayed_source_evidence_hash = vr_source_evidence_hash r, vc_source_evidence_hash_matches = True,
      vc_stored_evaluation_hash = vr_evaluation_hash r,
      vc_replayed_evaluation_hash = Some (vr_evaluation_hash r), vc_evaluation_hash_matches = True,
      vc_replay_reason_code = ''POLICY_REPLAY_STORED_ONLY''\<rparr>"

definition replay_reason_code :: "replay_comparison \<Rightarrow> string" where
  "replay_reason_code v =
     (if vc_current_policy_version v = None then ''POLICY_DEFINITION_UNAVAILABLE_FOR_REPLAY''
      else if \<not> vc_policy_content_hash_matches v then ''POLICY_CONTENT_HASH_DRIFT_REPLAY_BLOCKED''
      else if vc_policy_activation_state v \<notin> {''ACTIVE'', ''SUPERSEDED'', ''DISABLED''}
      then ''POLICY_VERSION_NOT_REPLAY_ELIGIBLE''
      else ''POLICY_REPLAY_ELIGIBLE'')"

definition evaluation_payload_for_hash ::
  "evaluation_record \<Rightarrow> policy_evaluation \<Rightarrow> error + policy_evaluation" where
  "evaluation_payload_for_hash r evaluation =
     bind_error (attribute_dict (vr_evaluation_json r) ''policy_pack'') (\<lambda>original.
       Inr (case json_get original ''activation_state'' of
              JStr st \<Rightarrow> evaluation\<lparr>en_policy_pack := (en_policy_pack evaluation)\<lparr>ky_activation_state := st\<rparr>\<rparr>
            | _ \<Rightarrow> evaluation))"

definition with_replay_outcome ::
  "replay_comparison \<Rightarrow> string \<Rightarrow> string option \<Rightarrow> string \<Rightarrow> replay_comparison" where
  "with_replay_outcome v source_hash replayed code = v\<lparr>
     vc_replayed_source_evidence_hash := source_hash,
     vc_source_evidence_hash_matches := (source_hash = vc_stored_source_evidence_hash v),
     vc_replayed_evaluation_hash := replayed,
     vc_evaluation_hash_matches := (replayed = Some (vc_stored_evaluation_hash v)),
     vc_replay_reason_code := code\<rparr>"

definition build_policy_evaluation_replay_response ::
  "runtime \<Rightarrow> policy_catalog \<Rightarrow> evaluation_record \<Rightarrow> jobject option \<Rightarrow> error + replay_comparison" where
  "build_policy_evaluation_replay_response rt c r evidence =
     (let pack = (vr_policy_pack_id r, vr_policy_version r);
          comparison = stored_comparison r (case load_definition c pack of
             Inl _ \<Rightarrow> None | Inr d \<Rightarrow> Some (summary_from_definition d))
      in case evidence of
           None \<Rightarrow> Inr comparison
         | Some ev \<Rightarrow>
             (let source_hash = hash_canonical_payload rt (JObj ev); code = replay_reason_code comparison
              in if code \<noteq> ''POLICY_REPLAY_ELIGIBLE''
                 then Inr (with_replay_outcome comparison source_hash None code)
                 else bind_error (evaluate_policy_pack_version_for_replay c pack ev) (\<lambda>evaluation.
                   bind_error (evaluation_payload_for_hash r evaluation) (\<lambda>payload.
                   (let replayed = policy_evaluation_hash rt payload source_hash (vr_policy_content_hash r)
                    in Inr (with_replay_outcome comparison source_hash (Some replayed)
                         (if source_hash = vr_source_evidence_hash r \<and> replayed = vr_evaluation_hash r
                          then ''POLICY_REPLAY_EXACT_MATCH'' else ''POLICY_REPLAY_HASH_DRIFT'')))))))"

record replay_response =
  vp_evaluation_id :: string
  vp_replay_contract_version :: string
  vp_policy_pack_id :: string
  vp_policy_version :: string
  vp_source_refs :: "string list"
  vp_source_gaps :: "string list"
  vp_hash_comparison :: replay_comparison
  vp_replay_metadata :: replay_metadata

definition replay_policy_evaluation_record ::
  "runtime \<Rightarrow> policy_catalog \<Rightarrow> policy_store \<Rightarrow> string \<Rightarrow> jobject option \<Rightarrow> error + replay_response" where
  "replay_policy_evaluation_record rt c s eid evidence =
     bind_error (load_evaluation s eid) (\<lambda>r.
     bind_error (build_policy_evaluation_replay_response rt c r evidence) (\<lambda>comparison.
       Inr \<lparr>vp_evaluation_id = vr_evaluation_id r, vp_replay_contract_version = persistence_contract_version,
         vp_policy_pack_id = vr_policy_pack_id r, vp_policy_version = vr_policy_version r,
         vp_source_refs = vr_source_refs r, vp_source_gaps = vr_source_gaps r,
         vp_hash_comparison = comparison, vp_replay_metadata = vr_replay_metadata_json r\<rparr>))"

subsection \<open>Snapshots\<close>

text \<open>Pydantic's \<open>model_dump\<close> and \<open>model_validate\<close> of a record or an event are taken as inverse; a snapshot keeps them typed.\<close>

record policy_snapshot =
  vn_records :: "(string, evaluation_record) dict"
  vn_events :: "(string, policy_event list) dict"
  vn_idempotency :: "(string \<times> string \<times> string \<times> string) list"
  vn_identity_index :: "(string list \<times> string) list"

definition identity_parts :: "evaluation_key \<Rightarrow> string list" where
  "identity_parts k = (case k of (a, b, c, d, e) \<Rightarrow> [a, b, c, d, e])"

definition policy_snapshot_of :: "policy_store \<Rightarrow> policy_snapshot" where
  "policy_snapshot_of s = \<lparr>vn_records = vs_records s, vn_events = vs_events s,
     vn_idempotency = vs_idempotency s,
     vn_identity_index = map (\<lambda>(k, eid). (identity_parts k, eid)) (vs_identity_index s)\<rparr>"

definition identity_index_from_snapshot :: "(string list \<times> string) list \<Rightarrow> (evaluation_key, string) dict" where
  "identity_index_from_snapshot items = fold (\<lambda>(identity, eid) index. case identity of
      [a, b, c, d, e] \<Rightarrow> dict_set (a, b, c, d, e) eid index | _ \<Rightarrow> index) items []"

definition policy_store_from_snapshot :: "policy_snapshot \<Rightarrow> policy_store" where
  "policy_store_from_snapshot n = \<lparr>vs_records = vn_records n, vs_events = vn_events n,
     vs_idempotency = fold (\<lambda>(k, v). dict_set k v) (vn_idempotency n) [],
     vs_identity_index = identity_index_from_snapshot (vn_identity_index n)\<rparr>"

end
