(* ===== verification/Policy_Workflow.thy ===== *)
theory Policy_Workflow
  imports Policy_Ledger
begin

text \<open>
  The sign-off workflow of a policy evaluation: the projection computed from a record and its events
  (\<open>policy_packs/workflow_projection.py\<close>, \<open>workflow_conflict_projection.py\<close>), the validation of a
  decision (\<open>workflow_decision.py\<close>) and the command that records it (\<open>workflow.py\<close>).
\<close>

subsection \<open>Conflict posture\<close>

text \<open>\<open>for item in value\<close> over the values JSON has.\<close>

definition json_iterate :: "json \<Rightarrow> error + json list" where
  "json_iterate v = (case v of
      JList xs \<Rightarrow> Inr xs
    | JStr s \<Rightarrow> Inr (map (\<lambda>c. JStr [c]) s)
    | JObj d \<Rightarrow> Inr (map (\<lambda>kv. JStr (fst kv)) d)
    | _ \<Rightarrow> Inl (OtherException ''TypeError'' ''object is not iterable''))"

definition items_of :: "jobject \<Rightarrow> string \<Rightarrow> error + json list" where
  "items_of d k = (case dict_get d k of None \<Rightarrow> Inr [] | Some v \<Rightarrow> json_iterate v)"

record conflict_posture =
  wc_status :: string
  wc_reason_codes :: "string list"
  wc_blockers :: "string list"
  wc_review_outcome :: "string option"

definition conflict_rule_results :: "evaluation_record \<Rightarrow> error + jobject list" where
  "conflict_rule_results r = bind_error (items_of (vr_evaluation_json r) ''rule_results'') (\<lambda>results.
     Inr (filter (\<lambda>d. contains_text ''CONFLICT''
            (case dict_get d ''rule_id'' of None \<Rightarrow> [] | Some v \<Rightarrow> py_str v))
          (concat (map (\<lambda>v. case v of JObj d \<Rightarrow> [d] | _ \<Rightarrow> []) results))))"

definition conflict_evidence_from_record :: "evaluation_record \<Rightarrow> error + string list \<times> string list" where
  "conflict_evidence_from_record r = bind_error (conflict_rule_results r) (\<lambda>results.
     fold_error (\<lambda>d (codes, blockers).
       bind_error (items_of d ''reason_codes'') (\<lambda>cs.
       bind_error (items_of d ''required_actions'') (\<lambda>bs.
         Inr (codes @ map py_str cs, blockers @ map py_str bs)))) results ([], []))"

definition conflict_review_outcomes :: "policy_event list \<Rightarrow> string list" where
  "conflict_review_outcomes es = map (\<lambda>e. py_str (json_get (ve_reason_json e) ''conflict_review_outcome''))
     (filter (\<lambda>e. json_truthy (json_get (ve_reason_json e) ''conflict_review_outcome'')) es)"

definition material_conflict_resolved :: "string list \<Rightarrow> bool" where
  "material_conflict_resolved outcomes \<longleftrightarrow> ''NO_MATERIAL_CONFLICT_REMAINING'' \<in> set outcomes"

definition material_conflict_blocks_workflow :: "string list \<Rightarrow> string list \<Rightarrow> bool" where
  "material_conflict_blocks_workflow codes blockers \<longleftrightarrow>
     list_ex (contains_text ''MATERIAL_CONFLICT'') codes
     \<or> list_ex (\<lambda>b. b \<in> {''SUPERVISORY_CONFLICT_REVIEW'', ''REVIEW_CONFLICT_OF_INTEREST''}) blockers"

definition conflict_posture_for_workflow ::
  "evaluation_record \<Rightarrow> policy_event list \<Rightarrow> error + conflict_posture" where
  "conflict_posture_for_workflow r es =
     bind_error (conflict_evidence_from_record r) (\<lambda>(codes, blockers).
     (let outcomes = conflict_review_outcomes es
      in if material_conflict_resolved outcomes
         then Inr \<lparr>wc_status = ''SATISFIED'', wc_reason_codes = unique_strings codes, wc_blockers = [],
           wc_review_outcome = Some ''NO_MATERIAL_CONFLICT_REMAINING''\<rparr>
         else (let blocked = material_conflict_blocks_workflow codes blockers
               in Inr \<lparr>wc_status = (if blocked then ''BLOCKED'' else ''SATISFIED''),
                 wc_reason_codes = unique_strings codes,
                 wc_blockers = (if blocked then unique_strings blockers else []),
                 wc_review_outcome = (if outcomes = [] then None else Some (last outcomes))\<rparr>)))"

subsection \<open>Requirements\<close>

record requirement =
  wq_requirement_id :: string
  wq_requirement_type :: string
  wq_satisfied :: bool
  wq_owner_role :: string
  wq_review_sla :: string
  wq_due_at :: "string option"
  wq_reason_codes :: "string list"

definition requirement_owner_role :: "string \<Rightarrow> string" where
  "requirement_owner_role rid =
     (if py_startswith ''SUPERVISORY_'' rid then ''SUPERVISOR''
      else if py_startswith ''POLICY_STEWARD_'' rid then ''POLICY_STEWARD''
      else if contains_text ''DISCLOSURE'' rid then ''INVESTMENT_COUNSELLOR''
      else if contains_text ''CONFLICT'' rid then ''SUPERVISOR''
      else ''ADVISOR'')"

definition review_sla_for_requirement :: "string \<Rightarrow> string \<Rightarrow> string" where
  "review_sla_for_requirement rid owner =
     (if owner = ''SUPERVISOR'' \<or> contains_text ''CONFLICT'' rid then ''P2D'' else ''P1D'')"

definition parse_datetime :: "runtime \<Rightarrow> string \<Rightarrow> error + datetime" where
  "parse_datetime rt v = (case rt_fromisoformat rt v of
      None \<Rightarrow> Inl (ValueError (''Invalid isoformat string: '' @ py_repr_string v)) | Some t \<Rightarrow> Inr t)"

text \<open>Records are stamped in UTC, so a due date prints as UTC too.\<close>

definition due_at_for_requirement :: "runtime \<Rightarrow> string \<Rightarrow> string \<Rightarrow> error + string option" where
  "due_at_for_requirement rt generated_at sla = bind_error (parse_datetime rt generated_at) (\<lambda>t.
     Inr (if sla = ''P2D'' then Some (rt_isoformat rt (t + seconds (2 * 86400)))
          else if sla = ''P1D'' then Some (rt_isoformat rt (t + seconds 86400)) else None))"

definition due_before :: "runtime \<Rightarrow> datetime \<Rightarrow> string option \<Rightarrow> error + bool" where
  "due_before rt now due = (case due of
      None \<Rightarrow> Inr False
    | Some d \<Rightarrow> bind_error (parse_datetime rt d) (\<lambda>t. Inr (t < now)))"

definition requirement_projection ::
  "runtime \<Rightarrow> datetime \<Rightarrow> string \<Rightarrow> string \<Rightarrow> string \<Rightarrow> bool \<Rightarrow> string \<Rightarrow> error + requirement" where
  "requirement_projection rt now generated_at ty owner satisfied rid =
     (let sla = review_sla_for_requirement rid owner
      in bind_error (due_at_for_requirement rt generated_at sla) (\<lambda>due.
         bind_error (if due = Some [] then Inr False else due_before rt now due) (\<lambda>overdue.
         Inr \<lparr>wq_requirement_id = rid, wq_requirement_type = ty, wq_satisfied = satisfied,
           wq_owner_role = owner, wq_review_sla = sla, wq_due_at = due,
           wq_reason_codes = [if satisfied then ''POLICY_REQUIREMENT_SATISFIED''
             else if overdue then ''POLICY_REQUIREMENT_OVERDUE'' else ''POLICY_REQUIREMENT_OPEN'']\<rparr>)))"

definition map_error :: "('a \<Rightarrow> 'e + 'b) \<Rightarrow> 'a list \<Rightarrow> 'e + 'b list" where
  "map_error f xs = fold_error (\<lambda>x ys. bind_error (f x) (\<lambda>y. Inr (ys @ [y]))) xs []"

definition approval_requirement_projections ::
  "runtime \<Rightarrow> datetime \<Rightarrow> evaluation_record \<Rightarrow> string list \<Rightarrow> error + requirement list" where
  "approval_requirement_projections rt now r satisfied = map_error (\<lambda>rid.
     requirement_projection rt now (vr_generated_at r) ''approval'' (requirement_owner_role rid)
       (rid \<in> set satisfied) rid) (vr_approval_dependencies r)"

definition fixed_owner_requirement_projections ::
  "runtime \<Rightarrow> datetime \<Rightarrow> evaluation_record \<Rightarrow> string \<Rightarrow> string \<Rightarrow> string list \<Rightarrow> string list
     \<Rightarrow> error + requirement list" where
  "fixed_owner_requirement_projections rt now r ty owner satisfied rids = map_error (\<lambda>rid.
     requirement_projection rt now (vr_generated_at r) ty owner (rid \<in> set satisfied) rid) rids"

definition open_requirement_blockers :: "requirement list \<Rightarrow> string list" where
  "open_requirement_blockers qs = map (\<lambda>q. py_upper (wq_requirement_type q) @ ''_REQUIREMENT_OPEN:''
     @ wq_requirement_id q) (filter (\<lambda>q. \<not> wq_satisfied q) qs)"

definition workflow_blockers :: "evaluation_record \<Rightarrow> requirement list \<Rightarrow> conflict_posture \<Rightarrow> string list" where
  "workflow_blockers r qs conflict = unique_strings (open_requirement_blockers qs
     @ (if wc_status conflict \<noteq> ''BLOCKED'' then [] else wc_blockers conflict)
     @ (if vr_evaluation_status r \<noteq> PS_BLOCKED then []
        else [''BLOCKED_POLICY_EVALUATION_CANNOT_BE_SIGNED_OFF'']))"

record sla_posture =
  wl_status :: string
  wl_open_requirement_count :: nat
  wl_overdue_requirement_ids :: "string list"
  wl_as_of :: string

definition sla_posture_of :: "runtime \<Rightarrow> datetime \<Rightarrow> requirement list \<Rightarrow> error + sla_posture" where
  "sla_posture_of rt now qs = (let unmet = filter (\<lambda>q. \<not> wq_satisfied q) qs
     in bind_error (fold_error (\<lambda>q ids. bind_error (due_before rt now (wq_due_at q)) (\<lambda>late.
            Inr (if late then ids @ [wq_requirement_id q] else ids))) unmet []) (\<lambda>overdue.
        Inr \<lparr>wl_status = (if overdue \<noteq> [] then ''OVERDUE'' else ''WITHIN_SLA''),
          wl_open_requirement_count = length unmet, wl_overdue_requirement_ids = overdue,
          wl_as_of = rt_isoformat rt now\<rparr>))"

subsection \<open>Sign-off status\<close>

definition is_approved_sign_off_event :: "policy_event \<Rightarrow> bool" where
  "is_approved_sign_off_event e \<longleftrightarrow> ve_event_type e = PV_SIGN_OFF_RECORDED
     \<and> json_get (ve_reason_json e) ''decision'' = JStr ''APPROVE_FOR_POLICY_SIGN_OFF''"

definition latest_of_type :: "policy_event_type \<Rightarrow> policy_event list \<Rightarrow> policy_event option" where
  "latest_of_type ty es = (let matching = filter (\<lambda>e. ve_event_type e = ty) es
     in if matching = [] then None else Some (last matching))"

definition latest_sign_off_event :: "policy_event list \<Rightarrow> policy_event option" where
  "latest_sign_off_event es = latest_of_type PV_SIGN_OFF_RECORDED es"

definition sign_off_reason_values :: "policy_event \<Rightarrow> string \<Rightarrow> string list" where
  "sign_off_reason_values e k = (case json_get (ve_reason_json e) k of JList xs \<Rightarrow> map py_str xs | _ \<Rightarrow> [])"

definition approved_sign_off_values :: "policy_event list \<Rightarrow> string \<Rightarrow> string list" where
  "approved_sign_off_values es k =
     concat (map (\<lambda>e. sign_off_reason_values e k) (filter is_approved_sign_off_event es))"

definition sign_off_status_of :: "string list \<Rightarrow> policy_event option \<Rightarrow> policy_status \<Rightarrow> string" where
  "sign_off_status_of blockers latest status =
     (if (case latest of Some e \<Rightarrow> is_approved_sign_off_event e | None \<Rightarrow> False) then ''SIGNED_OFF''
      else if status = PS_BLOCKED \<or> list_ex (contains_text ''CONFLICT'') blockers then ''BLOCKED''
      else if blockers \<noteq> [] then ''PENDING_REVIEW''
      else ''READY_FOR_SIGN_OFF'')"

end
