(* ===== verification/Policy_Sign_Off.thy ===== *)
theory Policy_Sign_Off
  imports Policy_Workflow
begin

text \<open>
  The workflow response of a policy evaluation and the sign-off command
  (\<open>policy_packs/workflow_projection.py\<close>, \<open>workflow_decision.py\<close>, \<open>workflow.py\<close>).
\<close>

subsection \<open>The response\<close>

record workflow_metadata =
  wm_product_id :: string
  wm_product_version :: string
  wm_source_system :: string
  wm_evaluation_id :: string
  wm_proposal_id :: string
  wm_proposal_version_id :: string
  wm_portfolio_id :: string
  wm_policy_pack_id :: string
  wm_policy_version :: string
  wm_as_of_date :: string
  wm_generated_at :: string
  wm_content_hash :: string
  wm_evaluation_hash :: string
  wm_source_evidence_hash :: string
  wm_policy_content_hash :: string
  wm_freshness_state :: string
  wm_data_quality_status :: string
  wm_source_gap_count :: nat
  wm_source_gaps :: "string list"
  wm_client_ready_publication :: string
  wm_scope_identity :: receipt_scope
  wm_observed_correlation_id_hash :: string
  wm_observed_trace_id_hash :: string

definition workflow_lineage_metadata ::
  "runtime \<Rightarrow> calendar \<Rightarrow> evaluation_record \<Rightarrow> string \<Rightarrow> error + workflow_metadata" where
  "workflow_lineage_metadata rt cal r publication =
     bind_error (receipt_identity_from_record rt cal r) (\<lambda>identity. Inr
       \<lparr>wm_product_id = ''lotus-advise:AdvisoryPolicyEvaluationRecord:v1'', wm_product_version = ''v1'',
        wm_source_system = ''LOTUS_ADVISE'', wm_evaluation_id = vr_evaluation_id r,
        wm_proposal_id = vr_proposal_id r, wm_proposal_version_id = vr_proposal_version_id r,
        wm_portfolio_id = vr_portfolio_id r, wm_policy_pack_id = vr_policy_pack_id r,
        wm_policy_version = vr_policy_version r, wm_as_of_date = ri_as_of_date identity,
        wm_generated_at = vr_generated_at r, wm_content_hash = vr_evaluation_hash r,
        wm_evaluation_hash = vr_evaluation_hash r, wm_source_evidence_hash = vr_source_evidence_hash r,
        wm_policy_content_hash = vr_policy_content_hash r, wm_freshness_state = ''current'',
        wm_data_quality_status = (if vr_source_gaps r \<noteq> [] then ''incomplete'' else ''complete''),
        wm_source_gap_count = length (vr_source_gaps r), wm_source_gaps = vr_source_gaps r,
        wm_client_ready_publication = publication, wm_scope_identity = ri_scope_identity identity,
        wm_observed_correlation_id_hash = ri_observed_correlation_id_hash identity,
        wm_observed_trace_id_hash = ri_observed_trace_id_hash identity\<rparr>)"

record workflow_replay_metadata =
  wr_receipt_contract_version :: string
  wr_evaluation_id :: string
  wr_proposal_id :: string
  wr_proposal_version_id :: string
  wr_portfolio_id :: string
  wr_as_of_date :: string
  wr_policy_pack_id :: string
  wr_policy_version :: string
  wr_source_refs :: "string list"
  wr_source_gaps :: "string list"
  wr_source_evidence_hash :: string
  wr_evaluation_hash :: string
  wr_policy_content_hash :: string
  wr_replay_policy :: string
  wr_scope_identity :: receipt_scope
  wr_observed_correlation_id_hash :: string
  wr_observed_trace_id_hash :: string

definition workflow_replay_metadata_of ::
  "runtime \<Rightarrow> calendar \<Rightarrow> evaluation_record \<Rightarrow> error + workflow_replay_metadata" where
  "workflow_replay_metadata_of rt cal r =
     bind_error (receipt_identity_from_record rt cal r) (\<lambda>identity. Inr
       \<lparr>wr_receipt_contract_version = receipt_contract_version, wr_evaluation_id = vr_evaluation_id r,
        wr_proposal_id = vr_proposal_id r, wr_proposal_version_id = vr_proposal_version_id r,
        wr_portfolio_id = vr_portfolio_id r, wr_as_of_date = ri_as_of_date identity,
        wr_policy_pack_id = vr_policy_pack_id r, wr_policy_version = vr_policy_version r,
        wr_source_refs = vr_source_refs r, wr_source_gaps = vr_source_gaps r,
        wr_source_evidence_hash = vr_source_evidence_hash r, wr_evaluation_hash = vr_evaluation_hash r,
        wr_policy_content_hash = vr_policy_content_hash r,
        wr_replay_policy = vm_replay_policy (vr_replay_metadata_json r),
        wr_scope_identity = ri_scope_identity identity,
        wr_observed_correlation_id_hash = ri_observed_correlation_id_hash identity,
        wr_observed_trace_id_hash = ri_observed_trace_id_hash identity\<rparr>)"

record policy_workflow =
  ww_evaluation_id :: string
  ww_proposal_id :: string
  ww_proposal_version_id :: string
  ww_evaluation_status :: policy_status
  ww_approval_dependencies :: "requirement list"
  ww_disclosure_requirements :: "requirement list"
  ww_consent_requirements :: "requirement list"
  ww_conflict_posture :: conflict_posture
  ww_sla_posture :: sla_posture
  ww_sign_off_status :: string
  ww_sign_off_blockers :: "string list"
  ww_maker_checker_required :: bool
  ww_latest_sign_off_event :: "policy_event option"
  ww_client_ready_publication :: string
  ww_metadata :: workflow_metadata
  ww_replay_metadata :: workflow_replay_metadata

definition build_policy_evaluation_workflow_projection ::
  "runtime \<Rightarrow> calendar \<Rightarrow> datetime \<Rightarrow> evaluation_record \<Rightarrow> policy_event list \<Rightarrow> string \<Rightarrow> error + policy_workflow" where
  "build_policy_evaluation_workflow_projection rt cal now r es publication =
     bind_error (conflict_posture_for_workflow r es) (\<lambda>conflict.
     bind_error (approval_requirement_projections rt now r
       (approved_sign_off_values es ''resolved_approval_dependencies'')) (\<lambda>approvals.
     bind_error (fixed_owner_requirement_projections rt now r ''disclosure'' ''INVESTMENT_COUNSELLOR''
       (approved_sign_off_values es ''satisfied_disclosure_requirements'') (vr_disclosure_requirements r)) (\<lambda>disclosures.
     bind_error (fixed_owner_requirement_projections rt now r ''consent'' ''ADVISOR''
       (approved_sign_off_values es ''satisfied_consent_requirements'') (vr_consent_requirements r)) (\<lambda>consents.
     (let requirements = approvals @ disclosures @ consents;
          blockers = workflow_blockers r requirements conflict;
          latest = latest_sign_off_event es
      in bind_error (sla_posture_of rt now requirements) (\<lambda>sla.
         bind_error (workflow_lineage_metadata rt cal r publication) (\<lambda>metadata.
         bind_error (workflow_replay_metadata_of rt cal r) (\<lambda>replay.
         Inr \<lparr>ww_evaluation_id = vr_evaluation_id r, ww_proposal_id = vr_proposal_id r,
           ww_proposal_version_id = vr_proposal_version_id r, ww_evaluation_status = vr_evaluation_status r,
           ww_approval_dependencies = approvals, ww_disclosure_requirements = disclosures,
           ww_consent_requirements = consents, ww_conflict_posture = conflict, ww_sla_posture = sla,
           ww_sign_off_status = sign_off_status_of blockers latest (vr_evaluation_status r),
           ww_sign_off_blockers = blockers, ww_maker_checker_required = True,
           ww_latest_sign_off_event = latest, ww_client_ready_publication = publication,
           ww_metadata = metadata, ww_replay_metadata = replay\<rparr>))))))))"

definition policy_client_ready_publication :: string where
  "policy_client_ready_publication = ''BLOCKED''"

definition get_policy_evaluation_workflow ::
  "runtime \<Rightarrow> calendar \<Rightarrow> datetime \<Rightarrow> policy_store \<Rightarrow> string \<Rightarrow> error + policy_workflow" where
  "get_policy_evaluation_workflow rt cal now s eid =
     bind_error (load_evaluation s eid) (\<lambda>r.
     bind_error (list_policy_evaluation_events s eid) (\<lambda>es.
       build_policy_evaluation_workflow_projection rt cal now r es policy_client_ready_publication))"

subsection \<open>The decision\<close>

datatype sign_off_decision = SD_APPROVE | SD_REQUEST_MORE_EVIDENCE | SD_REJECT

primrec sign_off_decision_name :: "sign_off_decision \<Rightarrow> string" where
  "sign_off_decision_name SD_APPROVE = ''APPROVE_FOR_POLICY_SIGN_OFF''"
| "sign_off_decision_name SD_REQUEST_MORE_EVIDENCE = ''REQUEST_MORE_EVIDENCE''"
| "sign_off_decision_name SD_REJECT = ''REJECT_POLICY_SIGN_OFF''"

record sign_off_payload =
  wd_actor_id :: string
  wd_decision :: sign_off_decision
  wd_source_evaluation_hash :: string
  wd_resolved_approval_dependencies :: "string list"
  wd_satisfied_disclosure_requirements :: "string list"
  wd_satisfied_consent_requirements :: "string list"
  wd_conflict_review_outcome :: "string option"
  wd_reason :: jobject

definition missing_requirement_blockers :: "string list \<Rightarrow> string list \<Rightarrow> string \<Rightarrow> string list" where
  "missing_requirement_blockers needed given prefix =
     map (\<lambda>x. prefix @ '':'' @ x) (sort (remdups (filter (\<lambda>x. x \<notin> set given) needed)))"

definition approval_blockers :: "evaluation_record \<Rightarrow> sign_off_payload \<Rightarrow> string list" where
  "approval_blockers r p =
     missing_requirement_blockers (vr_approval_dependencies r) (wd_resolved_approval_dependencies p)
       ''APPROVAL_DEPENDENCY_OPEN''
     @ missing_requirement_blockers (vr_disclosure_requirements r) (wd_satisfied_disclosure_requirements p)
       ''DISCLOSURE_REQUIREMENT_OPEN''
     @ missing_requirement_blockers (vr_consent_requirements r) (wd_satisfied_consent_requirements p)
       ''CONSENT_REQUIREMENT_OPEN''"

definition workflow_posture_blockers :: "evaluation_record \<Rightarrow> policy_workflow \<Rightarrow> sign_off_payload \<Rightarrow> string list" where
  "workflow_posture_blockers r w p =
     (if wc_status (ww_conflict_posture w) = ''BLOCKED''
         \<and> wd_conflict_review_outcome p \<noteq> Some ''NO_MATERIAL_CONFLICT_REMAINING''
      then [''CONFLICT_REVIEW_OUTCOME_REQUIRED''] else [])
     @ (if vr_evaluation_status r = PS_BLOCKED then [''BLOCKED_POLICY_EVALUATION_CANNOT_BE_SIGNED_OFF''] else [])"

definition validate_policy_sign_off_decision ::
  "evaluation_record \<Rightarrow> policy_workflow \<Rightarrow> sign_off_payload \<Rightarrow> error + unit" where
  "validate_policy_sign_off_decision r w p =
     (if wd_actor_id p = vr_created_by r \<and> wd_decision p = SD_APPROVE
      then Inl (ValidationError ''POLICY_EVALUATION_SIGN_OFF_REQUIRES_MAKER_CHECKER'')
      else if wd_decision p \<noteq> SD_APPROVE then Inr ()
      else if approval_blockers r p @ workflow_posture_blockers r w p \<noteq> []
      then Inl (ValidationError ''POLICY_EVALUATION_SIGN_OFF_REQUIREMENTS_OPEN'')
      else Inr ())"

definition sign_off_event_reason :: "sign_off_payload \<Rightarrow> jobject" where
  "sign_off_event_reason p =
     [(''workflow_contract_version'', JStr ''rfc0025.policy-sign-off-workflow.v1''),
      (''decision'', JStr (sign_off_decision_name (wd_decision p))),
      (''source_evaluation_hash'', JStr (wd_source_evaluation_hash p)),
      (''resolved_approval_dependencies'', json_strs (wd_resolved_approval_dependencies p)),
      (''satisfied_disclosure_requirements'', json_strs (wd_satisfied_disclosure_requirements p)),
      (''satisfied_consent_requirements'', json_strs (wd_satisfied_consent_requirements p)),
      (''conflict_review_outcome'', json_opt JStr (wd_conflict_review_outcome p)),
      (''client_ready_publication'', JStr policy_client_ready_publication),
      (''reason'', JObj (wd_reason p))]"

record sign_off_response =
  wp_workflow :: policy_workflow
  wp_sign_off_event :: policy_event
  wp_replay_metadata :: jobject

definition sign_off_replay_metadata :: "evaluation_record \<Rightarrow> jobject" where
  "sign_off_replay_metadata r =
     [(''workflow_contract_version'', JStr ''rfc0025.policy-sign-off-workflow.v1''),
      (''evaluation_hash'', JStr (vr_evaluation_hash r)), (''policy_pack_id'', JStr (vr_policy_pack_id r)),
      (''policy_version'', JStr (vr_policy_version r)),
      (''client_ready_publication'', JStr policy_client_ready_publication),
      (''report_render_archive_realization'',
        json_get policy_sign_off_package_posture ''report_render_archive_realization'')]"

text \<open>
  The response is projected after the event is stored, so an error there leaves the event behind:
  the result pairs every outcome with the store.
\<close>

definition record_policy_evaluation_sign_off_decision ::
  "runtime \<Rightarrow> calendar \<Rightarrow> datetime \<Rightarrow> datetime \<Rightarrow> policy_store \<Rightarrow> string \<Rightarrow> sign_off_payload \<Rightarrow> string option
     \<Rightarrow> (error + sign_off_response) \<times> policy_store" where
  "record_policy_evaluation_sign_off_decision rt cal decision_time event_at s eid p ikey =
     (let key = normalize_optional_idempotency_key ikey;
          ty = (if wd_decision p = SD_APPROVE then PV_SIGN_OFF_RECORDED else PV_REVIEW_RECORDED);
          checked = bind_error (load_evaluation s eid) (\<lambda>r.
            if wd_source_evaluation_hash p \<noteq> vr_evaluation_hash r
            then Inl (ValidationError ''POLICY_EVALUATION_SIGN_OFF_HASH_MISMATCH'')
            else bind_error (list_policy_evaluation_events s eid) (\<lambda>es.
              bind_error (build_policy_evaluation_workflow_projection rt cal decision_time r es
                policy_client_ready_publication) (\<lambda>before_decision.
              bind_error (validate_policy_sign_off_decision r before_decision p) (\<lambda>_.
              bind_error (append_policy_evaluation_event rt cal event_at s eid ty (wd_actor_id p)
                (sign_off_event_reason p) key
                (if ty = PV_SIGN_OFF_RECORDED then Some policy_sign_off_event_authority else None)) (\<lambda>(e, s').
              Inr (r, es, e, s')))))
          )
      in case checked of
           Inl err \<Rightarrow> (Inl err, s)
         | Inr (r, es, e, s') \<Rightarrow>
             (bind_error (build_policy_evaluation_workflow_projection rt cal decision_time r (es @ [e])
                policy_client_ready_publication) (\<lambda>w.
                Inr \<lparr>wp_workflow = w, wp_sign_off_event = e, wp_replay_metadata = sign_off_replay_metadata r\<rparr>), s'))"

end
