(* ===== verification/Policy_Services.thy ===== *)
theory Policy_Services
  imports Policy_Sign_Off Narrative_Reports
begin

text \<open>
  The services around a policy evaluation: the report package handed to the reporting service
  (\<open>policy_packs/reporting.py\<close>), the bounded evidence request to the AI service (\<open>ai.py\<close>) and the
  diagnostics (\<open>diagnostics.py\<close>).  The two external services are arguments: functions from the
  request to their response.  A command reads the clock several times; \<open>clock n\<close> is its n-th reading.
  Requests keep records, workflows and events typed where the code dumps them.
\<close>

subsection \<open>Report packages\<close>

record report_payload =
  xa_requested_by :: string
  xa_portfolio_id :: string
  xa_source_evaluation_hash :: string
  xa_requested_output_formats :: "string list"
  xa_client_ready_document_requested :: bool
  xa_reason :: jobject

record sign_off_package =
  xb_package_type :: string
  xb_package_status :: string
  xb_reporting_contract_version :: string
  xb_evaluation :: evaluation_record
  xb_workflow :: policy_workflow
  xb_audit_events :: "policy_event list"
  xb_client_ready_publication :: string
  xb_requested_output_formats :: "string list"
  xb_reason :: jobject

record report_request =
  xd_report_request_id :: string
  xd_proposal :: jobject
  xd_report_type :: string
  xd_requested_by :: string
  xd_related_policy_evaluation_id :: string
  xd_requested_output_formats :: "string list"
  xd_policy_sign_off_package :: sign_off_package
  xd_reason :: jobject

record report_package_response =
  xe_evaluation :: evaluation_record
  xe_report_package_event :: policy_event
  xe_report :: report_response
  xe_replayed :: bool

definition reporting_contract_version :: string where
  "reporting_contract_version = ''rfc0025.policy-report-package-realization.v1''"

definition requested_supported_output_formats :: "report_payload \<Rightarrow> string list" where
  "requested_supported_output_formats p = filter (\<lambda>f. f \<in> {''pdf'', ''json''})
     (map (\<lambda>f. py_lower (py_strip f)) (xa_requested_output_formats p))"

definition validate_report_request ::
  "runtime \<Rightarrow> calendar \<Rightarrow> datetime \<Rightarrow> policy_store \<Rightarrow> evaluation_record \<Rightarrow> report_payload \<Rightarrow> error + unit" where
  "validate_report_request rt cal now s r p =
     (if xa_source_evaluation_hash p \<noteq> vr_evaluation_hash r
      then Inl (ValidationError ''POLICY_REPORT_PACKAGE_HASH_MISMATCH'')
      else if xa_client_ready_document_requested p
      then Inl (ValidationError ''POLICY_CLIENT_READY_DOCUMENT_NOT_SUPPORTED'')
      else if requested_supported_output_formats p = []
      then Inl (ValidationError ''POLICY_REPORT_PACKAGE_OUTPUT_FORMAT_REQUIRED'')
      else bind_error (get_policy_evaluation_workflow rt cal now s (vr_evaluation_id r)) (\<lambda>w.
        if ww_sign_off_status w \<noteq> ''SIGNED_OFF''
        then Inl (ValidationError ''POLICY_REPORT_PACKAGE_REQUIRES_SIGN_OFF'')
        else if ww_sign_off_blockers w \<noteq> []
        then Inl (ValidationError ''POLICY_REPORT_PACKAGE_REQUIREMENTS_OPEN'')
        else Inr ()))"

definition report_package_request_hash :: "runtime \<Rightarrow> evaluation_record \<Rightarrow> report_payload \<Rightarrow> string" where
  "report_package_request_hash rt r p = hash_canonical_payload rt (JObj
     [(''operation'', JStr ''POLICY_REPORT_PACKAGE_REQUESTED''),
      (''evaluation_id'', JStr (vr_evaluation_id r)),
      (''source_evaluation_hash'', JStr (xa_source_evaluation_hash p)),
      (''requested_by'', JStr (xa_requested_by p)), (''portfolio_id'', JStr (xa_portfolio_id p)),
      (''requested_output_formats'', json_strs (xa_requested_output_formats p)),
      (''client_ready_document_requested'', JBool (xa_client_ready_document_requested p)),
      (''reason'', JObj (xa_reason p))])"

text \<open>The first event under the key decides, for a report (\<open>_find_replayed_report_event\<close>) as for AI evidence (\<open>_find_replayed_ai_event\<close>).\<close>

definition find_replayed_service_event ::
  "policy_store \<Rightarrow> string \<Rightarrow> string \<Rightarrow> string option \<Rightarrow> string \<Rightarrow> error + policy_event option" where
  "find_replayed_service_event s hash_field eid ikey request_hash =
     (case ikey of
        None \<Rightarrow> Inr None
      | Some k \<Rightarrow> bind_error (list_policy_evaluation_events s eid) (\<lambda>es.
          case find_first (\<lambda>e. ve_idempotency_key e = Some k) es of
            None \<Rightarrow> Inr None
          | Some e \<Rightarrow> if json_get (ve_reason_json e) hash_field \<noteq> JStr request_hash
              then Inl (IdempotencyConflictError ''POLICY_EVALUATION_IDEMPOTENCY_KEY_CONFLICT'')
              else Inr (Some e)))"

definition build_policy_sign_off_package ::
  "runtime \<Rightarrow> calendar \<Rightarrow> datetime \<Rightarrow> policy_store \<Rightarrow> evaluation_record \<Rightarrow> report_payload \<Rightarrow> error + sign_off_package" where
  "build_policy_sign_off_package rt cal now s r p =
     bind_error (get_policy_evaluation_workflow rt cal now s (vr_evaluation_id r)) (\<lambda>w.
     bind_error (list_policy_evaluation_events s (vr_evaluation_id r)) (\<lambda>es.
     Inr \<lparr>xb_package_type = ''ADVISORY_POLICY_SIGN_OFF_PACKAGE'', xb_package_status = ''SIGNED_OFF_SOURCE_PACKAGE'',
       xb_reporting_contract_version = reporting_contract_version, xb_evaluation = r, xb_workflow = w,
       xb_audit_events = es, xb_client_ready_publication = ''BLOCKED'',
       xb_requested_output_formats = xa_requested_output_formats p, xb_reason = xa_reason p\<rparr>))"

definition as_mapping :: "json \<Rightarrow> jobject" where
  "as_mapping v = (case v of JObj d \<Rightarrow> d | _ \<Rightarrow> [])"

definition record_selectors :: "evaluation_record \<Rightarrow> jobject" where
  "record_selectors r = as_mapping (json_get (as_mapping (json_get (vr_evaluation_json r) ''applicability''))
     ''matched_selectors'')"

definition policy_proposal_summary :: "runtime \<Rightarrow> datetime \<Rightarrow> evaluation_record \<Rightarrow> string \<Rightarrow> jobject" where
  "policy_proposal_summary rt now r portfolio =
     [(''proposal_id'', JStr (vr_proposal_id r)), (''portfolio_id'', JStr portfolio),
      (''mandate_id'', json_get (record_selectors r) ''mandate_id''),
      (''jurisdiction'', json_get (record_selectors r) ''jurisdiction''),
      (''created_by'', JStr (vr_created_by r)), (''created_at'', JStr (vr_generated_at r)),
      (''last_event_at'', JStr (rt_isoformat rt now)), (''current_state'', JStr ''EXECUTION_READY''),
      (''current_version_no'', JInt 1), (''title'', JStr ''Policy sign-off package''),
      (''lifecycle_origin'', JStr ''WORKSPACE_HANDOFF''), (''source_workspace_id'', JNull)]"

definition policy_report_status :: "string \<Rightarrow> string" where
  "policy_report_status st = (if st = ''ARCHIVED'' then ''ARCHIVED''
     else if st \<in> {''READY'', ''ACCEPTED''} then ''RECORDED'' else st)"

definition get_or_empty :: "jobject \<Rightarrow> string \<Rightarrow> json" where
  "get_or_empty d k = (case dict_get d k of None \<Rightarrow> JObj [] | Some v \<Rightarrow> v)"

definition report_event_reason ::
  "evaluation_record \<Rightarrow> report_payload \<Rightarrow> string \<Rightarrow> sign_off_package \<Rightarrow> report_response \<Rightarrow> jobject" where
  "report_event_reason r p request_hash pkg report =
     [(''policy_report_package_contract_version'', JStr reporting_contract_version),
      (''policy_report_package_request_hash'', JStr request_hash),
      (''report_package_id'', JStr (rr_report_reference_id report)),
      (''report_package_status'', JStr (policy_report_status (rr_status report))),
      (''source_evaluation_hash'', JStr (xa_source_evaluation_hash p)),
      (''portfolio_id'', JStr (xa_portfolio_id p)), (''client_ready_publication'', JStr ''BLOCKED''),
      (''requested_output_formats'', json_strs (xa_requested_output_formats p)),
      (''report_request_id'', JStr (rr_report_request_id report)),
      (''report_service'', JStr (rr_report_service report)), (''report_status'', JStr (rr_status report)),
      (''report_status_url'', json_opt JStr (rr_artifact_url report)),
      (''render'', get_or_empty (rr_explanation report) ''render''),
      (''archive'', get_or_empty (rr_explanation report) ''archive''),
      (''policy_sign_off_package'', JObj
        [(''package_status'', JStr (xb_package_status pkg)), (''evaluation_id'', JStr (vr_evaluation_id r)),
         (''evaluation_hash'', JStr (vr_evaluation_hash r)), (''policy_pack_id'', JStr (vr_policy_pack_id r)),
         (''policy_version'', JStr (vr_policy_version r))]),
      (''reason'', JObj (xa_reason p))]"

text \<open>Pydantic accepts a string or \<open>None\<close> for an optional string field.\<close>

definition validated_optional_str :: "string \<Rightarrow> json \<Rightarrow> error + string option" where
  "validated_optional_str field v = (case v of JNull \<Rightarrow> Inr None | JStr x \<Rightarrow> Inr (Some x)
     | _ \<Rightarrow> Inl (OtherException ''ValidationError'' field))"

definition report_response_from_event ::
  "runtime \<Rightarrow> datetime \<Rightarrow> evaluation_record \<Rightarrow> policy_event \<Rightarrow> error + report_response" where
  "report_response_from_event rt now r e =
     (let reason = ve_reason_json e
      in bind_error (case dict_get reason ''requested_output_formats'' of
           None \<Rightarrow> Inr [JStr ''pdf''] | Some v \<Rightarrow> json_iterate v) (\<lambda>formats.
         if formats = [] then Inl (OtherException ''ValidationError'' ''requested_output_formats'')
         else bind_error (validated_optional_str ''mandate_id'' (json_get (record_selectors r) ''mandate_id'')) (\<lambda>mandate.
         bind_error (validated_optional_str ''jurisdiction'' (json_get (record_selectors r) ''jurisdiction'')) (\<lambda>jurisdiction.
         bind_error (validated_optional_str ''artifact_url'' (json_get reason ''report_status_url'')) (\<lambda>url.
         Inr \<lparr>rr_proposal = \<lparr>ps_proposal_id = vr_proposal_id r,
             ps_portfolio_id = str_or (json_get reason ''portfolio_id'') ''UNKNOWN_PORTFOLIO'',
             ps_mandate_id = mandate, ps_jurisdiction = jurisdiction, ps_created_by = vr_created_by r,
             ps_created_at = vr_generated_at r, ps_last_event_at = rt_isoformat rt now,
             ps_current_state = WS_EXECUTION_READY, ps_current_version_no = 1,
             ps_title = Some ''Policy sign-off package'', ps_lifecycle_origin = LO_WORKSPACE_HANDOFF,
             ps_source_workspace_id = None\<rparr>,
           rr_report_request_id = str_or (json_get reason ''report_request_id'') (ve_event_id e),
           rr_report_type = RP_PORTFOLIO_REVIEW,
           rr_report_service = str_or (json_get reason ''report_service'') ''lotus-report'',
           rr_status = str_or (json_get reason ''report_status'') ''ACCEPTED'', rr_generated_at = ve_occurred_at e,
           rr_report_reference_id = str_or (json_get reason ''report_package_id'') (ve_event_id e), rr_artifact_url = url,
           rr_explanation = [(''ownership'', JStr ''REPORT_RENDER_ARCHIVE_OWNED_BY_LOTUS_REPORT_RENDER_ARCHIVE''),
             (''policy_sign_off_package'', get_or_empty reason ''policy_sign_off_package''),
             (''render'', get_or_empty reason ''render''), (''archive'', get_or_empty reason ''archive''),
             (''client_ready_publication'', JStr ''BLOCKED'')]\<rparr>)))))"

text \<open>Up to the call of the reporting service: a replayed event, or the request to send.\<close>

datatype report_step = RK_REPLAY policy_event | RK_SEND report_request

definition prepare_report_package ::
  "runtime \<Rightarrow> calendar \<Rightarrow> (nat \<Rightarrow> datetime) \<Rightarrow> policy_store \<Rightarrow> string \<Rightarrow> report_payload \<Rightarrow> string \<Rightarrow> string option
     \<Rightarrow> error + evaluation_record \<times> report_step" where
  "prepare_report_package rt cal clock s eid p request_id key =
     bind_error (load_evaluation s eid) (\<lambda>r.
     bind_error (validate_report_request rt cal (clock 0) s r p) (\<lambda>_.
     bind_error (find_replayed_service_event s ''policy_report_package_request_hash'' eid key
       (report_package_request_hash rt r p)) (\<lambda>replayed.
     case replayed of
       Some e \<Rightarrow> Inr (r, RK_REPLAY e)
     | None \<Rightarrow> bind_error (build_policy_sign_off_package rt cal (clock 1) s r p) (\<lambda>pkg.
         Inr (r, RK_SEND \<lparr>xd_report_request_id = request_id,
           xd_proposal = policy_proposal_summary rt (clock 2) r (xa_portfolio_id p),
           xd_report_type = ''PORTFOLIO_REVIEW'', xd_requested_by = xa_requested_by p,
           xd_related_policy_evaluation_id = vr_evaluation_id r,
           xd_requested_output_formats = xa_requested_output_formats p,
           xd_policy_sign_off_package = pkg, xd_reason = xa_reason p\<rparr>)))))"

definition request_policy_evaluation_report_package ::
  "runtime \<Rightarrow> calendar \<Rightarrow> (nat \<Rightarrow> datetime) \<Rightarrow> (report_request \<Rightarrow> error + report_response) \<Rightarrow> policy_store \<Rightarrow> string
     \<Rightarrow> report_payload \<Rightarrow> string \<Rightarrow> string option \<Rightarrow> (error + report_package_response) \<times> policy_store" where
  "request_policy_evaluation_report_package rt cal clock client s eid p request_id ikey =
     (let key = normalize_optional_idempotency_key ikey
      in case prepare_report_package rt cal clock s eid p request_id key of
           Inl err \<Rightarrow> (Inl err, s)
         | Inr (r, RK_REPLAY e) \<Rightarrow>
             (bind_error (report_response_from_event rt (clock 1) r e) (\<lambda>report.
                Inr \<lparr>xe_evaluation = r, xe_report_package_event = e, xe_report = report, xe_replayed = True\<rparr>), s)
         | Inr (r, RK_SEND req) \<Rightarrow>
             (case bind_error (client req) (\<lambda>report.
                bind_error (append_policy_evaluation_event rt cal (clock 3) s eid PV_REPORT_ARCHIVE_RECORDED
                  (xa_requested_by p) (report_event_reason r p (report_package_request_hash rt r p)
                     (xd_policy_sign_off_package req) report) key
                  (Some policy_report_package_event_authority)) (\<lambda>(e, s'). Inr (report, e, s'))) of
                Inl err \<Rightarrow> (Inl err, s)
              | Inr (report, e, s') \<Rightarrow>
                  (bind_error (load_evaluation s' eid) (\<lambda>r'.
                     Inr \<lparr>xe_evaluation = r', xe_report_package_event = e, xe_report = report, xe_replayed = False\<rparr>), s')))"

end
