(* ===== verification/Policy_AI.thy ===== *)
theory Policy_AI
  imports Policy_Services
begin

text \<open>
  The bounded AI evidence request of a policy evaluation (\<open>policy_packs/ai.py\<close>, \<open>ai_models.py\<close>) and
  the diagnostics (\<open>diagnostics.py\<close>).
\<close>

subsection \<open>Requested actions\<close>

definition ai_contract_version :: string where
  "ai_contract_version = ''rfc0025.policy-ai-evidence-boundary.v1''"

definition supported_ai_actions :: "string list" where
  "supported_ai_actions = [''SUMMARIZE_POLICY_POSTURE'', ''EXPLAIN_OPEN_REQUIREMENTS'',
     ''EXPLAIN_SIGN_OFF_EVIDENCE'', ''EXPLAIN_DISCLOSURE_AND_CONSENT_POSTURE'', ''EXPLAIN_SOURCE_GAPS'']"

definition forbidden_action_fragments :: "string list" where
  "forbidden_action_fragments = [''APPROVE'', ''WAIVE'', ''MUTATE'', ''UPDATE'', ''RELEASE'',
     ''CLIENT_READY'', ''CLIENT-READY'', ''PUBLISH'', ''CERTIFY'']"

definition normalized_action_names :: "string list \<Rightarrow> string list" where
  "normalized_action_names actions = filter (\<lambda>a. a \<noteq> []) (map (\<lambda>a. py_upper (py_strip a)) actions)"

definition is_forbidden_ai_evidence_action :: "string \<Rightarrow> bool" where
  "is_forbidden_ai_evidence_action a \<longleftrightarrow> a \<notin> set supported_ai_actions
     \<or> list_ex (\<lambda>fragment. contains_text fragment a) forbidden_action_fragments"

definition normalize_requested_actions :: "string list \<Rightarrow> error + string list" where
  "normalize_requested_actions actions =
     (let normalized = normalized_action_names actions
      in if normalized = [] then Inl (ValidationError ''POLICY_AI_EVIDENCE_ACTION_REQUIRED'')
         else if list_ex is_forbidden_ai_evidence_action normalized
         then Inl (ValidationError ''POLICY_AI_EVIDENCE_FORBIDDEN_ACTION'')
         else Inr normalized)"

subsection \<open>The request\<close>

record ai_payload =
  xg_requested_by :: string
  xg_source_evaluation_hash :: string
  xg_requested_actions :: "string list"
  xg_reason :: jobject

record ai_draft =
  xh_status :: string
  xh_sections :: "jobject list"
  xh_lineage :: jobject
  xh_review_guidance :: "string list"

text \<open>What a call of the AI service does: it answers, is unavailable, or raises something else.\<close>

datatype ai_outcome = AI_DRAFT ai_draft | AI_UNAVAILABLE string | AI_RAISES error

record ai_packet =
  xf_evaluation :: evaluation_record
  xf_rule_results :: "jobject list"
  xf_workflow :: policy_workflow
  xf_event_summary :: "jobject list"
  xf_requested_actions :: "string list"
  xf_redaction_profile :: jobject
  xf_client_ready_publication :: string
  xf_human_review_required :: bool
  xf_authoritative_for_policy_status :: bool

record ai_response =
  xi_evaluation :: evaluation_record
  xi_ai_event :: policy_event
  xi_policy_evidence :: jobject
  xi_replayed :: bool

definition build_policy_ai_unavailable_evidence :: "string \<Rightarrow> ai_draft" where
  "build_policy_ai_unavailable_evidence reason = \<lparr>xh_status = ''UNAVAILABLE'', xh_sections = [],
     xh_lineage = [(''adapter_version'', JStr ''policy-evidence-lotus-ai-adapter.v1''),
       (''workflow_pack_id'', JStr ''policy_evidence_summary.pack''), (''workflow_pack_version'', JStr ''v1''),
       (''workflow_surface'', JStr ''policy-evidence-summary''), (''workflow_run_id'', JNull),
       (''model_version'', JNull), (''fallback_reason'', JStr reason)],
     xh_review_guidance = [''AI policy evidence is unavailable; use persisted policy evaluation and sign-off evidence only.'',
       ''Do not infer missing approvals, disclosures, consents, waivers, suitability, best-interest, or client-ready posture.'']\<rparr>"

definition safe_ai_fallback_reason :: "string \<Rightarrow> string" where
  "safe_ai_fallback_reason message = (let reason = py_strip message
     in if reason \<in> {''LOTUS_AI_POLICY_EVIDENCE_UNAVAILABLE'', ''LOTUS_AI_POLICY_EVIDENCE_REJECTED''}
        then reason else ''LOTUS_AI_POLICY_EVIDENCE_UNAVAILABLE'')"

definition ai_rule_row :: "json \<Rightarrow> error + jobject" where
  "ai_rule_row v = (case v of
      JObj d \<Rightarrow> Inr [(''rule_id'', json_get d ''rule_id''), (''status'', json_get d ''status''),
        (''severity'', json_get d ''severity''),
        (''reason_codes'', case dict_get d ''reason_codes'' of None \<Rightarrow> JList [] | Some x \<Rightarrow> x),
        (''source_refs'', case dict_get d ''source_refs'' of None \<Rightarrow> JList [] | Some x \<Rightarrow> x)]
    | _ \<Rightarrow> Inl (OtherException ''AttributeError'' ''get''))"

definition ai_event_row :: "policy_event \<Rightarrow> jobject" where
  "ai_event_row e = [(''event_id'', JStr (ve_event_id e)),
     (''event_type'', JStr (policy_event_type_name (ve_event_type e))), (''actor_id'', JStr (ve_actor_id e)),
     (''occurred_at'', JStr (ve_occurred_at e)),
     (''reason_codes'', case dict_get (ve_reason_json e) ''reason_codes'' of None \<Rightarrow> JList [] | Some x \<Rightarrow> x)]"

definition ai_redaction_profile :: jobject where
  "ai_redaction_profile = [(''profile_id'', JStr ''policy_ai_bounded_evidence_redaction.v1''),
     (''raw_source_evidence_included'', JBool False), (''raw_client_identity_included'', JBool False),
     (''free_text_notes_included'', JBool False), (''full_position_payload_included'', JBool False),
     (''allowed_content'', json_strs [''policy_status'', ''rule_result_status'', ''reason_codes'', ''source_refs'',
        ''workflow_posture'', ''append_only_event_summary''])]"

definition build_policy_ai_evidence_packet ::
  "runtime \<Rightarrow> calendar \<Rightarrow> datetime \<Rightarrow> policy_store \<Rightarrow> evaluation_record \<Rightarrow> string list \<Rightarrow> error + ai_packet" where
  "build_policy_ai_evidence_packet rt cal now s r actions =
     bind_error (get_policy_evaluation_workflow rt cal now s (vr_evaluation_id r)) (\<lambda>w.
     bind_error (list_policy_evaluation_events s (vr_evaluation_id r)) (\<lambda>es.
     bind_error (map_error ai_rule_row
       (case json_get (vr_evaluation_json r) ''rule_results'' of JList xs \<Rightarrow> xs | _ \<Rightarrow> [])) (\<lambda>rows.
     Inr \<lparr>xf_evaluation = r, xf_rule_results = rows, xf_workflow = w, xf_event_summary = map ai_event_row es,
       xf_requested_actions = actions, xf_redaction_profile = ai_redaction_profile,
       xf_client_ready_publication = ''BLOCKED'', xf_human_review_required = True,
       xf_authoritative_for_policy_status = False\<rparr>)))"

definition ai_request_hash :: "runtime \<Rightarrow> evaluation_record \<Rightarrow> string list \<Rightarrow> ai_payload \<Rightarrow> string" where
  "ai_request_hash rt r actions p = hash_canonical_payload rt (JObj
     [(''operation'', JStr ''POLICY_AI_EVIDENCE_REQUESTED''), (''evaluation_id'', JStr (vr_evaluation_id r)),
      (''source_evaluation_hash'', JStr (xg_source_evaluation_hash p)),
      (''requested_by'', JStr (xg_requested_by p)), (''requested_actions'', json_strs actions),
      (''reason'', JObj (xg_reason p))])"

definition ai_event_reason ::
  "string \<Rightarrow> string \<Rightarrow> string list \<Rightarrow> ai_draft \<Rightarrow> ai_payload \<Rightarrow> jobject" where
  "ai_event_reason request_hash ai_status actions draft p =
     [(''policy_ai_contract_version'', JStr ai_contract_version), (''policy_ai_request_hash'', JStr request_hash),
      (''ai_status'', JStr ai_status), (''source_evaluation_hash'', JStr (xg_source_evaluation_hash p)),
      (''requested_actions'', json_strs actions), (''client_ready_publication'', JStr ''BLOCKED''),
      (''human_review_required'', JBool True), (''authoritative_for_policy_status'', JBool False),
      (''forbidden_actions'', json_strs [''policy_status_mutation'', ''rule_result_mutation'',
         ''approval_or_waiver_creation'', ''disclosure_or_consent_mutation'', ''client_ready_publication'']),
      (''redaction_profile'', JObj ai_redaction_profile), (''lineage'', JObj (xh_lineage draft)),
      (''sections'', JList (map JObj (xh_sections draft))),
      (''review_guidance'', json_strs (xh_review_guidance draft)), (''reason'', JObj (xg_reason p))]"

definition get_or_list :: "jobject \<Rightarrow> string \<Rightarrow> json" where
  "get_or_list d k = (case dict_get d k of None \<Rightarrow> JList [] | Some v \<Rightarrow> v)"

definition policy_evidence_from_event :: "policy_event \<Rightarrow> jobject" where
  "policy_evidence_from_event e = (let reason = ve_reason_json e in
     [(''status'', case dict_get reason ''ai_status'' of None \<Rightarrow> JStr ''UNAVAILABLE'' | Some v \<Rightarrow> v),
      (''sections'', get_or_list reason ''sections''), (''lineage'', get_or_empty reason ''lineage''),
      (''review_guidance'', get_or_list reason ''review_guidance''),
      (''client_ready_publication'', JStr ''BLOCKED''), (''human_review_required'', JBool True),
      (''authoritative_for_policy_status'', JBool False),
      (''forbidden_actions'', get_or_list reason ''forbidden_actions''),
      (''redaction_profile'', get_or_empty reason ''redaction_profile'')])"

definition settle_ai_outcome :: "ai_outcome \<Rightarrow> error + ai_draft \<times> string" where
  "settle_ai_outcome outcome = (case outcome of
      AI_DRAFT d \<Rightarrow> Inr (d, ''REVIEW_REQUIRED'')
    | AI_UNAVAILABLE message \<Rightarrow>
        Inr (build_policy_ai_unavailable_evidence (safe_ai_fallback_reason message), ''UNAVAILABLE'')
    | AI_RAISES err \<Rightarrow> Inl err)"

text \<open>Up to the call of the AI service: a replayed event, or the packet to send.\<close>

datatype ai_step = AS_REPLAY policy_event | AS_SEND ai_packet

definition prepare_ai_evidence ::
  "runtime \<Rightarrow> calendar \<Rightarrow> datetime \<Rightarrow> policy_store \<Rightarrow> string \<Rightarrow> ai_payload \<Rightarrow> string option
     \<Rightarrow> error + evaluation_record \<times> string list \<times> ai_step" where
  "prepare_ai_evidence rt cal now s eid p key =
     bind_error (load_evaluation s eid) (\<lambda>r.
       if xg_source_evaluation_hash p \<noteq> vr_evaluation_hash r
       then Inl (ValidationError ''POLICY_AI_EVIDENCE_HASH_MISMATCH'')
       else bind_error (normalize_requested_actions (xg_requested_actions p)) (\<lambda>actions.
         bind_error (find_replayed_service_event s ''policy_ai_request_hash'' eid key
           (ai_request_hash rt r actions p)) (\<lambda>replayed.
         case replayed of
           Some e \<Rightarrow> Inr (r, actions, AS_REPLAY e)
         | None \<Rightarrow> bind_error (build_policy_ai_evidence_packet rt cal now s r actions) (\<lambda>packet.
             Inr (r, actions, AS_SEND packet)))))"

definition request_policy_evaluation_ai_evidence ::
  "runtime \<Rightarrow> calendar \<Rightarrow> datetime \<Rightarrow> datetime \<Rightarrow> (ai_packet \<Rightarrow> string list \<Rightarrow> string \<Rightarrow> jobject \<Rightarrow> ai_outcome)
     \<Rightarrow> policy_store \<Rightarrow> string \<Rightarrow> ai_payload \<Rightarrow> string option \<Rightarrow> (error + ai_response) \<times> policy_store" where
  "request_policy_evaluation_ai_evidence rt cal now event_at client s eid p ikey =
     (let key = normalize_optional_idempotency_key ikey
      in case prepare_ai_evidence rt cal now s eid p key of
           Inl err \<Rightarrow> (Inl err, s)
         | Inr (r, actions, AS_REPLAY e) \<Rightarrow>
             (Inr \<lparr>xi_evaluation = r, xi_ai_event = e, xi_policy_evidence = policy_evidence_from_event e,
                xi_replayed = True\<rparr>, s)
         | Inr (r, actions, AS_SEND packet) \<Rightarrow>
             (case bind_error (settle_ai_outcome (client packet actions (xg_requested_by p) (xg_reason p)))
                (\<lambda>(draft, ai_status). append_policy_evaluation_event rt cal event_at s eid PV_AI_EVIDENCE_RECORDED
                   (xg_requested_by p) (ai_event_reason (ai_request_hash rt r actions p) ai_status actions draft p) key
                   (Some policy_ai_evidence_event_authority)) of
                Inl err \<Rightarrow> (Inl err, s)
              | Inr (e, s') \<Rightarrow>
                  (bind_error (load_evaluation s' eid) (\<lambda>r'.
                     Inr \<lparr>xi_evaluation = r', xi_ai_event = e, xi_policy_evidence = policy_evidence_from_event e,
                       xi_replayed = False\<rparr>), s')))"

subsection \<open>Diagnostics\<close>

record policy_diagnostics =
  xj_evaluation_id :: string
  xj_proposal_id :: string
  xj_evaluation_status :: policy_status
  xj_sign_off_status :: string
  xj_latest_events :: "jobject"
  xj_report_package_posture :: jobject
  xj_ai_evidence_posture :: jobject
  xj_replay_posture :: jobject
  xj_safe_next_action :: string
  xj_runbook_ref :: string
  xj_diagnostics_contract_version :: string

definition policy_event_summary :: "policy_event option \<Rightarrow> json" where
  "policy_event_summary x = json_opt (\<lambda>e. JObj [(''event_id'', JStr (ve_event_id e)),
     (''event_type'', JStr (policy_event_type_name (ve_event_type e))), (''occurred_at'', JStr (ve_occurred_at e)),
     (''actor_id'', JStr (ve_actor_id e)),
     (''idempotency_key_present'', JBool (ve_idempotency_key e \<notin> {None, Some []}))]) x"

definition json_or :: "json \<Rightarrow> string \<Rightarrow> json" where
  "json_or v fallback = (if json_truthy v then v else JStr fallback)"

definition report_package_posture :: "policy_event option \<Rightarrow> bool \<Rightarrow> jobject" where
  "report_package_posture latest signed_off = (case latest of
      None \<Rightarrow> [(''status'', JStr ''NO_REPORT_REQUEST''), (''downstream_owner'', JStr ''lotus-report''),
        (''report_request_id'', JNull), (''report_package_id'', JNull), (''render_present'', JBool False),
        (''archive_present'', JBool False), (''replay_eligible'', JBool signed_off)]
    | Some e \<Rightarrow> (let reason = ve_reason_json e in
        [(''status'', json_or (json_get reason ''report_package_status'') ''RECORDED''),
         (''downstream_owner'', JStr ''lotus-report''),
         (''report_request_id'', json_get reason ''report_request_id''),
         (''report_package_id'', json_get reason ''report_package_id''),
         (''render_present'', JBool (json_truthy (json_get reason ''render''))),
         (''archive_present'', JBool (json_truthy (json_get reason ''archive''))),
         (''replay_eligible'', JBool True)]))"

definition ai_evidence_posture :: "policy_event option \<Rightarrow> jobject" where
  "ai_evidence_posture latest = (case latest of
      None \<Rightarrow> [(''status'', JStr ''NO_AI_EVIDENCE_REQUEST''), (''downstream_owner'', JStr ''lotus-ai''),
        (''fallback_reason'', JNull), (''human_review_required'', JBool True)]
    | Some e \<Rightarrow> (let reason = ve_reason_json e in
        [(''status'', json_or (json_get reason ''ai_status'') ''UNAVAILABLE''),
         (''downstream_owner'', JStr ''lotus-ai''),
         (''fallback_reason'', json_get (as_mapping (json_get reason ''lineage'')) ''fallback_reason''),
         (''human_review_required'', JBool True)]))"

definition policy_safe_next_action ::
  "string \<Rightarrow> string list \<Rightarrow> policy_event option \<Rightarrow> policy_event option \<Rightarrow> string" where
  "policy_safe_next_action status blockers latest_report latest_ai =
     (if status \<noteq> ''SIGNED_OFF'' \<or> blockers \<noteq> [] then ''RESOLVE_POLICY_SIGN_OFF_BLOCKERS''
      else if latest_report = None then ''REQUEST_POLICY_REPORT_PACKAGE''
      else if latest_ai = None then ''REQUEST_POLICY_AI_EVIDENCE_IF_OPERATOR_NEEDS_EXPLANATION''
      else ''MONITOR_RECORDED_POLICY_EVIDENCE'')"

definition get_policy_evaluation_diagnostics ::
  "runtime \<Rightarrow> calendar \<Rightarrow> datetime \<Rightarrow> policy_store \<Rightarrow> string \<Rightarrow> error + policy_diagnostics" where
  "get_policy_evaluation_diagnostics rt cal now s eid =
     bind_error (load_evaluation s eid) (\<lambda>r.
     bind_error (list_policy_evaluation_events s eid) (\<lambda>es.
     bind_error (get_policy_evaluation_workflow rt cal now s eid) (\<lambda>w.
     (let review = latest_of_type PV_REVIEW_RECORDED es; sign_off = latest_of_type PV_SIGN_OFF_RECORDED es;
          report = latest_of_type PV_REPORT_ARCHIVE_RECORDED es; ai = latest_of_type PV_AI_EVIDENCE_RECORDED es
      in Inr \<lparr>xj_evaluation_id = vr_evaluation_id r, xj_proposal_id = vr_proposal_id r,
           xj_evaluation_status = vr_evaluation_status r, xj_sign_off_status = ww_sign_off_status w,
           xj_latest_events = [(''review'', policy_event_summary review),
             (''sign_off'', policy_event_summary sign_off), (''report_package'', policy_event_summary report),
             (''ai_evidence'', policy_event_summary ai)],
           xj_report_package_posture = report_package_posture report
             (ww_sign_off_status w = ''SIGNED_OFF'' \<and> ww_sign_off_blockers w = []),
           xj_ai_evidence_posture = ai_evidence_posture ai,
           xj_replay_posture = [(''evaluation_hash'', JStr (vr_evaluation_hash r)),
             (''source_evidence_hash'', JStr (vr_source_evidence_hash r)),
             (''policy_content_hash'', JStr (vr_policy_content_hash r)),
             (''idempotency_key'', JStr (vm_idempotency_key (vr_replay_metadata_json r))),
             (''replay_policy'', JStr (vm_replay_policy (vr_replay_metadata_json r)))],
           xj_safe_next_action = policy_safe_next_action (ww_sign_off_status w) (ww_sign_off_blockers w) report ai,
           xj_runbook_ref = ''wiki/Operations-Runbook.md#policy-evaluation-diagnostics'',
           xj_diagnostics_contract_version = ''policy-evaluation-diagnostics.v1''\<rparr>))))"

end
