(* ===== verification/Ledger_Facts.thy ===== *)
theory Ledger_Facts
  imports Policy_AI
begin

text \<open>
  The invariant of the policy evaluation store and what each of its commands does to it: one log per
  record, numbered events, the lists a record mirrors from its log, the indexes, and the evidence
  behind sign-off and report events.
\<close>

subsection \<open>Attaching an event\<close>

lemma attach_fields [simp]:
  "vr_evaluation_id (attach_policy_evaluation_event r e) = vr_evaluation_id r"
  "vr_proposal_id (attach_policy_evaluation_event r e) = vr_proposal_id r"
  "vr_proposal_version_id (attach_policy_evaluation_event r e) = vr_proposal_version_id r"
  "vr_portfolio_id (attach_policy_evaluation_event r e) = vr_portfolio_id r"
  "vr_policy_pack_id (attach_policy_evaluation_event r e) = vr_policy_pack_id r"
  "vr_policy_version (attach_policy_evaluation_event r e) = vr_policy_version r"
  "vr_generated_at (attach_policy_evaluation_event r e) = vr_generated_at r"
  "vr_created_by (attach_policy_evaluation_event r e) = vr_created_by r"
  "vr_evaluation_status (attach_policy_evaluation_event r e) = vr_evaluation_status r"
  "vr_policy_content_hash (attach_policy_evaluation_event r e) = vr_policy_content_hash r"
  "vr_source_evidence_hash (attach_policy_evaluation_event r e) = vr_source_evidence_hash r"
  "vr_evaluation_hash (attach_policy_evaluation_event r e) = vr_evaluation_hash r"
  "vr_evaluation_json (attach_policy_evaluation_event r e) = vr_evaluation_json r"
  "vr_source_refs (attach_policy_evaluation_event r e) = vr_source_refs r"
  "vr_source_gaps (attach_policy_evaluation_event r e) = vr_source_gaps r"
  "vr_approval_dependencies (attach_policy_evaluation_event r e) = vr_approval_dependencies r"
  "vr_disclosure_requirements (attach_policy_evaluation_event r e) = vr_disclosure_requirements r"
  "vr_consent_requirements (attach_policy_evaluation_event r e) = vr_consent_requirements r"
  "vr_replay_metadata_json (attach_policy_evaluation_event r e) = vr_replay_metadata_json r"
  by (simp_all add: attach_policy_evaluation_event_def)

lemma attach_evidence [simp]:
  "conflict_evidence_from_record (attach_policy_evaluation_event r e) = conflict_evidence_from_record r"
  by (simp add: conflict_evidence_from_record_def conflict_rule_results_def)

subsection \<open>The invariant\<close>

text \<open>What a sign-off event is backed by: another actor, the hash it read, every requirement, no blocked evaluation.\<close>

definition sign_off_backed :: "evaluation_record \<Rightarrow> policy_event \<Rightarrow> bool" where
  "sign_off_backed r e \<longleftrightarrow> ve_actor_id e \<noteq> vr_created_by r \<and> vr_evaluation_status r \<noteq> PS_BLOCKED
     \<and> json_get (ve_reason_json e) ''source_evaluation_hash'' = JStr (vr_evaluation_hash r)
     \<and> set (vr_approval_dependencies r) \<subseteq> set (sign_off_reason_values e ''resolved_approval_dependencies'')
     \<and> set (vr_disclosure_requirements r) \<subseteq> set (sign_off_reason_values e ''satisfied_disclosure_requirements'')
     \<and> set (vr_consent_requirements r) \<subseteq> set (sign_off_reason_values e ''satisfied_consent_requirements'')"

definition conflict_settled :: "evaluation_record \<Rightarrow> policy_event list \<Rightarrow> bool" where
  "conflict_settled r es \<longleftrightarrow> (case conflict_evidence_from_record r of
      Inl _ \<Rightarrow> True
    | Inr (codes, blockers) \<Rightarrow> material_conflict_resolved (conflict_review_outcomes es)
        \<or> \<not> material_conflict_blocks_workflow codes blockers)"

definition signed_off_before :: "policy_event list \<Rightarrow> nat \<Rightarrow> bool" where
  "signed_off_before es i \<longleftrightarrow> (\<exists>j<i. is_approved_sign_off_event (es ! j))"

definition events_numbered :: "evaluation_record \<Rightarrow> policy_event list \<Rightarrow> bool" where
  "events_numbered r es \<longleftrightarrow> (\<forall>i<length es. ve_event_id (es ! i) = ''peev_'' @ six_digits (Suc i)
     \<and> ve_evaluation_id (es ! i) = vr_evaluation_id r \<and> ve_content_hash (es ! i) = vr_evaluation_hash r
     \<and> (ve_event_type (es ! i) = PV_FINALIZED \<longleftrightarrow> i = 0))"

definition events_backed :: "evaluation_record \<Rightarrow> policy_event list \<Rightarrow> bool" where
  "events_backed r es \<longleftrightarrow> (\<forall>i<length es.
     (ve_event_type (es ! i) = PV_SIGN_OFF_RECORDED \<longrightarrow> is_approved_sign_off_event (es ! i)
        \<and> sign_off_backed r (es ! i) \<and> conflict_settled r es)
     \<and> (ve_event_type (es ! i) = PV_REPORT_ARCHIVE_RECORDED \<longrightarrow> signed_off_before es i))"

definition events_mirrored :: "evaluation_record \<Rightarrow> policy_event list \<Rightarrow> bool" where
  "events_mirrored r es \<longleftrightarrow>
     vr_review_events_json r = filter (\<lambda>e. ve_event_type e = PV_REVIEW_RECORDED) es
     \<and> vr_sign_off_events_json r = filter (\<lambda>e. ve_event_type e = PV_SIGN_OFF_RECORDED) es
     \<and> vr_report_archive_refs_json r = filter (\<lambda>e. ve_event_type e = PV_REPORT_ARCHIVE_RECORDED) es"

definition evaluation_ok :: "string \<Rightarrow> evaluation_record \<Rightarrow> policy_event list \<Rightarrow> bool" where
  "evaluation_ok eid r es \<longleftrightarrow> vr_evaluation_id r = eid \<and> es \<noteq> [] \<and> events_numbered r es
     \<and> events_backed r es \<and> events_mirrored r es"

definition identity_of_record :: "evaluation_record \<Rightarrow> evaluation_key" where
  "identity_of_record r = (vr_proposal_id r, vr_proposal_version_id r, vr_policy_pack_id r,
     vr_policy_version r, vr_source_evidence_hash r)"

definition records_ok :: "policy_store \<Rightarrow> bool" where
  "records_ok s \<longleftrightarrow> dict_wf (vs_records s) \<and> map fst (vs_events s) = map fst (vs_records s)
     \<and> (\<forall>eid r. dict_get (vs_records s) eid = Some r \<longrightarrow> evaluation_ok eid r (dict_list (vs_events s) eid))"

definition indexes_ok :: "policy_store \<Rightarrow> bool" where
  "indexes_ok s \<longleftrightarrow> dict_wf (vs_idempotency s) \<and> dict_wf (vs_identity_index s)
     \<and> (\<forall>k h eid i. dict_get (vs_idempotency s) k = Some (h, eid, i)
          \<longrightarrow> i \<in> ve_event_id ` set (dict_list (vs_events s) eid))
     \<and> (\<forall>key eid. dict_get (vs_identity_index s) key = Some eid
          \<longleftrightarrow> (\<exists>r. dict_get (vs_records s) eid = Some r \<and> identity_of_record r = key))"

definition ledger_ok :: "policy_store \<Rightarrow> bool" where
  "ledger_ok s \<longleftrightarrow> records_ok s \<and> indexes_ok s"

lemma ledger_ok_empty: "ledger_ok empty_policy_store"
  by (simp add: ledger_ok_def records_ok_def indexes_ok_def empty_policy_store_def)

lemma records_okD:
  assumes "records_ok s" and "dict_get (vs_records s) eid = Some r"
  shows "evaluation_ok eid r (dict_list (vs_events s) eid)"
    and "dict_get (vs_events s) eid = Some (dict_list (vs_events s) eid)"
proof -
  show "evaluation_ok eid r (dict_list (vs_events s) eid)" using assms by (simp add: records_ok_def)
  have "\<exists>es. dict_get (vs_events s) eid = Some es"
    by (rule dict_get_cong_keys [OF _ assms(2)]) (use assms(1) in \<open>simp add: records_ok_def\<close>)
  then show "dict_get (vs_events s) eid = Some (dict_list (vs_events s) eid)" by (auto simp: dict_list_def)
qed

lemma load_evaluation_Inr [simp]: "load_evaluation s eid = Inr r \<longleftrightarrow> dict_get (vs_records s) eid = Some r"
  by (auto simp: load_evaluation_def split: option.splits)

lemma load_event_log_Inr [simp]: "load_event_log s eid = Inr es \<longleftrightarrow> dict_get (vs_events s) eid = Some es"
  by (auto simp: load_event_log_def split: option.splits)

lemma list_policy_events_ok:
  assumes "ledger_ok s" and "dict_get (vs_records s) eid = Some r"
  shows "list_policy_evaluation_events s eid = Inr (dict_list (vs_events s) eid)"
  using records_okD(2) [OF _ assms(2)] assms
  by (simp add: ledger_ok_def list_policy_evaluation_events_def load_evaluation_def load_event_log_def)

subsection \<open>Appending to one log\<close>

text \<open>The event a command may append to the log of a record.\<close>

definition event_admissible :: "evaluation_record \<Rightarrow> policy_event list \<Rightarrow> policy_event \<Rightarrow> bool" where
  "event_admissible r es e \<longleftrightarrow> ve_event_id e = ''peev_'' @ six_digits (Suc (length es))
     \<and> ve_evaluation_id e = vr_evaluation_id r \<and> ve_content_hash e = vr_evaluation_hash r
     \<and> ve_event_type e \<noteq> PV_FINALIZED
     \<and> (ve_event_type e = PV_SIGN_OFF_RECORDED \<longrightarrow> is_approved_sign_off_event e \<and> sign_off_backed r e
          \<and> conflict_settled r (es @ [e]))
     \<and> (ve_event_type e = PV_REPORT_ARCHIVE_RECORDED \<longrightarrow> (\<exists>e'\<in>set es. is_approved_sign_off_event e'))"

lemma conflict_settled_append: "conflict_settled r es \<Longrightarrow> conflict_settled r (es @ es')"
  by (auto simp: conflict_settled_def conflict_review_outcomes_def material_conflict_resolved_def
      split: sum.splits)

lemma attach_backed [simp]:
  "sign_off_backed (attach_policy_evaluation_event r e) x = sign_off_backed r x"
  "conflict_settled (attach_policy_evaluation_event r e) es = conflict_settled r es"
  by (simp_all add: sign_off_backed_def conflict_settled_def)

lemma signed_off_before_append: "signed_off_before es i \<Longrightarrow> i \<le> length es \<Longrightarrow> signed_off_before (es @ es') i"
  unfolding signed_off_before_def by (metis nth_append order.strict_trans2)

lemma signed_off_before_last: "signed_off_before (es @ [e]) (length es) \<longleftrightarrow> (\<exists>x\<in>set es. is_approved_sign_off_event x)"
  unfolding signed_off_before_def by (metis in_set_conv_nth nth_append)

lemma events_backed_append:
  assumes b: "events_backed r es" and a: "event_admissible r es e"
  shows "events_backed r (es @ [e])"
proof -
  have old: "(ve_event_type (es ! i) = PV_SIGN_OFF_RECORDED \<longrightarrow> is_approved_sign_off_event (es ! i)
        \<and> sign_off_backed r (es ! i) \<and> conflict_settled r (es @ [e]))
     \<and> (ve_event_type (es ! i) = PV_REPORT_ARCHIVE_RECORDED \<longrightarrow> signed_off_before (es @ [e]) i)"
    if "i < length es" for i
    using b that by (simp add: events_backed_def conflict_settled_append signed_off_before_append)
  have new: "(ve_event_type e = PV_SIGN_OFF_RECORDED \<longrightarrow> is_approved_sign_off_event e
        \<and> sign_off_backed r e \<and> conflict_settled r (es @ [e]))
     \<and> (ve_event_type e = PV_REPORT_ARCHIVE_RECORDED \<longrightarrow> signed_off_before (es @ [e]) (length es))"
    using a by (simp add: event_admissible_def signed_off_before_last)
  show ?thesis unfolding events_backed_def
  proof (intro allI impI)
    fix i assume "i < length (es @ [e])"
    then consider "i < length es" | "i = length es" by fastforce
    then show "(ve_event_type ((es @ [e]) ! i) = PV_SIGN_OFF_RECORDED \<longrightarrow> is_approved_sign_off_event ((es @ [e]) ! i)
        \<and> sign_off_backed r ((es @ [e]) ! i) \<and> conflict_settled r (es @ [e]))
     \<and> (ve_event_type ((es @ [e]) ! i) = PV_REPORT_ARCHIVE_RECORDED \<longrightarrow> signed_off_before (es @ [e]) i)"
    proof cases
      case 1
      then show ?thesis using old [OF 1] by (simp add: nth_append)
    next
      case 2
      then show ?thesis using new by simp
    qed
  qed
qed

lemma evaluation_ok_append:
  assumes ok: "evaluation_ok eid r es" and a: "event_admissible r es e"
  shows "evaluation_ok eid (attach_policy_evaluation_event r e) (es @ [e])"
proof -
  have "events_numbered (attach_policy_evaluation_event r e) (es @ [e])"
    using ok a by (auto simp: evaluation_ok_def events_numbered_def event_admissible_def nth_append less_Suc_eq)
  moreover have "events_backed (attach_policy_evaluation_event r e) (es @ [e])"
    using events_backed_append [OF _ a] ok by (simp add: evaluation_ok_def events_backed_def)
  moreover have "events_mirrored (attach_policy_evaluation_event r e) (es @ [e])"
    using ok by (simp add: evaluation_ok_def events_mirrored_def attach_policy_evaluation_event_def)
  ultimately show ?thesis using ok by (simp add: evaluation_ok_def)
qed

subsection \<open>Appending to the store\<close>

lemma push_policy_event_parts [simp]:
  "vs_records (push_policy_event s eid r es e k h) = dict_set eid (attach_policy_evaluation_event r e) (vs_records s)"
  "vs_events (push_policy_event s eid r es e k h) = dict_set eid (es @ [e]) (vs_events s)"
  "vs_identity_index (push_policy_event s eid r es e k h) = vs_identity_index s"
  by (simp_all add: push_policy_event_def)

lemma dict_list_set [simp]: "dict_list (dict_set k v d) k' = (if k' = k then v else dict_list d k')"
  by (simp add: dict_list_def)

lemma push_policy_event_idempotency:
  "dict_get (vs_idempotency (push_policy_event s eid r es e k h)) k' = Some v
     \<Longrightarrow> v = (h, eid, ve_event_id e) \<or> dict_get (vs_idempotency s) k' = Some v"
  by (auto simp: push_policy_event_def split: option.splits if_splits)

lemma attach_identity [simp]: "identity_of_record (attach_policy_evaluation_event r e) = identity_of_record r"
  by (simp add: identity_of_record_def)

lemma ledger_ok_push:
  assumes ok: "ledger_ok s" and r: "dict_get (vs_records s) eid = Some r"
    and es: "es = dict_list (vs_events s) eid" and a: "event_admissible r es e"
  shows "ledger_ok (push_policy_event s eid r es e k h)"
proof -
  have rec: "records_ok s" and idx: "indexes_ok s" using ok by (simp_all add: ledger_ok_def)
  have keys: "eid \<in> fst ` set (vs_records s)" "eid \<in> fst ` set (vs_events s)"
    using dict_get_in_keys [OF r] dict_get_in_keys [OF records_okD(2) [OF rec r]] by simp_all
  have ev: "evaluation_ok eid (attach_policy_evaluation_event r e) (es @ [e])"
    by (rule evaluation_ok_append [OF _ a]) (use records_okD(1) [OF rec r] es in simp)
  have "records_ok (push_policy_event s eid r es e k h)"
    using rec keys ev by (auto simp: records_ok_def)
  have index: "dict_get (vs_identity_index s) key = Some eid'
      \<longleftrightarrow> (\<exists>r. dict_get (vs_records s) eid' = Some r \<and> identity_of_record r = key)" for key eid'
    using idx unfolding indexes_ok_def by blast
  have "indexes_ok (push_policy_event s eid r es e k h)"
    unfolding indexes_ok_def
  proof (intro conjI allI impI)
    show "dict_wf (vs_idempotency (push_policy_event s eid r es e k h))"
      using idx by (auto simp: push_policy_event_def indexes_ok_def split: option.splits)
    show "dict_wf (vs_identity_index (push_policy_event s eid r es e k h))" using idx by (simp add: indexes_ok_def)
  next
    fix k' h' eid' i
    assume "dict_get (vs_idempotency (push_policy_event s eid r es e k h)) k' = Some (h', eid', i)"
    from push_policy_event_idempotency [OF this]
    show "i \<in> ve_event_id ` set (dict_list (vs_events (push_policy_event s eid r es e k h)) eid')"
      using idx by (auto simp: indexes_ok_def es)
  next
    fix key eid'
    show "dict_get (vs_identity_index (push_policy_event s eid r es e k h)) key = Some eid'
      \<longleftrightarrow> (\<exists>r'. dict_get (vs_records (push_policy_event s eid r es e k h)) eid' = Some r' \<and> identity_of_record r' = key)"
      using index [of key eid'] r by (cases "eid' = eid") simp_all
  qed
  with \<open>records_ok (push_policy_event s eid r es e k h)\<close> show ?thesis by (simp add: ledger_ok_def)
qed

end
