(* ===== verification/Ledger_Commands.thy ===== *)
theory Ledger_Commands
  imports Ledger_Facts
begin

text \<open>
  What each command of the policy evaluation store does, by cases on its outcome, and that each
  keeps the invariant of the store.
\<close>

subsection \<open>Audit events\<close>

lemma store_append_cases:
  assumes "store_append_policy_evaluation_event rt cal now s eid ty actor reason ikey authority = Inr (e, s')"
  obtains (replayed) "s' = s"
  | (appended) r es h where "dict_get (vs_records s) eid = Some r" and "dict_get (vs_events s) eid = Some es"
      and "validate_policy_evaluation_event_authority ty reason (vr_evaluation_hash r) authority = Inr ()"
      and "e = policy_event_of rt s now r ty actor ikey h reason"
      and "s' = push_policy_event s eid r es e ikey h"
proof -
  obtain r where r: "load_evaluation s eid = Inr r"
    using assms by (auto simp: store_append_policy_evaluation_event_def bind_error_Inr_iff simp del: load_evaluation_Inr)
  have v: "validate_policy_evaluation_event_authority ty reason (vr_evaluation_hash r) authority = Inr ()"
    using assms by (simp add: store_append_policy_evaluation_event_def r bind_error_Inr_iff del: load_evaluation_Inr)
  let ?h = "event_request_hash rt ty eid actor reason (vr_evaluation_hash r)"
  note run = assms [unfolded store_append_policy_evaluation_event_def r v bind_error_simps Let_def]
  obtain x where x: "(case ikey of None \<Rightarrow> Inr None | Some k \<Rightarrow> if k = [] then Inr None
      else find_replayed_policy_event rt cal s k ?h (RQ_Event ty actor eid (vr_evaluation_hash r) reason)) = Inr x"
    using run unfolding bind_error_Inr_iff by blast
  show ?thesis
  proof (cases x)
    case None
    have "dict_get (vs_records s) eid = Some r" using r by simp
    moreover obtain es where "dict_get (vs_events s) eid = Some es"
      and "e = policy_event_of rt s now r ty actor ikey ?h reason"
      and "s' = push_policy_event s eid r es e ikey ?h"
      using run by (auto simp: x None bind_error_Inr_iff)
    ultimately show ?thesis using v by (intro appended)
  next
    case (Some y)
    then show ?thesis using run by (simp add: x replayed split: prod.splits)
  qed
qed

lemma policy_event_of_fields [simp]:
  "ve_evaluation_id (policy_event_of rt s now r ty actor ikey h reason) = vr_evaluation_id r"
  "ve_event_type (policy_event_of rt s now r ty actor ikey h reason) = ty"
  "ve_actor_id (policy_event_of rt s now r ty actor ikey h reason) = actor"
  "ve_content_hash (policy_event_of rt s now r ty actor ikey h reason) = vr_evaluation_hash r"
  "ve_idempotency_key (policy_event_of rt s now r ty actor ikey h reason) = ikey"
  "ve_event_id (policy_event_of rt s now r ty actor ikey h reason)
     = ''peev_'' @ six_digits (Suc (length (dict_list (vs_events s) (vr_evaluation_id r))))"
  by (simp_all add: policy_event_of_def)

lemma policy_event_of_reason [simp]:
  "json_get (ve_reason_json (policy_event_of rt s now r ty actor ikey h reason)) k
     = (if k = ''persistence_contract_version'' then JStr persistence_contract_version
        else if k = ''idempotency_request_hash'' then JStr h else json_get reason k)"
  by (simp add: policy_event_of_def)

text \<open>What a privileged append has to be backed by.\<close>

definition append_backed ::
  "evaluation_record \<Rightarrow> policy_event list \<Rightarrow> policy_event_type \<Rightarrow> string \<Rightarrow> jobject \<Rightarrow> bool" where
  "append_backed r es ty actor reason \<longleftrightarrow>
     (ty = PV_SIGN_OFF_RECORDED \<longrightarrow> (\<forall>e. ve_event_type e = ty \<longrightarrow> ve_actor_id e = actor
        \<longrightarrow> (\<forall>k. k \<notin> {''persistence_contract_version'', ''idempotency_request_hash''}
              \<longrightarrow> json_get (ve_reason_json e) k = json_get reason k)
        \<longrightarrow> is_approved_sign_off_event e \<and> sign_off_backed r e \<and> conflict_settled r (es @ [e])))
     \<and> (ty = PV_REPORT_ARCHIVE_RECORDED \<longrightarrow> (\<exists>e'\<in>set es. is_approved_sign_off_event e'))"

lemma authority_not_finalized:
  "validate_policy_evaluation_event_authority ty reason h authority = Inr () \<Longrightarrow> ty \<noteq> PV_FINALIZED"
  by (auto simp: validate_policy_evaluation_event_authority_def)

lemma append_keeps_ledger:
  assumes ok: "ledger_ok s"
    and run: "store_append_policy_evaluation_event rt cal now s eid ty actor reason ikey authority = Inr (e, s')"
    and backed: "\<And>r. dict_get (vs_records s) eid = Some r
      \<Longrightarrow> append_backed r (dict_list (vs_events s) eid) ty actor reason"
  shows "ledger_ok s'"
  using run
proof (cases rule: store_append_cases)
  case replayed
  then show ?thesis using ok by simp
next
  case (appended r es h)
  have rec: "records_ok s" using ok by (simp add: ledger_ok_def)
  have es: "es = dict_list (vs_events s) eid" using appended(2) by (simp add: dict_list_def)
  have id: "vr_evaluation_id r = eid" using records_okD(1) [OF rec appended(1)] by (simp add: evaluation_ok_def)
  have "event_admissible r es e"
    unfolding event_admissible_def
  proof (intro conjI impI)
    assume "ve_event_type e = PV_SIGN_OFF_RECORDED"
    then have "is_approved_sign_off_event e \<and> sign_off_backed r e \<and> conflict_settled r (es @ [e])"
      using backed [OF appended(1)] appended(4) es by (simp add: append_backed_def)
    then show "is_approved_sign_off_event e" "sign_off_backed r e" "conflict_settled r (es @ [e])" by simp_all
  next
    assume "ve_event_type e = PV_REPORT_ARCHIVE_RECORDED"
    then show "\<exists>x\<in>set es. is_approved_sign_off_event x"
      using backed [OF appended(1)] appended(4) es by (simp add: append_backed_def)
  qed (use appended(4) id es authority_not_finalized [OF appended(3)] in simp_all)
  then show ?thesis using ledger_ok_push [OF ok appended(1) es] appended(5) by simp
qed

subsection \<open>Finalisation\<close>

lemma built_record_fields:
  assumes "evaluate_and_build_record rt cal c at ev pack pid vid actor ikey reason trace = Inr r"
    and "dict_get (kc_definitions c) pack = Some d" and "definition_key d = pack"
  shows "identity_of_record r = (pid, vid, fst pack, snd pack, hash_canonical_payload rt (JObj ev))"
    and "events_mirrored r []" and "vr_created_by r = actor"
  using assms
  by (auto simp: evaluate_and_build_record_def build_policy_evaluation_record_def bind_error_Inr_iff Let_def
      identity_of_record_def events_mirrored_def evaluate_policy_pack_version_def load_definition_Inr
      evaluate_policy_pack_detail_def summary_from_definition_def definition_key_def
      split: if_splits option.splits)

text \<open>A finalisation replays, finds the evaluation by its identity, or creates it.\<close>

lemma store_finalize_cases:
  assumes "store_finalize_policy_evaluation_record rt cal c built_at event_at s ev pack pid vid actor ikey reason trace
      = Inr (resp, s')"
  obtains (replayed) "s' = s" and "vf_replayed resp" and "\<not> vf_created resp"
      and "dict_get (vs_idempotency s) ikey \<noteq> None"
  | (known) eid es where "\<not> vf_created resp" and "\<not> vf_replayed resp"
      and "dict_get (vs_identity_index s) (pid, vid, fst pack, snd pack, hash_canonical_payload rt (JObj ev)) = Some eid"
      and "dict_get (vs_records s) eid = Some (vf_record resp)"
      and "dict_get (vs_events s) eid = Some es" and "es \<noteq> []" and "hd es = vf_audit_event resp"
      and "s' = s\<lparr>vs_idempotency := dict_set ikey (finalize_request_hash rt pid vid pack
          (hash_canonical_payload rt (JObj ev)) (idempotency_stable_reason reason), eid,
          ve_event_id (vf_audit_event resp)) (vs_idempotency s)\<rparr>"
  | (created) "vf_created resp"
      and "evaluate_and_build_record rt cal c built_at ev pack pid vid actor ikey reason trace = Inr (vf_record resp)"
      and "dict_get (vs_identity_index s) (pid, vid, fst pack, snd pack, hash_canonical_payload rt (JObj ev)) = None"
      and "vf_audit_event resp = policy_event_of rt s event_at (vf_record resp) PV_FINALIZED actor (Some ikey)
          (finalize_request_hash rt pid vid pack (hash_canonical_payload rt (JObj ev)) (idempotency_stable_reason reason))
          (finalized_event_reason (vf_record resp) reason)"
      and "s' = store_new_evaluation s (vf_record resp) (vf_audit_event resp)
          (pid, vid, fst pack, snd pack, hash_canonical_payload rt (JObj ev)) ikey
          (finalize_request_hash rt pid vid pack (hash_canonical_payload rt (JObj ev)) (idempotency_stable_reason reason))"
proof -
  let ?sh = "hash_canonical_payload rt (JObj ev)"
  let ?rh = "finalize_request_hash rt pid vid pack ?sh (idempotency_stable_reason reason)"
  obtain portfolio x where
    x: "find_replayed_policy_event rt cal s ikey ?rh (RQ_Finalize pid vid pack portfolio ?sh ev reason) = Inr x"
    and p: "portfolio_id_from_evidence ev = Inr portfolio"
    using assms by (auto simp: store_finalize_policy_evaluation_record_def Let_def bind_error_Inr_iff)
  note run = assms [unfolded store_finalize_policy_evaluation_record_def Let_def p x bind_error_simps]
  show ?thesis
  proof (cases x)
    case (Some y)
    then have "dict_get (vs_idempotency s) ikey \<noteq> None"
      using x by (cases "dict_get (vs_idempotency s) ikey") (simp_all add: find_replayed_policy_event_def)
    then show ?thesis using run Some by (auto intro!: replayed split: prod.splits)
  next
    case None
    show ?thesis
    proof (cases "dict_get (vs_identity_index s) (pid, vid, fst pack, snd pack, ?sh)")
      case None
      with run \<open>x = None\<close> show ?thesis by (auto simp: bind_error_Inr_iff intro!: created)
    next
      case (Some eid)
      with run \<open>x = None\<close> obtain r es where r: "load_evaluation s eid = Inr r" and es: "load_event_log s eid = Inr es"
        by (auto simp: bind_error_Inr_iff simp del: load_evaluation_Inr load_event_log_Inr)
      with run Some \<open>x = None\<close> have "es \<noteq> []" by (cases es) simp_all
      then obtain e es' where "es = e # es'" by (cases es) simp_all
      with run Some \<open>x = None\<close> r es have "vf_record resp = r" "vf_audit_event resp = e" "\<not> vf_created resp"
        "\<not> vf_replayed resp" "s' = s\<lparr>vs_idempotency := dict_set ikey (?rh, eid, ve_event_id e) (vs_idempotency s)\<rparr>"
        by (auto simp del: load_evaluation_Inr load_event_log_Inr)
      moreover have "dict_get (vs_records s) eid = Some r" "dict_get (vs_events s) eid = Some es" using r es by simp_all
      ultimately show ?thesis using Some \<open>es = e # es'\<close> by (intro known [of eid es]) simp_all
    qed
  qed
qed

lemma indexes_okD:
  assumes "indexes_ok s"
  shows "dict_get (vs_idempotency s) k = Some (h, eid, i) \<Longrightarrow> i \<in> ve_event_id ` set (dict_list (vs_events s) eid)"
    and "dict_get (vs_identity_index s) key = Some eid
      \<longleftrightarrow> (\<exists>r. dict_get (vs_records s) eid = Some r \<and> identity_of_record r = key)"
  using assms unfolding indexes_ok_def by blast+

lemma records_ok_no_log:
  assumes "records_ok s" and "dict_get (vs_records s) eid = None"
  shows "dict_get (vs_events s) eid = None" and "eid \<notin> fst ` set (vs_records s)" and "eid \<notin> fst ` set (vs_events s)"
proof -
  show k: "eid \<notin> fst ` set (vs_records s)" using assms(2) by (simp add: map_of_eq_None_iff)
  then show "eid \<notin> fst ` set (vs_events s)" using assms(1) unfolding records_ok_def by (metis list.set_map)
  then show "dict_get (vs_events s) eid = None" by (simp add: map_of_eq_None_iff)
qed

lemma remember_key_keeps_ledger:
  assumes "ledger_ok s" and "i \<in> ve_event_id ` set (dict_list (vs_events s) eid)"
  shows "ledger_ok (s\<lparr>vs_idempotency := dict_set k (h, eid, i) (vs_idempotency s)\<rparr>)"
  using assms indexes_okD(1) by (auto simp: ledger_ok_def records_ok_def indexes_ok_def)

lemma new_evaluation_keeps_ledger:
  assumes ok: "ledger_ok s" and fresh: "dict_get (vs_records s) (vr_evaluation_id r) = None"
    and key: "identity_of_record r = key" "dict_get (vs_identity_index s) key = None"
    and mir: "events_mirrored r []"
    and e: "ve_event_id e = ''peev_'' @ six_digits (Suc 0)" "ve_evaluation_id e = vr_evaluation_id r"
      "ve_content_hash e = vr_evaluation_hash r" "ve_event_type e = PV_FINALIZED"
  shows "ledger_ok (store_new_evaluation s r e key k h)"
proof -
  let ?eid = "vr_evaluation_id r" and ?s = "store_new_evaluation s r e key k h"
  have rec: "records_ok s" and idx: "indexes_ok s" using ok by (simp_all add: ledger_ok_def)
  note none = records_ok_no_log [OF rec fresh]
  have "evaluation_ok ?eid r [e]"
    using mir e by (simp add: evaluation_ok_def events_numbered_def events_backed_def events_mirrored_def)
  moreover have "map fst (vs_events ?s) = map fst (vs_records ?s)"
    using rec none by (simp add: records_ok_def store_new_evaluation_def dict_set_new)
  ultimately have "records_ok ?s"
    using rec by (auto simp: records_ok_def store_new_evaluation_def split: if_splits)
  moreover have "indexes_ok ?s"
    unfolding indexes_ok_def
  proof (intro conjI allI impI)
    show "dict_wf (vs_idempotency ?s)" "dict_wf (vs_identity_index ?s)"
      using idx by (simp_all add: indexes_ok_def store_new_evaluation_def)
  next
    fix k' h' eid' i assume "dict_get (vs_idempotency ?s) k' = Some (h', eid', i)"
    then have "eid' = ?eid \<and> i = ve_event_id e \<or> dict_get (vs_idempotency s) k' = Some (h', eid', i)"
      by (auto simp: store_new_evaluation_def split: if_splits)
    then show "i \<in> ve_event_id ` set (dict_list (vs_events ?s) eid')"
    proof
      assume "dict_get (vs_idempotency s) k' = Some (h', eid', i)"
      from indexes_okD(1) [OF idx this] none(1) show ?thesis
        by (auto simp: store_new_evaluation_def dict_list_def)
    qed (simp add: store_new_evaluation_def)
  next
    fix key' eid'
    show "dict_get (vs_identity_index ?s) key' = Some eid'
      \<longleftrightarrow> (\<exists>r. dict_get (vs_records ?s) eid' = Some r \<and> identity_of_record r = key')"
    proof (cases "key' = key")
      case True
      then show ?thesis using key indexes_okD(2) [OF idx, of key eid'] by (auto simp: store_new_evaluation_def)
    next
      case False
      then show ?thesis using key fresh indexes_okD(2) [OF idx, of key' eid'] by (auto simp: store_new_evaluation_def)
    qed
  qed
  ultimately show ?thesis by (simp add: ledger_ok_def)
qed

text \<open>
  The identifier of an evaluation is a digest cut to 20 digits; two evaluations of different
  identity with one identifier would share a record.  The premise \<open>fresh\<close> excludes that.
\<close>

lemma finalize_keeps_ledger:
  assumes ok: "ledger_ok s" and cat: "catalog_ok rt defs0 c"
    and run: "store_finalize_policy_evaluation_record rt cal c built_at event_at s ev pack pid vid actor ikey reason trace
      = Inr (resp, s')"
    and fresh: "vf_created resp \<Longrightarrow> dict_get (vs_records s) (vr_evaluation_id (vf_record resp)) = None"
  shows "ledger_ok s'"
  using run
proof (cases rule: store_finalize_cases)
  case replayed
  then show ?thesis using ok by simp
next
  case (known eid es)
  then have "vf_audit_event resp \<in> set (dict_list (vs_events s) eid)" by (metis dict_list_def hd_in_set option.simps(5))
  then show ?thesis using known ok by (simp add: remember_key_keeps_ledger)
next
  case created
  obtain d where d: "dict_get (kc_definitions c) pack = Some d"
    using created(2) by (auto simp: evaluate_and_build_record_def bind_error_Inr_iff load_definition_Inr)
  then have "definition_key d = pack"
    by (rule catalog_ok_versionD [OF cat]) (simp add: version_ok_def)
  note built = built_record_fields [OF created(2) d this]
  have "dict_get (vs_events s) (vr_evaluation_id (vf_record resp)) = None"
    using records_ok_no_log(1) fresh created(1) ok by (simp add: ledger_ok_def)
  then show ?thesis
    unfolding created(5)
    by (intro new_evaluation_keeps_ledger ok fresh created(1) built created(3))
      (simp_all add: created(4) dict_list_def)
qed

end
