(* ===== verification/Sign_Off_Facts.thy ===== *)
theory Sign_Off_Facts
  imports Ledger_Commands
begin

text \<open>
  The workflow projection against the log: what a sign-off decision is checked for, and why an
  evaluation that is signed off has no blocker left.
\<close>

subsection \<open>The parts of a projection\<close>

lemma fold_error_collect:
  "fold_error (\<lambda>x ys. bind_error (f x) (\<lambda>y. Inr (ys @ [y]))) xs acc = Inr zs
     \<longleftrightarrow> (\<exists>ys. zs = acc @ ys \<and> list_all2 (\<lambda>x y. f x = Inr y) xs ys)"
  by (induction xs arbitrary: acc) (auto simp: bind_error_Inr_iff list_all2_Cons1)

lemma map_error_Inr_iff: "map_error f xs = Inr ys \<longleftrightarrow> list_all2 (\<lambda>x y. f x = Inr y) xs ys"
  by (simp add: map_error_def fold_error_collect)

lemma map_error_all:
  assumes "map_error f xs = Inr ys" and "\<And>x y. x \<in> set xs \<Longrightarrow> f x = Inr y \<Longrightarrow> P y"
  shows "\<forall>y\<in>set ys. P y"
proof -
  have "list_all2 (\<lambda>x y. f x = Inr y) xs ys" using assms(1) by (simp add: map_error_Inr_iff)
  then show ?thesis using assms(2) by (induction rule: list_all2_induct) auto
qed

lemma workflow_parts:
  assumes "build_policy_evaluation_workflow_projection rt cal now r es pub = Inr w"
  obtains approvals disclosures consents where
    "conflict_posture_for_workflow r es = Inr (ww_conflict_posture w)"
    and "approval_requirement_projections rt now r (approved_sign_off_values es ''resolved_approval_dependencies'') = Inr approvals"
    and "fixed_owner_requirement_projections rt now r ''disclosure'' ''INVESTMENT_COUNSELLOR''
      (approved_sign_off_values es ''satisfied_disclosure_requirements'') (vr_disclosure_requirements r) = Inr disclosures"
    and "fixed_owner_requirement_projections rt now r ''consent'' ''ADVISOR''
      (approved_sign_off_values es ''satisfied_consent_requirements'') (vr_consent_requirements r) = Inr consents"
    and "ww_sign_off_blockers w = workflow_blockers r (approvals @ disclosures @ consents) (ww_conflict_posture w)"
    and "ww_sign_off_status w = sign_off_status_of (ww_sign_off_blockers w) (latest_sign_off_event es) (vr_evaluation_status r)"
  using assms unfolding build_policy_evaluation_workflow_projection_def bind_error_Inr_iff Let_def
  by (elim exE conjE) auto

lemma conflict_posture_status:
  assumes "conflict_posture_for_workflow r es = Inr c"
  shows "wc_status c \<noteq> ''BLOCKED'' \<longleftrightarrow> conflict_settled r es"
  using assms by (auto simp: conflict_posture_for_workflow_def conflict_settled_def bind_error_Inr_iff Let_def
      split: if_splits prod.splits)

subsection \<open>A recorded approval is backed\<close>

lemma missing_requirements_Nil: "missing_requirement_blockers needed given p = [] \<longleftrightarrow> set needed \<subseteq> set given"
proof -
  have "sort xs = [] \<longleftrightarrow> xs = []" for xs :: "string list" by (metis length_0_conv length_sort)
  then show ?thesis by (auto simp: missing_requirement_blockers_def filter_empty_conv)
qed

lemma validated_decision:
  assumes "validate_policy_sign_off_decision r w p = Inr ()" and "wd_decision p = SD_APPROVE"
  shows "wd_actor_id p \<noteq> vr_created_by r" and "vr_evaluation_status r \<noteq> PS_BLOCKED"
    and "set (vr_approval_dependencies r) \<subseteq> set (wd_resolved_approval_dependencies p)"
    and "set (vr_disclosure_requirements r) \<subseteq> set (wd_satisfied_disclosure_requirements p)"
    and "set (vr_consent_requirements r) \<subseteq> set (wd_satisfied_consent_requirements p)"
    and "wc_status (ww_conflict_posture w) = ''BLOCKED''
      \<Longrightarrow> wd_conflict_review_outcome p = Some ''NO_MATERIAL_CONFLICT_REMAINING''"
  using assms
  by (auto simp: validate_policy_sign_off_decision_def approval_blockers_def workflow_posture_blockers_def
      missing_requirements_Nil split: if_splits)

lemma sign_off_reason_fields [simp]:
  "json_get (sign_off_event_reason p) ''decision'' = JStr (sign_off_decision_name (wd_decision p))"
  "json_get (sign_off_event_reason p) ''source_evaluation_hash'' = JStr (wd_source_evaluation_hash p)"
  "json_get (sign_off_event_reason p) ''resolved_approval_dependencies'' = json_strs (wd_resolved_approval_dependencies p)"
  "json_get (sign_off_event_reason p) ''satisfied_disclosure_requirements'' = json_strs (wd_satisfied_disclosure_requirements p)"
  "json_get (sign_off_event_reason p) ''satisfied_consent_requirements'' = json_strs (wd_satisfied_consent_requirements p)"
  "json_get (sign_off_event_reason p) ''conflict_review_outcome'' = json_opt JStr (wd_conflict_review_outcome p)"
  by (simp_all add: sign_off_event_reason_def json_get_def)

lemma py_str_JStr [simp]: "py_str (JStr x) = x"
  by (simp add: py_str_def)

lemma approval_backed:
  assumes w: "build_policy_evaluation_workflow_projection rt cal now r es pub = Inr w"
    and v: "validate_policy_sign_off_decision r w p = Inr ()"
    and h: "wd_source_evaluation_hash p = vr_evaluation_hash r"
  shows "append_backed r es (if wd_decision p = SD_APPROVE then PV_SIGN_OFF_RECORDED else PV_REVIEW_RECORDED)
    (wd_actor_id p) (sign_off_event_reason p)"
proof (cases "wd_decision p = SD_APPROVE")
  case True
  note val = validated_decision [OF v True]
  have conflict: "conflict_posture_for_workflow r es = Inr (ww_conflict_posture w)"
    using w by (rule workflow_parts)
  have "is_approved_sign_off_event e \<and> sign_off_backed r e \<and> conflict_settled r (es @ [e])"
    if e: "ve_event_type e = PV_SIGN_OFF_RECORDED" "ve_actor_id e = wd_actor_id p"
      and k: "\<And>k. k \<notin> {''persistence_contract_version'', ''idempotency_request_hash''}
        \<Longrightarrow> json_get (ve_reason_json e) k = json_get (sign_off_event_reason p) k" for e
  proof -
    have "is_approved_sign_off_event e" using True e(1) k [of "''decision''"] by (simp add: is_approved_sign_off_event_def)
    moreover have "sign_off_backed r e"
      using val(1-5) e k [of "''source_evaluation_hash''"] k [of "''resolved_approval_dependencies''"]
        k [of "''satisfied_disclosure_requirements''"] k [of "''satisfied_consent_requirements''"] h
      by (simp add: sign_off_backed_def sign_off_reason_values_def comp_def)
    moreover have "conflict_settled r (es @ [e])"
    proof (cases "wc_status (ww_conflict_posture w) = ''BLOCKED''")
      case True
      then have "json_get (ve_reason_json e) ''conflict_review_outcome'' = JStr ''NO_MATERIAL_CONFLICT_REMAINING''"
        using k [of "''conflict_review_outcome''"] val(6) by (simp add: json_opt_def)
      then have "material_conflict_resolved (conflict_review_outcomes (es @ [e]))"
        by (simp add: material_conflict_resolved_def conflict_review_outcomes_def)
      then show ?thesis by (auto simp: conflict_settled_def split: sum.splits)
    next
      case False
      then show ?thesis using conflict_posture_status [OF conflict] by (simp add: conflict_settled_append)
    qed
    ultimately show ?thesis by simp
  qed
  then show ?thesis using True by (simp add: append_backed_def)
qed (simp add: append_backed_def)

subsection \<open>Signed off means nothing is open\<close>

lemma latest_sign_off_in: "latest_sign_off_event es = Some e \<Longrightarrow> e \<in> set es \<and> ve_event_type e = PV_SIGN_OFF_RECORDED"
  by (auto simp: latest_sign_off_event_def latest_of_type_def Let_def split: if_splits dest!: last_in_set)

lemma signed_off_status: "sign_off_status_of b latest st = ''SIGNED_OFF''
    \<longleftrightarrow> (\<exists>e. latest = Some e \<and> is_approved_sign_off_event e)"
  by (auto simp: sign_off_status_of_def split: option.splits)

lemma approved_value:
  assumes "e \<in> set es" and "is_approved_sign_off_event e" and "x \<in> set (sign_off_reason_values e k)"
  shows "x \<in> set (approved_sign_off_values es k)"
  using assms by (auto simp: approved_sign_off_values_def)

lemma requirement_projection_satisfied:
  "requirement_projection rt now g ty owner sat rid = Inr q \<Longrightarrow> wq_satisfied q = sat"
  by (auto simp: requirement_projection_def bind_error_Inr_iff Let_def)

lemma no_open_blockers: "\<forall>q\<in>set qs. wq_satisfied q \<Longrightarrow> open_requirement_blockers qs = []"
  by (simp add: open_requirement_blockers_def)

lemma signed_off_clear:
  assumes ok: "evaluation_ok eid r es"
    and w: "build_policy_evaluation_workflow_projection rt cal now r es pub = Inr w"
    and so: "ww_sign_off_status w = ''SIGNED_OFF''"
  shows "ww_sign_off_blockers w = []" and "\<exists>e\<in>set es. is_approved_sign_off_event e \<and> sign_off_backed r e"
proof -
  obtain approvals disclosures consents where
    c: "conflict_posture_for_workflow r es = Inr (ww_conflict_posture w)"
    and a: "approval_requirement_projections rt now r (approved_sign_off_values es ''resolved_approval_dependencies'') = Inr approvals"
    and d: "fixed_owner_requirement_projections rt now r ''disclosure'' ''INVESTMENT_COUNSELLOR''
      (approved_sign_off_values es ''satisfied_disclosure_requirements'') (vr_disclosure_requirements r) = Inr disclosures"
    and n: "fixed_owner_requirement_projections rt now r ''consent'' ''ADVISOR''
      (approved_sign_off_values es ''satisfied_consent_requirements'') (vr_consent_requirements r) = Inr consents"
    and b: "ww_sign_off_blockers w = workflow_blockers r (approvals @ disclosures @ consents) (ww_conflict_posture w)"
    and st: "ww_sign_off_status w = sign_off_status_of (ww_sign_off_blockers w) (latest_sign_off_event es) (vr_evaluation_status r)"
    using w by (rule workflow_parts)
  obtain e where e: "e \<in> set es" "ve_event_type e = PV_SIGN_OFF_RECORDED" "is_approved_sign_off_event e"
    using so st latest_sign_off_in by (auto simp: signed_off_status)
  then have backed: "sign_off_backed r e" "conflict_settled r es"
    using ok by (auto simp: evaluation_ok_def events_backed_def in_set_conv_nth)
  note approved = approved_value [OF e(1,3)]
  have "\<forall>q\<in>set approvals. wq_satisfied q"
    using a backed(1) unfolding approval_requirement_projections_def
    by (rule_tac map_error_all) (auto dest!: requirement_projection_satisfied simp: sign_off_backed_def intro: approved)
  moreover have "\<forall>q\<in>set disclosures. wq_satisfied q"
    using d backed(1) unfolding fixed_owner_requirement_projections_def
    by (rule_tac map_error_all) (auto dest!: requirement_projection_satisfied simp: sign_off_backed_def intro: approved)
  moreover have "\<forall>q\<in>set consents. wq_satisfied q"
    using n backed(1) unfolding fixed_owner_requirement_projections_def
    by (rule_tac map_error_all) (auto dest!: requirement_projection_satisfied simp: sign_off_backed_def intro: approved)
  ultimately have "open_requirement_blockers (approvals @ disclosures @ consents) = []"
    by (intro no_open_blockers) auto
  moreover have "wc_status (ww_conflict_posture w) \<noteq> ''BLOCKED''"
    using conflict_posture_status [OF c] backed(2) by simp
  moreover have "vr_evaluation_status r \<noteq> PS_BLOCKED" using backed(1) by (simp add: sign_off_backed_def)
  ultimately show "ww_sign_off_blockers w = []" by (simp add: b workflow_blockers_def unique_strings_def)
  show "\<exists>e\<in>set es. is_approved_sign_off_event e \<and> sign_off_backed r e" using e backed(1) by blast
qed

end
