(* ===== verification/Policy_System.thy ===== *)
theory Policy_System
  imports Sign_Off_Facts
begin

text \<open>
  The policy system as a step relation over the catalog and the evaluation store: validation and
  activation of packs, finalisation, review events without authority (the only ones the application
  service lets a caller append, \<open>application_service.py\<close>), sign-off decisions, report packages and
  AI evidence.  Invariants by rule induction.
\<close>

subsection \<open>Each service keeps the store sound\<close>

lemma append_as_store: "append_policy_evaluation_event rt cal now s eid ty actor reason ikey authority
    = store_append_policy_evaluation_event rt cal now s eid ty actor reason
        (normalize_optional_idempotency_key ikey) authority"
  by (simp add: append_policy_evaluation_event_def)

lemma review_keeps_ledger:
  assumes ok: "ledger_ok s"
    and run: "append_policy_evaluation_event rt cal now s eid ty actor reason ikey None = Inr (e, s')"
  shows "ledger_ok s'"
proof (cases "ty = PV_REVIEW_RECORDED")
  case True
  then show ?thesis
    by (intro append_keeps_ledger [OF ok run [unfolded append_as_store]]) (simp add: append_backed_def)
next
  case False
  from run [unfolded append_as_store] show ?thesis
  proof (cases rule: store_append_cases)
    case (appended r es h)
    with False show ?thesis by (simp add: validate_policy_evaluation_event_authority_def split: if_splits)
  qed (use ok in simp)
qed

text \<open>A decision that is stored was checked against the workflow of its record.\<close>

lemma sign_off_stored:
  assumes run: "record_policy_evaluation_sign_off_decision rt cal t1 t2 s eid p ikey = (res, s')"
  obtains (refused) "s' = s"
  | (stored) r es w e where "dict_get (vs_records s) eid = Some r"
      and "list_policy_evaluation_events s eid = Inr es"
      and "wd_source_evaluation_hash p = vr_evaluation_hash r"
      and "build_policy_evaluation_workflow_projection rt cal t1 r es policy_client_ready_publication = Inr w"
      and "validate_policy_sign_off_decision r w p = Inr ()"
      and "append_policy_evaluation_event rt cal t2 s eid
        (if wd_decision p = SD_APPROVE then PV_SIGN_OFF_RECORDED else PV_REVIEW_RECORDED) (wd_actor_id p)
        (sign_off_event_reason p) (normalize_optional_idempotency_key ikey)
        (if wd_decision p = SD_APPROVE then Some policy_sign_off_event_authority else None) = Inr (e, s')"
  using run
  by (auto simp: record_policy_evaluation_sign_off_decision_def Let_def bind_error_Inr_iff
      split: sum.splits if_splits prod.splits)

lemma sign_off_keeps_ledger:
  assumes ok: "ledger_ok s"
    and run: "record_policy_evaluation_sign_off_decision rt cal t1 t2 s eid p ikey = (res, s')"
  shows "ledger_ok s'"
  using run
proof (cases rule: sign_off_stored)
  case (stored r es w e)
  have "es = dict_list (vs_events s) eid" using list_policy_events_ok [OF ok stored(1)] stored(2) by simp
  then show ?thesis
    using stored(1) approval_backed [OF stored(4,5,3)]
    by (intro append_keeps_ledger [OF ok stored(6) [unfolded append_as_store]]) simp
qed (use ok in simp)

lemma workflow_of_log:
  assumes ok: "ledger_ok s" and r: "dict_get (vs_records s) eid = Some r"
  shows "get_policy_evaluation_workflow rt cal now s eid
    = build_policy_evaluation_workflow_projection rt cal now r (dict_list (vs_events s) eid) policy_client_ready_publication"
proof -
  have "load_evaluation s eid = Inr r" using r by simp
  then show ?thesis by (simp add: get_policy_evaluation_workflow_def list_policy_events_ok [OF ok r] del: load_evaluation_Inr)
qed

lemma workflow_record:
  "get_policy_evaluation_workflow rt cal now s eid = Inr w \<Longrightarrow> \<exists>r. dict_get (vs_records s) eid = Some r"
  by (auto simp: get_policy_evaluation_workflow_def bind_error_Inr_iff)

lemma signed_off_workflow:
  assumes ok: "ledger_ok s" and w: "get_policy_evaluation_workflow rt cal now s eid = Inr w"
    and so: "ww_sign_off_status w = ''SIGNED_OFF''"
  obtains r e where "dict_get (vs_records s) eid = Some r" and "e \<in> set (dict_list (vs_events s) eid)"
    and "is_approved_sign_off_event e" and "sign_off_backed r e" and "ww_sign_off_blockers w = []"
proof -
  obtain r where r: "dict_get (vs_records s) eid = Some r" using workflow_record [OF w] by blast
  have "evaluation_ok eid r (dict_list (vs_events s) eid)"
    using records_okD(1) r ok by (simp add: ledger_ok_def)
  from signed_off_clear [OF this w [unfolded workflow_of_log [OF ok r]] so] that [OF r] show thesis by blast
qed

text \<open>What is handed to the reporting service comes from a signed-off evaluation.\<close>

lemma report_request_sent:
  assumes ok: "ledger_ok s"
    and run: "prepare_report_package rt cal clock s eid p rid key = Inr (r, RK_SEND req)"
  shows "dict_get (vs_records s) eid = Some r" and "xa_source_evaluation_hash p = vr_evaluation_hash r"
    and "\<not> xa_client_ready_document_requested p" and "requested_supported_output_formats p \<noteq> []"
    and "\<exists>w. get_policy_evaluation_workflow rt cal (clock 0) s eid = Inr w \<and> ww_sign_off_status w = ''SIGNED_OFF''"
    and "xb_evaluation (xd_policy_sign_off_package req) = r"
    and "get_policy_evaluation_workflow rt cal (clock 1) s eid = Inr (xb_workflow (xd_policy_sign_off_package req))"
    and "xb_audit_events (xd_policy_sign_off_package req) = dict_list (vs_events s) eid"
proof -
  have r: "dict_get (vs_records s) eid = Some r"
    and v: "validate_report_request rt cal (clock 0) s r p = Inr ()"
    and b: "build_policy_sign_off_package rt cal (clock 1) s r p = Inr (xd_policy_sign_off_package req)"
    using run by (auto simp: prepare_report_package_def bind_error_Inr_iff split: option.splits)
  have id: "vr_evaluation_id r = eid" using records_okD(1) [OF _ r] ok by (simp add: ledger_ok_def evaluation_ok_def)
  show "dict_get (vs_records s) eid = Some r" by (rule r)
  show "xa_source_evaluation_hash p = vr_evaluation_hash r" "\<not> xa_client_ready_document_requested p"
    "requested_supported_output_formats p \<noteq> []"
    and "\<exists>w. get_policy_evaluation_workflow rt cal (clock 0) s eid = Inr w \<and> ww_sign_off_status w = ''SIGNED_OFF''"
    using v id by (auto simp: validate_report_request_def bind_error_Inr_iff split: if_splits)
  show "xb_evaluation (xd_policy_sign_off_package req) = r"
    "get_policy_evaluation_workflow rt cal (clock 1) s eid = Inr (xb_workflow (xd_policy_sign_off_package req))"
    "xb_audit_events (xd_policy_sign_off_package req) = dict_list (vs_events s) eid"
    using b id list_policy_events_ok [OF ok r]
    by (cases "xd_policy_sign_off_package req"; auto simp: build_policy_sign_off_package_def bind_error_Inr_iff)+
qed

lemma report_stored:
  assumes run: "request_policy_evaluation_report_package rt cal clock client s eid p rid ikey = (res, s')"
  obtains (unchanged) "s' = s"
  | (stored) r req report e where
      "prepare_report_package rt cal clock s eid p rid (normalize_optional_idempotency_key ikey) = Inr (r, RK_SEND req)"
      and "append_policy_evaluation_event rt cal (clock 3) s eid PV_REPORT_ARCHIVE_RECORDED (xa_requested_by p)
        (report_event_reason r p (report_package_request_hash rt r p) (xd_policy_sign_off_package req) report)
        (normalize_optional_idempotency_key ikey) (Some policy_report_package_event_authority) = Inr (e, s')"
  using run
  by (auto simp: request_policy_evaluation_report_package_def Let_def bind_error_Inr_iff
      split: sum.splits prod.splits report_step.splits)

lemma report_keeps_ledger:
  assumes ok: "ledger_ok s"
    and run: "request_policy_evaluation_report_package rt cal clock client s eid p rid ikey = (res, s')"
  shows "ledger_ok s'"
  using run
proof (cases rule: report_stored)
  case (stored r req report e)
  obtain w where w: "get_policy_evaluation_workflow rt cal (clock 0) s eid = Inr w" "ww_sign_off_status w = ''SIGNED_OFF''"
    using report_request_sent(5) [OF ok stored(1)] by blast
  obtain x where "x \<in> set (dict_list (vs_events s) eid)" "is_approved_sign_off_event x"
    using signed_off_workflow [OF ok w] by blast
  then show ?thesis
    by (intro append_keeps_ledger [OF ok stored(2) [unfolded append_as_store]]) (auto simp: append_backed_def)
qed (use ok in simp)

lemma ai_stored:
  assumes run: "request_policy_evaluation_ai_evidence rt cal t1 t2 client s eid p ikey = (res, s')"
  obtains (unchanged) "s' = s"
  | (stored) h st actions draft e where
      "append_policy_evaluation_event rt cal t2 s eid PV_AI_EVIDENCE_RECORDED (xg_requested_by p)
        (ai_event_reason h st actions draft p) (normalize_optional_idempotency_key ikey)
        (Some policy_ai_evidence_event_authority) = Inr (e, s')"
  using run
  by (auto simp: request_policy_evaluation_ai_evidence_def Let_def bind_error_Inr_iff
      split: sum.splits prod.splits ai_step.splits)

lemma ai_keeps_ledger:
  assumes ok: "ledger_ok s"
    and run: "request_policy_evaluation_ai_evidence rt cal t1 t2 client s eid p ikey = (res, s')"
  shows "ledger_ok s'"
  using run
proof (cases rule: ai_stored)
  case (stored h st actions draft e)
  then show ?thesis
    by (intro append_keeps_ledger [OF ok stored [unfolded append_as_store]]) (simp add: append_backed_def)
qed (use ok in simp)

subsection \<open>Steps\<close>

text \<open>
  The premise of \<open>finalized\<close> excludes that the cut digest of a new evaluation is that of a stored one.
\<close>

inductive policy_step :: "runtime \<Rightarrow> calendar \<Rightarrow> policy_catalog \<times> policy_store \<Rightarrow> policy_catalog \<times> policy_store \<Rightarrow> bool"
  for rt cal where
  validated: "validate_policy_pack_version rt now pack actor key reason c = Inr (v, c')
    \<Longrightarrow> policy_step rt cal (c, s) (c', s)"
| activated: "activate_policy_pack_version rt now pack actor h key reason c = Inr (a, c')
    \<Longrightarrow> policy_step rt cal (c, s) (c', s)"
| finalized: "finalize_policy_evaluation_record rt cal c built_at event_at s ev pack pid vid actor key reason' trace
      = Inr (f, s')
    \<Longrightarrow> (vf_created f \<Longrightarrow> dict_get (vs_records s) (vr_evaluation_id (vf_record f)) = None)
    \<Longrightarrow> policy_step rt cal (c, s) (c, s')"
| reviewed: "append_policy_evaluation_event rt cal now s eid ty actor reason key None = Inr (e, s')
    \<Longrightarrow> policy_step rt cal (c, s) (c, s')"
| decided: "record_policy_evaluation_sign_off_decision rt cal t1 t2 s eid p key = (d, s')
    \<Longrightarrow> policy_step rt cal (c, s) (c, s')"
| reported: "request_policy_evaluation_report_package rt cal clock rclient s eid q rid key = (g, s')
    \<Longrightarrow> policy_step rt cal (c, s) (c, s')"
| explained: "request_policy_evaluation_ai_evidence rt cal t1 t2 aclient s eid b key = (i, s')
    \<Longrightarrow> policy_step rt cal (c, s) (c, s')"

inductive policy_reachable :: "runtime \<Rightarrow> calendar \<Rightarrow> jobject list \<Rightarrow> policy_catalog \<times> policy_store \<Rightarrow> bool"
  for rt cal defs where
  start: "one_active (kc_definitions (new_catalog rt defs))
    \<Longrightarrow> policy_reachable rt cal defs (new_catalog rt defs, empty_policy_store)"
| later: "policy_reachable rt cal defs x \<Longrightarrow> policy_step rt cal x y \<Longrightarrow> policy_reachable rt cal defs y"

lemma policy_step_catalog:
  assumes "policy_step rt cal x y" and "catalog_reachable rt defs (fst x)"
  shows "catalog_reachable rt defs (fst y)"
  using assms by cases (auto intro: catalog_reachable.validated catalog_reachable.activated)

lemma policy_step_ledger:
  assumes "policy_step rt cal x y" and "catalog_ok rt defs0 (fst x)" and "ledger_ok (snd x)"
  shows "ledger_ok (snd y)"
  using assms(1)
proof cases
  case (finalized c built_at event_at s ev pack pid vid actor key reason trace f s')
  with assms(2,3) show ?thesis
    by (auto simp: finalize_policy_evaluation_record_def bind_error_Inr_iff intro: finalize_keeps_ledger)
qed (use assms(3) in \<open>auto intro: review_keeps_ledger sign_off_keeps_ledger report_keeps_ledger ai_keeps_ledger\<close>)

lemma policy_reachable_ok:
  "policy_reachable rt cal defs x \<Longrightarrow> catalog_reachable rt defs (fst x) \<and> ledger_ok (snd x)"
proof (induction rule: policy_reachable.induct)
  case start
  then show ?case by (simp add: ledger_ok_empty catalog_reachable.initial)
next
  case (later x y)
  then show ?case using policy_step_catalog policy_step_ledger reachable_catalog_ok by blast
qed

end
