(* ===== verification/Policy_History.thy ===== *)
theory Policy_History
  imports Policy_System
begin

text \<open>
  What survives the steps of the policy system: the evaluated content of a record and its log, and
  the content of a policy version.  From both: a replay of the same evidence is an exact match
  whatever became of the version, and a finalisation repeated under its key changes nothing.
\<close>

subsection \<open>Records and logs\<close>

text \<open>A record without the lists that mirror its log.\<close>

definition evaluation_core :: "evaluation_record \<Rightarrow> evaluation_record" where
  "evaluation_core r = r\<lparr>vr_review_events_json := [], vr_sign_off_events_json := [], vr_report_archive_refs_json := []\<rparr>"

definition evaluations_extend :: "policy_store \<Rightarrow> policy_store \<Rightarrow> bool" where
  "evaluations_extend s s' \<longleftrightarrow> (\<forall>eid r. dict_get (vs_records s) eid = Some r
     \<longrightarrow> (\<exists>r' new. dict_get (vs_records s') eid = Some r' \<and> evaluation_core r' = evaluation_core r
           \<and> dict_list (vs_events s') eid = dict_list (vs_events s) eid @ new))"

lemma core_attach [simp]: "evaluation_core (attach_policy_evaluation_event r e) = evaluation_core r"
  by (simp add: evaluation_core_def attach_policy_evaluation_event_def)

lemma extend_refl [simp]: "evaluations_extend s s"
  by (simp add: evaluations_extend_def)

lemma extend_trans: "evaluations_extend s s' \<Longrightarrow> evaluations_extend s' s'' \<Longrightarrow> evaluations_extend s s''"
  unfolding evaluations_extend_def by (metis append.assoc)

lemma append_extends:
  assumes "append_policy_evaluation_event rt cal now s eid ty actor reason ikey authority = Inr (e, s')"
  shows "evaluations_extend s s'"
  using assms [unfolded append_as_store]
proof (cases rule: store_append_cases)
  case (appended r es h)
  then have "dict_list (vs_events s) eid = es" by (simp add: dict_list_def)
  then show ?thesis using appended by (auto simp: evaluations_extend_def)
qed simp

lemma finalize_extends:
  assumes run: "store_finalize_policy_evaluation_record rt cal c built_at event_at s ev pack pid vid actor ikey reason trace
      = Inr (resp, s')"
    and fresh: "vf_created resp \<Longrightarrow> dict_get (vs_records s) (vr_evaluation_id (vf_record resp)) = None"
  shows "evaluations_extend s s'"
  using run
proof (cases rule: store_finalize_cases)
  case created
  then show ?thesis using fresh [OF created(1)]
    by (auto simp: evaluations_extend_def store_new_evaluation_def)
qed (simp_all add: evaluations_extend_def)

lemma policy_step_extends:
  assumes "policy_step rt cal x y"
  shows "evaluations_extend (snd x) (snd y)"
  using assms
proof cases
  case (finalized c built_at event_at s ev pack pid vid actor key reason trace f s')
  then show ?thesis
    by (auto simp: finalize_policy_evaluation_record_def bind_error_Inr_iff intro: finalize_extends)
next
  case (decided t1 t2 s eid p key d s' c)
  then show ?thesis by (auto elim: sign_off_stored intro: append_extends)
next
  case (reported clock rclient s eid q rid key g s' c)
  then show ?thesis by (auto elim: report_stored intro: append_extends)
next
  case (explained t1 t2 aclient s eid b key i s' c)
  then show ?thesis by (auto elim: ai_stored intro: append_extends)
qed (auto intro: append_extends)

lemma policy_steps_extend: "(policy_step rt cal)\<^sup>*\<^sup>* x y \<Longrightarrow> evaluations_extend (snd x) (snd y)"
  by (induction rule: rtranclp_induct) (auto intro: extend_trans policy_step_extends)

subsection \<open>Versions\<close>

text \<open>A version in use stays in use or is superseded; nothing else of it changes.\<close>

definition in_use :: "jobject \<Rightarrow> bool" where
  "in_use d \<longleftrightarrow> json_get d ''activation_state'' \<in> {JStr ''ACTIVE'', JStr ''SUPERSEDED''}"

definition same_pack :: "jobject \<Rightarrow> jobject \<Rightarrow> bool" where
  "same_pack d d' \<longleftrightarrow> (\<forall>f. f \<noteq> ''activation_state'' \<longrightarrow> json_get d' f = json_get d f)"

definition versions_evolve :: "policy_catalog \<Rightarrow> policy_catalog \<Rightarrow> bool" where
  "versions_evolve c c' \<longleftrightarrow> (\<forall>k d. dict_get (kc_definitions c) k = Some d
     \<longrightarrow> (\<exists>d'. dict_get (kc_definitions c') k = Some d' \<and> same_pack d d' \<and> (in_use d \<longrightarrow> in_use d')))"

lemma same_pack_refl [simp]: "same_pack d d" "same_pack d (set_activation_state x d)"
  by (simp_all add: same_pack_def)

lemma versions_evolve_refl [simp]: "versions_evolve c c"
  by (auto simp: versions_evolve_def)

lemma versions_evolve_trans: "versions_evolve c c' \<Longrightarrow> versions_evolve c' c'' \<Longrightarrow> versions_evolve c c''"
  unfolding versions_evolve_def same_pack_def by metis

lemma activate_evolves:
  assumes wf: "dict_wf (kc_definitions c)"
    and run: "store_activate_policy_pack_version rt now pack actor h ikey reason c = Inr (resp, c')"
  shows "versions_evolve c c'"
  using wf run
proof (cases rule: store_activate_cases)
  case (activated d active v e)
  have defs: "kc_definitions c' = supersede active (dict_set pack (set_activation_state ''ACTIVE'' d) (kc_definitions c))"
    using activated by simp
  note get = activation_definitions(2) [OF wf activated(1,2,3) defs]
  show ?thesis unfolding versions_evolve_def
  proof (intro allI impI)
    fix k d1 assume "dict_get (kc_definitions c) k = Some d1"
    then show "\<exists>d'. dict_get (kc_definitions c') k = Some d' \<and> same_pack d1 d' \<and> (in_use d1 \<longrightarrow> in_use d')"
      using get [of k] activated(1) by (auto simp: in_use_def)
  qed
qed simp

lemma policy_step_evolves:
  assumes "policy_step rt cal x y" and "dict_wf (kc_definitions (fst x))"
  shows "versions_evolve (fst x) (fst y)"
  using assms(1)
proof cases
  case (validated now pack actor key reason c v c' s)
  then show ?thesis
    by (auto simp: validate_policy_pack_version_def bind_error_Inr_iff versions_evolve_def
        elim!: store_validate_cases dest!: append_event_parts(1))
next
  case (activated now pack actor h key reason c a c' s)
  then show ?thesis using assms(2)
    by (auto simp: activate_policy_pack_version_def bind_error_Inr_iff intro: activate_evolves)
qed simp_all

lemma policy_steps_evolve:
  assumes "(policy_step rt cal)\<^sup>*\<^sup>* x y" and "catalog_reachable rt defs (fst x)"
  shows "versions_evolve (fst x) (fst y) \<and> catalog_reachable rt defs (fst y)"
  using assms(1)
proof (induction rule: rtranclp_induct)
  case base
  show ?case using assms(2) by simp
next
  case (step y z)
  then have wf: "dict_wf (kc_definitions (fst y))" using catalog_ok_wf(1) [OF reachable_catalog_ok] by blast
  show ?case
    using step.IH versions_evolve_trans [OF _ policy_step_evolves [OF step.hyps(2) wf]]
      policy_step_catalog [OF step.hyps(2)] by blast
qed

subsection \<open>Replay of the same evidence\<close>

lemma same_pack_reads:
  assumes "same_pack d d'"
  shows "dict_at d' ''applicability'' = dict_at d ''applicability''" and "definition_rules d' = definition_rules d"
    and "ky_activation_state_update (\<lambda>_. a) (summary_from_definition d')
      = ky_activation_state_update (\<lambda>_. a) (summary_from_definition d)"
    and "ky_content_hash (summary_from_definition d') = ky_content_hash (summary_from_definition d)"
  using assms
  by (simp_all add: same_pack_def dict_at_def list_at_def definition_rules_def summary_from_definition_def
      definition_str_def)

lemma same_pack_evaluation:
  assumes "same_pack d d'" and "evaluate_policy_pack_detail d ev = Inr x"
  shows "evaluate_policy_pack_detail d' ev = Inr (x\<lparr>en_policy_pack := summary_from_definition d'\<rparr>)"
    and "en_policy_pack x = summary_from_definition d"
  using assms(2) same_pack_reads(1,2) [OF assms(1)]
  by (auto simp: evaluate_policy_pack_detail_def Let_def split: if_splits option.splits)

lemma dump_activation_state:
  "attribute_dict (dump_evaluation x) ''policy_pack'' = Inr p
     \<Longrightarrow> json_get p ''activation_state'' = JStr (ky_activation_state (en_policy_pack x))"
  by (auto simp: attribute_dict_def dump_evaluation_def dump_summary_def json_get_def)

lemma attribute_dump: "\<exists>p. attribute_dict (dump_evaluation x) ''policy_pack'' = Inr p"
  by (simp add: attribute_dict_def dump_evaluation_def dump_summary_def)

lemma built_record_evaluation:
  assumes "evaluate_and_build_record rt cal c at ev pack pid vid actor ikey reason trace = Inr r"
    and "dict_get (kc_definitions c) pack = Some d" and "definition_key d = pack"
  obtains x where "evaluate_policy_pack_detail d ev = Inr x" and "is_active d"
    and "vr_evaluation_json r = dump_evaluation x"
    and "vr_source_evidence_hash r = hash_canonical_payload rt (JObj ev)"
    and "vr_policy_content_hash r = ky_content_hash (summary_from_definition d)"
    and "vr_evaluation_hash r = policy_evaluation_hash rt x (vr_source_evidence_hash r) (vr_policy_content_hash r)"
    and "(vr_policy_pack_id r, vr_policy_version r) = pack"
proof -
  have "identity_of_record r = (pid, vid, fst pack, snd pack, hash_canonical_payload rt (JObj ev))"
    by (rule built_record_fields [OF assms])
  then have "(vr_policy_pack_id r, vr_policy_version r) = pack" by (auto simp: identity_of_record_def)
  with assms that show thesis
    by (auto simp: evaluate_and_build_record_def build_policy_evaluation_record_def bind_error_Inr_iff Let_def
        evaluate_policy_pack_version_def load_definition_Inr split: if_splits)
qed

lemma core_reads:
  assumes "evaluation_core r' = evaluation_core r"
  shows "vr_evaluation_json r' = vr_evaluation_json r" "vr_source_evidence_hash r' = vr_source_evidence_hash r"
    "vr_policy_content_hash r' = vr_policy_content_hash r" "vr_evaluation_hash r' = vr_evaluation_hash r"
    "vr_policy_pack_id r' = vr_policy_pack_id r" "vr_policy_version r' = vr_policy_version r"
    "vr_evaluation_id r' = vr_evaluation_id r"
  using assms by (cases r; cases r'; simp add: evaluation_core_def)+

lemma stored_hashes:
  "vc_stored_source_evidence_hash (stored_comparison r q) = vr_source_evidence_hash r"
  "vc_stored_evaluation_hash (stored_comparison r q) = vr_evaluation_hash r"
  by (simp_all add: stored_comparison_def)

lemma replay_matches:
  assumes x: "evaluate_policy_pack_detail d ev = Inr x" and act: "is_active d"
    and r: "vr_evaluation_json r = dump_evaluation x"
      "vr_source_evidence_hash r = hash_canonical_payload rt (JObj ev)"
      "vr_policy_content_hash r = ky_content_hash (summary_from_definition d)"
      "vr_evaluation_hash r = policy_evaluation_hash rt x (vr_source_evidence_hash r) (vr_policy_content_hash r)"
      "(vr_policy_pack_id r, vr_policy_version r) = pack"
    and d': "dict_get (kc_definitions c') pack = Some d'" "same_pack d d'" "in_use d'"
  shows "\<exists>v. build_policy_evaluation_replay_response rt c' r (Some ev) = Inr v
    \<and> vc_replay_reason_code v = ''POLICY_REPLAY_EXACT_MATCH'' \<and> vc_evaluation_hash_matches v
    \<and> vc_source_evidence_hash_matches v"
proof -
  have ld: "load_definition c' pack = Inr d'" using d'(1) by (simp add: load_definition_Inr)
  have st: "ky_activation_state (summary_from_definition d') \<in> {''ACTIVE'', ''SUPERSEDED'', ''DISABLED''}"
    using d'(3) by (auto simp: in_use_def summary_from_definition_def definition_str_def)
  have code: "replay_reason_code (stored_comparison r (Some (summary_from_definition d'))) = ''POLICY_REPLAY_ELIGIBLE''"
    using st r(3) same_pack_reads(4) [OF d'(2)] by (simp add: replay_reason_code_def stored_comparison_def)
  have ev: "evaluate_policy_pack_version_for_replay c' pack ev = Inr (x\<lparr>en_policy_pack := summary_from_definition d'\<rparr>)"
    using ld d'(3) same_pack_evaluation(1) [OF d'(2) x]
    by (auto simp: evaluate_policy_pack_version_for_replay_def in_use_def)
  obtain p where p: "attribute_dict (vr_evaluation_json r) ''policy_pack'' = Inr p" using attribute_dump r(1) by auto
  have "ky_activation_state_update (\<lambda>_. ky_activation_state (summary_from_definition d)) (summary_from_definition d')
      = summary_from_definition d" by (simp add: same_pack_reads(3) [OF d'(2)])
  then have pay: "evaluation_payload_for_hash r (x\<lparr>en_policy_pack := summary_from_definition d'\<rparr>) = Inr x"
    using p dump_activation_state [of x p] r(1) same_pack_evaluation(2) [OF d'(2) x]
    by (cases x) (simp add: evaluation_payload_for_hash_def)
  show ?thesis
    unfolding build_policy_evaluation_replay_response_def Let_def r(5)
    using r(2,4) by (simp add: ld code ev pay with_replay_outcome_def stored_hashes)
qed

subsection \<open>Repeating a finalisation\<close>

lemma finalize_again:
  assumes "store_finalize_policy_evaluation_record rt cal c t1 t2 s ev pack pid vid actor ikey reason trace = Inr (f, s')"
  shows "store_finalize_policy_evaluation_record rt cal c' t1' t2' s' ev pack pid vid actor' ikey reason trace'
    = Inr (f\<lparr>vf_created := False, vf_replayed := True\<rparr>, s')"
proof -
  let ?sh = "hash_canonical_payload rt (JObj ev)"
  let ?rh = "finalize_request_hash rt pid vid pack ?sh (idempotency_stable_reason reason)"
  obtain portfolio x where p: "portfolio_id_from_evidence ev = Inr portfolio"
    and x: "find_replayed_policy_event rt cal s ikey ?rh (RQ_Finalize pid vid pack portfolio ?sh ev reason) = Inr x"
    using assms by (auto simp: store_finalize_policy_evaluation_record_def Let_def bind_error_Inr_iff)
  have again: ?thesis if "find_replayed_policy_event rt cal s' ikey ?rh (RQ_Finalize pid vid pack portfolio ?sh ev reason)
      = Inr (Some (vf_audit_event f, vf_record f))"
    using that by (simp add: store_finalize_policy_evaluation_record_def Let_def p)
  have stored: ?thesis if "dict_get (vs_idempotency s') ikey = Some (?rh, eid, ve_event_id (vf_audit_event f))"
    and "dict_get (vs_records s') eid = Some (vf_record f)" and "dict_get (vs_events s') eid = Some es"
    and "es \<noteq> []" and "hd es = vf_audit_event f" for eid es
    using that by (intro again) (cases es; simp add: find_replayed_policy_event_def load_replayed_policy_event_def
        load_evaluation_def load_event_log_def)
  show ?thesis
  proof (cases x)
    case (Some y)
    then show ?thesis using assms x again
      by (cases y) (auto simp: store_finalize_policy_evaluation_record_def Let_def p)
  next
    case None
    from assms show ?thesis
    proof (cases rule: store_finalize_cases)
      case replayed
      then show ?thesis using assms x None
        by (auto simp: store_finalize_policy_evaluation_record_def Let_def p bind_error_Inr_iff
            split: option.splits list.splits)
    next
      case (known eid es)
      then show ?thesis by (intro stored [of eid es]) simp_all
    next
      case created
      then show ?thesis
        by (intro stored [of "vr_evaluation_id (vf_record f)" "[vf_audit_event f]"]) (simp_all add: store_new_evaluation_def)
    qed
  qed
qed

end
