(* ===== verification/Policy_Rule_Facts.thy ===== *)
theory Policy_Rule_Facts
  imports Policy_Rules
begin

text \<open>
  When a policy rule, and a whole pack, comes out ready: what the source manifest must say about the
  fields a rule requires, what each specialised rule asks of the evidence, and what the manifest
  that the service derives itself guarantees.
\<close>

subsection \<open>When a rule is ready\<close>

lemma builder_status [simp]:
  "re_status (rule_ready r out ev au) = PS_READY"
  "re_status (rule_pending r out m rs ac ev au) = PS_PENDING_REVIEW"
  "re_status (rule_blocked r out m rs ac) = PS_BLOCKED"
  by (simp_all add: rule_ready_def rule_pending_def rule_blocked_def)

text \<open>
  What the source manifest must say about one required field for the code to record no gap.  This is
  the code's test and weaker than being ready: a BLOCKED section or posture that lists nothing as
  missing passes, and so does a status the code does not know.
\<close>

definition no_source_gap :: "jobject \<Rightarrow> string \<Rightarrow> bool" where
  "no_source_gap posture field \<longleftrightarrow>
     (if py_startswith ''policy_source_readiness.'' field
      then json_get posture ''overall_posture'' \<noteq> JStr ''PENDING_REVIEW''
        \<and> (json_get posture ''overall_posture'' = JStr ''BLOCKED''
           \<longrightarrow> (\<forall>s\<in>set (sections_with_status posture ''BLOCKED''). list_at s ''missing_evidence'' = []))
      else (\<exists>s. dict_get (sections_by_key posture) field = Some s
        \<and> json_get s ''status'' \<notin> {JStr ''PENDING_REVIEW'', JStr ''NOT_AVAILABLE''}
        \<and> (json_get s ''status'' = JStr ''BLOCKED'' \<longrightarrow> list_at s ''missing_evidence'' = [])))"

lemma extend_from_section_fields [simp]:
  "xc_missing (extend_from_section s x) = xc_missing x @ str_list_at s ''missing_evidence''"
  "xc_pending (extend_from_section s x) = xc_pending x"
  by (simp_all add: extend_from_section_def)

lemma fold_extend:
  "xc_missing (fold extend_from_section ss x) = xc_missing x @ concat (map (\<lambda>s. str_list_at s ''missing_evidence'') ss)
   \<and> xc_pending (fold extend_from_section ss x) = xc_pending x"
  by (induction ss arbitrary: x) auto

lemma str_list_at_Nil [simp]: "str_list_at d k = [] \<longleftrightarrow> list_at d k = []"
  by (simp add: str_list_at_def)

abbreviation collected_clear :: "evidence_collection \<Rightarrow> bool" where
  "collected_clear x \<equiv> xc_missing x = [] \<and> \<not> xc_pending x"

lemma collect_field_clear:
  "collected_clear ((if py_startswith ''policy_source_readiness.'' f
       then collect_policy_source_readiness_evidence posture
       else collect_section_source_evidence (sections_by_key posture) f) x)
   \<longleftrightarrow> collected_clear x \<and> no_source_gap posture f"
  by (cases "py_startswith ''policy_source_readiness.'' f")
    (auto simp: no_source_gap_def collect_policy_source_readiness_evidence_def fold_extend
      collect_section_source_evidence_def split: option.splits)

lemma collect_source_evidence_clear:
  "collected_clear (collect_source_evidence rule posture) \<longleftrightarrow> (\<forall>f\<in>set (source_evidence_fields rule). no_source_gap posture f)"
proof -
  let ?step = "\<lambda>f. if py_startswith ''policy_source_readiness.'' f
       then collect_policy_source_readiness_evidence posture
       else collect_section_source_evidence (sections_by_key posture) f"
  have "collected_clear (fold ?step fs x) \<longleftrightarrow> collected_clear x \<and> (\<forall>f\<in>set fs. no_source_gap posture f)" for fs x
  proof (induction fs arbitrary: x)
    case (Cons f fs)
    have "fold ?step (f # fs) x = fold ?step fs (?step f x)" by simp
    then show ?case using Cons.IH [of "?step f x"] collect_field_clear [of f posture x] by simp
  qed simp
  from this [of "source_evidence_fields rule"] show ?thesis by (simp add: collect_source_evidence_def)
qed

lemma required_source_result_None:
  "required_source_result rule posture = None \<longleftrightarrow> (\<forall>f\<in>set (source_evidence_fields rule). no_source_gap posture f)"
  unfolding collect_source_evidence_clear [symmetric] by (auto simp: required_source_result_def Let_def)

lemma required_source_result_status:
  "required_source_result rule posture = Some r \<Longrightarrow> re_status r \<noteq> PS_READY \<and> re_status r \<noteq> PS_NOT_APPLICABLE"
  by (auto simp: required_source_result_def Let_def split: if_splits)

text \<open>What each specialised rule asks of the evidence.\<close>

definition product_row_eligible :: "string \<Rightarrow> string \<Rightarrow> jobject option \<Rightarrow> bool" where
  "product_row_eligible jurisdiction segment row \<longleftrightarrow>
     (\<exists>shelf. row = Some shelf \<and> jurisdiction_allowed shelf jurisdiction \<and> client_segment_allowed shelf segment)"

definition rule_clear :: "string \<Rightarrow> jobject \<Rightarrow> string \<Rightarrow> string \<Rightarrow> bool" where
  "rule_clear rule_id evidence jurisdiction segment \<longleftrightarrow>
     rule_id \<in> {''GLOBAL_SOURCE_READINESS_REQUIRED'', ''GLOBAL_MANDATE_RESTRICTIONS_REVIEW''}
     \<or> rule_id = ''SG_AI_PRODUCT_ELIGIBILITY_REVIEW''
       \<and> (\<forall>(i, row)\<in>set (proposed_shelf_rows evidence). product_row_eligible jurisdiction segment row)
     \<or> rule_id = ''SG_COMPLEX_PRODUCT_DISCLOSURE_REVIEW''
       \<and> (\<forall>i shelf. (i, Some shelf) \<in> set (proposed_shelf_rows evidence) \<longrightarrow> \<not> is_complex_or_private_product shelf)
     \<or> rule_id = ''SG_BEST_INTEREST_COST_REVIEW''
       \<and> (\<forall>k\<in>{''costs_and_fees'', ''tax'', ''execution''}.
            json_truthy (json_get (dict_at (artifact_section evidence ''assumptions_and_limits'') k) ''included''))
     \<or> rule_id = ''SG_CONFLICT_REVIEW''
       \<and> dict_at evidence ''conflict_evidence'' \<noteq> []
       \<and> \<not> material_conflict_present (dict_at evidence ''conflict_evidence'')
       \<and> fst ` set (proposed_shelf_rows evidence)
         \<subseteq> fst ` set (instrument_rows (list_at (artifact_section evidence ''disclosures'') ''product_docs''))"

lemma eligibility_ready: "re_status (evaluate_sg_product_eligibility rule evidence j s) = PS_READY
    \<longleftrightarrow> (\<forall>(i, row)\<in>set (proposed_shelf_rows evidence). product_row_eligible j s row)"
proof -
  have "snd (snd (product_eligibility_issue j s (i, row))) = [] \<longleftrightarrow> product_row_eligible j s row" for i row
    by (auto simp: product_eligibility_issue_def product_row_eligible_def split: option.splits)
  then have "snd (snd (product_eligibility_issues evidence j s)) = []
      \<longleftrightarrow> (\<forall>(i, row)\<in>set (proposed_shelf_rows evidence). product_row_eligible j s row)"
    by (auto simp: product_eligibility_issues_def Let_def)
  then show ?thesis by (auto simp: evaluate_sg_product_eligibility_def split: prod.splits)
qed

lemma complex_ready: "re_status (evaluate_sg_complex_product_disclosure rule evidence) = PS_READY
    \<longleftrightarrow> (\<forall>i shelf. (i, Some shelf) \<in> set (proposed_shelf_rows evidence) \<longrightarrow> \<not> is_complex_or_private_product shelf)"
proof -
  have "complex_disclosure_instrument_ids evidence = []
      \<longleftrightarrow> (\<forall>i shelf. (i, Some shelf) \<in> set (proposed_shelf_rows evidence) \<longrightarrow> \<not> is_complex_or_private_product shelf)"
    unfolding complex_disclosure_instrument_ids_def by (force simp: filter_empty_conv split: option.splits)
  then show ?thesis by (simp add: evaluate_sg_complex_product_disclosure_def Let_def)
qed

lemma cost_ready: "re_status (evaluate_best_interest_cost rule evidence) = PS_READY
    \<longleftrightarrow> (\<forall>k\<in>{''costs_and_fees'', ''tax'', ''execution''}.
          json_truthy (json_get (dict_at (artifact_section evidence ''assumptions_and_limits'') k) ''included''))"
  by (auto simp: evaluate_best_interest_cost_def best_interest_missing_def Let_def)

lemma missing_documents_Nil: "missing_product_documents evidence = []
    \<longleftrightarrow> fst ` set (proposed_shelf_rows evidence)
         \<subseteq> fst ` set (instrument_rows (list_at (artifact_section evidence ''disclosures'') ''product_docs''))"
proof -
  let ?doc = "fst ` set (instrument_rows (list_at (artifact_section evidence ''disclosures'') ''product_docs''))"
  have "missing_product_documents evidence = [] \<longleftrightarrow> set (missing_product_documents evidence) = {}" by simp
  also have "set (missing_product_documents evidence) = {i \<in> fst ` set (proposed_shelf_rows evidence). i \<notin> ?doc}"
    by (simp add: missing_product_documents_def Let_def)
  finally show ?thesis by blast
qed

lemma conflict_ready: "re_status (evaluate_conflict_disclosure_review rule evidence) = PS_READY
    \<longleftrightarrow> dict_at evidence ''conflict_evidence'' \<noteq> []
       \<and> \<not> material_conflict_present (dict_at evidence ''conflict_evidence'') \<and> missing_product_documents evidence = []"
  by (auto simp: evaluate_conflict_disclosure_review_def conflict_disclosure_findings_def Let_def)

lemma specialized_ready:
  "(\<exists>r. specialized_result rid rule evidence posture j s = Some r \<and> re_status r = PS_READY) \<longleftrightarrow> rule_clear rid evidence j s"
  by (auto simp: specialized_result_def rule_clear_def eligibility_ready complex_ready cost_ready conflict_ready
      missing_documents_Nil evaluate_mandate_rule_def)

lemma evaluate_policy_rule_ready:
  "re_status (evaluate_policy_rule rule evidence posture j s) = PS_READY
   \<longleftrightarrow> (\<forall>f\<in>set (source_evidence_fields rule). no_source_gap posture f)
     \<and> rule_clear (definition_str rule ''rule_id'') evidence j s"
proof (cases "required_source_result rule posture")
  case None
  have "re_status (evaluate_policy_rule rule evidence posture j s) = PS_READY
      \<longleftrightarrow> (\<exists>r. specialized_result (definition_str rule ''rule_id'') rule evidence posture j s = Some r \<and> re_status r = PS_READY)"
    using None by (auto simp: evaluate_policy_rule_def split: option.splits)
  with None show ?thesis by (simp add: specialized_ready required_source_result_None [symmetric])
next
  case (Some r)
  then show ?thesis
    using required_source_result_status [OF Some] required_source_result_None [of rule posture]
    by (simp add: evaluate_policy_rule_def)
qed

subsection \<open>The derived manifest\<close>

lemma section_fields [simp]:
  "json_get (source_readiness_section k ow st ev m rs) ''key'' = JStr k"
  "json_get (source_readiness_section k ow st ev m rs) ''status'' = JStr st"
  "list_at (source_readiness_section k ow st ev m rs) ''missing_evidence'' = map JStr m"
  by (simp_all add: source_readiness_section_def json_get_def list_at_def)

lemma section_key [simp]: "definition_str (source_readiness_section k ow st ev m rs) ''key'' = k"
  by (simp add: definition_str_def py_str_def)

definition status_word :: "string \<Rightarrow> bool" where
  "status_word st \<longleftrightarrow> st = ''READY'' \<or> st = ''PENDING_REVIEW'' \<or> st = ''BLOCKED'' \<or> st = ''NOT_AVAILABLE''"

text \<open>A derived section is labelled, has one of four states, and a blocked one lists what it misses.\<close>

definition section_consistent :: "jobject \<Rightarrow> bool" where
  "section_consistent s \<longleftrightarrow> (\<exists>k st. json_get s ''key'' = JStr k \<and> json_get s ''status'' = JStr st \<and> status_word st
     \<and> (st = ''BLOCKED'' \<longrightarrow> list_at s ''missing_evidence'' \<noteq> []))"

lemma section_consistentI:
  "status_word st \<Longrightarrow> st = ''BLOCKED'' \<longrightarrow> m \<noteq> [] \<Longrightarrow> section_consistent (source_readiness_section k ow st ev m rs)"
  unfolding section_consistent_def section_fields by blast

lemma section_statuses:
  "status_word (client_profile_status c)" "client_profile_status c = ''BLOCKED'' \<longrightarrow> client_profile_missing c \<noteq> []"
  "status_word (mandate_status c)" "mandate_status c = ''BLOCKED'' \<longrightarrow> mandate_missing c \<noteq> []"
  "status_word (holdings_market_status g)" "holdings_market_status g = ''BLOCKED'' \<longrightarrow> map fst g \<noteq> []"
  "status_word (product_policy_status ts sh)" "product_policy_status ts sh = ''BLOCKED'' \<longrightarrow> product_policy_missing ts sh \<noteq> []"
  "status_word (risk_policy_status r)" "risk_policy_status r = ''BLOCKED'' \<longrightarrow> risk_policy_missing r \<noteq> []"
  "status_word ''READY''" "''READY'' = ''BLOCKED'' \<longrightarrow> x \<noteq> []"
  by (simp_all add: status_word_def client_profile_status_def mandate_status_def holdings_market_status_def
      product_policy_status_def product_policy_missing_def risk_policy_status_def risk_policy_missing_def Let_def)

lemma source_sections_consistent: "\<forall>s\<in>set (policy_source_sections evidence). section_consistent s"
  unfolding policy_source_sections_def build_core_policy_source_sections_def Let_def
    build_product_policy_source_section_def build_risk_policy_source_section_def append.simps list.set
  by (intro ballI, elim insertE emptyE) (hypsubst, rule section_consistentI; rule section_statuses)+

lemma derived_sections [simp]: "posture_sections (build_policy_source_readiness evidence) = policy_source_sections evidence"
  by (simp add: posture_sections_def build_policy_source_readiness_def Let_def list_at_def json_get_def comp_def)

lemma derived_overall: "json_get (build_policy_source_readiness evidence) ''overall_posture''
    = JStr (overall_posture (set (map (\<lambda>s. py_str (json_get s ''status'')) (policy_source_sections evidence))))"
  by (simp add: build_policy_source_readiness_def Let_def json_get_def)

lemma fold_index_Some:
  "dict_get (fold (\<lambda>s. dict_set (k s) s) ss d) f = Some s \<Longrightarrow> s \<in> set ss \<and> k s = f \<or> dict_get d f = Some s"
proof (induction ss arbitrary: d)
  case (Cons x ss)
  from Cons.IH [OF Cons.prems [unfolded fold_simps]] show ?case by (auto split: if_splits)
qed simp

definition source_ready :: "jobject \<Rightarrow> string \<Rightarrow> bool" where
  "source_ready evidence field \<longleftrightarrow>
     (if py_startswith ''policy_source_readiness.'' field
      then \<forall>s\<in>set (policy_source_sections evidence). json_get s ''status'' \<in> {JStr ''READY'', JStr ''NOT_AVAILABLE''}
      else \<exists>s\<in>set (policy_source_sections evidence). json_get s ''key'' = JStr field \<and> json_get s ''status'' = JStr ''READY'')"

lemma readiness_field_derived:
  assumes "no_source_gap (build_policy_source_readiness evidence) field" and "py_startswith ''policy_source_readiness.'' field"
    and s: "s \<in> set (policy_source_sections evidence)"
  shows "json_get s ''status'' = JStr ''READY'' \<or> json_get s ''status'' = JStr ''NOT_AVAILABLE''"
proof -
  define posture where "posture = overall_posture (set (map (\<lambda>s. py_str (json_get s ''status'')) (policy_source_sections evidence)))"
  have post: "posture \<noteq> ''PENDING_REVIEW''" "posture = ''BLOCKED'' \<Longrightarrow> b \<in> set (policy_source_sections evidence)
      \<Longrightarrow> json_get b ''status'' = JStr ''BLOCKED'' \<Longrightarrow> list_at b ''missing_evidence'' = []" for b
    using assms(1, 2) by (simp_all add: no_source_gap_def derived_overall posture_def sections_with_status_def)
  have posture: "posture = (if \<exists>b\<in>set (policy_source_sections evidence). json_get b ''status'' = JStr ''BLOCKED'' then ''BLOCKED''
      else if \<exists>b\<in>set (policy_source_sections evidence). json_get b ''status'' = JStr ''PENDING_REVIEW'' then ''PENDING_REVIEW''
      else posture)"
  proof -
    have "x \<in> set (map (\<lambda>s. py_str (json_get s ''status'')) (policy_source_sections evidence))
        \<longleftrightarrow> (\<exists>b\<in>set (policy_source_sections evidence). json_get b ''status'' = JStr x)" for x
    proof -
      have "py_str (json_get b ''status'') = x \<longleftrightarrow> json_get b ''status'' = JStr x"
        if "b \<in> set (policy_source_sections evidence)" for b
        using bspec [OF source_sections_consistent that] by (auto simp: section_consistent_def py_str_def)
      then show ?thesis by (auto simp: image_iff)
    qed
    then show ?thesis unfolding posture_def overall_posture_def by simp
  qed
  have blocked: "json_get b ''status'' \<noteq> JStr ''BLOCKED''" if b: "b \<in> set (policy_source_sections evidence)" for b
  proof
    assume st: "json_get b ''status'' = JStr ''BLOCKED''"
    then have "posture = ''BLOCKED''" using posture b by (simp only: if_True bexI)
    then have "list_at b ''missing_evidence'' = []" using post(2) b st by blast
    then show False using bspec [OF source_sections_consistent b] st by (auto simp: section_consistent_def)
  qed
  then have "json_get s ''status'' \<noteq> JStr ''PENDING_REVIEW''" using posture post(1) s by metis
  then show ?thesis
    using blocked [OF s] bspec [OF source_sections_consistent s] unfolding section_consistent_def status_word_def by auto
qed

lemma section_field_derived:
  assumes "no_source_gap (build_policy_source_readiness evidence) field" and "\<not> py_startswith ''policy_source_readiness.'' field"
  shows "\<exists>s\<in>set (policy_source_sections evidence). json_get s ''key'' = JStr field \<and> json_get s ''status'' = JStr ''READY''"
proof -
  obtain s where s: "dict_get (sections_by_key (build_policy_source_readiness evidence)) field = Some s"
    "json_get s ''status'' \<noteq> JStr ''PENDING_REVIEW''" "json_get s ''status'' \<noteq> JStr ''NOT_AVAILABLE''"
    "json_get s ''status'' = JStr ''BLOCKED'' \<longrightarrow> list_at s ''missing_evidence'' = []"
    using assms by (auto simp: no_source_gap_def)
  have m: "s \<in> set (policy_source_sections evidence)" "definition_str s ''key'' = field"
    using fold_index_Some [of "\<lambda>s. definition_str s ''key''" "policy_source_sections evidence" "[]" field s] s(1)
    by (simp_all add: sections_by_key_def)
  have "json_get s ''status'' = JStr ''READY''" "json_get s ''key'' = JStr field"
    using bspec [OF source_sections_consistent m(1)] s(2, 3, 4) m(2)
    unfolding section_consistent_def status_word_def by (auto simp: definition_str_def py_str_def)
  with m show ?thesis by blast
qed

lemma no_source_gap_derived:
  "no_source_gap (build_policy_source_readiness evidence) field \<Longrightarrow> source_ready evidence field"
  unfolding source_ready_def using readiness_field_derived section_field_derived by simp

subsection \<open>Applicability and the status of a pack\<close>

definition applies_to :: "jobject \<Rightarrow> applicability_context \<Rightarrow> bool" where
  "applies_to applicability ctx \<longleftrightarrow>
     matches_scope (ax_jurisdiction ctx) (str_list_at applicability ''jurisdiction_scope'')
     \<and> (ax_booking_location_code ctx \<noteq> []
        \<longrightarrow> matches_scope (ax_booking_location_code ctx) (str_list_at applicability ''booking_center_code_scope''))
     \<and> (ax_legal_entity_code ctx \<noteq> []
        \<longrightarrow> matches_scope (ax_legal_entity_code ctx) (str_list_at applicability ''legal_entity_scope''))
     \<and> client_segment_matches_scope (ax_client_segment ctx) (str_list_at applicability ''client_segment_scope'')
     \<and> product_scope_matches_scope (ax_product_scopes ctx) (str_list_at applicability ''product_scope'')"

lemma applicability_cases:
  "ay_status (evaluate_policy_pack_applicability evidence a) =
     (let ctx = build_applicability_context evidence
      in if missing_applicability_evidence ctx a \<noteq> [] then AY_BLOCKED
         else if applies_to a ctx then AY_APPLICABLE else AY_NOT_APPLICABLE)"
  by (simp add: evaluate_policy_pack_applicability_def applies_to_def Let_def not_applicable_result_def)

lemma applicable_selectors:
  assumes "ay_status (evaluate_policy_pack_applicability evidence a) = AY_APPLICABLE"
  shows "ay_matched_selectors (evaluate_policy_pack_applicability evidence a) = matched_selectors (build_applicability_context evidence)"
  using assms by (auto simp: evaluate_policy_pack_applicability_def Let_def not_applicable_result_def split: if_splits)

lemma matched_selector_values [simp]:
  "selector_or_empty (matched_selectors ctx) ''jurisdiction'' = ax_jurisdiction ctx"
  "selector_or_empty (matched_selectors ctx) ''client_segment'' = ax_client_segment ctx"
  by (simp_all add: selector_or_empty_def matched_selectors_def)

lemma evaluator_status:
  "re_status (evaluate_mandate_rule rule posture) \<noteq> PS_NOT_APPLICABLE"
  "re_status (evaluate_sg_product_eligibility rule evidence j s) \<noteq> PS_NOT_APPLICABLE"
  "re_status (evaluate_sg_complex_product_disclosure rule evidence) \<noteq> PS_NOT_APPLICABLE"
  "re_status (evaluate_best_interest_cost rule evidence) \<noteq> PS_NOT_APPLICABLE"
  "re_status (evaluate_conflict_disclosure_review rule evidence) \<noteq> PS_NOT_APPLICABLE"
  by (simp_all add: evaluate_mandate_rule_def evaluate_sg_product_eligibility_def
    evaluate_sg_complex_product_disclosure_def evaluate_best_interest_cost_def
    evaluate_conflict_disclosure_review_def Let_def split: prod.splits)

lemma specialized_status:
  "specialized_result rid rule evidence posture j s = Some r \<Longrightarrow> re_status r \<noteq> PS_NOT_APPLICABLE"
  using evaluator_status unfolding specialized_result_def by (auto split: if_splits)

lemma rule_status_range: "re_status (evaluate_policy_rule rule evidence posture j s) \<noteq> PS_NOT_APPLICABLE"
  using required_source_result_status [of rule posture] specialized_status [of _ rule evidence posture j s]
  by (auto simp: evaluate_policy_rule_def split: option.splits)

lemma status_in_results: "st \<in> set (map re_status rs) \<longleftrightarrow> (\<exists>r\<in>set rs. re_status r = st)"
  by auto

lemma aggregate_ready: "aggregate_status rs = Some PS_READY
    \<longleftrightarrow> (\<exists>r\<in>set rs. re_status r = PS_READY) \<and> (\<forall>r\<in>set rs. re_status r \<noteq> PS_BLOCKED \<and> re_status r \<noteq> PS_PENDING_REVIEW)"
  unfolding aggregate_status_def Let_def status_in_results by (simp split: if_splits) blast

lemma all_ready:
  assumes "\<forall>r\<in>set rs. re_status r \<noteq> PS_NOT_APPLICABLE"
  shows "aggregate_status rs = Some PS_READY \<longleftrightarrow> rs \<noteq> [] \<and> (\<forall>r\<in>set rs. re_status r = PS_READY)"
proof -
  have ready: "re_status r = PS_READY \<longleftrightarrow> re_status r \<noteq> PS_BLOCKED \<and> re_status r \<noteq> PS_PENDING_REVIEW" if "r \<in> set rs" for r
    using assms that by (cases "re_status r") auto
  show ?thesis
  proof (cases rs)
    case (Cons r rs')
    then have "(\<exists>r\<in>set rs. re_status r = PS_READY) \<or> \<not> (\<forall>r\<in>set rs. re_status r = PS_READY)" by auto
    then show ?thesis unfolding aggregate_ready using ready Cons by blast
  qed (simp add: aggregate_ready)
qed

definition evaluated_rules :: "jobject \<Rightarrow> jobject \<Rightarrow> rule_evaluation list" where
  "evaluated_rules d evidence = (let ctx = build_applicability_context evidence
     in map (\<lambda>rule. evaluate_policy_rule rule evidence (source_posture_of evidence) (ax_jurisdiction ctx)
          (ax_client_segment ctx)) (definition_rules d))"

lemma evaluate_detail_status:
  assumes "evaluate_policy_pack_detail d evidence = Inr ev"
  shows "en_applicability ev = evaluate_policy_pack_applicability evidence (dict_at d ''applicability'')"
    and "ay_status (en_applicability ev) = AY_APPLICABLE
      \<Longrightarrow> aggregate_status (evaluated_rules d evidence) = Some (en_evaluation_status ev)
        \<and> en_rule_results ev = evaluated_rules d evidence"
    and "ay_status (en_applicability ev) = AY_NOT_APPLICABLE \<Longrightarrow> en_evaluation_status ev = PS_NOT_APPLICABLE"
    and "ay_status (en_applicability ev) = AY_BLOCKED \<Longrightarrow> en_evaluation_status ev = PS_BLOCKED"
proof -
  let ?a = "evaluate_policy_pack_applicability evidence (dict_at d ''applicability'')"
  show a: "en_applicability ev = ?a"
    using assms unfolding evaluate_policy_pack_detail_def Let_def by (auto split: if_splits option.splits)
  show "ay_status (en_applicability ev) = AY_APPLICABLE
      \<Longrightarrow> aggregate_status (evaluated_rules d evidence) = Some (en_evaluation_status ev)
        \<and> en_rule_results ev = evaluated_rules d evidence"
    using assms unfolding evaluate_policy_pack_detail_def Let_def a evaluated_rules_def
    by (auto simp: applicable_selectors split: option.splits)
  show "ay_status (en_applicability ev) = AY_NOT_APPLICABLE \<Longrightarrow> en_evaluation_status ev = PS_NOT_APPLICABLE"
    "ay_status (en_applicability ev) = AY_BLOCKED \<Longrightarrow> en_evaluation_status ev = PS_BLOCKED"
    using assms unfolding evaluate_policy_pack_detail_def Let_def a by auto
qed

lemma evaluate_detail_ready:
  assumes "evaluate_policy_pack_detail d evidence = Inr ev"
  shows "en_evaluation_status ev = PS_READY \<longleftrightarrow>
    ay_status (en_applicability ev) = AY_APPLICABLE \<and> definition_rules d \<noteq> []
    \<and> (\<forall>rule\<in>set (definition_rules d).
         (\<forall>f\<in>set (source_evidence_fields rule). no_source_gap (source_posture_of evidence) f)
         \<and> rule_clear (definition_str rule ''rule_id'') evidence
             (ax_jurisdiction (build_applicability_context evidence)) (ax_client_segment (build_applicability_context evidence)))"
proof (cases "ay_status (en_applicability ev)")
  case AY_APPLICABLE
  have "\<forall>r\<in>set (evaluated_rules d evidence). re_status r \<noteq> PS_NOT_APPLICABLE"
    using rule_status_range by (simp add: evaluated_rules_def Let_def)
  note ready = all_ready [OF this]
  have "en_evaluation_status ev = PS_READY \<longleftrightarrow> aggregate_status (evaluated_rules d evidence) = Some PS_READY"
    using evaluate_detail_status(2) [OF assms AY_APPLICABLE] by simp
  also have "\<dots> \<longleftrightarrow> definition_rules d \<noteq> [] \<and> (\<forall>r\<in>set (evaluated_rules d evidence). re_status r = PS_READY)"
    unfolding ready by (simp add: evaluated_rules_def Let_def)
  finally show ?thesis using AY_APPLICABLE by (simp add: evaluated_rules_def Let_def evaluate_policy_rule_ready)
next
  case AY_NOT_APPLICABLE
  then show ?thesis using evaluate_detail_status(3) [OF assms] by simp
next
  case AY_BLOCKED
  then show ?thesis using evaluate_detail_status(4) [OF assms] by simp
qed

end
