(* ===== verification/Policy_Guarantees.thy ===== *)
theory Policy_Guarantees
  imports Policy_History Policy_Rule_Facts
begin

text \<open>
  What the properties of the policy packs rest on beyond the invariants: events that leave the
  workflow of an evaluation as it was, what a review event with a conflict outcome does to it, and
  snapshots of the evaluation store.
\<close>

subsection \<open>Events the workflow does not read\<close>

lemma attach_receipt_identity [simp]:
  "receipt_identity_from_record rt cal (attach_policy_evaluation_event r e) = receipt_identity_from_record rt cal r"
proof -
  have "legacy_receipt_identity rt cal (attach_policy_evaluation_event r e) = legacy_receipt_identity rt cal r"
    unfolding legacy_receipt_identity_def attach_fields ..
  then show ?thesis unfolding receipt_identity_from_record_def attach_fields by (rule arg_cong)
qed

lemma projection_unaffected:
  assumes "ve_event_type e \<noteq> PV_SIGN_OFF_RECORDED"
    and "\<not> json_truthy (json_get (ve_reason_json e) ''conflict_review_outcome'')"
  shows "build_policy_evaluation_workflow_projection rt cal now (attach_policy_evaluation_event r e) (es @ [e]) pub
    = build_policy_evaluation_workflow_projection rt cal now r es pub"
proof -
  have e: "\<not> is_approved_sign_off_event e" using assms(1) by (simp add: is_approved_sign_off_event_def)
  have "conflict_posture_for_workflow (attach_policy_evaluation_event r e) (es @ [e]) = conflict_posture_for_workflow r es"
    using assms(2) by (simp add: conflict_posture_for_workflow_def conflict_review_outcomes_def)
  moreover have "approved_sign_off_values (es @ [e]) k = approved_sign_off_values es k" for k
    using e by (simp add: approved_sign_off_values_def)
  moreover have "latest_sign_off_event (es @ [e]) = latest_sign_off_event es"
    using assms(1) by (simp add: latest_sign_off_event_def latest_of_type_def)
  ultimately show ?thesis
    by (simp add: build_policy_evaluation_workflow_projection_def approval_requirement_projections_def
        fixed_owner_requirement_projections_def workflow_blockers_def workflow_lineage_metadata_def
        workflow_replay_metadata_of_def Let_def)
qed

lemma workflow_missing:
  "dict_get (vs_records s) eid = None \<Longrightarrow> get_policy_evaluation_workflow rt cal now s eid
     = Inl (NotFoundError ''POLICY_EVALUATION_RECORD_NOT_FOUND'')"
  by (simp add: get_policy_evaluation_workflow_def load_evaluation_def)

text \<open>What an appended event makes of the workflows of the store.\<close>

lemma appended_workflow:
  assumes ok: "ledger_ok s" and r: "dict_get (vs_records s) eid = Some r"
    and es: "dict_get (vs_events s) eid = Some es"
    and s': "s' = push_policy_event s eid r es e k h" and ok': "ledger_ok s'"
  shows "get_policy_evaluation_workflow rt cal now s' x = (if x = eid
      then build_policy_evaluation_workflow_projection rt cal now (attach_policy_evaluation_event r e) (es @ [e])
        policy_client_ready_publication
      else get_policy_evaluation_workflow rt cal now s x)"
proof (cases "x = eid")
  case True
  have "dict_get (vs_records s') eid = Some (attach_policy_evaluation_event r e)" by (simp add: s')
  from workflow_of_log [OF ok' this] True show ?thesis by (simp add: s')
next
  case False
  then have "dict_get (vs_records s') x = dict_get (vs_records s) x" "dict_list (vs_events s') x = dict_list (vs_events s) x"
    by (simp_all add: s')
  then show ?thesis using False
    by (cases "dict_get (vs_records s) x") (simp_all add: workflow_missing workflow_of_log [OF ok] workflow_of_log [OF ok'])
qed

lemma append_leaves_workflow:
  assumes ok: "ledger_ok s" and ok': "ledger_ok s'"
    and run: "append_policy_evaluation_event rt cal at s eid ty actor reason ikey authority = Inr (e, s')"
    and ty: "ty \<noteq> PV_SIGN_OFF_RECORDED" and c: "json_get reason ''conflict_review_outcome'' = JNull"
  shows "get_policy_evaluation_workflow rt cal now s' x = get_policy_evaluation_workflow rt cal now s x"
  using run [unfolded append_as_store]
proof (cases rule: store_append_cases)
  case (appended r es h)
  have "dict_list (vs_events s) eid = es" using appended(2) by (simp add: dict_list_def)
  then have "get_policy_evaluation_workflow rt cal now s eid
      = build_policy_evaluation_workflow_projection rt cal now r es policy_client_ready_publication"
    using workflow_of_log [OF ok appended(1)] by simp
  moreover have "build_policy_evaluation_workflow_projection rt cal now (attach_policy_evaluation_event r e) (es @ [e])
        policy_client_ready_publication
      = build_policy_evaluation_workflow_projection rt cal now r es policy_client_ready_publication"
    by (rule projection_unaffected) (use ty c appended(4) in \<open>simp_all add: json_truthy_def\<close>)
  ultimately show ?thesis using appended_workflow [OF ok appended(1,2,5) ok', of rt cal now x] by simp
qed simp

lemma ai_leaves_workflow:
  assumes ok: "ledger_ok s"
    and run: "request_policy_evaluation_ai_evidence rt cal t1 t2 client s eid p ikey = (res, s')"
  shows "get_policy_evaluation_workflow rt cal now s' x = get_policy_evaluation_workflow rt cal now s x"
  using run
proof (cases rule: ai_stored)
  case (stored h st actions draft e)
  then show ?thesis
    by (intro append_leaves_workflow [OF ok ai_keeps_ledger [OF ok run] stored])
      (simp_all add: ai_event_reason_def json_get_def)
qed simp

lemma report_leaves_workflow:
  assumes ok: "ledger_ok s"
    and run: "request_policy_evaluation_report_package rt cal clock client s eid p rid ikey = (res, s')"
  shows "get_policy_evaluation_workflow rt cal now s' x = get_policy_evaluation_workflow rt cal now s x"
  using run
proof (cases rule: report_stored)
  case (stored r req report e)
  show ?thesis
    by (intro append_leaves_workflow [OF ok report_keeps_ledger [OF ok run] stored(2)])
      (simp_all add: report_event_reason_def json_get_def)
qed simp

text \<open>Whether an evaluation is signed off does not depend on the time of the reading.\<close>

lemma signed_off_any_time:
  assumes "get_policy_evaluation_workflow rt cal t1 s eid = Inr w1" and "ww_sign_off_status w1 = ''SIGNED_OFF''"
    and "get_policy_evaluation_workflow rt cal t2 s eid = Inr w2"
  shows "ww_sign_off_status w2 = ''SIGNED_OFF''"
  using assms unfolding get_policy_evaluation_workflow_def bind_error_Inr_iff
  by (elim exE conjE workflow_parts) (auto simp: signed_off_status)

subsection \<open>A review event with a conflict outcome\<close>

lemma review_stored:
  assumes ok: "ledger_ok s" and r: "dict_get (vs_records s) eid = Some r"
  obtains e s' h where "append_policy_evaluation_event rt cal at s eid PV_REVIEW_RECORDED actor reason None None = Inr (e, s')"
    and "s' = push_policy_event s eid r (dict_list (vs_events s) eid) e None h" and "ve_event_type e = PV_REVIEW_RECORDED"
    and "json_get (ve_reason_json e) ''conflict_review_outcome'' = json_get reason ''conflict_review_outcome''"
proof -
  have es: "dict_get (vs_events s) eid = Some (dict_list (vs_events s) eid)"
    using records_okD(2) [OF _ r] ok by (simp add: ledger_ok_def)
  have l: "load_evaluation s eid = Inr r" "load_event_log s eid = Inr (dict_list (vs_events s) eid)"
    using r es by simp_all
  let ?h = "event_request_hash rt PV_REVIEW_RECORDED eid actor reason (vr_evaluation_hash r)"
  let ?e = "policy_event_of rt s at r PV_REVIEW_RECORDED actor None ?h reason"
  have "append_policy_evaluation_event rt cal at s eid PV_REVIEW_RECORDED actor reason None None
      = Inr (?e, push_policy_event s eid r (dict_list (vs_events s) eid) ?e None ?h)"
    by (simp add: append_policy_evaluation_event_def normalize_optional_idempotency_key_def Let_def l
        store_append_policy_evaluation_event_def validate_policy_evaluation_event_authority_def
        del: load_evaluation_Inr load_event_log_Inr)
  then show thesis by (rule that) simp_all
qed

lemma review_clears_projection:
  assumes w: "build_policy_evaluation_workflow_projection rt cal now r es pub = Inr w"
    and ty: "ve_event_type e = PV_REVIEW_RECORDED"
    and c: "json_get (ve_reason_json e) ''conflict_review_outcome'' = JStr ''NO_MATERIAL_CONFLICT_REMAINING''"
  shows "\<exists>w'. build_policy_evaluation_workflow_projection rt cal now (attach_policy_evaluation_event r e) (es @ [e]) pub = Inr w'
    \<and> wc_status (ww_conflict_posture w') = ''SATISFIED'' \<and> wc_blockers (ww_conflict_posture w') = []"
proof -
  let ?r = "attach_policy_evaluation_event r e"
  have sign: "approved_sign_off_values (es @ [e]) k = approved_sign_off_values es k" for k
    using ty by (simp add: approved_sign_off_values_def is_approved_sign_off_event_def)
  have reqs: "approval_requirement_projections rt now ?r x = approval_requirement_projections rt now r x"
    "fixed_owner_requirement_projections rt now ?r a b x y = fixed_owner_requirement_projections rt now r a b x y" for a b x y
    by (simp_all add: approval_requirement_projections_def fixed_owner_requirement_projections_def)
  have meta: "workflow_lineage_metadata rt cal ?r pub = workflow_lineage_metadata rt cal r pub"
    "workflow_replay_metadata_of rt cal ?r = workflow_replay_metadata_of rt cal r"
    by (simp_all add: workflow_lineage_metadata_def workflow_replay_metadata_of_def)
  have "conflict_posture_for_workflow r es = Inr (ww_conflict_posture w)" using w by (rule workflow_parts)
  then obtain codes blockers where ev: "conflict_evidence_from_record r = Inr (codes, blockers)"
    by (auto simp: conflict_posture_for_workflow_def bind_error_Inr_iff)
  have "material_conflict_resolved (conflict_review_outcomes (es @ [e]))"
    using c by (simp add: material_conflict_resolved_def conflict_review_outcomes_def json_truthy_def)
  then have "conflict_posture_for_workflow ?r (es @ [e]) = Inr \<lparr>wc_status = ''SATISFIED'',
      wc_reason_codes = unique_strings codes, wc_blockers = [],
      wc_review_outcome = Some ''NO_MATERIAL_CONFLICT_REMAINING''\<rparr>"
    by (simp add: conflict_posture_for_workflow_def ev Let_def)
  then show ?thesis
    using w unfolding build_policy_evaluation_workflow_projection_def bind_error_Inr_iff Let_def sign reqs meta attach_fields
    by (elim exE conjE) (simp add: bind_error_def)
qed

lemma review_clears_conflict:
  assumes ok: "ledger_ok s" and w: "get_policy_evaluation_workflow rt cal now s eid = Inr w"
    and c: "json_get reason ''conflict_review_outcome'' = JStr ''NO_MATERIAL_CONFLICT_REMAINING''"
  shows "\<exists>e s' w'. append_policy_evaluation_event rt cal at s eid PV_REVIEW_RECORDED actor reason None None = Inr (e, s')
    \<and> get_policy_evaluation_workflow rt cal now s' eid = Inr w'
    \<and> wc_status (ww_conflict_posture w') = ''SATISFIED'' \<and> wc_blockers (ww_conflict_posture w') = []"
proof -
  obtain r where r: "dict_get (vs_records s) eid = Some r" using workflow_record [OF w] by blast
  obtain e s' h where a: "append_policy_evaluation_event rt cal at s eid PV_REVIEW_RECORDED actor reason None None = Inr (e, s')"
    and s': "s' = push_policy_event s eid r (dict_list (vs_events s) eid) e None h"
    and e: "ve_event_type e = PV_REVIEW_RECORDED"
      "json_get (ve_reason_json e) ''conflict_review_outcome'' = JStr ''NO_MATERIAL_CONFLICT_REMAINING''"
    using review_stored [OF ok r, of rt cal at actor reason] c by metis
  have es: "dict_get (vs_events s) eid = Some (dict_list (vs_events s) eid)"
    using records_okD(2) [OF _ r] ok by (simp add: ledger_ok_def)
  note new = appended_workflow [OF ok r es s' review_keeps_ledger [OF ok a], of rt cal now eid]
  show ?thesis using review_clears_projection [OF w [unfolded workflow_of_log [OF ok r]] e] a new by auto
qed

subsection \<open>New evaluations\<close>

lemma created_record:
  assumes "finalize_policy_evaluation_record rt cal c t1 t2 s ev pack pid vid actor ikey reason trace = Inr (f, s')"
    and "vf_created f"
  obtains key tr where "evaluate_and_build_record rt cal c t1 ev pack pid vid actor key tr trace = Inr (vf_record f)"
    and "dict_get (vs_records s') (vr_evaluation_id (vf_record f)) = Some (vf_record f)"
proof -
  obtain key where "store_finalize_policy_evaluation_record rt cal c t1 t2 s ev pack pid vid actor key
      (case reason of None \<Rightarrow> [] | Some r \<Rightarrow> r) trace = Inr (f, s')"
    using assms(1) by (auto simp: finalize_policy_evaluation_record_def bind_error_Inr_iff)
  then show thesis
  proof (cases rule: store_finalize_cases)
    case created
    then show thesis by (intro that) (simp_all add: store_new_evaluation_def)
  qed (use assms(2) in simp_all)
qed

lemma built_definition:
  assumes "catalog_ok rt defs0 c"
    and "evaluate_and_build_record rt cal c t1 ev pack pid vid actor key reason trace = Inr r"
  obtains d where "dict_get (kc_definitions c) pack = Some d" and "definition_key d = pack"
proof -
  obtain d where d: "dict_get (kc_definitions c) pack = Some d"
    using assms(2) by (auto simp: evaluate_and_build_record_def bind_error_Inr_iff load_definition_Inr)
  obtain d0 where "version_ok rt pack d0 d (dict_list (kc_events c) pack)" using assms(1) d by (rule catalog_ok_versionD)
  then have "definition_key d = pack" unfolding version_ok_def by blast
  with d show thesis by (rule that)
qed

subsection \<open>Snapshots\<close>

lemma identity_index_restored:
  "dict_wf d \<Longrightarrow> identity_index_from_snapshot (map (\<lambda>(k, eid). (identity_parts k, eid)) d) = d"
proof -
  assume wf: "dict_wf d"
  have "fold (\<lambda>(identity, eid) index. case identity of [a, b, c, d, e] \<Rightarrow> dict_set (a, b, c, d, e) eid index | _ \<Rightarrow> index)
      (map (\<lambda>(k, eid). (identity_parts k, eid)) d) acc = fold (\<lambda>kv. dict_set (fst kv) (snd kv)) d acc" for acc
    by (induction d arbitrary: acc) (auto simp: identity_parts_def)
  then show ?thesis
    using fold_dict_set_distinct [of fst d "[]" snd] wf
    by (simp add: identity_index_from_snapshot_def dict_wf_def)
qed

lemma policy_snapshot_restores:
  assumes "ledger_ok s"
  shows "policy_store_from_snapshot (policy_snapshot_of s) = s"
proof -
  have "dict_wf (vs_idempotency s)" "dict_wf (vs_identity_index s)" using assms by (simp_all add: ledger_ok_def indexes_ok_def)
  moreover from this(1) have "fold (\<lambda>(k, v). dict_set k v) (vs_idempotency s) [] = vs_idempotency s"
    using fold_dict_set_distinct [of fst "vs_idempotency s" "[]" snd]
    by (simp add: dict_wf_def split_beta')
  ultimately show ?thesis by (simp add: policy_store_from_snapshot_def policy_snapshot_of_def identity_index_restored)
qed

end
