(* ===== verification/Policy_Reference_Packs.thy ===== *)
theory Policy_Reference_Packs
  imports Policy_Records
begin

text \<open>
  The reference packs a catalog without stored definitions starts with
  (\<open>policy_packs/catalog_reference_packs.py\<close>), transcribed.
\<close>

definition global_private_banking_baseline :: jobject where
  "global_private_banking_baseline = [
      (''policy_pack_id'', JStr ''GLOBAL_PRIVATE_BANKING_BASELINE''),
      (''policy_version'', JStr ''2026.05''),
      (''policy_family'', JStr ''GLOBAL_PRIVATE_BANKING''),
      (''display_name'', JStr ''Global Private Banking Baseline''),
      (''jurisdiction_scope'', json_strs [''GLOBAL'']),
      (''booking_center_code_scope'', json_strs [''GLOBAL'']),
      (''legal_entity_scope'', json_strs [''REFERENCE'']),
      (''client_segment_scope'', json_strs [''PRIVATE_BANKING'']),
      (''product_scope'', json_strs [''MULTI_ASSET'']),
      (''effective_from'', JStr ''2026-05-01''),
      (''effective_to'', JStr ''3999-12-31''),
      (''activation_state'', JStr ''ACTIVE''),
      (''owner_role'', JStr ''ADVISORY_POLICY_STEWARD''),
      (''maker_checker_required'', JBool False),
      (''schema_version'', JStr ''rfc0025.policy-pack-catalog.v1''),
      (''applicability'', JObj [
        (''jurisdiction_scope'', json_strs [''GLOBAL'']),
        (''booking_center_code_scope'', json_strs [''GLOBAL'']),
        (''legal_entity_scope'', json_strs [''REFERENCE'']),
        (''client_segment_scope'', json_strs [''PRIVATE_BANKING'']),
        (''product_scope'', json_strs [''MULTI_ASSET''])]),
      (''source_requirements'', json_strs [''client_classification'', ''mandate_objectives'',
        ''mandate_restrictions'', ''holdings_cash_market_data'', ''product_eligibility'',
          ''risk_policy_metrics'']),
      (''rules'', JList [
        JObj [
          (''rule_id'', JStr ''GLOBAL_SOURCE_READINESS_REQUIRED''),
          (''severity'', JStr ''BLOCKING''),
          (''required_evidence_fields'', json_strs [''policy_source_readiness.overall_posture'',
            ''policy_source_readiness.source_authority'']),
          (''source_gap_handling'', JStr ''PENDING_REVIEW_OR_BLOCKED''),
          (''outcome_mapping'', JStr ''NO_POSITIVE_POLICY_OUTCOME_WITH_MISSING_SOURCE_EVIDENCE'')],
        JObj [
          (''rule_id'', JStr ''GLOBAL_MANDATE_RESTRICTIONS_REVIEW''),
          (''severity'', JStr ''REVIEW_REQUIRED''),
          (''required_evidence_fields'', json_strs [''core_mandate_objectives_restrictions'']),
          (''source_gap_handling'', JStr ''PENDING_REVIEW_OR_BLOCKED''),
          (''outcome_mapping'', JStr ''MANDATE_RESTRICTIONS_REQUIRE_ADVISOR_REVIEW'')]]),
      (''disclosure_templates'', json_strs []),
      (''consent_templates'', json_strs []),
      (''approval_routes'', JList [
        JObj [
          (''route_id'', JStr ''ADVISOR_REVIEW''),
          (''owner_role'', JStr ''ADVISOR''),
          (''review_sla'', JStr ''P2D'')]]),
      (''sample_fixture_refs'', json_strs [''PB_SG_GLOBAL_BAL_001'',
        ''fixtures/policy-packs/global-private-banking-baseline.json''])]"

definition sg_private_banking_reference :: jobject where
  "sg_private_banking_reference = [
      (''policy_pack_id'', JStr ''SG_PRIVATE_BANKING_REFERENCE''),
      (''policy_version'', JStr ''2026.05''),
      (''policy_family'', JStr ''SG_PRIVATE_BANKING''),
      (''display_name'', JStr ''Singapore Private Banking Reference''),
      (''jurisdiction_scope'', json_strs [''SG'']),
      (''booking_center_code_scope'', json_strs [''SG'']),
      (''legal_entity_scope'', json_strs [''REFERENCE'']),
      (''client_segment_scope'', json_strs [''ACCREDITED_INVESTOR'', ''PRIVATE_BANKING'']),
      (''product_scope'', json_strs [''MULTI_ASSET'', ''STRUCTURED_PRODUCT'', ''PRIVATE_ASSET'']),
      (''effective_from'', JStr ''2026-05-01''),
      (''effective_to'', JStr ''3999-12-31''),
      (''activation_state'', JStr ''DRAFT''),
      (''owner_role'', JStr ''ADVISORY_POLICY_STEWARD''),
      (''maker_checker_required'', JBool True),
      (''schema_version'', JStr ''rfc0025.policy-pack-catalog.v1''),
      (''applicability'', JObj [
        (''jurisdiction_scope'', json_strs [''SG'']),
        (''booking_center_code_scope'', json_strs [''SG'']),
        (''legal_entity_scope'', json_strs [''REFERENCE'']),
        (''client_segment_scope'', json_strs [''ACCREDITED_INVESTOR'', ''PRIVATE_BANKING'']),
        (''product_scope'', json_strs [''MULTI_ASSET'', ''STRUCTURED_PRODUCT'', ''PRIVATE_ASSET''])]),
      (''source_requirements'', json_strs [''household_id'', ''account_id'', ''mandate_id'',
        ''client_classification'', ''product_eligibility'', ''target_market'', ''product_complexity'',
          ''risk_policy_metrics'']),
      (''rules'', JList [
        JObj [
          (''rule_id'', JStr ''SG_AI_PRODUCT_ELIGIBILITY_REVIEW''),
          (''severity'', JStr ''BLOCKING''),
          (''required_evidence_fields'', json_strs [''core_product_eligibility_target_market_complexity'',
            ''core_client_profile_classification'']),
          (''source_gap_handling'', JStr ''BLOCKED''),
          (''outcome_mapping'', JStr ''ELIGIBILITY_REVIEW_REQUIRED'')],
        JObj [
          (''rule_id'', JStr ''SG_COMPLEX_PRODUCT_DISCLOSURE_REVIEW''),
          (''severity'', JStr ''REVIEW_REQUIRED''),
          (''required_evidence_fields'', json_strs [''private_asset_or_structured_product_flag'',
            ''risk_policy_metrics'']),
          (''source_gap_handling'', JStr ''PENDING_REVIEW''),
          (''outcome_mapping'', JStr ''DISCLOSURE_AND_CONSENT_REVIEW_REQUIRED'')],
        JObj [
          (''rule_id'', JStr ''SG_BEST_INTEREST_COST_REVIEW''),
          (''severity'', JStr ''REVIEW_REQUIRED''),
          (''required_evidence_fields'', json_strs [''fee_cost_tax_friction_evidence'']),
          (''source_gap_handling'', JStr ''PENDING_REVIEW''),
          (''outcome_mapping'', JStr ''BEST_INTEREST_COST_REASONABLENESS_REVIEW_REQUIRED'')],
        JObj [
          (''rule_id'', JStr ''SG_CONFLICT_REVIEW''),
          (''severity'', JStr ''REVIEW_REQUIRED''),
          (''required_evidence_fields'', json_strs [''conflict_evidence'', ''product_document_evidence'']),
          (''source_gap_handling'', JStr ''PENDING_REVIEW''),
          (''outcome_mapping'', JStr ''CONFLICT_AND_DISCLOSURE_REVIEW_REQUIRED'')]]),
      (''disclosure_templates'', JList [
        JObj [
          (''template_id'', JStr ''SG_COMPLEX_PRODUCT_DISCLOSURE''),
          (''template_version'', JStr ''2026.05''),
          (''audience'', JStr ''INTERNAL_REVIEW'')]]),
      (''consent_templates'', JList [
        JObj [
          (''template_id'', JStr ''SG_COMPLEX_PRODUCT_CONSENT''),
          (''template_version'', JStr ''2026.05''),
          (''audience'', JStr ''INTERNAL_REVIEW'')]]),
      (''approval_routes'', JList [
        JObj [
          (''route_id'', JStr ''INVESTMENT_COUNSELLOR_REVIEW''),
          (''owner_role'', JStr ''INVESTMENT_COUNSELLOR''),
          (''review_sla'', JStr ''P1D'')],
        JObj [
          (''route_id'', JStr ''SUPERVISORY_REVIEW''),
          (''owner_role'', JStr ''SUPERVISOR''),
          (''review_sla'', JStr ''P2D'')]]),
      (''sample_fixture_refs'', json_strs [''PB_SG_GLOBAL_BAL_001'',
        ''fixtures/policy-packs/sg-private-banking-reference.json''])]"

definition reference_policy_packs :: "jobject list" where
  "reference_policy_packs = [global_private_banking_baseline, sg_private_banking_reference]"

end
