(* ===== verification/Policy_Durable.thy ===== *)
theory Policy_Durable
  imports Policy_Guarantees Policy_Reference_Packs
begin

text \<open>
  The durable repositories (\<open>policy_packs/durable_repositories.py\<close>): every command loads the last
  snapshot, runs on the store restored from it and saves a snapshot of what it left; a command that
  raises saves nothing, a query saves nothing.  The state store holds one snapshot.
\<close>

subsection \<open>Commands through a snapshot\<close>

definition through_snapshot ::
  "('n \<Rightarrow> error + 's) \<Rightarrow> ('s \<Rightarrow> 'n) \<Rightarrow> ('s \<Rightarrow> error + 'a \<times> 's) \<Rightarrow> 'n \<Rightarrow> error + 'a \<times> 'n" where
  "through_snapshot restore save f n = bind_error (restore n) (\<lambda>s.
     bind_error (f s) (\<lambda>(answer, s'). Inr (answer, save s')))"

definition from_snapshot :: "('n \<Rightarrow> error + 's) \<Rightarrow> ('s \<Rightarrow> error + 'a) \<Rightarrow> 'n \<Rightarrow> error + 'a" where
  "from_snapshot restore f n = bind_error (restore n) f"

text \<open>
  What a snapshot format owes its repository: every sound state is restored from its snapshot.  Then
  a command or a query through the snapshot is the command or query on the state.
\<close>

locale snapshot_format =
  fixes restore :: "'n \<Rightarrow> error + 's" and save :: "'s \<Rightarrow> 'n" and sound :: "'s \<Rightarrow> bool"
  assumes restored: "sound s \<Longrightarrow> restore (save s) = Inr s"
begin

lemma command:
  "sound s \<Longrightarrow> through_snapshot restore save f (save s) = bind_error (f s) (\<lambda>(answer, s'). Inr (answer, save s'))"
  by (simp add: through_snapshot_def restored)

lemma query: "sound s \<Longrightarrow> from_snapshot restore g (save s) = g s"
  by (simp add: from_snapshot_def restored)

text \<open>Two commands in a row, the first of which leaves a sound state.\<close>

lemma commands:
  assumes "sound s" and "f s = Inr (a, s')" and "sound s'"
  shows "bind_error (through_snapshot restore save f (save s)) (\<lambda>(_, n). through_snapshot restore save g n)
    = bind_error (g s') (\<lambda>(answer, s''). Inr (answer, save s''))"
  using assms by (simp add: command)

end

subsection \<open>The evaluation repository\<close>

abbreviation restore_policy_store :: "policy_snapshot \<Rightarrow> error + policy_store" where
  "restore_policy_store n \<equiv> Inr (policy_store_from_snapshot n)"

definition durable_finalize_policy_evaluation_record ::
  "runtime \<Rightarrow> calendar \<Rightarrow> policy_catalog \<Rightarrow> datetime \<Rightarrow> datetime \<Rightarrow> policy_snapshot \<Rightarrow> jobject \<Rightarrow> pack_key
     \<Rightarrow> string \<Rightarrow> string \<Rightarrow> string \<Rightarrow> string \<Rightarrow> jobject \<Rightarrow> string option \<Rightarrow> error + finalize_result \<times> policy_snapshot" where
  "durable_finalize_policy_evaluation_record rt cal c built_at event_at n evidence pack pid vid created_by ikey reason
       observed_trace = through_snapshot restore_policy_store policy_snapshot_of
     (\<lambda>s. store_finalize_policy_evaluation_record rt cal c built_at event_at s evidence pack pid vid created_by ikey
        reason observed_trace) n"

definition durable_append_policy_evaluation_event ::
  "runtime \<Rightarrow> calendar \<Rightarrow> datetime \<Rightarrow> policy_snapshot \<Rightarrow> string \<Rightarrow> policy_event_type \<Rightarrow> string \<Rightarrow> jobject
     \<Rightarrow> string option \<Rightarrow> event_authority option \<Rightarrow> error + policy_event \<times> policy_snapshot" where
  "durable_append_policy_evaluation_event rt cal now n eid ty actor reason ikey authority =
     through_snapshot restore_policy_store policy_snapshot_of
     (\<lambda>s. store_append_policy_evaluation_event rt cal now s eid ty actor reason ikey authority) n"

definition durable_list_policy_evaluation_events :: "policy_snapshot \<Rightarrow> string \<Rightarrow> error + policy_event list" where
  "durable_list_policy_evaluation_events n eid =
     from_snapshot restore_policy_store (\<lambda>s. list_policy_evaluation_events s eid) n"

definition durable_list_policy_evaluation_records ::
  "policy_snapshot \<Rightarrow> string option \<Rightarrow> string option \<Rightarrow> error + evaluation_record list" where
  "durable_list_policy_evaluation_records n status portfolio =
     from_snapshot restore_policy_store (\<lambda>s. Inr (list_policy_evaluation_records s status portfolio)) n"

definition durable_get_policy_evaluation_record :: "policy_snapshot \<Rightarrow> string \<Rightarrow> error + evaluation_record" where
  "durable_get_policy_evaluation_record n eid = from_snapshot restore_policy_store (\<lambda>s. load_evaluation s eid) n"

definition durable_get_policy_evaluation_lineage :: "policy_snapshot \<Rightarrow> string \<Rightarrow> error + evaluation_lineage" where
  "durable_get_policy_evaluation_lineage n eid =
     from_snapshot restore_policy_store (\<lambda>s. get_policy_evaluation_lineage s eid) n"

definition durable_get_policy_evaluation_sign_off_package ::
  "policy_snapshot \<Rightarrow> string \<Rightarrow> error + evaluation_record \<times> evaluation_lineage \<times> jobject" where
  "durable_get_policy_evaluation_sign_off_package n eid =
     from_snapshot restore_policy_store (\<lambda>s. get_policy_evaluation_sign_off_package s eid) n"

definition durable_replay_policy_evaluation_record ::
  "runtime \<Rightarrow> policy_catalog \<Rightarrow> policy_snapshot \<Rightarrow> string \<Rightarrow> jobject option \<Rightarrow> error + replay_response" where
  "durable_replay_policy_evaluation_record rt c n eid evidence =
     from_snapshot restore_policy_store (\<lambda>s. replay_policy_evaluation_record rt c s eid evidence) n"

interpretation evaluation_snapshots: snapshot_format restore_policy_store policy_snapshot_of ledger_ok
  by unfold_locales (simp add: policy_snapshot_restores)

subsection \<open>The catalog repository\<close>

text \<open>A snapshot without definitions, such as the empty one before the first command, starts from the reference packs.\<close>

definition restore_policy_catalog :: "runtime \<Rightarrow> catalog_snapshot \<Rightarrow> error + policy_catalog" where
  "restore_policy_catalog rt n = catalog_from_snapshot rt reference_policy_packs n"

definition durable_validate_policy_pack_version ::
  "runtime \<Rightarrow> datetime \<Rightarrow> pack_key \<Rightarrow> string \<Rightarrow> string \<Rightarrow> jobject \<Rightarrow> catalog_snapshot
     \<Rightarrow> error + validation_response \<times> catalog_snapshot" where
  "durable_validate_policy_pack_version rt now pack requested_by ikey reason n =
     through_snapshot (restore_policy_catalog rt) catalog_to_snapshot
     (\<lambda>c. store_validate_policy_pack_version rt now pack requested_by ikey reason c) n"

definition durable_activate_policy_pack_version ::
  "runtime \<Rightarrow> datetime \<Rightarrow> pack_key \<Rightarrow> string \<Rightarrow> string \<Rightarrow> string \<Rightarrow> jobject \<Rightarrow> catalog_snapshot
     \<Rightarrow> error + activation_response \<times> catalog_snapshot" where
  "durable_activate_policy_pack_version rt now pack activated_by source_content_hash ikey reason n =
     through_snapshot (restore_policy_catalog rt) catalog_to_snapshot
     (\<lambda>c. store_activate_policy_pack_version rt now pack activated_by source_content_hash ikey reason c) n"

definition durable_list_policy_pack_events ::
  "runtime \<Rightarrow> catalog_snapshot \<Rightarrow> pack_key \<Rightarrow> error + pack_event list" where
  "durable_list_policy_pack_events rt n pack =
     from_snapshot (restore_policy_catalog rt) (\<lambda>c. list_policy_pack_events c pack) n"

definition durable_list_policy_pack_versions :: "runtime \<Rightarrow> catalog_snapshot \<Rightarrow> error + pack_summary list" where
  "durable_list_policy_pack_versions rt n =
     from_snapshot (restore_policy_catalog rt) (\<lambda>c. Inr (list_policy_pack_versions c)) n"

definition catalog_sound :: "runtime \<Rightarrow> policy_catalog \<Rightarrow> bool" where
  "catalog_sound rt c \<longleftrightarrow> (\<exists>defs. catalog_ok rt defs c) \<and> kc_definitions c \<noteq> []"

interpretation catalog_snapshots: snapshot_format "restore_policy_catalog rt" catalog_to_snapshot "catalog_sound rt" for rt
  by unfold_locales (auto simp: catalog_sound_def restore_policy_catalog_def snapshot_roundtrip)

subsection \<open>The reference packs\<close>

lemma reference_keys: "map definition_key reference_policy_packs
    = [(''GLOBAL_PRIVATE_BANKING_BASELINE'', ''2026.05''), (''SG_PRIVATE_BANKING_REFERENCE'', ''2026.05'')]"
  by code_simp

lemma reference_catalog: "kc_definitions (new_catalog rt reference_policy_packs)
    = map (\<lambda>d. (definition_key d, prepare_definition rt d)) reference_policy_packs"
  using fold_dict_set_distinct [of definition_key reference_policy_packs "[]" "prepare_definition rt"]
  by (simp add: new_catalog_def Let_def reference_keys)

lemma one_activeI:
  assumes "distinct (map (\<lambda>kv. fst (fst kv)) defs)"
  shows "one_active defs"
proof -
  have "k = k'" if "(k, d) \<in> set defs" "(k', d') \<in> set defs" "fst k = fst k'" for k k' d d'
    using assms that by (force simp: distinct_map inj_on_def)
  then show ?thesis unfolding one_active_def by (blast dest: map_of_SomeD)
qed

lemma reference_start: "policy_reachable rt cal reference_policy_packs (new_catalog rt reference_policy_packs, empty_policy_store)"
proof (rule policy_reachable.start, rule one_activeI)
  have "map (\<lambda>d. fst (definition_key d)) reference_policy_packs = map fst (map definition_key reference_policy_packs)"
    by simp
  then have "distinct (map (\<lambda>d. fst (definition_key d)) reference_policy_packs)" unfolding reference_keys by simp
  then show "distinct (map (\<lambda>kv. fst (fst kv)) (kc_definitions (new_catalog rt reference_policy_packs)))"
    by (simp add: reference_catalog comp_def)
qed

lemma reference_states: "map (\<lambda>d. (json_get d ''activation_state'', needs_checker d)) reference_policy_packs
    = [(JStr ''ACTIVE'', False), (JStr ''DRAFT'', True)]"
  by code_simp

text \<open>Preparing a definition adds its posture and hash, which the validation of the other fields does not read.\<close>

lemma prepared_diagnostics: "validate_catalog_definition (prepare_definition rt d)
    = required_field_diagnostics d @ rule_collection_diagnostics d"
proof -
  have get: "json_get (prepare_definition rt d) k = json_get d k" if "k \<notin> {''reference_posture'', ''content_hash''}" for k
    using that by (simp add: prepare_definition_def Let_def)
  have "required_field_diagnostics (prepare_definition rt d) = required_field_diagnostics d"
    by (simp add: required_field_diagnostics_def required_definition_fields_def get)
  moreover have "reference_posture_diagnostics (prepare_definition rt d) = []"
    by (simp add: reference_posture_diagnostics_def prepare_definition_def Let_def)
  moreover have "rule_collection_diagnostics (prepare_definition rt d) = rule_collection_diagnostics d"
    by (simp add: rule_collection_diagnostics_def get)
  ultimately show ?thesis by (simp add: validate_catalog_definition_def)
qed

lemma reference_packs_valid: "map (\<lambda>d. validate_catalog_definition (prepare_definition rt d)) reference_policy_packs = [[], []]"
proof -
  have "map (\<lambda>d. required_field_diagnostics d @ rule_collection_diagnostics d) reference_policy_packs = [[], []]"
    by code_simp
  then show ?thesis by (simp add: prepared_diagnostics)
qed

end
