(* ===== verification/Policy_Fixtures.thy ===== *)
theory Policy_Fixtures
  imports Policy_History Policy_Durable
begin

text \<open>
  The concrete inputs of the policy properties and the states the run on them reaches.
\<close>

section \<open>Concrete inputs\<close>

text \<open>
  The concrete inputs the witnesses of the policy properties run on: a pack is validated by a maker,
  activated by a checker, an evaluation is finalised under it and signed off by a second actor.
\<close>

subsection \<open>Services and inputs\<close>

definition policy_runtime :: runtime where
  "policy_runtime = \<lparr>rt_sha256 = (\<lambda>s. ''00''), rt_isoformat = (\<lambda>t. ''2026-06-30''),
     rt_fromisoformat = (\<lambda>s. if s = [] then None else Some 1000)\<rparr>"

definition policy_calendar :: calendar where
  "policy_calendar = \<lparr>kd_date_of_iso = Some, kd_date_of_iso_datetime = (\<lambda>s. None),
     kd_local_date = (\<lambda>z t. ''2026-06-30'')\<rparr>"

text \<open>A pack of one conflict rule that applies everywhere, and the smallest evidence it pends on.\<close>

definition demo_pack :: jobject where
  "demo_pack = [(''policy_pack_id'', JStr ''PK''), (''policy_version'', JStr ''1''), (''policy_family'', JStr ''F''),
     (''display_name'', JStr ''D''),
     (''activation_state'', JStr ''DRAFT''), (''maker_checker_required'', JBool True), (''schema_version'', JStr ''s''),
     (''applicability'', JObj [(''jurisdiction_scope'', json_strs [''GLOBAL'']),
        (''client_segment_scope'', json_strs [''GLOBAL'']), (''product_scope'', json_strs [''GLOBAL''])]),
     (''source_requirements'', json_strs [''r'']), (''sample_fixture_refs'', json_strs [''f'']),
     (''rules'', JList [JObj [(''rule_id'', JStr ''SG_CONFLICT_REVIEW''),
        (''required_evidence_fields'', json_strs [''conflict_evidence''])]])]"

definition demo_key :: pack_key where
  "demo_key = (''PK'', ''1'')"

definition demo_evidence :: jobject where
  "demo_evidence = [(''inputs'', JObj [(''portfolio_snapshot'', JObj [(''portfolio_id'', JStr ''pf''),
       (''as_of_date'', JStr ''2026-06-29'')])]),
     (''policy_source_readiness'', JObj [(''overall_posture'', JStr ''READY'')])]"

definition principal_of :: "string \<Rightarrow> jobject" where
  "principal_of actor = [(''trusted_principal'', JObj
     [(''subject'', JStr actor), (''tenant_id'', JStr ''t''), (''legal_entity_code'', JStr ''REFERENCE''),
      (''correlation_id'', JStr ''c''), (''service_identity'', JStr ''s''), (''trace_id'', JStr ''r'')])]"

subsection \<open>The packs in use\<close>

definition started_catalog :: policy_catalog where
  "started_catalog = new_catalog policy_runtime [demo_pack]"

definition demo_validation :: "error + validation_response \<times> policy_catalog" where
  "demo_validation = validate_policy_pack_version policy_runtime 1 demo_key ''maker'' (Some ''k1'') [] started_catalog"

definition demo_activation :: "error + activation_response \<times> policy_catalog" where
  "demo_activation = activate_policy_pack_version policy_runtime 2 demo_key ''checker'' ''sha256:00'' (Some ''k2'') []
     (snd (projr demo_validation))"

definition demo_catalog :: policy_catalog where
  "demo_catalog = snd (projr demo_activation)"

definition demo_active_pack :: jobject where
  "demo_active_pack = set_activation_state ''ACTIVE'' (dict_set ''content_hash'' (JStr ''sha256:00'')
     (dict_set ''reference_posture'' (JStr reference_policy_pack_posture) demo_pack))"

lemma demo_validation_ok: "\<not> isl demo_validation"
  by code_simp

lemma demo_activation_ok: "\<not> isl demo_activation"
  by code_simp

lemma demo_catalog_pack: "load_definition demo_catalog demo_key = Inr demo_active_pack"
  by code_simp

lemma started_packs: "distinct (map (\<lambda>kv. fst (fst kv)) (kc_definitions started_catalog))"
  by code_simp

subsection \<open>The evaluation\<close>

definition demo_rule_result :: rule_evaluation where
  "demo_rule_result = \<lparr>re_rule_id = ''SG_CONFLICT_REVIEW'', re_status = PS_PENDING_REVIEW,
       re_severity = ''REVIEW_REQUIRED'', re_outcome = ''CONFLICT_AND_DISCLOSURE_REVIEW_REQUIRED'',
       re_evidence_refs = [''artifact.disclosures.product_docs''],
       re_source_authority_refs = [''lotus-advise:proposal_artifact_disclosures''],
       re_missing_evidence = [''conflict_evidence''], re_reason_codes = [''CONFLICT_EVIDENCE_NOT_PROVIDED''],
       re_required_actions = [''REVIEW_CONFLICT_OF_INTEREST'']\<rparr>"

definition demo_evaluation :: policy_evaluation where
  "demo_evaluation = \<lparr>en_contract_version = ''rfc0025.policy-evaluation-engine.v1'',
     en_policy_pack = summary_from_definition demo_active_pack, en_evaluation_status = PS_PENDING_REVIEW,
     en_applicability = \<lparr>ay_status = AY_APPLICABLE,
       ay_matched_selectors = [(''jurisdiction'', []), (''client_segment'', [])], ay_missing_evidence = [],
       ay_reason_codes = [''POLICY_PACK_APPLIES_TO_PROPOSAL_CONTEXT'']\<rparr>,
     en_source_posture = [(''overall_posture'', JStr ''READY'')],
     en_rule_results = [demo_rule_result],
     en_supportability = policy_runtime_supportability\<rparr>"

definition demo_receipt :: receipt_identity where
  "demo_receipt = \<lparr>ri_as_of_date = ''2026-06-29'',
     ri_scope_identity = \<lparr>rx_tenant_scope_hash = ''sha256:00'', rx_legal_entity_code = ''REFERENCE'',
       rx_booking_center_code = None, rx_service_identity_hash = ''sha256:00'', rx_proposal_id = ''p'',
       rx_proposal_version_id = ''v'', rx_portfolio_id = ''pf''\<rparr>,
     ri_observed_correlation_id_hash = ''sha256:00'', ri_observed_trace_id_hash = ''sha256:00'',
     ri_trace_identity_source = ''trusted_policy_control_principal''\<rparr>"

definition demo_record :: evaluation_record where
  "demo_record = \<lparr>vr_evaluation_id = ''pev_00'', vr_proposal_id = ''p'', vr_proposal_version_id = ''v'',
     vr_portfolio_id = ''pf'', vr_policy_pack_id = ''PK'', vr_policy_version = ''1'',
     vr_generated_at = ''2026-06-30'', vr_created_by = ''maker'', vr_evaluation_status = PS_PENDING_REVIEW,
     vr_policy_content_hash = ''sha256:00'', vr_source_evidence_hash = ''sha256:00'', vr_evaluation_hash = ''sha256:00'',
     vr_rule_result_hashes = [(''SG_CONFLICT_REVIEW'', ''sha256:00'')],
     vr_evaluation_json = dump_evaluation demo_evaluation,
     vr_source_refs = [''lotus-advise:proposal_artifact_disclosures'', ''artifact.disclosures.product_docs''],
     vr_source_gaps = [''conflict_evidence''], vr_approval_dependencies = [''REVIEW_CONFLICT_OF_INTEREST''],
     vr_disclosure_requirements = [], vr_consent_requirements = [], vr_review_events_json = [],
     vr_sign_off_events_json = [], vr_report_archive_refs_json = [],
     vr_replay_metadata_json = \<lparr>vm_receipt_identity = Some demo_receipt, vm_as_of_date = Some ''2026-06-29'',
       vm_idempotency_key = ''k3'', vm_creation_reason = replay_safe_reason (principal_of ''maker''),
       vm_replay_policy = ''PIN_POLICY_VERSION_AND_COMPARE_SOURCE_HASHES''\<rparr>\<rparr>"

definition demo_event :: policy_event where
  "demo_event = policy_event_of policy_runtime empty_policy_store 4 demo_record PV_FINALIZED ''maker'' (Some ''k3'')
     ''sha256:00'' (finalized_event_reason demo_record (principal_of ''maker''))"

definition demo_store :: policy_store where
  "demo_store = store_new_evaluation empty_policy_store demo_record demo_event (''p'', ''v'', ''PK'', ''1'', ''sha256:00'')
     ''k3'' ''sha256:00''"

text \<open>Every digest of the fixture runtime is the same, so the payloads need not be printed.\<close>

lemma demo_hash: "hash_canonical_payload policy_runtime x = ''sha256:00''"
  by (simp add: hash_canonical_payload_def policy_runtime_def)

lemma demo_detail: "evaluate_policy_pack_detail demo_active_pack demo_evidence = Inr demo_evaluation"
  by code_simp

lemma demo_evaluated: "evaluate_policy_pack_version demo_catalog demo_key demo_evidence = Inr demo_evaluation"
proof -
  have "is_active demo_active_pack" by (simp add: demo_active_pack_def)
  then show ?thesis by (simp add: evaluate_policy_pack_version_def demo_catalog_pack demo_detail)
qed

lemma demo_lists:
  "record_portfolio_id demo_evidence = Inr ''pf''" "portfolio_id_from_evidence demo_evidence = Inr (Some ''pf'')"
  "source_refs_of demo_evaluation = vr_source_refs demo_record" "source_gaps_of demo_evaluation = vr_source_gaps demo_record"
  "approval_dependencies_of demo_evaluation = vr_approval_dependencies demo_record"
  "disclosure_requirements_of demo_evaluation = []" "consent_requirements_of demo_evaluation = []"
  by code_simp+

lemma demo_receipt_built: "build_policy_evaluation_receipt_identity policy_runtime policy_calendar demo_evidence ''p'' ''v'' ''pf''
    (principal_of ''maker'') None 3 = Inr demo_receipt"
  by code_simp

lemma demo_key_ok: "require_proposal_idempotency_key (Some ''k3'') = Inr ''k3''"
  by code_simp

lemma demo_parts:
  "en_evaluation_status demo_evaluation = PS_PENDING_REVIEW" "en_rule_results demo_evaluation = [demo_rule_result]"
  "re_rule_id demo_rule_result = ''SG_CONFLICT_REVIEW''" "rt_isoformat policy_runtime t = ''2026-06-30''"
  "fst demo_key = ''PK''" "snd demo_key = ''1''" "ri_as_of_date demo_receipt = ''2026-06-29''"
  by (simp_all add: demo_evaluation_def demo_rule_result_def policy_runtime_def demo_key_def demo_receipt_def)

lemma demo_summary: "ky_policy_pack_id (en_policy_pack demo_evaluation) = ''PK''"
  "ky_policy_version (en_policy_pack demo_evaluation) = ''1''"
  "ky_content_hash (summary_from_definition demo_active_pack) = ''sha256:00''"
  by code_simp+

lemma demo_built: "evaluate_and_build_record policy_runtime policy_calendar demo_catalog 3 demo_evidence demo_key ''p'' ''v''
    ''maker'' ''k3'' (principal_of ''maker'') None = Inr demo_record"
  by (simp add: evaluate_and_build_record_def demo_evaluated demo_catalog_pack build_policy_evaluation_record_def demo_lists
      demo_receipt_built Let_def demo_summary evaluation_identity_hash_def policy_evaluation_hash_def demo_hash
      remove_hash_prefix_def py_startswith_def demo_record_def demo_parts)

lemma empty_store_parts [simp]:
  "vs_idempotency empty_policy_store = []" "vs_identity_index empty_policy_store = []"
  "vs_records empty_policy_store = []" "vs_events empty_policy_store = []"
  by (simp_all add: empty_policy_store_def)

lemma demo_finalized: "finalize_policy_evaluation_record policy_runtime policy_calendar demo_catalog 3 4 empty_policy_store
    demo_evidence demo_key ''p'' ''v'' ''maker'' (Some ''k3'') (Some (principal_of ''maker'')) None
    = Inr (\<lparr>vf_record = demo_record, vf_created = True, vf_replayed = False, vf_audit_event = demo_event\<rparr>, demo_store)"
  by (simp add: finalize_policy_evaluation_record_def demo_key_ok store_finalize_policy_evaluation_record_def Let_def
      demo_lists find_replayed_policy_event_def demo_built demo_hash finalize_request_hash_def demo_event_def demo_store_def
      demo_parts)

subsection \<open>What follows\<close>

definition demo_decision :: sign_off_payload where
  "demo_decision = \<lparr>wd_actor_id = ''checker'', wd_decision = SD_APPROVE, wd_source_evaluation_hash = ''sha256:00'',
     wd_resolved_approval_dependencies = [''REVIEW_CONFLICT_OF_INTEREST''],
     wd_satisfied_disclosure_requirements = [], wd_satisfied_consent_requirements = [],
     wd_conflict_review_outcome = Some ''NO_MATERIAL_CONFLICT_REMAINING'', wd_reason = []\<rparr>"

definition demo_report :: report_payload where
  "demo_report = \<lparr>xa_requested_by = ''checker'', xa_portfolio_id = ''pf'', xa_source_evaluation_hash = ''sha256:00'',
     xa_requested_output_formats = [''pdf''], xa_client_ready_document_requested = False, xa_reason = []\<rparr>"

definition demo_question :: ai_payload where
  "demo_question = \<lparr>xg_requested_by = ''checker'', xg_source_evaluation_hash = ''sha256:00'',
     xg_requested_actions = [''explain_source_gaps''], xg_reason = []\<rparr>"

definition silent_ai :: "ai_packet \<Rightarrow> string list \<Rightarrow> string \<Rightarrow> jobject \<Rightarrow> ai_outcome" where
  "silent_ai packet actions actor reason = AI_UNAVAILABLE ''timeout''"

definition clearing_review :: jobject where
  "clearing_review = [(''conflict_review_outcome'', JStr ''NO_MATERIAL_CONFLICT_REMAINING'')]"

lemma demo_load: "load_evaluation demo_store ''pev_00'' = Inr demo_record"
  "load_event_log demo_store ''pev_00'' = Inr [demo_event]"
proof -
  have "vr_evaluation_id demo_record = ''pev_00''" by (simp add: demo_record_def)
  then show "load_evaluation demo_store ''pev_00'' = Inr demo_record" "load_event_log demo_store ''pev_00'' = Inr [demo_event]"
    by (simp_all add: demo_store_def store_new_evaluation_def)
qed

lemma demo_log: "list_policy_evaluation_events demo_store ''pev_00'' = Inr [demo_event]"
  by (simp add: list_policy_evaluation_events_def demo_load del: load_evaluation_Inr load_event_log_Inr)

definition demo_sign_off_event :: policy_event where
  "demo_sign_off_event = policy_event_of policy_runtime demo_store 6 demo_record PV_SIGN_OFF_RECORDED ''checker'' None
     ''sha256:00'' (sign_off_event_reason demo_decision)"

definition demo_signed_store :: policy_store where
  "demo_signed_store = push_policy_event demo_store ''pev_00'' demo_record [demo_event] demo_sign_off_event None ''sha256:00''"

lemma demo_checks:
  "case build_policy_evaluation_workflow_projection policy_runtime policy_calendar 5 demo_record [demo_event]
       policy_client_ready_publication of
     Inl _ \<Rightarrow> False | Inr w \<Rightarrow> validate_policy_sign_off_decision demo_record w demo_decision = Inr ()"
  "validate_policy_evaluation_event_authority PV_SIGN_OFF_RECORDED (sign_off_event_reason demo_decision) ''sha256:00''
     (Some policy_sign_off_event_authority) = Inr ()"
  by code_simp+

lemma demo_appended: "append_policy_evaluation_event policy_runtime policy_calendar 6 demo_store ''pev_00'' PV_SIGN_OFF_RECORDED
    ''checker'' (sign_off_event_reason demo_decision) None (Some policy_sign_off_event_authority)
    = Inr (demo_sign_off_event, demo_signed_store)"
proof -
  have "vr_evaluation_hash demo_record = ''sha256:00''" by (simp add: demo_record_def)
  then show ?thesis
    by (simp add: append_as_store store_append_policy_evaluation_event_def demo_load Let_def demo_checks(2) demo_hash
        event_request_hash_def demo_sign_off_event_def demo_signed_store_def normalize_optional_idempotency_key_def
        del: load_evaluation_Inr load_event_log_Inr)
qed

lemma demo_decided:
  obtains d where "record_policy_evaluation_sign_off_decision policy_runtime policy_calendar 5 6 demo_store ''pev_00''
    demo_decision None = (d, demo_signed_store)"
proof -
  obtain w where "build_policy_evaluation_workflow_projection policy_runtime policy_calendar 5 demo_record [demo_event]
      policy_client_ready_publication = Inr w"
    and "validate_policy_sign_off_decision demo_record w demo_decision = Inr ()"
    using demo_checks(1) by (auto split: sum.splits)
  moreover have "vr_evaluation_hash demo_record = ''sha256:00''" "wd_source_evaluation_hash demo_decision = ''sha256:00''"
    "wd_decision demo_decision = SD_APPROVE" "wd_actor_id demo_decision = ''checker''"
    by (simp_all add: demo_record_def demo_decision_def)
  ultimately show thesis using that demo_appended
    by (simp add: record_policy_evaluation_sign_off_decision_def Let_def demo_load demo_log
        normalize_optional_idempotency_key_def del: load_evaluation_Inr load_event_log_Inr)
qed

lemma demo_signed_workflow:
  "case get_policy_evaluation_workflow policy_runtime policy_calendar 7 demo_signed_store ''pev_00'' of
     Inl _ \<Rightarrow> False | Inr w \<Rightarrow> ww_sign_off_status w = ''SIGNED_OFF''"
  by code_simp

lemma demo_report_sent:
  "case prepare_report_package policy_runtime policy_calendar (\<lambda>n. 7) demo_signed_store ''pev_00'' demo_report ''rr'' None of
     Inr (_, RK_SEND _) \<Rightarrow> True | _ \<Rightarrow> False"
  by code_simp

lemma demo_reviewed:
  "case append_policy_evaluation_event policy_runtime policy_calendar 8 demo_store ''pev_00'' PV_REVIEW_RECORDED ''maker''
     clearing_review None None of
     Inl _ \<Rightarrow> False
   | Inr (e, s) \<Rightarrow> (case get_policy_evaluation_workflow policy_runtime policy_calendar 9 s ''pev_00'' of
       Inl _ \<Rightarrow> False | Inr w \<Rightarrow> True)"
  by code_simp

section \<open>The run\<close>

text \<open>
  The run the witnesses of the policy properties use: from the catalog's start over validation,
  activation and finalisation to the signed-off evaluation, each state reachable.
\<close>

subsection \<open>The states reached\<close>

lemma not_isl_Inr: "\<not> isl x \<Longrightarrow> x = Inr (fst (projr x), snd (projr x))"
  by (cases x) simp_all

lemma demo_started: "policy_reachable policy_runtime policy_calendar [demo_pack] (started_catalog, empty_policy_store)"
  using policy_reachable.start [OF one_activeI [OF started_packs [unfolded started_catalog_def]]]
  by (simp add: started_catalog_def)

lemma demo_validated:
  "validate_policy_pack_version policy_runtime 1 demo_key ''maker'' (Some ''k1'') [] started_catalog
     = Inr (fst (projr demo_validation), snd (projr demo_validation))"
  using not_isl_Inr [OF demo_validation_ok] unfolding demo_validation_def .

lemma demo_activated:
  "activate_policy_pack_version policy_runtime 2 demo_key ''checker'' ''sha256:00'' (Some ''k2'') [] (snd (projr demo_validation))
     = Inr (fst (projr demo_activation), snd (projr demo_activation))"
  using not_isl_Inr [OF demo_activation_ok] unfolding demo_activation_def .

lemma demo_ready_to_evaluate:
  "policy_reachable policy_runtime policy_calendar [demo_pack] (demo_catalog, empty_policy_store)"
proof -
  have "policy_step policy_runtime policy_calendar (started_catalog, empty_policy_store)
      (snd (projr demo_validation), empty_policy_store)"
    by (rule policy_step.validated [OF demo_validated])
  moreover have "policy_step policy_runtime policy_calendar (snd (projr demo_validation), empty_policy_store)
      (demo_catalog, empty_policy_store)"
    unfolding demo_catalog_def
    by (rule policy_step.activated [OF demo_activated])
  ultimately show ?thesis using demo_started by (blast intro: policy_reachable.later)
qed

lemma demo_finalize_step: "policy_step policy_runtime policy_calendar (demo_catalog, empty_policy_store) (demo_catalog, demo_store)"
  by (rule policy_step.finalized [OF demo_finalized]) simp

lemma demo_stored: "policy_reachable policy_runtime policy_calendar [demo_pack] (demo_catalog, demo_store)"
  by (rule policy_reachable.later [OF demo_ready_to_evaluate demo_finalize_step])

lemma demo_sign_off_step: "policy_step policy_runtime policy_calendar (demo_catalog, demo_store) (demo_catalog, demo_signed_store)"
  using demo_decided by (blast intro: policy_step.decided)

lemma demo_signed: "policy_reachable policy_runtime policy_calendar [demo_pack] (demo_catalog, demo_signed_store)"
  by (rule policy_reachable.later [OF demo_stored demo_sign_off_step])

lemma demo_workflow:
  obtains w where "get_policy_evaluation_workflow policy_runtime policy_calendar 7 demo_signed_store ''pev_00'' = Inr w"
    and "ww_sign_off_status w = ''SIGNED_OFF''"
  using demo_signed_workflow by (auto split: sum.splits)

lemma demo_conflict:
  "case get_policy_evaluation_workflow policy_runtime policy_calendar 7 demo_store ''pev_00'' of
     Inl _ \<Rightarrow> False | Inr w \<Rightarrow> wc_status (ww_conflict_posture w) = ''BLOCKED''"
  by code_simp

lemma demo_signed_later: "(policy_step policy_runtime policy_calendar)\<^sup>*\<^sup>* (demo_catalog, demo_store) (demo_catalog, demo_signed_store)"
  by (rule r_into_rtranclp, rule demo_sign_off_step)

subsection \<open>Evidence the global baseline pack is ready on\<close>

definition complete_risk_lens :: jobject where
  "complete_risk_lens = (''source_service'', JStr ''lotus-risk'') # map (\<lambda>k. (k, JObj [(''status'', JStr ''OK'')])) risk_policy_keys"

definition complete_evidence :: jobject where
  "complete_evidence = [(''context_resolution'', JObj [(''resolution_source'', JStr ''LOTUS_CORE''),
       (''advisory_policy_context'', JObj [(''household_id'', JStr ''h''), (''jurisdiction'', JStr ''SG''),
         (''client_classification'', JStr ''PRIVATE_BANKING''), (''booking_center_code'', JStr ''SG''),
         (''legal_entity_code'', JStr ''REFERENCE''), (''account_id'', JStr ''a''), (''time_horizon'', JStr ''5Y''), (''liquidity_need'', JStr ''LOW''),
         (''mandate_id'', JStr ''m''), (''objectives'', JStr ''GROWTH''), (''restrictions'', JStr ''NO_LEVERAGE'')])]),
     (''inputs'', JObj [(''proposed_trades'', JList [JObj [(''instrument_id'', JStr ''X'')]]),
       (''shelf_entries'', JList [JObj [(''instrument_id'', JStr ''X''),
         (''eligibility'', JObj [(''jurisdictions'', json_strs [''SG''])]),
         (''target_market'', JObj [(''client_segments'', json_strs [''PRIVATE_BANKING''])]),
         (''complexity'', JStr ''SIMPLE''), (''private_asset'', JBool False)]]),
       (''portfolio_snapshot'', JObj [(''portfolio_id'', JStr ''pf''),
         (''positions'', JList [JObj []]), (''cash_balances'', JList [JObj []])]),
       (''market_data_snapshot'', JObj [(''prices'', JList [JObj []]), (''fx_rates'', JList [JObj []])])]),
     (''risk_lens'', JObj complete_risk_lens)]"

definition reference_pack :: jobject where
  "reference_pack = hd reference_policy_packs"

lemma reference_pack_ready:
  "case evaluate_policy_pack_detail reference_pack complete_evidence of
     Inl _ \<Rightarrow> False | Inr x \<Rightarrow> en_evaluation_status x = PS_READY"
  by code_simp

lemma complete_evidence_derived: "dict_at complete_evidence ''policy_source_readiness'' = []"
  by code_simp

lemma reference_pack_mandate_rule:
  "\<exists>rule\<in>set (definition_rules reference_pack). ''core_mandate_objectives_restrictions'' \<in> set (source_evidence_fields rule)"
  by code_simp

end
