(* ===== verification/Policy_Properties.thy ===== *)
theory Policy_Properties
  imports Policy_Guarantees Policy_Fixtures
begin

text \<open>
  Properties of the policy packs: the sign-off of an evaluation and what follows from it, the
  append-only record of evaluations and versions, retries, replays and snapshots.
\<close>

subsection \<open>Sign-off\<close>

text \<open>
  C6.  A SIGNED_OFF evaluation has earned it: nothing blocks it any more, it is not BLOCKED, and its
  log holds an approval by an actor other than its creator that cites its evaluation hash and covers
  every approval dependency, disclosure and consent requirement.
\<close>

theorem sign_off_is_earned:
  assumes "policy_reachable rt cal defs (c, s)"
    and "get_policy_evaluation_workflow rt cal now s eid = Inr w"
    and "ww_sign_off_status w = ''SIGNED_OFF''"
  shows "ww_sign_off_blockers w = [] \<and> (\<exists>r e. dict_get (vs_records s) eid = Some r
    \<and> e \<in> set (dict_list (vs_events s) eid) \<and> ve_event_type e = PV_SIGN_OFF_RECORDED
    \<and> json_get (ve_reason_json e) ''decision'' = JStr ''APPROVE_FOR_POLICY_SIGN_OFF''
    \<and> json_get (ve_reason_json e) ''source_evaluation_hash'' = JStr (vr_evaluation_hash r)
    \<and> ve_actor_id e \<noteq> vr_created_by r \<and> vr_evaluation_status r \<noteq> PS_BLOCKED
    \<and> set (vr_approval_dependencies r) \<subseteq> set (sign_off_reason_values e ''resolved_approval_dependencies'')
    \<and> set (vr_disclosure_requirements r) \<subseteq> set (sign_off_reason_values e ''satisfied_disclosure_requirements'')
    \<and> set (vr_consent_requirements r) \<subseteq> set (sign_off_reason_values e ''satisfied_consent_requirements''))"
proof -
  have "ledger_ok s" using policy_reachable_ok [OF assms(1)] by simp
  then obtain r e where "dict_get (vs_records s) eid = Some r" "e \<in> set (dict_list (vs_events s) eid)"
    "is_approved_sign_off_event e" "sign_off_backed r e" "ww_sign_off_blockers w = []"
    using assms(2,3) by (rule signed_off_workflow)
  then show ?thesis by (intro conjI exI [of _ r] exI [of _ e]) (simp_all add: is_approved_sign_off_event_def sign_off_backed_def)
qed

theorem sign_off_is_earned_witness:
  "\<exists>w. get_policy_evaluation_workflow policy_runtime policy_calendar 7 demo_signed_store ''pev_00'' = Inr w
    \<and> ww_sign_off_status w = ''SIGNED_OFF'' \<and> ww_sign_off_blockers w = []"
  using demo_workflow sign_off_is_earned [OF demo_signed] by metis

text \<open>
  C25.  An approval that may not be recorded is refused and changes nothing: one of a stale evaluation
  hash, one by the creator of the evaluation, one of a BLOCKED evaluation, and one that leaves an
  approval dependency, a disclosure or a consent requirement open.
\<close>

theorem unearned_approvals_are_refused:
  assumes "policy_reachable rt cal defs (c, s)" and "dict_get (vs_records s) eid = Some r"
    and "wd_decision p = SD_APPROVE"
    and "wd_source_evaluation_hash p \<noteq> vr_evaluation_hash r \<or> wd_actor_id p = vr_created_by r
      \<or> vr_evaluation_status r = PS_BLOCKED
      \<or> \<not> set (vr_approval_dependencies r) \<subseteq> set (wd_resolved_approval_dependencies p)
      \<or> \<not> set (vr_disclosure_requirements r) \<subseteq> set (wd_satisfied_disclosure_requirements p)
      \<or> \<not> set (vr_consent_requirements r) \<subseteq> set (wd_satisfied_consent_requirements p)"
  shows "\<exists>err. record_policy_evaluation_sign_off_decision rt cal t1 t2 s eid p ikey = (Inl err, s)"
proof -
  obtain res s' where run: "record_policy_evaluation_sign_off_decision rt cal t1 t2 s eid p ikey = (res, s')"
    by fastforce
  have "\<exists>err. res = Inl err \<and> s' = s"
    using run assms(2-4)
    by (auto simp: record_policy_evaluation_sign_off_decision_def Let_def load_evaluation_def bind_error_Inr_iff
        dest: validated_decision split: sum.splits if_splits prod.splits)
  then show ?thesis using run by blast
qed

theorem unearned_approvals_are_refused_witness:
  "\<exists>err. record_policy_evaluation_sign_off_decision policy_runtime policy_calendar 5 6 demo_store ''pev_00''
    (demo_decision\<lparr>wd_actor_id := ''maker''\<rparr>) None = (Inl err, demo_store)"
proof (rule unearned_approvals_are_refused [OF demo_stored])
  show "dict_get (vs_records demo_store) ''pev_00'' = Some demo_record" using demo_load(1) by simp
qed (simp_all add: demo_decision_def demo_record_def)

text \<open>
  C10.  Only signed-off evaluations are reported: a request handed to the reporting service carries the
  stored record and its whole log, both workflow readings of the command are SIGNED_OFF without a
  blocker, the caller cites the evaluation hash, asks for a supported format and for no client-ready
  document.
\<close>

theorem report_packages_are_signed_off:
  assumes "policy_reachable rt cal defs (c, s)"
    and "prepare_report_package rt cal clock s eid p rid key = Inr (r, RK_SEND req)"
  shows "dict_get (vs_records s) eid = Some r \<and> xb_evaluation (xd_policy_sign_off_package req) = r
    \<and> xb_audit_events (xd_policy_sign_off_package req) = dict_list (vs_events s) eid
    \<and> ww_sign_off_status (xb_workflow (xd_policy_sign_off_package req)) = ''SIGNED_OFF''
    \<and> ww_sign_off_blockers (xb_workflow (xd_policy_sign_off_package req)) = []
    \<and> xa_source_evaluation_hash p = vr_evaluation_hash r
    \<and> requested_supported_output_formats p \<noteq> [] \<and> \<not> xa_client_ready_document_requested p"
proof -
  have ok: "ledger_ok s" using policy_reachable_ok [OF assms(1)] by simp
  note sent = report_request_sent [OF ok assms(2)]
  obtain w where w: "get_policy_evaluation_workflow rt cal (clock 0) s eid = Inr w" "ww_sign_off_status w = ''SIGNED_OFF''"
    using sent(5) by blast
  have "ww_sign_off_status (xb_workflow (xd_policy_sign_off_package req)) = ''SIGNED_OFF''"
    using signed_off_any_time [OF w sent(7)] .
  then show ?thesis using sent signed_off_workflow [OF ok sent(7)] by blast
qed

theorem report_packages_are_signed_off_witness:
  "\<exists>r req. prepare_report_package policy_runtime policy_calendar (\<lambda>n. 7) demo_signed_store ''pev_00'' demo_report ''rr'' None
      = Inr (r, RK_SEND req)
    \<and> ww_sign_off_status (xb_workflow (xd_policy_sign_off_package req)) = ''SIGNED_OFF''"
proof -
  obtain r req where "prepare_report_package policy_runtime policy_calendar (\<lambda>n. 7) demo_signed_store ''pev_00'' demo_report
      ''rr'' None = Inr (r, RK_SEND req)"
    using demo_report_sent by (auto split: sum.splits prod.splits report_step.splits)
  with report_packages_are_signed_off [OF demo_signed this] show ?thesis by blast
qed

text \<open>
  Reporting and explaining do not decide: whatever the two external services answer, a report
  request and an AI evidence request leave the workflow of every evaluation as it was.
\<close>

theorem services_leave_the_workflow:
  assumes "policy_reachable rt cal defs (c, s)"
  shows "get_policy_evaluation_workflow rt cal now
      (snd (request_policy_evaluation_ai_evidence rt cal t1 t2 ai_client s eid question ikey)) x
        = get_policy_evaluation_workflow rt cal now s x
    \<and> get_policy_evaluation_workflow rt cal now
      (snd (request_policy_evaluation_report_package rt cal clock report_client s eid p rid ikey)) x
        = get_policy_evaluation_workflow rt cal now s x"
proof -
  have "ledger_ok s" using policy_reachable_ok [OF assms] by simp
  then show ?thesis by (metis ai_leaves_workflow report_leaves_workflow prod.collapse)
qed

theorem services_leave_the_workflow_witness:
  "get_policy_evaluation_workflow policy_runtime policy_calendar 9
      (snd (request_policy_evaluation_ai_evidence policy_runtime policy_calendar 8 8 silent_ai demo_signed_store ''pev_00''
        demo_question None)) ''pev_00''
    = get_policy_evaluation_workflow policy_runtime policy_calendar 9 demo_signed_store ''pev_00''"
  using services_leave_the_workflow [OF demo_signed] by blast

text \<open>
  A review event, which any caller may append without a decision being checked, settles a
  material conflict: if its reason claims that no material conflict remains, the conflict posture of
  the evaluation is SATISFIED with no blocker, whoever the actor is.
\<close>

theorem unchecked_review_settles_conflicts:
  assumes "policy_reachable rt cal defs (c, s)"
    and "get_policy_evaluation_workflow rt cal now s eid = Inr w"
    and "json_get reason ''conflict_review_outcome'' = JStr ''NO_MATERIAL_CONFLICT_REMAINING''"
  shows "\<exists>e s' w'. append_policy_evaluation_event rt cal at s eid PV_REVIEW_RECORDED actor reason None None = Inr (e, s')
    \<and> get_policy_evaluation_workflow rt cal now s' eid = Inr w'
    \<and> wc_status (ww_conflict_posture w') = ''SATISFIED'' \<and> wc_blockers (ww_conflict_posture w') = []"
  using review_clears_conflict [OF _ assms(2,3)] policy_reachable_ok [OF assms(1)] by simp

theorem unchecked_review_settles_conflicts_witness:
  "\<exists>e s' w'. append_policy_evaluation_event policy_runtime policy_calendar 8 demo_store ''pev_00'' PV_REVIEW_RECORDED
      (vr_created_by demo_record) clearing_review None None = Inr (e, s')
    \<and> get_policy_evaluation_workflow policy_runtime policy_calendar 7 s' ''pev_00'' = Inr w'
    \<and> wc_status (ww_conflict_posture w') = ''SATISFIED''"
proof -
  obtain w where "get_policy_evaluation_workflow policy_runtime policy_calendar 7 demo_store ''pev_00'' = Inr w"
      "wc_status (ww_conflict_posture w) = ''BLOCKED''"
    using demo_conflict by (auto split: sum.splits)
  from unchecked_review_settles_conflicts [OF demo_stored this(1), of clearing_review]
  show ?thesis by (simp add: clearing_review_def json_get_def) blast
qed

subsection \<open>The record\<close>

text \<open>
  The log of a stored evaluation is sound: its events are numbered, belong to the evaluation and
  cite its hash, the first one and only that one is the finalisation, a report package is recorded
  only after an approved sign-off, and the lists the record carries are the events of their kind.
\<close>

theorem evaluation_logs_are_sound:
  assumes "policy_reachable rt cal defs (c, s)" and "dict_get (vs_records s) eid = Some r"
  shows "vr_evaluation_id r = eid \<and> dict_list (vs_events s) eid \<noteq> []
    \<and> (\<forall>i<length (dict_list (vs_events s) eid).
         ve_event_id (dict_list (vs_events s) eid ! i) = ''peev_'' @ six_digits (Suc i)
         \<and> ve_evaluation_id (dict_list (vs_events s) eid ! i) = eid
         \<and> ve_content_hash (dict_list (vs_events s) eid ! i) = vr_evaluation_hash r
         \<and> (ve_event_type (dict_list (vs_events s) eid ! i) = PV_FINALIZED \<longleftrightarrow> i = 0)
         \<and> (ve_event_type (dict_list (vs_events s) eid ! i) = PV_REPORT_ARCHIVE_RECORDED
              \<longrightarrow> (\<exists>j<i. is_approved_sign_off_event (dict_list (vs_events s) eid ! j))))
    \<and> vr_review_events_json r = filter (\<lambda>e. ve_event_type e = PV_REVIEW_RECORDED) (dict_list (vs_events s) eid)
    \<and> vr_sign_off_events_json r = filter (\<lambda>e. ve_event_type e = PV_SIGN_OFF_RECORDED) (dict_list (vs_events s) eid)
    \<and> vr_report_archive_refs_json r
        = filter (\<lambda>e. ve_event_type e = PV_REPORT_ARCHIVE_RECORDED) (dict_list (vs_events s) eid)"
proof -
  have "evaluation_ok eid r (dict_list (vs_events s) eid)"
    using policy_reachable_ok [OF assms(1)] records_okD(1) [OF _ assms(2)] by (simp add: ledger_ok_def)
  then show ?thesis
    unfolding evaluation_ok_def events_numbered_def events_backed_def events_mirrored_def signed_off_before_def by blast
qed

theorem evaluation_logs_are_sound_witness:
  "ve_event_type (hd (dict_list (vs_events demo_store) ''pev_00'')) = PV_FINALIZED"
proof -
  have "dict_get (vs_records demo_store) ''pev_00'' = Some demo_record" using demo_load(1) by simp
  from evaluation_logs_are_sound [OF demo_stored this] show ?thesis by (simp add: hd_conv_nth)
qed

text \<open>
  C26.  No sequence of commands rewrites the record: what an evaluation found, its hashes and its
  identity stay, its log only grows at the end, and a policy version keeps its content and, once in
  use, is at most superseded.
\<close>

theorem policy_record_only_grows:
  assumes "policy_reachable rt cal defs (c, s)" and "(policy_step rt cal)\<^sup>*\<^sup>* (c, s) (c', s')"
  shows "(\<forall>eid r. dict_get (vs_records s) eid = Some r \<longrightarrow> (\<exists>r' later.
        dict_get (vs_records s') eid = Some r' \<and> evaluation_core r' = evaluation_core r
        \<and> dict_list (vs_events s') eid = dict_list (vs_events s) eid @ later))
    \<and> (\<forall>pack d. dict_get (kc_definitions c) pack = Some d \<longrightarrow> (\<exists>d'.
        dict_get (kc_definitions c') pack = Some d' \<and> (in_use d \<longrightarrow> in_use d')
        \<and> (\<forall>f. f \<noteq> ''activation_state'' \<longrightarrow> json_get d' f = json_get d f)))"
  using policy_steps_extend [OF assms(2)] policy_steps_evolve [OF assms(2)] policy_reachable_ok [OF assms(1)]
  by (simp add: evaluations_extend_def versions_evolve_def same_pack_def) blast

theorem policy_record_only_grows_witness:
  "\<exists>r' later. dict_get (vs_records demo_signed_store) ''pev_00'' = Some r' \<and> evaluation_core r' = evaluation_core demo_record
    \<and> dict_list (vs_events demo_signed_store) ''pev_00'' = dict_list (vs_events demo_store) ''pev_00'' @ later"
proof -
  have "dict_get (vs_records demo_store) ''pev_00'' = Some demo_record" using demo_load(1) by simp
  with policy_record_only_grows [OF demo_stored demo_signed_later] show ?thesis by blast
qed

text \<open>
  C9.  Policy versions go live under control: at most one version of a pack is active, a version
  active now but not at the start has its activation in the log, and every activation in a log
  comes after a validation of that version, the latest one before it by another actor where the
  pack asks for maker and checker.  One validation may back several activations: a version that was
  superseded can be activated again without a new one.
\<close>

theorem activations_are_checked:
  assumes "policy_reachable rt cal defs (c, s)"
  shows "(\<forall>k k' d d'. dict_get (kc_definitions c) k = Some d \<and> dict_get (kc_definitions c) k' = Some d'
        \<and> fst k = fst k' \<and> is_active d \<and> is_active d' \<longrightarrow> k = k')
    \<and> (\<forall>k d. dict_get (kc_definitions c) k = Some d \<longrightarrow> (\<exists>d0.
        dict_get (kc_definitions (new_catalog rt defs)) k = Some d0
        \<and> (is_active d \<and> \<not> is_active d0
             \<longrightarrow> (\<exists>e\<in>set (dict_list (kc_events c) k). ke_event_type e = POLICY_PACK_ACTIVATED))
        \<and> (\<forall>i<length (dict_list (kc_events c) k).
             ke_event_type (dict_list (kc_events c) k ! i) = POLICY_PACK_ACTIVATED
             \<longrightarrow> backed_by_validation (needs_checker d) (dict_list (kc_events c) k) i)))"
proof -
  have ok: "catalog_ok rt (kc_definitions (new_catalog rt defs)) c"
    using policy_reachable_ok [OF assms] reachable_catalog_ok by auto
  have "one_active (kc_definitions c)" using ok by (simp add: catalog_ok_def)
  then have one: "\<forall>k k' d d'. dict_get (kc_definitions c) k = Some d \<and> dict_get (kc_definitions c) k' = Some d'
        \<and> fst k = fst k' \<and> is_active d \<and> is_active d' \<longrightarrow> k = k'" unfolding one_active_def by blast
  show ?thesis
  proof (rule conjI [OF one], intro allI impI)
    fix k d assume "dict_get (kc_definitions c) k = Some d"
    from catalog_ok_versionD [OF ok this] obtain d0 where "dict_get (kc_definitions (new_catalog rt defs)) k = Some d0"
      "version_ok rt k d0 d (dict_list (kc_events c) k)" .
    then show "\<exists>d0. dict_get (kc_definitions (new_catalog rt defs)) k = Some d0
        \<and> (is_active d \<and> \<not> is_active d0
             \<longrightarrow> (\<exists>e\<in>set (dict_list (kc_events c) k). ke_event_type e = POLICY_PACK_ACTIVATED))
        \<and> (\<forall>i<length (dict_list (kc_events c) k).
             ke_event_type (dict_list (kc_events c) k ! i) = POLICY_PACK_ACTIVATED
             \<longrightarrow> backed_by_validation (needs_checker d) (dict_list (kc_events c) k) i)"
      by (auto simp: version_ok_def log_ok_def)
  qed
qed

theorem activations_are_checked_witness:
  "\<exists>d0. dict_get (kc_definitions started_catalog) demo_key = Some d0 \<and> (is_active d0
    \<or> (\<exists>e\<in>set (dict_list (kc_events demo_catalog) demo_key). ke_event_type e = POLICY_PACK_ACTIVATED))"
proof -
  have "dict_get (kc_definitions demo_catalog) demo_key = Some demo_active_pack" "is_active demo_active_pack"
    using demo_catalog_pack by (simp_all add: load_definition_Inr demo_active_pack_def)
  then show ?thesis
    using conjunct2 [OF activations_are_checked [OF demo_ready_to_evaluate]] unfolding started_catalog_def by blast
qed

subsection \<open>Retries, replays and snapshots\<close>

text \<open>
  A finalisation repeated under its idempotency key answers with the record and the audit event
  of the first one, marked as replayed, and changes nothing: at any later time, for any caller,
  whatever has become of the policy version.
\<close>

theorem finalize_retry_replays:
  assumes "finalize_policy_evaluation_record rt cal c t1 t2 s ev pack pid vid actor ikey reason trace = Inr (f, s')"
  shows "finalize_policy_evaluation_record rt cal c' t1' t2' s' ev pack pid vid actor' ikey reason trace'
    = Inr (f\<lparr>vf_created := False, vf_replayed := True\<rparr>, s')"
  using assms by (auto simp: finalize_policy_evaluation_record_def bind_error_Inr_iff intro: finalize_again)

theorem finalize_retry_replays_witness:
  "finalize_policy_evaluation_record policy_runtime policy_calendar started_catalog 9 9 demo_store demo_evidence demo_key
    ''p'' ''v'' ''other'' (Some ''k3'') (Some (principal_of ''maker'')) None
    = Inr (\<lparr>vf_record = demo_record, vf_created = False, vf_replayed = True, vf_audit_event = demo_event\<rparr>, demo_store)"
  using finalize_retry_replays [OF demo_finalized, of started_catalog 9 9 "''other''" None] by simp

text \<open>
  C7.  Replaying a stored evaluation on its evidence is an exact match, after any sequence of
  commands: superseding the version it was made under, reviews, decisions and reports change neither
  the recomputed evaluation hash nor the source hash.
\<close>

theorem replay_matches_exactly:
  assumes "policy_reachable rt cal defs (c, s)"
    and "finalize_policy_evaluation_record rt cal c t1 t2 s ev pack pid vid actor ikey reason trace = Inr (f, s')"
    and "vf_created f" and "dict_get (vs_records s) (vr_evaluation_id (vf_record f)) = None"
    and "(policy_step rt cal)\<^sup>*\<^sup>* (c, s') (c'', s'')"
  shows "\<exists>v. replay_policy_evaluation_record rt c'' s'' (vr_evaluation_id (vf_record f)) (Some ev) = Inr v
    \<and> vc_replay_reason_code (vp_hash_comparison v) = ''POLICY_REPLAY_EXACT_MATCH''
    \<and> vc_evaluation_hash_matches (vp_hash_comparison v) \<and> vc_source_evidence_hash_matches (vp_hash_comparison v)"
proof -
  have cat: "catalog_reachable rt defs c" using policy_reachable_ok [OF assms(1)] by simp
  obtain key tr where built: "evaluate_and_build_record rt cal c t1 ev pack pid vid actor key tr trace = Inr (vf_record f)"
    and stored: "dict_get (vs_records s') (vr_evaluation_id (vf_record f)) = Some (vf_record f)"
    using assms(2,3) by (rule created_record)
  obtain r where r: "dict_get (vs_records s'') (vr_evaluation_id (vf_record f)) = Some r"
    and core: "evaluation_core r = evaluation_core (vf_record f)"
    using policy_steps_extend [OF assms(5)] stored unfolding evaluations_extend_def by auto
  obtain d where d: "dict_get (kc_definitions c) pack = Some d" "definition_key d = pack"
    using built_definition [OF reachable_catalog_ok [OF cat] built] .
  obtain d' where d': "dict_get (kc_definitions c'') pack = Some d'" "same_pack d d'" "in_use d \<longrightarrow> in_use d'"
    using conjunct1 [OF policy_steps_evolve [OF assms(5), unfolded fst_conv, OF cat]] d(1) unfolding versions_evolve_def by blast
  obtain x where x: "evaluate_policy_pack_detail d ev = Inr x" "is_active d"
      "vr_evaluation_json r = dump_evaluation x" "vr_source_evidence_hash r = hash_canonical_payload rt (JObj ev)"
      "vr_policy_content_hash r = ky_content_hash (summary_from_definition d)"
      "vr_evaluation_hash r = policy_evaluation_hash rt x (vr_source_evidence_hash r) (vr_policy_content_hash r)"
      "(vr_policy_pack_id r, vr_policy_version r) = pack"
    using built_record_evaluation [OF built d] unfolding core_reads [OF core, symmetric] .
  have "in_use d'" using d'(3) x(2) by (simp add: in_use_def)
  from replay_matches [OF x d'(1,2) this] r show ?thesis
    by (auto simp: replay_policy_evaluation_record_def load_evaluation_def)
qed

theorem replay_matches_exactly_witness:
  "\<exists>v. replay_policy_evaluation_record policy_runtime demo_catalog demo_signed_store ''pev_00'' (Some demo_evidence) = Inr v
    \<and> vc_replay_reason_code (vp_hash_comparison v) = ''POLICY_REPLAY_EXACT_MATCH''"
proof -
  have "vr_evaluation_id demo_record = ''pev_00''" by (simp add: demo_record_def)
  with replay_matches_exactly [OF demo_ready_to_evaluate demo_finalized _ _ demo_signed_later] show ?thesis by auto
qed

text \<open>
  C16.  Snapshots lose nothing: the catalog and the evaluation store read back from the snapshots a
  durable store keeps between commands are the ones they were taken of.  (A catalog without any
  version would start again from the reference packs.)
\<close>

theorem snapshots_restore_the_system:
  assumes "policy_reachable rt cal defs (c, s)" and "kc_definitions c \<noteq> []"
  shows "catalog_from_snapshot rt packs (catalog_to_snapshot c) = Inr c
    \<and> policy_store_from_snapshot (policy_snapshot_of s) = s"
proof -
  have "catalog_reachable rt defs c" "ledger_ok s" using policy_reachable_ok [OF assms(1)] by simp_all
  then show ?thesis using snapshot_roundtrip [OF reachable_catalog_ok assms(2)] by (simp add: policy_snapshot_restores)
qed

theorem snapshots_restore_the_system_witness:
  "catalog_from_snapshot policy_runtime reference_policy_packs (catalog_to_snapshot demo_catalog) = Inr demo_catalog
    \<and> policy_store_from_snapshot (policy_snapshot_of demo_signed_store) = demo_signed_store"
proof -
  have "kc_definitions demo_catalog \<noteq> []" using demo_catalog_pack by (auto simp: load_definition_Inr)
  from snapshots_restore_the_system [OF demo_signed this] show ?thesis .
qed

text \<open>
  C11.  The durable repositories implement the stores: on the snapshot of a reachable state every
  command gives the answer and the snapshot of the state that the command on the state gives, errors
  included, and a listing gives the listing.
\<close>

theorem durable_repositories_refine:
  assumes "policy_reachable rt cal defs (c, s)" and "kc_definitions c \<noteq> []"
  shows "durable_finalize_policy_evaluation_record rt cal c t1 t2 (policy_snapshot_of s) ev pack pid vid actor ikey reason trace
      = bind_error (store_finalize_policy_evaluation_record rt cal c t1 t2 s ev pack pid vid actor ikey reason trace)
          (\<lambda>(f, s'). Inr (f, policy_snapshot_of s'))
    \<and> durable_append_policy_evaluation_event rt cal now (policy_snapshot_of s) eid ty actor reason key authority
      = bind_error (store_append_policy_evaluation_event rt cal now s eid ty actor reason key authority)
          (\<lambda>(e, s'). Inr (e, policy_snapshot_of s'))
    \<and> durable_list_policy_evaluation_events (policy_snapshot_of s) eid = list_policy_evaluation_events s eid
    \<and> durable_replay_policy_evaluation_record rt c (policy_snapshot_of s) eid evidence
      = replay_policy_evaluation_record rt c s eid evidence
    \<and> durable_validate_policy_pack_version rt now pack actor ikey reason (catalog_to_snapshot c)
      = bind_error (store_validate_policy_pack_version rt now pack actor ikey reason c)
          (\<lambda>(v, c'). Inr (v, catalog_to_snapshot c'))
    \<and> durable_activate_policy_pack_version rt now pack actor h ikey reason (catalog_to_snapshot c)
      = bind_error (store_activate_policy_pack_version rt now pack actor h ikey reason c)
          (\<lambda>(a, c'). Inr (a, catalog_to_snapshot c'))
    \<and> durable_list_policy_pack_versions rt (catalog_to_snapshot c) = Inr (list_policy_pack_versions c)"
proof -
  have s: "ledger_ok s" and c: "catalog_sound rt c"
    using policy_reachable_ok [OF assms(1)] assms(2) reachable_catalog_ok by (auto simp: catalog_sound_def)
  note durable = durable_finalize_policy_evaluation_record_def durable_append_policy_evaluation_event_def
    durable_list_policy_evaluation_events_def durable_replay_policy_evaluation_record_def
    durable_validate_policy_pack_version_def durable_activate_policy_pack_version_def durable_list_policy_pack_versions_def
  show ?thesis
    unfolding durable evaluation_snapshots.command [OF s] evaluation_snapshots.query [OF s]
      catalog_snapshots.command [OF c] catalog_snapshots.query [OF c] by (intro conjI refl)
qed

theorem durable_repositories_refine_witness:
  "durable_list_policy_evaluation_events (policy_snapshot_of demo_store) ''pev_00'' = Inr [demo_event]"
proof -
  have "kc_definitions demo_catalog \<noteq> []" using demo_catalog_pack by (auto simp: load_definition_Inr)
  from durable_repositories_refine [OF demo_stored this] demo_log show ?thesis by simp
qed

text \<open>
  The reference packs start a sound system: they have distinct keys and pass the validation of
  the catalog, the global baseline is active and the Singapore pack a draft that needs maker and
  checker, and the catalog they make, with an empty evaluation store, is a reachable state.
\<close>

theorem reference_packs_start_the_system:
  "map definition_key reference_policy_packs
      = [(''GLOBAL_PRIVATE_BANKING_BASELINE'', ''2026.05''), (''SG_PRIVATE_BANKING_REFERENCE'', ''2026.05'')]
    \<and> map (\<lambda>d. validate_catalog_definition (prepare_definition rt d)) reference_policy_packs = [[], []]
    \<and> map (\<lambda>d. (json_get d ''activation_state'', needs_checker d)) reference_policy_packs
      = [(JStr ''ACTIVE'', False), (JStr ''DRAFT'', True)]
    \<and> policy_reachable rt cal reference_policy_packs (new_catalog rt reference_policy_packs, empty_policy_store)"
  using reference_keys reference_packs_valid reference_states reference_start by simp

subsection \<open>READY evaluations\<close>

lemma ready_sources_of_derived_posture:
  assumes "dict_at ev ''policy_source_readiness'' = []" and "no_source_gap (source_posture_of ev) field"
  shows "if py_startswith ''policy_source_readiness.'' field
    then \<forall>s\<in>set (policy_source_sections ev). json_get s ''status'' \<in> {JStr ''READY'', JStr ''NOT_AVAILABLE''}
    else \<exists>s\<in>set (policy_source_sections ev). json_get s ''key'' = JStr field \<and> json_get s ''status'' = JStr ''READY''"
proof -
  have "no_source_gap (build_policy_source_readiness ev) field"
    using assms by (simp add: source_posture_of_def)
  from no_source_gap_derived [OF this] show ?thesis unfolding source_ready_def .
qed

text \<open>
  C27.  An evaluation is READY exactly when the evidence has every selector the pack needs, the pack
  applies to it, the pack has a rule, and for each rule no required source field leaves a gap and the
  conditions the rule asks of the evidence hold.  A field leaves a gap when its section is absent, is
  pending or not available, or is blocked and says what is missing.  Where the caller supplies no
  source posture of its own a READY evaluation does rest on READY sources: each section a rule
  requires is READY, and where a rule asks for the overall posture every section is READY or not
  applicable.  A supplied posture is taken as it is: blocked, but with nothing listed as missing, it
  leaves no gap.
\<close>

theorem ready_evaluation_exact:
  assumes "evaluate_policy_pack_detail d ev = Inr x"
  shows "(en_evaluation_status x = PS_READY \<longleftrightarrow>
    (let ctx = build_applicability_context ev; applicability = dict_at d ''applicability''
     in missing_applicability_evidence ctx applicability = [] \<and> applies_to applicability ctx
        \<and> definition_rules d \<noteq> []
        \<and> (\<forall>rule\<in>set (definition_rules d).
             (\<forall>field\<in>set (source_evidence_fields rule). no_source_gap (source_posture_of ev) field)
             \<and> rule_clear (definition_str rule ''rule_id'') ev (ax_jurisdiction ctx) (ax_client_segment ctx))))
    \<and> (en_evaluation_status x = PS_READY \<and> dict_at ev ''policy_source_readiness'' = [] \<longrightarrow>
        (\<forall>rule\<in>set (definition_rules d). \<forall>field\<in>set (source_evidence_fields rule).
           if py_startswith ''policy_source_readiness.'' field
           then \<forall>s\<in>set (policy_source_sections ev). json_get s ''status'' \<in> {JStr ''READY'', JStr ''NOT_AVAILABLE''}
           else \<exists>s\<in>set (policy_source_sections ev).
             json_get s ''key'' = JStr field \<and> json_get s ''status'' = JStr ''READY''))"
    (is "?exact \<and> ?derived")
proof
  have "ay_status (en_applicability x) = AY_APPLICABLE \<longleftrightarrow>
      missing_applicability_evidence (build_applicability_context ev) (dict_at d ''applicability'') = []
      \<and> applies_to (dict_at d ''applicability'') (build_applicability_context ev)"
    by (simp add: evaluate_detail_status(1) [OF assms] applicability_cases Let_def)
  then show ?exact unfolding evaluate_detail_ready [OF assms] Let_def by blast
  show ?derived
    using ready_sources_of_derived_posture evaluate_detail_ready [OF assms] by blast
qed

theorem ready_evaluation_exact_witness:
  "applies_to (dict_at reference_pack ''applicability'') (build_applicability_context complete_evidence)
   \<and> (\<exists>s\<in>set (policy_source_sections complete_evidence).
        json_get s ''key'' = JStr ''core_mandate_objectives_restrictions'' \<and> json_get s ''status'' = JStr ''READY'')"
proof -
  obtain x where x: "evaluate_policy_pack_detail reference_pack complete_evidence = Inr x" "en_evaluation_status x = PS_READY"
    using reference_pack_ready by (auto split: sum.splits)
  obtain rule where rule: "rule \<in> set (definition_rules reference_pack)"
    "''core_mandate_objectives_restrictions'' \<in> set (source_evidence_fields rule)"
    using reference_pack_mandate_rule by blast
  note exact = ready_evaluation_exact [OF x(1)]
  from conjunct2 [OF exact] rule x(2) complete_evidence_derived
  have "if py_startswith ''policy_source_readiness.'' ''core_mandate_objectives_restrictions''
    then \<forall>s\<in>set (policy_source_sections complete_evidence).
      json_get s ''status'' \<in> {JStr ''READY'', JStr ''NOT_AVAILABLE''}
    else \<exists>s\<in>set (policy_source_sections complete_evidence).
      json_get s ''key'' = JStr ''core_mandate_objectives_restrictions'' \<and> json_get s ''status'' = JStr ''READY''"
    by blast
  with conjunct1 [OF exact] x(2) show ?thesis by (simp add: Let_def py_startswith_def)
qed

text \<open>
  The two readers of product evidence disagree on the names of the private-asset flag: this row counts
  as evidence, and the product does not count as private.
\<close>

definition flagged_row :: jobject where
  "flagged_row = [(''instrument_id'', JStr ''X''), (''eligibility'', JObj [(''jurisdictions'', json_strs [''SG''])]),
     (''target_market'', JObj [(''client_segments'', json_strs [''PRIVATE_BANKING''])]),
     (''complexity'', JStr ''STANDARD''), (''private_asset_flag'', JBool True)]"

lemma flagged_product_is_not_complex:
  "product_has_policy_evidence (JObj flagged_row) \<and> \<not> is_complex_or_private_product flagged_row"
  by code_simp

end
