(* ===== verification/Context_Resolution.thy ===== *)
theory Context_Resolution
  imports Versions Suitability
begin

text \<open>
  The request models of the proposal API and the resolution of a request to what is simulated.
\<close>

section \<open>Request models\<close>

text \<open>
  How a create, version or simulation request becomes the request that is simulated:
  \<open>proposals/input_context_models.py\<close>, \<open>input_create_request_models.py\<close>,
  \<open>input_version_request_models.py\<close>, \<open>input_simulation_request_models.py\<close>,
  \<open>input_request_validation.py\<close>.  The second section resolves them.

  The fields this code reads are named; every other field of a model is part of its JSON
  content.  What Pydantic's lax mode makes of a value that is not of a field's own type is an
  argument.
\<close>

subsection \<open>Source provenance and completeness\<close>

text \<open>
  \<open>source_provenance_models.py\<close> and \<open>source_completeness_models.py\<close>.  A field whose type is one
  literal (\<open>schema_version\<close>, \<open>raw_payload_stored\<close>) has that value in every record; a count is not
  negative.
\<close>

datatype source_kind = SN_PORTFOLIO | SN_MARKET_DATA

datatype source_freshness = SF_CURRENT | SF_STALE | SF_PARTIAL | SF_UNKNOWN

datatype completeness_status = SC_COMPLETE | SC_DEGRADED | SC_INCOMPLETE

record provenance_record =
  spr_source_system :: string
  spr_source_kind :: source_kind
  spr_source_id :: string
  spr_as_of :: string
  spr_contract_version :: string
  spr_source_version :: "string option"
  spr_source_event_id :: "string option"
  spr_source_batch_id :: "string option"
  spr_source_hash :: "string option"
  spr_valuation_timestamp :: "string option"
  spr_freshness_status :: source_freshness

record provenance_envelope =
  spe_source_system :: string
  spe_portfolio :: provenance_record
  spe_market_data :: provenance_record

record collection_completeness =
  scc_source_collection :: string
  scc_required :: bool
  scc_received_count :: nat
  scc_accepted_count :: nat
  scc_rejected_count :: nat
  scc_duplicate_count :: nat
  scc_rejection_reasons :: "(string, int) dict"
  scc_affected_refs :: "string list"
  scc_status :: completeness_status

record completeness_report =
  scr_source_system :: string
  scr_portfolio_id :: string
  scr_as_of :: string
  scr_status :: completeness_status
  scr_collections :: "collection_completeness list"

subsection \<open>Requests and contexts\<close>

record portfolio_snapshot =
  sp_portfolio_id :: string
  sp_snapshot_id :: "string option"
  sp_content :: jobject

record market_snapshot =
  sm_snapshot_id :: "string option"
  sm_content :: jobject

record request_reference_model =
  rf_as_of :: string
  rf_content :: jobject

record simulate_request =
  sq_portfolio_snapshot :: portfolio_snapshot
  sq_market_data_snapshot :: market_snapshot
  sq_shelf_entries :: "jobject list"
  sq_options :: jobject
  sq_proposed_cash_flows :: "jobject list"
  sq_proposed_trades :: "jobject list"
  sq_reference_model :: "request_reference_model option"
  sq_alternatives_request :: "jobject option"
  sq_narrative_request :: "jobject option"

record stateful_input =
  si_portfolio_id :: string
  si_as_of :: string
  si_reporting_currency :: "string option"
  si_household_id :: "string option"
  si_mandate_id :: "string option"
  si_benchmark_id :: "string option"

record proposal_stateful_input = stateful_input +
  si_narrative_request :: "jobject option"

record resolved_context =
  rc_portfolio_id :: string
  rc_as_of :: "string option"
  rc_requested_as_of :: "string option"
  rc_requested_reporting_currency :: "string option"
  rc_portfolio_snapshot_id :: "string option"
  rc_market_data_snapshot_id :: "string option"
  rc_risk_context_id :: "string option"
  rc_reporting_context_id :: "string option"
  rc_source_provenance :: "provenance_envelope option"
  rc_source_completeness :: "completeness_report option"

record create_metadata =
  md_title :: "string option"
  md_advisor_notes :: "string option"
  md_jurisdiction :: "string option"
  md_mandate_id :: "string option"

definition empty_metadata :: create_metadata where
  "empty_metadata = \<lparr>md_title = None, md_advisor_notes = None, md_jurisdiction = None,
     md_mandate_id = None\<rparr>"

text \<open>\<open>ProposalStatelessInput\<close> has the one field \<open>simulate_request\<close>.\<close>

record create_payload =
  cp_created_by :: string
  cp_input_mode :: "input_mode option"
  cp_simulate_request :: "simulate_request option"
  cp_stateless_input :: "simulate_request option"
  cp_stateful_input :: "proposal_stateful_input option"
  cp_metadata :: create_metadata

record version_payload =
  vp_created_by :: string
  vp_expected_current_version_no :: "int option"
  vp_input_mode :: "input_mode option"
  vp_simulate_request :: "simulate_request option"
  vp_stateless_input :: "simulate_request option"
  vp_stateful_input :: "proposal_stateful_input option"

record simulation_payload =
  mp_input_mode :: "input_mode option"
  mp_simulate_request :: "simulate_request option"
  mp_stateless_input :: "simulate_request option"
  mp_stateful_input :: "proposal_stateful_input option"
  mp_alternatives_request :: "jobject option"

subsection \<open>Which input a request carries\<close>

definition validate_legacy_input ::
  "'a option \<Rightarrow> 'b option \<Rightarrow> 'c option \<Rightarrow> string \<Rightarrow> string \<Rightarrow> error + unit" where
  "validate_legacy_input sim stateless stateful legacy_message legacy_stateful_message =
     (if sim = None \<or> stateless \<noteq> None then Inl (ValueError legacy_message)
      else if stateful \<noteq> None then Inl (ValueError legacy_stateful_message)
      else Inr ())"

definition validate_stateless_input ::
  "'a option \<Rightarrow> 'b option \<Rightarrow> 'c option \<Rightarrow> string \<Rightarrow> error + unit" where
  "validate_stateless_input sim stateless stateful stateless_message =
     (if stateless = None \<or> sim \<noteq> None \<or> stateful \<noteq> None
      then Inl (ValueError stateless_message) else Inr ())"

definition validate_stateful_input ::
  "'a option \<Rightarrow> 'b option \<Rightarrow> 'c option \<Rightarrow> string \<Rightarrow> error + unit" where
  "validate_stateful_input sim stateless stateful stateful_message =
     (if stateful = None \<or> sim \<noteq> None \<or> stateless \<noteq> None
      then Inl (ValueError stateful_message) else Inr ())"

record contract_messages =
  cm_legacy :: string
  cm_legacy_stateful :: string
  cm_stateless :: string
  cm_stateful :: string

definition validate_exclusive_input_contract ::
  "contract_messages \<Rightarrow> input_mode option \<Rightarrow> 'a option \<Rightarrow> 'b option \<Rightarrow> 'c option \<Rightarrow> error + unit" where
  "validate_exclusive_input_contract m mode sim stateless stateful = (case mode of
      None \<Rightarrow> validate_legacy_input sim stateless stateful (cm_legacy m) (cm_legacy_stateful m)
    | Some IM_STATELESS \<Rightarrow> validate_stateless_input sim stateless stateful (cm_stateless m)
    | Some IM_STATEFUL \<Rightarrow> validate_stateful_input sim stateless stateful (cm_stateful m))"

definition request_messages :: "string \<Rightarrow> contract_messages" where
  "request_messages subject =
     (let legacy = ''legacy '' @ subject @ '' requests require simulate_request and must not ''
            @ ''include stateless_input or stateful_input''
      in \<lparr>cm_legacy = legacy, cm_legacy_stateful = legacy,
          cm_stateless = ''stateless '' @ subject @ '' requests require stateless_input and must ''
            @ ''not include simulate_request or stateful_input'',
          cm_stateful = ''stateful '' @ subject @ '' requests require stateful_input and must ''
            @ ''not include simulate_request or stateless_input''\<rparr>)"

definition validate_create_payload :: "create_payload \<Rightarrow> error + unit" where
  "validate_create_payload q = validate_exclusive_input_contract (request_messages ''proposal create'')
     (cp_input_mode q) (cp_simulate_request q) (cp_stateless_input q) (cp_stateful_input q)"

definition validate_version_payload :: "version_payload \<Rightarrow> error + unit" where
  "validate_version_payload q = validate_exclusive_input_contract (request_messages ''proposal version'')
     (vp_input_mode q) (vp_simulate_request q) (vp_stateless_input q) (vp_stateful_input q)"

definition validate_simulation_payload :: "simulation_payload \<Rightarrow> error + unit" where
  "validate_simulation_payload q = validate_exclusive_input_contract
     ((request_messages ''simulation'')
        \<lparr>cm_legacy := ''legacy simulation requests require simulate_request and must not include ''
           @ ''stateless_input'',
         cm_legacy_stateful := ''legacy simulation requests must not include stateful_input''\<rparr>)
     (mp_input_mode q) (mp_simulate_request q) (mp_stateless_input q) (mp_stateful_input q)"

text \<open>The \<open>mode="before"\<close> validator: a bare simulation payload is wrapped.\<close>

definition normalize_legacy_top_level_simulation_payload :: "json \<Rightarrow> json" where
  "normalize_legacy_top_level_simulation_payload v = (case v of
      JObj d \<Rightarrow>
        if list_ex (dict_has d)
             [''input_mode'', ''simulate_request'', ''stateless_input'', ''stateful_input'']
        then v else JObj [(''simulate_request'', v)]
    | _ \<Rightarrow> v)"

subsection \<open>JSON form\<close>

text \<open>\<open>model_dump(mode="json")\<close>, field by field in declaration order.\<close>

definition jopt_str :: "string option \<Rightarrow> json" where
  "jopt_str s = json_opt JStr s"

definition dump_portfolio_snapshot :: "portfolio_snapshot \<Rightarrow> json" where
  "dump_portfolio_snapshot s = JObj ((''snapshot_id'', jopt_str (sp_snapshot_id s))
     # (''portfolio_id'', JStr (sp_portfolio_id s)) # sp_content s)"

definition dump_market_snapshot :: "market_snapshot \<Rightarrow> json" where
  "dump_market_snapshot s = JObj ((''snapshot_id'', jopt_str (sm_snapshot_id s)) # sm_content s)"

definition dump_reference_model :: "request_reference_model \<Rightarrow> json" where
  "dump_reference_model m = JObj ((''as_of'', JStr (rf_as_of m)) # rf_content m)"

definition dump_simulate_request :: "simulate_request \<Rightarrow> json" where
  "dump_simulate_request q = JObj
     [(''portfolio_snapshot'', dump_portfolio_snapshot (sq_portfolio_snapshot q)),
      (''market_data_snapshot'', dump_market_snapshot (sq_market_data_snapshot q)),
      (''shelf_entries'', JList (map JObj (sq_shelf_entries q))),
      (''options'', JObj (sq_options q)),
      (''proposed_cash_flows'', JList (map JObj (sq_proposed_cash_flows q))),
      (''proposed_trades'', JList (map JObj (sq_proposed_trades q))),
      (''reference_model'', json_opt dump_reference_model (sq_reference_model q)),
      (''alternatives_request'', json_opt JObj (sq_alternatives_request q)),
      (''narrative_request'', json_opt JObj (sq_narrative_request q))]"

primrec source_kind_str :: "source_kind \<Rightarrow> string" where
  "source_kind_str SN_PORTFOLIO = ''PORTFOLIO''"
| "source_kind_str SN_MARKET_DATA = ''MARKET_DATA''"

primrec source_freshness_str :: "source_freshness \<Rightarrow> string" where
  "source_freshness_str SF_CURRENT = ''CURRENT''"
| "source_freshness_str SF_STALE = ''STALE''"
| "source_freshness_str SF_PARTIAL = ''PARTIAL''"
| "source_freshness_str SF_UNKNOWN = ''UNKNOWN''"

primrec completeness_status_str :: "completeness_status \<Rightarrow> string" where
  "completeness_status_str SC_COMPLETE = ''COMPLETE''"
| "completeness_status_str SC_DEGRADED = ''DEGRADED''"
| "completeness_status_str SC_INCOMPLETE = ''INCOMPLETE''"

definition dump_provenance_record :: "provenance_record \<Rightarrow> json" where
  "dump_provenance_record r = JObj
     [(''source_system'', JStr (spr_source_system r)),
      (''source_kind'', JStr (source_kind_str (spr_source_kind r))),
      (''source_id'', JStr (spr_source_id r)),
      (''as_of'', JStr (spr_as_of r)),
      (''contract_version'', JStr (spr_contract_version r)),
      (''source_version'', jopt_str (spr_source_version r)),
      (''source_event_id'', jopt_str (spr_source_event_id r)),
      (''source_batch_id'', jopt_str (spr_source_batch_id r)),
      (''source_hash'', jopt_str (spr_source_hash r)),
      (''valuation_timestamp'', jopt_str (spr_valuation_timestamp r)),
      (''freshness_status'', JStr (source_freshness_str (spr_freshness_status r)))]"

definition dump_provenance_envelope :: "provenance_envelope \<Rightarrow> json" where
  "dump_provenance_envelope e = JObj
     [(''schema_version'', JStr ''lotus.source-provenance.v1''),
      (''source_system'', JStr (spe_source_system e)),
      (''portfolio'', dump_provenance_record (spe_portfolio e)),
      (''market_data'', dump_provenance_record (spe_market_data e)),
      (''raw_payload_stored'', JBool False)]"

definition dump_collection_completeness :: "collection_completeness \<Rightarrow> json" where
  "dump_collection_completeness c = JObj
     [(''source_collection'', JStr (scc_source_collection c)),
      (''required'', JBool (scc_required c)),
      (''received_count'', JInt (int (scc_received_count c))),
      (''accepted_count'', JInt (int (scc_accepted_count c))),
      (''rejected_count'', JInt (int (scc_rejected_count c))),
      (''duplicate_count'', JInt (int (scc_duplicate_count c))),
      (''rejection_reasons'', JObj (map (\<lambda>(k, n). (k, JInt n)) (scc_rejection_reasons c))),
      (''affected_refs'', JList (map JStr (scc_affected_refs c))),
      (''status'', JStr (completeness_status_str (scc_status c)))]"

definition dump_completeness_report :: "completeness_report \<Rightarrow> json" where
  "dump_completeness_report r = JObj
     [(''schema_version'', JStr ''lotus.source-completeness.v1''),
      (''source_system'', JStr (scr_source_system r)),
      (''portfolio_id'', JStr (scr_portfolio_id r)),
      (''as_of'', JStr (scr_as_of r)),
      (''status'', JStr (completeness_status_str (scr_status r))),
      (''collections'', JList (map dump_collection_completeness (scr_collections r))),
      (''raw_payload_stored'', JBool False)]"

definition dump_resolved_context :: "resolved_context \<Rightarrow> json" where
  "dump_resolved_context c = JObj
     [(''portfolio_id'', JStr (rc_portfolio_id c)),
      (''as_of'', jopt_str (rc_as_of c)),
      (''requested_as_of'', jopt_str (rc_requested_as_of c)),
      (''requested_reporting_currency'', jopt_str (rc_requested_reporting_currency c)),
      (''portfolio_snapshot_id'', jopt_str (rc_portfolio_snapshot_id c)),
      (''market_data_snapshot_id'', jopt_str (rc_market_data_snapshot_id c)),
      (''risk_context_id'', jopt_str (rc_risk_context_id c)),
      (''reporting_context_id'', jopt_str (rc_reporting_context_id c)),
      (''source_provenance'', json_opt dump_provenance_envelope (rc_source_provenance c)),
      (''source_completeness'', json_opt dump_completeness_report (rc_source_completeness c))]"

definition dump_metadata :: "create_metadata \<Rightarrow> json" where
  "dump_metadata m = JObj
     [(''title'', jopt_str (md_title m)), (''advisor_notes'', jopt_str (md_advisor_notes m)),
      (''jurisdiction'', jopt_str (md_jurisdiction m)), (''mandate_id'', jopt_str (md_mandate_id m))]"

definition dump_proposal_stateful_input :: "proposal_stateful_input \<Rightarrow> json" where
  "dump_proposal_stateful_input s = JObj
     [(''portfolio_id'', JStr (si_portfolio_id s)), (''as_of'', JStr (si_as_of s)),
      (''reporting_currency'', jopt_str (si_reporting_currency s)),
      (''household_id'', jopt_str (si_household_id s)), (''mandate_id'', jopt_str (si_mandate_id s)),
      (''benchmark_id'', jopt_str (si_benchmark_id s)),
      (''narrative_request'', json_opt JObj (si_narrative_request s))]"

definition dump_stateless_input :: "simulate_request \<Rightarrow> json" where
  "dump_stateless_input q = JObj [(''simulate_request'', dump_simulate_request q)]"

text \<open>\<open>model_validate\<close>: an optional string is absent, null or a string; unknown keys are ignored.\<close>

definition validated_optional :: "(json \<Rightarrow> 'a option) \<Rightarrow> json option \<Rightarrow> 'a option option" where
  "validated_optional f j = (case j of
      None \<Rightarrow> Some None
    | Some JNull \<Rightarrow> Some None
    | Some v \<Rightarrow> map_option Some (f v))"

definition validated_str :: "json \<Rightarrow> string option" where
  "validated_str j = (case j of JStr s \<Rightarrow> Some s | _ \<Rightarrow> None)"

text \<open>
  A number or a truth value of the field's own type is taken as it is; what lax mode makes of any
  other value (\<open>"5"\<close> for 5, 1 for true) is an argument.
\<close>

record lax_coercion =
  lx_int :: "json \<Rightarrow> int option"
  lx_bool :: "json \<Rightarrow> bool option"

definition validated_int :: "lax_coercion \<Rightarrow> json \<Rightarrow> int option" where
  "validated_int lx j = (case j of JInt n \<Rightarrow> Some n | _ \<Rightarrow> lx_int lx j)"

definition validated_bool :: "lax_coercion \<Rightarrow> json \<Rightarrow> bool option" where
  "validated_bool lx j = (case j of JBool b \<Rightarrow> Some b | _ \<Rightarrow> lx_bool lx j)"

definition validated_count :: "lax_coercion \<Rightarrow> json \<Rightarrow> nat option" where
  "validated_count lx j = Option.bind (validated_int lx j) (\<lambda>n. if 0 \<le> n then Some (nat n) else None)"

definition validated_literal :: "(string \<times> 'a) list \<Rightarrow> json \<Rightarrow> 'a option" where
  "validated_literal table j = (case j of JStr s \<Rightarrow> map_of table s | _ \<Rightarrow> None)"

definition validated_false :: "json \<Rightarrow> unit option" where
  "validated_false j = (case j of JBool b \<Rightarrow> if b then None else Some () | _ \<Rightarrow> None)"

definition validated_list :: "(json \<Rightarrow> 'a option) \<Rightarrow> json \<Rightarrow> 'a list option" where
  "validated_list f j = (case j of JList xs \<Rightarrow> those (map f xs) | _ \<Rightarrow> None)"

definition validated_dict :: "(json \<Rightarrow> 'a option) \<Rightarrow> json \<Rightarrow> (string, 'a) dict option" where
  "validated_dict f j = (case j of
      JObj d \<Rightarrow> those (map (\<lambda>(k, v). map_option (Pair k) (f v)) d) | _ \<Rightarrow> None)"

definition required_field :: "(json \<Rightarrow> 'a option) \<Rightarrow> jobject \<Rightarrow> string \<Rightarrow> 'a option" where
  "required_field f d k = Option.bind (dict_get d k) f"

definition defaulted_field :: "(json \<Rightarrow> 'a option) \<Rightarrow> 'a \<Rightarrow> jobject \<Rightarrow> string \<Rightarrow> 'a option" where
  "defaulted_field f x d k = (case dict_get d k of None \<Rightarrow> Some x | Some v \<Rightarrow> f v)"

definition optional_str_field :: "jobject \<Rightarrow> string \<Rightarrow> string option option" where
  "optional_str_field d k = validated_optional validated_str (dict_get d k)"

definition source_kinds :: "(string \<times> source_kind) list" where
  "source_kinds = map (\<lambda>k. (source_kind_str k, k)) [SN_PORTFOLIO, SN_MARKET_DATA]"

definition source_freshness_values :: "(string \<times> source_freshness) list" where
  "source_freshness_values =
     map (\<lambda>k. (source_freshness_str k, k)) [SF_CURRENT, SF_STALE, SF_PARTIAL, SF_UNKNOWN]"

definition completeness_statuses :: "(string \<times> completeness_status) list" where
  "completeness_statuses =
     map (\<lambda>k. (completeness_status_str k, k)) [SC_COMPLETE, SC_DEGRADED, SC_INCOMPLETE]"

definition validate_provenance_record :: "json \<Rightarrow> provenance_record option" where
  "validate_provenance_record j = (case j of
      JObj d \<Rightarrow>
        Option.bind (required_field validated_str d ''source_system'') (\<lambda>sys.
        Option.bind (required_field (validated_literal source_kinds) d ''source_kind'') (\<lambda>kind.
        Option.bind (required_field validated_str d ''source_id'') (\<lambda>sid.
        Option.bind (required_field validated_str d ''as_of'') (\<lambda>as_of.
        Option.bind (required_field validated_str d ''contract_version'') (\<lambda>contract.
        Option.bind (optional_str_field d ''source_version'') (\<lambda>ver.
        Option.bind (optional_str_field d ''source_event_id'') (\<lambda>event.
        Option.bind (optional_str_field d ''source_batch_id'') (\<lambda>batch.
        Option.bind (optional_str_field d ''source_hash'') (\<lambda>h.
        Option.bind (optional_str_field d ''valuation_timestamp'') (\<lambda>val.
        Option.bind (defaulted_field (validated_literal source_freshness_values) SF_UNKNOWN d
            ''freshness_status'') (\<lambda>fresh.
        Some \<lparr>spr_source_system = sys, spr_source_kind = kind, spr_source_id = sid, spr_as_of = as_of,
              spr_contract_version = contract, spr_source_version = ver, spr_source_event_id = event,
              spr_source_batch_id = batch, spr_source_hash = h, spr_valuation_timestamp = val,
              spr_freshness_status = fresh\<rparr>)))))))))))
    | _ \<Rightarrow> None)"

definition validate_provenance_envelope :: "json \<Rightarrow> provenance_envelope option" where
  "validate_provenance_envelope j = (case j of
      JObj d \<Rightarrow>
        Option.bind (defaulted_field (validated_literal [(''lotus.source-provenance.v1'', ())]) () d
            ''schema_version'') (\<lambda>_.
        Option.bind (required_field validated_str d ''source_system'') (\<lambda>sys.
        Option.bind (required_field validate_provenance_record d ''portfolio'') (\<lambda>p.
        Option.bind (required_field validate_provenance_record d ''market_data'') (\<lambda>m.
        Option.bind (defaulted_field validated_false () d ''raw_payload_stored'') (\<lambda>_.
        Some \<lparr>spe_source_system = sys, spe_portfolio = p, spe_market_data = m\<rparr>)))))
    | _ \<Rightarrow> None)"

definition validate_collection_completeness :: "lax_coercion \<Rightarrow> json \<Rightarrow> collection_completeness option" where
  "validate_collection_completeness lx j = (case j of
      JObj d \<Rightarrow>
        Option.bind (required_field validated_str d ''source_collection'') (\<lambda>name.
        Option.bind (required_field (validated_bool lx) d ''required'') (\<lambda>req.
        Option.bind (required_field (validated_count lx) d ''received_count'') (\<lambda>received.
        Option.bind (required_field (validated_count lx) d ''accepted_count'') (\<lambda>accepted.
        Option.bind (required_field (validated_count lx) d ''rejected_count'') (\<lambda>rejected.
        Option.bind (defaulted_field (validated_count lx) 0 d ''duplicate_count'') (\<lambda>duplicate.
        Option.bind (defaulted_field (validated_dict (validated_int lx)) [] d ''rejection_reasons'') (\<lambda>reasons.
        Option.bind (defaulted_field (validated_list validated_str) [] d ''affected_refs'') (\<lambda>refs.
        Option.bind (required_field (validated_literal completeness_statuses) d ''status'') (\<lambda>status.
        Some \<lparr>scc_source_collection = name, scc_required = req, scc_received_count = received,
              scc_accepted_count = accepted, scc_rejected_count = rejected,
              scc_duplicate_count = duplicate, scc_rejection_reasons = reasons,
              scc_affected_refs = refs, scc_status = status\<rparr>)))))))))
    | _ \<Rightarrow> None)"

definition validate_completeness_report :: "lax_coercion \<Rightarrow> json \<Rightarrow> completeness_report option" where
  "validate_completeness_report lx j = (case j of
      JObj d \<Rightarrow>
        Option.bind (defaulted_field (validated_literal [(''lotus.source-completeness.v1'', ())]) () d
            ''schema_version'') (\<lambda>_.
        Option.bind (required_field validated_str d ''source_system'') (\<lambda>sys.
        Option.bind (required_field validated_str d ''portfolio_id'') (\<lambda>pid.
        Option.bind (required_field validated_str d ''as_of'') (\<lambda>as_of.
        Option.bind (required_field (validated_literal completeness_statuses) d ''status'') (\<lambda>status.
        Option.bind (required_field (validated_list (validate_collection_completeness lx)) d
            ''collections'') (\<lambda>cs.
        Option.bind (defaulted_field validated_false () d ''raw_payload_stored'') (\<lambda>_.
        Some \<lparr>scr_source_system = sys, scr_portfolio_id = pid, scr_as_of = as_of,
              scr_status = status, scr_collections = cs\<rparr>)))))))
    | _ \<Rightarrow> None)"

definition validate_resolved_context :: "lax_coercion \<Rightarrow> json \<Rightarrow> resolved_context option" where
  "validate_resolved_context lx j = (case j of
      JObj d \<Rightarrow>
        (let str = (\<lambda>k. validated_optional validated_str (dict_get d k)) in
        (case (Option.bind (dict_get d ''portfolio_id'') validated_str, str ''as_of'',
               str ''requested_as_of'', str ''requested_reporting_currency'',
               str ''portfolio_snapshot_id'', str ''market_data_snapshot_id'',
               str ''risk_context_id'', str ''reporting_context_id'',
               validated_optional validate_provenance_envelope (dict_get d ''source_provenance''),
               validated_optional (validate_completeness_report lx) (dict_get d ''source_completeness'')) of
           (Some p, Some a, Some ra, Some rr, Some ps, Some ms, Some ri, Some re, Some pr, Some co) \<Rightarrow>
             Some \<lparr>rc_portfolio_id = p, rc_as_of = a, rc_requested_as_of = ra,
                   rc_requested_reporting_currency = rr, rc_portfolio_snapshot_id = ps,
                   rc_market_data_snapshot_id = ms, rc_risk_context_id = ri,
                   rc_reporting_context_id = re, rc_source_provenance = pr,
                   rc_source_completeness = co\<rparr>
         | _ \<Rightarrow> None))
    | _ \<Rightarrow> None)"

section \<open>Context resolution\<close>

text \<open>
  Resolution of create, version and simulation requests (\<open>proposals/context_resolution.py\<close>),
  the evidence kept about it (\<open>context_evidence.py\<close>) and the hashes taken over it
  (\<open>context_hashing.py\<close>), with the override an internal caller passes.  The policy context is
  the one of \<open>Suitability\<close>.
\<close>

subsection \<open>Resolved requests\<close>

record resolved_simulation =
  rv_input_mode :: input_mode
  rv_resolution_source :: string
  rv_simulate_request :: simulate_request
  rv_resolved_context :: resolved_context
  rv_policy_selectors :: policy_selectors
  rv_used_legacy_contract :: bool

record resolved_proposal = resolved_simulation +
  rv_metadata :: create_metadata

definition require_stateful_input :: "proposal_stateful_input option \<Rightarrow> error + proposal_stateful_input" where
  "require_stateful_input s = (case s of
      None \<Rightarrow> Inl (ContextResolutionError ''PROPOSAL_STATEFUL_INPUT_REQUIRED'') | Some i \<Rightarrow> Inr i)"

definition require_stateful_context_as_of :: "resolved_context \<Rightarrow> error + string" where
  "require_stateful_context_as_of c = (case rc_as_of c of
      None \<Rightarrow> Inl (ContextResolutionError ''WORKSPACE_STATEFUL_CONTEXT_AS_OF_MISSING'')
    | Some d \<Rightarrow> Inr d)"

definition require_stateless_simulate_request :: "simulate_request option \<Rightarrow> error + simulate_request" where
  "require_stateless_simulate_request s = (case s of
      None \<Rightarrow> Inl (ContextResolutionError ''PROPOSAL_STATELESS_INPUT_REQUIRED'') | Some q \<Rightarrow> Inr q)"

definition require_legacy_simulate_request :: "simulate_request option \<Rightarrow> error + simulate_request" where
  "require_legacy_simulate_request s = (case s of
      None \<Rightarrow> Inl (ContextResolutionError ''PROPOSAL_SIMULATE_REQUEST_REQUIRED'') | Some q \<Rightarrow> Inr q)"

definition direct_context :: "simulate_request \<Rightarrow> resolved_context" where
  "direct_context q =
     (let as_of = map_option rf_as_of (sq_reference_model q) in
      \<lparr>rc_portfolio_id = sp_portfolio_id (sq_portfolio_snapshot q),
       rc_as_of = as_of,
       rc_requested_as_of = as_of,
       rc_requested_reporting_currency = None,
       rc_portfolio_snapshot_id = sp_snapshot_id (sq_portfolio_snapshot q),
       rc_market_data_snapshot_id = sm_snapshot_id (sq_market_data_snapshot q),
       rc_risk_context_id = None,
       rc_reporting_context_id = None,
       rc_source_provenance = None,
       rc_source_completeness = None\<rparr>)"

definition metadata_with_stateful_defaults ::
  "create_metadata \<Rightarrow> proposal_stateful_input option \<Rightarrow> create_metadata" where
  "metadata_with_stateful_defaults m s = (case s of
      None \<Rightarrow> m
    | Some i \<Rightarrow> if md_mandate_id m \<noteq> None then m else m\<lparr>md_mandate_id := si_mandate_id i\<rparr>)"

definition merge_alternatives_request :: "simulate_request \<Rightarrow> jobject option \<Rightarrow> simulate_request" where
  "merge_alternatives_request q a =
     (if a = None then q else q\<lparr>sq_alternatives_request := a\<rparr>)"

definition merge_stateful_narrative_request ::
  "simulate_request \<Rightarrow> proposal_stateful_input \<Rightarrow> simulate_request" where
  "merge_stateful_narrative_request q i =
     (if si_narrative_request i = None then q
      else q\<lparr>sq_narrative_request := si_narrative_request i\<rparr>)"

definition build_policy_selectors ::
  "create_metadata option \<Rightarrow> proposal_stateful_input option \<Rightarrow> policy_selectors" where
  "build_policy_selectors m s =
     \<lparr>sl_household_id = Option.bind s si_household_id,
      sl_mandate_id = (case Option.bind m md_mandate_id of
          Some x \<Rightarrow> Some x | None \<Rightarrow> Option.bind s si_mandate_id),
      sl_jurisdiction = Option.bind m md_jurisdiction,
      sl_legal_entity_code = None,
      sl_benchmark_id = Option.bind s si_benchmark_id\<rparr>"

subsection \<open>Resolution\<close>

text \<open>
  The configured resolver (\<open>context_ports.py\<close>) answers a stateful input with the base request and
  its context, or raises; only its own unavailability exception is translated.
\<close>

type_synonym context_port = "proposal_stateful_input \<Rightarrow> error + (simulate_request \<times> resolved_context)"

definition context_unavailable :: "string \<Rightarrow> error" where
  "context_unavailable m = OtherException ''ProposalStatefulContextResolutionUnavailableError'' m"

definition resolve_proposal_stateful_context ::
  "context_port option \<Rightarrow> proposal_stateful_input \<Rightarrow> error + (simulate_request \<times> resolved_context)" where
  "resolve_proposal_stateful_context port i = (case port of
      None \<Rightarrow> Inl (context_unavailable ''LOTUS_CORE_STATEFUL_CONTEXT_UNAVAILABLE'')
    | Some f \<Rightarrow> f i)"

definition stateful_resolution_error :: "error \<Rightarrow> error" where
  "stateful_resolution_error e = (case e of
      OtherException cls m \<Rightarrow>
        if cls = ''ProposalStatefulContextResolutionUnavailableError''
        then ContextResolutionError ''PROPOSAL_STATEFUL_CONTEXT_RESOLUTION_UNAVAILABLE'' else e
    | _ \<Rightarrow> e)"

definition resolve_stateful_input ::
  "context_port option \<Rightarrow> proposal_stateful_input \<Rightarrow> error + (simulate_request \<times> resolved_context)" where
  "resolve_stateful_input port i =
     bind_error (lift_error stateful_resolution_error (resolve_proposal_stateful_context port i))
       (\<lambda>(q, c). bind_error (require_stateful_context_as_of c) (\<lambda>as_of.
          Inr (merge_stateful_narrative_request q i,
               c\<lparr>rc_as_of := Some as_of, rc_requested_as_of := Some (si_as_of i),
                 rc_requested_reporting_currency := si_reporting_currency i\<rparr>)))"

definition stateful_resolution ::
  "context_port option \<Rightarrow> proposal_stateful_input option \<Rightarrow> create_metadata
     \<Rightarrow> error + resolved_proposal" where
  "stateful_resolution port s m =
     bind_error (require_stateful_input s) (\<lambda>i.
     bind_error (resolve_stateful_input port i) (\<lambda>(q, c).
     (let metadata = metadata_with_stateful_defaults m (Some i) in
      Inr \<lparr>rv_input_mode = IM_STATEFUL, rv_resolution_source = ''LOTUS_CORE'',
           rv_simulate_request = q, rv_resolved_context = c,
           rv_policy_selectors = build_policy_selectors (Some metadata) (Some i),
           rv_used_legacy_contract = False, rv_metadata = metadata\<rparr>)))"

definition direct_resolution ::
  "error + simulate_request \<Rightarrow> create_metadata \<Rightarrow> bool \<Rightarrow> error + resolved_proposal" where
  "direct_resolution request m legacy =
     bind_error request (\<lambda>q.
      Inr \<lparr>rv_input_mode = IM_STATELESS, rv_resolution_source = ''DIRECT_REQUEST'',
           rv_simulate_request = q, rv_resolved_context = direct_context q,
           rv_policy_selectors = build_policy_selectors (Some m) None,
           rv_used_legacy_contract = legacy, rv_metadata = m\<rparr>)"

definition resolve_create_request ::
  "context_port option \<Rightarrow> create_payload \<Rightarrow> error + resolved_proposal" where
  "resolve_create_request port q = (case cp_input_mode q of
      Some IM_STATEFUL \<Rightarrow> stateful_resolution port (cp_stateful_input q) (cp_metadata q)
    | Some IM_STATELESS \<Rightarrow> direct_resolution (require_stateless_simulate_request (cp_stateless_input q))
        (cp_metadata q) False
    | None \<Rightarrow> direct_resolution (require_legacy_simulate_request (cp_simulate_request q))
        (cp_metadata q) True)"

definition resolve_version_request ::
  "context_port option \<Rightarrow> version_payload \<Rightarrow> error + resolved_proposal" where
  "resolve_version_request port q = (case vp_input_mode q of
      Some IM_STATEFUL \<Rightarrow> stateful_resolution port (vp_stateful_input q) empty_metadata
    | Some IM_STATELESS \<Rightarrow> direct_resolution (require_stateless_simulate_request (vp_stateless_input q))
        empty_metadata False
    | None \<Rightarrow> direct_resolution (require_legacy_simulate_request (vp_simulate_request q))
        empty_metadata True)"

definition resolve_simulation_request ::
  "context_port option \<Rightarrow> simulation_payload \<Rightarrow> error + resolved_simulation" where
  "resolve_simulation_request port q = (case mp_input_mode q of
      Some IM_STATEFUL \<Rightarrow>
        bind_error (require_stateful_input (mp_stateful_input q)) (\<lambda>i.
        bind_error (resolve_stateful_input port i) (\<lambda>(sim, c).
        Inr \<lparr>rv_input_mode = IM_STATEFUL, rv_resolution_source = ''LOTUS_CORE'',
             rv_simulate_request = merge_alternatives_request sim (mp_alternatives_request q),
             rv_resolved_context = c, rv_policy_selectors = build_policy_selectors None (Some i),
             rv_used_legacy_contract = False\<rparr>))
    | Some IM_STATELESS \<Rightarrow>
        bind_error (require_stateless_simulate_request (mp_stateless_input q)) (\<lambda>sim.
        Inr \<lparr>rv_input_mode = IM_STATELESS, rv_resolution_source = ''DIRECT_REQUEST'',
             rv_simulate_request = sim, rv_resolved_context = direct_context sim,
             rv_policy_selectors = build_policy_selectors None None,
             rv_used_legacy_contract = False\<rparr>)
    | None \<Rightarrow>
        bind_error (require_legacy_simulate_request (mp_simulate_request q)) (\<lambda>sim.
        Inr \<lparr>rv_input_mode = IM_STATELESS, rv_resolution_source = ''DIRECT_REQUEST'',
             rv_simulate_request = sim, rv_resolved_context = direct_context sim,
             rv_policy_selectors = build_policy_selectors None None,
             rv_used_legacy_contract = True\<rparr>))"

subsection \<open>Evidence\<close>

definition build_context_resolution_evidence :: "'a resolved_simulation_scheme \<Rightarrow> jobject" where
  "build_context_resolution_evidence r =
     [(''input_mode'', JStr (input_mode_str (rv_input_mode r))),
      (''resolution_source'', JStr (rv_resolution_source r)),
      (''used_legacy_contract'', JBool (rv_used_legacy_contract r)),
      (''resolved_context'', dump_resolved_context (rv_resolved_context r)),
      (''advisory_policy_context'', JObj (build_advisory_policy_context (input_mode_str (rv_input_mode r))
         (rv_resolution_source r) (rv_policy_selectors r)))]"

subsection \<open>The override\<close>

definition override_invalid :: error where
  "override_invalid = ContextResolutionError ''PROPOSAL_CONTEXT_RESOLUTION_OVERRIDE_INVALID''"

definition require_override_input_mode :: "json \<Rightarrow> error + input_mode" where
  "require_override_input_mode v = (case v of
      JStr s \<Rightarrow> if s = ''stateless'' then Inr IM_STATELESS
               else if s = ''stateful'' then Inr IM_STATEFUL else Inl override_invalid
    | _ \<Rightarrow> Inl override_invalid)"

definition require_override_resolution_source :: "json \<Rightarrow> error + string" where
  "require_override_resolution_source v = (case v of
      JStr s \<Rightarrow> if s = [] then Inl override_invalid else Inr s
    | _ \<Rightarrow> Inl override_invalid)"

definition require_override_legacy_contract :: "json \<Rightarrow> error + bool" where
  "require_override_legacy_contract v = (case v of JBool b \<Rightarrow> Inr b | _ \<Rightarrow> Inl override_invalid)"

definition require_override_policy_context :: "json \<Rightarrow> error + unit" where
  "require_override_policy_context v = (case v of JObj d \<Rightarrow> Inr () | _ \<Rightarrow> Inl override_invalid)"

definition apply_context_resolution_override ::
  "lax_coercion \<Rightarrow> resolved_proposal \<Rightarrow> jobject option \<Rightarrow> error + resolved_proposal" where
  "apply_context_resolution_override lx r override = (case override of
      None \<Rightarrow> Inr r
    | Some d \<Rightarrow>
       (case (dict_get d ''input_mode'', dict_get d ''resolution_source'',
              Option.bind (dict_get d ''resolved_context'') (validate_resolved_context lx),
              dict_get d ''used_legacy_contract'', dict_get d ''advisory_policy_context'') of
          (Some mode, Some source, Some context, Some legacy, Some policy_context) \<Rightarrow>
            bind_error (require_override_input_mode mode) (\<lambda>mode.
            bind_error (require_override_resolution_source source) (\<lambda>source.
            bind_error (require_override_legacy_contract legacy) (\<lambda>legacy.
            bind_error (require_override_policy_context policy_context) (\<lambda>_.
            Inr (r\<lparr>rv_input_mode := mode, rv_resolution_source := source,
                   rv_resolved_context := context, rv_used_legacy_contract := legacy\<rparr>)))))
        | _ \<Rightarrow> Inl override_invalid))"

subsection \<open>Hashes\<close>

definition dump_create_payload :: "create_payload \<Rightarrow> jobject" where
  "dump_create_payload q =
     [(''created_by'', JStr (cp_created_by q)),
      (''input_mode'', json_opt (JStr o input_mode_str) (cp_input_mode q)),
      (''simulate_request'', json_opt dump_simulate_request (cp_simulate_request q)),
      (''stateless_input'', json_opt dump_stateless_input (cp_stateless_input q)),
      (''stateful_input'', json_opt dump_proposal_stateful_input (cp_stateful_input q)),
      (''metadata'', dump_metadata (cp_metadata q))]"

definition build_create_command_idempotency_hash :: "runtime \<Rightarrow> create_payload \<Rightarrow> string" where
  "build_create_command_idempotency_hash rt q = hash_canonical_payload rt (JObj (dump_create_payload q))"

definition advisory_context :: "'a resolved_simulation_scheme \<Rightarrow> json" where
  "advisory_context r = JObj
     [(''input_mode'', JStr (input_mode_str (rv_input_mode r))),
      (''resolution_source'', JStr (rv_resolution_source r)),
      (''resolved_context'', dump_resolved_context (rv_resolved_context r)),
      (''simulate_request'', dump_simulate_request (rv_simulate_request r))]"

definition canonicalize_create_request_payload :: "create_payload \<Rightarrow> resolved_proposal \<Rightarrow> jobject" where
  "canonicalize_create_request_payload q r =
     [(''created_by'', JStr (cp_created_by q)),
      (''metadata'', dump_metadata (rv_metadata r)),
      (''advisory_context'', advisory_context r)]"

definition build_create_request_hash :: "runtime \<Rightarrow> create_payload \<Rightarrow> resolved_proposal \<Rightarrow> string" where
  "build_create_request_hash rt q r =
     hash_canonical_payload rt (JObj (canonicalize_create_request_payload q r))"

definition canonicalize_simulation_request_payload :: "'a resolved_simulation_scheme \<Rightarrow> jobject" where
  "canonicalize_simulation_request_payload r = [(''advisory_context'', advisory_context r)]"

definition build_simulation_request_hash :: "runtime \<Rightarrow> 'a resolved_simulation_scheme \<Rightarrow> string" where
  "build_simulation_request_hash rt r =
     hash_canonical_payload rt (JObj (canonicalize_simulation_request_payload r))"

definition canonicalize_version_request_payload :: "version_payload \<Rightarrow> resolved_proposal \<Rightarrow> jobject" where
  "canonicalize_version_request_payload q r =
     [(''created_by'', JStr (vp_created_by q)),
      (''expected_current_version_no'', json_opt JInt (vp_expected_current_version_no q)),
      (''advisory_context'', advisory_context r)]"

definition build_version_request_hash :: "runtime \<Rightarrow> version_payload \<Rightarrow> resolved_proposal \<Rightarrow> string" where
  "build_version_request_hash rt q r =
     hash_canonical_payload rt (JObj (canonicalize_version_request_payload q r))"

subsection \<open>Facts\<close>

lemma validated_optional_dump [simp]:
  "validated_optional validated_str (Some (jopt_str s)) = Some s"
  by (cases s) (simp_all add: validated_optional_def jopt_str_def json_opt_def validated_str_def)

lemma validated_str_JStr [simp]: "validated_str (JStr s) = Some s"
  by (simp add: validated_str_def)

lemma validated_scalars [simp]:
  "validated_int lx (JInt n) = Some n"
  "validated_bool lx (JBool b) = Some b"
  "validated_count lx (JInt (int m)) = Some m"
  "validated_false (JBool False) = Some ()"
  by (simp_all add: validated_int_def validated_bool_def validated_count_def validated_false_def)

lemma validated_literals [simp]:
  "validated_literal source_kinds (JStr (source_kind_str k)) = Some k"
  "validated_literal source_freshness_values (JStr (source_freshness_str f)) = Some f"
  "validated_literal completeness_statuses (JStr (completeness_status_str c)) = Some c"
  by (cases k, auto simp: validated_literal_def source_kinds_def)
     (cases f, auto simp: validated_literal_def source_freshness_values_def,
      cases c, auto simp: validated_literal_def completeness_statuses_def)

lemma those_map_dump: "(\<And>x. f (g x) = Some x) \<Longrightarrow> those (map f (map g xs)) = Some xs"
  by (induction xs) simp_all

lemma validated_list_dump:
  "(\<And>x. f (g x) = Some x) \<Longrightarrow> validated_list f (JList (map g xs)) = Some xs"
  unfolding validated_list_def json.case by (rule those_map_dump)

lemma validated_dict_dump:
  "(\<And>x. f (g x) = Some x) \<Longrightarrow> validated_dict f (JObj (map (\<lambda>(k, x). (k, g x)) d)) = Some d"
  unfolding validated_dict_def json.case by (rule those_map_dump) auto

lemma validated_optional_nested:
  "(\<And>x. f (g x) = Some x) \<Longrightarrow> (\<And>x. g x \<noteq> JNull) \<Longrightarrow> validated_optional f (Some (json_opt g x)) = Some x"
proof (cases x)
  case (Some y)
  moreover assume "f (g x) = Some x" and "g x \<noteq> JNull" for x
  ultimately show ?thesis by (cases "g y") (simp_all add: validated_optional_def json_opt_def, metis+)
qed (simp add: validated_optional_def json_opt_def)

text \<open>\<open>model_validate(model.model_dump(mode="json"))\<close> is the model.\<close>

lemma dumps_not_null [simp]:
  "dump_provenance_envelope e \<noteq> JNull" "dump_completeness_report r \<noteq> JNull"
  by (simp_all add: dump_provenance_envelope_def dump_completeness_report_def)

lemma schema_literal [simp]: "validated_literal [(s, ())] (JStr s) = Some ()"
  by (simp add: validated_literal_def)

lemma provenance_record_roundtrip [simp]:
  "validate_provenance_record (dump_provenance_record r) = Some r"
  by (simp add: validate_provenance_record_def dump_provenance_record_def required_field_def
      optional_str_field_def defaulted_field_def)

lemma provenance_envelope_roundtrip [simp]:
  "validate_provenance_envelope (dump_provenance_envelope e) = Some e"
  by (simp add: validate_provenance_envelope_def dump_provenance_envelope_def required_field_def
      defaulted_field_def)

lemma collection_completeness_roundtrip [simp]:
  "validate_collection_completeness lx (dump_collection_completeness c) = Some c"
  by (simp add: validate_collection_completeness_def dump_collection_completeness_def
      required_field_def defaulted_field_def validated_list_dump validated_dict_dump)

lemma completeness_report_roundtrip [simp]:
  "validate_completeness_report lx (dump_completeness_report r) = Some r"
  by (simp add: validate_completeness_report_def dump_completeness_report_def required_field_def
      defaulted_field_def validated_list_dump)

lemma resolved_context_roundtrip [simp]:
  "validate_resolved_context lx (dump_resolved_context c) = Some c"
proof -
  have "validated_optional validate_provenance_envelope (Some (json_opt dump_provenance_envelope x)) = Some x"
    for x
    by (rule validated_optional_nested) simp_all
  moreover have "validated_optional (validate_completeness_report lx)
      (Some (json_opt dump_completeness_report x)) = Some x" for x
    by (rule validated_optional_nested) simp_all
  ultimately show ?thesis
    by (simp add: validate_resolved_context_def dump_resolved_context_def Let_def)
qed

lemma input_mode_override [simp]:
  "require_override_input_mode (JStr (input_mode_str m)) = Inr m"
  by (cases m) (simp_all add: require_override_input_mode_def)

text \<open>An override built as evidence is always accepted, and carries its context over.\<close>

lemma evidence_override:
  assumes "rv_resolution_source r' \<noteq> []"
  shows "apply_context_resolution_override lx r (Some (build_context_resolution_evidence r')) =
     Inr (r\<lparr>rv_input_mode := rv_input_mode r', rv_resolution_source := rv_resolution_source r',
            rv_resolved_context := rv_resolved_context r',
            rv_used_legacy_contract := rv_used_legacy_contract r'\<rparr>)"
  using assms
  by (simp add: apply_context_resolution_override_def build_context_resolution_evidence_def
      require_override_resolution_source_def
      require_override_legacy_contract_def require_override_policy_context_def)

text \<open>A validated request resolves without a missing-input error.\<close>

lemma valid_create_payload_cases:
  assumes "validate_create_payload q = Inr ()"
  obtains (legacy) sim where "cp_input_mode q = None" and "cp_simulate_request q = Some sim"
      and "cp_stateless_input q = None" and "cp_stateful_input q = None"
    | (stateless) sim where "cp_input_mode q = Some IM_STATELESS" and "cp_stateless_input q = Some sim"
      and "cp_simulate_request q = None" and "cp_stateful_input q = None"
    | (stateful) i where "cp_input_mode q = Some IM_STATEFUL" and "cp_stateful_input q = Some i"
      and "cp_simulate_request q = None" and "cp_stateless_input q = None"
  using assms
  by (auto simp: validate_create_payload_def validate_exclusive_input_contract_def
      validate_legacy_input_def validate_stateless_input_def validate_stateful_input_def
      split: option.splits input_mode.splits if_splits)

end
