(* ===== verification/Workspace_Versions.thy ===== *)
theory Workspace_Versions
  imports Context_Resolution
begin

text \<open>
  The data of an advisory workspace: its draft and the actions on it, and its sessions, saved versions
  and replay evidence.
\<close>

section \<open>Drafts\<close>

text \<open>
  The draft of a workspace and the actions that edit it: \<open>workspace/draft_models.py\<close>,
  \<open>action_models.py\<close>, \<open>draft_actions.py\<close>, \<open>draft_state.py\<close>, \<open>errors.py\<close>.
  Trades, cash flows and options are JSON content here: these modules copy and compare them and
  read none of their fields.  The ids a draft generates are arguments.
\<close>

subsection \<open>Errors\<close>

datatype workspace_error =
    WE_NotFound string
  | WE_DraftAction string
  | WE_EvaluationUnavailable string
  | WE_SavedVersionLookup string
  | WE_SavedVersionNotFound string
  | WE_HandoffUnavailable string
  | WE_Handoff string
  | WE_ReevaluationContext string
  | WE_Value string
  | WE_Other error

subsection \<open>Draft state\<close>

record trade_draft =
  td_workspace_trade_id :: string
  td_trade :: jobject

record cash_flow_draft =
  cd_workspace_cash_flow_id :: string
  cd_cash_flow :: jobject

record draft_state =
  ds_options :: jobject
  ds_alternatives_request :: "jobject option"
  ds_reference_model :: "request_reference_model option"
  ds_trade_drafts :: "trade_draft list"
  ds_cash_flow_drafts :: "cash_flow_draft list"

definition dump_trade_draft :: "trade_draft \<Rightarrow> json" where
  "dump_trade_draft d = JObj [(''workspace_trade_id'', JStr (td_workspace_trade_id d)),
     (''trade'', JObj (td_trade d))]"

definition dump_cash_flow_draft :: "cash_flow_draft \<Rightarrow> json" where
  "dump_cash_flow_draft d = JObj [(''workspace_cash_flow_id'', JStr (cd_workspace_cash_flow_id d)),
     (''cash_flow'', JObj (cd_cash_flow d))]"

definition dump_draft_state :: "draft_state \<Rightarrow> json" where
  "dump_draft_state d = JObj
     [(''options'', JObj (ds_options d)),
      (''alternatives_request'', json_opt JObj (ds_alternatives_request d)),
      (''reference_model'', json_opt dump_reference_model (ds_reference_model d)),
      (''trade_drafts'', JList (map dump_trade_draft (ds_trade_drafts d))),
      (''cash_flow_drafts'', JList (map dump_cash_flow_draft (ds_cash_flow_drafts d)))]"

text \<open>\<open>build_draft_state_from_simulate_request\<close> draws one new id per trade and per cash flow.\<close>

definition build_draft_state_from_simulate_request ::
  "(nat \<Rightarrow> string) \<Rightarrow> (nat \<Rightarrow> string) \<Rightarrow> simulate_request \<Rightarrow> draft_state" where
  "build_draft_state_from_simulate_request trade_ids flow_ids q =
     \<lparr>ds_options = sq_options q,
      ds_alternatives_request = sq_alternatives_request q,
      ds_reference_model = sq_reference_model q,
      ds_trade_drafts = map (\<lambda>(i, t). \<lparr>td_workspace_trade_id = trade_ids i, td_trade = t\<rparr>)
        (enumerate 0 (sq_proposed_trades q)),
      ds_cash_flow_drafts = map (\<lambda>(i, c). \<lparr>cd_workspace_cash_flow_id = flow_ids i, cd_cash_flow = c\<rparr>)
        (enumerate 0 (sq_proposed_cash_flows q))\<rparr>"

text \<open>
  \<open>apply_workspace_draft_state\<close> names eight of the nine fields of the request it builds;
  \<open>narrative_request\<close> takes its default.
\<close>

definition apply_workspace_draft_state :: "simulate_request \<Rightarrow> draft_state \<Rightarrow> simulate_request" where
  "apply_workspace_draft_state base d =
     \<lparr>sq_portfolio_snapshot = sq_portfolio_snapshot base,
      sq_market_data_snapshot = sq_market_data_snapshot base,
      sq_shelf_entries = sq_shelf_entries base,
      sq_options = ds_options d,
      sq_proposed_cash_flows = map cd_cash_flow (ds_cash_flow_drafts d),
      sq_proposed_trades = map td_trade (ds_trade_drafts d),
      sq_reference_model = ds_reference_model d,
      sq_alternatives_request = ds_alternatives_request d,
      sq_narrative_request = None\<rparr>"

definition empty_draft_state :: "jobject \<Rightarrow> draft_state" where
  "empty_draft_state default_options = \<lparr>ds_options = default_options, ds_alternatives_request = None,
     ds_reference_model = None, ds_trade_drafts = [], ds_cash_flow_drafts = []\<rparr>"

subsection \<open>Action requests\<close>

datatype draft_action =
    DA_ADD_TRADE | DA_UPDATE_TRADE | DA_REMOVE_TRADE
  | DA_ADD_CASH_FLOW | DA_UPDATE_CASH_FLOW | DA_REMOVE_CASH_FLOW
  | DA_REPLACE_OPTIONS

record draft_action_request =
  dr_actor_id :: string
  dr_action_type :: draft_action
  dr_workspace_trade_id :: "string option"
  dr_workspace_cash_flow_id :: "string option"
  dr_trade :: "jobject option"
  dr_cash_flow :: "jobject option"
  dr_options :: "jobject option"

definition validate_required_action_payload :: "draft_action_request \<Rightarrow> workspace_error + unit" where
  "validate_required_action_payload q =
     (case dr_action_type q of
        DA_ADD_TRADE \<Rightarrow> if dr_trade q = None then Inl (WE_Value ''ADD_TRADE requires trade'') else Inr ()
      | DA_UPDATE_TRADE \<Rightarrow> if dr_workspace_trade_id q = None \<or> dr_trade q = None
          then Inl (WE_Value ''UPDATE_TRADE requires workspace_trade_id and trade'') else Inr ()
      | DA_REMOVE_TRADE \<Rightarrow> if dr_workspace_trade_id q = None
          then Inl (WE_Value ''REMOVE_TRADE requires workspace_trade_id'') else Inr ()
      | DA_ADD_CASH_FLOW \<Rightarrow> if dr_cash_flow q = None
          then Inl (WE_Value ''ADD_CASH_FLOW requires cash_flow'') else Inr ()
      | DA_UPDATE_CASH_FLOW \<Rightarrow> if dr_workspace_cash_flow_id q = None \<or> dr_cash_flow q = None
          then Inl (WE_Value ''UPDATE_CASH_FLOW requires workspace_cash_flow_id and cash_flow'')
          else Inr ()
      | DA_REMOVE_CASH_FLOW \<Rightarrow> if dr_workspace_cash_flow_id q = None
          then Inl (WE_Value ''REMOVE_CASH_FLOW requires workspace_cash_flow_id'') else Inr ()
      | DA_REPLACE_OPTIONS \<Rightarrow> if dr_options q = None
          then Inl (WE_Value ''REPLACE_OPTIONS requires options'') else Inr ())"

definition TRADE_DRAFT_ACTIONS :: "draft_action list" where
  "TRADE_DRAFT_ACTIONS = [DA_ADD_TRADE, DA_UPDATE_TRADE, DA_REMOVE_TRADE]"

definition CASH_FLOW_DRAFT_ACTIONS :: "draft_action list" where
  "CASH_FLOW_DRAFT_ACTIONS = [DA_ADD_CASH_FLOW, DA_UPDATE_CASH_FLOW, DA_REMOVE_CASH_FLOW]"

definition validate_action_identifier_scope :: "draft_action_request \<Rightarrow> workspace_error + unit" where
  "validate_action_identifier_scope q =
     (if dr_action_type q \<notin> set TRADE_DRAFT_ACTIONS \<and> dr_workspace_trade_id q \<noteq> None
      then Inl (WE_Value ''workspace_trade_id is only valid for trade actions'')
      else if dr_action_type q \<notin> set CASH_FLOW_DRAFT_ACTIONS \<and> dr_workspace_cash_flow_id q \<noteq> None
      then Inl (WE_Value ''workspace_cash_flow_id is only valid for cash-flow actions'')
      else Inr ())"

definition validate_action_payload :: "draft_action_request \<Rightarrow> workspace_error + unit" where
  "validate_action_payload q =
     bind_error (validate_required_action_payload q) (\<lambda>_. validate_action_identifier_scope q)"

subsection \<open>Applying an action\<close>

definition require_field :: "string \<Rightarrow> 'a option \<Rightarrow> workspace_error + 'a" where
  "require_field code v = (case v of None \<Rightarrow> Inl (WE_DraftAction code) | Some x \<Rightarrow> Inr x)"

definition require_trade :: "draft_action_request \<Rightarrow> workspace_error + jobject" where
  "require_trade q = require_field ''WORKSPACE_DRAFT_TRADE_REQUIRED'' (dr_trade q)"

definition require_cash_flow :: "draft_action_request \<Rightarrow> workspace_error + jobject" where
  "require_cash_flow q = require_field ''WORKSPACE_DRAFT_CASH_FLOW_REQUIRED'' (dr_cash_flow q)"

definition require_workspace_trade_id :: "draft_action_request \<Rightarrow> workspace_error + string" where
  "require_workspace_trade_id q =
     require_field ''WORKSPACE_TRADE_ID_REQUIRED'' (dr_workspace_trade_id q)"

definition require_workspace_cash_flow_id :: "draft_action_request \<Rightarrow> workspace_error + string" where
  "require_workspace_cash_flow_id q =
     require_field ''WORKSPACE_CASH_FLOW_ID_REQUIRED'' (dr_workspace_cash_flow_id q)"

text \<open>\<open>next(item for item in drafts if item.id == id)\<close> and the assignment through it.\<close>

fun update_first :: "('a \<Rightarrow> bool) \<Rightarrow> ('a \<Rightarrow> 'a) \<Rightarrow> 'a list \<Rightarrow> 'a list option" where
  "update_first P f [] = None"
| "update_first P f (x # xs) =
     (if P x then Some (f x # xs) else map_option ((#) x) (update_first P f xs))"

definition remove_matching :: "('a \<Rightarrow> bool) \<Rightarrow> 'a list \<Rightarrow> 'a list option" where
  "remove_matching P xs =
     (let kept = filter (\<lambda>x. \<not> P x) xs in if length kept = length xs then None else Some kept)"

definition add_trade_draft :: "string \<Rightarrow> draft_action_request \<Rightarrow> draft_state \<Rightarrow> workspace_error + draft_state" where
  "add_trade_draft new_id q d = bind_error (require_trade q) (\<lambda>t.
     Inr (d\<lparr>ds_trade_drafts := ds_trade_drafts d @ [\<lparr>td_workspace_trade_id = new_id, td_trade = t\<rparr>]\<rparr>))"

definition update_trade_draft :: "draft_action_request \<Rightarrow> draft_state \<Rightarrow> workspace_error + draft_state" where
  "update_trade_draft q d = bind_error (require_workspace_trade_id q) (\<lambda>i.
     if list_ex (\<lambda>t. td_workspace_trade_id t = i) (ds_trade_drafts d)
     then bind_error (require_trade q) (\<lambda>trade.
       case update_first (\<lambda>t. td_workspace_trade_id t = i) (td_trade_update (\<lambda>_. trade))
              (ds_trade_drafts d) of
         None \<Rightarrow> Inl (WE_DraftAction ''WORKSPACE_TRADE_NOT_FOUND'')
       | Some ts \<Rightarrow> Inr (d\<lparr>ds_trade_drafts := ts\<rparr>))
     else Inl (WE_DraftAction ''WORKSPACE_TRADE_NOT_FOUND''))"

definition remove_trade_draft :: "draft_action_request \<Rightarrow> draft_state \<Rightarrow> workspace_error + draft_state" where
  "remove_trade_draft q d = bind_error (require_workspace_trade_id q) (\<lambda>i.
     case remove_matching (\<lambda>t. td_workspace_trade_id t = i) (ds_trade_drafts d) of
       None \<Rightarrow> Inl (WE_DraftAction ''WORKSPACE_TRADE_NOT_FOUND'')
     | Some ts \<Rightarrow> Inr (d\<lparr>ds_trade_drafts := ts\<rparr>))"

definition add_cash_flow_draft ::
  "string \<Rightarrow> draft_action_request \<Rightarrow> draft_state \<Rightarrow> workspace_error + draft_state" where
  "add_cash_flow_draft new_id q d = bind_error (require_cash_flow q) (\<lambda>c.
     Inr (d\<lparr>ds_cash_flow_drafts := ds_cash_flow_drafts d
            @ [\<lparr>cd_workspace_cash_flow_id = new_id, cd_cash_flow = c\<rparr>]\<rparr>))"

definition update_cash_flow_draft ::
  "draft_action_request \<Rightarrow> draft_state \<Rightarrow> workspace_error + draft_state" where
  "update_cash_flow_draft q d = bind_error (require_workspace_cash_flow_id q) (\<lambda>i.
     if list_ex (\<lambda>c. cd_workspace_cash_flow_id c = i) (ds_cash_flow_drafts d)
     then bind_error (require_cash_flow q) (\<lambda>flow.
       case update_first (\<lambda>c. cd_workspace_cash_flow_id c = i) (cd_cash_flow_update (\<lambda>_. flow))
              (ds_cash_flow_drafts d) of
         None \<Rightarrow> Inl (WE_DraftAction ''WORKSPACE_CASH_FLOW_NOT_FOUND'')
       | Some cs \<Rightarrow> Inr (d\<lparr>ds_cash_flow_drafts := cs\<rparr>))
     else Inl (WE_DraftAction ''WORKSPACE_CASH_FLOW_NOT_FOUND''))"

definition remove_cash_flow_draft ::
  "draft_action_request \<Rightarrow> draft_state \<Rightarrow> workspace_error + draft_state" where
  "remove_cash_flow_draft q d = bind_error (require_workspace_cash_flow_id q) (\<lambda>i.
     case remove_matching (\<lambda>c. cd_workspace_cash_flow_id c = i) (ds_cash_flow_drafts d) of
       None \<Rightarrow> Inl (WE_DraftAction ''WORKSPACE_CASH_FLOW_NOT_FOUND'')
     | Some cs \<Rightarrow> Inr (d\<lparr>ds_cash_flow_drafts := cs\<rparr>))"

definition replace_options :: "draft_action_request \<Rightarrow> draft_state \<Rightarrow> workspace_error + draft_state" where
  "replace_options q d = bind_error (require_field ''WORKSPACE_DRAFT_OPTIONS_REQUIRED'' (dr_options q))
     (\<lambda>opts. Inr (d\<lparr>ds_options := opts\<rparr>))"

definition apply_workspace_draft_action_to_state ::
  "string \<Rightarrow> draft_action_request \<Rightarrow> draft_state \<Rightarrow> workspace_error + draft_state" where
  "apply_workspace_draft_action_to_state new_id q d = (case dr_action_type q of
      DA_ADD_TRADE \<Rightarrow> add_trade_draft new_id q d
    | DA_UPDATE_TRADE \<Rightarrow> update_trade_draft q d
    | DA_REMOVE_TRADE \<Rightarrow> remove_trade_draft q d
    | DA_ADD_CASH_FLOW \<Rightarrow> add_cash_flow_draft new_id q d
    | DA_UPDATE_CASH_FLOW \<Rightarrow> update_cash_flow_draft q d
    | DA_REMOVE_CASH_FLOW \<Rightarrow> remove_cash_flow_draft q d
    | DA_REPLACE_OPTIONS \<Rightarrow> replace_options q d)"

section \<open>Sessions, versions and evidence\<close>

text \<open>
  Sessions, their evaluations, replay evidence and saved versions: \<open>workspace/session_models.py\<close>,
  \<open>version_models.py\<close>, \<open>sessions.py\<close>, \<open>evaluation.py\<close>, \<open>reevaluation.py\<close>,
  \<open>context_resolution.py\<close>, \<open>replay.py\<close>, \<open>versions.py\<close>, \<open>compare.py\<close> and
  \<open>advisory/risk_lens.py\<close>.  Deep copies are the copied value.
\<close>

subsection \<open>Evaluation results\<close>

record rule_outcome =
  wo_status :: string
  wo_severity :: string

text \<open>
  The fields of \<open>ProposalResult\<close> the workspace reads.  \<open>wr_portfolio_delta\<close> is the text
  \<open>format_portfolio_delta\<close> gives of its decimal amounts, \<open>wr_suitability_issues\<close> the number of
  suitability issues when there is a suitability section.
\<close>

record workspace_result =
  wr_status :: creation_status
  wr_gate_decision :: "jobject option"
  wr_rule_results :: "rule_outcome list"
  wr_suitability_issues :: "nat option"
  wr_portfolio_delta :: string
  wr_explanation :: jobject
  wr_content :: jobject

record evaluation_summary =
  es_status :: creation_status
  es_gate_decision :: "jobject option"
  es_blocking_issue_count :: nat
  es_review_issue_count :: nat
  es_portfolio_value_delta_base_ccy :: string
  es_trade_count :: nat
  es_cash_flow_count :: nat

definition calculate_blocking_issue_count :: "workspace_result \<Rightarrow> nat" where
  "calculate_blocking_issue_count r = length (filter (\<lambda>x. wo_status x = ''FAIL'' \<and> wo_severity x = ''HARD'')
     (wr_rule_results r))"

definition calculate_review_issue_count :: "workspace_result \<Rightarrow> nat" where
  "calculate_review_issue_count r =
     length (filter (\<lambda>x. wo_status x = ''FAIL'' \<and> wo_severity x = ''SOFT'') (wr_rule_results r))
     + (case wr_suitability_issues r of None \<Rightarrow> 0 | Some n \<Rightarrow> n)"

definition build_evaluation_summary :: "workspace_result \<Rightarrow> draft_state \<Rightarrow> evaluation_summary" where
  "build_evaluation_summary r d =
     \<lparr>es_status = wr_status r,
      es_gate_decision = wr_gate_decision r,
      es_blocking_issue_count = calculate_blocking_issue_count r,
      es_review_issue_count = calculate_review_issue_count r,
      es_portfolio_value_delta_base_ccy = wr_portfolio_delta r,
      es_trade_count = length (ds_trade_drafts d),
      es_cash_flow_count = length (ds_cash_flow_drafts d)\<rparr>"

definition extract_risk_lens :: "jobject \<Rightarrow> jobject option" where
  "extract_risk_lens explanation = (case dict_get explanation ''risk_lens'' of
      Some (JObj lens) \<Rightarrow> (case dict_get lens ''source_service'' of
          Some (JStr (_ # _)) \<Rightarrow> Some lens | _ \<Rightarrow> None)
    | _ \<Rightarrow> None)"

subsection \<open>Sessions\<close>

record replay_evidence =
  we_input_mode :: input_mode
  we_resolved_context :: "resolved_context option"
  we_draft_state_hash :: string
  we_evaluation_request_hash :: "string option"
  we_captured_at :: string
  we_continuity :: jobject
  we_risk_lens :: "jobject option"

record saved_version_summary =
  vs_workspace_version_id :: string
  vs_version_number :: nat
  vs_version_label :: "string option"
  vs_saved_by :: string
  vs_saved_at :: string

record saved_version =
  wv_workspace_version_id :: string
  wv_version_number :: nat
  wv_version_label :: "string option"
  wv_saved_by :: string
  wv_saved_at :: string
  wv_draft_state :: draft_state
  wv_evaluation_summary :: "evaluation_summary option"
  wv_latest_proposal_result :: "workspace_result option"
  wv_replay_evidence :: replay_evidence

record lifecycle_link =
  ln_proposal_id :: string
  ln_current_version_no :: int
  ln_last_handoff_at :: string
  ln_last_handoff_by :: string

record session_create_request =
  ws_workspace_name :: string
  ws_created_by :: string
  ws_input_mode :: input_mode
  ws_stateless_input :: "simulate_request option"
  ws_stateful_input :: "stateful_input option"

datatype workspace_lifecycle = WL_ACTIVE | WL_PAUSED | WL_ARCHIVED

record workspace_session =
  wk_workspace_id :: string
  wk_workspace_name :: string
  wk_lifecycle_state :: workspace_lifecycle
  wk_input_mode :: input_mode
  wk_created_by :: string
  wk_created_at :: string
  wk_stateless_input :: "simulate_request option"
  wk_stateful_input :: "stateful_input option"
  wk_draft_state :: draft_state
  wk_resolved_context :: "resolved_context option"
  wk_evaluation_summary :: "evaluation_summary option"
  wk_latest_proposal_result :: "workspace_result option"
  wk_latest_replay_evidence :: "replay_evidence option"
  wk_saved_version_count :: nat
  wk_latest_saved_version :: "saved_version_summary option"
  wk_lifecycle_link :: "lifecycle_link option"
  wk_saved_versions :: "saved_version list"

definition validate_workspace_input_mode_payloads ::
  "input_mode \<Rightarrow> 'a option \<Rightarrow> 'b option \<Rightarrow> string \<Rightarrow> workspace_error + unit" where
  "validate_workspace_input_mode_payloads mode stateless stateful subject = (case mode of
      IM_STATELESS \<Rightarrow>
        if stateless = None \<or> stateful \<noteq> None
        then Inl (WE_Value (''stateless '' @ subject
          @ '' require stateless_input and must not include stateful_input'')) else Inr ()
    | IM_STATEFUL \<Rightarrow>
        if stateful = None \<or> stateless \<noteq> None
        then Inl (WE_Value (''stateful '' @ subject
          @ '' require stateful_input and must not include stateless_input'')) else Inr ())"

definition validate_session_create_request :: "session_create_request \<Rightarrow> workspace_error + unit" where
  "validate_session_create_request q = validate_workspace_input_mode_payloads (ws_input_mode q)
     (ws_stateless_input q) (ws_stateful_input q) ''workspaces''"

definition validate_session_mode_payloads :: "workspace_session \<Rightarrow> workspace_error + unit" where
  "validate_session_mode_payloads s = validate_workspace_input_mode_payloads (wk_input_mode s)
     (wk_stateless_input s) (wk_stateful_input s) ''workspace sessions''"

text \<open>The same projection as \<open>direct_context\<close>; the two modules repeat each other.\<close>

definition build_stateless_workspace_resolved_context :: "simulate_request \<Rightarrow> resolved_context" where
  "build_stateless_workspace_resolved_context q =
     \<lparr>rc_portfolio_id = sp_portfolio_id (sq_portfolio_snapshot q),
      rc_as_of = map_option rf_as_of (sq_reference_model q),
      rc_requested_as_of = map_option rf_as_of (sq_reference_model q),
      rc_requested_reporting_currency = None,
      rc_portfolio_snapshot_id = sp_snapshot_id (sq_portfolio_snapshot q),
      rc_market_data_snapshot_id = sm_snapshot_id (sq_market_data_snapshot q),
      rc_risk_context_id = None, rc_reporting_context_id = None,
      rc_source_provenance = None, rc_source_completeness = None\<rparr>"

definition build_workspace_session ::
  "session_create_request \<Rightarrow> string \<Rightarrow> string \<Rightarrow> draft_state \<Rightarrow> resolved_context
     \<Rightarrow> workspace_error + workspace_session" where
  "build_workspace_session q workspace_id created_at d c =
     (let s = \<lparr>wk_workspace_id = workspace_id, wk_workspace_name = ws_workspace_name q,
               wk_lifecycle_state = WL_ACTIVE, wk_input_mode = ws_input_mode q,
               wk_created_by = ws_created_by q, wk_created_at = created_at,
               wk_stateless_input = ws_stateless_input q, wk_stateful_input = ws_stateful_input q,
               wk_draft_state = d, wk_resolved_context = Some c,
               wk_evaluation_summary = None, wk_latest_proposal_result = None,
               wk_latest_replay_evidence = None, wk_saved_version_count = 0,
               wk_latest_saved_version = None, wk_lifecycle_link = None, wk_saved_versions = []\<rparr>
      in bind_error (validate_session_mode_payloads s) (\<lambda>_. Inr s))"

subsection \<open>Replay evidence\<close>

definition build_draft_state_hash :: "runtime \<Rightarrow> draft_state \<Rightarrow> string" where
  "build_draft_state_hash rt d = hash_canonical_payload rt (dump_draft_state d)"

definition build_replay_evidence ::
  "runtime \<Rightarrow> workspace_session \<Rightarrow> string option \<Rightarrow> string \<Rightarrow> replay_evidence" where
  "build_replay_evidence rt s evaluation_request_hash now =
     \<lparr>we_input_mode = wk_input_mode s,
      we_resolved_context = wk_resolved_context s,
      we_draft_state_hash = build_draft_state_hash rt (wk_draft_state s),
      we_evaluation_request_hash = evaluation_request_hash,
      we_captured_at = now,
      we_continuity = [],
      we_risk_lens = Option.bind (wk_latest_proposal_result s) (extract_risk_lens o wr_explanation)\<rparr>"

definition current_evaluation_hash :: "workspace_session \<Rightarrow> string option" where
  "current_evaluation_hash s = Option.bind (wk_latest_replay_evidence s) we_evaluation_request_hash"

definition version_matches :: "runtime \<Rightarrow> workspace_session \<Rightarrow> saved_version \<Rightarrow> bool" where
  "version_matches rt s v \<longleftrightarrow>
     we_draft_state_hash (wv_replay_evidence v) = build_draft_state_hash rt (wk_draft_state s)
     \<and> (current_evaluation_hash s = None
        \<or> we_evaluation_request_hash (wv_replay_evidence v) = current_evaluation_hash s)"

definition find_matching_saved_version :: "runtime \<Rightarrow> workspace_session \<Rightarrow> saved_version option" where
  "find_matching_saved_version rt s = find_first (version_matches rt s) (rev (wk_saved_versions s))"

definition build_workspace_handoff_replay_lineage ::
  "runtime \<Rightarrow> workspace_session \<Rightarrow> string \<Rightarrow> string \<Rightarrow> string \<Rightarrow> int \<Rightarrow> string \<Rightarrow> jobject" where
  "build_workspace_handoff_replay_lineage rt s handoff_by handoff_action proposal_id version_no now =
     [(''workspace_id'', JStr (wk_workspace_id s)),
      (''workspace_version_id'',
         jopt_str (map_option wv_workspace_version_id (find_matching_saved_version rt s))),
      (''draft_state_hash'', JStr (build_draft_state_hash rt (wk_draft_state s))),
      (''evaluation_request_hash'', jopt_str (current_evaluation_hash s)),
      (''handoff_action'', JStr handoff_action),
      (''handoff_at'', JStr now),
      (''handoff_by'', JStr handoff_by),
      (''proposal_id'', JStr proposal_id),
      (''proposal_version_no'', JInt version_no)]"

definition with_continuity :: "jobject \<Rightarrow> saved_version \<Rightarrow> saved_version" where
  "with_continuity lineage v =
     v\<lparr>wv_replay_evidence := (wv_replay_evidence v)\<lparr>we_continuity := lineage\<rparr>\<rparr>"

definition apply_workspace_handoff_replay_lineage ::
  "runtime \<Rightarrow> jobject \<Rightarrow> workspace_session \<Rightarrow> workspace_session" where
  "apply_workspace_handoff_replay_lineage rt lineage s =
     (let s1 = s\<lparr>wk_latest_replay_evidence :=
                 map_option (\<lambda>e. e\<lparr>we_continuity := lineage\<rparr>) (wk_latest_replay_evidence s)\<rparr>
      in case update_first (version_matches rt s1) (with_continuity lineage) (rev (wk_saved_versions s1)) of
           None \<Rightarrow> s1
         | Some vs \<Rightarrow> s1\<lparr>wk_saved_versions := rev vs\<rparr>)"

subsection \<open>Saved versions\<close>

definition build_saved_version_summary :: "saved_version \<Rightarrow> saved_version_summary" where
  "build_saved_version_summary v =
     \<lparr>vs_workspace_version_id = wv_workspace_version_id v, vs_version_number = wv_version_number v,
      vs_version_label = wv_version_label v, vs_saved_by = wv_saved_by v, vs_saved_at = wv_saved_at v\<rparr>"

definition refresh_saved_version_metadata :: "workspace_session \<Rightarrow> workspace_session" where
  "refresh_saved_version_metadata s =
     s\<lparr>wk_saved_version_count := length (wk_saved_versions s),
       wk_latest_saved_version := (if wk_saved_versions s = [] then None
         else Some (build_saved_version_summary (last (wk_saved_versions s))))\<rparr>"

definition find_saved_version :: "workspace_session \<Rightarrow> string \<Rightarrow> workspace_error + saved_version" where
  "find_saved_version s version_id =
     (case find_first (\<lambda>v. wv_workspace_version_id v = version_id) (wk_saved_versions s) of
        None \<Rightarrow> Inl (WE_SavedVersionLookup ''WORKSPACE_SAVED_VERSION_NOT_FOUND'')
      | Some v \<Rightarrow> Inr v)"

record save_request =
  sv_saved_by :: string
  sv_version_label :: "string option"

definition build_saved_workspace_version ::
  "runtime \<Rightarrow> workspace_session \<Rightarrow> save_request \<Rightarrow> string \<Rightarrow> string \<Rightarrow> saved_version" where
  "build_saved_workspace_version rt s q version_id saved_at =
     \<lparr>wv_workspace_version_id = version_id,
      wv_version_number = length (wk_saved_versions s) + 1,
      wv_version_label = sv_version_label q,
      wv_saved_by = sv_saved_by q,
      wv_saved_at = saved_at,
      wv_draft_state = wk_draft_state s,
      wv_evaluation_summary = wk_evaluation_summary s,
      wv_latest_proposal_result = wk_latest_proposal_result s,
      wv_replay_evidence = (case wk_latest_replay_evidence s of
          Some e \<Rightarrow> e | None \<Rightarrow> build_replay_evidence rt s None saved_at)\<rparr>"

definition apply_saved_workspace_version :: "saved_version \<Rightarrow> workspace_session \<Rightarrow> workspace_session" where
  "apply_saved_workspace_version v s =
     s\<lparr>wk_draft_state := wv_draft_state v,
       wk_evaluation_summary := wv_evaluation_summary v,
       wk_latest_proposal_result := wv_latest_proposal_result v,
       wk_latest_replay_evidence := Some (wv_replay_evidence v)\<rparr>"

subsection \<open>Comparison\<close>

record compare_diff =
  df_trade_count_delta :: int
  df_cash_flow_count_delta :: int
  df_options_changed :: bool
  df_reference_model_changed :: bool
  df_evaluation_status_changed :: bool

record compare_response =
  cr_workspace_id :: string
  cr_baseline_version :: saved_version
  cr_current_evaluation_summary :: "evaluation_summary option"
  cr_current_replay_evidence :: "replay_evidence option"
  cr_diff_summary :: compare_diff

text \<open>
  \<open>==\<close> on the option and reference models compares decimals by value, not by their text, so it
  is an argument.
\<close>

record model_equality =
  eq_options :: "jobject \<Rightarrow> jobject \<Rightarrow> bool"
  eq_reference :: "request_reference_model option \<Rightarrow> request_reference_model option \<Rightarrow> bool"

definition build_workspace_compare_response ::
  "model_equality \<Rightarrow> workspace_session \<Rightarrow> saved_version \<Rightarrow> compare_response" where
  "build_workspace_compare_response eq s v =
     \<lparr>cr_workspace_id = wk_workspace_id s,
      cr_baseline_version = v,
      cr_current_evaluation_summary = wk_evaluation_summary s,
      cr_current_replay_evidence = wk_latest_replay_evidence s,
      cr_diff_summary =
        \<lparr>df_trade_count_delta = int (length (ds_trade_drafts (wk_draft_state s)))
             - int (length (ds_trade_drafts (wv_draft_state v))),
         df_cash_flow_count_delta = int (length (ds_cash_flow_drafts (wk_draft_state s)))
             - int (length (ds_cash_flow_drafts (wv_draft_state v))),
         df_options_changed =
           (\<not> eq_options eq (ds_options (wk_draft_state s)) (ds_options (wv_draft_state v))),
         df_reference_model_changed =
           (\<not> eq_reference eq (ds_reference_model (wk_draft_state s)) (ds_reference_model (wv_draft_state v))),
         df_evaluation_status_changed =
           (map_option es_status (wk_evaluation_summary s)
              \<noteq> map_option es_status (wv_evaluation_summary v))\<rparr>\<rparr>"

end
