(* ===== verification/Workspace_Sessions.thy ===== *)
theory Workspace_Sessions
  imports Canonical Workspace_Versions
begin

text \<open>
  The sensitive-detail screen, and the session cache with the operations on one session.
\<close>

section \<open>Sensitive details\<close>

text \<open>
  The screen every service puts between an exception's text and the caller
  (\<open>core/common/sensitive_error_details.py\<close>): a detail that holds a sensitive fragment, or
  looks like a logged trace or correlation id, is replaced by a fixed code.  The two regular
  expressions are written out as the searches they denote, for Latin-1 text.
\<close>

subsection \<open>Text\<close>

text \<open>\<open>p in s\<close> for strings.\<close>

fun py_in :: "string \<Rightarrow> string \<Rightarrow> bool" where
  "py_in p [] = (p = [])"
| "py_in p (c # s) = (take (length p) (c # s) = p \<or> py_in p s)"

text \<open>The word characters of \<open>re\<close>: \<open>str.isalnum\<close> on Latin-1, and the underscore.\<close>

definition py_word_char :: "char \<Rightarrow> bool" where
  "py_word_char c = (let n = (of_char c :: nat) in
     (48 \<le> n \<and> n \<le> 57) \<or> (65 \<le> n \<and> n \<le> 90) \<or> n = 95 \<or> (97 \<le> n \<and> n \<le> 122)
     \<or> n \<in> {170, 178, 179, 181, 185, 186, 188, 189, 190}
     \<or> (192 \<le> n \<and> n \<noteq> 215 \<and> n \<noteq> 247))"

subsection \<open>The patterns\<close>

definition after_prefix :: "string \<Rightarrow> string \<Rightarrow> string option" where
  "after_prefix p s = (if take (length p) s = p then Some (drop (length p) s) else None)"

text \<open>\<open>[-_ ]?id\s*[:=]\s*\S+\<close>\<close>

definition id_assignment :: "string \<Rightarrow> bool" where
  "id_assignment s =
     (let s = (case s of c # r \<Rightarrow> if c \<in> set ''-_ '' then r else s | [] \<Rightarrow> [])
      in case after_prefix ''id'' s of
           None \<Rightarrow> False
         | Some r \<Rightarrow> (case dropWhile py_is_space r of
               [] \<Rightarrow> False
             | c # r \<Rightarrow> c \<in> set '':='' \<and> dropWhile py_is_space r \<noteq> []))"

text \<open>
  \<open>\b<name>[-_ ]?id\s*[:=]\s*\S+\<close> at some position; \<open>boundary\<close> says whether the character
  before the position is not a word character.
\<close>

fun id_pattern_from :: "string \<Rightarrow> bool \<Rightarrow> string \<Rightarrow> bool" where
  "id_pattern_from name boundary [] = False"
| "id_pattern_from name boundary (c # s) =
     ((boundary \<and> (case after_prefix name (c # s) of None \<Rightarrow> False | Some r \<Rightarrow> id_assignment r))
      \<or> id_pattern_from name (\<not> py_word_char c) s)"

definition id_pattern :: "string \<Rightarrow> string \<Rightarrow> bool" where
  "id_pattern name s = id_pattern_from name True (py_lower s)"

definition SENSITIVE_ERROR_DETAIL_PATTERNS :: "(string \<Rightarrow> bool) list" where
  "SENSITIVE_ERROR_DETAIL_PATTERNS = [id_pattern ''trace'', id_pattern ''correlation'']"

subsection \<open>The screen\<close>

definition SENSITIVE_ERROR_DETAIL_FRAGMENTS :: "string list" where
  "SENSITIVE_ERROR_DETAIL_FRAGMENTS =
     [''authorization'', ''bearer '', ''cookie'', ''credential'', ''password'', ''secret'',
      ''token'', ''api_key'', ''apikey'', ''raw prompt'', ''raw payload'', ''raw source'',
      ''provider response'', ''provider output'']"

definition spaced :: "string \<Rightarrow> string" where
  "spaced s = map (\<lambda>c. if c \<in> set ''-_'' then CHR '' '' else c) s"

definition contains_sensitive_error_detail :: "string \<Rightarrow> bool" where
  "contains_sensitive_error_detail error_detail =
     (let normalized = spaced (py_lower error_detail) in
      list_ex (\<lambda>pattern. pattern error_detail) SENSITIVE_ERROR_DETAIL_PATTERNS
      \<or> list_ex (\<lambda>fragment. py_in (spaced fragment) normalized) SENSITIVE_ERROR_DETAIL_FRAGMENTS)"

subsection \<open>Facts\<close>

lemma py_in_append: "py_in p (a @ p @ b)"
proof (induction a)
  case Nil
  have "take (length p) (p @ b) = p" by simp
  then show ?case by (cases "p @ b") auto
qed simp

lemma py_in_iff: "py_in p s \<longleftrightarrow> (\<exists>a b. s = a @ p @ b)"
proof
  show "py_in p s \<Longrightarrow> \<exists>a b. s = a @ p @ b"
  proof (induction s)
    case (Cons c s)
    show ?case
    proof (cases "take (length p) (c # s) = p")
      case True
      then have "c # s = [] @ p @ drop (length p) (c # s)" by (metis append.left_neutral append_take_drop_id)
      then show ?thesis by blast
    next
      case False
      with Cons obtain a b where "s = a @ p @ b" by auto
      then have "c # s = (c # a) @ p @ b" by simp
      then show ?thesis by blast
    qed
  qed auto
qed (auto intro: py_in_append)

text \<open>Case, hyphens and underscores do not hide a fragment.\<close>

lemma fragment_found:
  assumes "fragment \<in> set SENSITIVE_ERROR_DETAIL_FRAGMENTS"
    and "spaced (py_lower detail) = a @ spaced fragment @ b"
  shows "contains_sensitive_error_detail detail"
  using assms py_in_iff [of "spaced fragment" "spaced (py_lower detail)"]
  by (auto simp: contains_sensitive_error_detail_def list_ex_iff Let_def)

section \<open>Sessions\<close>

text \<open>
  The session cache and the operations on one session: \<open>infrastructure/workspace/in_memory.py\<close>,
  \<open>session_cache_limits.py\<close>, \<open>lotus_core_context.py\<close>, \<open>workspace/reevaluation.py\<close>,
  \<open>context_resolution.py\<close>, \<open>evaluator.py\<close> and \<open>application.py\<close>.

  \<open>get\<close> returns the stored session itself, so what an operation assigns before it fails stays in
  the cache: the operations below return the session as they leave it with every error, and
  \<open>write_through\<close> stores it.
\<close>

subsection \<open>The session cache\<close>

text \<open>An \<open>OrderedDict\<close>, oldest save first.\<close>

record session_cache =
  sk_max_size :: int
  sk_sessions :: "(string, workspace_session) dict"

definition validate_workspace_session_cache_size :: "json \<Rightarrow> workspace_error + int" where
  "validate_workspace_session_cache_size max_size = (case max_size of
      JInt n \<Rightarrow> if n < 1 then Inl (WE_Value ''WORKSPACE_SESSION_CACHE_SIZE_INVALID'') else Inr n
    | _ \<Rightarrow> Inl (WE_Value ''WORKSPACE_SESSION_CACHE_SIZE_INVALID''))"

definition new_session_cache :: "json \<Rightarrow> workspace_error + session_cache" where
  "new_session_cache max_size = bind_error (validate_workspace_session_cache_size max_size)
     (\<lambda>n. Inr \<lparr>sk_max_size = n, sk_sessions = []\<rparr>)"

fun evict_over_capacity :: "int \<Rightarrow> 'a list \<Rightarrow> 'a list" where
  "evict_over_capacity max_size [] = []"
| "evict_over_capacity max_size (x # xs) =
     (if max_size < int (length (x # xs)) then evict_over_capacity max_size xs else x # xs)"

definition save_session :: "workspace_session \<Rightarrow> session_cache \<Rightarrow> session_cache" where
  "save_session s c = c\<lparr>sk_sessions := evict_over_capacity (sk_max_size c)
     (filter (\<lambda>kv. fst kv \<noteq> wk_workspace_id s) (sk_sessions c) @ [(wk_workspace_id s, s)])\<rparr>"

definition resize_session_cache :: "json \<Rightarrow> session_cache \<Rightarrow> workspace_error + session_cache" where
  "resize_session_cache max_size c = bind_error (validate_workspace_session_cache_size max_size)
     (\<lambda>n. Inr (c\<lparr>sk_max_size := n, sk_sessions := evict_over_capacity n (sk_sessions c)\<rparr>))"

definition get_session :: "string \<Rightarrow> session_cache \<Rightarrow> workspace_error + workspace_session" where
  "get_session workspace_id c = (case dict_get (sk_sessions c) workspace_id of
      None \<Rightarrow> Inl (WE_NotFound ''WORKSPACE_NOT_FOUND'') | Some s \<Rightarrow> Inr s)"

definition reset_sessions :: "session_cache \<Rightarrow> session_cache" where
  "reset_sessions c = c\<lparr>sk_sessions := []\<rparr>"

text \<open>The session object in the cache has been assigned to; its place in the order is unchanged.\<close>

definition write_through :: "workspace_session \<Rightarrow> session_cache \<Rightarrow> session_cache" where
  "write_through s c = c\<lparr>sk_sessions := dict_set (wk_workspace_id s) s (sk_sessions c)\<rparr>"

subsection \<open>The simulate request of a session\<close>

text \<open>
  The portfolio service (\<open>resolve_lotus_core_advisory_context\<close>, \<open>enrich_stateful_\<dots>\<close>), the
  advisory evaluation (\<open>evaluate_advisory_proposal\<close>) and Pydantic's default options are arguments.
\<close>

record evaluation_call =
  ec_simulate_request :: simulate_request
  ec_request_hash :: string
  ec_correlation_id :: string
  ec_resolved_as_of :: "string option"
  ec_input_mode :: input_mode
  ec_requested_as_of_date :: "string option"
  ec_requested_reporting_currency :: "string option"
  ec_policy_context :: jobject

record workspace_services =
  wx_resolve :: "stateful_input \<Rightarrow> error + (simulate_request \<times> resolved_context)"
  wx_enrich :: "simulate_request \<Rightarrow> string \<Rightarrow> error + simulate_request"
  wx_evaluate :: "evaluation_call \<Rightarrow> error + workspace_result"
  wx_lax :: lax_coercion
  wx_default_options :: jobject

text \<open>\<open>LotusCoreContextResolutionError\<close> and its subclass.\<close>

definition is_context_resolution_error :: "error \<Rightarrow> bool" where
  "is_context_resolution_error e = (case e of
      OtherException cls m \<Rightarrow> cls \<in> {''LotusCoreContextResolutionError'',
        ''LotusCoreStatefulContextUnavailableError''}
    | _ \<Rightarrow> False)"

definition context_as_of :: "resolved_context \<Rightarrow> workspace_error + string" where
  "context_as_of c = (case rc_as_of c of
      None \<Rightarrow> Inl (WE_EvaluationUnavailable ''WORKSPACE_STATEFUL_CONTEXT_AS_OF_MISSING'')
    | Some d \<Rightarrow> Inr d)"

definition build_simulate_request ::
  "workspace_services \<Rightarrow> workspace_session \<Rightarrow> (workspace_error + simulate_request) \<times> workspace_session" where
  "build_simulate_request wx s = (case wk_input_mode s of
      IM_STATEFUL \<Rightarrow> (case wk_stateful_input s of
          None \<Rightarrow> (Inl (WE_EvaluationUnavailable ''WORKSPACE_STATEFUL_INPUT_MISSING''), s)
        | Some i \<Rightarrow> (case wx_resolve wx i of
            Inl e \<Rightarrow> (Inl (if is_context_resolution_error e
                then WE_EvaluationUnavailable ''WORKSPACE_STATEFUL_CONTEXT_RESOLUTION_UNAVAILABLE''
                else WE_Other e), s)
          | Inr (base, c) \<Rightarrow>
              (bind_error (context_as_of c) (\<lambda>as_of. lift_error WE_Other
                 (wx_enrich wx (apply_workspace_draft_state base (wk_draft_state s)) as_of)),
               s\<lparr>wk_resolved_context := Some c\<rparr>)))
    | IM_STATELESS \<Rightarrow> (case wk_stateless_input s of
          None \<Rightarrow> (Inl (WE_EvaluationUnavailable ''WORKSPACE_STATELESS_INPUT_MISSING''), s)
        | Some base \<Rightarrow> (Inr (apply_workspace_draft_state base (wk_draft_state s)), s)))"

definition fallback_context :: "stateful_input \<Rightarrow> resolved_context" where
  "fallback_context i = \<lparr>rc_portfolio_id = si_portfolio_id i, rc_as_of = Some (si_as_of i),
     rc_requested_as_of = None, rc_requested_reporting_currency = None,
     rc_portfolio_snapshot_id = None, rc_market_data_snapshot_id = None,
     rc_risk_context_id = None, rc_reporting_context_id = None,
     rc_source_provenance = None, rc_source_completeness = None\<rparr>"

record draft_ids =
  di_trade :: "nat \<Rightarrow> string"
  di_cash_flow :: "nat \<Rightarrow> string"

definition build_initial_context ::
  "workspace_services \<Rightarrow> draft_ids \<Rightarrow> session_create_request
     \<Rightarrow> workspace_error + (resolved_context \<times> draft_state)" where
  "build_initial_context wx ids q = (case ws_input_mode q of
      IM_STATELESS \<Rightarrow> (case ws_stateless_input q of
          None \<Rightarrow> Inl (WE_Value ''stateless workspace creation requires stateless_input'')
        | Some sim \<Rightarrow> Inr (build_stateless_workspace_resolved_context sim,
            build_draft_state_from_simulate_request (di_trade ids) (di_cash_flow ids) sim))
    | IM_STATEFUL \<Rightarrow> (case ws_stateful_input q of
          None \<Rightarrow> Inl (WE_Value ''stateful workspace creation requires stateful_input'')
        | Some i \<Rightarrow> (case wx_resolve wx i of
            Inl e \<Rightarrow> if is_context_resolution_error e
              then Inr (fallback_context i, empty_draft_state (wx_default_options wx))
              else Inl (WE_Other e)
          | Inr (sim, c) \<Rightarrow> Inr (c,
              build_draft_state_from_simulate_request (di_trade ids) (di_cash_flow ids) sim))))"

subsection \<open>Evaluation\<close>

definition safe_workspace_error_detail :: "string \<Rightarrow> string \<Rightarrow> string" where
  "safe_workspace_error_detail detail fallback =
     (if contains_sensitive_error_detail detail then fallback else detail)"

text \<open>\<open>model_validate\<close> of the dumped context raises Pydantic's \<open>ValidationError\<close>, a \<open>ValueError\<close>.\<close>

definition build_workspace_proposal_context ::
  "lax_coercion \<Rightarrow> resolved_context \<Rightarrow> stateful_input option \<Rightarrow> workspace_error + resolved_context" where
  "build_workspace_proposal_context lx c i =
     (case validate_resolved_context lx (dump_resolved_context c) of
        None \<Rightarrow> Inl (WE_Value ''validation error for ProposalResolvedContext'')
      | Some c' \<Rightarrow> Inr (c'\<lparr>rc_requested_as_of := map_option si_as_of i,
          rc_requested_reporting_currency := Option.bind i si_reporting_currency\<rparr>))"

definition resolution_source_of :: "input_mode \<Rightarrow> string" where
  "resolution_source_of m = (if m = IM_STATEFUL then ''LOTUS_CORE'' else ''DIRECT_REQUEST'')"

definition build_workspace_evaluation_context ::
  "lax_coercion \<Rightarrow> workspace_session \<Rightarrow> simulate_request \<Rightarrow> workspace_error + resolved_simulation" where
  "build_workspace_evaluation_context lx s sim = (case wk_resolved_context s of
      None \<Rightarrow> Inl (WE_ReevaluationContext ''WORKSPACE_RESOLVED_CONTEXT_MISSING'')
    | Some c \<Rightarrow>
        bind_error (build_workspace_proposal_context lx c (wk_stateful_input s)) (\<lambda>c'.
        Inr \<lparr>rv_input_mode = wk_input_mode s,
             rv_resolution_source = resolution_source_of (wk_input_mode s),
             rv_simulate_request = sim,
             rv_resolved_context = c',
             rv_policy_selectors =
               \<lparr>sl_household_id = Option.bind (wk_stateful_input s) si_household_id,
                sl_mandate_id = Option.bind (wk_stateful_input s) si_mandate_id,
                sl_jurisdiction = None, sl_legal_entity_code = None,
                sl_benchmark_id = Option.bind (wk_stateful_input s) si_benchmark_id\<rparr>,
             rv_used_legacy_contract = False\<rparr>))"

definition evaluation_call_of :: "runtime \<Rightarrow> string \<Rightarrow> resolved_simulation \<Rightarrow> evaluation_call" where
  "evaluation_call_of rt uuid_hex r =
     \<lparr>ec_simulate_request = rv_simulate_request r,
      ec_request_hash = build_simulation_request_hash rt r,
      ec_correlation_id = resolve_correlation_id uuid_hex None,
      ec_resolved_as_of = rc_as_of (rv_resolved_context r),
      ec_input_mode = rv_input_mode r,
      ec_requested_as_of_date = rc_requested_as_of (rv_resolved_context r),
      ec_requested_reporting_currency = rc_requested_reporting_currency (rv_resolved_context r),
      ec_policy_context = build_advisory_policy_context (input_mode_str (rv_input_mode r)) (rv_resolution_source r)
        (rv_policy_selectors r)\<rparr>"

definition reevaluation_error :: "workspace_error \<Rightarrow> workspace_error" where
  "reevaluation_error e = (case e of
      WE_ReevaluationContext m \<Rightarrow> WE_EvaluationUnavailable
        (safe_workspace_error_detail m ''WORKSPACE_EVALUATION_UNAVAILABLE'')
    | _ \<Rightarrow> e)"

text \<open>
  \<open>CoreWorkspaceProposalEvaluator.evaluate\<close> and the three assignments of \<open>reevaluate_session\<close>: the
  evaluator assigns the result before it builds the evidence from the session.
\<close>

definition evaluate_workspace ::
  "runtime \<Rightarrow> workspace_services \<Rightarrow> string \<Rightarrow> string \<Rightarrow> simulate_request \<Rightarrow> workspace_session
     \<Rightarrow> workspace_error + workspace_session" where
  "evaluate_workspace rt wx uuid_hex now sim s =
     bind_error (lift_error reevaluation_error (build_workspace_evaluation_context (wx_lax wx) s sim)) (\<lambda>r.
     bind_error (lift_error WE_Other (wx_evaluate wx (evaluation_call_of rt uuid_hex r))) (\<lambda>res.
     (let res' = res\<lparr>wr_explanation := dict_set ''context_resolution''
                      (JObj (build_context_resolution_evidence r)) (wr_explanation res)\<rparr>;
          s1 = s\<lparr>wk_latest_proposal_result := Some res'\<rparr>
      in Inr (s1\<lparr>wk_evaluation_summary := Some (build_evaluation_summary res' (wk_draft_state s)),
                 wk_latest_replay_evidence := Some (build_replay_evidence rt s1
                   (Some (build_simulation_request_hash rt r)) now)\<rparr>))))"

subsection \<open>The application service\<close>

text \<open>What one call reads from the clock and the id factories.\<close>

record call_inputs =
  ci_now :: string
  ci_new_id :: string
  ci_uuid_hex :: string
  ci_draft_ids :: draft_ids

definition create_session ::
  "workspace_services \<Rightarrow> call_inputs \<Rightarrow> session_create_request \<Rightarrow> session_cache
     \<Rightarrow> (workspace_error + workspace_session) \<times> session_cache" where
  "create_session wx ci q c =
     (case bind_error (build_initial_context wx (ci_draft_ids ci) q) (\<lambda>(context, d).
             build_workspace_session q (ci_new_id ci) (ci_now ci) d context) of
        Inl e \<Rightarrow> (Inl e, c)
      | Inr s \<Rightarrow> (Inr s, save_session s c))"

definition reevaluate_session ::
  "runtime \<Rightarrow> workspace_services \<Rightarrow> call_inputs \<Rightarrow> string \<Rightarrow> session_cache
     \<Rightarrow> (workspace_error + workspace_session) \<times> session_cache" where
  "reevaluate_session rt wx ci workspace_id c = (case get_session workspace_id c of
      Inl e \<Rightarrow> (Inl e, c)
    | Inr s \<Rightarrow>
       (let (request, s1) = build_simulate_request wx s in
        case bind_error request (\<lambda>sim. evaluate_workspace rt wx (ci_uuid_hex ci) (ci_now ci) sim s1) of
          Inl e \<Rightarrow> (Inl e, write_through s1 c)
        | Inr s2 \<Rightarrow> (Inr s2, save_session s2 (write_through s1 c))))"

definition draft_action_error :: "workspace_error \<Rightarrow> workspace_error" where
  "draft_action_error e = (case e of WE_DraftAction m \<Rightarrow> WE_NotFound m | _ \<Rightarrow> e)"

definition apply_draft_action ::
  "runtime \<Rightarrow> workspace_services \<Rightarrow> call_inputs \<Rightarrow> string \<Rightarrow> draft_action_request \<Rightarrow> session_cache
     \<Rightarrow> (workspace_error + workspace_session) \<times> session_cache" where
  "apply_draft_action rt wx ci workspace_id q c = (case get_session workspace_id c of
      Inl e \<Rightarrow> (Inl e, c)
    | Inr s \<Rightarrow> (case lift_error draft_action_error
          (apply_workspace_draft_action_to_state (ci_new_id ci) q (wk_draft_state s)) of
        Inl e \<Rightarrow> (Inl e, c)
      | Inr d \<Rightarrow> reevaluate_session rt wx ci workspace_id (save_session (s\<lparr>wk_draft_state := d\<rparr>) c)))"

definition save_version ::
  "runtime \<Rightarrow> call_inputs \<Rightarrow> string \<Rightarrow> save_request \<Rightarrow> session_cache
     \<Rightarrow> (workspace_error + (workspace_session \<times> saved_version)) \<times> session_cache" where
  "save_version rt ci workspace_id q c = (case get_session workspace_id c of
      Inl e \<Rightarrow> (Inl e, c)
    | Inr s \<Rightarrow>
       (let v = build_saved_workspace_version rt s q (ci_new_id ci) (ci_now ci);
            s' = refresh_saved_version_metadata (s\<lparr>wk_saved_versions := wk_saved_versions s @ [v]\<rparr>)
        in (Inr (s', v), save_session s' c)))"

definition list_saved_versions ::
  "string \<Rightarrow> session_cache \<Rightarrow> workspace_error + (string \<times> saved_version list)" where
  "list_saved_versions workspace_id c =
     bind_error (get_session workspace_id c) (\<lambda>s. Inr (wk_workspace_id s, wk_saved_versions s))"

definition lookup_saved_version :: "workspace_session \<Rightarrow> string \<Rightarrow> workspace_error + saved_version" where
  "lookup_saved_version s version_id = lift_error
     (\<lambda>e. case e of WE_SavedVersionLookup m \<Rightarrow> WE_SavedVersionNotFound ''WORKSPACE_SAVED_VERSION_NOT_FOUND''
                  | _ \<Rightarrow> e)
     (find_saved_version s version_id)"

definition resume_version ::
  "string \<Rightarrow> string \<Rightarrow> session_cache \<Rightarrow> (workspace_error + workspace_session) \<times> session_cache" where
  "resume_version workspace_id version_id c =
     (case bind_error (get_session workspace_id c) (\<lambda>s.
             bind_error (lookup_saved_version s version_id) (\<lambda>v.
             Inr (apply_saved_workspace_version v s))) of
        Inl e \<Rightarrow> (Inl e, c)
      | Inr s' \<Rightarrow> (Inr s', save_session s' c))"

definition compare_to_saved_version ::
  "model_equality \<Rightarrow> string \<Rightarrow> string \<Rightarrow> session_cache \<Rightarrow> workspace_error + compare_response" where
  "compare_to_saved_version eq workspace_id version_id c =
     bind_error (get_session workspace_id c) (\<lambda>s.
     bind_error (lookup_saved_version s version_id) (\<lambda>v.
     Inr (build_workspace_compare_response eq s v)))"

end
