(* ===== verification/Workspace_Handoff.thy ===== *)
theory Workspace_Handoff
  imports Workspace_Sessions
begin

text \<open>
  Handing a workspace over to the proposal lifecycle: \<open>workspace/handoff.py\<close>,
  \<open>handoff_models.py\<close>, \<open>handoff_errors.py\<close>, \<open>handoff_idempotency.py\<close> and
  \<open>WorkspaceApplicationService.handoff_to_proposal_lifecycle\<close>.  The lifecycle port is the proposal
  service itself: the create and version commands of \<open>Versions\<close> on the proposal repository.
\<close>

subsection \<open>Requests\<close>

record workspace_handoff_request =
  hq_handoff_by :: string
  hq_metadata :: create_metadata

definition build_handoff_metadata :: "workspace_handoff_request \<Rightarrow> workspace_session \<Rightarrow> create_metadata" where
  "build_handoff_metadata q s =
     \<lparr>md_title = (case md_title (hq_metadata q) of
          Some (c # cs) \<Rightarrow> Some (c # cs) | _ \<Rightarrow> Some (wk_workspace_name s)),
      md_advisor_notes = md_advisor_notes (hq_metadata q),
      md_jurisdiction = md_jurisdiction (hq_metadata q),
      md_mandate_id = (case md_mandate_id (hq_metadata q) of
          Some m \<Rightarrow> Some m | None \<Rightarrow> Option.bind (wk_stateful_input s) si_mandate_id)\<rparr>"

definition build_workspace_handoff_context_resolution ::
  "lax_coercion \<Rightarrow> workspace_session \<Rightarrow> simulate_request \<Rightarrow> create_metadata
     \<Rightarrow> workspace_error + jobject" where
  "build_workspace_handoff_context_resolution lx s sim m = (case wk_resolved_context s of
      None \<Rightarrow> Inl (WE_Handoff ''WORKSPACE_RESOLVED_CONTEXT_MISSING'')
    | Some c \<Rightarrow>
        bind_error (build_workspace_proposal_context lx c (wk_stateful_input s)) (\<lambda>c'.
        Inr (build_context_resolution_evidence
          \<lparr>rv_input_mode = wk_input_mode s,
           rv_resolution_source = resolution_source_of (wk_input_mode s),
           rv_simulate_request = sim,
           rv_resolved_context = c',
           rv_policy_selectors =
             \<lparr>sl_household_id = Option.bind (wk_stateful_input s) si_household_id,
              sl_mandate_id = md_mandate_id m,
              sl_jurisdiction = md_jurisdiction m, sl_legal_entity_code = None,
              sl_benchmark_id = Option.bind (wk_stateful_input s) si_benchmark_id\<rparr>,
           rv_used_legacy_contract = False, rv_metadata = m\<rparr>)))"

definition require_handoff_simulate_request :: "simulate_request option \<Rightarrow> workspace_error + simulate_request" where
  "require_handoff_simulate_request q = (case q of
      None \<Rightarrow> Inl (WE_Handoff ''WORKSPACE_HANDOFF_SIMULATE_REQUEST_MISSING'') | Some x \<Rightarrow> Inr x)"

definition build_proposal_create_request ::
  "workspace_session \<Rightarrow> workspace_handoff_request \<Rightarrow> simulate_request \<Rightarrow> create_payload" where
  "build_proposal_create_request s q sim =
     \<lparr>cp_created_by = hq_handoff_by q, cp_input_mode = None, cp_simulate_request = Some sim,
      cp_stateless_input = None, cp_stateful_input = None, cp_metadata = build_handoff_metadata q s\<rparr>"

definition build_proposal_version_request ::
  "workspace_session \<Rightarrow> workspace_handoff_request \<Rightarrow> simulate_request \<Rightarrow> version_payload" where
  "build_proposal_version_request s q sim =
     \<lparr>vp_created_by = hq_handoff_by q,
      vp_expected_current_version_no = map_option ln_current_version_no (wk_lifecycle_link s),
      vp_input_mode = None, vp_simulate_request = Some sim,
      vp_stateless_input = None, vp_stateful_input = None\<rparr>"

subsection \<open>Errors\<close>

text \<open>\<open>ValueError\<close> and its subclasses among the exceptions of the proposal service.\<close>

definition is_value_error :: "error \<Rightarrow> bool" where
  "is_value_error e = (case e of
      ValueError m \<Rightarrow> True | ExpectedStateError m \<Rightarrow> True | ReplayHashConflictError m \<Rightarrow> True
    | SimulationGateError m \<Rightarrow> True | LifecycleOriginError m \<Rightarrow> True | WorkflowRuleError m \<Rightarrow> True
    | NarrativeReviewError m \<Rightarrow> True | _ \<Rightarrow> False)"

definition handoff_unavailable :: "string \<Rightarrow> workspace_error" where
  "handoff_unavailable m = WE_HandoffUnavailable
     (safe_workspace_error_detail m ''WORKSPACE_LIFECYCLE_HANDOFF_UNAVAILABLE'')"

definition handoff_operation_error :: "workspace_error \<Rightarrow> workspace_error" where
  "handoff_operation_error e = (case e of
      WE_Value m \<Rightarrow> handoff_unavailable m
    | WE_EvaluationUnavailable m \<Rightarrow> handoff_unavailable m
    | WE_Handoff m \<Rightarrow> handoff_unavailable m
    | WE_Other e' \<Rightarrow> if is_value_error e' then handoff_unavailable (error_message e') else e
    | _ \<Rightarrow> e)"

definition normalize_workspace_handoff_idempotency_key :: "string option \<Rightarrow> workspace_error + string" where
  "normalize_workspace_handoff_idempotency_key key = lift_error
     (\<lambda>e. WE_HandoffUnavailable ''WORKSPACE_HANDOFF_IDEMPOTENCY_KEY_REQUIRED'')
     (normalize_required_idempotency_key key)"

subsection \<open>The lifecycle port\<close>

text \<open>
  \<open>ProposalWorkflowService.create_proposal\<close> and \<open>create_version\<close> with the options the service was
  built with; the commands receive the JSON form of the request.
\<close>

record proposal_service =
  pv_services :: creation_services
  pv_store_evidence_bundle :: bool
  pv_require_simulation_flag :: bool
  pv_allow_portfolio_change :: bool

record lifecycle_inputs =
  lf_now :: datetime
  lf_ids :: new_ids

definition port_create_proposal ::
  "runtime \<Rightarrow> proposal_service \<Rightarrow> lifecycle_inputs \<Rightarrow> create_payload \<Rightarrow> string \<Rightarrow> string option \<Rightarrow> string
     \<Rightarrow> jobject \<Rightarrow> jobject \<Rightarrow> repository \<Rightarrow> (error + create_response) \<times> repository" where
  "port_create_proposal rt ps lf q key cid workspace_id lineage override R =
     create_proposal_command rt (pv_services ps)
       \<lparr>cq_created_by = cp_created_by q, cq_content = dump_create_payload q\<rparr> key cid
       \<lparr>co_lifecycle_origin = LO_WORKSPACE_HANDOFF, co_source_workspace_id = Some workspace_id,
        co_replay_lineage = Some lineage, co_context_override = Some override,
        co_store_evidence_bundle = pv_store_evidence_bundle ps,
        co_require_simulation_flag = pv_require_simulation_flag ps\<rparr>
       (lf_now lf) (lf_ids lf) R"

definition dump_version_payload :: "version_payload \<Rightarrow> jobject" where
  "dump_version_payload q =
     [(''created_by'', JStr (vp_created_by q)),
      (''expected_current_version_no'', json_opt JInt (vp_expected_current_version_no q)),
      (''input_mode'', json_opt (JStr o input_mode_str) (vp_input_mode q)),
      (''simulate_request'', json_opt dump_simulate_request (vp_simulate_request q)),
      (''stateless_input'', json_opt dump_stateless_input (vp_stateless_input q)),
      (''stateful_input'', json_opt dump_proposal_stateful_input (vp_stateful_input q))]"

definition port_create_version ::
  "runtime \<Rightarrow> proposal_service \<Rightarrow> lifecycle_inputs \<Rightarrow> string \<Rightarrow> version_payload \<Rightarrow> string option
     \<Rightarrow> jobject \<Rightarrow> jobject \<Rightarrow> repository \<Rightarrow> (error + create_response) \<times> repository" where
  "port_create_version rt ps lf proposal_id q cid lineage override R =
     create_proposal_version rt (pv_services ps) proposal_id
       \<lparr>vq_created_by = vp_created_by q,
        vq_expected_current_version_no = vp_expected_current_version_no q,
        vq_content = dump_version_payload q\<rparr> cid
       \<lparr>vo_replay_lineage = Some lineage, vo_context_override = Some override,
        vo_store_evidence_bundle = pv_store_evidence_bundle ps,
        vo_require_simulation_flag = pv_require_simulation_flag ps,
        vo_allow_portfolio_change = pv_allow_portfolio_change ps\<rparr>
       (lf_now lf) (lf_ids lf) R"

subsection \<open>Handoff\<close>

datatype handoff_action = HA_CREATED_PROPOSAL | HA_CREATED_PROPOSAL_VERSION

primrec handoff_action_str :: "handoff_action \<Rightarrow> string" where
  "handoff_action_str HA_CREATED_PROPOSAL = ''CREATED_PROPOSAL''"
| "handoff_action_str HA_CREATED_PROPOSAL_VERSION = ''CREATED_PROPOSAL_VERSION''"

record workspace_handoff_response =
  hw_workspace :: workspace_session
  hw_handoff_action :: handoff_action
  hw_proposal :: create_response

record handoff_call =
  hc_request :: workspace_handoff_request
  hc_idempotency_key :: "string option"
  hc_correlation_id :: "string option"
  hc_lineage_at :: string
  hc_completed_at :: string

type_synonym execution = "create_response \<times> jobject \<times> handoff_action"

definition port_result ::
  "handoff_action \<Rightarrow> jobject \<Rightarrow> (error + create_response) \<times> repository
     \<Rightarrow> (workspace_error + execution) \<times> repository" where
  "port_result action lineage r =
     (lift_error WE_Other (bind_error (fst r) (\<lambda>response. Inr (response, lineage, action))), snd r)"

text \<open>
  The two branches of \<open>_execute\<close>; the session they return is the one \<open>build_simulate_request\<close>
  leaves.
\<close>

definition execute_create ::
  "runtime \<Rightarrow> workspace_services \<Rightarrow> proposal_service \<Rightarrow> lifecycle_inputs \<Rightarrow> string \<Rightarrow> handoff_call
     \<Rightarrow> workspace_session \<Rightarrow> repository
     \<Rightarrow> ((workspace_error + execution) \<times> repository) \<times> workspace_session" where
  "execute_create rt wx ps lf workspace_id h s R =
     (case normalize_workspace_handoff_idempotency_key (hc_idempotency_key h) of
        Inl e \<Rightarrow> ((Inl e, R), s)
      | Inr key \<Rightarrow>
       (let (request, s1) = build_simulate_request wx s in
        (case request of
           Inl e \<Rightarrow> (Inl e, R)
         | Inr sim \<Rightarrow>
            (let q = build_proposal_create_request s1 (hc_request h) sim;
                 lineage = build_workspace_handoff_replay_lineage rt s1 (hq_handoff_by (hc_request h))
                   (handoff_action_str HA_CREATED_PROPOSAL) [] 1 (hc_lineage_at h)
             in case bind_error (require_handoff_simulate_request (cp_simulate_request q)) (\<lambda>sim.
                       build_workspace_handoff_context_resolution (wx_lax wx) s1 sim (cp_metadata q)) of
                  Inl e \<Rightarrow> (Inl e, R)
                | Inr override \<Rightarrow> port_result HA_CREATED_PROPOSAL lineage
                    (port_create_proposal rt ps lf q key (hc_correlation_id h) workspace_id lineage
                       override R)), s1)))"

definition execute_version ::
  "runtime \<Rightarrow> workspace_services \<Rightarrow> proposal_service \<Rightarrow> lifecycle_inputs \<Rightarrow> lifecycle_link \<Rightarrow> handoff_call
     \<Rightarrow> workspace_session \<Rightarrow> repository
     \<Rightarrow> ((workspace_error + execution) \<times> repository) \<times> workspace_session" where
  "execute_version rt wx ps lf link h s R =
     (let (request, s1) = build_simulate_request wx s in
      (case request of
         Inl e \<Rightarrow> (Inl e, R)
       | Inr sim \<Rightarrow>
          (let q = build_proposal_version_request s1 (hc_request h) sim;
               lineage = build_workspace_handoff_replay_lineage rt s1 (hq_handoff_by (hc_request h))
                 (handoff_action_str HA_CREATED_PROPOSAL_VERSION) (ln_proposal_id link)
                 (ln_current_version_no link + 1) (hc_lineage_at h)
           in case bind_error (require_handoff_simulate_request (vp_simulate_request q)) (\<lambda>sim.
                     build_workspace_handoff_context_resolution (wx_lax wx) s1 sim empty_metadata) of
                Inl e \<Rightarrow> (Inl e, R)
              | Inr override \<Rightarrow> port_result HA_CREATED_PROPOSAL_VERSION lineage
                  (port_create_version rt ps lf (ln_proposal_id link) q (hc_correlation_id h) lineage
                     override R)), s1))"

definition complete_workspace_lifecycle_handoff ::
  "runtime \<Rightarrow> handoff_call \<Rightarrow> execution \<Rightarrow> workspace_session \<Rightarrow> workspace_session" where
  "complete_workspace_lifecycle_handoff rt h x s =
     (let (response, lineage, action) = x;
          pid = ps_proposal_id (cr_proposal response);
          n = vd_version_no (cr_version response);
          lineage = dict_set ''proposal_version_no'' (JInt n) (dict_set ''proposal_id'' (JStr pid) lineage)
      in (apply_workspace_handoff_replay_lineage rt lineage s)\<lparr>wk_lifecycle_link := Some
           \<lparr>ln_proposal_id = pid, ln_current_version_no = n,
            ln_last_handoff_at = hc_completed_at h,
            ln_last_handoff_by = hq_handoff_by (hc_request h)\<rparr>\<rparr>)"

definition handoff_to_proposal_lifecycle ::
  "runtime \<Rightarrow> workspace_services \<Rightarrow> proposal_service \<Rightarrow> lifecycle_inputs \<Rightarrow> string \<Rightarrow> handoff_call
     \<Rightarrow> session_cache \<Rightarrow> repository
     \<Rightarrow> (workspace_error + workspace_handoff_response) \<times> session_cache \<times> repository" where
  "handoff_to_proposal_lifecycle rt wx ps lf workspace_id h c R = (case get_session workspace_id c of
      Inl e \<Rightarrow> (Inl e, c, R)
    | Inr s \<Rightarrow>
       (let ((executed, R'), s1) = (case wk_lifecycle_link s of
                None \<Rightarrow> execute_create rt wx ps lf workspace_id h s R
              | Some link \<Rightarrow> execute_version rt wx ps lf link h s R)
        in case lift_error handoff_operation_error executed of
             Inl e \<Rightarrow> (Inl e, write_through s1 c, R')
           | Inr x \<Rightarrow>
              (let s2 = complete_workspace_lifecycle_handoff rt h x s1
               in (Inr \<lparr>hw_workspace = s2, hw_handoff_action = snd (snd x), hw_proposal = fst x\<rparr>,
                   save_session s2 (write_through s1 c), R'))))"

end
