(* ===== verification/Workspace_Facts.thy ===== *)
theory Workspace_Facts
  imports Workspace_Handoff Command_Retries
begin

text \<open>
  What the operations on drafts, sessions and the session cache guarantee: the draft as two keyed
  lists, the cache as the sessions saved last, and the part of a session each operation leaves
  alone.
\<close>

subsection \<open>Drafts\<close>

definition trade_dict :: "draft_state \<Rightarrow> (string, jobject) dict" where
  "trade_dict d = map (\<lambda>t. (td_workspace_trade_id t, td_trade t)) (ds_trade_drafts d)"

definition cash_flow_dict :: "draft_state \<Rightarrow> (string, jobject) dict" where
  "cash_flow_dict d = map (\<lambda>c. (cd_workspace_cash_flow_id c, cd_cash_flow c)) (ds_cash_flow_drafts d)"

definition draft_ok :: "draft_state \<Rightarrow> bool" where
  "draft_ok d \<longleftrightarrow> dict_wf (trade_dict d) \<and> dict_wf (cash_flow_dict d)"

lemma trade_ids: "map fst (trade_dict d) = map td_workspace_trade_id (ds_trade_drafts d)"
  by (simp add: trade_dict_def comp_def)

lemma cash_flow_ids: "map fst (cash_flow_dict d) = map cd_workspace_cash_flow_id (ds_cash_flow_drafts d)"
  by (simp add: cash_flow_dict_def comp_def)

lemma update_first_keyed:
  assumes "\<And>x. key (f x) = key x" and "\<And>x. val (f x) = v"
    and "update_first (\<lambda>x. key x = k) f xs = Some ys"
  shows "map (\<lambda>x. (key x, val x)) ys = dict_set k v (map (\<lambda>x. (key x, val x)) xs)"
  using assms(3)
proof (induction xs arbitrary: ys)
  case (Cons x xs)
  then show ?case
    by (cases "key x = k") (auto simp: assms(1,2))
qed simp

lemma update_first_None_iff: "update_first P f xs = None \<longleftrightarrow> \<not> list_ex P xs"
  by (induction xs) auto

lemma update_first_length: "update_first P f xs = Some ys \<Longrightarrow> length ys = length xs"
  by (induction xs arbitrary: ys) (auto split: if_splits)

lemma remove_matching_keyed:
  assumes "remove_matching (\<lambda>x. key x = k) xs = Some ys"
  shows "map (\<lambda>x. (key x, val x)) ys = AList.delete k (map (\<lambda>x. (key x, val x)) xs)"
    and "k \<in> key ` set xs"
proof -
  have ys: "ys = filter (\<lambda>x. key x \<noteq> k) xs" and len: "length ys \<noteq> length xs"
    using assms by (auto simp: remove_matching_def Let_def split: if_splits)
  show "map (\<lambda>x. (key x, val x)) ys = AList.delete k (map (\<lambda>x. (key x, val x)) xs)"
    unfolding ys by (induction xs) (auto simp: AList.delete_eq)
  show "k \<in> key ` set xs"
  proof (rule ccontr)
    assume "k \<notin> key ` set xs"
    then have "\<forall>x\<in>set xs. key x \<noteq> k" by auto
    then have "ys = xs" unfolding ys by (simp add: filter_id_conv)
    with len show False by simp
  qed
qed

lemma remove_matching_None_iff: "remove_matching P xs = None \<longleftrightarrow> \<not> list_ex P xs"
proof -
  have "length (filter (\<lambda>x. \<not> P x) xs) = length xs \<longleftrightarrow> (\<forall>x\<in>set xs. \<not> P x)"
    by (metis filter_True length_filter_less less_irrefl)
  then show ?thesis by (auto simp: remove_matching_def Let_def list_ex_iff)
qed

lemma dict_set_fresh: "k \<notin> fst ` set d \<Longrightarrow> dict_set k v d = d @ [(k, v)]"
  by (induction d) auto

text \<open>The abstract edit an action stands for: one entry of one list, or the options.\<close>

definition edited_trades :: "string \<Rightarrow> draft_action_request \<Rightarrow> (string, jobject) dict \<Rightarrow> (string, jobject) dict" where
  "edited_trades new_id q m = (case (dr_action_type q, dr_workspace_trade_id q, dr_trade q) of
      (DA_ADD_TRADE, _, Some t) \<Rightarrow> dict_set new_id t m
    | (DA_UPDATE_TRADE, Some i, Some t) \<Rightarrow> dict_set i t m
    | (DA_REMOVE_TRADE, Some i, _) \<Rightarrow> AList.delete i m
    | _ \<Rightarrow> m)"

definition edited_cash_flows :: "string \<Rightarrow> draft_action_request \<Rightarrow> (string, jobject) dict \<Rightarrow> (string, jobject) dict" where
  "edited_cash_flows new_id q m = (case (dr_action_type q, dr_workspace_cash_flow_id q, dr_cash_flow q) of
      (DA_ADD_CASH_FLOW, _, Some t) \<Rightarrow> dict_set new_id t m
    | (DA_UPDATE_CASH_FLOW, Some i, Some t) \<Rightarrow> dict_set i t m
    | (DA_REMOVE_CASH_FLOW, Some i, _) \<Rightarrow> AList.delete i m
    | _ \<Rightarrow> m)"

definition edited_options :: "draft_action_request \<Rightarrow> jobject \<Rightarrow> jobject" where
  "edited_options q opts = (case (dr_action_type q, dr_options q) of
      (DA_REPLACE_OPTIONS, Some x) \<Rightarrow> x | _ \<Rightarrow> opts)"

lemmas draft_action_defs = apply_workspace_draft_action_to_state_def add_trade_draft_def
  update_trade_draft_def remove_trade_draft_def add_cash_flow_draft_def update_cash_flow_draft_def
  remove_cash_flow_draft_def replace_options_def require_trade_def require_cash_flow_def
  require_workspace_trade_id_def require_workspace_cash_flow_id_def require_field_def

lemma update_trade_keyed:
  assumes "update_first (\<lambda>t. td_workspace_trade_id t = i) (td_trade_update (\<lambda>_. x)) ts = Some ts'"
  shows "map (\<lambda>t. (td_workspace_trade_id t, td_trade t)) ts' =
     dict_set i x (map (\<lambda>t. (td_workspace_trade_id t, td_trade t)) ts)"
  by (rule update_first_keyed [OF _ _ assms]) simp_all

lemma update_cash_flow_keyed:
  assumes "update_first (\<lambda>t. cd_workspace_cash_flow_id t = i) (cd_cash_flow_update (\<lambda>_. x)) ts = Some ts'"
  shows "map (\<lambda>t. (cd_workspace_cash_flow_id t, cd_cash_flow t)) ts' =
     dict_set i x (map (\<lambda>t. (cd_workspace_cash_flow_id t, cd_cash_flow t)) ts)"
  by (rule update_first_keyed [OF _ _ assms]) simp_all

text \<open>
  Every accepted action is exactly that edit; \<open>new_id\<close> is a generated id no draft carries.
\<close>

lemma draft_action_refines:
  assumes "apply_workspace_draft_action_to_state new_id q d = Inr d'"
    and "new_id \<notin> fst ` set (trade_dict d)" and "new_id \<notin> fst ` set (cash_flow_dict d)"
  shows "trade_dict d' = edited_trades new_id q (trade_dict d)"
    and "cash_flow_dict d' = edited_cash_flows new_id q (cash_flow_dict d)"
    and "ds_options d' = edited_options q (ds_options d)"
    and "ds_reference_model d' = ds_reference_model d"
    and "ds_alternatives_request d' = ds_alternatives_request d"
proof -
  have fresh: "dict_set new_id x (trade_dict d) = trade_dict d @ [(new_id, x)]"
    "dict_set new_id x (cash_flow_dict d) = cash_flow_dict d @ [(new_id, x)]" for x
    using assms(2,3) by (simp_all add: dict_set_fresh)
  note defs = draft_action_defs edited_trades_def edited_cash_flows_def edited_options_def
    fresh [unfolded trade_dict_def cash_flow_dict_def]
  show "trade_dict d' = edited_trades new_id q (trade_dict d)"
    using assms(1)
    by (cases "dr_action_type q")
      (auto simp: defs bind_error_Inr_iff trade_dict_def update_trade_keyed remove_matching_keyed
        split: option.splits if_splits)
  show "cash_flow_dict d' = edited_cash_flows new_id q (cash_flow_dict d)"
    using assms(1)
    by (cases "dr_action_type q")
      (auto simp: defs bind_error_Inr_iff cash_flow_dict_def update_cash_flow_keyed
        remove_matching_keyed split: option.splits if_splits)
  show "ds_options d' = edited_options q (ds_options d)"
    and "ds_reference_model d' = ds_reference_model d"
    and "ds_alternatives_request d' = ds_alternatives_request d"
    using assms(1)
    by (cases "dr_action_type q";
        auto simp: defs bind_error_Inr_iff split: option.splits if_splits)+
qed

text \<open>An action is refused exactly when its field is missing or its target is not in the draft.\<close>

lemma update_first_found: "(\<exists>ys. update_first P f xs = Some ys) \<longleftrightarrow> list_ex P xs"
  using update_first_None_iff [of P f xs] by (cases "update_first P f xs") auto

lemma remove_matching_found: "(\<exists>ys. remove_matching P xs = Some ys) \<longleftrightarrow> list_ex P xs"
  using remove_matching_None_iff [of P xs] by (cases "remove_matching P xs") auto

lemma draft_action_accepted_iff:
  "(\<exists>d'. apply_workspace_draft_action_to_state new_id q d = Inr d') \<longleftrightarrow>
     (case dr_action_type q of
        DA_ADD_TRADE \<Rightarrow> dr_trade q \<noteq> None
      | DA_UPDATE_TRADE \<Rightarrow> dr_trade q \<noteq> None
          \<and> (\<exists>i. dr_workspace_trade_id q = Some i \<and> i \<in> fst ` set (trade_dict d))
      | DA_REMOVE_TRADE \<Rightarrow> \<exists>i. dr_workspace_trade_id q = Some i \<and> i \<in> fst ` set (trade_dict d)
      | DA_ADD_CASH_FLOW \<Rightarrow> dr_cash_flow q \<noteq> None
      | DA_UPDATE_CASH_FLOW \<Rightarrow> dr_cash_flow q \<noteq> None
          \<and> (\<exists>i. dr_workspace_cash_flow_id q = Some i \<and> i \<in> fst ` set (cash_flow_dict d))
      | DA_REMOVE_CASH_FLOW \<Rightarrow>
          \<exists>i. dr_workspace_cash_flow_id q = Some i \<and> i \<in> fst ` set (cash_flow_dict d)
      | DA_REPLACE_OPTIONS \<Rightarrow> dr_options q \<noteq> None)"
proof -
  have targets: "list_ex (\<lambda>t. td_workspace_trade_id t = i) (ds_trade_drafts d) \<longleftrightarrow> i \<in> fst ` set (trade_dict d)"
    "list_ex (\<lambda>c. cd_workspace_cash_flow_id c = j) (ds_cash_flow_drafts d) \<longleftrightarrow> j \<in> fst ` set (cash_flow_dict d)"
    for i j
    by (auto simp: trade_dict_def cash_flow_dict_def list_ex_iff image_image)
  have case_Inr: "(\<exists>d'. (case z of None \<Rightarrow> Inl e | Some x \<Rightarrow> Inr (g x)) = Inr d') \<longleftrightarrow> (\<exists>x. z = Some x)"
    for z :: "'z option" and e :: workspace_error and g :: "'z \<Rightarrow> draft_state"
    by (cases z) simp_all
  have update: "(\<exists>d'. bind_error (case z of None \<Rightarrow> Inl e | Some x \<Rightarrow> Inr x) h = Inr d')
      \<longleftrightarrow> (\<exists>x d'. z = Some x \<and> h x = Inr d')"
    for z :: "'z option" and e :: workspace_error and h :: "'z \<Rightarrow> workspace_error + draft_state"
    by (cases z) simp_all
  have guarded: "(\<exists>d'. (if b then r else Inl e) = Inr d') \<longleftrightarrow> b \<and> (\<exists>d'. r = Inr d')"
    for b and r :: "workspace_error + draft_state" and e
    by simp
  show ?thesis
    unfolding targets [symmetric]
    by (cases "dr_action_type q")
      (simp_all add: draft_action_defs update guarded case_Inr update_first_found
        remove_matching_found, blast+)
qed

lemma dict_wf_delete [simp]: "dict_wf d \<Longrightarrow> dict_wf (AList.delete k d)"
  by (simp add: dict_wf_def distinct_delete)

lemma draft_action_ok:
  assumes "apply_workspace_draft_action_to_state new_id q d = Inr d'" and "draft_ok d"
    and "new_id \<notin> fst ` set (trade_dict d)" and "new_id \<notin> fst ` set (cash_flow_dict d)"
  shows "draft_ok d'"
  using assms(2) draft_action_refines(1,2) [OF assms(1,3,4)]
  by (auto simp: draft_ok_def edited_trades_def edited_cash_flows_def split: draft_action.splits option.splits)

text \<open>A draft built from a request gives the request back, but for the narrative request.\<close>

lemma map_enumerate_snd: "map (g \<circ> (\<lambda>(i, x). f i x)) (enumerate n xs) = map h xs"
  if "\<And>i x. g (f i x) = h x"
  by (induction xs arbitrary: n) (simp_all add: that)

lemma draft_state_roundtrip:
  "apply_workspace_draft_state base (build_draft_state_from_simulate_request ti ci base) =
     base\<lparr>sq_narrative_request := None\<rparr>"
  by (cases base)
    (simp add: apply_workspace_draft_state_def build_draft_state_from_simulate_request_def
      map_enumerate_snd [where h = "\<lambda>x. x"])

lemma distinct_generated_ids:
  assumes "inj f"
  shows "distinct (map (\<lambda>p. f (fst p)) (enumerate n xs))"
proof -
  have "map (\<lambda>p. f (fst p)) (enumerate n xs) = map f [n..<n + length xs]"
    by (induction xs arbitrary: n) (simp_all add: upt_conv_Cons del: upt_Suc)
  then show ?thesis using assms by (simp add: distinct_map inj_def inj_on_def)
qed

lemma built_draft_ok:
  assumes "inj ti" and "inj ci"
  shows "draft_ok (build_draft_state_from_simulate_request ti ci q)"
  by (simp add: draft_ok_def dict_wf_def trade_ids cash_flow_ids distinct_generated_ids assms
      build_draft_state_from_simulate_request_def comp_def split_def)

subsection \<open>The cache\<close>

definition last_n :: "nat \<Rightarrow> 'a list \<Rightarrow> 'a list" where
  "last_n n xs = drop (length xs - n) xs"

lemma evict_eq: "0 \<le> m \<Longrightarrow> evict_over_capacity m xs = last_n (nat m) xs"
proof (induction xs)
  case (Cons x xs)
  show ?case
  proof (cases "m < int (length (x # xs))")
    case True
    then have "length (x # xs) - nat m = Suc (length xs - nat m)" using Cons.prems by simp
    with True Cons show ?thesis by (simp add: last_n_def)
  next
    case False
    then have "length (x # xs) - nat m = 0" by simp
    with False show ?thesis by (simp add: last_n_def)
  qed
qed (simp add: last_n_def)

lemma length_last_n: "length (last_n n xs) = min n (length xs)"
  by (simp add: last_n_def)

lemma set_last_n: "set (last_n n xs) \<subseteq> set xs"
  by (simp add: last_n_def set_drop_subset)

lemma last_n_snoc: "0 < n \<Longrightarrow> last_n n (xs @ [x]) = last_n (n - 1) xs @ [x]"
  by (cases n) (simp_all add: last_n_def)

lemma last_n_append: "n \<le> length b \<Longrightarrow> last_n n (a @ b) = last_n n b"
  by (simp add: last_n_def)

lemma last_n_filter_key:
  assumes "distinct (map fst xs)"
  shows "last_n n (filter (\<lambda>kv. fst kv \<noteq> k) (last_n (Suc n) xs)) = last_n n (filter (\<lambda>kv. fst kv \<noteq> k) xs)"
proof -
  let ?P = "\<lambda>kv. fst kv \<noteq> k"
  define a b where "a = take (length xs - Suc n) xs" and "b = last_n (Suc n) xs"
  have xs: "xs = a @ b" by (simp add: a_def b_def last_n_def)
  have one: "length (filter (\<lambda>kv. fst kv = k) ys) \<le> 1" if "distinct (map fst ys)" for ys :: "('a \<times> 'b) list"
    using that by (induction ys) (auto simp: filter_empty_conv, force)
  show ?thesis
  proof (cases "length xs \<le> n")
    case True
    then show ?thesis by (simp add: last_n_def)
  next
    case False
    then have len: "length b = Suc n" by (simp add: b_def length_last_n)
    have "length (filter ?P b) + length (filter (\<lambda>kv. fst kv = k) b) = length b"
      using sum_length_filter_compl [of ?P b] by simp
    moreover have "distinct (map fst b)" using assms xs by simp
    ultimately have "n \<le> length (filter ?P b)" using one [of b] len by simp
    then have "last_n n (filter ?P a @ filter ?P b) = last_n n (filter ?P b)" by (rule last_n_append)
    moreover have "filter ?P xs = filter ?P a @ filter ?P b" by (subst xs) simp
    ultimately show ?thesis by (simp add: b_def)
  qed
qed

text \<open>The sessions of a sequence of saves, the last save of each id, in the order of those saves.\<close>

fun latest_saves :: "workspace_session list \<Rightarrow> (string, workspace_session) dict" where
  "latest_saves [] = []"
| "latest_saves (s # ss) =
     (if wk_workspace_id s \<in> wk_workspace_id ` set ss then latest_saves ss
      else (wk_workspace_id s, s) # latest_saves ss)"

lemma latest_saves_keys: "fst ` set (latest_saves ss) = wk_workspace_id ` set ss"
  by (induction ss) auto

lemma latest_saves_distinct: "distinct (map fst (latest_saves ss))"
  using latest_saves_keys by (induction ss) auto

lemma latest_saves_snoc:
  "latest_saves (ss @ [s]) =
     filter (\<lambda>kv. fst kv \<noteq> wk_workspace_id s) (latest_saves ss) @ [(wk_workspace_id s, s)]"
  by (induction ss) auto

lemma cache_after_saves:
  assumes "1 \<le> m"
  shows "fold save_session ss \<lparr>sk_max_size = m, sk_sessions = []\<rparr> =
     \<lparr>sk_max_size = m, sk_sessions = last_n (nat m) (latest_saves ss)\<rparr>"
proof (induction ss rule: rev_induct)
  case (snoc s ss)
  obtain k where k: "nat m = Suc k" using assms by (cases "nat m") auto
  let ?P = "\<lambda>kv. fst kv \<noteq> wk_workspace_id s"
  have "last_n (Suc k) (filter ?P (last_n (Suc k) (latest_saves ss)) @ [(wk_workspace_id s, s)]) =
      last_n (Suc k) (filter ?P (latest_saves ss) @ [(wk_workspace_id s, s)])"
    using last_n_filter_key [OF latest_saves_distinct [of ss], of k "wk_workspace_id s"]
    by (simp add: last_n_snoc)
  moreover have "save_session s \<lparr>sk_max_size = m, sk_sessions = xs\<rparr> =
      \<lparr>sk_max_size = m, sk_sessions = last_n (Suc k) (filter ?P xs @ [(wk_workspace_id s, s)])\<rparr>" for xs
    using assms by (simp add: save_session_def evict_eq k)
  ultimately show ?case by (simp add: snoc k latest_saves_snoc)
qed (simp add: last_n_def)

definition cache_ok :: "session_cache \<Rightarrow> bool" where
  "cache_ok c \<longleftrightarrow> 1 \<le> sk_max_size c \<and> int (length (sk_sessions c)) \<le> sk_max_size c
     \<and> dict_wf (sk_sessions c) \<and> (\<forall>(k, s)\<in>set (sk_sessions c). wk_workspace_id s = k)"

definition cached :: "session_cache \<Rightarrow> workspace_session \<Rightarrow> bool" where
  "cached c s \<longleftrightarrow> (\<exists>k. (k, s) \<in> set (sk_sessions c))"

lemma get_session_cached: "get_session k c = Inr s \<Longrightarrow> cached c s"
  by (auto simp: get_session_def cached_def split: option.splits dest: map_of_SomeD)

lemma get_session_id: "cache_ok c \<Longrightarrow> get_session k c = Inr s \<Longrightarrow> wk_workspace_id s = k"
  by (auto simp: get_session_def cache_ok_def split: option.splits dest!: map_of_SomeD)

lemma sessions_of_save:
  assumes "cache_ok c"
  shows "sk_sessions (save_session s c) = last_n (nat (sk_max_size c))
     (filter (\<lambda>kv. fst kv \<noteq> wk_workspace_id s) (sk_sessions c) @ [(wk_workspace_id s, s)])"
  using assms by (simp add: save_session_def evict_eq cache_ok_def)

lemma save_session_ok:
  assumes "cache_ok c"
  shows "cache_ok (save_session s c)"
proof -
  let ?xs = "filter (\<lambda>kv. fst kv \<noteq> wk_workspace_id s) (sk_sessions c) @ [(wk_workspace_id s, s)]"
  have "distinct (map fst ?xs)"
    using assms by (auto simp: cache_ok_def dict_wf_def distinct_map_filter)
  then have "distinct (map fst (last_n n ?xs))" for n
    by (metis distinct_drop drop_map last_n_def)
  moreover have "(\<forall>(k, t)\<in>set (last_n n ?xs). wk_workspace_id t = k)" for n
    using assms set_last_n [of n ?xs] by (fastforce simp: cache_ok_def)
  moreover have "sk_max_size (save_session s c) = sk_max_size c" by (simp add: save_session_def)
  ultimately show ?thesis
    using assms unfolding cache_ok_def dict_wf_def sessions_of_save [OF assms]
    by (auto simp: length_last_n min_def nat_le_iff)
qed

lemma cached_save:
  assumes "cached (save_session s c) t"
  shows "t = s \<or> cached c t"
proof -
  have "set (evict_over_capacity m xs) \<subseteq> set xs" for m and xs :: "(string \<times> workspace_session) list"
    by (induction xs) auto
  then show ?thesis using assms by (fastforce simp: cached_def save_session_def)
qed

lemma get_save_same:
  assumes "cache_ok c"
  shows "get_session (wk_workspace_id s) (save_session s c) = Inr s"
proof -
  let ?f = "filter (\<lambda>kv. fst kv \<noteq> wk_workspace_id s) (sk_sessions c)"
  have "0 < nat (sk_max_size c)" using assms by (simp add: cache_ok_def)
  then have "sk_sessions (save_session s c) = last_n (nat (sk_max_size c) - 1) ?f @ [(wk_workspace_id s, s)]"
    using sessions_of_save [OF assms] by (simp add: last_n_snoc)
  moreover have "dict_get (last_n n ?f) (wk_workspace_id s) = None" for n
    using set_last_n [of n ?f] by (auto simp: map_of_eq_None_iff)
  ultimately show ?thesis by (simp add: get_session_def map_add_def)
qed

lemma write_through_ok:
  assumes "cache_ok c" and "get_session (wk_workspace_id s) c = Inr s0"
  shows "cache_ok (write_through s c)"
proof -
  have dom: "wk_workspace_id s \<in> fst ` set (sk_sessions c)"
    using assms(2) by (force simp: get_session_def split: option.splits dest!: map_of_SomeD)
  have len: "length (dict_set k v d) = length d" if "k \<in> fst ` set d"
    for k and v and d :: "(string, workspace_session) dict"
    using that by (induction d) auto
  have keys: "(\<forall>(k, t)\<in>set (dict_set k' v d). wk_workspace_id t = k)"
    if "\<forall>(k, t)\<in>set d. wk_workspace_id t = k" and "wk_workspace_id v = k'"
    for k' v and d :: "(string, workspace_session) dict"
    using that by (induction d) (auto split: if_splits)
  show ?thesis
    using assms(1) len [OF dom] keys [of "sk_sessions c" s "wk_workspace_id s"]
    by (simp add: cache_ok_def write_through_def)
qed

lemma cached_write:
  assumes "cached (write_through s c) t"
  shows "t = s \<or> cached c t"
proof -
  have "(k, v) \<in> set (dict_set k' v' d) \<Longrightarrow> v = v' \<or> (k, v) \<in> set d"
    for k v k' v' and d :: "(string, workspace_session) dict"
    by (induction d) (auto split: if_splits)
  then show ?thesis using assms by (fastforce simp: cached_def write_through_def)
qed

text \<open>Saving a session that is cached evicts none.\<close>

definition cached_ids :: "session_cache \<Rightarrow> string set" where
  "cached_ids c = fst ` set (sk_sessions c)"

lemma cached_ids_get: "i \<in> cached_ids c \<longleftrightarrow> (\<exists>s. get_session i c = Inr s)"
proof -
  have "i \<in> cached_ids c \<longleftrightarrow> dict_get (sk_sessions c) i \<noteq> None"
    by (simp add: cached_ids_def map_of_eq_None_iff)
  then show ?thesis by (auto simp: get_session_def split: option.splits)
qed

lemma save_keeps_ids:
  assumes "cache_ok c" and "wk_workspace_id s \<in> cached_ids c"
  shows "cached_ids (save_session s c) = cached_ids c"
proof -
  let ?P = "\<lambda>kv. fst kv \<noteq> wk_workspace_id s"
  obtain b where "(wk_workspace_id s, b) \<in> set (sk_sessions c)" using assms(2) by (auto simp: cached_ids_def)
  then have "length (filter ?P (sk_sessions c)) < length (sk_sessions c)" by (rule length_filter_less) simp
  then have "length (filter ?P (sk_sessions c) @ [(wk_workspace_id s, s)]) \<le> nat (sk_max_size c)"
    using assms(1) by (simp add: cache_ok_def le_nat_iff)
  then have "sk_sessions (save_session s c) = filter ?P (sk_sessions c) @ [(wk_workspace_id s, s)]"
    using sessions_of_save [OF assms(1), of s] by (simp add: last_n_def)
  then show ?thesis using assms(2) by (force simp: cached_ids_def)
qed

lemma save_with_room:
  assumes "cache_ok c" and "int (length (sk_sessions c)) < sk_max_size c"
  shows "cached_ids c \<subseteq> cached_ids (save_session s c)"
proof -
  let ?P = "\<lambda>kv. fst kv \<noteq> wk_workspace_id s"
  have "length (filter ?P (sk_sessions c) @ [(wk_workspace_id s, s)]) \<le> nat (sk_max_size c)"
    using assms(2) length_filter_le [of ?P "sk_sessions c"] by (simp add: le_nat_iff del: length_filter_le)
  then have "sk_sessions (save_session s c) = filter ?P (sk_sessions c) @ [(wk_workspace_id s, s)]"
    using sessions_of_save [OF assms(1), of s] by (simp add: last_n_def)
  then show ?thesis by (force simp: cached_ids_def)
qed

lemma write_keeps_ids: "cached_ids c \<subseteq> cached_ids (write_through s c)"
  by (simp add: cached_ids_def write_through_def dom_update subset_insertI)

lemma resize_ok:
  assumes "resize_session_cache j c = Inr c'" and "cache_ok c"
  shows "cache_ok c'" and "cached c' t \<Longrightarrow> cached c t"
proof -
  obtain n where n: "1 \<le> n"
    and c': "c' = c\<lparr>sk_max_size := n, sk_sessions := last_n (nat n) (sk_sessions c)\<rparr>"
    using assms(1)
    by (auto simp: resize_session_cache_def bind_error_Inr_iff validate_workspace_session_cache_size_def
        evict_eq not_less split: json.splits if_splits)
  have "distinct (map fst (last_n k xs))" if "distinct (map fst xs)" for k and xs :: "(string, workspace_session) dict"
    using that by (metis distinct_drop drop_map last_n_def)
  then show "cache_ok c'"
    using assms(2) n set_last_n [of "nat n" "sk_sessions c"]
    by (auto simp: c' cache_ok_def dict_wf_def length_last_n)
  show "cached c' t \<Longrightarrow> cached c t"
    using set_last_n [of "nat n" "sk_sessions c"] by (auto simp: c' cached_def)
qed

end
