(* ===== verification/Workspace_System.thy ===== *)
theory Workspace_System
  imports Workspace_Facts
begin

text \<open>
  Workspaces and the proposal repository as one system: the commands of the workspace service and
  of the proposal service, one at a time, in any order.  The invariant ties every cached session
  to its own saved versions and to the proposal it was handed off to.
\<close>

subsection \<open>Commands\<close>

datatype workspace_command =
    WC_Create session_create_request
  | WC_Reevaluate string
  | WC_Action string draft_action_request
  | WC_Save string save_request
  | WC_Resume string string
  | WC_Handoff string handoff_call lifecycle_inputs
  | WC_Resize json
  | WC_Reset
  | WC_Proposal proposal_request

fun perform_command ::
  "runtime \<Rightarrow> workspace_services \<Rightarrow> proposal_service \<Rightarrow> call_inputs \<Rightarrow> workspace_command
     \<Rightarrow> session_cache \<times> repository \<Rightarrow> session_cache \<times> repository" where
  "perform_command rt wx ps ci (WC_Create q) (c, R) = (snd (create_session wx ci q c), R)"
| "perform_command rt wx ps ci (WC_Reevaluate i) (c, R) = (snd (reevaluate_session rt wx ci i c), R)"
| "perform_command rt wx ps ci (WC_Action i q) (c, R) = (snd (apply_draft_action rt wx ci i q c), R)"
| "perform_command rt wx ps ci (WC_Save i q) (c, R) = (snd (save_version rt ci i q c), R)"
| "perform_command rt wx ps ci (WC_Resume i v) (c, R) = (snd (resume_version i v c), R)"
| "perform_command rt wx ps ci (WC_Handoff i h lf) (c, R) =
     snd (handoff_to_proposal_lifecycle rt wx ps lf i h c R)"
| "perform_command rt wx ps ci (WC_Resize n) (c, R) =
     ((case resize_session_cache n c of Inl e \<Rightarrow> c | Inr c' \<Rightarrow> c'), R)"
| "perform_command rt wx ps ci WC_Reset (c, R) = (reset_sessions c, R)"
| "perform_command rt wx ps ci (WC_Proposal q) (c, R) = (c, run_request rt (pv_services ps) q R)"

text \<open>Generated ids (\<open>uuid4\<close>) are new.\<close>

fun fresh_ids ::
  "runtime \<Rightarrow> proposal_service \<Rightarrow> call_inputs \<Rightarrow> workspace_command \<Rightarrow> session_cache \<times> repository \<Rightarrow> bool" where
  "fresh_ids rt ps ci (WC_Create q) (c, R) \<longleftrightarrow>
     ci_new_id ci \<notin> fst ` set (sk_sessions c) \<and> inj (di_trade (ci_draft_ids ci))
     \<and> inj (di_cash_flow (ci_draft_ids ci))"
| "fresh_ids rt ps ci (WC_Action i q) (c, R) \<longleftrightarrow>
     (\<forall>s. get_session i c = Inr s \<longrightarrow>
        ci_new_id ci \<notin> fst ` set (trade_dict (wk_draft_state s))
        \<and> ci_new_id ci \<notin> fst ` set (cash_flow_dict (wk_draft_state s)))"
| "fresh_ids rt ps ci (WC_Handoff i h lf) (c, R) \<longleftrightarrow> get_proposal (ni_proposal_id (lf_ids lf)) R = None"
| "fresh_ids rt ps ci (WC_Proposal q) (c, R) \<longleftrightarrow>
     (case prepare_request rt (pv_services ps) q R of None \<Rightarrow> True | Some w \<Rightarrow> fresh_write w R)"
| "fresh_ids rt ps ci cmd S \<longleftrightarrow> True"

text \<open>What the services answer may differ from one command to the next.\<close>

inductive workspace_reachable ::
  "runtime \<Rightarrow> proposal_service \<Rightarrow> session_cache \<times> repository \<Rightarrow> bool"
  for rt ps where
  start: "1 \<le> n \<Longrightarrow> workspace_reachable rt ps (\<lparr>sk_max_size = n, sk_sessions = []\<rparr>, empty_repository)"
| step: "workspace_reachable rt ps S \<Longrightarrow> fresh_ids rt ps ci cmd S \<Longrightarrow>
     workspace_reachable rt ps (perform_command rt wx ps ci cmd S)"

subsection \<open>The proposal side\<close>

definition versions_keyed :: "repository \<Rightarrow> bool" where
  "versions_keyed R \<longleftrightarrow> (\<forall>pid n v. get_version pid n R = Some v \<longrightarrow>
     pv_proposal_id v = pid \<and> pv_version_no v = n)"

lemma versions_keyed_commit: "versions_keyed R \<Longrightarrow> versions_keyed (commit_write w R)"
proof (cases w)
  case (PW_Version p v e)
  then show "versions_keyed R \<Longrightarrow> ?thesis"
    by (auto simp: versions_keyed_def persist_created_proposal_version_def transition_proposal_eq
        get_version_create_version split: if_splits)
qed (auto simp: versions_keyed_def persist_created_proposal_def persist_proposal_transition_def
      persist_proposal_approval_transition_def transition_proposal_eq split: if_splits)

lemma versions_keyed_request: "versions_keyed R \<Longrightarrow> versions_keyed (run_request rt sv q R)"
  by (simp add: run_request_eq versions_keyed_commit split: option.splits)

lemma create_answers:
  assumes "create_proposal_command rt sv q key cid opts now ids R = (Inr r, R')"
    and "repository_ok R" and "versions_keyed R"
  obtains p v e where "r = to_create_response rt p v e" and "pv_version_no v = 1"
    and "get_proposal (pr_proposal_id p) R' = Some p" and "1 \<le> pr_current_version_no p"
proof (cases "prepare_create rt sv q key cid opts now ids R")
  case (Inr x)
  show thesis
  proof (cases x)
    case (Inl r0)
    with Inr assms(1) have r: "r = r0" "R' = R" by (simp_all add: create_proposal_command_def)
    from Inr Inl obtain k i where i: "get_idempotency k R = Some i"
      and resp: "build_create_response_from_replay_referents rt (pi_proposal_id i)
           (pi_proposal_version_no i) R = Inr r"
      unfolding r
      by (auto simp: prepare_create_def Let_def split: sum.splits option.splits if_splits)
    obtain p v where p: "get_proposal (pi_proposal_id i) R = Some p"
      and v: "get_version (pi_proposal_id i) (pi_proposal_version_no i) R = Some v"
      using repository_ok_referents [OF assms(2) i] by blast
    have "pi_proposal_version_no i = 1" using assms(2) i by (auto simp: repository_ok_def idempotency_ok_def)
    moreover have "pr_proposal_id p = pi_proposal_id i" "1 \<le> pr_current_version_no p"
      using assms(2) p by (auto simp: repository_ok_def proposals_keyed_def versions_ok_def)
    moreover have "pv_version_no v = pi_proposal_version_no i" using assms(3) v by (simp add: versions_keyed_def)
    ultimately show thesis
      using resp p v r(2)
      by (intro that [of p v])
        (auto simp: build_create_response_from_replay_referents_def build_create_response_from_referents_def
          split: if_splits)
  next
    case (Inr w)
    obtain cc v where w: "w = (cc, v)" by (cases w)
    have prep: "prepare_create rt sv q key cid opts now ids R = Inr (Inr (cc, v))"
      using \<open>prepare_create rt sv q key cid opts now ids R = Inr x\<close> Inr w by simp
    from assms(1) have "r = to_create_response rt (cc_proposal cc) v (cc_created_event cc)"
      and "R' = persist_created_proposal cc v R"
      by (simp_all add: create_proposal_command_def prep commit_create_def)
    moreover have "pr_current_version_no (cc_proposal cc) = 1" and "pv_version_no v = 1"
      using prep by (rule prepare_create_write, simp)+
    ultimately show thesis
      by (intro that [of "cc_proposal cc" v]) (simp_all add: persist_created_proposal_def)
  qed
qed (use assms(1) in \<open>simp add: create_proposal_command_def\<close>)

lemma version_answers:
  assumes "create_proposal_version rt sv pid q cid opts now ids R = (Inr r, R')"
    and "repository_ok R"
  obtains p p' v e where "r = to_create_response rt p' v e" and "get_proposal pid R = Some p"
    and "get_proposal pid R' = Some p'" and "pr_proposal_id p' = pid"
    and "pr_current_version_no p' = pr_current_version_no p + 1"
    and "pv_version_no v = pr_current_version_no p + 1"
    and "vq_expected_current_version_no q \<noteq> None \<Longrightarrow>
           vq_expected_current_version_no q = Some (pr_current_version_no p)"
proof -
  obtain p' v e where prep: "prepare_version rt sv pid q cid opts now ids R = Inr (p', v, e)"
    and commit: "commit_version rt (p', v, e) R = (Inr r, R')"
    using assms(1) by (auto simp: create_proposal_version_def split: sum.splits)
  obtain p where p: "get_proposal pid R = Some p"
    and p': "p' = p\<lparr>pr_current_version_no := pr_current_version_no p + 1, pr_current_state := WS_DRAFT,
                   pr_last_event_at := now\<rparr>"
    and f: "follows p p' e"
    and v: "pv_version_no v = pr_current_version_no p + 1"
    and guard: "vq_expected_current_version_no q \<noteq> None \<Longrightarrow>
           vq_expected_current_version_no q = Some (pr_current_version_no p)"
    using prep by (rule prepare_version_write) blast
  have pid: "pr_proposal_id p = pid" using assms(2) p by (auto simp: repository_ok_def proposals_keyed_def)
  have "ev_from_state e = Some (pr_current_state p)" using f by (simp add: follows_def)
  from commit [unfolded commit_version_eq [OF this]]
  have "r = to_create_response rt p' v e" "R' = write_transition p' e None (create_version v R)"
    by (auto split: if_splits)
  then show thesis using that p v guard pid by (simp add: p')
qed

subsection \<open>What an operation keeps of a session\<close>

definition session_identity where
  "session_identity s = (wk_workspace_id s, wk_workspace_name s, wk_lifecycle_state s, wk_input_mode s,
     wk_created_by s, wk_created_at s, wk_stateless_input s, wk_stateful_input s)"

text \<open>A saved version but for the continuity note a handoff writes into its evidence.\<close>

definition frozen :: "saved_version \<Rightarrow> saved_version" where
  "frozen v = v\<lparr>wv_replay_evidence := (wv_replay_evidence v)\<lparr>we_continuity := []\<rparr>\<rparr>"

definition keeps :: "workspace_session \<Rightarrow> workspace_session \<Rightarrow> bool" where
  "keeps s s' \<longleftrightarrow> session_identity s' = session_identity s
     \<and> wk_saved_versions s' = wk_saved_versions s \<and> wk_lifecycle_link s' = wk_lifecycle_link s
     \<and> wk_saved_version_count s' = wk_saved_version_count s
     \<and> wk_latest_saved_version s' = wk_latest_saved_version s
     \<and> (wk_resolved_context s \<noteq> None \<longrightarrow> wk_resolved_context s' \<noteq> None)"

lemma keeps_refl [simp]: "keeps s s"
  by (simp add: keeps_def)

lemma keeps_trans: "keeps s t \<Longrightarrow> keeps t u \<Longrightarrow> keeps s u"
  by (simp add: keeps_def)

lemma keeps_id: "keeps s s' \<Longrightarrow> wk_workspace_id s' = wk_workspace_id s"
  by (simp add: keeps_def session_identity_def)

lemma build_simulate_request_keeps:
  assumes "build_simulate_request wx s = (r, s1)"
  shows "keeps s s1" and "wk_draft_state s1 = wk_draft_state s"
    and "wk_latest_replay_evidence s1 = wk_latest_replay_evidence s"
    and "\<exists>c. s1 = s \<or> s1 = s\<lparr>wk_resolved_context := Some c\<rparr>"
  using assms
  by (auto simp: build_simulate_request_def keeps_def session_identity_def
      split: input_mode.splits option.splits sum.splits)

lemma evaluate_workspace_keeps:
  assumes "evaluate_workspace rt wx u now sim s = Inr s'"
  shows "keeps s s'" and "wk_draft_state s' = wk_draft_state s"
    and "\<exists>e. wk_latest_replay_evidence s' = Some e
      \<and> we_draft_state_hash e = build_draft_state_hash rt (wk_draft_state s)
      \<and> we_evaluation_request_hash e \<noteq> None"
  using assms
  by (auto simp: evaluate_workspace_def bind_error_Inr_iff Let_def keeps_def session_identity_def
      build_replay_evidence_def)

lemma resume_keeps: "keeps s (apply_saved_workspace_version v s)"
  by (simp add: keeps_def apply_saved_workspace_version_def session_identity_def)

text \<open>A handoff's note changes one saved version, and only its continuity.\<close>

lemma update_first_map:
  "update_first P g xs = Some ys \<Longrightarrow> (\<And>x. f (g x) = f x) \<Longrightarrow> map f ys = map f xs"
  by (induction xs arbitrary: ys) (auto split: if_splits)

lemma lineage_saved_versions:
  assumes "\<And>v. f (with_continuity lineage v) = f v"
  shows "map f (wk_saved_versions (apply_workspace_handoff_replay_lineage rt lineage s)) =
     map f (wk_saved_versions s)"
  using update_first_map [where f = f and g = "with_continuity lineage", OF _ assms]
  by (auto simp: apply_workspace_handoff_replay_lineage_def Let_def rev_map [symmetric]
      split: option.splits)

lemma lineage_fields:
  "session_identity (apply_workspace_handoff_replay_lineage rt lineage s) = session_identity s"
  "wk_draft_state (apply_workspace_handoff_replay_lineage rt lineage s) = wk_draft_state s"
  "wk_lifecycle_link (apply_workspace_handoff_replay_lineage rt lineage s) = wk_lifecycle_link s"
  "wk_saved_version_count (apply_workspace_handoff_replay_lineage rt lineage s) = wk_saved_version_count s"
  "wk_latest_saved_version (apply_workspace_handoff_replay_lineage rt lineage s) = wk_latest_saved_version s"
  "wk_resolved_context (apply_workspace_handoff_replay_lineage rt lineage s) = wk_resolved_context s"
  "wk_latest_replay_evidence (apply_workspace_handoff_replay_lineage rt lineage s) =
      map_option (\<lambda>e. e\<lparr>we_continuity := lineage\<rparr>) (wk_latest_replay_evidence s)"
  by (auto simp: apply_workspace_handoff_replay_lineage_def Let_def session_identity_def
      split: option.splits)

subsection \<open>Session steps\<close>

text \<open>
  The changes an operation can leave in the cache, one assignment group each; \<open>E\<close> says whether
  the draft may be edited.
\<close>

inductive session_step :: "runtime \<Rightarrow> repository \<Rightarrow> bool \<Rightarrow> workspace_session \<Rightarrow> workspace_session \<Rightarrow> bool"
  for rt R' E where
  reresolved: "session_step rt R' E s (s\<lparr>wk_resolved_context := Some c\<rparr>)"
| edited: "E \<Longrightarrow> apply_workspace_draft_action_to_state new_id q (wk_draft_state s) = Inr d \<Longrightarrow>
     new_id \<notin> fst ` set (trade_dict (wk_draft_state s)) \<Longrightarrow>
     new_id \<notin> fst ` set (cash_flow_dict (wk_draft_state s)) \<Longrightarrow>
     session_step rt R' E s (s\<lparr>wk_draft_state := d\<rparr>)"
| evaluated: "evaluate_workspace rt wx u now sim s = Inr s' \<Longrightarrow> session_step rt R' E s s'"
| resumed: "v \<in> set (wk_saved_versions s) \<Longrightarrow>
     session_step rt R' E s (apply_saved_workspace_version v s)"
| saved: "v = build_saved_workspace_version rt s q i now \<Longrightarrow>
     session_step rt R' E s
       (refresh_saved_version_metadata (s\<lparr>wk_saved_versions := wk_saved_versions s @ [v]\<rparr>))"
| handed: "get_proposal (ln_proposal_id l') R' = Some p \<Longrightarrow> 1 \<le> ln_current_version_no l' \<Longrightarrow>
     ln_current_version_no l' \<le> pr_current_version_no p \<Longrightarrow>
     (\<And>l. wk_lifecycle_link s = Some l \<Longrightarrow> ln_proposal_id l' = ln_proposal_id l
        \<and> ln_current_version_no l' = ln_current_version_no l + 1) \<Longrightarrow>
     session_step rt R' E s
       ((apply_workspace_handoff_replay_lineage rt lineage s)\<lparr>wk_lifecycle_link := Some l'\<rparr>)"

definition own_ok :: "workspace_session \<Rightarrow> bool" where
  "own_ok s \<longleftrightarrow>
     map wv_version_number (wk_saved_versions s) = [1..<Suc (length (wk_saved_versions s))]
     \<and> wk_saved_version_count s = length (wk_saved_versions s)
     \<and> wk_latest_saved_version s = (if wk_saved_versions s = [] then None
           else Some (last (map build_saved_version_summary (wk_saved_versions s))))
     \<and> validate_session_mode_payloads s = Inr ()
     \<and> wk_resolved_context s \<noteq> None
     \<and> draft_ok (wk_draft_state s) \<and> (\<forall>v\<in>set (wk_saved_versions s). draft_ok (wv_draft_state v))"

definition link_ok :: "repository \<Rightarrow> workspace_session \<Rightarrow> bool" where
  "link_ok R s \<longleftrightarrow> (\<forall>l. wk_lifecycle_link s = Some l \<longrightarrow>
     (\<exists>p. get_proposal (ln_proposal_id l) R = Some p \<and> 1 \<le> ln_current_version_no l
        \<and> ln_current_version_no l \<le> pr_current_version_no p))"

lemma mode_identity:
  "session_identity s' = session_identity s \<Longrightarrow>
     validate_session_mode_payloads s' = validate_session_mode_payloads s"
  by (simp add: session_identity_def validate_session_mode_payloads_def)

lemma own_ok_keeps:
  assumes "own_ok s" and "keeps s s'" and "draft_ok (wk_draft_state s')"
  shows "own_ok s'"
  using assms mode_identity [of s' s] by (auto simp: own_ok_def keeps_def)

lemma own_ok_draft: "own_ok s \<Longrightarrow> draft_ok (wk_draft_state s)"
  by (simp add: own_ok_def)

lemma own_ok_saved: "own_ok s \<Longrightarrow> v \<in> set (wk_saved_versions s) \<Longrightarrow> draft_ok (wv_draft_state v)"
  by (simp add: own_ok_def)

lemma step_identity: "session_step rt R' E s s' \<Longrightarrow> session_identity s' = session_identity s"
proof (induction rule: session_step.induct)
  case (evaluated wx u now sim s s')
  then show ?case using evaluate_workspace_keeps(1) by (auto simp: keeps_def)
next
  case (handed l' p s lineage)
  then show ?case using lineage_fields(1) [of rt lineage s] by (simp add: session_identity_def)
qed (auto simp: session_identity_def apply_saved_workspace_version_def refresh_saved_version_metadata_def)

lemma step_own_ok: "session_step rt R' E s s' \<Longrightarrow> own_ok s \<Longrightarrow> own_ok s'"
proof (induction rule: session_step.induct)
  case (reresolved s c)
  have "keeps s (s\<lparr>wk_resolved_context := Some c\<rparr>)" by (simp add: keeps_def session_identity_def)
  then show ?case using own_ok_keeps [OF reresolved.prems] own_ok_draft [OF reresolved.prems] by simp
next
  case (edited new_id q s d)
  have "keeps s (s\<lparr>wk_draft_state := d\<rparr>)" by (simp add: keeps_def session_identity_def)
  moreover have "draft_ok d"
    using draft_action_ok [OF edited.hyps(2) own_ok_draft [OF edited.prems] edited.hyps(3,4)] .
  ultimately show ?case using own_ok_keeps [OF edited.prems] by simp
next
  case (evaluated wx u now sim s s')
  then show ?case
    using evaluate_workspace_keeps(1,2) own_ok_draft by (metis own_ok_keeps)
next
  case (resumed v s)
  have "draft_ok (wk_draft_state (apply_saved_workspace_version v s))"
    using own_ok_saved [OF resumed.prems resumed.hyps] by (simp add: apply_saved_workspace_version_def)
  with resume_keeps show ?case using own_ok_keeps [OF resumed.prems] by blast
next
  case (saved v s q i now)
  then show ?case
    by (auto simp: own_ok_def refresh_saved_version_metadata_def build_saved_workspace_version_def
        validate_session_mode_payloads_def build_saved_version_summary_def simp del: upt_Suc
        simp: upt_Suc_append)
next
  case (handed l' p s lineage)
  let ?t = "apply_workspace_handoff_replay_lineage rt lineage s"
  have maps: "map wv_version_number (wk_saved_versions ?t) = map wv_version_number (wk_saved_versions s)"
    "map build_saved_version_summary (wk_saved_versions ?t) = map build_saved_version_summary (wk_saved_versions s)"
    "map wv_draft_state (wk_saved_versions ?t) = map wv_draft_state (wk_saved_versions s)"
    by (rule lineage_saved_versions, simp add: with_continuity_def build_saved_version_summary_def)+
  have len: "length (wk_saved_versions ?t) = length (wk_saved_versions s)"
    using maps(1) by (metis length_map)
  have drafts: "(\<forall>v\<in>set (wk_saved_versions ?t). draft_ok (wv_draft_state v))
      \<longleftrightarrow> (\<forall>v\<in>set (wk_saved_versions s). draft_ok (wv_draft_state v))"
    using arg_cong [OF maps(3), of "\<lambda>ds. \<forall>d\<in>set ds. draft_ok d"] by simp
  have empty: "wk_saved_versions ?t = [] \<longleftrightarrow> wk_saved_versions s = []" using len by (metis length_0_conv)
  have mode: "validate_session_mode_payloads (?t\<lparr>wk_lifecycle_link := Some l'\<rparr>) = validate_session_mode_payloads s"
    using lineage_fields(1) [of rt lineage s] by (intro mode_identity) (simp add: session_identity_def)
  show ?case
    using handed.prems lineage_fields(2,4-6) [of rt lineage s]
    by (simp add: own_ok_def maps len drafts empty mode)
qed

subsection \<open>What a command leaves in the cache\<close>

abbreviation session_steps :: "runtime \<Rightarrow> repository \<Rightarrow> bool \<Rightarrow> workspace_session \<Rightarrow> workspace_session \<Rightarrow> bool" where
  "session_steps rt R' E \<equiv> (session_step rt R' E)\<^sup>*\<^sup>*"

text \<open>Every cached session comes from one that was cached before, and none has left the cache.\<close>

definition cache_step :: "runtime \<Rightarrow> repository \<Rightarrow> bool \<Rightarrow> session_cache \<Rightarrow> session_cache \<Rightarrow> bool" where
  "cache_step rt R' E c c' \<longleftrightarrow> cache_ok c' \<and> cached_ids c \<subseteq> cached_ids c'
     \<and> (\<forall>t. cached c' t \<longrightarrow> (\<exists>t0. cached c t0 \<and> session_steps rt R' E t0 t))"

lemma steps_identity: "session_steps rt R' E s s' \<Longrightarrow> session_identity s' = session_identity s"
  by (induction rule: rtranclp_induct) (auto dest: step_identity)

lemma step_steps: "session_step rt R' E s s' \<Longrightarrow> session_steps rt R' E s s'"
  by (rule r_into_rtranclp)

lemma steps_id: "session_steps rt R' E s s' \<Longrightarrow> wk_workspace_id s' = wk_workspace_id s"
  using steps_identity by (fastforce simp: session_identity_def)

lemma cache_step_refl: "cache_ok c \<Longrightarrow> cache_step rt R' E c c"
  by (auto simp: cache_step_def)

lemma cache_step_trans: "cache_step rt R' E a b \<Longrightarrow> cache_step rt R' E b c \<Longrightarrow> cache_step rt R' E a c"
  unfolding cache_step_def by (meson rtranclp_trans subset_trans)

lemma cache_step_save:
  assumes "cache_ok c" and "cached c s" and "session_steps rt R' E s s'"
  shows "cache_step rt R' E c (save_session s' c)"
proof -
  have "wk_workspace_id s' \<in> cached_ids c"
    using assms(1,2) steps_id [OF assms(3)] by (force simp: cached_def cached_ids_def cache_ok_def)
  from save_keeps_ids [OF assms(1) this] show ?thesis
    using assms save_session_ok [OF assms(1)] by (auto simp: cache_step_def dest: cached_save)
qed

lemma cache_step_write:
  assumes "cache_ok c" and "get_session i c = Inr s" and "session_steps rt R' E s s'"
  shows "cache_step rt R' E c (write_through s' c)"
proof -
  have "wk_workspace_id s' = i" using get_session_id [OF assms(1,2)] steps_id [OF assms(3)] by simp
  then show ?thesis
    using assms write_through_ok [OF assms(1), of s' s] get_session_cached [OF assms(2)] write_keeps_ids
    by (auto simp: cache_step_def dest: cached_write)
qed

lemma cached_write_same: "cached (write_through s c) s"
  using map_of_SomeD [of "dict_set (wk_workspace_id s) s (sk_sessions c)" "wk_workspace_id s" s]
  by (auto simp: cached_def write_through_def)

lemma cache_step_update:
  assumes "cache_ok c" and "get_session i c = Inr s" and "session_steps rt R' E s s1"
    and "session_steps rt R' E s1 s2"
  shows "cache_step rt R' E c (save_session s2 (write_through s1 c))"
proof -
  have w: "cache_step rt R' E c (write_through s1 c)" using assms(1-3) by (rule cache_step_write)
  then have "cache_ok (write_through s1 c)" by (simp add: cache_step_def)
  then show ?thesis
    using cache_step_trans [OF w] cache_step_save [OF _ cached_write_same assms(4)] by blast
qed

lemma simulate_steps:
  assumes "build_simulate_request wx s = (r, s1)"
  shows "session_steps rt R' E s s1"
  using build_simulate_request_keeps(4) [OF assms] by (auto intro: session_step.reresolved)

lemma reevaluate_step:
  assumes "cache_ok c"
  shows "cache_step rt R' E c (snd (reevaluate_session rt wx ci i c))"
proof (cases "get_session i c")
  case (Inr s)
  obtain r s1 where r: "build_simulate_request wx s = (r, s1)" by fastforce
  note s1 = simulate_steps [OF r, of rt R' E]
  show ?thesis
  proof (cases "bind_error r (\<lambda>sim. evaluate_workspace rt wx (ci_uuid_hex ci) (ci_now ci) sim s1)")
    case (Inl e)
    then show ?thesis
      using cache_step_write [OF assms Inr s1] Inr r by (simp add: reevaluate_session_def)
  next
    case (Inr s2)
    then have "session_steps rt R' E s1 s2"
      by (auto simp: bind_error_Inr_iff intro: session_step.evaluated)
    then show ?thesis
      using cache_step_update [OF assms \<open>get_session i c = Inr s\<close> s1, of s2] Inr r \<open>get_session i c = Inr s\<close>
      by (simp add: reevaluate_session_def)
  qed
qed (simp add: reevaluate_session_def cache_step_refl assms)

lemma action_step:
  assumes "cache_ok c"
    and "\<And>s. get_session i c = Inr s \<Longrightarrow> ci_new_id ci \<notin> fst ` set (trade_dict (wk_draft_state s))
        \<and> ci_new_id ci \<notin> fst ` set (cash_flow_dict (wk_draft_state s))"
  shows "cache_step rt R' True c (snd (apply_draft_action rt wx ci i q c))"
proof (cases "get_session i c")
  case (Inr s)
  show ?thesis
  proof (cases "apply_workspace_draft_action_to_state (ci_new_id ci) q (wk_draft_state s)")
    case (Inr d)
    let ?c = "save_session (s\<lparr>wk_draft_state := d\<rparr>) c"
    have "session_step rt R' True s (s\<lparr>wk_draft_state := d\<rparr>)"
      using Inr assms(2) [OF \<open>get_session i c = Inr s\<close>] by (auto intro: session_step.edited)
    then have edit: "cache_step rt R' True c ?c"
      using cache_step_save [OF assms(1) get_session_cached [OF \<open>get_session i c = Inr s\<close>]] by blast
    then have "cache_ok ?c" by (simp add: cache_step_def)
    with edit have "cache_step rt R' True c (snd (reevaluate_session rt wx ci i ?c))"
      by (blast intro: cache_step_trans reevaluate_step)
    then show ?thesis using Inr \<open>get_session i c = Inr s\<close> by (simp add: apply_draft_action_def)
  qed (simp add: apply_draft_action_def Inr cache_step_refl assms)
qed (simp add: apply_draft_action_def cache_step_refl assms)

lemma save_version_step:
  assumes "cache_ok c"
  shows "cache_step rt R' E c (snd (save_version rt ci i q c))"
proof (cases "get_session i c")
  case (Inr s)
  then show ?thesis
    using cache_step_save [OF assms get_session_cached [OF Inr]
        step_steps [OF session_step.saved [OF refl, of rt R' E s q "ci_new_id ci" "ci_now ci"]]]
    by (simp add: save_version_def Let_def)
qed (simp add: save_version_def cache_step_refl assms)

lemma find_saved_version_in: "find_saved_version s i = Inr v \<Longrightarrow> v \<in> set (wk_saved_versions s)"
  by (auto simp: find_saved_version_def dest: find_first_SomeD split: option.splits)

lemma resume_step:
  assumes "cache_ok c"
  shows "cache_step rt R' E c (snd (resume_version i v c))"
proof (cases "get_session i c")
  case (Inr s)
  show ?thesis
  proof (cases "lookup_saved_version s v")
    case (Inr w)
    then have "session_step rt R' E s (apply_saved_workspace_version w s)"
      by (auto simp: lookup_saved_version_def intro: session_step.resumed find_saved_version_in)
    from cache_step_save [OF assms get_session_cached [OF \<open>get_session i c = Inr s\<close>] step_steps [OF this]]
    show ?thesis using Inr \<open>get_session i c = Inr s\<close> by (simp add: resume_version_def)
  qed (simp add: resume_version_def Inr cache_step_refl assms)
qed (simp add: resume_version_def cache_step_refl assms)

subsection \<open>Handoffs\<close>

text \<open>The request each branch sends, and what a successful answer says of the proposal.\<close>

definition create_sent ::
  "runtime \<Rightarrow> proposal_service \<Rightarrow> lifecycle_inputs \<Rightarrow> create_payload \<Rightarrow> string \<Rightarrow> string option \<Rightarrow> string
     \<Rightarrow> jobject \<Rightarrow> jobject \<Rightarrow> proposal_request" where
  "create_sent rt ps lf q key cid workspace_id lineage override =
     RQ_Create \<lparr>cq_created_by = cp_created_by q, cq_content = dump_create_payload q\<rparr> key cid
       \<lparr>co_lifecycle_origin = LO_WORKSPACE_HANDOFF, co_source_workspace_id = Some workspace_id,
        co_replay_lineage = Some lineage, co_context_override = Some override,
        co_store_evidence_bundle = pv_store_evidence_bundle ps,
        co_require_simulation_flag = pv_require_simulation_flag ps\<rparr> (lf_now lf) (lf_ids lf)"

definition version_sent ::
  "proposal_service \<Rightarrow> lifecycle_inputs \<Rightarrow> string \<Rightarrow> version_payload \<Rightarrow> string option
     \<Rightarrow> jobject \<Rightarrow> jobject \<Rightarrow> proposal_request" where
  "version_sent ps lf pid q cid lineage override =
     RQ_Version pid \<lparr>vq_created_by = vp_created_by q,
        vq_expected_current_version_no = vp_expected_current_version_no q,
        vq_content = dump_version_payload q\<rparr> cid
       \<lparr>vo_replay_lineage = Some lineage, vo_context_override = Some override,
        vo_store_evidence_bundle = pv_store_evidence_bundle ps,
        vo_require_simulation_flag = pv_require_simulation_flag ps,
        vo_allow_portfolio_change = pv_allow_portfolio_change ps\<rparr> (lf_now lf) (lf_ids lf)"

lemma port_create_run:
  "snd (port_create_proposal rt ps lf q key cid w lin ov R) =
     run_request rt (pv_services ps) (create_sent rt ps lf q key cid w lin ov) R"
  by (simp add: port_create_proposal_def create_sent_def)

lemma port_version_run:
  "snd (port_create_version rt ps lf pid q cid lin ov R) =
     run_request rt (pv_services ps) (version_sent ps lf pid q cid lin ov) R"
  by (simp add: port_create_version_def version_sent_def)

definition repository_fine :: "repository \<Rightarrow> bool" where
  "repository_fine R \<longleftrightarrow> repository_ok R \<and> versions_keyed R"

text \<open>A request to the proposal service keeps its invariant and only extends what is there.\<close>

definition grows_fine :: "repository \<Rightarrow> repository \<Rightarrow> bool" where
  "grows_fine R R' \<longleftrightarrow> repository_fine R' \<and> extends R R'"

lemma grows_fine_refl: "repository_fine R \<Longrightarrow> grows_fine R R"
  by (simp add: grows_fine_def)

lemma request_grows:
  assumes "repository_fine R"
    and "\<And>w. prepare_request rt sv q R = Some w \<Longrightarrow> fresh_write w R"
  shows "grows_fine R (run_request rt sv q R)"
  using assms run_request_ok [of R rt sv q]
  by (simp add: grows_fine_def repository_fine_def versions_keyed_request)

lemma create_sent_fresh:
  assumes "get_proposal (ni_proposal_id (lf_ids lf)) R = None"
    and "prepare_request rt sv (create_sent rt ps lf q key cid w lin ov) R = Some x"
  shows "fresh_write x R"
proof -
  obtain c v where x: "x = PW_Create c v"
    and "prepare_create rt sv \<lparr>cq_created_by = cp_created_by q, cq_content = dump_create_payload q\<rparr>
      key cid \<lparr>co_lifecycle_origin = LO_WORKSPACE_HANDOFF, co_source_workspace_id = Some w,
        co_replay_lineage = Some lin, co_context_override = Some ov,
        co_store_evidence_bundle = pv_store_evidence_bundle ps,
        co_require_simulation_flag = pv_require_simulation_flag ps\<rparr> (lf_now lf) (lf_ids lf) R
      = Inr (Inr (c, v))"
    using assms(2) by (auto simp: create_sent_def dest!: planned_SomeD)
  from this(2) have "pr_proposal_id (cc_proposal c) = ni_proposal_id (lf_ids lf)"
    by (rule prepare_create_write, simp)
  with assms(1) x show ?thesis by simp
qed

lemma version_sent_fresh:
  "prepare_request rt sv (version_sent ps lf pid q cid lin ov) R = Some x \<Longrightarrow> fresh_write x R"
  by (auto simp: version_sent_def)

definition answers_link ::
  "repository \<Rightarrow> lifecycle_link option \<Rightarrow> create_response \<Rightarrow> bool" where
  "answers_link R' link r \<longleftrightarrow>
     (\<exists>p. get_proposal (ps_proposal_id (cr_proposal r)) R' = Some p
        \<and> 1 \<le> vd_version_no (cr_version r) \<and> vd_version_no (cr_version r) \<le> pr_current_version_no p)
     \<and> (\<forall>l. link = Some l \<longrightarrow> ps_proposal_id (cr_proposal r) = ln_proposal_id l
          \<and> vd_version_no (cr_version r) = ln_current_version_no l + 1)"

lemma create_response_view:
  "ps_proposal_id (cr_proposal (to_create_response rt p v e)) = pr_proposal_id p"
  "vd_version_no (cr_version (to_create_response rt p v e)) = pv_version_no v"
  by (simp_all add: to_create_response_def to_proposal_summary_def to_version_detail_def)

lemma port_create_answers:
  assumes "port_create_proposal rt ps lf q key cid w lin ov R = (Inr r, R')" and "repository_fine R"
  shows "answers_link R' None r"
  using assms
  by (auto simp: port_create_proposal_def repository_fine_def answers_link_def create_response_view
      elim!: create_answers)

lemma port_version_answers:
  assumes "port_create_version rt ps lf pid q cid lin ov R = (Inr r, R')" and "repository_fine R"
    and "vp_expected_current_version_no q = Some n" and "0 \<le> n" and "pid = ln_proposal_id l"
    and "n = ln_current_version_no l"
  shows "answers_link R' (Some l) r"
proof -
  have R: "repository_ok R" using assms(2) by (simp add: repository_fine_def)
  show ?thesis
    using assms(1) unfolding port_create_version_def
    by (rule version_answers [OF _ R])
      (use assms(3-6) in \<open>simp add: answers_link_def create_response_view\<close>)
qed

lemma port_result_simps:
  "snd (port_result a lin r) = snd r"
  "fst (port_result a lin r) = Inr x \<longleftrightarrow> (\<exists>y. fst r = Inr y \<and> x = (y, lin, a))"
  by (auto simp: port_result_def bind_error_Inr_iff)

lemma execute_create_run:
  assumes "execute_create rt wx ps lf i h s R = ((x, R'), s1)" and "repository_fine R"
    and "get_proposal (ni_proposal_id (lf_ids lf)) R = None"
  shows "\<exists>c. s1 = s \<or> s1 = s\<lparr>wk_resolved_context := Some c\<rparr>" and "grows_fine R R'"
    and "x = Inr (r, lin, a) \<Longrightarrow> answers_link R' None r \<and> a = HA_CREATED_PROPOSAL"
proof -
  obtain req t where t: "build_simulate_request wx s = (req, t)" by fastforce
  show "\<exists>c. s1 = s \<or> s1 = s\<lparr>wk_resolved_context := Some c\<rparr>"
    using assms(1) build_simulate_request_keeps(4) [OF t]
    by (auto simp: execute_create_def t split: sum.splits)
  have sent: "(R' = R \<and> (\<forall>y. x \<noteq> Inr y)) \<or> (\<exists>q key cid w lin ov.
      port_result HA_CREATED_PROPOSAL lin (port_create_proposal rt ps lf q key cid w lin ov R) = (x, R'))"
    using assms(1) by (auto simp: execute_create_def t Let_def split: sum.splits; blast)
  then show "grows_fine R R'"
  proof
    assume "\<exists>q key cid w lin ov.
      port_result HA_CREATED_PROPOSAL lin (port_create_proposal rt ps lf q key cid w lin ov R) = (x, R')"
    then obtain q key cid w lin ov where
      "port_result HA_CREATED_PROPOSAL lin (port_create_proposal rt ps lf q key cid w lin ov R) = (x, R')"
      by blast
    then have "R' = run_request rt (pv_services ps) (create_sent rt ps lf q key cid w lin ov) R"
      by (metis port_create_run port_result_simps(1) snd_conv)
    then show ?thesis
      using request_grows [OF assms(2)] create_sent_fresh [OF assms(3)] by metis
  qed (simp add: grows_fine_refl assms(2))
  assume "x = Inr (r, lin, a)"
  with sent obtain q key cid w lin' ov where
    "port_result HA_CREATED_PROPOSAL lin' (port_create_proposal rt ps lf q key cid w lin' ov R) = (x, R')"
    by blast
  with \<open>x = Inr (r, lin, a)\<close> have "port_create_proposal rt ps lf q key cid w lin' ov R = (Inr r, R')"
    and "a = HA_CREATED_PROPOSAL"
    by (metis port_result_simps fst_conv snd_conv prod.collapse prod.inject)+
  then show "answers_link R' None r \<and> a = HA_CREATED_PROPOSAL"
    using port_create_answers [OF _ assms(2)] by blast
qed

lemma execute_version_run:
  assumes "execute_version rt wx ps lf l h s R = ((x, R'), s1)" and "repository_fine R"
    and "wk_lifecycle_link s = Some l" and "0 \<le> ln_current_version_no l"
  shows "\<exists>c. s1 = s \<or> s1 = s\<lparr>wk_resolved_context := Some c\<rparr>" and "grows_fine R R'"
    and "x = Inr (r, lin, a) \<Longrightarrow> answers_link R' (Some l) r \<and> a = HA_CREATED_PROPOSAL_VERSION"
proof -
  obtain req t where t: "build_simulate_request wx s = (req, t)" by fastforce
  show s1: "\<exists>c. s1 = s \<or> s1 = s\<lparr>wk_resolved_context := Some c\<rparr>"
    using assms(1) build_simulate_request_keeps(4) [OF t]
    by (auto simp: execute_version_def t split: sum.splits)
  have "wk_lifecycle_link t = Some l"
    using build_simulate_request_keeps(1) [OF t] assms(3) by (simp add: keeps_def)
  then have expected: "vp_expected_current_version_no (build_proposal_version_request t g sim) =
      Some (ln_current_version_no l)" for g sim
    by (simp add: build_proposal_version_request_def)
  have sent: "(R' = R \<and> (\<forall>y. x \<noteq> Inr y)) \<or> (\<exists>q cid lin ov.
      vp_expected_current_version_no q = Some (ln_current_version_no l)
      \<and> port_result HA_CREATED_PROPOSAL_VERSION lin
          (port_create_version rt ps lf (ln_proposal_id l) q cid lin ov R) = (x, R'))"
    using assms(1) expected by (auto simp: execute_version_def t Let_def split: sum.splits; blast)
  then show "grows_fine R R'"
  proof
    assume "\<exists>q cid lin ov. vp_expected_current_version_no q = Some (ln_current_version_no l)
      \<and> port_result HA_CREATED_PROPOSAL_VERSION lin
          (port_create_version rt ps lf (ln_proposal_id l) q cid lin ov R) = (x, R')"
    then obtain q cid lin ov where
      "port_result HA_CREATED_PROPOSAL_VERSION lin
          (port_create_version rt ps lf (ln_proposal_id l) q cid lin ov R) = (x, R')"
      by blast
    then have "R' = run_request rt (pv_services ps) (version_sent ps lf (ln_proposal_id l) q cid lin ov) R"
      by (metis port_version_run port_result_simps(1) snd_conv)
    then show ?thesis
      using request_grows [OF assms(2)] version_sent_fresh by metis
  qed (simp add: grows_fine_refl assms(2))
  assume "x = Inr (r, lin, a)"
  with sent obtain q cid lin' ov where q: "vp_expected_current_version_no q = Some (ln_current_version_no l)"
    and "port_result HA_CREATED_PROPOSAL_VERSION lin'
          (port_create_version rt ps lf (ln_proposal_id l) q cid lin' ov R) = (x, R')"
    by blast
  with \<open>x = Inr (r, lin, a)\<close> have "port_create_version rt ps lf (ln_proposal_id l) q cid lin' ov R = (Inr r, R')"
    and "a = HA_CREATED_PROPOSAL_VERSION"
    by (metis port_result_simps fst_conv snd_conv prod.collapse prod.inject)+
  then show "answers_link R' (Some l) r \<and> a = HA_CREATED_PROPOSAL_VERSION"
    using port_version_answers [OF _ assms(2) q assms(4)] by blast
qed

lemma handoff_step:
  assumes "handoff_to_proposal_lifecycle rt wx ps lf i h c R = (res, c', R')"
    and "cache_ok c" and "repository_fine R" and "\<And>s. cached c s \<Longrightarrow> link_ok R s"
    and "get_proposal (ni_proposal_id (lf_ids lf)) R = None"
  shows "grows_fine R R'" and "cache_step rt R' E c c'"
proof -
  have "grows_fine R R' \<and> cache_step rt R' E c c'"
  proof (cases "get_session i c")
    case (Inl e)
    then show ?thesis
      using assms(1-3) by (simp add: handoff_to_proposal_lifecycle_def cache_step_refl grows_fine_refl)
  next
    case (Inr s)
    note s = this
    obtain x Rx s1 where run: "(case wk_lifecycle_link s of
          None \<Rightarrow> execute_create rt wx ps lf i h s R
        | Some link \<Rightarrow> execute_version rt wx ps lf link h s R) = ((x, Rx), s1)" by (metis prod.exhaust)
    have link: "0 \<le> ln_current_version_no l" if "wk_lifecycle_link s = Some l" for l
      using assms(4) [OF get_session_cached [OF s]] that by (auto simp: link_ok_def)
    have s1: "\<exists>c. s1 = s \<or> s1 = s\<lparr>wk_resolved_context := Some c\<rparr>" and grow: "grows_fine R Rx"
      and answer: "x = Inr (r, lin, a) \<Longrightarrow> answers_link Rx (wk_lifecycle_link s) r" for r lin a
      using run execute_create_run [OF _ assms(3,5)] execute_version_run [OF _ assms(3)] link
      by (cases "wk_lifecycle_link s"; auto; blast)+
    have steps: "session_steps rt Rx E s s1" using s1 by (auto intro: session_step.reresolved)
    show ?thesis
    proof (cases "lift_error handoff_operation_error x")
      case (Inl e)
      with assms(1) s run have "R' = Rx" "c' = write_through s1 c"
        by (simp_all add: handoff_to_proposal_lifecycle_def)
      then show ?thesis using grow cache_step_write [OF assms(2) s steps] by simp
    next
      case (Inr y)
      obtain r lin a where y: "y = (r, lin, a)" by (metis prod.exhaust)
      let ?s2 = "complete_workspace_lifecycle_handoff rt h y s1"
      have out: "R' = Rx" "c' = save_session ?s2 (write_through s1 c)"
        using assms(1) s run Inr by (simp_all add: handoff_to_proposal_lifecycle_def Let_def)
      have "answers_link Rx (wk_lifecycle_link s1) r"
        using answer Inr y s1 by auto
      then have "session_step rt Rx E s1 ?s2"
        unfolding y complete_workspace_lifecycle_handoff_def answers_link_def
        by (auto simp: Let_def intro: session_step.handed)
      then have "cache_step rt Rx E c (save_session ?s2 (write_through s1 c))"
        using cache_step_update [OF assms(2) s steps] by blast
      then show ?thesis using grow out by simp
    qed
  qed
  then show "grows_fine R R'" and "cache_step rt R' E c c'" by auto
qed

subsection \<open>The invariant\<close>

definition workspaces_ok :: "session_cache \<times> repository \<Rightarrow> bool" where
  "workspaces_ok S \<longleftrightarrow> cache_ok (fst S) \<and> repository_fine (snd S)
     \<and> (\<forall>s. cached (fst S) s \<longrightarrow> own_ok s \<and> link_ok (snd S) s)"

lemma link_ok_extends: "extends R R' \<Longrightarrow> link_ok R s \<Longrightarrow> link_ok R' s"
  unfolding link_ok_def using extends_proposal by (meson order_trans)

lemma step_link_ok: "session_step rt R' E s s' \<Longrightarrow> link_ok R' s \<Longrightarrow> link_ok R' s'"
proof (induction rule: session_step.induct)
  case (evaluated wx u now sim s s')
  then show ?case using evaluate_workspace_keeps(1) by (auto simp: keeps_def link_ok_def)
qed (auto simp: link_ok_def apply_saved_workspace_version_def refresh_saved_version_metadata_def)

lemma steps_ok:
  "session_steps rt R' E s s' \<Longrightarrow> own_ok s \<and> link_ok R' s \<Longrightarrow> own_ok s' \<and> link_ok R' s'"
  by (induction rule: rtranclp_induct) (auto intro: step_own_ok step_link_ok)

lemma workspaces_ok_step:
  assumes "workspaces_ok (c, R)" and "grows_fine R R'" and "cache_step rt R' E c c'"
  shows "workspaces_ok (c', R')"
proof -
  have "own_ok t \<and> link_ok R' t" if "cached c' t" for t
  proof -
    obtain t0 where "cached c t0" and "session_steps rt R' E t0 t"
      using assms(3) \<open>cached c' t\<close> unfolding cache_step_def by blast
    moreover from this(1) have "own_ok t0 \<and> link_ok R' t0"
      using assms(1,2) link_ok_extends by (auto simp: workspaces_ok_def grows_fine_def)
    ultimately show ?thesis using steps_ok by blast
  qed
  then show ?thesis using assms by (simp add: workspaces_ok_def grows_fine_def cache_step_def)
qed

lemma created_session_ok:
  assumes "bind_error (build_initial_context wx (ci_draft_ids ci) q) (\<lambda>(cx, d).
      build_workspace_session q i now d cx) = Inr s"
    and "inj (di_trade (ci_draft_ids ci))" and "inj (di_cash_flow (ci_draft_ids ci))"
  shows "own_ok s" and "link_ok R s" and "wk_workspace_id s = i"
    and "wk_saved_versions s = []" and "wk_latest_replay_evidence s = None"
proof -
  obtain cx d where d: "build_initial_context wx (ci_draft_ids ci) q = Inr (cx, d)"
    and s: "build_workspace_session q i now d cx = Inr s"
    using assms(1) by (auto simp: bind_error_Inr_iff)
  have "draft_ok d"
    using d built_draft_ok [OF assms(2,3)]
    by (auto simp: build_initial_context_def empty_draft_state_def draft_ok_def trade_dict_def
        cash_flow_dict_def split: input_mode.splits option.splits sum.splits if_splits)
  then show "own_ok s" and "link_ok R s" and "wk_workspace_id s = i"
    and "wk_saved_versions s = []" and "wk_latest_replay_evidence s = None"
    using s by (auto simp: build_workspace_session_def Let_def bind_error_Inr_iff own_ok_def link_ok_def)
qed

lemma perform_command_ok:
  assumes "workspaces_ok (c, R)" and "fresh_ids rt ps ci cmd (c, R)"
  shows "workspaces_ok (perform_command rt wx ps ci cmd (c, R))"
proof -
  have c: "cache_ok c" and R: "repository_fine R" using assms(1) by (simp_all add: workspaces_ok_def)
  note session = workspaces_ok_step [OF assms(1) grows_fine_refl [OF R], where rt = rt and E = True]
  show ?thesis
  proof (cases cmd)
    case (WC_Create q)
    then show ?thesis
      using assms c created_session_ok [of wx ci q "ci_new_id ci" "ci_now ci"]
      by (auto simp: create_session_def workspaces_ok_def save_session_ok dest: cached_save
          split: sum.splits)
  next
    case (WC_Handoff i h lf)
    obtain res c' R' where h: "handoff_to_proposal_lifecycle rt wx ps lf i h c R = (res, c', R')"
      by (metis prod.exhaust)
    have "link_ok R s" if "cached c s" for s using assms(1) that by (simp add: workspaces_ok_def)
    then show ?thesis
      using handoff_step [OF h c R] assms WC_Handoff h by (auto intro: workspaces_ok_step)
  next
    case (WC_Resize n)
    then show ?thesis
      using assms(1) resize_ok [of n c] by (auto simp: workspaces_ok_def split: sum.splits)
  next
    case WC_Reset
    then show ?thesis
      using assms(1) by (auto simp: workspaces_ok_def reset_sessions_def cache_ok_def cached_def)
  next
    case (WC_Proposal q)
    have "grows_fine R (run_request rt (pv_services ps) q R)"
      using assms(2) WC_Proposal by (intro request_grows [OF R]) simp
    then show ?thesis
      using workspaces_ok_step [OF assms(1) _ cache_step_refl [OF c]] WC_Proposal by simp
  qed (use c assms(2) in \<open>auto intro!: session reevaluate_step action_step save_version_step resume_step\<close>)
qed

lemma workspace_reachable_ok: "workspace_reachable rt ps S \<Longrightarrow> workspaces_ok S"
proof (induction rule: workspace_reachable.induct)
  case (start n)
  have "repository_ok empty_repository" using system_ok_initial by (simp add: system_ok_def initial_system_def)
  moreover have "versions_keyed empty_repository"
    by (simp add: versions_keyed_def empty_repository_def get_version_def)
  ultimately show ?case
    using start by (simp add: workspaces_ok_def cache_ok_def repository_fine_def cached_def)
next
  case (step S ci cmd wx)
  then show ?case using perform_command_ok by (cases S) blast
qed

subsection \<open>Evidence of the draft\<close>

text \<open>The evidence of a session, and of each saved version, was taken of that very draft.\<close>

definition evidence_of_draft :: "runtime \<Rightarrow> workspace_session \<Rightarrow> bool" where
  "evidence_of_draft rt s \<longleftrightarrow>
     (\<forall>e. wk_latest_replay_evidence s = Some e \<longrightarrow>
        we_draft_state_hash e = build_draft_state_hash rt (wk_draft_state s))
     \<and> (\<forall>v\<in>set (wk_saved_versions s).
        we_draft_state_hash (wv_replay_evidence v) = build_draft_state_hash rt (wv_draft_state v))"

lemma step_evidence:
  "session_step rt R' E s s' \<Longrightarrow> \<not> E \<Longrightarrow> evidence_of_draft rt s \<Longrightarrow> evidence_of_draft rt s'"
proof (induction rule: session_step.induct)
  case (evaluated wx u now sim s s')
  have "wk_saved_versions s' = wk_saved_versions s"
    using evaluate_workspace_keeps(1) [OF evaluated.hyps] by (simp add: keeps_def)
  then show ?case
    using evaluated.prems evaluate_workspace_keeps(2,3) [OF evaluated.hyps]
    by (auto simp: evidence_of_draft_def)
next
  case (handed l' p s lineage)
  let ?f = "\<lambda>v. (we_draft_state_hash (wv_replay_evidence v), wv_draft_state v)"
  let ?t = "apply_workspace_handoff_replay_lineage rt lineage s"
  have "map ?f (wk_saved_versions ?t) = map ?f (wk_saved_versions s)"
    by (rule lineage_saved_versions) (simp add: with_continuity_def)
  then have eq: "?f ` set (wk_saved_versions ?t) = ?f ` set (wk_saved_versions s)"
    by (metis list.set_map)
  have "(\<forall>x\<in>?f ` set (wk_saved_versions ?t). fst x = build_draft_state_hash rt (snd x))
      \<longleftrightarrow> (\<forall>x\<in>?f ` set (wk_saved_versions s). fst x = build_draft_state_hash rt (snd x))"
    unfolding eq ..
  then show ?case
    using handed.prems(2) lineage_fields(2,7) [of rt lineage s] by (auto simp: evidence_of_draft_def)
qed (auto simp: evidence_of_draft_def apply_saved_workspace_version_def refresh_saved_version_metadata_def
      build_saved_workspace_version_def build_replay_evidence_def split: option.splits)

lemma steps_evidence:
  "session_steps rt R' False s s' \<Longrightarrow> evidence_of_draft rt s \<Longrightarrow> evidence_of_draft rt s'"
  by (induction rule: rtranclp_induct) (auto intro: step_evidence)

text \<open>After an action that was answered, the cache holds the evaluated session.\<close>

lemma cached_save_other:
  assumes "cached (save_session s c) t" and "cache_ok c"
  shows "t = s \<or> (cached c t \<and> wk_workspace_id t \<noteq> wk_workspace_id s)"
proof -
  obtain k where "(k, t) \<in> set (sk_sessions (save_session s c))" using assms(1) by (auto simp: cached_def)
  then have "(k, t) \<in> set (filter (\<lambda>kv. fst kv \<noteq> wk_workspace_id s) (sk_sessions c) @ [(wk_workspace_id s, s)])"
    using sessions_of_save [OF assms(2), of s] set_last_n by fastforce
  then show ?thesis using assms(2) by (auto simp: cached_def cache_ok_def)
qed

lemma answered_action:
  assumes "apply_draft_action rt wx ci i q c = (Inr s2, c')" and "cache_ok c"
  obtains s where "get_session i c = Inr s" and "wk_saved_versions s2 = wk_saved_versions s"
    and "\<exists>e. wk_latest_replay_evidence s2 = Some e
      \<and> we_draft_state_hash e = build_draft_state_hash rt (wk_draft_state s2)
      \<and> we_evaluation_request_hash e \<noteq> None"
    and "\<And>t. cached c' t \<Longrightarrow> t = s2 \<or> cached c t"
    and "apply_workspace_draft_action_to_state (ci_new_id ci) q (wk_draft_state s) = Inr (wk_draft_state s2)"
proof -
  obtain s d where s: "get_session i c = Inr s"
    and d: "apply_workspace_draft_action_to_state (ci_new_id ci) q (wk_draft_state s) = Inr d"
    and re: "reevaluate_session rt wx ci i (save_session (s\<lparr>wk_draft_state := d\<rparr>) c) = (Inr s2, c')"
    using assms(1) by (auto simp: apply_draft_action_def split: sum.splits)
  let ?s0 = "s\<lparr>wk_draft_state := d\<rparr>"
  let ?c1 = "save_session ?s0 c"
  have id: "wk_workspace_id ?s0 = i" using get_session_id [OF assms(2) s] by simp
  have get: "get_session i ?c1 = Inr ?s0" using get_save_same [OF assms(2), of ?s0] id by simp
  obtain r s1 where r: "build_simulate_request wx ?s0 = (r, s1)" by fastforce
  obtain sim where ev: "evaluate_workspace rt wx (ci_uuid_hex ci) (ci_now ci) sim s1 = Inr s2"
    and c': "c' = save_session s2 (write_through s1 ?c1)"
    using re by (auto simp: reevaluate_session_def get r bind_error_Inr_iff split: sum.splits)
  note keeps1 = build_simulate_request_keeps(1,2) [OF r] and keeps2 = evaluate_workspace_keeps [OF ev]
  have ids: "wk_workspace_id s1 = i" "wk_workspace_id s2 = i"
    using keeps1(1) keeps2(1) id by (simp_all add: keeps_id)
  have c1: "cache_ok ?c1" by (rule save_session_ok [OF assms(2)])
  have w: "cache_ok (write_through s1 ?c1)" using write_through_ok [OF c1] get ids by simp
  have rest: "t = s2 \<or> cached c t" if t: "cached c' t" for t
  proof (rule ccontr)
    assume no: "\<not> ?thesis"
    then have "cached (write_through s1 ?c1) t" "wk_workspace_id t \<noteq> i"
      using cached_save_other [OF t [unfolded c'] w] ids by auto
    then have "cached ?c1 t" using cached_write ids by blast
    then show False using cached_save [of ?s0 c t] no \<open>wk_workspace_id t \<noteq> i\<close> id by auto
  qed
  show thesis
    using that [OF s _ _ rest] keeps1 keeps2 d by (simp add: keeps_def)
qed

end
