(* ===== verification/Workspace_Guarantees.thy ===== *)
theory Workspace_Guarantees
  imports Workspace_System "HOL-Library.Sublist"
begin

text \<open>
  What runs of the combined system guarantee: saved versions outlive later edits, a handoff
  continues the proposal it started, a repeated handoff finds the same proposal, the context a
  handoff passes is accepted, and refusals carry screened details.
\<close>

subsection \<open>Growth\<close>

definition grown :: "workspace_session \<Rightarrow> workspace_session \<Rightarrow> bool" where
  "grown s s' \<longleftrightarrow> session_identity s' = session_identity s
     \<and> prefix (map frozen (wk_saved_versions s)) (map frozen (wk_saved_versions s'))
     \<and> (\<forall>l. wk_lifecycle_link s = Some l \<longrightarrow> (\<exists>l'. wk_lifecycle_link s' = Some l'
          \<and> ln_proposal_id l' = ln_proposal_id l
          \<and> ln_current_version_no l \<le> ln_current_version_no l'))"

lemma grown_refl [simp]: "grown s s"
  by (simp add: grown_def)

lemma grown_trans: "grown s t \<Longrightarrow> grown t u \<Longrightarrow> grown s u"
  unfolding grown_def by (metis order_trans prefix_order.trans)

lemma keeps_grown: "keeps s s' \<Longrightarrow> grown s s'"
  by (simp add: keeps_def grown_def)

lemma frozen_with_continuity: "frozen (with_continuity l v) = frozen v"
  by (simp add: frozen_def with_continuity_def)

lemma step_grown: "session_step rt R' E s s' \<Longrightarrow> grown s s'"
proof (induction rule: session_step.induct)
  case (evaluated wx u now sim s s')
  then show ?case using evaluate_workspace_keeps(1) keeps_grown by blast
next
  case (resumed v s)
  show ?case by (rule keeps_grown [OF resume_keeps])
next
  case (handed l' p s lineage)
  let ?t = "apply_workspace_handoff_replay_lineage rt lineage s"
  have "map frozen (wk_saved_versions ?t) = map frozen (wk_saved_versions s)"
    by (rule lineage_saved_versions) (rule frozen_with_continuity)
  moreover have "session_identity (?t\<lparr>wk_lifecycle_link := Some l'\<rparr>) = session_identity s"
    using lineage_fields(1) [of rt lineage s] by (simp add: session_identity_def)
  ultimately show ?case using handed.hyps(4) by (simp add: grown_def)
qed (auto simp: grown_def session_identity_def refresh_saved_version_metadata_def)

lemma steps_grown: "session_steps rt R' E s s' \<Longrightarrow> grown s s'"
  by (induction rule: rtranclp_induct) (auto dest: step_grown intro: grown_trans)

lemma cached_get: "cache_ok c \<Longrightarrow> cached c s \<Longrightarrow> get_session (wk_workspace_id s) c = Inr s"
proof -
  assume ok: "cache_ok c" and "cached c s"
  then obtain k where k: "(k, s) \<in> set (sk_sessions c)" by (auto simp: cached_def)
  with ok have "wk_workspace_id s = k" and "distinct (map fst (sk_sessions c))"
    by (auto simp: cache_ok_def dict_wf_def)
  with k show ?thesis by (simp add: get_session_def)
qed

lemma cache_step_grown:
  assumes "cache_step rt R' E c c'" and "cache_ok c"
    and "get_session i c = Inr s" and "get_session i c' = Inr s'"
  shows "grown s s'"
proof -
  have "cached c' s'" by (rule get_session_cached [OF assms(4)])
  then obtain t where t: "cached c t" "session_steps rt R' E t s'"
    using assms(1) unfolding cache_step_def by blast
  have "wk_workspace_id s' = i" using assms(1,4) get_session_id unfolding cache_step_def by blast
  then have "get_session i c = Inr t" using cached_get [OF assms(2) t(1)] steps_id [OF t(2)] by simp
  then show ?thesis using assms(3) steps_grown [OF t(2)] by simp
qed

text \<open>No command touches a saved version, but for its continuity note.\<close>

lemma command_grown:
  assumes "workspaces_ok (c, R)" and "fresh_ids rt ps ci cmd (c, R)"
    and "perform_command rt wx ps ci cmd (c, R) = (c', R')"
    and "get_session i c = Inr s" and "get_session i c' = Inr s'"
  shows "grown s s'"
proof -
  have c: "cache_ok c" and R: "repository_fine R" using assms(1) by (simp_all add: workspaces_ok_def)
  have link: "link_ok R t" if "cached c t" for t using assms(1) that by (simp add: workspaces_ok_def)
  have same: "grown s s'" if "cached c s'"
  proof -
    have ok: "workspaces_ok (c', R')" using perform_command_ok [OF assms(1,2), where wx = wx] assms(3) by simp
    then have "wk_workspace_id s' = i" using assms(5) get_session_id by (auto simp: workspaces_ok_def)
    then have "get_session i c = Inr s'" using cached_get [OF c that] by simp
    then show ?thesis using assms(4) by simp
  qed
  have step: "grown s s'" if "cache_step rt R'' True c c'" for R''
    using cache_step_grown [OF that c assms(4,5)] .
  show ?thesis
  proof (cases cmd)
    case (WC_Create q)
    show ?thesis
    proof (cases "fst (create_session wx ci q c)")
      case (Inr t)
      with WC_Create assms(3) have c': "c' = save_session t c" and id: "wk_workspace_id t = ci_new_id ci"
        using assms(2) created_session_ok(3) [of wx ci q "ci_new_id ci" "ci_now ci"]
        by (auto simp: create_session_def split: sum.splits)
      have "i \<in> fst ` set (sk_sessions c)"
        using assms(4) by (force simp: get_session_def split: option.splits dest!: map_of_SomeD)
      moreover have "ci_new_id ci \<notin> fst ` set (sk_sessions c)" using assms(2) WC_Create by simp
      ultimately have "i \<noteq> wk_workspace_id t" unfolding id by blast
      have "wk_workspace_id s' = i"
        using get_session_id [OF save_session_ok [OF c]] assms(5) c' by blast
      then have "s' \<noteq> t" using \<open>i \<noteq> wk_workspace_id t\<close> by auto
      then show ?thesis using cached_save [of t c s'] get_session_cached [OF assms(5)] c' same by auto
    next
      case (Inl e)
      with WC_Create assms(3) have "c' = c" by (auto simp: create_session_def split: sum.splits)
      then show ?thesis using assms(4,5) by simp
    qed
  next
    case (WC_Handoff j h lf)
    then obtain res where "handoff_to_proposal_lifecycle rt wx ps lf j h c R = (res, c', R')"
      using assms(3) by (metis perform_command.simps(6) surjective_pairing)
    from handoff_step(2) [OF this c R link] show ?thesis using assms(2) WC_Handoff step by auto
  next
    case (WC_Resize n)
    then show ?thesis
      using assms(3) same resize_ok(2) [of n c] c get_session_cached [OF assms(5)]
      by (auto split: sum.splits)
  next
    case WC_Reset
    then show ?thesis using assms(3,5) by (auto simp: reset_sessions_def get_session_def)
  next
    case (WC_Proposal q)
    then show ?thesis using assms(3-5) by auto
  qed (use assms(2,3) c in \<open>auto intro!: step [of R] reevaluate_step action_step save_version_step resume_step\<close>)
qed

text \<open>A session leaves the cache only by a reset, a new limit or the eviction a new session causes.\<close>

lemma command_keeps_cached:
  assumes "workspaces_ok (c, R)" and "fresh_ids rt ps ci cmd (c, R)"
    and "perform_command rt wx ps ci cmd (c, R) = (c', R')"
    and "get_session i c = Inr s" and "isl (get_session i c')"
  shows "cmd = WC_Reset \<or> (\<exists>n. cmd = WC_Resize n)
    \<or> (\<exists>q. cmd = WC_Create q \<and> int (length (sk_sessions c)) = sk_max_size c)"
proof -
  have c: "cache_ok c" and R: "repository_fine R" using assms(1) by (simp_all add: workspaces_ok_def)
  have link: "link_ok R t" if "cached c t" for t using assms(1) that by (simp add: workspaces_ok_def)
  have lost: "\<not> cached_ids c \<subseteq> cached_ids c'"
    using assms(4,5) cached_ids_get [of i c] cached_ids_get [of i c'] by (auto dest: subsetD)
  have no_step: False if "cache_step rt R'' True c c'" for R'' using that lost by (simp add: cache_step_def)
  show ?thesis
  proof (cases cmd)
    case (WC_Create q)
    show ?thesis
    proof (cases "fst (create_session wx ci q c)")
      case (Inr t)
      with WC_Create assms(3) have c': "c' = save_session t c" by (auto simp: create_session_def split: sum.splits)
      have "\<not> int (length (sk_sessions c)) < sk_max_size c"
        using lost save_with_room [OF c, of t] c' by auto
      then show ?thesis using c WC_Create by (simp add: cache_ok_def)
    next
      case (Inl e)
      with WC_Create assms(3) have "c' = c" by (auto simp: create_session_def split: sum.splits)
      then show ?thesis using lost by simp
    qed
  next
    case (WC_Handoff j h lf)
    then obtain res where "handoff_to_proposal_lifecycle rt wx ps lf j h c R = (res, c', R')"
      using assms(3) by (metis perform_command.simps(6) surjective_pairing)
    from handoff_step(2) [OF this c R link] show ?thesis using assms(2) WC_Handoff no_step by auto
  next
    case (WC_Proposal q)
    then show ?thesis using assms(3) lost by auto
  next
    case (WC_Reevaluate j)
    then have "c' = snd (reevaluate_session rt wx ci j c)" using assms(3) by simp
    with no_step reevaluate_step [OF c] show ?thesis by blast
  next
    case (WC_Action j q)
    then have "c' = snd (apply_draft_action rt wx ci j q c)" using assms(3) by simp
    with no_step [of R] action_step [OF c, where ci = ci and i = j] assms(2) WC_Action show ?thesis by auto
  next
    case (WC_Save j q)
    then have "c' = snd (save_version rt ci j q c)" using assms(3) by simp
    with no_step save_version_step [OF c] show ?thesis by blast
  next
    case (WC_Resume j v)
    then have "c' = snd (resume_version j v c)" using assms(3) by simp
    with no_step resume_step [OF c] show ?thesis by blast
  qed simp_all
qed

subsection \<open>Runs\<close>

text \<open>A command with what its call reads and what the services answer to it.\<close>

type_synonym timed_command = "workspace_services \<times> call_inputs \<times> workspace_command"

fun run_commands ::
  "runtime \<Rightarrow> proposal_service \<Rightarrow> timed_command list \<Rightarrow> session_cache \<times> repository \<Rightarrow> session_cache \<times> repository" where
  "run_commands rt ps [] S = S"
| "run_commands rt ps ((wx, ci, cmd) # cmds) S =
     run_commands rt ps cmds (perform_command rt wx ps ci cmd S)"

fun run_fresh ::
  "runtime \<Rightarrow> proposal_service \<Rightarrow> timed_command list \<Rightarrow> session_cache \<times> repository \<Rightarrow> bool" where
  "run_fresh rt ps [] S \<longleftrightarrow> True"
| "run_fresh rt ps ((wx, ci, cmd) # cmds) S \<longleftrightarrow>
     fresh_ids rt ps ci cmd S \<and> run_fresh rt ps cmds (perform_command rt wx ps ci cmd S)"

text \<open>The session is never evicted or cleared in between.\<close>

fun stays_cached ::
  "runtime \<Rightarrow> proposal_service \<Rightarrow> string \<Rightarrow> timed_command list \<Rightarrow> session_cache \<times> repository \<Rightarrow> bool" where
  "stays_cached rt ps i [] S \<longleftrightarrow> \<not> isl (get_session i (fst S))"
| "stays_cached rt ps i ((wx, ci, cmd) # cmds) S \<longleftrightarrow>
     \<not> isl (get_session i (fst S)) \<and> stays_cached rt ps i cmds (perform_command rt wx ps ci cmd S)"

lemma run_reachable:
  "workspace_reachable rt ps S \<Longrightarrow> run_fresh rt ps cmds S \<Longrightarrow>
     workspace_reachable rt ps (run_commands rt ps cmds S)"
  by (induction rt ps cmds S rule: run_commands.induct) (auto intro: workspace_reachable.step)

lemma run_grown:
  assumes "workspaces_ok S" and "run_fresh rt ps cmds S" and "stays_cached rt ps i cmds S"
    and "get_session i (fst S) = Inr s"
  shows "\<exists>s'. get_session i (fst (run_commands rt ps cmds S)) = Inr s' \<and> grown s s'"
  using assms
proof (induction cmds arbitrary: S s)
  case (Cons x cmds)
  obtain wx ci cmd c R where x: "x = (wx, ci, cmd)" "S = (c, R)" by (metis prod.exhaust)
  let ?S = "perform_command rt wx ps ci cmd S"
  have "stays_cached rt ps i cmds ?S" using Cons.prems(3) x by simp
  then have "\<not> isl (get_session i (fst ?S))" by (cases cmds) (auto simp: split: prod.splits)
  then obtain t where t: "get_session i (fst ?S) = Inr t" by (cases "get_session i (fst ?S)") auto
  have fresh: "fresh_ids rt ps ci cmd (c, R)" and rest: "run_fresh rt ps cmds ?S"
    using Cons.prems(2) x by simp_all
  have "grown s t"
    using command_grown [OF Cons.prems(1) [unfolded x] fresh, of wx "fst ?S" "snd ?S" i s t]
      Cons.prems(4) t x by simp
  moreover have "workspaces_ok ?S" using perform_command_ok [OF Cons.prems(1) [unfolded x] fresh] x by simp
  ultimately show ?case
    using Cons.IH [OF _ rest \<open>stays_cached rt ps i cmds ?S\<close> t] x by (auto intro: grown_trans)
qed simp

subsection \<open>Save and resume\<close>

lemma prefix_map_nth:
  "prefix (map f xs) (map f ys) \<Longrightarrow> n < length xs \<Longrightarrow> n < length ys \<and> f (ys ! n) = f (xs ! n)"
  by (metis length_map nth_append nth_map prefix_def length_append trans_less_add1)

lemma find_first_prefix:
  assumes "prefix (map f xs) (map f ys)" and "\<And>v w. f v = f w \<Longrightarrow> P v = P w"
    and "find_first P xs = Some v"
  shows "\<exists>w. find_first P ys = Some w \<and> f w = f v"
  using assms(1,3)
proof (induction xs arbitrary: ys)
  case (Cons x xs)
  then obtain y ys' where y: "ys = y # ys'" "f x = f y" "prefix (map f xs) (map f ys')"
    by (cases ys) auto
  then show ?case using Cons assms(2) [of x y] by (auto split: if_splits)
qed simp

lemma find_first_append_case:
  "find_first P (xs @ ys) = (case find_first P xs of Some v \<Rightarrow> Some v | None \<Rightarrow> find_first P ys)"
  by (induction xs) auto

lemma frozen_fields:
  assumes "frozen v = frozen w"
  shows "wv_workspace_version_id v = wv_workspace_version_id w" and "wv_version_number v = wv_version_number w"
    and "wv_draft_state v = wv_draft_state w" and "wv_evaluation_summary v = wv_evaluation_summary w"
    and "wv_latest_proposal_result v = wv_latest_proposal_result w"
    and "(wv_replay_evidence v)\<lparr>we_continuity := []\<rparr> = (wv_replay_evidence w)\<lparr>we_continuity := []\<rparr>"
  using assms by (cases v; cases w; simp add: frozen_def with_continuity_def)+

text \<open>A version found in a session is found, unchanged, in whatever the session grows to.\<close>

lemma grown_version:
  assumes "grown s s'" and "find_saved_version s i = Inr v"
  obtains v' where "find_saved_version s' i = Inr v'" and "frozen v' = frozen v"
proof -
  let ?P = "\<lambda>v. wv_workspace_version_id v = i"
  have found: "find_first ?P (wk_saved_versions s) = Some v"
    using assms(2) by (auto simp: find_saved_version_def split: option.splits)
  have "prefix (map frozen (wk_saved_versions s)) (map frozen (wk_saved_versions s'))"
    using assms(1) by (simp add: grown_def)
  then obtain w where "find_first ?P (wk_saved_versions s') = Some w" and "frozen w = frozen v"
    using find_first_prefix [of frozen "wk_saved_versions s" "wk_saved_versions s'" ?P, OF _ _ found]
      frozen_fields(1) by metis
  then show thesis using that by (simp add: find_saved_version_def)
qed

lemma saved_then_resumed:
  assumes "workspaces_ok (c, R)" and "save_version rt ci i q c = (Inr (s1, v), c1)"
    and "\<And>s. get_session i c = Inr s \<Longrightarrow> ci_new_id ci \<notin> wv_workspace_version_id ` set (wk_saved_versions s)"
    and "run_fresh rt ps cmds (c1, R)" and "stays_cached rt ps i cmds (c1, R)"
    and "run_commands rt ps cmds (c1, R) = (c2, R2)"
  obtains s2 e where "resume_version i (wv_workspace_version_id v) c2 = (Inr s2, save_session s2 c2)"
    and "wk_draft_state s2 = wk_draft_state s1" and "wk_evaluation_summary s2 = wk_evaluation_summary s1"
    and "wk_latest_proposal_result s2 = wk_latest_proposal_result s1"
    and "wk_latest_replay_evidence s2 = Some e"
    and "e\<lparr>we_continuity := []\<rparr> = (wv_replay_evidence v)\<lparr>we_continuity := []\<rparr>"
proof -
  have c: "cache_ok c" using assms(1) by (simp add: workspaces_ok_def)
  obtain s where s: "get_session i c = Inr s"
    and v: "v = build_saved_workspace_version rt s q (ci_new_id ci) (ci_now ci)"
    and s1: "s1 = refresh_saved_version_metadata (s\<lparr>wk_saved_versions := wk_saved_versions s @ [v]\<rparr>)"
    and c1: "c1 = save_session s1 c"
    using assms(2) by (auto simp: save_version_def Let_def split: sum.splits)
  have id: "wk_workspace_id s1 = i"
    using get_session_id [OF c s] by (simp add: s1 refresh_saved_version_metadata_def)
  have get: "get_session i c1 = Inr s1" using get_save_same [OF c, of s1] by (simp add: c1 id)
  have vid: "wv_workspace_version_id v = ci_new_id ci" by (simp add: v build_saved_workspace_version_def)
  have "find_first (\<lambda>w. wv_workspace_version_id w = ci_new_id ci) (wk_saved_versions s) = None"
    using assms(3) [OF s] by (force simp: find_first_None_iff)
  then have find: "find_saved_version s1 (ci_new_id ci) = Inr v"
    by (simp add: find_saved_version_def s1 refresh_saved_version_metadata_def find_first_append_case vid)
  have ok1: "workspaces_ok (c1, R)"
    using perform_command_ok [OF assms(1), of rt ps ci "WC_Save i q" wx] assms(2) by simp
  obtain s' where s': "get_session i c2 = Inr s'" and g: "grown s1 s'"
    using run_grown [OF ok1 assms(4,5), of s1] get assms(6) by auto
  obtain v' where v': "find_saved_version s' (ci_new_id ci) = Inr v'" and f: "frozen v' = frozen v"
    using grown_version [OF g find] .
  let ?s2 = "apply_saved_workspace_version v' s'"
  show thesis
  proof (rule that [of ?s2 "wv_replay_evidence v'"])
    show "resume_version i (wv_workspace_version_id v) c2 = (Inr ?s2, save_session ?s2 c2)"
      by (simp add: resume_version_def s' lookup_saved_version_def v' vid)
  qed (use frozen_fields(3-6) [OF f] in \<open>simp_all add: apply_saved_workspace_version_def v s1
      build_saved_workspace_version_def refresh_saved_version_metadata_def\<close>)
qed

subsection \<open>What a handoff sends\<close>

lemma workspace_proposal_context:
  "build_workspace_proposal_context lx c i = Inr (c\<lparr>rc_requested_as_of := map_option si_as_of i,
     rc_requested_reporting_currency := Option.bind i si_reporting_currency\<rparr>)"
  by (simp add: build_workspace_proposal_context_def)

lemma resolution_source_nonempty [simp]: "resolution_source_of m \<noteq> []"
  by (simp add: resolution_source_of_def)

text \<open>What the lifecycle resolved is what the workspace evaluated, under the same request hash.\<close>

definition sends :: "runtime \<Rightarrow> resolved_simulation \<Rightarrow> resolved_proposal \<Rightarrow> bool" where
  "sends rt ec r \<longleftrightarrow> rv_simulate_request r = rv_simulate_request ec
     \<and> rv_resolved_context r = rv_resolved_context ec \<and> rv_input_mode r = rv_input_mode ec
     \<and> rv_resolution_source r = rv_resolution_source ec
     \<and> build_simulation_request_hash rt r = build_simulation_request_hash rt ec
     \<and> \<not> rv_used_legacy_contract r"

text \<open>
  The lifecycle resolves the request a workspace sends, under the override it sends, to the very
  request and context the workspace evaluates.
\<close>

lemma handoff_resolution:
  assumes "wk_resolved_context s \<noteq> None"
  obtains ec override r override' r' where
    "build_workspace_evaluation_context lx s sim = Inr ec"
    and "build_workspace_handoff_context_resolution lx s sim (build_handoff_metadata q s) = Inr override"
    and "bind_error (resolve_create_request port (build_proposal_create_request s q sim))
           (\<lambda>r. apply_context_resolution_override lx r (Some override)) = Inr r"
    and "build_workspace_handoff_context_resolution lx s sim empty_metadata = Inr override'"
    and "bind_error (resolve_version_request port (build_proposal_version_request s q sim))
           (\<lambda>r. apply_context_resolution_override lx r (Some override')) = Inr r'"
    and "sends rt ec r" and "sends rt ec r'"
proof -
  obtain c where c: "wk_resolved_context s = Some c" using assms by auto
  show thesis
    using that
    by (simp add: build_workspace_handoff_context_resolution_def c workspace_proposal_context
        resolve_create_request_def build_proposal_create_request_def resolve_version_request_def
        build_proposal_version_request_def direct_resolution_def
        require_legacy_simulate_request_def evidence_override
        build_workspace_evaluation_context_def build_simulation_request_hash_def sends_def
        canonicalize_simulation_request_payload_def advisory_context_def)
qed

subsection \<open>Repeating a handoff\<close>

lemma prepare_create_origin:
  assumes "prepare_create rt sv q key cid opts now ids R = Inr (Inr (c, v))"
  shows "pr_lifecycle_origin (cc_proposal c) = co_lifecycle_origin opts"
    and "pr_source_workspace_id (cc_proposal c) = co_source_workspace_id opts"
  using assms
  by (auto simp: prepare_create_def Let_def build_proposal_create_command_state_def
      build_proposal_record_def split: sum.splits option.splits if_splits)

lemma create_again:
  assumes "create_proposal_command rt sv q key cid opts now ids R = (Inr r, R')"
    and "repository_ok R'" and "versions_keyed R'"
    and "co_lifecycle_origin opts' = co_lifecycle_origin opts"
    and "co_source_workspace_id opts' = co_source_workspace_id opts"
  obtains r' where "create_proposal_command rt sv q key cid' opts' now' ids' R' = (Inr r', R')"
    and "ps_proposal_id (cr_proposal r') = ps_proposal_id (cr_proposal r)"
    and "vd_version_no (cr_version r') = vd_version_no (cr_version r)"
proof (cases "prepare_create rt sv q key cid opts now ids R")
  case (Inr x)
  note prep = this
  show thesis
  proof (cases x)
    case (Inl r0)
    with prep assms(1) have r: "r0 = r" "R' = R" by (simp_all add: create_proposal_command_def)
    have "prepare_create rt sv q key cid' opts' now' ids' R = Inr (Inl r)"
      using prep Inl r assms(4,5)
      by (auto simp: prepare_create_def Let_def split: sum.splits option.splits if_splits)
    then show thesis using that [of r] r by (simp add: create_proposal_command_def)
  next
    case (Inr w)
    obtain cc v where w: "w = (cc, v)" by (cases w)
    have p: "prepare_create rt sv q key cid opts now ids R = Inr (Inr (cc, v))" using prep Inr w by simp
    have r: "r = to_create_response rt (cc_proposal cc) v (cc_created_event cc)"
      and R': "R' = persist_created_proposal cc v R"
      using assms(1) by (simp_all add: create_proposal_command_def p commit_create_def)
    obtain k where k: "normalize_optional_idempotency_key (Some key) = Some k"
      and rec: "cc_idempotency_record cc = build_proposal_idempotency_record k
           (cs_idempotency_hash sv q) (ni_proposal_id ids) 1 now"
      and pid: "pr_proposal_id (cc_proposal cc) = ni_proposal_id ids" and n: "pv_version_no v = 1"
      using p by (rule prepare_create_write) blast
    let ?i = "cc_idempotency_record cc"
    have get: "get_idempotency k R' = Some ?i"
      by (simp add: R' persist_created_proposal_def rec build_proposal_idempotency_record_def)
    obtain p' v' where ref: "get_proposal (pi_proposal_id ?i) R' = Some p'"
      "get_version (pi_proposal_id ?i) (pi_proposal_version_no ?i) R' = Some v'"
      "list_events (pi_proposal_id ?i) R' \<noteq> []"
      using repository_ok_referents [OF assms(2) get] .
    have origin: "validate_lifecycle_origin (co_lifecycle_origin opts') (co_source_workspace_id opts') = Inr ()"
      using p assms(4,5) by (auto simp: prepare_create_def Let_def split: sum.splits)
    have "pi_request_hash ?i = cs_idempotency_hash sv q"
      by (simp add: rec build_proposal_idempotency_record_def)
    from create_replays [OF k origin get this ref]
    have again: "create_proposal_command rt sv q key cid' opts' now' ids' R' =
        (Inr (to_create_response rt p' v' (last (list_events (pi_proposal_id ?i) R'))), R')" .
    have "pr_proposal_id p' = ni_proposal_id ids"
      using assms(2) ref(1)
      by (auto simp: repository_ok_def proposals_keyed_def rec build_proposal_idempotency_record_def)
    moreover have "pv_version_no v' = 1"
      using assms(3) ref(2) by (simp add: versions_keyed_def rec build_proposal_idempotency_record_def)
    ultimately show thesis using that [OF again] r pid n by (simp add: create_response_view)
  qed
qed (use assms(1) in \<open>simp add: create_proposal_command_def\<close>)

text \<open>
  Once a key is recorded no create command writes under it, whatever the services answer; the
  response, if there is one, is that of the recorded proposal version.
\<close>

lemma replay_response:
  assumes "build_create_response_from_replay_referents rt (pi_proposal_id i) (pi_proposal_version_no i) R = Inr r"
    and "get_idempotency k R = Some i" and "repository_ok R" and "versions_keyed R"
  shows "ps_proposal_id (cr_proposal r) = pi_proposal_id i \<and> vd_version_no (cr_version r) = pi_proposal_version_no i"
proof -
  obtain p v where p: "get_proposal (pi_proposal_id i) R = Some p"
    and v: "get_version (pi_proposal_id i) (pi_proposal_version_no i) R = Some v"
    using repository_ok_referents [OF assms(3,2)] by blast
  have "pr_proposal_id p = pi_proposal_id i"
    using assms(3) p by (auto simp: repository_ok_def proposals_keyed_def)
  moreover have "pv_version_no v = pi_proposal_version_no i" using assms(4) v by (simp add: versions_keyed_def)
  ultimately show ?thesis
    using assms(1) p v
    by (auto simp: build_create_response_from_replay_referents_def build_create_response_from_referents_def
        create_response_view split: if_splits)
qed

lemma create_with_used_key:
  assumes "require_proposal_idempotency_key (Some key) = Inr k" and "get_idempotency k R = Some i"
    and "repository_ok R" and "versions_keyed R"
    and "create_proposal_command rt sv q key cid opts now ids R = (res, R')"
  shows "R' = R" and "res = Inr r \<Longrightarrow>
    ps_proposal_id (cr_proposal r) = pi_proposal_id i \<and> vd_version_no (cr_version r) = pi_proposal_version_no i"
  using assms(1,2,5) replay_response [OF _ assms(2-4), of rt r]
  by (auto simp: create_proposal_command_def prepare_create_def Let_def split: sum.splits if_splits)

lemma create_records_key:
  assumes "create_proposal_command rt sv q key cid opts now ids R = (Inr r, R')"
    and "repository_ok R'" and "versions_keyed R'"
  obtains k i where "require_proposal_idempotency_key (Some key) = Inr k" and "get_idempotency k R' = Some i"
    and "ps_proposal_id (cr_proposal r) = pi_proposal_id i"
    and "vd_version_no (cr_version r) = pi_proposal_version_no i"
proof (cases "prepare_create rt sv q key cid opts now ids R")
  case (Inr x)
  note prep = this
  obtain k where k: "require_proposal_idempotency_key (Some key) = Inr k"
    using prep by (auto simp: prepare_create_def split: sum.splits)
  show thesis
  proof (cases x)
    case (Inl r0)
    with prep assms(1) have R: "r0 = r" "R' = R" by (simp_all add: create_proposal_command_def)
    obtain i where i: "get_idempotency k R = Some i"
      using prep Inl k by (auto simp: prepare_create_def Let_def split: sum.splits option.splits)
    show thesis
      using create_with_used_key(2) [OF k i _ _ assms(1) refl] assms(2,3) i R(2) by (intro that [OF k]) simp_all
  next
    case (Inr w)
    obtain cc v where w: "w = (cc, v)" by (cases w)
    have p: "prepare_create rt sv q key cid opts now ids R = Inr (Inr (cc, v))" using prep Inr w by simp
    have r: "r = to_create_response rt (cc_proposal cc) v (cc_created_event cc)"
      and R': "R' = persist_created_proposal cc v R"
      using assms(1) by (simp_all add: create_proposal_command_def p commit_create_def)
    obtain k' where k': "normalize_optional_idempotency_key (Some key) = Some k'"
      and rec: "cc_idempotency_record cc = build_proposal_idempotency_record k'
           (cs_idempotency_hash sv q) (ni_proposal_id ids) 1 now"
      and pid: "pr_proposal_id (cc_proposal cc) = ni_proposal_id ids" and n: "pv_version_no v = 1"
      using p by (rule prepare_create_write) blast
    have "k' = k" using k k' by (auto simp: require_proposal_idempotency_key_def normalize_required_idempotency_key_def
          split: option.splits sum.splits error.splits)
    then have "get_idempotency k R' = Some (cc_idempotency_record cc)"
      by (simp add: R' persist_created_proposal_def rec build_proposal_idempotency_record_def)
    then show thesis
      by (rule that [OF k]) (simp_all add: r create_response_view pid n rec build_proposal_idempotency_record_def)
  qed
qed (use assms(1) in \<open>simp add: create_proposal_command_def\<close>)

subsection \<open>Handoffs that succeed\<close>

lemma port_result_Inr:
  assumes "port_result a lin pr = (Inr (r, lin', a'), R')"
  shows "pr = (Inr r, R') \<and> a' = a"
  using assms port_result_simps(2) [of a lin pr "(r, lin', a')"] port_result_simps(1) [of a lin pr]
  by (auto intro: prod_eqI)

lemma execute_create_sent:
  assumes "execute_create rt wx ps lf i h s R = ((Inr (r, lin, a), R'), s1)"
  obtains key sim lin' ov where
    "normalize_workspace_handoff_idempotency_key (hc_idempotency_key h) = Inr key"
    and "build_simulate_request wx s = (Inr sim, s1)"
    and "port_create_proposal rt ps lf (build_proposal_create_request s1 (hc_request h) sim) key
           (hc_correlation_id h) i lin' ov R = (Inr r, R')"
    and "a = HA_CREATED_PROPOSAL"
    and "build_workspace_handoff_context_resolution (wx_lax wx) s1 sim
           (build_handoff_metadata (hc_request h) s1) = Inr ov"
  using assms
  by (auto simp: execute_create_def Let_def build_proposal_create_request_def
      require_handoff_simulate_request_def split: sum.splits prod.splits dest!: port_result_Inr)

lemma execute_version_sent:
  assumes "execute_version rt wx ps lf l h s R = ((Inr (r, lin, a), R'), s1)"
  obtains sim lin' ov where "build_simulate_request wx s = (Inr sim, s1)"
    and "port_create_version rt ps lf (ln_proposal_id l)
           (build_proposal_version_request s1 (hc_request h) sim) (hc_correlation_id h) lin' ov R = (Inr r, R')"
    and "a = HA_CREATED_PROPOSAL_VERSION"
  using assms
  by (auto simp: execute_version_def Let_def split: sum.splits prod.splits dest!: port_result_Inr)

text \<open>The session a successful handoff returns is the cached one, linked to the answer.\<close>

lemma handoff_success:
  assumes "handoff_to_proposal_lifecycle rt wx ps lf i h c R = (Inr x, c', R')" and "cache_ok c"
    and "get_session i c = Inr s"
  obtains s1 lin where "(case wk_lifecycle_link s of
        None \<Rightarrow> execute_create rt wx ps lf i h s R
      | Some link \<Rightarrow> execute_version rt wx ps lf link h s R)
        = ((Inr (hw_proposal x, lin, hw_handoff_action x), R'), s1)"
    and "get_session i c' = Inr (hw_workspace x)"
    and "wk_lifecycle_link (hw_workspace x) = Some
        \<lparr>ln_proposal_id = ps_proposal_id (cr_proposal (hw_proposal x)),
         ln_current_version_no = vd_version_no (cr_version (hw_proposal x)),
         ln_last_handoff_at = hc_completed_at h, ln_last_handoff_by = hq_handoff_by (hc_request h)\<rparr>"
proof -
  obtain y Rx s1 where run: "(case wk_lifecycle_link s of
        None \<Rightarrow> execute_create rt wx ps lf i h s R
      | Some link \<Rightarrow> execute_version rt wx ps lf link h s R) = ((y, Rx), s1)" by (metis prod.exhaust)
  obtain r lin a where y: "y = Inr (r, lin, a)" and x: "x = \<lparr>hw_workspace =
        complete_workspace_lifecycle_handoff rt h (r, lin, a) s1, hw_handoff_action = a, hw_proposal = r\<rparr>"
    and c': "c' = save_session (hw_workspace x) (write_through s1 c)" and R': "R' = Rx"
  proof (cases y)
    case (Inl e)
    then show ?thesis using assms(1) by (simp add: handoff_to_proposal_lifecycle_def assms(3) run)
  next
    case (Inr z)
    obtain r lin a where "z = (r, lin, a)" by (metis prod.exhaust)
    with Inr that assms(1) show ?thesis
      by (simp add: handoff_to_proposal_lifecycle_def assms(3) run Let_def)
  qed
  have "\<exists>sim. build_simulate_request wx s = (Inr sim, s1)"
  proof (cases "wk_lifecycle_link s")
    case None
    then have "execute_create rt wx ps lf i h s R = ((Inr (r, lin, a), Rx), s1)" using run y by simp
    then show ?thesis by (rule execute_create_sent) blast
  next
    case (Some l)
    then have "execute_version rt wx ps lf l h s R = ((Inr (r, lin, a), Rx), s1)" using run y by simp
    then show ?thesis by (rule execute_version_sent) blast
  qed
  then have "keeps s s1" using build_simulate_request_keeps(1) by blast
  then have id: "wk_workspace_id s1 = i" using get_session_id [OF assms(2,3)] by (simp add: keeps_id)
  have "cache_ok (write_through s1 c)" using write_through_ok [OF assms(2)] assms(3) id by blast
  then have get: "get_session (wk_workspace_id (hw_workspace x)) c' = Inr (hw_workspace x)"
    unfolding c' by (rule get_save_same)
  have idx: "wk_workspace_id (hw_workspace x) = i"
    using lineage_fields(1) id
    by (simp add: x complete_workspace_lifecycle_handoff_def Let_def session_identity_def)
  have link: "wk_lifecycle_link (hw_workspace x) = Some
        \<lparr>ln_proposal_id = ps_proposal_id (cr_proposal (hw_proposal x)),
         ln_current_version_no = vd_version_no (cr_version (hw_proposal x)),
         ln_last_handoff_at = hc_completed_at h, ln_last_handoff_by = hq_handoff_by (hc_request h)\<rparr>"
    by (simp add: x complete_workspace_lifecycle_handoff_def Let_def)
  have "(case wk_lifecycle_link s of
        None \<Rightarrow> execute_create rt wx ps lf i h s R
      | Some link \<Rightarrow> execute_version rt wx ps lf link h s R)
      = ((Inr (hw_proposal x, lin, hw_handoff_action x), R'), s1)"
    unfolding run y R' by (simp add: x)
  then show thesis using get link unfolding idx by (rule that)
qed

lemma handoff_creates:
  assumes "handoff_to_proposal_lifecycle rt wx ps lf i h c R = (Inr x, c', R')"
    and "workspaces_ok (c, R)" and "get_session i c = Inr s" and "wk_lifecycle_link s = None"
    and "get_proposal (ni_proposal_id (lf_ids lf)) R = None"
  shows "hw_handoff_action x = HA_CREATED_PROPOSAL"
    and "vd_version_no (cr_version (hw_proposal x)) = 1"
    and "\<exists>p. get_proposal (ps_proposal_id (cr_proposal (hw_proposal x))) R' = Some p
       \<and> (R' \<noteq> R \<longrightarrow> pr_lifecycle_origin p = LO_WORKSPACE_HANDOFF \<and> pr_source_workspace_id p = Some i
            \<and> get_proposal (pr_proposal_id p) R = None)"
proof -
  have c: "cache_ok c" and R: "repository_ok R" "versions_keyed R"
    using assms(2) by (simp_all add: workspaces_ok_def repository_fine_def)
  obtain s1 lin where run: "execute_create rt wx ps lf i h s R =
      ((Inr (hw_proposal x, lin, hw_handoff_action x), R'), s1)"
    by (rule handoff_success [OF assms(1) c assms(3)]) (simp add: assms(4))
  obtain key sim lin' ov where port: "port_create_proposal rt ps lf
      (build_proposal_create_request s1 (hc_request h) sim) key (hc_correlation_id h) i lin' ov R
      = (Inr (hw_proposal x), R')" and a: "hw_handoff_action x = HA_CREATED_PROPOSAL"
    using execute_create_sent [OF run] .
  show "hw_handoff_action x = HA_CREATED_PROPOSAL" by (rule a)
  note cmd = port [unfolded port_create_proposal_def]
  obtain p v e where r: "hw_proposal x = to_create_response rt p v e" and v: "pv_version_no v = 1"
    and p: "get_proposal (pr_proposal_id p) R' = Some p"
    using create_answers [OF cmd R] .
  show "vd_version_no (cr_version (hw_proposal x)) = 1" by (simp add: r v create_response_view)
  have "pr_lifecycle_origin p = LO_WORKSPACE_HANDOFF \<and> pr_source_workspace_id p = Some i
      \<and> get_proposal (pr_proposal_id p) R = None" if "R' \<noteq> R"
  proof -
    obtain cc w where prep: "prepare_create rt (pv_services ps)
        \<lparr>cq_created_by = cp_created_by (build_proposal_create_request s1 (hc_request h) sim),
         cq_content = dump_create_payload (build_proposal_create_request s1 (hc_request h) sim)\<rparr> key
        (hc_correlation_id h)
        \<lparr>co_lifecycle_origin = LO_WORKSPACE_HANDOFF, co_source_workspace_id = Some i,
         co_replay_lineage = Some lin', co_context_override = Some ov,
         co_store_evidence_bundle = pv_store_evidence_bundle ps,
         co_require_simulation_flag = pv_require_simulation_flag ps\<rparr> (lf_now lf) (lf_ids lf) R
        = Inr (Inr (cc, w))" and out: "hw_proposal x = to_create_response rt (cc_proposal cc) w (cc_created_event cc)"
      "R' = persist_created_proposal cc w R"
      using cmd \<open>R' \<noteq> R\<close>
      by (auto simp: create_proposal_command_def commit_create_def split: sum.splits)
    have "pr_proposal_id (cc_proposal cc) = pr_proposal_id p"
      using out(1) r by (metis create_response_view(1))
    then have "p = cc_proposal cc" using p out(2) by (simp add: persist_created_proposal_def)
    moreover have "pr_proposal_id (cc_proposal cc) = ni_proposal_id (lf_ids lf)"
      using prep by (rule prepare_create_write, simp)
    ultimately show ?thesis using prepare_create_origin [OF prep] assms(5) by simp
  qed
  then show "\<exists>p. get_proposal (ps_proposal_id (cr_proposal (hw_proposal x))) R' = Some p
       \<and> (R' \<noteq> R \<longrightarrow> pr_lifecycle_origin p = LO_WORKSPACE_HANDOFF \<and> pr_source_workspace_id p = Some i
            \<and> get_proposal (pr_proposal_id p) R = None)"
    using p by (auto simp: r create_response_view)
qed

lemma handoff_continues:
  assumes "handoff_to_proposal_lifecycle rt wx ps lf i h c R = (Inr x, c', R')"
    and "workspaces_ok (c, R)" and "get_session i c = Inr s" and "wk_lifecycle_link s = Some l"
  obtains p p' where "hw_handoff_action x = HA_CREATED_PROPOSAL_VERSION"
    and "ps_proposal_id (cr_proposal (hw_proposal x)) = ln_proposal_id l"
    and "vd_version_no (cr_version (hw_proposal x)) = ln_current_version_no l + 1"
    and "get_proposal (ln_proposal_id l) R = Some p"
    and "pr_current_version_no p = ln_current_version_no l"
    and "get_proposal (ln_proposal_id l) R' = Some p'"
    and "pr_current_version_no p' = ln_current_version_no l + 1"
proof -
  have c: "cache_ok c" and R: "repository_ok R"
    using assms(2) by (simp_all add: workspaces_ok_def repository_fine_def)
  obtain s1 lin where run: "execute_version rt wx ps lf l h s R =
      ((Inr (hw_proposal x, lin, hw_handoff_action x), R'), s1)"
    by (rule handoff_success [OF assms(1) c assms(3)]) (simp add: assms(4))
  obtain sim lin' ov where t: "build_simulate_request wx s = (Inr sim, s1)"
    and port: "port_create_version rt ps lf (ln_proposal_id l)
      (build_proposal_version_request s1 (hc_request h) sim) (hc_correlation_id h) lin' ov R
      = (Inr (hw_proposal x), R')" and a: "hw_handoff_action x = HA_CREATED_PROPOSAL_VERSION"
    using execute_version_sent [OF run] .
  have "wk_lifecycle_link s1 = Some l"
    using build_simulate_request_keeps(1) [OF t] assms(4) by (simp add: keeps_def)
  then have "vp_expected_current_version_no (build_proposal_version_request s1 (hc_request h) sim)
      = Some (ln_current_version_no l)"
    by (simp add: build_proposal_version_request_def)
  note n = this
  show thesis
    by (rule version_answers [OF port [unfolded port_create_version_def] R])
      (rule that [OF a], use n in \<open>simp_all add: create_response_view\<close>)
qed

text \<open>
  A handoff answered by the proposal service but lost by the session store is repeated with its
  key, possibly under other answers of the portfolio service: it writes nothing, and can only find
  the proposal it created; it does find it when it sends the same simulate request.
\<close>

lemma simulate_request_context [simp]:
  "fst (build_simulate_request wx (s\<lparr>wk_resolved_context := cx\<rparr>)) = fst (build_simulate_request wx s)"
  by (simp add: build_simulate_request_def split: input_mode.split option.split sum.split)

lemma simulate_request_stateless:
  "wk_input_mode s = IM_STATELESS \<Longrightarrow> fst (build_simulate_request wx' s) = fst (build_simulate_request wx s)"
  by (simp add: build_simulate_request_def split: option.split)

lemma execute_create_cases:
  assumes "execute_create rt wx ps lf i h s R = ((y, R'), s1)"
    and "normalize_workspace_handoff_idempotency_key (hc_idempotency_key h) = Inr key"
  shows "(R' = R \<and> isl y) \<or> (\<exists>q lin ov. port_result HA_CREATED_PROPOSAL lin
      (port_create_proposal rt ps lf q key (hc_correlation_id h) i lin ov R) = (y, R'))"
proof -
  obtain req t where t: "build_simulate_request wx s = (req, t)" by fastforce
  show ?thesis using assms by (auto simp: execute_create_def t Let_def split: sum.splits; blast)
qed

lemma handoff_create_run:
  assumes "handoff_to_proposal_lifecycle rt wx ps lf i h c R = (res, c', R')"
    and "get_session i c = Inr s" and "wk_lifecycle_link s = None"
  obtains y s1 where "execute_create rt wx ps lf i h s R = ((y, R'), s1)"
    and "res = Inr x \<longleftrightarrow> (\<exists>lin a. y = Inr (hw_proposal x, lin, a)
           \<and> x = \<lparr>hw_workspace = complete_workspace_lifecycle_handoff rt h (hw_proposal x, lin, a) s1,
                  hw_handoff_action = a, hw_proposal = hw_proposal x\<rparr>)"
    and "isl res \<longleftrightarrow> isl y"
proof -
  obtain y Rx s1 where run: "execute_create rt wx ps lf i h s R = ((y, Rx), s1)" by (metis prod.exhaust)
  with assms show thesis
    by (cases y) (auto simp: handoff_to_proposal_lifecycle_def Let_def intro: that)
qed

lemma handoff_repeated:
  assumes "handoff_to_proposal_lifecycle rt wx ps lf i h c R = (Inr x, c', R')"
    and "workspaces_ok (c, R)" and "get_session i c = Inr s" and "wk_lifecycle_link s = None"
    and "get_proposal (ni_proposal_id (lf_ids lf)) R = None"
    and "hc_request h' = hc_request h" and "hc_idempotency_key h' = hc_idempotency_key h"
    and "get_session i c2 = Inr (s\<lparr>wk_resolved_context := Some cx\<rparr>)"
    and "handoff_to_proposal_lifecycle rt wx' ps lf' i h' c2 R' = (res, c3, R3)"
  shows "R3 = R'"
    and "res = Inr x' \<Longrightarrow> ps_proposal_id (cr_proposal (hw_proposal x')) = ps_proposal_id (cr_proposal (hw_proposal x))
      \<and> vd_version_no (cr_version (hw_proposal x')) = vd_version_no (cr_version (hw_proposal x))"
    and "fst (build_simulate_request wx' s) = fst (build_simulate_request wx s) \<Longrightarrow> \<not> isl res"
proof -
  let ?s2 = "s\<lparr>wk_resolved_context := Some cx\<rparr>"
  have c: "cache_ok c" and R: "repository_fine R" and links: "\<And>s. cached c s \<Longrightarrow> link_ok R s"
    using assms(2) by (simp_all add: workspaces_ok_def)
  have R': "repository_ok R'" "versions_keyed R'"
    using handoff_step(1) [OF assms(1) c R links assms(5)]
    by (simp_all add: grows_fine_def repository_fine_def)
  obtain s1 lin where run: "execute_create rt wx ps lf i h s R =
      ((Inr (hw_proposal x, lin, hw_handoff_action x), R'), s1)"
    by (rule handoff_success [OF assms(1) c assms(3)]) (simp add: assms(4))
  obtain key sim lin' ov where key: "normalize_workspace_handoff_idempotency_key (hc_idempotency_key h) = Inr key"
    and sim: "build_simulate_request wx s = (Inr sim, s1)"
    and port: "port_create_proposal rt ps lf (build_proposal_create_request s1 (hc_request h) sim) key
      (hc_correlation_id h) i lin' ov R = (Inr (hw_proposal x), R')"
    using execute_create_sent [OF run] .
  obtain k rec where k: "require_proposal_idempotency_key (Some key) = Inr k" "get_idempotency k R' = Some rec"
    and found: "ps_proposal_id (cr_proposal (hw_proposal x)) = pi_proposal_id rec"
      "vd_version_no (cr_version (hw_proposal x)) = pi_proposal_version_no rec"
    using create_records_key [OF port [unfolded port_create_proposal_def] R'] .
  obtain y s2 where again: "execute_create rt wx' ps lf' i h' ?s2 R' = ((y, R3), s2)"
    and answer: "res = Inr x' \<longleftrightarrow> (\<exists>lin a. y = Inr (hw_proposal x', lin, a)
           \<and> x' = \<lparr>hw_workspace = complete_workspace_lifecycle_handoff rt h' (hw_proposal x', lin, a) s2,
                  hw_handoff_action = a, hw_proposal = hw_proposal x'\<rparr>)"
    and refused: "isl res \<longleftrightarrow> isl y"
    by (rule handoff_create_run [OF assms(9,8), of x']) (use assms(4) in simp_all)
  have key': "normalize_workspace_handoff_idempotency_key (hc_idempotency_key h') = Inr key"
    using key assms(7) by simp
  have "R3 = R' \<and> (\<forall>r lin a. y = Inr (r, lin, a) \<longrightarrow>
      ps_proposal_id (cr_proposal r) = pi_proposal_id rec \<and> vd_version_no (cr_version r) = pi_proposal_version_no rec)"
    using execute_create_cases [OF again key']
  proof
    assume "\<exists>q lin ov. port_result HA_CREATED_PROPOSAL lin
      (port_create_proposal rt ps lf' q key (hc_correlation_id h') i lin ov R') = (y, R3)"
    then obtain q lin ov z where z: "port_create_proposal rt ps lf' q key (hc_correlation_id h') i lin ov R' = (z, R3)"
      and y: "fst (port_result HA_CREATED_PROPOSAL lin (z, R3)) = y"
      by (metis fst_conv port_result_simps(1) prod.collapse snd_conv)
    note used = create_with_used_key [OF k R' z [unfolded port_create_proposal_def]]
    show ?thesis using used y by (auto simp: port_result_simps(2))
  qed auto
  then show "R3 = R'" and "res = Inr x' \<Longrightarrow>
      ps_proposal_id (cr_proposal (hw_proposal x')) = ps_proposal_id (cr_proposal (hw_proposal x))
      \<and> vd_version_no (cr_version (hw_proposal x')) = vd_version_no (cr_version (hw_proposal x))"
    using answer found by auto
  assume "fst (build_simulate_request wx' s) = fst (build_simulate_request wx s)"
  then obtain t where t: "build_simulate_request wx' ?s2 = (Inr sim, t)"
    using sim simulate_request_context [of wx' "Some cx" s] by (metis fst_conv prod.collapse)
  have kept: "wk_workspace_name t = wk_workspace_name s1" "wk_stateful_input t = wk_stateful_input s1"
    and "wk_resolved_context t \<noteq> None"
    using build_simulate_request_keeps(1) [OF sim] build_simulate_request_keeps(1) [OF t]
    by (simp_all add: keeps_def session_identity_def)
  have same: "build_proposal_create_request t (hc_request h) sim = build_proposal_create_request s1 (hc_request h) sim"
    unfolding build_proposal_create_request_def build_handoff_metadata_def kept ..
  obtain ov' where ov': "build_workspace_handoff_context_resolution (wx_lax wx') t sim
      (build_handoff_metadata (hc_request h) t) = Inr ov'"
    using \<open>wk_resolved_context t \<noteq> None\<close>
    by (rule handoff_resolution [where sim = sim and q = "hc_request h"])
  let ?lin = "build_workspace_handoff_replay_lineage rt t (hq_handoff_by (hc_request h'))
    (handoff_action_str HA_CREATED_PROPOSAL) [] 1 (hc_lineage_at h')"
  obtain r' where "port_create_proposal rt ps lf' (build_proposal_create_request s1 (hc_request h) sim)
      key (hc_correlation_id h') i ?lin ov' R' = (Inr r', R')"
    unfolding port_create_proposal_def
    by (rule create_again [OF port [unfolded port_create_proposal_def] R', where
          cid' = "hc_correlation_id h'" and now' = "lf_now lf'" and ids' = "lf_ids lf'" and
          opts' = "\<lparr>co_lifecycle_origin = LO_WORKSPACE_HANDOFF, co_source_workspace_id = Some i,
            co_replay_lineage = Some ?lin, co_context_override = Some ov',
            co_store_evidence_bundle = pv_store_evidence_bundle ps,
            co_require_simulation_flag = pv_require_simulation_flag ps\<rparr>"]) simp_all
  then have "execute_create rt wx' ps lf' i h' ?s2 R' = ((Inr (r', ?lin, HA_CREATED_PROPOSAL), R'), t)"
    using key t ov' same
    by (simp add: execute_create_def Let_def assms(6,7) port_result_def require_handoff_simulate_request_def
        build_proposal_create_request_def)
  with again refused show "\<not> isl res" by auto
qed

subsection \<open>Refusals\<close>

lemma fallback_not_sensitive:
  "\<not> contains_sensitive_error_detail ''WORKSPACE_LIFECYCLE_HANDOFF_UNAVAILABLE''"
  by code_simp

lemma key_code_not_sensitive:
  "\<not> contains_sensitive_error_detail ''WORKSPACE_HANDOFF_IDEMPOTENCY_KEY_REQUIRED''"
  by code_simp

lemma handoff_unavailable_screened:
  "handoff_unavailable m = WE_HandoffUnavailable d \<Longrightarrow> \<not> contains_sensitive_error_detail d"
  using fallback_not_sensitive
  by (auto simp: handoff_unavailable_def safe_workspace_error_detail_def split: if_splits)

lemma simulate_error_kinds:
  "fst (build_simulate_request wx s) = Inl e \<Longrightarrow> (\<exists>m. e = WE_EvaluationUnavailable m) \<or> (\<exists>x. e = WE_Other x)"
  by (auto simp: build_simulate_request_def context_as_of_def bind_error_def lift_error_def
      split: input_mode.splits option.splits sum.splits if_splits)

lemma resolution_error_kinds:
  "build_workspace_handoff_context_resolution lx s sim m = Inl e \<Longrightarrow>
     (\<exists>d. e = WE_Handoff d) \<or> (\<exists>d. e = WE_Value d)"
  by (auto simp: build_workspace_handoff_context_resolution_def build_workspace_proposal_context_def
      bind_error_def split: option.splits sum.splits)

text \<open>
  Before translation a handoff fails with the key check's own refusal, one of the three exceptions
  that are translated, or whatever a service raised.
\<close>

lemma execution_error_kinds:
  assumes "fst (fst (case wk_lifecycle_link s of
        None \<Rightarrow> execute_create rt wx ps lf i h s R
      | Some link \<Rightarrow> execute_version rt wx ps lf link h s R)) = Inl e"
  shows "e = WE_HandoffUnavailable ''WORKSPACE_HANDOFF_IDEMPOTENCY_KEY_REQUIRED''
    \<or> (\<exists>m. e = WE_EvaluationUnavailable m) \<or> (\<exists>m. e = WE_Handoff m) \<or> (\<exists>m. e = WE_Value m)
    \<or> (\<exists>x. e = WE_Other x)"
proof -
  obtain req t where t: "build_simulate_request wx s = (req, t)" by fastforce
  have req: "req = Inl e \<Longrightarrow> (\<exists>m. e = WE_EvaluationUnavailable m) \<or> (\<exists>x. e = WE_Other x)"
    using simulate_error_kinds [of wx s e] t by auto
  have res: "build_workspace_handoff_context_resolution (wx_lax wx) t sim m = Inl e \<Longrightarrow>
      (\<exists>m. e = WE_Handoff m) \<or> (\<exists>m. e = WE_Value m)" for sim m
    by (rule resolution_error_kinds)
  have port: "fst (port_result a lin pr) = Inl e \<Longrightarrow> \<exists>x. e = WE_Other x" for a lin pr
    by (auto simp: port_result_def lift_error_def split: sum.splits)
  show ?thesis
    using assms req res port
    by (auto simp: execute_create_def execute_version_def t Let_def build_proposal_create_request_def
        build_proposal_version_request_def require_handoff_simulate_request_def
        normalize_workspace_handoff_idempotency_key_def lift_error_def
        split: option.splits sum.splits)
qed

lemma operation_error_screened:
  assumes "e = WE_HandoffUnavailable ''WORKSPACE_HANDOFF_IDEMPOTENCY_KEY_REQUIRED''
    \<or> (\<exists>m. e = WE_EvaluationUnavailable m) \<or> (\<exists>m. e = WE_Handoff m) \<or> (\<exists>m. e = WE_Value m)
    \<or> (\<exists>x. e = WE_Other x)"
  shows "(\<exists>d. handoff_operation_error e = WE_HandoffUnavailable d \<and> \<not> contains_sensitive_error_detail d)
    \<or> (\<exists>x. handoff_operation_error e = WE_Other x \<and> e = WE_Other x \<and> \<not> is_value_error x)"
proof -
  have "\<exists>d. handoff_unavailable m = WE_HandoffUnavailable d \<and> \<not> contains_sensitive_error_detail d" for m
    using handoff_unavailable_screened by (auto simp: handoff_unavailable_def)
  moreover have "is_value_error x \<or> \<not> is_value_error x" for x by blast
  ultimately show ?thesis using assms key_code_not_sensitive
    by (auto simp: handoff_operation_error_def split: if_splits)
qed

lemma handoff_failures:
  assumes "fst (handoff_to_proposal_lifecycle rt wx ps lf i h c R) = Inl e"
  shows "(e = WE_NotFound ''WORKSPACE_NOT_FOUND'' \<and> isl (get_session i c))
    \<or> (\<exists>d. e = WE_HandoffUnavailable d \<and> \<not> contains_sensitive_error_detail d)
    \<or> (\<exists>x. e = WE_Other x \<and> \<not> is_value_error x)"
proof (cases "get_session i c")
  case (Inr s)
  obtain x Rx s1 where run: "(case wk_lifecycle_link s of
        None \<Rightarrow> execute_create rt wx ps lf i h s R
      | Some link \<Rightarrow> execute_version rt wx ps lf link h s R) = ((x, Rx), s1)" by (metis prod.exhaust)
  with assms Inr obtain e' where e: "x = Inl e'" "handoff_operation_error e' = e"
    by (cases x) (auto simp: handoff_to_proposal_lifecycle_def Let_def)
  from operation_error_screened [OF execution_error_kinds [where s = s and rt = rt and wx = wx and ps = ps
        and lf = lf and i = i and h = h and R = R and e = e']] run e
  show ?thesis by auto
qed (use assms in \<open>auto simp: handoff_to_proposal_lifecycle_def get_session_def split: option.splits\<close>)

subsection \<open>Runs whose edits were all evaluated\<close>

fun answered :: "runtime \<Rightarrow> workspace_services \<Rightarrow> call_inputs \<Rightarrow> workspace_command \<Rightarrow> session_cache \<times> repository \<Rightarrow> bool" where
  "answered rt wx ci (WC_Action i q) (c, R) \<longleftrightarrow> \<not> isl (fst (apply_draft_action rt wx ci i q c))"
| "answered rt wx ci cmd S \<longleftrightarrow> True"

inductive evaluated_reachable ::
  "runtime \<Rightarrow> proposal_service \<Rightarrow> session_cache \<times> repository \<Rightarrow> bool"
  for rt ps where
  start: "1 \<le> n \<Longrightarrow> evaluated_reachable rt ps (\<lparr>sk_max_size = n, sk_sessions = []\<rparr>, empty_repository)"
| step: "evaluated_reachable rt ps S \<Longrightarrow> fresh_ids rt ps ci cmd S \<Longrightarrow> answered rt wx ci cmd S \<Longrightarrow>
     evaluated_reachable rt ps (perform_command rt wx ps ci cmd S)"

lemma evaluated_is_reachable: "evaluated_reachable rt ps S \<Longrightarrow> workspace_reachable rt ps S"
  by (induction rule: evaluated_reachable.induct) (auto intro: workspace_reachable.intros)

lemma cache_step_evidence:
  assumes "cache_step rt R' False c c'" and "\<And>s. cached c s \<Longrightarrow> evidence_of_draft rt s"
  shows "cached c' s \<Longrightarrow> evidence_of_draft rt s"
  using assms steps_evidence unfolding cache_step_def by blast

lemma command_evidence:
  assumes "workspaces_ok (c, R)" and "fresh_ids rt ps ci cmd (c, R)" and "answered rt wx ci cmd (c, R)"
    and "\<And>s. cached c s \<Longrightarrow> evidence_of_draft rt s"
    and "cached (fst (perform_command rt wx ps ci cmd (c, R))) t"
  shows "evidence_of_draft rt t"
proof -
  have c: "cache_ok c" and R: "repository_fine R" and link: "\<And>s. cached c s \<Longrightarrow> link_ok R s"
    using assms(1) by (simp_all add: workspaces_ok_def)
  have step: "evidence_of_draft rt t" if "cache_step rt R' False c (fst (perform_command rt wx ps ci cmd (c, R)))" for R'
    using cache_step_evidence [OF that assms(4) assms(5)] .
  show ?thesis
  proof (cases cmd)
    case (WC_Create q)
    then show ?thesis
      using assms(2,4,5) created_session_ok(4,5) [of wx ci q "ci_new_id ci" "ci_now ci"]
      by (auto simp: create_session_def evidence_of_draft_def dest: cached_save split: sum.splits)
  next
    case (WC_Action i q)
    obtain a c' where a: "apply_draft_action rt wx ci i q c = (a, c')" by fastforce
    then obtain s2 where act: "apply_draft_action rt wx ci i q c = (Inr s2, c')"
      using assms(3) WC_Action by (cases a) auto
    obtain s e where s: "get_session i c = Inr s" "wk_saved_versions s2 = wk_saved_versions s"
      and e: "wk_latest_replay_evidence s2 = Some e"
        "we_draft_state_hash e = build_draft_state_hash rt (wk_draft_state s2)"
      and rest: "\<And>t. cached c' t \<Longrightarrow> t = s2 \<or> cached c t"
      by (rule answered_action [OF act c]) blast
    have "evidence_of_draft rt s2"
      using assms(4) [OF get_session_cached [OF s(1)]] s(2) e by (simp add: evidence_of_draft_def)
    then show ?thesis using rest [of t] assms(4,5) WC_Action act by auto
  next
    case (WC_Handoff i h lf)
    obtain res c' R' where h: "handoff_to_proposal_lifecycle rt wx ps lf i h c R = (res, c', R')"
      by (metis prod.exhaust)
    have "cache_step rt R' False c c'" using handoff_step(2) [OF h c R link] assms(2) WC_Handoff by auto
    then show ?thesis using step WC_Handoff h by simp
  next
    case (WC_Resize n)
    then show ?thesis using assms(4,5) resize_ok(2) [of n c] c by (auto split: sum.splits)
  next
    case WC_Reset
    then show ?thesis using assms(5) by (auto simp: reset_sessions_def cached_def)
  next
    case (WC_Proposal q)
    then show ?thesis using assms(4,5) by simp
  qed (use c in \<open>auto intro!: step [of R] reevaluate_step save_version_step resume_step\<close>)
qed

lemma evaluated_reachable_evidence:
  "evaluated_reachable rt ps S \<Longrightarrow> cached (fst S) s \<Longrightarrow> evidence_of_draft rt s"
proof (induction arbitrary: s rule: evaluated_reachable.induct)
  case (start n)
  then show ?case by (simp add: cached_def)
next
  case (step S ci cmd wx)
  obtain c R where S: "S = (c, R)" by (cases S)
  have "workspaces_ok (c, R)"
    using workspace_reachable_ok [OF evaluated_is_reachable [OF step.hyps(1)]] S by simp
  then show ?case
    using command_evidence [of c R rt ps ci cmd wx s] step S by simp
qed

end
