(* ===== verification/Workspace_Properties.thy ===== *)
theory Workspace_Properties
  imports Workspace_Guarantees Fixtures
begin

text \<open>
  A concrete run of the workspace system for the witnesses, and the properties of the workspaces.
\<close>

section \<open>A concrete run\<close>

text \<open>
  The run the witnesses of the workspace properties use: a stateless session created, evaluated,
  saved, edited, and handed off twice.  The evaluation refuses drafts with trades.
\<close>

subsection \<open>Services and requests\<close>

definition workspace_runtime :: runtime where
  "workspace_runtime = demo_runtime\<lparr>rt_sha256 := (\<lambda>s. string_of_int (int (length s)))\<rparr>"

definition demo_result :: workspace_result where
  "demo_result = \<lparr>wr_status = CS_READY, wr_gate_decision = None, wr_rule_results = [],
     wr_suitability_issues = None, wr_portfolio_delta = ''0.00'', wr_explanation = [], wr_content = []\<rparr>"

definition demo_coercion :: lax_coercion where
  "demo_coercion = \<lparr>lx_int = (\<lambda>j. case j of JBool b \<Rightarrow> Some (if b then 1 else 0) | _ \<Rightarrow> None),
     lx_bool = (\<lambda>j. case j of JInt n \<Rightarrow> if n = 0 then Some False else if n = 1 then Some True else None
       | _ \<Rightarrow> None)\<rparr>"

definition demo_workspace_services :: workspace_services where
  "demo_workspace_services = \<lparr>
     wx_resolve = (\<lambda>i. Inl (OtherException ''LotusCoreContextResolutionError'' ''down'')),
     wx_enrich = (\<lambda>q d. Inr q),
     wx_evaluate = (\<lambda>call. if sq_proposed_trades (ec_simulate_request call) \<noteq> []
        then Inl (OtherException ''ConnectError'' ''down'') else Inr demo_result),
     wx_lax = demo_coercion,
     wx_default_options = []\<rparr>"

definition demo_simulate :: simulate_request where
  "demo_simulate = \<lparr>
     sq_portfolio_snapshot = \<lparr>sp_portfolio_id = ''pf_1'', sp_snapshot_id = None, sp_content = []\<rparr>,
     sq_market_data_snapshot = \<lparr>sm_snapshot_id = None, sm_content = []\<rparr>,
     sq_shelf_entries = [], sq_options = [], sq_proposed_cash_flows = [], sq_proposed_trades = [],
     sq_reference_model = None, sq_alternatives_request = None, sq_narrative_request = None\<rparr>"

definition demo_session_request :: session_create_request where
  "demo_session_request = \<lparr>ws_workspace_name = ''w'', ws_created_by = ''adv'',
     ws_input_mode = IM_STATELESS, ws_stateless_input = Some demo_simulate, ws_stateful_input = None\<rparr>"

definition demo_draft_ids :: draft_ids where
  "demo_draft_ids = \<lparr>di_trade = (\<lambda>n. replicate n CHR ''t''), di_cash_flow = (\<lambda>n. replicate n CHR ''c'')\<rparr>"

definition demo_inputs :: "string \<Rightarrow> call_inputs" where
  "demo_inputs i = \<lparr>ci_now = ''now'', ci_new_id = i, ci_uuid_hex = ''0123456789ab'',
     ci_draft_ids = demo_draft_ids\<rparr>"

definition demo_add_trade :: draft_action_request where
  "demo_add_trade = \<lparr>dr_actor_id = ''adv'', dr_action_type = DA_ADD_TRADE, dr_workspace_trade_id = None,
     dr_workspace_cash_flow_id = None, dr_trade = Some [(''instrument_id'', JStr ''EQ'')],
     dr_cash_flow = None, dr_options = None\<rparr>"

definition demo_save :: save_request where
  "demo_save = \<lparr>sv_saved_by = ''adv'', sv_version_label = None\<rparr>"

definition demo_proposal_service :: proposal_service where
  "demo_proposal_service = \<lparr>pv_services = demo_services, pv_store_evidence_bundle = True,
     pv_require_simulation_flag = True, pv_allow_portfolio_change = False\<rparr>"

definition demo_handoff_call :: handoff_call where
  "demo_handoff_call = \<lparr>hc_request = \<lparr>hq_handoff_by = ''adv'', hq_metadata = empty_metadata\<rparr>,
     hc_idempotency_key = Some ''k'', hc_correlation_id = None, hc_lineage_at = ''t1'',
     hc_completed_at = ''t2''\<rparr>"

definition demo_lifecycle :: "string \<Rightarrow> lifecycle_inputs" where
  "demo_lifecycle pid = \<lparr>lf_now = 1,
     lf_ids = \<lparr>ni_proposal_id = pid, ni_version_id = ''v'' @ pid, ni_event_id = ''e'' @ pid\<rparr>\<rparr>"

definition demo_options :: jobject where
  "demo_options = [(''enable_proposal_simulation'', JBool True)]"

text \<open>A context with source provenance and a completeness report.\<close>

definition demo_provenance :: "source_kind \<Rightarrow> provenance_record" where
  "demo_provenance k = \<lparr>spr_source_system = ''LOTUS_CORE'', spr_source_kind = k, spr_source_id = ''s1'',
     spr_as_of = ''2026-03-25'', spr_contract_version = ''v1'', spr_source_version = Some ''7'',
     spr_source_event_id = None, spr_source_batch_id = None, spr_source_hash = None,
     spr_valuation_timestamp = None, spr_freshness_status = SF_CURRENT\<rparr>"

definition demo_sourced_context :: resolved_context where
  "demo_sourced_context = \<lparr>rc_portfolio_id = ''pf_1'', rc_as_of = Some ''2026-03-25'',
     rc_requested_as_of = None, rc_requested_reporting_currency = None,
     rc_portfolio_snapshot_id = Some ''ps_1'', rc_market_data_snapshot_id = Some ''md_1'',
     rc_risk_context_id = None, rc_reporting_context_id = None,
     rc_source_provenance = Some \<lparr>spe_source_system = ''LOTUS_CORE'',
       spe_portfolio = demo_provenance SN_PORTFOLIO, spe_market_data = demo_provenance SN_MARKET_DATA\<rparr>,
     rc_source_completeness = Some \<lparr>scr_source_system = ''LOTUS_CORE'', scr_portfolio_id = ''pf_1'',
       scr_as_of = ''2026-03-25'', scr_status = SC_DEGRADED,
       scr_collections = [\<lparr>scc_source_collection = ''positions'', scc_required = True,
         scc_received_count = 3, scc_accepted_count = 2, scc_rejected_count = 1,
         scc_duplicate_count = 0, scc_rejection_reasons = [(''MISSING_ID'', 1)],
         scc_affected_refs = [''row-2''], scc_status = SC_DEGRADED\<rparr>]\<rparr>\<rparr>"

subsection \<open>The run\<close>

definition workspace_start :: "session_cache \<times> repository" where
  "workspace_start = (\<lparr>sk_max_size = 2, sk_sessions = []\<rparr>, empty_repository)"

definition demo_edits :: "timed_command list" where
  "demo_edits = [(demo_workspace_services, demo_inputs ''d1'', WC_Action ''ws'' demo_add_trade)]"

definition demo_session_state :: "session_cache \<times> repository" where
  "demo_session_state = run_commands workspace_runtime demo_proposal_service
     [(demo_workspace_services, demo_inputs ''ws'', WC_Create demo_session_request),
      (demo_workspace_services, demo_inputs ''x'', WC_Reevaluate ''ws'')]
     workspace_start"

definition demo_saved_state :: "session_cache \<times> repository" where
  "demo_saved_state = perform_command workspace_runtime demo_workspace_services demo_proposal_service
     (demo_inputs ''v1'') (WC_Save ''ws'' demo_save) demo_session_state"

definition demo_edited_state :: "session_cache \<times> repository" where
  "demo_edited_state = run_commands workspace_runtime demo_proposal_service demo_edits
     demo_saved_state"

definition demo_handed_state :: "session_cache \<times> repository" where
  "demo_handed_state = perform_command workspace_runtime demo_workspace_services demo_proposal_service
     (demo_inputs ''y'') (WC_Handoff ''ws'' demo_handoff_call (demo_lifecycle ''p'')) demo_saved_state"

lemma demo_ids_inj: "inj (di_trade demo_draft_ids)" "inj (di_cash_flow demo_draft_ids)"
  by (auto simp: demo_draft_ids_def inj_def)

lemma demo_session_reachable:
  "evaluated_reachable workspace_runtime demo_proposal_service demo_session_state"
proof -
  have "evaluated_reachable workspace_runtime demo_proposal_service
      (perform_command workspace_runtime demo_workspace_services demo_proposal_service
        (demo_inputs ''ws'') (WC_Create demo_session_request) workspace_start)"
    unfolding workspace_start_def
    by (rule evaluated_reachable.step [OF evaluated_reachable.start])
      (simp_all add: demo_inputs_def demo_ids_inj)
  then show ?thesis
    unfolding demo_session_state_def run_commands.simps
    by (rule evaluated_reachable.step) (cases "perform_command workspace_runtime demo_workspace_services
        demo_proposal_service (demo_inputs ''ws'') (WC_Create demo_session_request) workspace_start", simp)+
qed

lemma demo_saved_reachable:
  "evaluated_reachable workspace_runtime demo_proposal_service demo_saved_state"
  unfolding demo_saved_state_def
  by (rule evaluated_reachable.step [OF demo_session_reachable]) (cases demo_session_state, simp)+

subsection \<open>What the run did\<close>

text \<open>The first version is saved from a session without one, and the session stays cached.\<close>

lemma demo_save_run:
  "case demo_session_state of (c, R) \<Rightarrow>
     (case get_session ''ws'' c of Inl e \<Rightarrow> False | Inr s \<Rightarrow> wk_saved_versions s = [])
     \<and> (case save_version workspace_runtime (demo_inputs ''v1'') ''ws'' demo_save c of
          (Inl e, c1) \<Rightarrow> False
        | (Inr (s1, v), c1) \<Rightarrow> wk_lifecycle_link s1 = None \<and> length (wk_saved_versions s1) = 1
            \<and> trade_dict (wk_draft_state s1) = [] \<and> cash_flow_dict (wk_draft_state s1) = []
            \<and> stays_cached workspace_runtime demo_proposal_service ''ws''
                demo_edits (c1, R))"
  by code_simp

text \<open>The saved session is handed off, and handed off again.\<close>

lemma demo_handoff_run:
  "case demo_saved_state of (c, R) \<Rightarrow> R = empty_repository
     \<and> (case handoff_to_proposal_lifecycle workspace_runtime demo_workspace_services demo_proposal_service
          (demo_lifecycle ''p'') ''ws'' demo_handoff_call c R of
        (Inl e, c1, R1) \<Rightarrow> False
      | (Inr x, c1, R1) \<Rightarrow> rp_proposals R1 \<noteq> []
          \<and> \<not> isl (fst (handoff_to_proposal_lifecycle workspace_runtime demo_workspace_services
              demo_proposal_service (demo_lifecycle ''q'') ''ws'' demo_handoff_call c1 R1)))"
  by code_simp

text \<open>A version saved after the edit whose evaluation was refused.\<close>

lemma demo_stale_run:
  "case demo_edited_state of (c, R) \<Rightarrow>
     (case save_version workspace_runtime (demo_inputs ''v2'') ''ws'' demo_save c of
        (Inl e, c1) \<Rightarrow> False
      | (Inr (s, v), c1) \<Rightarrow> we_draft_state_hash (wv_replay_evidence v)
          \<noteq> build_draft_state_hash workspace_runtime (wv_draft_state v))"
  by code_simp

subsection \<open>The states of the run\<close>

lemma demo_saved:
  obtains c R s1 v c1 where "demo_session_state = (c, R)" and "workspaces_ok (c, R)"
    and "save_version workspace_runtime (demo_inputs ''v1'') ''ws'' demo_save c = (Inr (s1, v), c1)"
    and "\<And>s. get_session ''ws'' c = Inr s \<Longrightarrow> wk_saved_versions s = []"
    and "demo_saved_state = (c1, R)" and "get_session ''ws'' c1 = Inr s1"
    and "wk_lifecycle_link s1 = None" and "length (wk_saved_versions s1) = 1"
    and "run_fresh workspace_runtime demo_proposal_service demo_edits (c1, R)"
    and "stays_cached workspace_runtime demo_proposal_service ''ws'' demo_edits (c1, R)"
proof -
  obtain c R where S: "demo_session_state = (c, R)" by (metis prod.exhaust)
  obtain r c1 where run: "save_version workspace_runtime (demo_inputs ''v1'') ''ws'' demo_save c = (r, c1)"
    by (metis prod.exhaust)
  note facts = demo_save_run [unfolded S prod.case run]
  then obtain s1 v where r: "r = Inr (s1, v)" by (cases r) auto
  note facts = facts [unfolded r prod.case sum.case]
  have ok: "workspaces_ok (c, R)"
    using workspace_reachable_ok [OF evaluated_is_reachable [OF demo_session_reachable]] S by simp
  have saved: "demo_saved_state = (c1, R)"
    unfolding demo_saved_state_def S perform_command.simps run by simp
  have cok: "cache_ok c" using ok by (simp add: workspaces_ok_def)
  obtain s where s: "get_session ''ws'' c = Inr s" and c1: "c1 = save_session s1 c"
    and s1: "wk_workspace_id s1 = wk_workspace_id s"
    using run [unfolded r]
    by (auto simp: save_version_def Let_def refresh_saved_version_metadata_def split: sum.splits)
  have get: "get_session ''ws'' c1 = Inr s1"
    using get_save_same [OF cok, of s1] get_session_id [OF cok s] s1 c1 by simp
  show thesis
    using facts get s by (intro that [OF S ok run [unfolded r] _ saved get])
      (auto simp: demo_edits_def)
qed

lemma demo_handed:
  obtains c R s x c1 R1 x2 c2 R2 where "demo_saved_state = (c, R)" and "workspaces_ok (c, R)"
    and "get_session ''ws'' c = Inr s" and "wk_lifecycle_link s = None"
    and "get_proposal (ni_proposal_id (lf_ids (demo_lifecycle ''p''))) R = None"
    and "handoff_to_proposal_lifecycle workspace_runtime demo_workspace_services demo_proposal_service
      (demo_lifecycle ''p'') ''ws'' demo_handoff_call c R = (Inr x, c1, R1)"
    and "R1 \<noteq> R" and "demo_handed_state = (c1, R1)"
    and "handoff_to_proposal_lifecycle workspace_runtime demo_workspace_services demo_proposal_service
      (demo_lifecycle ''q'') ''ws'' demo_handoff_call c1 R1 = (Inr x2, c2, R2)"
proof -
  obtain c R s where S: "demo_saved_state = (c, R)" and s: "get_session ''ws'' c = Inr s"
    "wk_lifecycle_link s = None"
    by (rule demo_saved) blast
  have ok: "workspaces_ok (c, R)"
    using workspace_reachable_ok [OF evaluated_is_reachable [OF demo_saved_reachable]] S by simp
  obtain r c1 R1 where run: "handoff_to_proposal_lifecycle workspace_runtime demo_workspace_services
      demo_proposal_service (demo_lifecycle ''p'') ''ws'' demo_handoff_call c R = (r, c1, R1)"
    by (metis prod.exhaust)
  obtain r2 c2 R2 where run2: "handoff_to_proposal_lifecycle workspace_runtime demo_workspace_services
      demo_proposal_service (demo_lifecycle ''q'') ''ws'' demo_handoff_call c1 R1 = (r2, c2, R2)"
    by (metis prod.exhaust)
  note facts = demo_handoff_run [unfolded S prod.case run]
  then obtain x where r: "r = Inr x" by (cases r) auto
  note facts = facts [unfolded r prod.case sum.case run2]
  then obtain x2 where r2: "r2 = Inr x2" by (cases r2) auto
  have handed: "demo_handed_state = (c1, R1)"
    unfolding demo_handed_state_def S perform_command.simps run by simp
  have "R1 \<noteq> R" using facts by (auto simp: empty_repository_def)
  moreover have "get_proposal (ni_proposal_id (lf_ids (demo_lifecycle ''p''))) R = None"
    using facts by (simp add: empty_repository_def get_proposal_def)
  ultimately show thesis using that [OF S ok s _ run [unfolded r] _ handed run2 [unfolded r2]] by blast
qed

lemma demo_handed_reachable:
  "workspace_reachable workspace_runtime demo_proposal_service demo_handed_state"
proof -
  obtain c R where S: "demo_saved_state = (c, R)"
    and new: "get_proposal (ni_proposal_id (lf_ids (demo_lifecycle ''p''))) R = None"
    by (rule demo_handed) blast
  show ?thesis
    unfolding demo_handed_state_def
    by (rule workspace_reachable.step [OF evaluated_is_reachable [OF demo_saved_reachable]])
      (simp add: S new)
qed

section \<open>Properties\<close>

text \<open>
  Properties of the advisory workspaces: drafts, saved versions and their evidence, the session
  cache, and the handoff of a workspace to the proposal lifecycle.
\<close>

subsection \<open>Handoff\<close>

text \<open>
  C34.  In every reachable state a cached session that was handed off is linked to a stored proposal,
  at a version number between 1 and the current one, and that version is stored.
\<close>

theorem workspace_links_resolve:
  assumes "workspace_reachable rt ps (c, R)" and "get_session i c = Inr s"
    and "wk_lifecycle_link s = Some l"
  shows "\<exists>p v. get_proposal (ln_proposal_id l) R = Some p
    \<and> 1 \<le> ln_current_version_no l \<and> ln_current_version_no l \<le> pr_current_version_no p
    \<and> get_version (ln_proposal_id l) (ln_current_version_no l) R = Some v"
proof -
  have ok: "workspaces_ok (c, R)" using workspace_reachable_ok [OF assms(1)] .
  then have "link_ok R s" using get_session_cached [OF assms(2)] by (simp add: workspaces_ok_def)
  then obtain p where p: "get_proposal (ln_proposal_id l) R = Some p" "1 \<le> ln_current_version_no l"
    "ln_current_version_no l \<le> pr_current_version_no p"
    using assms(3) by (auto simp: link_ok_def)
  have "versions_ok R" using ok by (simp add: workspaces_ok_def repository_fine_def repository_ok_def)
  then have "get_version (ln_proposal_id l) (ln_current_version_no l) R \<noteq> None"
    using p by (auto simp: versions_ok_def)
  then show ?thesis using p by auto
qed

theorem workspace_links_resolve_witness:
  "\<exists>i s l v. get_session i (fst demo_handed_state) = Inr s \<and> wk_lifecycle_link s = Some l
    \<and> get_version (ln_proposal_id l) (ln_current_version_no l) (snd demo_handed_state) = Some v"
proof -
  obtain c R s x c1 R1 where S: "demo_saved_state = (c, R)" "workspaces_ok (c, R)"
    "get_session ''ws'' c = Inr s" "demo_handed_state = (c1, R1)"
    and run: "handoff_to_proposal_lifecycle workspace_runtime demo_workspace_services demo_proposal_service
      (demo_lifecycle ''p'') ''ws'' demo_handoff_call c R = (Inr x, c1, R1)"
    by (rule demo_handed) blast
  obtain l where l: "get_session ''ws'' c1 = Inr (hw_workspace x)" "wk_lifecycle_link (hw_workspace x) = Some l"
    using handoff_success [OF run _ S(3)] S(2) by (auto simp: workspaces_ok_def)
  show ?thesis
    using workspace_links_resolve [OF demo_handed_reachable [unfolded S(4)] l] l
    unfolding S(4) fst_conv snd_conv by blast
qed

text \<open>
  C12.  A workspace handed off for the first time starts a proposal at version 1, whose
  record names the workspace it comes from when the call wrote one (a reused idempotency key finds the
  proposal of its first use); every later handoff of it appends exactly the next version to the
  proposal it is linked to, and only if that proposal still stands at the linked version.  The
  returned session is the cached one, linked to the answer.
\<close>

theorem handoff_starts_or_continues_a_proposal:
  assumes "workspaces_ok (c, R)" and "get_session i c = Inr s"
    and "get_proposal (ni_proposal_id (lf_ids lf)) R = None"
    and "handoff_to_proposal_lifecycle rt wx ps lf i h c R = (Inr x, c', R')"
  shows "get_session i c' = Inr (hw_workspace x)
    \<and> (\<exists>l'. wk_lifecycle_link (hw_workspace x) = Some l'
         \<and> ln_proposal_id l' = ps_proposal_id (cr_proposal (hw_proposal x))
         \<and> ln_current_version_no l' = vd_version_no (cr_version (hw_proposal x)))
    \<and> (case wk_lifecycle_link s of
        None \<Rightarrow> hw_handoff_action x = HA_CREATED_PROPOSAL
          \<and> vd_version_no (cr_version (hw_proposal x)) = 1
          \<and> (\<exists>p. get_proposal (ps_proposal_id (cr_proposal (hw_proposal x))) R' = Some p
             \<and> (R' \<noteq> R \<longrightarrow> pr_lifecycle_origin p = LO_WORKSPACE_HANDOFF
                  \<and> pr_source_workspace_id p = Some i \<and> get_proposal (pr_proposal_id p) R = None))
      | Some l \<Rightarrow> hw_handoff_action x = HA_CREATED_PROPOSAL_VERSION
          \<and> ps_proposal_id (cr_proposal (hw_proposal x)) = ln_proposal_id l
          \<and> vd_version_no (cr_version (hw_proposal x)) = ln_current_version_no l + 1
          \<and> (\<exists>p p'. get_proposal (ln_proposal_id l) R = Some p
             \<and> pr_current_version_no p = ln_current_version_no l
             \<and> get_proposal (ln_proposal_id l) R' = Some p'
             \<and> pr_current_version_no p' = ln_current_version_no l + 1))"
  (is "?cached \<and> ?linked \<and> ?action")
proof -
  have "cache_ok c" using assms(1) by (simp add: workspaces_ok_def)
  from handoff_success [OF assms(4) this assms(2)]
  have "?cached" and "?linked" by fastforce+
  moreover have ?action
  proof (cases "wk_lifecycle_link s")
    case None
    then show ?thesis using handoff_creates [OF assms(4,1,2) _ assms(3)] by simp
  next
    case (Some l)
    from handoff_continues [OF assms(4,1,2) Some] show ?thesis unfolding Some by (simp, metis)
  qed
  ultimately show ?thesis by blast
qed

theorem handoff_starts_or_continues_a_proposal_witness:
  "\<exists>x c R. handoff_to_proposal_lifecycle workspace_runtime demo_workspace_services demo_proposal_service
      (demo_lifecycle ''p'') ''ws'' demo_handoff_call (fst demo_saved_state) (snd demo_saved_state) = (Inr x, c, R)
    \<and> hw_handoff_action x = HA_CREATED_PROPOSAL \<and> vd_version_no (cr_version (hw_proposal x)) = 1"
proof -
  obtain c R s x c1 R1 where S: "demo_saved_state = (c, R)" "workspaces_ok (c, R)"
    "get_session ''ws'' c = Inr s" "wk_lifecycle_link s = None" "get_proposal (ni_proposal_id (lf_ids (demo_lifecycle ''p''))) R = None"
    and run: "handoff_to_proposal_lifecycle workspace_runtime demo_workspace_services demo_proposal_service
      (demo_lifecycle ''p'') ''ws'' demo_handoff_call c R = (Inr x, c1, R1)"
    by (rule demo_handed) blast
  from handoff_starts_or_continues_a_proposal [OF S(2,3,5) run] S(4)
  have "hw_handoff_action x = HA_CREATED_PROPOSAL \<and> vd_version_no (cr_version (hw_proposal x)) = 1" by auto
  with run show ?thesis unfolding S(1) fst_conv snd_conv by blast
qed

text \<open>
  C35.  A first handoff is safe to repeat: when its answer was recorded by the proposal service but
  lost before the session was linked, sending it again with the same request and idempotency key
  never writes anything and never answers with another proposal or version, whatever the portfolio
  service answers the second time.  It is answered, with the proposal it created, whenever the
  session's simulate request is what it was: always for a stateless session, and for a stateful one
  when the portfolio service resolves and enriches it as before; otherwise it may be refused.
\<close>

theorem repeated_handoff_finds_its_proposal:
  assumes "workspaces_ok (c, R)" and "get_session i c = Inr s" and "wk_lifecycle_link s = None"
    and "get_proposal (ni_proposal_id (lf_ids lf)) R = None"
    and "handoff_to_proposal_lifecycle rt wx ps lf i h c R = (Inr x, c', R')"
    and "hc_request h' = hc_request h" and "hc_idempotency_key h' = hc_idempotency_key h"
    and "get_session i c2 = Inr (s\<lparr>wk_resolved_context := Some cx\<rparr>)"
    and "handoff_to_proposal_lifecycle rt wx' ps lf' i h' c2 R' = (res, c3, R3)"
  shows "R3 = R'
    \<and> (\<forall>x'. res = Inr x' \<longrightarrow>
         ps_proposal_id (cr_proposal (hw_proposal x')) = ps_proposal_id (cr_proposal (hw_proposal x))
         \<and> vd_version_no (cr_version (hw_proposal x')) = vd_version_no (cr_version (hw_proposal x)))
    \<and> (wk_input_mode s = IM_STATELESS
         \<or> fst (build_simulate_request wx' s) = fst (build_simulate_request wx s) \<longrightarrow> (\<exists>x'. res = Inr x'))"
proof -
  note again = handoff_repeated [OF assms(5,1-4,6-9)]
  have "\<exists>x'. res = Inr x'"
    if "wk_input_mode s = IM_STATELESS \<or> fst (build_simulate_request wx' s) = fst (build_simulate_request wx s)"
    using again(3) simulate_request_stateless [of s wx' wx] that by (cases res) auto
  then show ?thesis using again(1,2) by blast
qed

theorem repeated_handoff_finds_its_proposal_witness:
  "\<exists>x c R x' c'. handoff_to_proposal_lifecycle workspace_runtime demo_workspace_services demo_proposal_service
      (demo_lifecycle ''p'') ''ws'' demo_handoff_call (fst demo_saved_state) (snd demo_saved_state) = (Inr x, c, R)
    \<and> handoff_to_proposal_lifecycle workspace_runtime (demo_workspace_services\<lparr>wx_default_options := demo_options\<rparr>)
      demo_proposal_service (demo_lifecycle ''q'') ''ws'' demo_handoff_call (fst demo_saved_state) R = (Inr x', c', R)"
proof -
  let ?wx = "demo_workspace_services\<lparr>wx_default_options := demo_options\<rparr>"
  obtain c R s x c1 R1 where S: "demo_saved_state = (c, R)" "workspaces_ok (c, R)"
    "get_session ''ws'' c = Inr s" "wk_lifecycle_link s = None" "get_proposal (ni_proposal_id (lf_ids (demo_lifecycle ''p''))) R = None"
    and run: "handoff_to_proposal_lifecycle workspace_runtime demo_workspace_services demo_proposal_service
      (demo_lifecycle ''p'') ''ws'' demo_handoff_call c R = (Inr x, c1, R1)"
    by (rule demo_handed) blast
  have "own_ok s" using S(2) get_session_cached [OF S(3)] by (simp add: workspaces_ok_def)
  then obtain cx where "wk_resolved_context s = Some cx" by (auto simp: own_ok_def)
  then have get: "get_session ''ws'' c = Inr (s\<lparr>wk_resolved_context := Some cx\<rparr>)" using S(3) by simp
  obtain res c3 R3 where again: "handoff_to_proposal_lifecycle workspace_runtime ?wx demo_proposal_service
      (demo_lifecycle ''q'') ''ws'' demo_handoff_call c R1 = (res, c3, R3)" by (metis prod.exhaust)
  note found = repeated_handoff_finds_its_proposal [OF S(2-5) run refl refl get again]
  have "fst (build_simulate_request ?wx s) = fst (build_simulate_request demo_workspace_services s)"
    by (simp add: build_simulate_request_def demo_workspace_services_def split: input_mode.split option.split sum.split)
  with found obtain x' where "res = Inr x'" and "R3 = R1" by blast
  with again run show ?thesis unfolding S(1) fst_conv snd_conv by blast
qed

text \<open>
  C13.  What is handed off is what was evaluated, for a first handoff and for every later one: the
  lifecycle accepts the create or version request and the context override a workspace sends, with
  whatever source provenance and completeness its context carries, and resolves them to the simulate
  request, the input mode and the resolved context of the workspace's own evaluation, from which it
  derives the same simulation request hash.
\<close>

theorem handoff_sends_the_evaluated_request:
  assumes "wk_resolved_context s \<noteq> None"
  shows "\<exists>ec override r override' r'.
      build_workspace_evaluation_context lx s sim = Inr ec \<and> rv_simulate_request ec = sim
    \<and> build_workspace_handoff_context_resolution lx s sim (build_handoff_metadata q s) = Inr override
    \<and> bind_error (resolve_create_request port (build_proposal_create_request s q sim))
        (\<lambda>r. apply_context_resolution_override lx r (Some override)) = Inr r
    \<and> build_workspace_handoff_context_resolution lx s sim empty_metadata = Inr override'
    \<and> bind_error (resolve_version_request port (build_proposal_version_request s q sim))
        (\<lambda>r. apply_context_resolution_override lx r (Some override')) = Inr r'
    \<and> sends rt ec r \<and> sends rt ec r'"
proof (rule handoff_resolution [OF assms, of lx sim q port rt], intro exI conjI)
  fix ec assume "build_workspace_evaluation_context lx s sim = Inr ec"
  then show "rv_simulate_request ec = sim"
    by (auto simp: build_workspace_evaluation_context_def bind_error_Inr_iff split: option.splits)
qed

theorem handoff_sends_the_evaluated_request_witness:
  "\<exists>s ec. get_session ''ws'' (fst demo_saved_state) = Inr s
    \<and> build_workspace_evaluation_context demo_coercion (s\<lparr>wk_resolved_context := Some demo_sourced_context\<rparr>)
        demo_simulate = Inr ec
    \<and> rv_simulate_request ec = demo_simulate"
proof -
  obtain c R s where S: "demo_saved_state = (c, R)" "get_session ''ws'' c = Inr s"
    by (rule demo_handed) blast
  have "wk_resolved_context (s\<lparr>wk_resolved_context := Some demo_sourced_context\<rparr>) \<noteq> None" by simp
  from handoff_sends_the_evaluated_request [OF this, of demo_coercion demo_simulate]
  show ?thesis using S(2) unfolding S(1) fst_conv by blast
qed

text \<open>
  C37.  How a handoff fails: with WORKSPACE_NOT_FOUND for an id that is not cached, with a
  \<open>WorkspaceHandoffUnavailableError\<close> whose detail passes the sensitive-detail screen, or with an
  exception of a service it called that is no \<open>ValueError\<close>, which it hands on as it is and does not
  screen.
\<close>

theorem handoff_refusals_are_screened:
  assumes "fst (handoff_to_proposal_lifecycle rt wx ps lf i h c R) = Inl e"
  shows "(e = WE_NotFound ''WORKSPACE_NOT_FOUND'' \<and> isl (get_session i c))
    \<or> (\<exists>d. e = WE_HandoffUnavailable d \<and> \<not> contains_sensitive_error_detail d)
    \<or> (\<exists>x. e = WE_Other x \<and> \<not> is_value_error x)"
  by (rule handoff_failures [OF assms])

theorem handoff_refusals_are_screened_witness:
  "\<exists>d. fst (handoff_to_proposal_lifecycle workspace_runtime demo_workspace_services demo_proposal_service
      (demo_lifecycle ''p'') ''ws'' (demo_handoff_call\<lparr>hc_idempotency_key := None\<rparr>)
      (fst demo_saved_state) (snd demo_saved_state)) = Inl (WE_HandoffUnavailable d)
    \<and> \<not> contains_sensitive_error_detail d"
proof -
  obtain c R s where S: "demo_saved_state = (c, R)" "get_session ''ws'' c = Inr s" "wk_lifecycle_link s = None"
    by (rule demo_handed) blast
  have "\<exists>d. fst (handoff_to_proposal_lifecycle workspace_runtime demo_workspace_services demo_proposal_service
      (demo_lifecycle ''p'') ''ws'' (demo_handoff_call\<lparr>hc_idempotency_key := None\<rparr>) c R)
      = Inl (WE_HandoffUnavailable d)"
    using S by (simp add: handoff_to_proposal_lifecycle_def execute_create_def
        normalize_workspace_handoff_idempotency_key_def handoff_operation_error_def Let_def
        normalize_required_idempotency_key_def normalize_optional_idempotency_key_def)
  then obtain d where d: "fst (handoff_to_proposal_lifecycle workspace_runtime demo_workspace_services
      demo_proposal_service (demo_lifecycle ''p'') ''ws'' (demo_handoff_call\<lparr>hc_idempotency_key := None\<rparr>) c R)
      = Inl (WE_HandoffUnavailable d)" by blast
  from handoff_refusals_are_screened [OF d] have "\<not> contains_sensitive_error_detail d" by auto
  with d show ?thesis unfolding S(1) fst_conv snd_conv by blast
qed

subsection \<open>Saved versions\<close>

text \<open>
  C39.  In every reachable state the saved versions of a cached session are numbered 1, 2, ... in order,
  its count and its latest-version summary are those of that list, the workspace trade ids and cash
  flow ids are distinct in its draft and in every saved draft, and the cache holds no more sessions
  than its limit.
\<close>

theorem saved_versions_are_numbered:
  assumes "workspace_reachable rt ps (c, R)" and "get_session i c = Inr s"
  shows "map wv_version_number (wk_saved_versions s) = [1..<Suc (length (wk_saved_versions s))]
    \<and> wk_saved_version_count s = length (wk_saved_versions s)
    \<and> wk_latest_saved_version s = (if wk_saved_versions s = [] then None
         else Some (build_saved_version_summary (last (wk_saved_versions s))))
    \<and> (\<forall>d \<in> insert (wk_draft_state s) (wv_draft_state ` set (wk_saved_versions s)).
         distinct (map td_workspace_trade_id (ds_trade_drafts d))
         \<and> distinct (map cd_workspace_cash_flow_id (ds_cash_flow_drafts d)))
    \<and> int (length (sk_sessions c)) \<le> sk_max_size c"
proof -
  have ok: "workspaces_ok (c, R)" using workspace_reachable_ok [OF assms(1)] .
  then have "own_ok s" and "cache_ok c"
    using get_session_cached [OF assms(2)] by (simp_all add: workspaces_ok_def)
  then show ?thesis
    by (auto simp: own_ok_def cache_ok_def draft_ok_def dict_wf_def trade_ids cash_flow_ids last_map)
qed

theorem saved_versions_are_numbered_witness:
  "\<exists>s. get_session ''ws'' (fst demo_saved_state) = Inr s \<and> length (wk_saved_versions s) = 1
    \<and> map wv_version_number (wk_saved_versions s) = [1]"
proof -
  obtain R s c where S: "demo_saved_state = (c, R)" "get_session ''ws'' c = Inr s" "length (wk_saved_versions s) = 1"
    by (rule demo_saved) blast
  have "workspace_reachable workspace_runtime demo_proposal_service (c, R)"
    using evaluated_is_reachable [OF demo_saved_reachable] S(1) by simp
  from saved_versions_are_numbered [OF this S(2)]
  have "map wv_version_number (wk_saved_versions s) = [1..<Suc (length (wk_saved_versions s))]" by blast
  then have "map wv_version_number (wk_saved_versions s) = [1]" unfolding S(3) by simp
  then show ?thesis using S(2,3) unfolding S(1) fst_conv by (intro exI [of _ s] conjI)
qed

text \<open>
  C14.  Saved versions are immutable while their session is cached: a command on workspaces or
  proposals after which the session is still cached removes, reorders or changes none of its saved
  versions, but for the continuity note a handoff writes into its evidence; nor does it change the
  session's name, inputs, owner or mode, unlink it, link it to another proposal or move its link back
  to an earlier version.  A session leaves the in-memory cache, with its saved versions, only by
  a reset, a change of the limit, or the eviction that creating a session in a full cache causes.
\<close>

theorem saved_versions_only_grow:
  assumes "workspace_reachable rt ps (c, R)" and "fresh_ids rt ps ci cmd (c, R)"
    and "perform_command rt wx ps ci cmd (c, R) = (c', R')" and "get_session i c = Inr s"
  shows "case get_session i c' of
      Inr s' \<Rightarrow> prefix (map frozen (wk_saved_versions s)) (map frozen (wk_saved_versions s'))
        \<and> session_identity s' = session_identity s
        \<and> (\<forall>l. wk_lifecycle_link s = Some l \<longrightarrow> (\<exists>l'. wk_lifecycle_link s' = Some l'
             \<and> ln_proposal_id l' = ln_proposal_id l \<and> ln_current_version_no l \<le> ln_current_version_no l'))
    | Inl e \<Rightarrow> cmd = WC_Reset \<or> (\<exists>n. cmd = WC_Resize n)
        \<or> (\<exists>q. cmd = WC_Create q \<and> int (length (sk_sessions c)) = sk_max_size c)"
proof -
  note ok = workspace_reachable_ok [OF assms(1)]
  show ?thesis
  proof (cases "get_session i c'")
    case (Inl e)
    then show ?thesis using command_keeps_cached [OF ok assms(2-4)] by simp
  next
    case (Inr s')
    from command_grown [OF ok assms(2-4) this] show ?thesis by (simp add: Inr grown_def)
  qed
qed

theorem saved_versions_only_grow_witness:
  "\<exists>s s'. get_session ''ws'' (fst demo_saved_state) = Inr s \<and> get_session ''ws'' (fst demo_edited_state) = Inr s'
    \<and> wk_saved_versions s \<noteq> []
    \<and> prefix (map frozen (wk_saved_versions s)) (map frozen (wk_saved_versions s'))"
proof -
  obtain R s c where S: "demo_saved_state = (c, R)" "get_session ''ws'' c = Inr s" "length (wk_saved_versions s) = 1"
    and fresh: "run_fresh workspace_runtime demo_proposal_service demo_edits (c, R)"
    and stays: "stays_cached workspace_runtime demo_proposal_service ''ws'' demo_edits (c, R)"
    by (rule demo_saved) blast
  obtain c' R' where run: "perform_command workspace_runtime demo_workspace_services demo_proposal_service
      (demo_inputs ''d1'') (WC_Action ''ws'' demo_add_trade) (c, R) = (c', R')" by (metis prod.exhaust)
  have E: "demo_edited_state = (c', R')" by (simp add: demo_edited_state_def demo_edits_def S(1) run del: perform_command.simps)
  have "fresh_ids workspace_runtime demo_proposal_service (demo_inputs ''d1'') (WC_Action ''ws'' demo_add_trade) (c, R)"
    using fresh by (simp add: demo_edits_def)
  moreover obtain s' where s': "get_session ''ws'' c' = Inr s'"
    using stays run by (cases "get_session ''ws'' c'") (auto simp: demo_edits_def simp del: perform_command.simps)
  moreover have "workspace_reachable workspace_runtime demo_proposal_service (c, R)"
    using evaluated_is_reachable [OF demo_saved_reachable] S(1) by simp
  ultimately have "prefix (map frozen (wk_saved_versions s)) (map frozen (wk_saved_versions s'))"
    using saved_versions_only_grow [OF _ _ run S(2)] by fastforce
  moreover have "wk_saved_versions s \<noteq> []" using S(3) by auto
  ultimately show ?thesis using S(2) s' unfolding S(1) E fst_conv by blast
qed

text \<open>
  C15.  Save and resume round trip: after a save and any run of commands throughout which the session
  stays cached (it is neither evicted nor cleared), resuming the saved version gives back the draft,
  the evaluation summary, the latest result and, but for the continuity note, the replay evidence the
  session had when it was saved.
\<close>

theorem resume_restores_the_saved_version:
  assumes "workspaces_ok (c, R)" and "save_version rt ci i q c = (Inr (s1, v), c1)"
    and "\<And>s. get_session i c = Inr s \<Longrightarrow> ci_new_id ci \<notin> wv_workspace_version_id ` set (wk_saved_versions s)"
    and "run_fresh rt ps cmds (c1, R)" and "stays_cached rt ps i cmds (c1, R)"
    and "run_commands rt ps cmds (c1, R) = (c2, R2)"
  shows "\<exists>s2 e. resume_version i (wv_workspace_version_id v) c2 = (Inr s2, save_session s2 c2)
    \<and> wk_draft_state s2 = wk_draft_state s1 \<and> wk_evaluation_summary s2 = wk_evaluation_summary s1
    \<and> wk_latest_proposal_result s2 = wk_latest_proposal_result s1
    \<and> wk_latest_replay_evidence s2 = Some e
    \<and> e\<lparr>we_continuity := []\<rparr> = (wv_replay_evidence v)\<lparr>we_continuity := []\<rparr>"
  by (rule saved_then_resumed [OF assms]) blast+

theorem resume_restores_the_saved_version_witness:
  "\<exists>s1 s2 c2. get_session ''ws'' (fst demo_saved_state) = Inr s1
    \<and> resume_version ''ws'' ''v1'' (fst demo_edited_state) = (Inr s2, c2)
    \<and> wk_draft_state s2 = wk_draft_state s1"
proof -
  obtain c R s1 v c1 where ok: "workspaces_ok (c, R)"
    and save: "save_version workspace_runtime (demo_inputs ''v1'') ''ws'' demo_save c = (Inr (s1, v), c1)"
    and none: "\<And>s. get_session ''ws'' c = Inr s \<Longrightarrow> wk_saved_versions s = []"
    and S: "demo_saved_state = (c1, R)" "get_session ''ws'' c1 = Inr s1"
    and fresh: "run_fresh workspace_runtime demo_proposal_service demo_edits (c1, R)"
    and stays: "stays_cached workspace_runtime demo_proposal_service ''ws'' demo_edits (c1, R)"
    by (rule demo_saved) blast
  obtain c2 R2 where run: "run_commands workspace_runtime demo_proposal_service demo_edits
      (c1, R) = (c2, R2)" by (metis prod.exhaust)
  have E: "demo_edited_state = (c2, R2)" by (simp add: demo_edited_state_def S(1) run)
  have id: "wv_workspace_version_id v = ''v1''"
    using save by (auto simp: save_version_def Let_def build_saved_workspace_version_def demo_inputs_def split: sum.splits)
  have "\<exists>s2. resume_version ''ws'' ''v1'' c2 = (Inr s2, save_session s2 c2) \<and> wk_draft_state s2 = wk_draft_state s1"
    using resume_restores_the_saved_version [OF ok save _ fresh stays run] none unfolding id by auto
  then show ?thesis using S(2) unfolding S(1) E fst_conv by blast
qed

text \<open>
  C36.  Evidence is of its draft: in every run whose edits were all evaluated, the latest replay
  evidence of a cached session carries the hash of the draft it stands beside, and so does the
  evidence of each saved version.
\<close>

theorem evidence_matches_its_draft:
  assumes "evaluated_reachable rt ps (c, R)" and "get_session i c = Inr s"
  shows "(\<forall>e. wk_latest_replay_evidence s = Some e \<longrightarrow>
        we_draft_state_hash e = build_draft_state_hash rt (wk_draft_state s))
    \<and> (\<forall>v\<in>set (wk_saved_versions s).
        we_draft_state_hash (wv_replay_evidence v) = build_draft_state_hash rt (wv_draft_state v))"
  using evaluated_reachable_evidence [OF assms(1)] get_session_cached [OF assms(2)]
  by (simp add: evidence_of_draft_def)

theorem evidence_matches_its_draft_witness:
  "\<exists>s v. get_session ''ws'' (fst demo_saved_state) = Inr s \<and> v \<in> set (wk_saved_versions s)
    \<and> we_draft_state_hash (wv_replay_evidence v) = build_draft_state_hash workspace_runtime (wv_draft_state v)"
proof -
  obtain R s c where S: "demo_saved_state = (c, R)" "get_session ''ws'' c = Inr s" "length (wk_saved_versions s) = 1"
    by (rule demo_saved) blast
  obtain v where v: "v \<in> set (wk_saved_versions s)" using S(3) by (cases "wk_saved_versions s") auto
  have "evaluated_reachable workspace_runtime demo_proposal_service (c, R)"
    using demo_saved_reachable S(1) by simp
  from evidence_matches_its_draft [OF this S(2)] v show ?thesis using S(2) unfolding S(1) fst_conv by blast
qed

text \<open>
  Without that proviso it fails: an edit whose evaluation was refused stays in the draft while the
  session keeps the evidence of the draft before, and a save stores the two together.
\<close>

theorem stale_evidence_is_saved:
  "\<exists>S s v c. workspace_reachable workspace_runtime demo_proposal_service S
    \<and> save_version workspace_runtime (demo_inputs ''v2'') ''ws'' demo_save (fst S) = (Inr (s, v), c)
    \<and> we_draft_state_hash (wv_replay_evidence v) \<noteq> build_draft_state_hash workspace_runtime (wv_draft_state v)"
proof -
  obtain c1 R where S: "demo_saved_state = (c1, R)"
    and fresh: "run_fresh workspace_runtime demo_proposal_service demo_edits (c1, R)"
    by (rule demo_saved) blast
  have "workspace_reachable workspace_runtime demo_proposal_service (c1, R)"
    using evaluated_is_reachable [OF demo_saved_reachable] S by simp
  then have "workspace_reachable workspace_runtime demo_proposal_service demo_edited_state"
    using run_reachable [OF _ fresh] by (simp add: demo_edited_state_def S)
  moreover have "\<exists>s v c. save_version workspace_runtime (demo_inputs ''v2'') ''ws'' demo_save (fst demo_edited_state)
      = (Inr (s, v), c)
    \<and> we_draft_state_hash (wv_replay_evidence v) \<noteq> build_draft_state_hash workspace_runtime (wv_draft_state v)"
  proof (cases demo_edited_state)
    case (Pair c R)
    show ?thesis using demo_stale_run unfolding Pair prod.case fst_conv by (auto split: prod.splits sum.splits)
  qed
  ultimately show ?thesis by blast
qed

subsection \<open>Drafts and the cache\<close>

text \<open>
  C38.  A draft action is accepted exactly when the payload its type needs is present and the entry it
  names exists, and then it is exactly the edit of two keyed lists and one options object it stands
  for: one entry set or deleted, every other entry and the rest of the draft untouched, the generated
  id being one no draft entry carries.
\<close>

theorem draft_actions_are_keyed_edits:
  assumes "new_id \<notin> fst ` set (trade_dict d)" and "new_id \<notin> fst ` set (cash_flow_dict d)"
  shows "(case apply_workspace_draft_action_to_state new_id q d of
      Inr d' \<Rightarrow> trade_dict d' = edited_trades new_id q (trade_dict d)
        \<and> cash_flow_dict d' = edited_cash_flows new_id q (cash_flow_dict d)
        \<and> ds_options d' = edited_options q (ds_options d)
        \<and> ds_reference_model d' = ds_reference_model d
        \<and> ds_alternatives_request d' = ds_alternatives_request d
    | Inl e \<Rightarrow> True)
    \<and> (\<not> isl (apply_workspace_draft_action_to_state new_id q d) \<longleftrightarrow>
       (case dr_action_type q of
          DA_ADD_TRADE \<Rightarrow> dr_trade q \<noteq> None
        | DA_UPDATE_TRADE \<Rightarrow> dr_trade q \<noteq> None
            \<and> (\<exists>i. dr_workspace_trade_id q = Some i \<and> i \<in> fst ` set (trade_dict d))
        | DA_REMOVE_TRADE \<Rightarrow> \<exists>i. dr_workspace_trade_id q = Some i \<and> i \<in> fst ` set (trade_dict d)
        | DA_ADD_CASH_FLOW \<Rightarrow> dr_cash_flow q \<noteq> None
        | DA_UPDATE_CASH_FLOW \<Rightarrow> dr_cash_flow q \<noteq> None
            \<and> (\<exists>i. dr_workspace_cash_flow_id q = Some i \<and> i \<in> fst ` set (cash_flow_dict d))
        | DA_REMOVE_CASH_FLOW \<Rightarrow>
            \<exists>i. dr_workspace_cash_flow_id q = Some i \<and> i \<in> fst ` set (cash_flow_dict d)
        | DA_REPLACE_OPTIONS \<Rightarrow> dr_options q \<noteq> None))"
proof -
  have "\<not> isl (apply_workspace_draft_action_to_state new_id q d)
      \<longleftrightarrow> (\<exists>d'. apply_workspace_draft_action_to_state new_id q d = Inr d')"
    by (cases "apply_workspace_draft_action_to_state new_id q d") auto
  note accepted = this [unfolded draft_action_accepted_iff]
  show ?thesis
  proof (intro conjI)
    show "case apply_workspace_draft_action_to_state new_id q d of
      Inr d' \<Rightarrow> trade_dict d' = edited_trades new_id q (trade_dict d)
        \<and> cash_flow_dict d' = edited_cash_flows new_id q (cash_flow_dict d)
        \<and> ds_options d' = edited_options q (ds_options d)
        \<and> ds_reference_model d' = ds_reference_model d
        \<and> ds_alternatives_request d' = ds_alternatives_request d
    | Inl e \<Rightarrow> True"
    proof (cases "apply_workspace_draft_action_to_state new_id q d")
      case (Inr d')
      from draft_action_refines [OF Inr assms] show ?thesis unfolding Inr sum.case by blast
    qed simp
  qed (rule accepted)
qed

theorem draft_actions_are_keyed_edits_witness:
  "\<exists>d. apply_workspace_draft_action_to_state ''t1'' demo_add_trade (empty_draft_state []) = Inr d
    \<and> trade_dict d = [(''t1'', [(''instrument_id'', JStr ''EQ'')])]"
proof -
  let ?d = "empty_draft_state []"
  have empty: "trade_dict ?d = []" "cash_flow_dict ?d = []"
    by (simp_all add: empty_draft_state_def trade_dict_def cash_flow_dict_def)
  then have "''t1'' \<notin> fst ` set (trade_dict ?d)" "''t1'' \<notin> fst ` set (cash_flow_dict ?d)" by simp_all
  from draft_actions_are_keyed_edits [OF this, of demo_add_trade] show ?thesis
    by (auto simp: demo_add_trade_def edited_trades_def empty split: sum.splits)
qed

text \<open>
  C40.  The session cache keeps what was saved last: after any sequence of saves it holds the latest
  state of the last distinct sessions saved, in the order of their last save, as many as its limit
  allows, and nothing else.
\<close>

theorem cache_keeps_the_latest_saves:
  assumes "1 \<le> m"
  shows "fold save_session ss \<lparr>sk_max_size = m, sk_sessions = []\<rparr> =
     \<lparr>sk_max_size = m, sk_sessions = drop (length (latest_saves ss) - nat m) (latest_saves ss)\<rparr>"
  using cache_after_saves [OF assms] by (simp add: last_n_def)

theorem cache_keeps_the_latest_saves_witness:
  "\<exists>s. get_session ''ws'' (fst demo_saved_state) = Inr s
    \<and> sk_sessions (fold save_session [s, s\<lparr>wk_workspace_id := ''w2''\<rparr>, s] \<lparr>sk_max_size = 1, sk_sessions = []\<rparr>)
        = [(''ws'', s)]"
proof -
  obtain c R s where S: "demo_saved_state = (c, R)" "workspaces_ok (c, R)" "get_session ''ws'' c = Inr s"
    by (rule demo_handed) blast
  have "cache_ok c" using S(2) by (simp add: workspaces_ok_def)
  then have id: "wk_workspace_id s = ''ws''" using get_session_id S(3) by blast
  have "sk_sessions (fold save_session [s, s\<lparr>wk_workspace_id := ''w2''\<rparr>, s]
      \<lparr>sk_max_size = 1, sk_sessions = []\<rparr>) = [(''ws'', s)]"
    by (subst cache_keeps_the_latest_saves) (simp_all add: id)
  then show ?thesis using S(3) unfolding S(1) fst_conv by blast
qed

end
