(* ===== verification/Spec2Isabelle.thy ===== *)
theory Spec2Isabelle
  imports Component_Properties Data_Properties Engine_Properties Report_Properties Policy_Properties
    Workspace_Properties
begin

text \<open>
  A verification library for the advisory engine: the proposal workflow
  (\<open>src/src/core/proposals\<close> over \<open>src/src/infrastructure/proposals/in_memory.py\<close>), the simulation
  engine (\<open>src/src/core/advisory\<close>, \<open>src/src/core/common\<close>, \<open>src/src/core/valuation.py\<close>,
  \<open>compliance.py\<close>), the policy packs (\<open>src/src/core/policy_packs\<close>) and the advisory workspaces
  (\<open>src/src/core/workspace\<close> over \<open>src/src/infrastructure/workspace/in_memory.py\<close>).

  The program.  An adviser creates a proposal, which is simulated and stored as an immutable
  version; reviews, client consent and execution move it through a workflow; every step is an
  event of an append-only log, and the stored proposal caches the state the log is in.  Clients
  retry with idempotency keys; commands read a snapshot, decide, and write with a
  compare-and-set.  Long requests run as asynchronous operations with leases, attempts and an
  operator control plane.  Reviewed ideas are taken in under a retention rule and reconciled
  with the proposals they lead to; memos and cockpit acknowledgements are written once.
  The simulation values a portfolio, applies cash flows and trades, funds foreign buys with
  conversions, simulates the orders, checks compliance and suitability, and answers with a status
  and a workflow gate.  Policy packs are versioned rule sets, validated by a maker and activated by
  a checker; an evaluation of the evidence of a proposal under a pack is stored with its hashes,
  reviewed and signed off through an event log, replayed, reported and explained.  Before there is a
  proposal an adviser works in a workspace: a session with a draft of trades and cash flows that is
  edited, evaluated, saved, resumed and compared, kept in a bounded cache, and handed off to the
  proposal workflow, first as a new proposal and later as further versions of it.

  Theories of the proposal workflow.  \<open>Prelude\<close> holds dictionaries, Python string helpers, JSON
  values and the runtime services (SHA-256 and the ISO timestamp functions, which are arguments
  without laws).  \<open>Canonical\<close> is \<open>core/common/canonical.py\<close>; \<open>Idempotency_Keys\<close> is key and
  correlation-id normalisation; \<open>Contract_Types\<close> and \<open>Persistence_Models\<close> are the literal types,
  errors and records; \<open>Workflow_Rules\<close> is \<open>workflow_rules.py\<close> and the validations on it.
  \<open>Interfaces\<close> holds the contracts as locales: a keyed store, an append-only log, a claim registry
  and a guarded system.  \<open>Repository\<close>, \<open>Repository_Operations\<close>, \<open>Repository_Memos\<close> and
  \<open>Repository_Ideas\<close> are the four parts of the in-memory repository and interpret the
  contracts; \<open>Proposal_Queries\<close> is its query module.  \<open>Replay\<close> and \<open>Projections\<close> are
  \<open>idempotency.py\<close> and \<open>projections.py\<close>.  \<open>Lifecycle\<close>, \<open>Versions\<close>, \<open>Execution\<close>,
  \<open>Execution_Updates\<close> and \<open>Narrative_Reports\<close> are the commands; \<open>Async_Operations\<close>,
  \<open>Async_Commands\<close> and \<open>Async_Control\<close> the asynchronous operations; \<open>Idea_Realizations\<close> the
  intake and reconciliation of ideas.  \<open>Proposal_Log\<close> states what a sound log is,
  \<open>Proposal_System\<close> lets commands interleave and proves the invariant, \<open>Command_Retries\<close> the
  replay of keys; \<open>Fixtures\<close> holds the concrete runs the witnesses use.  This theory,
  \<open>Component_Properties\<close> and \<open>Data_Properties\<close> state the properties.

  Theories of the simulation.  \<open>Decimals\<close> is Python's decimal arithmetic at 28 digits,
  rounding half to even, on rationals; \<open>Engine_Models\<close> the snapshots, options, intents and results; \<open>Valuation\<close>, \<open>Simulation_Shared\<close>, \<open>Auto_Funding\<close>, \<open>Intent_Plan\<close>,
  \<open>Compliance_Rules\<close>, \<open>Suitability\<close>, \<open>Workflow_Gates\<close>, \<open>Drift_Analytics\<close> and \<open>Advisory_Engine\<close> the
  modules of the same names.  \<open>Plan_Execution\<close>, \<open>Plan_Outcome\<close> and \<open>Run_Facts\<close> prove what a plan
  does and what a run reports; \<open>Engine_Evaluation\<close> and \<open>Engine_Fixtures\<close> evaluate concrete runs;
  \<open>Engine_Properties\<close> and \<open>Report_Properties\<close> state the properties.

  Theories of the policy packs.  \<open>Policy_Catalog\<close> is the catalog of versions and its log,
  \<open>Catalog_Facts\<close> its invariant, reachable catalogs and snapshots, \<open>Policy_Reference_Packs\<close> the packs
  it starts with, \<open>Dictionaries\<close> the lemmas on dictionaries of logs.  \<open>Source_Readiness\<close> is the source
  manifest (\<open>core/proposals/policy_source_readiness*.py\<close>), \<open>Policy_Evaluation\<close> applicability and product
  rows, \<open>Policy_Rules\<close> the rules and the status of a pack, \<open>Policy_Rule_Facts\<close> when it is READY.
  \<open>Policy_Records\<close> are receipt identities, records, events and their authority; \<open>Policy_Store\<close> the
  stored state and the replay of keys with its legacy forms; \<open>Policy_Ledger\<close> the commands, queries,
  replay comparison and snapshots of the store; \<open>Policy_Workflow\<close> and \<open>Policy_Sign_Off\<close> the workflow
  projection and the sign-off decision; \<open>Policy_Services\<close> report packages; \<open>Policy_AI\<close> AI evidence and
  diagnostics; \<open>Policy_Durable\<close> the repositories over stored snapshots, with a locale for what a
  snapshot format owes them.  \<open>Ledger_Facts\<close> states the invariant of the store, \<open>Ledger_Commands\<close> and
  \<open>Sign_Off_Facts\<close> prove it for each command and link it to the workflow, \<open>Policy_System\<close> is the step
  relation of catalog and store, \<open>Policy_History\<close> what every sequence of steps keeps,
  \<open>Policy_Guarantees\<close> further facts the properties use.  \<open>Policy_Fixtures\<close> holds a concrete run;
  \<open>Policy_Properties\<close> states the properties.

  Theories of the workspaces.  \<open>Context_Resolution\<close> holds the request models of the proposal API, the
  source provenance and completeness models, and the resolution of a request, its evidence, override
  and hashes.  \<open>Workspace_Versions\<close> is the data of a workspace:
  drafts and draft actions, sessions, replay evidence, saved versions and their comparison.
  \<open>Workspace_Sessions\<close> is the screen for sensitive details, the session cache and the operations of
  \<open>WorkspaceApplicationService\<close>; \<open>Workspace_Handoff\<close> the handoff, whose lifecycle port is the create
  and version commands of \<open>Versions\<close> on the repository of \<open>Repository\<close>.  \<open>Workspace_Facts\<close> reads a
  draft as keyed lists and the cache as the last sessions saved; \<open>Workspace_System\<close> lets the commands
  of both services run in any order and proves the invariant that ties sessions, saved versions and
  proposals; \<open>Workspace_Guarantees\<close> says what runs keep and what a handoff sends, creates and refuses;
  \<open>Workspace_Properties\<close> holds a concrete run and states the properties.

  How state and operations correspond.  The repository object is the record
  \<open>repository\<close>, with one field per dictionary of the class; a method is a function of the
  same name that takes and returns it.  The policy catalog and the evaluation store are the records
  \<open>policy_catalog\<close> and \<open>policy_store\<close> in the same way.  A raise is \<open>Inl\<close> of the \<open>error\<close> datatype, whose
  constructors are the exception classes (\<open>workspace_error\<close> for those of the workspaces).
  A command is a \<open>prepare\<close> half that reads one snapshot and a \<open>commit\<close> half that writes; run together they are the Python function, run
  apart they are two threads around the repository lock.  Generated identifiers and the clock
  are arguments, one for each reading; timestamps are microseconds.

  Lemmas.  The interface locales give lookup-after-update, log growth, first-claim-wins and
  invariant-after-run laws; the component theories give each command's outcome on every branch;
  the system theories derive that every reachable state is sound: logs are chains of legal
  events, versions and approvals match them, keys lead to stored referents, a signed-off evaluation
  is backed by its log.  The engine lemmas follow the cash and the holdings through the plan and
  read the status of a run back to the rules that passed.

  Bounds and fuel.  The attempt loop is a \<open>partial_function\<close>; its theorem proves it returns, because
  each round but the last raises the attempt count below its limit.  Following cursors uses fuel
  equal to the number of proposals plus one; its theorem proves that is enough.  The recovery batch and
  the control listing are limited to 50 rows, as in the code.

  Approximations.  A command reads one snapshot, where Python may read several between other
  threads' writes.  New proposal ids are fresh when they are written (\<open>fresh_write\<close>), and the cut
  digest that names a new evaluation is not that of a stored one (the premise of \<open>finalized\<close> in
  \<open>policy_step\<close>).  Context resolution, request hashing, artifact building and request parsing are
  arguments (\<open>creation_services\<close>, \<open>async_services\<close>), with no law assumed; so are dates and time
  zones (\<open>calendar\<close>) and the reporting and AI services.  Decimals are exact rationals rounded to 28
  digits after every operation; exponents and signed zeros are not represented.  Engine options and
  diagnostics that no code reads are left out.  Of the policy records and of JSON contents,
  Pydantic's dump and its validation of that dump are taken as inverse; for a resolved context and
  its provenance it is proved (\<open>resolved_context_roundtrip\<close>).  Workspace operations run one at a time on the cache, whose \<open>get\<close>
  returns the stored session itself: what an operation assigned before it failed stays
  (\<open>write_through\<close>).  In a workspace the portfolio service, the advisory evaluation and Pydantic's
  lax coercion of numbers and truth values are arguments (\<open>workspace_services\<close>), which may answer
  differently at every command of a run; the text of the portfolio value delta comes with the
  result.  The creation services of a handoff stay arguments;
  that they resolve as \<open>Context_Resolution\<close> does is not assumed, the property on what a handoff sends
  is about those functions.

  Not modelled.  \<open>core/target_generation.py\<close>, which nothing imports; proposal alternatives; the AI
  copilot, the workspace assistant and the cockpit read model; memo and narrative rendering; replay
  evidence views, also of saved workspace versions, and record lifecycle views; the
  HTTP layer, SQL adapters, upstream clients and scripts, which are
  input and output around the modelled services.
\<close>

section \<open>The proposal workflow as a concurrent system\<close>

text \<open>
  C1.  In every reachable state, whatever the interleaving of requests, a proposal's event log
  is one chain of legal events: it starts with its creation, each event leaves the state the
  previous one entered, and the stored aggregate is in the state the last event entered.  An
  unknown proposal has no events.
\<close>

theorem reachable_logs_are_chains:
  assumes "reachable rt sv S"
  shows "chained None (list_events pid (sy_repository S))
           (map_option pr_current_state (get_proposal pid (sy_repository S)))"
  using reachable_ok [OF assms] by (simp add: system_ok_def repository_ok_def logs_ok_def)

theorem reachable_logs_are_chains_witness:
  "chained None (list_events ''p'' (sy_repository demo_system))
     (map_option pr_current_state (get_proposal ''p'' (sy_repository demo_system)))
   \<and> length (list_events ''p'' (sy_repository demo_system)) = 5"
  using reachable_logs_are_chains [OF demo_reachable, of "''p''"] demo_events
  by (simp add: length_map [of ev_event_type, symmetric] del: length_map)

text \<open>
  C2.  Nothing moves toward execution without a recorded client consent: in a reachable log,
  an event that enters \<open>EXECUTION_READY\<close> or \<open>EXECUTED\<close>, or requests execution, is a
  \<open>CLIENT_CONSENT_RECORDED\<close> event or comes after one.
\<close>

theorem execution_needs_recorded_consent:
  assumes "reachable rt sv S" and "i < length (list_events pid (sy_repository S))"
    and "toward_execution (list_events pid (sy_repository S) ! i)"
  shows "\<exists>j\<le>i. ev_event_type (list_events pid (sy_repository S) ! j) = EV_CLIENT_CONSENT_RECORDED"
proof -
  have "consent_first (list_events pid (sy_repository S))"
    using reachable_ok [OF assms(1)] by (simp add: system_ok_def repository_ok_def logs_ok_def)
  with assms(2,3) obtain x where "x \<in> set (take (Suc i) (list_events pid (sy_repository S)))"
    and "is_consent x" by (auto simp: consent_first_def)
  then show ?thesis by (auto simp: in_set_conv_nth is_consent_def less_Suc_eq_le)
qed

lemma demo_last_event:
  "4 < length (list_events ''p'' (sy_repository demo_system))
   \<and> toward_execution (list_events ''p'' (sy_repository demo_system) ! 4)"
  by code_simp

theorem execution_needs_recorded_consent_witness:
  "\<exists>j\<le>4. ev_event_type (list_events ''p'' (sy_repository demo_system) ! j) = EV_CLIENT_CONSENT_RECORDED"
  using execution_needs_recorded_consent [OF demo_reachable, of 4 "''p''"] demo_last_event by simp

text \<open>
  C3.  Terminal states absorb: once a reachable log enters \<open>EXECUTED\<close>, \<open>REJECTED\<close>, \<open>CANCELLED\<close> or
  \<open>EXPIRED\<close>, every later event stays in that state and is a report request or a narrative
  review.
\<close>

theorem terminal_states_absorb:
  assumes "reachable rt sv S" and "i < j" and "j < length (list_events pid (sy_repository S))"
    and "ev_to_state (list_events pid (sy_repository S) ! i) \<in> set terminal_states"
  shows "ev_to_state (list_events pid (sy_repository S) ! j)
           = ev_to_state (list_events pid (sy_repository S) ! i)
     \<and> ev_event_type (list_events pid (sy_repository S) ! j)
           \<in> {EV_REPORT_REQUESTED, EV_NARRATIVE_REVIEWED}"
proof -
  have "chained None (list_events pid (sy_repository S))
      (map_option pr_current_state (get_proposal pid (sy_repository S)))"
    using reachable_ok [OF assms(1)] by (simp add: system_ok_def repository_ok_def logs_ok_def)
  from chained_terminal_absorbs [OF this assms(2,3,4)] show ?thesis
    by (simp add: annotation_event_types_def)
qed

theorem terminal_states_absorb_witness:
  "ev_event_type (list_events ''p'' (sy_repository demo_reported) ! 2)
     \<in> {EV_REPORT_REQUESTED, EV_NARRATIVE_REVIEWED}"
  using terminal_states_absorb [OF demo_reported_reachable, of 1 2 "''p''"] demo_reported_events
  by simp

text \<open>
  C17.  History is append-only: along any enabled schedule from a reachable state no proposal
  disappears, its creation attributes (portfolio, mandate, creator, origin, \<dots>) never change,
  its version number never falls, and its event and approval logs are only extended.
\<close>

theorem history_only_grows:
  assumes "reachable rt sv S" and "schedule_enabled rt sv as S"
    and "get_proposal pid (sy_repository S) = Some p"
  shows "\<exists>p' es aps. get_proposal pid (sy_repository (run_actions rt sv as S)) = Some p'
     \<and> same_identity p p' \<and> pr_current_version_no p \<le> pr_current_version_no p'
     \<and> list_events pid (sy_repository (run_actions rt sv as S)) = list_events pid (sy_repository S) @ es
     \<and> list_approvals pid (sy_repository (run_actions rt sv as S))
          = list_approvals pid (sy_repository S) @ aps"
proof -
  note ext = run_actions_extends [OF reachable_ok [OF assms(1)] assms(2)]
  from extends_proposal [OF ext assms(3)] extends_events [OF ext, of pid]
    extends_approvals [OF ext, of pid]
  show ?thesis by blast
qed

theorem history_only_grows_witness:
  "\<exists>es. list_events ''p'' (sy_repository demo_system)
          = list_events ''p'' (sy_repository demo_created) @ es"
proof -
  obtain p where "get_proposal ''p'' (sy_repository demo_created) = Some p"
    using demo_created_known by auto
  from history_only_grows [OF demo_created_reachable demo_rest_enabled this] demo_split
  show ?thesis by auto
qed

text \<open>
  C18.  Version numbers are gap-free: in a reachable state the current version number of a
  proposal is one more than the number of \<open>NEW_VERSION_CREATED\<close> events in its log, and every
  version from 1 to it has an immutable row.
\<close>

theorem versions_match_log:
  assumes "reachable rt sv S" and "get_proposal pid (sy_repository S) = Some p"
  shows "pr_current_version_no p
           = 1 + int (length (new_version_events (list_events pid (sy_repository S))))
     \<and> (\<forall>n. 1 \<le> n \<and> n \<le> pr_current_version_no p \<longrightarrow> get_version pid n (sy_repository S) \<noteq> None)"
  using reachable_ok [OF assms(1)] assms(2)
  by (auto simp: system_ok_def repository_ok_def versions_ok_def)

theorem versions_match_log_witness:
  "\<exists>p. get_proposal ''p'' (sy_repository demo_created) = Some p
     \<and> pr_current_version_no p
         = 1 + int (length (new_version_events (list_events ''p'' (sy_repository demo_created))))"
  using demo_created_known versions_match_log [OF demo_created_reachable, of "''p''"] by auto

text \<open>
  C21.  No approval without its event: each approval row of a reachable state is backed by an
  event of the same log that the approval rules produce from that approval's type and outcome,
  with the same metadata.
\<close>

theorem approvals_are_backed:
  assumes "reachable rt sv S" and "a \<in> set (list_approvals pid (sy_repository S))"
  shows "\<exists>e\<in>set (list_events pid (sy_repository S)). backs e a"
  using reachable_ok [OF assms(1)] assms(2)
  by (auto simp: system_ok_def repository_ok_def approvals_ok_def)

theorem approvals_are_backed_witness:
  "\<exists>e\<in>set (list_events ''p'' (sy_repository demo_approved)).
      backs e (hd (list_approvals ''p'' (sy_repository demo_approved)))"
  using approvals_are_backed [OF demo_approved_reachable, of _ "''p''"] demo_approved_row
  by (metis list.set_sel(1))

section \<open>Concurrency control and idempotent commands\<close>

text \<open>
  C22.  Optimistic concurrency: a transition prepared on one repository and committed on another
  succeeds exactly when the stored proposal still has the state and version the decision was
  based on; otherwise it reports a state conflict and writes nothing.
\<close>

theorem commit_is_compare_and_set:
  assumes "prepare_transition rt pid q key req occ eid R = Inr (Inr (p', e))"
    and "proposals_keyed R" and "get_proposal pid R = Some p" and "get_proposal pid R' = Some c"
  shows "commit_transition rt pid (p', e) R' =
     (if pr_current_state c = pr_current_state p \<and> pr_current_version_no c = pr_current_version_no p
      then (Inr (build_state_transition_response rt pid (pr_current_state p') e),
            write_transition p' e None R')
      else (Inl (StateConflictError
              ''STATE_CONFLICT: proposal aggregate changed during transition''), R'))"
proof -
  obtain p0 where "get_proposal pid R = Some p0" "follows p0 p' e"
    "pr_current_version_no p' = pr_current_version_no p0"
    using assms(1) by (rule prepare_transition_write)
  with assms(2,3) have "ev_from_state e = Some (pr_current_state p)"
    "pr_current_version_no p' = pr_current_version_no p" "pr_proposal_id p' = pid"
    by (auto simp: follows_def same_identity_def proposals_keyed_def)
  with assms(4) show ?thesis by (auto simp: commit_transition_eq cas_matches_Some)
qed

lemma demo_stale_plan:
  "prepare_transition demo_runtime ''p'' (demo_transition EV_SUBMITTED_FOR_RISK_REVIEW) None False 2 ''e1''
     (sy_repository demo_created) \<in> range (\<lambda>w. Inr (Inr w))
   \<and> proposals_keyed (sy_repository demo_created)
   \<and> get_proposal ''p'' (sy_repository demo_reported) \<noteq> None
   \<and> map_option pr_current_state (get_proposal ''p'' (sy_repository demo_created)) = Some WS_DRAFT
   \<and> map_option pr_current_state (get_proposal ''p'' (sy_repository demo_reported)) = Some WS_CANCELLED"
proof -
  have "planned (prepare_transition demo_runtime ''p'' (demo_transition EV_SUBMITTED_FOR_RISK_REVIEW)
      None False 2 ''e1'' (sy_repository demo_created)) \<noteq> None" by code_simp
  then have "prepare_transition demo_runtime ''p'' (demo_transition EV_SUBMITTED_FOR_RISK_REVIEW)
      None False 2 ''e1'' (sy_repository demo_created) \<in> range (\<lambda>w. Inr (Inr w))"
    by (auto dest: planned_SomeD)
  moreover have "proposals_keyed (sy_repository demo_created)"
    using reachable_ok [OF demo_created_reachable] by (simp add: system_ok_def repository_ok_def)
  moreover have "get_proposal ''p'' (sy_repository demo_reported) \<noteq> None" by code_simp
  moreover have "map_option pr_current_state (get_proposal ''p'' (sy_repository demo_created))
      = Some WS_DRAFT" by code_simp
  moreover have "map_option pr_current_state (get_proposal ''p'' (sy_repository demo_reported))
      = Some WS_CANCELLED" by code_simp
  ultimately show ?thesis by blast
qed

theorem commit_is_compare_and_set_witness:
  "\<exists>w. prepare_transition demo_runtime ''p'' (demo_transition EV_SUBMITTED_FOR_RISK_REVIEW) None
         False 2 ''e1'' (sy_repository demo_created) = Inr (Inr w)
     \<and> snd (commit_transition demo_runtime ''p'' w (sy_repository demo_reported))
         = sy_repository demo_reported"
proof -
  obtain p' e p c where
    w: "prepare_transition demo_runtime ''p'' (demo_transition EV_SUBMITTED_FOR_RISK_REVIEW) None
         False 2 ''e1'' (sy_repository demo_created) = Inr (Inr (p', e))"
    and p: "get_proposal ''p'' (sy_repository demo_created) = Some p" "pr_current_state p = WS_DRAFT"
    and c: "get_proposal ''p'' (sy_repository demo_reported) = Some c"
      "pr_current_state c = WS_CANCELLED"
    and k: "proposals_keyed (sy_repository demo_created)"
    using demo_stale_plan by (auto simp: image_iff)
  from commit_is_compare_and_set [OF w k p(1) c(1)] p(2) c(2) w show ?thesis by auto
qed

text \<open>
  C23.  A repeated transition answers as the first time: after a transition under an idempotency
  key succeeded, sending it again (at any later time) returns the same response and writes
  nothing, in every repository whose log has since grown by events of other requests.
\<close>

theorem transition_retry_replays:
  assumes "proposals_keyed R" and "normalize_optional_idempotency_key k = Some key"
    and "transition_proposal_state rt pid q k req occ eid R = (Inr r, R')"
    and "list_events pid T = list_events pid R' @ later" and "no_later_key key later"
    and "get_proposal pid T \<noteq> None"
  shows "transition_proposal_state rt pid q k req2 occ2 eid2 T = (Inr r, T)"
proof -
  obtain e where
    "command_replayed_event R' pid (Some key) (build_state_transition_request_hash rt q) = Inr (Some e)"
    and r: "r = build_state_transition_replay_response rt pid e"
    using assms(1-3) by (rule transition_success_recorded)
  then have "command_replayed_event T pid (Some key) (build_state_transition_request_hash rt q)
      = Inr (Some e)"
    using replayed_event_later [OF assms(4,5)] by simp
  from transition_replays [OF assms(2,6) this] show ?thesis unfolding r .
qed

theorem transition_retry_replays_witness:
  "\<exists>r R'. transition_proposal_state demo_runtime ''p'' (demo_transition EV_CANCELLED) (Some ''k1'')
            False 2 ''e1'' (sy_repository demo_created) = (Inr r, R')
     \<and> transition_proposal_state demo_runtime ''p'' (demo_transition EV_CANCELLED) (Some ''k1'')
            False 9 ''e9'' R' = (Inr r, R')"
proof -
  have key: "normalize_optional_idempotency_key (Some ''k1'') = Some ''k1''" by code_simp
  have ok: "\<not> isl (fst (transition_proposal_state demo_runtime ''p'' (demo_transition EV_CANCELLED)
      (Some ''k1'') False 2 ''e1'' (sy_repository demo_created)))" by code_simp
  obtain r R' where run: "transition_proposal_state demo_runtime ''p'' (demo_transition EV_CANCELLED)
      (Some ''k1'') False 2 ''e1'' (sy_repository demo_created) = (Inr r, R')"
    using ok by (metis isl_def prod.collapse sum.exhaust)
  have "get_proposal ''p'' (snd (transition_proposal_state demo_runtime ''p''
      (demo_transition EV_CANCELLED) (Some ''k1'') False 2 ''e1'' (sy_repository demo_created))) \<noteq> None"
    by code_simp
  with run have there: "get_proposal ''p'' R' \<noteq> None" by simp
  have k: "proposals_keyed (sy_repository demo_created)"
    using reachable_ok [OF demo_created_reachable] by (simp add: system_ok_def repository_ok_def)
  have "transition_proposal_state demo_runtime ''p'' (demo_transition EV_CANCELLED) (Some ''k1'')
      False 9 ''e9'' R' = (Inr r, R')"
    by (rule transition_retry_replays [OF k key run _ _ there, of "[]"])
      (simp_all add: no_later_key_def)
  with run show ?thesis by blast
qed

text \<open>
  C24.  A key is bound to its payload: after a transition under a key was written, a different
  payload (by request hash) under the same key is refused with an idempotency conflict and
  writes nothing.
\<close>

theorem transition_key_conflict:
  assumes "proposals_keyed R" and "normalize_optional_idempotency_key k = Some key"
    and "transition_proposal_state rt pid q k req occ eid R = (Inr r, R')" and "R' \<noteq> R"
    and "build_state_transition_request_hash rt q2 \<noteq> build_state_transition_request_hash rt q"
  shows "transition_proposal_state rt pid q2 k req2 occ2 eid2 R' =
     (Inl (IdempotencyConflictError ''IDEMPOTENCY_KEY_CONFLICT: request hash mismatch''), R')"
proof -
  obtain e where
    e: "command_replayed_event R' pid (Some key) (build_state_transition_request_hash rt q) = Inr (Some e)"
    and there: "get_proposal pid R' \<noteq> None"
    and h: "json_get (ev_reason_json e) ''idempotency_request_hash''
        = JStr (build_state_transition_request_hash rt q)"
    using assms(4) by (metis transition_success_recorded [OF assms(1-3)])
  from replayed_event_hash_conflict [OF e h] assms(5)
  have "command_replayed_event R' pid (Some key) (build_state_transition_request_hash rt q2) =
     Inl (IdempotencyConflictError ''IDEMPOTENCY_KEY_CONFLICT: request hash mismatch'')"
    by metis
  from transition_conflicts [OF assms(2) there this] show ?thesis .
qed

theorem transition_key_conflict_witness:
  "\<exists>R'. transition_proposal_state demo_runtime ''p'' (demo_transition EV_SUBMITTED_FOR_RISK_REVIEW)
            (Some ''k1'') False 9 ''e9'' R' =
       (Inl (IdempotencyConflictError ''IDEMPOTENCY_KEY_CONFLICT: request hash mismatch''), R')"
proof -
  let ?first = "transition_proposal_state demo_runtime ''p'' (demo_transition EV_CANCELLED)
      (Some ''k1'') False 2 ''e1'' (sy_repository demo_created)"
  have key: "normalize_optional_idempotency_key (Some ''k1'') = Some ''k1''" by code_simp
  have ok: "\<not> isl (fst ?first)" by code_simp
  obtain r R' where run: "?first = (Inr r, R')"
    using ok by (metis isl_def prod.collapse sum.exhaust)
  have "length (list_events ''p'' (snd ?first)) \<noteq> length (list_events ''p'' (sy_repository demo_created))"
    by code_simp
  with run have moved: "R' \<noteq> sy_repository demo_created" by auto
  have hash: "build_state_transition_request_hash demo_runtime (demo_transition EV_SUBMITTED_FOR_RISK_REVIEW)
      \<noteq> build_state_transition_request_hash demo_runtime (demo_transition EV_CANCELLED)"
    by code_simp
  have k: "proposals_keyed (sy_repository demo_created)"
    using reachable_ok [OF demo_created_reachable] by (simp add: system_ok_def repository_ok_def)
  from transition_key_conflict [OF k key run moved hash] show ?thesis by blast
qed

text \<open>
  A repeated approval answers as the first time, with the approval it recorded then, and
  writes nothing, however the two logs have grown by other requests.
\<close>

theorem approval_retry_replays:
  assumes "proposals_keyed R" and "normalize_optional_idempotency_key k = Some key"
    and "record_proposal_approval rt pid q k req occ aid eid R = (Inr r, R')"
    and "list_events pid T = list_events pid R' @ later" and "no_later_key key later"
    and "list_approvals pid T = list_approvals pid R' @ later_rows" and "no_later_approval_key key later_rows"
    and "get_proposal pid T \<noteq> None"
  shows "record_proposal_approval rt pid q k req2 occ2 aid2 eid2 T = (Inr r, T)"
proof -
  let ?h = "build_approval_request_hash rt q"
  obtain a e where "command_replayed_approval R' pid (Some key) ?h = Inr (Some a)"
    and "command_replayed_event R' pid (Some key) ?h = Inr (Some e)"
    and r: "r = build_approval_transition_response rt pid (ev_to_state e) e (Some a)"
    using assms(1-3) by (rule approval_success_recorded)
  then have "command_replayed_approval T pid (Some key) ?h = Inr (Some a)"
    and "command_replayed_event T pid (Some key) ?h = Inr (Some e)"
    using replayed_event_later [OF assms(4,5)] replayed_approval_later [OF assms(6,7)] by simp_all
  from approval_replays [OF assms(2,8) this] show ?thesis unfolding r .
qed

theorem approval_retry_replays_witness:
  "\<exists>r R'. record_proposal_approval demo_runtime ''p'' demo_approval (Some ''ka'') False 3 ''a1'' ''e2''
            (sy_repository demo_submitted) = (Inr r, R')
     \<and> record_proposal_approval demo_runtime ''p'' demo_approval (Some ''ka'') False 9 ''a9'' ''e9'' R'
         = (Inr r, R')"
proof -
  let ?first = "record_proposal_approval demo_runtime ''p'' demo_approval (Some ''ka'') False 3 ''a1''
      ''e2'' (sy_repository demo_submitted)"
  have key: "normalize_optional_idempotency_key (Some ''ka'') = Some ''ka''" by code_simp
  have ok: "\<not> isl (fst ?first)" by code_simp
  obtain r R' where run: "?first = (Inr r, R')"
    using ok by (metis isl_def prod.collapse sum.exhaust)
  have "get_proposal ''p'' (snd ?first) \<noteq> None" by code_simp
  with run have there: "get_proposal ''p'' R' \<noteq> None" by simp
  have k: "proposals_keyed (sy_repository demo_submitted)"
    using reachable_ok [OF demo_submitted_reachable] by (simp add: system_ok_def repository_ok_def)
  have "record_proposal_approval demo_runtime ''p'' demo_approval (Some ''ka'') False 9 ''a9'' ''e9'' R'
      = (Inr r, R')"
    by (rule approval_retry_replays [OF k key run _ _ _ _ there, of "[]" "[]"])
      (simp_all add: no_later_key_def no_later_approval_key_def)
  with run show ?thesis by blast
qed

text \<open>
  A repeated create answers as the first time and writes nothing, whatever ids, instant
  and correlation id the retry would have used.
\<close>

theorem create_retry_replays:
  assumes "repository_ok R" and "get_proposal (ni_proposal_id ids) R = None"
    and "create_proposal_command rt sv q k cid opts now ids R = (Inr r, R')"
  shows "create_proposal_command rt sv q k cid2 opts now2 ids2 R' = (Inr r, R')"
  using assms(3)
proof (cases rule: create_command_cases)
  case (refused e)
  then show ?thesis by simp
next
  case (replayed r')
  then have prep: "prepare_create rt sv q k cid opts now ids R = Inr (Inl r)" and "R' = R" by auto
  then show ?thesis
    by (auto simp: prepare_create_def create_proposal_command_def Let_def
        split: sum.splits option.splits if_splits)
next
  case (written c v)
  from written(3) obtain key where key: "normalize_optional_idempotency_key (Some k) = Some key"
    and c: "pr_proposal_id (cc_proposal c) = ni_proposal_id ids"
      "cc_created_event c = build_proposal_created_event (ni_event_id ids) (ni_proposal_id ids)
           (cq_created_by q) now 1 cid"
      "cc_idempotency_record c = build_proposal_idempotency_record key
           (cs_idempotency_hash sv q) (ni_proposal_id ids) 1 now"
      "pv_proposal_id v = ni_proposal_id ids" "pv_version_no v = 1"
    by (rule prepare_create_write)
  have "chained None (list_events (ni_proposal_id ids) R) None"
    using assms(1,2) by (auto simp: repository_ok_def logs_ok_def dest!: spec [of _ "ni_proposal_id ids"])
  then have nil: "list_events (ni_proposal_id ids) R = []" by (metis chained_end option.distinct(1))
  have origin: "validate_lifecycle_origin (co_lifecycle_origin opts) (co_source_workspace_id opts) = Inr ()"
    using written(3) by (auto simp: prepare_create_def split: sum.splits)
  have "create_proposal_command rt sv q k cid2 opts now2 ids2 R' = (Inr (to_create_response rt
      (cc_proposal c) v (last (list_events (ni_proposal_id ids) R'))), R')"
    using create_replays [OF key origin, of R' "cc_idempotency_record c" sv q "cc_proposal c" v rt
        cid2 now2 ids2] c nil
    by (simp add: written(1) build_proposal_created_event_def build_proposal_idempotency_record_def)
  moreover have "last (list_events (ni_proposal_id ids) R') = cc_created_event c"
    using c nil by (simp add: written(1) build_proposal_created_event_def)
  ultimately show ?thesis using written(2) by simp
qed

theorem create_retry_replays_witness:
  "\<exists>r R'. create_proposal_command demo_runtime demo_services demo_create_request ''k'' None
            demo_create_options 1 demo_ids empty_repository = (Inr r, R')
     \<and> create_proposal_command demo_runtime demo_services demo_create_request ''k'' (Some ''c'')
            demo_create_options 7 demo_ids R' = (Inr r, R')"
proof -
  let ?first = "create_proposal_command demo_runtime demo_services demo_create_request ''k'' None
      demo_create_options 1 demo_ids empty_repository"
  have ok: "\<not> isl (fst ?first)" by code_simp
  obtain r R' where run: "?first = (Inr r, R')"
    using ok by (metis isl_def prod.collapse sum.exhaust)
  have R: "repository_ok empty_repository"
    using system_ok_initial by (simp add: system_ok_def initial_system_def)
  have "get_proposal (ni_proposal_id demo_ids) empty_repository = None" by code_simp
  from create_retry_replays [OF R this run] run show ?thesis by blast
qed

text \<open>
  A held create key is always answered: in every reachable state, a create under a stored
  key with the stored request hash finds the proposal, the version and the log it must answer
  from, and returns them without writing; the missing-referent error cannot occur.
\<close>

theorem held_create_key_is_answered:
  assumes "reachable rt0 sv0 S" and "get_idempotency key (sy_repository S) = Some i"
    and "normalize_optional_idempotency_key (Some k) = Some key"
    and "pi_request_hash i = cs_idempotency_hash sv q"
    and "validate_lifecycle_origin (co_lifecycle_origin opts) (co_source_workspace_id opts) = Inr ()"
  shows "\<exists>p v. get_proposal (pi_proposal_id i) (sy_repository S) = Some p
     \<and> get_version (pi_proposal_id i) (pi_proposal_version_no i) (sy_repository S) = Some v
     \<and> create_proposal_command rt sv q k cid opts now ids (sy_repository S) =
         (Inr (to_create_response rt p v (last (list_events (pi_proposal_id i) (sy_repository S)))),
          sy_repository S)"
proof -
  have "repository_ok (sy_repository S)"
    using reachable_ok [OF assms(1)] by (simp add: system_ok_def)
  then obtain p v where "get_proposal (pi_proposal_id i) (sy_repository S) = Some p"
    "get_version (pi_proposal_id i) (pi_proposal_version_no i) (sy_repository S) = Some v"
    "list_events (pi_proposal_id i) (sy_repository S) \<noteq> []"
    using assms(2) by (rule repository_ok_referents)
  with create_replays [OF assms(3,5,2,4)] show ?thesis by blast
qed

theorem held_create_key_is_answered_witness:
  "\<exists>r. create_proposal_command demo_runtime demo_services demo_create_request ''k'' None
          demo_create_options 9 demo_ids (sy_repository demo_system)
        = (Inr r, sy_repository demo_system)"
proof -
  have "map_option pi_request_hash (get_idempotency ''k'' (sy_repository demo_system)) = Some ''adv''"
    by code_simp
  then obtain i where i: "get_idempotency ''k'' (sy_repository demo_system) = Some i"
    "pi_request_hash i = ''adv''" by auto
  have key: "normalize_optional_idempotency_key (Some ''k'') = Some ''k''" by code_simp
  have hash: "pi_request_hash i = cs_idempotency_hash demo_services demo_create_request"
    using i(2) by (simp add: demo_services_def demo_create_request_def)
  have "validate_lifecycle_origin (co_lifecycle_origin demo_create_options)
      (co_source_workspace_id demo_create_options) = Inr ()" by code_simp
  from held_create_key_is_answered [OF demo_reachable i(1) key hash this] show ?thesis by blast
qed

text \<open>
  A repeated execution handoff does not request execution twice: it writes nothing and
  answers with the execution request id, provider and event of the first handoff.
\<close>

theorem handoff_retry_replays:
  assumes "proposals_keyed R" and "normalize_optional_idempotency_key k = Some key"
    and "request_proposal_execution_handoff rt pid q k req occ rid eid R = (Inr r, R')" and "R' \<noteq> R"
    and "list_events pid T = list_events pid R' @ later" and "no_later_key key later"
    and "get_proposal pid T = Some p"
  shows "\<exists>r2. request_proposal_execution_handoff rt pid q k req2 occ2 rid2 eid2 T = (Inr r2, T)
     \<and> hr_execution_request_id r2 = hr_execution_request_id r
     \<and> hr_execution_provider r2 = hr_execution_provider r
     \<and> hr_latest_workflow_event r2 = hr_latest_workflow_event r
     \<and> hr_proposal r2 = to_proposal_summary rt p"
proof -
  obtain e p' where
    "command_replayed_event R' pid (Some key) (build_execution_handoff_request_hash rt q) = Inr (Some e)"
    and r: "r = build_execution_handoff_replay_response rt p' e"
    using handoff_success_recorded [OF assms(1-4)] by metis
  then have "command_replayed_event T pid (Some key) (build_execution_handoff_request_hash rt q)
      = Inr (Some e)"
    using replayed_event_later [OF assms(5,6)] by simp
  from handoff_replays [OF assms(2,7) this] show ?thesis
    by (simp add: r build_execution_handoff_replay_response_def Let_def)
qed

theorem handoff_retry_replays_witness:
  "\<exists>r R' r2. request_proposal_execution_handoff demo_runtime ''p'' demo_handoff (Some ''kh'') False 5
            ''x1'' ''e4'' (sy_repository demo_ready) = (Inr r, R')
     \<and> request_proposal_execution_handoff demo_runtime ''p'' demo_handoff (Some ''kh'') False 9
            ''x9'' ''e9'' R' = (Inr r2, R')
     \<and> hr_execution_request_id r2 = hr_execution_request_id r"
proof -
  let ?first = "request_proposal_execution_handoff demo_runtime ''p'' demo_handoff (Some ''kh'') False 5
      ''x1'' ''e4'' (sy_repository demo_ready)"
  have key: "normalize_optional_idempotency_key (Some ''kh'') = Some ''kh''" by code_simp
  have ok: "\<not> isl (fst ?first)" by code_simp
  obtain r R' where run: "?first = (Inr r, R')"
    using ok by (metis isl_def prod.collapse sum.exhaust)
  have "length (list_events ''p'' (snd ?first)) \<noteq> length (list_events ''p'' (sy_repository demo_ready))"
    by code_simp
  with run have moved: "R' \<noteq> sy_repository demo_ready" by auto
  have "get_proposal ''p'' (snd ?first) \<noteq> None" by code_simp
  with run obtain p where p: "get_proposal ''p'' R' = Some p" by auto
  have k: "proposals_keyed (sy_repository demo_ready)"
    using reachable_ok [OF demo_ready_reachable] by (simp add: system_ok_def repository_ok_def)
  have "\<exists>r2. request_proposal_execution_handoff demo_runtime ''p'' demo_handoff (Some ''kh'') False 9
            ''x9'' ''e9'' R' = (Inr r2, R') \<and> hr_execution_request_id r2 = hr_execution_request_id r"
    using handoff_retry_replays [OF k key run moved, of R' "[]" p False 9 "''x9''" "''e9''"] p
    by (auto simp: no_later_key_def)
  with run show ?thesis by blast
qed

section \<open>The commands' decisions\<close>

text \<open>
  A manual transition without an idempotency key succeeds exactly when the caller's
  expected state is admissible and the state machine has the move; it then appends one event
  and leaves the proposal in the table's target state.  On every refusal nothing is written.
\<close>

theorem transition_outcome:
  assumes "proposals_keyed R" and "get_proposal pid R = Some p"
    and "normalize_optional_idempotency_key k = None"
  shows "case transition_proposal_state rt pid q k req occ eid R of
      (Inr r, R') \<Rightarrow> (tq_expected_state q = None \<and> \<not> req \<or> tq_expected_state q = Some (pr_current_state p))
        \<and> resolve_transition_state (pr_current_state p) (tq_event_type q) = Inr (tp_current_state r)
        \<and> map_option pr_current_state (get_proposal pid R') = Some (tp_current_state r)
        \<and> (\<exists>e. list_events pid R' = list_events pid R @ [e] \<and> ev_event_type e = tq_event_type q)
    | (Inl e, R') \<Rightarrow> R' = R
        \<and> (\<not> (tq_expected_state q = None \<and> \<not> req \<or> tq_expected_state q = Some (pr_current_state p))
           \<or> (\<forall>t. resolve_transition_state (pr_current_state p) (tq_event_type q) \<noteq> Inr t))"
proof -
  let ?run = "transition_proposal_state rt pid q k req occ eid R"
  obtain res R' where run: "?run = (res, R')" by fastforce
  from assms(1) run show ?thesis
  proof (cases rule: transition_command_cases)
    case (refused e)
    have "\<not> ((tq_expected_state q = None \<and> \<not> req \<or> tq_expected_state q = Some (pr_current_state p))
        \<and> resolve_transition_state (pr_current_state p) (tq_event_type q) = Inr t)" for t
    proof
      assume "(tq_expected_state q = None \<and> \<not> req \<or> tq_expected_state q = Some (pr_current_state p))
        \<and> resolve_transition_state (pr_current_state p) (tq_event_type q) = Inr t"
      then have "validate_proposal_expected_state (pr_current_state p) (tq_expected_state q) req = Inr ()"
        and "resolve_proposal_transition_state (pr_current_state p) (tq_event_type q) = Inr t"
        by simp_all
      with refused(3) assms(2,3) show False
        by (simp add: prepare_transition_def Let_def split: prod.splits)
    qed
    with run refused show ?thesis by auto
  next
    case (replayed r)
    then show ?thesis using assms(2,3) by (auto simp: prepare_transition_def Let_def split: sum.splits prod.splits)
  next
    case (written p' e)
    from written(3) obtain p0 where p0: "get_proposal pid R = Some p0" "follows p0 p' e"
      "ev_event_type e = tq_event_type q"
      "resolve_transition_state (pr_current_state p0) (tq_event_type q) = Inr (pr_current_state p')"
      by (auto elim: prepare_transition_write)
    have "validate_proposal_expected_state (pr_current_state p) (tq_expected_state q) req = Inr ()"
      using written(3) assms(2,3) by (auto simp: prepare_transition_def Let_def split: sum.splits)
    moreover have "pr_proposal_id p' = pid" "ev_proposal_id e = pid" "p0 = p"
      using assms(1,2) p0 by (auto simp: proposals_keyed_def follows_def same_identity_def)
    ultimately show ?thesis
      using run written p0 by (auto simp: build_state_transition_response_def)
  qed
qed

theorem transition_outcome_witness:
  "resolve_transition_state WS_DRAFT EV_CANCELLED = Inr WS_CANCELLED
   \<and> (case transition_proposal_state demo_runtime ''p'' (demo_transition EV_CANCELLED) None False 2 ''e1''
         (sy_repository demo_created) of
        (Inr r, R') \<Rightarrow> map_option pr_current_state (get_proposal ''p'' R') = Some (tp_current_state r)
      | (Inl e, R') \<Rightarrow> R' = sy_repository demo_created)"
proof -
  obtain p where p: "get_proposal ''p'' (sy_repository demo_created) = Some p"
    using demo_created_known by blast
  have k: "proposals_keyed (sy_repository demo_created)"
    using reachable_ok [OF demo_created_reachable] by (simp add: system_ok_def repository_ok_def)
  have none: "normalize_optional_idempotency_key None = None" by code_simp
  show ?thesis
    using transition_outcome [OF k p none, where rt = demo_runtime and q = "demo_transition EV_CANCELLED"
        and req = False and occ = 2 and eid = "''e1''"]
    by (auto simp: resolve_transition_state_def split: prod.splits sum.splits)
qed

text \<open>The rank of a state on the review path.\<close>

primrec workflow_rank :: "workflow_state \<Rightarrow> nat" where
  "workflow_rank WS_DRAFT = 0"
| "workflow_rank WS_RISK_REVIEW = 1"
| "workflow_rank WS_COMPLIANCE_REVIEW = 1"
| "workflow_rank WS_AWAITING_CLIENT_CONSENT = 2"
| "workflow_rank WS_EXECUTION_READY = 3"
| "workflow_rank WS_EXECUTED = 4"
| "workflow_rank WS_REJECTED = 4"
| "workflow_rank WS_CANCELLED = 4"
| "workflow_rank WS_EXPIRED = 4"

text \<open>
  The review path only moves forward: a manual transition raises the proposal's rank on
  the path draft, review, awaiting consent, ready, closed, except for the execution request,
  which stays in \<open>EXECUTION_READY\<close>; no transition leaves a terminal state.  Every approval
  outcome is one of these transitions.
\<close>

theorem transitions_move_forward:
  assumes "resolve_transition_state s ev = Inr t
    \<or> (\<exists>ap ok. resolve_approval_transition s ap ok = Inr (ev, t))"
  shows "s \<notin> set terminal_states
    \<and> (workflow_rank s < workflow_rank t
       \<or> ev = EV_EXECUTION_REQUESTED \<and> s = WS_EXECUTION_READY \<and> t = s)"
proof -
  have "resolve_transition_state s ev = Inr t"
    using assms by (auto intro: resolve_approval_is_transition)
  then show ?thesis
    by (cases s) (auto simp: resolve_transition_Inr_iff transition_map_def)
qed

theorem transitions_move_forward_witness:
  "workflow_rank WS_AWAITING_CLIENT_CONSENT < workflow_rank WS_REJECTED"
proof -
  have "resolve_approval_transition WS_AWAITING_CLIENT_CONSENT AP_CLIENT_CONSENT False
      = Inr (EV_REJECTED, WS_REJECTED)" by code_simp
  then show ?thesis
    using transitions_move_forward [of WS_AWAITING_CLIENT_CONSENT EV_REJECTED WS_REJECTED] by blast
qed

end
